(* ===== verification/Prelude.thy ===== *)
theory Prelude
  imports Main "HOL-Library.Word" "HOL-Library.Char_ord" "HOL-Library.Sublist"
begin

text \<open>
  The vocabulary the components share: the exceptions of the Python code as values, the result
  type of a function that may raise, sequencing of such functions, the string operations of the
  Python library that the sources use, and two interfaces of transition systems (an invariant kept
  by every step, and a preorder every step ascends) whose consequences the components reuse.
\<close>

section \<open>Exceptions as values\<close>

text \<open>
  One constructor per exception class of the modelled modules; the string is the message (or the
  \<open>code\<close>) the source raises it with, so that two raises of one function stay apart.
\<close>

datatype error =
    Value_Error string
  | Type_Error string
  | Runtime_Error string
  | Key_Error string
  | Identity_Error string
  | Lock_Order_Error string
  | Lock_Collision_Error string
  | Budget_Exceeded
  | Policy_Unavailable string
  | Ledger_Error string
  | Persistence_Error string
  | Preclaim_Safety_Refusal string
  | Evidence_Changed string
  | Safety_Error string
  | Safety_Inspection_Error string
  | Boundary_Error string
  | Http_Error nat string
  | Index_Error string
  | Auto_Review_Error string
  | Validation_Store_Error string
  | Send_Fence_Error string
  | Key_Admin_Error string
  | Key_Bootstrap_Error string

type_synonym 'a result = "error + 'a"

text \<open>
  Python's class hierarchy, as far as an \<open>except\<close> clause of the sources depends on it:
  \<open>RagCostPolicyError\<close>, \<open>RagIdentityError\<close> and \<open>RagAnswerModelBoundaryError\<close> are \<open>ValueError\<close>s, and
  the inspection error is a \<open>RagProviderSafetyError\<close>.
\<close>

fun is_value_error :: "error \<Rightarrow> bool" where
  "is_value_error (Value_Error _) = True"
| "is_value_error (Identity_Error _) = True"
| "is_value_error Budget_Exceeded = True"
| "is_value_error (Policy_Unavailable _) = True"
| "is_value_error (Boundary_Error _) = True"
| "is_value_error _ = False"

fun is_safety_error :: "error \<Rightarrow> bool" where
  "is_safety_error (Safety_Error _) = True"
| "is_safety_error (Safety_Inspection_Error _) = True"
| "is_safety_error _ = False"

abbreviation returns :: "'a result \<Rightarrow> bool" where
  "returns r \<equiv> \<not> isl r"

definition require :: "bool \<Rightarrow> error \<Rightarrow> unit result" where
  "require b e = (if b then Inr () else Inl e)"

fun then_r :: "'a result \<Rightarrow> ('a \<Rightarrow> 'b result) \<Rightarrow> 'b result" where
  "then_r (Inl e) f = Inl e"
| "then_r (Inr x) f = f x"

lemma require_simps [simp]:
  "require b e = Inr u \<longleftrightarrow> b"
  "require b e = Inl e' \<longleftrightarrow> \<not> b \<and> e' = e"
  by (auto simp: require_def)

lemma then_r_Inr [simp]: "then_r r f = Inr y \<longleftrightarrow> (\<exists>x. r = Inr x \<and> f x = Inr y)"
  by (cases r) auto

lemma then_r_Inl: "then_r r f = Inl e \<longleftrightarrow> r = Inl e \<or> (\<exists>x. r = Inr x \<and> f x = Inl e)"
  by (cases r) auto

lemma returns_iff: "returns r \<longleftrightarrow> (\<exists>x. r = Inr x)"
  by (cases r) auto

text \<open>A loop that runs a check on every element and stops at the first exception.\<close>

fun each_r :: "('a \<Rightarrow> unit result) \<Rightarrow> 'a list \<Rightarrow> unit result" where
  "each_r f [] = Inr ()"
| "each_r f (x # xs) = then_r (f x) (\<lambda>_. each_r f xs)"

lemma each_r_Inr [simp]: "each_r f xs = Inr () \<longleftrightarrow> (\<forall>x \<in> set xs. f x = Inr ())"
  by (induction xs) auto

section \<open>Strings\<close>

text \<open>\<open>value.split(':')\<close>: always at least one part.\<close>

fun split_on :: "char \<Rightarrow> string \<Rightarrow> string list" where
  "split_on c [] = [[]]"
| "split_on c (x # xs) =
     (if x = c then [] # split_on c xs
      else (case split_on c xs of [] \<Rightarrow> [[x]] | w # ws \<Rightarrow> (x # w) # ws))"

lemma split_on_ne [simp]: "split_on c s \<noteq> []"
  by (induction s) (auto split: list.splits)

lemma split_on_free: "c \<notin> set s \<Longrightarrow> split_on c s = [s]"
  by (induction s) auto

lemma split_on_append: "c \<notin> set s \<Longrightarrow> split_on c (s @ c # t) = s # split_on c t"
  by (induction s) auto

text \<open>\<open>value.removeprefix(p)\<close>.\<close>

definition removeprefix :: "string \<Rightarrow> string \<Rightarrow> string" where
  "removeprefix p s = (if prefix p s then drop (length p) s else s)"

lemma removeprefix_append [simp]: "removeprefix p (p @ s) = s"
  by (simp add: removeprefix_def)

text \<open>
  \<open>str.strip()\<close>: the white-space characters of \<open>str.isspace\<close>, each as its UTF-8 bytes, are
  dropped at both ends.
\<close>

definition space_encodings :: "string list" where
  "space_encodings =
     map (\<lambda>c. [c]) [CHR 0x09, CHR 0x0A, CHR 0x0B, CHR 0x0C, CHR 0x0D, CHR 0x1C, CHR 0x1D, CHR 0x1E,
                   CHR 0x1F, CHR '' '']
     @ [[CHR 0xC2, CHR 0x85], [CHR 0xC2, CHR 0xA0], [CHR 0xE1, CHR 0x9A, CHR 0x80]]
     @ map (\<lambda>c. [CHR 0xE2, CHR 0x80, c])
         [CHR 0x80, CHR 0x81, CHR 0x82, CHR 0x83, CHR 0x84, CHR 0x85, CHR 0x86, CHR 0x87, CHR 0x88,
          CHR 0x89, CHR 0x8A, CHR 0xA8, CHR 0xA9, CHR 0xAF]
     @ [[CHR 0xE2, CHR 0x81, CHR 0x9F], [CHR 0xE3, CHR 0x80, CHR 0x80]]"

fun drop_heads :: "string list \<Rightarrow> string \<Rightarrow> string" where
  "drop_heads ws [] = []"
| "drop_heads ws (c # s) =
     (case List.find (\<lambda>w. w \<noteq> [] \<and> prefix w (c # s)) ws of
        None \<Rightarrow> c # s
      | Some w \<Rightarrow> drop_heads ws (drop (length w - 1) s))"

definition strip :: "string \<Rightarrow> string" where
  "strip s = rev (drop_heads (map rev space_encodings) (rev (drop_heads space_encodings s)))"

text \<open>A string that starts and ends in a letter or digit is its own \<open>strip()\<close>.\<close>

definition plain :: "char \<Rightarrow> bool" where
  "plain c \<longleftrightarrow> c \<in> set ''abcdefghijklmnopqrstuvwxyz0123456789''"

lemma drop_heads_plain:
  assumes "plain c" and "list_all (\<lambda>w. w \<noteq> [] \<longrightarrow> \<not> plain (hd w)) ws"
  shows "drop_heads ws (c # s) = c # s"
proof -
  have "List.find (\<lambda>w. w \<noteq> [] \<and> prefix w (c # s)) ws = None"
    using assms by (fastforce simp: find_None_iff list_all_iff prefix_Cons)
  then show ?thesis by simp
qed

lemma space_encodings_plain:
  "list_all (\<lambda>w. w \<noteq> [] \<longrightarrow> \<not> plain (hd w)) space_encodings"
  "list_all (\<lambda>w. w \<noteq> [] \<longrightarrow> \<not> plain (hd w)) (map rev space_encodings)"
  by (simp_all add: space_encodings_def plain_def)

lemma strip_plain:
  assumes "s \<noteq> []" and "plain (hd s)" and "plain (last s)"
  shows "strip s = s"
proof -
  have "drop_heads space_encodings s = s"
    using assms(1,2) drop_heads_plain [OF _ space_encodings_plain(1)] by (cases s) auto
  moreover have "drop_heads (map rev space_encodings) (rev s) = rev s"
    using assms(1,3) drop_heads_plain [OF _ space_encodings_plain(2)]
    by (cases s rule: rev_cases) auto
  ultimately show ?thesis by (simp add: strip_def)
qed

section \<open>Lists of options\<close>

fun all_some :: "'a option list \<Rightarrow> 'a list option" where
  "all_some [] = Some []"
| "all_some (None # xs) = None"
| "all_some (Some x # xs) = map_option (Cons x) (all_some xs)"

lemma all_some_iff: "all_some xs = Some ys \<longleftrightarrow> xs = map Some ys"
  by (induction xs arbitrary: ys rule: all_some.induct) auto

section \<open>Transition systems\<close>

text \<open>The states a system can be in: those its steps reach from an initial one.\<close>

inductive reach :: "('s \<Rightarrow> bool) \<Rightarrow> ('s \<Rightarrow> 's \<Rightarrow> bool) \<Rightarrow> 's \<Rightarrow> bool"
  for initial step where
  reach_init: "initial s \<Longrightarrow> reach initial step s"
| reach_step: "reach initial step s \<Longrightarrow> step s t \<Longrightarrow> reach initial step t"

text \<open>The contract of an inductive invariant, and what it gives its clients.\<close>

locale invariant_system =
  fixes initial :: "'s \<Rightarrow> bool"
    and step :: "'s \<Rightarrow> 's \<Rightarrow> bool"
    and inv :: "'s \<Rightarrow> bool"
  assumes inv_initial: "initial s \<Longrightarrow> inv s"
    and inv_step: "inv s \<Longrightarrow> step s t \<Longrightarrow> inv t"
begin

lemma inv_reach: "reach initial step s \<Longrightarrow> inv s"
  by (induction rule: reach.induct) (auto intro: inv_initial inv_step)

lemma inv_steps: "step\<^sup>*\<^sup>* s t \<Longrightarrow> inv s \<Longrightarrow> inv t"
  by (induction rule: rtranclp_induct) (auto intro: inv_step)

end

text \<open>The contract of a progress order: every step of a state that keeps the invariant ascends.\<close>

locale ascending_system = invariant_system initial step inv
  for initial :: "'s \<Rightarrow> bool" and step :: "'s \<Rightarrow> 's \<Rightarrow> bool" and inv :: "'s \<Rightarrow> bool" +
  fixes below :: "'s \<Rightarrow> 's \<Rightarrow> bool"
  assumes below_refl: "below s s"
    and below_trans: "below s t \<Longrightarrow> below t u \<Longrightarrow> below s u"
    and step_below: "inv s \<Longrightarrow> step s t \<Longrightarrow> below s t"
begin

lemma steps_below:
  assumes "step\<^sup>*\<^sup>* s t" and "inv s"
  shows "below s t"
  using assms(1)
proof (induction rule: rtranclp_induct)
  case base
  show ?case by (rule below_refl)
next
  case (step t u)
  have "inv t" using step.hyps(1) assms(2) by (rule inv_steps)
  then have "below t u" using step.hyps(2) by (rule step_below)
  with step.IH show ?case by (rule below_trans)
qed

lemma steps_below_reach: "reach initial step s \<Longrightarrow> step\<^sup>*\<^sup>* s t \<Longrightarrow> below s t"
  using inv_reach steps_below by blast

end

end
