(* ===== verification/Identity.thy ===== *)
theory Identity
  imports Prelude "HOL-Library.List_Lexorder"
begin

text \<open>
  \<open>agent_runtime/fingerprints.py\<close>, \<open>agent_runtime/rag_safety_identity.py\<close> and the byte identities of
  \<open>agent_runtime/rag_v2_identity.py\<close>: how a payload becomes a keyed identity. A payload is a
  \<open>json\<close> value, a Python \<open>str\<close> is the sequence of its UTF-8 bytes (a surrogate, which Python can
  hold and UTF-8 cannot, is an ill-formed sequence here). Two library functions are parameters:
  Unicode normalisation and the HMAC-SHA-256 hex digest. The JSON encoder is written out, since the
  identity rests on its being unambiguous. A float is carried as its \<open>repr\<close>: no payload of the
  modelled code builds one, but a decoded document may hold one and is then refused.
\<close>

section \<open>JSON\<close>

datatype json =
    JNull
  | JBool bool
  | JInt int
  | JFloat string
  | JStr string
  | JList "json list"
  | JObj "(string \<times> json) list"

fun json_opt :: "string option \<Rightarrow> json" where
  "json_opt None = JNull"
| "json_opt (Some s) = JStr s"

fun json_opt_int :: "int option \<Rightarrow> json" where
  "json_opt_int None = JNull"
| "json_opt_int (Some i) = JInt i"

text \<open>The library parameters.\<close>

record primitives =
  nfc :: "string \<Rightarrow> string"
  hmac_sha256_hex :: "string \<Rightarrow> string \<Rightarrow> string"

subsection \<open>Normalisation\<close>

fun normalize_json :: "(string \<Rightarrow> string) \<Rightarrow> json \<Rightarrow> json result"
  and normalize_items :: "(string \<Rightarrow> string) \<Rightarrow> json list \<Rightarrow> json list result"
  and normalize_members ::
    "(string \<Rightarrow> string) \<Rightarrow> string list \<Rightarrow> (string \<times> json) list \<Rightarrow> (string \<times> json) list result"
where
  "normalize_json f JNull = Inr JNull"
| "normalize_json f (JBool b) = Inr (JBool b)"
| "normalize_json f (JInt i) = Inr (JInt i)"
| "normalize_json f (JFloat r) =
     (if r \<in> set [''nan'', ''inf'', ''-inf'']
      then Inl (Value_Error ''fingerprint payload contains a non-finite float'')
      else Inr (JFloat r))"
| "normalize_json f (JStr s) = Inr (JStr (f s))"
| "normalize_json f (JList xs) = then_r (normalize_items f xs) (\<lambda>ys. Inr (JList ys))"
| "normalize_json f (JObj kvs) = then_r (normalize_members f [] kvs) (\<lambda>ms. Inr (JObj ms))"
| "normalize_items f [] = Inr []"
| "normalize_items f (x # xs) =
     then_r (normalize_json f x) (\<lambda>y. then_r (normalize_items f xs) (\<lambda>ys. Inr (y # ys)))"
| "normalize_members f seen [] = Inr []"
| "normalize_members f seen ((k, v) # kvs) =
     (let k' = f k
      in if k' \<in> set seen
         then Inl (Value_Error ''fingerprint payload has duplicate normalized keys'')
         else then_r (normalize_json f v)
                (\<lambda>v'. then_r (normalize_members f (k' # seen) kvs) (\<lambda>ms. Inr ((k', v') # ms))))"

subsection \<open>Encoding\<close>

text \<open>
  \<open>json.dumps(..., ensure_ascii=False, separators=(',', ':'), sort_keys=True)\<close>. Python sorts keys by
  code point, which is the order of their UTF-8 bytes.
\<close>

definition hex_digit :: "nat \<Rightarrow> char" where
  "hex_digit n = ''0123456789abcdef'' ! n"

definition hex_byte :: "char \<Rightarrow> string" where
  "hex_byte c = [hex_digit (of_char c div 16), hex_digit (of_char c mod 16)]"

fun decimal_nat :: "nat \<Rightarrow> string" where
  "decimal_nat n =
     (if n < 10 then [hex_digit n] else decimal_nat (n div 10) @ [hex_digit (n mod 10)])"

declare decimal_nat.simps [simp del]

definition decimal_int :: "int \<Rightarrow> string" where
  "decimal_int i = (if i < 0 then CHR ''-'' # decimal_nat (nat (- i)) else decimal_nat (nat i))"

definition json_escape :: "char \<Rightarrow> string" where
  "json_escape c =
     (if c = CHR 0x5C then [CHR 0x5C, CHR 0x5C]
      else if c = CHR 0x22 then [CHR 0x5C, CHR 0x22]
      else if c = CHR 0x08 then [CHR 0x5C, CHR ''b'']
      else if c = CHR 0x0C then [CHR 0x5C, CHR ''f'']
      else if c = CHR 0x0A then [CHR 0x5C, CHR ''n'']
      else if c = CHR 0x0D then [CHR 0x5C, CHR ''r'']
      else if c = CHR 0x09 then [CHR 0x5C, CHR ''t'']
      else if of_char c < (32 :: nat) then [CHR 0x5C, CHR ''u'', CHR ''0'', CHR ''0''] @ hex_byte c
      else [c])"

definition json_quote :: "string \<Rightarrow> string" where
  "json_quote s = [CHR 0x22] @ concat (map json_escape s) @ [CHR 0x22]"

fun join_comma :: "string list \<Rightarrow> string" where
  "join_comma [] = []"
| "join_comma [x] = x"
| "join_comma (x # xs) = x @ '','' @ join_comma xs"

fun json_dumps :: "json \<Rightarrow> string"
  and dump_items :: "json list \<Rightarrow> string list"
  and dump_members :: "(string \<times> json) list \<Rightarrow> (string \<times> string) list"
where
  "json_dumps JNull = ''null''"
| "json_dumps (JBool b) = (if b then ''true'' else ''false'')"
| "json_dumps (JInt i) = decimal_int i"
| "json_dumps (JFloat r) = r"
| "json_dumps (JStr s) = json_quote s"
| "json_dumps (JList xs) = ''['' @ join_comma (dump_items xs) @ '']''"
| "json_dumps (JObj kvs) =
     ''{'' @ join_comma (map (\<lambda>(k, v). json_quote k @ '':'' @ v) (sort_key fst (dump_members kvs)))
     @ ''}''"
| "dump_items [] = []"
| "dump_items (x # xs) = json_dumps x # dump_items xs"
| "dump_members [] = []"
| "dump_members ((k, v) # kvs) = (k, json_dumps v) # dump_members kvs"

text \<open>
  The strict UTF-8 decoder: the continuation bytes and the code-point ranges of RFC 3629, without
  overlong forms, surrogates or values past \<open>U+10FFFF\<close>.
\<close>

definition utf8_tail :: "nat \<Rightarrow> bool" where
  "utf8_tail b \<longleftrightarrow> 128 \<le> b \<and> b < 192"

fun utf8_bytes_valid :: "nat list \<Rightarrow> bool" where
  "utf8_bytes_valid [] = True"
| "utf8_bytes_valid (a # bs) =
     (if a < 128 then utf8_bytes_valid bs
      else if a < 194 then False
      else if a < 224 then
        (case bs of b # r \<Rightarrow> utf8_tail b \<and> utf8_bytes_valid r | _ \<Rightarrow> False)
      else if a < 240 then
        (case bs of b # c # r \<Rightarrow>
           utf8_tail b \<and> utf8_tail c \<and> (a = 224 \<longrightarrow> 160 \<le> b) \<and> (a = 237 \<longrightarrow> b < 160)
           \<and> utf8_bytes_valid r
         | _ \<Rightarrow> False)
      else if a < 245 then
        (case bs of b # c # d # r \<Rightarrow>
           utf8_tail b \<and> utf8_tail c \<and> utf8_tail d \<and> (a = 240 \<longrightarrow> 144 \<le> b) \<and> (a = 244 \<longrightarrow> b < 144)
           \<and> utf8_bytes_valid r
         | _ \<Rightarrow> False)
      else False)"

declare utf8_bytes_valid.simps(2) [simp del]

definition utf8_valid :: "string \<Rightarrow> bool" where
  "utf8_valid s \<longleftrightarrow> utf8_bytes_valid (map of_char s)"

text \<open>
  \<open>.encode('utf-8')\<close> of the text raises a \<open>UnicodeEncodeError\<close>, a \<open>ValueError\<close>, when a string of the value
  holds a surrogate: the rest of the text is ASCII.
\<close>

fun json_encodable :: "json \<Rightarrow> bool" where
  "json_encodable (JStr s) = utf8_valid s"
| "json_encodable (JList xs) = list_all json_encodable xs"
| "json_encodable (JObj kvs) = list_all (\<lambda>(k, v). utf8_valid k \<and> json_encodable v) kvs"
| "json_encodable _ = True"

definition canonical_json_bytes :: "(string \<Rightarrow> string) \<Rightarrow> json \<Rightarrow> string result" where
  "canonical_json_bytes f v =
     then_r (normalize_json f v) (\<lambda>n.
       if json_encodable n then Inr (json_dumps n)
       else Inl (Value_Error ''surrogates not allowed''))"

lemma of_char_ascii: "\<not> digit7 c \<Longrightarrow> of_char c < (128 :: nat)"
  by (cases c) (simp add: of_char_def horner_sum_simps)

lemma utf8_valid_ascii: "list_all (\<lambda>c. \<not> digit7 c) s \<Longrightarrow> utf8_valid s"
  unfolding utf8_valid_def by (induction s) (auto simp: utf8_bytes_valid.simps(2) of_char_ascii)

lemma utf8_bytes_valid_append:
  "utf8_bytes_valid xs \<Longrightarrow> utf8_bytes_valid ys \<Longrightarrow> utf8_bytes_valid (xs @ ys)"
proof (induction xs rule: utf8_bytes_valid.induct)
  case (2 a bs)
  then show ?case
    by (subst append_Cons, subst utf8_bytes_valid.simps(2), subst (asm) utf8_bytes_valid.simps(2))
       (auto split: list.splits if_splits)
qed simp

lemma utf8_valid_append: "utf8_valid s \<Longrightarrow> utf8_valid t \<Longrightarrow> utf8_valid (s @ t)"
  by (simp add: utf8_valid_def utf8_bytes_valid_append)

section \<open>Keyed fingerprints\<close>

definition keyed_fingerprint ::
  "primitives \<Rightarrow> string \<Rightarrow> string \<Rightarrow> string \<Rightarrow> json \<Rightarrow> string result" where
  "keyed_fingerprint P secret schema_version policy_version v =
     (if secret = [] \<or> strip schema_version = [] \<or> strip policy_version = []
      then Inl (Value_Error ''fingerprint secret and versions are required'')
      else then_r (canonical_json_bytes (nfc P)
             (JObj [(''domain'', JStr ''paraworks:keyed-fingerprint:v1''),
                    (''policy_version'', JStr policy_version),
                    (''schema_version'', JStr schema_version),
                    (''value'', v)]))
           (\<lambda>payload. Inr (hmac_sha256_hex P secret payload)))"

section \<open>Digest strings\<close>

definition lower_hex :: "char \<Rightarrow> bool" where
  "lower_hex c \<longleftrightarrow> c \<in> set ''0123456789abcdef''"

text \<open>\<open>retrieval.is_lower_hex_64\<close> and \<open>rag_safety_identity.require_lower_hmac\<close>.\<close>

definition is_lower_hex_64 :: "string \<Rightarrow> bool" where
  "is_lower_hex_64 s \<longleftrightarrow> length s = 64 \<and> list_all lower_hex s"

definition require_lower_hmac :: "string \<Rightarrow> string \<Rightarrow> string result" where
  "require_lower_hmac s field =
     (if length s \<noteq> 64 \<or> (\<exists>c \<in> set s. c \<notin> set ''0123456789abcdef'')
      then Inl (Identity_Error (field @ '' must be a lowercase SHA-256 HMAC''))
      else Inr s)"

lemma require_lower_hmac_Inr [simp]:
  "require_lower_hmac s field = Inr t \<longleftrightarrow> is_lower_hex_64 s \<and> t = s"
  by (auto simp: require_lower_hmac_def is_lower_hex_64_def lower_hex_def list_all_iff)

definition identities_match :: "string \<Rightarrow> string \<Rightarrow> bool" where
  "identities_match left right =
     (case require_lower_hmac left ''identity'' of Inl _ \<Rightarrow> False
      | Inr l \<Rightarrow> (case require_lower_hmac right ''identity'' of Inl _ \<Rightarrow> False | Inr r \<Rightarrow> l = r))"

section \<open>Exact UTF-8 bytes\<close>

text \<open>\<open>len(text)\<close> counts code points: the bytes that are not continuation bytes.\<close>

definition code_points :: "string \<Rightarrow> nat" where
  "code_points s = length (filter (\<lambda>c. \<not> utf8_tail (of_char c)) s)"

definition validate_scalars :: "string \<Rightarrow> string result" where
  "validate_scalars s =
     (if CHR 0x00 \<in> set s \<or> \<not> utf8_valid s
      then Inl (Value_Error ''text contains an unsupported Unicode scalar'')
      else Inr s)"

definition utf8_json :: "string \<Rightarrow> json" where
  "utf8_json s =
     JObj [(''byte_length'', JInt (int (length s))), (''utf8_hex'', JStr (concat (map hex_byte s)))]"

definition exact_utf8_bytes :: "string \<Rightarrow> json result" where
  "exact_utf8_bytes s = then_r (validate_scalars s) (\<lambda>t. Inr (utf8_json t))"

lemma exact_utf8_bytes_Inr [simp]:
  "exact_utf8_bytes s = Inr j \<longleftrightarrow> CHR 0x00 \<notin> set s \<and> utf8_valid s \<and> j = utf8_json s"
  by (auto simp: exact_utf8_bytes_def validate_scalars_def)

section \<open>Run identities\<close>

text \<open>
  \<open>rag_safety_identity.py\<close>: every identity first checks the exact key set of its payload, then signs
  it under its own schema and policy version.
\<close>

definition require_exact_mapping :: "json \<Rightarrow> string list \<Rightarrow> string \<Rightarrow> (string \<times> json) list result" where
  "require_exact_mapping v keys domain =
     (case v of
        JObj kvs \<Rightarrow> (if set (map fst kvs) = set keys then Inr kvs
                     else Inl (Identity_Error (domain @ '' identity shape is invalid'')))
      | _ \<Rightarrow> Inl (Identity_Error (domain @ '' identity shape is invalid'')))"

definition rag_identity_hmac ::
  "primitives \<Rightarrow> string \<Rightarrow> string \<Rightarrow> string \<Rightarrow> json \<Rightarrow> string result" where
  "rag_identity_hmac P secret schema_version policy_version v =
     (if secret = [] then Inl (Identity_Error ''identity signer is unavailable'')
      else keyed_fingerprint P secret schema_version policy_version v)"

definition shaped_identity ::
  "primitives \<Rightarrow> string \<Rightarrow> string list \<Rightarrow> string \<Rightarrow> string \<Rightarrow> string \<Rightarrow> json \<Rightarrow> string result" where
  "shaped_identity P secret keys domain schema_version policy_version v =
     then_r (require_exact_mapping v keys domain)
       (\<lambda>_. rag_identity_hmac P secret schema_version policy_version v)"

definition admission_keys :: "string list" where
  "admission_keys =
    [''answer_provider_policy_snapshot_hmac'', ''configured_backend'', ''current_text_hmac'',
     ''cutover_stage'', ''graph_version'', ''mode'', ''query_context_version_bytes'',
     ''query_embedding_provider_policy_snapshot_hmac'', ''retrieval_policy_version'',
     ''retrieval_query_hmac'', ''security_scope_fingerprint'', ''surface'']"

definition admission_identity :: "primitives \<Rightarrow> string \<Rightarrow> json \<Rightarrow> string result" where
  "admission_identity P secret v =
     shaped_identity P secret admission_keys ''admission''
       ''rag-admission-identity:v1'' ''rag-run:v2'' v"

definition runtime_cost_keys :: "string list" where
  "runtime_cost_keys =
    [''agent_run_id'', ''components'', ''parent_outcome'', ''parent_run_record_phase'',
     ''parent_status'', ''run_contract_version'', ''snapshot_stage'', ''total_charged_cost_usd'',
     ''total_reserved_cost_usd'']"

definition runtime_component_keys :: "string list" where
  "runtime_component_keys =
    [''actual_input_tokens'', ''actual_output_tokens'', ''attempted'',
     ''authorized_cost_policy_version_bytes'', ''authorized_model_config_snapshot_hmac'',
     ''authorized_model_config_version_bytes'', ''authorized_policy_snapshot_hmac'',
     ''authorized_token_estimator_version_bytes'', ''charge_basis'', ''charged_cost_usd'',
     ''component'', ''dispatch_count'', ''dispatch_fence_hmac'', ''dispatch_state'', ''model_bytes'',
     ''overrun'', ''process_instance_hmac'', ''provider_bytes'', ''reserved_cost_usd'',
     ''reserved_input_tokens'', ''reserved_output_tokens'']"

definition runtime_component_shape :: "json \<Rightarrow> bool" where
  "runtime_component_shape v =
     (case v of JObj kvs \<Rightarrow> set (map fst kvs) = set runtime_component_keys | _ \<Rightarrow> False)"

definition member_of :: "string \<Rightarrow> json \<Rightarrow> json option" where
  "member_of k v = (case v of JObj kvs \<Rightarrow> map_of kvs k | _ \<Rightarrow> None)"

definition runtime_components_ok :: "json \<Rightarrow> bool" where
  "runtime_components_ok v =
     (case member_of ''components'' v of
        Some (JList items) \<Rightarrow>
          length items = 2 \<and> list_all runtime_component_shape items
          \<and> map (member_of ''component'') items
              = [Some (JStr ''query_embedding''), Some (JStr ''answer_generation'')]
      | _ \<Rightarrow> False)"

definition runtime_cost_identity :: "primitives \<Rightarrow> string \<Rightarrow> json \<Rightarrow> string result" where
  "runtime_cost_identity P secret v =
     then_r (require_exact_mapping v runtime_cost_keys ''runtime cost'')
       (\<lambda>_. if \<not> runtime_components_ok v
            then Inl (Identity_Error ''runtime cost component identity shape is invalid'')
            else rag_identity_hmac P secret ''rag-runtime-cost-snapshot:v1'' ''rag-run:v2'' v)"

definition dispatch_fence_keys :: "string list" where
  "dispatch_fence_keys =
    [''agent_run_id'', ''approval_hmac'', ''approval_id_hmac'', ''case_id_hmac'', ''component'',
     ''dispatch_count'', ''dispatch_nonce_hex'', ''prepared_input_hmac'', ''process_instance_hmac'',
     ''provider_safety_snapshot_hmac'', ''release_to_generation'', ''retrieval_query_hmac'']"

definition dispatch_fence_identity :: "primitives \<Rightarrow> string \<Rightarrow> json \<Rightarrow> string result" where
  "dispatch_fence_identity P secret v =
     shaped_identity P secret dispatch_fence_keys ''dispatch fence''
       ''rag-dispatch-fence:v1'' ''rag-run:v2'' v"

definition dead_process_keys :: "string list" where
  "dead_process_keys = [''agent_run_id'', ''dead_process_instance_hmac'', ''recovery_outcome'']"

definition dead_process_attestation_identity :: "primitives \<Rightarrow> string \<Rightarrow> json \<Rightarrow> string result" where
  "dead_process_attestation_identity P secret v =
     shaped_identity P secret dead_process_keys ''dead process attestation''
       ''rag-dead-process-attestation:v1'' ''rag-run:v2'' v"

definition provider_safety_keys :: "string list" where
  "provider_safety_keys =
    [''active_family'', ''authority_uuid'', ''envelope_digest'', ''global_safety_generation'']"

definition provider_safety_snapshot_identity :: "primitives \<Rightarrow> string \<Rightarrow> json \<Rightarrow> string result" where
  "provider_safety_snapshot_identity P secret v =
     shaped_identity P secret provider_safety_keys ''provider safety''
       ''rag-provider-safety-snapshot:v1'' ''rag-provider-safety:v1'' v"

definition projection_owner_keys :: "string list" where
  "projection_owner_keys =
    [''advisory_lock_identity_digest'', ''agent_run_id'', ''lock_backend'', ''lock_namespace'',
     ''owner_nonce_hex'', ''owner_phase'', ''process_instance_hmac'']"

definition projection_owner_identity :: "primitives \<Rightarrow> string \<Rightarrow> json \<Rightarrow> string result" where
  "projection_owner_identity P secret v =
     shaped_identity P secret projection_owner_keys ''projection owner''
       ''rag-projection-owner-fence:v1'' ''rag-run:v2'' v"

definition final_shadow_keys :: "string list" where
  "final_shadow_keys =
    [''admission_cache_identity_hmac'', ''outcome'', ''runtime_cost_snapshot_hmac'', ''surface'']"

definition final_shadow_identity :: "primitives \<Rightarrow> string \<Rightarrow> json \<Rightarrow> string result" where
  "final_shadow_identity P secret v =
     shaped_identity P secret final_shadow_keys ''final shadow''
       ''rag-final-shadow-identity:v1'' ''rag-shadow:v2'' v"

definition final_error_keys :: "string list" where
  "final_error_keys =
    [''admission_cache_identity_hmac'', ''answer_question_hmac'', ''configured_backend'',
     ''current_text_hmac'', ''fallback_category'', ''graph_version'', ''outcome'',
     ''prepared_model_influence_observation_hmac'', ''retrieval_query_hmac'',
     ''runtime_cost_snapshot_hmac'', ''security_scope_fingerprint'', ''surface'']"

definition final_error_identity :: "primitives \<Rightarrow> string \<Rightarrow> json \<Rightarrow> string result" where
  "final_error_identity P secret v =
     shaped_identity P secret final_error_keys ''final error''
       ''rag-final-error-identity:v1'' ''rag-run:v2'' v"

text \<open>A mapping that is written with the required keys passes the shape check.\<close>

lemma require_exact_mapping_obj [simp]:
  "map fst kvs = keys \<Longrightarrow> require_exact_mapping (JObj kvs) keys domain = Inr kvs"
  by (simp add: require_exact_mapping_def)

lemma shaped_identity_obj:
  "map fst kvs = keys \<Longrightarrow> shaped_identity P secret keys domain schema policy (JObj kvs)
     = rag_identity_hmac P secret schema policy (JObj kvs)"
  by (simp add: shaped_identity_def)

end
