(* ===== verification/Money.thy ===== *)
theory Money
  imports Identity
begin

text \<open>
  Decimal amounts. \<open>py_decimal\<close> is a value of Python's \<open>decimal.Decimal\<close> as \<open>as_tuple()\<close> shows it,
  with the storage predicates of \<open>rag/retrieval.py\<close> and the price check of \<open>rag_cost_policy.py\<close>.
  An amount that passes them is an integral number of micro-USD (\<open>micro\<close>), the representation of
  money in the rest of the development; \<open>format6\<close> writes it back as \<open>format(value, '.6f')\<close> does.
\<close>

section \<open>Python decimals\<close>

text \<open>\<open>Finite sign coefficient exponent\<close>, \<open>sign\<close> being true for a negative sign.\<close>

datatype py_decimal = Finite bool nat int | Infinite bool | Not_A_Number

definition digit_count :: "nat \<Rightarrow> nat" where
  "digit_count n = length (decimal_nat n)"

text \<open>\<open>normalize()\<close> strips trailing zeros and leaves a zero with exponent 0.\<close>

fun strip_zeros :: "nat \<Rightarrow> int \<Rightarrow> nat \<times> int" where
  "strip_zeros c e = (if c \<noteq> 0 \<and> c mod 10 = 0 then strip_zeros (c div 10) (e + 1) else (c, e))"

declare strip_zeros.simps [simp del]

definition dec_normalize :: "nat \<Rightarrow> int \<Rightarrow> nat \<times> int" where
  "dec_normalize c e = (if c = 0 then (0, 0) else strip_zeros c e)"

definition adjusted :: "nat \<Rightarrow> int \<Rightarrow> int" where
  "adjusted c e = e + int (digit_count c) - 1"

fun is_numeric_24_6_representable :: "py_decimal \<Rightarrow> bool" where
  "is_numeric_24_6_representable (Finite s c e) =
     (if e < -6 then False
      else (let (c', e') = dec_normalize c e in if c' = 0 then True else adjusted c' e' \<le> 17))"
| "is_numeric_24_6_representable _ = False"

text \<open>\<open>value >= 0\<close> holds for both zeros, so the sign of a zero is checked apart.\<close>

fun is_storage_decimal :: "py_decimal \<Rightarrow> bool" where
  "is_storage_decimal (Finite s c e) =
     ((\<not> s \<or> c = 0) \<and> \<not> (c = 0 \<and> s) \<and> is_numeric_24_6_representable (Finite s c e))"
| "is_storage_decimal _ = False"

text \<open>\<open>format(value, 'f')\<close> of a non-negative finite decimal: no exponent, the places kept.\<close>

definition format_f :: "nat \<Rightarrow> int \<Rightarrow> string" where
  "format_f c e =
     (if 0 \<le> e then decimal_nat c @ replicate (if c = 0 then 0 else nat e) CHR ''0''
      else (let k = nat (- e); ds = decimal_nat c;
                padded = replicate (Suc k - length ds) CHR ''0'' @ ds
            in take (length padded - k) padded @ ''.'' @ drop (length padded - k) padded))"

fun decimal_storage_representation :: "py_decimal \<Rightarrow> string result" where
  "decimal_storage_representation d =
     (if \<not> is_storage_decimal d then Inl (Value_Error ''query embedding cost is invalid'')
      else (case d of Finite s c e \<Rightarrow> Inr (if c = 0 then ''0'' else format_f c e)
            | _ \<Rightarrow> Inl (Value_Error ''query embedding cost is invalid'')))"

definition same_decimal_storage_value :: "py_decimal \<Rightarrow> py_decimal \<Rightarrow> bool" where
  "same_decimal_storage_value l r \<longleftrightarrow>
     is_storage_decimal l \<and> is_storage_decimal r
     \<and> decimal_storage_representation l = decimal_storage_representation r"

text \<open>\<open>_price_identity\<close>: a price is positive and has exactly six places.\<close>

fun price_identity :: "py_decimal \<Rightarrow> string result" where
  "price_identity (Finite s c e) =
     (if s \<or> c = 0 \<or> e \<noteq> -6 then Inl (Value_Error ''RAG price registry is invalid'')
      else Inr (format_f c e))"
| "price_identity _ = Inl (Value_Error ''RAG price registry is invalid'')"

section \<open>Micro-USD\<close>

text \<open>The amount of a decimal with at most six places, in units of \<open>0.000001\<close>.\<close>

fun micro :: "py_decimal \<Rightarrow> int" where
  "micro (Finite s c e) = (if s then -1 else 1) * int c * 10 ^ nat (e + 6)"
| "micro _ = 0"

definition of_micro :: "nat \<Rightarrow> py_decimal" where
  "of_micro m = Finite False m (-6)"

text \<open>\<open>format(amount, '.6f')\<close>.\<close>

definition format6 :: "int \<Rightarrow> string" where
  "format6 m = (if m < 0 then CHR ''-'' # format_f (nat (- m)) (-6) else format_f (nat m) (-6))"

lemma decimal_nat_small: "n < 10 \<Longrightarrow> decimal_nat n = [hex_digit n]"
  by (subst decimal_nat.simps) simp

lemma decimal_nat_large: "\<not> n < 10 \<Longrightarrow> decimal_nat n = decimal_nat (n div 10) @ [hex_digit (n mod 10)]"
  by (subst decimal_nat.simps) simp

lemma digit_count_small: "n < 10 \<Longrightarrow> digit_count n = 1"
  by (simp add: digit_count_def decimal_nat_small)

lemma digit_count_large: "\<not> n < 10 \<Longrightarrow> digit_count n = Suc (digit_count (n div 10))"
  by (simp add: digit_count_def decimal_nat_large)

lemma less_pow_digit_count: "n < 10 ^ digit_count n"
proof (induction n rule: decimal_nat.induct)
  case (1 n)
  show ?case
  proof (cases "n < 10")
    case False
    have "n < 10 * Suc (n div 10)" by simp
    also have "\<dots> \<le> 10 * 10 ^ digit_count (n div 10)"
      using 1 [OF False] by (intro mult_le_mono2) simp
    finally show ?thesis using False by (simp add: digit_count_large)
  qed (simp add: digit_count_small)
qed

lemma digit_count_le: "n < 10 ^ k \<Longrightarrow> 0 < k \<Longrightarrow> digit_count n \<le> k"
proof (induction n arbitrary: k rule: decimal_nat.induct)
  case (1 n)
  show ?case
  proof (cases "n < 10")
    case False
    then obtain j where j: "k = Suc j" "0 < j"
      using 1(2,3) by (cases k; cases "k - 1") auto
    then have "n div 10 < 10 ^ j" using 1(2) by (simp add: less_mult_imp_div_less mult.commute)
    then have "digit_count (n div 10) \<le> j" using 1(1) [OF False] j(2) by blast
    then show ?thesis using False j by (simp add: digit_count_large)
  qed (use 1(3) in \<open>simp add: digit_count_small\<close>)
qed

lemma strip_zeros_pos:
  "0 < c \<Longrightarrow> strip_zeros c e = (c', e') \<Longrightarrow> 0 < c' \<and> e \<le> e' \<and> adjusted c' e' = adjusted c e"
proof (induction c e arbitrary: c' e' rule: strip_zeros.induct)
  case (1 c e)
  show ?case
  proof (cases "c \<noteq> 0 \<and> c mod 10 = 0")
    case True
    then have large: "\<not> c < 10" and "0 < c div 10" by (auto simp: div_greater_zero_iff)
    then have "0 < c' \<and> e + 1 \<le> e' \<and> adjusted c' e' = adjusted (c div 10) (e + 1)"
      using 1 True by (auto simp: strip_zeros.simps [of c e])
    then show ?thesis using large by (auto simp: adjusted_def digit_count_large)
  next
    case False
    then show ?thesis using 1(2,3) by (auto simp: strip_zeros.simps [of c e])
  qed
qed

lemma representable_iff:
  "is_numeric_24_6_representable (Finite s c e) \<longleftrightarrow> -6 \<le> e \<and> (c = 0 \<or> adjusted c e \<le> 17)"
  using strip_zeros_pos [of c e]
  by (cases "strip_zeros c e") (auto simp: dec_normalize_def)

lemma micro_bound:
  assumes "is_storage_decimal d"
  shows "0 \<le> micro d \<and> micro d < 10 ^ 24"
proof (cases d)
  case (Finite s c e)
  show ?thesis
  proof (cases "c = 0")
    case False
    with assms Finite have s: "\<not> s" and e: "-6 \<le> e" and a: "adjusted c e \<le> 17"
      by (auto simp: representable_iff simp del: is_numeric_24_6_representable.simps)
    have "digit_count c + nat (e + 6) \<le> 24" using a e by (simp add: adjusted_def)
    then have "(10::nat) ^ (digit_count c + nat (e + 6)) \<le> 10 ^ 24"
      by (rule power_increasing) simp
    moreover have "c * 10 ^ nat (e + 6) < 10 ^ digit_count c * 10 ^ nat (e + 6)"
      using less_pow_digit_count by simp
    ultimately have "c * 10 ^ nat (e + 6) < 10 ^ 24" unfolding power_add by linarith
    then have "int (c * 10 ^ nat (e + 6)) < int (10 ^ 24)" by (simp only: of_nat_less_iff)
    then show ?thesis using Finite s by simp
  qed (simp add: Finite)
qed (use assms in auto)

lemma of_micro_storage:
  assumes "m < 10 ^ 24"
  shows "is_storage_decimal (of_micro m)" and "micro (of_micro m) = int m"
proof -
  have "digit_count m \<le> 24" using assms by (rule digit_count_le) simp
  then show "is_storage_decimal (of_micro m)"
    by (simp add: of_micro_def representable_iff adjusted_def del: is_numeric_24_6_representable.simps)
  show "micro (of_micro m) = int m" by (simp add: of_micro_def)
qed

end
