(* ===== verification/Runtime_Contracts.thy ===== *)
theory Runtime_Contracts
  imports Prelude
begin

text \<open>
  \<open>agent_runtime/rag_runtime_contracts.py\<close>: the closed vocabularies of a paid RAG run and the
  frozen records its parts exchange. A \<open>Literal\<close> of the source is a datatype with one constructor
  per string, and the \<open>_name\<close> function gives the string back where the source writes it to a
  payload. Money is an \<open>int\<close> number of micro-USD: every \<open>Decimal\<close> of these records has six
  places, the scale of the \<open>Numeric(24, 6)\<close> columns and of \<open>_rounded_cost\<close>.
\<close>

section \<open>Vocabularies\<close>

datatype component = Query_Embedding | Answer_Generation

fun component_name :: "component \<Rightarrow> string" where
  "component_name Query_Embedding = ''query_embedding''"
| "component_name Answer_Generation = ''answer_generation''"

definition component_order :: "component list" where
  "component_order = [Query_Embedding, Answer_Generation]"

text \<open>\<open>_exact_component\<close> of \<open>rag_cost_policy.py\<close>: the only two strings that name a component.\<close>

definition exact_component :: "string \<Rightarrow> component result" where
  "exact_component s =
     (if s = ''query_embedding'' then Inr Query_Embedding
      else if s = ''answer_generation'' then Inr Answer_Generation
      else Inl (Value_Error ''RAG paid component is invalid''))"

lemma exact_component_name: "exact_component (component_name c) = Inr c"
  by (cases c) (simp_all add: exact_component_def)

lemma exact_component_Inr: "exact_component s = Inr c \<longleftrightarrow> s = component_name c"
  by (cases c) (auto simp: exact_component_def split: if_splits)

datatype classification =
    Validated_Success | Pre_Send_Refusal | Response_Less_Failure | Response_Identity_Invalid
  | Embedding_Payload_Invalid | Usage_Contract_Invalid | Usage_Storage_Invalid | Known_Overrun
  | Structured_Output_Invalid | Citation_Validation_Failed | Evidence_Validation_Failed

datatype safety_action = Unchanged | Block_Overrun | Block_Remediation

datatype run_status = Running | Complete | Failed

datatype run_phase = Admission | Pending_Projection | Final | Admission_Only

datatype dispatch_state = Not_Attempted | Dispatching | Terminal | Abandoned

datatype charge_basis = Basis_Zero | Basis_Actual | Basis_Reserved

text \<open>
  The outcomes of a component (\<open>RagComponentTerminalOutcome\<close>) and of a run
  (\<open>RagRunTerminalOutcome\<close>, \<open>RagResultOutcome\<close>) share most of their strings: one datatype.
\<close>

datatype outcome =
    Component_Succeeded | Retriever_Unavailable | Model_Provider_Failed
  | Provider_Response_Identity_Invalid | Provider_Embedding_Payload_Invalid
  | Provider_Usage_Overrun | Provider_Safety_Unavailable | Structured_Output_Bad
  | Citation_Validation_Bad | Evidence_Unavailable | Abandoned_Unknown
  | Supported | Search_Projected | No_Match | Hidden_Only | Safety_Filter_Empty
  | Insufficient_Evidence | Over_Budget | Retriever_Not_Configured
  | Runtime_Version_Unavailable | Model_Unavailable | Unexpected_Internal_Error
  | Serving_Index_Not_Ready | Shadow_Match | Shadow_Mismatch | Persistence_Failed
  | Live_Corpus_Snapshot_Changed

fun outcome_name :: "outcome \<Rightarrow> string" where
  "outcome_name Component_Succeeded = ''component_succeeded''"
| "outcome_name Retriever_Unavailable = ''retriever_unavailable''"
| "outcome_name Model_Provider_Failed = ''model_provider_failed''"
| "outcome_name Provider_Response_Identity_Invalid = ''provider_response_identity_invalid''"
| "outcome_name Provider_Embedding_Payload_Invalid = ''provider_embedding_payload_invalid''"
| "outcome_name Provider_Usage_Overrun = ''provider_usage_overrun''"
| "outcome_name Provider_Safety_Unavailable = ''provider_safety_unavailable''"
| "outcome_name Structured_Output_Bad = ''structured_output_invalid''"
| "outcome_name Citation_Validation_Bad = ''citation_validation_failed''"
| "outcome_name Evidence_Unavailable = ''evidence_unavailable''"
| "outcome_name Abandoned_Unknown = ''abandoned_unknown''"
| "outcome_name Supported = ''supported''"
| "outcome_name Search_Projected = ''search_projected''"
| "outcome_name No_Match = ''no_match''"
| "outcome_name Hidden_Only = ''hidden_only''"
| "outcome_name Safety_Filter_Empty = ''safety_filter_empty''"
| "outcome_name Insufficient_Evidence = ''insufficient_evidence''"
| "outcome_name Over_Budget = ''budget_exceeded''"
| "outcome_name Retriever_Not_Configured = ''retriever_not_configured''"
| "outcome_name Runtime_Version_Unavailable = ''runtime_version_unavailable''"
| "outcome_name Model_Unavailable = ''model_unavailable''"
| "outcome_name Unexpected_Internal_Error = ''unexpected_internal_error''"
| "outcome_name Serving_Index_Not_Ready = ''serving_index_not_ready''"
| "outcome_name Shadow_Match = ''shadow_match''"
| "outcome_name Shadow_Mismatch = ''shadow_mismatch''"
| "outcome_name Persistence_Failed = ''persistence_failed''"
| "outcome_name Live_Corpus_Snapshot_Changed = ''live_corpus_snapshot_changed''"

fun run_status_name :: "run_status \<Rightarrow> string" where
  "run_status_name Running = ''running''"
| "run_status_name Complete = ''complete''"
| "run_status_name Failed = ''failed''"

fun run_phase_name :: "run_phase \<Rightarrow> string" where
  "run_phase_name Admission = ''admission''"
| "run_phase_name Pending_Projection = ''cost_finalized_pending_projection''"
| "run_phase_name Final = ''final''"
| "run_phase_name Admission_Only = ''admission_only''"

fun dispatch_state_name :: "dispatch_state \<Rightarrow> string" where
  "dispatch_state_name Not_Attempted = ''not_attempted''"
| "dispatch_state_name Dispatching = ''dispatching''"
| "dispatch_state_name Terminal = ''terminal''"
| "dispatch_state_name Abandoned = ''abandoned_unknown''"

fun charge_basis_name :: "charge_basis \<Rightarrow> string" where
  "charge_basis_name Basis_Zero = ''zero''"
| "charge_basis_name Basis_Actual = ''actual''"
| "charge_basis_name Basis_Reserved = ''reserved''"

section \<open>Source windows\<close>

definition admission_source_windows :: "string list" where
  "admission_source_windows =
    [''rag-v2:admission:enforce:ask:keyword'',
     ''rag-v2:admission:enforce:ask:pgvector'',
     ''rag-v2:admission:enforce:search:keyword'',
     ''rag-v2:admission:enforce:search:pgvector'',
     ''rag-v2:admission:enforce:assistant:keyword'',
     ''rag-v2:admission:enforce:assistant:pgvector'',
     ''rag-v2:admission:shadow:ask:pgvector'',
     ''rag-v2:admission:shadow:search:pgvector'',
     ''rag-v2:admission:shadow:assistant:pgvector'']"

definition terminal_source_windows :: "string list" where
  "terminal_source_windows =
    [''rag-v2:ask:keyword'', ''rag-v2:ask:pgvector'',
     ''rag-v2:search:keyword'', ''rag-v2:search:pgvector'',
     ''rag-v2:assistant:keyword'', ''rag-v2:assistant:pgvector'',
     ''rag-v2:shadow:ask:keyword'', ''rag-v2:shadow:ask:pgvector'',
     ''rag-v2:shadow:search:keyword'', ''rag-v2:shadow:search:pgvector'',
     ''rag-v2:shadow:assistant:keyword'', ''rag-v2:shadow:assistant:pgvector'',
     ''rag-v2:final-error:ask:keyword'', ''rag-v2:final-error:ask:pgvector'',
     ''rag-v2:final-error:search:keyword'', ''rag-v2:final-error:search:pgvector'',
     ''rag-v2:final-error:assistant:keyword'', ''rag-v2:final-error:assistant:pgvector'']"

definition admission_source_window :: "string \<Rightarrow> string \<Rightarrow> string \<Rightarrow> string result" where
  "admission_source_window mode surface backend =
     (let candidate = ''rag-v2:admission:'' @ mode @ '':'' @ surface @ '':'' @ backend
      in if candidate \<in> set admission_source_windows then Inr candidate
         else Inl (Value_Error ''RAG admission source window is invalid''))"

definition terminal_prefix :: "string \<Rightarrow> string option" where
  "terminal_prefix stage =
     map_of [(''product'', ''rag-v2''), (''shadow'', ''rag-v2:shadow''),
             (''final_error'', ''rag-v2:final-error'')] stage"

definition terminal_source_window :: "string \<Rightarrow> string \<Rightarrow> string \<Rightarrow> string result" where
  "terminal_source_window stage surface backend =
     (let candidate = (case terminal_prefix stage of None \<Rightarrow> ''''
                       | Some head \<Rightarrow> head @ '':'' @ surface @ '':'' @ backend)
      in if candidate \<in> set terminal_source_windows then Inr candidate
         else Inl (Value_Error ''RAG terminal source window is invalid''))"

definition known_surface :: "string \<Rightarrow> bool" where
  "known_surface s \<longleftrightarrow> s \<in> set [''ask'', ''search'', ''assistant'']"

definition known_backend :: "string \<Rightarrow> bool" where
  "known_backend b \<longleftrightarrow> b \<in> set [''keyword'', ''pgvector'']"

definition known_mode :: "string \<Rightarrow> bool" where
  "known_mode m \<longleftrightarrow> m \<in> set [''shadow'', ''enforce'']"

lemmas known_defs = known_surface_def known_backend_def known_mode_def

text \<open>
  What the split of an admission window gives back. The ledger splits the stored window at \<open>:\<close>
  when it closes a run, so the parts must be the admitted surface and backend.
\<close>

lemma admission_window_split:
  assumes "admission_source_window mode surface backend = Inr w"
    and "known_mode mode" and "known_surface surface" and "known_backend backend"
  shows "split_on CHR '':'' w = [''rag-v2'', ''admission'', mode, surface, backend]"
  using assms
  by (auto simp: admission_source_window_def known_defs Let_def split: if_splits)

lemma terminal_window_final_error:
  assumes "known_surface surface" and "known_backend backend"
  shows "terminal_source_window ''final_error'' surface backend
           = Inr (''rag-v2:final-error:'' @ surface @ '':'' @ backend)"
  using assms
  by (auto simp: terminal_source_window_def terminal_prefix_def terminal_source_windows_def known_defs)

section \<open>Frozen records\<close>

record strict_usage =
  input_tokens :: int
  output_tokens :: int
  total_tokens :: int

record policy_snapshot =
  ps_component :: component
  ps_provider :: string
  ps_model :: string
  ps_reasoning_or_config_identity :: string
  ps_model_config_version :: string
  ps_model_config_snapshot_hmac :: string
  ps_cost_policy_version :: string
  ps_token_estimator_version :: string
  ps_fingerprint_key_version :: string
  ps_fingerprint_key_material_verifier :: string
  ps_policy_snapshot_hmac :: string

record safety_binding =
  sb_policy_snapshot :: policy_snapshot
  sb_authority_uuid :: string
  sb_designated_environment_id :: string
  sb_envelope_digest :: string
  sb_fingerprint_key_version :: string
  sb_fingerprint_key_material_verifier :: string
  sb_global_safety_generation :: int
  sb_family_state_version :: int
  sb_family_safety_generation :: int
  sb_provider_safety_snapshot_hmac :: string

text \<open>
  A classified provider observation carries a seal (only \<open>_issue_classified_provider_observation\<close>
  sets it) and a one-use flag: \<open>_consume\<close> sets it and refuses a second use.
\<close>

record observation =
  ob_component :: component
  ob_classification :: classification
  ob_terminal_outcome :: outcome
  ob_dispatch_started :: bool
  ob_response_received :: bool
  ob_strict_usage :: "strict_usage option"
  ob_actual_cost :: "int option"
  ob_safety_action :: safety_action
  ob_sealed :: bool
  ob_consumed :: bool

definition issue_observation ::
  "component \<Rightarrow> classification \<Rightarrow> outcome \<Rightarrow> bool \<Rightarrow> bool \<Rightarrow> strict_usage option \<Rightarrow> int option
    \<Rightarrow> safety_action \<Rightarrow> observation" where
  "issue_observation c cl t started received usage cost act =
     \<lparr>ob_component = c, ob_classification = cl, ob_terminal_outcome = t,
      ob_dispatch_started = started, ob_response_received = received,
      ob_strict_usage = usage, ob_actual_cost = cost, ob_safety_action = act,
      ob_sealed = True, ob_consumed = False\<rparr>"

definition consume_observation :: "observation \<Rightarrow> observation result" where
  "consume_observation ob =
     (if \<not> ob_sealed ob \<or> ob_consumed ob
      then Inl (Type_Error ''classified provider observation is unavailable'')
      else Inr (ob\<lparr>ob_consumed := True\<rparr>))"

end
