(* ===== verification/Retrieval.thy ===== *)
theory Retrieval
  imports Money Runtime_Contracts Complex_Main
begin

text \<open>
  \<open>rag/retrieval.py\<close>: the bounded usage and budget values of the paid calls, and the identity of a
  prepared query embedding with its validation against the readiness of the serving index. A \<open>Decimal\<close>
  amount with six places is its number of micro-USD.
\<close>

section \<open>Settings\<close>

record rag_settings =
  fingerprint_secret :: string
  fingerprint_key_version :: string
  paraworks_env :: string

definition local_fingerprint_secret :: string where
  "local_fingerprint_secret = ''local-development-agent-runtime-fingerprint-secret''"

definition fingerprint_secret_bytes :: "rag_settings \<Rightarrow> (string \<times> string) result" where
  "fingerprint_secret_bytes st =
     (let secret = fingerprint_secret st; key_version = strip (fingerprint_key_version st)
      in if secret = [] \<or> key_version = []
         then Inl (Value_Error ''agent runtime fingerprint configuration is incomplete'')
         else if paraworks_env st = ''production'' \<and> secret = local_fingerprint_secret
         then Inl (Value_Error ''production requires a dedicated fingerprint secret'')
         else Inr (secret, key_version))"

definition settings_fingerprint ::
  "primitives \<Rightarrow> rag_settings \<Rightarrow> string \<Rightarrow> string \<Rightarrow> json \<Rightarrow> string result" where
  "settings_fingerprint P st schema_version policy_version v =
     then_r (fingerprint_secret_bytes st)
       (\<lambda>(secret, _). keyed_fingerprint P secret schema_version policy_version v)"

section \<open>Bounded values\<close>

definition signed_bigint_max :: int where
  "signed_bigint_max = 2 ^ 63 - 1"

definition is_signed_bigint :: "int \<Rightarrow> bool" where
  "is_signed_bigint i \<longleftrightarrow> 0 \<le> i \<and> i \<le> signed_bigint_max"

definition validate_strict_provider_usage :: "strict_usage \<Rightarrow> strict_usage result" where
  "validate_strict_provider_usage u =
     (if \<not> is_signed_bigint (input_tokens u) \<or> \<not> is_signed_bigint (output_tokens u)
         \<or> \<not> is_signed_bigint (total_tokens u)
         \<or> total_tokens u \<noteq> input_tokens u + output_tokens u
      then Inl (Value_Error ''provider usage must contain exact bounded totals'')
      else Inr u)"

text \<open>\<open>StrictProviderUsage(...)\<close>: the constructor validates, so an invalid value never exists.\<close>

definition make_strict_usage :: "int \<Rightarrow> int \<Rightarrow> int \<Rightarrow> strict_usage result" where
  "make_strict_usage i out t =
     validate_strict_provider_usage \<lparr>input_tokens = i, output_tokens = out, total_tokens = t\<rparr>"

lemma validate_strict_Inr [simp]:
  "validate_strict_provider_usage u = Inr v \<longleftrightarrow>
     v = u \<and> is_signed_bigint (input_tokens u) \<and> is_signed_bigint (output_tokens u)
     \<and> is_signed_bigint (total_tokens u) \<and> total_tokens u = input_tokens u + output_tokens u"
  by (auto simp: validate_strict_provider_usage_def)

definition is_storage_amount :: "int \<Rightarrow> bool" where
  "is_storage_amount m \<longleftrightarrow> 0 \<le> m \<and> is_storage_decimal (of_micro (nat m))"

record prepared_budget =
  pb_component :: component
  pb_input_tokens :: int
  pb_output_tokens :: int
  pb_reserved_cost :: int
  pb_policy_hmac :: string
  pb_estimator_hmac :: string

definition validate_query_embedding_budget :: "prepared_budget \<Rightarrow> unit result" where
  "validate_query_embedding_budget b =
     (if pb_component b \<noteq> Query_Embedding
         \<or> \<not> is_signed_bigint (pb_input_tokens b)
         \<or> \<not> is_signed_bigint (pb_output_tokens b)
         \<or> pb_output_tokens b \<noteq> 0
         \<or> \<not> is_storage_amount (pb_reserved_cost b)
         \<or> \<not> is_lower_hex_64 (pb_policy_hmac b)
         \<or> \<not> is_lower_hex_64 (pb_estimator_hmac b)
      then Inl (Value_Error ''query embedding budget is invalid'') else Inr ())"

section \<open>Query embedding identities\<close>

definition query_embedding_model :: string where
  "query_embedding_model = ''text-embedding-3-small''"
definition query_embedding_dimensions :: int where
  "query_embedding_dimensions = 1536"
definition query_config_version :: string where
  "query_config_version = ''rag-query-embedding-config:v1''"
definition query_provider_policy_version :: string where
  "query_provider_policy_version = ''openai-embeddings-api:v1''"
definition query_payload_validator_version :: string where
  "query_payload_validator_version = ''rag-query-embedding-payload:v1''"
definition query_index_policy_version :: string where
  "query_index_policy_version = ''rag-v2-serving-index:v1''"

definition query_hmac_of_utf8 :: "primitives \<Rightarrow> rag_settings \<Rightarrow> string \<Rightarrow> string result" where
  "query_hmac_of_utf8 P st q =
     (if \<not> utf8_valid q then Inl (Value_Error ''query embedding query bytes are invalid'')
      else (case exact_utf8_bytes q of
              Inl _ \<Rightarrow> Inl (Value_Error ''query embedding query bytes are invalid'')
            | Inr identity \<Rightarrow>
                settings_fingerprint P st ''rag-query-embedding-query:v1'' query_config_version identity))"

definition query_model_config_payload :: json where
  "query_model_config_payload = JObj
    [(''api_base_url'', JStr ''https://api.openai.com/v1''),
     (''dimensions'', JInt query_embedding_dimensions),
     (''encoding_format'', JStr ''float''),
     (''endpoint_identity'', JStr ''openai-direct-standard-global:v1''),
     (''input_count_per_query_call'', JInt 1),
     (''max_provider_attempts'', JInt 1),
     (''model'', JStr query_embedding_model),
     (''provider'', JStr ''openai''),
     (''provider_send_start_window_seconds'', JInt 5),
     (''regional_processing'', JBool False),
     (''sdk_retry'', JInt 0),
     (''timeout_seconds'', JInt 30)]"

definition query_model_config_hmac :: "primitives \<Rightarrow> rag_settings \<Rightarrow> string result" where
  "query_model_config_hmac P st =
     settings_fingerprint P st ''rag-query-embedding-model-config-snapshot:v1''
       query_config_version query_model_config_payload"

definition query_provider_policy_hmac :: "primitives \<Rightarrow> rag_settings \<Rightarrow> string result" where
  "query_provider_policy_hmac P st =
     settings_fingerprint P st ''rag-query-embedding-provider-policy:v1''
       query_provider_policy_version
       (JObj [(''provider'', JStr ''openai''),
              (''protocol_family'', JStr query_provider_policy_version),
              (''payload_validator'', JStr query_payload_validator_version),
              (''max_provider_attempts'', JInt 1)])"

definition storage_representation :: "int \<Rightarrow> string result" where
  "storage_representation m =
     (if 0 \<le> m then decimal_storage_representation (of_micro (nat m))
      else Inl (Value_Error ''query embedding cost is invalid''))"

record prepared_embedding =
  pe_query_hmac :: string
  pe_query_utf8 :: string
  pe_corpus_generation :: int
  pe_vector_index_generation :: int
  pe_readiness_hmac :: string
  pe_model_config_hmac :: string
  pe_provider_policy_hmac :: string
  pe_input_tokens :: int
  pe_reserved_cost :: int
  pe_attempt_fence_hmac :: string
  pe_budget :: prepared_budget

definition query_attempt_fence ::
  "primitives \<Rightarrow> rag_settings \<Rightarrow> prepared_embedding \<Rightarrow> string \<Rightarrow> string \<Rightarrow> string result" where
  "query_attempt_fence P st pe model_hmac provider_hmac =
     (let b = pe_budget pe in
      then_r (storage_representation (pb_reserved_cost b)) (\<lambda>cost.
        settings_fingerprint P st ''rag-query-embedding-attempt-fence:v1'' query_config_version
         (JObj [(''query_hmac'', JStr (pe_query_hmac pe)),
                (''corpus_generation'', JInt (pe_corpus_generation pe)),
                (''vector_index_generation'', JInt (pe_vector_index_generation pe)),
                (''readiness_snapshot_hmac'', JStr (pe_readiness_hmac pe)),
                (''model_config_snapshot_hmac'', JStr model_hmac),
                (''provider_policy_snapshot_hmac'', JStr provider_hmac),
                (''budget_component'', JStr (component_name (pb_component b))),
                (''estimated_input_tokens'', JInt (pb_input_tokens b)),
                (''maximum_output_tokens'', JInt (pb_output_tokens b)),
                (''reserved_cost_usd'', JStr cost),
                (''cost_policy_snapshot_hmac'', JStr (pb_policy_hmac b)),
                (''estimator_input_hmac'', JStr (pb_estimator_hmac b))])))"

section \<open>Serving readiness\<close>

record readiness =
  rd_ready :: bool
  rd_corpus_generation :: int
  rd_vector_index_generation :: int
  rd_expected_document_count :: int
  rd_live_vector_count :: int
  rd_tombstone_count :: int
  rd_mismatch_count :: int
  rd_embedding_model :: string
  rd_embedding_dimensions :: int
  rd_index_policy_version :: string
  rd_snapshot_hmac :: string

definition validate_readiness :: "readiness \<Rightarrow> readiness result" where
  "validate_readiness v =
     (if \<not> is_signed_bigint (rd_corpus_generation v)
         \<or> \<not> is_signed_bigint (rd_vector_index_generation v)
         \<or> \<not> is_signed_bigint (rd_expected_document_count v)
         \<or> \<not> is_signed_bigint (rd_live_vector_count v)
         \<or> \<not> is_signed_bigint (rd_tombstone_count v)
         \<or> \<not> is_signed_bigint (rd_mismatch_count v)
         \<or> rd_mismatch_count v > 20
         \<or> rd_embedding_model v \<noteq> query_embedding_model
         \<or> rd_embedding_dimensions v \<noteq> query_embedding_dimensions
         \<or> rd_index_policy_version v \<noteq> query_index_policy_version
         \<or> \<not> is_lower_hex_64 (rd_snapshot_hmac v)
      then Inl (Value_Error ''serving index readiness snapshot is invalid'')
      else Inr v)"

definition readiness_differs :: "readiness option \<Rightarrow> prepared_embedding \<Rightarrow> bool" where
  "readiness_differs expected pe =
     (case expected of None \<Rightarrow> False
      | Some r \<Rightarrow> (pe_corpus_generation pe, pe_vector_index_generation pe, pe_readiness_hmac pe)
                 \<noteq> (rd_corpus_generation r, rd_vector_index_generation r, rd_snapshot_hmac r))"

definition bytes_differ :: "string option \<Rightarrow> prepared_embedding \<Rightarrow> bool" where
  "bytes_differ expected pe =
     (case expected of None \<Rightarrow> False | Some q \<Rightarrow> pe_query_utf8 pe \<noteq> q)"

definition invalid_embedding :: "'a result" where
  "invalid_embedding = Inl (Value_Error ''prepared query embedding is invalid'')"

text \<open>
  \<open>validate_prepared_query_embedding\<close>: every identity is computed afresh from the settings and
  compared; every failure, of a check or of a computation, is the one \<open>ValueError\<close>.
\<close>

definition validate_prepared_embedding ::
  "primitives \<Rightarrow> rag_settings \<Rightarrow> string option \<Rightarrow> readiness option \<Rightarrow> prepared_embedding
    \<Rightarrow> prepared_embedding result" where
  "validate_prepared_embedding P st expected_query expected_readiness pe =
     (if bytes_differ expected_query pe
         \<or> \<not> is_signed_bigint (pe_corpus_generation pe)
         \<or> \<not> is_signed_bigint (pe_vector_index_generation pe)
         \<or> \<not> is_lower_hex_64 (pe_readiness_hmac pe)
         \<or> \<not> is_signed_bigint (pe_input_tokens pe)
         \<or> \<not> is_lower_hex_64 (pe_query_hmac pe)
         \<or> query_hmac_of_utf8 P st (pe_query_utf8 pe) \<noteq> Inr (pe_query_hmac pe)
         \<or> readiness_differs expected_readiness pe
      then invalid_embedding
      else case validate_query_embedding_budget (pe_budget pe) of
        Inl _ \<Rightarrow> invalid_embedding
      | Inr _ \<Rightarrow>
       (case (query_model_config_hmac P st, query_provider_policy_hmac P st) of
          (Inr model_hmac, Inr provider_hmac) \<Rightarrow>
            (case query_attempt_fence P st pe model_hmac provider_hmac of
               Inl _ \<Rightarrow> invalid_embedding
             | Inr fence \<Rightarrow>
                 (if \<not> is_lower_hex_64 (pe_model_config_hmac pe)
                     \<or> pe_model_config_hmac pe \<noteq> model_hmac
                     \<or> \<not> is_lower_hex_64 (pe_provider_policy_hmac pe)
                     \<or> pe_provider_policy_hmac pe \<noteq> provider_hmac
                     \<or> pe_input_tokens pe \<noteq> pb_input_tokens (pe_budget pe)
                     \<or> \<not> (is_storage_amount (pe_reserved_cost pe)
                          \<and> is_storage_amount (pb_reserved_cost (pe_budget pe))
                          \<and> storage_representation (pe_reserved_cost pe)
                              = storage_representation (pb_reserved_cost (pe_budget pe)))
                     \<or> \<not> is_lower_hex_64 (pe_attempt_fence_hmac pe)
                     \<or> pe_attempt_fence_hmac pe \<noteq> fence
                  then invalid_embedding else Inr pe))
        | _ \<Rightarrow> invalid_embedding))"

section \<open>A concrete environment\<close>

text \<open>
  The witnesses of the development share this instance of the library parameters: the identity as
  normal form and a constant digest.
\<close>

definition demo_digest :: string where
  "demo_digest = replicate 64 CHR ''a''"

definition demo_primitives :: primitives where
  "demo_primitives = \<lparr>nfc = (\<lambda>s. s), hmac_sha256_hex = (\<lambda>_ _. demo_digest)\<rparr>"

definition demo_settings :: rag_settings where
  "demo_settings = \<lparr>fingerprint_secret = ''secret'', fingerprint_key_version = ''v1'',
                    paraworks_env = ''local''\<rparr>"

definition demo_budget :: prepared_budget where
  "demo_budget = \<lparr>pb_component = Query_Embedding, pb_input_tokens = 10, pb_output_tokens = 0,
                  pb_reserved_cost = 1, pb_policy_hmac = demo_digest,
                  pb_estimator_hmac = demo_digest\<rparr>"

definition demo_embedding :: prepared_embedding where
  "demo_embedding =
     \<lparr>pe_query_hmac = demo_digest, pe_query_utf8 = ''query'', pe_corpus_generation = 3,
      pe_vector_index_generation = 3, pe_readiness_hmac = demo_digest,
      pe_model_config_hmac = demo_digest, pe_provider_policy_hmac = demo_digest,
      pe_input_tokens = 10, pe_reserved_cost = 1, pe_attempt_fence_hmac = demo_digest,
      pe_budget = demo_budget\<rparr>"

definition demo_readiness :: readiness where
  "demo_readiness =
     \<lparr>rd_ready = True, rd_corpus_generation = 3, rd_vector_index_generation = 3,
      rd_expected_document_count = 2, rd_live_vector_count = 2, rd_tombstone_count = 0,
      rd_mismatch_count = 0, rd_embedding_model = query_embedding_model,
      rd_embedding_dimensions = query_embedding_dimensions,
      rd_index_policy_version = query_index_policy_version, rd_snapshot_hmac = demo_digest\<rparr>"

lemma demo_hmac [simp]: "hmac_sha256_hex demo_primitives k m = demo_digest"
  and demo_nfc [simp]: "nfc demo_primitives = (\<lambda>s. s)"
  by (simp_all add: demo_primitives_def)

lemma demo_digest_hex [simp]: "is_lower_hex_64 demo_digest"
  by (simp add: is_lower_hex_64_def demo_digest_def lower_hex_def list_all_iff)

lemma demo_digest_ne [simp]: "demo_digest \<noteq> []"
  by (simp add: demo_digest_def)

text \<open>Signing a payload that normalises gives the digest, whatever the payload.\<close>

lemma demo_digest_valid [simp]: "utf8_valid demo_digest"
  by (rule utf8_valid_ascii) (simp add: demo_digest_def list_all_iff)

text \<open>A payload of well-formed strings without a repeated key.\<close>

fun json_plain :: "json \<Rightarrow> bool" where
  "json_plain (JStr s) = utf8_valid s"
| "json_plain (JList xs) = list_all json_plain xs"
| "json_plain (JObj kvs) =
     (distinct (map fst kvs) \<and> list_all (\<lambda>(k, v). utf8_valid k \<and> json_plain v) kvs)"
| "json_plain (JFloat r) = (r \<notin> set [''nan'', ''inf'', ''-inf''])"
| "json_plain _ = True"

lemma hex_digit_ascii: "n < 16 \<Longrightarrow> \<not> digit7 (hex_digit n)"
proof -
  assume "n < 16"
  then have "n \<in> set [0..<16]" by simp
  moreover have "list_all (\<lambda>n. \<not> digit7 (hex_digit n)) [0..<16]" by code_simp
  ultimately show ?thesis unfolding list_all_iff by blast
qed

lemma json_plain_utf8 [simp]: "json_plain (utf8_json s)"
proof -
  have "of_char c div 16 < (16 :: nat)" for c :: char
    using of_char_mod_256 [of c, where 'a = nat] by (metis (no_types) less_mult_imp_div_less
        mod_less_divisor numeral_times_numeral semiring_norm(12,13,14) zero_less_numeral)
  then have "utf8_valid (concat (map hex_byte s))"
    by (intro utf8_valid_ascii) (auto simp: list_all_iff hex_byte_def hex_digit_ascii)
  then show ?thesis by (simp add: utf8_json_def utf8_valid_ascii)
qed

lemma json_plain_encodable: "json_plain v \<Longrightarrow> json_encodable v"
  by (induction v) (fastforce simp: list_all_iff)+

lemma json_plain_normal:
  "json_plain v \<Longrightarrow> normalize_json (\<lambda>s. s) v = Inr v"
  "list_all json_plain vs \<Longrightarrow> normalize_items (\<lambda>s. s) vs = Inr vs"
  "distinct (map fst kvs) \<Longrightarrow> set (map fst kvs) \<inter> set seen = {} \<Longrightarrow> list_all (json_plain \<circ> snd) kvs
     \<Longrightarrow> normalize_members (\<lambda>s. s) seen kvs = Inr kvs"
proof (induction "\<lambda>s::string. s" v and "\<lambda>s::string. s" vs and "\<lambda>s::string. s" seen kvs
    rule: normalize_json_normalize_items_normalize_members.induct)
qed (auto simp: list_all_iff Let_def case_prod_unfold)

lemma demo_keyed:
  assumes "secret \<noteq> []" and "sv \<noteq> []" and "plain (hd sv)" and "plain (last sv)"
    and "pv \<noteq> []" and "plain (hd pv)" and "plain (last pv)"
    and "utf8_valid sv" and "utf8_valid pv" and "json_plain v"
  shows "keyed_fingerprint demo_primitives secret sv pv v = Inr demo_digest"
proof -
  let ?p = "JObj [(''domain'', JStr ''paraworks:keyed-fingerprint:v1''), (''policy_version'', JStr pv),
                  (''schema_version'', JStr sv), (''value'', v)]"
  have "utf8_valid ''domain''" "utf8_valid ''paraworks:keyed-fingerprint:v1''"
    "utf8_valid ''policy_version''" "utf8_valid ''schema_version''" "utf8_valid ''value''"
    by (simp_all add: utf8_valid_ascii)
  then have "json_plain ?p" using assms by simp
  moreover have "strip sv \<noteq> []" and "strip pv \<noteq> []"
    using strip_plain assms by metis+
  ultimately show ?thesis
    using assms(1) by (simp add: keyed_fingerprint_def canonical_json_bytes_def json_plain_normal(1)
        json_plain_encodable del: json_plain.simps normalize_json.simps json_dumps.simps json_encodable.simps)
qed

lemma demo_settings_secret: "fingerprint_secret_bytes demo_settings = Inr (''secret'', ''v1'')"
  by (simp add: fingerprint_secret_bytes_def demo_settings_def local_fingerprint_secret_def
      strip_plain plain_def)

lemmas demo_identity =
  demo_keyed demo_settings_secret settings_fingerprint_def plain_def utf8_valid_ascii

lemma demo_embedding_valid:
  "validate_prepared_embedding demo_primitives demo_settings (Some ''query'') None demo_embedding
     = Inr demo_embedding"
proof -
  have s: "storage_representation 1 = Inr ''0.000001''" and amount: "is_storage_amount 1"
    and u: "utf8_valid ''query''" and x: "exact_utf8_bytes ''query'' = Inr (utf8_json ''query'')"
    by code_simp+
  have "query_hmac_of_utf8 demo_primitives demo_settings ''query'' = Inr demo_digest"
    by (simp add: query_hmac_of_utf8_def u x demo_identity query_config_version_def)
  moreover have "query_model_config_hmac demo_primitives demo_settings = Inr demo_digest"
    by (simp add: query_model_config_hmac_def query_model_config_payload_def demo_identity
        query_config_version_def query_embedding_model_def)
  moreover have "query_provider_policy_hmac demo_primitives demo_settings = Inr demo_digest"
    by (simp add: query_provider_policy_hmac_def demo_identity query_provider_policy_version_def
        query_payload_validator_version_def)
  moreover have "query_attempt_fence demo_primitives demo_settings demo_embedding demo_digest demo_digest
      = Inr demo_digest"
    by (simp add: query_attempt_fence_def demo_embedding_def demo_budget_def s demo_identity
        query_config_version_def)
  moreover have "validate_query_embedding_budget demo_budget = Inr ()"
    by (simp add: validate_query_embedding_budget_def demo_budget_def amount is_signed_bigint_def
        signed_bigint_max_def)
  ultimately show ?thesis
    by (simp add: validate_prepared_embedding_def demo_embedding_def bytes_differ_def
        readiness_differs_def is_signed_bigint_def signed_bigint_max_def)
      (simp add: demo_budget_def amount)
qed

end
