(* ===== verification/Security_Scope.thy ===== *)
theory Security_Scope
  imports Retrieval
begin

text \<open>
  \<open>agent_runtime/rag_v2_identity.py\<close>: the security scope of a request, the checks its constructor
  makes, the scope the server resolves for an actor, and the keyed fingerprint that travels with it.
\<close>

section \<open>The scope and its constructor\<close>

record security_scope =
  sc_contract_version :: string
  sc_principal_subject :: string
  sc_workspace_scope_id :: string
  sc_resource_scope_mode :: string
  sc_project_constraints :: "string list"
  sc_source_constraints :: "string list"
  sc_allowed_permission_levels :: "string list"
  sc_auth_policy_version :: string
  sc_permission_policy_version :: string

definition permission_levels :: "string list" where
  "permission_levels = [''public'', ''internal'', ''restricted'']"
definition security_scope_contract_version :: string where
  "security_scope_contract_version = ''rag-security-scope:v1''"
definition auth_policy_version :: string where
  "auth_policy_version = ''demo-auth:v1''"
definition permission_policy_version :: string where
  "permission_policy_version = ''rag-permission-policy:v1''"

definition require_nonblank_exact :: "string \<Rightarrow> unit result" where
  "require_nonblank_exact v =
     then_r (validate_scalars v) (\<lambda>_.
       if strip v = [] \<or> v \<noteq> strip v
       then Inl (Value_Error ''security scope string is invalid'') else Inr ())"

definition project_constraint_ok :: "primitives \<Rightarrow> string \<Rightarrow> unit result" where
  "project_constraint_ok P v =
     then_r (validate_scalars v) (\<lambda>_.
       if \<not> prefix ''project_key:'' v \<or> removeprefix ''project_key:'' v = []
       then Inl (Value_Error ''project constraint is invalid'')
       else if v \<noteq> ''project_key:'' @ nfc P (removeprefix ''project_key:'' v)
       then Inl (Value_Error ''project constraint is not canonical'')
       else Inr ())"

definition validate_project_constraints :: "primitives \<Rightarrow> string list \<Rightarrow> unit result" where
  "validate_project_constraints P vs =
     then_r (each_r (project_constraint_ok P) vs) (\<lambda>_.
       if sort vs \<noteq> vs \<or> \<not> distinct vs
       then Inl (Value_Error ''project constraints are not ordered'') else Inr ())"

text \<open>\<open>raw.isascii() and raw.isdecimal()\<close>, and \<open>int(raw)\<close> of such a string.\<close>

definition ascii_decimal :: "string \<Rightarrow> bool" where
  "ascii_decimal s \<longleftrightarrow> s \<noteq> [] \<and> list_all (\<lambda>c. c \<in> set ''0123456789'') s"

fun read_decimal :: "nat \<Rightarrow> string \<Rightarrow> nat" where
  "read_decimal acc [] = acc"
| "read_decimal acc (c # s) = read_decimal (10 * acc + (of_char c - 48)) s"

definition source_identifier :: "string \<Rightarrow> nat result" where
  "source_identifier v =
     then_r (validate_scalars v) (\<lambda>_.
       if \<not> prefix ''source_pk:'' v then Inl (Value_Error ''source constraint is invalid'')
       else let raw = removeprefix ''source_pk:'' v in
         if \<not> ascii_decimal raw then Inl (Value_Error ''source constraint is invalid'')
         else let identifier = read_decimal 0 raw in
           if identifier = 0 \<or> decimal_nat identifier \<noteq> raw
           then Inl (Value_Error ''source constraint is invalid'')
           else Inr identifier)"

fun source_identifiers :: "string list \<Rightarrow> nat list result" where
  "source_identifiers [] = Inr []"
| "source_identifiers (v # vs) =
     then_r (source_identifier v) (\<lambda>i. then_r (source_identifiers vs) (\<lambda>is. Inr (i # is)))"

definition validate_source_constraints :: "string list \<Rightarrow> unit result" where
  "validate_source_constraints vs =
     then_r (source_identifiers vs) (\<lambda>ids.
       if ids \<noteq> sort ids \<or> \<not> distinct ids
       then Inl (Value_Error ''source constraints are not ordered'') else Inr ())"

definition validate_permission_levels :: "string list \<Rightarrow> unit result" where
  "validate_permission_levels vs =
     (if list_ex (\<lambda>v. v \<notin> set permission_levels) vs
      then Inl (Value_Error ''security scope permissions are invalid'')
      else if vs \<noteq> filter (\<lambda>l. l \<in> set vs) permission_levels
      then Inl (Value_Error ''security scope permissions are not ordered'')
      else Inr ())"

text \<open>\<open>SecurityScope.__post_init__\<close>, check by check.\<close>

definition make_security_scope :: "primitives \<Rightarrow> security_scope \<Rightarrow> security_scope result" where
  "make_security_scope P s =
     then_r (require (sc_contract_version s = security_scope_contract_version)
               (Value_Error ''security scope contract version is invalid'')) (\<lambda>_.
     then_r (require_nonblank_exact (sc_principal_subject s)) (\<lambda>_.
     then_r (require_nonblank_exact (sc_workspace_scope_id s)) (\<lambda>_.
     then_r (require_nonblank_exact (sc_auth_policy_version s)) (\<lambda>_.
     then_r (require_nonblank_exact (sc_permission_policy_version s)) (\<lambda>_.
     then_r (require (sc_auth_policy_version s = auth_policy_version)
               (Value_Error ''security scope auth policy version is invalid'')) (\<lambda>_.
     then_r (require (sc_permission_policy_version s = permission_policy_version)
               (Value_Error ''security scope permission policy version is invalid'')) (\<lambda>_.
     then_r (require (sc_resource_scope_mode s \<in> set [''all_current_scope'', ''constrained''])
               (Value_Error ''security scope mode is invalid'')) (\<lambda>_.
     then_r (validate_project_constraints P (sc_project_constraints s)) (\<lambda>_.
     then_r (validate_source_constraints (sc_source_constraints s)) (\<lambda>_.
     then_r (validate_permission_levels (sc_allowed_permission_levels s)) (\<lambda>_.
     if (sc_resource_scope_mode s = ''all_current_scope'')
          \<noteq> (sc_project_constraints s = [] \<and> sc_source_constraints s = [])
     then Inl (Value_Error ''security scope mode and constraints do not match'')
     else Inr s)))))))))))"

text \<open>\<open>ServerRagSecurityScopeResolver.resolve\<close>.\<close>

definition resolve_server_scope ::
  "primitives \<Rightarrow> string \<Rightarrow> string \<Rightarrow> string list \<Rightarrow> security_scope result" where
  "resolve_server_scope P scope_id actor_id actor_levels =
     make_security_scope P
       \<lparr>sc_contract_version = security_scope_contract_version,
        sc_principal_subject = actor_id,
        sc_workspace_scope_id = scope_id,
        sc_resource_scope_mode = ''all_current_scope'',
        sc_project_constraints = [], sc_source_constraints = [],
        sc_allowed_permission_levels = filter (\<lambda>l. l \<in> set actor_levels) permission_levels,
        sc_auth_policy_version = auth_policy_version,
        sc_permission_policy_version = permission_policy_version\<rparr>"

section \<open>Its fingerprint\<close>

fun exact_utf8_list :: "string list \<Rightarrow> json list result" where
  "exact_utf8_list [] = Inr []"
| "exact_utf8_list (v # vs) =
     then_r (exact_utf8_bytes v) (\<lambda>j. then_r (exact_utf8_list vs) (\<lambda>js. Inr (j # js)))"

definition security_scope_fingerprint ::
  "primitives \<Rightarrow> rag_settings \<Rightarrow> security_scope \<Rightarrow> string result" where
  "security_scope_fingerprint P st s =
     then_r (fingerprint_secret_bytes st) (\<lambda>_.
     then_r (exact_utf8_bytes (sc_principal_subject s)) (\<lambda>principal.
     then_r (exact_utf8_bytes (sc_workspace_scope_id s)) (\<lambda>workspace.
     then_r (exact_utf8_list (sc_project_constraints s)) (\<lambda>projects.
     then_r (exact_utf8_list (sc_source_constraints s)) (\<lambda>sources.
     then_r (exact_utf8_bytes (sc_auth_policy_version s)) (\<lambda>auth.
     then_r (exact_utf8_bytes (sc_permission_policy_version s)) (\<lambda>permission.
       settings_fingerprint P st ''rag-security-scope-fingerprint:v1'' security_scope_contract_version
        (JObj [(''contract_version'', JStr (sc_contract_version s)),
               (''principal_subject_bytes'', principal),
               (''workspace_scope_id_bytes'', workspace),
               (''resource_scope_mode'', JStr (sc_resource_scope_mode s)),
               (''project_constraint_bytes'', JList projects),
               (''source_constraint_bytes'', JList sources),
               (''allowed_permission_levels'', JList (map JStr (sc_allowed_permission_levels s))),
               (''auth_policy_version_bytes'', auth),
               (''permission_policy_version_bytes'', permission)]))))))))"

definition verify_scope_fingerprint ::
  "primitives \<Rightarrow> rag_settings \<Rightarrow> security_scope \<Rightarrow> string \<Rightarrow> unit result" where
  "verify_scope_fingerprint P st s fingerprint =
     then_r (security_scope_fingerprint P st s) (\<lambda>expected.
       if expected \<noteq> fingerprint
       then Inl (Value_Error ''serialized security scope fingerprint does not match'')
       else Inr ())"

end
