(* ===== verification/Evidence_Retrieval.thy ===== *)
theory Evidence_Retrieval
  imports Security_Scope "HOL-Library.Product_Lexorder" "HOL-Library.Multiset"
begin

text \<open>
  The evidence side of \<open>rag/retrieval.py\<close> (candidates, slots, requests, the retriever registry) and the
  two retrievers, \<open>rag/keyword_retriever.py\<close> and \<open>rag/pgvector_retriever.py\<close>. What a store, a
  readiness inspection or the clock returns is an argument. A relevance score is a finite float,
  hence a rational; \<open>float_repr\<close> is its \<open>repr\<close>, which the JSON encoder writes.
\<close>

section \<open>Evidence\<close>

datatype serving_kind = Trusted_Knowledge | Raw_Chunk

text \<open>The fields of \<open>ServingEvidence\<close> that retrieval, slot assignment and the answer read.\<close>

record evidence =
  ev_serving_document_id :: string
  ev_serving_kind :: serving_kind
  ev_public_source_id :: string
  ev_public_source_type :: "string option"
  ev_support_mode :: string
  ev_model_content :: string
  ev_effective_permission :: string
  ev_serving_identity_hmac :: string
  ev_serving_version_fingerprint :: string
  ev_model_content_hmac :: string
  ev_citation_projection_hmac :: string

record candidate =
  ca_evidence :: evidence
  ca_score :: rat
  ca_matched_terms :: "string list"

definition make_candidate :: "evidence \<Rightarrow> rat \<Rightarrow> string list \<Rightarrow> candidate result" where
  "make_candidate e score terms =
     (if score \<le> 0 then Inl (Value_Error ''retrieval candidate is invalid'')
      else Inr \<lparr>ca_evidence = e, ca_score = score, ca_matched_terms = terms\<rparr>)"

record slot =
  sl_slot_id :: string
  sl_support_mode :: string
  sl_evidence :: evidence
  sl_score :: rat
  sl_matched_terms :: "string list"

definition evidence_slot_ids :: "string list" where
  "evidence_slot_ids = [''E1'', ''E2'', ''E3'', ''E4'', ''E5'', ''E6'', ''E7'', ''E8'']"

definition is_trusted :: "candidate \<Rightarrow> bool" where
  "is_trusted c \<longleftrightarrow> ev_serving_kind (ca_evidence c) = Trusted_Knowledge"

definition is_raw :: "candidate \<Rightarrow> bool" where
  "is_raw c \<longleftrightarrow> ev_serving_kind (ca_evidence c) = Raw_Chunk"

definition content_chars :: "candidate list \<Rightarrow> nat" where
  "content_chars cs = sum_list (map (\<lambda>c. code_points (ev_model_content (ca_evidence c))) cs)"

text \<open>\<open>while ordered and sum(...) > limit: ordered.pop()\<close>.\<close>

function trim_tail :: "nat \<Rightarrow> candidate list \<Rightarrow> candidate list" where
  "trim_tail limit cs =
     (if cs \<noteq> [] \<and> content_chars cs > limit then trim_tail limit (butlast cs) else cs)"
  by auto
termination by (relation "measure (\<lambda>(_, cs). length cs)") auto

declare trim_tail.simps [simp del]

definition slot_of :: "string \<Rightarrow> candidate \<Rightarrow> slot" where
  "slot_of sid c =
     \<lparr>sl_slot_id = sid, sl_support_mode = ev_support_mode (ca_evidence c),
      sl_evidence = ca_evidence c, sl_score = ca_score c, sl_matched_terms = ca_matched_terms c\<rparr>"

definition ordered_candidates :: "candidate list \<Rightarrow> candidate list" where
  "ordered_candidates cs = take 8 (filter is_trusted cs @ filter is_raw cs)"

definition rank_evidence_slots :: "int option \<Rightarrow> candidate list \<Rightarrow> slot list result" where
  "rank_evidence_slots limit cs =
     (case limit of
        Some l \<Rightarrow>
          if l < 0 then Inl (Value_Error ''evidence content budget is invalid'')
          else Inr (map2 slot_of evidence_slot_ids (trim_tail (nat l) (ordered_candidates cs)))
      | None \<Rightarrow> Inr (map2 slot_of evidence_slot_ids (ordered_candidates cs)))"

section \<open>Requests\<close>

text \<open>The vector carrier is checked by \<open>rag/embeddings.py\<close>: here a type of its own.\<close>

record embedding_receipt =
  er_attempted :: bool
  er_input_tokens :: int
  er_actual_cost :: int
  er_latency_ms :: int
  er_outcome :: string
  er_model_config_hmac :: string
  er_provider_policy_hmac :: string

record 'v embedding_result =
  qe_prepared :: prepared_embedding
  qe_vector :: 'v
  qe_attempted :: bool
  qe_input_tokens :: int
  qe_actual_cost :: int
  qe_receipt :: embedding_receipt

record 'v retrieval_request =
  rq_query_text :: string
  rq_scope :: security_scope
  rq_scope_fingerprint :: string
  rq_embedding :: "'v embedding_result option"
  rq_scan_limit :: int
  rq_visible_limit :: int
  rq_policy_version :: string

definition make_request :: "'v retrieval_request \<Rightarrow> 'v retrieval_request result" where
  "make_request r =
     (if rq_scan_limit r \<noteq> 50 then Inl (Value_Error ''candidate scan limit must be exactly 50'')
      else if rq_visible_limit r \<notin> set [5, 8]
      then Inl (Value_Error ''visible limit must be exactly 5 or 8'')
      else if rq_policy_version r \<noteq> ''rag-retrieval-policy:v2.0''
      then Inl (Value_Error ''relevance policy version is invalid'')
      else Inr r)"

definition query_bytes_mismatch :: string where
  "query_bytes_mismatch = ''query bytes do not match the prepared embedding''"
definition carrier_invalid :: error where
  "carrier_invalid = Value_Error ''query embedding carrier is invalid''"

text \<open>
  \<open>validate_query_embedding_call_result\<close>; \<open>vector_ok\<close> is the check of the carrier. The mismatch of the
  query bytes keeps its own message, everything else is one error.
\<close>

definition receipt_matches :: "'v embedding_result \<Rightarrow> prepared_embedding \<Rightarrow> bool" where
  "receipt_matches qr pe =
     (let rc = qe_receipt qr in
      qe_attempted qr \<and> is_signed_bigint (qe_input_tokens qr)
      \<and> qe_input_tokens qr \<le> pe_input_tokens pe
      \<and> is_storage_amount (qe_actual_cost qr) \<and> qe_actual_cost qr \<le> pe_reserved_cost pe
      \<and> er_attempted rc \<and> is_signed_bigint (er_input_tokens rc)
      \<and> er_input_tokens rc = qe_input_tokens qr
      \<and> is_storage_amount (er_actual_cost rc)
      \<and> storage_representation (er_actual_cost rc) = storage_representation (qe_actual_cost qr)
      \<and> is_signed_bigint (er_latency_ms rc)
      \<and> er_outcome rc = ''component_succeeded''
      \<and> is_lower_hex_64 (er_model_config_hmac rc)
      \<and> er_model_config_hmac rc = pe_model_config_hmac pe
      \<and> is_lower_hex_64 (er_provider_policy_hmac rc)
      \<and> er_provider_policy_hmac rc = pe_provider_policy_hmac pe)"

definition validate_call_result ::
  "primitives \<Rightarrow> rag_settings \<Rightarrow> ('v \<Rightarrow> bool) \<Rightarrow> 'v retrieval_request \<Rightarrow> 'v embedding_result result"
where
  "validate_call_result P st vector_ok r =
     (case rq_embedding r of
        None \<Rightarrow> Inl carrier_invalid
      | Some qr \<Rightarrow>
          if \<not> utf8_valid (rq_query_text r) then Inl carrier_invalid
          else if pe_query_utf8 (qe_prepared qr) \<noteq> rq_query_text r
          then Inl (Value_Error query_bytes_mismatch)
          else (case validate_prepared_embedding P st (Some (rq_query_text r)) None (qe_prepared qr) of
                  Inl _ \<Rightarrow> Inl carrier_invalid
                | Inr pe \<Rightarrow> if vector_ok (qe_vector qr) \<and> receipt_matches qr pe
                            then Inr qr else Inl carrier_invalid))"

section \<open>The candidate window\<close>

datatype visibility = Visible | Denied_Known | Unknown_Permission
datatype resource_scope = In_Scope | Out_Of_Scope | Invalid_Scope

fun visibility_name :: "visibility \<Rightarrow> string" where
  "visibility_name Visible = ''visible''"
| "visibility_name Denied_Known = ''denied_known''"
| "visibility_name Unknown_Permission = ''unknown_permission''"

text \<open>\<open>ClassifiedRetrievalCandidate\<close>: a candidate and its access classification.\<close>

record classified = candidate +
  ca_eligible :: bool
  ca_scope :: resource_scope
  ca_visibility :: visibility

definition window_key :: "classified \<Rightarrow> nat \<times> rat \<times> string" where
  "window_key c =
     ((if ev_serving_kind (ca_evidence c) = Trusted_Knowledge then 0 else 1),
      - ca_score c, ev_serving_document_id (ca_evidence c))"

definition window_eligible :: "classified \<Rightarrow> bool" where
  "window_eligible c \<longleftrightarrow>
     ca_eligible c \<and> ca_scope c = In_Scope \<and> ca_visibility c \<in> {Visible, Denied_Known}"

definition keyword_window :: "classified list \<Rightarrow> int \<Rightarrow> classified list" where
  "keyword_window cs limit = take (nat limit) (sort_key window_key (filter window_eligible cs))"

definition pgvector_window :: "classified list \<Rightarrow> int \<Rightarrow> classified list" where
  "pgvector_window cs limit =
     take (nat limit)
       (sort_key window_key (filter (\<lambda>c. ca_score c \<ge> 1 / 4 \<and> window_eligible c) cs))"

fun window_payload :: "(rat \<Rightarrow> string) \<Rightarrow> classified list \<Rightarrow> json list result" where
  "window_payload float_repr [] = Inr []"
| "window_payload float_repr (c # cs) =
     then_r (exact_utf8_list (ca_matched_terms c)) (\<lambda>terms.
     then_r (window_payload float_repr cs) (\<lambda>js.
       Inr (JObj [(''serving_identity_hmac'', JStr (ev_serving_identity_hmac (ca_evidence c))),
                  (''serving_version_fingerprint'', JStr (ev_serving_version_fingerprint (ca_evidence c))),
                  (''score'', JFloat (float_repr (ca_score c))),
                  (''matched_term_bytes'', JList terms),
                  (''permission_visibility'', JStr (visibility_name (ca_visibility c)))] # js)))"

definition window_hmac ::
  "primitives \<Rightarrow> rag_settings \<Rightarrow> (rat \<Rightarrow> string) \<Rightarrow> string \<Rightarrow> classified list \<Rightarrow> string result" where
  "window_hmac P st float_repr schema_version window =
     then_r (fingerprint_secret_bytes st) (\<lambda>_.
     then_r (window_payload float_repr window) (\<lambda>js.
       settings_fingerprint P st schema_version ''rag-retrieval-policy:v2.0'' (JList js)))"

section \<open>The retrievers\<close>

record retrieval_trace =
  tr_window_count :: int
  tr_visible_count :: int
  tr_hidden_match_count :: int
  tr_provider_attempt_count :: int
  tr_latency_ms :: int
  tr_fallback_category :: "string option"

record retrieval_result =
  rr_configured_backend :: string
  rr_effective_backend :: string
  rr_visible :: "candidate list"
  rr_hidden_match_count :: int
  rr_hidden_count_capped :: bool
  rr_window_hmac :: string
  rr_receipt :: "embedding_receipt option"
  rr_trace :: retrieval_trace

fun make_candidates :: "classified list \<Rightarrow> candidate list result" where
  "make_candidates [] = Inr []"
| "make_candidates (c # cs) =
     then_r (make_candidate (ca_evidence c) (ca_score c) (ca_matched_terms c)) (\<lambda>d.
     then_r (make_candidates cs) (\<lambda>ds. Inr (d # ds)))"

definition latency_ms :: "int \<Rightarrow> int \<Rightarrow> int" where
  "latency_ms started_ns ended_ns = max 0 ((ended_ns - started_ns) div 1000000)"

definition window_result ::
  "string \<Rightarrow> string \<Rightarrow> int \<Rightarrow> embedding_receipt option \<Rightarrow> int \<Rightarrow> classified list \<Rightarrow> int
    \<Rightarrow> string result \<Rightarrow> retrieval_result result" where
  "window_result configured effective attempts receipt visible_limit window latency hmac =
     then_r (make_candidates
               (take (nat visible_limit) (filter (\<lambda>c. ca_visibility c = Visible) window))) (\<lambda>visible.
     then_r hmac (\<lambda>h.
       let denied = int (length (filter (\<lambda>c. ca_visibility c = Denied_Known) window));
           hidden = min denied 20
       in Inr \<lparr>rr_configured_backend = configured, rr_effective_backend = effective,
               rr_visible = visible, rr_hidden_match_count = hidden,
               rr_hidden_count_capped = (denied > 20), rr_window_hmac = h, rr_receipt = receipt,
               rr_trace = \<lparr>tr_window_count = int (length window),
                           tr_visible_count = int (length visible),
                           tr_hidden_match_count = hidden, tr_provider_attempt_count = attempts,
                           tr_latency_ms = latency, tr_fallback_category = None\<rparr>\<rparr>))"

definition keyword_invoke ::
  "primitives \<Rightarrow> rag_settings \<Rightarrow> (rat \<Rightarrow> string) \<Rightarrow> ('v retrieval_request \<Rightarrow> classified list result)
    \<Rightarrow> int \<Rightarrow> 'v retrieval_request \<Rightarrow> retrieval_result result" where
  "keyword_invoke P st float_repr search latency r =
     then_r (verify_scope_fingerprint P st (rq_scope r) (rq_scope_fingerprint r)) (\<lambda>_.
     if rq_embedding r \<noteq> None
     then Inl (Value_Error ''keyword retrieval does not accept a query embedding'')
     else then_r (search r) (\<lambda>found.
       let window = keyword_window found (rq_scan_limit r)
       in window_result ''keyword'' ''deterministic_lexical'' 0 None (rq_visible_limit r) window latency
            (window_hmac P st float_repr ''rag-keyword-candidate-window:v1'' window)))"

text \<open>
  The outcome of the vector store's search: its rows, the sanitized \<open>PgVectorSearchRuntimeError\<close> that may
  fall back, or any other exception, which is raised again.
\<close>

datatype store_outcome = Store_Rows "classified list" | Store_Runtime_Failure | Store_Raised error

definition storage_runtime_failure :: string where
  "storage_runtime_failure = ''pgvector_storage_runtime_failure''"
definition corpus_changed :: string where
  "corpus_changed = ''serving_corpus_changed_during_pgvector_query''"

definition matches_prepared_readiness :: "readiness \<Rightarrow> prepared_embedding \<Rightarrow> bool" where
  "matches_prepared_readiness rd pe \<longleftrightarrow>
     (rd_ready rd, rd_corpus_generation rd, rd_vector_index_generation rd, rd_snapshot_hmac rd)
       = (True, pe_corpus_generation pe, pe_vector_index_generation pe, pe_readiness_hmac pe)"

text \<open>\<open>PgVectorFallbackRequiredError\<close> leaves the fallback to the graph: \<open>Fallback_Required\<close>.\<close>

datatype pgvector_outcome = Retrieved retrieval_result | Fallback_Required string

definition keyword_fallback ::
  "bool \<Rightarrow> ('v retrieval_request \<Rightarrow> retrieval_result result) \<Rightarrow> int \<Rightarrow> 'v retrieval_request
    \<Rightarrow> 'v embedding_result \<Rightarrow> string \<Rightarrow> pgvector_outcome result" where
  "keyword_fallback defer keyword latency r qr category =
     (if defer then Inr (Fallback_Required category)
      else then_r (keyword (r\<lparr>rq_embedding := None\<rparr>)) (\<lambda>lexical.
        Inr (Retrieved
          \<lparr>rr_configured_backend = ''pgvector'', rr_effective_backend = ''deterministic_lexical'',
           rr_visible = rr_visible lexical, rr_hidden_match_count = rr_hidden_match_count lexical,
           rr_hidden_count_capped = rr_hidden_count_capped lexical,
           rr_window_hmac = rr_window_hmac lexical, rr_receipt = Some (qe_receipt qr),
           rr_trace = \<lparr>tr_window_count = tr_window_count (rr_trace lexical),
                       tr_visible_count = int (length (rr_visible lexical)),
                       tr_hidden_match_count = rr_hidden_match_count lexical,
                       tr_provider_attempt_count = 1, tr_latency_ms = latency,
                       tr_fallback_category = Some category\<rparr>\<rparr>)))"

definition observe_readiness :: "string \<Rightarrow> readiness result \<Rightarrow> readiness result" where
  "observe_readiness message inspected =
     (case then_r inspected validate_readiness of
        Inl _ \<Rightarrow> Inl (Runtime_Error message) | Inr rd \<Rightarrow> Inr rd)"

text \<open>
  \<open>invoke\<close>: the readiness is read before and after the query, and the rows are used only when both
  reads agree with what the embedding was prepared for.
\<close>

definition pgvector_invoke ::
  "primitives \<Rightarrow> rag_settings \<Rightarrow> (rat \<Rightarrow> string) \<Rightarrow> ('v \<Rightarrow> bool) \<Rightarrow> bool \<Rightarrow> readiness result
    \<Rightarrow> readiness result \<Rightarrow> ('v retrieval_request \<Rightarrow> 'v \<Rightarrow> store_outcome)
    \<Rightarrow> ('v retrieval_request \<Rightarrow> retrieval_result result) \<Rightarrow> int \<Rightarrow> 'v retrieval_request
    \<Rightarrow> pgvector_outcome result" where
  "pgvector_invoke P st float_repr vector_ok defer before after search keyword latency r =
     then_r (verify_scope_fingerprint P st (rq_scope r) (rq_scope_fingerprint r)) (\<lambda>_.
     then_r (validate_call_result P st vector_ok r) (\<lambda>qr.
     then_r (observe_readiness ''pgvector pre-readiness observation failed'' before) (\<lambda>before_sql.
     if \<not> matches_prepared_readiness before_sql (qe_prepared qr)
     then keyword_fallback defer keyword latency r qr corpus_changed
     else let found = search r (qe_vector qr) in
     then_r (observe_readiness ''pgvector post-readiness observation failed'' after) (\<lambda>after_sql.
     if \<not> matches_prepared_readiness after_sql (qe_prepared qr)
     then keyword_fallback defer keyword latency r qr corpus_changed
     else case found of
       Store_Runtime_Failure \<Rightarrow> keyword_fallback defer keyword latency r qr storage_runtime_failure
     | Store_Raised e \<Rightarrow> Inl e
     | Store_Rows rows \<Rightarrow>
         let window = pgvector_window rows (rq_scan_limit r)
         in then_r (window_result ''pgvector'' ''pgvector'' 1 (Some (qe_receipt qr))
                      (rq_visible_limit r) window latency
                      (window_hmac P st float_repr ''rag-pgvector-candidate-window:v1'' window))
              (\<lambda>res. Inr (Retrieved res))))))"

section \<open>The registry\<close>

definition require_known_backend :: "string \<Rightarrow> unit result" where
  "require_known_backend b =
     require (known_backend b) (Value_Error (''unknown retrieval backend: '' @ b))"

definition register :: "(string \<rightharpoonup> 'r) \<Rightarrow> string \<Rightarrow> 'r \<Rightarrow> (string \<rightharpoonup> 'r) result" where
  "register m backend retriever =
     then_r (require_known_backend backend) (\<lambda>_.
       if m backend \<noteq> None
       then Inl (Value_Error (''retrieval backend already registered: '' @ backend))
       else Inr (m(backend \<mapsto> retriever)))"

definition resolve :: "(string \<rightharpoonup> 'r) \<Rightarrow> string \<Rightarrow> 'r result" where
  "resolve m backend =
     then_r (require_known_backend backend) (\<lambda>_.
       case m backend of
         None \<Rightarrow> Inl (Key_Error (''retrieval backend is not registered: '' @ backend))
       | Some retriever \<Rightarrow> Inr retriever)"

section \<open>Facts about slots\<close>

lemma content_chars_append [simp]: "content_chars (xs @ ys) = content_chars xs + content_chars ys"
  by (simp add: content_chars_def)

lemma trim_tail_fits: "content_chars (trim_tail limit cs) \<le> limit"
proof (induction limit cs rule: trim_tail.induct)
  case (1 limit cs)
  then show ?case by (subst trim_tail.simps) (auto simp: content_chars_def)
qed

lemma trim_tail_prefix: "prefix (trim_tail limit cs) cs"
proof (induction limit cs rule: trim_tail.induct)
  case (1 limit cs)
  then show ?case by (subst trim_tail.simps) (auto intro: prefix_order.trans [OF _ prefixeq_butlast])
qed

lemma content_chars_prefix: "prefix xs ys \<Longrightarrow> content_chars xs \<le> content_chars ys"
  by (auto simp: prefix_def)

text \<open>Trimming removes no more than it must: every prefix that fits is kept.\<close>

lemma trim_tail_longest:
  "prefix xs cs \<Longrightarrow> content_chars xs \<le> limit \<Longrightarrow> prefix xs (trim_tail limit cs)"
proof (induction limit cs rule: trim_tail.induct)
  case (1 limit cs)
  show ?case
  proof (cases "cs \<noteq> [] \<and> content_chars cs > limit")
    case True
    then have "xs \<noteq> cs" using 1(3) by auto
    then have "prefix xs (butlast cs)"
      using 1(2) True by (metis append_butlast_last_id prefix_snoc)
    then show ?thesis using 1 True by (subst trim_tail.simps) auto
  qed (use 1(2) in \<open>subst trim_tail.simps, auto\<close>)
qed

definition kept_candidates :: "int option \<Rightarrow> candidate list \<Rightarrow> candidate list" where
  "kept_candidates limit cs =
     (case limit of Some l \<Rightarrow> trim_tail (nat l) (ordered_candidates cs)
      | None \<Rightarrow> ordered_candidates cs)"

lemma rank_evidence_slots_Inr:
  "rank_evidence_slots limit cs = Inr slots \<longleftrightarrow>
     (\<forall>l. limit = Some l \<longrightarrow> 0 \<le> l) \<and> slots = map2 slot_of evidence_slot_ids (kept_candidates limit cs)"
  by (cases limit) (auto simp: rank_evidence_slots_def kept_candidates_def)

lemma kept_prefix: "prefix (kept_candidates limit cs) (ordered_candidates cs)"
  by (cases limit) (auto simp: kept_candidates_def trim_tail_prefix)

lemma kept_length: "length (kept_candidates limit cs) \<le> 8"
  using prefix_length_le [OF kept_prefix, of limit cs] by (simp add: ordered_candidates_def)

text \<open>
  C9. The evidence slots are numbered E1, E2, ... without a gap and carry, in their order, the evidence,
  the support mode, the score and the terms of a prefix of the ranking: the trusted candidates in the
  order they came, then the raw ones, cut to eight. Without a content budget the slots are the whole
  ranking; with one they are the longest prefix of it whose contents together fit the budget.
\<close>

theorem rank_evidence_slots_correct:
  assumes "rank_evidence_slots limit cs = Inr slots"
  shows "let ranked = take 8 (filter (\<lambda>c. ev_serving_kind (ca_evidence c) = Trusted_Knowledge) cs
                              @ filter (\<lambda>c. ev_serving_kind (ca_evidence c) = Raw_Chunk) cs);
             chars = (\<lambda>ds. int (sum_list (map (\<lambda>c. code_points (ev_model_content (ca_evidence c))) ds)))
         in \<exists>kept. prefix kept ranked
              \<and> map sl_slot_id slots
                  = take (length kept) [''E1'', ''E2'', ''E3'', ''E4'', ''E5'', ''E6'', ''E7'', ''E8'']
              \<and> map sl_evidence slots = map ca_evidence kept
              \<and> map sl_support_mode slots = map (\<lambda>c. ev_support_mode (ca_evidence c)) kept
              \<and> map sl_score slots = map ca_score kept
              \<and> map sl_matched_terms slots = map ca_matched_terms kept
              \<and> (case limit of None \<Rightarrow> kept = ranked
                 | Some l \<Rightarrow> chars kept \<le> l
                     \<and> (\<forall>more. prefix more ranked \<and> chars more \<le> l \<longrightarrow> prefix more kept))"
proof -
  let ?k = "kept_candidates limit cs"
  let ?chars = "\<lambda>ds. int (sum_list (map (\<lambda>c. code_points (ev_model_content (ca_evidence c))) ds))"
  have slots: "slots = map2 slot_of evidence_slot_ids ?k"
    and nonneg: "\<And>l. limit = Some l \<Longrightarrow> 0 \<le> l"
    using assms by (auto simp: rank_evidence_slots_Inr)
  have ranked: "take 8 (filter (\<lambda>c. ev_serving_kind (ca_evidence c) = Trusted_Knowledge) cs
      @ filter (\<lambda>c. ev_serving_kind (ca_evidence c) = Raw_Chunk) cs) = ordered_candidates cs"
    by (simp add: ordered_candidates_def is_trusted_def [abs_def] is_raw_def [abs_def])
  have sums: "?chars ds = int (content_chars ds)" for ds
    by (simp add: content_chars_def)
  have zs: "map snd (zip evidence_slot_ids ?k) = ?k"
    and zi: "map fst (zip evidence_slot_ids ?k) = take (length ?k) evidence_slot_ids"
    using kept_length [of limit cs]
    by (simp_all add: map_snd_zip_take map_fst_zip_take evidence_slot_ids_def)
  have ids: "map sl_slot_id slots = take (length ?k) evidence_slot_ids"
    by (simp add: zi [symmetric] slots case_prod_unfold slot_of_def)
  have fields: "map f slots = map g ?k" if "\<And>sid c. f (slot_of sid c) = g c" for f :: "slot \<Rightarrow> 'x" and g
  proof -
    have "map f slots = map g (map snd (zip evidence_slot_ids ?k))"
      by (simp add: slots case_prod_unfold that)
    then show ?thesis by (simp only: zs)
  qed
  have budget: "case limit of None \<Rightarrow> ?k = ordered_candidates cs
      | Some l \<Rightarrow> int (content_chars ?k) \<le> l \<and> (\<forall>more. prefix more (ordered_candidates cs)
          \<and> int (content_chars more) \<le> l \<longrightarrow> prefix more ?k)"
  proof (cases limit)
    case (Some l)
    then show ?thesis
      using nonneg [OF Some] trim_tail_fits [of "nat l" "ordered_candidates cs"]
        trim_tail_longest [of _ "ordered_candidates cs" "nat l"]
      by (auto simp: kept_candidates_def le_nat_iff)
  qed (simp add: kept_candidates_def)
  show ?thesis
    unfolding Let_def ranked sums
    by (intro exI [of _ ?k] conjI kept_prefix budget
        ids [unfolded evidence_slot_ids_def] fields) (simp_all add: slot_of_def)
qed

section \<open>Facts about retrieval\<close>

lemma make_candidates_Inr:
  "make_candidates cs = Inr ds \<Longrightarrow>
     map ca_evidence ds = map ca_evidence cs \<and> map ca_score ds = map ca_score cs
     \<and> map ca_matched_terms ds = map ca_matched_terms cs \<and> (\<forall>c \<in> set cs. 0 < ca_score c)"
  by (induction cs arbitrary: ds) (auto simp: make_candidate_def split: if_splits)

lemma window_result_Inr:
  assumes "window_result configured effective attempts receipt limit window latency hmac = Inr res"
  shows "rr_configured_backend res = configured" and "rr_effective_backend res = effective"
    and "rr_receipt res = receipt" and "Inr (rr_window_hmac res) = hmac"
    and "length (rr_visible res) \<le> nat limit"
    and "\<forall>v \<in> set (rr_visible res). \<exists>c \<in> set window. ca_evidence v = ca_evidence c
           \<and> ca_score v = ca_score c \<and> ca_visibility c = Visible"
    and "rr_hidden_match_count res \<le> 20"
    and "tr_provider_attempt_count (rr_trace res) = attempts"
proof -
  obtain ds where ds: "make_candidates (take (nat limit)
      (filter (\<lambda>c. ca_visibility c = Visible) window)) = Inr ds"
    and hm: "hmac = Inr (rr_window_hmac res)" and vis: "rr_visible res = ds"
    and rest: "rr_configured_backend res = configured" "rr_effective_backend res = effective"
      "rr_receipt res = receipt" "rr_hidden_match_count res \<le> 20"
      "tr_provider_attempt_count (rr_trace res) = attempts"
    using assms by (auto simp: window_result_def Let_def)
  note parts = make_candidates_Inr [OF ds]
  have len: "length ds = length (take (nat limit) (filter (\<lambda>c. ca_visibility c = Visible) window))"
    using parts by (metis length_map)
  then show "length (rr_visible res) \<le> nat limit" using vis by simp
  show "\<forall>v \<in> set (rr_visible res). \<exists>c \<in> set window. ca_evidence v = ca_evidence c
           \<and> ca_score v = ca_score c \<and> ca_visibility c = Visible"
  proof
    fix v assume "v \<in> set (rr_visible res)"
    then obtain i where i: "i < length ds" "v = ds ! i" using vis by (metis in_set_conv_nth)
    let ?ws = "take (nat limit) (filter (\<lambda>c. ca_visibility c = Visible) window)"
    have "?ws ! i \<in> set ?ws" using i len by (intro nth_mem) simp
    moreover have "ca_evidence v = ca_evidence (?ws ! i)" "ca_score v = ca_score (?ws ! i)"
      using parts i len by (metis nth_map)+
    ultimately show "\<exists>c \<in> set window. ca_evidence v = ca_evidence c
        \<and> ca_score v = ca_score c \<and> ca_visibility c = Visible"
      by (intro bexI [of _ "?ws ! i"]) (auto dest: in_set_takeD)
  qed
  show "rr_configured_backend res = configured" "rr_effective_backend res = effective"
    "rr_receipt res = receipt" "rr_hidden_match_count res \<le> 20"
    "tr_provider_attempt_count (rr_trace res) = attempts" "Inr (rr_window_hmac res) = hmac"
    using rest hm by simp_all
qed

lemma pgvector_window_eligible:
  "c \<in> set (pgvector_window cs limit) \<Longrightarrow> c \<in> set cs \<and> window_eligible c \<and> ca_score c \<ge> 1 / 4"
  by (auto simp: pgvector_window_def dest: in_set_takeD)

lemma make_request_Inr [simp]:
  "make_request r = Inr r' \<longleftrightarrow> r' = r \<and> rq_scan_limit r = 50 \<and> rq_visible_limit r \<in> {5, 8}
     \<and> rq_policy_version r = ''rag-retrieval-policy:v2.0''"
  by (auto simp: make_request_def)

lemma window_result_visible:
  assumes "window_result configured effective attempts receipt limit window latency hmac = Inr res"
  defines "shown \<equiv> take (nat limit) (filter (\<lambda>c. ca_visibility c = Visible) window)"
  shows "map ca_evidence (rr_visible res) = map ca_evidence shown"
    and "map ca_score (rr_visible res) = map ca_score shown"
    and "map ca_matched_terms (rr_visible res) = map ca_matched_terms shown"
    and "rr_hidden_match_count res
           = min 20 (int (length (filter (\<lambda>c. ca_visibility c = Denied_Known) window)))"
    and "rr_hidden_count_capped res
           = (20 < length (filter (\<lambda>c. ca_visibility c = Denied_Known) window))"
proof -
  have "make_candidates shown = Inr (rr_visible res)"
    using assms by (auto simp: window_result_def Let_def)
  from make_candidates_Inr [OF this]
  show "map ca_evidence (rr_visible res) = map ca_evidence shown"
    and "map ca_score (rr_visible res) = map ca_score shown"
    and "map ca_matched_terms (rr_visible res) = map ca_matched_terms shown" by simp_all
  show "rr_hidden_match_count res
           = min 20 (int (length (filter (\<lambda>c. ca_visibility c = Denied_Known) window)))"
    and "rr_hidden_count_capped res
           = (20 < length (filter (\<lambda>c. ca_visibility c = Denied_Known) window))"
    using assms(1) by (auto simp: window_result_def Let_def min.commute)
qed

text \<open>The window and what it leaves out are together the eligible rows, in the order of the key.\<close>

lemma keyword_window_split:
  obtains rest where "mset (keyword_window cs limit @ rest) = mset (filter window_eligible cs)"
    and "sorted (map window_key (keyword_window cs limit @ rest))"
    and "length (keyword_window cs limit) = min (nat limit) (length (keyword_window cs limit @ rest))"
  by (rule that [of "drop (nat limit) (sort_key window_key (filter window_eligible cs))"])
    (simp_all only: keyword_window_def append_take_drop_id mset_sort sorted_sort_key length_take
      min.commute)

text \<open>
  C7. Keyword retrieval shows only rows the store returned that are eligible, in scope and visible to
  the actor. The eligible rows are brought into order, trusted before raw, higher scores first, then by
  document; the first 50 are the window, and what is shown are its visible rows in that order, up to the
  requested number, with their scores and terms. The hidden matches of the window are disclosed as a
  count of at most 20, no provider attempt is made, and a request that carries an embedding or whose
  scope fingerprint is stale is refused.
\<close>

theorem keyword_invoke_safe:
  assumes "make_request r = Inr r"
    and "keyword_invoke P st float_repr search latency r = Inr res"
  shows "rq_embedding r = None
    \<and> security_scope_fingerprint P st (rq_scope r) = Inr (rq_scope_fingerprint r)
    \<and> (\<exists>found window rest. search r = Inr found
         \<and> mset (window @ rest) = mset (filter (\<lambda>c. ca_eligible c \<and> ca_scope c = In_Scope
              \<and> (ca_visibility c = Visible \<or> ca_visibility c = Denied_Known)) found)
         \<and> sorted (map (\<lambda>c. (if ev_serving_kind (ca_evidence c) = Trusted_Knowledge then 0 else 1 :: nat,
              - ca_score c, ev_serving_document_id (ca_evidence c))) (window @ rest))
         \<and> length window = min 50 (length (window @ rest))
         \<and> (let shown = take (nat (rq_visible_limit r)) (filter (\<lambda>c. ca_visibility c = Visible) window);
                denied = length (filter (\<lambda>c. ca_visibility c = Denied_Known) window)
            in map ca_evidence (rr_visible res) = map ca_evidence shown
               \<and> map ca_score (rr_visible res) = map ca_score shown
               \<and> map ca_matched_terms (rr_visible res) = map ca_matched_terms shown
               \<and> rr_hidden_match_count res = min 20 (int denied)
               \<and> rr_hidden_count_capped res = (20 < denied)))
    \<and> rq_visible_limit r \<in> {5, 8} \<and> tr_provider_attempt_count (rr_trace res) = 0
    \<and> rr_receipt res = None"
proof -
  obtain found where fp: "security_scope_fingerprint P st (rq_scope r) = Inr (rq_scope_fingerprint r)"
    and none: "rq_embedding r = None" and found: "search r = Inr found"
    and res: "window_result ''keyword'' ''deterministic_lexical'' 0 None (rq_visible_limit r)
      (keyword_window found (rq_scan_limit r)) latency
      (window_hmac P st float_repr ''rag-keyword-candidate-window:v1''
         (keyword_window found (rq_scan_limit r))) = Inr res"
    using assms(2)
    by (auto simp: keyword_invoke_def verify_scope_fingerprint_def Let_def split: if_splits)
  let ?w = "keyword_window found (rq_scan_limit r)"
  obtain rest where rest: "mset (?w @ rest) = mset (filter window_eligible found)"
    "sorted (map window_key (?w @ rest))" "length ?w = min (nat (rq_scan_limit r)) (length (?w @ rest))"
    by (rule keyword_window_split)
  have eligible: "window_eligible = (\<lambda>c. ca_eligible c \<and> ca_scope c = In_Scope
      \<and> (ca_visibility c = Visible \<or> ca_visibility c = Denied_Known))"
    by (auto simp: window_eligible_def fun_eq_iff)
  have key: "window_key = (\<lambda>c. (if ev_serving_kind (ca_evidence c) = Trusted_Knowledge then 0 else 1 :: nat,
      - ca_score c, ev_serving_document_id (ca_evidence c)))"
    by (simp add: window_key_def fun_eq_iff)
  have scan: "nat (rq_scan_limit r) = 50" and limits: "rq_visible_limit r \<in> {5, 8}"
    using assms(1) by simp_all
  show ?thesis
    unfolding Let_def
    by (intro conjI exI [of _ found] exI [of _ ?w] exI [of _ rest] fp none found limits
        rest(1) [unfolded eligible] rest(2) [unfolded key] rest(3) [unfolded scan]
        window_result_visible [OF res] window_result_Inr(3,8) [OF res])
qed

text \<open>
  C8. A result served from the vector index rests on an index that was ready, and at the generations
  the query was embedded for, both before and after the read; what it shows was returned by that read,
  scored at least 0.25, and is eligible, in scope and visible. In every other case the result is the
  lexical one, marked with the category of the fallback, and the paid receipt is kept.
\<close>

theorem pgvector_invoke_safe:
  assumes "make_request r = Inr r"
    and "pgvector_invoke P st float_repr vector_ok defer before after search keyword latency r
           = Inr (Retrieved res)"
  shows "\<exists>qr. rq_embedding r = Some qr \<and> pe_query_utf8 (qe_prepared qr) = rq_query_text r
    \<and> rr_receipt res = Some (qe_receipt qr)
    \<and> (if rr_effective_backend res = ''pgvector''
       then (\<exists>rd1 rd2 rows. before = Inr rd1 \<and> after = Inr rd2 \<and> search r (qe_vector qr) = Store_Rows rows
              \<and> matches_prepared_readiness rd1 (qe_prepared qr)
              \<and> matches_prepared_readiness rd2 (qe_prepared qr)
              \<and> int (length (rr_visible res)) \<le> rq_visible_limit r
              \<and> (\<forall>v \<in> set (rr_visible res). \<exists>c \<in> set rows. ca_evidence v = ca_evidence c
                   \<and> 1 / 4 \<le> ca_score v \<and> ca_eligible c \<and> ca_scope c = In_Scope
                   \<and> ca_visibility c = Visible))
       else (\<exists>lexical category. \<not> defer \<and> keyword (r\<lparr>rq_embedding := None\<rparr>) = Inr lexical
              \<and> rr_visible res = rr_visible lexical
              \<and> category \<in> {corpus_changed, storage_runtime_failure}
              \<and> tr_fallback_category (rr_trace res) = Some category))"
proof -
  obtain qr where qr: "validate_call_result P st vector_ok r = Inr qr"
    using assms(2) by (auto simp: pgvector_invoke_def)
  then have emb: "rq_embedding r = Some qr" and bytes: "pe_query_utf8 (qe_prepared qr) = rq_query_text r"
    by (auto simp: validate_call_result_def split: option.splits if_splits sum.splits)
  have fallback: ?thesis
    if "keyword_fallback defer keyword latency r qr category = Inr (Retrieved res)"
      and "category \<in> {corpus_changed, storage_runtime_failure}" for category
    using that emb bytes by (auto simp: keyword_fallback_def split: if_splits)
  consider "keyword_fallback defer keyword latency r qr corpus_changed = Inr (Retrieved res)"
    | "keyword_fallback defer keyword latency r qr storage_runtime_failure = Inr (Retrieved res)"
    | rd1 rd2 rows where "before = Inr rd1" "after = Inr rd2" "search r (qe_vector qr) = Store_Rows rows"
      "matches_prepared_readiness rd1 (qe_prepared qr)" "matches_prepared_readiness rd2 (qe_prepared qr)"
      "window_result ''pgvector'' ''pgvector'' 1 (Some (qe_receipt qr)) (rq_visible_limit r)
         (pgvector_window rows (rq_scan_limit r)) latency
         (window_hmac P st float_repr ''rag-pgvector-candidate-window:v1''
            (pgvector_window rows (rq_scan_limit r))) = Inr res"
    using assms(2) qr
    by (auto simp: pgvector_invoke_def observe_readiness_def validate_readiness_def Let_def
        split: if_splits sum.splits store_outcome.splits)
  then show ?thesis
  proof cases
    case 3
    note w = window_result_Inr [OF 3(6)]
    have "int (length (rr_visible res)) \<le> rq_visible_limit r" using w(5) assms(1) by auto
    moreover have "\<forall>v \<in> set (rr_visible res). \<exists>c \<in> set rows. ca_evidence v = ca_evidence c
        \<and> 1 / 4 \<le> ca_score v \<and> ca_eligible c \<and> ca_scope c = In_Scope \<and> ca_visibility c = Visible"
      using w(6) pgvector_window_eligible unfolding window_eligible_def by metis
    ultimately show ?thesis using emb bytes w(2,3) 3(1-5) by auto
  next
    case 1 then show ?thesis using fallback by blast
  next
    case 2 then show ?thesis using fallback by blast
  qed
qed

section \<open>Witnesses\<close>

definition demo_scope :: security_scope where
  "demo_scope =
     \<lparr>sc_contract_version = security_scope_contract_version, sc_principal_subject = ''user-1'',
      sc_workspace_scope_id = ''workspace'', sc_resource_scope_mode = ''all_current_scope'',
      sc_project_constraints = [], sc_source_constraints = [],
      sc_allowed_permission_levels = [''public''], sc_auth_policy_version = auth_policy_version,
      sc_permission_policy_version = permission_policy_version\<rparr>"

definition demo_evidence :: "string \<Rightarrow> serving_kind \<Rightarrow> evidence" where
  "demo_evidence d k =
     \<lparr>ev_serving_document_id = d, ev_serving_kind = k, ev_public_source_id = ''source'',
      ev_public_source_type = None, ev_support_mode = ''direct'', ev_model_content = ''content'',
      ev_effective_permission = ''public'', ev_serving_identity_hmac = ''i'',
      ev_serving_version_fingerprint = ''f'', ev_model_content_hmac = ''m'',
      ev_citation_projection_hmac = ''c''\<rparr>"

definition demo_row :: "string \<Rightarrow> serving_kind \<Rightarrow> rat \<Rightarrow> visibility \<Rightarrow> classified" where
  "demo_row d k score v =
     \<lparr>ca_evidence = demo_evidence d k, ca_score = score, ca_matched_terms = [''term''],
      ca_eligible = True, ca_scope = In_Scope, ca_visibility = v\<rparr>"

definition demo_rows :: "classified list" where
  "demo_rows = [demo_row ''d1'' Raw_Chunk 2 Visible, demo_row ''d2'' Trusted_Knowledge 1 Visible,
                demo_row ''d3'' Raw_Chunk 3 Denied_Known]"

definition demo_request :: "unit retrieval_request" where
  "demo_request =
     \<lparr>rq_query_text = ''query'', rq_scope = demo_scope,
      rq_scope_fingerprint = demo_digest, rq_embedding = None,
      rq_scan_limit = 50, rq_visible_limit = 5, rq_policy_version = ''rag-retrieval-policy:v2.0''\<rparr>"

definition demo_receipt :: embedding_receipt where
  "demo_receipt = \<lparr>er_attempted = True, er_input_tokens = 9, er_actual_cost = 1, er_latency_ms = 4,
                   er_outcome = ''component_succeeded'', er_model_config_hmac = demo_digest,
                   er_provider_policy_hmac = demo_digest\<rparr>"

definition demo_vector_request :: "unit retrieval_request" where
  "demo_vector_request = demo_request\<lparr>rq_embedding := Some
     \<lparr>qe_prepared = demo_embedding, qe_vector = (), qe_attempted = True, qe_input_tokens = 9,
      qe_actual_cost = 1, qe_receipt = demo_receipt\<rparr>\<rparr>"

definition demo_result ::
  "string \<Rightarrow> string \<Rightarrow> int \<Rightarrow> embedding_receipt option \<Rightarrow> retrieval_result" where
  "demo_result configured effective attempts receipt =
     \<lparr>rr_configured_backend = configured, rr_effective_backend = effective,
      rr_visible = [\<lparr>ca_evidence = demo_evidence ''d2'' Trusted_Knowledge, ca_score = 1,
                      ca_matched_terms = [''term'']\<rparr>,
                    \<lparr>ca_evidence = demo_evidence ''d1'' Raw_Chunk, ca_score = 2,
                      ca_matched_terms = [''term'']\<rparr>],
      rr_hidden_match_count = 1, rr_hidden_count_capped = False, rr_window_hmac = demo_digest,
      rr_receipt = receipt,
      rr_trace = \<lparr>tr_window_count = 3, tr_visible_count = 2, tr_hidden_match_count = 1,
                  tr_provider_attempt_count = attempts, tr_latency_ms = 7,
                  tr_fallback_category = None\<rparr>\<rparr>"

lemma demo_windows:
  "keyword_window demo_rows 50 = 
     [demo_row ''d2'' Trusted_Knowledge 1 Visible, demo_row ''d3'' Raw_Chunk 3 Denied_Known,
        demo_row ''d1'' Raw_Chunk 2 Visible]"
  "pgvector_window demo_rows 50 = 
     [demo_row ''d2'' Trusted_Knowledge 1 Visible, demo_row ''d3'' Raw_Chunk 3 Denied_Known,
        demo_row ''d1'' Raw_Chunk 2 Visible]"
  by code_simp+

lemma demo_fingerprint:
  "verify_scope_fingerprint demo_primitives demo_settings demo_scope demo_digest = Inr ()"
proof -
  have "exact_utf8_bytes ''user-1'' = Inr (utf8_json ''user-1'')"
    and "exact_utf8_bytes ''workspace'' = Inr (utf8_json ''workspace'')"
    and "exact_utf8_bytes auth_policy_version = Inr (utf8_json auth_policy_version)"
    and "exact_utf8_bytes permission_policy_version = Inr (utf8_json permission_policy_version)"
    by code_simp+
  then show ?thesis
    by (simp add: verify_scope_fingerprint_def security_scope_fingerprint_def demo_scope_def
        demo_identity security_scope_contract_version_def del: exact_utf8_bytes_Inr)
qed

lemma demo_term: "exact_utf8_bytes ''term'' = Inr (utf8_json ''term'')"
  by code_simp

lemma demo_evidence_hmacs:
  "ev_serving_identity_hmac (demo_evidence d k) = ''i''"
  "ev_serving_version_fingerprint (demo_evidence d k) = ''f''"
  by (simp_all add: demo_evidence_def)

lemmas demo_retrieval =
  demo_evidence_hmacs demo_windows demo_fingerprint demo_term demo_row_def demo_result_def
  window_result_def make_candidate_def window_hmac_def demo_identity Let_def

lemma demo_keyword_runs:
  "keyword_invoke demo_primitives demo_settings (\<lambda>_. ''0.5'') (\<lambda>_. Inr demo_rows) 7 demo_request
     = Inr (demo_result ''keyword'' ''deterministic_lexical'' 0 None)"
  by (simp add: keyword_invoke_def demo_request_def demo_retrieval)

lemma demo_vector_runs:
  "pgvector_invoke demo_primitives demo_settings (\<lambda>_. ''0.5'') (\<lambda>_. True) False
     (Inr demo_readiness) (Inr demo_readiness) (\<lambda>_ _. Store_Rows demo_rows)
     (\<lambda>_. Inl (Key_Error ''unused'')) 7 demo_vector_request
   = Inr (Retrieved (demo_result ''pgvector'' ''pgvector'' 1 (Some demo_receipt)))"
proof -
  have *: "utf8_valid ''query''" "is_storage_amount 1" "pe_query_utf8 demo_embedding = ''query''"
    by code_simp+
  have "receipt_matches (the (rq_embedding demo_vector_request)) demo_embedding"
    using * by (simp add: receipt_matches_def demo_vector_request_def demo_receipt_def
        is_signed_bigint_def signed_bigint_max_def demo_embedding_def Let_def)
  with * have "validate_call_result demo_primitives demo_settings (\<lambda>_. True) demo_vector_request
      = Inr (the (rq_embedding demo_vector_request))"
    by (simp add: validate_call_result_def demo_vector_request_def demo_request_def demo_embedding_valid)
  moreover have "validate_readiness demo_readiness = Inr demo_readiness"
    by (simp add: validate_readiness_def demo_readiness_def is_signed_bigint_def signed_bigint_max_def)
  moreover have "matches_prepared_readiness demo_readiness demo_embedding"
    by (simp add: matches_prepared_readiness_def demo_readiness_def demo_embedding_def)
  ultimately show ?thesis
    by (simp add: pgvector_invoke_def observe_readiness_def demo_vector_request_def demo_request_def
        demo_retrieval)
qed

definition demo_slots :: "slot list" where
  "demo_slots = projr (rank_evidence_slots (Some 8)
     (map (\<lambda>c. \<lparr>ca_evidence = ca_evidence c, ca_score = ca_score c,
                 ca_matched_terms = ca_matched_terms c\<rparr>) demo_rows))"

theorem rank_evidence_slots_correct_witness:
  "map sl_slot_id demo_slots = [''E1''] \<and> length demo_slots = 1"
proof -
  let ?cs = "map (\<lambda>c. \<lparr>ca_evidence = ca_evidence c, ca_score = ca_score c,
                 ca_matched_terms = ca_matched_terms c\<rparr>) demo_rows"
  have "\<not> isl (rank_evidence_slots (Some 8) ?cs)" and *: "length demo_slots = 1" by code_simp+
  moreover then have "rank_evidence_slots (Some 8) ?cs = Inr demo_slots"
    by (simp add: demo_slots_def)
  ultimately obtain kept :: "candidate list" where k: "map sl_slot_id demo_slots
      = take (length kept) [''E1'', ''E2'', ''E3'', ''E4'', ''E5'', ''E6'', ''E7'', ''E8'']"
    "map sl_evidence demo_slots = map ca_evidence kept"
    using rank_evidence_slots_correct [of "Some 8" ?cs demo_slots] unfolding Let_def by blast
  have "length kept = 1" using * k(2) by (metis length_map)
  then show ?thesis using * k(1) by simp
qed

theorem keyword_invoke_safe_witness:
  "\<exists>window. length window \<le> 50 \<and> set window \<subseteq> set demo_rows
     \<and> map ca_evidence (rr_visible (demo_result ''keyword'' ''deterministic_lexical'' 0 None))
       = map ca_evidence (take 5 (filter (\<lambda>c. ca_visibility c = Visible) window))"
proof -
  have m: "make_request demo_request = Inr demo_request" by (simp add: demo_request_def)
  note safe = keyword_invoke_safe [OF m demo_keyword_runs, unfolded Let_def]
  obtain found window rest where found: "Inr demo_rows = (Inr found :: classified list result)"
    and rows: "mset (window @ rest) = mset (filter (\<lambda>c. ca_eligible c \<and> ca_scope c = In_Scope
      \<and> (ca_visibility c = Visible \<or> ca_visibility c = Denied_Known)) found)"
    and len: "length window = min 50 (length (window @ rest))"
    and shown: "map ca_evidence (rr_visible (demo_result ''keyword'' ''deterministic_lexical'' 0 None))
      = map ca_evidence (take (nat (rq_visible_limit demo_request))
          (filter (\<lambda>c. ca_visibility c = Visible) window))"
    using safe by blast
  have "set (window @ rest) \<subseteq> set demo_rows"
    using arg_cong [OF rows, of set_mset] found by auto
  then show ?thesis using len shown by (intro exI [of _ window]) (auto simp: demo_request_def)
qed

theorem pgvector_invoke_safe_witness:
  "1 / 4 \<le> ca_score (hd (rr_visible (demo_result ''pgvector'' ''pgvector'' 1 (Some demo_receipt))))"
proof -
  have "make_request demo_vector_request = Inr demo_vector_request"
    by (simp add: demo_vector_request_def demo_request_def)
  moreover have "rr_effective_backend (demo_result ''pgvector'' ''pgvector'' 1 (Some demo_receipt))
      = ''pgvector''"
    and "rr_visible (demo_result ''pgvector'' ''pgvector'' 1 (Some demo_receipt)) \<noteq> []"
    by (simp_all add: demo_result_def)
  ultimately show ?thesis using pgvector_invoke_safe [OF _ demo_vector_runs] hd_in_set by fastforce
qed

end
