(* ===== verification/Advisory_Locks.thy ===== *)
theory Advisory_Locks
  imports Identity
begin

text \<open>
  \<open>agent_runtime/rag_advisory_locks.py\<close>: the coordinator that hands out lock stages in the one audited
  order, and the registry that binds an advisory key to the identity it stands for. The SHA-256 digest
  (32 bytes) is a parameter, as is what the database does between the two reads of a registration.
\<close>

section \<open>The lock order\<close>

definition ordinary_rag_lock_order :: "string list" where
  "ordinary_rag_lock_order =
    [''provider_stable_sidecar'', ''provider_safety_rows'', ''projection_owner'',
     ''evidence_shared_barrier'', ''c5_key_corpus'', ''agent_run_cost'', ''optional_assistant'']"

definition live_release_lock_order :: "string list" where
  "live_release_lock_order =
    [''provider_stable_sidecar'', ''release_stable_sidecar_advisory'', ''provider_safety_rows'',
     ''release_rows'', ''projection_owner'', ''evidence_shared_barrier'', ''c5_key_corpus'',
     ''agent_run_cost'', ''optional_assistant'']"

text \<open>A coordinator is an object: \<open>co_id\<close> is its identity, which \<open>require\<close> compares with \<open>is\<close>.\<close>

record coordinator =
  co_id :: nat
  co_path :: string
  co_order :: "string list"
  co_next :: nat

record lock_capability =
  lc_path :: string
  lc_stage :: string
  lc_ordinal :: nat
  lc_coordinator :: nat
  lc_sealed :: bool

definition begin_rag_lock_order :: "nat \<Rightarrow> string \<Rightarrow> coordinator result" where
  "begin_rag_lock_order oid path =
     (if path = ''ordinary''
      then Inr \<lparr>co_id = oid, co_path = path, co_order = ordinary_rag_lock_order, co_next = 0\<rparr>
      else if path = ''live_release''
      then Inr \<lparr>co_id = oid, co_path = path, co_order = live_release_lock_order, co_next = 0\<rparr>
      else Inl (Value_Error ''RAG lock-order path is invalid''))"

definition acquire_stage :: "coordinator \<Rightarrow> string \<Rightarrow> (lock_capability \<times> coordinator) result" where
  "acquire_stage co stage =
     (if co_next co \<ge> length (co_order co)
      then Inl (Lock_Order_Error ''RAG lock order is already complete'')
      else let expected = co_order co ! co_next co in
        if stage \<noteq> expected
        then Inl (Lock_Order_Error (''RAG lock order expected '' @ expected @ '', received '' @ stage))
        else Inr (\<lparr>lc_path = co_path co, lc_stage = stage, lc_ordinal = co_next co,
                   lc_coordinator = co_id co, lc_sealed = True\<rparr>,
                  co\<lparr>co_next := co_next co + 1\<rparr>))"

definition require_stage :: "coordinator \<Rightarrow> lock_capability \<Rightarrow> string \<Rightarrow> unit result" where
  "require_stage co cap stage =
     require (lc_sealed cap \<and> lc_coordinator cap = co_id co \<and> lc_path cap = co_path co
              \<and> lc_stage cap = stage \<and> lc_ordinal cap < co_next co)
       (Lock_Order_Error ''RAG lock-order capability is invalid'')"

definition finish_order :: "coordinator \<Rightarrow> unit result" where
  "finish_order co =
     require (co_next co = length (co_order co)) (Lock_Order_Error ''RAG lock order is incomplete'')"

text \<open>
  A request is a coordinator with the stages it was given so far, in the order it was given them: it
  begins on a path with none, asks for stage after stage and locks what the capability it gets names.
\<close>

record lock_request =
  lq_coordinator :: coordinator
  lq_held :: "string list"

definition lock_initial :: "lock_request \<Rightarrow> bool" where
  "lock_initial r \<longleftrightarrow> lq_held r = []
     \<and> (\<exists>oid path. begin_rag_lock_order oid path = Inr (lq_coordinator r))"

inductive lock_step :: "lock_request \<Rightarrow> lock_request \<Rightarrow> bool" where
  lock_acquire:
    "acquire_stage (lq_coordinator r) stage = Inr (cap, co) \<Longrightarrow>
     lock_step r (r\<lparr>lq_coordinator := co, lq_held := lq_held r @ [lc_stage cap]\<rparr>)"

abbreviation lock_reachable :: "lock_request \<Rightarrow> bool" where
  "lock_reachable \<equiv> reach lock_initial lock_step"

definition lock_inv :: "lock_request \<Rightarrow> bool" where
  "lock_inv r \<longleftrightarrow> co_order (lq_coordinator r) \<in> {ordinary_rag_lock_order, live_release_lock_order}
     \<and> co_next (lq_coordinator r) \<le> length (co_order (lq_coordinator r))
     \<and> lq_held r = take (co_next (lq_coordinator r)) (co_order (lq_coordinator r))"

lemma acquire_stage_Inr:
  "acquire_stage co stage = Inr (cap, co') \<longleftrightarrow>
     co_next co < length (co_order co) \<and> stage = co_order co ! co_next co
     \<and> cap = \<lparr>lc_path = co_path co, lc_stage = stage, lc_ordinal = co_next co,
              lc_coordinator = co_id co, lc_sealed = True\<rparr>
     \<and> co' = co\<lparr>co_next := Suc (co_next co)\<rparr>"
  by (auto simp: acquire_stage_def Let_def)

interpretation lock: invariant_system lock_initial lock_step lock_inv
proof
  show "lock_initial s \<Longrightarrow> lock_inv s" for s
    by (cases s) (auto simp: lock_initial_def begin_rag_lock_order_def lock_inv_def split: if_splits)
  show "lock_inv s \<Longrightarrow> lock_step s t \<Longrightarrow> lock_inv t" for s t
    by (auto simp: lock_inv_def acquire_stage_Inr take_Suc_conv_app_nth elim!: lock_step.cases)
qed

section \<open>The registry of advisory keys\<close>

record lock_row =
  lr_namespace :: string
  lr_digest :: string
  lr_canonical :: string

record advisory_lock =
  al_key :: "int \<times> int"
  al_namespace :: string
  al_digest :: string
  al_canonical :: string
  al_sealed :: bool

definition advisory_identity_bytes :: "primitives \<Rightarrow> json \<Rightarrow> string result" where
  "advisory_identity_bytes P v =
     canonical_json_bytes (nfc P)
       (JObj [(''domain'', JStr ''paraworks:postgres-advisory-int4-pair:v1''),
              (''policy_version'', JStr ''rag-lock-order:v1''),
              (''value'', v)])"

text \<open>\<open>int.from_bytes(bytes, 'big', signed=True)\<close> of four bytes is the signed value of a 32-bit word.\<close>

definition be_word :: "string \<Rightarrow> 32 word" where
  "be_word bs = foldl (\<lambda>acc c. acc * 256 + of_nat (of_char c)) 0 bs"

definition int4 :: "string \<Rightarrow> int" where
  "int4 bs = sint (be_word bs)"

definition int4_pair :: "string \<Rightarrow> int \<times> int" where
  "int4_pair digest = (int4 (take 4 digest), int4 (take 4 (drop 4 digest)))"

definition advisory_int4_pair ::
  "primitives \<Rightarrow> (string \<Rightarrow> string) \<Rightarrow> json \<Rightarrow> (int \<times> int) result" where
  "advisory_int4_pair P sha256 v =
     then_r (advisory_identity_bytes P v) (\<lambda>canonical. Inr (int4_pair (sha256 canonical)))"

definition hexdigest :: "string \<Rightarrow> string" where
  "hexdigest bs = concat (map hex_byte bs)"

text \<open>\<open>register_advisory_identity\<close>, on an in-memory registry.\<close>

definition register_advisory_identity ::
  "primitives \<Rightarrow> (string \<Rightarrow> string) \<Rightarrow> (int \<times> int \<rightharpoonup> string) \<Rightarrow> json
    \<Rightarrow> (string \<times> (int \<times> int \<rightharpoonup> string)) result" where
  "register_advisory_identity P sha256 registry v =
     then_r (advisory_identity_bytes P v) (\<lambda>canonical.
       let pair = int4_pair (sha256 canonical) in
       case registry pair of
         Some existing \<Rightarrow>
           if existing \<noteq> canonical then Inl (Lock_Collision_Error ''advisory lock key collision'')
           else Inr (canonical, registry(pair \<mapsto> canonical))
       | None \<Rightarrow> Inr (canonical, registry(pair \<mapsto> canonical)))"

definition lock_row_of :: "(string \<Rightarrow> string) \<Rightarrow> string \<Rightarrow> string \<Rightarrow> lock_row" where
  "lock_row_of sha256 namespace canonical =
     \<lparr>lr_namespace = namespace, lr_digest = hexdigest (sha256 canonical), lr_canonical = canonical\<rparr>"

definition known_namespace :: "string \<Rightarrow> unit result" where
  "known_namespace n =
     require (n \<in> set [''static'', ''dynamic''])
       (Value_Error ''advisory identity namespace is invalid'')"

text \<open>
  \<open>register_advisory_identity_db\<close>: the insert does nothing on a conflict. \<open>raced\<close> is the row another
  session inserted under the key after the first read, if one did; the second read then sees it.
\<close>

definition register_advisory_identity_db ::
  "primitives \<Rightarrow> (string \<Rightarrow> string) \<Rightarrow> (int \<times> int \<rightharpoonup> lock_row) \<Rightarrow> lock_row option \<Rightarrow> json \<Rightarrow> string
    \<Rightarrow> (int \<times> int \<rightharpoonup> lock_row) result" where
  "register_advisory_identity_db P sha256 db raced v namespace =
     then_r (known_namespace namespace) (\<lambda>_.
     then_r (advisory_identity_bytes P v) (\<lambda>canonical.
       let pair = int4_pair (sha256 canonical); row = lock_row_of sha256 namespace canonical in
       case db pair of
         Some existing \<Rightarrow>
           if existing \<noteq> row then Inl (Lock_Collision_Error ''advisory lock key collision'')
           else Inr db
       | None \<Rightarrow>
           (case raced of
              None \<Rightarrow> Inr (db(pair \<mapsto> row))
            | Some existing \<Rightarrow>
                if existing \<noteq> row then Inl (Lock_Collision_Error ''advisory lock key collision'')
                else Inr (db(pair \<mapsto> existing)))))"

definition load_advisory_capability ::
  "primitives \<Rightarrow> (string \<Rightarrow> string) \<Rightarrow> (int \<times> int \<rightharpoonup> lock_row) \<Rightarrow> bool \<Rightarrow> json \<Rightarrow> string
    \<Rightarrow> advisory_lock result" where
  "load_advisory_capability P sha256 db in_transaction v namespace =
     (if in_transaction
      then Inl (Lock_Collision_Error ''registered advisory capability requires a committed read'')
      else then_r (known_namespace namespace) (\<lambda>_.
           then_r (advisory_identity_bytes P v) (\<lambda>canonical.
             let pair = int4_pair (sha256 canonical) in
             if db pair \<noteq> Some (lock_row_of sha256 namespace canonical)
             then Inl (Lock_Collision_Error ''advisory identity is not committed in this database'')
             else Inr \<lparr>al_key = pair, al_namespace = namespace,
                       al_digest = hexdigest (sha256 canonical), al_canonical = canonical,
                       al_sealed = True\<rparr>)))"

definition capability_matches ::
  "primitives \<Rightarrow> (string \<Rightarrow> string) \<Rightarrow> advisory_lock \<Rightarrow> json \<Rightarrow> string \<Rightarrow> bool result" where
  "capability_matches P sha256 cap v namespace =
     (if \<not> al_sealed cap then Inl (Type_Error ''registered advisory capability is required'')
      else then_r (advisory_identity_bytes P v) (\<lambda>canonical.
        Inr (al_namespace cap = namespace \<and> al_digest cap = hexdigest (sha256 canonical)
             \<and> al_canonical cap = canonical \<and> al_key cap = int4_pair (sha256 canonical))))"

definition require_registered_capability ::
  "(int \<times> int \<rightharpoonup> lock_row) \<Rightarrow> advisory_lock \<Rightarrow> (int \<times> int) result" where
  "require_registered_capability db cap =
     (if \<not> al_sealed cap then Inl (Type_Error ''registered advisory capability is required'')
      else if db (al_key cap) \<noteq> Some \<lparr>lr_namespace = al_namespace cap, lr_digest = al_digest cap,
                                     lr_canonical = al_canonical cap\<rparr>
      then Inl (Lock_Collision_Error ''advisory capability is not registered in this database'')
      else Inr (al_key cap))"

text \<open>
  \<open>release_advisory_lock\<close>: \<open>unlocked\<close> is what the unlock query gave, an exception or its scalar. In
  every case but a confirmed unlock the connection is invalidated and closed (the boolean).
\<close>

definition release_advisory_lock ::
  "advisory_lock \<Rightarrow> bool result \<Rightarrow> unit result \<times> bool" where
  "release_advisory_lock cap unlocked =
     (if \<not> al_sealed cap
      then (Inl (Type_Error ''registered advisory capability is required''), False)
      else (case unlocked of
              Inl e \<Rightarrow> (Inl e, True)
            | Inr True \<Rightarrow> (Inr (), False)
            | Inr False \<Rightarrow> (Inl (Runtime_Error ''advisory unlock was not confirmed''), True)))"

definition rag_projection_owner_lock_id :: "int \<Rightarrow> json result" where
  "rag_projection_owner_lock_id run_id =
     (if run_id \<le> 0 then Inl (Value_Error ''agent run id must be a positive integer'')
      else Inr (JObj [(''agent_run_id'', JInt run_id), (''lock_name'', JStr ''projection_owner'')]))"

section \<open>The order excludes a deadlock\<close>

text \<open>The place of a stage in the longer order, of which the ordinary one is a subsequence.\<close>

definition stage_rank :: "string \<Rightarrow> nat" where
  "stage_rank s = length (takeWhile (\<lambda>x. x \<noteq> s) live_release_lock_order)"

definition next_rank :: "coordinator \<Rightarrow> nat" where
  "next_rank co = (if co_next co < length (co_order co) then stage_rank (co_order co ! co_next co) else 9)"

text \<open>
  One request waits for another when its coordinator would give it a stage that the other one has
  locked. Two requests may share some of the locks, so this is the most they can wait.
\<close>

definition waits_for :: "lock_request \<Rightarrow> lock_request \<Rightarrow> bool" where
  "waits_for r q \<longleftrightarrow> list_ex (\<lambda>s. returns (acquire_stage (lq_coordinator r) s)) (lq_held q)"

lemma orders_ascend:
  "sorted_wrt (<) (map stage_rank ordinary_rag_lock_order)"
  "sorted_wrt (<) (map stage_rank live_release_lock_order)"
  by code_simp+

lemma orders_bounded:
  "list_all (\<lambda>s. stage_rank s < 9) ordinary_rag_lock_order"
  "list_all (\<lambda>s. stage_rank s < 9) live_release_lock_order"
  by code_simp+

lemma held_rank_less:
  assumes "lock_inv r" and "s \<in> set (lq_held r)"
  shows "stage_rank s < next_rank (lq_coordinator r)"
proof -
  let ?co = "lq_coordinator r"
  obtain i where i: "i < co_next ?co" "i < length (co_order ?co)" "s = co_order ?co ! i"
    using assms by (auto simp: lock_inv_def in_set_conv_nth)
  have "sorted_wrt (<) (map stage_rank (co_order ?co))"
    and "list_all (\<lambda>s. stage_rank s < 9) (co_order ?co)"
    using assms(1) orders_ascend orders_bounded by (auto simp: lock_inv_def)
  then show ?thesis
    using i by (auto simp: next_rank_def sorted_wrt_iff_nth_less list_all_length)
qed

lemma waits_for_ascends:
  assumes "lock_inv q" and "waits_for r q"
  shows "next_rank (lq_coordinator r) < next_rank (lq_coordinator q)"
proof -
  obtain s where "s \<in> set (lq_held q)" and "returns (acquire_stage (lq_coordinator r) s)"
    using assms(2) by (auto simp: waits_for_def list_ex_iff)
  moreover from this(2) have "stage_rank s = next_rank (lq_coordinator r)"
    by (auto simp: returns_iff next_rank_def acquire_stage_Inr)
  ultimately show ?thesis using held_rank_less [OF assms(1), of s] by simp
qed

text \<open>
  C10. However many requests acquire the lock stages, on the ordinary path or on the live-release path,
  no set of them can wait for one another in a circle: the relation between the reachable requests
  whose coordinator would give the one a stage that the other one has acquired is acyclic. What a
  request holds is what its coordinator gave it, so this rests on the coordinator refusing every
  other stage than the next of its path.
\<close>

theorem lock_order_excludes_deadlock:
  "acyclic {(r, q). lock_reachable r \<and> lock_reachable q \<and> waits_for r q}"
proof (rule wf_acyclic, rule wf_subset)
  show "{(r, q). lock_reachable r \<and> lock_reachable q \<and> waits_for r q}
      \<subseteq> measure (\<lambda>r. next_rank (lq_coordinator r))"
    using waits_for_ascends lock.inv_reach by auto
qed simp

section \<open>The registry never rebinds a key\<close>

lemma int4_range: "- (2 ^ 31) \<le> int4 bs \<and> int4 bs < 2 ^ 31"
  using sint_greater_eq [of "be_word bs"] sint_lt [of "be_word bs"] by (simp add: int4_def)

lemma load_advisory_capability_Inr:
  "load_advisory_capability P sha256 db t v namespace = Inr cap \<longleftrightarrow>
     \<not> t \<and> namespace \<in> {''static'', ''dynamic''}
     \<and> (\<exists>canonical. advisory_identity_bytes P v = Inr canonical
          \<and> db (int4_pair (sha256 canonical)) = Some (lock_row_of sha256 namespace canonical)
          \<and> cap = \<lparr>al_key = int4_pair (sha256 canonical), al_namespace = namespace,
                   al_digest = hexdigest (sha256 canonical), al_canonical = canonical,
                   al_sealed = True\<rparr>)"
  by (auto simp: load_advisory_capability_def known_namespace_def Let_def split: if_splits)

lemma register_db_Inr:
  assumes "register_advisory_identity_db P sha256 db raced v namespace = Inr db'"
  obtains canonical where "namespace \<in> {''static'', ''dynamic''}"
    and "advisory_identity_bytes P v = Inr canonical"
    and "db' = db(int4_pair (sha256 canonical) \<mapsto> lock_row_of sha256 namespace canonical)"
    and "db \<subseteq>\<^sub>m db'"
proof -
  obtain canonical where ns: "namespace \<in> {''static'', ''dynamic''}"
    and c: "advisory_identity_bytes P v = Inr canonical"
    using assms by (auto simp: register_advisory_identity_db_def known_namespace_def)
  let ?k = "int4_pair (sha256 canonical)" and ?row = "lock_row_of sha256 namespace canonical"
  have db': "db' = db(?k \<mapsto> ?row)"
    using assms ns c
    by (simp add: register_advisory_identity_db_def known_namespace_def Let_def fun_upd_idem
        split: option.splits if_splits)
  moreover have "db ?k \<in> {None, Some ?row}"
    using assms ns c
    by (auto simp: register_advisory_identity_db_def known_namespace_def Let_def
        split: option.splits if_splits)
  then have "db \<subseteq>\<^sub>m db'" using db' by (auto simp: map_le_def dom_def)
  ultimately show thesis using that ns c by blast
qed

text \<open>
  A registration that succeeds leaves every row of the registry as it was and the identity's own
  row under its key; the capability read back after the commit names that identity, its key fits
  the two signed 32-bit columns, and it is accepted in every later state of the registry.
\<close>

theorem registration_is_stable:
  assumes "register_advisory_identity_db P sha256 db raced v namespace = Inr db'"
  shows "db \<subseteq>\<^sub>m db' \<and> (\<exists>cap. load_advisory_capability P sha256 db' False v namespace = Inr cap
    \<and> capability_matches P sha256 cap v namespace = Inr True
    \<and> (\<forall>k \<in> {fst (al_key cap), snd (al_key cap)}. - (2 ^ 31) \<le> k \<and> k < 2 ^ 31)
    \<and> (\<forall>later. db' \<subseteq>\<^sub>m later \<longrightarrow> require_registered_capability later cap = Inr (al_key cap)))"
proof -
  obtain canonical where ns: "namespace \<in> {''static'', ''dynamic''}"
    and c: "advisory_identity_bytes P v = Inr canonical"
    and db': "db' = db(int4_pair (sha256 canonical) \<mapsto> lock_row_of sha256 namespace canonical)"
    and le: "db \<subseteq>\<^sub>m db'"
    using assms by (rule register_db_Inr)
  let ?cap = "\<lparr>al_key = int4_pair (sha256 canonical), al_namespace = namespace,
    al_digest = hexdigest (sha256 canonical), al_canonical = canonical, al_sealed = True\<rparr>"
  have "load_advisory_capability P sha256 db' False v namespace = Inr ?cap"
    using ns c db' by (simp add: load_advisory_capability_Inr)
  moreover have "capability_matches P sha256 ?cap v namespace = Inr True"
    using c by (simp add: capability_matches_def)
  moreover have "require_registered_capability later ?cap = Inr (al_key ?cap)" if "db' \<subseteq>\<^sub>m later" for later
  proof -
    have "db' (int4_pair (sha256 canonical)) = Some (lock_row_of sha256 namespace canonical)"
      using db' by simp
    then have "later (int4_pair (sha256 canonical)) = Some (lock_row_of sha256 namespace canonical)"
      using that by (metis domI map_le_def)
    then show ?thesis by (simp add: require_registered_capability_def lock_row_of_def)
  qed
  moreover have "\<forall>k \<in> {fst (al_key ?cap), snd (al_key ?cap)}. - (2 ^ 31) \<le> k \<and> k < 2 ^ 31"
    using int4_range by (auto simp: int4_pair_def)
  ultimately show ?thesis using le by blast
qed

text \<open>
  Two capabilities of one registry that share an advisory key stand for the same identity: a
  collision of the digests is refused, never silently shared.
\<close>

theorem advisory_key_names_one_identity:
  assumes "load_advisory_capability P sha256 db False v namespace = Inr cap"
    and "load_advisory_capability P sha256 db False w namespace' = Inr cap'"
    and "al_key cap = al_key cap'"
  shows "advisory_identity_bytes P v = advisory_identity_bytes P w \<and> namespace = namespace'"
proof -
  obtain c where c: "advisory_identity_bytes P v = Inr c" "al_key cap = int4_pair (sha256 c)"
    "db (int4_pair (sha256 c)) = Some (lock_row_of sha256 namespace c)"
    using assms(1) by (auto simp: load_advisory_capability_Inr)
  obtain c' where c': "advisory_identity_bytes P w = Inr c'" "al_key cap' = int4_pair (sha256 c')"
    "db (int4_pair (sha256 c')) = Some (lock_row_of sha256 namespace' c')"
    using assms(2) by (auto simp: load_advisory_capability_Inr)
  have "lock_row_of sha256 namespace c = lock_row_of sha256 namespace' c'"
    using c(2,3) c'(2,3) assms(3) by simp
  then show ?thesis using c(1) c'(1) by (simp add: lock_row_of_def)
qed

section \<open>Witnesses\<close>

definition demo_lock_primitives :: primitives where
  "demo_lock_primitives = \<lparr>nfc = (\<lambda>s. s), hmac_sha256_hex = (\<lambda>_ _. '''')\<rparr>"

definition demo_sha :: "string \<Rightarrow> string" where
  "demo_sha = (\<lambda>_. replicate 32 CHR 0xFF)"

definition demo_lock_bytes :: string where
  "demo_lock_bytes = json_dumps (JObj
     [(''domain'', JStr ''paraworks:postgres-advisory-int4-pair:v1''),
      (''policy_version'', JStr ''rag-lock-order:v1''), (''value'', JStr ''x'')])"

lemma demo_lock_identity:
  "advisory_identity_bytes demo_lock_primitives (JStr ''x'') = Inr demo_lock_bytes"
  by (simp add: advisory_identity_bytes_def canonical_json_bytes_def demo_lock_primitives_def
      demo_lock_bytes_def utf8_valid_ascii del: json_dumps.simps)

lemma demo_pair: "int4_pair (demo_sha s) = (-1, -1)"
proof -
  have "be_word (replicate 4 CHR 0xFF) = -1" by code_simp
  then show ?thesis by (simp add: int4_pair_def int4_def demo_sha_def)
qed

lemma demo_registers:
  "register_advisory_identity_db demo_lock_primitives demo_sha Map.empty None (JStr ''x'') ''static''
     = Inr [(-1, -1) \<mapsto> lock_row_of demo_sha ''static'' demo_lock_bytes]"
  by (simp add: register_advisory_identity_db_def known_namespace_def demo_lock_identity demo_pair)

theorem registration_is_stable_witness:
  "returns (load_advisory_capability demo_lock_primitives demo_sha
     [(-1, -1) \<mapsto> lock_row_of demo_sha ''static'' demo_lock_bytes] False (JStr ''x'') ''static'')"
  using registration_is_stable [OF demo_registers] by auto

theorem advisory_key_names_one_identity_witness:
  "\<exists>cap. load_advisory_capability demo_lock_primitives demo_sha
     [(-1, -1) \<mapsto> lock_row_of demo_sha ''static'' demo_lock_bytes] False (JStr ''x'') ''static'' = Inr cap
     \<and> ''static'' = ''static''"
proof -
  let ?cap = "\<lparr>al_key = (-1, -1), al_namespace = ''static'', al_digest = hexdigest (demo_sha demo_lock_bytes),
    al_canonical = demo_lock_bytes, al_sealed = True\<rparr>"
  have "load_advisory_capability demo_lock_primitives demo_sha
     [(-1, -1) \<mapsto> lock_row_of demo_sha ''static'' demo_lock_bytes] False (JStr ''x'') ''static'' = Inr ?cap"
    by (simp add: load_advisory_capability_Inr demo_lock_identity demo_pair)
  with advisory_key_names_one_identity [OF this this refl] show ?thesis by blast
qed

definition demo_first_request :: lock_request where
  "demo_first_request = \<lparr>lq_coordinator = \<lparr>co_id = 1, co_path = ''ordinary'', co_order = ordinary_rag_lock_order,
     co_next = 0\<rparr>, lq_held = []\<rparr>"

definition demo_second_request :: lock_request where
  "demo_second_request = \<lparr>lq_coordinator = \<lparr>co_id = 2, co_path = ''live_release'', co_order = live_release_lock_order,
     co_next = 1\<rparr>, lq_held = [''provider_stable_sidecar'']\<rparr>"

lemma demo_first_reachable: "lock_reachable demo_first_request"
proof (rule reach_init)
  have "begin_rag_lock_order 1 ''ordinary'' = Inr (lq_coordinator demo_first_request)"
    by (simp add: begin_rag_lock_order_def demo_first_request_def)
  then show "lock_initial demo_first_request" unfolding lock_initial_def
    by (auto simp: demo_first_request_def)
qed

lemma demo_second_reachable: "lock_reachable demo_second_request"
proof (rule reach_step)
  let ?c = "\<lparr>co_id = 2, co_path = ''live_release'', co_order = live_release_lock_order, co_next = 0\<rparr>"
  let ?r = "\<lparr>lq_coordinator = ?c, lq_held = []\<rparr>"
  have "begin_rag_lock_order 2 ''live_release'' = Inr (lq_coordinator ?r)"
    by (simp add: begin_rag_lock_order_def)
  then have "lock_initial ?r" unfolding lock_initial_def by (metis lock_request.select_convs(2))
  then show "lock_reachable ?r" by (rule reach_init)
  have *: "acquire_stage ?c ''provider_stable_sidecar'' = Inr (\<lparr>lc_path = ''live_release'',
      lc_stage = ''provider_stable_sidecar'', lc_ordinal = 0, lc_coordinator = 2, lc_sealed = True\<rparr>,
      ?c\<lparr>co_next := 1\<rparr>)"
    by (simp add: acquire_stage_def Let_def live_release_lock_order_def)
  show "lock_step ?r demo_second_request"
    using lock_acquire [of ?r, simplified, OF *] by (simp add: demo_second_request_def)
qed

theorem lock_order_excludes_deadlock_witness:
  "waits_for demo_first_request demo_second_request \<and> \<not> waits_for demo_second_request demo_first_request"
proof -
  let ?R = "{(r, q). lock_reachable r \<and> lock_reachable q \<and> waits_for r q}"
  have *: "waits_for demo_first_request demo_second_request"
    by (simp add: waits_for_def demo_first_request_def demo_second_request_def acquire_stage_def
        ordinary_rag_lock_order_def Let_def)
  then have "(demo_first_request, demo_second_request) \<in> ?R"
    using demo_first_reachable demo_second_reachable by simp
  moreover have "(demo_first_request, demo_first_request) \<notin> ?R\<^sup>+"
    using lock_order_excludes_deadlock by (simp add: acyclic_def)
  ultimately have "(demo_second_request, demo_first_request) \<notin> ?R"
    by (meson r_into_trancl trancl_into_trancl)
  then show ?thesis using * demo_first_reachable demo_second_reachable by simp
qed

end
