(* ===== verification/Provider_Usage.thy ===== *)
theory Provider_Usage
  imports Retrieval
begin

text \<open>
  \<open>agent_runtime/provider_usage.py\<close>: how the token counts of a provider's answer become a
  \<open>StrictProviderUsage\<close>. The answer is untrusted Python data, so it is an object graph: a heap maps an
  address (\<open>id\<close>) to a cell, sharing and cycles included. A mapping that is not a \<open>dict\<close> may answer
  every read differently: its cell is a function of the number of reads made so far, which the
  functions thread. Both parsers catch every exception and raise one \<open>ValueError\<close>, so an exception
  inside them is \<open>None\<close>. A \<open>try ... finally\<close> that takes an identity out of \<open>active_containers\<close> again is
  the scope of an argument.
\<close>

section \<open>Untrusted values\<close>

datatype key = Str_Key string | Other_Key

text \<open>What \<open>value.items()\<close> gives: an exception, or its items, \<open>None\<close> where one is no pair.\<close>

datatype read = Raises | Items "(key \<times> nat) option list"

datatype cell =
    C_Int int
  | C_Scalar
  | C_Dict "(key \<times> nat) list"
  | C_Mapping "nat \<Rightarrow> read"
  | C_Sequence "nat list"
  | C_Other_Sequence

text \<open>
  \<open>C_Int\<close> is an exact \<open>int\<close>; \<open>C_Scalar\<close> is \<open>None\<close>, a \<open>bool\<close>, a \<open>float\<close>, a \<open>str\<close>, \<open>bytes\<close> or any other object that
  is neither a mapping nor a sequence; \<open>C_Sequence\<close> is an exact \<open>list\<close> or \<open>tuple\<close>.
\<close>

type_synonym heap = "nat \<Rightarrow> cell"

definition token_field_names :: "string list" where
  "token_field_names =
    [''input_tokens'', ''prompt_tokens'', ''output_tokens'', ''completion_tokens'', ''total_tokens'']"

definition usage_wrapper_names :: "string list" where
  "usage_wrapper_names = [''token_usage'', ''usage'']"

definition all_authority_names :: "string list" where
  "all_authority_names = token_field_names @ usage_wrapper_names"

definition max_detail_depth :: nat where "max_detail_depth = 32"
definition max_detail_nodes :: nat where "max_detail_nodes = 4096"

section \<open>Snapshots\<close>

fun str_item :: "(key \<times> nat) option \<Rightarrow> (string \<times> nat) option" where
  "str_item (Some (Str_Key k, a)) = Some (k, a)"
| "str_item _ = None"

definition validated_items :: "read \<Rightarrow> (string \<times> nat) list option" where
  "validated_items r =
     (case r of
        Raises \<Rightarrow> None
      | Items items \<Rightarrow>
          if length items > max_detail_nodes then None
          else Option.bind (all_some (map str_item items))
                 (\<lambda>kvs. if distinct (map fst kvs) then Some kvs else None))"

definition mapping_snapshot :: "heap \<Rightarrow> nat \<Rightarrow> nat \<Rightarrow> ((string \<times> nat) list \<times> nat) option" where
  "mapping_snapshot h t a =
     (case h a of
        C_Dict items \<Rightarrow> map_option (\<lambda>kvs. (kvs, t)) (validated_items (Items (map Some items)))
      | C_Mapping reader \<Rightarrow>
          Option.bind (validated_items (reader t)) (\<lambda>first.
          Option.bind (validated_items (reader (t + 1))) (\<lambda>second.
            if first \<noteq> second then None else Some (first, t + 2)))
      | _ \<Rightarrow> None)"

section \<open>Nested authority\<close>

definition has_key :: "string list \<Rightarrow> (string \<times> nat) list \<Rightarrow> bool" where
  "has_key names kvs \<longleftrightarrow> list_ex (\<lambda>(k, _). k \<in> set names) kvs"

text \<open>
  The walk over the details: \<open>n\<close> nodes are left, \<open>t\<close> reads have been made, \<open>active\<close> are the containers
  on the path from the root. It returns what is left of the two counters.
\<close>

function reject_nested :: "heap \<Rightarrow> nat \<Rightarrow> nat list \<Rightarrow> nat \<Rightarrow> nat \<Rightarrow> nat \<Rightarrow> (nat \<times> nat) option"
  and reject_all :: "heap \<Rightarrow> nat \<Rightarrow> nat list \<Rightarrow> nat \<Rightarrow> nat \<Rightarrow> nat list \<Rightarrow> (nat \<times> nat) option"
where
  "reject_nested h depth active n t a =
     (if depth > max_detail_depth \<or> n = 0 then None
      else case h a of
        C_Int _ \<Rightarrow> Some (n - 1, t)
      | C_Scalar \<Rightarrow> Some (n - 1, t)
      | C_Other_Sequence \<Rightarrow> None
      | C_Sequence items \<Rightarrow>
          if a \<in> set active \<or> length items > n - 1 then None
          else reject_all h (depth + 1) (a # active) (n - 1) t items
      | _ \<Rightarrow>
          if a \<in> set active then None
          else (case mapping_snapshot h t a of
                  None \<Rightarrow> None
                | Some (kvs, t') \<Rightarrow>
                    if has_key all_authority_names kvs then None
                    else reject_all h (depth + 1) (a # active) (n - 1) t' (map snd kvs)))"
| "reject_all h depth active n t [] = Some (n, t)"
| "reject_all h depth active n t (a # as) =
     (case reject_nested h depth active n t a of
        None \<Rightarrow> None
      | Some (n', t') \<Rightarrow> reject_all h depth active n' t' as)"
  by pat_completeness auto
termination
  by (relation "inv_image (less_than <*lex*> less_than)
        (\<lambda>x. case x of Inl (h, depth, active, n, t, a) \<Rightarrow> (33 - depth, 0)
                     | Inr (h, depth, active, n, t, as) \<Rightarrow> (33 - depth, Suc (length as)))")
    (auto simp: max_detail_depth_def)

declare reject_nested.simps [simp del]

definition validate_details :: "heap \<Rightarrow> string list \<Rightarrow> nat \<Rightarrow> (string \<times> nat) list \<Rightarrow> nat option" where
  "validate_details h allowed t kvs =
     map_option snd
       (reject_all h 0 [] max_detail_nodes t (map snd (filter (\<lambda>(k, _). k \<notin> set allowed) kvs)))"

section \<open>Tokens\<close>

definition required_exact_token :: "heap \<Rightarrow> (string \<times> nat) list \<Rightarrow> string \<Rightarrow> int option" where
  "required_exact_token h kvs k =
     (case map_of kvs k of
        None \<Rightarrow> None
      | Some a \<Rightarrow> (case h a of C_Int i \<Rightarrow> if i < 0 then None else Some i | _ \<Rightarrow> None))"

definition required_synonym_token ::
  "heap \<Rightarrow> (string \<times> nat) list \<Rightarrow> string \<Rightarrow> string \<Rightarrow> int option" where
  "required_synonym_token h kvs primary secondary =
     (case filter (\<lambda>k. map_of kvs k \<noteq> None) [primary, secondary] of
        [] \<Rightarrow> None
      | [k] \<Rightarrow> required_exact_token h kvs k
      | k # k' # _ \<Rightarrow>
          Option.bind (required_exact_token h kvs k) (\<lambda>selected.
            if required_exact_token h kvs k' \<noteq> Some selected then None else Some selected))"

definition strict_usage_of :: "int \<Rightarrow> int \<Rightarrow> int \<Rightarrow> strict_usage option" where
  "strict_usage_of i out tot =
     (if tot \<noteq> i + out then None
      else case make_strict_usage i out tot of Inl _ \<Rightarrow> None | Inr u \<Rightarrow> Some u)"

section \<open>The parsers\<close>

text \<open>\<open>getattr(message, name, default)\<close>: the attribute, its absence, or an exception.\<close>

datatype attribute = Present nat | Absent | Failing

record message =
  mg_usage_metadata :: attribute
  mg_response_metadata :: attribute

definition attribute_snapshot ::
  "heap \<Rightarrow> (string \<times> nat) list option \<Rightarrow> nat \<Rightarrow> attribute \<Rightarrow> ((string \<times> nat) list \<times> nat) option" where
  "attribute_snapshot h fallback t attr =
     (case attr of
        Present a \<Rightarrow> mapping_snapshot h t a
      | Absent \<Rightarrow> map_option (\<lambda>kvs. (kvs, t)) fallback
      | Failing \<Rightarrow> None)"

text \<open>One pass of the loop over \<open>token_usage\<close> and \<open>usage\<close>.\<close>

definition check_alias ::
  "heap \<Rightarrow> strict_usage \<Rightarrow> (string \<times> nat) list \<Rightarrow> string \<Rightarrow> nat \<Rightarrow> nat option" where
  "check_alias h usage response k t =
     (case map_of response k of
        None \<Rightarrow> Some t
      | Some a \<Rightarrow>
          Option.bind (mapping_snapshot h t a) (\<lambda>(report, t').
            if has_key usage_wrapper_names report then None
            else Option.bind (validate_details h token_field_names t' report) (\<lambda>t''.
              Option.bind (required_synonym_token h report ''input_tokens'' ''prompt_tokens'') (\<lambda>i.
              Option.bind (required_synonym_token h report ''output_tokens'' ''completion_tokens'') (\<lambda>out.
              Option.bind (required_exact_token h report ''total_tokens'') (\<lambda>tot.
              Option.bind (strict_usage_of i out tot) (\<lambda>u.
                if u \<noteq> usage then None else Some t'')))))))"

definition parse_message_inner :: "heap \<Rightarrow> message \<Rightarrow> strict_usage option" where
  "parse_message_inner h m =
     (if mg_usage_metadata m = Failing \<or> mg_response_metadata m = Failing then None
      else Option.bind (attribute_snapshot h None 0 (mg_usage_metadata m)) (\<lambda>(primary, t1).
        if has_key ([''prompt_tokens'', ''completion_tokens''] @ usage_wrapper_names) primary then None
        else Option.bind (validate_details h [''input_tokens'', ''output_tokens'', ''total_tokens''] t1 primary)
          (\<lambda>t2.
        Option.bind (required_exact_token h primary ''input_tokens'') (\<lambda>i.
        Option.bind (required_exact_token h primary ''output_tokens'') (\<lambda>out.
        Option.bind (required_exact_token h primary ''total_tokens'') (\<lambda>tot.
        Option.bind (strict_usage_of i out tot) (\<lambda>usage.
        Option.bind (attribute_snapshot h (Some []) t2 (mg_response_metadata m)) (\<lambda>(response, t3).
        if has_key token_field_names response then None
        else Option.bind (validate_details h usage_wrapper_names t3 response) (\<lambda>t4.
        Option.bind (check_alias h usage response ''token_usage'' t4) (\<lambda>t5.
        Option.bind (check_alias h usage response ''usage'' t5) (\<lambda>_. Some usage)))))))))))"

definition parse_message :: "heap \<Rightarrow> message \<Rightarrow> strict_usage result" where
  "parse_message h m =
     (case parse_message_inner h m of
        None \<Rightarrow> Inl (Value_Error ''chat provider usage is invalid'')
      | Some u \<Rightarrow> Inr u)"

definition zero_if_present :: "heap \<Rightarrow> (string \<times> nat) list \<Rightarrow> string \<Rightarrow> unit option" where
  "zero_if_present h kvs k =
     (if map_of kvs k = None then Some ()
      else Option.bind (required_exact_token h kvs k) (\<lambda>i. if i \<noteq> 0 then None else Some ()))"

definition parse_usage_inner :: "heap \<Rightarrow> nat \<Rightarrow> strict_usage option" where
  "parse_usage_inner h a =
     Option.bind (mapping_snapshot h 0 a) (\<lambda>(metadata, t).
       if has_key usage_wrapper_names metadata then None
       else Option.bind (validate_details h token_field_names t metadata) (\<lambda>_.
       Option.bind (required_exact_token h metadata ''prompt_tokens'') (\<lambda>prompt.
       if map_of metadata ''input_tokens'' \<noteq> None
          \<and> required_exact_token h metadata ''input_tokens'' \<noteq> Some prompt then None
       else Option.bind (zero_if_present h metadata ''output_tokens'') (\<lambda>_.
       Option.bind (zero_if_present h metadata ''completion_tokens'') (\<lambda>_.
       Option.bind (required_exact_token h metadata ''total_tokens'') (\<lambda>tot.
         strict_usage_of prompt 0 tot))))))"

definition parse_usage :: "heap \<Rightarrow> nat \<Rightarrow> strict_usage result" where
  "parse_usage h a =
     (case parse_usage_inner h a of
        None \<Rightarrow> Inl (Value_Error ''embedding provider usage is invalid'')
      | Some u \<Rightarrow> Inr u)"

section \<open>What an accepted answer is\<close>

text \<open>
  A heap is steady when its mappings answer every read alike; \<open>members\<close> is then what a mapping holds,
  \<open>kids\<close> are the values a container holds, and \<open>clean\<close> says that an object is no hidden authority.
\<close>

definition steady :: "heap \<Rightarrow> bool" where
  "steady h \<longleftrightarrow> (\<forall>a reader t. h a = C_Mapping reader \<longrightarrow> reader t = reader 0)"

definition members :: "heap \<Rightarrow> nat \<Rightarrow> (string \<times> nat) list option" where
  "members h a = map_option fst (mapping_snapshot h 0 a)"

definition kids :: "heap \<Rightarrow> nat \<Rightarrow> nat list" where
  "kids h a = (case h a of C_Sequence items \<Rightarrow> items
               | _ \<Rightarrow> (case members h a of Some kvs \<Rightarrow> map snd kvs | None \<Rightarrow> []))"

definition clean :: "heap \<Rightarrow> nat \<Rightarrow> bool" where
  "clean h a \<longleftrightarrow> h a \<noteq> C_Other_Sequence
     \<and> (\<forall>kvs. members h a = Some kvs \<longrightarrow> \<not> has_key all_authority_names kvs)"

inductive inside :: "heap \<Rightarrow> nat \<Rightarrow> nat \<Rightarrow> bool" for h where
  inside_self: "inside h a a"
| inside_kid: "b \<in> set (kids h a) \<Longrightarrow> inside h b c \<Longrightarrow> inside h a c"

inductive_simps inside_iff: "inside h a c"

lemma mapping_snapshot_steady:
  "steady h \<Longrightarrow> mapping_snapshot h t a = Some (kvs, t') \<Longrightarrow> members h a = Some kvs"
  by (auto simp: mapping_snapshot_def members_def steady_def bind_eq_Some_conv
      split: cell.splits if_splits) metis+

lemma mapping_snapshot_container:
  "mapping_snapshot h t a = Some x \<Longrightarrow> (\<exists>items. h a = C_Dict items) \<or> (\<exists>r. h a = C_Mapping r)"
  by (auto simp: mapping_snapshot_def split: cell.splits)

lemma reject_clean:
  "steady h \<Longrightarrow> reject_nested h depth active n t a = Some r \<Longrightarrow> inside h a b \<Longrightarrow> clean h b"
  "steady h \<Longrightarrow> reject_all h depth active n t as = Some r \<Longrightarrow> a \<in> set as \<Longrightarrow> inside h a b \<Longrightarrow> clean h b"
proof (induction h depth active n t a and h depth active n t as arbitrary: r b and r a b
    rule: reject_nested_reject_all.induct)
  case (1 h depth active n t x)
  have guard: "\<not> (depth > max_detail_depth \<or> n = 0)"
    using "1.prems"(2) by (subst (asm) reject_nested.simps) (auto split: if_splits)
  have self: "clean h x \<and> (\<forall>k \<in> set (kids h x). inside h k b \<longrightarrow> clean h b)"
  proof (cases "h x")
    case (C_Sequence items)
    then have "reject_all h (depth + 1) (x # active) (n - 1) t items = Some r"
      and ok: "\<not> (x \<in> set active \<or> length items > n - 1)"
      using "1.prems"(2) guard by (subst (asm) reject_nested.simps; simp split: if_splits)+
    then show ?thesis
      using "1.IH"(3) [OF guard C_Sequence ok "1.prems"(1)] C_Sequence
      by (auto simp: clean_def kids_def members_def mapping_snapshot_def)
  next
    case (C_Dict items)
    have na: "x \<notin> set active"
      using "1.prems"(2) guard C_Dict by (subst (asm) reject_nested.simps) (auto split: if_splits)
    obtain kvs t' where ms: "mapping_snapshot h t x = Some (kvs, t')"
      and nk: "\<not> has_key all_authority_names kvs"
      and rest: "reject_all h (depth + 1) (x # active) (n - 1) t' (map snd kvs) = Some r"
      using "1.prems"(2) guard C_Dict na
      by (subst (asm) reject_nested.simps) (auto split: if_splits option.splits)
    have "members h x = Some kvs" using "1.prems"(1) ms by (rule mapping_snapshot_steady)
    then show ?thesis
      using "1.IH"(1) [OF guard C_Dict na ms refl nk "1.prems"(1) rest] C_Dict nk
      by (auto simp: clean_def kids_def)
  next
    case (C_Mapping reader)
    have na: "x \<notin> set active"
      using "1.prems"(2) guard C_Mapping by (subst (asm) reject_nested.simps) (auto split: if_splits)
    obtain kvs t' where ms: "mapping_snapshot h t x = Some (kvs, t')"
      and nk: "\<not> has_key all_authority_names kvs"
      and rest: "reject_all h (depth + 1) (x # active) (n - 1) t' (map snd kvs) = Some r"
      using "1.prems"(2) guard C_Mapping na
      by (subst (asm) reject_nested.simps) (auto split: if_splits option.splits)
    have "members h x = Some kvs" using "1.prems"(1) ms by (rule mapping_snapshot_steady)
    then show ?thesis
      using "1.IH"(2) [OF guard C_Mapping na ms refl nk "1.prems"(1) rest] C_Mapping nk
      by (auto simp: clean_def kids_def)
  qed (use "1.prems"(2) guard in \<open>auto simp: reject_nested.simps clean_def kids_def members_def
        mapping_snapshot_def split: if_splits\<close>)
  then show ?case using "1.prems"(3) by (auto simp: inside_iff [of h x b])
next
  case (3 h depth active n t x xs)
  obtain n' t' where head: "reject_nested h depth active n t x = Some (n', t')"
    and tail: "reject_all h depth active n' t' xs = Some r"
    using "3.prems"(2) by (auto split: option.splits)
  show ?case
    using "3.prems"(3) "3.IH"(1) [OF "3.prems"(1) head] "3.prems"(4)
      "3.IH"(2) [OF head refl "3.prems"(1) tail _ "3.prems"(4)]
    by auto
qed auto

lemma validate_details_clean:
  assumes "validate_details h allowed t kvs = Some t'" and "steady h"
    and "(k, a) \<in> set kvs" and "k \<notin> set allowed" and "inside h a b"
  shows "clean h b"
proof -
  obtain r where r: "reject_all h 0 [] max_detail_nodes t
      (map snd (filter (\<lambda>(k, _). k \<notin> set allowed) kvs)) = Some r"
    using assms(1) by (auto simp: validate_details_def)
  have "a \<in> set (map snd (filter (\<lambda>(k, _). k \<notin> set allowed) kvs))"
    using assms(3,4) by force
  then show ?thesis using reject_clean(2) [OF assms(2) r _ assms(5)] by blast
qed

lemma strict_usage_of_Some [simp]:
  "strict_usage_of i out tot = Some u \<longleftrightarrow> u = \<lparr>input_tokens = i, output_tokens = out, total_tokens = tot\<rparr>
     \<and> tot = i + out \<and> is_signed_bigint i \<and> is_signed_bigint out \<and> is_signed_bigint tot"
  by (auto simp: strict_usage_of_def make_strict_usage_def split: sum.splits)
    (auto simp: validate_strict_provider_usage_def split: if_splits)

lemma required_exact_token_Some:
  "required_exact_token h kvs k = Some i \<longleftrightarrow> (\<exists>a. map_of kvs k = Some a \<and> h a = C_Int i \<and> 0 \<le> i)"
  by (auto simp: required_exact_token_def split: option.splits cell.splits if_splits)

text \<open>Elimination of a guarded step, of a step that may fail, and of a pair.\<close>

lemma guard_SomeE:
  assumes "(if b then None else x) = Some y"
  obtains "\<not> b" and "x = Some y"
  using assms by (auto split: if_splits)

lemma bind_SomeE:
  assumes "Option.bind f g = Some y"
  obtains x where "f = Some x" and "g x = Some y"
  using assms by (auto simp: bind_eq_Some_conv)

lemma pair_SomeE:
  assumes "(case p of (a, b) \<Rightarrow> f a b) = Some y"
  obtains a b where "p = (a, b)" and "f a b = Some y"
  using assms by (cases p) auto

text \<open>The bounds and the sum every accepted usage has.\<close>

definition exact_usage :: "strict_usage \<Rightarrow> bool" where
  "exact_usage u \<longleftrightarrow> 0 \<le> input_tokens u \<and> 0 \<le> output_tokens u
     \<and> total_tokens u = input_tokens u + output_tokens u \<and> total_tokens u < 2 ^ 63"

lemma check_alias_agrees:
  assumes "check_alias h usage response k t = Some t'" and "map_of response k = Some a" and "steady h"
  shows "\<exists>report. members h a = Some report
    \<and> required_synonym_token h report ''input_tokens'' ''prompt_tokens'' = Some (input_tokens usage)
    \<and> required_synonym_token h report ''output_tokens'' ''completion_tokens'' = Some (output_tokens usage)
    \<and> required_exact_token h report ''total_tokens'' = Some (total_tokens usage)"
proof -
  obtain report t1 where "mapping_snapshot h t a = Some (report, t1)"
    and rest: "required_synonym_token h report ''input_tokens'' ''prompt_tokens'' = Some (input_tokens usage)"
      "required_synonym_token h report ''output_tokens'' ''completion_tokens'' = Some (output_tokens usage)"
      "required_exact_token h report ''total_tokens'' = Some (total_tokens usage)"
    using assms(1,2) by (auto simp: check_alias_def bind_eq_Some_conv split: if_splits)
  then show ?thesis using mapping_snapshot_steady [OF assms(3)] by blast
qed

lemma attribute_snapshot_steady:
  "attribute_snapshot h fallback t attr = Some (kvs, t') \<Longrightarrow> steady h \<Longrightarrow>
     (\<exists>a. attr = Present a \<and> members h a = Some kvs) \<or> attr = Absent \<and> fallback = Some kvs"
  using mapping_snapshot_steady by (auto simp: attribute_snapshot_def split: attribute.splits)

lemma has_key_in: "(k, a) \<in> set kvs \<Longrightarrow> k \<in> set names \<Longrightarrow> has_key names kvs"
  by (force simp: has_key_def list_ex_iff)

lemma authority_names_split:
  "k \<in> set all_authority_names \<Longrightarrow> k \<in> {''input_tokens'', ''output_tokens'', ''total_tokens''}
     \<or> k \<in> set ([''prompt_tokens'', ''completion_tokens''] @ usage_wrapper_names)"
  by (auto simp: all_authority_names_def token_field_names_def)

lemma wrapper_cases: "k \<in> set usage_wrapper_names \<Longrightarrow> k = ''token_usage'' \<or> k = ''usage''"
  by (auto simp: usage_wrapper_names_def)

text \<open>
  C6. A chat answer is charged by its usage metadata only: when the parser accepts, the three counts
  are the exact non-negative integers of that mapping, they add up below 2^63, every usage
  report among the response metadata states the same counts under either of its spellings, and
  nothing nested anywhere else in the answer carries a usage field.
\<close>

theorem parse_message_sound:
  assumes "parse_message h m = Inr u" and "steady h"
  shows "exact_usage u \<and> (\<exists>a primary. mg_usage_metadata m = Present a \<and> members h a = Some primary
    \<and> required_exact_token h primary ''input_tokens'' = Some (input_tokens u)
    \<and> required_exact_token h primary ''output_tokens'' = Some (output_tokens u)
    \<and> required_exact_token h primary ''total_tokens'' = Some (total_tokens u)
    \<and> (\<forall>(k, b) \<in> set primary. k \<in> set all_authority_names
         \<longrightarrow> k \<in> {''input_tokens'', ''output_tokens'', ''total_tokens''})
    \<and> (\<forall>(k, b) \<in> set primary. k \<notin> set all_authority_names \<longrightarrow> (\<forall>c. inside h b c \<longrightarrow> clean h c)))
    \<and> (\<forall>a response. mg_response_metadata m = Present a \<longrightarrow> members h a = Some response \<longrightarrow>
         (\<forall>(k, b) \<in> set response. k \<notin> set usage_wrapper_names \<longrightarrow>
            k \<notin> set token_field_names \<and> (\<forall>c. inside h b c \<longrightarrow> clean h c))
         \<and> (\<forall>k b. k \<in> set usage_wrapper_names \<longrightarrow> map_of response k = Some b \<longrightarrow>
              (\<exists>report. members h b = Some report
                 \<and> required_synonym_token h report ''input_tokens'' ''prompt_tokens'' = Some (input_tokens u)
                 \<and> required_synonym_token h report ''output_tokens'' ''completion_tokens''
                     = Some (output_tokens u)
                 \<and> required_exact_token h report ''total_tokens'' = Some (total_tokens u))))"
proof -
  have inner: "parse_message_inner h m = Some u"
    using assms(1) by (auto simp: parse_message_def split: option.splits)
  obtain primary t1 t2 i out tot usage response t3 t4 t5 t6 where
    p: "attribute_snapshot h None 0 (mg_usage_metadata m) = Some (primary, t1)"
    and pk: "\<not> has_key ([''prompt_tokens'', ''completion_tokens''] @ usage_wrapper_names) primary"
    and pd: "validate_details h [''input_tokens'', ''output_tokens'', ''total_tokens''] t1 primary = Some t2"
    and tk: "required_exact_token h primary ''input_tokens'' = Some i"
      "required_exact_token h primary ''output_tokens'' = Some out"
      "required_exact_token h primary ''total_tokens'' = Some tot"
    and us: "strict_usage_of i out tot = Some usage"
    and r: "attribute_snapshot h (Some []) t2 (mg_response_metadata m) = Some (response, t3)"
    and rk: "\<not> has_key token_field_names response"
    and rd: "validate_details h usage_wrapper_names t3 response = Some t4"
    and al: "check_alias h usage response ''token_usage'' t4 = Some t5"
      "check_alias h usage response ''usage'' t5 = Some t6" and uu: "Some usage = Some u"
    using inner unfolding parse_message_inner_def
    by (elim guard_SomeE bind_SomeE pair_SomeE) (hypsubst, rule that)
  have tok: "required_exact_token h primary ''input_tokens'' = Some (input_tokens u)"
      "required_exact_token h primary ''output_tokens'' = Some (output_tokens u)"
      "required_exact_token h primary ''total_tokens'' = Some (total_tokens u)"
    and u: "total_tokens u = input_tokens u + output_tokens u" "is_signed_bigint (total_tokens u)"
    and a1: "check_alias h u response ''token_usage'' t4 = Some t5"
    and a2: "check_alias h u response ''usage'' t5 = Some t6"
    using tk us al uu by auto
  obtain a where a: "mg_usage_metadata m = Present a" "members h a = Some primary"
    using attribute_snapshot_steady [OF p assms(2)] by auto
  have exact: "exact_usage u"
    using u tok by (auto simp: exact_usage_def required_exact_token_Some is_signed_bigint_def
        signed_bigint_max_def)
  have keys: "\<forall>(k, b) \<in> set primary. k \<in> set all_authority_names
      \<longrightarrow> k \<in> {''input_tokens'', ''output_tokens'', ''total_tokens''}"
    using pk authority_names_split has_key_in by blast
  have "set [''input_tokens'', ''output_tokens'', ''total_tokens''] \<subseteq> set all_authority_names"
    by code_simp
  then have pclean: "\<forall>(k, b) \<in> set primary. k \<notin> set all_authority_names
      \<longrightarrow> (\<forall>c. inside h b c \<longrightarrow> clean h c)"
    using validate_details_clean [OF pd assms(2)] by blast
  have "(\<forall>(k, b) \<in> set resp. k \<notin> set usage_wrapper_names \<longrightarrow>
            k \<notin> set token_field_names \<and> (\<forall>c. inside h b c \<longrightarrow> clean h c))
         \<and> (\<forall>k b. k \<in> set usage_wrapper_names \<longrightarrow> map_of resp k = Some b \<longrightarrow>
              (\<exists>report. members h b = Some report
                 \<and> required_synonym_token h report ''input_tokens'' ''prompt_tokens'' = Some (input_tokens u)
                 \<and> required_synonym_token h report ''output_tokens'' ''completion_tokens''
                     = Some (output_tokens u)
                 \<and> required_exact_token h report ''total_tokens'' = Some (total_tokens u)))"
    if "mg_response_metadata m = Present b" and "members h b = Some resp" for b resp
  proof -
    have resp: "resp = response" using attribute_snapshot_steady [OF r assms(2)] that by auto
    show ?thesis
      unfolding resp
      using rk validate_details_clean [OF rd assms(2)] check_alias_agrees [OF a1 _ assms(2)]
        check_alias_agrees [OF a2 _ assms(2)] has_key_in wrapper_cases
      by blast
  qed
  then show ?thesis using exact a tok keys pclean by blast
qed

text \<open>
  An embedding answer is charged by its prompt tokens: when the parser accepts, the count is the
  exact non-negative integer of the mapping, the total equals it, no output is reported, and no
  other value of the mapping hides a usage field at any depth.
\<close>

theorem parse_usage_sound:
  assumes "parse_usage h a = Inr u" and "steady h"
  shows "exact_usage u \<and> output_tokens u = 0 \<and> (\<exists>kvs. members h a = Some kvs
    \<and> required_exact_token h kvs ''prompt_tokens'' = Some (input_tokens u)
    \<and> required_exact_token h kvs ''total_tokens'' = Some (input_tokens u)
    \<and> (map_of kvs ''input_tokens'' \<noteq> None
         \<longrightarrow> required_exact_token h kvs ''input_tokens'' = Some (input_tokens u))
    \<and> (\<forall>k \<in> {''output_tokens'', ''completion_tokens''}. map_of kvs k \<noteq> None
         \<longrightarrow> required_exact_token h kvs k = Some 0)
    \<and> (\<forall>(k, b) \<in> set kvs. k \<notin> set token_field_names
         \<longrightarrow> k \<notin> set usage_wrapper_names \<and> (\<forall>c. inside h b c \<longrightarrow> clean h c)))"
proof -
  have inner: "parse_usage_inner h a = Some u"
    using assms(1) by (auto simp: parse_usage_def split: option.splits)
  obtain kvs t t' where ms: "mapping_snapshot h 0 a = Some (kvs, t)"
    and nk: "\<not> has_key usage_wrapper_names kvs"
    and d: "validate_details h token_field_names t kvs = Some t'"
    and tok: "required_exact_token h kvs ''prompt_tokens'' = Some (input_tokens u)"
      "required_exact_token h kvs ''total_tokens'' = Some (input_tokens u)"
    and inp: "map_of kvs ''input_tokens'' \<noteq> None
         \<longrightarrow> required_exact_token h kvs ''input_tokens'' = Some (input_tokens u)"
    and zero: "zero_if_present h kvs ''output_tokens'' = Some ()"
      "zero_if_present h kvs ''completion_tokens'' = Some ()"
    and u: "u = \<lparr>input_tokens = input_tokens u, output_tokens = 0, total_tokens = input_tokens u\<rparr>"
      "is_signed_bigint (input_tokens u)"
    using inner by (auto simp: parse_usage_inner_def bind_eq_Some_conv split: if_splits)
  have "exact_usage u \<and> output_tokens u = 0"
    using u by (cases u) (auto simp: exact_usage_def is_signed_bigint_def signed_bigint_max_def)
  moreover have "\<forall>k \<in> {''output_tokens'', ''completion_tokens''}. map_of kvs k \<noteq> None
         \<longrightarrow> required_exact_token h kvs k = Some 0"
    using zero by (auto simp: zero_if_present_def bind_eq_Some_conv split: if_splits)
  moreover have "\<forall>(k, b) \<in> set kvs. k \<notin> set token_field_names
         \<longrightarrow> k \<notin> set usage_wrapper_names \<and> (\<forall>c. inside h b c \<longrightarrow> clean h c)"
    using nk validate_details_clean [OF d assms(2)] has_key_in by blast
  ultimately show ?thesis
    using mapping_snapshot_steady [OF assms(2) ms] tok inp by blast
qed

section \<open>Witnesses\<close>

text \<open>An answer whose metadata repeats the counts in a wrapper and carries a nested detail.\<close>

definition demo_heap :: heap where
  "demo_heap = (\<lambda>_. C_Scalar)
     (0 := C_Dict [(Str_Key ''input_tokens'', 1), (Str_Key ''output_tokens'', 2),
                   (Str_Key ''total_tokens'', 3), (Str_Key ''details'', 4)],
      1 := C_Int 7, 2 := C_Int 5, 3 := C_Int 12, 4 := C_Dict [(Str_Key ''cached'', 5)],
      6 := C_Dict [(Str_Key ''token_usage'', 7), (Str_Key ''id'', 5)],
      7 := C_Dict [(Str_Key ''prompt_tokens'', 1), (Str_Key ''completion_tokens'', 2),
                   (Str_Key ''total_tokens'', 3)],
      8 := C_Dict [(Str_Key ''prompt_tokens'', 1), (Str_Key ''total_tokens'', 1)])"

definition demo_message :: message where
  "demo_message = \<lparr>mg_usage_metadata = Present 0, mg_response_metadata = Present 6\<rparr>"

lemma demo_steady: "steady demo_heap"
  by (auto simp: steady_def demo_heap_def)

theorem parse_message_sound_witness:
  "exact_usage \<lparr>input_tokens = 7, output_tokens = 5, total_tokens = 12\<rparr>"
proof -
  have "parse_message demo_heap demo_message
      = Inr \<lparr>input_tokens = 7, output_tokens = 5, total_tokens = 12\<rparr>"
    by code_simp
  from parse_message_sound [OF this demo_steady] show ?thesis by blast
qed

theorem parse_usage_sound_witness:
  "exact_usage \<lparr>input_tokens = 7, output_tokens = 0, total_tokens = 7\<rparr>"
proof -
  have "parse_usage demo_heap 8 = Inr \<lparr>input_tokens = 7, output_tokens = 0, total_tokens = 7\<rparr>"
    by code_simp
  from parse_usage_sound [OF this demo_steady] show ?thesis by blast
qed

end
