(* ===== verification/Exact_Json.thy ===== *)
theory Exact_Json
  imports Security_Scope
begin

text \<open>
  The exact JSON bytes of an answer request (\<open>agent_runtime/rag_cost_policy.py\<close>, \<open>_decode_exact_json\<close> and
  its helpers): the reader of Python's \<open>json.loads\<close> with the hooks the source passes (no constants,
  no repeated key), the tree check, and the comparison with the bytes the value encodes to. Every
  failure of the reader is one exception, so the reader gives an option. Its fuel is the length of
  the text: every call of the reader consumes a character.
\<close>

section \<open>Reading\<close>

definition json_space :: "char \<Rightarrow> bool" where
  "json_space c \<longleftrightarrow> c \<in> set [CHR '' '', CHR 0x09, CHR 0x0A, CHR 0x0D]"

abbreviation skip_ws :: "string \<Rightarrow> string" where
  "skip_ws \<equiv> dropWhile json_space"

definition hex_value :: "char \<Rightarrow> nat option" where
  "hex_value c =
     (let n = of_char c in
      if 48 \<le> n \<and> n < 58 then Some (n - 48)
      else if 97 \<le> n \<and> n < 103 then Some (n - 87)
      else if 65 \<le> n \<and> n < 71 then Some (n - 55)
      else None)"

fun read_hex4 :: "string \<Rightarrow> (nat \<times> string) option" where
  "read_hex4 (a # b # c # d # t) =
     (case (hex_value a, hex_value b, hex_value c, hex_value d) of
        (Some w, Some x, Some y, Some z) \<Rightarrow> Some (((w * 16 + x) * 16 + y) * 16 + z, t)
      | _ \<Rightarrow> None)"
| "read_hex4 _ = None"

text \<open>The UTF-8 bytes of a code point; a surrogate gives three bytes that are not valid UTF-8.\<close>

definition encode_point :: "nat \<Rightarrow> string" where
  "encode_point n =
     map char_of
       (if n < 128 then [n]
        else if n < 2048 then [192 + n div 64, 128 + n mod 64]
        else if n < 65536 then [224 + n div 4096, 128 + n div 64 mod 64, 128 + n mod 64]
        else [240 + n div 262144, 128 + n div 4096 mod 64, 128 + n div 64 mod 64, 128 + n mod 64])"

definition simple_escape :: "char \<Rightarrow> char option" where
  "simple_escape c =
     map_of [(CHR 0x22, CHR 0x22), (CHR 0x5C, CHR 0x5C), (CHR ''/'', CHR ''/''),
             (CHR ''b'', CHR 0x08), (CHR ''f'', CHR 0x0C), (CHR ''n'', CHR 0x0A),
             (CHR ''r'', CHR 0x0D), (CHR ''t'', CHR 0x09)] c"

definition high_surrogate :: "nat \<Rightarrow> bool" where
  "high_surrogate u \<longleftrightarrow> 55296 \<le> u \<and> u < 56320"
definition low_surrogate :: "nat \<Rightarrow> bool" where
  "low_surrogate u \<longleftrightarrow> 56320 \<le> u \<and> u < 57344"

text \<open>The code point of one \<open>\u\<close> escape, joined with a low surrogate that follows, and the rest.\<close>

definition read_escape_u :: "string \<Rightarrow> (string \<times> string) option" where
  "read_escape_u r =
     (case read_hex4 r of
        None \<Rightarrow> None
      | Some (u, t) \<Rightarrow>
          if high_surrogate u \<and> take 2 t = [CHR 0x5C, CHR ''u'']
          then (case read_hex4 (drop 2 t) of
                  None \<Rightarrow> None
                | Some (l, t') \<Rightarrow>
                    if low_surrogate l
                    then Some (encode_point (65536 + (u - 55296) * 1024 + (l - 56320)), t')
                    else Some (encode_point u, t))
          else Some (encode_point u, t))"

lemma read_hex4_length: "read_hex4 r = Some (u, t) \<Longrightarrow> length t < length r"
  by (cases r rule: read_hex4.cases) (auto split: option.splits)

lemma read_escape_u_length:
  assumes "read_escape_u r = Some (x, t)"
  shows "length t < length r"
proof -
  obtain u t1 where h: "read_hex4 r = Some (u, t1)"
    using assms by (auto simp: read_escape_u_def split: option.splits)
  have "length t \<le> length t1"
    using assms h read_hex4_length [of "drop 2 t1"]
    by (fastforce simp: read_escape_u_def split: if_splits option.splits)
  then show ?thesis using read_hex4_length [OF h] by simp
qed

function read_chars :: "string \<Rightarrow> (string \<times> string) option" where
  "read_chars [] = None"
| "read_chars (c # s) =
     (if c = CHR 0x22 then Some ([], s)
      else if c = CHR 0x5C then
        (case s of
           [] \<Rightarrow> None
         | e # r \<Rightarrow>
             if e = CHR ''u'' then
               (case read_escape_u r of
                  None \<Rightarrow> None
                | Some (x, t) \<Rightarrow> map_option (\<lambda>(y, t'). (x @ y, t')) (read_chars t))
             else (case simple_escape e of
                     None \<Rightarrow> None
                   | Some x \<Rightarrow> map_option (\<lambda>(y, t'). (x # y, t')) (read_chars r)))
      else if of_char c < (32 :: nat) then None
      else map_option (\<lambda>(y, t'). (c # y, t')) (read_chars s))"
  by pat_completeness auto
termination
  by (relation "measure length") (auto dest!: read_escape_u_length)

definition digit :: "char \<Rightarrow> bool" where
  "digit c \<longleftrightarrow> c \<in> set ''0123456789''"

text \<open>
  A number: \<open>(-?(0|[1-9][0-9]*))(\.[0-9]+)?([eE][-+]?[0-9]+)?\<close>. \<open>int()\<close> refuses more than 4300 digits.
\<close>

definition read_fraction :: "string \<Rightarrow> string \<times> string" where
  "read_fraction s =
     (case s of
        c # r \<Rightarrow> if c = CHR ''.'' \<and> takeWhile digit r \<noteq> []
                 then (c # takeWhile digit r, dropWhile digit r) else ([], s)
      | [] \<Rightarrow> ([], []))"

definition read_exponent :: "string \<Rightarrow> string \<times> string" where
  "read_exponent s =
     (case s of
        c # r \<Rightarrow>
          (let sign = takeWhile (\<lambda>x. x \<in> set ''+-'') (take 1 r); d = drop (length sign) r
           in if c \<in> set ''eE'' \<and> takeWhile digit d \<noteq> []
              then (c # sign @ takeWhile digit d, dropWhile digit d) else ([], s))
      | [] \<Rightarrow> ([], []))"

definition read_number :: "string \<Rightarrow> (json \<times> string) option" where
  "read_number s =
     (let sign = takeWhile (\<lambda>x. x = CHR ''-'') (take 1 s);
          r = drop (length sign) s;
          whole = (case r of c # _ \<Rightarrow> if c = CHR ''0'' then [c] else takeWhile digit r | [] \<Rightarrow> []);
          (fraction, r1) = read_fraction (drop (length whole) r);
          (exponent, r2) = read_exponent r1
      in if whole = [] then None
         else if fraction @ exponent \<noteq> [] then Some (JFloat (sign @ whole @ fraction @ exponent), r2)
         else if length whole > 4300 then None
         else Some (JInt ((if sign = [] then 1 else -1) * int (read_decimal 0 whole)), r2))"

fun read_value :: "nat \<Rightarrow> string \<Rightarrow> (json \<times> string) option"
  and read_members :: "nat \<Rightarrow> string \<Rightarrow> ((string \<times> json) list \<times> string) option"
  and read_elements :: "nat \<Rightarrow> string \<Rightarrow> (json list \<times> string) option"
where
  "read_value 0 s = None"
| "read_value (Suc n) s =
     (case s of
        [] \<Rightarrow> None
      | c # r \<Rightarrow>
          if c = CHR 0x22 then map_option (\<lambda>(x, t). (JStr x, t)) (read_chars r)
          else if c = CHR ''{'' then
            (if take 1 (skip_ws r) = ''}'' then Some (JObj [], drop 1 (skip_ws r))
             else (case read_members n (skip_ws r) of
                     None \<Rightarrow> None
                   | Some (kvs, t) \<Rightarrow> if distinct (map fst kvs) then Some (JObj kvs, t) else None))
          else if c = CHR ''['' then
            (if take 1 (skip_ws r) = '']'' then Some (JList [], drop 1 (skip_ws r))
             else map_option (\<lambda>(xs, t). (JList xs, t)) (read_elements n (skip_ws r)))
          else if prefix ''null'' s then Some (JNull, drop 4 s)
          else if prefix ''true'' s then Some (JBool True, drop 4 s)
          else if prefix ''false'' s then Some (JBool False, drop 5 s)
          else read_number s)"
| "read_members 0 s = None"
| "read_members (Suc n) s =
     (case s of
        [] \<Rightarrow> None
      | c # r \<Rightarrow>
          if c \<noteq> CHR 0x22 then None
          else (case read_chars r of
            None \<Rightarrow> None
          | Some (k, t) \<Rightarrow>
              if take 1 (skip_ws t) \<noteq> '':'' then None
              else (case read_value n (skip_ws (drop 1 (skip_ws t))) of
                None \<Rightarrow> None
              | Some (v, t1) \<Rightarrow>
                  (case skip_ws t1 of
                     [] \<Rightarrow> None
                   | d # t2 \<Rightarrow>
                       if d = CHR ''}'' then Some ([(k, v)], t2)
                       else if d = CHR '','' then
                         map_option (\<lambda>(kvs, t3). ((k, v) # kvs, t3)) (read_members n (skip_ws t2))
                       else None))))"
| "read_elements 0 s = None"
| "read_elements (Suc n) s =
     (case read_value n s of
        None \<Rightarrow> None
      | Some (v, t1) \<Rightarrow>
          (case skip_ws t1 of
             [] \<Rightarrow> None
           | d # t2 \<Rightarrow>
               if d = CHR '']'' then Some ([v], t2)
               else if d = CHR '','' then
                 map_option (\<lambda>(vs, t3). (v # vs, t3)) (read_elements n (skip_ws t2))
               else None))"

definition json_loads :: "string \<Rightarrow> json option" where
  "json_loads text =
     (case read_value (Suc (length text)) (skip_ws text) of
        None \<Rightarrow> None
      | Some (v, t) \<Rightarrow> if skip_ws t = [] then Some v else None)"

section \<open>Exactness\<close>

text \<open>\<open>_insertion_order_json_bytes\<close>: \<open>json.dumps\<close> without \<open>sort_keys\<close>.\<close>

fun json_dumps_ordered :: "json \<Rightarrow> string"
  and dump_ordered_items :: "json list \<Rightarrow> string list"
  and dump_ordered_members :: "(string \<times> json) list \<Rightarrow> string list"
where
  "json_dumps_ordered JNull = ''null''"
| "json_dumps_ordered (JBool b) = (if b then ''true'' else ''false'')"
| "json_dumps_ordered (JInt i) = decimal_int i"
| "json_dumps_ordered (JFloat r) = r"
| "json_dumps_ordered (JStr s) = json_quote s"
| "json_dumps_ordered (JList xs) = ''['' @ join_comma (dump_ordered_items xs) @ '']''"
| "json_dumps_ordered (JObj kvs) = ''{'' @ join_comma (dump_ordered_members kvs) @ ''}''"
| "dump_ordered_items [] = []"
| "dump_ordered_items (x # xs) = json_dumps_ordered x # dump_ordered_items xs"
| "dump_ordered_members [] = []"
| "dump_ordered_members ((k, v) # kvs) =
     (json_quote k @ '':'' @ json_dumps_ordered v) # dump_ordered_members kvs"

fun validate_json_tree :: "json \<Rightarrow> bool" where
  "validate_json_tree (JFloat _) = False"
| "validate_json_tree (JList xs) = list_all validate_json_tree xs"
| "validate_json_tree (JObj kvs) = list_all (\<lambda>(_, v). validate_json_tree v) kvs"
| "validate_json_tree _ = True"

definition estimator_json_bytes :: "json \<Rightarrow> string result" where
  "estimator_json_bytes v =
     (if json_encodable v then Inr (json_dumps v)
      else Inl (Value_Error ''answer estimator JSON is invalid''))"

definition insertion_order_json_bytes :: "json \<Rightarrow> string result" where
  "insertion_order_json_bytes v =
     (if json_encodable v then Inr (json_dumps_ordered v)
      else Inl (Value_Error ''answer estimator JSON is invalid''))"

text \<open>
  \<open>_decode_exact_json\<close>. The refusals for a value nested so deeply that the interpreter runs out of its stack (the
  \<open>RecursionError\<close> clauses of the reader, of the validation and of the writer) are left out: HOL has no such limit.
\<close>

definition decode_exact_json :: "string \<Rightarrow> string \<Rightarrow> bool \<Rightarrow> json result" where
  "decode_exact_json bytes name require_canonical =
     (if \<not> utf8_valid bytes then Inl (Value_Error (''answer '' @ name @ '' JSON is invalid''))
      else case json_loads bytes of
        None \<Rightarrow> Inl (Value_Error (''answer '' @ name @ '' JSON is invalid''))
      | Some parsed \<Rightarrow>
          if \<not> validate_json_tree parsed
          then Inl (Value_Error ''answer estimator JSON values are invalid'')
          else if require_canonical then
            then_r (estimator_json_bytes parsed) (\<lambda>encoded.
              if encoded \<noteq> bytes
              then Inl (Value_Error (''answer '' @ name @ '' JSON is not canonical''))
              else Inr parsed)
          else then_r (insertion_order_json_bytes parsed) (\<lambda>encoded.
              if encoded \<noteq> bytes
              then Inl (Value_Error (''answer '' @ name @ '' JSON is not exact''))
              else Inr parsed))"

text \<open>\<open>_validate_exact_messages\<close>: numbered from one, exactly the three members, roles known.\<close>

definition exact_message :: "int \<Rightarrow> json \<Rightarrow> bool" where
  "exact_message ordinal m =
     (case m of
        JObj kvs \<Rightarrow>
          set (map fst kvs) = set [''content'', ''ordinal'', ''role'']
          \<and> (case map_of kvs ''content'' of Some (JStr _) \<Rightarrow> True | _ \<Rightarrow> False)
          \<and> map_of kvs ''ordinal'' = Some (JInt ordinal)
          \<and> map_of kvs ''role'' \<in> {Some (JStr ''system''), Some (JStr ''user'')}
      | _ \<Rightarrow> False)"

definition validate_exact_messages :: "json \<Rightarrow> unit result" where
  "validate_exact_messages v =
     (case v of
        JList [] \<Rightarrow> Inl (Value_Error ''answer messages must be a nonempty list'')
      | JList ms \<Rightarrow>
          if list_all2 exact_message (map int [1..<Suc (length ms)]) ms then Inr ()
          else Inl (Value_Error ''answer messages are invalid'')
      | _ \<Rightarrow> Inl (Value_Error ''answer messages must be a nonempty list''))"

end
