(* ===== verification/Cost_Policy.thy ===== *)
theory Cost_Policy
  imports Exact_Json Runtime_Contracts
begin

text \<open>
  \<open>agent_runtime/rag_cost_policy.py\<close>: the price authority and the budgets a paid call is prepared and
  charged with. A policy is the immutable state its constructor builds; the table of live policies
  (\<open>states\<close>, \<open>get_state\<close>, \<open>require_same_state\<close>) only changes through the test hook, which the exported
  \<open>RagCostPolicy\<close> does not have, so a constructed policy always finds its state. Money is in micro-USD. The
  tokenizer is \<open>tiktoken\<close>'s: \<open>tz_encode\<close> is its encoder (\<open>None\<close> when it raises) and \<open>tz_observe\<close> the
  fingerprint of its definition read before (0) and after (1) the encoding.
\<close>

section \<open>The authority\<close>

record cost_authority =
  component_ceiling_usd :: int
  query_input_usd_per_1m :: int
  query_cost_policy_version :: string
  query_estimator_version :: string
  query_tokenizer_encoding :: string
  query_count_rule :: string
  max_query_tokens :: int
  answer_input_usd_per_1m :: int
  answer_output_usd_per_1m :: int
  answer_cost_policy_version :: string
  answer_estimator_version :: string
  answer_tokenizer_encoding :: string
  answer_count_rule :: string
  max_answer_serialized_chars :: int
  max_answer_input_tokens :: int
  max_answer_output_tokens :: int
  answer_reply_priming_tokens :: int
  answer_framing_safety_tokens :: int
  rounding_identity :: string
  cost_divisor :: int
  answer_model_config_identity :: string
  query_tokenizer_fingerprint :: string
  answer_tokenizer_fingerprint :: string

definition rag_answer_model_config_version :: string where
  "rag_answer_model_config_version = ''rag-answer-model-config:v1''"

definition registered_authority :: cost_authority where
  "registered_authority =
     \<lparr>component_ceiling_usd = 12000,
      query_input_usd_per_1m = 20000,
      query_cost_policy_version = ''rag-query-embedding-cost:v1'',
      query_estimator_version = ''openai-cl100k-text-embedding-3-small:v1'',
      query_tokenizer_encoding = ''cl100k_base'',
      query_count_rule = ''exact-query-text:no-normalization:no-chat-overhead:v1'',
      max_query_tokens = 8000,
      answer_input_usd_per_1m = 750000,
      answer_output_usd_per_1m = 4500000,
      answer_cost_policy_version = ''rag-answer-cost:v1'',
      answer_estimator_version = ''openai-o200k-rag-answer:v1'',
      answer_tokenizer_encoding = ''o200k_base'',
      answer_count_rule = ''compact-json-messages-and-exact-schema:no-unicode-normalization:v1'',
      max_answer_serialized_chars = 12000,
      max_answer_input_tokens = 10000,
      max_answer_output_tokens = 512,
      answer_reply_priming_tokens = 16,
      answer_framing_safety_tokens = 512,
      rounding_identity = ''six-place-ROUND_CEILING'',
      cost_divisor = 1000000,
      answer_model_config_identity = rag_answer_model_config_version,
      query_tokenizer_fingerprint =
        ''a65dff0b0e3cfda66925523c59433c0e929e02454ddd43f8cafe9de3d99f0fd3'',
      answer_tokenizer_fingerprint =
        ''a3f5661718c52b8999530b4865249f2a51f7e69117b983191553a7805a8b8e08''\<rparr>"

text \<open>\<open>_validated_cost_authority_values\<close>: the checks on the module's constants.\<close>

definition validated_cost_authority :: "cost_authority \<Rightarrow> cost_authority result" where
  "validated_cost_authority A =
     then_r (each_r (\<lambda>m. then_r (price_identity (of_micro (nat m))) (\<lambda>_. Inr ()))
       [component_ceiling_usd A, query_input_usd_per_1m A, answer_input_usd_per_1m A,
        answer_output_usd_per_1m A]) (\<lambda>_.
     if [] \<in> set [query_cost_policy_version A, query_estimator_version A, query_tokenizer_encoding A,
                  query_count_rule A, answer_cost_policy_version A, answer_estimator_version A,
                  answer_tokenizer_encoding A, answer_count_rule A, rounding_identity A,
                  answer_model_config_identity A]
     then Inl (Value_Error ''RAG cost policy identity registry is invalid'')
     else if list_ex (\<lambda>n. n \<le> 0)
               [max_query_tokens A, max_answer_serialized_chars A, max_answer_input_tokens A,
                max_answer_output_tokens A, answer_reply_priming_tokens A,
                answer_framing_safety_tokens A]
     then Inl (Value_Error ''RAG cost policy bounds are invalid'')
     else if cost_divisor A \<noteq> 1000000
     then Inl (Value_Error ''RAG cost rounding registry is invalid'')
     else Inr A)"

section \<open>Costs\<close>

text \<open>
  \<open>_rounded_cost\<close>: \<open>(input * input_price + output * output_price) / 1000000\<close>, quantised to six places with
  \<open>ROUND_CEILING\<close>. In micro-USD the products are exact and the quotient is rounded up. The context has
  64 digits: the products of 63-bit counts and prices below 10^24 fit it, and so does the quotient.
\<close>

definition ceil_div :: "int \<Rightarrow> int \<Rightarrow> int" where
  "ceil_div n d = - ((- n) div d)"

definition rounded_cost :: "cost_authority \<Rightarrow> int \<Rightarrow> int \<Rightarrow> int \<Rightarrow> int \<Rightarrow> int" where
  "rounded_cost A inp out in_price out_price = ceil_div (inp * in_price + out * out_price) (cost_divisor A)"

definition require_component_ceiling :: "cost_authority \<Rightarrow> int \<Rightarrow> unit result" where
  "require_component_ceiling A v = require (v \<le> component_ceiling_usd A) Budget_Exceeded"

section \<open>The policy\<close>

record private_tokenizer =
  tz_fingerprint :: string
  tz_encode :: "string \<Rightarrow> int list option"
  tz_observe :: "nat \<Rightarrow> string result"

record cost_policy =
  cp_primitives :: primitives
  cp_secret :: string
  cp_authority :: cost_authority
  cp_schema_hmac :: string
  cp_query_config_hmac :: string
  cp_answer_config_hmac :: string
  cp_query_policy_hmac :: string
  cp_answer_policy_hmac :: string
  cp_query_tokenizer :: private_tokenizer
  cp_answer_tokenizer :: private_tokenizer

definition unavailable_code :: "component \<Rightarrow> string" where
  "unavailable_code c =
     (case c of Query_Embedding \<Rightarrow> ''retriever_not_configured'' | Answer_Generation \<Rightarrow> ''model_unavailable'')"

definition rag_answer_model_config_snapshot :: "string \<Rightarrow> string \<Rightarrow> json result" where
  "rag_answer_model_config_snapshot output_schema_hmac prompt_renderer_hmac =
     (if \<not> is_lower_hex_64 output_schema_hmac \<or> \<not> is_lower_hex_64 prompt_renderer_hmac
      then Inl (Value_Error ''RAG answer model identity is invalid'')
      else Inr (JObj
        [(''api_base_url'', JStr ''https://api.openai.com/v1''),
         (''answer_block_joiner_version'', JStr ''rag-answer-block-joiner:v1''),
         (''cache_enabled'', JBool False),
         (''callbacks_enabled'', JBool False),
         (''endpoint_identity'', JStr ''openai-direct-standard-global:v1''),
         (''max_output_tokens'', JInt 512),
         (''max_provider_attempts'', JInt 1),
         (''max_retries'', JInt 0),
         (''model'', JStr ''gpt-5.4-mini-2026-03-17''),
         (''output_schema_hmac'', JStr output_schema_hmac),
         (''output_schema_name'', JStr ''rag_answer_blocks_v1''),
         (''prompt_renderer_hmac'', JStr prompt_renderer_hmac),
         (''prompt_renderer_version'', JStr ''rag-answer-renderer:v1''),
         (''provider'', JStr ''openai''),
         (''provider_fallback'', JStr ''none''),
         (''provider_send_start_window_seconds'', JInt 5),
         (''reasoning_effort'', JStr ''none''),
         (''regional_processing'', JBool False),
         (''seed_state'', JStr ''omitted''),
         (''service_tier'', JStr ''default''),
         (''store'', JBool False),
         (''streaming'', JBool False),
         (''structured_output_identity'', JStr ''langchain-json-schema-strict-include-raw:v1''),
         (''temperature_state'', JStr ''omitted''),
         (''timeout_seconds'', JInt 30),
         (''tool_binding'', JStr ''none''),
         (''top_p_state'', JStr ''omitted''),
         (''tracing_enabled'', JBool False),
         (''use_responses_api'', JBool True)]))"

definition answer_model_config_hmac ::
  "primitives \<Rightarrow> rag_settings \<Rightarrow> string \<Rightarrow> string \<Rightarrow> string result" where
  "answer_model_config_hmac P st output_schema_hmac prompt_renderer_hmac =
     then_r (fingerprint_secret_bytes st) (\<lambda>_.
     then_r (rag_answer_model_config_snapshot output_schema_hmac prompt_renderer_hmac) (\<lambda>snapshot.
       settings_fingerprint P st ''rag-answer-model-config-snapshot:v1''
         rag_answer_model_config_version snapshot))"

definition price_text :: "int \<Rightarrow> string result" where
  "price_text m = price_identity (of_micro (nat m))"

definition build_query_policy_hmac ::
  "primitives \<Rightarrow> cost_authority \<Rightarrow> string \<Rightarrow> string \<Rightarrow> string \<Rightarrow> string \<Rightarrow> string result" where
  "build_query_policy_hmac P A secret key_version key_verifier query_config_hmac =
     then_r (price_text (query_input_usd_per_1m A)) (\<lambda>input_price.
     then_r (price_text (component_ceiling_usd A)) (\<lambda>ceiling.
       keyed_fingerprint P secret ''rag-query-embedding-provider-policy-snapshot:v1''
         (query_cost_policy_version A)
         (JObj
           [(''authorized_model_config_snapshot_hmac'', JStr query_config_hmac),
            (''authorized_model_config_version'', JStr query_config_version),
            (''component'', JStr ''query_embedding''),
            (''cosine_indexability_policy_version'', JStr ''pgvector-cosine-indexable:v1''),
            (''cost_policy_version'', JStr (query_cost_policy_version A)),
            (''credential_scan_policy_version'', JStr ''credential-scan:v1''),
            (''embedding_payload_validator_version'', JStr query_payload_validator_version),
            (''fingerprint_key_material_verifier'', JStr key_verifier),
            (''fingerprint_key_version'', JStr key_version),
            (''input_usd_per_1m'', JStr input_price),
            (''max_input_tokens'', JInt (max_query_tokens A)),
            (''rag_component_ceiling_usd'', JStr ceiling),
            (''rounding'', JStr (rounding_identity A)),
            (''token_count_rule'', JStr (query_count_rule A)),
            (''token_estimator_version'', JStr (query_estimator_version A)),
            (''tokenizer_encoding'', JStr (query_tokenizer_encoding A))])))"

definition build_answer_policy_hmac ::
  "primitives \<Rightarrow> cost_authority \<Rightarrow> string \<Rightarrow> string \<Rightarrow> string \<Rightarrow> string \<Rightarrow> string \<Rightarrow> string
    \<Rightarrow> string result" where
  "build_answer_policy_hmac P A secret key_version key_verifier answer_config_hmac
     output_schema_hmac prompt_renderer_hmac =
     then_r (price_text (answer_input_usd_per_1m A)) (\<lambda>input_price.
     then_r (price_text (answer_output_usd_per_1m A)) (\<lambda>output_price.
     then_r (price_text (component_ceiling_usd A)) (\<lambda>ceiling.
       keyed_fingerprint P secret ''rag-answer-provider-policy-snapshot:v1''
         (answer_cost_policy_version A)
         (JObj
           [(''answer_block_joiner_version'', JStr ''rag-answer-block-joiner:v1''),
            (''authorized_model_config_snapshot_hmac'', JStr answer_config_hmac),
            (''authorized_model_config_version'', JStr (answer_model_config_identity A)),
            (''component'', JStr ''answer_generation''),
            (''cost_policy_version'', JStr (answer_cost_policy_version A)),
            (''credential_scan_policy_version'', JStr ''credential-scan:v1''),
            (''fingerprint_key_material_verifier'', JStr key_verifier),
            (''fingerprint_key_version'', JStr key_version),
            (''framing_safety_tokens'', JInt (answer_framing_safety_tokens A)),
            (''input_usd_per_1m'', JStr input_price),
            (''max_input_tokens'', JInt (max_answer_input_tokens A)),
            (''max_output_tokens'', JInt (max_answer_output_tokens A)),
            (''max_serialized_input_chars'', JInt (max_answer_serialized_chars A)),
            (''output_contract_version'', JStr ''rag-answer-blocks:v1''),
            (''output_schema_hmac'', JStr output_schema_hmac),
            (''output_schema_name'', JStr ''rag_answer_blocks_v1''),
            (''output_usd_per_1m'', JStr output_price),
            (''prompt_version'', JStr ''rag-answer:v2''),
            (''prompt_renderer_hmac'', JStr prompt_renderer_hmac),
            (''prompt_renderer_version'', JStr ''rag-answer-renderer:v1''),
            (''rag_component_ceiling_usd'', JStr ceiling),
            (''reply_priming_tokens'', JInt (answer_reply_priming_tokens A)),
            (''rounding'', JStr (rounding_identity A)),
            (''token_count_rule'', JStr (answer_count_rule A)),
            (''token_estimator_version'', JStr (answer_estimator_version A)),
            (''tokenizer_encoding'', JStr (answer_tokenizer_encoding A))]))))"

text \<open>\<open>fingerprint_key_material_verifier\<close> of \<open>admin/auto_review_keys.py\<close>.\<close>

definition key_material_verifier :: "primitives \<Rightarrow> string \<Rightarrow> string" where
  "key_material_verifier P secret =
     hmac_sha256_hex P secret ''paraworks:auto-review-key-material-verifier:v1''"

text \<open>
  The constructor; \<open>query_tokenizer\<close> and \<open>answer_tokenizer\<close> are what cloning the approved tokenizers gave.
\<close>

definition make_cost_policy ::
  "primitives \<Rightarrow> rag_settings \<Rightarrow> private_tokenizer result \<Rightarrow> private_tokenizer result \<Rightarrow> string \<Rightarrow> string
    \<Rightarrow> cost_policy result" where
  "make_cost_policy P st query_tokenizer answer_tokenizer output_schema_hmac prompt_renderer_hmac =
     then_r (require (is_lower_hex_64 output_schema_hmac \<and> is_lower_hex_64 prompt_renderer_hmac)
               (Value_Error ''RAG answer policy identities are invalid'')) (\<lambda>_.
     then_r (validated_cost_authority registered_authority) (\<lambda>A.
     then_r query_tokenizer (\<lambda>qt.
     then_r answer_tokenizer (\<lambda>tk.
     then_r (fingerprint_secret_bytes st) (\<lambda>(secret, key_version).
     then_r (query_model_config_hmac P st) (\<lambda>query_config.
     then_r (answer_model_config_hmac P st output_schema_hmac prompt_renderer_hmac) (\<lambda>answer_config.
     then_r (build_query_policy_hmac P A secret key_version
               (key_material_verifier P secret) query_config) (\<lambda>query_policy.
     then_r (build_answer_policy_hmac P A secret key_version (key_material_verifier P secret)
               answer_config output_schema_hmac prompt_renderer_hmac) (\<lambda>answer_policy.
       Inr \<lparr>cp_primitives = P, cp_secret = secret, cp_authority = A,
            cp_schema_hmac = output_schema_hmac,
            cp_query_config_hmac = query_config, cp_answer_config_hmac = answer_config,
            cp_query_policy_hmac = query_policy, cp_answer_policy_hmac = answer_policy,
            cp_query_tokenizer = qt, cp_answer_tokenizer = tk\<rparr>)))))))))"

definition policy_hmac_of :: "cost_policy \<Rightarrow> component \<Rightarrow> string" where
  "policy_hmac_of p c =
     (case c of Query_Embedding \<Rightarrow> cp_query_policy_hmac p | Answer_Generation \<Rightarrow> cp_answer_policy_hmac p)"

definition authorized_policy_snapshot_hmac :: "cost_policy \<Rightarrow> string \<Rightarrow> string result" where
  "authorized_policy_snapshot_hmac p c =
     then_r (exact_component c) (\<lambda>selected. Inr (policy_hmac_of p selected))"

definition require_authorized_policy_snapshot :: "cost_policy \<Rightarrow> string \<Rightarrow> string \<Rightarrow> unit result" where
  "require_authorized_policy_snapshot p c observed =
     then_r (exact_component c) (\<lambda>selected.
       require (is_lower_hex_64 observed \<and> observed = policy_hmac_of p selected)
         (Policy_Unavailable (unavailable_code selected)))"

section \<open>Token counts\<close>

definition verified_private_encoding :: "private_tokenizer \<Rightarrow> nat \<Rightarrow> string \<Rightarrow> unit result" where
  "verified_private_encoding tz phase code =
     (case tz_observe tz phase of
        Inl _ \<Rightarrow> Inl (Policy_Unavailable code)
      | Inr observed \<Rightarrow> require (observed = tz_fingerprint tz) (Policy_Unavailable code))"

definition count_private_tokens :: "private_tokenizer \<Rightarrow> string \<Rightarrow> string \<Rightarrow> int result" where
  "count_private_tokens tz text code =
     then_r (verified_private_encoding tz 0 code) (\<lambda>_.
     case tz_encode tz text of
       None \<Rightarrow> Inl (Policy_Unavailable code)
     | Some tokens \<Rightarrow>
         then_r (verified_private_encoding tz 1 code) (\<lambda>_. Inr (int (length tokens))))"

section \<open>Budgets\<close>

definition estimator_hmac :: "cost_policy \<Rightarrow> string \<Rightarrow> string \<Rightarrow> string \<Rightarrow> string result" where
  "estimator_hmac p schema_version policy_version text =
     then_r (exact_utf8_bytes text) (\<lambda>payload.
       keyed_fingerprint (cp_primitives p) (cp_secret p) schema_version policy_version payload)"

definition prepare_query_embedding :: "cost_policy \<Rightarrow> string \<Rightarrow> string \<Rightarrow> prepared_budget result" where
  "prepare_query_embedding p query_utf8 config_hmac =
     (let A = cp_authority p; code = unavailable_code Query_Embedding in
      if \<not> is_lower_hex_64 config_hmac
      then Inl (Value_Error ''query embedding cost input is invalid'')
      else if config_hmac \<noteq> cp_query_config_hmac p then Inl (Policy_Unavailable code)
      else if \<not> utf8_valid query_utf8
      then Inl (Value_Error ''query embedding input must be strict UTF-8'')
      else then_r (count_private_tokens (cp_query_tokenizer p) query_utf8 code) (\<lambda>tokens.
        if tokens > max_query_tokens A then Inl Budget_Exceeded
        else let reserved = rounded_cost A tokens 0 (query_input_usd_per_1m A) 0 in
          then_r (require_component_ceiling A reserved) (\<lambda>_.
          then_r (estimator_hmac p ''rag-query-embedding-estimator-input-bytes:v1''
                    (query_estimator_version A) query_utf8) (\<lambda>estimator.
            Inr \<lparr>pb_component = Query_Embedding, pb_input_tokens = tokens, pb_output_tokens = 0,
                 pb_reserved_cost = reserved, pb_policy_hmac = cp_query_policy_hmac p,
                 pb_estimator_hmac = estimator\<rparr>))))"

definition answer_output_schema_hmac :: "cost_policy \<Rightarrow> string \<Rightarrow> string result" where
  "answer_output_schema_hmac p schema_json =
     (if \<not> utf8_valid schema_json
      then Inl (Value_Error ''answer output schema must be strict UTF-8'')
      else then_r (exact_utf8_bytes schema_json) (\<lambda>payload.
        keyed_fingerprint (cp_primitives p) (cp_secret p) ''rag-answer-output-schema-bytes:v1''
          ''rag-answer-blocks:v1'' payload))"

definition estimator_document :: "cost_authority \<Rightarrow> json \<Rightarrow> json \<Rightarrow> json" where
  "estimator_document A messages schema = JObj
     [(''messages'', messages),
      (''model_config_identity'', JStr (answer_model_config_identity A)),
      (''output_schema'', schema),
      (''output_schema_identity'', JStr ''rag-answer-blocks:v1'')]"

definition prepare_answer_generation ::
  "cost_policy \<Rightarrow> string \<Rightarrow> string \<Rightarrow> string \<Rightarrow> prepared_budget result" where
  "prepare_answer_generation p messages_json schema_json config_hmac =
     (let A = cp_authority p; code = unavailable_code Answer_Generation in
      if \<not> is_lower_hex_64 config_hmac
      then Inl (Value_Error ''answer generation cost input is invalid'')
      else if config_hmac \<noteq> cp_answer_config_hmac p then Inl (Policy_Unavailable code)
      else
      then_r (decode_exact_json messages_json ''messages'' True) (\<lambda>messages.
      then_r (decode_exact_json schema_json ''schema'' False) (\<lambda>schema.
      then_r (validate_exact_messages messages) (\<lambda>_.
      then_r (require (case schema of JObj _ \<Rightarrow> True | _ \<Rightarrow> False)
                (Value_Error ''answer response schema must be an object'')) (\<lambda>_.
      then_r (answer_output_schema_hmac p schema_json) (\<lambda>observed.
      if observed \<noteq> cp_schema_hmac p then Inl (Policy_Unavailable code)
      else
      then_r (estimator_json_bytes (estimator_document A messages schema)) (\<lambda>text.
      if int (code_points text) > max_answer_serialized_chars A then Inl Budget_Exceeded
      else
      then_r (count_private_tokens (cp_answer_tokenizer p) text code) (\<lambda>encoded.
      let framed = encoded + answer_reply_priming_tokens A + answer_framing_safety_tokens A in
      if framed > max_answer_input_tokens A then Inl Budget_Exceeded
      else
      let reserved = rounded_cost A framed (max_answer_output_tokens A) (answer_input_usd_per_1m A)
                       (answer_output_usd_per_1m A) in
      then_r (require_component_ceiling A reserved) (\<lambda>_.
      then_r (estimator_hmac p ''rag-generation-estimator-input-bytes:v1''
                (answer_estimator_version A) text) (\<lambda>estimator.
        Inr \<lparr>pb_component = Answer_Generation, pb_input_tokens = framed,
             pb_output_tokens = max_answer_output_tokens A, pb_reserved_cost = reserved,
             pb_policy_hmac = cp_answer_policy_hmac p, pb_estimator_hmac = estimator\<rparr>))))))))))"

definition charge_actual :: "cost_policy \<Rightarrow> string \<Rightarrow> strict_usage \<Rightarrow> int result" where
  "charge_actual p c usage =
     (let A = cp_authority p in
      then_r (exact_component c) (\<lambda>selected.
      then_r (validate_strict_provider_usage usage) (\<lambda>u.
      case selected of
        Query_Embedding \<Rightarrow>
          if output_tokens u \<noteq> 0
          then Inl (Value_Error ''query embedding output usage must be zero'')
          else Inr (rounded_cost A (input_tokens u) 0 (query_input_usd_per_1m A) 0)
      | Answer_Generation \<Rightarrow>
          Inr (rounded_cost A (input_tokens u) (output_tokens u) (answer_input_usd_per_1m A)
                 (answer_output_usd_per_1m A)))))"

definition usage_exceeds_authorized_cap :: "cost_policy \<Rightarrow> string \<Rightarrow> strict_usage \<Rightarrow> bool result" where
  "usage_exceeds_authorized_cap p c usage =
     (let A = cp_authority p in
      then_r (exact_component c) (\<lambda>selected.
      then_r (validate_strict_provider_usage usage) (\<lambda>u.
      Inr (case selected of
        Query_Embedding \<Rightarrow> input_tokens u > max_query_tokens A \<or> output_tokens u \<noteq> 0
      | Answer_Generation \<Rightarrow> input_tokens u > max_answer_input_tokens A
                            \<or> output_tokens u > max_answer_output_tokens A))))"

record unused_reservation =
  ur_component :: component
  ur_policy_hmac :: string
  ur_input_tokens :: int
  ur_output_tokens :: int
  ur_reserved_cost :: int

definition reserve_unused_component :: "cost_policy \<Rightarrow> string \<Rightarrow> unused_reservation result" where
  "reserve_unused_component p c =
     then_r (exact_component c) (\<lambda>selected.
     then_r (authorized_policy_snapshot_hmac p c) (\<lambda>policy_hmac.
       Inr \<lparr>ur_component = selected, ur_policy_hmac = policy_hmac, ur_input_tokens = 0,
            ur_output_tokens = 0, ur_reserved_cost = 0\<rparr>))"

record answer_ceiling =
  ac_input_tokens :: int
  ac_output_tokens :: int
  ac_reserved_cost :: int
  ac_policy_hmac :: string

definition reserve_answer_generation :: "cost_policy \<Rightarrow> answer_ceiling result" where
  "reserve_answer_generation p =
     (let A = cp_authority p;
          reserved = rounded_cost A (max_answer_input_tokens A) (max_answer_output_tokens A)
                       (answer_input_usd_per_1m A) (answer_output_usd_per_1m A)
      in then_r (require_component_ceiling A reserved) (\<lambda>_.
           Inr \<lparr>ac_input_tokens = max_answer_input_tokens A,
                ac_output_tokens = max_answer_output_tokens A,
                ac_reserved_cost = reserved, ac_policy_hmac = cp_answer_policy_hmac p\<rparr>))"

definition budget_within_caps :: "cost_authority \<Rightarrow> prepared_budget \<Rightarrow> bool" where
  "budget_within_caps A b =
     (case pb_component b of
        Query_Embedding \<Rightarrow> pb_output_tokens b = 0 \<and> pb_input_tokens b \<le> max_query_tokens A
      | Answer_Generation \<Rightarrow> pb_input_tokens b \<le> max_answer_input_tokens A
                            \<and> pb_output_tokens b \<le> max_answer_output_tokens A)"

definition expected_reservation :: "cost_authority \<Rightarrow> prepared_budget \<Rightarrow> int" where
  "expected_reservation A b =
     (case pb_component b of
        Query_Embedding \<Rightarrow>
          rounded_cost A (pb_input_tokens b) (pb_output_tokens b) (query_input_usd_per_1m A) 0
      | Answer_Generation \<Rightarrow>
          rounded_cost A (pb_input_tokens b) (pb_output_tokens b) (answer_input_usd_per_1m A)
            (answer_output_usd_per_1m A))"

definition validate_prepared_budget :: "cost_policy \<Rightarrow> prepared_budget \<Rightarrow> unit result" where
  "validate_prepared_budget p b =
     (let A = cp_authority p in
      if \<not> is_lower_hex_64 (pb_policy_hmac b)
         \<or> pb_policy_hmac b \<noteq> policy_hmac_of p (pb_component b)
         \<or> \<not> is_lower_hex_64 (pb_estimator_hmac b)
         \<or> pb_input_tokens b < 0 \<or> pb_output_tokens b < 0
         \<or> \<not> budget_within_caps A b
      then Inl (Value_Error ''RAG prepared budget is invalid'')
      else if pb_reserved_cost b \<noteq> expected_reservation A b
              \<or> expected_reservation A b > component_ceiling_usd A
      then Inl (Value_Error ''RAG prepared budget is invalid'')
      else Inr ())"

text \<open>\<open>sign_answer_artifact\<close>: one domain per kind of artifact.\<close>

definition artifact_domains :: "(string \<times> string \<times> string) list" where
  "artifact_domains =
    [(''rendered_input'', ''rag-rendered-model-input-bytes:v1'', ''rag-answer:v2''),
     (''prepared_input'', ''rag-prepared-answer-input:v1'', ''rag-answer:v2''),
     (''prepared_invocation'', ''rag-prepared-answer-invocation:v1'', ''rag-answer:v2''),
     (''block_text'', ''rag-answer-block-text-bytes:v1'', ''rag-answer:v2''),
     (''block_result'', ''rag-answer-block-result:v1'', ''rag-answer-block-confidence:v1''),
     (''audit_set'', ''rag-answer-block-audit-set:v1'', ''rag-answer-block-confidence:v1''),
     (''assembled'', ''rag-assembled-answer-bytes:v1'', ''rag-answer-block-joiner:v1'')]"

definition sign_answer_artifact :: "cost_policy \<Rightarrow> string \<Rightarrow> json \<Rightarrow> string result" where
  "sign_answer_artifact p kind payload =
     (case map_of artifact_domains kind of
        None \<Rightarrow> Inl (Value_Error ''RAG answer artifact domain is invalid'')
      | Some (schema_version, policy_version) \<Rightarrow>
          keyed_fingerprint (cp_primitives p) (cp_secret p) schema_version policy_version payload)"

section \<open>Rounding\<close>

lemma ceil_div_bounds:
  assumes "0 < d"
  shows "n \<le> ceil_div n d * d" and "ceil_div n d * d < n + d"
proof -
  have eq: "(- n) div d * d + (- n) mod d = - n" by simp
  moreover have "0 \<le> (- n) mod d" and "(- n) mod d < d" using assms by simp_all
  moreover have "ceil_div n d * d = - ((- n) div d * d)" by (simp add: ceil_div_def)
  ultimately show "n \<le> ceil_div n d * d" and "ceil_div n d * d < n + d" by linarith+
qed

lemma ceil_div_mono: "0 < d \<Longrightarrow> m \<le> n \<Longrightarrow> ceil_div m d \<le> ceil_div n d"
  by (simp add: ceil_div_def zdiv_mono1)

lemma ceil_div_nonneg: "0 < d \<Longrightarrow> 0 \<le> n \<Longrightarrow> 0 \<le> ceil_div n d"
  using ceil_div_mono [of d 0 n] by (simp add: ceil_div_def)

lemma ceil_div_least:
  assumes "0 < d" and "n \<le> k * d"
  shows "ceil_div n d \<le> k"
proof -
  have "ceil_div n d * d < (k + 1) * d"
    using ceil_div_bounds(2) [OF assms(1), of n] assms(2) by (simp add: distrib_right)
  then have "ceil_div n d < k + 1" using assms(1) by (simp add: mult_less_cancel_right)
  then show ?thesis by simp
qed

lemma rounded_cost_mono:
  assumes "0 < cost_divisor A" and "i \<le> i'" and "out \<le> out'" and "0 \<le> pin" and "0 \<le> pout"
  shows "rounded_cost A i out pin pout \<le> rounded_cost A i' out' pin pout"
  unfolding rounded_cost_def
  using assms by (intro ceil_div_mono add_mono mult_right_mono) auto

section \<open>What a constructed policy is\<close>

definition hex_digests :: "primitives \<Rightarrow> bool" where
  "hex_digests P \<longleftrightarrow> (\<forall>k m. is_lower_hex_64 (hmac_sha256_hex P k m))"

lemma keyed_fingerprint_hex:
  "hex_digests P \<Longrightarrow> keyed_fingerprint P k sv pv v = Inr d \<Longrightarrow> is_lower_hex_64 d"
  by (auto simp: keyed_fingerprint_def hex_digests_def split: if_splits)

text \<open>The facts about a policy its users need; \<open>make_cost_policy\<close> establishes them.\<close>

definition policy_ready :: "cost_policy \<Rightarrow> bool" where
  "policy_ready p \<longleftrightarrow> cp_authority p = registered_authority \<and> hex_digests (cp_primitives p)
     \<and> is_lower_hex_64 (cp_query_policy_hmac p) \<and> is_lower_hex_64 (cp_answer_policy_hmac p)"

lemma make_cost_policy_ready:
  assumes "make_cost_policy P st qt at_result schema renderer = Inr p" and "hex_digests P"
  shows "policy_ready p"
proof -
  obtain A secret kv qc ac where A: "validated_cost_authority registered_authority = Inr A"
    and q: "build_query_policy_hmac P A secret kv (key_material_verifier P secret) qc
      = Inr (cp_query_policy_hmac p)"
    and a: "build_answer_policy_hmac P A secret kv (key_material_verifier P secret) ac schema renderer
      = Inr (cp_answer_policy_hmac p)"
    and p: "cp_authority p = A" "cp_primitives p = P"
    using assms(1) by (auto simp: make_cost_policy_def)
  have "A = registered_authority" using A by (auto simp: validated_cost_authority_def split: if_splits)
  moreover have "is_lower_hex_64 (cp_query_policy_hmac p)"
    using q keyed_fingerprint_hex [OF assms(2)] by (auto simp: build_query_policy_hmac_def)
  moreover have "is_lower_hex_64 (cp_answer_policy_hmac p)"
    using a keyed_fingerprint_hex [OF assms(2)] by (auto simp: build_answer_policy_hmac_def)
  ultimately show ?thesis using p assms(2) by (simp add: policy_ready_def)
qed

lemma registered_simps [simp]:
  "component_ceiling_usd registered_authority = 12000"
  "query_input_usd_per_1m registered_authority = 20000"
  "max_query_tokens registered_authority = 8000"
  "answer_input_usd_per_1m registered_authority = 750000"
  "answer_output_usd_per_1m registered_authority = 4500000"
  "max_answer_serialized_chars registered_authority = 12000"
  "max_answer_input_tokens registered_authority = 10000"
  "max_answer_output_tokens registered_authority = 512"
  "answer_reply_priming_tokens registered_authority = 16"
  "answer_framing_safety_tokens registered_authority = 512"
  "cost_divisor registered_authority = 1000000"
  by (simp_all add: registered_authority_def)

section \<open>The contract of a price policy\<close>

text \<open>
  What a client of the policy relies on: a valid budget reserves an amount between zero and the
  ceiling, a charge is not negative, a usage within the counts of a valid budget is charged at most
  its reservation, and the answer ceiling covers every valid answer budget.
\<close>

locale price_contract =
  fixes valid :: "prepared_budget \<Rightarrow> bool"
    and charge :: "component \<Rightarrow> strict_usage \<Rightarrow> int option"
    and answer_reserve :: int
    and ceiling :: int
  assumes reserved_bounds: "valid b \<Longrightarrow> 0 \<le> pb_reserved_cost b \<and> pb_reserved_cost b \<le> ceiling"
    and charge_nonneg: "charge c u = Some m \<Longrightarrow> 0 \<le> m"
    and charge_covered: "valid b \<Longrightarrow> charge (pb_component b) u = Some m
      \<Longrightarrow> input_tokens u \<le> pb_input_tokens b \<Longrightarrow> output_tokens u \<le> pb_output_tokens b
      \<Longrightarrow> m \<le> pb_reserved_cost b"
    and answer_covered: "valid b \<Longrightarrow> pb_component b = Answer_Generation
      \<Longrightarrow> pb_reserved_cost b \<le> answer_reserve"
begin

text \<open>Replacing the answer ceiling by a prepared budget never raises a reservation.\<close>

lemma rebind_keeps_budget:
  "valid b \<Longrightarrow> pb_component b = Answer_Generation \<Longrightarrow> q + answer_reserve \<le> limit
     \<Longrightarrow> q + pb_reserved_cost b \<le> limit"
  using answer_covered [of b] by simp

lemma charge_within:
  "valid b \<Longrightarrow> charge (pb_component b) u = Some m \<Longrightarrow> input_tokens u \<le> pb_input_tokens b
     \<Longrightarrow> output_tokens u \<le> pb_output_tokens b \<Longrightarrow> 0 \<le> m \<and> m \<le> pb_reserved_cost b \<and> m \<le> ceiling"
  using charge_covered [of b u m] charge_nonneg [of "pb_component b" u m] reserved_bounds [of b]
  by linarith

end

definition budget_valid :: "cost_policy \<Rightarrow> prepared_budget \<Rightarrow> bool" where
  "budget_valid p b \<longleftrightarrow> policy_ready p \<and> validate_prepared_budget p b = Inr ()"

definition charge_of :: "cost_policy \<Rightarrow> component \<Rightarrow> strict_usage \<Rightarrow> int option" where
  "charge_of p c u =
     (if policy_ready p then
        (case charge_actual p (component_name c) u of Inl _ \<Rightarrow> None | Inr m \<Rightarrow> Some m)
      else None)"

lemma validate_prepared_budget_Inr:
  "policy_ready p \<Longrightarrow> validate_prepared_budget p b = Inr () \<longleftrightarrow>
     pb_policy_hmac b = policy_hmac_of p (pb_component b) \<and> is_lower_hex_64 (pb_estimator_hmac b)
     \<and> 0 \<le> pb_input_tokens b \<and> 0 \<le> pb_output_tokens b \<and> budget_within_caps registered_authority b
     \<and> pb_reserved_cost b = expected_reservation registered_authority b
     \<and> expected_reservation registered_authority b \<le> 12000"
  by (cases "pb_component b")
    (auto simp: validate_prepared_budget_def policy_ready_def policy_hmac_of_def Let_def)

lemma charge_actual_Inr:
  "policy_ready p \<Longrightarrow> charge_actual p (component_name c) u = Inr m \<longleftrightarrow>
     validate_strict_provider_usage u = Inr u
     \<and> (c = Query_Embedding \<longrightarrow> output_tokens u = 0)
     \<and> m = (case c of Query_Embedding \<Rightarrow> rounded_cost registered_authority (input_tokens u) 0 20000 0
            | Answer_Generation \<Rightarrow> rounded_cost registered_authority (input_tokens u)
                (output_tokens u) 750000 4500000)"
  by (cases c)
    (auto simp: charge_actual_def exact_component_def policy_ready_def Let_def split: if_splits)

interpretation price: price_contract "budget_valid p" "charge_of p" 9804 12000 for p
proof
  fix b assume b: "budget_valid p b"
  then have e: "pb_reserved_cost b = expected_reservation registered_authority b"
    "expected_reservation registered_authority b \<le> 12000" "0 \<le> pb_input_tokens b" "0 \<le> pb_output_tokens b"
    and caps: "budget_within_caps registered_authority b"
    by (auto simp: budget_valid_def validate_prepared_budget_Inr)
  then show "0 \<le> pb_reserved_cost b \<and> pb_reserved_cost b \<le> 12000"
    by (auto simp: expected_reservation_def rounded_cost_def intro!: ceil_div_nonneg split: component.splits)
  show "pb_component b = Answer_Generation \<Longrightarrow> pb_reserved_cost b \<le> 9804"
    using e(1,3,4) caps
    by (auto simp: expected_reservation_def rounded_cost_def budget_within_caps_def intro!: ceil_div_least)
  fix u m assume m: "charge_of p (pb_component b) u = Some m"
    and le: "input_tokens u \<le> pb_input_tokens b" "output_tokens u \<le> pb_output_tokens b"
  then have "charge_actual p (component_name (pb_component b)) u = Inr m" and ready: "policy_ready p"
    by (auto simp: charge_of_def split: if_splits sum.splits)
  then show "m \<le> pb_reserved_cost b"
    using le caps unfolding e(1)
    by (auto simp: charge_actual_Inr expected_reservation_def budget_within_caps_def
        intro!: rounded_cost_mono split: component.splits)
next
  fix c u m assume "charge_of p c u = Some m"
  then show "0 \<le> m"
    by (auto simp: charge_of_def charge_actual_Inr is_signed_bigint_def rounded_cost_def
        split: if_splits sum.splits component.splits intro!: ceil_div_nonneg)
qed

section \<open>Properties\<close>

text \<open>
  Rounding is exact: the amount charged for a number of tokens is the least whole number of
  micro-USD that is not below tokens times price, for either component of a constructed policy.
\<close>

theorem charge_is_least_ceiling:
  assumes "policy_ready p" and "charge_actual p (component_name c) u = Inr m"
  defines "exact \<equiv> (case c of Query_Embedding \<Rightarrow> input_tokens u * 20000
             | Answer_Generation \<Rightarrow> input_tokens u * 750000 + output_tokens u * 4500000)"
  shows "exact \<le> m * 1000000 \<and> (\<forall>k. exact \<le> k * 1000000 \<longrightarrow> m \<le> k)"
proof -
  have m: "m = ceil_div exact 1000000"
    using assms(2) unfolding charge_actual_Inr [OF assms(1)] exact_def
    by (cases c) (simp_all add: rounded_cost_def)
  show ?thesis using ceil_div_bounds(1) [of 1000000 exact] ceil_div_least [of 1000000 exact]
    by (simp add: m)
qed

lemma estimator_hmac_hex:
  "policy_ready p \<Longrightarrow> estimator_hmac p sv pv t = Inr d \<Longrightarrow> is_lower_hex_64 d"
  by (auto simp: estimator_hmac_def policy_ready_def dest: keyed_fingerprint_hex)

lemma count_private_tokens_nonneg: "count_private_tokens tz t code = Inr n \<Longrightarrow> 0 \<le> n"
  by (auto simp: count_private_tokens_def split: option.splits)

lemma prepare_query_embedding_Inr:
  assumes "policy_ready p" and "prepare_query_embedding p q h = Inr b"
  shows "pb_component b = Query_Embedding" and "pb_output_tokens b = 0"
    and "0 \<le> pb_input_tokens b" and "pb_input_tokens b \<le> 8000"
    and "pb_reserved_cost b = rounded_cost registered_authority (pb_input_tokens b) 0 20000 0"
    and "pb_policy_hmac b = cp_query_policy_hmac p" and "is_lower_hex_64 (pb_estimator_hmac b)"
    and "pb_reserved_cost b \<le> 12000"
proof -
  obtain n est where n: "count_private_tokens (cp_query_tokenizer p) q
      (unavailable_code Query_Embedding) = Inr n"
    and est: "estimator_hmac p ''rag-query-embedding-estimator-input-bytes:v1''
      (query_estimator_version registered_authority) q = Inr est"
    and le: "n \<le> 8000" "rounded_cost registered_authority n 0 20000 0 \<le> 12000"
    and b: "b = \<lparr>pb_component = Query_Embedding, pb_input_tokens = n, pb_output_tokens = 0,
      pb_reserved_cost = rounded_cost registered_authority n 0 20000 0,
      pb_policy_hmac = cp_query_policy_hmac p, pb_estimator_hmac = est\<rparr>"
    using assms by (auto simp: prepare_query_embedding_def policy_ready_def Let_def
        require_component_ceiling_def split: if_splits)
  show "pb_component b = Query_Embedding" and "pb_output_tokens b = 0"
    and "0 \<le> pb_input_tokens b" and "pb_input_tokens b \<le> 8000"
    and "pb_reserved_cost b = rounded_cost registered_authority (pb_input_tokens b) 0 20000 0"
    and "pb_policy_hmac b = cp_query_policy_hmac p" and "is_lower_hex_64 (pb_estimator_hmac b)"
    and "pb_reserved_cost b \<le> 12000"
    using le count_private_tokens_nonneg [OF n] estimator_hmac_hex [OF assms(1) est]
    by (simp_all add: b)
qed

lemma prepare_answer_generation_Inr:
  assumes "policy_ready p" and "prepare_answer_generation p msgs schema h = Inr b"
  shows "pb_component b = Answer_Generation" and "pb_output_tokens b = 512"
    and "528 \<le> pb_input_tokens b" and "pb_input_tokens b \<le> 10000"
    and "pb_reserved_cost b
      = rounded_cost registered_authority (pb_input_tokens b) 512 750000 4500000"
    and "pb_policy_hmac b = cp_answer_policy_hmac p" and "is_lower_hex_64 (pb_estimator_hmac b)"
    and "pb_reserved_cost b \<le> 12000"
proof -
  obtain doc n est where n: "count_private_tokens (cp_answer_tokenizer p) doc
      (unavailable_code Answer_Generation) = Inr n"
    and est: "estimator_hmac p ''rag-generation-estimator-input-bytes:v1''
      (answer_estimator_version registered_authority) doc = Inr est"
    and le: "n + 16 + 512 \<le> 10000"
      "rounded_cost registered_authority (n + 16 + 512) 512 750000 4500000 \<le> 12000"
    and b: "b = \<lparr>pb_component = Answer_Generation, pb_input_tokens = n + 16 + 512, pb_output_tokens = 512,
      pb_reserved_cost = rounded_cost registered_authority (n + 16 + 512) 512 750000 4500000,
      pb_policy_hmac = cp_answer_policy_hmac p, pb_estimator_hmac = est\<rparr>"
    using assms by (auto simp: prepare_answer_generation_def policy_ready_def Let_def
        require_component_ceiling_def split: if_splits)
  show "pb_component b = Answer_Generation" and "pb_output_tokens b = 512"
    and "528 \<le> pb_input_tokens b" and "pb_input_tokens b \<le> 10000"
    and "pb_reserved_cost b
      = rounded_cost registered_authority (pb_input_tokens b) 512 750000 4500000"
    and "pb_policy_hmac b = cp_answer_policy_hmac p" and "is_lower_hex_64 (pb_estimator_hmac b)"
    and "pb_reserved_cost b \<le> 12000"
    using le count_private_tokens_nonneg [OF n] estimator_hmac_hex [OF assms(1) est]
    by (simp_all add: b)
qed

text \<open>
  Every budget the policy prepares, for a query embedding or for an answer, passes the policy's own
  validation, so a prepared call is never refused for its budget; it reserves between zero and the
  ceiling of 12000 micro-USD.
\<close>

theorem prepared_budget_is_valid:
  assumes "make_cost_policy P st qt tk schema renderer = Inr p" and "hex_digests P"
    and "prepare_query_embedding p q h = Inr b \<or> prepare_answer_generation p msgs sch h = Inr b"
  shows "validate_prepared_budget p b = Inr () \<and> 0 \<le> pb_reserved_cost b \<and> pb_reserved_cost b \<le> 12000"
proof -
  have ready: "policy_ready p" using assms(1,2) by (rule make_cost_policy_ready)
  have "validate_prepared_budget p b = Inr ()"
    using assms(3)
  proof
    assume "prepare_query_embedding p q h = Inr b"
    note b = prepare_query_embedding_Inr [OF ready this]
    then show ?thesis
      using ready by (simp add: validate_prepared_budget_Inr policy_hmac_of_def budget_within_caps_def
          expected_reservation_def)
  next
    assume "prepare_answer_generation p msgs sch h = Inr b"
    note b = prepare_answer_generation_Inr [OF ready this]
    then show ?thesis
      using ready by (simp add: validate_prepared_budget_Inr policy_hmac_of_def budget_within_caps_def
          expected_reservation_def)
  qed
  then show ?thesis using price.reserved_bounds [of p b] ready by (simp add: budget_valid_def)
qed

lemma charge_actual_bounds:
  assumes "policy_ready p" and "charge_actual p (component_name c) u = Inr m"
  shows "0 \<le> m"
    and "usage_exceeds_authorized_cap p (component_name c) u = Inr False \<Longrightarrow>
      m \<le> (case c of Query_Embedding \<Rightarrow> 160 | Answer_Generation \<Rightarrow> 9804)"
proof -
  have A: "cp_authority p = registered_authority" using assms(1) by (simp add: policy_ready_def)
  have u: "validate_strict_provider_usage u = Inr u" and m: "m = (case c of
      Query_Embedding \<Rightarrow> rounded_cost registered_authority (input_tokens u) 0 20000 0
    | Answer_Generation \<Rightarrow> rounded_cost registered_authority (input_tokens u) (output_tokens u) 750000 4500000)"
    using assms(2) unfolding charge_actual_Inr [OF assms(1)] by blast+
  then have "0 \<le> input_tokens u" and "0 \<le> output_tokens u"
    by (auto simp: validate_strict_provider_usage_def is_signed_bigint_def split: if_splits)
  then show "0 \<le> m"
    by (simp add: m rounded_cost_def ceil_div_nonneg split: component.splits)
  show "m \<le> (case c of Query_Embedding \<Rightarrow> 160 | Answer_Generation \<Rightarrow> 9804)"
    if "usage_exceeds_authorized_cap p (component_name c) u = Inr False"
    using that u
    by (cases c) (auto simp: usage_exceeds_authorized_cap_def exact_component_def A m rounded_cost_def
        intro!: ceil_div_least)
qed

text \<open>
  C5. What a provider answer is charged is never negative. A usage within the token counts a valid budget
  was prepared for costs at most what the budget reserved, which is at most 0.012 USD; and whatever the
  budget, a usage within the caps of the policy costs at most 0.000160 USD for a query embedding and
  0.009804 USD for an answer.
\<close>

theorem charge_within_reservation:
  assumes "policy_ready p" and "validate_prepared_budget p b = Inr ()"
    and "charge_actual p (component_name (pb_component b)) u = Inr m"
  shows "0 \<le> m
    \<and> (input_tokens u \<le> pb_input_tokens b \<and> output_tokens u \<le> pb_output_tokens b
        \<longrightarrow> m \<le> pb_reserved_cost b \<and> pb_reserved_cost b \<le> 12000)
    \<and> (usage_exceeds_authorized_cap p (component_name (pb_component b)) u = Inr False
        \<longrightarrow> m \<le> (case pb_component b of Query_Embedding \<Rightarrow> 160 | Answer_Generation \<Rightarrow> 9804))"
proof -
  have "budget_valid p b" using assms(1,2) by (simp add: budget_valid_def)
  then show ?thesis
    using price.charge_within [of p b u m] price.reserved_bounds [of p b] assms
      charge_actual_bounds [OF assms(1,3)]
    by (auto simp: charge_of_def)
qed

text \<open>
  The conservative answer ceiling an admission reserves is 9804 micro-USD; it covers every valid
  answer budget, and together with any valid query budget it stays within the run's ceiling: the
  admission of a run is never refused for its prices.
\<close>

theorem answer_ceiling_covers:
  assumes "policy_ready p" and "validate_prepared_budget p q = Inr ()"
    and "pb_component q = Query_Embedding" and "validate_prepared_budget p a = Inr ()"
    and "pb_component a = Answer_Generation"
  shows "\<exists>ac. reserve_answer_generation p = Inr ac \<and> ac_reserved_cost ac = 9804
    \<and> pb_reserved_cost a \<le> ac_reserved_cost ac
    \<and> pb_reserved_cost q + ac_reserved_cost ac \<le> 12000
    \<and> pb_reserved_cost q + pb_reserved_cost a \<le> 12000"
proof -
  have "pb_reserved_cost q \<le> 160"
    using assms(1-3)
    by (auto simp: validate_prepared_budget_Inr expected_reservation_def rounded_cost_def
        budget_within_caps_def intro!: ceil_div_least)
  moreover have "pb_reserved_cost a \<le> 9804"
    using price.answer_covered [of p a] assms by (simp add: budget_valid_def)
  moreover have "reserve_answer_generation p = Inr \<lparr>ac_input_tokens = 10000, ac_output_tokens = 512,
      ac_reserved_cost = 9804, ac_policy_hmac = cp_answer_policy_hmac p\<rparr>"
    using assms(1) by (simp add: reserve_answer_generation_def policy_ready_def rounded_cost_def
        ceil_div_def require_component_ceiling_def require_def)
  ultimately show ?thesis by simp
qed

section \<open>Witnesses\<close>

definition demo_tokenizer :: private_tokenizer where
  "demo_tokenizer = \<lparr>tz_fingerprint = ''f'', tz_encode = (\<lambda>s. Some (map (\<lambda>c. 0) s)),
                     tz_observe = (\<lambda>_. Inr ''f'')\<rparr>"

definition demo_policy :: cost_policy where
  "demo_policy =
     \<lparr>cp_primitives = demo_primitives, cp_secret = ''secret'', cp_authority = registered_authority,
      cp_schema_hmac = demo_digest, cp_query_config_hmac = demo_digest,
      cp_answer_config_hmac = demo_digest, cp_query_policy_hmac = demo_digest,
      cp_answer_policy_hmac = demo_digest, cp_query_tokenizer = demo_tokenizer,
      cp_answer_tokenizer = demo_tokenizer\<rparr>"

lemma demo_hex_digests [simp]: "hex_digests demo_primitives"
  by (simp add: hex_digests_def)

lemma demo_policy_ready [simp]: "policy_ready demo_policy"
  by (simp add: policy_ready_def demo_policy_def)

lemma demo_policy_hmacs [simp]:
  "cp_query_policy_hmac demo_policy = demo_digest" "cp_answer_policy_hmac demo_policy = demo_digest"
  by (simp_all add: demo_policy_def)

lemma demo_policy_made:
  "make_cost_policy demo_primitives demo_settings (Inr demo_tokenizer) (Inr demo_tokenizer)
     demo_digest demo_digest = Inr demo_policy"
proof -
  have prices: "price_text 20000 = Inr ''0.020000''" "price_text 12000 = Inr ''0.012000''"
      "price_text 750000 = Inr ''0.750000''" "price_text 4500000 = Inr ''4.500000''"
    by (simp_all add: price_text_def of_micro_def format_f_def decimal_nat_large decimal_nat_small
        hex_digit_def)
  then have v: "validated_cost_authority registered_authority = Inr registered_authority"
    by (simp add: validated_cost_authority_def price_text_def)
      (simp add: registered_authority_def rag_answer_model_config_version_def)
  have q: "query_model_config_hmac demo_primitives demo_settings = Inr demo_digest"
    by (simp add: query_model_config_hmac_def query_model_config_payload_def demo_identity
        query_config_version_def query_embedding_model_def)
  have a: "answer_model_config_hmac demo_primitives demo_settings demo_digest demo_digest = Inr demo_digest"
    by (simp add: answer_model_config_hmac_def rag_answer_model_config_snapshot_def demo_identity
        rag_answer_model_config_version_def)
  have "build_query_policy_hmac demo_primitives registered_authority ''secret'' ''v1''
      (key_material_verifier demo_primitives ''secret'') demo_digest = Inr demo_digest"
    by (simp add: build_query_policy_hmac_def prices) (simp add: key_material_verifier_def
        registered_authority_def demo_identity query_config_version_def query_payload_validator_version_def)
  moreover have "build_answer_policy_hmac demo_primitives registered_authority ''secret'' ''v1''
      (key_material_verifier demo_primitives ''secret'') demo_digest demo_digest demo_digest = Inr demo_digest"
    by (simp add: build_answer_policy_hmac_def prices) (simp add: key_material_verifier_def
        registered_authority_def demo_identity rag_answer_model_config_version_def)
  ultimately show ?thesis
    by (simp add: make_cost_policy_def v q a demo_settings_secret demo_policy_def)
qed

definition demo_query_budget :: prepared_budget where
  "demo_query_budget = \<lparr>pb_component = Query_Embedding, pb_input_tokens = 5, pb_output_tokens = 0,
     pb_reserved_cost = 1, pb_policy_hmac = demo_digest, pb_estimator_hmac = demo_digest\<rparr>"

definition demo_answer_budget :: prepared_budget where
  "demo_answer_budget = \<lparr>pb_component = Answer_Generation, pb_input_tokens = 1000, pb_output_tokens = 512,
     pb_reserved_cost = 3054, pb_policy_hmac = demo_digest, pb_estimator_hmac = demo_digest\<rparr>"

lemma demo_query_prepared:
  "prepare_query_embedding demo_policy ''query'' demo_digest = Inr demo_query_budget"
proof -
  have "utf8_valid ''query''" and x: "exact_utf8_bytes ''query'' = Inr (utf8_json ''query'')"
    by code_simp+
  moreover have "estimator_hmac demo_policy ''rag-query-embedding-estimator-input-bytes:v1''
      (query_estimator_version registered_authority) ''query'' = Inr demo_digest"
    by (simp add: estimator_hmac_def x demo_policy_def registered_authority_def demo_identity)
  ultimately show ?thesis
    by (simp add: prepare_query_embedding_def demo_policy_def demo_query_budget_def
        count_private_tokens_def verified_private_encoding_def demo_tokenizer_def rounded_cost_def
        ceil_div_def require_component_ceiling_def require_def Let_def)
qed

lemma demo_budgets_valid:
  "validate_prepared_budget demo_policy demo_query_budget = Inr ()"
  "validate_prepared_budget demo_policy demo_answer_budget = Inr ()"
  by (simp_all add: validate_prepared_budget_Inr [OF demo_policy_ready] demo_query_budget_def
      demo_answer_budget_def policy_hmac_of_def demo_policy_hmacs budget_within_caps_def
      expected_reservation_def rounded_cost_def ceil_div_def)

definition demo_answer_usage :: strict_usage where
  "demo_answer_usage = \<lparr>input_tokens = 900, output_tokens = 100, total_tokens = 1000\<rparr>"

lemma demo_charge:
  "charge_actual demo_policy (component_name Answer_Generation) demo_answer_usage = Inr 1125"
  by (subst charge_actual_Inr) (simp_all add: demo_answer_usage_def is_signed_bigint_def
      signed_bigint_max_def rounded_cost_def ceil_div_def)

theorem charge_is_least_ceiling_witness:
  "charge_actual demo_policy (component_name Answer_Generation) demo_answer_usage = Inr 1125
   \<and> input_tokens demo_answer_usage * 750000 + output_tokens demo_answer_usage * 4500000 \<le> 1125 * 1000000"
  using charge_is_least_ceiling [OF demo_policy_ready demo_charge] demo_charge by simp

theorem prepared_budget_is_valid_witness: "pb_reserved_cost demo_query_budget \<le> 12000"
  using prepared_budget_is_valid [OF demo_policy_made demo_hex_digests disjI1 [OF demo_query_prepared]]
  by blast

theorem charge_within_reservation_witness:
  "(1125::int) \<le> pb_reserved_cost demo_answer_budget \<and> (1125::int) \<le> 9804"
proof -
  have "usage_exceeds_authorized_cap demo_policy (component_name Answer_Generation) demo_answer_usage
      = Inr False"
    using demo_policy_ready demo_charge
    by (simp add: usage_exceeds_authorized_cap_def exact_component_def charge_actual_Inr
        demo_answer_usage_def policy_ready_def is_signed_bigint_def signed_bigint_max_def)
  then show ?thesis
    using charge_within_reservation [of demo_policy demo_answer_budget demo_answer_usage 1125]
      demo_policy_ready demo_budgets_valid demo_charge
    by (simp add: demo_answer_budget_def demo_answer_usage_def)
qed

theorem answer_ceiling_covers_witness:
  "\<exists>ac. reserve_answer_generation demo_policy = Inr ac
     \<and> pb_reserved_cost demo_query_budget + ac_reserved_cost ac \<le> 12000"
  using answer_ceiling_covers [OF demo_policy_ready demo_budgets_valid(1) _ demo_budgets_valid(2)]
  by (auto simp: demo_query_budget_def demo_answer_budget_def)

end
