(* ===== verification/Provider_Safety.thy ===== *)
theory Provider_Safety
  imports Runtime_Contracts Money Advisory_Locks "HOL-Library.Product_Lexorder"
begin

text \<open>
  \<open>agent_runtime/rag_provider_safety.py\<close>: the latch that decides whether a paid provider family may be
  called. The authority is a signed file (\<open>latch\<close>), mirrored by three database tables; every transition
  writes the file first and the tables after it, and a call is allowed only when both agree.

  The file is its parsed envelope: bytes that are not the canonical JSON of a value with the exact key
  sets are \<open>Latch_Malformed\<close>, an unreadable file is \<open>Latch_Unreadable\<close>. The file digest, the parsers of
  UUIDs and of ISO times are parameters of the service. A durable write and a database commit can fail
  with or without having taken effect; the outcome is an argument of the operation. The operations run
  under the sidecar and the advisory lock, so that each is one step of the state.
\<close>

section \<open>The authority file\<close>

datatype safety_state = Ready | Rebind_Required | Blocked_Overrun | Blocked_Remediation

fun safety_state_name :: "safety_state \<Rightarrow> string" where
  "safety_state_name Ready = ''ready''"
| "safety_state_name Rebind_Required = ''rebind_required''"
| "safety_state_name Blocked_Overrun = ''blocked_overrun''"
| "safety_state_name Blocked_Remediation = ''blocked_remediation''"

type_synonym family_identity = "component \<times> string \<times> string \<times> string"

definition identity_key :: "family_identity \<Rightarrow> string \<times> string \<times> string \<times> string" where
  "identity_key i = (case i of (c, m, p, r) \<Rightarrow> (component_name c, m, p, r))"

record family_record =
  fr_identity :: family_identity
  fr_policy_hmac :: string
  fr_family_generation :: int
  fr_blocker_run_hmac :: "string option"
  fr_blocker_category :: "string option"
  fr_blocker_observed_at :: "string option"
  fr_reviewed_reference :: "string option"
  fr_state :: safety_state
  fr_state_version :: int

record safety_body =
  bd_active_query :: family_identity
  bd_active_answer :: family_identity
  bd_authority_uuid :: string
  bd_environment :: string
  bd_records :: "family_record list"
  bd_generation :: int
  bd_schema_version :: string

record envelope =
  en_body :: safety_body
  en_key_version :: string
  en_key_verifier :: string
  en_hmac :: string

datatype latch = Latch_Absent | Latch_Unreadable | Latch_Malformed | Latch envelope

definition active_identity :: "safety_body \<Rightarrow> component \<Rightarrow> family_identity" where
  "active_identity b c =
     (case c of Query_Embedding \<Rightarrow> bd_active_query b | Answer_Generation \<Rightarrow> bd_active_answer b)"

definition set_active :: "safety_body \<Rightarrow> component \<Rightarrow> family_identity \<Rightarrow> safety_body" where
  "set_active b c i =
     (case c of Query_Embedding \<Rightarrow> b\<lparr>bd_active_query := i\<rparr> | Answer_Generation \<Rightarrow> b\<lparr>bd_active_answer := i\<rparr>)"

definition find_record :: "family_identity \<Rightarrow> family_record list \<Rightarrow> family_record option" where
  "find_record i rs = List.find (\<lambda>r. fr_identity r = i) rs"

section \<open>Its JSON and its signature\<close>

definition identity_members :: "family_identity \<Rightarrow> (string \<times> json) list" where
  "identity_members i =
     (case i of (c, m, p, r) \<Rightarrow>
       [(''component'', JStr (component_name c)), (''model'', JStr m), (''provider'', JStr p),
        (''reasoning_or_config_identity'', JStr r)])"

definition family_json :: "family_record \<Rightarrow> json" where
  "family_json r = JObj (identity_members (fr_identity r) @
     [(''authorized_policy_snapshot_hmac'', JStr (fr_policy_hmac r)),
      (''family_safety_generation'', JInt (fr_family_generation r)),
      (''first_blocker_agent_run_hmac'', json_opt (fr_blocker_run_hmac r)),
      (''first_blocker_category'', json_opt (fr_blocker_category r)),
      (''first_blocker_observed_at'', json_opt (fr_blocker_observed_at r)),
      (''reviewed_transition_reference_hmac'', json_opt (fr_reviewed_reference r)),
      (''state'', JStr (safety_state_name (fr_state r))),
      (''state_version'', JInt (fr_state_version r))])"

definition body_json :: "safety_body \<Rightarrow> json" where
  "body_json b = JObj
     [(''active_family_by_component'', JObj
         [(''query_embedding'', JObj (identity_members (bd_active_query b))),
          (''answer_generation'', JObj (identity_members (bd_active_answer b)))]),
      (''authority_uuid'', JStr (bd_authority_uuid b)),
      (''designated_environment_id'', JStr (bd_environment b)),
      (''family_records'', JList (map family_json (bd_records b))),
      (''global_safety_generation'', JInt (bd_generation b)),
      (''latch_schema_version'', JStr (bd_schema_version b))]"

definition signed_json :: "safety_body \<Rightarrow> string \<Rightarrow> string \<Rightarrow> json" where
  "signed_json b key_version key_verifier = JObj
     [(''body'', body_json b),
      (''fingerprint_key_material_verifier'', JStr key_verifier),
      (''fingerprint_key_version'', JStr key_version)]"

definition envelope_json :: "envelope \<Rightarrow> json" where
  "envelope_json e = JObj
     [(''hmac_sha256'', JStr (en_hmac e)),
      (''signed_payload'', signed_json (en_body e) (en_key_version e) (en_key_verifier e))]"

record safety_service =
  sv_primitives :: primitives
  sv_secret :: string
  sv_environment :: string
  sv_sha256_hex :: "string \<Rightarrow> string"
  sv_uuid_ok :: "string \<Rightarrow> bool"
  sv_time_ok :: "string \<Rightarrow> bool"

definition make_safety_service :: "safety_service \<Rightarrow> safety_service result" where
  "make_safety_service S =
     (if sv_secret S = [] then Inl (Value_Error ''provider safety signer is required'')
      else if strip (sv_environment S) = [] \<or> sv_environment S \<noteq> strip (sv_environment S)
      then Inl (Value_Error ''provider safety environment is required'')
      else Inr S)"

definition signature :: "safety_service \<Rightarrow> safety_body \<Rightarrow> string \<Rightarrow> string \<Rightarrow> string result" where
  "signature S b key_version key_verifier =
     rag_identity_hmac (sv_primitives S) (sv_secret S) ''rag-provider-safety-latch-envelope:v1''
       ''rag-provider-safety-latch-body:v1'' (signed_json b key_version key_verifier)"

definition file_digest :: "safety_service \<Rightarrow> envelope \<Rightarrow> string result" where
  "file_digest S e =
     then_r (canonical_json_bytes (nfc (sv_primitives S)) (envelope_json e)) (\<lambda>raw.
       Inr (sv_sha256_hex S (''paraworks:provider-safety-envelope-file:v1'' @ [CHR 0x00] @ raw)))"

definition wrap_body :: "safety_service \<Rightarrow> safety_body \<Rightarrow> string \<Rightarrow> string \<Rightarrow> envelope result" where
  "wrap_body S b key_version key_verifier =
     then_r (signature S b key_version key_verifier) (\<lambda>h.
       Inr \<lparr>en_body = b, en_key_version = key_version, en_key_verifier = key_verifier, en_hmac = h\<rparr>)"

section \<open>Validation\<close>

definition blocker_categories :: "string list" where
  "blocker_categories =
    [''provider_usage_overrun'', ''provider_response_identity_invalid'',
     ''provider_embedding_payload_invalid'', ''provider_safety_unavailable'']"

definition validate_blocker :: "safety_service \<Rightarrow> family_record \<Rightarrow> unit result" where
  "validate_blocker S r =
     (case (fr_blocker_run_hmac r, fr_blocker_category r, fr_blocker_observed_at r) of
        (None, None, None) \<Rightarrow> Inr ()
      | (Some h, Some c, Some t) \<Rightarrow>
          if \<not> is_lower_hex_64 h \<or> \<not> sv_time_ok S t \<or> c \<notin> set blocker_categories
          then Inl (Safety_Error ''provider blocker attribution is invalid'') else Inr ()
      | _ \<Rightarrow> Inl (Safety_Error ''provider blocker attribution is partial''))"

definition identity_nonblank :: "family_identity \<Rightarrow> bool" where
  "identity_nonblank i = (case i of (_, m, p, r) \<Rightarrow> strip m \<noteq> [] \<and> strip p \<noteq> [] \<and> strip r \<noteq> [])"

fun validate_records ::
  "safety_service \<Rightarrow> int \<Rightarrow> family_identity list \<Rightarrow> family_record list \<Rightarrow> unit result" where
  "validate_records S generation seen [] = Inr ()"
| "validate_records S generation seen (r # rs) =
     (if \<not> identity_nonblank (fr_identity r)
      then Inl (Safety_Error ''provider safety family identity is invalid'')
      else if fr_identity r \<in> set seen
      then Inl (Safety_Error ''provider safety family is duplicated'')
      else if fr_state_version r < 1
      then Inl (Safety_Error ''provider safety state version is invalid'')
      else if fr_family_generation r < 0 \<or> fr_family_generation r > generation
      then Inl (Safety_Error ''provider family generation is invalid'')
      else if \<not> is_lower_hex_64 (fr_policy_hmac r)
              \<or> (case fr_reviewed_reference r of None \<Rightarrow> False | Some h \<Rightarrow> \<not> is_lower_hex_64 h)
      then Inl (Safety_Error ''provider family HMAC is invalid'')
      else then_r (validate_blocker S r) (\<lambda>_.
        validate_records S generation (fr_identity r # seen) rs))"

definition validate_active :: "safety_body \<Rightarrow> component \<Rightarrow> unit result" where
  "validate_active b c =
     (if fst (active_identity b c) \<noteq> c
      then Inl (Safety_Error ''active provider family component differs'')
      else if find_record (active_identity b c) (bd_records b) = None
      then Inl (Safety_Error ''active provider family is absent'')
      else Inr ())"

definition latch_schema_version :: string where
  "latch_schema_version = ''rag-provider-safety-latch-body:v1''"

definition validate_envelope :: "safety_service \<Rightarrow> envelope \<Rightarrow> unit result" where
  "validate_envelope S e =
     (let b = en_body e in
      then_r (signature S b (en_key_version e) (en_key_verifier e)) (\<lambda>expected.
      if en_hmac e \<noteq> expected then Inl (Safety_Error ''provider safety authority is inconsistent'')
      else if strip (en_key_version e) = []
      then Inl (Safety_Error ''provider safety key version is invalid'')
      else if \<not> is_lower_hex_64 (en_key_verifier e)
      then Inl (Safety_Error ''provider safety key verifier is invalid'')
      else if bd_schema_version b \<noteq> latch_schema_version \<or> bd_environment b \<noteq> sv_environment S
      then Inl (Safety_Error ''provider safety authority is inconsistent'')
      else if \<not> sv_uuid_ok S (bd_authority_uuid b)
      then Inl (Safety_Error ''provider safety authority UUID is invalid'')
      else if bd_generation b < 0
      then Inl (Safety_Error ''provider safety generation is invalid'')
      else if length (bd_records b) < 2
      then Inl (Safety_Error ''provider safety families are inconsistent'')
      else
      then_r (validate_records S (bd_generation b) [] (bd_records b)) (\<lambda>_.
      if \<not> sorted (map (identity_key \<circ> fr_identity) (bd_records b))
      then Inl (Safety_Error ''provider safety families are not ordered'')
      else each_r (validate_active b) component_order)))"

text \<open>\<open>_read_unlocked\<close>: the validated envelope and the digest of the file.\<close>

definition read_latch :: "safety_service \<Rightarrow> latch \<Rightarrow> (envelope \<times> string) result" where
  "read_latch S l =
     (case l of
        Latch_Absent \<Rightarrow> Inl (Runtime_Error ''authority envelope is unavailable'')
      | Latch_Unreadable \<Rightarrow> Inl (Safety_Inspection_Error ''provider safety authority inspection failed'')
      | Latch_Malformed \<Rightarrow> Inl (Safety_Error ''provider safety authority is inconsistent'')
      | Latch e \<Rightarrow>
          then_r (validate_envelope S e) (\<lambda>_.
          then_r (file_digest S e) (\<lambda>digest. Inr (e, digest))))"

section \<open>The database image\<close>

record authority_row =
  au_id :: int
  au_uuid :: string
  au_environment :: string
  au_generation :: int
  au_digest :: string
  au_key_version :: string
  au_key_verifier :: string

record readiness_row =
  rw_id :: int
  rw_authority_id :: int
  rw_snapshot :: policy_snapshot
  rw_active :: bool
  rw_state :: safety_state
  rw_state_version :: int
  rw_family_generation :: int
  rw_reviewed_reference :: "string option"
  rw_overrun :: "(int \<times> int \<times> int \<times> int \<times> string) option"
  rw_reset_by :: "string option"

record transition_row =
  tn_readiness_id :: "int option"
  tn_generation :: int
  tn_kind :: string
  tn_prior_state :: "safety_state option"
  tn_new_state :: "safety_state option"
  tn_prior_version :: "int option"
  tn_new_version :: "int option"
  tn_prior_family_generation :: "int option"
  tn_new_family_generation :: "int option"
  tn_digest :: string
  tn_reviewed_reference :: string
  tn_actor :: "string option"
  tn_agent_run_id :: "int option"

record safety_db =
  db_authorities :: "authority_row list"
  db_rows :: "readiness_row list"
  db_transitions :: "transition_row list"
  db_next_id :: int

record safety =
  sf_latch :: latch
  sf_db :: safety_db

definition snapshot_identity :: "policy_snapshot \<Rightarrow> family_identity" where
  "snapshot_identity s =
     (ps_component s, ps_model s, ps_provider s, ps_reasoning_or_config_identity s)"

definition drift :: error where
  "drift = Safety_Error ''provider safety DB/external authority drift''"

definition authority_matches :: "safety_service \<Rightarrow> envelope \<Rightarrow> string \<Rightarrow> authority_row \<Rightarrow> bool" where
  "authority_matches S e digest a \<longleftrightarrow>
     au_id a = 1 \<and> au_uuid a = bd_authority_uuid (en_body e)
     \<and> au_environment a = sv_environment S \<and> au_generation a = bd_generation (en_body e)
     \<and> au_digest a = digest \<and> au_key_version a = en_key_version e
     \<and> au_key_verifier a = en_key_verifier e"

definition row_active_expected :: "safety_body \<Rightarrow> readiness_row \<Rightarrow> bool" where
  "row_active_expected b r \<longleftrightarrow>
     active_identity b (ps_component (rw_snapshot r)) = snapshot_identity (rw_snapshot r)"

definition row_matches :: "safety_body \<Rightarrow> readiness_row \<Rightarrow> bool" where
  "row_matches b r \<longleftrightarrow>
     (case find_record (snapshot_identity (rw_snapshot r)) (bd_records b) of
        None \<Rightarrow> False
      | Some f \<Rightarrow>
          rw_authority_id r = 1 \<and> rw_active r = row_active_expected b r
          \<and> ps_policy_snapshot_hmac (rw_snapshot r) = fr_policy_hmac f
          \<and> rw_state r = fr_state f \<and> rw_state_version r = fr_state_version f
          \<and> rw_family_generation r = fr_family_generation f
          \<and> rw_reviewed_reference r = fr_reviewed_reference f)"

fun match_rows :: "safety_body \<Rightarrow> component list \<Rightarrow> readiness_row list \<Rightarrow> component list result" where
  "match_rows b seen [] = Inr seen"
| "match_rows b seen (r # rs) =
     (if \<not> row_matches b r then Inl drift
      else if row_active_expected b r then
        (let c = ps_component (rw_snapshot r) in
         if c \<in> set seen then Inl drift else match_rows b (c # seen) rs)
      else match_rows b seen rs)"

text \<open>\<open>_match_database_rows\<close>: one authority row, one readiness row per record, both components active.\<close>

definition match_db :: "safety_service \<Rightarrow> envelope \<Rightarrow> string \<Rightarrow> safety_db \<Rightarrow> unit result" where
  "match_db S e digest d =
     (case db_authorities d of
        [a] \<Rightarrow>
          if \<not> authority_matches S e digest a then Inl drift
          else if length (db_rows d) \<noteq> length (bd_records (en_body e)) then Inl drift
          else then_r (match_rows (en_body e) [] (db_rows d)) (\<lambda>seen.
            if set seen \<noteq> set component_order then Inl drift else Inr ())
      | _ \<Rightarrow> Inl drift)"

section \<open>Readiness\<close>

definition active_record :: "safety_body \<Rightarrow> component \<Rightarrow> family_record" where
  "active_record b c = the (find_record (active_identity b c) (bd_records b))"

definition active_row :: "safety_db \<Rightarrow> component \<Rightarrow> readiness_row option" where
  "active_row d c = List.find (\<lambda>r. rw_active r \<and> ps_component (rw_snapshot r) = c) (db_rows d)"

definition rebind_is_required :: error where
  "rebind_is_required = Safety_Error ''provider family rebind is required''"

definition safety_snapshot_json :: "safety_body \<Rightarrow> family_record \<Rightarrow> string \<Rightarrow> json" where
  "safety_snapshot_json b f digest = JObj
     [(''authority_uuid'', JStr (bd_authority_uuid b)),
      (''global_safety_generation'', JInt (bd_generation b)),
      (''active_family'', family_json f),
      (''envelope_digest'', JStr digest)]"

definition bind_family ::
  "safety_service \<Rightarrow> safety_db \<Rightarrow> envelope \<Rightarrow> string \<Rightarrow> component \<Rightarrow> policy_snapshot
    \<Rightarrow> safety_binding result" where
  "bind_family S d e digest c s =
     (let b = en_body e; f = active_record b c in
      if ps_component s \<noteq> c then Inl (Safety_Error ''provider family component differs'')
      else if snapshot_identity s \<noteq> fr_identity f then Inl rebind_is_required
      else if fr_policy_hmac f \<noteq> ps_policy_snapshot_hmac s then Inl rebind_is_required
      else if fr_state f \<noteq> Ready then Inl (Safety_Error ''provider family is blocked'')
      else
      then_r (match_db S e digest d) (\<lambda>_.
      case active_row d c of
        None \<Rightarrow> Inl (Runtime_Error ''StopIteration'')
      | Some row \<Rightarrow>
          if rw_snapshot row \<noteq> s then Inl rebind_is_required
          else then_r (provider_safety_snapshot_identity (sv_primitives S) (sv_secret S)
                         (safety_snapshot_json b f digest)) (\<lambda>h.
            Inr \<lparr>sb_policy_snapshot = s, sb_authority_uuid = bd_authority_uuid b,
                 sb_designated_environment_id = sv_environment S, sb_envelope_digest = digest,
                 sb_fingerprint_key_version = ps_fingerprint_key_version s,
                 sb_fingerprint_key_material_verifier = ps_fingerprint_key_material_verifier s,
                 sb_global_safety_generation = bd_generation b,
                 sb_family_state_version = fr_state_version f,
                 sb_family_safety_generation = fr_family_generation f,
                 sb_provider_safety_snapshot_hmac = h\<rparr>)))"

text \<open>\<open>except RagProviderSafetyError: raise; except Exception: raise other\<close>.\<close>

definition only_safety_errors :: "error \<Rightarrow> 'a result \<Rightarrow> 'a result" where
  "only_safety_errors other r =
     (case r of Inr x \<Rightarrow> Inr x | Inl e \<Rightarrow> Inl (if is_safety_error e then e else other))"

definition require_ready ::
  "safety_service \<Rightarrow> safety \<Rightarrow> component \<Rightarrow> policy_snapshot \<Rightarrow> safety_binding result" where
  "require_ready S w c s =
     only_safety_errors (Safety_Inspection_Error ''provider safety authority is unavailable'')
       (then_r (read_latch S (sf_latch w)) (\<lambda>(e, digest). bind_family S (sf_db w) e digest c s))"

definition binding_changed :: error where
  "binding_changed = Safety_Error ''provider safety binding changed''"

text \<open>\<open>_revalidate\<close>, which both \<open>revalidate_before_send\<close> and \<open>revalidate_after_response\<close> call.\<close>

definition revalidate ::
  "safety_service \<Rightarrow> safety \<Rightarrow> component \<Rightarrow> policy_snapshot \<Rightarrow> safety_binding option
    \<Rightarrow> safety_binding result" where
  "revalidate S w c s expected =
     then_r (require_ready S w c s) (\<lambda>binding.
       case expected of
         None \<Rightarrow> Inr binding
       | Some x \<Rightarrow> if binding \<noteq> x then Inl binding_changed else Inr binding)"

definition read_and_bind ::
  "safety_service \<Rightarrow> safety \<Rightarrow> component \<Rightarrow> policy_snapshot \<Rightarrow> safety_binding result" where
  "read_and_bind S w c s =
     then_r (read_latch S (sf_latch w)) (\<lambda>(e, digest). bind_family S (sf_db w) e digest c s)"

definition require_safety_order ::
  "coordinator \<Rightarrow> lock_capability \<Rightarrow> lock_capability \<Rightarrow> unit result" where
  "require_safety_order co sidecar rows =
     then_r (require_stage co sidecar ''provider_stable_sidecar'')
       (\<lambda>_. require_stage co rows ''provider_safety_rows'')"

text \<open>
  The barriers are context managers: what happens on entry in state \<open>w\<close>, and on exit in the state
  \<open>w'\<close> the guarded block left.
\<close>

definition dispatch_barrier ::
  "safety_service \<Rightarrow> safety \<Rightarrow> safety \<Rightarrow> component \<Rightarrow> policy_snapshot \<Rightarrow> safety_binding
    \<Rightarrow> coordinator \<Rightarrow> lock_capability \<Rightarrow> lock_capability \<Rightarrow> unit result \<times> unit result" where
  "dispatch_barrier S w w' c s expected co sidecar rows =
     (let check = (\<lambda>v. then_r (read_and_bind S v c s) (\<lambda>binding.
                         if binding \<noteq> expected then Inl binding_changed else Inr ()))
      in (then_r (require_safety_order co sidecar rows) (\<lambda>_. check w), check w'))"

fun bind_all ::
  "safety_service \<Rightarrow> safety_db \<Rightarrow> envelope \<Rightarrow> string \<Rightarrow> (policy_snapshot \<times> safety_binding) list
    \<Rightarrow> safety_binding list result" where
  "bind_all S d e digest [] = Inr []"
| "bind_all S d e digest ((s, _) # rest) =
     then_r (bind_family S d e digest (ps_component s) s) (\<lambda>x.
     then_r (bind_all S d e digest rest) (\<lambda>xs. Inr (x # xs)))"

definition finalization_entry ::
  "safety_service \<Rightarrow> safety \<Rightarrow> (policy_snapshot \<times> safety_binding) list
    \<Rightarrow> coordinator \<Rightarrow> lock_capability \<Rightarrow> lock_capability \<Rightarrow> safety_binding list result" where
  "finalization_entry S w reqs co sidecar rows =
     then_r (require_safety_order co sidecar rows) (\<lambda>_.
     if reqs = [] \<or> list_ex (\<lambda>(s, x). sb_policy_snapshot x \<noteq> s) reqs
     then Inl (Safety_Error ''phase-2 provider safety requirements are invalid'')
     else
     then_r (read_latch S (sf_latch w)) (\<lambda>(e, digest).
     then_r (match_db S e digest (sf_db w)) (\<lambda>_.
     then_r (bind_all S (sf_db w) e digest reqs) (\<lambda>fresh.
       if fresh \<noteq> map snd reqs then Inl binding_changed else Inr fresh))))"

definition finalization_exit ::
  "safety_service \<Rightarrow> safety \<Rightarrow> (policy_snapshot \<times> safety_binding) list \<Rightarrow> safety_binding list
    \<Rightarrow> unit result" where
  "finalization_exit S w reqs fresh =
     then_r (read_latch S (sf_latch w)) (\<lambda>(e, digest).
     then_r (bind_all S (sf_db w) e digest reqs) (\<lambda>later.
       if later \<noteq> fresh then Inl binding_changed else Inr ()))"

definition accounting_failure_barrier ::
  "safety_service \<Rightarrow> safety \<Rightarrow> safety \<Rightarrow> coordinator \<Rightarrow> lock_capability \<Rightarrow> lock_capability
    \<Rightarrow> unit result \<times> unit result" where
  "accounting_failure_barrier S w w' co sidecar rows =
     (let authenticated = (\<lambda>v. then_r (read_latch S (sf_latch v)) (\<lambda>(e, digest).
            then_r (match_db S e digest (sf_db v)) (\<lambda>_. Inr e)));
          before = then_r (require_safety_order co sidecar rows) (\<lambda>_. authenticated w)
      in (then_r before (\<lambda>_. Inr ()),
          then_r before (\<lambda>e. then_r (authenticated w') (\<lambda>e'.
            if e' \<noteq> e then Inl (Safety_Error ''failure accounting authority changed'') else Inr ()))))"

end
