(* ===== verification/Safety_Transitions.thy ===== *)
theory Safety_Transitions
  imports Provider_Safety
begin

text \<open>
  The transitions of \<open>agent_runtime/rag_provider_safety.py\<close>: reviewed one-use commands, the
  external-first mutation of the latch and its database mirror, blocking, and the bootstrap.
\<close>

section \<open>Reviewed commands\<close>

record review_context =
  rc_authority_uuid :: string
  rc_environment :: string
  rc_component :: component
  rc_identity :: family_identity
  rc_state :: safety_state
  rc_state_version :: int
  rc_generation :: int
  rc_historical_blocker :: bool

datatype operation = Op_Mark_Rebind | Op_Rebind | Op_Reset | Op_Supersession

fun operation_name :: "operation \<Rightarrow> string" where
  "operation_name Op_Mark_Rebind = ''mark_rebind_required''"
| "operation_name Op_Rebind = ''rebind''"
| "operation_name Op_Reset = ''reset''"
| "operation_name Op_Supersession = ''supersession''"

record command_payload =
  cy_actor :: string
  cy_context :: review_context
  cy_acknowledged :: bool
  cy_operation :: operation
  cy_reference :: string
  cy_successor :: "policy_snapshot option"

record command =
  cm_payload :: command_payload
  cm_hmac :: string
  cm_consumed :: bool

definition identity_list_json :: "family_identity \<Rightarrow> json" where
  "identity_list_json i =
     (case i of (c, m, p, r) \<Rightarrow> JList [JStr (component_name c), JStr m, JStr p, JStr r])"

definition context_json :: "review_context \<Rightarrow> json" where
  "context_json x = JObj
     [(''authority_uuid'', JStr (rc_authority_uuid x)),
      (''component'', JStr (component_name (rc_component x))),
      (''current_family_identity'', identity_list_json (rc_identity x)),
      (''current_state'', JStr (safety_state_name (rc_state x))),
      (''current_state_version'', JInt (rc_state_version x)),
      (''designated_environment_id'', JStr (rc_environment x)),
      (''global_safety_generation'', JInt (rc_generation x)),
      (''has_historical_blocker'', JBool (rc_historical_blocker x))]"

definition successor_json :: "policy_snapshot \<Rightarrow> json" where
  "successor_json s = JObj
     [(''authorized_cost_policy_version'', JStr (ps_cost_policy_version s)),
      (''authorized_model_config_snapshot_hmac'', JStr (ps_model_config_snapshot_hmac s)),
      (''authorized_model_config_version'', JStr (ps_model_config_version s)),
      (''authorized_policy_snapshot_hmac'', JStr (ps_policy_snapshot_hmac s)),
      (''authorized_token_estimator_version'', JStr (ps_token_estimator_version s)),
      (''component'', JStr (component_name (ps_component s))),
      (''fingerprint_key_material_verifier'', JStr (ps_fingerprint_key_material_verifier s)),
      (''fingerprint_key_version'', JStr (ps_fingerprint_key_version s)),
      (''model'', JStr (ps_model s)),
      (''provider'', JStr (ps_provider s)),
      (''reasoning_or_config_identity'', JStr (ps_reasoning_or_config_identity s))]"

definition payload_json :: "command_payload \<Rightarrow> json" where
  "payload_json y = JObj
     [(''actor_subject_hmac'', JStr (cy_actor y)),
      (''context'', context_json (cy_context y)),
      (''historical_block_acknowledged'', JBool (cy_acknowledged y)),
      (''operation'', JStr (operation_name (cy_operation y))),
      (''reviewed_gate_reference_hmac'', JStr (cy_reference y)),
      (''successor'', case cy_successor y of None \<Rightarrow> JNull | Some s \<Rightarrow> successor_json s)]"

definition command_hmac :: "primitives \<Rightarrow> string \<Rightarrow> command_payload \<Rightarrow> string result" where
  "command_hmac P secret y =
     rag_identity_hmac P secret ''rag-provider-safety-reviewed-command:v1'' ''rag-provider-safety:v1''
       (payload_json y)"

definition issue_command ::
  "primitives \<Rightarrow> string \<Rightarrow> review_context \<Rightarrow> operation \<Rightarrow> policy_snapshot option \<Rightarrow> string \<Rightarrow> string
    \<Rightarrow> bool \<Rightarrow> command result" where
  "issue_command P secret x op successor actor reference acknowledged =
     then_r (require_lower_hmac actor ''identity'') (\<lambda>_.
     then_r (require_lower_hmac reference ''identity'') (\<lambda>_.
     if rc_historical_blocker x \<and> op \<in> {Op_Reset, Op_Supersession} \<and> \<not> acknowledged
     then Inl (Safety_Error ''historical blocker acknowledgement is required'')
     else if (op \<in> {Op_Rebind, Op_Supersession}) \<noteq> (successor \<noteq> None)
     then Inl (Safety_Error ''reviewed command successor is invalid'')
     else
     let y = \<lparr>cy_actor = actor, cy_context = x, cy_acknowledged = acknowledged, cy_operation = op,
              cy_reference = reference, cy_successor = successor\<rparr> in
     then_r (command_hmac P secret y) (\<lambda>h.
       Inr \<lparr>cm_payload = y, cm_hmac = h, cm_consumed = False\<rparr>)))"

text \<open>\<open>_consume\<close>: the command is used up before its binding is checked.\<close>

definition consume_command ::
  "primitives \<Rightarrow> string \<Rightarrow> review_context \<Rightarrow> operation \<Rightarrow> policy_snapshot option \<Rightarrow> command
    \<Rightarrow> command_payload result \<times> command" where
  "consume_command P secret x op successor cmd =
     (if cm_consumed cmd then (Inl (Safety_Error ''reviewed command was already consumed''), cmd)
      else (then_r (command_hmac P secret (cm_payload cmd)) (\<lambda>expected.
              if cm_hmac cmd \<noteq> expected \<or> cy_context (cm_payload cmd) \<noteq> x
                 \<or> cy_operation (cm_payload cmd) \<noteq> op \<or> cy_successor (cm_payload cmd) \<noteq> successor
              then Inl (Safety_Error ''reviewed command binding does not match'')
              else Inr (cm_payload cmd)),
            cmd\<lparr>cm_consumed := True\<rparr>))"

definition bound_component :: "command \<Rightarrow> component result" where
  "bound_component cmd =
     (if cm_consumed cmd then Inl (Safety_Error ''reviewed command was already consumed'')
      else Inr (rc_component (cy_context (cm_payload cmd))))"

definition review_context_from :: "safety_service \<Rightarrow> safety_body \<Rightarrow> component \<Rightarrow> review_context" where
  "review_context_from S b c =
     (let f = active_record b c in
      \<lparr>rc_authority_uuid = bd_authority_uuid b, rc_environment = sv_environment S, rc_component = c,
       rc_identity = fr_identity f, rc_state = fr_state f, rc_state_version = fr_state_version f,
       rc_generation = bd_generation b,
       rc_historical_blocker =
         list_ex (\<lambda>r. fst (fr_identity r) = c \<and> fr_blocker_category r \<noteq> None) (bd_records b)\<rparr>)"

definition review_context :: "safety_service \<Rightarrow> safety \<Rightarrow> component \<Rightarrow> review_context result" where
  "review_context S w c =
     only_safety_errors (Safety_Error ''provider safety review context is unavailable'')
       (then_r (read_latch S (sf_latch w)) (\<lambda>(e, digest).
        then_r (match_db S e digest (sf_db w)) (\<lambda>_. Inr (review_context_from S (en_body e) c))))"

section \<open>Durable writes\<close>

text \<open>
  The replacement of the file either took effect or failed, and a failure may follow the rename (the
  flush of the directory); a commit is acknowledged, lost after it took effect, or not done.
\<close>

datatype replace_outcome = Replaced | Replace_Failed_Before | Replace_Failed_After

datatype commit_outcome = Acknowledged | Committed_Unacknowledged | Not_Committed

record safety_io =
  io_now :: string
  io_replace :: replace_outcome
  io_commit :: commit_outcome

text \<open>\<open>connection.commit()\<close> on the pending image, from the stored one: the stored image and the error.\<close>

definition commit_db :: "commit_outcome \<Rightarrow> 'd \<Rightarrow> 'd \<Rightarrow> unit result \<times> 'd" where
  "commit_db co stored pending =
     (case co of
        Acknowledged \<Rightarrow> (Inr (), pending)
      | Committed_Unacknowledged \<Rightarrow> (Inl (Runtime_Error ''commit outcome unknown''), pending)
      | Not_Committed \<Rightarrow> (Inl (Runtime_Error ''commit failed''), stored))"

section \<open>The database side of a transition\<close>

record transition =
  tr_component :: component
  tr_kind :: string
  tr_new_state :: safety_state
  tr_allowed :: "safety_state list"
  tr_reference :: "string option"
  tr_actor :: "string option"
  tr_run_id :: "int option"
  tr_blocker_category :: "string option"
  tr_blocker_values :: "(int \<times> int \<times> int) option"
  tr_snapshot :: "policy_snapshot option"
  tr_supersession :: bool
  tr_operation :: "operation option"
  tr_preserve_reference :: bool

definition transition_base :: "component \<Rightarrow> string \<Rightarrow> safety_state \<Rightarrow> safety_state list \<Rightarrow> transition" where
  "transition_base c kind new_state allowed =
     \<lparr>tr_component = c, tr_kind = kind, tr_new_state = new_state, tr_allowed = allowed,
      tr_reference = None, tr_actor = None, tr_run_id = None, tr_blocker_category = None,
      tr_blocker_values = None, tr_snapshot = None, tr_supersession = False, tr_operation = None,
      tr_preserve_reference = False\<rparr>"

definition update_authority :: "safety_body \<Rightarrow> string \<Rightarrow> int \<Rightarrow> string \<Rightarrow> authority_row list \<Rightarrow> authority_row list option"
where
  "update_authority old old_digest generation digest as =
     (let hit = (\<lambda>a. au_id a = 1 \<and> au_generation a = bd_generation old \<and> au_digest a = old_digest)
      in if length (filter hit as) \<noteq> 1 then None
         else Some (map (\<lambda>a. if hit a then a\<lparr>au_generation := generation, au_digest := digest\<rparr> else a) as))"

definition successor_row :: "int \<Rightarrow> policy_snapshot \<Rightarrow> int \<Rightarrow> string \<Rightarrow> readiness_row" where
  "successor_row rid s generation reference =
     \<lparr>rw_id = rid, rw_authority_id = 1, rw_snapshot = s, rw_active = True, rw_state = Ready,
      rw_state_version = 1, rw_family_generation = generation, rw_reviewed_reference = Some reference,
      rw_overrun = None, rw_reset_by = None\<rparr>"

definition changed_row ::
  "transition \<Rightarrow> string option \<Rightarrow> family_record \<Rightarrow> int \<Rightarrow> string \<Rightarrow> (int \<times> int \<times> int \<times> string) option
    \<Rightarrow> readiness_row \<Rightarrow> readiness_row" where
  "changed_row t actor new_record generation reference observed row =
     row\<lparr>rw_state := fr_state new_record, rw_state_version := fr_state_version new_record,
         rw_family_generation := generation, rw_reviewed_reference := Some reference,
         rw_reset_by := (if tr_kind t = ''reset'' then actor else rw_reset_by row),
         rw_snapshot := (case tr_snapshot t of None \<Rightarrow> rw_snapshot row | Some s \<Rightarrow> s),
         rw_overrun :=
           (case observed of
              Some (i, out, cost, at_time) \<Rightarrow>
                if rw_overrun row = None then Some (the (tr_run_id t), i, out, cost, at_time)
                else rw_overrun row
            | None \<Rightarrow> rw_overrun row)\<rparr>"

text \<open>
  \<open>_commit_transition\<close> up to its commit: the pending image. The two compare-and-swap updates touch the
  row they name or fail.
\<close>

definition pending_transition ::
  "safety_service \<Rightarrow> transition \<Rightarrow> string option \<Rightarrow> string \<Rightarrow> envelope \<Rightarrow> string \<Rightarrow> safety_body \<Rightarrow> string
    \<Rightarrow> (int \<times> int \<times> int \<times> string) option \<Rightarrow> safety_db \<Rightarrow> safety_db result" where
  "pending_transition S t actor reference old old_digest new_body new_digest observed d =
     (let c = tr_component t; old_body = en_body old; old_record = active_record old_body c;
          new_record = active_record new_body c; generation = bd_generation new_body in
      then_r (match_db S old old_digest d) (\<lambda>_.
      case active_row d c of
        None \<Rightarrow> Inl (Runtime_Error ''StopIteration'')
      | Some old_row \<Rightarrow>
      (case update_authority old_body old_digest generation new_digest (db_authorities d) of
        None \<Rightarrow> Inl (Safety_Error ''provider safety authority CAS failed'')
      | Some authorities \<Rightarrow>
      (let history = (\<lambda>rid prior.
             \<lparr>tn_readiness_id = Some rid, tn_generation = generation, tn_kind = tr_kind t,
              tn_prior_state = map_option fr_state prior, tn_new_state = Some (fr_state new_record),
              tn_prior_version = map_option fr_state_version prior,
              tn_new_version = Some (fr_state_version new_record),
              tn_prior_family_generation = map_option fr_family_generation prior,
              tn_new_family_generation = Some generation, tn_digest = new_digest,
              tn_reviewed_reference = reference, tn_actor = actor, tn_agent_run_id = tr_run_id t\<rparr>)
       in if tr_supersession t then
            (case tr_snapshot t of
               None \<Rightarrow> Inl (Safety_Error ''provider successor snapshot is absent'')
             | Some s \<Rightarrow>
                 Inr \<lparr>db_authorities = authorities,
                      db_rows = map (\<lambda>r. if rw_id r = rw_id old_row \<and> rw_active r
                                        then r\<lparr>rw_active := False\<rparr> else r) (db_rows d)
                                @ [successor_row (db_next_id d) s generation reference],
                      db_transitions = db_transitions d @ [history (db_next_id d) None],
                      db_next_id = db_next_id d + 1\<rparr>)
          else
            (let hit = (\<lambda>r. rw_id r = rw_id old_row \<and> rw_active r
                          \<and> rw_state_version r = fr_state_version old_record
                          \<and> rw_family_generation r = fr_family_generation old_record)
             in if length (filter hit (db_rows d)) \<noteq> 1
                then Inl (Safety_Error ''provider family CAS failed'')
                else Inr \<lparr>db_authorities = authorities,
                          db_rows = map (\<lambda>r. if hit r
                            then changed_row t actor new_record generation reference observed r
                            else r) (db_rows d),
                          db_transitions = db_transitions d
                            @ [history (rw_id old_row) (Some old_record)],
                          db_next_id = db_next_id d\<rparr>)))))"

definition commit_transition ::
  "safety_service \<Rightarrow> transition \<Rightarrow> string option \<Rightarrow> string \<Rightarrow> envelope \<Rightarrow> string \<Rightarrow> safety_body \<Rightarrow> string
    \<Rightarrow> (int \<times> int \<times> int \<times> string) option \<Rightarrow> commit_outcome \<Rightarrow> safety_db \<Rightarrow> unit result \<times> safety_db" where
  "commit_transition S t actor reference old old_digest new_body new_digest observed co d =
     (case pending_transition S t actor reference old old_digest new_body new_digest observed d of
        Inl e \<Rightarrow> (Inl e, d)
      | Inr pending \<Rightarrow> commit_db co d pending)"

section \<open>The file side of a transition\<close>

definition blocker_run_hmac :: "safety_service \<Rightarrow> int \<Rightarrow> string result" where
  "blocker_run_hmac S run_id =
     rag_identity_hmac (sv_primitives S) (sv_secret S) ''rag-provider-blocker-agent-run:v1''
       ''rag-provider-safety:v1'' (JObj [(''agent_run_id'', JInt run_id)])"

definition incident_reference ::
  "safety_service \<Rightarrow> component \<Rightarrow> safety_state \<Rightarrow> int \<Rightarrow> string \<Rightarrow> string result" where
  "incident_reference S c state run_id category =
     rag_identity_hmac (sv_primitives S) (sv_secret S) ''rag-provider-safety-incident-reference:v1''
       ''rag-provider-safety:v1''
       (JObj [(''agent_run_id'', JInt run_id), (''component'', JStr (component_name c)),
              (''category'', JStr category), (''state'', JStr (safety_state_name state))])"

definition replace_record ::
  "family_identity \<Rightarrow> (family_record \<Rightarrow> family_record) \<Rightarrow> family_record list \<Rightarrow> family_record list" where
  "replace_record i f rs = map (\<lambda>r. if fr_identity r = i then f r else r) rs"

definition fresh_record :: "policy_snapshot \<Rightarrow> int \<Rightarrow> string \<Rightarrow> family_record" where
  "fresh_record s generation reference =
     \<lparr>fr_identity = snapshot_identity s, fr_policy_hmac = ps_policy_snapshot_hmac s,
      fr_family_generation = generation, fr_blocker_run_hmac = None, fr_blocker_category = None,
      fr_blocker_observed_at = None, fr_reviewed_reference = Some reference, fr_state = Ready,
      fr_state_version = 1\<rparr>"

text \<open>The target record after a change of state; \<open>run_hmac\<close> is used when a first blocker is recorded.\<close>

definition changed_record ::
  "transition \<Rightarrow> int \<Rightarrow> string \<Rightarrow> string \<Rightarrow> string \<Rightarrow> family_record \<Rightarrow> family_record" where
  "changed_record t generation reference run_hmac now r =
     (let r1 = r\<lparr>fr_state := tr_new_state t, fr_state_version := fr_state_version r + 1,
                 fr_family_generation := generation, fr_reviewed_reference := Some reference,
                 fr_policy_hmac := (case tr_snapshot t of None \<Rightarrow> fr_policy_hmac r
                                    | Some s \<Rightarrow> ps_policy_snapshot_hmac s)\<rparr>
      in case tr_blocker_category t of
           Some category \<Rightarrow>
             if fr_blocker_category r = None
             then r1\<lparr>fr_blocker_run_hmac := Some run_hmac, fr_blocker_category := Some category,
                     fr_blocker_observed_at := Some now\<rparr>
             else r1
         | None \<Rightarrow> r1)"

definition next_body ::
  "safety_service \<Rightarrow> transition \<Rightarrow> string \<Rightarrow> string \<Rightarrow> safety_body \<Rightarrow> safety_body result" where
  "next_body S t reference now b =
     (let c = tr_component t; i = active_identity b c; f = active_record b c;
          generation = bd_generation b + 1 in
      if tr_supersession t then
        (case tr_snapshot t of
           None \<Rightarrow> Inl (Safety_Error ''provider successor snapshot is invalid'')
         | Some s \<Rightarrow>
             if ps_component s \<noteq> c
             then Inl (Safety_Error ''provider successor snapshot is invalid'')
             else if snapshot_identity s = i \<or> find_record (snapshot_identity s) (bd_records b) \<noteq> None
             then Inl (Safety_Error ''provider successor family is not new'')
             else Inr (set_active b c (snapshot_identity s)
                \<lparr>bd_records := sort_key (identity_key \<circ> fr_identity)
                   (bd_records b @ [fresh_record s generation reference]),
                 bd_generation := generation\<rparr>))
      else if (case tr_snapshot t of None \<Rightarrow> False | Some s \<Rightarrow> snapshot_identity s \<noteq> i)
      then Inl (Safety_Error ''provider rebind cannot change family identity'')
      else
      then_r (if tr_blocker_category t \<noteq> None \<and> fr_blocker_category f = None
              then blocker_run_hmac S (the (tr_run_id t)) else Inr []) (\<lambda>run_hmac.
        Inr (b\<lparr>bd_records := replace_record i (changed_record t generation reference run_hmac now)
                  (bd_records b),
               bd_generation := generation\<rparr>)))"

text \<open>\<open>_commit_minimal_remediation\<close>: the database alone is blocked when the file could not be.\<close>

definition remediated_body :: "safety_body \<Rightarrow> component \<Rightarrow> string \<Rightarrow> safety_body" where
  "remediated_body b c reference =
     (let generation = bd_generation b + 1 in
      b\<lparr>bd_records := replace_record (active_identity b c)
          (\<lambda>r. r\<lparr>fr_state := Blocked_Remediation, fr_state_version := fr_state_version r + 1,
                 fr_family_generation := generation, fr_reviewed_reference := Some reference\<rparr>)
          (bd_records b),
        bd_generation := generation\<rparr>)"

definition remediation_json ::
  "safety_body \<Rightarrow> component \<Rightarrow> string \<Rightarrow> string option \<Rightarrow> json" where
  "remediation_json b c old_digest actor = JObj
     [(''authority_uuid'', JStr (bd_authority_uuid b)),
      (''component'', JStr (component_name c)),
      (''external_envelope_digest'', JStr old_digest),
      (''global_safety_generation'', JInt (bd_generation b + 1)),
      (''incident_reference_hmac'', json_opt actor),
      (''state'', JStr ''blocked_remediation'')]"

definition stamp_values :: "transition \<Rightarrow> string \<Rightarrow> (int \<times> int \<times> int \<times> string) option" where
  "stamp_values t now = map_option (\<lambda>(i, out, cost). (i, out, cost, now)) (tr_blocker_values t)"

definition commit_minimal_remediation ::
  "safety_service \<Rightarrow> safety_io \<Rightarrow> transition \<Rightarrow> string option \<Rightarrow> string \<Rightarrow> envelope \<Rightarrow> string \<Rightarrow> safety_db
    \<Rightarrow> unit result \<times> safety_db" where
  "commit_minimal_remediation S io t actor reference old old_digest d =
     (let b = en_body old; c = tr_component t in
      if fr_state (active_record b c) \<noteq> Ready then (Inr (), d)
      else case canonical_json_bytes (nfc (sv_primitives S)) (remediation_json b c old_digest actor) of
        Inl e \<Rightarrow> (Inl e, d)
      | Inr event \<Rightarrow>
          commit_transition S (t\<lparr>tr_kind := ''block_remediation'', tr_snapshot := None,
                                 tr_supersession := False\<rparr>)
            actor reference old old_digest (remediated_body b c reference)
            (sv_sha256_hex S (''paraworks:provider-safety-db-only-remediation:v1'' @ [CHR 0x00] @ event))
            (stamp_values t (io_now io)) (io_commit io) d)"

section \<open>The mutation\<close>

record prepared_mutation =
  pm_old :: envelope
  pm_old_digest :: string
  pm_reference :: string
  pm_actor :: "string option"
  pm_new :: envelope

text \<open>
  \<open>_mutate\<close> up to the replacement of the file. A reviewed command is consumed as soon as the stored
  authority has been read; its payload then supplies the reference, the actor and the expected state.
\<close>

definition finish_preparation ::
  "safety_service \<Rightarrow> safety_io \<Rightarrow> transition \<Rightarrow> envelope \<Rightarrow> string \<Rightarrow> string option \<Rightarrow> string option
    \<Rightarrow> prepared_mutation result" where
  "finish_preparation S io t old old_digest reference actor =
     (let b = en_body old; f = active_record b (tr_component t) in
      case reference of
        None \<Rightarrow> Inl (Safety_Error ''reviewed transition reference is absent'')
      | Some ref \<Rightarrow>
          if fr_state f \<notin> set (tr_allowed t)
          then Inl (Safety_Error ''provider safety transition CAS failed'')
          else then_r (next_body S t ref (io_now io) b) (\<lambda>new_body.
               then_r (wrap_body S new_body (en_key_version old) (en_key_verifier old)) (\<lambda>new.
                 Inr \<lparr>pm_old = old, pm_old_digest = old_digest, pm_reference = ref,
                      pm_actor = actor, pm_new = new\<rparr>)))"

definition prepare_mutation ::
  "safety_service \<Rightarrow> safety_io \<Rightarrow> transition \<Rightarrow> command option \<Rightarrow> safety
    \<Rightarrow> prepared_mutation result \<times> command option" where
  "prepare_mutation S io t cmd w =
     (case then_r (read_latch S (sf_latch w)) (\<lambda>(old, digest).
             then_r (match_db S old digest (sf_db w)) (\<lambda>_. Inr (old, digest))) of
        Inl e \<Rightarrow> (Inl e, cmd)
      | Inr (old, digest) \<Rightarrow>
          (let b = en_body old; c = tr_component t; f = active_record b c;
               reference = (if tr_preserve_reference t then fr_reviewed_reference f else tr_reference t)
           in case cmd of
                None \<Rightarrow> (finish_preparation S io t old digest reference (tr_actor t), None)
              | Some k \<Rightarrow>
                  (case tr_operation t of
                     None \<Rightarrow> (Inl (Safety_Error ''reviewed operation is absent''), cmd)
                   | Some op \<Rightarrow>
                       (case consume_command (sv_primitives S) (sv_secret S) (review_context_from S b c)
                               op (tr_snapshot t) k of
                          (Inl e, k') \<Rightarrow> (Inl e, Some k')
                        | (Inr y, k') \<Rightarrow>
                            (finish_preparation S io t old digest (Some (cy_reference y))
                               (Some (cy_actor y)), Some k')))))"

definition db_transition_failed :: error where
  "db_transition_failed =
     Safety_Error ''external provider transition persisted but DB transition failed''"

text \<open>After the file was replaced: read it back, mirror it, and read both again.\<close>

definition mirror_transition ::
  "safety_service \<Rightarrow> safety_io \<Rightarrow> transition \<Rightarrow> prepared_mutation \<Rightarrow> safety_db \<Rightarrow> unit result \<times> safety_db" where
  "mirror_transition S io t p d =
     (case read_latch S (Latch (pm_new p)) of
        Inl e \<Rightarrow> (Inl e, d)
      | Inr (new, digest) \<Rightarrow>
          (case commit_transition S t (pm_actor p) (pm_reference p) (pm_old p) (pm_old_digest p)
                  (en_body new) digest (stamp_values t (io_now io)) (io_commit io) d of
             (Inl e, d') \<Rightarrow> (Inl db_transition_failed, d')
           | (Inr _, d') \<Rightarrow>
               (case match_db S new digest d' of
                  Inl e \<Rightarrow> (Inl db_transition_failed, d')
                | Inr _ \<Rightarrow> (Inr (), d'))))"

definition apply_mutation ::
  "safety_service \<Rightarrow> safety_io \<Rightarrow> transition \<Rightarrow> prepared_mutation \<Rightarrow> safety \<Rightarrow> unit result \<times> safety" where
  "apply_mutation S io t p w =
     (if io_replace io = Replaced then
        (let (r, d') = mirror_transition S io t p (sf_db w)
         in (r, \<lparr>sf_latch = Latch (pm_new p), sf_db = d'\<rparr>))
      else
        (let latch' = (if io_replace io = Replace_Failed_Before then sf_latch w else Latch (pm_new p));
             (r, d') = (if tr_blocker_category t = None then (Inr (), sf_db w)
                        else commit_minimal_remediation S io t (pm_actor p) (pm_reference p)
                               (pm_old p) (pm_old_digest p) (sf_db w))
         in (then_r r (\<lambda>_. Inl (Safety_Error ''provider safety external transition failed'')),
             \<lparr>sf_latch = latch', sf_db = d'\<rparr>)))"

definition require_optional_hmac :: "string option \<Rightarrow> unit result" where
  "require_optional_hmac h =
     (case h of None \<Rightarrow> Inr () | Some s \<Rightarrow> then_r (require_lower_hmac s ''identity'') (\<lambda>_. Inr ()))"

definition mutate ::
  "safety_service \<Rightarrow> safety_io \<Rightarrow> transition \<Rightarrow> command option \<Rightarrow> safety
    \<Rightarrow> unit result \<times> safety \<times> command option" where
  "mutate S io t cmd w =
     (case then_r (require_optional_hmac (tr_reference t)) (\<lambda>_. require_optional_hmac (tr_actor t)) of
        Inl e \<Rightarrow> (Inl e, w, cmd)
      | Inr _ \<Rightarrow>
          (let failed = Safety_Error ''provider safety transition failed'' in
           case prepare_mutation S io t cmd w of
             (Inl e, cmd') \<Rightarrow> (only_safety_errors failed (Inl e), w, cmd')
           | (Inr p, cmd') \<Rightarrow>
               (let (r, w') = apply_mutation S io t p w in (only_safety_errors failed r, w', cmd'))))"

section \<open>The operations\<close>

definition reviewed_mutation ::
  "safety_service \<Rightarrow> safety_io \<Rightarrow> (component \<Rightarrow> transition) \<Rightarrow> command \<Rightarrow> safety
    \<Rightarrow> unit result \<times> safety \<times> command" where
  "reviewed_mutation S io t cmd w =
     (case bound_component cmd of
        Inl e \<Rightarrow> (Inl e, w, cmd)
      | Inr c \<Rightarrow> (let (r, w', cmd') = mutate S io (t c) (Some cmd) w in (r, w', the cmd')))"

definition mark_rebind_required where
  "mark_rebind_required S io cmd w =
     reviewed_mutation S io (\<lambda>c. (transition_base c ''rebind_required'' Rebind_Required [Ready])
       \<lparr>tr_operation := Some Op_Mark_Rebind\<rparr>) cmd w"

definition reviewed_rebind where
  "reviewed_rebind S io cmd s w =
     reviewed_mutation S io (\<lambda>c. (transition_base c ''rebind'' Ready [Rebind_Required])
       \<lparr>tr_snapshot := Some s, tr_operation := Some Op_Rebind\<rparr>) cmd w"

definition reviewed_reset where
  "reviewed_reset S io cmd w =
     reviewed_mutation S io (\<lambda>c. (transition_base c ''reset'' Ready [Blocked_Overrun, Blocked_Remediation])
       \<lparr>tr_operation := Some Op_Reset\<rparr>) cmd w"

definition reviewed_supersession where
  "reviewed_supersession S io cmd s w =
     reviewed_mutation S io (\<lambda>c. (transition_base c ''supersession'' Ready
         [Ready, Rebind_Required, Blocked_Overrun, Blocked_Remediation])
       \<lparr>tr_snapshot := Some s, tr_supersession := True, tr_operation := Some Op_Supersession\<rparr>) cmd w"

definition block_transition ::
  "component \<Rightarrow> safety_state \<Rightarrow> int \<Rightarrow> int \<Rightarrow> int \<Rightarrow> int \<Rightarrow> string \<Rightarrow> string \<Rightarrow> transition" where
  "block_transition c state run_id inp out cost category reference =
     (transition_base c (if state = Blocked_Overrun then ''block_overrun'' else ''block_remediation'')
        state [Ready])
       \<lparr>tr_run_id := Some run_id, tr_blocker_category := Some category,
        tr_blocker_values := Some (inp, out, cost), tr_actor := Some reference,
        tr_preserve_reference := True\<rparr>"

definition block ::
  "safety_service \<Rightarrow> safety_io \<Rightarrow> component \<Rightarrow> safety_state \<Rightarrow> int \<Rightarrow> int \<Rightarrow> int \<Rightarrow> int \<Rightarrow> string \<Rightarrow> safety
    \<Rightarrow> unit result \<times> safety" where
  "block S io c state run_id inp out cost category w =
     (if run_id \<le> 0 \<or> inp < 0 \<or> out < 0 \<or> cost < 0
      then (Inl (Safety_Error ''provider blocker values are invalid''), w)
      else case incident_reference S c state run_id category of
        Inl e \<Rightarrow> (Inl e, w)
      | Inr reference \<Rightarrow>
          (let (r, w', _) = mutate S io (block_transition c state run_id inp out cost category reference)
                              None w
           in (r, w')))"

definition block_overrun where
  "block_overrun S io c run_id inp out cost w =
     block S io c Blocked_Overrun run_id inp out cost ''provider_usage_overrun'' w"

definition block_remediation where
  "block_remediation S io c category run_id inp out cost w =
     (if category \<notin> set [''provider_response_identity_invalid'', ''provider_embedding_payload_invalid'',
                         ''provider_safety_unavailable'']
      then (Inl (Safety_Error ''provider remediation category is invalid''), w)
      else block S io c Blocked_Remediation run_id inp out cost category w)"

section \<open>Bootstrap\<close>

definition bootstrap_family_ok :: "policy_snapshot \<Rightarrow> bool" where
  "bootstrap_family_ok s =
     (case ps_component s of
        Query_Embedding \<Rightarrow>
          ps_provider s = ''openai'' \<and> ps_model s = ''text-embedding-3-small''
          \<and> ps_reasoning_or_config_identity s = ''dimensions:1536''
          \<and> ps_model_config_version s = ''rag-query-embedding-config:v1''
          \<and> ps_cost_policy_version s = ''rag-query-embedding-cost:v1''
          \<and> ps_token_estimator_version s = ''openai-cl100k-text-embedding-3-small:v1''
      | Answer_Generation \<Rightarrow>
          ps_provider s = ''openai'' \<and> ps_model s = ''gpt-5.4-mini-2026-03-17''
          \<and> ps_reasoning_or_config_identity s = ''reasoning:none''
          \<and> ps_model_config_version s = ''rag-answer-model-config:v1''
          \<and> ps_cost_policy_version s = ''rag-answer-cost:v1''
          \<and> ps_token_estimator_version s = ''openai-o200k-rag-answer:v1'')"

definition validate_snapshots :: "policy_snapshot \<Rightarrow> policy_snapshot \<Rightarrow> unit result" where
  "validate_snapshots q a =
     (if [ps_component q, ps_component a] \<noteq> component_order
      then Inl (Safety_Error ''exactly two ordered provider families are required'')
      else if ps_fingerprint_key_version q \<noteq> ps_fingerprint_key_version a
              \<or> ps_fingerprint_key_material_verifier q \<noteq> ps_fingerprint_key_material_verifier a
      then Inl (Safety_Error ''provider family key authority differs'')
      else if \<not> bootstrap_family_ok q \<or> \<not> bootstrap_family_ok a
      then Inl (Safety_Error ''frozen provider family is invalid'')
      else Inr ())"

text \<open>\<open>attempted\<close> counts the paid components of contract runs that were attempted or dispatched.\<close>

definition db_is_empty_and_unattempted :: "safety_db \<Rightarrow> nat \<Rightarrow> bool" where
  "db_is_empty_and_unattempted d attempted \<longleftrightarrow>
     db_authorities d = [] \<and> db_rows d = [] \<and> db_transitions d = [] \<and> attempted = 0"

definition bootstrap_row :: "int \<Rightarrow> policy_snapshot \<Rightarrow> string \<Rightarrow> readiness_row" where
  "bootstrap_row rid s reference =
     \<lparr>rw_id = rid, rw_authority_id = 1, rw_snapshot = s, rw_active = True, rw_state = Ready,
      rw_state_version = 1, rw_family_generation = 0, rw_reviewed_reference = Some reference,
      rw_overrun = None, rw_reset_by = None\<rparr>"

definition insert_bootstrap_rows ::
  "safety_service \<Rightarrow> envelope \<Rightarrow> string \<Rightarrow> policy_snapshot list \<Rightarrow> string \<Rightarrow> safety_db \<Rightarrow> safety_db" where
  "insert_bootstrap_rows S e digest snapshots reference d =
     \<lparr>db_authorities = db_authorities d @
        [\<lparr>au_id = 1, au_uuid = bd_authority_uuid (en_body e), au_environment = sv_environment S,
          au_generation = 0, au_digest = digest, au_key_version = en_key_version e,
          au_key_verifier = en_key_verifier e\<rparr>],
      db_rows = db_rows d @ map2 (\<lambda>k s. bootstrap_row (db_next_id d + int k) s reference)
                              [0..<length snapshots] snapshots,
      db_transitions = db_transitions d @
        [\<lparr>tn_readiness_id = None, tn_generation = 0, tn_kind = ''bootstrap'', tn_prior_state = None,
          tn_new_state = None, tn_prior_version = None, tn_new_version = None,
          tn_prior_family_generation = None, tn_new_family_generation = None, tn_digest = digest,
          tn_reviewed_reference = reference, tn_actor = None, tn_agent_run_id = None\<rparr>],
      db_next_id = db_next_id d + int (length snapshots)\<rparr>"

definition bootstrap_body ::
  "safety_service \<Rightarrow> string \<Rightarrow> policy_snapshot \<Rightarrow> policy_snapshot \<Rightarrow> string \<Rightarrow> safety_body" where
  "bootstrap_body S uuid q a reference =
     \<lparr>bd_active_query = snapshot_identity q, bd_active_answer = snapshot_identity a,
      bd_authority_uuid = uuid, bd_environment = sv_environment S,
      bd_records = sort_key (identity_key \<circ> fr_identity)
        [fresh_record q 0 reference, fresh_record a 0 reference],
      bd_generation = 0, bd_schema_version = latch_schema_version\<rparr>"

definition already_exists :: error where
  "already_exists = Safety_Error ''provider safety authority already exists''"

text \<open>Insert, commit, and compare what the file and the tables then hold.\<close>

definition mirror_bootstrap ::
  "safety_service \<Rightarrow> safety_io \<Rightarrow> envelope \<Rightarrow> string \<Rightarrow> policy_snapshot list \<Rightarrow> string \<Rightarrow> safety_db
    \<Rightarrow> unit result \<times> safety_db" where
  "mirror_bootstrap S io e digest snapshots reference d =
     (case commit_db (io_commit io) d (insert_bootstrap_rows S e digest snapshots reference d) of
        (Inl x, d') \<Rightarrow> (Inl x, d')
      | (Inr _, d') \<Rightarrow> (match_db S e digest d', d'))"

definition bootstrap ::
  "safety_service \<Rightarrow> safety_io \<Rightarrow> string \<Rightarrow> nat \<Rightarrow> policy_snapshot \<Rightarrow> policy_snapshot \<Rightarrow> string \<Rightarrow> safety
    \<Rightarrow> unit result \<times> safety" where
  "bootstrap S io uuid attempted q a reference w =
     (case then_r (validate_snapshots q a) (\<lambda>_. require_lower_hmac reference ''identity'') of
        Inl e \<Rightarrow> (Inl e, w)
      | Inr _ \<Rightarrow>
          (let failed = Safety_Error ''provider safety database bootstrap failed'' in
           if sf_latch w \<noteq> Latch_Absent \<or> \<not> db_is_empty_and_unattempted (sf_db w) attempted
           then (Inl already_exists, w)
           else case wrap_body S (bootstrap_body S uuid q a reference)
                       (ps_fingerprint_key_version q) (ps_fingerprint_key_material_verifier q) of
             Inl e \<Rightarrow> (only_safety_errors failed (Inl e), w)
           | Inr e \<Rightarrow>
               if io_replace io = Replace_Failed_Before then (Inl failed, w)
               else if io_replace io = Replace_Failed_After then (Inl failed, w\<lparr>sf_latch := Latch e\<rparr>)
               else (case read_latch S (Latch e) of
                       Inl x \<Rightarrow> (only_safety_errors failed (Inl x), w\<lparr>sf_latch := Latch e\<rparr>)
                     | Inr (e', digest) \<Rightarrow>
                         (let (r, d') = mirror_bootstrap S io e' digest [q, a] reference (sf_db w)
                          in (only_safety_errors failed r, \<lparr>sf_latch = Latch e, sf_db = d'\<rparr>)))))"

definition match_external_snapshots ::
  "envelope \<Rightarrow> policy_snapshot \<Rightarrow> policy_snapshot \<Rightarrow> unit result" where
  "match_external_snapshots e q a =
     (if en_key_version e \<noteq> ps_fingerprint_key_version q
         \<or> en_key_verifier e \<noteq> ps_fingerprint_key_material_verifier q
      then Inl (Safety_Error ''provider family key authority differs'')
      else each_r (\<lambda>s.
        if active_identity (en_body e) (ps_component s) \<noteq> snapshot_identity s then Inl rebind_is_required
        else case find_record (snapshot_identity s) (bd_records (en_body e)) of
          None \<Rightarrow> Inl rebind_is_required
        | Some f \<Rightarrow> if fr_policy_hmac f \<noteq> ps_policy_snapshot_hmac s then Inl rebind_is_required
                   else Inr ()) [q, a])"

definition untouched_record :: "family_record \<Rightarrow> bool" where
  "untouched_record f \<longleftrightarrow>
     fr_state f = Ready \<and> fr_state_version f = 1 \<and> fr_family_generation f = 0
     \<and> fr_blocker_run_hmac f = None \<and> fr_blocker_category f = None \<and> fr_blocker_observed_at f = None"

text \<open>
  The inspection \<open>bootstrap_recovery_context\<close> and \<open>recover_partial_bootstrap\<close> share: the eligible
  file-first bootstrap, its digest and its reviewed reference.
\<close>

definition inspect_partial_bootstrap ::
  "safety_service \<Rightarrow> nat \<Rightarrow> policy_snapshot \<Rightarrow> policy_snapshot \<Rightarrow> safety
    \<Rightarrow> (envelope \<times> string \<times> string) result" where
  "inspect_partial_bootstrap S attempted q a w =
     then_r (read_latch S (sf_latch w)) (\<lambda>(e, digest).
     let b = en_body e in
     if bd_generation b \<noteq> 0 \<or> \<not> db_is_empty_and_unattempted (sf_db w) attempted
     then Inl (Safety_Error ''provider safety bootstrap recovery is not eligible'')
     else
     then_r (match_external_snapshots e q a) (\<lambda>_.
     case bd_records b of
       [f, g] \<Rightarrow>
         (case fr_reviewed_reference f of
            Some reference \<Rightarrow>
              if fr_reviewed_reference g = Some reference \<and> untouched_record f \<and> untouched_record g
              then then_r (require_lower_hmac reference ''identity'') (\<lambda>_. Inr (e, digest, reference))
              else Inl (Safety_Error ''provider safety bootstrap recovery shape is invalid'')
          | None \<Rightarrow> Inl (Safety_Error ''provider safety bootstrap recovery shape is invalid''))
     | _ \<Rightarrow> Inl (Safety_Error ''provider safety bootstrap recovery shape is invalid'')))"

definition bootstrap_recovery_context ::
  "safety_service \<Rightarrow> nat \<Rightarrow> policy_snapshot \<Rightarrow> policy_snapshot \<Rightarrow> safety
    \<Rightarrow> (string \<times> string \<times> string \<times> int \<times> string) result" where
  "bootstrap_recovery_context S attempted q a w =
     then_r (validate_snapshots q a) (\<lambda>_.
       only_safety_errors (Safety_Error ''provider safety bootstrap recovery inspection failed'')
         (then_r (inspect_partial_bootstrap S attempted q a w) (\<lambda>(e, digest, reference).
            Inr (bd_authority_uuid (en_body e), bd_environment (en_body e), digest,
                 bd_generation (en_body e), reference))))"

definition recover_partial_bootstrap ::
  "safety_service \<Rightarrow> safety_io \<Rightarrow> nat \<Rightarrow> policy_snapshot \<Rightarrow> policy_snapshot \<Rightarrow> safety
    \<Rightarrow> unit result \<times> safety" where
  "recover_partial_bootstrap S io attempted q a w =
     (case validate_snapshots q a of
        Inl e \<Rightarrow> (Inl e, w)
      | Inr _ \<Rightarrow>
          (let failed = Safety_Error ''provider safety bootstrap recovery failed'' in
           case inspect_partial_bootstrap S attempted q a w of
             Inl e \<Rightarrow> (only_safety_errors failed (Inl e), w)
           | Inr (e, digest, reference) \<Rightarrow>
               (let (r, d') = mirror_bootstrap S io e digest [q, a] reference (sf_db w)
                in (only_safety_errors failed r, w\<lparr>sf_db := d'\<rparr>))))"

end
