(* ===== verification/Safety_Facts.thy ===== *)
theory Safety_Facts
  imports Safety_Transitions
begin

text \<open>
  What the provider-safety latch promises: a call is bound only to an authority that the file and the
  tables agree on, a blocked family stays closed until a reviewed reset or supersession, whatever
  writes fail, and generations only grow.
\<close>

section \<open>Records and reads\<close>

lemma read_latch_Inr:
  "read_latch S l = Inr (e, digest) \<longleftrightarrow>
     l = Latch e \<and> validate_envelope S e = Inr () \<and> file_digest S e = Inr digest"
  by (cases l) (auto simp: read_latch_def)

lemma find_record_identity: "find_record i rs = Some f \<Longrightarrow> fr_identity f = i \<and> f \<in> set rs"
  by (auto simp: find_record_def find_Some_iff)

lemma find_record_None: "find_record i rs = None \<longleftrightarrow> i \<notin> fr_identity ` set rs"
  by (auto simp: find_record_def find_None_iff)

lemma find_record_map:
  assumes "\<And>r. fr_identity (f r) = fr_identity r"
  shows "find_record i (map f rs) = map_option f (find_record i rs)"
  using assms by (induction rs) (auto simp: find_record_def)

lemma find_record_distinct:
  "distinct (map fr_identity rs) \<Longrightarrow> r \<in> set rs \<Longrightarrow> find_record (fr_identity r) rs = Some r"
  by (induction rs) (auto simp: find_record_def)

lemma find_record_replace:
  assumes "\<And>r. fr_identity (f r) = fr_identity r"
  shows "find_record i (replace_record j f rs) =
    (if i = j then map_option f (find_record i rs) else find_record i rs)"
proof -
  have "find_record i (replace_record j f rs)
      = map_option (\<lambda>r. if fr_identity r = j then f r else r) (find_record i rs)"
    unfolding replace_record_def by (rule find_record_map) (simp add: assms)
  then show ?thesis
    by (cases "find_record i rs") (auto dest: find_record_identity)
qed

lemma validate_records_Inr:
  "validate_records S generation seen rs = Inr () \<Longrightarrow>
     distinct (map fr_identity rs) \<and> set (map fr_identity rs) \<inter> set seen = {}"
  by (induction S generation seen rs rule: validate_records.induct) (auto split: if_splits)

lemma validate_envelope_Inr:
  assumes "validate_envelope S e = Inr ()"
  shows "signature S (en_body e) (en_key_version e) (en_key_verifier e) = Inr (en_hmac e)"
    and "distinct (map fr_identity (bd_records (en_body e)))"
    and "fst (active_identity (en_body e) c) = c"
    and "find_record (active_identity (en_body e) c) (bd_records (en_body e))
           = Some (active_record (en_body e) c)"
    and "bd_environment (en_body e) = sv_environment S" and "0 \<le> bd_generation (en_body e)"
proof -
  have r: "validate_records S (bd_generation (en_body e)) [] (bd_records (en_body e)) = Inr ()"
    and a: "each_r (validate_active (en_body e)) component_order = Inr ()"
    and rest: "signature S (en_body e) (en_key_version e) (en_key_verifier e) = Inr (en_hmac e)"
      "bd_environment (en_body e) = sv_environment S" "0 \<le> bd_generation (en_body e)"
    using assms by (auto simp: validate_envelope_def Let_def split: if_splits)
  show "distinct (map fr_identity (bd_records (en_body e)))"
    using validate_records_Inr [OF r] by blast
  have "c \<in> set component_order" by (cases c) (simp_all add: component_order_def)
  then have "validate_active (en_body e) c = Inr ()" using a by simp
  then show "fst (active_identity (en_body e) c) = c"
    and "find_record (active_identity (en_body e) c) (bd_records (en_body e))
           = Some (active_record (en_body e) c)"
    by (auto simp: validate_active_def active_record_def split: if_splits)
qed (use assms in \<open>auto simp: validate_envelope_def Let_def split: if_splits\<close>)

lemma active_record_identity:
  "validate_envelope S e = Inr () \<Longrightarrow> fr_identity (active_record (en_body e) c) = active_identity (en_body e) c"
  using validate_envelope_Inr(4) find_record_identity by blast

lemma match_db_authority:
  "match_db S e digest d = Inr () \<Longrightarrow> \<exists>a. db_authorities d = [a] \<and> authority_matches S e digest a"
  by (auto simp: match_db_def split: list.splits if_splits)

lemma match_rows_Inr:
  "match_rows b seen rs = Inr seen' \<Longrightarrow> list_all (row_matches b) rs
     \<and> seen' = rev (map (\<lambda>r. ps_component (rw_snapshot r)) (filter (row_active_expected b) rs)) @ seen"
  by (induction b seen rs rule: match_rows.induct) (auto simp: Let_def split: if_splits)

lemma match_rows_distinct: "match_rows b seen rs = Inr seen' \<Longrightarrow> distinct seen \<Longrightarrow> distinct seen'"
  by (induction b seen rs rule: match_rows.induct) (auto simp: Let_def split: if_splits)

lemma length_filter_distinct:
  "distinct (map f xs) \<Longrightarrow> y \<in> f ` set xs \<Longrightarrow> length (filter (\<lambda>x. f x = y) xs) = 1"
proof (induction xs)
  case (Cons a xs)
  then show ?case
    by (cases "f a = y") (auto simp: filter_empty_conv image_iff)
qed simp

text \<open>What agreement of the tables with the file comes to.\<close>

lemma match_db_rows:
  assumes "match_db S e digest d = Inr ()"
  shows "length (db_rows d) = length (bd_records (en_body e))"
    and "\<forall>r \<in> set (db_rows d). row_matches (en_body e) r"
    and "\<forall>k. length (filter (\<lambda>r. rw_active r \<and> ps_component (rw_snapshot r) = k) (db_rows d)) = 1"
proof -
  let ?act = "filter (row_active_expected (en_body e)) (db_rows d)"
  obtain seen where m: "match_rows (en_body e) [] (db_rows d) = Inr seen"
    and all: "set seen = set component_order"
    and len: "length (db_rows d) = length (bd_records (en_body e))"
    using assms by (auto simp: match_db_def split: list.splits if_splits)
  show "length (db_rows d) = length (bd_records (en_body e))" by (rule len)
  note rows = match_rows_Inr [OF m] and dist = match_rows_distinct [OF m]
  show matches: "\<forall>r \<in> set (db_rows d). row_matches (en_body e) r"
    using rows by (simp add: list_all_iff)
  have "rw_active r = row_active_expected (en_body e) r" if "r \<in> set (db_rows d)" for r
    using matches that by (auto simp: row_matches_def split: option.splits)
  then have "filter (\<lambda>r. rw_active r \<and> ps_component (rw_snapshot r) = k) (db_rows d)
      = filter (\<lambda>r. ps_component (rw_snapshot r) = k) ?act" for k
    by (simp add: filter_filter cong: filter_cong conj_cong)
  moreover have "length (filter (\<lambda>r. ps_component (rw_snapshot r) = k) ?act) = 1" for k
  proof (rule length_filter_distinct)
    show "distinct (map (\<lambda>r. ps_component (rw_snapshot r)) ?act)" using rows dist by simp
    have "k \<in> set component_order" by (cases k) (simp_all add: component_order_def)
    then have "k \<in> set seen" using all by simp
    then show "k \<in> (\<lambda>r. ps_component (rw_snapshot r)) ` set ?act" using rows by auto
  qed
  ultimately show "\<forall>k. length (filter (\<lambda>r. rw_active r \<and> ps_component (rw_snapshot r) = k) (db_rows d)) = 1"
    by simp
qed

section \<open>Readiness\<close>

lemma bind_family_Inr:
  "bind_family S d e digest c s = Inr x \<Longrightarrow>
     ps_component s = c \<and> snapshot_identity s = fr_identity (active_record (en_body e) c)
     \<and> fr_policy_hmac (active_record (en_body e) c) = ps_policy_snapshot_hmac s
     \<and> fr_state (active_record (en_body e) c) = Ready \<and> match_db S e digest d = Inr ()
     \<and> (\<exists>row. active_row d c = Some row \<and> rw_snapshot row = s)
     \<and> sb_policy_snapshot x = s \<and> sb_envelope_digest x = digest
     \<and> sb_global_safety_generation x = bd_generation (en_body e)
     \<and> sb_family_state_version x = fr_state_version (active_record (en_body e) c)
     \<and> sb_family_safety_generation x = fr_family_generation (active_record (en_body e) c)
     \<and> provider_safety_snapshot_identity (sv_primitives S) (sv_secret S)
          (safety_snapshot_json (en_body e) (active_record (en_body e) c) digest)
         = Inr (sb_provider_safety_snapshot_hmac x)"
  by (auto simp: bind_family_def Let_def split: if_splits option.splits)

lemma only_safety_errors_Inr [simp]: "only_safety_errors other r = Inr x \<longleftrightarrow> r = Inr x"
  by (auto simp: only_safety_errors_def split: sum.splits)

lemma require_ready_Inr:
  "require_ready S w c s = Inr x \<longleftrightarrow>
     (\<exists>e digest. read_latch S (sf_latch w) = Inr (e, digest) \<and> bind_family S (sf_db w) e digest c s = Inr x)"
  by (auto simp: require_ready_def)

definition ready :: "safety_service \<Rightarrow> safety \<Rightarrow> component \<Rightarrow> bool" where
  "ready S w c \<longleftrightarrow> (\<exists>s x. require_ready S w c s = Inr x)"

text \<open>The file says that the active family of the component is not ready.\<close>

definition closed_in_file :: "safety \<Rightarrow> component \<Rightarrow> bool" where
  "closed_in_file w c \<longleftrightarrow>
     (\<exists>e. sf_latch w = Latch e
        \<and> fr_state (active_record (en_body e) c) \<in> {Blocked_Overrun, Blocked_Remediation})"

lemma closed_not_ready: "closed_in_file w c \<Longrightarrow> \<not> ready S w c"
  by (auto simp: closed_in_file_def ready_def require_ready_Inr read_latch_Inr dest!: bind_family_Inr)

text \<open>
  C4. A provider call is bound only to an authority that is authentic and agreed on: the file carries a
  valid signature for this environment, the active family of the component is ready and is exactly
  the family the caller's policy names, and the tables agree with the file. There is one authority row,
  with the identity, the environment, the generation, the digest and the key of the file; there are as
  many readiness rows as the file has records, each row has the policy, the state, the state version, the
  family generation and the reviewed reference of the record of its family and is active exactly if that
  family is the active one of its component; and each component has exactly one active row, the one of
  the caller's policy for the component that is bound.
\<close>

theorem require_ready_authentic:
  assumes "require_ready S w c s = Inr x"
  shows "\<exists>e. sf_latch w = Latch e
    \<and> signature S (en_body e) (en_key_version e) (en_key_verifier e) = Inr (en_hmac e)
    \<and> bd_environment (en_body e) = sv_environment S
    \<and> ps_component s = c \<and> snapshot_identity s = active_identity (en_body e) c
    \<and> fr_state (active_record (en_body e) c) = Ready
    \<and> fr_policy_hmac (active_record (en_body e) c) = ps_policy_snapshot_hmac s
    \<and> file_digest S e = Inr (sb_envelope_digest x)
    \<and> (\<exists>a. db_authorities (sf_db w) = [a] \<and> au_id a = 1
          \<and> au_uuid a = bd_authority_uuid (en_body e) \<and> au_environment a = sv_environment S
          \<and> au_generation a = bd_generation (en_body e) \<and> au_digest a = sb_envelope_digest x
          \<and> au_key_version a = en_key_version e \<and> au_key_verifier a = en_key_verifier e)
    \<and> length (db_rows (sf_db w)) = length (bd_records (en_body e))
    \<and> (\<forall>row \<in> set (db_rows (sf_db w)). \<exists>f \<in> set (bd_records (en_body e)).
          fr_identity f = snapshot_identity (rw_snapshot row) \<and> rw_authority_id row = 1
          \<and> rw_active row
              = (active_identity (en_body e) (ps_component (rw_snapshot row)) = fr_identity f)
          \<and> ps_policy_snapshot_hmac (rw_snapshot row) = fr_policy_hmac f
          \<and> rw_state row = fr_state f \<and> rw_state_version row = fr_state_version f
          \<and> rw_family_generation row = fr_family_generation f
          \<and> rw_reviewed_reference row = fr_reviewed_reference f)
    \<and> (\<forall>k. length (filter (\<lambda>row. rw_active row \<and> ps_component (rw_snapshot row) = k)
                     (db_rows (sf_db w))) = 1)
    \<and> (\<exists>row \<in> set (db_rows (sf_db w)). rw_active row \<and> rw_snapshot row = s)
    \<and> sb_global_safety_generation x = bd_generation (en_body e)"
proof -
  obtain e digest where r: "read_latch S (sf_latch w) = Inr (e, digest)"
    and b: "bind_family S (sf_db w) e digest c s = Inr x"
    using assms by (auto simp: require_ready_Inr)
  note b' = bind_family_Inr [OF b]
  have v: "validate_envelope S e = Inr ()" and l: "sf_latch w = Latch e"
    and fd: "file_digest S e = Inr digest"
    using r by (auto simp: read_latch_Inr)
  have m: "match_db S e digest (sf_db w) = Inr ()" and dig: "sb_envelope_digest x = digest"
    using b' by simp_all
  have rows: "\<forall>row \<in> set (db_rows (sf_db w)). \<exists>f \<in> set (bd_records (en_body e)).
      fr_identity f = snapshot_identity (rw_snapshot row) \<and> rw_authority_id row = 1
      \<and> rw_active row = (active_identity (en_body e) (ps_component (rw_snapshot row)) = fr_identity f)
      \<and> ps_policy_snapshot_hmac (rw_snapshot row) = fr_policy_hmac f
      \<and> rw_state row = fr_state f \<and> rw_state_version row = fr_state_version f
      \<and> rw_family_generation row = fr_family_generation f
      \<and> rw_reviewed_reference row = fr_reviewed_reference f"
    using match_db_rows(2) [OF m]
    by (fastforce simp: row_matches_def row_active_expected_def split: option.splits
        dest: find_record_identity)
  have "\<exists>row \<in> set (db_rows (sf_db w)). rw_active row \<and> rw_snapshot row = s"
    using b' by (auto simp: active_row_def find_Some_iff)
  then show ?thesis
    using b' l fd dig validate_envelope_Inr(1,5) [OF v] active_record_identity [OF v]
      match_db_authority [OF m] match_db_rows(1,3) [OF m] rows
    by (intro exI [of _ e]) (simp add: authority_matches_def)
qed

section \<open>The mutation\<close>

lemma changed_record_identity [simp]: "fr_identity (changed_record t g ref h now r) = fr_identity r"
  by (auto simp: changed_record_def Let_def split: option.splits)

lemma changed_record_state [simp]: "fr_state (changed_record t g ref h now r) = tr_new_state t"
  by (auto simp: changed_record_def Let_def split: option.splits)

lemma active_set_active:
  "active_identity (set_active b c i) c' = (if c' = c then i else active_identity b c')"
  "bd_records (set_active b c i) = bd_records b"
  "bd_generation (set_active b c i) = bd_generation b"
  by (cases c; cases c'; simp add: set_active_def active_identity_def)+

lemma active_identity_update [simp]:
  "active_identity (b\<lparr>bd_records := rs, bd_generation := g\<rparr>) c = active_identity b c"
  by (cases c) (simp_all add: active_identity_def)

lemma find_record_sorted:
  assumes "distinct (map fr_identity rs)"
  shows "find_record i (sort_key k rs) = find_record i rs"
proof (cases "find_record i rs")
  case None
  moreover from None have "find_record i (sort_key k rs) = None" by (simp add: find_record_None)
  ultimately show ?thesis by simp
next
  case (Some r)
  have "distinct (map fr_identity (sort_key k rs))"
    using assms by (metis distinct_map distinct_sort set_sort)
  then show ?thesis
    using Some find_record_identity [OF Some] find_record_distinct [of "sort_key k rs" r] by simp
qed

lemma find_record_append_other: "fr_identity r \<noteq> i \<Longrightarrow> find_record i (rs @ [r]) = find_record i rs"
  by (induction rs) (auto simp: find_record_def)

text \<open>What the next body holds: a new state for the active family, or a new active family.\<close>

lemma next_body_change:
  assumes "next_body S t ref now b = Inr b'" and "\<not> tr_supersession t"
  obtains h where "b' = b\<lparr>bd_records := replace_record (active_identity b (tr_component t))
        (changed_record t (bd_generation b + 1) ref h now) (bd_records b),
      bd_generation := bd_generation b + 1\<rparr>"
  using assms by (auto simp: next_body_def Let_def split: if_splits)

lemma next_body_state:
  assumes "next_body S t ref now b = Inr b'" and "distinct (map fr_identity (bd_records b))"
    and "find_record (active_identity b (tr_component t)) (bd_records b)
           = Some (active_record b (tr_component t))"
  shows "bd_generation b' = bd_generation b + 1"
    and "\<not> tr_supersession t \<Longrightarrow> fr_state (active_record b' (tr_component t)) = tr_new_state t"
    and "c \<noteq> tr_component t \<Longrightarrow> fst (active_identity b c) = c
      \<Longrightarrow> fst (active_identity b (tr_component t)) = tr_component t
      \<Longrightarrow> active_identity b' c = active_identity b c \<and> active_record b' c = active_record b c"
proof -
  show "bd_generation b' = bd_generation b + 1"
    using assms(1) by (auto simp: next_body_def Let_def split: if_splits option.splits)
  show "fr_state (active_record b' (tr_component t)) = tr_new_state t" if ns: "\<not> tr_supersession t"
  proof -
    obtain h where b': "b' = b\<lparr>bd_records := replace_record (active_identity b (tr_component t))
        (changed_record t (bd_generation b + 1) ref h now) (bd_records b),
      bd_generation := bd_generation b + 1\<rparr>"
      using assms(1) ns by (rule next_body_change)
    have "find_record (active_identity b (tr_component t)) (bd_records b') = Some
        (changed_record t (bd_generation b + 1) ref h now (active_record b (tr_component t)))"
      using assms(3) by (simp add: b' find_record_replace)
    moreover have "active_identity b' (tr_component t) = active_identity b (tr_component t)"
      by (simp add: b')
    ultimately show ?thesis by (simp add: active_record_def [of b' "tr_component t"])
  qed
  assume c: "c \<noteq> tr_component t" "fst (active_identity b c) = c"
    "fst (active_identity b (tr_component t)) = tr_component t"
  show "active_identity b' c = active_identity b c \<and> active_record b' c = active_record b c"
  proof (cases "tr_supersession t")
    case False
    obtain h where b': "b' = b\<lparr>bd_records := replace_record (active_identity b (tr_component t))
        (changed_record t (bd_generation b + 1) ref h now) (bd_records b),
      bd_generation := bd_generation b + 1\<rparr>"
      using assms(1) False by (rule next_body_change)
    have "active_identity b c \<noteq> active_identity b (tr_component t)" using c by metis
    then show ?thesis by (simp add: b' active_record_def find_record_replace)
  next
    case True
    obtain s where s: "tr_snapshot t = Some s" "ps_component s = tr_component t"
      "find_record (snapshot_identity s) (bd_records b) = None"
      and b': "b' = set_active b (tr_component t) (snapshot_identity s)
        \<lparr>bd_records := sort_key (identity_key \<circ> fr_identity)
           (bd_records b @ [fresh_record s (bd_generation b + 1) ref]),
         bd_generation := bd_generation b + 1\<rparr>"
      using assms(1) True by (auto simp: next_body_def Let_def split: if_splits option.splits)
    have d: "distinct (map fr_identity (bd_records b @ [fresh_record s (bd_generation b + 1) ref]))"
      using assms(2) s(3) by (auto simp: find_record_None fresh_record_def)
    have "fst (snapshot_identity s) = tr_component t" using s(2) by (simp add: snapshot_identity_def)
    then have "snapshot_identity s \<noteq> active_identity b c" using c(1,2) by metis
    then have "find_record (active_identity b c) (bd_records b @ [fresh_record s (bd_generation b + 1) ref])
        = find_record (active_identity b c) (bd_records b)"
      by (intro find_record_append_other) (simp add: fresh_record_def)
    then show ?thesis
      unfolding b' using c(1)
      by (simp add: active_record_def active_set_active find_record_sorted [OF d])
  qed
qed

lemma finish_preparation_Inr:
  "finish_preparation S io t old digest reference actor = Inr p \<Longrightarrow>
     pm_old p = old \<and> pm_old_digest p = digest \<and> reference = Some (pm_reference p)
     \<and> fr_state (active_record (en_body old) (tr_component t)) \<in> set (tr_allowed t)
     \<and> next_body S t (pm_reference p) (io_now io) (en_body old) = Inr (en_body (pm_new p))
     \<and> en_key_version (pm_new p) = en_key_version old \<and> en_key_verifier (pm_new p) = en_key_verifier old
     \<and> wrap_body S (en_body (pm_new p)) (en_key_version old) (en_key_verifier old) = Inr (pm_new p)"
  by (auto simp: finish_preparation_def wrap_body_def Let_def split: option.splits if_splits)

lemma prepare_mutation_Inr:
  assumes "prepare_mutation S io t cmd w = (Inr p, cmd')"
  shows "sf_latch w = Latch (pm_old p)" and "validate_envelope S (pm_old p) = Inr ()"
    and "match_db S (pm_old p) (pm_old_digest p) (sf_db w) = Inr ()"
    and "fr_state (active_record (en_body (pm_old p)) (tr_component t)) \<in> set (tr_allowed t)"
    and "next_body S t (pm_reference p) (io_now io) (en_body (pm_old p)) = Inr (en_body (pm_new p))"
proof -
  obtain old digest where old: "read_latch S (sf_latch w) = Inr (old, digest)"
    "match_db S old digest (sf_db w) = Inr ()"
    using assms
    by (auto simp: prepare_mutation_def split: sum.splits prod.splits)
  obtain reference actor where "finish_preparation S io t old digest reference actor = Inr p"
    using assms old
    by (auto simp: prepare_mutation_def Let_def split: sum.splits prod.splits option.splits)
  note f = finish_preparation_Inr [OF this]
  show "sf_latch w = Latch (pm_old p)" "validate_envelope S (pm_old p) = Inr ()"
    "match_db S (pm_old p) (pm_old_digest p) (sf_db w) = Inr ()"
    "fr_state (active_record (en_body (pm_old p)) (tr_component t)) \<in> set (tr_allowed t)"
    "next_body S t (pm_reference p) (io_now io) (en_body (pm_old p)) = Inr (en_body (pm_new p))"
    using f old by (auto simp: read_latch_Inr)
qed

lemma pending_authority:
  assumes "pending_transition S t actor ref old digest new_body new_digest observed d = Inr d'"
  shows "\<exists>a. db_authorities d' = [a] \<and> au_generation a = bd_generation new_body \<and> au_digest a = new_digest"
proof -
  have "match_db S old digest d = Inr ()"
    using assms by (auto simp: pending_transition_def Let_def)
  then obtain a where a: "db_authorities d = [a]" "authority_matches S old digest a"
    using match_db_authority by blast
  then show ?thesis
    using assms
    by (auto simp: pending_transition_def Let_def update_authority_def authority_matches_def
        split: option.splits if_splits)
qed

lemma commit_db_cases: "commit_db co stored pending = (r, d) \<Longrightarrow> d = stored \<or> d = pending"
  by (auto simp: commit_db_def split: commit_outcome.splits)

lemma remediation_cases:
  assumes "commit_minimal_remediation S io t actor ref old digest d = (r, d')"
  shows "d' = d \<or> (\<exists>a. db_authorities d' = [a] \<and> au_generation a = bd_generation (en_body old) + 1)"
proof -
  have g: "bd_generation (remediated_body (en_body old) (tr_component t) ref) = bd_generation (en_body old) + 1"
    by (simp add: remediated_body_def Let_def)
  show ?thesis
  proof (cases "fr_state (active_record (en_body old) (tr_component t)) \<noteq> Ready")
    case True
    then show ?thesis using assms by (simp add: commit_minimal_remediation_def Let_def)
  next
    case ready: False
    let ?j = "remediation_json (en_body old) (tr_component t) digest actor"
    show ?thesis
    proof (cases "canonical_json_bytes (nfc (sv_primitives S)) ?j")
      case (Inl e)
      then show ?thesis using assms ready by (simp add: commit_minimal_remediation_def Let_def)
    next
      case (Inr event)
      then obtain t' digest' observed where
        c: "commit_transition S t' actor ref old digest
              (remediated_body (en_body old) (tr_component t) ref) digest' observed (io_commit io) d = (r, d')"
        using assms ready by (simp add: commit_minimal_remediation_def Let_def)
      show ?thesis
      proof (cases "pending_transition S t' actor ref old digest
          (remediated_body (en_body old) (tr_component t) ref) digest' observed d")
        case (Inl e)
        then show ?thesis using c by (simp add: commit_transition_def)
      next
        case p: (Inr pending)
        then have "commit_db (io_commit io) d pending = (r, d')" using c by (simp add: commit_transition_def)
        then show ?thesis using commit_db_cases pending_authority [OF p] g by metis
      qed
    qed
  qed
qed

text \<open>
  The two ways a mutation changes the state: the file is the new one, or only the database moved on,
  which the file then contradicts.
\<close>

lemma apply_mutation_cases:
  assumes "apply_mutation S io t p w = (r, w')" and "sf_latch w = Latch (pm_old p)"
  shows "sf_latch w' = Latch (pm_new p) \<or> w' = w
    \<or> (sf_latch w' = Latch (pm_old p)
       \<and> (\<exists>a. db_authorities (sf_db w') = [a] \<and> au_generation a = bd_generation (en_body (pm_old p)) + 1))"
proof (cases "io_replace io = Replace_Failed_Before \<and> tr_blocker_category t \<noteq> None")
  case True
  obtain d r0 where d: "commit_minimal_remediation S io t (pm_actor p) (pm_reference p) (pm_old p)
      (pm_old_digest p) (sf_db w) = (r0, d)"
    by fastforce
  have "w' = \<lparr>sf_latch = sf_latch w, sf_db = d\<rparr>"
    using assms(1) True d by (auto simp: apply_mutation_def)
  then show ?thesis using remediation_cases [OF d] assms(2) by (cases w) auto
next
  case False
  then show ?thesis
    using assms by (cases "io_replace io") (auto simp: apply_mutation_def split: prod.splits)
qed

lemma mutate_cases:
  assumes "mutate S io t cmd w = (r, w', cmd')"
  shows "w' = w \<or> (\<exists>p r0 c0. prepare_mutation S io t cmd w = (Inr p, c0) \<and> apply_mutation S io t p w = (r0, w')
           \<and> (r = Inr () \<longrightarrow> r0 = Inr ()))"
proof (cases "then_r (require_optional_hmac (tr_reference t)) (\<lambda>_. require_optional_hmac (tr_actor t))")
  case (Inl e)
  then show ?thesis using assms by (simp add: mutate_def)
next
  case (Inr u)
  then show ?thesis
    using assms by (auto simp: mutate_def Let_def split: prod.splits sum.splits)
qed

lemma mutate_error_keeps:
  assumes "mutate S io t cmd w = (r, w', cmd')" and "r = Inr ()"
  shows "\<exists>p :: prepared_mutation. sf_latch w = Latch (pm_old p) \<and> sf_latch w' = Latch (pm_new p)
    \<and> validate_envelope S (pm_old p) = Inr ()
    \<and> next_body S t (pm_reference p) (io_now io) (en_body (pm_old p)) = Inr (en_body (pm_new p))
    \<and> match_db S (pm_new p) (projr (file_digest S (pm_new p))) (sf_db w') = Inr ()
    \<and> validate_envelope S (pm_new p) = Inr ()"
proof -
  obtain p c0 where p: "prepare_mutation S io t cmd w = (Inr p, c0)"
    and a: "apply_mutation S io t p w = (Inr (), w')"
    using assms by (auto simp: mutate_def Let_def split: prod.splits sum.splits)
  have "io_replace io = Replaced"
    using a by (auto simp: apply_mutation_def split: if_splits prod.splits)
  then have m: "mirror_transition S io t p (sf_db w) = (Inr (), sf_db w')"
    and l: "sf_latch w' = Latch (pm_new p)"
    using a by (auto simp: apply_mutation_def split: prod.splits)
  obtain new digest where new: "read_latch S (Latch (pm_new p)) = Inr (new, digest)"
    using m by (cases "read_latch S (Latch (pm_new p))") (auto simp: mirror_transition_def)
  have "match_db S new digest (sf_db w') = Inr ()"
    using m new by (auto simp: mirror_transition_def split: sum.splits prod.splits)
  then show ?thesis
    using prepare_mutation_Inr [OF p] l new by (intro exI [of _ p]) (auto simp: read_latch_Inr)
qed

text \<open>What a mutation of component \<open>c\<close> leaves of a state that the file closes, for it and for the other.\<close>

lemma mutate_closed:
  assumes m: "mutate S io t cmd w = (r, w', cmd')" and closed: "closed_in_file w c"
    and only: "c = tr_component t \<longrightarrow> set (tr_allowed t) \<inter> {Blocked_Overrun, Blocked_Remediation} = {}"
  shows "closed_in_file w' c"
proof -
  obtain e where e: "sf_latch w = Latch e"
    and st: "fr_state (active_record (en_body e) c) \<in> {Blocked_Overrun, Blocked_Remediation}"
    using closed by (auto simp: closed_in_file_def)
  show ?thesis
    using mutate_cases [OF m]
  proof
    assume "w' = w"
    then show ?thesis using closed by simp
  next
    assume "\<exists>p r0 c0. prepare_mutation S io t cmd w = (Inr p, c0) \<and> apply_mutation S io t p w = (r0, w')
      \<and> (r = Inr () \<longrightarrow> r0 = Inr ())"
    then obtain p r0 c0 where p: "prepare_mutation S io t cmd w = (Inr p, c0)"
      and a: "apply_mutation S io t p w = (r0, w')" by blast
    note pm = prepare_mutation_Inr [OF p]
    have old: "pm_old p = e" using pm(1) e by simp
    have ne: "c \<noteq> tr_component t" using only st pm(4) old by auto
    note v = validate_envelope_Inr [OF pm(2)]
    have "active_record (en_body (pm_new p)) c = active_record (en_body e) c"
      using next_body_state(3) [OF pm(5) v(2) v(4) ne v(3) v(3)] old by blast
    then show ?thesis
      using apply_mutation_cases [OF a pm(1)] closed st old by (auto simp: closed_in_file_def)
  qed
qed

section \<open>The latch as a transition system\<close>

text \<open>
  Every operation of the service, under every outcome of its writes. A reviewed reset or supersession
  is a step only for the components of \<open>R\<close>.
\<close>

inductive safety_step :: "safety_service \<Rightarrow> component set \<Rightarrow> safety \<Rightarrow> safety \<Rightarrow> bool" for S R where
  step_overrun: "block_overrun S io c run_id inp out cost w = (r, w') \<Longrightarrow> safety_step S R w w'"
| step_remediation:
    "block_remediation S io c category run_id inp out cost w = (r, w') \<Longrightarrow> safety_step S R w w'"
| step_mark: "mark_rebind_required S io cmd w = (r, w', cmd') \<Longrightarrow> safety_step S R w w'"
| step_rebind: "reviewed_rebind S io cmd s w = (r, w', cmd') \<Longrightarrow> safety_step S R w w'"
| step_reset: "reviewed_reset S io cmd w = (r, w', cmd') \<Longrightarrow> rc_component (cy_context (cm_payload cmd)) \<in> R
    \<Longrightarrow> safety_step S R w w'"
| step_supersession: "reviewed_supersession S io cmd s w = (r, w', cmd')
    \<Longrightarrow> rc_component (cy_context (cm_payload cmd)) \<in> R \<Longrightarrow> safety_step S R w w'"
| step_bootstrap: "bootstrap S io uuid attempted q a reference w = (r, w') \<Longrightarrow> safety_step S R w w'"
| step_recover: "recover_partial_bootstrap S io attempted q a w = (r, w') \<Longrightarrow> safety_step S R w w'"

text \<open>The file and the authority row name different generations: nothing can be bound or changed.\<close>

definition drifted :: "safety \<Rightarrow> bool" where
  "drifted w \<longleftrightarrow> (\<exists>e a. sf_latch w = Latch e \<and> db_authorities (sf_db w) = [a]
     \<and> au_generation a \<noteq> bd_generation (en_body e))"

definition shut :: "safety \<Rightarrow> component \<Rightarrow> bool" where
  "shut w c \<longleftrightarrow> closed_in_file w c \<or> drifted w"

lemma drifted_no_match: "drifted w \<Longrightarrow> sf_latch w = Latch e \<Longrightarrow> match_db S e digest (sf_db w) \<noteq> Inr ()"
  by (auto simp: drifted_def authority_matches_def dest!: match_db_authority)

lemma drifted_not_ready: "drifted w \<Longrightarrow> \<not> ready S w c"
  by (auto simp: ready_def require_ready_Inr read_latch_Inr drifted_no_match dest!: bind_family_Inr)

lemma shut_not_ready: "shut w c \<Longrightarrow> \<not> ready S w c"
  unfolding shut_def using closed_not_ready drifted_not_ready by blast

text \<open>A block that reports success or changes anything leaves its component shut.\<close>

lemma block_shuts:
  assumes "block S io c state run_id inp out cost category w = (r, w')"
    and "state \<in> {Blocked_Overrun, Blocked_Remediation}"
    and "r = Inr () \<or> w' \<noteq> w"
  shows "shut w' c"
proof -
  obtain reference where m: "\<exists>cmd'. mutate S io
      (block_transition c state run_id inp out cost category reference) None w = (r, w', cmd')"
    using assms(1,3) by (auto simp: block_def split: if_splits sum.splits prod.splits)
  let ?t = "block_transition c state run_id inp out cost category reference"
  have t: "tr_component ?t = c" "tr_new_state ?t = state" "\<not> tr_supersession ?t"
    by (simp_all add: block_transition_def transition_base_def)
  obtain cmd' where m: "mutate S io ?t None w = (r, w', cmd')" using m by blast
  consider "w' = w" "r = Inr ()" | p r0 c0 where "prepare_mutation S io ?t None w = (Inr p, c0)"
    "apply_mutation S io ?t p w = (r0, w')" "r = Inr () \<longrightarrow> r0 = Inr ()"
    using mutate_cases [OF m] assms(3) by blast
  then show ?thesis
  proof cases
    case 1
    obtain p :: prepared_mutation where "sf_latch w = Latch (pm_old p)" "sf_latch w' = Latch (pm_new p)"
      and v: "validate_envelope S (pm_old p) = Inr ()"
      and n: "next_body S ?t (pm_reference p) (io_now io) (en_body (pm_old p)) = Inr (en_body (pm_new p))"
      using mutate_error_keeps [OF m 1(2)] by blast
    then show ?thesis
      using next_body_state(2) [OF n validate_envelope_Inr(2) [OF v] validate_envelope_Inr(4) [OF v] t(3)]
        assms(2) t by (auto simp: shut_def closed_in_file_def)
  next
    case 2
    note pm = prepare_mutation_Inr [OF 2(1)]
    note v = validate_envelope_Inr [OF pm(2)]
    have st: "fr_state (active_record (en_body (pm_new p)) c) = state"
      using next_body_state(2) [OF pm(5) v(2) v(4) t(3)] t by simp
    consider "sf_latch w' = Latch (pm_new p)" | "w' = w"
      | "sf_latch w' = Latch (pm_old p)" "\<exists>a. db_authorities (sf_db w') = [a]
          \<and> au_generation a = bd_generation (en_body (pm_old p)) + 1"
      using apply_mutation_cases [OF 2(2) pm(1)] by blast
    then show ?thesis
    proof cases
      case 1
      then show ?thesis using st assms(2) by (auto simp: shut_def closed_in_file_def)
    next
      case w: 2
      then have "r = Inr ()" using assms(3) by blast
      then have "sf_latch w' = Latch (pm_new p)"
        using 2(2,3) by (auto simp: apply_mutation_def split: if_splits prod.splits)
      then show ?thesis using st assms(2) by (auto simp: shut_def closed_in_file_def)
    next
      case 3
      then show ?thesis
        by (auto simp: shut_def drifted_def)
    qed
  qed
qed

lemma mutate_drifted:
  assumes "mutate S io t cmd w = (r, w', cmd')" and "drifted w"
  shows "w' = w"
  using mutate_cases [OF assms(1)] prepare_mutation_Inr(1,3) drifted_no_match [OF assms(2)] by metis

lemma mutate_shut:
  assumes "mutate S io t cmd w = (r, w', cmd')" and "shut w c"
    and "c = tr_component t \<longrightarrow> set (tr_allowed t) \<inter> {Blocked_Overrun, Blocked_Remediation} = {}"
  shows "shut w' c"
  using assms mutate_drifted mutate_closed unfolding shut_def by metis

lemma reviewed_mutation_shut:
  assumes "reviewed_mutation S io t cmd w = (r, w', cmd')" and "shut w c"
    and "\<And>d. tr_component (t d) = d"
    and "c = rc_component (cy_context (cm_payload cmd))
           \<longrightarrow> set (tr_allowed (t c)) \<inter> {Blocked_Overrun, Blocked_Remediation} = {}"
  shows "shut w' c"
proof (cases "bound_component cmd")
  case (Inl e)
  then show ?thesis using assms by (simp add: reviewed_mutation_def)
next
  case (Inr d)
  then have d: "d = rc_component (cy_context (cm_payload cmd))"
    by (auto simp: bound_component_def split: if_splits)
  obtain k where "mutate S io (t d) (Some cmd) w = (r, w', k)"
    using assms(1) Inr by (auto simp: reviewed_mutation_def split: prod.splits)
  then show ?thesis using assms(2-4) d mutate_shut by metis
qed

lemma block_shut:
  assumes "block S io c' state run_id inp out cost category w = (r, w')" and "shut w c"
  shows "shut w' c"
proof (cases "run_id \<le> 0 \<or> inp < 0 \<or> out < 0 \<or> cost < 0")
  case True
  then show ?thesis using assms by (auto simp: block_def)
next
  case False
  show ?thesis
  proof (cases "incident_reference S c' state run_id category")
    case (Inl e)
    then show ?thesis using assms False by (simp add: block_def)
  next
    case (Inr ref)
    let ?t = "block_transition c' state run_id inp out cost category ref"
    obtain k where m: "mutate S io ?t None w = (r, w', k)"
      using assms(1) False Inr by (auto simp: block_def split: prod.splits)
    have "tr_component ?t = c'" "tr_allowed ?t = [Ready]"
      by (simp_all add: block_transition_def transition_base_def)
    then show ?thesis by (intro mutate_shut [OF m assms(2)]) auto
  qed
qed

lemma bootstrap_cases:
  assumes "bootstrap S io uuid attempted q a reference w = (r, w')"
  shows "w' = w \<or> (sf_latch w = Latch_Absent \<and> (\<exists>e. sf_latch w' = Latch e \<and> bd_generation (en_body e) = 0))"
proof (cases "then_r (validate_snapshots q a) (\<lambda>_. require_lower_hmac reference ''identity'')")
  case (Inl e)
  then show ?thesis using assms by (simp add: bootstrap_def)
next
  case v: (Inr u)
  show ?thesis
  proof (cases "wrap_body S (bootstrap_body S uuid q a reference)
      (ps_fingerprint_key_version q) (ps_fingerprint_key_material_verifier q)")
    case (Inl e)
    then show ?thesis using assms v by (auto simp: bootstrap_def Let_def split: if_splits)
  next
    case (Inr e)
    then have "bd_generation (en_body e) = 0" by (auto simp: wrap_body_def bootstrap_body_def)
    then show ?thesis
      using assms v Inr by (auto simp: bootstrap_def Let_def split: if_splits sum.splits prod.splits)
  qed
qed

lemma recover_cases:
  assumes "recover_partial_bootstrap S io attempted q a w = (r, w')"
  shows "w' = w \<or> (sf_latch w' = sf_latch w \<and> db_authorities (sf_db w) = [])"
proof (cases "inspect_partial_bootstrap S attempted q a w")
  case (Inl e)
  then show ?thesis using assms by (auto simp: recover_partial_bootstrap_def Let_def split: sum.splits)
next
  case (Inr x)
  then have "db_authorities (sf_db w) = []"
    by (auto simp: inspect_partial_bootstrap_def Let_def db_is_empty_and_unattempted_def split: if_splits)
  then show ?thesis
    using assms Inr
    by (auto simp: recover_partial_bootstrap_def Let_def split: sum.splits prod.splits)
qed

lemma shut_step:
  assumes "safety_step S (- {c}) w w'" and "shut w c"
  shows "shut w' c"
  using assms
proof (induction rule: safety_step.induct)
  case (step_bootstrap io uuid attempted q a reference w r w')
  then show ?case using bootstrap_cases [OF step_bootstrap.hyps]
    by (auto simp: shut_def closed_in_file_def drifted_def)
next
  case (step_recover io attempted q a w r w')
  then show ?case using recover_cases [OF step_recover.hyps]
    by (auto simp: shut_def closed_in_file_def drifted_def)
qed (auto simp: block_overrun_def block_remediation_def mark_rebind_required_def reviewed_rebind_def
      reviewed_reset_def reviewed_supersession_def transition_base_def
    split: if_splits elim!: block_shut reviewed_mutation_shut)

interpretation latch: invariant_system "\<lambda>w. shut w c" "safety_step S (- {c})" "\<lambda>w. shut w c" for S c
  by unfold_locales (auto intro: shut_step)

definition file_generation :: "safety \<Rightarrow> int" where
  "file_generation w = (case sf_latch w of Latch e \<Rightarrow> bd_generation (en_body e) | _ \<Rightarrow> - 1)"

definition not_earlier :: "safety \<Rightarrow> safety \<Rightarrow> bool" where
  "not_earlier w w' \<longleftrightarrow> sf_latch w' = sf_latch w \<or> file_generation w < file_generation w'"

lemma mutate_not_earlier:
  assumes "mutate S io t cmd w = (r, w', cmd')"
  shows "not_earlier w w'"
  using mutate_cases [OF assms]
proof
  assume "\<exists>p r0 c0. prepare_mutation S io t cmd w = (Inr p, c0) \<and> apply_mutation S io t p w = (r0, w')
    \<and> (r = Inr () \<longrightarrow> r0 = Inr ())"
  then obtain p r0 c0 where p: "prepare_mutation S io t cmd w = (Inr p, c0)"
    and a: "apply_mutation S io t p w = (r0, w')" by blast
  note pm = prepare_mutation_Inr [OF p] and v = validate_envelope_Inr [OF prepare_mutation_Inr(2) [OF p]]
  have "bd_generation (en_body (pm_new p)) = bd_generation (en_body (pm_old p)) + 1"
    using next_body_state(1) [OF pm(5) v(2) v(4)] .
  then show ?thesis
    using apply_mutation_cases [OF a pm(1)] pm(1) by (auto simp: not_earlier_def file_generation_def)
qed (simp add: not_earlier_def)

lemma reviewed_mutation_not_earlier:
  "reviewed_mutation S io t cmd w = (r, w', cmd') \<Longrightarrow> not_earlier w w'"
  by (auto simp: reviewed_mutation_def not_earlier_def split: sum.splits prod.splits
      dest: mutate_not_earlier [unfolded not_earlier_def])

lemma block_not_earlier:
  "block S io c state run_id inp out cost category w = (r, w') \<Longrightarrow> not_earlier w w'"
  by (auto simp: block_def not_earlier_def split: if_splits sum.splits prod.splits
      dest: mutate_not_earlier [unfolded not_earlier_def])

lemma safety_step_not_earlier: "safety_step S R w w' \<Longrightarrow> not_earlier w w'"
proof (induction rule: safety_step.induct)
  case (step_bootstrap io uuid attempted q a reference w r w')
  then show ?case using bootstrap_cases [OF step_bootstrap.hyps]
    by (auto simp: not_earlier_def file_generation_def)
next
  case (step_recover io attempted q a w r w')
  then show ?case using recover_cases [OF step_recover.hyps] by (auto simp: not_earlier_def)
next
  case (step_remediation io c category run_id inp out cost w r w')
  then show ?case by (auto simp: block_remediation_def not_earlier_def split: if_splits
      dest: block_not_earlier [unfolded not_earlier_def])
qed (auto simp: block_overrun_def mark_rebind_required_def reviewed_rebind_def reviewed_reset_def
      reviewed_supersession_def elim!: block_not_earlier reviewed_mutation_not_earlier)

interpretation generations: ascending_system "\<lambda>_. True" "safety_step S R" "\<lambda>_. True" not_earlier for S R
proof unfold_locales
  show "not_earlier s u" if "not_earlier s t" and "not_earlier t u" for s t u
    using that by (auto simp: not_earlier_def file_generation_def)
qed (simp_all add: not_earlier_def [of s s for s] safety_step_not_earlier)

text \<open>
  C1. A block that returns, or that changes anything, leaves the component closed until it is reviewed.
  Whatever else the file replacement and the commit do, a call of \<open>block_overrun\<close> or
  \<open>block_remediation\<close> that reports success or changes the file or the tables,
  followed by any sequence of operations of the service in which the component is neither reset nor
  superseded by a reviewed command, leaves a state in which the component cannot be bound for dispatch
  under any policy. Left out is only the call that raises and changed nothing, for instance because its
  replacement of the file failed before it took effect: the family is then as it was before the call.
\<close>

theorem blocks_until_reviewed:
  assumes "block_overrun S io c run_id inp out cost w = (r, w')
      \<or> (\<exists>category. block_remediation S io c category run_id inp out cost w = (r, w'))"
    and "r = Inr () \<or> w' \<noteq> w"
    and "(safety_step S (- {c}))\<^sup>*\<^sup>* w' w''"
  shows "\<not> ready S w'' c"
proof -
  obtain state category where "block S io c state run_id inp out cost category w = (r, w')"
    and "state \<in> {Blocked_Overrun, Blocked_Remediation}"
    using assms(1,2) by (auto simp: block_overrun_def block_remediation_def split: if_splits)
  then have "shut w' c" using assms(2) by (rule block_shuts)
  then show ?thesis using latch.inv_steps [OF assms(3)] shut_not_ready by blast
qed

text \<open>
  C2. Revalidation detects every transition: when the binding taken before a provider call is found
  unchanged after it, the authority file is the very one it was taken from, whatever operations ran in
  between.
\<close>

theorem revalidated_binding_unmoved:
  assumes "require_ready S w c s = Inr x" and "(safety_step S UNIV)\<^sup>*\<^sup>* w w'"
    and "revalidate S w' c s (Some x) = Inr y"
  shows "y = x \<and> sf_latch w' = sf_latch w"
proof -
  have y: "y = x" and x: "require_ready S w' c s = Inr x"
    using assms(3) by (auto simp: revalidate_def split: if_splits)
  have "not_earlier w w'" using assms(2) by (rule generations.steps_below) simp
  moreover have "file_generation w = sb_global_safety_generation x"
    and "file_generation w' = sb_global_safety_generation x"
    using assms(1) x by (auto simp: require_ready_Inr read_latch_Inr file_generation_def dest!: bind_family_Inr)
  ultimately show ?thesis using y by (simp add: not_earlier_def)
qed

section \<open>Reviewed commands\<close>

lemma consume_command_Inr:
  assumes "consume_command P secret x op successor k = (Inr y, k')"
  shows "\<not> cm_consumed k \<and> k' = k\<lparr>cm_consumed := True\<rparr> \<and> y = cm_payload k
    \<and> command_hmac P secret (cm_payload k) = Inr (cm_hmac k) \<and> cy_context (cm_payload k) = x
    \<and> cy_operation (cm_payload k) = op \<and> cy_successor (cm_payload k) = successor"
  using assms by (auto simp: consume_command_def split: if_splits)

lemma prepare_mutation_command:
  assumes "prepare_mutation S io t (Some k) w = (Inr p, cmd')"
  shows "\<exists>op. tr_operation t = Some op \<and> \<not> cm_consumed k \<and> cmd' = Some (k\<lparr>cm_consumed := True\<rparr>)
    \<and> cy_operation (cm_payload k) = op \<and> cy_successor (cm_payload k) = tr_snapshot t
    \<and> cy_context (cm_payload k) = review_context_from S (en_body (pm_old p)) (tr_component t)
    \<and> pm_reference p = cy_reference (cm_payload k) \<and> pm_actor p = Some (cy_actor (cm_payload k))"
proof -
  obtain old digest where r: "then_r (read_latch S (sf_latch w)) (\<lambda>(old, digest).
      then_r (match_db S old digest (sf_db w)) (\<lambda>_. Inr (old, digest))) = Inr (old, digest)"
    using assms by (auto simp: prepare_mutation_def split: sum.splits prod.splits)
  obtain op where op: "tr_operation t = Some op"
    using assms r by (cases "tr_operation t") (auto simp: prepare_mutation_def Let_def)
  obtain y k' where c: "consume_command (sv_primitives S) (sv_secret S)
      (review_context_from S (en_body old) (tr_component t)) op (tr_snapshot t) k = (Inr y, k')"
    and f: "finish_preparation S io t old digest (Some (cy_reference y)) (Some (cy_actor y)) = Inr p"
    and k': "cmd' = Some k'"
    using assms r op by (auto simp: prepare_mutation_def Let_def split: sum.splits prod.splits)
  have "pm_old p = old" "pm_reference p = cy_reference y" using finish_preparation_Inr [OF f] by auto
  moreover have "pm_actor p = Some (cy_actor y)"
    using f by (auto simp: finish_preparation_def Let_def split: if_splits)
  ultimately show ?thesis using consume_command_Inr [OF c] op k' by simp
qed

lemma mutate_returns:
  assumes "mutate S io t cmd w = (Inr (), w', cmd')"
  obtains p where "prepare_mutation S io t cmd w = (Inr p, cmd')" and "apply_mutation S io t p w = (Inr (), w')"
  using assms by (auto simp: mutate_def Let_def split: sum.splits prod.splits)

text \<open>
  C3. A reviewed reset takes effect once, and on what was reviewed. When a command issued by the review
  resets a component, the state it finds is exactly the reviewed one (the same generation, state,
  version and family), a historical blocker was acknowledged, and the command is used up: a second
  use of it, in any later state, fails and changes nothing.
\<close>

theorem reviewed_reset_is_exact_and_single_use:
  assumes "issue_command P secret x Op_Reset None actor reference ack = Inr cmd"
    and "reviewed_reset S io cmd w = (Inr (), w', cmd')"
  shows "review_context S w (rc_component x) = Inr x \<and> (rc_historical_blocker x \<longrightarrow> ack)
    \<and> rc_state x \<in> {Blocked_Overrun, Blocked_Remediation}
    \<and> (\<forall>io2 v. fst (reviewed_reset S io2 cmd' v) \<noteq> Inr () \<and> fst (snd (reviewed_reset S io2 cmd' v)) = v)"
proof -
  have x: "cy_context (cm_payload cmd) = x" and ack: "rc_historical_blocker x \<longrightarrow> ack"
    and fresh: "\<not> cm_consumed cmd"
    using assms(1) by (auto simp: issue_command_def Let_def split: if_splits)
  let ?t = "(transition_base (rc_component x) ''reset'' Ready [Blocked_Overrun, Blocked_Remediation])
       \<lparr>tr_operation := Some Op_Reset\<rparr>"
  obtain k where m: "mutate S io ?t (Some cmd) w = (Inr (), w', k)" and k: "cmd' = the k"
    using assms(2) x fresh
    by (auto simp: reviewed_reset_def reviewed_mutation_def bound_component_def split: prod.splits)
  obtain p where p: "prepare_mutation S io ?t (Some cmd) w = (Inr p, k)"
    using m by (rule mutate_returns)
  note c = prepare_mutation_command [OF p]
  have ctx: "x = review_context_from S (en_body (pm_old p)) (rc_component x)"
    using c x by (auto simp: transition_base_def)
  obtain digest where "read_latch S (sf_latch w) = Inr (pm_old p, digest)"
    "match_db S (pm_old p) digest (sf_db w) = Inr ()"
    using p by (auto simp: prepare_mutation_def Let_def split: sum.splits prod.splits option.splits
        dest!: finish_preparation_Inr)
  then have "review_context S w (rc_component x) = Inr x"
    using ctx by (simp add: review_context_def)
  moreover have "rc_state x = fr_state (active_record (en_body (pm_old p)) (rc_component x))"
    by (subst ctx) (simp add: review_context_from_def Let_def)
  then have "rc_state x \<in> {Blocked_Overrun, Blocked_Remediation}"
    using prepare_mutation_Inr(4) [OF p] by (simp add: transition_base_def)
  moreover have "cm_consumed cmd'" using c k by auto
  then have "\<forall>io2 v. fst (reviewed_reset S io2 cmd' v) \<noteq> Inr () \<and> fst (snd (reviewed_reset S io2 cmd' v)) = v"
    by (simp add: reviewed_reset_def reviewed_mutation_def bound_component_def)
  ultimately show ?thesis using ack by blast
qed

end
