(* ===== verification/Safety_Witnesses.thy ===== *)
theory Safety_Witnesses
  imports Safety_Facts Retrieval
begin

text \<open>
  The latch on a concrete authority: two families, both ready, as the bootstrap leaves them, with the
  demonstration signer. The properties of the latch are applied to it.
\<close>

section \<open>A concrete authority\<close>

definition demo_service :: safety_service where
  "demo_service = \<lparr>sv_primitives = demo_primitives, sv_secret = ''secret'', sv_environment = ''local'',
     sv_sha256_hex = (\<lambda>_. demo_digest), sv_uuid_ok = (\<lambda>_. True), sv_time_ok = (\<lambda>_. True)\<rparr>"

definition demo_io :: safety_io where
  "demo_io = \<lparr>io_now = ''2026-01-01T00:00:00+00:00'', io_replace = Replaced, io_commit = Acknowledged\<rparr>"

definition demo_snapshot :: "component \<Rightarrow> policy_snapshot" where
  "demo_snapshot c =
     (case c of
        Query_Embedding \<Rightarrow>
          \<lparr>ps_component = c, ps_provider = ''openai'', ps_model = ''text-embedding-3-small'',
           ps_reasoning_or_config_identity = ''dimensions:1536'',
           ps_model_config_version = ''rag-query-embedding-config:v1'',
           ps_model_config_snapshot_hmac = demo_digest,
           ps_cost_policy_version = ''rag-query-embedding-cost:v1'',
           ps_token_estimator_version = ''openai-cl100k-text-embedding-3-small:v1'',
           ps_fingerprint_key_version = ''v1'', ps_fingerprint_key_material_verifier = demo_digest,
           ps_policy_snapshot_hmac = demo_digest\<rparr>
      | Answer_Generation \<Rightarrow>
          \<lparr>ps_component = c, ps_provider = ''openai'', ps_model = ''gpt-5.4-mini-2026-03-17'',
           ps_reasoning_or_config_identity = ''reasoning:none'',
           ps_model_config_version = ''rag-answer-model-config:v1'',
           ps_model_config_snapshot_hmac = demo_digest,
           ps_cost_policy_version = ''rag-answer-cost:v1'',
           ps_token_estimator_version = ''openai-o200k-rag-answer:v1'',
           ps_fingerprint_key_version = ''v1'', ps_fingerprint_key_material_verifier = demo_digest,
           ps_policy_snapshot_hmac = demo_digest\<rparr>)"

text \<open>The answer family first: the records are in the order of the component names.\<close>

definition demo_family :: "safety_state \<Rightarrow> family_record" where
  "demo_family st = (fresh_record (demo_snapshot Query_Embedding) 0 demo_digest)\<lparr>fr_state := st\<rparr>"

definition demo_body :: "safety_state \<Rightarrow> safety_body" where
  "demo_body st =
     \<lparr>bd_active_query = snapshot_identity (demo_snapshot Query_Embedding),
      bd_active_answer = snapshot_identity (demo_snapshot Answer_Generation),
      bd_authority_uuid = ''uuid'', bd_environment = ''local'',
      bd_records = [fresh_record (demo_snapshot Answer_Generation) 0 demo_digest,
                    demo_family st],
      bd_generation = 0, bd_schema_version = latch_schema_version\<rparr>"

definition demo_envelope :: "safety_state \<Rightarrow> envelope" where
  "demo_envelope st = \<lparr>en_body = demo_body st, en_key_version = ''v1'', en_key_verifier = demo_digest,
     en_hmac = demo_digest\<rparr>"

definition demo_empty :: safety where
  "demo_empty = \<lparr>sf_latch = Latch_Absent,
     sf_db = \<lparr>db_authorities = [], db_rows = [], db_transitions = [], db_next_id = 1\<rparr>\<rparr>"

definition demo_safety :: "safety_state \<Rightarrow> safety" where
  "demo_safety st = \<lparr>sf_latch = Latch (demo_envelope st),
     sf_db = \<lparr>db_authorities = [\<lparr>au_id = 1, au_uuid = ''uuid'', au_environment = ''local'', au_generation = 0,
                  au_digest = demo_digest, au_key_version = ''v1'', au_key_verifier = demo_digest\<rparr>],
              db_rows = [(bootstrap_row 1 (demo_snapshot Query_Embedding) demo_digest)\<lparr>rw_state := st\<rparr>,
                         bootstrap_row 2 (demo_snapshot Answer_Generation) demo_digest],
              db_transitions = [], db_next_id = 3\<rparr>\<rparr>"

section \<open>Its signature\<close>

lemma demo_service_simps [simp]:
  "sv_primitives demo_service = demo_primitives" "sv_secret demo_service = ''secret''"
  "sv_environment demo_service = ''local''" "sv_sha256_hex demo_service = (\<lambda>_. demo_digest)"
  "sv_uuid_ok demo_service = (\<lambda>_. True)" "sv_time_ok demo_service = (\<lambda>_. True)"
  by (simp_all add: demo_service_def)

lemma demo_hmac_identity:
  assumes "sv \<noteq> []" and "plain (hd sv)" and "plain (last sv)" and "pv \<noteq> []" and "plain (hd pv)"
    and "plain (last pv)" and "utf8_valid sv" and "utf8_valid pv" and "json_plain v"
  shows "rag_identity_hmac demo_primitives ''secret'' sv pv v = Inr demo_digest"
  using assms by (simp add: rag_identity_hmac_def demo_keyed)

definition plain_opt :: "string option \<Rightarrow> bool" where
  "plain_opt h = (case h of None \<Rightarrow> True | Some s \<Rightarrow> utf8_valid s)"

definition plain_identity :: "family_identity \<Rightarrow> bool" where
  "plain_identity i = (case i of (_, m, p, r) \<Rightarrow> utf8_valid m \<and> utf8_valid p \<and> utf8_valid r)"

definition plain_record :: "family_record \<Rightarrow> bool" where
  "plain_record r \<longleftrightarrow> plain_identity (fr_identity r) \<and> utf8_valid (fr_policy_hmac r)
     \<and> plain_opt (fr_blocker_run_hmac r) \<and> plain_opt (fr_blocker_category r)
     \<and> plain_opt (fr_blocker_observed_at r) \<and> plain_opt (fr_reviewed_reference r)"

definition plain_body :: "safety_body \<Rightarrow> bool" where
  "plain_body b \<longleftrightarrow> plain_identity (bd_active_query b) \<and> plain_identity (bd_active_answer b)
     \<and> utf8_valid (bd_authority_uuid b) \<and> utf8_valid (bd_environment b) \<and> list_all plain_record (bd_records b)
     \<and> utf8_valid (bd_schema_version b)"

lemma component_name_valid [simp]: "utf8_valid (component_name c)"
  by (cases c) (simp_all add: utf8_valid_ascii)

lemma safety_state_name_valid [simp]: "utf8_valid (safety_state_name s)"
  by (cases s) (simp_all add: utf8_valid_ascii)

lemma plain_json_opt: "plain_opt h \<Longrightarrow> json_plain (json_opt h)"
  by (cases h) (simp_all add: plain_opt_def)

lemma plain_family_json: "plain_record r \<Longrightarrow> json_plain (family_json r)"
  by (cases "fr_identity r")
    (simp add: plain_record_def plain_identity_def family_json_def identity_members_def plain_json_opt
      utf8_valid_ascii)

lemma plain_body_json: "plain_body b \<Longrightarrow> json_plain (body_json b)"
  by (cases "bd_active_query b"; cases "bd_active_answer b")
    (simp add: plain_body_def body_json_def identity_members_def plain_identity_def utf8_valid_ascii
      list_all_iff plain_family_json)

lemma plain_signed_json: "plain_body b \<Longrightarrow> utf8_valid kv \<Longrightarrow> utf8_valid km \<Longrightarrow> json_plain (signed_json b kv km)"
  by (simp add: signed_json_def plain_body_json utf8_valid_ascii)

lemma demo_signature:
  "plain_body b \<Longrightarrow> utf8_valid kv \<Longrightarrow> utf8_valid km \<Longrightarrow> signature demo_service b kv km = Inr demo_digest"
  by (simp add: signature_def demo_hmac_identity plain_signed_json plain_def utf8_valid_ascii)

lemma demo_file_digest:
  assumes "plain_body (en_body e)" and "utf8_valid (en_key_version e)" and "utf8_valid (en_key_verifier e)"
    and "utf8_valid (en_hmac e)"
  shows "file_digest demo_service e = Inr demo_digest"
proof -
  have "json_plain (envelope_json e)"
    using assms by (simp add: envelope_json_def plain_signed_json utf8_valid_ascii)
  then show ?thesis
    by (simp add: file_digest_def canonical_json_bytes_def json_plain_normal(1) json_plain_encodable)
qed

lemma demo_snapshot_simps [simp]:
  "ps_component (demo_snapshot c) = c" "ps_policy_snapshot_hmac (demo_snapshot c) = demo_digest"
  "ps_provider (demo_snapshot c) = ''openai''"
  "ps_fingerprint_key_version (demo_snapshot c) = ''v1''"
  "ps_fingerprint_key_material_verifier (demo_snapshot c) = demo_digest"
  by (cases c; simp add: demo_snapshot_def)+

lemma demo_identities [simp]:
  "snapshot_identity (demo_snapshot Query_Embedding)
     = (Query_Embedding, ''text-embedding-3-small'', ''openai'', ''dimensions:1536'')"
  "snapshot_identity (demo_snapshot Answer_Generation)
     = (Answer_Generation, ''gpt-5.4-mini-2026-03-17'', ''openai'', ''reasoning:none'')"
  by (simp_all add: snapshot_identity_def demo_snapshot_def)

lemma demo_order: "(''answer_generation'' :: string) \<le> ''query_embedding''"
  by code_simp

lemma strip_words [simp]:
  "strip ''text-embedding-3-small'' = ''text-embedding-3-small''" "strip ''openai'' = ''openai''"
  "strip ''dimensions:1536'' = ''dimensions:1536''" "strip ''reasoning:none'' = ''reasoning:none''"
  "strip ''gpt-5.4-mini-2026-03-17'' = ''gpt-5.4-mini-2026-03-17''" "strip ''v1'' = ''v1''"
  by (simp_all add: strip_plain plain_def)

lemmas demo_records = fresh_record_def plain_body_def plain_record_def plain_identity_def plain_opt_def
  utf8_valid_ascii latch_schema_version_def

lemma demo_plain_body: "plain_body (demo_body st)"
  by (simp add: demo_body_def demo_family_def demo_records)

lemma demo_body_simps [simp]:
  "bd_authority_uuid (demo_body st) = ''uuid''" "bd_generation (demo_body st) = 0"
  "bd_environment (demo_body st) = ''local''"
  by (simp_all add: demo_body_def)

lemma demo_envelope_simps [simp]:
  "en_body (demo_envelope st) = demo_body st" "en_key_version (demo_envelope st) = ''v1''"
  "en_key_verifier (demo_envelope st) = demo_digest"
  by (simp_all add: demo_envelope_def)

lemma demo_latch [simp]: "sf_latch (demo_safety st) = Latch (demo_envelope st)"
  by (simp add: demo_safety_def)

lemma demo_envelope_valid: "validate_envelope demo_service (demo_envelope st) = Inr ()"
  using demo_signature [OF demo_plain_body, of "''v1''" demo_digest]
  by (simp add: validate_envelope_def demo_envelope_def utf8_valid_ascii)
    (simp add: demo_body_def demo_family_def fresh_record_def latch_schema_version_def identity_nonblank_def
      validate_blocker_def identity_key_def demo_order component_order_def validate_active_def
      active_identity_def find_record_def less_eq_prod_simp)

lemma demo_read: "read_latch demo_service (Latch (demo_envelope st)) = Inr (demo_envelope st, demo_digest)"
  using demo_plain_body
  by (simp add: read_latch_Inr demo_envelope_valid) (simp add: demo_envelope_def demo_file_digest utf8_valid_ascii)

lemma demo_match: "match_db demo_service (demo_envelope st) demo_digest (sf_db (demo_safety st)) = Inr ()"
  by (simp add: match_db_def demo_safety_def authority_matches_def)
    (simp add: demo_body_def demo_family_def bootstrap_row_def row_matches_def row_active_expected_def
      find_record_def fresh_record_def active_identity_def component_order_def insert_commute,
     rule exI [of _ "[Answer_Generation, Query_Embedding]"], simp)

section \<open>Readiness and blocking\<close>

definition demo_binding :: safety_binding where
  "demo_binding = \<lparr>sb_policy_snapshot = demo_snapshot Query_Embedding, sb_authority_uuid = ''uuid'',
     sb_designated_environment_id = ''local'', sb_envelope_digest = demo_digest,
     sb_fingerprint_key_version = ''v1'', sb_fingerprint_key_material_verifier = demo_digest,
     sb_global_safety_generation = 0, sb_family_state_version = 1, sb_family_safety_generation = 0,
     sb_provider_safety_snapshot_hmac = demo_digest\<rparr>"

lemma demo_active_record: "active_record (demo_body st) Query_Embedding = demo_family st"
  by (simp add: active_record_def demo_body_def active_identity_def find_record_def demo_family_def fresh_record_def)

lemma demo_family_simps [simp]:
  "fr_identity (demo_family st) = (Query_Embedding, ''text-embedding-3-small'', ''openai'', ''dimensions:1536'')"
  "fr_policy_hmac (demo_family st) = demo_digest" "fr_state (demo_family st) = st"
  "fr_state_version (demo_family st) = 1" "fr_family_generation (demo_family st) = 0"
  "fr_reviewed_reference (demo_family st) = Some demo_digest" "fr_blocker_category (demo_family st) = None"
  by (simp_all add: demo_family_def fresh_record_def)

lemma demo_safety_identity:
  "provider_safety_snapshot_identity demo_primitives ''secret''
     (safety_snapshot_json (demo_body st) (demo_family st) demo_digest) = Inr demo_digest"
proof -
  let ?j = "safety_snapshot_json (demo_body st) (demo_family st) demo_digest"
  have "plain_record (demo_family st)" by (simp add: demo_family_def demo_records)
  then have "json_plain ?j" by (simp add: safety_snapshot_json_def plain_family_json utf8_valid_ascii)
  then have "rag_identity_hmac demo_primitives ''secret'' ''rag-provider-safety-snapshot:v1''
      ''rag-provider-safety:v1'' ?j = Inr demo_digest"
    by (simp add: demo_hmac_identity plain_def utf8_valid_ascii)
  moreover have "\<exists>m. require_exact_mapping ?j provider_safety_keys ''provider safety'' = Inr m"
    by (simp add: require_exact_mapping_def safety_snapshot_json_def provider_safety_keys_def insert_commute)
  ultimately show ?thesis by (auto simp: provider_safety_snapshot_identity_def shaped_identity_def)
qed

lemma demo_bind:
  "bind_family demo_service (sf_db (demo_safety Ready)) (demo_envelope Ready) demo_digest Query_Embedding
     (demo_snapshot Query_Embedding) = Inr demo_binding"
proof -
  have "active_row (sf_db (demo_safety Ready)) Query_Embedding
      = Some (bootstrap_row 1 (demo_snapshot Query_Embedding) demo_digest)"
    by (simp add: active_row_def demo_safety_def bootstrap_row_def)
  then show ?thesis
    by (simp add: bind_family_def demo_active_record demo_match demo_safety_identity)
      (simp add: bootstrap_row_def demo_binding_def demo_safety_identity)
qed

lemma demo_ready:
  "require_ready demo_service (demo_safety Ready) Query_Embedding (demo_snapshot Query_Embedding)
    = Inr demo_binding"
  unfolding require_ready_Inr using demo_read demo_bind by auto

theorem require_ready_authentic_witness:
  "fr_state (active_record (demo_body Ready) Query_Embedding) = Ready
   \<and> ps_component (demo_snapshot Query_Embedding) = Query_Embedding"
  using require_ready_authentic [OF demo_ready] by auto

theorem revalidated_binding_unmoved_witness:
  "demo_binding = demo_binding \<and> sf_latch (demo_safety Ready) = sf_latch (demo_safety Ready)"
proof -
  let ?t = "demo_service" and ?w = "demo_safety Ready"
  have "safety_step ?t UNIV ?w ?w"
    by (rule step_overrun [where c = Query_Embedding and run_id = 0 and io = demo_io
          and inp = 0 and out = 0 and cost = 0]) (simp add: block_overrun_def block_def)
  then have "(safety_step ?t UNIV)\<^sup>*\<^sup>* ?w ?w" by blast
  moreover have "revalidate ?t ?w Query_Embedding (demo_snapshot Query_Embedding) (Some demo_binding)
      = Inr demo_binding"
    by (simp add: revalidate_def demo_ready)
  ultimately show ?thesis by (rule revalidated_binding_unmoved [OF demo_ready])
qed

section \<open>A block and a reset\<close>

definition demo_next_body :: "transition \<Rightarrow> safety_state \<Rightarrow> safety_body" where
  "demo_next_body t st = (demo_body st)\<lparr>
     bd_records := [fresh_record (demo_snapshot Answer_Generation) 0 demo_digest,
                    changed_record t 1 demo_digest demo_digest (io_now demo_io) (demo_family st)],
     bd_generation := 1\<rparr>"

definition demo_next_envelope :: "transition \<Rightarrow> safety_state \<Rightarrow> envelope" where
  "demo_next_envelope t st = \<lparr>en_body = demo_next_body t st, en_key_version = ''v1'',
     en_key_verifier = demo_digest, en_hmac = demo_digest\<rparr>"

definition demo_overrun :: transition where
  "demo_overrun = block_transition Query_Embedding Blocked_Overrun 1 1 1 1 ''provider_usage_overrun'' demo_digest"

definition demo_reset :: transition where
  "demo_reset = (transition_base Query_Embedding ''reset'' Ready [Blocked_Overrun, Blocked_Remediation])
     \<lparr>tr_operation := Some Op_Reset\<rparr>"

lemma demo_incident: "incident_reference demo_service Query_Embedding Blocked_Overrun 1 ''provider_usage_overrun''
    = Inr demo_digest"
  and demo_run_hmac: "blocker_run_hmac demo_service 1 = Inr demo_digest"
  by (simp_all add: incident_reference_def blocker_run_hmac_def demo_hmac_identity plain_def utf8_valid_ascii)

lemma demo_io_simps [simp]: "io_replace demo_io = Replaced" "io_commit demo_io = Acknowledged"
  by (simp_all add: demo_io_def)

lemma demo_fields:
  "tr_component demo_overrun = Query_Embedding" "tr_preserve_reference demo_overrun"
  "tr_reference demo_overrun = None" "tr_actor demo_overrun = Some demo_digest"
  "tr_blocker_category demo_overrun = Some ''provider_usage_overrun''" "\<not> tr_supersession demo_overrun"
  "tr_snapshot demo_overrun = None" "tr_run_id demo_overrun = Some 1" "tr_allowed demo_overrun = [Ready]"
  "tr_new_state demo_overrun = Blocked_Overrun"
  "tr_component demo_reset = Query_Embedding" "\<not> tr_preserve_reference demo_reset"
  "tr_reference demo_reset = None" "tr_actor demo_reset = None" "tr_blocker_category demo_reset = None"
  "\<not> tr_supersession demo_reset" "tr_snapshot demo_reset = None" "tr_run_id demo_reset = None"
  "tr_allowed demo_reset = [Blocked_Overrun, Blocked_Remediation]" "tr_new_state demo_reset = Ready"
  "tr_operation demo_reset = Some Op_Reset" "tr_kind demo_reset = ''reset''"
  "tr_blocker_values demo_reset = None"
  by (simp_all add: demo_overrun_def demo_reset_def block_transition_def transition_base_def)

lemma demo_next:
  "next_body demo_service demo_overrun demo_digest (io_now demo_io) (demo_body Ready)
     = Inr (demo_next_body demo_overrun Ready)"
  "next_body demo_service demo_reset demo_digest (io_now demo_io) (demo_body Blocked_Overrun)
     = Inr (demo_next_body demo_reset Blocked_Overrun)"
  by (simp_all add: next_body_def demo_next_body_def demo_active_record demo_run_hmac replace_record_def
      demo_fields)
    (simp_all add: demo_body_def active_identity_def fresh_record_def changed_record_def demo_fields)

lemma demo_next_plain: "plain_body (demo_next_body demo_overrun Ready)"
  "plain_body (demo_next_body demo_reset Blocked_Overrun)"
  by (simp_all add: demo_next_body_def changed_record_def demo_io_def demo_fields)
    (simp_all add: demo_body_def demo_family_def demo_records)

lemma demo_next_wrap:
  "wrap_body demo_service (demo_next_body demo_overrun Ready) ''v1'' demo_digest
     = Inr (demo_next_envelope demo_overrun Ready)"
  "wrap_body demo_service (demo_next_body demo_reset Blocked_Overrun) ''v1'' demo_digest
     = Inr (demo_next_envelope demo_reset Blocked_Overrun)"
  by (simp_all add: wrap_body_def demo_next_envelope_def demo_signature demo_next_plain utf8_valid_ascii)

lemma demo_block_changes:
  "\<exists>r d. block_overrun demo_service demo_io Query_Embedding 1 1 1 1 (demo_safety Ready)
     = (r, \<lparr>sf_latch = Latch (demo_next_envelope demo_overrun Ready), sf_db = d\<rparr>)"
proof -
  have f: "finish_preparation demo_service demo_io demo_overrun (demo_envelope Ready) demo_digest
      (Some demo_digest) (Some demo_digest)
    = Inr \<lparr>pm_old = demo_envelope Ready, pm_old_digest = demo_digest, pm_reference = demo_digest,
           pm_actor = Some demo_digest, pm_new = demo_next_envelope demo_overrun Ready\<rparr>"
    (is "_ = Inr ?p")
    by (simp add: finish_preparation_def demo_next demo_next_wrap demo_fields demo_active_record)
  have p: "prepare_mutation demo_service demo_io demo_overrun None (demo_safety Ready) = (Inr ?p, None)"
    by (simp add: prepare_mutation_def demo_read demo_match demo_active_record f demo_fields)
  have "require_optional_hmac (tr_reference demo_overrun) = Inr ()"
    "require_optional_hmac (tr_actor demo_overrun) = Inr ()"
    by (simp_all add: require_optional_hmac_def demo_fields)
  then have "\<exists>r d. mutate demo_service demo_io demo_overrun None (demo_safety Ready)
      = (r, \<lparr>sf_latch = Latch (demo_next_envelope demo_overrun Ready), sf_db = d\<rparr>, None)"
    by (simp add: mutate_def p apply_mutation_def case_prod_unfold Let_def)
  then show ?thesis
    by (auto simp: block_overrun_def block_def demo_incident simp flip: demo_overrun_def)
qed

theorem blocks_until_reviewed_witness:
  "\<not> ready demo_service (snd (block_overrun demo_service demo_io Query_Embedding 1 1 1 1 (demo_safety Ready)))
     Query_Embedding"
proof -
  let ?b = "block_overrun demo_service demo_io Query_Embedding 1 1 1 1 (demo_safety Ready)"
  have "sf_latch (snd ?b) \<noteq> sf_latch (demo_safety Ready)"
    using demo_block_changes by (auto simp: demo_next_envelope_def demo_envelope_def demo_next_body_def demo_body_def)
  then have "snd ?b \<noteq> demo_safety Ready" by metis
  then show ?thesis
    by (intro blocks_until_reviewed [where w' = "snd ?b" and r = "fst ?b"]) auto
qed

definition demo_context :: review_context where
  "demo_context = review_context_from demo_service (demo_body Blocked_Overrun) Query_Embedding"

definition demo_payload :: command_payload where
  "demo_payload = \<lparr>cy_actor = demo_digest, cy_context = demo_context, cy_acknowledged = True,
     cy_operation = Op_Reset, cy_reference = demo_digest, cy_successor = None\<rparr>"

definition demo_command :: command where
  "demo_command = \<lparr>cm_payload = demo_payload, cm_hmac = demo_digest, cm_consumed = False\<rparr>"

lemma demo_context_simps:
  "rc_component demo_context = Query_Embedding" "rc_state demo_context = Blocked_Overrun"
  by (simp_all add: demo_context_def review_context_from_def Let_def demo_active_record)

lemma demo_command_hmac: "command_hmac demo_primitives ''secret'' demo_payload = Inr demo_digest"
proof -
  have "json_plain (payload_json demo_payload)"
    by (simp add: payload_json_def demo_payload_def context_json_def demo_context_def review_context_from_def
        Let_def demo_active_record identity_list_json_def utf8_valid_ascii)
  then show ?thesis by (simp add: command_hmac_def demo_hmac_identity plain_def utf8_valid_ascii)
qed

lemma demo_issued:
  "issue_command demo_primitives ''secret'' demo_context Op_Reset None demo_digest demo_digest True
     = Inr demo_command"
  using demo_command_hmac by (simp add: issue_command_def demo_payload_def demo_command_def)

text \<open>What the tables hold after the reset.\<close>

lemma demo_reset_db:
  "\<exists>d. mirror_transition demo_service demo_io demo_reset
     \<lparr>pm_old = demo_envelope Blocked_Overrun, pm_old_digest = demo_digest, pm_reference = demo_digest,
      pm_actor = Some demo_digest, pm_new = demo_next_envelope demo_reset Blocked_Overrun\<rparr>
     (sf_db (demo_safety Blocked_Overrun)) = (Inr (), d)"
proof -
  let ?e = "demo_next_envelope demo_reset Blocked_Overrun"
  have s: "signature demo_service (demo_next_body demo_reset Blocked_Overrun) ''v1'' demo_digest = Inr demo_digest"
    by (simp add: demo_signature demo_next_plain utf8_valid_ascii)
  have "validate_envelope demo_service ?e = Inr ()"
    by (simp add: validate_envelope_def demo_next_envelope_def s)
      (simp add: demo_next_body_def demo_body_def fresh_record_def latch_schema_version_def
        identity_nonblank_def validate_blocker_def identity_key_def demo_order component_order_def
        validate_active_def active_identity_def find_record_def less_eq_prod_simp demo_fields changed_record_def
        demo_family_def)
  moreover have "file_digest demo_service ?e = Inr demo_digest"
    by (simp add: demo_file_digest demo_next_envelope_def demo_next_plain utf8_valid_ascii)
  ultimately have r: "read_latch demo_service (Latch ?e) = Inr (?e, demo_digest)"
    by (simp add: read_latch_Inr)
  have a: "active_row (sf_db (demo_safety Blocked_Overrun)) Query_Embedding
      = Some ((bootstrap_row 1 (demo_snapshot Query_Embedding) demo_digest)\<lparr>rw_state := Blocked_Overrun\<rparr>)"
    by (simp add: active_row_def demo_safety_def bootstrap_row_def)
  obtain d where p: "pending_transition demo_service demo_reset (Some demo_digest) demo_digest
      (demo_envelope Blocked_Overrun) demo_digest (demo_next_body demo_reset Blocked_Overrun) demo_digest None
      (sf_db (demo_safety Blocked_Overrun)) = Inr d"
    and da: "db_authorities d = [\<lparr>au_id = 1, au_uuid = ''uuid'', au_environment = ''local'', au_generation = 1,
                  au_digest = demo_digest, au_key_version = ''v1'', au_key_verifier = demo_digest\<rparr>]"
    and dr: "db_rows d = [changed_row demo_reset (Some demo_digest)
                  (changed_record demo_reset 1 demo_digest demo_digest (io_now demo_io) (demo_family Blocked_Overrun))
                  1 demo_digest None
                  ((bootstrap_row 1 (demo_snapshot Query_Embedding) demo_digest)\<lparr>rw_state := Blocked_Overrun\<rparr>),
                bootstrap_row 2 (demo_snapshot Answer_Generation) demo_digest]"
  proof -
    have nr: "active_record (demo_next_body demo_reset Blocked_Overrun) Query_Embedding
        = changed_record demo_reset 1 demo_digest demo_digest (io_now demo_io) (demo_family Blocked_Overrun)"
      by (simp add: active_record_def demo_next_body_def demo_body_def active_identity_def find_record_def
          fresh_record_def)
    have g: "bd_generation (demo_next_body demo_reset Blocked_Overrun) = 1" by (simp add: demo_next_body_def)
    have "isl (pending_transition demo_service demo_reset (Some demo_digest) demo_digest
        (demo_envelope Blocked_Overrun) demo_digest (demo_next_body demo_reset Blocked_Overrun) demo_digest None
        (sf_db (demo_safety Blocked_Overrun))) = False"
      by (simp add: pending_transition_def demo_match a g nr update_authority_def demo_fields demo_active_record
          Let_def) (simp add: demo_safety_def bootstrap_row_def)
    then obtain d where d: "pending_transition demo_service demo_reset (Some demo_digest) demo_digest
        (demo_envelope Blocked_Overrun) demo_digest (demo_next_body demo_reset Blocked_Overrun) demo_digest None
        (sf_db (demo_safety Blocked_Overrun)) = Inr d"
      by (auto simp: isl_def) (metis sum.exhaust)
    show ?thesis
      using d
      by (intro that [OF d];
          simp add: pending_transition_def demo_match a g nr update_authority_def demo_fields demo_active_record
            Let_def split: if_splits; simp add: demo_safety_def bootstrap_row_def; elim subst; simp add: nr)
  qed
  have "match_db demo_service ?e demo_digest d = Inr ()"
    by (simp add: match_db_def da authority_matches_def demo_next_envelope_def)
      (simp add: dr demo_next_body_def demo_body_def demo_family_def bootstrap_row_def row_matches_def
        row_active_expected_def find_record_def fresh_record_def active_identity_def component_order_def
        changed_record_def changed_row_def demo_fields insert_commute,
       rule exI [of _ "[Answer_Generation, Query_Embedding]"], simp)
  then show ?thesis
    using r p
    by (simp add: mirror_transition_def commit_transition_def stamp_values_def demo_fields commit_db_def
        demo_next_envelope_def)
qed

theorem reviewed_reset_is_exact_and_single_use_witness:
  "review_context demo_service (demo_safety Blocked_Overrun) Query_Embedding = Inr demo_context"
proof -
  have f: "finish_preparation demo_service demo_io demo_reset (demo_envelope Blocked_Overrun) demo_digest
      (Some demo_digest) (Some demo_digest)
    = Inr \<lparr>pm_old = demo_envelope Blocked_Overrun, pm_old_digest = demo_digest, pm_reference = demo_digest,
           pm_actor = Some demo_digest, pm_new = demo_next_envelope demo_reset Blocked_Overrun\<rparr>"
    (is "_ = Inr ?p")
    by (simp add: finish_preparation_def demo_next demo_next_wrap demo_fields demo_active_record)
  have c: "consume_command demo_primitives ''secret''
      (review_context_from demo_service (demo_body Blocked_Overrun) Query_Embedding) Op_Reset None demo_command
    = (Inr demo_payload, demo_command\<lparr>cm_consumed := True\<rparr>)"
    using demo_command_hmac
    by (simp add: consume_command_def demo_command_def flip: demo_context_def) (simp add: demo_payload_def)
  have p: "prepare_mutation demo_service demo_io demo_reset (Some demo_command) (demo_safety Blocked_Overrun)
      = (Inr ?p, Some (demo_command\<lparr>cm_consumed := True\<rparr>))"
    using f by (simp add: prepare_mutation_def demo_read demo_match demo_fields c) (simp add: demo_payload_def)
  have "require_optional_hmac (tr_reference demo_reset) = Inr ()"
    "require_optional_hmac (tr_actor demo_reset) = Inr ()"
    by (simp_all add: require_optional_hmac_def demo_fields)
  then have "\<exists>w' k. mutate demo_service demo_io demo_reset (Some demo_command) (demo_safety Blocked_Overrun)
      = (Inr (), w', k)"
    using demo_reset_db
    by (auto simp: mutate_def p apply_mutation_def)
  then have "\<exists>w' k. reviewed_reset demo_service demo_io demo_command (demo_safety Blocked_Overrun) = (Inr (), w', k)"
    by (auto simp: reviewed_reset_def reviewed_mutation_def bound_component_def demo_command_def demo_payload_def
        demo_context_simps demo_reset_def)
  then show ?thesis
    using reviewed_reset_is_exact_and_single_use [OF demo_issued] demo_context_simps(1) by fastforce
qed

end
