(* ===== verification/Ledger_State.thy ===== *)
theory Ledger_State
  imports Cost_Policy Safety_Transitions
begin

text \<open>
  What \<open>agent_runtime/rag_cost_ledger.py\<close> keeps: the stored rows of a paid run (\<open>models/agent_runs.py\<close>,
  \<open>models/rag_runtime.py\<close>) with their CHECK constraints, the process memory of the ledger, and the
  helpers its operations share.

  \<open>ld_runs\<close> holds the runs with contract \<open>rag-run:v2\<close>; the ids of the other rows of \<open>agent_runs\<close>, which
  have no cost components, are \<open>ld_foreign\<close>. An operation that raises before its commit leaves the
  stored tables as they were: its session is discarded. A commit may take effect with or without an
  acknowledgement (\<open>commit_outcome\<close>). A grant is an object: \<open>lg_grants\<close> maps its identity to its fields.
\<close>

section \<open>Stored rows\<close>

record cost_row =
  cw_component :: component
  cw_state :: dispatch_state
  cw_fence :: "string option"
  cw_process :: "string option"
  cw_attempted :: bool
  cw_count :: int
  cw_reserved_in :: int
  cw_reserved_out :: int
  cw_actual_in :: "int option"
  cw_actual_out :: "int option"
  cw_reserved :: int
  cw_charged :: int
  cw_basis :: charge_basis
  cw_overrun :: bool
  cw_provider :: string
  cw_model :: string
  cw_config_version :: string
  cw_config_hmac :: string
  cw_cost_version :: string
  cw_estimator_version :: string
  cw_policy_hmac :: string
  cw_outcome :: "outcome option"

text \<open>\<open>metadata\<close> is a JSON object; \<open>md_get\<close> is \<open>dict.get\<close>.\<close>

type_synonym metadata = "string \<rightharpoonup> json"

definition md_get :: "metadata \<Rightarrow> string \<Rightarrow> json" where
  "md_get m k = (case m k of None \<Rightarrow> JNull | Some v \<Rightarrow> v)"

record agent_run =
  ar_status :: run_status
  ar_phase :: run_phase
  ar_window :: string
  ar_cache_key :: string
  ar_estimated :: int
  ar_charged :: int
  ar_owner_fence :: "string option"
  ar_completed :: "string option"
  ar_metadata :: metadata

text \<open>A row of the audit log.\<close>

record audit_row =
  au_actor :: string
  au_action :: string
  au_target_type :: string
  au_target :: string
  au_status :: string
  au_metadata :: metadata

record rag_db =
  ld_runs :: "int \<rightharpoonup> agent_run"
  ld_rows :: "int \<Rightarrow> cost_row list"
  ld_foreign :: "int set"
  ld_audit :: "audit_row list"

definition total_reserved :: "cost_row list \<Rightarrow> int" where
  "total_reserved rows = sum_list (map cw_reserved rows)"

definition total_charged :: "cost_row list \<Rightarrow> int" where
  "total_charged rows = sum_list (map cw_charged rows)"

section \<open>CHECK constraints\<close>

text \<open>\<open>ck_agent_run_cost_component_target_identity\<close>.\<close>

definition row_target_ok :: "cost_row \<Rightarrow> bool" where
  "row_target_ok w \<longleftrightarrow> cw_provider w = ''openai'' \<and>
     (case cw_component w of
        Query_Embedding \<Rightarrow>
          cw_model w = ''text-embedding-3-small''
          \<and> cw_config_version w = ''rag-query-embedding-config:v1''
          \<and> cw_cost_version w = ''rag-query-embedding-cost:v1''
          \<and> cw_estimator_version w = ''openai-cl100k-text-embedding-3-small:v1''
      | Answer_Generation \<Rightarrow>
          cw_model w = ''gpt-5.4-mini-2026-03-17'' \<and> cw_config_version w = ''rag-answer-model-config:v1''
          \<and> cw_cost_version w = ''rag-answer-cost:v1''
          \<and> cw_estimator_version w = ''openai-o200k-rag-answer:v1'')"

text \<open>\<open>ck_agent_run_cost_component_hmacs\<close>; \<open>length\<close> counts characters.\<close>

definition sql_length :: "string \<Rightarrow> nat" where
  "sql_length s = code_points s"

definition row_hmacs_ok :: "cost_row \<Rightarrow> bool" where
  "row_hmacs_ok w \<longleftrightarrow> sql_length (cw_config_hmac w) = 64 \<and> sql_length (cw_policy_hmac w) = 64
     \<and> (case cw_fence w of None \<Rightarrow> True | Some h \<Rightarrow> sql_length h = 64)
     \<and> (case cw_process w of None \<Rightarrow> True | Some h \<Rightarrow> sql_length h = 64)"

text \<open>\<open>ck_agent_run_cost_component_nonnegative\<close>.\<close>

definition row_nonnegative :: "cost_row \<Rightarrow> bool" where
  "row_nonnegative w \<longleftrightarrow> 0 \<le> cw_reserved_in w \<and> 0 \<le> cw_reserved_out w
     \<and> (case cw_actual_in w of None \<Rightarrow> True | Some n \<Rightarrow> 0 \<le> n)
     \<and> (case cw_actual_out w of None \<Rightarrow> True | Some n \<Rightarrow> 0 \<le> n)
     \<and> 0 \<le> cw_reserved w \<and> 0 \<le> cw_charged w"

text \<open>\<open>ck_agent_run_cost_component_state_shape\<close>, its five disjuncts.\<close>

definition row_shape :: "cost_row \<Rightarrow> bool" where
  "row_shape w \<longleftrightarrow>
     (case cw_state w of
        Not_Attempted \<Rightarrow>
          \<not> cw_attempted w \<and> cw_count w = 0 \<and> cw_actual_in w = None \<and> cw_actual_out w = None
          \<and> cw_charged w = 0 \<and> cw_basis w = Basis_Zero \<and> \<not> cw_overrun w \<and> cw_fence w = None
          \<and> cw_process w = None \<and> cw_outcome w = None
      | Dispatching \<Rightarrow>
          cw_attempted w \<and> cw_count w = 1 \<and> cw_actual_in w = None \<and> cw_actual_out w = None
          \<and> cw_charged w = cw_reserved w \<and> cw_basis w = Basis_Reserved \<and> \<not> cw_overrun w
          \<and> cw_fence w \<noteq> None \<and> cw_process w \<noteq> None \<and> cw_outcome w = None
      | Terminal \<Rightarrow>
          (\<not> cw_attempted w \<and> cw_count w = 0 \<and> cw_reserved_in w = 0 \<and> cw_reserved_out w = 0
           \<and> cw_actual_in w = None \<and> cw_actual_out w = None \<and> cw_reserved w = 0 \<and> cw_charged w = 0
           \<and> cw_basis w = Basis_Zero \<and> \<not> cw_overrun w \<and> cw_fence w = None \<and> cw_process w = None
           \<and> cw_outcome w = None)
          \<or> (cw_attempted w \<and> cw_count w = 1 \<and> cw_fence w \<noteq> None \<and> cw_process w \<noteq> None
             \<and> cw_outcome w \<noteq> None
             \<and> ((cw_basis w = Basis_Actual \<and> cw_actual_in w \<noteq> None \<and> cw_actual_out w \<noteq> None)
                \<or> (cw_basis w = Basis_Reserved \<and> cw_actual_in w = None \<and> cw_actual_out w = None
                   \<and> cw_charged w = cw_reserved w))
             \<and> (\<not> cw_overrun w \<or> cw_basis w = Basis_Actual))
      | Abandoned \<Rightarrow>
          cw_attempted w \<and> cw_count w = 1 \<and> cw_actual_in w = None \<and> cw_actual_out w = None
          \<and> cw_charged w = cw_reserved w \<and> cw_basis w = Basis_Reserved \<and> \<not> cw_overrun w
          \<and> cw_fence w \<noteq> None \<and> cw_process w \<noteq> None \<and> cw_outcome w = Some Abandoned_Unknown)"

definition row_ok :: "cost_row \<Rightarrow> bool" where
  "row_ok w \<longleftrightarrow> row_target_ok w \<and> row_hmacs_ok w \<and> row_nonnegative w \<and> row_shape w"

text \<open>\<open>ck_agent_runs_rag_v2_parent_shape\<close> and \<open>ck_agent_runs_rag_v2_lifecycle\<close> of a contract run.\<close>

definition run_shape :: "agent_run \<Rightarrow> bool" where
  "run_shape a \<longleftrightarrow> 0 \<le> ar_charged a
     \<and> (case ar_owner_fence a of None \<Rightarrow> True | Some h \<Rightarrow> sql_length h = 64)"

definition run_lifecycle :: "agent_run \<Rightarrow> bool" where
  "run_lifecycle a \<longleftrightarrow>
     (case ar_phase a of
        Admission \<Rightarrow> ar_status a = Running \<and> ar_completed a = None \<and> ar_owner_fence a = None
      | Pending_Projection \<Rightarrow> ar_status a = Running \<and> ar_completed a = None \<and> ar_owner_fence a \<noteq> None
      | Final \<Rightarrow> ar_status a \<in> {Complete, Failed} \<and> ar_completed a \<noteq> None
      | Admission_Only \<Rightarrow> ar_status a = Failed \<and> ar_completed a \<noteq> None \<and> ar_owner_fence a = None)"

text \<open>The tables of one run satisfy every constraint, and the two components are both there, in order.\<close>

definition run_ok :: "agent_run \<Rightarrow> cost_row list \<Rightarrow> bool" where
  "run_ok a rows \<longleftrightarrow> run_shape a \<and> run_lifecycle a \<and> map cw_component rows = component_order
     \<and> list_all row_ok rows"

section \<open>The process\<close>

record grant =
  gr_run_id :: int
  gr_component :: component
  gr_reserved :: int
  gr_fence :: string
  gr_safety_hmac :: string
  gr_consumed :: bool

text \<open>How a backend excludes two projection owners: a process mutex, or a registered advisory lock.\<close>

datatype owner_backend =
    Process_Mutex
  | Advisory "int \<Rightarrow> advisory_lock option"
  | Unsupported_Backend

record ledger_authority =
  la_primitives :: primitives
  la_sha256 :: "string \<Rightarrow> string"
  la_secret :: string
  la_policy :: cost_policy
  la_safety :: safety_service
  la_process :: string
  la_backend :: owner_backend

record ledger =
  lg_db :: rag_db
  lg_safety :: safety
  lg_grants :: "nat \<rightharpoonup> grant"
  lg_next :: nat
  lg_active :: "int \<times> component \<rightharpoonup> nat"
  lg_refused :: "int \<rightharpoonup> nat"
  lg_snapshots :: "int \<times> component \<rightharpoonup> policy_snapshot"
  lg_budgets :: "int \<times> component \<rightharpoonup> prepared_budget"
  lg_reservations :: "int \<rightharpoonup> answer_ceiling"
  lg_bindings :: "int \<times> component \<rightharpoonup> safety_binding"
  lg_terminal_bindings :: "int \<times> component \<rightharpoonup> safety_binding"
  lg_terminal_rows :: "int \<times> component \<rightharpoonup> json"
  lg_pending :: "int \<rightharpoonup> json \<times> json \<times> json"

text \<open>What a call meets outside: a fresh nonce, the clock, the fate of its commit, and whether a read
  transaction that is given up is released.\<close>

record ledger_io =
  li_nonce :: string
  li_now :: string
  li_commit :: commit_outcome
  li_released :: bool

definition unacknowledged :: error where
  "unacknowledged = Persistence_Error ''ledger commit acknowledgement unavailable''"

text \<open>
  The frame of an operation: \<open>guard\<close> computes what the operation needs and may raise; \<open>before\<close> is what
  the process forgets before the commit, whatever its fate; \<open>pending\<close> computes the new tables and the
  value; \<open>after\<close> is what the process records once the commit is acknowledged.
\<close>

definition transact ::
  "commit_outcome \<Rightarrow> 'g result \<Rightarrow> ('g \<Rightarrow> ledger \<Rightarrow> ledger) \<Rightarrow> ('g \<Rightarrow> (rag_db \<times> 'a) result)
    \<Rightarrow> ('g \<Rightarrow> 'a \<Rightarrow> ledger \<Rightarrow> ledger) \<Rightarrow> ledger \<Rightarrow> 'a result \<times> ledger" where
  "transact co guard before pending after L =
     (case guard of
        Inl e \<Rightarrow> (Inl e, L)
      | Inr g \<Rightarrow>
          (case pending g of
             Inl e \<Rightarrow> (Inl e, before g L)
           | Inr (d, v) \<Rightarrow>
               (case commit_db co (lg_db L) d of
                  (Inl _, d') \<Rightarrow> (Inl unacknowledged, (before g L)\<lparr>lg_db := d'\<rparr>)
                | (Inr _, d') \<Rightarrow> (Inr v, after g v ((before g L)\<lparr>lg_db := d'\<rparr>)))))"

text \<open>\<open>_runtime_health_effect\<close>: the shared gate admits the operation or refuses it.\<close>

definition runtime_health_effect ::
  "unit result \<Rightarrow> (ledger \<Rightarrow> 'a result \<times> ledger) \<Rightarrow> ledger \<Rightarrow> 'a result \<times> ledger" where
  "runtime_health_effect gate f L = (case gate of Inl e \<Rightarrow> (Inl e, L) | Inr _ \<Rightarrow> f L)"

section \<open>Identities of a run\<close>

text \<open>\<open>_row_runtime_component\<close>.\<close>

definition row_component_json :: "cost_row \<Rightarrow> json result" where
  "row_component_json w =
     then_r (exact_utf8_bytes (cw_cost_version w)) (\<lambda>cost_version.
     then_r (exact_utf8_bytes (cw_config_version w)) (\<lambda>config_version.
     then_r (exact_utf8_bytes (cw_estimator_version w)) (\<lambda>estimator_version.
     then_r (exact_utf8_bytes (cw_model w)) (\<lambda>model.
     then_r (exact_utf8_bytes (cw_provider w)) (\<lambda>provider.
     Inr (JObj
       [(''actual_input_tokens'', json_opt_int (cw_actual_in w)),
        (''actual_output_tokens'', json_opt_int (cw_actual_out w)),
        (''attempted'', JBool (cw_attempted w)),
        (''authorized_cost_policy_version_bytes'', cost_version),
        (''authorized_model_config_snapshot_hmac'', JStr (cw_config_hmac w)),
        (''authorized_model_config_version_bytes'', config_version),
        (''authorized_policy_snapshot_hmac'', JStr (cw_policy_hmac w)),
        (''authorized_token_estimator_version_bytes'', estimator_version),
        (''charge_basis'', JStr (charge_basis_name (cw_basis w))),
        (''charged_cost_usd'', JStr (format6 (cw_charged w))),
        (''component'', JStr (component_name (cw_component w))),
        (''dispatch_count'', JInt (cw_count w)),
        (''dispatch_fence_hmac'', json_opt (cw_fence w)),
        (''dispatch_state'', JStr (dispatch_state_name (cw_state w))),
        (''model_bytes'', model),
        (''overrun'', JBool (cw_overrun w)),
        (''process_instance_hmac'', json_opt (cw_process w)),
        (''provider_bytes'', provider),
        (''reserved_cost_usd'', JStr (format6 (cw_reserved w))),
        (''reserved_input_tokens'', JInt (cw_reserved_in w)),
        (''reserved_output_tokens'', JInt (cw_reserved_out w))]))))))"

fun row_components_json :: "cost_row list \<Rightarrow> json list result" where
  "row_components_json [] = Inr []"
| "row_components_json (w # ws) =
     then_r (row_component_json w) (\<lambda>j. then_r (row_components_json ws) (\<lambda>js. Inr (j # js)))"

definition json_outcome :: "outcome option \<Rightarrow> json" where
  "json_outcome x = json_opt (map_option outcome_name x)"

text \<open>\<open>_runtime_cost_identity\<close>: the components are signed with the totals of their amounts.\<close>

definition runtime_cost_json ::
  "int \<Rightarrow> json list \<Rightarrow> int \<Rightarrow> int \<Rightarrow> outcome option \<Rightarrow> run_phase \<Rightarrow> run_status \<Rightarrow> string \<Rightarrow> json" where
  "runtime_cost_json run_id components charged reserved outcome phase status stage = JObj
     [(''agent_run_id'', JInt run_id),
      (''components'', JList components),
      (''parent_outcome'', json_outcome outcome),
      (''parent_run_record_phase'', JStr (run_phase_name phase)),
      (''parent_status'', JStr (run_status_name status)),
      (''run_contract_version'', JStr ''rag-run:v2''),
      (''snapshot_stage'', JStr stage),
      (''total_charged_cost_usd'', JStr (format6 charged)),
      (''total_reserved_cost_usd'', JStr (format6 reserved))]"

definition run_cost_identity ::
  "ledger_authority \<Rightarrow> int \<Rightarrow> cost_row list \<Rightarrow> outcome option \<Rightarrow> run_phase \<Rightarrow> run_status \<Rightarrow> string
    \<Rightarrow> string result" where
  "run_cost_identity A run_id rows outcome phase status stage =
     then_r (row_components_json rows) (\<lambda>components.
       runtime_cost_identity (la_primitives A) (la_secret A)
         (runtime_cost_json run_id components (total_charged rows) (total_reserved rows) outcome
            phase status stage))"

text \<open>\<open>_expected_dead_process_attestation_hmac\<close>.\<close>

definition dead_process_attestation :: "ledger_authority \<Rightarrow> int \<Rightarrow> string \<Rightarrow> string result" where
  "dead_process_attestation A run_id process =
     then_r (require_lower_hmac process ''dead_process_instance_hmac'') (\<lambda>_.
       dead_process_attestation_identity (la_primitives A) (la_secret A) (JObj
         [(''agent_run_id'', JInt run_id),
          (''dead_process_instance_hmac'', JStr process),
          (''recovery_outcome'', JStr ''abandoned_unknown'')]))"

text \<open>\<open>_projection_owner_fence\<close>.\<close>

definition owner_lock_digest :: "ledger_authority \<Rightarrow> int \<Rightarrow> (json \<times> string \<times> string) result" where
  "owner_lock_digest A run_id =
     (case la_backend A of
        Process_Mutex \<Rightarrow> Inr (JNull, ''sqlite_process_mutex'', ''sqlite_rag_smoke_projection_owner'')
      | Advisory capability \<Rightarrow>
          (case capability run_id of
             None \<Rightarrow> Inl (Ledger_Error ''PostgreSQL projection owner capability is unavailable'')
           | Some cap \<Rightarrow>
               then_r (rag_projection_owner_lock_id run_id) (\<lambda>identity.
               then_r (capability_matches (la_primitives A) (la_sha256 A) cap identity ''dynamic'') (\<lambda>ok.
                 if \<not> ok then Inl (Ledger_Error ''PostgreSQL projection owner capability is invalid'')
                 else Inr (JStr (al_digest cap), ''postgres_advisory'', ''rag_projection_owner''))))
      | Unsupported_Backend \<Rightarrow> Inl (Ledger_Error ''projection owner backend is unsupported''))"

definition projection_owner_fence ::
  "ledger_authority \<Rightarrow> string \<Rightarrow> int \<Rightarrow> string \<Rightarrow> string result" where
  "projection_owner_fence A nonce run_id process =
     then_r (owner_lock_digest A run_id) (\<lambda>(digest, backend, namespace).
       projection_owner_identity (la_primitives A) (la_secret A) (JObj
         [(''advisory_lock_identity_digest'', digest),
          (''agent_run_id'', JInt run_id),
          (''lock_backend'', JStr backend),
          (''lock_namespace'', JStr namespace),
          (''owner_nonce_hex'', JStr nonce),
          (''owner_phase'', JStr ''cost_finalized_pending_projection''),
          (''process_instance_hmac'', JStr process)]))"

text \<open>\<open>projection_owner_barrier\<close>: what is checked before the owner lock is taken.\<close>

definition projection_owner_barrier ::
  "ledger_authority \<Rightarrow> int \<Rightarrow> coordinator \<Rightarrow> lock_capability \<Rightarrow> unit result" where
  "projection_owner_barrier A run_id order cap =
     then_r (require_stage order cap ''projection_owner'') (\<lambda>_.
     then_r (rag_projection_owner_lock_id run_id) (\<lambda>identity.
     case la_backend A of
       Process_Mutex \<Rightarrow> Inr ()
     | Advisory capability \<Rightarrow>
         (case capability run_id of
            None \<Rightarrow> Inl (Ledger_Error ''projection owner capability is invalid'')
          | Some cap' \<Rightarrow>
              then_r (capability_matches (la_primitives A) (la_sha256 A) cap' identity ''dynamic'') (\<lambda>ok.
                require ok (Ledger_Error ''projection owner capability is invalid'')))
     | Unsupported_Backend \<Rightarrow> Inl (Ledger_Error ''projection owner authority is unavailable'')))"

section \<open>Shared steps\<close>

text \<open>\<open>_component_is_unused\<close>.\<close>

definition component_is_unused :: "metadata \<Rightarrow> component \<Rightarrow> bool" where
  "component_is_unused m c =
     (case c of
        Query_Embedding \<Rightarrow> md_get m ''configured_backend'' = JStr ''keyword''
      | Answer_Generation \<Rightarrow>
          \<not> (md_get m ''mode'' = JStr ''enforce''
             \<and> md_get m ''surface'' \<in> {JStr ''ask'', JStr ''assistant''}))"

text \<open>\<open>_locked_run\<close>; the two rows come as a pair.\<close>

definition locked_run :: "rag_db \<Rightarrow> int \<Rightarrow> (agent_run \<times> cost_row \<times> cost_row) result" where
  "locked_run d run_id =
     (case (ld_runs d run_id, ld_rows d run_id) of
        (Some a, [q, w]) \<Rightarrow>
          if [cw_component q, cw_component w] = component_order then Inr (a, q, w)
          else Inl (Ledger_Error ''exact-two RAG run is unavailable'')
      | _ \<Rightarrow> Inl (Ledger_Error ''exact-two RAG run is unavailable''))"

definition pick :: "component \<Rightarrow> cost_row \<Rightarrow> cost_row \<Rightarrow> cost_row" where
  "pick c q w = (case c of Query_Embedding \<Rightarrow> q | Answer_Generation \<Rightarrow> w)"

text \<open>The tables with one run and its two rows replaced.\<close>

definition store_run :: "rag_db \<Rightarrow> int \<Rightarrow> agent_run \<Rightarrow> cost_row \<Rightarrow> cost_row \<Rightarrow> rag_db" where
  "store_run d run_id a q w =
     d\<lparr>ld_runs := (ld_runs d)(run_id \<mapsto> a), ld_rows := (ld_rows d)(run_id := [q, w])\<rparr>"

text \<open>\<open>_make_terminal_zero\<close>.\<close>

definition make_terminal_zero :: "cost_row \<Rightarrow> cost_row" where
  "make_terminal_zero w =
     w\<lparr>cw_state := Terminal, cw_attempted := False, cw_count := 0, cw_reserved_in := 0,
       cw_reserved_out := 0, cw_actual_in := None, cw_actual_out := None, cw_reserved := 0,
       cw_charged := 0, cw_basis := Basis_Zero, cw_overrun := False, cw_fence := None,
       cw_process := None, cw_outcome := None\<rparr>"

text \<open>\<open>RagComponentFinal\<close>: the row and the fields of its parent.\<close>

record component_final =
  cf_run_id :: int
  cf_row :: cost_row
  cf_parent_status :: run_status
  cf_parent_phase :: run_phase
  cf_parent_charged :: int
  cf_owner_fence :: "string option"
  cf_runtime_hmac :: json

text \<open>\<open>_component_final\<close>; \<open>metadata['runtime_cost_snapshot_hmac']\<close> raises on a missing key.\<close>

definition component_final_of :: "int \<Rightarrow> agent_run \<Rightarrow> cost_row \<Rightarrow> component_final result" where
  "component_final_of run_id a w =
     (case ar_metadata a ''runtime_cost_snapshot_hmac'' of
        None \<Rightarrow> Inl (Key_Error ''runtime_cost_snapshot_hmac'')
      | Some h \<Rightarrow> Inr \<lparr>cf_run_id = run_id, cf_row = w, cf_parent_status = ar_status a,
          cf_parent_phase = ar_phase a, cf_parent_charged = ar_charged a,
          cf_owner_fence = ar_owner_fence a, cf_runtime_hmac = h\<rparr>)"

record run_terminal =
  te_run_id :: int
  te_status :: run_status
  te_phase :: run_phase
  te_outcome :: outcome
  te_admission_hmac :: string
  te_window :: string
  te_cache_key :: string
  te_reserved :: int
  te_charged :: int
  te_finals :: "component_final \<times> component_final"
  te_owner_fence :: "string option"
  te_runtime_hmac :: string
  te_identity_hmac :: "string option"
  te_completed :: string

text \<open>A caller's completion time: its text, and whether it carries a time zone.\<close>

type_synonym timestamp = "string \<times> bool"

definition completion_time :: "timestamp option \<Rightarrow> string \<Rightarrow> string result" where
  "completion_time completed now =
     (case completed of
        None \<Rightarrow> Inr now
      | Some (stamp, aware) \<Rightarrow>
          if aware then Inr stamp else Inl (Value_Error ''completion timestamp must be timezone-aware''))"

definition md_required :: "metadata \<Rightarrow> string \<Rightarrow> json result" where
  "md_required m k = (case m k of None \<Rightarrow> Inl (Key_Error k) | Some v \<Rightarrow> Inr v)"

text \<open>The window and the identity of a run that ends in an error.\<close>

definition final_error_parts ::
  "ledger_authority \<Rightarrow> agent_run \<Rightarrow> string \<Rightarrow> string \<Rightarrow> outcome \<Rightarrow> (string \<times> string) result" where
  "final_error_parts A a admission_hmac runtime_hmac outcome =
     (case split_on CHR '':'' (ar_window a) of
        [p0, p1, _, surface, backend] \<Rightarrow>
          if [p0, p1] \<noteq> [''rag-v2'', ''admission'']
          then Inl (Ledger_Error ''admission source window is invalid'')
          else
          then_r (terminal_source_window ''final_error'' surface backend) (\<lambda>window.
          then_r (md_required (ar_metadata a) ''configured_backend'') (\<lambda>configured.
          then_r (md_required (ar_metadata a) ''current_text_hmac'') (\<lambda>current.
          then_r (md_required (ar_metadata a) ''retrieval_query_hmac'') (\<lambda>query.
          then_r (md_required (ar_metadata a) ''security_scope_fingerprint'') (\<lambda>scope.
          then_r (md_required (ar_metadata a) ''surface'') (\<lambda>stored_surface.
          then_r (final_error_identity (la_primitives A) (la_secret A) (JObj
            [(''admission_cache_identity_hmac'', JStr admission_hmac),
             (''answer_question_hmac'', JNull),
             (''configured_backend'', configured),
             (''current_text_hmac'', current),
             (''fallback_category'', JNull),
             (''graph_version'', JStr ''company-memory-rag-answer-v2.0''),
             (''outcome'', JStr (outcome_name outcome)),
             (''prepared_model_influence_observation_hmac'', JNull),
             (''retrieval_query_hmac'', query),
             (''runtime_cost_snapshot_hmac'', JStr runtime_hmac),
             (''security_scope_fingerprint'', scope),
             (''surface'', stored_surface)])) (\<lambda>h. Inr (window, h))))))))
      | _ \<Rightarrow> Inl (Ledger_Error ''admission source window is invalid''))"

text \<open>
  \<open>_finalize_failed_run\<close> up to its commit: the closed run and the receipt. The rows are already what
  they will be. The optional assistant finalizer appends to other tables and is left out.
\<close>

definition finalize_failed_run ::
  "ledger_authority \<Rightarrow> string \<Rightarrow> int \<Rightarrow> agent_run \<Rightarrow> cost_row \<Rightarrow> cost_row \<Rightarrow> outcome \<Rightarrow> timestamp option
    \<Rightarrow> bool \<Rightarrow> (agent_run \<times> run_terminal) result" where
  "finalize_failed_run A now run_id a q w outcome completed admission_only =
     then_r (completion_time completed now) (\<lambda>stamp.
     let rows = [q, w]; admission_hmac = removeprefix ''rag-v2-admission:'' (ar_cache_key a);
         phase = (if admission_only then Admission_Only else Final) in
     then_r (run_cost_identity A run_id rows (Some outcome) phase Failed ''terminal'') (\<lambda>runtime_hmac.
     then_r (if admission_only then Inr (ar_window a, ar_cache_key a, None, None)
             else then_r (final_error_parts A a admission_hmac runtime_hmac outcome) (\<lambda>(window, h).
                    Inr (window, ''rag-v2-final-error:'' @ h, Some h, ar_owner_fence a)))
       (\<lambda>(window, cache_key, terminal_hmac, fence).
     let a' = a\<lparr>ar_owner_fence := fence, ar_status := Failed, ar_phase := phase, ar_window := window,
                ar_cache_key := cache_key, ar_charged := total_charged rows,
                ar_completed := Some stamp,
                ar_metadata := (ar_metadata a)
                  (''outcome'' \<mapsto> JStr (outcome_name outcome),
                   ''runtime_cost_snapshot_hmac'' \<mapsto> JStr runtime_hmac,
                   ''terminal_identity_hmac'' \<mapsto> json_opt terminal_hmac)\<rparr> in
     then_r (component_final_of run_id a' q) (\<lambda>fq.
     then_r (component_final_of run_id a' w) (\<lambda>fw.
     Inr (a', \<lparr>te_run_id = run_id, te_status = Failed, te_phase = phase, te_outcome = outcome,
               te_admission_hmac = admission_hmac, te_window = window, te_cache_key = cache_key,
               te_reserved = total_reserved rows, te_charged = total_charged rows,
               te_finals = (fq, fw), te_owner_fence = fence, te_runtime_hmac = runtime_hmac,
               te_identity_hmac = terminal_hmac, te_completed = stamp\<rparr>))))))"

end
