(* ===== verification/Cost_Ledger.thy ===== *)
theory Cost_Ledger
  imports Ledger_State
begin

text \<open>
  The operations of \<open>RagCostLedger\<close> (\<open>agent_runtime/rag_cost_ledger.py\<close>) on the state of \<open>Ledger_State\<close>:
  admission, the binding of the answer budget, claims, dispatch, finalisation, the pending projection,
  failure closure and recovery.
\<close>

section \<open>Admission\<close>

datatype admission_budget =
    Prepared prepared_budget | Ceiling answer_ceiling | Unused unused_reservation

fun ab_component :: "admission_budget \<Rightarrow> component" where
  "ab_component (Prepared b) = pb_component b"
| "ab_component (Ceiling _) = Answer_Generation"
| "ab_component (Unused u) = ur_component u"

fun ab_policy_hmac :: "admission_budget \<Rightarrow> string" where
  "ab_policy_hmac (Prepared b) = pb_policy_hmac b"
| "ab_policy_hmac (Ceiling c) = ac_policy_hmac c"
| "ab_policy_hmac (Unused u) = ur_policy_hmac u"

fun ab_input_tokens :: "admission_budget \<Rightarrow> int" where
  "ab_input_tokens (Prepared b) = pb_input_tokens b"
| "ab_input_tokens (Ceiling c) = ac_input_tokens c"
| "ab_input_tokens (Unused u) = ur_input_tokens u"

fun ab_output_tokens :: "admission_budget \<Rightarrow> int" where
  "ab_output_tokens (Prepared b) = pb_output_tokens b"
| "ab_output_tokens (Ceiling c) = ac_output_tokens c"
| "ab_output_tokens (Unused u) = ur_output_tokens u"

fun ab_reserved :: "admission_budget \<Rightarrow> int" where
  "ab_reserved (Prepared b) = pb_reserved_cost b"
| "ab_reserved (Ceiling c) = ac_reserved_cost c"
| "ab_reserved (Unused u) = ur_reserved_cost u"

record admission_request =
  aq_run_id :: int
  aq_surface :: string
  aq_mode :: string
  aq_stage :: string
  aq_backend :: string
  aq_context_version :: string
  aq_current_text_hmac :: string
  aq_query_hmac :: string
  aq_scope :: string
  aq_cache_identity :: "string option"
  aq_window :: string
  aq_query :: "policy_snapshot \<times> admission_budget"
  aq_answer :: "policy_snapshot \<times> admission_budget"

definition stage_ranks :: "string \<rightharpoonup> nat" where
  "stage_ranks = map_of [(''none'', 0), (''ask'', 1), (''search'', 2), (''assistant'', 3)]"

definition surface_ranks :: "string \<rightharpoonup> nat" where
  "surface_ranks = map_of [(''ask'', 1), (''search'', 2), (''assistant'', 3)]"

definition route_is_active :: "admission_request \<Rightarrow> bool" where
  "route_is_active r \<longleftrightarrow>
     (case (stage_ranks (aq_stage r), surface_ranks (aq_surface r)) of
        (Some s, Some f) \<Rightarrow> s \<ge> f \<and> (aq_mode r \<noteq> ''shadow'' \<or> aq_backend r = ''pgvector'')
      | _ \<Rightarrow> False)"

definition admission_arguments_ok :: "admission_request \<Rightarrow> string \<Rightarrow> bool" where
  "admission_arguments_ok r window \<longleftrightarrow>
     0 < aq_run_id r \<and> aq_window r \<in> set admission_source_windows \<and> aq_window r = window
     \<and> known_surface (aq_surface r) \<and> known_mode (aq_mode r)
     \<and> aq_stage r \<in> set [''none'', ''ask'', ''search'', ''assistant''] \<and> known_backend (aq_backend r)
     \<and> aq_context_version r \<in> set [''direct-query:v1'', ''assistant-context:v1'']
     \<and> route_is_active r
     \<and> aq_context_version r =
         (if aq_surface r = ''assistant'' then ''assistant-context:v1'' else ''direct-query:v1'')"

text \<open>One round of the loop over the two components.\<close>

definition check_component ::
  "cost_policy \<Rightarrow> admission_request \<Rightarrow> component \<Rightarrow> policy_snapshot \<times> admission_budget \<Rightarrow> unit result" where
  "check_component p r expected pair =
     (case pair of (s, b) \<Rightarrow>
        if ps_component s \<noteq> expected \<or> ab_component b \<noteq> expected
           \<or> ps_policy_snapshot_hmac s \<noteq> ab_policy_hmac b
        then Inl (Value_Error ''RAG admission components are misaligned'')
        else case b of
          Prepared _ \<Rightarrow> Inr ()
        | Ceiling c \<Rightarrow>
            if expected \<noteq> Answer_Generation \<or> aq_mode r \<noteq> ''enforce'' \<or> aq_surface r = ''search''
            then Inl (Value_Error ''answer ceiling is unused by this route'')
            else then_r (reserve_answer_generation p) (\<lambda>authority.
              require (c = authority) (Value_Error ''answer ceiling authority is invalid''))
        | Unused u \<Rightarrow>
            (let unused = (if expected = Query_Embedding then aq_backend r = ''keyword''
                           else aq_mode r \<noteq> ''enforce'' \<or> aq_surface r = ''search'')
             in if \<not> unused then Inl (Value_Error ''unused component reservation is invalid'')
                else then_r (reserve_unused_component p (component_name expected)) (\<lambda>authority.
                  require (u = authority) (Value_Error ''unused component reservation is invalid''))))"

definition check_ceiling ::
  "cost_policy \<Rightarrow> admission_budget \<Rightarrow> admission_budget \<Rightarrow> unit result" where
  "check_ceiling p q a =
     (if (case q of Ceiling _ \<Rightarrow> True | _ \<Rightarrow> False) \<or> (case a of Ceiling _ \<Rightarrow> True | _ \<Rightarrow> False)
      then then_r (case q of Prepared b \<Rightarrow> validate_prepared_budget p b | _ \<Rightarrow> Inr ()) (\<lambda>_.
             require (ab_reserved q + ab_reserved a \<le> 12000) Budget_Exceeded)
      else Inr ())"

definition answer_is_paid :: "admission_request \<Rightarrow> bool" where
  "answer_is_paid r \<longleftrightarrow> aq_mode r = ''enforce'' \<and> aq_surface r \<in> {''ask'', ''assistant''}"

definition used_answer_hmac :: "admission_request \<Rightarrow> string option" where
  "used_answer_hmac r =
     (if answer_is_paid r then Some (ps_policy_snapshot_hmac (fst (aq_answer r))) else None)"

definition used_query_hmac :: "admission_request \<Rightarrow> string option" where
  "used_query_hmac r =
     (if aq_backend r = ''pgvector'' then Some (ps_policy_snapshot_hmac (fst (aq_query r))) else None)"

definition request_identity :: "ledger_authority \<Rightarrow> admission_request \<Rightarrow> string result" where
  "request_identity A r =
     then_r (exact_utf8_bytes (aq_context_version r)) (\<lambda>context_version.
       admission_identity (la_primitives A) (la_secret A) (JObj
         [(''answer_provider_policy_snapshot_hmac'', json_opt (used_answer_hmac r)),
          (''configured_backend'', JStr (aq_backend r)),
          (''current_text_hmac'', JStr (aq_current_text_hmac r)),
          (''cutover_stage'', JStr (aq_stage r)),
          (''graph_version'', JStr ''company-memory-rag-answer-v2.0''),
          (''mode'', JStr (aq_mode r)),
          (''query_context_version_bytes'', context_version),
          (''query_embedding_provider_policy_snapshot_hmac'', json_opt (used_query_hmac r)),
          (''retrieval_policy_version'', JStr ''rag-retrieval-policy:v2.0''),
          (''retrieval_query_hmac'', JStr (aq_query_hmac r)),
          (''security_scope_fingerprint'', JStr (aq_scope r)),
          (''surface'', JStr (aq_surface r))]))"

text \<open>\<open>_admission_runtime_component\<close>: what is signed before the rows exist.\<close>

definition admission_component_json :: "policy_snapshot \<times> admission_budget \<Rightarrow> json result" where
  "admission_component_json pair =
     (case pair of (s, b) \<Rightarrow>
     then_r (exact_utf8_bytes (ps_cost_policy_version s)) (\<lambda>cost_version.
     then_r (exact_utf8_bytes (ps_model_config_version s)) (\<lambda>config_version.
     then_r (exact_utf8_bytes (ps_token_estimator_version s)) (\<lambda>estimator_version.
     then_r (exact_utf8_bytes (ps_model s)) (\<lambda>model.
     then_r (exact_utf8_bytes (ps_provider s)) (\<lambda>provider.
     Inr (JObj
       [(''actual_input_tokens'', JNull),
        (''actual_output_tokens'', JNull),
        (''attempted'', JBool False),
        (''authorized_cost_policy_version_bytes'', cost_version),
        (''authorized_model_config_snapshot_hmac'', JStr (ps_model_config_snapshot_hmac s)),
        (''authorized_model_config_version_bytes'', config_version),
        (''authorized_policy_snapshot_hmac'', JStr (ps_policy_snapshot_hmac s)),
        (''authorized_token_estimator_version_bytes'', estimator_version),
        (''charge_basis'', JStr ''zero''),
        (''charged_cost_usd'', JStr ''0.000000''),
        (''component'', JStr (component_name (ab_component b))),
        (''dispatch_count'', JInt 0),
        (''dispatch_fence_hmac'', JNull),
        (''dispatch_state'', JStr ''not_attempted''),
        (''model_bytes'', model),
        (''overrun'', JBool False),
        (''process_instance_hmac'', JNull),
        (''provider_bytes'', provider),
        (''reserved_cost_usd'', JStr (format6 (ab_reserved b))),
        (''reserved_input_tokens'', JInt (ab_input_tokens b)),
        (''reserved_output_tokens'', JInt (ab_output_tokens b))])))))))"

definition admitted_row :: "policy_snapshot \<times> admission_budget \<Rightarrow> cost_row" where
  "admitted_row pair =
     (case pair of (s, b) \<Rightarrow>
       \<lparr>cw_component = ab_component b, cw_state = Not_Attempted, cw_fence = None, cw_process = None,
        cw_attempted = False, cw_count = 0, cw_reserved_in = ab_input_tokens b,
        cw_reserved_out = ab_output_tokens b, cw_actual_in = None, cw_actual_out = None,
        cw_reserved = ab_reserved b, cw_charged = 0, cw_basis = Basis_Zero, cw_overrun = False,
        cw_provider = ps_provider s, cw_model = ps_model s, cw_config_version = ps_model_config_version s,
        cw_config_hmac = ps_model_config_snapshot_hmac s, cw_cost_version = ps_cost_policy_version s,
        cw_estimator_version = ps_token_estimator_version s, cw_policy_hmac = ps_policy_snapshot_hmac s,
        cw_outcome = None\<rparr>)"

definition admitted_metadata :: "admission_request \<Rightarrow> string \<Rightarrow> metadata" where
  "admitted_metadata r runtime_hmac =
     map_of [(''configured_backend'', JStr (aq_backend r)),
             (''current_text_hmac'', JStr (aq_current_text_hmac r)),
             (''cutover_stage'', JStr (aq_stage r)),
             (''mode'', JStr (aq_mode r)),
             (''query_context_version'', JStr (aq_context_version r)),
             (''retrieval_query_hmac'', JStr (aq_query_hmac r)),
             (''runtime_cost_snapshot_hmac'', JStr runtime_hmac),
             (''security_scope_fingerprint'', JStr (aq_scope r)),
             (''surface'', JStr (aq_surface r))]"

definition admitted_run :: "admission_request \<Rightarrow> string \<Rightarrow> string \<Rightarrow> agent_run" where
  "admitted_run r admission_hmac runtime_hmac =
     \<lparr>ar_status = Running, ar_phase = Admission, ar_window = aq_window r,
      ar_cache_key = ''rag-v2-admission:'' @ admission_hmac,
      ar_estimated = ab_reserved (snd (aq_query r)) + ab_reserved (snd (aq_answer r)), ar_charged = 0,
      ar_owner_fence = None, ar_completed = None, ar_metadata = admitted_metadata r runtime_hmac\<rparr>"

text \<open>\<open>RagRunAdmission\<close>: the request and what the server computed for it.\<close>

record run_admission =
  ad_request :: admission_request
  ad_query_hmac :: "string option"
  ad_answer_hmac :: "string option"
  ad_identity_hmac :: string
  ad_reserved :: int
  ad_runtime_hmac :: string

text \<open>The checks of \<open>create_admission\<close> and the two identities it computes.\<close>

definition check_admission :: "ledger_authority \<Rightarrow> admission_request \<Rightarrow> (string \<times> string) result" where
  "check_admission A r =
     then_r (admission_source_window (aq_mode r) (aq_surface r) (aq_backend r)) (\<lambda>window.
     if \<not> admission_arguments_ok r window then Inl (Value_Error ''RAG admission is invalid'')
     else
     then_r (require_lower_hmac (aq_current_text_hmac r) ''identity'') (\<lambda>_.
     then_r (require_lower_hmac (aq_query_hmac r) ''identity'') (\<lambda>_.
     then_r (require_lower_hmac (aq_scope r) ''identity'') (\<lambda>_.
     then_r (check_component (la_policy A) r Query_Embedding (aq_query r)) (\<lambda>_.
     then_r (check_component (la_policy A) r Answer_Generation (aq_answer r)) (\<lambda>_.
     then_r (check_ceiling (la_policy A) (snd (aq_query r)) (snd (aq_answer r))) (\<lambda>_.
     then_r (request_identity A r) (\<lambda>admission_hmac.
     if aq_cache_identity r \<noteq> None \<and> aq_cache_identity r \<noteq> Some admission_hmac
     then Inl (Value_Error ''caller admission identity does not match server authority'')
     else
     then_r (admission_component_json (aq_query r)) (\<lambda>jq.
     then_r (admission_component_json (aq_answer r)) (\<lambda>ja.
     then_r (runtime_cost_identity (la_primitives A) (la_secret A)
               (runtime_cost_json (aq_run_id r) [jq, ja] 0
                  (ab_reserved (snd (aq_query r)) + ab_reserved (snd (aq_answer r))) None Admission
                  Running ''pre_projection'')) (\<lambda>runtime_hmac.
       Inr (admission_hmac, runtime_hmac))))))))))))"

text \<open>The insert fails when the id is taken or a constraint does not hold; then nothing is stored.\<close>

definition insertable :: "rag_db \<Rightarrow> int \<Rightarrow> agent_run \<Rightarrow> cost_row list \<Rightarrow> bool" where
  "insertable d run_id a rows \<longleftrightarrow>
     ld_runs d run_id = None \<and> run_id \<notin> ld_foreign d \<and> run_ok a rows"

definition record_budget ::
  "int \<Rightarrow> component \<Rightarrow> admission_budget \<Rightarrow> ledger \<Rightarrow> ledger" where
  "record_budget run_id c b L =
     (case b of
        Prepared p \<Rightarrow> L\<lparr>lg_budgets := (lg_budgets L)((run_id, c) \<mapsto> p)\<rparr>
      | Ceiling x \<Rightarrow> L\<lparr>lg_reservations := (lg_reservations L)(run_id \<mapsto> x)\<rparr>
      | Unused _ \<Rightarrow> L)"

definition record_snapshot :: "int \<Rightarrow> policy_snapshot \<Rightarrow> ledger \<Rightarrow> ledger" where
  "record_snapshot run_id s L =
     L\<lparr>lg_snapshots := (lg_snapshots L)((run_id, ps_component s) \<mapsto> s)\<rparr>"

definition create_admission ::
  "ledger_authority \<Rightarrow> ledger_io \<Rightarrow> admission_request \<Rightarrow> ledger \<Rightarrow> run_admission result \<times> ledger" where
  "create_admission A io r L =
     (let run_id = aq_run_id r; rows = [admitted_row (aq_query r), admitted_row (aq_answer r)] in
      transact
        (case check_admission A r of
           Inr (admission_hmac, runtime_hmac) \<Rightarrow>
             if insertable (lg_db L) run_id (admitted_run r admission_hmac runtime_hmac) rows
             then li_commit io else Not_Committed
         | Inl _ \<Rightarrow> li_commit io)
        (check_admission A r) (\<lambda>_. id)
        (\<lambda>(admission_hmac, runtime_hmac).
           let a = admitted_run r admission_hmac runtime_hmac; d = lg_db L in
           Inr (d\<lparr>ld_runs := (ld_runs d)(run_id \<mapsto> a), ld_rows := (ld_rows d)(run_id := rows)\<rparr>,
                \<lparr>ad_request = r, ad_query_hmac = used_query_hmac r, ad_answer_hmac = used_answer_hmac r,
                 ad_identity_hmac = admission_hmac, ad_reserved = ar_estimated a,
                 ad_runtime_hmac = runtime_hmac\<rparr>))
        (\<lambda>_ _. record_budget run_id Answer_Generation (snd (aq_answer r))
             \<circ> record_snapshot run_id (fst (aq_answer r))
             \<circ> record_budget run_id Query_Embedding (snd (aq_query r))
             \<circ> record_snapshot run_id (fst (aq_query r))) L)"

section \<open>The answer budget\<close>

text \<open>
  The prepared invocation and its model influence, as far as the ledger reads them: \<open>ap_payload\<close> is the
  signed payload of the invocation, \<open>ap_influence\<close> the verdict of \<open>verify_answer_model_influence\<close>,
  \<open>ap_graph_scopes\<close> the scopes of the nodes on the graph paths.
\<close>

record answer_projection =
  ap_budget :: prepared_budget
  ap_config_hmac :: string
  ap_rendered_hmac :: string
  ap_invocation_hmac :: string
  ap_payload :: json
  ap_query_hmac :: string
  ap_influence_rendered_hmac :: string
  ap_observation_hmac :: string
  ap_graph_scopes :: "string list"
  ap_influence :: "unit result"

definition check_projection :: "cost_policy \<Rightarrow> prepared_budget \<Rightarrow> answer_projection \<Rightarrow> unit result" where
  "check_projection p b x =
     (let invalid = Ledger_Error ''answer projection identity is invalid'' in
      if ap_budget x \<noteq> b \<or> ap_config_hmac x \<noteq> cp_answer_config_hmac p
         \<or> ap_rendered_hmac x \<noteq> ap_influence_rendered_hmac x
      then Inl invalid
      else then_r (sign_answer_artifact p ''prepared_invocation'' (ap_payload x)) (\<lambda>h.
        if ap_invocation_hmac x \<noteq> h then Inl invalid else ap_influence x))"

definition projection_identity :: "answer_projection option \<Rightarrow> (string \<times> json) list" where
  "projection_identity x =
     (case x of
        None \<Rightarrow> []
      | Some y \<Rightarrow>
          [(''rendered_input_hmac'', JStr (ap_rendered_hmac y)),
           (''answer_model_config_snapshot_hmac'', JStr (ap_config_hmac y)),
           (''prepared_model_influence_observation_hmac'', JStr (ap_observation_hmac y))])"

definition binding_fits :: "prepared_budget \<Rightarrow> answer_ceiling \<Rightarrow> bool" where
  "binding_fits b c \<longleftrightarrow>
     pb_component b = Answer_Generation \<and> pb_input_tokens b \<le> ac_input_tokens c
     \<and> pb_output_tokens b \<le> ac_output_tokens c \<and> pb_reserved_cost b \<le> ac_reserved_cost c
     \<and> pb_policy_hmac b = ac_policy_hmac c"

definition projection_unchanged :: "metadata \<Rightarrow> answer_projection option \<Rightarrow> unit result" where
  "projection_unchanged m x =
     (case x of
        None \<Rightarrow> Inr ()
      | Some y \<Rightarrow>
          if list_ex (\<lambda>s. JStr s \<noteq> md_get m ''security_scope_fingerprint'') (ap_graph_scopes y)
          then Inl (Ledger_Error ''graph influence scope changed'')
          else if JStr (ap_query_hmac y) \<noteq> md_get m ''retrieval_query_hmac''
                  \<or> list_ex (\<lambda>(k, _). md_get m k \<noteq> JNull) (projection_identity x)
          then Inl (Ledger_Error ''answer projection identity changed'')
          else Inr ())"

definition embedding_succeeded :: "cost_row \<Rightarrow> bool" where
  "embedding_succeeded q \<longleftrightarrow> cw_state q = Terminal \<and> cw_outcome q = Some Component_Succeeded"

definition answer_reserved_as :: "agent_run \<Rightarrow> cost_row \<Rightarrow> cost_row \<Rightarrow> answer_ceiling \<Rightarrow> bool" where
  "answer_reserved_as a q w c \<longleftrightarrow>
     ar_status a = Running \<and> ar_phase a = Admission
     \<and> \<not> component_is_unused (ar_metadata a) Answer_Generation
     \<and> cw_state w = Not_Attempted \<and> \<not> cw_attempted w \<and> cw_count w = 0 \<and> cw_charged w = 0
     \<and> cw_reserved_in w = ac_input_tokens c \<and> cw_reserved_out w = ac_output_tokens c
     \<and> cw_reserved w = ac_reserved_cost c \<and> cw_policy_hmac w = ac_policy_hmac c
     \<and> (md_get (ar_metadata a) ''configured_backend'' = JStr ''pgvector'' \<longrightarrow> embedding_succeeded q)"

text \<open>\<open>_require_terminal_cost_row\<close>.\<close>

definition require_terminal_cost_row :: "ledger \<Rightarrow> int \<Rightarrow> cost_row \<Rightarrow> unit result" where
  "require_terminal_cost_row L run_id w =
     (let changed = Ledger_Error ''terminal component cost changed'' in
      case lg_terminal_rows L (run_id, cw_component w) of
        None \<Rightarrow> Inl changed
      | Some expected \<Rightarrow>
          then_r (row_component_json w) (\<lambda>j. require (j = expected) changed))"

definition check_binding ::
  "ledger_authority \<Rightarrow> int \<Rightarrow> prepared_budget \<Rightarrow> answer_projection option \<Rightarrow> ledger
    \<Rightarrow> (agent_run \<times> cost_row \<times> cost_row) result" where
  "check_binding A run_id b x L =
     then_r (validate_prepared_budget (la_policy A) b) (\<lambda>_.
     then_r (case x of None \<Rightarrow> Inr () | Some y \<Rightarrow> check_projection (la_policy A) b y) (\<lambda>_.
     case lg_reservations L run_id of
       None \<Rightarrow> Inl (Ledger_Error ''answer ceiling binding is unavailable'')
     | Some c \<Rightarrow>
         if \<not> binding_fits b c then Inl (Ledger_Error ''answer ceiling binding is unavailable'')
         else
         then_r (locked_run (lg_db L) run_id) (\<lambda>(a, q, w).
         then_r (projection_unchanged (ar_metadata a) x) (\<lambda>_.
         if \<not> answer_reserved_as a q w c then Inl (Ledger_Error ''durable answer reservation changed'')
         else
         then_r (if md_get (ar_metadata a) ''configured_backend'' = JStr ''pgvector''
                 then require_terminal_cost_row L run_id q else Inr ()) (\<lambda>_.
         Inr (a, q, w))))))"

definition bound_row :: "prepared_budget \<Rightarrow> cost_row \<Rightarrow> cost_row" where
  "bound_row b w =
     w\<lparr>cw_reserved_in := pb_input_tokens b, cw_reserved_out := pb_output_tokens b,
       cw_reserved := pb_reserved_cost b\<rparr>"

definition bind_answer_budget ::
  "ledger_authority \<Rightarrow> ledger_io \<Rightarrow> int \<Rightarrow> prepared_budget \<Rightarrow> answer_projection option \<Rightarrow> ledger
    \<Rightarrow> unit result \<times> ledger" where
  "bind_answer_budget A io run_id b x L =
     transact (li_commit io) (check_binding A run_id b x L)
       (\<lambda>_ L. L\<lparr>lg_reservations := (lg_reservations L)(run_id := None)\<rparr>)
       (\<lambda>(a, q, w).
          let w' = bound_row b w in
          then_r (run_cost_identity A run_id [q, w'] None Admission Running ''pre_projection'') (\<lambda>h.
          Inr (store_run (lg_db L) run_id
                 (a\<lparr>ar_estimated := total_reserved [q, w'],
                    ar_metadata := (ar_metadata a ++ map_of (projection_identity x))
                      (''runtime_cost_snapshot_hmac'' \<mapsto> JStr h)\<rparr>) q w', ())))
       (\<lambda>_ _ L. L\<lparr>lg_budgets := (lg_budgets L)((run_id, Answer_Generation) \<mapsto> b)\<rparr>) L"

section \<open>Claims\<close>

definition claim_unavailable :: error where
  "claim_unavailable = Ledger_Error ''committed exact-two admission is unavailable''"

definition row_claimable :: "component \<Rightarrow> prepared_budget \<Rightarrow> cost_row \<Rightarrow> bool" where
  "row_claimable c b w \<longleftrightarrow>
     cw_state w = Not_Attempted \<and> pb_component b = c \<and> cw_reserved_in w = pb_input_tokens b
     \<and> cw_reserved_out w = pb_output_tokens b \<and> cw_reserved w = pb_reserved_cost b
     \<and> cw_policy_hmac w = pb_policy_hmac b"

text \<open>
  The safety authority is asked before anything is written. A refusal releases the read transaction; an
  inspection that fails does not.
\<close>

definition claim_safety :: "ledger_authority \<Rightarrow> bool \<Rightarrow> safety \<Rightarrow> component \<Rightarrow> policy_snapshot \<Rightarrow> safety_binding result"
where
  "claim_safety A released s c snapshot =
     (case require_ready (la_safety A) s c snapshot of
        Inr binding \<Rightarrow> Inr binding
      | Inl (Safety_Inspection_Error _) \<Rightarrow> Inl (Ledger_Error ''provider safety inspection failed'')
      | Inl e \<Rightarrow>
          if is_safety_error e
          then (if released then Inl (Preclaim_Safety_Refusal ''provider safety refused claim'')
                else Inl (Persistence_Error ''preclaim read transaction release failed''))
          else Inl (Ledger_Error ''provider safety authority is unavailable''))"

definition claim_fence_json ::
  "int \<Rightarrow> component \<Rightarrow> string \<Rightarrow> json \<Rightarrow> string \<Rightarrow> string \<Rightarrow> json \<Rightarrow> json" where
  "claim_fence_json run_id c nonce prepared_input process safety_hmac query = JObj
     [(''agent_run_id'', JInt run_id),
      (''approval_hmac'', JNull),
      (''approval_id_hmac'', JNull),
      (''case_id_hmac'', JNull),
      (''component'', JStr (component_name c)),
      (''dispatch_count'', JInt 1),
      (''dispatch_nonce_hex'', JStr nonce),
      (''prepared_input_hmac'', prepared_input),
      (''process_instance_hmac'', JStr process),
      (''provider_safety_snapshot_hmac'', JStr safety_hmac),
      (''release_to_generation'', JNull),
      (''retrieval_query_hmac'', query)]"

definition claimed_row :: "string \<Rightarrow> string \<Rightarrow> cost_row \<Rightarrow> cost_row" where
  "claimed_row fence process w =
     w\<lparr>cw_state := Dispatching, cw_fence := Some fence, cw_process := Some process, cw_attempted := True,
       cw_count := 1, cw_charged := cw_reserved w, cw_basis := Basis_Reserved\<rparr>"

definition replace_pick :: "component \<Rightarrow> cost_row \<Rightarrow> cost_row \<times> cost_row \<Rightarrow> cost_row \<times> cost_row" where
  "replace_pick c x qw = (case c of Query_Embedding \<Rightarrow> (x, snd qw) | Answer_Generation \<Rightarrow> (fst qw, x))"

definition check_claim ::
  "ledger_authority \<Rightarrow> ledger_io \<Rightarrow> int \<Rightarrow> component \<Rightarrow> prepared_budget \<Rightarrow> ledger
    \<Rightarrow> (agent_run \<times> cost_row \<times> cost_row \<times> safety_binding \<times> string) result" where
  "check_claim A io run_id c b L =
     then_r (validate_prepared_budget (la_policy A) b) (\<lambda>_.
     if lg_budgets L (run_id, c) = None
     then Inl (Ledger_Error ''concrete component budget is unavailable'')
     else case locked_run (lg_db L) run_id of Inl _ \<Rightarrow> Inl claim_unavailable
     | Inr (a, q, w) \<Rightarrow>
       if ar_status a \<noteq> Running \<or> ar_phase a \<noteq> Admission then Inl claim_unavailable
       else if component_is_unused (ar_metadata a) c
       then Inl (Ledger_Error ''component is unused by the admitted route'')
       else if c = Answer_Generation \<and> md_get (ar_metadata a) ''configured_backend'' = JStr ''pgvector''
               \<and> \<not> embedding_succeeded q
       then Inl (Ledger_Error ''component claim order is invalid'')
       else case lg_snapshots L (run_id, c) of
         None \<Rightarrow> Inl (Ledger_Error ''component claim authority is stale'')
       | Some snapshot \<Rightarrow>
         (let row = pick c q w in
          if \<not> row_claimable c b row then Inl (Ledger_Error ''component claim authority is stale'')
          else
          then_r (require_authorized_policy_snapshot (la_policy A) (component_name c) (cw_policy_hmac row)) (\<lambda>_.
          then_r (claim_safety A (li_released io) (lg_safety L) c snapshot) (\<lambda>binding.
          then_r (md_required (ar_metadata a) ''retrieval_query_hmac'') (\<lambda>query.
          then_r (dispatch_fence_identity (la_primitives A) (la_secret A)
                    (claim_fence_json run_id c (li_nonce io)
                       (if c = Query_Embedding then query else JStr (pb_estimator_hmac b))
                       (la_process A) (sb_provider_safety_snapshot_hmac binding) query)) (\<lambda>fence.
            Inr (a, q, w, binding, fence)))))))"

text \<open>The value of a claim is the identity of a new grant object.\<close>

definition claim_component ::
  "ledger_authority \<Rightarrow> ledger_io \<Rightarrow> int \<Rightarrow> component \<Rightarrow> prepared_budget \<Rightarrow> ledger \<Rightarrow> nat result \<times> ledger"
where
  "claim_component A io run_id c b L =
     transact (li_commit io) (check_claim A io run_id c b L) (\<lambda>_. id)
       (\<lambda>(a, q, w, binding, fence).
          let (q', w') = replace_pick c (claimed_row fence (la_process A) (pick c q w)) (q, w) in
          Inr (store_run (lg_db L) run_id (a\<lparr>ar_charged := total_charged [q', w']\<rparr>) q' w', lg_next L))
       (\<lambda>(a, q, w, binding, fence) g L. L\<lparr>
          lg_grants := (lg_grants L)(g \<mapsto>
            \<lparr>gr_run_id = run_id, gr_component = c, gr_reserved = cw_reserved (pick c q w), gr_fence = fence,
             gr_safety_hmac = sb_provider_safety_snapshot_hmac binding, gr_consumed = False\<rparr>),
          lg_next := g + 1,
          lg_active := (lg_active L)((run_id, c) \<mapsto> g),
          lg_bindings := (lg_bindings L)((run_id, c) \<mapsto> binding)\<rparr>) L"

section \<open>Dispatch\<close>

abbreviation grant_key :: "grant \<Rightarrow> int \<times> component" where
  "grant_key g \<equiv> (gr_run_id g, gr_component g)"

text \<open>\<open>consume_at_dispatch\<close>: a grant is consumed once.\<close>

definition consume_committed_grant :: "nat \<Rightarrow> ledger \<Rightarrow> unit result \<times> ledger" where
  "consume_committed_grant gid L =
     (case lg_grants L gid of
        None \<Rightarrow> (Inl (Ledger_Error ''dispatch grant is invalid''), L)
      | Some g \<Rightarrow>
          if lg_active L (grant_key g) \<noteq> Some gid
          then (Inl (Ledger_Error ''dispatch grant is not store-owned''), L)
          else if gr_consumed g then (Inl (Ledger_Error ''dispatch grant is already consumed''), L)
          else (Inr (), L\<lparr>lg_grants := (lg_grants L)(gid \<mapsto> g\<lparr>gr_consumed := True\<rparr>)\<rparr>))"

definition dispatch_row_current :: "grant \<Rightarrow> agent_run \<Rightarrow> cost_row \<Rightarrow> bool" where
  "dispatch_row_current g a row \<longleftrightarrow>
     ar_status a = Running \<and> ar_phase a = Admission \<and> ar_owner_fence a = None
     \<and> cw_state row = Dispatching \<and> cw_count row = 1 \<and> cw_attempted row
     \<and> (case cw_fence row of None \<Rightarrow> [] | Some f \<Rightarrow> f) = gr_fence g"

definition consume_transport_grant ::
  "nat \<Rightarrow> coordinator \<Rightarrow> lock_capability \<Rightarrow> ledger \<Rightarrow> unit result \<times> ledger" where
  "consume_transport_grant gid order cap L =
     (case require_stage order cap ''agent_run_cost'' of
        Inl e \<Rightarrow> (Inl e, L)
      | Inr _ \<Rightarrow>
          (case lg_grants L gid of
             None \<Rightarrow> (Inl (Ledger_Error ''dispatch grant is invalid''), L)
           | Some g \<Rightarrow>
               (case locked_run (lg_db L) (gr_run_id g) of
                  Inl _ \<Rightarrow> (Inl (Ledger_Error ''durable dispatch row changed before send''), L)
                | Inr (a, q, w) \<Rightarrow>
                    if dispatch_row_current g a (pick (gr_component g) q w)
                    then consume_committed_grant gid L
                    else (Inl (Ledger_Error ''durable dispatch row changed before send''), L))))"

text \<open>\<open>_transport_context\<close>: what a live grant gives the provider transport.\<close>

definition transport_context ::
  "ledger \<Rightarrow> nat \<Rightarrow> (policy_snapshot \<times> safety_binding \<times> prepared_budget \<times> string \<times> string) result" where
  "transport_context L gid =
     (case lg_grants L gid of
        None \<Rightarrow> Inl (Ledger_Error ''dispatch grant is invalid'')
      | Some g \<Rightarrow>
          (let k = grant_key g in
           case (lg_snapshots L k, lg_bindings L k, lg_budgets L k, ld_runs (lg_db L) (gr_run_id g)) of
             (Some snapshot, Some binding, Some b, Some a) \<Rightarrow>
               if lg_active L k \<noteq> Some gid \<or> gr_consumed g
               then Inl (Ledger_Error ''dispatch grant is not transport-authorized'')
               else (case (md_get (ar_metadata a) ''retrieval_query_hmac'',
                           md_get (ar_metadata a) ''query_context_version'') of
                       (JStr query, version) \<Rightarrow>
                         then_r (require_lower_hmac query ''retrieval_query_hmac'') (\<lambda>_.
                           case version of
                             JStr v \<Rightarrow>
                               if v \<in> set [''direct-query:v1'', ''assistant-context:v1'']
                               then Inr (snapshot, binding, b, query, v)
                               else Inl (Ledger_Error ''request query context is invalid'')
                           | _ \<Rightarrow> Inl (Ledger_Error ''request query context is invalid''))
                     | _ \<Rightarrow> Inl (Identity_Error ''retrieval_query_hmac must be a lowercase SHA-256 HMAC''))
           | _ \<Rightarrow> Inl (Ledger_Error ''dispatch grant is not transport-authorized'')))"

definition require_shadow_legacy_embedding_grant :: "ledger \<Rightarrow> nat \<Rightarrow> unit result" where
  "require_shadow_legacy_embedding_grant L gid =
     then_r (transport_context L gid) (\<lambda>_.
     case lg_grants L gid of
       None \<Rightarrow> Inl (Ledger_Error ''shadow legacy grant is invalid'')
     | Some g \<Rightarrow>
       (case ld_runs (lg_db L) (gr_run_id g) of
          None \<Rightarrow> Inl (Ledger_Error ''shadow legacy grant is unavailable'')
        | Some a \<Rightarrow>
            require (gr_component g = Query_Embedding \<and> ar_status a = Running \<and> ar_phase a = Admission
              \<and> md_get (ar_metadata a) ''mode'' = JStr ''shadow''
              \<and> md_get (ar_metadata a) ''configured_backend'' = JStr ''pgvector''
              \<and> (case md_get (ar_metadata a) ''surface'' of
                     JStr s \<Rightarrow> ar_window a = ''rag-v2:admission:shadow:'' @ s @ '':pgvector'' | _ \<Rightarrow> False))
              (Ledger_Error ''shadow legacy grant is unavailable'')))"

section \<open>Finalisation of a component\<close>

datatype outcome_basis = Needs_Actual | Needs_Reserved | Either_Basis

text \<open>The rows of the matrix in \<open>_validate_outcome\<close>.\<close>

fun outcome_matrix ::
  "component \<Rightarrow> classification \<Rightarrow> (outcome \<times> bool \<times> bool \<times> outcome_basis \<times> safety_action) option" where
  "outcome_matrix c Validated_Success = Some (Component_Succeeded, True, True, Needs_Actual, Unchanged)"
| "outcome_matrix c Response_Less_Failure =
     Some ((if c = Query_Embedding then Retriever_Unavailable else Model_Provider_Failed),
           True, False, Needs_Reserved, Unchanged)"
| "outcome_matrix c Response_Identity_Invalid =
     Some (Provider_Response_Identity_Invalid, True, True, Either_Basis, Block_Remediation)"
| "outcome_matrix c Embedding_Payload_Invalid =
     Some (Provider_Embedding_Payload_Invalid, True, True, Either_Basis, Block_Remediation)"
| "outcome_matrix c Usage_Contract_Invalid =
     Some (Provider_Safety_Unavailable, True, True, Needs_Reserved, Block_Remediation)"
| "outcome_matrix c Usage_Storage_Invalid =
     Some (Provider_Safety_Unavailable, True, True, Needs_Reserved, Block_Remediation)"
| "outcome_matrix c Known_Overrun = Some (Provider_Usage_Overrun, True, True, Needs_Actual, Block_Overrun)"
| "outcome_matrix c Structured_Output_Invalid =
     Some (Structured_Output_Bad, True, True, Needs_Actual, Unchanged)"
| "outcome_matrix c Citation_Validation_Failed =
     Some (Citation_Validation_Bad, True, True, Needs_Actual, Unchanged)"
| "outcome_matrix c Evidence_Validation_Failed =
     Some (Evidence_Unavailable, True, True, Needs_Actual, Unchanged)"
| "outcome_matrix c Pre_Send_Refusal = None"

definition validate_outcome :: "observation \<Rightarrow> unit result" where
  "validate_outcome ob =
     (case outcome_matrix (ob_component ob) (ob_classification ob) of
        None \<Rightarrow> Inl (Value_Error ''provider outcome classification is not finalizable'')
      | Some (terminal, started, received, basis, action) \<Rightarrow>
          (let has_actual = ob_strict_usage ob \<noteq> None \<and> ob_actual_cost ob \<noteq> None in
           require (ob_terminal_outcome ob = terminal \<and> ob_dispatch_started ob = started
               \<and> ob_response_received ob = received \<and> ob_safety_action ob = action
               \<and> (basis = Needs_Actual \<longrightarrow> has_actual) \<and> (basis = Needs_Reserved \<longrightarrow> \<not> has_actual)
               \<and> (ob_strict_usage ob = None) = (ob_actual_cost ob = None))
             (Value_Error ''provider outcome classification is inconsistent'')))"

text \<open>The charge the policy computes for the reported usage; the reported cost must be that charge.\<close>

definition expected_charge :: "cost_policy \<Rightarrow> observation \<Rightarrow> int option result" where
  "expected_charge p ob =
     (if (ob_actual_cost ob = None) \<noteq> (ob_strict_usage ob = None)
      then Inl (Value_Error ''actual cost and strict usage must appear together'')
      else case ob_strict_usage ob of
        None \<Rightarrow> Inr None
      | Some usage \<Rightarrow>
          then_r (charge_actual p (component_name (ob_component ob)) usage) (\<lambda>m.
            if ob_actual_cost ob \<noteq> Some m
            then Inl (Value_Error ''actual provider cost does not match authority'')
            else Inr (Some m)))"

definition observed_overrun ::
  "cost_policy \<Rightarrow> observation \<Rightarrow> prepared_budget \<Rightarrow> int option \<Rightarrow> bool result" where
  "observed_overrun p ob b expected =
     (case (ob_strict_usage ob, expected) of
        (Some usage, Some m) \<Rightarrow>
          if input_tokens usage > pb_input_tokens b \<or> output_tokens usage > pb_output_tokens b
             \<or> m > pb_reserved_cost b
          then Inr True
          else usage_exceeds_authorized_cap p (component_name (ob_component ob)) usage
      | _ \<Rightarrow> Inr False)"

fun remediation_category :: "classification \<Rightarrow> string option" where
  "remediation_category Response_Identity_Invalid = Some ''provider_response_identity_invalid''"
| "remediation_category Embedding_Payload_Invalid = Some ''provider_embedding_payload_invalid''"
| "remediation_category Usage_Contract_Invalid = Some ''provider_safety_unavailable''"
| "remediation_category Usage_Storage_Invalid = Some ''provider_safety_unavailable''"
| "remediation_category _ = None"

text \<open>The call of the safety service: its verdict, and the authority it leaves.\<close>

definition finalize_safety ::
  "ledger_authority \<Rightarrow> safety_io \<Rightarrow> int \<Rightarrow> observation \<Rightarrow> int \<Rightarrow> int option \<Rightarrow> policy_snapshot
    \<Rightarrow> safety_binding \<Rightarrow> safety \<Rightarrow> unit result \<times> safety" where
  "finalize_safety A sio run_id ob reserved expected snapshot binding s =
     (let S = la_safety A; c = ob_component ob;
          inp = (case ob_strict_usage ob of None \<Rightarrow> 0 | Some u \<Rightarrow> input_tokens u);
          out = (case ob_strict_usage ob of None \<Rightarrow> 0 | Some u \<Rightarrow> output_tokens u)
      in case ob_safety_action ob of
           Block_Overrun \<Rightarrow> block_overrun S sio c run_id inp out (the expected) s
         | Block_Remediation \<Rightarrow>
             (case remediation_category (ob_classification ob) of
                None \<Rightarrow> (Inl (Key_Error ''category''), s)
              | Some category \<Rightarrow>
                  block_remediation S sio c category run_id inp out
                    (case expected of None \<Rightarrow> reserved | Some m \<Rightarrow> m) s)
         | Unchanged \<Rightarrow>
             (then_r (revalidate S s c snapshot (Some binding)) (\<lambda>_. Inr ()), s))"

definition settled_row :: "observation \<Rightarrow> bool \<Rightarrow> cost_row \<Rightarrow> cost_row" where
  "settled_row ob overrun w =
     (let w1 = w\<lparr>cw_state := (if ob_terminal_outcome ob = Abandoned_Unknown then Abandoned else Terminal),
                cw_outcome := Some (ob_terminal_outcome ob)\<rparr>
      in case (ob_actual_cost ob, ob_strict_usage ob) of
           (Some m, Some u) \<Rightarrow>
             w1\<lparr>cw_actual_in := Some (input_tokens u), cw_actual_out := Some (output_tokens u),
                cw_charged := m, cw_basis := Basis_Actual, cw_overrun := overrun\<rparr>
         | _ \<Rightarrow>
             w1\<lparr>cw_actual_in := None, cw_actual_out := None, cw_charged := cw_reserved w,
                cw_basis := Basis_Reserved, cw_overrun := False\<rparr>)"

definition close_sibling :: "agent_run \<Rightarrow> observation \<Rightarrow> cost_row \<Rightarrow> cost_row" where
  "close_sibling a ob w =
     (if cw_state w = Not_Attempted
         \<and> (ob_classification ob \<noteq> Validated_Success \<or> component_is_unused (ar_metadata a) (cw_component w))
      then make_terminal_zero w else w)"

definition is_closed :: "cost_row \<Rightarrow> bool" where
  "is_closed w \<longleftrightarrow> cw_state w \<in> {Terminal, Abandoned}"

text \<open>Phase 1 of a successful run: the owner fence and the signed costs.\<close>

definition pending_run ::
  "ledger_authority \<Rightarrow> string \<Rightarrow> int \<Rightarrow> agent_run \<Rightarrow> cost_row \<Rightarrow> cost_row \<Rightarrow> string \<Rightarrow> agent_run result" where
  "pending_run A nonce run_id a q w process =
     then_r (projection_owner_fence A nonce run_id process) (\<lambda>fence.
     then_r (run_cost_identity A run_id [q, w] None Pending_Projection Running ''pre_projection'') (\<lambda>h.
       Inr (a\<lparr>ar_phase := Pending_Projection, ar_owner_fence := Some fence,
              ar_metadata := (ar_metadata a)(''runtime_cost_snapshot_hmac'' \<mapsto> JStr h)\<rparr>)))"

definition pending_identity :: "agent_run \<Rightarrow> json \<times> json \<times> json" where
  "pending_identity a =
     (json_opt (ar_owner_fence a), md_get (ar_metadata a) ''security_scope_fingerprint'',
      md_get (ar_metadata a) ''runtime_cost_snapshot_hmac'')"

text \<open>What \<open>finalize_component\<close> establishes before it asks the safety service.\<close>

definition preview_finalization ::
  "ledger_authority \<Rightarrow> nat \<Rightarrow> observation \<Rightarrow> ledger
    \<Rightarrow> (grant \<times> int \<times> int option \<times> bool \<times> policy_snapshot \<times> safety_binding) result" where
  "preview_finalization A gid ob L =
     (case lg_grants L gid of
        None \<Rightarrow> Inl (Ledger_Error ''dispatch grant is not active'')
      | Some g \<Rightarrow>
        (let k = grant_key g in
         if lg_active L k \<noteq> Some gid then Inl (Ledger_Error ''dispatch grant is not active'')
         else if \<not> gr_consumed g then Inl (Ledger_Error ''dispatch grant was not consumed by transport'')
         else
         then_r (validate_outcome ob) (\<lambda>_.
         case List.find (\<lambda>w. cw_component w = gr_component g) (ld_rows (lg_db L) (gr_run_id g)) of
           None \<Rightarrow> Inl (Ledger_Error ''dispatch row is not finalizable'')
         | Some row \<Rightarrow>
           if cw_state row \<noteq> Dispatching
              \<or> (case cw_fence row of None \<Rightarrow> [] | Some f \<Rightarrow> f) \<noteq> gr_fence g
           then Inl (Ledger_Error ''dispatch row is not finalizable'')
           else if \<not> ob_dispatch_started ob
           then Inl (Value_Error ''claimed provider component must be attempted'')
           else
           then_r (expected_charge (la_policy A) ob) (\<lambda>expected.
           case lg_budgets L k of
             None \<Rightarrow> Inl (Ledger_Error ''prepared provider budget is unavailable'')
           | Some b \<Rightarrow>
             then_r (observed_overrun (la_policy A) ob b expected) (\<lambda>overrun.
             if overrun \<noteq> (ob_classification ob = Known_Overrun)
             then Inl (Value_Error ''provider overrun classification is inconsistent'')
             else case (lg_bindings L k, lg_snapshots L k) of
               (Some binding, Some snapshot) \<Rightarrow>
                 Inr (g, cw_reserved row, expected, overrun, snapshot, binding)
             | _ \<Rightarrow> Inl (Ledger_Error ''provider safety binding is unavailable''))))))"

text \<open>The row and its parent read again, under their locks.\<close>

definition reload_finalization :: "grant \<Rightarrow> int \<Rightarrow> ledger \<Rightarrow> (agent_run \<times> cost_row \<times> cost_row) result" where
  "reload_finalization g reserved L =
     (case locked_run (lg_db L) (gr_run_id g) of
        Inl _ \<Rightarrow> Inl (Ledger_Error ''dispatch row changed before finalization'')
      | Inr (a, q, w) \<Rightarrow>
          (let row = pick (gr_component g) q w in
           if cw_state row \<noteq> Dispatching \<or> (case cw_fence row of None \<Rightarrow> [] | Some f \<Rightarrow> f) \<noteq> gr_fence g
              \<or> cw_reserved row \<noteq> reserved
           then Inl (Ledger_Error ''dispatch row changed before finalization'')
           else Inr (a, q, w)))"

definition drop_grant :: "int \<times> component \<Rightarrow> ledger \<Rightarrow> ledger" where
  "drop_grant k L =
     L\<lparr>lg_active := (lg_active L)(k := None), lg_bindings := (lg_bindings L)(k := None)\<rparr>"

text \<open>The run with its new total, and the two rows: the observed one settled, then an unused or useless one
  closed.\<close>

definition settle_rows ::
  "component \<Rightarrow> observation \<Rightarrow> bool \<Rightarrow> agent_run \<Rightarrow> cost_row \<Rightarrow> cost_row
    \<Rightarrow> agent_run \<times> cost_row \<times> cost_row" where
  "settle_rows c ob overrun a q w =
     (let (q', w') = replace_pick c (settled_row ob overrun (pick c q w)) (q, w)
      in (a\<lparr>ar_charged := total_charged [q', w']\<rparr>, close_sibling a ob q', close_sibling a ob w'))"

definition owner_process :: "cost_row \<Rightarrow> cost_row \<Rightarrow> string result" where
  "owner_process q w =
     (case (cw_process q, cw_process w) of
        (Some p, _) \<Rightarrow> Inr p
      | (None, Some p) \<Rightarrow> Inr p
      | _ \<Rightarrow> Inl (Runtime_Error ''StopIteration''))"

definition settle_run ::
  "ledger_authority \<Rightarrow> ledger_io \<Rightarrow> int \<Rightarrow> observation \<Rightarrow> agent_run \<Rightarrow> cost_row \<Rightarrow> cost_row
    \<Rightarrow> agent_run result" where
  "settle_run A io run_id ob a q w =
     (if is_closed q \<and> is_closed w then
        (if ob_classification ob \<noteq> Validated_Success
         then then_r (finalize_failed_run A (li_now io) run_id a q w (ob_terminal_outcome ob) None False)
                (\<lambda>(a', _). Inr a')
         else then_r (owner_process q w) (\<lambda>process.
                pending_run A (li_nonce io) run_id a q w process))
      else Inr a)"

text \<open>The transaction of \<open>finalize_component\<close>, and what the process keeps of a successful component.\<close>

definition keep_terminal ::
  "int \<times> component \<Rightarrow> safety_binding \<Rightarrow> cost_row \<Rightarrow> agent_run \<Rightarrow> ledger \<Rightarrow> ledger" where
  "keep_terminal k binding w a L =
     L\<lparr>lg_terminal_bindings := (lg_terminal_bindings L)(k \<mapsto> binding),
       lg_terminal_rows := (case row_component_json w of
          Inl _ \<Rightarrow> lg_terminal_rows L
        | Inr j \<Rightarrow> (lg_terminal_rows L)(k \<mapsto> j)),
       lg_pending := (if ar_phase a = Pending_Projection
          then (lg_pending L)(fst k \<mapsto> pending_identity a)
          else lg_pending L)\<rparr>"

definition commit_finalization ::
  "ledger_authority \<Rightarrow> ledger_io \<Rightarrow> grant \<Rightarrow> int \<Rightarrow> observation \<Rightarrow> bool \<Rightarrow> safety_binding \<Rightarrow> ledger
    \<Rightarrow> (agent_run \<times> component_final) result \<times> ledger" where
  "commit_finalization A io g reserved ob overrun binding L =
     (let k = grant_key g; c = gr_component g; run_id = gr_run_id g;
          success = (ob_classification ob = Validated_Success) in
      transact (li_commit io)
        (then_r (reload_finalization g reserved L) (\<lambda>(a, q, w). Inr (settle_rows c ob overrun a q w)))
        (\<lambda>(a, q, w). if is_closed q \<and> is_closed w \<and> \<not> success then drop_grant k else id)
        (\<lambda>(a, q, w).
           then_r (settle_run A io run_id ob a q w) (\<lambda>a'.
           then_r (component_final_of run_id a' (pick c q w)) (\<lambda>f.
           Inr (store_run (lg_db L) run_id a' q w, (a', f)))))
        (\<lambda>(a, q, w) (a', f) L.
           drop_grant k (if success then keep_terminal k binding (pick c q w) a' L else L)) L)"

definition finalize_component ::
  "ledger_authority \<Rightarrow> ledger_io \<Rightarrow> safety_io \<Rightarrow> nat \<Rightarrow> observation \<Rightarrow> ledger
    \<Rightarrow> component_final result \<times> observation \<times> ledger" where
  "finalize_component A io sio gid ob L =
     (if (case lg_grants L gid of None \<Rightarrow> True | Some g \<Rightarrow> ob_component ob \<noteq> gr_component g)
      then (Inl (Value_Error ''provider outcome is invalid''), ob, L)
      else case consume_observation ob of
        Inl e \<Rightarrow> (Inl e, ob, L)
      | Inr ob' \<Rightarrow>
        (case preview_finalization A gid ob' L of
           Inl e \<Rightarrow> (Inl e, ob', L)
         | Inr (g, reserved, expected, overrun, snapshot, binding) \<Rightarrow>
           (let (verdict, s') = finalize_safety A sio (gr_run_id g) ob' reserved expected snapshot binding
                                  (lg_safety L);
                L1 = L\<lparr>lg_safety := s'\<rparr> in
            case verdict of
              Inl _ \<Rightarrow> (Inl (Ledger_Error ''provider safety finalization did not complete''), ob', L1)
            | Inr _ \<Rightarrow>
              (let (r, L2) = commit_finalization A io g reserved ob' overrun binding L1
               in (then_r r (\<lambda>(_, f). Inr f), ob', L2)))))"

section \<open>The pending projection\<close>

record projection_pending =
  pp_run_id :: int
  pp_owner_fence :: string
  pp_scope :: string
  pp_corpus_generation :: int
  pp_vector_generation :: "int option"
  pp_cost_hmac :: string

text \<open>\<open>RagProjectionPending.__post_init__\<close>.\<close>

definition make_projection_pending ::
  "int \<Rightarrow> json \<times> json \<times> json \<Rightarrow> int \<Rightarrow> int option \<Rightarrow> projection_pending result" where
  "make_projection_pending run_id identity corpus vector =
     (if run_id \<le> 0 then Inl (Value_Error ''pending projection parent is invalid'')
      else case identity of
        (JStr fence, JStr scope, JStr h) \<Rightarrow>
          if \<not> is_lower_hex_64 fence \<or> \<not> is_lower_hex_64 scope \<or> \<not> is_lower_hex_64 h
          then Inl (Value_Error ''pending projection identity is invalid'')
          else if corpus < 0 \<or> (case vector of None \<Rightarrow> False | Some v \<Rightarrow> v < 0)
          then Inl (Value_Error ''pending projection generation is invalid'')
          else Inr \<lparr>pp_run_id = run_id, pp_owner_fence = fence, pp_scope = scope,
                    pp_corpus_generation = corpus, pp_vector_generation = vector, pp_cost_hmac = h\<rparr>
      | _ \<Rightarrow> Inl (Value_Error ''pending projection identity is invalid''))"

definition current_pending_identity ::
  "ledger_authority \<Rightarrow> int \<Rightarrow> cost_row \<Rightarrow> cost_row \<Rightarrow> string result" where
  "current_pending_identity A run_id q w =
     run_cost_identity A run_id [q, w] None Pending_Projection Running ''pre_projection''"

definition load_pending_projection ::
  "ledger_authority \<Rightarrow> int \<Rightarrow> int \<Rightarrow> int option \<Rightarrow> ledger \<Rightarrow> projection_pending result" where
  "load_pending_projection A run_id corpus vector L =
     (case lg_pending L run_id of
        None \<Rightarrow> Inl (Ledger_Error ''request-owned pending projection is unavailable'')
      | Some expected \<Rightarrow>
          then_r (locked_run (lg_db L) run_id) (\<lambda>(a, q, w).
          then_r (current_pending_identity A run_id q w) (\<lambda>snapshot.
          if pending_identity a \<noteq> expected \<or> JStr snapshot \<noteq> snd (snd expected)
             \<or> ar_status a \<noteq> Running \<or> ar_phase a \<noteq> Pending_Projection \<or> ar_completed a \<noteq> None
             \<or> cw_state q \<noteq> Terminal \<or> cw_state w \<noteq> Terminal
             \<or> ar_charged a \<noteq> total_charged [q, w]
          then Inl (Ledger_Error ''committed pending projection changed'')
          else make_projection_pending run_id expected corpus vector)))"

text \<open>
  \<open>_safe_pending_owner\<close>: the locks in the audited order, with the finalisation barrier around the body
  when components were paid. The first result is what entering gives, the second what leaving checks.
\<close>

definition owner_order :: "(coordinator \<times> lock_capability \<times> lock_capability) result" where
  "owner_order =
     then_r (begin_rag_lock_order 0 ''ordinary'') (\<lambda>o0.
     then_r (acquire_stage o0 ''provider_stable_sidecar'') (\<lambda>(sidecar, o1).
     then_r (acquire_stage o1 ''provider_safety_rows'') (\<lambda>(safety_rows, o2).
       Inr (o2, sidecar, safety_rows))))"

definition terminal_requirements ::
  "ledger \<Rightarrow> int \<Rightarrow> component list \<Rightarrow> (policy_snapshot \<times> safety_binding) list result" where
  "terminal_requirements L run_id cs =
     (case all_some (map (\<lambda>c. lg_terminal_bindings L (run_id, c)) cs) of
        None \<Rightarrow> Inl (Ledger_Error ''terminal paid authority is unavailable'')
      | Some bs \<Rightarrow> Inr (map (\<lambda>x. (sb_policy_snapshot x, x)) bs))"

fun acquire_all :: "coordinator \<Rightarrow> string list \<Rightarrow> coordinator result" where
  "acquire_all order [] = Inr order"
| "acquire_all order (stage # rest) = then_r (acquire_stage order stage) (\<lambda>(_, later). acquire_all later rest)"

definition enter_pending_owner ::
  "ledger_authority \<Rightarrow> ledger \<Rightarrow> int \<Rightarrow> component list \<Rightarrow> unit result \<Rightarrow> unit result \<times> unit result" where
  "enter_pending_owner A L run_id paid snapshot_check =
     (let barrier = then_r owner_order (\<lambda>(order, sidecar, rows).
            if paid = [] then Inr (order, [], [])
            else then_r (terminal_requirements L run_id paid) (\<lambda>reqs.
                 then_r (finalization_entry (la_safety A) (lg_safety L) reqs order sidecar rows) (\<lambda>fresh.
                   Inr (order, reqs, fresh))))
      in (then_r barrier (\<lambda>(order, _, _).
            then_r (acquire_stage order ''projection_owner'') (\<lambda>(cap, order).
            then_r (projection_owner_barrier A run_id order cap) (\<lambda>_.
            then_r (acquire_all order [''evidence_shared_barrier'', ''c5_key_corpus'']) (\<lambda>order.
            then_r snapshot_check (\<lambda>_.
            then_r (acquire_all order [''agent_run_cost'', ''optional_assistant'']) finish_order))))),
          then_r barrier (\<lambda>(_, reqs, fresh).
            if reqs = [] then Inr () else finalization_exit (la_safety A) (lg_safety L) reqs fresh)))"

text \<open>An operation inside a context manager: refused on entry, or run and then checked on exit.\<close>

definition under_owner ::
  "unit result \<times> unit result \<Rightarrow> (ledger \<Rightarrow> 'a result \<times> ledger) \<Rightarrow> ledger \<Rightarrow> 'a result \<times> ledger" where
  "under_owner owner body L =
     (case fst owner of
        Inl e \<Rightarrow> (Inl e, L)
      | Inr _ \<Rightarrow>
          (case body L of
             (Inl e, L') \<Rightarrow> (Inl e, L')
           | (Inr v, L') \<Rightarrow> (then_r (snd owner) (\<lambda>_. Inr v), L')))"

text \<open>The identity of a cache hit: the members the metadata must already carry, and all that it adds.\<close>

type_synonym cache_identity = "(string \<times> json) list"

definition cache_bound_keys :: "string list" where
  "cache_bound_keys =
     [''rendered_input_hmac'', ''answer_model_config_snapshot_hmac'',
      ''prepared_model_influence_observation_hmac'', ''security_scope_fingerprint'']"

definition apply_cache_identity :: "cache_identity option \<Rightarrow> agent_run \<Rightarrow> agent_run result" where
  "apply_cache_identity x a =
     (case x of
        None \<Rightarrow> Inr a
      | Some members \<Rightarrow>
          then_r (each_r (\<lambda>k. then_r (md_required (map_of members) k) (\<lambda>_. Inr ())) cache_bound_keys) (\<lambda>_.
          if md_get (ar_metadata a) ''answer_finalization_mode'' \<noteq> JNull
             \<or> list_ex (\<lambda>k. Some (md_get (ar_metadata a) k) \<noteq> map_of members k) cache_bound_keys
          then Inl (Ledger_Error ''cache preparation binding changed'')
          else Inr (a\<lparr>ar_metadata := ar_metadata a ++ map_of members\<rparr>)))"

text \<open>The proof that the transport refused this grant before it sent anything.\<close>

definition refusal_proved :: "ledger_authority \<Rightarrow> ledger \<Rightarrow> int \<Rightarrow> nat \<Rightarrow> cost_row \<Rightarrow> bool" where
  "refusal_proved A L run_id gid w \<longleftrightarrow>
     lg_refused L run_id = Some gid
     \<and> (case lg_grants L gid of
          None \<Rightarrow> False
        | Some g \<Rightarrow>
            \<not> gr_consumed g \<and> cw_state w = Dispatching \<and> cw_attempted w \<and> cw_count w = 1
            \<and> cw_charged w = gr_reserved g \<and> cw_reserved w = gr_reserved g \<and> cw_basis w = Basis_Reserved
            \<and> cw_process w = Some (la_process A) \<and> cw_fence w = Some (gr_fence g)
            \<and> lg_active L (run_id, Answer_Generation) = None)"

definition row_untouched :: "cost_row \<Rightarrow> bool" where
  "row_untouched w \<longleftrightarrow> cw_state w = Not_Attempted \<and> \<not> cw_attempted w \<and> cw_count w = 0
     \<and> cw_charged w = 0 \<and> cw_fence w = None"

definition embedding_paid :: "ledger_authority \<Rightarrow> agent_run \<Rightarrow> cost_row \<Rightarrow> bool" where
  "embedding_paid A a q \<longleftrightarrow>
     md_get (ar_metadata a) ''configured_backend'' = JStr ''pgvector'' \<and> embedding_succeeded q
     \<and> cw_attempted q \<and> cw_count q = 1 \<and> cw_basis q = Basis_Actual \<and> \<not> cw_overrun q
     \<and> cw_process q = Some (la_process A)"

definition check_safe_pending ::
  "ledger_authority \<Rightarrow> ledger \<Rightarrow> int \<Rightarrow> bool \<Rightarrow> nat option \<Rightarrow> cache_identity option
    \<Rightarrow> (agent_run \<times> cost_row \<times> cost_row) result" where
  "check_safe_pending A L run_id embedding_only refused cache =
     then_r (locked_run (lg_db L) run_id) (\<lambda>(a0, q, w).
     then_r (apply_cache_identity cache a0) (\<lambda>a.
     if refused \<noteq> None \<and> \<not> refusal_proved A L run_id (the refused) w
     then Inl (Ledger_Error ''evidence refusal proof is unavailable'')
     else if ar_status a \<noteq> Running \<or> ar_phase a \<noteq> Admission \<or> ar_owner_fence a \<noteq> None
             \<or> ar_completed a \<noteq> None
             \<or> (refused = None \<and> \<not> row_untouched w) \<or> (\<not> embedding_only \<and> \<not> row_untouched q)
     then Inl (Ledger_Error ''safe pending transition is unavailable'')
     else if embedding_only \<and> \<not> embedding_paid A a q
     then Inl (Ledger_Error ''terminal embedding cost is unavailable'')
     else then_r (if embedding_only then require_terminal_cost_row L run_id q else Inr ()) (\<lambda>_.
       Inr (a, if embedding_only then q else make_terminal_zero q, make_terminal_zero w))))"

definition drop_answer :: "int \<Rightarrow> ledger \<Rightarrow> ledger" where
  "drop_answer run_id L =
     L\<lparr>lg_reservations := (lg_reservations L)(run_id := None),
       lg_budgets := (lg_budgets L)((run_id, Answer_Generation) := None)\<rparr>"

definition cache_hit_audit :: "int \<Rightarrow> cache_identity \<Rightarrow> audit_row" where
  "cache_hit_audit run_id members =
     \<lparr>au_actor = ''rag-runtime'', au_action = ''rag_answer_cache_hit'', au_target_type = ''agent_run'',
      au_target = decimal_int run_id, au_status = ''pending_projection'', au_metadata = map_of members\<rparr>"

definition prepare_safe_pending ::
  "ledger_authority \<Rightarrow> ledger_io \<Rightarrow> int \<Rightarrow> int \<Rightarrow> int option \<Rightarrow> bool \<Rightarrow> nat option \<Rightarrow> cache_identity option
    \<Rightarrow> ledger \<Rightarrow> (agent_run \<times> cost_row \<times> cost_row \<times> projection_pending) result" where
  "prepare_safe_pending A io run_id corpus vector embedding_only refused cache L =
     then_r (check_safe_pending A L run_id embedding_only refused cache) (\<lambda>(a, q, w).
     then_r (pending_run A (li_nonce io) run_id
               (a\<lparr>ar_charged := total_charged [q, w], ar_estimated := total_reserved [q, w]\<rparr>) q w
               (la_process A)) (\<lambda>a'.
     then_r (md_required (ar_metadata a') ''security_scope_fingerprint'') (\<lambda>_.
     then_r (make_projection_pending run_id (pending_identity a') corpus vector) (\<lambda>pending.
       Inr (a', q, w, pending)))))"

text \<open>The body of \<open>_commit_safe_pending\<close>, once the owner's locks are held.\<close>

definition store_safe_pending ::
  "ledger_authority \<Rightarrow> ledger_io \<Rightarrow> int \<Rightarrow> int \<Rightarrow> int option \<Rightarrow> bool \<Rightarrow> nat option \<Rightarrow> cache_identity option
    \<Rightarrow> ledger \<Rightarrow> projection_pending result \<times> ledger" where
  "store_safe_pending A io run_id corpus vector embedding_only refused cache L =
     transact (li_commit io)
       (prepare_safe_pending A io run_id corpus vector embedding_only refused cache L)
       (\<lambda>_. drop_answer run_id)
       (\<lambda>(a', q, w, pending).
          let d = store_run (lg_db L) run_id a' q w in
          Inr (case cache of None \<Rightarrow> d
               | Some members \<Rightarrow>
                   d\<lparr>ld_audit := ld_audit d @ [cache_hit_audit run_id members]\<rparr>,
               pending))
       (\<lambda>(a', _) _ L.
          let L1 = (if refused = None then L
                    else L\<lparr>lg_refused := (lg_refused L)(run_id := None),
                           lg_bindings := (lg_bindings L)((run_id, Answer_Generation) := None)\<rparr>)
          in L1\<lparr>lg_pending := (lg_pending L1)(run_id \<mapsto> pending_identity a')\<rparr>) L"

definition commit_safe_pending ::
  "ledger_authority \<Rightarrow> ledger_io \<Rightarrow> int \<Rightarrow> int \<Rightarrow> int option \<Rightarrow> bool \<Rightarrow> nat option \<Rightarrow> cache_identity option
    \<Rightarrow> ledger \<Rightarrow> projection_pending result \<times> ledger" where
  "commit_safe_pending A io run_id corpus vector embedding_only refused cache L =
     (if run_id \<le> 0 \<or> corpus < 0 \<or> (case vector of None \<Rightarrow> embedding_only | Some v \<Rightarrow> v < 0)
      then (Inl (Value_Error ''pending projection generation is invalid''), L)
      else if list_ex (\<lambda>c. lg_snapshots L (run_id, c) = None) component_order
      then (Inl (Ledger_Error ''request-owned admission is unavailable''), L)
      else under_owner
        (enter_pending_owner A L run_id (if embedding_only then [Query_Embedding] else []) (Inr ()))
        (store_safe_pending A io run_id corpus vector embedding_only refused cache) L)"

definition commit_provider_free_pending where
  "commit_provider_free_pending A io run_id corpus vector L =
     commit_safe_pending A io run_id corpus vector False None None L"

definition commit_embedding_only_pending where
  "commit_embedding_only_pending A io run_id corpus vector L =
     commit_safe_pending A io run_id corpus (Some vector) True None None L"

text \<open>\<open>_defer_answer_evidence_refusal\<close>: the grant is retired, never to be sent.\<close>

definition defer_answer_evidence_refusal :: "nat \<Rightarrow> ledger \<Rightarrow> unit result \<times> ledger" where
  "defer_answer_evidence_refusal gid L =
     (let refused = Ledger_Error ''evidence refusal grant is unavailable'' in
      case lg_grants L gid of
        None \<Rightarrow> (Inl refused, L)
      | Some g \<Rightarrow>
          if gr_component g \<noteq> Answer_Generation \<or> gr_consumed g \<or> lg_active L (grant_key g) \<noteq> Some gid
          then (Inl refused, L)
          else (Inr (), L\<lparr>lg_refused := (lg_refused L)(gr_run_id g \<mapsto> gid),
                          lg_active := (lg_active L)(grant_key g := None)\<rparr>))"

definition commit_answer_evidence_changed_pending ::
  "ledger_authority \<Rightarrow> ledger_io \<Rightarrow> nat \<Rightarrow> int \<Rightarrow> int option \<Rightarrow> ledger \<Rightarrow> projection_pending result \<times> ledger"
where
  "commit_answer_evidence_changed_pending A io gid corpus vector L =
     (case lg_grants L gid of
        None \<Rightarrow> (Inl (Ledger_Error ''evidence refusal proof is unavailable''), L)
      | Some g \<Rightarrow>
          (let run_id = gr_run_id g in
           if lg_refused L run_id \<noteq> Some gid
           then (Inl (Ledger_Error ''evidence refusal proof is unavailable''), L)
           else commit_safe_pending A io run_id corpus vector
                  (lg_terminal_bindings L (run_id, Query_Embedding) \<noteq> None) (Some gid) None L))"

text \<open>\<open>commit_answer_cache_pending\<close>; \<open>hit\<close> is the verdict of \<open>validate_answer_cache_hit\<close>.\<close>

definition commit_answer_cache_pending ::
  "ledger_authority \<Rightarrow> ledger_io \<Rightarrow> int \<Rightarrow> int \<Rightarrow> int option \<Rightarrow> (string \<times> json) list result \<Rightarrow> string
    \<Rightarrow> string \<Rightarrow> string \<Rightarrow> string \<Rightarrow> bool \<Rightarrow> ledger \<Rightarrow> projection_pending result \<times> ledger" where
  "commit_answer_cache_pending A io run_id corpus vector hit model_hmac rendered observation scope
     embedding_only L =
     (case hit of
        Inl e \<Rightarrow> (Inl e, L)
      | Inr members \<Rightarrow>
          if model_hmac \<noteq> cp_answer_config_hmac (la_policy A)
          then (Inl (Ledger_Error ''cache model policy changed''), L)
          else commit_safe_pending A io run_id corpus vector embedding_only None
            (Some ([(''rendered_input_hmac'', JStr rendered),
                    (''answer_model_config_snapshot_hmac'', JStr model_hmac),
                    (''prepared_model_influence_observation_hmac'', JStr observation),
                    (''security_scope_fingerprint'', JStr scope)] @ members)) L)"

end
