(* ===== verification/Ledger_Closure.thy ===== *)
theory Ledger_Closure
  imports Cost_Ledger
begin

text \<open>
  How a run of \<open>RagCostLedger\<close> ends: the shadow comparison, the failure between two dispatches, the
  refusals before a send, the cancelled claim, and the recovery of a run whose process died.
\<close>

section \<open>Shadow runs\<close>

text \<open>
  A \<open>ShadowComparison\<close> as the ledger reads it; \<open>sc_verified\<close> is the verdict of its \<open>verify\<close> and
  \<open>sc_metadata\<close> its \<open>audit_metadata\<close>.
\<close>

record shadow_comparison =
  sc_outcome :: outcome
  sc_backend :: string
  sc_scope :: string
  sc_hmac :: string
  sc_verified :: "unit result"
  sc_metadata :: metadata

definition shadow_audit :: "shadow_comparison \<Rightarrow> audit_row" where
  "shadow_audit x =
     \<lparr>au_actor = ''system-rag-shadow'', au_action = ''rag_shadow_compared'',
      au_target_type = ''rag_shadow_comparison'', au_target = sc_hmac x,
      au_status = (if sc_outcome x = Shadow_Match then ''success'' else ''mismatch''),
      au_metadata = sc_metadata x\<rparr>"

text \<open>The key state and the corpus generation that the comparison reads under their locks.\<close>

record key_state =
  ks_ready :: bool
  ks_generation :: int
  ks_key_version :: string
  ks_verifier :: string

record corpus_state =
  cs_key_version :: string
  cs_verifier :: string
  cs_corpus_generation :: int
  cs_vector_generation :: int
  cs_embedding_model :: string
  cs_embedding_dimensions :: int
  cs_index_policy_version :: string
  cs_cosine_policy_version :: string

definition keys_agree :: "key_state \<Rightarrow> corpus_state \<Rightarrow> bool" where
  "keys_agree k c \<longleftrightarrow> ks_ready k \<and> 1 \<le> ks_generation k \<and> ks_key_version k = cs_key_version c
     \<and> ks_verifier k = cs_verifier c"

definition embedding_current :: "prepared_embedding \<Rightarrow> readiness \<Rightarrow> corpus_state \<Rightarrow> bool" where
  "embedding_current pe r c \<longleftrightarrow>
     (pe_corpus_generation pe, pe_vector_index_generation pe, pe_readiness_hmac pe)
       = (rd_corpus_generation r, rd_vector_index_generation r, rd_snapshot_hmac r)
     \<and> pe_corpus_generation pe = cs_corpus_generation c
     \<and> pe_vector_index_generation pe = cs_vector_generation c"

text \<open>\<open>_require_shadow_comparison_snapshot\<close>.\<close>

definition require_shadow_snapshot ::
  "prepared_embedding \<Rightarrow> readiness result \<Rightarrow> key_state option \<Rightarrow> corpus_state option \<Rightarrow> unit result"
where
  "require_shadow_snapshot pe loaded key corpus =
     (case then_r loaded validate_readiness of
        Inl _ \<Rightarrow> Inl (Ledger_Error ''shadow comparison readiness snapshot is unavailable'')
      | Inr r \<Rightarrow>
          (case (key, corpus) of
             (Some k, Some c) \<Rightarrow>
               require (keys_agree k c \<and> rd_ready r \<and> embedding_current pe r c)
                 (Ledger_Error ''shadow comparison generation snapshot changed'')
           | _ \<Rightarrow> Inl (Ledger_Error ''shadow comparison generation snapshot changed'')))"

text \<open>The two forms of a call: a comparison already made, or a factory that makes it under the locks.\<close>

datatype shadow_call =
    Compared "outcome" "shadow_comparison option"
  | Deferred "shadow_comparison result" "unit result"

definition shadow_call_ok :: "int \<Rightarrow> shadow_call \<Rightarrow> bool" where
  "shadow_call_ok run_id x \<longleftrightarrow> 0 < run_id \<and>
     (case x of
        Deferred _ _ \<Rightarrow> True
      | Compared oc c \<Rightarrow>
          (if oc \<in> {Shadow_Match, Shadow_Mismatch}
           then (case c of None \<Rightarrow> False | Some y \<Rightarrow> sc_outcome y = oc \<and> sc_backend y = ''pgvector'')
           else oc = Serving_Index_Not_Ready \<and> c = None))"

definition shadow_subject :: "shadow_call \<Rightarrow> (outcome \<times> shadow_comparison option) result" where
  "shadow_subject x =
     (case x of
        Compared oc c \<Rightarrow> Inr (oc, c)
      | Deferred made snapshot \<Rightarrow>
          then_r made (\<lambda>c.
          if sc_backend c \<noteq> ''pgvector''
          then Inl (Ledger_Error ''shadow comparison factory returned invalid data'')
          else then_r snapshot (\<lambda>_. Inr (sc_outcome c, Some c))))"

definition shadow_row_pair :: "cost_row \<Rightarrow> cost_row \<Rightarrow> bool" where
  "shadow_row_pair q w \<longleftrightarrow>
     cw_state q = Terminal \<and> cw_outcome q = Some Component_Succeeded \<and> cw_attempted q \<and> cw_count q = 1
     \<and> cw_state w = Terminal \<and> \<not> cw_attempted w \<and> cw_count w = 0 \<and> cw_charged w = 0"

definition shadow_pending_ok ::
  "ledger \<Rightarrow> int \<Rightarrow> agent_run \<Rightarrow> cost_row \<Rightarrow> cost_row \<Rightarrow> shadow_comparison option \<Rightarrow> bool" where
  "shadow_pending_ok L run_id a q w c \<longleftrightarrow>
     lg_pending L run_id = Some (pending_identity a)
     \<and> ar_status a = Running \<and> ar_phase a = Pending_Projection \<and> ar_completed a = None
     \<and> md_get (ar_metadata a) ''mode'' = JStr ''shadow''
     \<and> md_get (ar_metadata a) ''configured_backend'' = JStr ''pgvector''
     \<and> shadow_row_pair q w
     \<and> (case c of None \<Rightarrow> True
        | Some x \<Rightarrow> md_get (ar_metadata a) ''security_scope_fingerprint'' = JStr (sc_scope x))"

text \<open>\<open>_finalize_shadow_run_locked\<close> up to its commit: the closed run and the receipt.\<close>

definition close_shadow_run ::
  "ledger_authority \<Rightarrow> string \<Rightarrow> int \<Rightarrow> agent_run \<Rightarrow> cost_row \<Rightarrow> cost_row \<Rightarrow> outcome
    \<Rightarrow> shadow_comparison option \<Rightarrow> (agent_run \<times> run_terminal) result" where
  "close_shadow_run A now run_id a q w outcome c =
     (case split_on CHR '':'' (ar_window a) of
        [p0, p1, p2, surface, backend] \<Rightarrow>
          if [p0, p1, p2] \<noteq> [''rag-v2'', ''admission'', ''shadow'']
          then Inl (Ledger_Error ''shadow admission source window is invalid'')
          else
          let admission_hmac = removeprefix ''rag-v2-admission:'' (ar_cache_key a) in
          then_r (require_lower_hmac admission_hmac ''identity'') (\<lambda>_.
          then_r (run_cost_identity A run_id [q, w] (Some outcome) Final Complete ''terminal'') (\<lambda>runtime_hmac.
          then_r (final_shadow_identity (la_primitives A) (la_secret A) (JObj
            [(''admission_cache_identity_hmac'', JStr admission_hmac),
             (''outcome'', JStr (outcome_name outcome)),
             (''runtime_cost_snapshot_hmac'', JStr runtime_hmac),
             (''surface'', JStr surface)])) (\<lambda>terminal_hmac.
          then_r (case c of None \<Rightarrow> Inr () | Some x \<Rightarrow> sc_verified x) (\<lambda>_.
          then_r (terminal_source_window ''shadow'' surface backend) (\<lambda>window.
          let a' = a\<lparr>ar_status := Complete, ar_phase := Final, ar_window := window,
                     ar_cache_key := ''rag-v2-final-shadow:'' @ terminal_hmac, ar_owner_fence := None,
                     ar_completed := Some now,
                     ar_metadata := (ar_metadata a)
                       (''outcome'' \<mapsto> JStr (outcome_name outcome),
                        ''runtime_cost_snapshot_hmac'' \<mapsto> JStr runtime_hmac,
                        ''shadow_comparison_hmac'' \<mapsto> json_opt (map_option sc_hmac c),
                        ''terminal_identity_hmac'' \<mapsto> JStr terminal_hmac)\<rparr> in
          then_r (component_final_of run_id a' q) (\<lambda>fq.
          then_r (component_final_of run_id a' w) (\<lambda>fw.
          Inr (a', \<lparr>te_run_id = run_id, te_status = Complete, te_phase = Final, te_outcome = outcome,
                    te_admission_hmac = admission_hmac, te_window = window,
                    te_cache_key = ar_cache_key a', te_reserved = total_reserved [q, w],
                    te_charged = ar_charged a, te_finals = (fq, fw), te_owner_fence = None,
                    te_runtime_hmac = runtime_hmac, te_identity_hmac = Some terminal_hmac,
                    te_completed = now\<rparr>))))))))
      | _ \<Rightarrow> Inl (Ledger_Error ''shadow admission source window is invalid''))"

definition forget_pending :: "int \<Rightarrow> ledger \<Rightarrow> ledger" where
  "forget_pending run_id L = L\<lparr>lg_pending := (lg_pending L)(run_id := None)\<rparr>"

definition check_shadow_closure ::
  "ledger_authority \<Rightarrow> string \<Rightarrow> int \<Rightarrow> outcome \<Rightarrow> shadow_comparison option \<Rightarrow> ledger
    \<Rightarrow> (agent_run \<times> cost_row \<times> cost_row \<times> run_terminal) result" where
  "check_shadow_closure A now run_id outcome c L =
     then_r (locked_run (lg_db L) run_id) (\<lambda>(a, q, w).
     if \<not> shadow_pending_ok L run_id a q w c
     then Inl (Ledger_Error ''shadow pending projection changed'')
     else then_r (require_terminal_cost_row L run_id q) (\<lambda>_.
       then_r (close_shadow_run A now run_id a q w outcome c) (\<lambda>(a', receipt).
         Inr (a', q, w, receipt))))"

definition finalize_shadow_run_locked ::
  "ledger_authority \<Rightarrow> ledger_io \<Rightarrow> int \<Rightarrow> outcome \<Rightarrow> shadow_comparison option \<Rightarrow> ledger
    \<Rightarrow> run_terminal result \<times> ledger" where
  "finalize_shadow_run_locked A io run_id outcome c L =
     transact (li_commit io)
       (check_shadow_closure A (li_now io) run_id outcome c L)
       (\<lambda>_. id)
       (\<lambda>(a', q, w, receipt).
          let d = store_run (lg_db L) run_id a' q w in
          Inr (case c of None \<Rightarrow> d | Some x \<Rightarrow> d\<lparr>ld_audit := ld_audit d @ [shadow_audit x]\<rparr>, receipt))
       (\<lambda>_ _. drop_answer run_id \<circ> forget_pending run_id) L"

text \<open>\<open>finalize_shadow_run\<close>: the snapshot of a deferred comparison is required on entry and once more
  after the comparison is made.\<close>

definition finalize_shadow_run ::
  "ledger_authority \<Rightarrow> ledger_io \<Rightarrow> int \<Rightarrow> shadow_call \<Rightarrow> unit result \<Rightarrow> ledger \<Rightarrow> run_terminal result \<times> ledger"
where
  "finalize_shadow_run A io run_id x entry_snapshot L =
     (if \<not> shadow_call_ok run_id x then (Inl (Value_Error ''shadow finalization is invalid''), L)
      else under_owner
        (enter_pending_owner A L run_id [Query_Embedding]
           (case x of Compared _ _ \<Rightarrow> Inr () | Deferred _ _ \<Rightarrow> entry_snapshot))
        (\<lambda>L. case shadow_subject x of
            Inl e \<Rightarrow> (Inl e, L)
          | Inr (outcome, c) \<Rightarrow> finalize_shadow_run_locked A io run_id outcome c L) L)"

section \<open>The last check before an embedding is sent\<close>

text \<open>\<open>revalidate_c5_before_send\<close> for a prepared query embedding.\<close>

definition c5_authority_ok :: "key_state option \<Rightarrow> corpus_state option \<Rightarrow> bool" where
  "c5_authority_ok key corpus \<longleftrightarrow>
     (case (key, corpus) of
        (Some k, Some c) \<Rightarrow>
          keys_agree k c \<and> cs_embedding_model c = ''text-embedding-3-small''
          \<and> cs_embedding_dimensions c = 1536 \<and> cs_index_policy_version c = ''rag-v2-serving-index:v1''
          \<and> cs_cosine_policy_version c = ''pgvector-cosine-indexable:v1''
      | _ \<Rightarrow> False)"

definition revalidate_c5_embedding ::
  "prepared_embedding \<Rightarrow> coordinator \<Rightarrow> lock_capability \<Rightarrow> readiness result \<Rightarrow> bool
    \<Rightarrow> key_state option \<Rightarrow> corpus_state option \<Rightarrow> unit result" where
  "revalidate_c5_embedding pe order cap loaded allow_not_ready key corpus =
     then_r (require_stage order cap ''c5_key_corpus'') (\<lambda>_.
     if \<not> c5_authority_ok key corpus
     then Inl (Ledger_Error ''C.5 serving authority changed before send'')
     else case then_r loaded validate_readiness of
       Inl _ \<Rightarrow> Inl (Ledger_Error ''C.5 serving readiness changed before send'')
     | Inr r \<Rightarrow>
         require ((rd_ready r \<or> allow_not_ready) \<and> embedding_current pe r (the corpus))
           (Ledger_Error ''C.5 serving readiness changed before send''))"

text \<open>\<open>require_component_safety_ready\<close>.\<close>

definition require_component_safety_ready ::
  "ledger_authority \<Rightarrow> policy_snapshot \<Rightarrow> ledger \<Rightarrow> unit result" where
  "require_component_safety_ready A s L =
     then_r (require_authorized_policy_snapshot (la_policy A) (component_name (ps_component s))
               (ps_policy_snapshot_hmac s)) (\<lambda>_.
     then_r (require_ready (la_safety A) (lg_safety L) (ps_component s) s) (\<lambda>_. Inr ()))"

section \<open>Failure between two dispatches\<close>

definition inter_component_outcomes :: "outcome list" where
  "inter_component_outcomes =
     [Over_Budget, Retriever_Not_Configured, Retriever_Unavailable, Runtime_Version_Unavailable,
      Model_Unavailable, Model_Provider_Failed, Provider_Safety_Unavailable, Structured_Output_Bad,
      Citation_Validation_Bad, Persistence_Failed, Unexpected_Internal_Error]"

text \<open>\<open>_terminal_failure_owner\<close>: every error but a persistence error becomes one.\<close>

fun as_persistence_error :: "error \<Rightarrow> error" where
  "as_persistence_error (Persistence_Error m) = Persistence_Error m"
| "as_persistence_error _ = Persistence_Error ''terminal failure persistence unavailable''"

definition enter_failure_owner :: "ledger_authority \<Rightarrow> ledger \<Rightarrow> int \<Rightarrow> bool \<Rightarrow> unit result" where
  "enter_failure_owner A L run_id safety =
     then_r owner_order (\<lambda>(order, sidecar, rows).
     then_r (if safety
             then fst (accounting_failure_barrier (la_safety A) (lg_safety L) (lg_safety L) order sidecar rows)
             else Inr ()) (\<lambda>_.
     then_r (acquire_stage order ''projection_owner'') (\<lambda>(cap, order).
     then_r (projection_owner_barrier A run_id order cap) (\<lambda>_.
     then_r (acquire_all order [''evidence_shared_barrier'', ''c5_key_corpus'', ''agent_run_cost'',
                                ''optional_assistant'']) finish_order))))"

definition leave_failure_owner :: "ledger_authority \<Rightarrow> ledger \<Rightarrow> ledger \<Rightarrow> bool \<Rightarrow> unit result" where
  "leave_failure_owner A L L' safety =
     (if \<not> safety then Inr ()
      else then_r owner_order (\<lambda>(order, sidecar, rows).
        snd (accounting_failure_barrier (la_safety A) (lg_safety L) (lg_safety L') order sidecar rows)))"

definition under_failure_owner ::
  "ledger_authority \<Rightarrow> int \<Rightarrow> bool \<Rightarrow> (ledger \<Rightarrow> 'a result \<times> ledger) \<Rightarrow> ledger \<Rightarrow> 'a result \<times> ledger" where
  "under_failure_owner A run_id safety body L =
     (case enter_failure_owner A L run_id safety of
        Inl e \<Rightarrow> (Inl (as_persistence_error e), L)
      | Inr _ \<Rightarrow>
          (case body L of
             (Inl e, L') \<Rightarrow> (Inl (as_persistence_error e), L')
           | (Inr v, L') \<Rightarrow>
               (case leave_failure_owner A L L' safety of
                  Inl e \<Rightarrow> (Inl (as_persistence_error e), L')
                | Inr _ \<Rightarrow> (Inr v, L'))))"

definition paid_components :: "ledger \<Rightarrow> int \<Rightarrow> component list" where
  "paid_components L run_id = filter (\<lambda>c. lg_terminal_bindings L (run_id, c) \<noteq> None) component_order"

text \<open>A paid row is the one this process settled; any other row was never dispatched.\<close>

definition check_failed_row :: "ledger \<Rightarrow> int \<Rightarrow> cost_row \<Rightarrow> unit result" where
  "check_failed_row L run_id w =
     (case lg_terminal_bindings L (run_id, cw_component w) of
        Some binding \<Rightarrow>
          if lg_snapshots L (run_id, cw_component w) \<noteq> Some (sb_policy_snapshot binding)
          then Inl (Ledger_Error ''terminal paid receipt is unavailable'')
          else require_terminal_cost_row L run_id w
      | None \<Rightarrow>
          require (\<not> cw_attempted w \<and> cw_count w = 0 \<and> cw_state w \<in> {Not_Attempted, Terminal}
                   \<and> cw_charged w = 0 \<and> cw_fence w = None)
            (Ledger_Error ''undispatched component changed''))"

definition zero_unpaid :: "ledger \<Rightarrow> int \<Rightarrow> cost_row \<Rightarrow> cost_row" where
  "zero_unpaid L run_id w =
     (if lg_terminal_bindings L (run_id, cw_component w) = None then make_terminal_zero w else w)"

definition check_inter_failure ::
  "ledger_authority \<Rightarrow> ledger \<Rightarrow> int \<Rightarrow> (agent_run \<times> cost_row \<times> cost_row) result" where
  "check_inter_failure A L run_id =
     then_r (locked_run (lg_db L) run_id) (\<lambda>(a, q, w).
     if ar_status a \<noteq> Running \<or> ar_completed a \<noteq> None \<or> ar_phase a \<notin> {Admission, Pending_Projection}
        \<or> list_ex (\<lambda>c. lg_active L (run_id, c) \<noteq> None) component_order
     then Inl (Ledger_Error ''inter-component terminalization is unavailable'')
     else
     then_r (if ar_phase a \<noteq> Pending_Projection then Inr ()
             else then_r (current_pending_identity A run_id q w) (\<lambda>current.
               require (lg_pending L run_id = Some (pending_identity a)
                        \<and> JStr current = snd (snd (pending_identity a)))
                 (Ledger_Error ''committed pending projection changed''))) (\<lambda>_.
     then_r (check_failed_row L run_id q) (\<lambda>_.
     then_r (check_failed_row L run_id w) (\<lambda>_.
       Inr (a\<lparr>ar_owner_fence := None\<rparr>, zero_unpaid L run_id q, zero_unpaid L run_id w)))))"

text \<open>The common end of the failure closures: the failed run is stored with its rows.\<close>

definition store_failed ::
  "ledger_authority \<Rightarrow> string \<Rightarrow> int \<Rightarrow> outcome \<Rightarrow> timestamp option \<Rightarrow> bool \<Rightarrow> rag_db
    \<Rightarrow> agent_run \<times> cost_row \<times> cost_row \<Rightarrow> (rag_db \<times> run_terminal) result" where
  "store_failed A now run_id outcome completed admission_only d arows =
     (case arows of (a, q, w) \<Rightarrow>
        then_r (finalize_failed_run A now run_id a q w outcome completed admission_only) (\<lambda>(a', receipt).
          Inr (store_run d run_id a' q w, receipt)))"

text \<open>\<open>finalize_inter_component_failure\<close>.\<close>

definition finalize_inter_component_failure ::
  "ledger_authority \<Rightarrow> ledger_io \<Rightarrow> int \<Rightarrow> outcome \<Rightarrow> ledger \<Rightarrow> run_terminal result \<times> ledger" where
  "finalize_inter_component_failure A io run_id outcome L =
     (if outcome \<notin> set inter_component_outcomes
      then (Inl (Value_Error ''inter-component failure outcome is invalid''), L)
      else if list_ex (\<lambda>c. lg_snapshots L (run_id, c) = None) component_order
      then (Inl (Ledger_Error ''request-owned admission is unavailable''), L)
      else under_failure_owner A run_id
        (paid_components L run_id \<noteq> [] \<or> outcome = Provider_Safety_Unavailable)
        (\<lambda>L. transact (li_commit io) (check_inter_failure A L run_id)
               (\<lambda>_. forget_pending run_id \<circ> drop_answer run_id)
               (store_failed A (li_now io) run_id outcome None False (lg_db L))
               (\<lambda>_ _. id) L) L)"

section \<open>Closures before a send\<close>

text \<open>\<open>total_charged_cost\<close> of a run, read from the tables.\<close>

definition total_charged_cost :: "ledger \<Rightarrow> int \<Rightarrow> int" where
  "total_charged_cost L run_id = total_charged (ld_rows (lg_db L) run_id)"

definition both_not_attempted :: "cost_row \<Rightarrow> cost_row \<Rightarrow> bool" where
  "both_not_attempted q w \<longleftrightarrow> cw_state q = Not_Attempted \<and> cw_state w = Not_Attempted"

text \<open>\<open>finalize_projectionless_failure\<close>: the run is closed on both rows terminal-zero.\<close>

definition close_projectionless ::
  "ledger_authority \<Rightarrow> int \<Rightarrow> agent_run \<Rightarrow> cost_row \<Rightarrow> cost_row \<Rightarrow> outcome \<Rightarrow> string
    \<Rightarrow> (agent_run \<times> run_terminal) result" where
  "close_projectionless A run_id a q w outcome stamp =
     then_r (run_cost_identity A run_id [q, w] (Some outcome) Admission_Only Failed ''terminal'') (\<lambda>h.
     let a' = a\<lparr>ar_status := Failed, ar_phase := Admission_Only, ar_charged := 0,
                ar_completed := Some stamp,
                ar_metadata := (ar_metadata a)
                  (''runtime_cost_snapshot_hmac'' \<mapsto> JStr h,
                   ''outcome'' \<mapsto> JStr (outcome_name outcome))\<rparr> in
     then_r (component_final_of run_id a' q) (\<lambda>fq.
     then_r (component_final_of run_id a' w) (\<lambda>fw.
     Inr (a', \<lparr>te_run_id = run_id, te_status = Failed, te_phase = Admission_Only, te_outcome = outcome,
               te_admission_hmac = removeprefix ''rag-v2-admission:'' (ar_cache_key a),
               te_window = ar_window a, te_cache_key = ar_cache_key a, te_reserved = 0, te_charged = 0,
               te_finals = (fq, fw), te_owner_fence = None, te_runtime_hmac = h,
               te_identity_hmac = None, te_completed = stamp\<rparr>))))"

definition check_projectionless ::
  "string \<Rightarrow> int \<Rightarrow> timestamp option \<Rightarrow> ledger \<Rightarrow> (agent_run \<times> cost_row \<times> cost_row \<times> string) result" where
  "check_projectionless now run_id completed L =
     (case locked_run (lg_db L) run_id of
        Inl _ \<Rightarrow> Inl (Ledger_Error ''projectionless terminal-zero closure is unavailable'')
      | Inr (a, q, w) \<Rightarrow>
          if ar_status a \<noteq> Running \<or> ar_phase a \<noteq> Admission \<or> \<not> both_not_attempted q w
          then Inl (Ledger_Error ''projectionless terminal-zero closure is unavailable'')
          else then_r (completion_time completed now) (\<lambda>stamp.
            Inr (a, make_terminal_zero q, make_terminal_zero w, stamp)))"

definition finalize_projectionless_failure ::
  "ledger_authority \<Rightarrow> ledger_io \<Rightarrow> int \<Rightarrow> outcome \<Rightarrow> timestamp option \<Rightarrow> ledger
    \<Rightarrow> run_terminal result \<times> ledger" where
  "finalize_projectionless_failure A io run_id outcome completed L =
     (if outcome \<noteq> Abandoned_Unknown
      then (Inl (Value_Error ''admission-only outcome must be abandoned_unknown''), L)
      else transact (li_commit io)
        (check_projectionless (li_now io) run_id completed L)
        (\<lambda>_. id)
        (\<lambda>(a, q, w, stamp).
           then_r (close_projectionless A run_id a q w outcome stamp) (\<lambda>(a', receipt).
             Inr (store_run (lg_db L) run_id a' q w, receipt)))
        (\<lambda>_ _. id) L)"

text \<open>\<open>finalize_pre_send_refusal\<close>.\<close>

definition check_pre_send :: "int \<Rightarrow> ledger \<Rightarrow> (agent_run \<times> cost_row \<times> cost_row) result" where
  "check_pre_send run_id L =
     then_r (locked_run (lg_db L) run_id) (\<lambda>(a, q, w).
       if ar_status a \<noteq> Running \<or> ar_phase a \<noteq> Admission \<or> \<not> both_not_attempted q w
       then Inl (Ledger_Error ''pre-send terminal-zero closure is unavailable'')
       else Inr (a, make_terminal_zero q, make_terminal_zero w))"

definition finalize_pre_send_refusal ::
  "ledger_authority \<Rightarrow> ledger_io \<Rightarrow> int \<Rightarrow> string \<Rightarrow> outcome \<Rightarrow> timestamp option \<Rightarrow> ledger
    \<Rightarrow> run_terminal result \<times> ledger" where
  "finalize_pre_send_refusal A io run_id cname outcome completed L =
     (if cname \<notin> set (map component_name component_order)
         \<or> outcome \<notin> {Provider_Safety_Unavailable, Retriever_Unavailable, Model_Provider_Failed,
                     Serving_Index_Not_Ready}
      then (Inl (Value_Error ''pre-send refusal is invalid''), L)
      else transact (li_commit io)
        (check_pre_send run_id L)
        (\<lambda>_. id)
        (store_failed A (li_now io) run_id outcome completed False (lg_db L))
        (\<lambda>_ _. id) L)"

text \<open>\<open>cancel_claim_before_dispatch\<close>.\<close>

definition zero_open :: "cost_row \<Rightarrow> cost_row" where
  "zero_open w = (if cw_state w \<in> {Dispatching, Not_Attempted} then make_terminal_zero w else w)"

definition check_cancel :: "nat \<Rightarrow> grant \<Rightarrow> outcome \<Rightarrow> ledger \<Rightarrow> (agent_run \<times> cost_row \<times> cost_row) result" where
  "check_cancel gid g outcome L =
     (if lg_active L (grant_key g) \<noteq> Some gid \<or> gr_consumed g
         \<or> outcome \<notin> {Provider_Safety_Unavailable, Evidence_Unavailable}
      then Inl (Ledger_Error ''pre-send claimed refusal is unavailable'')
      else then_r (locked_run (lg_db L) (gr_run_id g)) (\<lambda>(a, q, w).
        if ar_status a \<noteq> Running \<or> ar_phase a \<noteq> Admission
        then Inl (Ledger_Error ''pre-send claimed refusal parent is unavailable'')
        else if cw_state (pick (gr_component g) q w) \<noteq> Dispatching
             \<or> (case cw_fence (pick (gr_component g) q w) of None \<Rightarrow> [] | Some f \<Rightarrow> f) \<noteq> gr_fence g
        then Inl (Ledger_Error ''pre-send claimed refusal row is unavailable'')
        else Inr (a, zero_open q, zero_open w)))"

definition cancel_claim_before_dispatch ::
  "ledger_authority \<Rightarrow> ledger_io \<Rightarrow> nat \<Rightarrow> outcome \<Rightarrow> ledger \<Rightarrow> run_terminal result \<times> ledger" where
  "cancel_claim_before_dispatch A io gid outcome L =
     (case lg_grants L gid of
        None \<Rightarrow> (Inl (Ledger_Error ''dispatch grant is invalid''), L)
      | Some g \<Rightarrow>
          transact (li_commit io) (check_cancel gid g outcome L)
            (\<lambda>_. drop_grant (grant_key g))
            (store_failed A (li_now io) (gr_run_id g) outcome None False (lg_db L))
            (\<lambda>_ _. id) L)"

section \<open>Recovery\<close>

text \<open>The processes that hold a dispatch of the run, and what a recovery asks of them.\<close>

definition holder :: "cost_row \<Rightarrow> string option" where
  "holder w =
     (if cw_state w = Dispatching \<or> (cw_state w = Terminal \<and> cw_attempted w \<and> cw_count w = 1)
      then cw_process w else None)"

definition dead_processes :: "cost_row \<Rightarrow> cost_row \<Rightarrow> string list" where
  "dead_processes q w = remdups (List.map_filter holder [q, w])"

definition expected_attestation ::
  "ledger_authority \<Rightarrow> int \<Rightarrow> cost_row \<Rightarrow> cost_row \<Rightarrow> string option result" where
  "expected_attestation A run_id q w =
     (case dead_processes q w of
        [p] \<Rightarrow> then_r (dead_process_attestation A run_id p) (\<lambda>h. Inr (Some h))
      | _ \<Rightarrow> Inr None)"

definition work_was_cut :: "cost_row \<Rightarrow> cost_row \<Rightarrow> bool" where
  "work_was_cut q w \<longleftrightarrow>
     list_ex (\<lambda>x. cw_state x = Dispatching) [q, w]
     \<or> (list_ex (\<lambda>x. cw_state x = Terminal \<and> cw_attempted x) [q, w]
        \<and> list_ex (\<lambda>x. cw_state x = Not_Attempted) [q, w])"

definition abandon_row :: "cost_row \<Rightarrow> cost_row" where
  "abandon_row w =
     (case cw_state w of
        Dispatching \<Rightarrow> w\<lparr>cw_state := Abandoned, cw_outcome := Some Abandoned_Unknown\<rparr>
      | Not_Attempted \<Rightarrow> make_terminal_zero w
      | _ \<Rightarrow> w)"

definition check_pending_recovery ::
  "ledger_authority \<Rightarrow> int \<Rightarrow> string option \<Rightarrow> string option \<Rightarrow> agent_run \<Rightarrow> cost_row \<Rightarrow> cost_row \<Rightarrow> unit result"
where
  "check_pending_recovery A run_id fence runtime_hmac a q w =
     then_r (current_pending_identity A run_id q w) (\<lambda>current.
     if fence = None \<or> (case ar_owner_fence a of None \<Rightarrow> [] | Some f \<Rightarrow> f) \<noteq> the fence
     then Inl (Ledger_Error ''projection owner fence is stale'')
     else if runtime_hmac = None
          \<or> (case ar_metadata a ''runtime_cost_snapshot_hmac'' of None \<Rightarrow> JStr [] | Some h \<Rightarrow> h)
              \<noteq> JStr (the runtime_hmac)
          \<or> current \<noteq> the runtime_hmac
     then Inl (Ledger_Error ''pending projection cost snapshot changed'')
     else require (cw_state q = Terminal \<and> cw_state w = Terminal)
       (Ledger_Error ''pending projection children are incomplete''))"

definition check_recovery ::
  "ledger_authority \<Rightarrow> int \<Rightarrow> string option \<Rightarrow> string option \<Rightarrow> string option \<Rightarrow> ledger
    \<Rightarrow> ((agent_run \<times> cost_row \<times> cost_row) \<times> bool) result" where
  "check_recovery A run_id fence runtime_hmac attestation L =
     then_r (locked_run (lg_db L) run_id) (\<lambda>(a, q, w).
     if ar_status a \<noteq> Running then Inl (Ledger_Error ''incomplete RAG run is unavailable'')
     else if ar_phase a = Pending_Projection
     then then_r (check_pending_recovery A run_id fence runtime_hmac a q w) (\<lambda>_. Inr ((a, q, w), True))
     else then_r (expected_attestation A run_id q w) (\<lambda>expected.
       if ar_phase a \<noteq> Admission \<or> \<not> work_was_cut q w \<or> fence \<noteq> None \<or> expected = None
          \<or> attestation \<noteq> expected
       then Inl (Ledger_Error ''reviewed dead-process recovery authority is unavailable'')
       else Inr ((a, abandon_row q, abandon_row w), False)))"

definition drop_grants :: "int \<Rightarrow> ledger \<Rightarrow> ledger" where
  "drop_grants run_id = drop_grant (run_id, Answer_Generation) \<circ> drop_grant (run_id, Query_Embedding)"

text \<open>\<open>recover_incomplete_run\<close>.\<close>

definition recover_incomplete_run ::
  "ledger_authority \<Rightarrow> ledger_io \<Rightarrow> int \<Rightarrow> string option \<Rightarrow> string option \<Rightarrow> string option
    \<Rightarrow> timestamp option \<Rightarrow> ledger \<Rightarrow> run_terminal result \<times> ledger" where
  "recover_incomplete_run A io run_id fence runtime_hmac attestation completed L =
     transact (li_commit io) (check_recovery A run_id fence runtime_hmac attestation L)
       (\<lambda>_. drop_grants run_id)
       (\<lambda>(arows, pending).
          store_failed A (li_now io) run_id (if pending then Persistence_Failed else Abandoned_Unknown)
            completed (\<not> pending) (lg_db L) arows)
       (\<lambda>_ _. id) L"

text \<open>\<open>PendingProjectionRecoverySnapshot\<close> and the rows whose authority it names.\<close>

record recovery_snapshot =
  rs_run_id :: int
  rs_owner_fence :: string
  rs_runtime_hmac :: string
  rs_paid :: bool
  rs_authorities :: "cost_row list"

definition pending_projection_recovery_snapshot ::
  "ledger_authority \<Rightarrow> int \<Rightarrow> ledger \<Rightarrow> recovery_snapshot result" where
  "pending_projection_recovery_snapshot A run_id L =
     (let unavailable = Ledger_Error ''pending projection recovery is unavailable'' in
      case locked_run (lg_db L) run_id of
        Inl _ \<Rightarrow> Inl unavailable
      | Inr (a, q, w) \<Rightarrow>
          if ar_status a \<noteq> Running \<or> ar_phase a \<noteq> Pending_Projection
             \<or> cw_state q \<noteq> Terminal \<or> cw_state w \<noteq> Terminal
          then Inl unavailable
          else
          (case (ar_owner_fence a, md_get (ar_metadata a) ''runtime_cost_snapshot_hmac'') of
             (Some fence, JStr runtime_hmac) \<Rightarrow>
               then_r (current_pending_identity A run_id q w) (\<lambda>current.
                 if current \<noteq> runtime_hmac
                 then Inl (Ledger_Error ''pending projection cost snapshot changed'')
                 else Inr \<lparr>rs_run_id = run_id, rs_owner_fence = fence, rs_runtime_hmac = runtime_hmac,
                           rs_paid = list_ex cw_attempted [q, w],
                           rs_authorities = filter cw_attempted [q, w]\<rparr>)
           | _ \<Rightarrow> Inl unavailable))"

text \<open>
  \<open>recover_incomplete_shadow_runs\<close>: \<open>ids\<close> are the stored run ids in ascending order, and each candidate
  meets its own \<open>ledger_io\<close>.
\<close>

definition shadow_candidate :: "rag_db \<Rightarrow> int \<Rightarrow> bool" where
  "shadow_candidate d run_id \<longleftrightarrow>
     (case ld_runs d run_id of
        None \<Rightarrow> False
      | Some a \<Rightarrow> ar_status a = Running \<and> ar_phase a = Pending_Projection
          \<and> ar_window a \<in> set [''rag-v2:admission:shadow:ask:pgvector'',
                              ''rag-v2:admission:shadow:search:pgvector'',
                              ''rag-v2:admission:shadow:assistant:pgvector''])"

definition recover_shadow_run ::
  "ledger_authority \<Rightarrow> ledger_io \<Rightarrow> int \<Rightarrow> ledger \<Rightarrow> run_terminal result \<times> ledger" where
  "recover_shadow_run A io run_id =
     under_failure_owner A run_id True (\<lambda>L.
       case pending_projection_recovery_snapshot A run_id L of
         Inl e \<Rightarrow> (Inl e, L)
       | Inr s \<Rightarrow> recover_incomplete_run A io run_id (Some (rs_owner_fence s)) (Some (rs_runtime_hmac s))
                    None None L)"

fun recover_shadow_runs ::
  "ledger_authority \<Rightarrow> (int \<Rightarrow> ledger_io) \<Rightarrow> int list \<Rightarrow> ledger \<Rightarrow> run_terminal list result \<times> ledger" where
  "recover_shadow_runs A io [] L = (Inr [], L)"
| "recover_shadow_runs A io (run_id # rest) L =
     (case recover_shadow_run A (io run_id) run_id L of
        (Inl e, L') \<Rightarrow> (Inl e, L')
      | (Inr t, L') \<Rightarrow>
          (case recover_shadow_runs A io rest L' of
             (Inl e, L'') \<Rightarrow> (Inl e, L'')
           | (Inr ts, L'') \<Rightarrow> (Inr (t # ts), L'')))"

definition recover_incomplete_shadow_runs ::
  "ledger_authority \<Rightarrow> (int \<Rightarrow> ledger_io) \<Rightarrow> int list \<Rightarrow> int \<Rightarrow> ledger
    \<Rightarrow> run_terminal list result \<times> ledger" where
  "recover_incomplete_shadow_runs A io ids limit L =
     (if \<not> (1 \<le> limit \<and> limit \<le> 100) then (Inl (Value_Error ''shadow recovery limit is invalid''), L)
      else recover_shadow_runs A io (take (nat limit) (filter (shadow_candidate (lg_db L)) ids)) L)"

end
