(* ===== verification/Ledger_Facts.thy ===== *)
theory Ledger_Facts
  imports Ledger_Closure
begin

text \<open>
  What every operation of the cost ledger does to the stored tables. The contract of one run is the
  abstract machine \<open>lifecycle\<close> over \<open>view\<close>: its phase and the dispatch states of its two components. A
  stored run keeps \<open>run_wf\<close>; a row is settled once (\<open>row_evolves\<close>); \<open>ledger_change\<close> is one step of the
  tables.
\<close>

section \<open>The lifecycle of a run\<close>

type_synonym run_view = "run_phase \<times> dispatch_state \<times> dispatch_state"

abbreviation view :: "agent_run \<Rightarrow> cost_row \<Rightarrow> cost_row \<Rightarrow> run_view" where
  "view a q w \<equiv> (ar_phase a, cw_state q, cw_state w)"

fun abandoned_state :: "dispatch_state \<Rightarrow> dispatch_state" where
  "abandoned_state Dispatching = Abandoned"
| "abandoned_state _ = Terminal"

abbreviation open_state :: "dispatch_state \<Rightarrow> bool" where
  "open_state s \<equiv> s \<in> {Not_Attempted, Dispatching}"

inductive lifecycle :: "run_view \<Rightarrow> run_view \<Rightarrow> bool" where
  dispatch_query: "lifecycle (Admission, Not_Attempted, w) (Admission, Dispatching, w)"
| dispatch_answer: "lifecycle (Admission, q, Not_Attempted) (Admission, q, Dispatching)"
| settle_query: "open_state w \<Longrightarrow> lifecycle (Admission, Dispatching, w) (Admission, Terminal, w)"
| settle_answer: "open_state q \<Longrightarrow> lifecycle (Admission, q, Dispatching) (Admission, q, Terminal)"
| await_projection: "lifecycle (Admission, q, w) (Pending_Projection, Terminal, Terminal)"
| fail_admission: "lifecycle (Admission, q, w) (Final, Terminal, Terminal)"
| abandon: "lifecycle (Admission, q, w) (Admission_Only, abandoned_state q, abandoned_state w)"
| close_projection: "lifecycle (Pending_Projection, Terminal, Terminal) (Final, Terminal, Terminal)"

inductive_cases lifecycle_cases: "lifecycle v v'"

inductive_simps lifecycle_from_closed [simp]:
  "lifecycle (Final, s) v" "lifecycle (Admission_Only, s) v"

section \<open>A stored run\<close>

text \<open>The run and its rows satisfy every constraint, the total is the sum of the rows, the run is open
  exactly while a row is, and only a recovered admission holds an abandoned row.\<close>

definition run_wf :: "agent_run \<Rightarrow> cost_row \<Rightarrow> cost_row \<Rightarrow> bool" where
  "run_wf a q w \<longleftrightarrow> run_ok a [q, w] \<and> ar_charged a = total_charged [q, w]
     \<and> (ar_phase a = Admission \<longleftrightarrow> \<not> (is_closed q \<and> is_closed w))
     \<and> (cw_state q = Abandoned \<or> cw_state w = Abandoned \<longrightarrow> ar_phase a = Admission_Only)"

definition db_wf :: "rag_db \<Rightarrow> bool" where
  "db_wf d \<longleftrightarrow>
     (\<forall>r a. ld_runs d r = Some a \<longrightarrow> (\<exists>q w. ld_rows d r = [q, w] \<and> run_wf a q w))"

text \<open>What never changes in a row, and how it may evolve: once dispatched it can only be closed, once
  closed it is final.\<close>

definition row_target :: "cost_row \<Rightarrow> component \<times> string \<times> string \<times> string \<times> string \<times> string \<times> string \<times> string" where
  "row_target w =
     (cw_component w, cw_provider w, cw_model w, cw_config_version w, cw_config_hmac w,
      cw_cost_version w, cw_estimator_version w, cw_policy_hmac w)"

definition row_evolves :: "cost_row \<Rightarrow> cost_row \<Rightarrow> bool" where
  "row_evolves w w' \<longleftrightarrow> row_target w' = row_target w \<and> (is_closed w \<longrightarrow> w' = w)
     \<and> (cw_state w = Dispatching \<longrightarrow> w' = w \<or> is_closed w')"

type_synonym stored_run = "agent_run \<times> cost_row \<times> cost_row"

text \<open>One step of a stored run; \<open>R\<close> says what the operation may do to a row.\<close>

definition moves :: "(cost_row \<Rightarrow> cost_row \<Rightarrow> bool) \<Rightarrow> stored_run \<Rightarrow> stored_run \<Rightarrow> bool" where
  "moves R s s' \<longleftrightarrow>
     (case (s, s') of ((a, q, w), (a', q', w')) \<Rightarrow>
        ar_status a = Running \<and> run_wf a' q' w'
        \<and> (view a' q' w' = view a q w \<or> lifecycle (view a q w) (view a' q' w'))
        \<and> row_evolves q q' \<and> row_evolves w w' \<and> R q q' \<and> R w w')"

inductive ledger_change :: "(cost_row \<Rightarrow> cost_row \<Rightarrow> bool) \<Rightarrow> rag_db \<Rightarrow> rag_db \<Rightarrow> bool"
  for R where
  unchanged: "ld_runs d' = ld_runs d \<Longrightarrow> ld_rows d' = ld_rows d \<Longrightarrow> ledger_change R d d'"
| admitted: "ld_runs d r = None \<Longrightarrow> r \<notin> ld_foreign d \<Longrightarrow> run_wf a q w
    \<Longrightarrow> view a q w = (Admission, Not_Attempted, Not_Attempted)
    \<Longrightarrow> ld_runs d' = (ld_runs d)(r \<mapsto> a) \<Longrightarrow> ld_rows d' = (ld_rows d)(r := [q, w]) \<Longrightarrow> ledger_change R d d'"
| moved: "locked_run d r = Inr s \<Longrightarrow> moves R s (a, q, w)
    \<Longrightarrow> ld_runs d' = (ld_runs d)(r \<mapsto> a) \<Longrightarrow> ld_rows d' = (ld_rows d)(r := [q, w]) \<Longrightarrow> ledger_change R d d'"

lemma ledger_change_refl [simp]: "ledger_change R d d"
  by (simp add: unchanged)

lemma ledger_change_mono:
  assumes "ledger_change R d d'" and "\<And>w w'. R w w' \<Longrightarrow> R' w w'"
  shows "ledger_change R' d d'"
  using assms(1)
proof (induction rule: ledger_change.induct)
  case (moved d r s a q w d')
  then show ?case using assms(2) by (intro ledger_change.moved [of d r s]) (auto simp: moves_def)
qed (auto intro: ledger_change.intros)

abbreviation some_change :: "rag_db \<Rightarrow> rag_db \<Rightarrow> bool" where
  "some_change \<equiv> ledger_change (\<lambda>_ _. True)"

lemma ledger_change_some: "ledger_change R d d' \<Longrightarrow> some_change d d'"
  by (erule ledger_change_mono) simp

text \<open>What the closing operations do to a row.\<close>

definition row_closes :: "cost_row \<Rightarrow> cost_row \<Rightarrow> bool" where
  "row_closes w w' \<longleftrightarrow> w' = w \<or> w' = make_terminal_zero w \<or> w' = abandon_row w"

text \<open>The most a dispatch of a component may reserve.\<close>

fun reservation_cap :: "component \<Rightarrow> int" where
  "reservation_cap Query_Embedding = 160"
| "reservation_cap Answer_Generation = 9804"

definition row_claims :: "cost_row \<Rightarrow> cost_row \<Rightarrow> bool" where
  "row_claims w w' \<longleftrightarrow> w' = w
     \<or> (cw_reserved w \<le> reservation_cap (cw_component w) \<and> (\<exists>f p. w' = claimed_row f p w))"

definition row_binds :: "prepared_budget \<Rightarrow> cost_row \<Rightarrow> cost_row \<Rightarrow> bool" where
  "row_binds b w w' \<longleftrightarrow> w' = w
     \<or> (cw_component w = Answer_Generation \<and> cw_state w = Not_Attempted \<and> w' = bound_row b w)"

definition row_settles ::
  "observation \<Rightarrow> bool \<Rightarrow> component \<Rightarrow> int \<Rightarrow> cost_row \<Rightarrow> cost_row \<Rightarrow> bool" where
  "row_settles ob v c reserved w w' \<longleftrightarrow> w' = w \<or> w' = make_terminal_zero w
     \<or> (cw_component w = c \<and> cw_state w = Dispatching \<and> cw_reserved w = reserved
        \<and> w' = settled_row ob v w)"

lemma row_closes_simps [simp]:
  "row_closes w w" "row_closes w (make_terminal_zero w)" "row_closes w (abandon_row w)"
  by (simp_all add: row_closes_def)
lemma locked_run_Inr:
  "locked_run d r = Inr (a, q, w) \<longleftrightarrow>
     ld_runs d r = Some a \<and> ld_rows d r = [q, w] \<and> [cw_component q, cw_component w] = component_order"
  by (auto simp: locked_run_def split: option.splits list.splits if_splits)

lemma db_wf_locked:
  "db_wf d \<Longrightarrow> locked_run d r = Inr (a, q, w) \<Longrightarrow> run_wf a q w"
  by (fastforce simp: db_wf_def locked_run_Inr)

lemma run_wf_components: "run_wf a q w \<Longrightarrow> [cw_component q, cw_component w] = component_order"
  by (simp add: run_wf_def run_ok_def)

lemma db_wf_locked_iff:
  assumes "db_wf d"
  shows "ld_runs d r = Some a \<longleftrightarrow> (\<exists>q w. locked_run d r = Inr (a, q, w) \<and> run_wf a q w)"
  using assms by (force simp: db_wf_def locked_run_Inr dest: run_wf_components)

lemma ledger_change_wf:
  assumes "ledger_change R d d'" and "db_wf d"
  shows "db_wf d'"
  using assms
proof (induction rule: ledger_change.induct)
  case (moved d r s a q w d')
  then show ?case by (cases s) (auto simp: db_wf_def moves_def)
qed (auto simp: db_wf_def)

section \<open>Transactions\<close>

lemma transact_induct:
  assumes "transact co guard before pending after L = (r, L')"
    and "P L"
    and "\<And>g. guard = Inr g \<Longrightarrow> lg_db (before g L) = lg_db L \<and> P (before g L)"
    and "\<And>g d v. guard = Inr g \<Longrightarrow> pending g = Inr (d, v) \<Longrightarrow> P ((before g L)\<lparr>lg_db := d\<rparr>)
      \<and> (r = Inr v \<longrightarrow> P (after g v ((before g L)\<lparr>lg_db := d\<rparr>)))"
  shows "P L'"
proof (cases guard)
  case (Inl e)
  then show ?thesis using assms by (auto simp: transact_def)
next
  case (Inr g)
  have keep: "P ((before g L)\<lparr>lg_db := lg_db L\<rparr>)"
    using assms(3) [OF Inr] by (metis ledger.surjective ledger.update_convs(1))
  show ?thesis
  proof (cases "pending g")
    case (Inl e)
    then show ?thesis using assms(1) assms(3) [OF Inr] Inr by (auto simp: transact_def)
  next
    case (Inr x)
    obtain d v where x: "x = (d, v)" by (cases x)
    then show ?thesis
      using assms(1) assms(3) [OF \<open>guard = Inr g\<close>] assms(4) [OF \<open>guard = Inr g\<close>] Inr \<open>guard = Inr g\<close> keep
      by (auto simp: transact_def commit_db_def simp del: ledger.update_convs split: commit_outcome.splits)
  qed
qed

text \<open>The value of a transaction comes from its acknowledged commit.\<close>

lemma transact_Inr:
  assumes "transact co guard before pending after L = (Inr v, L')"
  obtains g d where "guard = Inr g" and "pending g = Inr (d, v)" and "co = Acknowledged"
    and "L' = after g v ((before g L)\<lparr>lg_db := d\<rparr>)"
  using assms by (auto simp: transact_def commit_db_def split: sum.splits prod.splits commit_outcome.splits)

lemma transact_change:
  assumes "transact co guard before pending after L = (r, L')"
    and "\<And>g L. lg_db (before g L) = lg_db L" and "\<And>g v L. lg_db (after g v L) = lg_db L"
    and "\<And>g d v. guard = Inr g \<Longrightarrow> pending g = Inr (d, v) \<Longrightarrow> ledger_change R (lg_db L) d"
  shows "ledger_change R (lg_db L) (lg_db L')"
  using assms(1) by (rule transact_induct [where P = "\<lambda>L'. ledger_change R (lg_db L) (lg_db L')"])
    (simp_all add: assms(2-4))

lemma transact_keeps:
  assumes "transact co guard before pending after L = (r, L')"
    and "\<And>g L. lg_db (before g L) = lg_db L"
    and "\<And>g L. f (before g L) = f L" and "\<And>g v L. f (after g v L) = f L"
    and "\<And>L d. f (L\<lparr>lg_db := d\<rparr>) = f L"
  shows "f L' = f L"
  using assms(1) by (rule transact_induct [where P = "\<lambda>L'. f L' = f L"]) (simp_all add: assms(2-5))

text \<open>An error leaves the tables as they were, unless the fate of a commit is unknown.\<close>

lemma transact_error:
  assumes "transact co guard before pending after L = (Inl e, L')" and "e \<noteq> unacknowledged"
    and "\<And>g L. lg_db (before g L) = lg_db L"
  shows "lg_db L' = lg_db L"
  using assms by (auto simp: transact_def commit_db_def split: sum.splits prod.splits commit_outcome.splits)

section \<open>Rows\<close>

definition sound_authority :: "ledger_authority \<Rightarrow> bool" where
  "sound_authority A \<longleftrightarrow> hex_digests (la_primitives A) \<and> is_lower_hex_64 (la_process A)
     \<and> policy_ready (la_policy A)"

lemma sql_length_hex: "is_lower_hex_64 s \<Longrightarrow> sql_length s = 64"
proof -
  have free: "list_all lower_hex t \<Longrightarrow> code_points t = length t" for t
    by (induction t) (auto simp: code_points_def lower_hex_def utf8_tail_def)
  show "is_lower_hex_64 s \<Longrightarrow> sql_length s = 64"
    using free [of s] by (simp add: is_lower_hex_64_def sql_length_def)
qed

text \<open>A row with the same target columns needs only its other constraints.\<close>

lemma row_ok_transfer:
  assumes "row_ok w" and "row_target w' = row_target w" and "row_nonnegative w'" and "row_shape w'"
    and "case cw_fence w' of None \<Rightarrow> True | Some h \<Rightarrow> sql_length h = 64"
    and "case cw_process w' of None \<Rightarrow> True | Some h \<Rightarrow> sql_length h = 64"
  shows "row_ok w'"
  using assms by (cases "cw_component w") (simp_all add: row_ok_def row_target_ok_def row_hmacs_ok_def row_target_def)

lemma row_ok_parts:
  assumes "row_ok w"
  shows "row_nonnegative w" and "row_shape w"
    and "case cw_fence w of None \<Rightarrow> True | Some h \<Rightarrow> sql_length h = 64"
    and "case cw_process w of None \<Rightarrow> True | Some h \<Rightarrow> sql_length h = 64"
  using assms by (simp_all add: row_ok_def row_hmacs_ok_def)

lemmas row_ok_defs = row_ok_def row_target_ok_def row_hmacs_ok_def row_nonnegative_def

lemma zero_row_simps [simp]:
  "cw_state (make_terminal_zero w) = Terminal" "cw_charged (make_terminal_zero w) = 0"
  "cw_component (make_terminal_zero w) = cw_component w" "cw_reserved (make_terminal_zero w) = 0"
  "row_target (make_terminal_zero w) = row_target w" "is_closed (make_terminal_zero w)"
  by (simp_all add: make_terminal_zero_def row_target_def is_closed_def)

lemma zero_row_ok [simp]: "row_ok w \<Longrightarrow> row_ok (make_terminal_zero w)"
  by (erule row_ok_transfer)
    (simp, simp_all add: row_nonnegative_def row_shape_def make_terminal_zero_def)

text \<open>A closed row that was never attempted is already zero.\<close>

lemma zero_of_zero:
  assumes "row_ok w" and "cw_state w = Terminal" and "\<not> cw_attempted w"
  shows "make_terminal_zero w = w"
  using assms by (cases w) (auto simp: row_ok_defs row_shape_def make_terminal_zero_def)

lemma zero_row_evolves:
  assumes "row_ok w" and "is_closed w \<longrightarrow> cw_state w = Terminal \<and> \<not> cw_attempted w"
  shows "row_evolves w (make_terminal_zero w)"
  using assms zero_of_zero [OF assms(1)] by (auto simp: row_evolves_def)

lemma row_evolves_refl [simp]: "row_evolves w w"
  by (simp add: row_evolves_def)

lemma row_evolves_trans: "row_evolves u v \<Longrightarrow> row_evolves v w \<Longrightarrow> row_evolves u w"
  by (auto simp: row_evolves_def)

lemma claimed_row_simps [simp]:
  "cw_state (claimed_row f p w) = Dispatching" "cw_charged (claimed_row f p w) = cw_reserved w"
  "cw_component (claimed_row f p w) = cw_component w" "cw_reserved (claimed_row f p w) = cw_reserved w"
  "row_target (claimed_row f p w) = row_target w" "\<not> is_closed (claimed_row f p w)"
  by (simp_all add: claimed_row_def row_target_def is_closed_def)

lemma claimed_row_ok:
  assumes "row_ok w" and "cw_state w = Not_Attempted" and "is_lower_hex_64 f" and "is_lower_hex_64 p"
  shows "row_ok (claimed_row f p w)"
proof (rule row_ok_transfer [OF assms(1)])
  show "row_shape (claimed_row f p w)" and "row_nonnegative (claimed_row f p w)"
    using row_ok_parts(1,2) [OF assms(1)] assms(2)
    by (simp_all add: row_shape_def row_nonnegative_def claimed_row_def)
qed (use assms(3,4) in \<open>simp_all add: sql_length_hex, simp_all add: claimed_row_def sql_length_hex\<close>)

lemma settled_row_simps [simp]:
  "cw_component (settled_row ob v w) = cw_component w" "cw_reserved (settled_row ob v w) = cw_reserved w"
  "row_target (settled_row ob v w) = row_target w" "is_closed (settled_row ob v w)"
  by (simp_all add: settled_row_def row_target_def is_closed_def Let_def split: option.splits)

lemma settled_row_state:
  "ob_terminal_outcome ob \<noteq> Abandoned_Unknown \<Longrightarrow> cw_state (settled_row ob v w) = Terminal"
  by (simp add: settled_row_def Let_def split: option.splits)

text \<open>An observation whose reported numbers the policy has accepted.\<close>

definition charge_sound :: "observation \<Rightarrow> bool" where
  "charge_sound ob \<longleftrightarrow>
     (\<forall>m u. ob_actual_cost ob = Some m \<longrightarrow> ob_strict_usage ob = Some u \<longrightarrow>
        0 \<le> m \<and> 0 \<le> input_tokens u \<and> 0 \<le> output_tokens u)"

lemma expected_charge_sound:
  assumes "policy_ready p" and "expected_charge p ob = Inr x"
  shows "charge_sound ob" and "ob_actual_cost ob = x" and "(ob_actual_cost ob = None) = (ob_strict_usage ob = None)"
proof -
  show eq: "ob_actual_cost ob = x" and "(ob_actual_cost ob = None) = (ob_strict_usage ob = None)"
    using assms(2) by (auto simp: expected_charge_def split: if_splits option.splits)
  show "charge_sound ob"
    unfolding charge_sound_def
  proof (intro allI impI)
    fix m u assume "ob_actual_cost ob = Some m" and "ob_strict_usage ob = Some u"
    then have c: "charge_actual p (component_name (ob_component ob)) u = Inr m"
      using assms(2) by (auto simp: expected_charge_def split: if_splits option.splits)
    then have "charge_of p (ob_component ob) u = Some m" using assms(1) by (simp add: charge_of_def)
    then have "0 \<le> m" by (rule price.charge_nonneg)
    moreover have "0 \<le> input_tokens u \<and> 0 \<le> output_tokens u"
      using c assms(1) by (auto simp: charge_actual_Inr is_signed_bigint_def split: if_splits)
    ultimately show "0 \<le> m \<and> 0 \<le> input_tokens u \<and> 0 \<le> output_tokens u" by simp
  qed
qed

lemma settled_row_ok:
  assumes "row_ok w" and "cw_state w = Dispatching" and "charge_sound ob"
    and "ob_terminal_outcome ob \<noteq> Abandoned_Unknown"
  shows "row_ok (settled_row ob v w)"
proof (rule row_ok_transfer [OF assms(1)])
  show "row_shape (settled_row ob v w)" and "row_nonnegative (settled_row ob v w)"
    using row_ok_parts(1,2) [OF assms(1)] assms(2-4)
    by (auto simp: row_shape_def row_nonnegative_def settled_row_def charge_sound_def Let_def
        split: option.splits)
  show "case cw_fence (settled_row ob v w) of None \<Rightarrow> True | Some h \<Rightarrow> sql_length h = 64"
    and "case cw_process (settled_row ob v w) of None \<Rightarrow> True | Some h \<Rightarrow> sql_length h = 64"
    using row_ok_parts(3,4) [OF assms(1)] by (auto simp: settled_row_def Let_def split: option.splits)
qed simp

lemma abandon_row_ok:
  assumes "row_ok w"
  shows "row_ok (abandon_row w)"
proof (cases "cw_state w = Dispatching")
  case True
  then have eq: "abandon_row w = w\<lparr>cw_state := Abandoned, cw_outcome := Some Abandoned_Unknown\<rparr>"
    by (simp add: abandon_row_def)
  show ?thesis
    unfolding eq using row_ok_parts [OF assms] True
    by (intro row_ok_transfer [OF assms]) (auto simp: row_shape_def row_nonnegative_def row_target_def)
next
  case False
  then show ?thesis using assms by (auto simp: abandon_row_def split: dispatch_state.splits)
qed

lemma abandon_row_evolves: "row_evolves w (abandon_row w)"
  by (cases "cw_state w")
    (auto simp: abandon_row_def row_evolves_def row_target_def is_closed_def make_terminal_zero_def)

lemma abandon_row_simps [simp]:
  "cw_component (abandon_row w) = cw_component w" "is_closed (abandon_row w)"
  "cw_state w \<noteq> Abandoned \<Longrightarrow> cw_state (abandon_row w) = abandoned_state (cw_state w)"
  by (cases "cw_state w"; simp add: abandon_row_def is_closed_def)+

lemma total_charged_pair [simp]: "total_charged [q, w] = cw_charged q + cw_charged w"
  by (simp add: total_charged_def)

section \<open>Runs\<close>

lemma shaped_identity_hex:
  "hex_digests P \<Longrightarrow> shaped_identity P secret keys l sv pv v = Inr d \<Longrightarrow> is_lower_hex_64 d"
  by (auto simp: shaped_identity_def rag_identity_hmac_def split: if_splits intro: keyed_fingerprint_hex)

lemma pending_run_Inr:
  assumes "pending_run A nonce r a q w p = Inr a'" and "sound_authority A"
  shows "ar_phase a' = Pending_Projection" and "ar_status a' = ar_status a"
    and "ar_completed a' = ar_completed a" and "ar_charged a' = ar_charged a"
    and "\<exists>f. ar_owner_fence a' = Some f \<and> is_lower_hex_64 f"
  using assms
  by (auto simp: pending_run_def projection_owner_fence_def projection_owner_identity_def
      sound_authority_def split: prod.splits intro: shaped_identity_hex)

lemma finalize_failed_run_Inr:
  assumes "finalize_failed_run A now r a q w outcome completed only = Inr (a', t)"
  shows "ar_status a' = Failed" and "ar_phase a' = (if only then Admission_Only else Final)"
    and "ar_completed a' \<noteq> None" and "ar_charged a' = cw_charged q + cw_charged w"
    and "ar_owner_fence a' = (if only then None else ar_owner_fence a)"
    and "te_charged t = ar_charged a'" and "te_outcome t = outcome"
  using assms by (auto simp: finalize_failed_run_def Let_def split: if_splits)

text \<open>What a run needs besides its rows.\<close>

lemma run_wfI:
  assumes "row_ok q" and "row_ok w" and "[cw_component q, cw_component w] = component_order"
    and "ar_charged a = cw_charged q + cw_charged w"
    and "case ar_owner_fence a of None \<Rightarrow> True | Some h \<Rightarrow> sql_length h = 64" and "run_lifecycle a"
    and "ar_phase a = Admission \<longleftrightarrow> \<not> (is_closed q \<and> is_closed w)"
    and "cw_state q = Abandoned \<or> cw_state w = Abandoned \<longrightarrow> ar_phase a = Admission_Only"
  shows "run_wf a q w"
  using assms by (auto simp: run_wf_def run_ok_def run_shape_def row_ok_def row_nonnegative_def)

lemma run_wf_rows:
  assumes "run_wf a q w"
  shows "row_ok q" and "row_ok w" and "[cw_component q, cw_component w] = component_order"
    and "ar_charged a = cw_charged q + cw_charged w"
    and "case ar_owner_fence a of None \<Rightarrow> True | Some h \<Rightarrow> sql_length h = 64" and "run_lifecycle a"
    and "ar_phase a = Admission \<longleftrightarrow> \<not> (is_closed q \<and> is_closed w)"
    and "cw_state q = Abandoned \<or> cw_state w = Abandoned \<longrightarrow> ar_phase a = Admission_Only"
  using assms by (auto simp: run_wf_def run_ok_def run_shape_def)

lemma pick_simps [simp]:
  "pick Query_Embedding q w = q" "pick Answer_Generation q w = w"
  "replace_pick Query_Embedding x (q, w) = (x, w)" "replace_pick Answer_Generation x (q, w) = (q, x)"
  by (simp_all add: pick_def replace_pick_def)

lemma pick_row_ok: "row_ok q \<Longrightarrow> row_ok w \<Longrightarrow> row_ok (pick c q w)"
  by (cases c) simp_all

text \<open>A run that fails with both rows closed.\<close>

lemma failed_moves:
  assumes wf: "run_wf a q w" and run: "ar_status a = Running"
    and fail: "finalize_failed_run A now r a1 q' w' outcome completed only = Inr (a', t)"
    and rows: "row_ok q'" "row_ok w'" "row_evolves q q'" "row_evolves w w'" and rel: "R q q'" "R w w'"
    and closed: "is_closed q'" "is_closed w'"
    and fence: "case ar_owner_fence a1 of None \<Rightarrow> True | Some h \<Rightarrow> sql_length h = 64"
    and states: "if only then ar_phase a = Admission \<and> cw_state q' = abandoned_state (cw_state q)
        \<and> cw_state w' = abandoned_state (cw_state w)
      else cw_state q' = Terminal \<and> cw_state w' = Terminal
        \<and> (ar_phase a = Admission \<or> cw_state q = Terminal \<and> cw_state w = Terminal)"
  shows "moves R (a, q, w) (a', q', w')"
proof -
  note f = finalize_failed_run_Inr [OF fail] and o = run_wf_rows [OF wf]
  have comps: "[cw_component q', cw_component w'] = component_order"
    using o(3) rows(3,4) by (simp add: row_evolves_def row_target_def)
  have wf': "run_wf a' q' w'"
  proof (rule run_wfI [OF rows(1,2) comps f(4)])
    show "case ar_owner_fence a' of None \<Rightarrow> True | Some h \<Rightarrow> sql_length h = 64"
      using fence f(5) by simp
    show "run_lifecycle a'" using f by (simp add: run_lifecycle_def)
    show "ar_phase a' = Admission \<longleftrightarrow> \<not> (is_closed q' \<and> is_closed w')" using f(2) closed by simp
    show "cw_state q' = Abandoned \<or> cw_state w' = Abandoned \<longrightarrow> ar_phase a' = Admission_Only"
      using states f(2) by (auto split: if_splits)
  qed
  have "ar_phase a \<in> {Admission, Pending_Projection}"
    using o(6) run by (auto simp: run_lifecycle_def split: run_phase.splits)
  then have "lifecycle (view a q w) (view a' q' w')"
    using states f(2) by (auto split: if_splits intro: lifecycle.intros)
  then show ?thesis using run wf' rows(3,4) rel by (simp add: moves_def)
qed

lemma row_evolves_target: "row_evolves w w' \<Longrightarrow> cw_component w' = cw_component w"
  by (simp add: row_evolves_def row_target_def)

text \<open>A run whose costs are final and whose projection is owed.\<close>

lemma pending_moves:
  assumes wf: "run_wf a q w" and run: "ar_status a = Running" "ar_phase a = Admission"
    and pend: "pending_run A nonce r a1 q' w' p = Inr a'" and sound: "sound_authority A"
    and a1: "ar_status a1 = Running" "ar_completed a1 = None" "ar_charged a1 = cw_charged q' + cw_charged w'"
    and rows: "row_ok q'" "row_ok w'" "row_evolves q q'" "row_evolves w w'" and rel: "R q q'" "R w w'"
    and states: "cw_state q' = Terminal" "cw_state w' = Terminal"
  shows "moves R (a, q, w) (a', q', w')"
proof -
  note p = pending_run_Inr [OF pend sound] and o = run_wf_rows [OF wf]
  have "run_wf a' q' w'"
  proof (rule run_wfI [OF rows(1,2)])
    show "[cw_component q', cw_component w'] = component_order"
      using o(3) rows(3,4) by (simp add: row_evolves_target)
    show "case ar_owner_fence a' of None \<Rightarrow> True | Some h \<Rightarrow> sql_length h = 64"
      using p(5) by (auto simp: sql_length_hex)
    show "run_lifecycle a'" using p a1 by (auto simp: run_lifecycle_def)
  qed (use p a1 states in \<open>auto simp: is_closed_def\<close>)
  then show ?thesis using p(1) run states rows(3,4) rel by (simp add: moves_def await_projection)
qed

section \<open>Operations\<close>

lemma memory_db [simp]:
  "lg_db (record_budget r c b L) = lg_db L" "lg_db (record_snapshot r s L) = lg_db L"
  "lg_db (drop_grant k L) = lg_db L" "lg_db (drop_answer r L) = lg_db L"
  "lg_db (forget_pending r L) = lg_db L" "lg_db (drop_grants r L) = lg_db L"
  by (simp_all add: record_budget_def record_snapshot_def drop_grant_def drop_answer_def
      forget_pending_def drop_grants_def split: admission_budget.splits)

lemma store_run_simps [simp]:
  "ld_runs (store_run d r a q w) = (ld_runs d)(r \<mapsto> a)"
  "ld_rows (store_run d r a q w) = (ld_rows d)(r := [q, w])"
  "ld_foreign (store_run d r a q w) = ld_foreign d" "ld_audit (store_run d r a q w) = ld_audit d"
  by (simp_all add: store_run_def)

lemma moved_store:
  assumes "locked_run d r = Inr s" and "moves R s (a, q, w)"
    and "ld_runs d' = ld_runs (store_run d r a q w)" and "ld_rows d' = ld_rows (store_run d r a q w)"
  shows "ledger_change R d d'"
  using assms by (intro moved) simp_all

lemma admitted_simps [simp]:
  "ar_phase (admitted_run r h h') = Admission" "ar_charged (admitted_run r h h') = 0"
  "cw_state (admitted_row x) = Not_Attempted" "cw_charged (admitted_row x) = 0"
  "\<not> is_closed (admitted_row x)"
  by (simp_all add: admitted_run_def admitted_row_def is_closed_def split: prod.splits)

lemma admitted_run_wf:
  "run_ok (admitted_run r h h') [admitted_row x, admitted_row y]
    \<Longrightarrow> run_wf (admitted_run r h h') (admitted_row x) (admitted_row y)"
  by (simp add: run_wf_def)

lemma create_admission_change:
  assumes "create_admission A io r L = (x, L')"
  shows "ledger_change R (lg_db L) (lg_db L')"
proof (cases "check_admission A r")
  case (Inl e)
  then show ?thesis using assms by (simp add: create_admission_def transact_def Let_def)
next
  case (Inr hs)
  obtain h h' where hs: "hs = (h, h')" by (cases hs)
  let ?a = "admitted_run r h h'"
  show ?thesis
  proof (cases "insertable (lg_db L) (aq_run_id r) ?a [admitted_row (aq_query r), admitted_row (aq_answer r)]")
    case True
    then have "ledger_change R (lg_db L) ((lg_db L)
      \<lparr>ld_runs := (ld_runs (lg_db L))(aq_run_id r \<mapsto> ?a),
       ld_rows := (ld_rows (lg_db L))(aq_run_id r := [admitted_row (aq_query r), admitted_row (aq_answer r)])\<rparr>)"
      by (intro admitted [where a = ?a and q = "admitted_row (aq_query r)" and w = "admitted_row (aq_answer r)"])
        (simp_all add: insertable_def admitted_run_wf)
    then show ?thesis
      using assms Inr hs True
      by (auto simp: create_admission_def transact_def commit_db_def Let_def split: commit_outcome.splits)
  next
    case False
    then show ?thesis
      using assms Inr hs by (auto simp: create_admission_def transact_def commit_db_def Let_def)
  qed
qed

text \<open>Binding the answer budget lowers a reservation and touches nothing else of the row.\<close>

lemma bound_row_simps [simp]:
  "cw_state (bound_row b w) = cw_state w" "cw_charged (bound_row b w) = cw_charged w"
  "cw_component (bound_row b w) = cw_component w" "row_target (bound_row b w) = row_target w"
  "is_closed (bound_row b w) = is_closed w" "cw_reserved (bound_row b w) = pb_reserved_cost b"
  by (simp_all add: bound_row_def row_target_def is_closed_def)

lemma bound_row_ok:
  assumes "row_ok w" and "cw_state w = Not_Attempted" and "budget_valid p b"
  shows "row_ok (bound_row b w)"
proof -
  have "0 \<le> pb_reserved_cost b" and "0 \<le> pb_input_tokens b" and "0 \<le> pb_output_tokens b"
    using assms(3) price.reserved_bounds [OF assms(3)]
    by (auto simp: budget_valid_def validate_prepared_budget_Inr)
  then show ?thesis
    using row_ok_parts [OF assms(1)] assms(2)
    by (intro row_ok_transfer [OF assms(1)])
      (simp, simp_all add: bound_row_def row_nonnegative_def row_shape_def)
qed

lemma check_binding_Inr:
  assumes "check_binding A r b x L = Inr (a, q, w)"
  obtains c where "validate_prepared_budget (la_policy A) b = Inr ()"
    and "locked_run (lg_db L) r = Inr (a, q, w)" and "lg_reservations L r = Some c"
    and "binding_fits b c" and "answer_reserved_as a q w c"
  using assms by (auto simp: check_binding_def split: option.splits if_splits prod.splits)

lemma bind_answer_budget_change:
  assumes op: "bind_answer_budget A io r b x L = (y, L')" and wf: "db_wf (lg_db L)" and sound: "sound_authority A"
  shows "ledger_change (row_binds b) (lg_db L) (lg_db L')"
  using op unfolding bind_answer_budget_def
proof (rule transact_change)
  fix g d v
  assume g: "check_binding A r b x L = Inr g"
    and p: "(case g of (a, q, w) \<Rightarrow>
          let w' = bound_row b w in
          then_r (run_cost_identity A r [q, w'] None Admission Running ''pre_projection'') (\<lambda>h.
          Inr (store_run (lg_db L) r
                 (a\<lparr>ar_estimated := total_reserved [q, w'],
                    ar_metadata := (ar_metadata a ++ map_of (projection_identity x))
                      (''runtime_cost_snapshot_hmac'' \<mapsto> JStr h)\<rparr>) q w', ()))) = Inr (d, v)"
  obtain a q w where gw: "g = (a, q, w)" by (cases g)
  obtain c where lock: "locked_run (lg_db L) r = Inr (a, q, w)" and res: "answer_reserved_as a q w c"
    and v: "validate_prepared_budget (la_policy A) b = Inr ()"
    using check_binding_Inr [OF g [unfolded gw]] by blast
  note o = run_wf_rows [OF db_wf_locked [OF wf lock]]
  have NA: "cw_state w = Not_Attempted" and run: "ar_status a = Running" "ar_phase a = Admission"
    using res by (simp_all add: answer_reserved_as_def)
  have "budget_valid (la_policy A) b" using v sound by (simp add: sound_authority_def budget_valid_def)
  then have "row_ok (bound_row b w)" by (rule bound_row_ok [OF o(2) NA])
  moreover have "row_evolves w (bound_row b w)" using NA by (simp add: row_evolves_def is_closed_def)
  ultimately have "moves (row_binds b) (a, q, w) (a\<lparr>ar_estimated := e, ar_metadata := m\<rparr>, q, bound_row b w)" for e m
    using o run NA by (auto simp: moves_def is_closed_def run_lifecycle_def row_binds_def component_order_def
        intro!: run_wfI)
  then show "ledger_change (row_binds b) (lg_db L) d"
    using p gw by (auto simp: Let_def intro: moved_store [OF lock])
qed auto

lemma pick_replace:
  "P (fst (replace_pick c x (q, w))) (snd (replace_pick c x (q, w))) \<longleftrightarrow>
     (case c of Query_Embedding \<Rightarrow> P x w | Answer_Generation \<Rightarrow> P q x)"
  by (cases c) simp_all

lemma check_claim_Inr:
  assumes "check_claim A io r c b L = Inr (a, q, w, binding, fence)" and "sound_authority A"
  obtains snapshot where "locked_run (lg_db L) r = Inr (a, q, w)" and "ar_status a = Running"
    and "ar_phase a = Admission" and "\<not> component_is_unused (ar_metadata a) c"
    and "row_claimable c b (pick c q w)" and "validate_prepared_budget (la_policy A) b = Inr ()"
    and "lg_budgets L (r, c) \<noteq> None" and "lg_snapshots L (r, c) = Some snapshot"
    and "require_ready (la_safety A) (lg_safety L) c snapshot = Inr binding"
    and "c = Answer_Generation \<and> md_get (ar_metadata a) ''configured_backend'' = JStr ''pgvector''
      \<longrightarrow> embedding_succeeded q"
    and "is_lower_hex_64 fence"
proof (cases "locked_run (lg_db L) r")
  case (Inl e)
  then show thesis using assms(1) by (simp add: check_claim_def split: if_splits)
next
  case (Inr x)
  then have x: "x = (a, q, w)" and run: "ar_status a = Running" "ar_phase a = Admission"
    "\<not> component_is_unused (ar_metadata a) c"
    and order: "\<not> (c = Answer_Generation \<and> md_get (ar_metadata a) ''configured_backend'' = JStr ''pgvector''
      \<and> \<not> embedding_succeeded q)"
    and budget: "validate_prepared_budget (la_policy A) b = Inr ()" "lg_budgets L (r, c) \<noteq> None"
    using assms(1) by (auto simp: check_claim_def Let_def split: if_splits option.splits prod.splits)
  then obtain snapshot where "lg_snapshots L (r, c) = Some snapshot" and "row_claimable c b (pick c q w)"
    and safe: "claim_safety A (li_released io) (lg_safety L) c snapshot = Inr binding"
    and f: "\<exists>v. dispatch_fence_identity (la_primitives A) (la_secret A) v = Inr fence"
    using assms(1) Inr by (simp add: check_claim_def Let_def split: if_splits option.splits) blast
  moreover have "require_ready (la_safety A) (lg_safety L) c snapshot = Inr binding"
    using safe by (auto simp: claim_safety_def split: sum.splits error.splits if_splits)
  moreover have "is_lower_hex_64 fence"
    using f assms(2) by (auto simp: dispatch_fence_identity_def sound_authority_def intro: shaped_identity_hex)
  ultimately show thesis using that Inr x run order budget by blast
qed

lemma budget_cap:
  assumes "budget_valid p b"
  shows "pb_reserved_cost b \<le> reservation_cap (pb_component b)"
proof (cases "pb_component b")
  case Query_Embedding
  then show ?thesis
    using assms
    by (auto simp: budget_valid_def validate_prepared_budget_Inr expected_reservation_def rounded_cost_def
        budget_within_caps_def intro!: ceil_div_least)
next
  case Answer_Generation
  then show ?thesis using price.answer_covered [OF assms] by simp
qed

lemma claim_moves:
  assumes wf: "run_wf a q w" and run: "ar_status a = Running" "ar_phase a = Admission"
    and NA: "cw_state (pick c q w) = Not_Attempted"
    and cap: "cw_reserved (pick c q w) \<le> reservation_cap c"
    and hex: "is_lower_hex_64 f" "is_lower_hex_64 p"
    and eq: "replace_pick c (claimed_row f p (pick c q w)) (q, w) = (q', w')"
  shows "moves row_claims (a, q, w) (a\<lparr>ar_charged := total_charged [q', w']\<rparr>, q', w')"
proof -
  note o = run_wf_rows [OF wf]
  have ok: "row_ok (claimed_row f p (pick c q w))"
    using pick_row_ok [OF o(1,2)] NA hex by (rule claimed_row_ok)
  have ev: "row_evolves (pick c q w) (claimed_row f p (pick c q w))"
    using NA by (simp add: row_evolves_def is_closed_def)
  show ?thesis
    using o run NA ok ev eq cap
    by (cases c)
      (auto simp: moves_def is_closed_def run_lifecycle_def row_claims_def component_order_def
        intro!: run_wfI lifecycle.intros)
qed

lemma claim_component_change:
  assumes op: "claim_component A io r c b L = (y, L')" and wf: "db_wf (lg_db L)" and sound: "sound_authority A"
  shows "ledger_change row_claims (lg_db L) (lg_db L')"
  using op unfolding claim_component_def
proof (rule transact_change)
  fix g d v
  assume g: "check_claim A io r c b L = Inr g"
    and p: "(case g of (a, q, w, binding, fence) \<Rightarrow>
          let (q', w') = replace_pick c (claimed_row fence (la_process A) (pick c q w)) (q, w) in
          Inr (store_run (lg_db L) r (a\<lparr>ar_charged := total_charged [q', w']\<rparr>) q' w', lg_next L))
      = Inr (d, v)"
  obtain a q w binding fence where gw: "g = (a, q, w, binding, fence)" by (cases g)
  obtain q' w' where qw: "replace_pick c (claimed_row fence (la_process A) (pick c q w)) (q, w) = (q', w')"
    by fastforce
  obtain lock: "locked_run (lg_db L) r = Inr (a, q, w)" and run: "ar_status a = Running" "ar_phase a = Admission"
    and row: "row_claimable c b (pick c q w)" and hex: "is_lower_hex_64 fence"
    and b: "validate_prepared_budget (la_policy A) b = Inr ()"
    using check_claim_Inr [OF g [unfolded gw] sound] by blast
  have "budget_valid (la_policy A) b" using b sound by (simp add: sound_authority_def budget_valid_def)
  then have cap: "cw_reserved (pick c q w) \<le> reservation_cap c"
    using budget_cap row by (fastforce simp: row_claimable_def)
  have "moves row_claims (a, q, w) (a\<lparr>ar_charged := total_charged [q', w']\<rparr>, q', w')"
    using claim_moves [OF db_wf_locked [OF wf lock] run _ cap hex _ qw] row sound
    by (simp add: row_claimable_def sound_authority_def)
  then show "ledger_change row_claims (lg_db L) d"
    using p gw qw by (auto intro: moved_store [OF lock])
qed auto

lemma validate_outcome_Inr:
  assumes "validate_outcome ob = Inr ()"
  shows "ob_terminal_outcome ob \<noteq> Abandoned_Unknown"
    and "ob_classification ob = Validated_Success \<longleftrightarrow> ob_terminal_outcome ob = Component_Succeeded"
    and "ob_classification ob = Known_Overrun \<Longrightarrow> ob_safety_action ob = Block_Overrun"
    and "ob_strict_usage ob = None \<longleftrightarrow> ob_actual_cost ob = None"
  using assms
  by (cases "ob_classification ob"; auto simp: validate_outcome_def Let_def split: option.splits if_splits)+

lemma preview_finalization_Inr:
  assumes "preview_finalization A gid ob L = Inr (g, reserved, expected, overrun, snapshot, binding)"
  obtains b row where "lg_grants L gid = Some g" and "lg_active L (grant_key g) = Some gid" and "gr_consumed g"
    and "validate_outcome ob = Inr ()" and "expected_charge (la_policy A) ob = Inr expected"
    and "lg_budgets L (grant_key g) = Some b"
    and "observed_overrun (la_policy A) ob b expected = Inr overrun"
    and "overrun = (ob_classification ob = Known_Overrun)"
    and "lg_bindings L (grant_key g) = Some binding" and "lg_snapshots L (grant_key g) = Some snapshot"
    and "List.find (\<lambda>w. cw_component w = gr_component g) (ld_rows (lg_db L) (gr_run_id g)) = Some row"
    and "reserved = cw_reserved row" and "cw_state row = Dispatching"
proof -
  obtain g' where g': "lg_grants L gid = Some g'" "lg_active L (grant_key g') = Some gid" "gr_consumed g'"
    "validate_outcome ob = Inr ()"
    using assms by (auto simp: preview_finalization_def Let_def split: option.splits if_splits)
  then obtain row where row: "List.find (\<lambda>w. cw_component w = gr_component g') (ld_rows (lg_db L) (gr_run_id g')) = Some row"
    "cw_state row = Dispatching" "expected_charge (la_policy A) ob = Inr expected" "g' = g"
    "reserved = cw_reserved row"
    using assms by (auto simp: preview_finalization_def Let_def split: option.splits if_splits)
  then obtain b where b: "lg_budgets L (grant_key g) = Some b"
    "observed_overrun (la_policy A) ob b expected = Inr overrun"
    "overrun = (ob_classification ob = Known_Overrun)" "lg_bindings L (grant_key g) = Some binding"
    "lg_snapshots L (grant_key g) = Some snapshot"
    using assms g' by (auto simp: preview_finalization_def Let_def split: option.splits if_splits)
  show thesis by (rule that [of b row]) (use g' row b in simp_all)
qed

lemma reload_finalization_Inr:
  "reload_finalization g reserved L = Inr (a, q, w) \<longleftrightarrow>
     locked_run (lg_db L) (gr_run_id g) = Inr (a, q, w)
     \<and> cw_state (pick (gr_component g) q w) = Dispatching
     \<and> (case cw_fence (pick (gr_component g) q w) of None \<Rightarrow> [] | Some f \<Rightarrow> f) = gr_fence g
     \<and> cw_reserved (pick (gr_component g) q w) = reserved"
  by (auto simp: reload_finalization_def Let_def split: sum.splits)

lemma close_sibling_closed [simp]: "is_closed w \<Longrightarrow> close_sibling a ob w = w"
  by (cases "cw_state w") (simp_all add: close_sibling_def is_closed_def)

lemma close_sibling_cases: "close_sibling a ob w = w \<or> close_sibling a ob w = make_terminal_zero w"
  by (simp add: close_sibling_def)

lemma not_closed_open: "\<not> is_closed w \<longleftrightarrow> open_state (cw_state w)"
  by (cases "cw_state w") (simp_all add: is_closed_def)

lemma close_sibling_facts:
  assumes "row_ok w"
  shows "row_ok (close_sibling a ob w)" and "row_evolves w (close_sibling a ob w)"
    and "cw_charged (close_sibling a ob w) = cw_charged w"
    and "cw_component (close_sibling a ob w) = cw_component w"
    and "cw_state (close_sibling a ob w) = cw_state w \<or> cw_state (close_sibling a ob w) = Terminal"
    and "\<not> is_closed (close_sibling a ob w) \<Longrightarrow> close_sibling a ob w = w"
  using assms row_ok_parts(2) [OF assms]
  by (auto simp: close_sibling_def row_evolves_def is_closed_def row_shape_def)

lemma replace_evolves:
  assumes "replace_pick c x (q, w) = (q', w')" and "row_evolves (pick c q w) x"
    and "row_ok q" and "row_ok w" and "row_ok x"
  shows "row_evolves q q'" and "row_evolves w w'" and "row_ok q'" and "row_ok w'"
  using assms by (cases c; simp)+

lemma run_wf_open:
  assumes "run_wf a q w" and "\<not> is_closed (pick c q w)"
  shows "ar_phase a = Admission" and "ar_status a = Running" and "ar_completed a = None"
    and "ar_owner_fence a = None"
proof -
  show ph: "ar_phase a = Admission" using run_wf_rows(7) [OF assms(1)] assms(2) by (cases c) auto
  show "ar_status a = Running" and "ar_completed a = None" and "ar_owner_fence a = None"
    using run_wf_rows(6) [OF assms(1)] ph by (simp_all add: run_lifecycle_def)
qed

lemma settle_moves:
  assumes wf: "run_wf a q w" and disp: "cw_state (pick c q w) = Dispatching"
    and res: "cw_reserved (pick c q w) = reserved"
    and rows: "settle_rows c ob v a q w = (a1, q1, w1)" and run: "settle_run A io r ob a1 q1 w1 = Inr a'"
    and sound: "sound_authority A" and charge: "charge_sound ob"
    and oc: "ob_terminal_outcome ob \<noteq> Abandoned_Unknown"
  shows "moves (row_settles ob v c reserved) (a, q, w) (a', q1, w1)"
proof -
  note o = run_wf_rows [OF wf]
  have open_run: "ar_phase a = Admission" "ar_status a = Running" "ar_completed a = None"
    "ar_owner_fence a = None"
    using run_wf_open [OF wf, of c] disp by (simp_all add: is_closed_def)
  obtain q2 w2 where rep: "replace_pick c (settled_row ob v (pick c q w)) (q, w) = (q2, w2)"
    by fastforce
  have eq: "a1 = a\<lparr>ar_charged := cw_charged q2 + cw_charged w2\<rparr>" "q1 = close_sibling a ob q2"
    "w1 = close_sibling a ob w2"
    using rows rep by (simp_all add: settle_rows_def)
  have "row_ok (settled_row ob v (pick c q w))"
    using pick_row_ok [OF o(1,2)] disp charge oc by (rule settled_row_ok)
  moreover have "\<not> is_closed (pick c q w)" using disp by (simp add: is_closed_def)
  then have "row_evolves (pick c q w) (settled_row ob v (pick c q w))" by (simp add: row_evolves_def)
  ultimately have r2: "row_evolves q q2" "row_evolves w w2" "row_ok q2" "row_ok w2"
    using replace_evolves [OF rep] o(1,2) by blast+
  note fq = close_sibling_facts [OF r2(3), of a ob] and fw = close_sibling_facts [OF r2(4), of a ob]
  have ev: "row_evolves q q1" "row_evolves w w1" and ok: "row_ok q1" "row_ok w1"
    and ch: "cw_charged q1 = cw_charged q2" "cw_charged w1 = cw_charged w2"
    using r2(1,2) fq(1-3) fw(1-3) eq by (auto intro: row_evolves_trans)
  have x2: "q2 = q \<or> (c = Query_Embedding \<and> q2 = settled_row ob v q)"
    "w2 = w \<or> (c = Answer_Generation \<and> w2 = settled_row ob v w)"
    using rep by (cases c; auto)+
  have rel: "row_settles ob v c reserved q q1" "row_settles ob v c reserved w w1"
    using x2 eq(2,3) disp res o(3) close_sibling_cases [of a ob q] close_sibling_cases [of a ob w]
    by (auto simp: row_settles_def component_order_def)
  have settled: "cw_state (pick c q2 w2) = Terminal" "cw_state (pick c q1 w1) = Terminal"
    and other: "pick (if c = Query_Embedding then Answer_Generation else Query_Embedding) q2 w2
      = pick (if c = Query_Embedding then Answer_Generation else Query_Embedding) q w"
    using rep settled_row_state [OF oc] eq by (cases c; auto simp: is_closed_def)+
  have no_abandon: "cw_state q1 \<noteq> Abandoned" "cw_state w1 \<noteq> Abandoned"
    using settled other o(8) open_run(1) fq(5) fw(5) eq by (cases c; auto split: if_splits)+
  show ?thesis
  proof (cases "is_closed q1 \<and> is_closed w1")
    case True
    then have terminal: "cw_state q1 = Terminal" "cw_state w1 = Terminal"
      using no_abandon by (auto simp: is_closed_def)
    show ?thesis
    proof (cases "ob_classification ob = Validated_Success")
      case True
      then obtain p where "pending_run A (li_nonce io) r a1 q1 w1 p = Inr a'"
        using run \<open>is_closed q1 \<and> is_closed w1\<close> by (auto simp: settle_run_def)
      then show ?thesis
        using pending_moves [OF wf open_run(2,1) _ sound _ _ _ ok ev rel terminal] eq open_run ch by simp
    next
      case False
      then obtain t where "finalize_failed_run A (li_now io) r a1 q1 w1 (ob_terminal_outcome ob) None False
          = Inr (a', t)"
        using run \<open>is_closed q1 \<and> is_closed w1\<close> by (auto simp: settle_run_def)
      then show ?thesis
        using failed_moves [OF wf open_run(2) _ ok ev rel] True terminal eq open_run by simp
    qed
  next
    case False
    then have a': "a' = a1" using run by (auto simp: settle_run_def)
    have "run_wf a1 q1 w1"
      using False no_abandon ok o(3) eq(1) ch open_run ev
      by (intro run_wfI) (auto simp: run_lifecycle_def row_evolves_target)
    moreover have "lifecycle (view a q w) (view a1 q1 w1)"
    proof (cases c)
      case Query_Embedding
      then have "w1 = w" using False settled other fw(6) eq by (auto simp: is_closed_def)
      moreover have "\<not> is_closed w1" using Query_Embedding False settled by (simp add: is_closed_def)
      ultimately show ?thesis
        using Query_Embedding settled open_run disp eq(1) not_closed_open [of w1]
        by (simp add: settle_query)
    next
      case Answer_Generation
      then have "q1 = q" using False settled other fq(6) eq by (auto simp: is_closed_def)
      moreover have "\<not> is_closed q1" using Answer_Generation False settled by (simp add: is_closed_def)
      ultimately show ?thesis
        using Answer_Generation settled open_run disp eq(1) not_closed_open [of q1]
        by (simp add: settle_answer)
    qed
    ultimately show ?thesis using open_run ev rel a' by (simp add: moves_def)
  qed
qed

lemma keep_terminal_db [simp]: "lg_db (keep_terminal k x w a L) = lg_db L"
  by (simp add: keep_terminal_def split: sum.splits)

lemma commit_finalization_change:
  assumes op: "commit_finalization A io g reserved ob v binding L = (y, L')"
    and wf: "db_wf (lg_db L)" and sound: "sound_authority A" and charge: "charge_sound ob"
    and oc: "ob_terminal_outcome ob \<noteq> Abandoned_Unknown"
  shows "ledger_change (row_settles ob v (gr_component g) reserved) (lg_db L) (lg_db L')"
  using op unfolding commit_finalization_def Let_def
proof (rule transact_change)
  fix s d u
  assume s: "then_r (reload_finalization g reserved L)
      (\<lambda>(a, q, w). Inr (settle_rows (gr_component g) ob v a q w)) = Inr s"
    and p: "(case s of (a, q, w) \<Rightarrow>
        then_r (settle_run A io (gr_run_id g) ob a q w) (\<lambda>a'.
        then_r (component_final_of (gr_run_id g) a' (pick (gr_component g) q w)) (\<lambda>f.
          Inr (store_run (lg_db L) (gr_run_id g) a' q w, (a', f))))) = Inr (d, u)"
  obtain a1 q1 w1 where s1: "s = (a1, q1, w1)" by (cases s)
  obtain a q w where re: "reload_finalization g reserved L = Inr (a, q, w)"
    and rows: "settle_rows (gr_component g) ob v a q w = (a1, q1, w1)"
    using s s1 by auto
  obtain a' where run: "settle_run A io (gr_run_id g) ob a1 q1 w1 = Inr a'"
    and d: "d = store_run (lg_db L) (gr_run_id g) a' q1 w1"
    using p s1 by auto
  have lock: "locked_run (lg_db L) (gr_run_id g) = Inr (a, q, w)"
    and disp: "cw_state (pick (gr_component g) q w) = Dispatching"
    and res: "cw_reserved (pick (gr_component g) q w) = reserved"
    using re by (simp_all add: reload_finalization_Inr)
  show "ledger_change (row_settles ob v (gr_component g) reserved) (lg_db L) d"
    using settle_moves [OF db_wf_locked [OF wf lock] disp res rows run sound charge oc] d
    by (auto intro: moved_store [OF lock])
qed (auto split: prod.splits)

text \<open>What a call of \<open>finalize_component\<close> comes to.\<close>

lemma finalize_component_cases:
  assumes "finalize_component A io sio gid ob L = (y, ob', L')"
  obtains (refused) e where "y = Inl e" and "lg_db L' = lg_db L" and "L' = L\<lparr>lg_safety := lg_safety L'\<rparr>"
    | (settled) g reserved expected overrun snapshot binding s' z where
      "preview_finalization A gid ob' L = Inr (g, reserved, expected, overrun, snapshot, binding)"
      "ob_component ob' = gr_component g" "consume_observation ob = Inr ob'"
      "finalize_safety A sio (gr_run_id g) ob' reserved expected snapshot binding (lg_safety L) = (Inr (), s')"
      "commit_finalization A io g reserved ob' overrun binding (L\<lparr>lg_safety := s'\<rparr>) = (z, L')"
      "y = then_r z (\<lambda>(_, f). Inr f)"
proof -
  show thesis
  proof (cases "(case lg_grants L gid of None \<Rightarrow> True | Some g \<Rightarrow> ob_component ob \<noteq> gr_component g)")
    case True
    then show thesis using assms refused by (auto simp: finalize_component_def)
  next
    case False
    then obtain g0 where g0: "lg_grants L gid = Some g0" "ob_component ob = gr_component g0"
      by (auto split: option.splits)
    show thesis
    proof (cases "consume_observation ob")
      case (Inl e)
      then show thesis using assms refused False by (auto simp: finalize_component_def)
    next
      case (Inr ob1)
      then have comp: "ob_component ob1 = ob_component ob"
        by (auto simp: consume_observation_def split: if_splits)
      show thesis
      proof (cases "preview_finalization A gid ob1 L")
        case (Inl e)
        then show thesis using assms refused False \<open>consume_observation ob = Inr ob1\<close>
          by (auto simp: finalize_component_def)
      next
        case (Inr x)
        obtain g reserved expected overrun snapshot binding where
          x: "x = (g, reserved, expected, overrun, snapshot, binding)" by (cases x)
        then have "g = g0" using Inr g0 preview_finalization_Inr by (metis option.inject)
        obtain verdict s' where fs: "finalize_safety A sio (gr_run_id g) ob1 reserved expected snapshot
            binding (lg_safety L) = (verdict, s')" by fastforce
        obtain z L2 where z: "commit_finalization A io g reserved ob1 overrun binding (L\<lparr>lg_safety := s'\<rparr>)
            = (z, L2)" by fastforce
        show thesis
          using assms refused settled [of g reserved expected overrun snapshot binding s' z] False Inr x fs z
            g0(2) \<open>consume_observation ob = Inr ob1\<close> \<open>g = g0\<close> comp
          by (cases verdict) (auto simp: finalize_component_def)
      qed
    qed
  qed
qed

lemma finalize_component_change:
  assumes op: "finalize_component A io sio gid ob L = (y, ob', L')"
    and wf: "db_wf (lg_db L)" and sound: "sound_authority A"
  shows "some_change (lg_db L) (lg_db L')"
  using op
proof (cases rule: finalize_component_cases)
  case refused
  then show ?thesis by simp
next
  case (settled g reserved expected overrun snapshot binding s' z)
  obtain v: "validate_outcome ob' = Inr ()" and e: "expected_charge (la_policy A) ob' = Inr expected"
    using preview_finalization_Inr [OF settled(1)] by blast
  have "charge_sound ob'" using expected_charge_sound(1) [OF _ e] sound by (simp add: sound_authority_def)
  then show ?thesis
    using commit_finalization_change [OF settled(5) _ sound _ validate_outcome_Inr(1) [OF v]] wf
    by (auto intro: ledger_change_mono)
qed

text \<open>A body that runs under a context manager.\<close>

lemma under_owner_induct:
  assumes "under_owner owner body L = (y, L')" and "P L" and "\<And>z M. body L = (z, M) \<Longrightarrow> P M"
  shows "P L'"
  using assms by (auto simp: under_owner_def split: sum.splits prod.splits)

lemma under_failure_owner_induct:
  assumes "under_failure_owner A r s body L = (y, L')" and "P L" and "\<And>z M. body L = (z, M) \<Longrightarrow> P M"
  shows "P L'"
  using assms by (auto simp: under_failure_owner_def split: sum.splits prod.splits)

lemma apply_cache_identity_Inr:
  "apply_cache_identity x a = Inr a' \<Longrightarrow> \<exists>m. a' = a\<lparr>ar_metadata := m\<rparr>"
  by (cases x; cases a) (auto simp: apply_cache_identity_def split: if_splits)

lemma check_safe_pending_Inr:
  assumes "check_safe_pending A L r only refused cache = Inr (a', q', w')"
  obtains a q w m where "locked_run (lg_db L) r = Inr (a, q, w)" and "a' = a\<lparr>ar_metadata := m\<rparr>"
    and "w' = make_terminal_zero w" and "q' = (if only then q else make_terminal_zero q)"
    and "ar_status a = Running" and "ar_phase a = Admission" and "ar_owner_fence a = None"
    and "ar_completed a = None" and "refused = None \<longrightarrow> row_untouched w"
    and "refused \<noteq> None \<longrightarrow> refusal_proved A L r (the refused) w"
    and "only \<longrightarrow> embedding_paid A a' q" and "\<not> only \<longrightarrow> row_untouched q"
proof -
  obtain a q w a1 where lock: "locked_run (lg_db L) r = Inr (a, q, w)"
    and a1: "apply_cache_identity cache a = Inr a1"
    using assms by (auto simp: check_safe_pending_def split: prod.splits)
  obtain m where m: "a1 = a\<lparr>ar_metadata := m\<rparr>" using apply_cache_identity_Inr [OF a1] by blast
  show thesis
    using assms lock a1 m
    by (intro that [of a q w m]) (auto simp: check_safe_pending_def split: if_splits)
qed

lemma safe_pending_moves:
  assumes wf: "run_wf a q w" and check: "ar_status a = Running" "ar_phase a = Admission" "ar_completed a = None"
    and q': "q' = (if only then q else make_terminal_zero q)"
    and q: "only \<longrightarrow> cw_state q = Terminal" "\<not> only \<longrightarrow> row_untouched q"
    and w: "row_untouched w \<or> cw_state w = Dispatching"
    and pend: "pending_run A nonce r (a\<lparr>ar_metadata := m, ar_charged := total_charged [q', make_terminal_zero w],
      ar_estimated := e\<rparr>) q' (make_terminal_zero w) p = Inr a'"
    and sound: "sound_authority A"
  shows "moves row_closes (a, q, w) (a', q', make_terminal_zero w)"
proof (rule pending_moves [OF wf check(1,2) pend sound])
  note o = run_wf_rows [OF wf]
  show "row_ok q'" and "row_ok (make_terminal_zero w)" using o(1,2) q' by simp_all
  show "row_evolves q q'"
    using q q' zero_row_evolves [OF o(1)] by (auto simp: row_untouched_def is_closed_def)
  show "row_evolves w (make_terminal_zero w)"
    using w by (intro zero_row_evolves [OF o(2)]) (auto simp: row_untouched_def is_closed_def)
  show "cw_state q' = Terminal" using q q' by auto
qed (use check q' in simp_all)

lemma store_safe_pending_change:
  assumes op: "store_safe_pending A io r corpus vector only refused cache L = (y, L')"
    and wf: "db_wf (lg_db L)" and sound: "sound_authority A"
  shows "ledger_change row_closes (lg_db L) (lg_db L')"
  using op unfolding store_safe_pending_def
proof (rule transact_change)
  fix s d u
  assume s: "prepare_safe_pending A io r corpus vector only refused cache L = Inr s"
    and p: "(case s of (a', q, w, pending) \<Rightarrow>
          let d = store_run (lg_db L) r a' q w in
          Inr (case cache of None \<Rightarrow> d
               | Some members \<Rightarrow> d\<lparr>ld_audit := ld_audit d @ [cache_hit_audit r members]\<rparr>,
               pending)) = Inr (d, u)"
  obtain a' q' w' pending where s1: "s = (a', q', w', pending)" by (cases s)
  obtain a1 where check: "check_safe_pending A L r only refused cache = Inr (a1, q', w')"
    and pend: "pending_run A (li_nonce io) r (a1\<lparr>ar_charged := total_charged [q', w'],
      ar_estimated := total_reserved [q', w']\<rparr>) q' w' (la_process A) = Inr a'"
    using s s1 by (auto simp: prepare_safe_pending_def)
  obtain a q w m where lock: "locked_run (lg_db L) r = Inr (a, q, w)" and a1: "a1 = a\<lparr>ar_metadata := m\<rparr>"
    and w': "w' = make_terminal_zero w" and q': "q' = (if only then q else make_terminal_zero q)"
    and run: "ar_status a = Running" "ar_phase a = Admission"
    and rest: "ar_owner_fence a = None" "ar_completed a = None"
    and rows: "refused = None \<longrightarrow> row_untouched w" "refused \<noteq> None \<longrightarrow> refusal_proved A L r (the refused) w"
      "only \<longrightarrow> embedding_paid A a1 q" "\<not> only \<longrightarrow> row_untouched q"
    by (rule check_safe_pending_Inr [OF check])
  have "only \<longrightarrow> cw_state q = Terminal" using rows(3) by (simp add: embedding_paid_def embedding_succeeded_def)
  moreover have "row_untouched w \<or> cw_state w = Dispatching"
    using rows(1,2) by (auto simp: refusal_proved_def split: option.splits)
  ultimately have "moves row_closes (a, q, w) (a', q', make_terminal_zero w)"
    using safe_pending_moves [OF db_wf_locked [OF wf lock] run rest(2) q' _ rows(4) _ _ sound] pend a1 w' by simp
  then show "ledger_change row_closes (lg_db L) d"
    using p s1 w' by (auto simp: Let_def split: option.splits intro: moved_store [OF lock])
qed (auto split: prod.splits simp: Let_def)

lemma commit_safe_pending_change:
  assumes "commit_safe_pending A io r corpus vector only refused cache L = (y, L')"
    and "db_wf (lg_db L)" and "sound_authority A"
  shows "ledger_change row_closes (lg_db L) (lg_db L')"
  using assms
  by (auto simp: commit_safe_pending_def split: if_splits
      elim!: under_owner_induct [where P = "\<lambda>M. ledger_change row_closes (lg_db L) (lg_db M)"]
      intro: store_safe_pending_change)

section \<open>Closures\<close>

text \<open>What the process remembers of a settled row: it was terminal.\<close>

definition memory_ok :: "ledger \<Rightarrow> bool" where
  "memory_ok L \<longleftrightarrow>
     (\<forall>k j. lg_terminal_rows L k = Some j \<longrightarrow> (\<exists>w. row_component_json w = Inr j \<and> cw_state w = Terminal))"

lemma dispatch_state_name_inj: "dispatch_state_name x = dispatch_state_name y \<longleftrightarrow> x = y"
  by (cases x; cases y) simp_all

lemma row_component_json_state:
  "row_component_json w = Inr j \<Longrightarrow> row_component_json w' = Inr j \<Longrightarrow> cw_state w' = cw_state w"
  by (auto simp: row_component_json_def dispatch_state_name_inj)

lemma terminal_cost_row_state:
  assumes "memory_ok L" and "require_terminal_cost_row L r w = Inr ()"
  shows "cw_state w = Terminal"
proof -
  obtain j where "lg_terminal_rows L (r, cw_component w) = Some j" and j: "row_component_json w = Inr j"
    using assms(2) by (auto simp: require_terminal_cost_row_def Let_def split: option.splits)
  then obtain v where "row_component_json v = Inr j" and "cw_state v = Terminal"
    using assms(1) unfolding memory_ok_def by blast
  then show ?thesis using row_component_json_state [OF _ j] by metis
qed

lemma store_failed_change:
  assumes "transact co guard before (store_failed A now r outcome completed only (lg_db L)) after L = (y, L')"
    and "\<And>g L. lg_db (before g L) = lg_db L" and "\<And>g v L. lg_db (after g v L) = lg_db L"
    and "\<And>a1 q' w' a' t. guard = Inr (a1, q', w')
      \<Longrightarrow> finalize_failed_run A now r a1 q' w' outcome completed only = Inr (a', t)
      \<Longrightarrow> \<exists>s. locked_run (lg_db L) r = Inr s \<and> moves row_closes s (a', q', w')"
  shows "ledger_change row_closes (lg_db L) (lg_db L')"
  using assms(1)
proof (rule transact_change [OF _ assms(2,3)])
  fix g d v assume g: "guard = Inr g"
    and d: "store_failed A now r outcome completed only (lg_db L) g = Inr (d, v)"
  obtain a1 q' w' where gw: "g = (a1, q', w')" by (cases g)
  obtain a' t where "finalize_failed_run A now r a1 q' w' outcome completed only = Inr (a', t)"
    and "d = store_run (lg_db L) r a' q' w'"
    using d gw by (auto simp: store_failed_def)
  then show "ledger_change row_closes (lg_db L) d"
    using assms(4) [OF g [unfolded gw]] by (auto intro: moved_store)
qed

lemma terminal_evolves [simp]:
  assumes "row_ok w" and "\<not> cw_attempted w" and "cw_state w \<in> {Not_Attempted, Terminal}"
  shows "row_evolves w (make_terminal_zero w)"
  using assms by (intro zero_row_evolves) (auto simp: is_closed_def)

lemma open_zero_evolves: "row_ok w \<Longrightarrow> open_state (cw_state w) \<Longrightarrow> row_evolves w (make_terminal_zero w)"
  by (rule zero_row_evolves) (auto simp: is_closed_def)

lemma check_failed_row_facts:
  assumes "check_failed_row L r w = Inr ()" and "memory_ok L" and "row_ok w"
  shows "row_closes w (zero_unpaid L r w)" and "row_evolves w (zero_unpaid L r w)" and "row_ok (zero_unpaid L r w)"
    and "cw_state (zero_unpaid L r w) = Terminal"
  using assms terminal_cost_row_state [OF assms(2), of r w]
  by (auto simp: check_failed_row_def zero_unpaid_def split: option.splits if_splits)

lemma finalize_inter_component_failure_change:
  assumes op: "finalize_inter_component_failure A io r outcome L = (y, L')"
    and wf: "db_wf (lg_db L)" and mem: "memory_ok L"
  shows "ledger_change row_closes (lg_db L) (lg_db L')"
proof -
  have body: "ledger_change row_closes (lg_db L) (lg_db M)"
    if "transact (li_commit io) (check_inter_failure A L r) (\<lambda>_. forget_pending r \<circ> drop_answer r)
      (store_failed A (li_now io) r outcome None False (lg_db L)) (\<lambda>_ _. id) L = (z, M)" for z M
    using that
  proof (rule store_failed_change)
    fix a1 q' w' a' t
    assume g: "check_inter_failure A L r = Inr (a1, q', w')"
      and fail: "finalize_failed_run A (li_now io) r a1 q' w' outcome None False = Inr (a', t)"
    obtain a q w where lock: "locked_run (lg_db L) r = Inr (a, q, w)" and run: "ar_status a = Running"
      "ar_phase a \<in> {Admission, Pending_Projection}"
      and rows: "check_failed_row L r q = Inr ()" "check_failed_row L r w = Inr ()"
      and eq: "a1 = a\<lparr>ar_owner_fence := None\<rparr>" "q' = zero_unpaid L r q" "w' = zero_unpaid L r w"
      using g by (auto simp: check_inter_failure_def split: prod.splits if_splits)
    note w = db_wf_locked [OF wf lock] and o = run_wf_rows [OF db_wf_locked [OF wf lock]]
    note fq = check_failed_row_facts [OF rows(1) mem o(1)] and fw = check_failed_row_facts [OF rows(2) mem o(2)]
    have "ar_phase a = Admission \<or> cw_state q = Terminal \<and> cw_state w = Terminal"
      using o(7,8) run(2) by (auto simp: is_closed_def)
    then have "moves row_closes (a, q, w) (a', q', w')"
      using failed_moves [OF w run(1) fail] fq fw eq by (simp add: is_closed_def)
    then show "\<exists>s. locked_run (lg_db L) r = Inr s \<and> moves row_closes s (a', q', w')" using lock by blast
  qed auto
  show ?thesis
    using op
    by (auto simp: finalize_inter_component_failure_def split: if_splits
        elim!: under_failure_owner_induct [where P = "\<lambda>M. ledger_change row_closes (lg_db L) (lg_db M)"] intro: body)
qed

lemma finalize_pre_send_refusal_change:
  assumes op: "finalize_pre_send_refusal A io r cname outcome completed L = (y, L')" and wf: "db_wf (lg_db L)"
  shows "ledger_change row_closes (lg_db L) (lg_db L')"
proof (cases "cname \<in> set (map component_name component_order)
    \<and> outcome \<in> {Provider_Safety_Unavailable, Retriever_Unavailable, Model_Provider_Failed, Serving_Index_Not_Ready}")
  case True
  then have "\<not> (cname \<notin> set (map component_name component_order)
    \<or> outcome \<notin> {Provider_Safety_Unavailable, Retriever_Unavailable, Model_Provider_Failed, Serving_Index_Not_Ready})"
    by blast
  then have "transact (li_commit io) (check_pre_send r L) (\<lambda>_. id)
      (store_failed A (li_now io) r outcome completed False (lg_db L)) (\<lambda>_ _. id) L = (y, L')"
    using op unfolding finalize_pre_send_refusal_def by (simp only: if_False)
  then show ?thesis
  proof (rule store_failed_change)
    fix a1 q' w' a' t
    assume g: "check_pre_send r L = Inr (a1, q', w')"
      and fail: "finalize_failed_run A (li_now io) r a1 q' w' outcome completed False = Inr (a', t)"
    obtain q w where lock: "locked_run (lg_db L) r = Inr (a1, q, w)" and run: "ar_status a1 = Running"
      "ar_phase a1 = Admission" and NA: "cw_state q = Not_Attempted" "cw_state w = Not_Attempted"
      and eq: "q' = make_terminal_zero q" "w' = make_terminal_zero w"
      using g by (auto simp: check_pre_send_def both_not_attempted_def split: prod.splits if_splits)
    note w = db_wf_locked [OF wf lock] and o = run_wf_rows [OF db_wf_locked [OF wf lock]]
    have "moves row_closes (a1, q, w) (a', q', w')"
      using failed_moves [OF w run(1) fail] o(1,2,5) run NA eq by (simp add: open_zero_evolves)
    then show "\<exists>s. locked_run (lg_db L) r = Inr s \<and> moves row_closes s (a', q', w')" using lock by blast
  qed auto
next
  case False
  then have "cname \<notin> set (map component_name component_order)
    \<or> outcome \<notin> {Provider_Safety_Unavailable, Retriever_Unavailable, Model_Provider_Failed, Serving_Index_Not_Ready}"
    by blast
  then have "L' = L" using op unfolding finalize_pre_send_refusal_def by (simp only: if_True prod.inject)
  then show ?thesis by simp
qed

lemma close_projectionless_Inr:
  assumes "close_projectionless A r a q w outcome stamp = Inr (a', t)"
  shows "ar_status a' = Failed" and "ar_phase a' = Admission_Only" and "ar_charged a' = 0"
    and "ar_completed a' = Some stamp" and "ar_owner_fence a' = ar_owner_fence a" and "te_outcome t = outcome"
  using assms by (auto simp: close_projectionless_def Let_def)

lemma finalize_projectionless_failure_change:
  assumes op: "finalize_projectionless_failure A io r outcome completed L = (y, L')"
    and wf: "db_wf (lg_db L)"
  shows "ledger_change row_closes (lg_db L) (lg_db L')"
proof (cases "outcome = Abandoned_Unknown")
  case True
  then have "transact (li_commit io) (check_projectionless (li_now io) r completed L) (\<lambda>_. id)
      (\<lambda>(a, q, w, stamp). then_r (close_projectionless A r a q w outcome stamp) (\<lambda>(a', receipt).
         Inr (store_run (lg_db L) r a' q w, receipt))) (\<lambda>_ _. id) L = (y, L')"
    using op by (simp add: finalize_projectionless_failure_def)
  then show ?thesis
  proof (rule transact_change)
    fix g d v
    assume g: "check_projectionless (li_now io) r completed L = Inr g"
      and p: "(case g of (a, q, w, stamp) \<Rightarrow>
        then_r (close_projectionless A r a q w outcome stamp) (\<lambda>(a', receipt).
          Inr (store_run (lg_db L) r a' q w, receipt))) = Inr (d, v)"
    obtain a q' w' stamp where gw: "g = (a, q', w', stamp)" by (cases g)
    obtain a' t where c: "close_projectionless A r a q' w' outcome stamp = Inr (a', t)"
      and d: "d = store_run (lg_db L) r a' q' w'" using p gw by auto
    obtain q w where lock: "locked_run (lg_db L) r = Inr (a, q, w)" and run: "ar_status a = Running"
      "ar_phase a = Admission" and NA: "cw_state q = Not_Attempted" "cw_state w = Not_Attempted"
      and eq: "q' = make_terminal_zero q" "w' = make_terminal_zero w"
      using g gw by (auto simp: check_projectionless_def both_not_attempted_def
        split: sum.splits prod.splits if_splits)
    note o = run_wf_rows [OF db_wf_locked [OF wf lock]] and f = close_projectionless_Inr [OF c]
    have "ar_owner_fence a = None" using o(6) run(2) by (simp add: run_lifecycle_def)
    then have "run_wf a' q' w'"
      using f o(1-3) eq by (intro run_wfI) (auto simp: run_lifecycle_def is_closed_def)
    then have "moves row_closes (a, q, w) (a', q', w')"
      using run NA eq f(2) o(1,2) abandon [of Not_Attempted Not_Attempted]
      by (simp add: moves_def open_zero_evolves)
    then show "ledger_change row_closes (lg_db L) d" using d by (auto intro: moved_store [OF lock])
  qed auto
next
  case False
  then show ?thesis using op by (simp add: finalize_projectionless_failure_def)
qed

lemma zero_open_facts:
  assumes "row_ok w" and "cw_state w \<noteq> Abandoned"
  shows "row_closes w (zero_open w)" and "row_evolves w (zero_open w)" and "row_ok (zero_open w)" and "cw_state (zero_open w) = Terminal"
  using assms by (cases "cw_state w"; simp add: zero_open_def open_zero_evolves)+

lemma check_cancel_Inr:
  assumes "check_cancel gid g outcome L = Inr (a, q', w')"
  obtains q w where "locked_run (lg_db L) (gr_run_id g) = Inr (a, q, w)" and "ar_status a = Running"
    and "ar_phase a = Admission" and "q' = zero_open q" and "w' = zero_open w"
    and "cw_state (pick (gr_component g) q w) = Dispatching" and "\<not> gr_consumed g"
    and "lg_active L (grant_key g) = Some gid"
  using assms by (auto simp: check_cancel_def split: prod.splits if_splits)

lemma cancel_claim_before_dispatch_change:
  assumes op: "cancel_claim_before_dispatch A io gid outcome L = (y, L')" and wf: "db_wf (lg_db L)"
  shows "ledger_change row_closes (lg_db L) (lg_db L')"
proof (cases "lg_grants L gid")
  case None
  then show ?thesis using op by (simp add: cancel_claim_before_dispatch_def)
next
  case (Some g)
  then have "transact (li_commit io) (check_cancel gid g outcome L) (\<lambda>_. drop_grant (grant_key g))
      (store_failed A (li_now io) (gr_run_id g) outcome None False (lg_db L)) (\<lambda>_ _. id) L = (y, L')"
    using op by (simp add: cancel_claim_before_dispatch_def)
  then show ?thesis
  proof (rule store_failed_change)
    fix a q' w' a' t
    assume g: "check_cancel gid g outcome L = Inr (a, q', w')"
      and fail: "finalize_failed_run A (li_now io) (gr_run_id g) a q' w' outcome None False = Inr (a', t)"
    obtain q w where lock: "locked_run (lg_db L) (gr_run_id g) = Inr (a, q, w)"
      and run: "ar_status a = Running" "ar_phase a = Admission" and eq: "q' = zero_open q" "w' = zero_open w"
      by (rule check_cancel_Inr [OF g])
    note w = db_wf_locked [OF wf lock] and o = run_wf_rows [OF db_wf_locked [OF wf lock]]
    have "cw_state q \<noteq> Abandoned" and "cw_state w \<noteq> Abandoned" using o(8) run(2) by auto
    then have "moves row_closes (a, q, w) (a', q', w')"
      using failed_moves [OF w run(1) fail] o(1,2,5) run eq zero_open_facts [of q] zero_open_facts [of w]
      by (simp add: is_closed_def)
    then show "\<exists>s. locked_run (lg_db L) (gr_run_id g) = Inr s \<and> moves row_closes s (a', q', w')" using lock by blast
  qed auto
qed

lemma check_recovery_Inr:
  assumes "check_recovery A r fence h attestation L = Inr ((a, q', w'), pending)"
  obtains q w where "locked_run (lg_db L) r = Inr (a, q, w)" and "ar_status a = Running"
    and "pending \<longrightarrow> ar_phase a = Pending_Projection \<and> q' = q \<and> w' = w
      \<and> cw_state q = Terminal \<and> cw_state w = Terminal"
    and "\<not> pending \<longrightarrow> ar_phase a = Admission \<and> q' = abandon_row q \<and> w' = abandon_row w
      \<and> work_was_cut q w \<and> attestation \<noteq> None \<and> expected_attestation A r q w = Inr attestation"
  using assms
  by (auto simp: check_recovery_def check_pending_recovery_def split: prod.splits if_splits)

lemma recover_incomplete_run_change:
  assumes op: "recover_incomplete_run A io r fence h attestation completed L = (y, L')"
    and wf: "db_wf (lg_db L)"
  shows "ledger_change row_closes (lg_db L) (lg_db L')"
  using op unfolding recover_incomplete_run_def
proof (rule transact_change)
  fix g d v
  assume g: "check_recovery A r fence h attestation L = Inr g"
    and p: "(case g of (arows, pending) \<Rightarrow>
      store_failed A (li_now io) r (if pending then Persistence_Failed else Abandoned_Unknown)
        completed (\<not> pending) (lg_db L) arows) = Inr (d, v)"
  obtain a q' w' pending where gw: "g = ((a, q', w'), pending)"
    by (cases g) (auto elim: prod_cases3)
  obtain a' t where fail: "finalize_failed_run A (li_now io) r a q' w'
      (if pending then Persistence_Failed else Abandoned_Unknown) completed (\<not> pending) = Inr (a', t)"
    and d: "d = store_run (lg_db L) r a' q' w'"
    using p gw by (auto simp: store_failed_def)
  obtain q w where lock: "locked_run (lg_db L) r = Inr (a, q, w)" and run: "ar_status a = Running"
    and pend: "pending \<longrightarrow> ar_phase a = Pending_Projection \<and> q' = q \<and> w' = w
      \<and> cw_state q = Terminal \<and> cw_state w = Terminal"
    and dead: "\<not> pending \<longrightarrow> ar_phase a = Admission \<and> q' = abandon_row q \<and> w' = abandon_row w
      \<and> work_was_cut q w \<and> attestation \<noteq> None \<and> expected_attestation A r q w = Inr attestation"
    by (rule check_recovery_Inr [OF g [unfolded gw]])
  note w = db_wf_locked [OF wf lock] and o = run_wf_rows [OF db_wf_locked [OF wf lock]]
  have "moves row_closes (a, q, w) (a', q', w')"
  proof (cases pending)
    case True
    then show ?thesis using failed_moves [OF w run fail] o(1,2,5) pend by (simp add: is_closed_def)
  next
    case False
    then have "cw_state q \<noteq> Abandoned" and "cw_state w \<noteq> Abandoned" using o(8) dead by auto
    then show ?thesis
      using False failed_moves [OF w run fail] o(1,2,5) dead
      by (simp add: abandon_row_ok abandon_row_evolves)
  qed
  then show "ledger_change row_closes (lg_db L) d" using d by (auto intro: moved_store [OF lock])
qed auto

lemma recover_shadow_run_change:
  assumes "recover_shadow_run A io r L = (y, L')" and "db_wf (lg_db L)"
  shows "ledger_change row_closes (lg_db L) (lg_db L')"
  using assms unfolding recover_shadow_run_def
  by (auto elim!: under_failure_owner_induct [where P = "\<lambda>M. ledger_change row_closes (lg_db L) (lg_db M)"]
      split: sum.splits intro: recover_incomplete_run_change)

end
