(* ===== verification/Ledger_Lifecycle.thy ===== *)
theory Ledger_Lifecycle
  imports Ledger_Facts
begin

text \<open>
  The ledger as a transition system. \<open>ledger_step\<close> is one call of one operation, by any sound process; a
  process may also die and lose its memory, and the safety authority may change on its own. \<open>stored_step\<close>
  is the effect of such a call on the tables, whatever the memory of the process that makes it: several
  processes share the tables. The invariant \<open>db_wf\<close> and the order \<open>db_evolves\<close> are proved for it through
  \<open>invariant_system\<close> and \<open>ascending_system\<close>.
\<close>

section \<open>Shadow runs\<close>

lemma close_shadow_run_Inr:
  assumes "close_shadow_run A now r a q w outcome c = Inr (a', t)"
  shows "ar_status a' = Complete" and "ar_phase a' = Final" and "ar_charged a' = ar_charged a"
    and "ar_completed a' = Some now" and "ar_owner_fence a' = None" and "te_outcome t = outcome"
    and "te_charged t = ar_charged a"
proof -
  obtain p0 p1 p2 surface backend where parts: "split_on CHR '':'' (ar_window a) = [p0, p1, p2, surface, backend]"
    "[p0, p1, p2] = [''rag-v2'', ''admission'', ''shadow'']"
    using assms by (auto simp: close_shadow_run_def split: list.splits if_splits)
  show "ar_status a' = Complete" and "ar_phase a' = Final" and "ar_charged a' = ar_charged a"
    and "ar_completed a' = Some now" and "ar_owner_fence a' = None" and "te_outcome t = outcome"
    and "te_charged t = ar_charged a"
    using assms parts by (auto simp: close_shadow_run_def Let_def)
qed

lemma finalize_shadow_run_locked_change:
  assumes op: "finalize_shadow_run_locked A io r outcome c L = (y, L')" and wf: "db_wf (lg_db L)"
  shows "ledger_change row_closes (lg_db L) (lg_db L')"
  using op unfolding finalize_shadow_run_locked_def
proof (rule transact_change)
  fix g d v
  assume g: "check_shadow_closure A (li_now io) r outcome c L = Inr g"
    and p: "(case g of (a', q, w, receipt) \<Rightarrow>
          let d = store_run (lg_db L) r a' q w in
          Inr (case c of None \<Rightarrow> d | Some x \<Rightarrow> d\<lparr>ld_audit := ld_audit d @ [shadow_audit x]\<rparr>, receipt))
      = Inr (d, v)"
  obtain a' q w t where gw: "g = (a', q, w, t)" by (cases g)
  obtain a where lock: "locked_run (lg_db L) r = Inr (a, q, w)" and ok: "shadow_pending_ok L r a q w c"
    and close: "close_shadow_run A (li_now io) r a q w outcome c = Inr (a', t)"
    using g gw by (auto simp: check_shadow_closure_def split: prod.splits if_splits)
  note o = run_wf_rows [OF db_wf_locked [OF wf lock]] and f = close_shadow_run_Inr [OF close]
  have run: "ar_status a = Running" "ar_phase a = Pending_Projection" "cw_state q = Terminal" "cw_state w = Terminal"
    using ok by (simp_all add: shadow_pending_ok_def shadow_row_pair_def)
  have "run_wf a' q w"
    using f o run by (intro run_wfI) (auto simp: run_lifecycle_def is_closed_def)
  then have "moves row_closes (a, q, w) (a', q, w)" using run f by (simp add: moves_def close_projection)
  then show "ledger_change row_closes (lg_db L) d"
    using p gw by (auto simp: Let_def split: option.splits intro: moved_store [OF lock])
qed auto

lemma finalize_shadow_run_change:
  assumes op: "finalize_shadow_run A io r x entry L = (y, L')" and wf: "db_wf (lg_db L)"
  shows "ledger_change row_closes (lg_db L) (lg_db L')"
  using assms
  by (auto simp: finalize_shadow_run_def split: if_splits sum.splits
      elim!: under_owner_induct [where P = "\<lambda>M. ledger_change row_closes (lg_db L) (lg_db M)"]
      intro: finalize_shadow_run_locked_change)

section \<open>Steps\<close>

definition restarted :: "ledger \<Rightarrow> ledger" where
  "restarted L =
     L\<lparr>lg_active := Map.empty, lg_refused := Map.empty, lg_snapshots := Map.empty, lg_budgets := Map.empty,
       lg_reservations := Map.empty, lg_bindings := Map.empty, lg_terminal_bindings := Map.empty,
       lg_terminal_rows := Map.empty, lg_pending := Map.empty\<rparr>"

inductive ledger_step :: "ledger \<Rightarrow> ledger \<Rightarrow> bool" where
  step_admit: "create_admission A io r L = (x, L') \<Longrightarrow> sound_authority A \<Longrightarrow> ledger_step L L'"
| step_bind: "bind_answer_budget A io run_id b p L = (u, L') \<Longrightarrow> sound_authority A \<Longrightarrow> ledger_step L L'"
| step_claim: "claim_component A io run_id c b L = (g, L') \<Longrightarrow> sound_authority A \<Longrightarrow> ledger_step L L'"
| step_consume: "consume_committed_grant gid L = (u, L') \<Longrightarrow> ledger_step L L'"
| step_send: "consume_transport_grant gid order cap L = (u, L') \<Longrightarrow> ledger_step L L'"
| step_finalize: "finalize_component A io sio gid ob L = (y, ob', L') \<Longrightarrow> sound_authority A
    \<Longrightarrow> ledger_step L L'"
| step_refuse: "defer_answer_evidence_refusal gid L = (u, L') \<Longrightarrow> ledger_step L L'"
| step_pending: "commit_safe_pending A io run_id corpus vector only refused cache L = (z, L')
    \<Longrightarrow> sound_authority A \<Longrightarrow> ledger_step L L'"
| step_shadow: "finalize_shadow_run A io run_id call entry L = (t, L') \<Longrightarrow> sound_authority A \<Longrightarrow> ledger_step L L'"
| step_inter: "finalize_inter_component_failure A io run_id oc L = (t, L') \<Longrightarrow> sound_authority A
    \<Longrightarrow> ledger_step L L'"
| step_projectionless: "finalize_projectionless_failure A io run_id oc completed L = (t, L')
    \<Longrightarrow> sound_authority A \<Longrightarrow> ledger_step L L'"
| step_pre_send: "finalize_pre_send_refusal A io run_id cname oc completed L = (t, L') \<Longrightarrow> sound_authority A
    \<Longrightarrow> ledger_step L L'"
| step_cancel: "cancel_claim_before_dispatch A io gid oc L = (t, L') \<Longrightarrow> sound_authority A \<Longrightarrow> ledger_step L L'"
| step_recover: "recover_incomplete_run A io run_id fence h attestation completed L = (t, L')
    \<Longrightarrow> sound_authority A \<Longrightarrow> ledger_step L L'"
| step_recover_shadow: "recover_shadow_run A io run_id L = (t, L') \<Longrightarrow> sound_authority A \<Longrightarrow> ledger_step L L'"
| step_safety: "ledger_step L (L\<lparr>lg_safety := s\<rparr>)"
| step_restart: "ledger_step L (restarted L)"

inductive_cases ledger_stepE: "ledger_step L L'"

section \<open>The memory of the process\<close>

text \<open>What the closing operations leave of the memory: no grant is made or changed, nothing settled is
  recorded, and budgets, reservations and active grants are at most dropped.\<close>

definition quiet :: "ledger \<Rightarrow> ledger \<Rightarrow> bool" where
  "quiet L L' \<longleftrightarrow> lg_grants L' = lg_grants L \<and> lg_next L' = lg_next L
     \<and> lg_terminal_rows L' = lg_terminal_rows L \<and> lg_budgets L' \<subseteq>\<^sub>m lg_budgets L
     \<and> lg_reservations L' \<subseteq>\<^sub>m lg_reservations L \<and> lg_active L' \<subseteq>\<^sub>m lg_active L"

lemma quiet_refl [simp]: "quiet L L"
  by (simp add: quiet_def)

lemma quiet_trans: "quiet L M \<Longrightarrow> quiet M N \<Longrightarrow> quiet L N"
  by (auto simp: quiet_def intro: map_le_trans)

lemma map_le_drop [simp]: "m(k := None) \<subseteq>\<^sub>m m"
  by (simp add: map_le_def)

lemma quiet_steps [simp]:
  "quiet L (drop_grant k L)" "quiet L (drop_answer r L)" "quiet L (forget_pending r L)"
  "quiet L (L\<lparr>lg_db := d\<rparr>)" "quiet L (L\<lparr>lg_safety := s\<rparr>)" "quiet L (L\<lparr>lg_pending := x\<rparr>)"
  "quiet L (L\<lparr>lg_refused := y, lg_bindings := z\<rparr>)"
  by (simp_all add: quiet_def drop_grant_def drop_answer_def forget_pending_def)

lemma quiet_drop_grants [simp]: "quiet L (drop_grants r L)"
  unfolding drop_grants_def comp_def by (rule quiet_trans [OF quiet_steps(1) quiet_steps(1)])

lemma transact_quiet:
  assumes "transact co guard before pending after L = (r, L')"
    and "\<And>g L. lg_db (before g L) = lg_db L"
    and "\<And>g L. quiet L (before g L)" and "\<And>g (v :: 'a) L. quiet L (after g v L)"
  shows "quiet L L'"
  using assms(1)
proof (rule transact_induct [where P = "quiet L"])
  fix g d and v :: 'a
  have "quiet L ((before g L)\<lparr>lg_db := d\<rparr>)" by (rule quiet_trans [OF assms(3) quiet_steps(4)])
  then show "quiet L ((before g L)\<lparr>lg_db := d\<rparr>)
      \<and> (r = Inr v \<longrightarrow> quiet L (after g v ((before g L)\<lparr>lg_db := d\<rparr>)))"
    using quiet_trans [OF _ assms(4)] by blast
qed (simp_all add: assms(2,3))

lemma under_owner_quiet:
  assumes "under_owner owner body L = (y, L')" and "\<And>z M. body L = (z, M) \<Longrightarrow> quiet L M"
  shows "quiet L L'"
  using assms(1) by (rule under_owner_induct) (simp_all add: assms(2))

lemma under_failure_owner_quiet:
  assumes "under_failure_owner A r s body L = (y, L')" and "\<And>z M. body L = (z, M) \<Longrightarrow> quiet L M"
  shows "quiet L L'"
  using assms(1) by (rule under_failure_owner_induct) (simp_all add: assms(2))

lemma quiet_closures:
  "commit_safe_pending A io r corpus vector only refused cache L = (z, L') \<Longrightarrow> quiet L L'"
  "finalize_shadow_run A io r call entry L = (t, L') \<Longrightarrow> quiet L L'"
  "finalize_inter_component_failure A io r oc L = (t, L') \<Longrightarrow> quiet L L'"
  "finalize_projectionless_failure A io r oc completed L = (t, L') \<Longrightarrow> quiet L L'"
  "finalize_pre_send_refusal A io r cname oc completed L = (t, L') \<Longrightarrow> quiet L L'"
  "cancel_claim_before_dispatch A io gid oc L = (t, L') \<Longrightarrow> quiet L L'"
  "recover_incomplete_run A io r fence h attestation completed L = (t, L') \<Longrightarrow> quiet L L'"
  "recover_shadow_run A io r L = (t, L') \<Longrightarrow> quiet L L'"
proof -
  have store: "quiet L M" if "store_safe_pending A io r corpus vector only refused cache L = (z, M)" for z M
    using that unfolding store_safe_pending_def
    by (rule transact_quiet)
      (auto simp: Let_def split: prod.splits intro: quiet_trans [OF quiet_steps(7) quiet_steps(6)])
  then show "commit_safe_pending A io r corpus vector only refused cache L = (z, L') \<Longrightarrow> quiet L L'"
    by (auto simp: commit_safe_pending_def split: if_splits elim: under_owner_quiet)
  have shadow: "quiet L M" if "finalize_shadow_run_locked A io r oc c L = (z, M)" for oc c z M
    using that unfolding finalize_shadow_run_locked_def
    by (rule transact_quiet) (auto intro: quiet_trans [OF quiet_steps(3) quiet_steps(2)])
  then show "finalize_shadow_run A io r call entry L = (t, L') \<Longrightarrow> quiet L L'"
    by (auto simp: finalize_shadow_run_def split: if_splits sum.splits elim!: under_owner_quiet)
  have failed: "quiet L M" if "transact (li_commit io) (check_inter_failure A L r)
      (\<lambda>_. forget_pending r \<circ> drop_answer r) pending (\<lambda>_ _. id) L = (z, M)" for z M pending
    using that by (rule transact_quiet) (auto intro: quiet_trans [OF quiet_steps(2) quiet_steps(3)])
  then show "finalize_inter_component_failure A io r oc L = (t, L') \<Longrightarrow> quiet L L'"
    by (auto simp: finalize_inter_component_failure_def split: if_splits elim!: under_failure_owner_quiet)
  show "finalize_projectionless_failure A io r oc completed L = (t, L') \<Longrightarrow> quiet L L'"
    by (auto simp: finalize_projectionless_failure_def split: if_splits elim!: transact_quiet)
  show "finalize_pre_send_refusal A io r cname oc completed L = (t, L') \<Longrightarrow> quiet L L'"
    by (auto simp: finalize_pre_send_refusal_def split: if_splits elim!: transact_quiet)
  show "cancel_claim_before_dispatch A io gid oc L = (t, L') \<Longrightarrow> quiet L L'"
    by (auto simp: cancel_claim_before_dispatch_def split: option.splits elim!: transact_quiet)
  have recover: "quiet L M" if "recover_incomplete_run A io r fence h attestation completed L = (z, M)"
    for fence h attestation completed z M
    using that unfolding recover_incomplete_run_def by (rule transact_quiet) auto
  then show "recover_incomplete_run A io r fence h attestation completed L = (t, L') \<Longrightarrow> quiet L L'" .
  show "recover_shadow_run A io r L = (t, L') \<Longrightarrow> quiet L L'"
    unfolding recover_shadow_run_def
    by (auto elim!: under_failure_owner_quiet split: sum.splits intro: recover)
qed

lemmas closure_changes = commit_safe_pending_change finalize_shadow_run_change
  finalize_inter_component_failure_change finalize_projectionless_failure_change
  finalize_pre_send_refusal_change cancel_claim_before_dispatch_change recover_incomplete_run_change
  recover_shadow_run_change

lemma consume_cases:
  assumes "consume_committed_grant gid L = (u, L')"
  shows "L' = L \<or> (\<exists>g. lg_grants L gid = Some g \<and> lg_active L (grant_key g) = Some gid \<and> \<not> gr_consumed g
    \<and> u = Inr () \<and> L' = L\<lparr>lg_grants := (lg_grants L)(gid \<mapsto> g\<lparr>gr_consumed := True\<rparr>)\<rparr>)"
  using assms by (auto simp: consume_committed_grant_def split: option.splits if_splits)

lemma send_cases:
  assumes "consume_transport_grant gid order cap L = (u, L')"
  shows "L' = L \<or> (\<exists>g. lg_grants L gid = Some g \<and> lg_active L (grant_key g) = Some gid \<and> \<not> gr_consumed g
    \<and> u = Inr () \<and> L' = L\<lparr>lg_grants := (lg_grants L)(gid \<mapsto> g\<lparr>gr_consumed := True\<rparr>)\<rparr>)"
proof -
  have "L' = L \<or> consume_committed_grant gid L = (u, L')"
    using assms by (auto simp: consume_transport_grant_def split: sum.splits option.splits if_splits)
  then show ?thesis using consume_cases by blast
qed

lemma refuse_quiet:
  assumes "defer_answer_evidence_refusal gid L = (u, L')"
  shows "quiet L L' \<and> lg_db L' = lg_db L"
  using assms by (auto simp: defer_answer_evidence_refusal_def Let_def quiet_def split: option.splits if_splits)

text \<open>The kinds of step, by what they do to the tables and the memory.\<close>

lemma ledger_step_kinds:
  assumes "ledger_step L L'" and "memory_ok L" and "db_wf (lg_db L)"
  obtains (closure) "quiet L L'" and "ledger_change row_closes (lg_db L) (lg_db L')"
    | (admission) A io r x where "create_admission A io r L = (x, L')" and "sound_authority A"
    | (binding) A io r b p u where "bind_answer_budget A io r b p L = (u, L')" and "sound_authority A"
    | (claim) A io r c b g where "claim_component A io r c b L = (g, L')" and "sound_authority A"
    | (consumption) gid g where "lg_grants L gid = Some g" and "lg_active L (grant_key g) = Some gid"
        and "\<not> gr_consumed g" and "L' = L\<lparr>lg_grants := (lg_grants L)(gid \<mapsto> g\<lparr>gr_consumed := True\<rparr>)\<rparr>"
    | (settlement) A io sio gid ob y ob' where "finalize_component A io sio gid ob L = (y, ob', L')"
        and "sound_authority A"
    | (restart) "L' = restarted L"
  using assms(1)
proof (cases rule: ledger_step.cases)
  case (step_consume gid u)
  from consume_cases [OF step_consume] show thesis
  proof
    assume "L' = L"
    then show thesis using closure by simp
  qed (use consumption in blast)
next
  case (step_send gid order cap u)
  from send_cases [OF step_send] show thesis
  proof
    assume "L' = L"
    then show thesis using closure by simp
  qed (use consumption in blast)
next
  case (step_refuse gid u)
  show thesis by (rule closure) (use refuse_quiet [OF step_refuse] in simp_all)
next
  case (step_safety s)
  then show thesis using closure by simp
next
  case (step_pending A io r corpus vector only refused cache z)
  show thesis
    by (rule closure [OF quiet_closures(1) [OF step_pending(1)] closure_changes(1) [OF step_pending(1) assms(3) step_pending(2)]])
next
  case (step_shadow A io r call entry t)
  show thesis
    by (rule closure [OF quiet_closures(2) [OF step_shadow(1)] closure_changes(2) [OF step_shadow(1) assms(3)]])
next
  case (step_inter A io r oc t)
  show thesis
    by (rule closure [OF quiet_closures(3) [OF step_inter(1)] closure_changes(3) [OF step_inter(1) assms(3,2)]])
next
  case (step_projectionless A io r oc completed t)
  show thesis
    by (rule closure [OF quiet_closures(4) [OF step_projectionless(1)] closure_changes(4) [OF step_projectionless(1) assms(3)]])
next
  case (step_pre_send A io r oc completed t)
  show thesis
    by (rule closure [OF quiet_closures(5) [OF step_pre_send(1)] closure_changes(5) [OF step_pre_send(1) assms(3)]])
next
  case (step_cancel A io gid oc t)
  show thesis
    by (rule closure [OF quiet_closures(6) [OF step_cancel(1)] closure_changes(6) [OF step_cancel(1) assms(3)]])
next
  case (step_recover A io r fence h attestation completed t)
  show thesis
    by (rule closure [OF quiet_closures(7) [OF step_recover(1)] closure_changes(7) [OF step_recover(1) assms(3)]])
next
  case (step_recover_shadow A io r t)
  show thesis
    by (rule closure [OF quiet_closures(8) [OF step_recover_shadow(1)] closure_changes(8) [OF step_recover_shadow(1) assms(3)]])
next
  case (step_admit A io r x)
  then show thesis by (rule admission)
next
  case (step_bind A io r b p u)
  then show thesis by (rule binding)
next
  case (step_claim A io r c b g)
  then show thesis by (rule claim)
next
  case (step_finalize A io sio gid ob y ob')
  then show thesis by (rule settlement)
next
  case step_restart
  then show thesis by (rule restart)
qed

lemma ledger_step_change:
  assumes "ledger_step L L'" and "memory_ok L" and "db_wf (lg_db L)"
  shows "some_change (lg_db L) (lg_db L')"
  using assms
proof (cases rule: ledger_step_kinds)
  case (claim A io r c b g)
  then show ?thesis using claim_component_change assms(3) ledger_change_some by blast
next
  case (binding A io r b p u)
  then show ?thesis using bind_answer_budget_change assms(3) ledger_change_some by blast
next
  case (settlement A io sio gid ob y ob')
  then show ?thesis using finalize_component_change assms(3) by blast
qed (auto simp: restarted_def intro: ledger_change_some create_admission_change)

lemma memory_ok_simps [simp]:
  "memory_ok (drop_grant k L) = memory_ok L" "memory_ok (L\<lparr>lg_db := d\<rparr>) = memory_ok L"
  "memory_ok (L\<lparr>lg_safety := s\<rparr>) = memory_ok L" "memory_ok (restarted L)"
  by (simp_all add: memory_ok_def restarted_def drop_grant_def)

lemma settle_rows_picked:
  assumes "settle_rows c ob v a q w = (a1, q1, w1)" and "ob_terminal_outcome ob \<noteq> Abandoned_Unknown"
  shows "cw_state (pick c q1 w1) = Terminal"
  using assms settled_row_state [OF assms(2)]
  by (cases c) (auto simp: settle_rows_def)

lemma commit_finalization_memory:
  assumes op: "commit_finalization A io g reserved ob v binding L = (y, L')" and mem: "memory_ok L"
    and oc: "ob_terminal_outcome ob \<noteq> Abandoned_Unknown"
  shows "memory_ok L'"
  using op unfolding commit_finalization_def Let_def
proof (rule transact_induct [where P = memory_ok])
  show "memory_ok L" by (rule mem)
next
  fix s
  let ?before = "(case s of (a, q, w) \<Rightarrow>
    if is_closed q \<and> is_closed w \<and> ob_classification ob \<noteq> Validated_Success
    then drop_grant (grant_key g) else id) L"
  show "lg_db ?before = lg_db L \<and> memory_ok ?before"
    using mem by (auto split: prod.splits)
next
  fix s d u
  assume s: "then_r (reload_finalization g reserved L)
      (\<lambda>(a, q, w). Inr (settle_rows (gr_component g) ob v a q w)) = Inr s"
  obtain a1 q1 w1 where s1: "s = (a1, q1, w1)" by (cases s)
  have T: "cw_state (pick (gr_component g) q1 w1) = Terminal"
    using s s1 settle_rows_picked [OF _ oc] by (auto split: prod.splits)
  let ?before = "((case s of (a, q, w) \<Rightarrow>
    if is_closed q \<and> is_closed w \<and> ob_classification ob \<noteq> Validated_Success
    then drop_grant (grant_key g) else id) L)\<lparr>lg_db := d\<rparr>"
  have b: "memory_ok ?before" using mem by (auto split: prod.splits)
  have "memory_ok (keep_terminal k binding (pick (gr_component g) q1 w1) a' M)" if "memory_ok M" for k a' M
    using that T by (auto simp: memory_ok_def keep_terminal_def split: sum.splits)
  then show "memory_ok ?before \<and> (y = Inr u \<longrightarrow> memory_ok ((case s of (a, q, w) \<Rightarrow> \<lambda>(a', f) L.
      drop_grant (grant_key g) (if ob_classification ob = Validated_Success
        then keep_terminal (grant_key g) binding (pick (gr_component g) q w) a' L else L)) u ?before))"
    using b s1 by (auto split: prod.splits)
qed


lemma finalize_component_memory:
  assumes "finalize_component A io sio gid ob L = (y, ob', L')" and "memory_ok L"
  shows "memory_ok L'"
  using assms(1)
proof (cases rule: finalize_component_cases)
  case (refused e)
  then show ?thesis using assms(2) by (metis memory_ok_simps(3))
next
  case (settled g reserved expected overrun snapshot binding s' z)
  obtain "validate_outcome ob' = Inr ()" using preview_finalization_Inr [OF settled(1)] by blast
  then show ?thesis
    using commit_finalization_memory [OF settled(5)] assms(2) validate_outcome_Inr(1) by simp
qed

lemma ledger_step_memory:
  assumes "ledger_step L L'" and "memory_ok L" and "db_wf (lg_db L)"
  shows "memory_ok L'"
  using assms
proof (cases rule: ledger_step_kinds)
  case closure
  then show ?thesis using assms(2) by (simp add: quiet_def memory_ok_def)
next
  case (settlement A io sio gid ob y ob')
  then show ?thesis using finalize_component_memory assms(2) by blast
next
  case (admission A io r x)
  then have "lg_terminal_rows L' = lg_terminal_rows L"
    unfolding create_admission_def Let_def
    by (elim transact_keeps) (auto simp: record_budget_def record_snapshot_def split: admission_budget.splits)
  then show ?thesis using assms(2) by (simp add: memory_ok_def)
next
  case (binding A io r b p u)
  then have "lg_terminal_rows L' = lg_terminal_rows L"
    unfolding bind_answer_budget_def by (elim transact_keeps) auto
  then show ?thesis using assms(2) by (simp add: memory_ok_def)
next
  case (claim A io r c b g)
  then have "lg_terminal_rows L' = lg_terminal_rows L"
    unfolding claim_component_def by (elim transact_keeps) (auto split: prod.splits)
  then show ?thesis using assms(2) by (simp add: memory_ok_def)
next
  case (consumption gid g)
  then show ?thesis using assms(2) by (simp add: memory_ok_def)
qed (simp add: memory_ok_def restarted_def)

section \<open>The tables\<close>

text \<open>The effect on the tables of one call by some process.\<close>

definition stored_step :: "rag_db \<Rightarrow> rag_db \<Rightarrow> bool" where
  "stored_step d d' \<longleftrightarrow> (\<exists>L L'. memory_ok L \<and> ledger_step L L' \<and> lg_db L = d \<and> lg_db L' = d')"

definition no_runs :: "rag_db \<Rightarrow> bool" where
  "no_runs d \<longleftrightarrow> ld_runs d = Map.empty"

lemma stored_step_change: "stored_step d d' \<Longrightarrow> db_wf d \<Longrightarrow> some_change d d'"
  by (auto simp: stored_step_def intro: ledger_step_change)

lemma stored_step_wf: "db_wf d \<Longrightarrow> stored_step d d' \<Longrightarrow> db_wf d'"
  using stored_step_change ledger_change_wf by blast

text \<open>The order in which the tables evolve: nothing is removed, a finished run is final, and each row
  evolves.\<close>

definition db_evolves :: "rag_db \<Rightarrow> rag_db \<Rightarrow> bool" where
  "db_evolves d d' \<longleftrightarrow>
     (\<forall>r a q w. locked_run d r = Inr (a, q, w) \<longrightarrow>
        (\<exists>a' q' w'. locked_run d' r = Inr (a', q', w') \<and> row_evolves q q' \<and> row_evolves w w'
           \<and> (ar_status a \<noteq> Running \<longrightarrow> (a', q', w') = (a, q, w))))"

lemma db_evolvesE:
  assumes "db_evolves d d'" and "locked_run d r = Inr (a, q, w)"
  obtains a' q' w' where "locked_run d' r = Inr (a', q', w')" and "row_evolves q q'" and "row_evolves w w'"
    and "ar_status a \<noteq> Running \<longrightarrow> (a', q', w') = (a, q, w)"
  using assms unfolding db_evolves_def by blast

lemma db_evolves_trans:
  assumes "db_evolves d e" and "db_evolves e f"
  shows "db_evolves d f"
  unfolding db_evolves_def
proof (intro allI impI)
  fix r a q w assume "locked_run d r = Inr (a, q, w)"
  then obtain b p v where 1: "locked_run e r = Inr (b, p, v)" "row_evolves q p" "row_evolves w v"
    "ar_status a \<noteq> Running \<longrightarrow> (b, p, v) = (a, q, w)"
    by (rule db_evolvesE [OF assms(1)])
  obtain c o' u where 2: "locked_run f r = Inr (c, o', u)" "row_evolves p o'" "row_evolves v u"
    "ar_status b \<noteq> Running \<longrightarrow> (c, o', u) = (b, p, v)"
    by (rule db_evolvesE [OF assms(2) 1(1)])
  have "row_evolves q o'" and "row_evolves w u"
    using 1(2,3) 2(2,3) by (auto intro: row_evolves_trans)
  then show "\<exists>a' q' w'. locked_run f r = Inr (a', q', w') \<and> row_evolves q q' \<and> row_evolves w w'
           \<and> (ar_status a \<noteq> Running \<longrightarrow> (a', q', w') = (a, q, w))"
    using 1(4) 2(1,4) by (intro exI [of _ c] exI [of _ o'] exI [of _ u]) auto
qed

lemma locked_run_cong:
  "ld_runs d' r = ld_runs d r \<Longrightarrow> ld_rows d' r = ld_rows d r \<Longrightarrow> locked_run d' r = locked_run d r"
  by (simp add: locked_run_def)

lemma moves_locked:
  assumes "locked_run d r = Inr (a, q, w)" and "moves R (a, q, w) (a', q', w')"
    and "ld_runs d' = (ld_runs d)(r \<mapsto> a')" and "ld_rows d' = (ld_rows d)(r := [q', w'])"
  shows "locked_run d' r = Inr (a', q', w')"
  using assms by (auto simp: locked_run_Inr moves_def row_evolves_target)

lemma ledger_change_evolves:
  assumes "ledger_change R d d'"
  shows "db_evolves d d'"
  using assms
proof (induction rule: ledger_change.induct)
  case (unchanged d' d)
  then have "locked_run d' = locked_run d" by (auto simp: locked_run_def fun_eq_iff)
  then show ?case by (simp add: db_evolves_def)
next
  case (admitted d r a q w d')
  then have "locked_run d' s = locked_run d s" if "s \<noteq> r" for s
    using that by (simp add: locked_run_def)
  moreover have "locked_run d r \<noteq> Inr x" for x
    using admitted(1) by (cases x) (simp add: locked_run_Inr)
  ultimately show ?case unfolding db_evolves_def
    by (metis row_evolves_refl)
next
  case (moved d r s a' q' w' d')
  obtain a q w where s: "s = (a, q, w)" by (cases s)
  have other: "locked_run d' t = locked_run d t" if "t \<noteq> r" for t
    using that moved(3,4) by (simp add: locked_run_def)
  have "locked_run d' r = Inr (a', q', w')"
    using moves_locked moved s by blast
  moreover have "row_evolves q q'" and "row_evolves w w'" and "ar_status a = Running"
    using moved(2) s by (simp_all add: moves_def)
  ultimately show ?case unfolding db_evolves_def
    using moved(1) s other by (metis Pair_inject row_evolves_refl sum.inject(2))
qed

interpretation tables: ascending_system no_runs stored_step db_wf db_evolves
proof unfold_locales
  show "db_wf s" if "no_runs s" for s using that by (simp add: db_wf_def no_runs_def)
  show "db_evolves s s" for s by (simp add: db_evolves_def)
  show "db_evolves s u" if "db_evolves s t" and "db_evolves t u" for s t u
    using that by (rule db_evolves_trans)
  show "db_evolves s t" if "db_wf s" and "stored_step s t" for s t
    using that ledger_change_evolves stored_step_change by blast
qed (rule stored_step_wf)

section \<open>Admissions and claims\<close>

lemma create_admission_Inr:
  assumes "create_admission A io r L = (Inr ad, L')"
  obtains h rh where "check_admission A r = Inr (h, rh)" and "li_commit io = Acknowledged"
    and "insertable (lg_db L) (aq_run_id r) (admitted_run r h rh)
      [admitted_row (aq_query r), admitted_row (aq_answer r)]"
    and "locked_run (lg_db L') (aq_run_id r)
      = Inr (admitted_run r h rh, admitted_row (aq_query r), admitted_row (aq_answer r))"
    and "L' = (record_budget (aq_run_id r) Answer_Generation (snd (aq_answer r))
      \<circ> record_snapshot (aq_run_id r) (fst (aq_answer r))
      \<circ> record_budget (aq_run_id r) Query_Embedding (snd (aq_query r))
      \<circ> record_snapshot (aq_run_id r) (fst (aq_query r))) (L\<lparr>lg_db := lg_db L'\<rparr>)"
    and "ld_runs (lg_db L') = (ld_runs (lg_db L))(aq_run_id r \<mapsto> admitted_run r h rh)"
    and "ld_rows (lg_db L') = (ld_rows (lg_db L))
      (aq_run_id r := [admitted_row (aq_query r), admitted_row (aq_answer r)])"
    and "ad = \<lparr>ad_request = r, ad_query_hmac = used_query_hmac r, ad_answer_hmac = used_answer_hmac r,
               ad_identity_hmac = h, ad_reserved = ar_estimated (admitted_run r h rh), ad_runtime_hmac = rh\<rparr>"
  using assms unfolding create_admission_def Let_def
proof (rule transact_Inr)
  fix g d
  let ?rows = "[admitted_row (aq_query r), admitted_row (aq_answer r)]"
  assume g: "check_admission A r = Inr g"
    and p: "(case g of (h, rh) \<Rightarrow>
           Inr ((lg_db L)\<lparr>ld_runs := (ld_runs (lg_db L))(aq_run_id r \<mapsto> admitted_run r h rh),
                  ld_rows := (ld_rows (lg_db L))(aq_run_id r := ?rows)\<rparr>,
                \<lparr>ad_request = r, ad_query_hmac = used_query_hmac r, ad_answer_hmac = used_answer_hmac r,
                 ad_identity_hmac = h, ad_reserved = ar_estimated (admitted_run r h rh),
                 ad_runtime_hmac = rh\<rparr>)) = Inr (d, ad)"
    and co: "(case check_admission A r of Inl _ \<Rightarrow> li_commit io
         | Inr (h, rh) \<Rightarrow>
             if insertable (lg_db L) (aq_run_id r) (admitted_run r h rh) ?rows
             then li_commit io else Not_Committed) = Acknowledged"
    and L': "L' = (record_budget (aq_run_id r) Answer_Generation (snd (aq_answer r))
             \<circ> record_snapshot (aq_run_id r) (fst (aq_answer r))
             \<circ> record_budget (aq_run_id r) Query_Embedding (snd (aq_query r))
             \<circ> record_snapshot (aq_run_id r) (fst (aq_query r))) ((id L)\<lparr>lg_db := d\<rparr>)"
  obtain h rh where gw: "g = (h, rh)" by (cases g)
  have ins: "insertable (lg_db L) (aq_run_id r) (admitted_run r h rh) ?rows" and ack: "li_commit io = Acknowledged"
    using co g gw by (auto split: if_splits)
  have "[cw_component (admitted_row (aq_query r)), cw_component (admitted_row (aq_answer r))] = component_order"
    using ins by (simp add: insertable_def run_ok_def)
  then show thesis
    using that [of h rh] g gw ins ack p L' by (auto simp: locked_run_Inr)
qed

text \<open>A successful claim, and what it leaves stored.\<close>

lemma claim_component_Inr:
  assumes "claim_component A io r c b L = (Inr g, L')" and "sound_authority A"
  obtains a q w a' q' w' fence where "locked_run (lg_db L) r = Inr (a, q, w)"
    and "cw_state (pick c q w) = Not_Attempted" and "locked_run (lg_db L') r = Inr (a', q', w')"
    and "pick c q' w' = claimed_row fence (la_process A) (pick c q w)" and "g = lg_next L"
    and "li_commit io = Acknowledged" and "lg_active L' (r, c) = Some g"
    and "lg_grants L' g = Some \<lparr>gr_run_id = r, gr_component = c, gr_reserved = cw_reserved (pick c q w),
      gr_fence = fence, gr_safety_hmac = sb_provider_safety_snapshot_hmac (the (lg_bindings L' (r, c))),
      gr_consumed = False\<rparr>"
  using assms(1) unfolding claim_component_def
proof (rule transact_Inr)
  fix s d
  assume s: "check_claim A io r c b L = Inr s"
    and p: "(case s of (a, q, w, binding, fence) \<Rightarrow>
          let (q', w') = replace_pick c (claimed_row fence (la_process A) (pick c q w)) (q, w) in
          Inr (store_run (lg_db L) r (a\<lparr>ar_charged := total_charged [q', w']\<rparr>) q' w', lg_next L))
      = Inr (d, g)"
    and co: "li_commit io = Acknowledged"
    and L': "L' = (case s of (a, q, w, binding, fence) \<Rightarrow> \<lambda>g L. L\<lparr>
          lg_grants := (lg_grants L)(g \<mapsto>
            \<lparr>gr_run_id = r, gr_component = c, gr_reserved = cw_reserved (pick c q w), gr_fence = fence,
             gr_safety_hmac = sb_provider_safety_snapshot_hmac binding, gr_consumed = False\<rparr>),
          lg_next := g + 1,
          lg_active := (lg_active L)((r, c) \<mapsto> g),
          lg_bindings := (lg_bindings L)((r, c) \<mapsto> binding)\<rparr>) g ((id L)\<lparr>lg_db := d\<rparr>)"
  obtain a q w binding fence where sw: "s = (a, q, w, binding, fence)" by (cases s)
  obtain q' w' where qw: "replace_pick c (claimed_row fence (la_process A) (pick c q w)) (q, w) = (q', w')"
    by fastforce
  obtain lock: "locked_run (lg_db L) r = Inr (a, q, w)" and row: "row_claimable c b (pick c q w)"
    using check_claim_Inr [OF s [unfolded sw] assms(2)] by blast
  have "pick c q' w' = claimed_row fence (la_process A) (pick c q w)"
    and "[cw_component q', cw_component w'] = [cw_component q, cw_component w]"
    using qw by (cases c; auto)+
  then show thesis
    using that [OF lock, of "a\<lparr>ar_charged := total_charged [q', w']\<rparr>" q' w' fence] lock row co L' p sw qw
    by (auto simp: row_claimable_def locked_run_Inr)
qed

section \<open>Properties of the tables\<close>

text \<open>What a run looks like to the specification, and one step of it there.\<close>

definition view_of :: "rag_db \<Rightarrow> int \<Rightarrow> run_view option" where
  "view_of d r =
     (case locked_run d r of Inl _ \<Rightarrow> None | Inr (a, q, w) \<Rightarrow> Some (view a q w))"

inductive run_step :: "run_view option \<Rightarrow> run_view option \<Rightarrow> bool" where
  stutter: "run_step v v"
| admit: "run_step None (Some (Admission, Not_Attempted, Not_Attempted))"
| advance: "lifecycle v v' \<Longrightarrow> run_step (Some v) (Some v')"

lemma view_of_cong: "ld_runs d' r = ld_runs d r \<Longrightarrow> ld_rows d' r = ld_rows d r \<Longrightarrow> view_of d' r = view_of d r"
  using locked_run_cong [of d' r d] by (simp add: view_of_def)

lemma ledger_change_one_run:
  assumes "ledger_change R d d'"
  shows "\<exists>r. run_step (view_of d r) (view_of d' r)
    \<and> (\<forall>s. s = r \<or> ld_runs d' s = ld_runs d s \<and> ld_rows d' s = ld_rows d s)"
  using assms
proof (induction rule: ledger_change.induct)
  case (unchanged d' d)
  then have "view_of d' 0 = view_of d 0" by (intro view_of_cong) simp_all
  then show ?case using unchanged by (intro exI [of _ 0]) (simp add: stutter)
next
  case (admitted d r a q w d')
  have "locked_run d r \<noteq> Inr s" for s using admitted(1) by (cases s) (simp add: locked_run_Inr)
  then have "view_of d r = None" by (auto simp: view_of_def split: sum.splits)
  moreover have "view_of d' r = Some (Admission, Not_Attempted, Not_Attempted)"
    using admitted(3-6) run_wf_components [OF admitted(3)] by (simp add: view_of_def locked_run_def)
  ultimately show ?case using admitted(5,6) by (intro exI [of _ r]) (simp add: admit)
next
  case (moved d r s a' q' w' d')
  obtain a q w where s: "s = (a, q, w)" by (cases s)
  have "locked_run d' r = Inr (a', q', w')" using moves_locked moved s by blast
  then have "run_step (view_of d r) (view_of d' r)"
    using moved(1,2) s by (auto simp: view_of_def moves_def stutter intro: advance)
  then show ?case using moved(3,4) by (intro exI [of _ r]) simp
qed

text \<open>
  C12. In every state the tables reach, whatever the processes do and wherever one of them dies, a stored
  run and its two rows satisfy every CHECK constraint, its recorded total is the sum of its rows, it is in
  the admission phase exactly while one of its rows is open, and a row is abandoned only in a run closed
  on its admission.
\<close>

theorem stored_runs_are_accounted:
  assumes "reach no_runs stored_step d" and "ld_runs d r = Some a"
  shows "\<exists>q w. ld_rows d r = [q, w] \<and> run_ok a [q, w] \<and> ar_charged a = cw_charged q + cw_charged w
    \<and> (ar_phase a = Admission \<longleftrightarrow> \<not> (is_closed q \<and> is_closed w))
    \<and> (ar_phase a = Admission_Only \<or> (cw_state q \<noteq> Abandoned \<and> cw_state w \<noteq> Abandoned))"
proof -
  obtain q w where "ld_rows d r = [q, w]" and wf: "run_wf a q w"
    using tables.inv_reach [OF assms(1)] assms(2) unfolding db_wf_def by blast
  moreover have "run_ok a [q, w]" using wf by (simp add: run_wf_def)
  ultimately show ?thesis
    using run_wf_rows(4,7,8) [OF wf] by blast
qed

text \<open>
  C22. Refinement: every call of every operation, by any process, changes at most one stored run, and seen
  as its phase and the dispatch states of its components that run makes one step of the specified
  lifecycle or none.
\<close>

theorem operations_refine_lifecycle:
  assumes "reach no_runs stored_step d" and "stored_step d d'"
  shows "\<exists>r. run_step (view_of d r) (view_of d' r)
    \<and> (\<forall>s. s = r \<or> ld_runs d' s = ld_runs d s \<and> ld_rows d' s = ld_rows d s)"
  using ledger_change_one_run stored_step_change [OF assms(2)] tables.inv_reach [OF assms(1)] by blast

text \<open>
  C21. For the cost ledger a closed run is final: whatever operations of the ledger run later, in whatever
  process, none changes the stored run, its rows or its charge. The finaliser of the RAG graph, which is
  not modelled, may still add to the metadata of a failed run in a transaction of its own.
\<close>

theorem closed_run_is_final:
  assumes "reach no_runs stored_step d" and "stored_step\<^sup>*\<^sup>* d d'" and "ld_runs d r = Some a"
    and "ar_status a \<noteq> Running"
  shows "ld_runs d' r = Some a \<and> ld_rows d' r = ld_rows d r"
proof -
  obtain q w where lock: "locked_run d r = Inr (a, q, w)"
    using db_wf_locked_iff [OF tables.inv_reach [OF assms(1)]] assms(3) by blast
  obtain a' q' w' where "locked_run d' r = Inr (a', q', w')"
    and "ar_status a \<noteq> Running \<longrightarrow> (a', q', w') = (a, q, w)"
    by (rule db_evolvesE [OF tables.steps_below_reach [OF assms(1,2)] lock])
  then show ?thesis using assms(4) lock by (simp add: locked_run_Inr)
qed

lemma evolved_not_claimable:
  "row_evolves w w' \<Longrightarrow> cw_state w \<noteq> Not_Attempted \<Longrightarrow> cw_state w' \<noteq> Not_Attempted"
  by (cases "cw_state w") (auto simp: row_evolves_def is_closed_def)

text \<open>
  C11. A component of a run is dispatched at most once: after a successful claim, and any sequence of
  operations by any processes, no process can claim the same component of the same run again.
\<close>

theorem component_dispatched_at_most_once:
  assumes "reach no_runs stored_step (lg_db L)" and "sound_authority A" and "sound_authority A'"
    and "memory_ok L" and "claim_component A io r c b L = (Inr g, L1)" and "stored_step\<^sup>*\<^sup>* (lg_db L1) (lg_db L2)"
  shows "\<not> returns (fst (claim_component A' io' r c b' L2))"
proof
  assume "returns (fst (claim_component A' io' r c b' L2))"
  then obtain g' L3 where again: "claim_component A' io' r c b' L2 = (Inr g', L3)"
    by (cases "claim_component A' io' r c b' L2") (auto simp: returns_iff)
  obtain a1 q1 w1 where L1: "locked_run (lg_db L1) r = Inr (a1, q1, w1)"
    and disp: "cw_state (pick c q1 w1) = Dispatching"
    by (rule claim_component_Inr [OF assms(5,2)]) simp
  have "stored_step (lg_db L) (lg_db L1)"
    using step_claim [OF assms(5,2)] assms(4) by (auto simp: stored_step_def)
  then have "reach no_runs stored_step (lg_db L1)" by (rule reach_step [OF assms(1)])
  then have "db_evolves (lg_db L1) (lg_db L2)" using assms(6) by (rule tables.steps_below_reach)
  then obtain a2 q2 w2 where L2: "locked_run (lg_db L2) r = Inr (a2, q2, w2)"
    and ev: "row_evolves q1 q2" "row_evolves w1 w2"
    by (rule db_evolvesE [OF _ L1])
  have "row_evolves (pick c q1 w1) (pick c q2 w2)" using ev by (cases c) simp_all
  then have "cw_state (pick c q2 w2) \<noteq> Not_Attempted"
    using disp evolved_not_claimable by simp
  moreover have "cw_state (pick c q2 w2) = Not_Attempted"
    by (rule claim_component_Inr [OF again assms(3)]) (use L2 in simp)
  ultimately show False by simp
qed

end
