(* ===== verification/Ascii_Signing.thy ===== *)
theory Ascii_Signing
  imports Retrieval
begin

text \<open>
  Payloads of ASCII strings, and a signer that works: one with a secret whose normal form leaves ASCII
  text alone, as the Unicode normal forms do. It signs every such payload.
\<close>

section \<open>ASCII payloads\<close>

definition ascii :: "string \<Rightarrow> bool" where
  "ascii s \<longleftrightarrow> list_all (\<lambda>c. \<not> digit7 c) s"

lemma ascii_valid: "ascii s \<Longrightarrow> utf8_valid s"
  by (simp add: ascii_def utf8_valid_ascii)

lemma ascii_simps [simp]:
  "ascii []" "ascii (c # s) \<longleftrightarrow> \<not> digit7 c \<and> ascii s" "ascii (s @ t) \<longleftrightarrow> ascii s \<and> ascii t"
  by (simp_all add: ascii_def)

definition ascii_opt :: "string option \<Rightarrow> bool" where
  "ascii_opt x = (case x of None \<Rightarrow> True | Some s \<Rightarrow> ascii s)"

fun json_ascii :: "json \<Rightarrow> bool" where
  "json_ascii (JStr s) = ascii s"
| "json_ascii (JList xs) = list_all json_ascii xs"
| "json_ascii (JObj kvs) = (distinct (map fst kvs) \<and> list_all (\<lambda>(k, v). ascii k \<and> json_ascii v) kvs)"
| "json_ascii (JFloat r) = (r \<notin> set [''nan'', ''inf'', ''-inf''])"
| "json_ascii _ = True"

lemma json_ascii_normal:
  assumes "\<And>s. ascii s \<Longrightarrow> f s = s"
  shows "json_ascii v \<Longrightarrow> normalize_json f v = Inr v"
    and "list_all json_ascii vs \<Longrightarrow> normalize_items f vs = Inr vs"
    and "distinct (map fst kvs) \<Longrightarrow> set (map fst kvs) \<inter> set seen = {}
      \<Longrightarrow> list_all (\<lambda>(k, v). ascii k \<and> json_ascii v) kvs \<Longrightarrow> normalize_members f seen kvs = Inr kvs"
  using assms
proof (induction f v and f vs and f seen kvs
    rule: normalize_json_normalize_items_normalize_members.induct)
qed (auto simp: list_all_iff Let_def case_prod_unfold)

lemma json_ascii_encodable: "json_ascii v \<Longrightarrow> json_encodable v"
  by (induction v) (fastforce simp: list_all_iff ascii_valid)+

lemma json_ascii_opt [simp]: "json_ascii (json_opt x) = ascii_opt x" "json_ascii (json_opt_int n)"
  by (cases x; cases n; simp add: ascii_opt_def)+

lemma digits_ascii: "n < 16 \<Longrightarrow> \<not> digit7 (hex_digit n)"
  by (rule hex_digit_ascii)

lemma decimal_nat_ascii: "ascii (decimal_nat n)"
proof (induction n rule: decimal_nat.induct)
  case (1 n)
  have "n mod 10 < 16" by (rule less_trans [of _ 10]) simp_all
  then show ?case
    using 1 by (cases "n < 10") (simp_all add: decimal_nat_small decimal_nat_large hex_digit_ascii)
qed

lemma ascii_set: "ascii s \<longleftrightarrow> (\<forall>c \<in> set s. \<not> digit7 c)"
  by (simp add: ascii_def list_all_iff)

lemma ascii_part: "ascii s \<Longrightarrow> set t \<subseteq> set s \<Longrightarrow> ascii t"
  by (auto simp: ascii_set)

lemma ascii_take: "ascii s \<Longrightarrow> ascii (take k s)"
  by (erule ascii_part) (rule set_take_subset)

lemma ascii_drop: "ascii s \<Longrightarrow> ascii (drop k s)"
  by (erule ascii_part) (rule set_drop_subset)

lemma format_f_ascii: "ascii (format_f c e)"
proof -
  have rep: "ascii (replicate k CHR ''0'')" for k by (simp add: ascii_set)
  have parts: "ascii (take k s) \<and> ascii (drop k s)" if "ascii s" for k s
    using that ascii_take ascii_drop by blast
  show ?thesis
  proof (cases "0 \<le> e")
    case True
    then show ?thesis using rep by (simp add: format_f_def decimal_nat_ascii)
  next
    case False
    define padded where "padded = replicate (Suc (nat (- e)) - length (decimal_nat c)) CHR ''0'' @ decimal_nat c"
    have "ascii padded" unfolding padded_def using rep by (simp only: ascii_simps(3) decimal_nat_ascii)
    moreover have "format_f c e = take (length padded - nat (- e)) padded @ ''.'' @ drop (length padded - nat (- e)) padded"
      using False unfolding padded_def by (simp only: format_f_def if_False Let_def)
    ultimately show ?thesis using parts by simp
  qed
qed

lemma format6_ascii [simp]: "ascii (format6 m)"
  by (simp add: format6_def format_f_ascii)

lemma lower_hex_ascii: "lower_hex c \<Longrightarrow> \<not> digit7 c"
  by (auto simp: lower_hex_def)

lemma hex_ascii:
  assumes "is_lower_hex_64 s"
  shows "ascii s"
proof -
  have "list_all lower_hex s" using assms by (rule conjunct2 [OF is_lower_hex_64_def [THEN iffD1]])
  then show ?thesis unfolding ascii_def by (rule list.pred_mono_strong) (rule lower_hex_ascii)
qed

lemma utf8_json_ascii [simp]: "json_ascii (utf8_json s)"
proof -
  have "of_char c div 16 < (16 :: nat)" for c :: char
    using of_char_mod_256 [of c, where 'a = nat] by (metis (no_types) less_mult_imp_div_less
        mod_less_divisor numeral_times_numeral semiring_norm(12,13,14) zero_less_numeral)
  then show ?thesis by (simp add: utf8_json_def ascii_def list_all_iff hex_byte_def hex_digit_ascii)
qed

section \<open>A working signer\<close>

definition signer :: "primitives \<Rightarrow> string \<Rightarrow> bool" where
  "signer P secret \<longleftrightarrow> secret \<noteq> [] \<and> (\<forall>s. ascii s \<longrightarrow> nfc P s = s)"

lemma signer_keyed:
  assumes "signer P secret" and "sv \<noteq> []" and "plain (hd sv)" and "plain (last sv)"
    and "pv \<noteq> []" and "plain (hd pv)" and "plain (last pv)"
    and "ascii sv" and "ascii pv" and "json_ascii v"
  shows "returns (keyed_fingerprint P secret sv pv v)"
proof -
  let ?p = "JObj [(''domain'', JStr ''paraworks:keyed-fingerprint:v1''), (''policy_version'', JStr pv),
                  (''schema_version'', JStr sv), (''value'', v)]"
  have "json_ascii ?p" using assms by simp
  moreover have "strip sv \<noteq> []" and "strip pv \<noteq> []" using strip_plain assms by metis+
  ultimately show ?thesis
    using assms(1) json_ascii_normal(1) [of "nfc P" ?p] json_ascii_encodable
    by (simp add: signer_def keyed_fingerprint_def canonical_json_bytes_def
        del: json_ascii.simps normalize_json.simps json_dumps.simps json_encodable.simps)
qed

lemma signer_identity:
  assumes "signer P secret" and "json_ascii v"
    and "sv \<noteq> []" and "plain (hd sv)" and "plain (last sv)" and "ascii sv"
    and "pv \<noteq> []" and "plain (hd pv)" and "plain (last pv)" and "ascii pv"
  shows "\<exists>d. rag_identity_hmac P secret sv pv v = Inr d"
proof -
  have "secret \<noteq> []" using assms(1) by (simp add: signer_def)
  then show ?thesis
    using signer_keyed [OF assms(1,3,4,5,7,8,9,6,10,2)] by (simp add: rag_identity_hmac_def returns_iff)
qed

end
