(* ===== verification/Ledger_Identities.thy ===== *)
theory Ledger_Identities
  imports Ledger_Lifecycle Ascii_Signing
begin

text \<open>
  When the identities of the ledger can be computed: a signer with a secret whose normal form leaves
  ASCII text alone signs every payload of ASCII strings, and the payloads of a run are of that kind. An
  admitted run can therefore always be closed, and the identity a caller computes for its admission is the
  one the stored row has.
\<close>

section \<open>The identities of a run\<close>

text \<open>The columns of a row that its constraints leave free.\<close>

definition row_ascii :: "cost_row \<Rightarrow> bool" where
  "row_ascii w \<longleftrightarrow> ascii (cw_config_hmac w) \<and> ascii (cw_policy_hmac w) \<and> ascii_opt (cw_fence w)
     \<and> ascii_opt (cw_process w)"

lemma names_ascii [simp]:
  "ascii (component_name c)" "ascii (charge_basis_name b)" "ascii (dispatch_state_name s)"
  "ascii (run_phase_name p)" "ascii (run_status_name u)" "ascii (outcome_name x)"
  by ((cases c; simp), (cases b; simp), (cases s; simp), (cases p; simp), (cases u; simp), (cases x; simp))

lemma ascii_outcome [simp]: "ascii_opt (map_option outcome_name x)"
  by (cases x) (simp_all add: ascii_opt_def)

lemma row_target_scalars:
  assumes "row_target_ok w"
  shows "returns (exact_utf8_bytes (cw_cost_version w))" "returns (exact_utf8_bytes (cw_config_version w))"
    "returns (exact_utf8_bytes (cw_estimator_version w))" "returns (exact_utf8_bytes (cw_model w))"
    "returns (exact_utf8_bytes (cw_provider w))"
  using assms
  by (cases "cw_component w"; simp add: row_target_ok_def returns_iff ascii_valid)+

lemma row_component_json_returns:
  assumes "row_target_ok w" and "row_ascii w"
  shows "\<exists>kvs. row_component_json w = Inr (JObj kvs) \<and> json_ascii (JObj kvs)
    \<and> map fst kvs = runtime_component_keys \<and> map_of kvs ''component'' = Some (JStr (component_name (cw_component w)))"
  using row_target_scalars [OF assms(1)] assms(2)
  by (auto simp: row_component_json_def returns_iff runtime_component_keys_def row_ascii_def)

lemma run_cost_identity_returns:
  assumes "signer (la_primitives A) (la_secret A)" and "row_target_ok q" and "row_target_ok w"
    and "row_ascii q" and "row_ascii w" and "[cw_component q, cw_component w] = component_order" and "ascii stage"
  shows "\<exists>h. run_cost_identity A r [q, w] outcome phase status stage = Inr h"
proof -
  obtain k1 where k1: "row_component_json q = Inr (JObj k1)" "json_ascii (JObj k1)"
    "map fst k1 = runtime_component_keys" "map_of k1 ''component'' = Some (JStr (component_name (cw_component q)))"
    using row_component_json_returns [OF assms(2,4)] by blast
  obtain k2 where k2: "row_component_json w = Inr (JObj k2)" "json_ascii (JObj k2)"
    "map fst k2 = runtime_component_keys" "map_of k2 ''component'' = Some (JStr (component_name (cw_component w)))"
    using row_component_json_returns [OF assms(3,5)] by blast
  let ?v = "runtime_cost_json r [JObj k1, JObj k2] (total_charged [q, w]) (total_reserved [q, w])
    outcome phase status stage"
  have sets: "fst ` set k1 = set runtime_component_keys" "fst ` set k2 = set runtime_component_keys"
    using k1(3) k2(3) by (metis list.set_map)+
  have "runtime_components_ok ?v"
    using sets k1(4) k2(4) assms(6)
    by (auto simp: runtime_components_ok_def runtime_cost_json_def member_of_def runtime_component_shape_def
        component_order_def)
  moreover have "json_ascii ?v"
    using k1(2) k2(2) assms(7) by (auto simp: runtime_cost_json_def json_outcome_def)
  then obtain h where "rag_identity_hmac (la_primitives A) (la_secret A) ''rag-runtime-cost-snapshot:v1''
      ''rag-run:v2'' ?v = Inr h"
    using signer_identity [OF assms(1), of ?v "''rag-runtime-cost-snapshot:v1''" "''rag-run:v2''"]
    by (auto simp: plain_def)
  ultimately show ?thesis
    using k1(1) k2(1)
    by (simp add: run_cost_identity_def runtime_cost_identity_def)
      (simp add: require_exact_mapping_def runtime_cost_json_def runtime_cost_keys_def)
qed

section \<open>A run can be closed\<close>

text \<open>What a failed closure reads from the run itself.\<close>

definition run_readable :: "agent_run \<Rightarrow> bool" where
  "run_readable a \<longleftrightarrow>
     (\<exists>mode surface backend. known_surface surface \<and> known_backend backend
        \<and> split_on CHR '':'' (ar_window a) = [''rag-v2'', ''admission'', mode, surface, backend])
     \<and> ascii (removeprefix ''rag-v2-admission:'' (ar_cache_key a))
     \<and> list_all (\<lambda>k. \<exists>s. ar_metadata a k = Some (JStr s) \<and> ascii s)
         [''configured_backend'', ''current_text_hmac'', ''retrieval_query_hmac'',
          ''security_scope_fingerprint'', ''surface'', ''runtime_cost_snapshot_hmac'']"

lemma final_error_parts_returns:
  assumes "run_readable a" and "signer (la_primitives A) (la_secret A)" and "ascii h"
    and "ascii (removeprefix ''rag-v2-admission:'' (ar_cache_key a))"
  shows "\<exists>x. final_error_parts A a (removeprefix ''rag-v2-admission:'' (ar_cache_key a)) h outcome = Inr x"
proof -
  obtain mode surface backend where w: "known_surface surface" "known_backend backend"
    "split_on CHR '':'' (ar_window a) = [''rag-v2'', ''admission'', mode, surface, backend]"
    using assms(1) by (auto simp: run_readable_def)
  obtain s1 s2 s3 s4 s5 where m: "ar_metadata a ''configured_backend'' = Some (JStr s1)" "ascii s1"
    "ar_metadata a ''current_text_hmac'' = Some (JStr s2)" "ascii s2"
    "ar_metadata a ''retrieval_query_hmac'' = Some (JStr s3)" "ascii s3"
    "ar_metadata a ''security_scope_fingerprint'' = Some (JStr s4)" "ascii s4"
    "ar_metadata a ''surface'' = Some (JStr s5)" "ascii s5"
    using assms(1) by (auto simp: run_readable_def)
  let ?v = "JObj
            [(''admission_cache_identity_hmac'', JStr (removeprefix ''rag-v2-admission:'' (ar_cache_key a))),
             (''answer_question_hmac'', JNull),
             (''configured_backend'', JStr s1),
             (''current_text_hmac'', JStr s2),
             (''fallback_category'', JNull),
             (''graph_version'', JStr ''company-memory-rag-answer-v2.0''),
             (''outcome'', JStr (outcome_name outcome)),
             (''prepared_model_influence_observation_hmac'', JNull),
             (''retrieval_query_hmac'', JStr s3),
             (''runtime_cost_snapshot_hmac'', JStr h),
             (''security_scope_fingerprint'', JStr s4),
             (''surface'', JStr s5)]"
  have "json_ascii ?v" using m assms(3,4) by simp
  then obtain d where "rag_identity_hmac (la_primitives A) (la_secret A) ''rag-final-error-identity:v1''
      ''rag-run:v2'' ?v = Inr d"
    using signer_identity [OF assms(2), of ?v "''rag-final-error-identity:v1''" "''rag-run:v2''"]
    by (auto simp: plain_def)
  then have "final_error_identity (la_primitives A) (la_secret A) ?v = Inr d"
    by (simp add: final_error_identity_def shaped_identity_obj final_error_keys_def)
  then show ?thesis
    using w m by (simp add: final_error_parts_def md_required_def terminal_window_final_error)
qed

lemma finalize_failed_run_returns:
  assumes "run_readable a" and "signer (la_primitives A) (la_secret A)" and "sound_authority A"
    and "row_target_ok q" and "row_target_ok w" and "row_ascii q" and "row_ascii w"
    and "[cw_component q, cw_component w] = component_order"
  shows "\<exists>a' t. finalize_failed_run A now r a q w outcome None only = Inr (a', t)"
proof -
  let ?phase = "if only then Admission_Only else Final"
  obtain h where h: "run_cost_identity A r [q, w] (Some outcome) ?phase Failed ''terminal'' = Inr h"
    using run_cost_identity_returns [OF assms(2,4-8), of "''terminal''" r "Some outcome" ?phase Failed] by auto
  have "is_lower_hex_64 h"
    using h assms(3) keyed_fingerprint_hex
    by (auto simp: run_cost_identity_def runtime_cost_identity_def rag_identity_hmac_def sound_authority_def
        split: if_splits)
  then have "ascii h" by (rule hex_ascii)
  moreover have "ascii (removeprefix ''rag-v2-admission:'' (ar_cache_key a))"
    using assms(1) by (simp add: run_readable_def)
  ultimately obtain x where
    "final_error_parts A a (removeprefix ''rag-v2-admission:'' (ar_cache_key a)) h outcome = Inr x"
    using final_error_parts_returns [OF assms(1,2)] by blast
  then show ?thesis
    using h by (cases x; cases only)
      (simp_all add: finalize_failed_run_def completion_time_def Let_def component_final_of_def)
qed

lemma check_admission_Inr:
  assumes "check_admission A r = Inr (h, rh)"
  obtains window where "admission_source_window (aq_mode r) (aq_surface r) (aq_backend r) = Inr window"
    and "aq_window r = window" and "known_mode (aq_mode r)" and "known_surface (aq_surface r)"
    and "known_backend (aq_backend r)" and "0 < aq_run_id r"
    and "is_lower_hex_64 (aq_current_text_hmac r)" and "is_lower_hex_64 (aq_query_hmac r)"
    and "is_lower_hex_64 (aq_scope r)" and "request_identity A r = Inr h"
    and "check_component (la_policy A) r Query_Embedding (aq_query r) = Inr ()"
    and "check_component (la_policy A) r Answer_Generation (aq_answer r) = Inr ()"
    and "check_ceiling (la_policy A) (snd (aq_query r)) (snd (aq_answer r)) = Inr ()"
    and "\<exists>v. runtime_cost_identity (la_primitives A) (la_secret A) v = Inr rh"
  using assms by (auto simp: check_admission_def admission_arguments_ok_def split: if_splits)

lemma admitted_row_ascii:
  assumes "is_lower_hex_64 (ps_model_config_snapshot_hmac (fst x))" and "is_lower_hex_64 (ps_policy_snapshot_hmac (fst x))"
  shows "row_ascii (admitted_row x)" and "row_ascii (make_terminal_zero (admitted_row x))"
  using assms by (cases x; simp add: row_ascii_def admitted_row_def make_terminal_zero_def ascii_opt_def hex_ascii)+

lemma known_ascii: "known_surface s \<or> known_backend s \<or> known_mode s \<Longrightarrow> ascii s"
  by (auto simp: known_defs)

lemma admitted_run_readable:
  assumes "check_admission A r = Inr (h, rh)" and "sound_authority A"
  shows "run_readable (admitted_run r h rh)"
proof (rule check_admission_Inr [OF assms(1)])
  fix window
  assume w: "admission_source_window (aq_mode r) (aq_surface r) (aq_backend r) = Inr window"
    "aq_window r = window" "known_mode (aq_mode r)" "known_surface (aq_surface r)" "known_backend (aq_backend r)"
    and hex: "is_lower_hex_64 (aq_current_text_hmac r)" "is_lower_hex_64 (aq_query_hmac r)"
      "is_lower_hex_64 (aq_scope r)"
    and id: "request_identity A r = Inr h"
    and rid: "\<exists>v. runtime_cost_identity (la_primitives A) (la_secret A) v = Inr rh"
  have "is_lower_hex_64 rh"
    using rid assms(2) keyed_fingerprint_hex
    by (auto simp: runtime_cost_identity_def rag_identity_hmac_def sound_authority_def split: if_splits)
  moreover have "is_lower_hex_64 h"
    using id assms(2) shaped_identity_hex
    by (auto simp: request_identity_def admission_identity_def sound_authority_def)
  moreover have "split_on CHR '':'' window = [''rag-v2'', ''admission'', aq_mode r, aq_surface r, aq_backend r]"
    using admission_window_split [OF w(1,3-5)] .
  moreover have "removeprefix ''rag-v2-admission:'' (ar_cache_key (admitted_run r h rh)) = h"
    unfolding admitted_run_def agent_run.simps by (rule removeprefix_append)
  ultimately show ?thesis
    using w(2,4,5) hex known_ascii
    by (simp add: run_readable_def del: removeprefix_append)
      (simp add: admitted_run_def admitted_metadata_def hex_ascii)
qed

lemma zero_target [simp]: "row_target_ok (make_terminal_zero w) = row_target_ok w"
  by (simp add: row_target_ok_def make_terminal_zero_def cong: component.case_cong)

lemma transact_returns:
  assumes "guard = Inr g" and "pending g = Inr (d, v)" and "co = Acknowledged"
  shows "transact co guard before pending after L = (Inr v, after g v ((before g L)\<lparr>lg_db := d\<rparr>))"
  using assms by (simp add: transact_def commit_db_def)

lemma failed_run_receipt:
  assumes "finalize_failed_run A now r a q w outcome completed only = Inr (a', t)"
  shows "ar_status a' = Failed" and "ar_phase a' = (if only then Admission_Only else Final)"
    and "te_charged t = total_charged [q, w]" and "te_outcome t = outcome" and "te_status t = Failed"
  using assms by (auto simp: finalize_failed_run_def Let_def)

text \<open>
  C23. An admission is never stuck: for every component and every reason of a refusal,
  \<open>finalize_pre_send_refusal\<close> called on the ledger the admission left closes the admitted run when its
  commit is acknowledged, so before the answer is bound and before anything is claimed. It returns the
  receipt of a failed run that was charged nothing, the stored run has left the phase \<open>admission\<close>, and both
  its rows are closed without a charge. The two policy snapshots of the request must carry digests, as the
  registered snapshots do, and the signing key must be usable.
\<close>

theorem admitted_run_can_be_closed:
  assumes "create_admission A io r L = (Inr ad, L')"
    and sound: "sound_authority A" and sign: "signer (la_primitives A) (la_secret A)"
    and hex: "is_lower_hex_64 (ps_model_config_snapshot_hmac (fst (aq_query r)))"
      "is_lower_hex_64 (ps_policy_snapshot_hmac (fst (aq_query r)))"
      "is_lower_hex_64 (ps_model_config_snapshot_hmac (fst (aq_answer r)))"
      "is_lower_hex_64 (ps_policy_snapshot_hmac (fst (aq_answer r)))"
    and cname: "cname \<in> {''query_embedding'', ''answer_generation''}"
    and oc: "outcome \<in> {Provider_Safety_Unavailable, Retriever_Unavailable, Model_Provider_Failed,
      Serving_Index_Not_Ready}"
    and ack: "li_commit io' = Acknowledged"
  shows "\<exists>t L'' a q w. finalize_pre_send_refusal A io' (aq_run_id r) cname outcome None L' = (Inr t, L'')
    \<and> te_status t = Failed \<and> te_charged t = 0 \<and> te_outcome t = outcome
    \<and> locked_run (lg_db L'') (aq_run_id r) = Inr (a, q, w) \<and> ar_phase a = Final
    \<and> is_closed q \<and> is_closed w \<and> cw_charged q = 0 \<and> cw_charged w = 0"
proof (rule create_admission_Inr [OF assms(1)])
  fix h rh
  let ?a = "admitted_run r h rh" and ?q = "admitted_row (aq_query r)" and ?w = "admitted_row (aq_answer r)"
  let ?q' = "make_terminal_zero ?q" and ?w' = "make_terminal_zero ?w" and ?r = "aq_run_id r"
  assume chk: "check_admission A r = Inr (h, rh)" and ins: "insertable (lg_db L) ?r ?a [?q, ?w]"
    and lock: "locked_run (lg_db L') ?r = Inr (?a, ?q, ?w)"
  have ok: "row_target_ok ?q" "row_target_ok ?w" and order: "[cw_component ?q', cw_component ?w'] = component_order"
    using ins lock by (auto simp: insertable_def run_ok_def row_ok_def locked_run_Inr)
  have guard: "check_pre_send ?r L' = Inr (?a, ?q', ?w')"
    using lock
    by (simp add: check_pre_send_def both_not_attempted_def)
      (simp add: admitted_run_def admitted_row_def split: prod.splits)
  obtain a' t where f: "finalize_failed_run A (li_now io') ?r ?a ?q' ?w' outcome None False = Inr (a', t)"
    using finalize_failed_run_returns [OF admitted_run_readable [OF chk sound] sign sound
        _ _ admitted_row_ascii(2) [OF hex(1,2)] admitted_row_ascii(2) [OF hex(3,4)] order]
      zero_target ok by blast
  note run = failed_run_receipt [OF f]
  let ?d = "store_run (lg_db L') ?r a' ?q' ?w'"
  have "store_failed A (li_now io') ?r outcome None False (lg_db L') (?a, ?q', ?w') = Inr (?d, t)"
    using f by (simp add: store_failed_def)
  note transact_returns [where before = "\<lambda>_. id" and after = "\<lambda>_ _. id" and L = L'
      and pending = "store_failed A (li_now io') ?r outcome None False (lg_db L')", OF guard this ack]
  then have "finalize_pre_send_refusal A io' ?r cname outcome None L' = (Inr t, L'\<lparr>lg_db := ?d\<rparr>)"
    using oc cname by (auto simp: finalize_pre_send_refusal_def component_order_def)
  moreover have "locked_run ?d ?r = Inr (a', ?q', ?w')"
    using order by (simp add: locked_run_Inr store_run_def)
  moreover have "is_closed (make_terminal_zero v) \<and> cw_charged (make_terminal_zero v) = 0" for v
    by (simp add: is_closed_def make_terminal_zero_def)
  ultimately show ?thesis using run by (simp add: total_charged_def)
qed

text \<open>What is signed for a component before its row exists is what its row is read back as.\<close>

lemma format6_zero: "format6 0 = ''0.000000''"
  by code_simp

lemma admission_component_json_row: "admission_component_json x = row_component_json (admitted_row x)"
  by (cases x) (simp add: admission_component_json_def row_component_json_def admitted_row_def format6_zero)

text \<open>
  C25. The signature of an admission is the signature of what was stored: the identity that
  \<open>create_admission\<close> computes from the request, before any row exists, is the identity that
  \<open>_runtime_cost_identity\<close> recomputes from the two stored rows, and it is the one the run's metadata holds.
\<close>

theorem admission_identity_is_row_identity:
  assumes "create_admission A io r L = (Inr ad, L')"
  shows "\<exists>a q w. locked_run (lg_db L') (aq_run_id r) = Inr (a, q, w)
    \<and> run_cost_identity A (aq_run_id r) [q, w] None Admission Running ''pre_projection'' = Inr (ad_runtime_hmac ad)
    \<and> ar_metadata a ''runtime_cost_snapshot_hmac'' = Some (JStr (ad_runtime_hmac ad))
    \<and> ar_estimated a = total_reserved [q, w] \<and> ad_reserved ad = ar_estimated a"
proof (rule create_admission_Inr [OF assms])
  fix h rh
  let ?q = "admitted_row (aq_query r)" and ?w = "admitted_row (aq_answer r)"
  assume chk: "check_admission A r = Inr (h, rh)"
    and lock: "locked_run (lg_db L') (aq_run_id r) = Inr (admitted_run r h rh, ?q, ?w)"
    and ad: "ad = \<lparr>ad_request = r, ad_query_hmac = used_query_hmac r, ad_answer_hmac = used_answer_hmac r,
               ad_identity_hmac = h, ad_reserved = ar_estimated (admitted_run r h rh), ad_runtime_hmac = rh\<rparr>"
  have sums: "total_charged [?q, ?w] = 0"
    "total_reserved [?q, ?w] = ab_reserved (snd (aq_query r)) + ab_reserved (snd (aq_answer r))"
    by (simp_all add: total_charged_def total_reserved_def admitted_row_def split: prod.splits)
  have "run_cost_identity A (aq_run_id r) [?q, ?w] None Admission Running ''pre_projection'' = Inr rh"
    using chk sums
    by (auto simp: check_admission_def run_cost_identity_def admission_component_json_row split: if_splits)
  then show ?thesis
    using lock ad sums(2) by (simp add: admitted_run_def admitted_metadata_def)
qed

text \<open>
  C24. The paid calls of a run are ordered: in every state the tables can reach, with the \<open>pgvector\<close> backend
  the answer can be claimed only when the query embedding was dispatched once, under a fence of its own,
  and was accepted: its row is terminal with the outcome \<open>succeeded\<close> and can no longer be claimed itself.
\<close>

theorem answer_claimed_after_embedding:
  assumes "reach no_runs stored_step (lg_db L)"
    and "claim_component A io r Answer_Generation b L = (Inr g, L')" and "sound_authority A"
    and "locked_run (lg_db L) r = Inr (a, q, w)"
    and "md_get (ar_metadata a) ''configured_backend'' = JStr ''pgvector''"
  shows "cw_state q = Terminal \<and> cw_outcome q = Some Component_Succeeded \<and> cw_attempted q \<and> cw_count q = 1
    \<and> cw_fence q \<noteq> None \<and> (\<forall>b' A' io'. sound_authority A' \<longrightarrow>
          (\<nexists>g'. fst (claim_component A' io' r Query_Embedding b' L) = Inr g'))"
proof -
  obtain s where s: "check_claim A io r Answer_Generation b L = Inr s"
    using assms(2) by (auto simp: claim_component_def transact_def split: sum.splits)
  obtain a' q' w' bd f where sw: "s = (a', q', w', bd, f)" by (cases s)
  have q: "cw_state q = Terminal" "cw_outcome q = Some Component_Succeeded"
    using check_claim_Inr [OF s [unfolded sw] assms(3)] assms(4,5) by (auto simp: embedding_succeeded_def)
  have "row_shape q"
    using row_ok_parts(2) run_wf_rows(1) db_wf_locked [OF tables.inv_reach [OF assms(1)] assms(4)] by blast
  moreover have "fst (claim_component A' io' r Query_Embedding b' L) \<noteq> Inr g'" if "sound_authority A'" for A' io' b' g'
  proof
    assume "fst (claim_component A' io' r Query_Embedding b' L) = Inr g'"
    then obtain M where "claim_component A' io' r Query_Embedding b' L = (Inr g', M)"
      by (metis prod.collapse)
    then show False by (rule claim_component_Inr [OF _ that]) (use assms(4) q in auto)
  qed
  ultimately show ?thesis using q by (auto simp: row_shape_def)
qed

end
