(* ===== verification/Ledger_Budget.thy ===== *)
theory Ledger_Budget
  imports Ledger_Lifecycle
begin

text \<open>
  What a process may spend and send: the invariant that ties the budgets a process remembers to the rows
  it reserved them in, the bound it gives on every charge, and the order in which grants are used up.
  These hold for one process at a time, with any number of restarts.
\<close>

section \<open>Budgets\<close>

definition fresh_ledger :: "ledger \<Rightarrow> bool" where
  "fresh_ledger L \<longleftrightarrow> no_runs (lg_db L) \<and> restarted L = L \<and> lg_grants L = Map.empty"

definition row_spends :: "cost_row \<Rightarrow> bool" where
  "row_spends w \<longleftrightarrow> (cw_state w = Dispatching \<longrightarrow> cw_reserved w \<le> reservation_cap (cw_component w))
     \<and> (cw_overrun w \<or> (cw_charged w \<le> cw_reserved w \<and> cw_charged w \<le> reservation_cap (cw_component w)))"

definition db_spends :: "rag_db \<Rightarrow> bool" where
  "db_spends d \<longleftrightarrow> (\<forall>r a q w. locked_run d r = Inr (a, q, w) \<longrightarrow> row_spends q \<and> row_spends w)"

text \<open>A remembered budget is what the open row reserves.\<close>

definition budgets_agree :: "ledger \<Rightarrow> bool" where
  "budgets_agree L \<longleftrightarrow>
     (\<forall>r c b a q w. lg_budgets L (r, c) = Some b \<longrightarrow> locked_run (lg_db L) r = Inr (a, q, w)
        \<longrightarrow> \<not> is_closed (pick c q w) \<longrightarrow> cw_reserved (pick c q w) = pb_reserved_cost b)"

definition memory_known :: "ledger \<Rightarrow> bool" where
  "memory_known L \<longleftrightarrow>
     (\<forall>r c. lg_budgets L (r, c) \<noteq> None \<longrightarrow> ld_runs (lg_db L) r \<noteq> None)
     \<and> (\<forall>r. lg_reservations L r \<noteq> None
          \<longrightarrow> ld_runs (lg_db L) r \<noteq> None \<and> lg_budgets L (r, Answer_Generation) = None)"

definition spending_inv :: "ledger \<Rightarrow> bool" where
  "spending_inv L \<longleftrightarrow> db_wf (lg_db L) \<and> memory_ok L \<and> db_spends (lg_db L) \<and> budgets_agree L \<and> memory_known L"

subsection \<open>Rows\<close>

text \<open>A row operation that keeps the bound, and the reservation of a row it leaves open.\<close>

definition spends_on :: "(cost_row \<Rightarrow> cost_row \<Rightarrow> bool) \<Rightarrow> bool" where
  "spends_on R \<longleftrightarrow>
     (\<forall>w w'. R w w' \<longrightarrow> row_ok w \<longrightarrow> row_spends w \<longrightarrow>
        row_spends w' \<and> (is_closed w' \<or> cw_reserved w' = cw_reserved w))"

lemma spends_onD: "spends_on R \<Longrightarrow> R w w' \<Longrightarrow> row_ok w \<Longrightarrow> row_spends w \<Longrightarrow> row_spends w'"
  by (simp add: spends_on_def)

lemma cap_nonneg [simp]: "0 \<le> reservation_cap c"
  by (cases c) simp_all

lemma zero_spends [simp]: "row_spends (make_terminal_zero w)"
  by (simp add: row_spends_def)

lemma abandon_spends: "row_spends w \<Longrightarrow> row_spends (abandon_row w)"
  by (cases "cw_state w") (simp_all add: abandon_row_def, simp_all add: row_spends_def)

lemma closes_spends: "spends_on row_closes"
  using abandon_spends by (auto simp: spends_on_def row_closes_def)

lemma claims_spends: "spends_on row_claims"
  by (auto simp: spends_on_def row_claims_def row_spends_def)

lemma settled_charge:
  "cw_charged (settled_row ob v w) = (case (ob_actual_cost ob, ob_strict_usage ob) of
     (Some m, Some u) \<Rightarrow> m | _ \<Rightarrow> cw_reserved w)"
  "cw_overrun (settled_row ob v w) = (v \<and> ob_actual_cost ob \<noteq> None \<and> ob_strict_usage ob \<noteq> None)"
  by (auto simp: settled_row_def Let_def split: option.splits)

lemma settles_spends:
  assumes "v \<or> (\<forall>m. ob_actual_cost ob = Some m \<longrightarrow> m \<le> reserved)"
  shows "spends_on (row_settles ob v c reserved)"
  using assms
  by (auto simp: spends_on_def row_settles_def row_spends_def settled_charge is_closed_def
      split: option.splits)

subsection \<open>Tables\<close>

lemma ledger_change_spends:
  assumes "ledger_change R d d'" and "\<And>w w'. R w w' \<Longrightarrow> row_ok w \<Longrightarrow> row_spends w \<Longrightarrow> row_spends w'"
    and "db_wf d" and "db_spends d"
  shows "db_spends d'"
  using assms
proof (induction rule: ledger_change.induct)
  case (unchanged d' d)
  then have "locked_run d' = locked_run d" by (auto simp: locked_run_def fun_eq_iff)
  then show ?case using unchanged by (simp add: db_spends_def)
next
  case (admitted d r a q w d')
  have new: "locked_run d' r = Inr (a, q, w)"
    using admitted(3,5,6) run_wf_components by (simp add: locked_run_Inr)
  have other: "locked_run d' s = locked_run d s" if "s \<noteq> r" for s
    using that admitted(5,6) by (simp add: locked_run_def)
  note o = run_wf_rows [OF admitted(3)]
  have "row_spends q" and "row_spends w"
    using admitted(4) row_ok_parts(1,2) [OF o(1)] row_ok_parts(1,2) [OF o(2)]
    by (auto simp: row_spends_def row_shape_def row_nonnegative_def)
  then show ?case unfolding db_spends_def
    using new other admitted(9) unfolding db_spends_def by (metis Pair_inject sum.inject(2))
next
  case (moved d r s a' q' w' d')
  obtain a q w where s: "s = (a, q, w)" by (cases s)
  have other: "locked_run d' t = locked_run d t" if "t \<noteq> r" for t
    using that moved(3,4) by (simp add: locked_run_def)
  have new: "locked_run d' r = Inr (a', q', w')"
    using moves_locked moved s by blast
  note o = run_wf_rows [OF db_wf_locked [OF moved(6) moved(1) [unfolded s]]]
  have "row_spends q" and "row_spends w" using moved(1,7) s by (auto simp: db_spends_def)
  then have "row_spends q'" and "row_spends w'"
    using moved(2) moved(5) [of q q'] moved(5) [of w w'] s o(1,2) by (auto simp: moves_def)
  then show ?case unfolding db_spends_def
    using new other moved(7) unfolding db_spends_def by (metis Pair_inject sum.inject(2))
qed

text \<open>What one change does to a run that is already stored.\<close>

lemma ledger_change_rows:
  assumes "ledger_change R d d'" and "locked_run d r = Inr (a, q, w)"
  obtains a' q' w' where "locked_run d' r = Inr (a', q', w')" and "q' = q \<or> R q q'" and "w' = w \<or> R w w'"
  using assms
proof (induction rule: ledger_change.induct)
  case (unchanged d' d)
  then have "locked_run d' r = locked_run d r" by (simp add: locked_run_def)
  then show ?case using unchanged(3,4) by auto
next
  case (admitted d s b p v d')
  then have "r \<noteq> s" by (auto simp: locked_run_Inr)
  then have "locked_run d' r = locked_run d r" using admitted(5,6) by (simp add: locked_run_def)
  then show ?case using admitted(7,8) by auto
next
  case (moved d t s b p v d')
  show ?case
  proof (cases "r = t")
    case True
    then have "s = (a, q, w)" using moved(1,6) by simp
    then show ?thesis
      using moved(5) [of b p v] moves_locked [OF moved(6) _ moved(3,4) [folded True]] moved(2) True
      by (auto simp: moves_def)
  next
    case False
    then have "locked_run d' r = locked_run d r" using moved(3,4) by (simp add: locked_run_def)
    then show ?thesis using moved(5,6) by auto
  qed
qed

lemma map_leD: "m \<subseteq>\<^sub>m n \<Longrightarrow> m k = Some v \<Longrightarrow> n k = Some v"
  by (force simp: map_le_def)

lemma budgets_agree_keeps:
  assumes "ledger_change R (lg_db L) (lg_db L')" and "spends_on R" and "spending_inv L"
    and "lg_budgets L' \<subseteq>\<^sub>m lg_budgets L"
  shows "budgets_agree L'"
  unfolding budgets_agree_def
proof (intro allI impI)
  fix r c b a' q' w'
  assume "lg_budgets L' (r, c) = Some b" and new: "locked_run (lg_db L') r = Inr (a', q', w')"
    and op: "\<not> is_closed (pick c q' w')"
  then have b: "lg_budgets L (r, c) = Some b" using map_leD [OF assms(4)] by blast
  note inv = assms(3) [unfolded spending_inv_def]
  obtain a where "ld_runs (lg_db L) r = Some a" using inv b by (fastforce simp: memory_known_def)
  then obtain q w where lock: "locked_run (lg_db L) r = Inr (a, q, w)" and wf: "run_wf a q w"
    using inv db_wf_locked_iff by blast
  have rel: "q' = q \<or> R q q'" "w' = w \<or> R w w'"
    by (rule ledger_change_rows [OF assms(1) lock], use new in simp)+
  have "row_spends q" and "row_spends w" using inv lock by (auto simp: db_spends_def)
  then have keep: "pick c q' w' = pick c q w \<or> is_closed (pick c q' w') \<or> cw_reserved (pick c q' w') = cw_reserved (pick c q w)"
    using rel assms(2) run_wf_rows(1,2) [OF wf] by (cases c) (auto simp: spends_on_def)
  have "row_evolves q q'" and "row_evolves w w'"
    by (rule db_evolvesE [OF ledger_change_evolves [OF assms(1)] lock], use new in simp)+
  then have ev: "row_evolves (pick c q w) (pick c q' w')" by (cases c) simp_all
  have "\<not> is_closed (pick c q w)" using ev op by (auto simp: row_evolves_def)
  then show "cw_reserved (pick c q' w') = pb_reserved_cost b"
    using keep op inv b lock by (auto simp: budgets_agree_def)
qed

lemma runs_kept: "ledger_change R d d' \<Longrightarrow> ld_runs d r \<noteq> None \<Longrightarrow> ld_runs d' r \<noteq> None"
  by (induction rule: ledger_change.induct) auto

lemma memory_known_keeps:
  assumes "ledger_change R (lg_db L) (lg_db L')" and "memory_known L"
    and "lg_budgets L' \<subseteq>\<^sub>m lg_budgets L" and "lg_reservations L' \<subseteq>\<^sub>m lg_reservations L"
  shows "memory_known L'"
proof -
  have sub: "lg_budgets L k \<noteq> None" if "lg_budgets L' k \<noteq> None" for k
    using map_leD [OF assms(3)] that by blast
  have sub': "lg_reservations L r \<noteq> None" if "lg_reservations L' r \<noteq> None" for r
    using map_leD [OF assms(4)] that by blast
  note known = assms(2) [unfolded memory_known_def] and kept = runs_kept [OF assms(1)]
  show ?thesis
    unfolding memory_known_def
  proof (intro conjI allI impI)
    show "ld_runs (lg_db L') r \<noteq> None" if "lg_budgets L' (r, c) \<noteq> None" for r c
      using sub [OF that] known kept by blast
    fix r assume "lg_reservations L' r \<noteq> None"
    then have r: "ld_runs (lg_db L) r \<noteq> None" "lg_budgets L (r, Answer_Generation) = None"
      using sub' known by blast+
    show "ld_runs (lg_db L') r \<noteq> None" by (rule kept [OF r(1)])
    show "lg_budgets L' (r, Answer_Generation) = None"
      using sub [of "(r, Answer_Generation)"] r(2) by blast
  qed
qed

lemma spending_keeps:
  assumes "ledger_change R (lg_db L) (lg_db L')" and "spends_on R" and "spending_inv L" and "memory_ok L'"
    and "lg_budgets L' \<subseteq>\<^sub>m lg_budgets L" and "lg_reservations L' \<subseteq>\<^sub>m lg_reservations L"
  shows "spending_inv L'"
  using assms ledger_change_wf [OF assms(1)]
    ledger_change_spends [OF assms(1) spends_onD [OF assms(2)]]
    budgets_agree_keeps [OF assms(1-3,5)] memory_known_keeps [OF assms(1) _ assms(5,6)]
  by (simp add: spending_inv_def)

subsection \<open>Steps\<close>

lemma create_admission_Inl:
  assumes "create_admission A io r L = (Inl e, L')"
  shows "L' = L\<lparr>lg_db := lg_db L'\<rparr>"
  using assms
  by (auto simp: create_admission_def transact_def commit_db_def Let_def
      split: sum.splits prod.splits commit_outcome.splits if_splits)

lemma record_fields [simp]:
  "lg_budgets (record_snapshot r s L) = lg_budgets L" "lg_reservations (record_snapshot r s L) = lg_reservations L"
  "lg_budgets (record_budget r c b L) = (case b of Prepared p \<Rightarrow> (lg_budgets L)((r, c) \<mapsto> p) | _ \<Rightarrow> lg_budgets L)"
  "lg_reservations (record_budget r c b L) = (case b of Ceiling x \<Rightarrow> (lg_reservations L)(r \<mapsto> x) | _ \<Rightarrow> lg_reservations L)"
  by (simp_all add: record_budget_def record_snapshot_def split: admission_budget.splits)

lemma admission_budgets:
  assumes "create_admission A io r L = (Inr ad, L')"
  shows "lg_budgets L' (r', c) = (if r' = aq_run_id r \<and> (\<exists>b. snd (if c = Query_Embedding then aq_query r else aq_answer r) = Prepared b)
      then Some (THE b. snd (if c = Query_Embedding then aq_query r else aq_answer r) = Prepared b)
      else lg_budgets L (r', c))"
    and "lg_reservations L' r' \<noteq> None \<Longrightarrow> lg_reservations L r' \<noteq> None
      \<or> (r' = aq_run_id r \<and> (\<exists>x. snd (aq_answer r) = Ceiling x))"
proof -
  have eq: "L' = (record_budget (aq_run_id r) Answer_Generation (snd (aq_answer r))
      \<circ> record_snapshot (aq_run_id r) (fst (aq_answer r))
      \<circ> record_budget (aq_run_id r) Query_Embedding (snd (aq_query r))
      \<circ> record_snapshot (aq_run_id r) (fst (aq_query r))) (L\<lparr>lg_db := lg_db L'\<rparr>)"
    by (rule create_admission_Inr [OF assms])
  have "check_component (la_policy A) r Query_Embedding (aq_query r) = Inr ()"
    by (rule create_admission_Inr [OF assms]) (auto simp: check_admission_def split: if_splits)
  then have q: "snd (aq_query r) \<noteq> Ceiling x" for x
    by (cases "aq_query r") (auto simp: check_component_def split: if_splits)
  have b: "lg_budgets L' = (case snd (aq_answer r) of
        Prepared p \<Rightarrow> (case snd (aq_query r) of Prepared p' \<Rightarrow> (lg_budgets L)((aq_run_id r, Query_Embedding) \<mapsto> p')
          | _ \<Rightarrow> lg_budgets L)((aq_run_id r, Answer_Generation) \<mapsto> p)
      | _ \<Rightarrow> (case snd (aq_query r) of Prepared p' \<Rightarrow> (lg_budgets L)((aq_run_id r, Query_Embedding) \<mapsto> p')
          | _ \<Rightarrow> lg_budgets L))"
    by (subst eq) (auto split: admission_budget.splits)
  show "lg_budgets L' (r', c) = (if r' = aq_run_id r \<and> (\<exists>b. snd (if c = Query_Embedding then aq_query r else aq_answer r) = Prepared b)
      then Some (THE b. snd (if c = Query_Embedding then aq_query r else aq_answer r) = Prepared b)
      else lg_budgets L (r', c))"
    unfolding b by (cases c) (auto split: admission_budget.splits)
  have "lg_reservations L' = (case snd (aq_answer r) of Ceiling x \<Rightarrow> (lg_reservations L)(aq_run_id r \<mapsto> x)
      | _ \<Rightarrow> lg_reservations L)"
    using q by (subst eq) (auto split: admission_budget.splits)
  then show "lg_reservations L' r' \<noteq> None \<Longrightarrow> lg_reservations L r' \<noteq> None
      \<or> (r' = aq_run_id r \<and> (\<exists>x. snd (aq_answer r) = Ceiling x))"
    by (auto split: admission_budget.splits if_splits)
qed

lemma admission_spending:
  assumes op: "create_admission A io r L = (x, L')" and inv: "spending_inv L" and mem: "memory_ok L'"
  shows "spending_inv L'"
proof (cases x)
  case (Inl e)
  then have L': "L' = L\<lparr>lg_db := lg_db L'\<rparr>" using create_admission_Inl op by blast
  have "lg_budgets L' = lg_budgets L" and "lg_reservations L' = lg_reservations L" by (subst L'; simp)+
  then show ?thesis
    using spending_keeps [OF create_admission_change [OF op] closes_spends inv mem] by simp
next
  case (Inr ad)
  note op' = op [unfolded Inr]
  let ?r = "aq_run_id r"
  obtain h rh where ins: "insertable (lg_db L) ?r (admitted_run r h rh)
      [admitted_row (aq_query r), admitted_row (aq_answer r)]"
    and new: "locked_run (lg_db L') ?r = Inr (admitted_run r h rh, admitted_row (aq_query r), admitted_row (aq_answer r))"
    and runs: "ld_runs (lg_db L') = (ld_runs (lg_db L))(?r \<mapsto> admitted_run r h rh)"
    and rows: "ld_rows (lg_db L') = (ld_rows (lg_db L))(?r := [admitted_row (aq_query r), admitted_row (aq_answer r)])"
    by (rule create_admission_Inr [OF op'])
  note change = create_admission_change [OF op, of row_closes] and b = admission_budgets [OF op']
  note parts = inv [unfolded spending_inv_def]
  have none: "ld_runs (lg_db L) ?r = None" using ins by (simp add: insertable_def)
  then have fresh: "lg_budgets L (?r, c) = None" "lg_reservations L ?r = None" for c
    using parts unfolding memory_known_def by blast+
  have "budgets_agree L'"
    unfolding budgets_agree_def
  proof (intro allI impI)
    fix s c bd a q w
    assume bd: "lg_budgets L' (s, c) = Some bd" and lock: "locked_run (lg_db L') s = Inr (a, q, w)"
      and op: "\<not> is_closed (pick c q w)"
    show "cw_reserved (pick c q w) = pb_reserved_cost bd"
    proof (cases "s = ?r")
      case True
      then have "snd (if c = Query_Embedding then aq_query r else aq_answer r) = Prepared bd"
        using bd b(1) [of s c] fresh by (auto split: if_splits)
      moreover have "q = admitted_row (aq_query r)" and "w = admitted_row (aq_answer r)"
        using new lock True by simp_all
      ultimately show ?thesis by (cases c) (auto simp: admitted_row_def split: prod.splits)
    next
      case False
      then have old: "lg_budgets L (s, c) = Some bd" using bd b(1) by simp
      moreover have "locked_run (lg_db L) s = Inr (a, q, w)"
        using lock False runs rows by (simp add: locked_run_def)
      ultimately show ?thesis using parts op by (auto simp: budgets_agree_def)
    qed
  qed
  moreover have "memory_known L'"
    unfolding memory_known_def
  proof (intro conjI allI impI)
    note known = parts [unfolded memory_known_def]
    show "ld_runs (lg_db L') s \<noteq> None" if "lg_budgets L' (s, c) \<noteq> None" for s c
      using that b(1) [of s c] known runs by (cases "s = ?r") auto
    fix s assume s: "lg_reservations L' s \<noteq> None"
    show "ld_runs (lg_db L') s \<noteq> None"
      using b(2) [OF s] known runs by (cases "s = ?r") auto
    show "lg_budgets L' (s, Answer_Generation) = None"
      using b(2) [OF s] b(1) [of s Answer_Generation] known fresh by (cases "s = ?r") auto
  qed
  ultimately show ?thesis
    using parts mem ledger_change_wf [OF change] ledger_change_spends [OF change spends_onD [OF closes_spends]]
    by (simp add: spending_inv_def)
qed

lemma bind_memory:
  assumes "bind_answer_budget A io r b x L = (y, L')"
  shows "lg_budgets L' = (if returns y then (lg_budgets L)((r, Answer_Generation) \<mapsto> b) else lg_budgets L)"
    and "lg_reservations L' \<subseteq>\<^sub>m lg_reservations L"
    and "lg_db L' \<noteq> lg_db L \<or> returns y \<Longrightarrow> lg_reservations L r \<noteq> None"
    and "lg_db L' \<noteq> lg_db L \<or> returns y \<Longrightarrow> lg_reservations L' r = None"
    and "lg_db L' \<noteq> lg_db L \<or> returns y \<Longrightarrow> \<exists>a q w e m. locked_run (lg_db L) r = Inr (a, q, w)
      \<and> cw_state w = Not_Attempted \<and> validate_prepared_budget (la_policy A) b = Inr ()
      \<and> lg_db L' = store_run (lg_db L) r (a\<lparr>ar_estimated := e, ar_metadata := m\<rparr>) q (bound_row b w)"
proof -
  have *: "lg_budgets L' = (if returns y then (lg_budgets L)((r, Answer_Generation) \<mapsto> b) else lg_budgets L)
    \<and> lg_reservations L' \<subseteq>\<^sub>m lg_reservations L
    \<and> (lg_db L' \<noteq> lg_db L \<or> returns y \<longrightarrow> lg_reservations L r \<noteq> None \<and> lg_reservations L' r = None
      \<and> (\<exists>a q w e m. locked_run (lg_db L) r = Inr (a, q, w)
        \<and> cw_state w = Not_Attempted \<and> validate_prepared_budget (la_policy A) b = Inr ()
        \<and> lg_db L' = store_run (lg_db L) r (a\<lparr>ar_estimated := e, ar_metadata := m\<rparr>) q (bound_row b w)))"
  proof (cases "check_binding A r b x L")
    case (Inl e)
    then show ?thesis using assms by (auto simp: bind_answer_budget_def transact_def returns_iff)
  next
    case (Inr g)
    obtain a q w where g: "g = (a, q, w)" by (cases g)
    obtain c where lock: "locked_run (lg_db L) r = Inr (a, q, w)" and res: "lg_reservations L r = Some c"
      and as: "answer_reserved_as a q w c" and v: "validate_prepared_budget (la_policy A) b = Inr ()"
      using check_binding_Inr [OF Inr [unfolded g]] by blast
    have NA: "cw_state w = Not_Attempted" using as by (simp add: answer_reserved_as_def)
    show ?thesis
    proof (cases "run_cost_identity A r [q, bound_row b w] None Admission Running ''pre_projection''")
      case (Inl e)
      then show ?thesis
        using assms Inr g by (auto simp: bind_answer_budget_def transact_def returns_iff Let_def)
    next
      case (Inr h)
      have self: "\<exists>e m. store_run (lg_db L) r (a\<lparr>ar_estimated := e', ar_metadata := m'\<rparr>) q (bound_row b w)
          = store_run (lg_db L) r (a\<lparr>ar_estimated := e, ar_metadata := m\<rparr>) q (bound_row b w)" for e' m'
        by blast
      show ?thesis
        using assms \<open>check_binding A r b x L = Inr g\<close> g lock NA v res Inr
        by (auto simp: bind_answer_budget_def transact_def returns_iff Let_def commit_db_def self
            split: commit_outcome.splits)
    qed
  qed
  then show "lg_budgets L' = (if returns y then (lg_budgets L)((r, Answer_Generation) \<mapsto> b) else lg_budgets L)"
    and "lg_reservations L' \<subseteq>\<^sub>m lg_reservations L"
    and "lg_db L' \<noteq> lg_db L \<or> returns y \<Longrightarrow> lg_reservations L r \<noteq> None"
    and "lg_db L' \<noteq> lg_db L \<or> returns y \<Longrightarrow> lg_reservations L' r = None"
    and "lg_db L' \<noteq> lg_db L \<or> returns y \<Longrightarrow> \<exists>a q w e m. locked_run (lg_db L) r = Inr (a, q, w)
      \<and> cw_state w = Not_Attempted \<and> validate_prepared_budget (la_policy A) b = Inr ()
      \<and> lg_db L' = store_run (lg_db L) r (a\<lparr>ar_estimated := e, ar_metadata := m\<rparr>) q (bound_row b w)"
    by blast+
qed

lemma binding_spending:
  assumes op: "bind_answer_budget A io r b x L = (y, L')" and inv: "spending_inv L" and mem: "memory_ok L'"
    and sound: "sound_authority A"
  shows "spending_inv L'"
proof (cases "lg_db L' \<noteq> lg_db L \<or> returns y")
  case False
  then have "lg_db L' = lg_db L" and "\<not> returns y" by auto
  then show ?thesis
    using spending_keeps [OF _ closes_spends inv mem] bind_memory(1,2) [OF op] by simp
next
  case True
  note m = bind_memory [OF op] and parts = inv [unfolded spending_inv_def]
  obtain a q w e md where lock: "locked_run (lg_db L) r = Inr (a, q, w)" and NA: "cw_state w = Not_Attempted"
    and v: "validate_prepared_budget (la_policy A) b = Inr ()"
    and db: "lg_db L' = store_run (lg_db L) r (a\<lparr>ar_estimated := e, ar_metadata := md\<rparr>) q (bound_row b w)"
    using m(5) [OF True] by blast
  have valid: "budget_valid (la_policy A) b" using v sound by (simp add: sound_authority_def budget_valid_def)
  have change: "ledger_change (row_binds b) (lg_db L) (lg_db L')"
    using bind_answer_budget_change [OF op _ sound] parts by blast
  have new: "locked_run (lg_db L') r = Inr (a\<lparr>ar_estimated := e, ar_metadata := md\<rparr>, q, bound_row b w)"
    using db lock by (simp add: locked_run_Inr)
  have none: "lg_budgets L (r, Answer_Generation) = None" and known: "ld_runs (lg_db L) r \<noteq> None"
    using m(3) [OF True] parts unfolding memory_known_def by blast+
  have "db_spends (lg_db L')"
  proof (rule ledger_change_spends [OF change])
    fix v v' assume "row_binds b v v'" and "row_ok v" and "row_spends v"
    then show "row_spends v'"
      using price.reserved_bounds [OF valid] row_ok_parts(2) [of v] budget_cap [OF valid]
      by (auto simp: row_binds_def row_spends_def row_shape_def)
  qed (use parts in blast)+
  moreover have "budgets_agree L'"
    unfolding budgets_agree_def
  proof (intro allI impI)
    fix s c bd a' q' w'
    assume bd: "lg_budgets L' (s, c) = Some bd" and lock': "locked_run (lg_db L') s = Inr (a', q', w')"
      and op: "\<not> is_closed (pick c q' w')"
    show "cw_reserved (pick c q' w') = pb_reserved_cost bd"
    proof (cases "s = r \<and> c = Answer_Generation")
      case True
      then have "bd = b" using bd m(1) none by (auto split: if_splits)
      moreover have "w' = bound_row b w" using True lock' new by simp
      ultimately show ?thesis using True by simp
    next
      case False
      then have old: "lg_budgets L (s, c) = Some bd" using bd m(1) by (auto split: if_splits)
      have "\<exists>a0 q0 w0. locked_run (lg_db L) s = Inr (a0, q0, w0) \<and> pick c q0 w0 = pick c q' w'"
      proof (cases "s = r")
        case True
        then have "c = Query_Embedding" using False by (cases c) simp_all
        then show ?thesis using True lock lock' new by simp
      next
        case False
        then show ?thesis using lock' db by (simp add: locked_run_def)
      qed
      then show ?thesis using parts old op unfolding budgets_agree_def by metis
    qed
  qed
  moreover have "memory_known L'"
    unfolding memory_known_def
  proof (intro conjI allI impI)
    note kn = parts [unfolded memory_known_def]
    show "ld_runs (lg_db L') s \<noteq> None" if "lg_budgets L' (s, c) \<noteq> None" for s c
    proof (cases "s = r")
      case True
      then show ?thesis using runs_kept [OF change known] by blast
    next
      case False
      then have "lg_budgets L (s, c) \<noteq> None" using that m(1) by (auto split: if_splits)
      then have "ld_runs (lg_db L) s \<noteq> None" using kn by blast
      then show ?thesis by (rule runs_kept [OF change])
    qed
    fix s assume s: "lg_reservations L' s \<noteq> None"
    then have sr: "s \<noteq> r" and old: "lg_reservations L s \<noteq> None"
      using m(4) [OF True] map_leD [OF m(2)] by blast+
    then show "ld_runs (lg_db L') s \<noteq> None" using kn runs_kept [OF change] by blast
    show "lg_budgets L' (s, Answer_Generation) = None" using sr old kn m(1) by simp
  qed
  ultimately show ?thesis
    using parts mem ledger_change_wf [OF change] by (simp add: spending_inv_def)
qed

text \<open>A settlement stays within the reservation unless it is recorded as an overrun.\<close>

lemma settlement_bound:
  assumes sound: "policy_ready (la_policy A)"
    and pre: "preview_finalization A gid ob L = Inr (g, reserved, expected, overrun, snapshot, binding)"
    and m: "ob_actual_cost ob = Some m" and "\<not> overrun"
    and wf: "db_wf (lg_db L)" and agree: "budgets_agree L"
    and re: "reload_finalization g reserved L' = Inr x" and db: "lg_db L' = lg_db L"
  shows "m \<le> reserved"
proof -
  obtain b where b: "lg_budgets L (grant_key g) = Some b"
    and e: "expected_charge (la_policy A) ob = Inr expected"
    and o: "observed_overrun (la_policy A) ob b expected = Inr overrun"
    by (rule preview_finalization_Inr [OF pre])
  note ch = expected_charge_sound(2,3) [OF sound e]
  obtain u where "ob_strict_usage ob = Some u" using ch(2) m by auto
  then have "m \<le> pb_reserved_cost b"
    using o ch(1) m \<open>\<not> overrun\<close> by (auto simp: observed_overrun_def split: if_splits)
  moreover obtain a q w where x: "x = (a, q, w)" by (cases x)
  note r = re [unfolded x reload_finalization_Inr db]
  then have "cw_reserved (pick (gr_component g) q w) = pb_reserved_cost b"
    using agree b by (auto simp: budgets_agree_def is_closed_def)
  ultimately show ?thesis using r by simp
qed

lemma claim_memory:
  assumes "claim_component A io r c b L = (g, L')"
  shows "lg_budgets L' = lg_budgets L" and "lg_reservations L' = lg_reservations L"
  using assms unfolding claim_component_def
  by (auto elim!: transact_keeps [where f = lg_budgets] transact_keeps [where f = lg_reservations])

lemma commit_memory:
  assumes "commit_finalization A io g reserved ob v binding L = (y, L')"
  shows "lg_budgets L' = lg_budgets L" and "lg_reservations L' = lg_reservations L"
  using assms unfolding commit_finalization_def Let_def
  by (auto elim!: transact_keeps [where f = lg_budgets] transact_keeps [where f = lg_reservations]
      simp: keep_terminal_def drop_grant_def Let_def split: prod.splits if_splits)

lemma spending_inv_safety [simp]: "spending_inv (L\<lparr>lg_safety := s\<rparr>) = spending_inv L"
  by (simp add: spending_inv_def budgets_agree_def memory_known_def)

lemma settlement_spending:
  assumes op: "finalize_component A io sio gid ob L = (y, ob', L')" and sound: "sound_authority A"
    and inv: "spending_inv L" and mem: "memory_ok L'"
  shows "spending_inv L'"
  using op
proof (cases rule: finalize_component_cases)
  case (refused e)
  then show ?thesis using inv by (metis spending_inv_safety)
next
  case (settled g reserved expected overrun snapshot binding s' z)
  let ?M = "L\<lparr>lg_safety := s'\<rparr>"
  note same = commit_memory [OF settled(5)] and parts = inv [unfolded spending_inv_def]
  have wf: "db_wf (lg_db ?M)" and "spending_inv ?M" using inv parts by simp_all
  show ?thesis
  proof (cases "reload_finalization g reserved ?M")
    case (Inl e)
    then have "lg_db L' = lg_db ?M"
      using settled(5) by (auto simp: commit_finalization_def transact_def Let_def)
    then show ?thesis
      using spending_keeps [OF _ closes_spends \<open>spending_inv ?M\<close> mem] same by simp
  next
    case (Inr x)
    obtain v: "validate_outcome ob' = Inr ()" and e: "expected_charge (la_policy A) ob' = Inr expected"
      using preview_finalization_Inr [OF settled(1)] by blast
    have pol: "policy_ready (la_policy A)" using sound by (simp add: sound_authority_def)
    have "overrun \<or> (\<forall>m. ob_actual_cost ob' = Some m \<longrightarrow> m \<le> reserved)"
      using settlement_bound [OF pol settled(1) _ _ _ _ Inr] parts by auto
    note s = settles_spends [OF this]
    note c = commit_finalization_change [OF settled(5) wf sound expected_charge_sound(1) [OF pol e]
        validate_outcome_Inr(1) [OF v]]
    show ?thesis using spending_keeps [OF c s \<open>spending_inv ?M\<close> mem] same by simp
  qed
qed

lemma spending_step:
  assumes "spending_inv L" and "ledger_step L L'"
  shows "spending_inv L'"
proof -
  note parts = assms(1) [unfolded spending_inv_def]
  have mem: "memory_ok L'" using ledger_step_memory [OF assms(2)] parts by blast
  have "memory_ok L" and "db_wf (lg_db L)" using parts by simp_all
  from assms(2) this show ?thesis
  proof (cases rule: ledger_step_kinds)
    case closure
    then show ?thesis using spending_keeps [OF _ closes_spends assms(1) mem] by (simp add: quiet_def)
  next
    case (claim A io r c b g)
    then show ?thesis
      using spending_keeps [OF claim_component_change claims_spends assms(1) mem] claim_memory parts by simp
  next
    case (restart)
    then show ?thesis
      using spending_keeps [OF _ closes_spends assms(1) mem] by (simp add: restarted_def map_le_def)
  next
    case (consumption gid g)
    then show ?thesis using spending_keeps [OF _ closes_spends assms(1) mem] by simp
  next
    case (settlement A io sio gid ob y ob')
    then show ?thesis using settlement_spending assms(1) mem by blast
  qed (use mem assms(1) admission_spending binding_spending in blast)+
qed

lemma restarted_fresh:
  assumes "restarted L = L"
  shows "lg_budgets L = Map.empty" "lg_reservations L = Map.empty" "lg_terminal_rows L = Map.empty"
    "lg_active L = Map.empty"
  by (subst assms [symmetric], simp add: restarted_def)+

lemma fresh_spending: "fresh_ledger L \<Longrightarrow> spending_inv L"
  by (auto simp: fresh_ledger_def restarted_fresh spending_inv_def no_runs_def db_wf_def memory_ok_def
      db_spends_def locked_run_def budgets_agree_def memory_known_def)

interpretation spending: invariant_system fresh_ledger ledger_step spending_inv
  by unfold_locales (blast intro: fresh_spending spending_step)+

text \<open>
  C13. A run is never charged more than was reserved for it, except by a usage that is recorded as an
  overrun: in every state the ledger of a process can reach, over any sequence of its operations, restarts
  and changes of the safety authority, a component without an overrun is charged at most its own
  reservation and at most the ceiling of its kind (160 for the query embedding, 9804 for the answer), and
  a run without an overrun is charged 9964 at most, below the 12000 of the request's ceiling.
\<close>

theorem charge_stays_in_budget:
  assumes "reach fresh_ledger ledger_step L" and "locked_run (lg_db L) r = Inr (a, q, w)"
  shows "(\<not> cw_overrun q \<longrightarrow> cw_charged q \<le> cw_reserved q \<and> cw_charged q \<le> 160)
    \<and> (\<not> cw_overrun w \<longrightarrow> cw_charged w \<le> cw_reserved w \<and> cw_charged w \<le> 9804)
    \<and> (\<not> cw_overrun q \<and> \<not> cw_overrun w \<longrightarrow> ar_charged a \<le> 9964)"
proof -
  note inv = spending.inv_reach [OF assms(1), unfolded spending_inv_def]
  then have "row_spends q" and "row_spends w" and "run_wf a q w"
    using assms(2) db_wf_locked unfolding db_spends_def by blast+
  moreover have "cw_component q = Query_Embedding" and "cw_component w = Answer_Generation"
    using assms(2) by (simp_all add: locked_run_Inr component_order_def)
  ultimately show ?thesis
    by (auto simp: row_spends_def run_wf_def)
qed

section \<open>Grants\<close>

text \<open>Grants keep their identity: a new one has a fresh identity, and an old one is at most marked as
  consumed. Only the mark is ever changed.\<close>

definition grants_known :: "ledger \<Rightarrow> bool" where
  "grants_known L \<longleftrightarrow> (\<forall>gid. lg_grants L gid \<noteq> None \<longrightarrow> gid < lg_next L)"

definition grant_inv :: "ledger \<Rightarrow> bool" where
  "grant_inv L \<longleftrightarrow> spending_inv L \<and> grants_known L"

definition grants_progress :: "ledger \<Rightarrow> ledger \<Rightarrow> bool" where
  "grants_progress L L' \<longleftrightarrow> lg_next L \<le> lg_next L'
     \<and> (\<forall>gid g. lg_grants L gid = Some g \<longrightarrow>
          (\<exists>g'. lg_grants L' gid = Some g' \<and> (g' = g \<or> g' = g\<lparr>gr_consumed := True\<rparr>)))"

lemma grants_progressE:
  assumes "grants_progress L L'" and "lg_grants L gid = Some g"
  obtains g' where "lg_grants L' gid = Some g'" and "g' = g \<or> g' = g\<lparr>gr_consumed := True\<rparr>"
  using assms unfolding grants_progress_def by blast

lemma grants_progress_trans:
  assumes "grants_progress L M" and "grants_progress M N"
  shows "grants_progress L N"
  unfolding grants_progress_def
proof (intro conjI allI impI)
  show "lg_next L \<le> lg_next N" using assms by (simp add: grants_progress_def)
  fix gid g assume "lg_grants L gid = Some g"
  with assms(1) obtain h where "lg_grants M gid = Some h" "h = g \<or> h = g\<lparr>gr_consumed := True\<rparr>"
    by (rule grants_progressE)
  moreover from assms(2) this(1) obtain k where "lg_grants N gid = Some k" "k = h \<or> k = h\<lparr>gr_consumed := True\<rparr>"
    by (rule grants_progressE)
  ultimately show "\<exists>g'. lg_grants N gid = Some g' \<and> (g' = g \<or> g' = g\<lparr>gr_consumed := True\<rparr>)" by auto
qed

lemma same_grants: "lg_grants L' = lg_grants L \<Longrightarrow> lg_next L' = lg_next L \<Longrightarrow>
  grants_progress L L' \<and> (grants_known L \<longrightarrow> grants_known L')"
  by (simp add: grants_progress_def grants_known_def)

lemma claim_grants:
  assumes "claim_component A io r c b L = (y, L')"
  shows "lg_grants L' = lg_grants L \<and> lg_next L' = lg_next L
    \<or> (\<exists>g. lg_grants L' = (lg_grants L)(lg_next L \<mapsto> g) \<and> lg_next L' = lg_next L + 1)"
  using assms unfolding claim_component_def
proof (rule transact_induct [where P = "\<lambda>L'. lg_grants L' = lg_grants L \<and> lg_next L' = lg_next L
    \<or> (\<exists>g. lg_grants L' = (lg_grants L)(lg_next L \<mapsto> g) \<and> lg_next L' = lg_next L + 1)"])
qed (auto simp: Let_def split: prod.splits)

lemma other_grants:
  "create_admission A io r L = (x, L') \<Longrightarrow> lg_grants L' = lg_grants L \<and> lg_next L' = lg_next L"
  "bind_answer_budget A io s b p L = (u, L') \<Longrightarrow> lg_grants L' = lg_grants L \<and> lg_next L' = lg_next L"
  "commit_finalization A io g reserved ob v bd L = (z, L') \<Longrightarrow> lg_grants L' = lg_grants L \<and> lg_next L' = lg_next L"
  unfolding create_admission_def bind_answer_budget_def commit_finalization_def Let_def
  by (auto elim!: transact_keeps [where f = lg_grants] transact_keeps [where f = lg_next]
      simp: keep_terminal_def drop_grant_def record_budget_def record_snapshot_def Let_def
      split: prod.splits if_splits admission_budget.splits)

lemma settlement_grants:
  assumes "finalize_component A io sio gid ob L = (y, ob', L')"
  shows "lg_grants L' = lg_grants L \<and> lg_next L' = lg_next L"
  using assms
proof (cases rule: finalize_component_cases)
  case (refused e)
  have "lg_grants (L\<lparr>lg_safety := s\<rparr>) = lg_grants L" "lg_next (L\<lparr>lg_safety := s\<rparr>) = lg_next L" for s by simp_all
  then show ?thesis using refused(3) by metis
next
  case (settled g reserved expected overrun snapshot binding s' z)
  then show ?thesis using other_grants(3) [OF settled(5)] by simp
qed

lemma grants_step:
  assumes "grant_inv L" and "ledger_step L L'"
  shows "grants_progress L L' \<and> grants_known L'"
proof -
  have "memory_ok L" and "db_wf (lg_db L)" and known: "grants_known L"
    using assms(1) by (simp_all add: grant_inv_def spending_inv_def)
  from assms(2) this(1,2) have "(lg_grants L' = lg_grants L \<and> lg_next L' = lg_next L)
    \<or> (\<exists>g. lg_grants L' = (lg_grants L)(lg_next L \<mapsto> g) \<and> lg_next L' = lg_next L + 1)
    \<or> (\<exists>gid g. lg_grants L gid = Some g \<and> lg_grants L' = (lg_grants L)(gid \<mapsto> g\<lparr>gr_consumed := True\<rparr>)
         \<and> lg_next L' = lg_next L)"
  proof (cases rule: ledger_step_kinds)
    case (consumption gid g)
    then show ?thesis by auto
  next
    case (claim A io r c b g)
    then show ?thesis using claim_grants by blast
  next
    case (settlement A io sio gid ob y ob')
    then show ?thesis using settlement_grants by blast
  next
    case (admission A io r x)
    then show ?thesis using other_grants(1) by blast
  next
    case (binding A io r b p u)
    then show ?thesis using other_grants(2) by blast
  qed (simp_all add: quiet_def restarted_def)
  then show ?thesis
    using known same_grants [of L' L] by (fastforce simp: grants_progress_def grants_known_def less_Suc_eq)
qed

interpretation grants: ascending_system fresh_ledger ledger_step grant_inv grants_progress
proof unfold_locales
  show "grant_inv L" if "fresh_ledger L" for L
    using that fresh_spending [OF that] by (simp add: grant_inv_def fresh_ledger_def grants_known_def)
  show "grant_inv L'" if "grant_inv L" and "ledger_step L L'" for L L'
    using that grants_step [OF that] spending_step by (auto simp: grant_inv_def)
  show "grants_progress L L" for L by (simp add: grants_progress_def)
  show "grants_progress L L'" if "grant_inv L" and "ledger_step L L'" for L L'
    using grants_step [OF that] by blast
qed (rule grants_progress_trans)

lemma consume_Inr:
  assumes "consume_committed_grant gid L = (Inr u, L')"
  shows "\<exists>g. lg_grants L' gid = Some g \<and> gr_consumed g"
    and "\<exists>g. lg_grants L gid = Some g \<and> \<not> gr_consumed g"
  using assms by (auto simp: consume_committed_grant_def split: option.splits if_splits)

lemma send_Inr:
  assumes "consume_transport_grant gid order cap L = (Inr u, L')"
  shows "consume_committed_grant gid L = (Inr u, L')"
  using assms by (auto simp: consume_transport_grant_def split: sum.splits option.splits if_splits)

text \<open>
  C20. A dispatch grant lets one request through: once it has been consumed at the transport or at the
  dispatch, no later attempt to consume it succeeds, whatever operations, restarts and changes of the
  safety authority come between.
\<close>

theorem grant_spent_once:
  assumes "reach fresh_ledger ledger_step L" and "consume_committed_grant gid L = (Inr u, L1)"
    and "ledger_step\<^sup>*\<^sup>* L1 L2"
  shows "\<not> returns (fst (consume_committed_grant gid L2))
    \<and> \<not> returns (fst (consume_transport_grant gid order cap L2))"
proof -
  have "grant_inv L1"
    using assms(1,2) grants.inv_reach grants.inv_step step_consume by blast
  then have "grants_progress L1 L2" by (rule grants.steps_below [OF assms(3)])
  moreover obtain g where "lg_grants L1 gid = Some g" "gr_consumed g"
    using consume_Inr(1) [OF assms(2)] by blast
  ultimately obtain g' where "lg_grants L2 gid = Some g'" "gr_consumed g'"
    by (elim grants_progressE) auto
  then have no: "consume_committed_grant gid L2 \<noteq> (Inr v, M)" for v M
    using consume_Inr(2) by fastforce
  moreover have "consume_transport_grant gid order cap L2 \<noteq> (Inr v, M)" for v M
    using no send_Inr by blast
  ultimately show ?thesis
    by (metis returns_iff prod.collapse)
qed

text \<open>
  A claim that fails grants nothing: the process keeps the grants and bindings it had, and unless the
  fate of the commit is unknown neither the tables nor anything else has changed.
\<close>

theorem refused_claim_grants_nothing:
  assumes "claim_component A io r c b L = (Inl e, L')"
  shows "lg_grants L' = lg_grants L \<and> lg_active L' = lg_active L \<and> lg_bindings L' = lg_bindings L
    \<and> (e = unacknowledged \<or> L' = L)"
  using assms
  by (auto simp: claim_component_def transact_def commit_db_def Let_def
      split: sum.splits prod.splits commit_outcome.splits)

end
