(* ===== verification/Ledger_Witnesses.thy ===== *)
theory Ledger_Witnesses
  imports Ledger_Identities Ledger_Budget Safety_Witnesses
begin

text \<open>
  The ledger on a concrete run: an authority with the demonstration signer and the registered prices, over
  the ready safety authority of \<open>Safety_Witnesses\<close>. A run is admitted, its query embedding claimed, sent
  and paid, its answer bound and claimed; another is refused before it sends anything. The properties of
  the ledger are applied to them.
\<close>

section \<open>The authority\<close>

definition demo_authority :: ledger_authority where
  "demo_authority = \<lparr>la_primitives = demo_primitives, la_sha256 = (\<lambda>_. demo_digest), la_secret = ''secret'',
     la_policy = demo_policy, la_safety = demo_service, la_process = demo_digest, la_backend = Process_Mutex\<rparr>"

definition demo_lio :: ledger_io where
  "demo_lio = \<lparr>li_nonce = demo_digest, li_now = ''2026-01-01T00:00:00+00:00'', li_commit = Acknowledged,
     li_released = True\<rparr>"

lemma demo_authority_simps [simp]:
  "la_primitives demo_authority = demo_primitives" "la_secret demo_authority = ''secret''"
  "la_policy demo_authority = demo_policy" "la_safety demo_authority = demo_service"
  "la_process demo_authority = demo_digest" "la_backend demo_authority = Process_Mutex"
  by (simp_all add: demo_authority_def)

lemma demo_lio_simps [simp]:
  "li_nonce demo_lio = demo_digest" "li_commit demo_lio = Acknowledged" "li_released demo_lio"
  by (simp_all add: demo_lio_def)

lemma demo_hex [simp]: "is_lower_hex_64 demo_digest"
  by code_simp

lemma demo_digest_parts [simp]: "length demo_digest = 64" "set demo_digest = {CHR ''a''}"
  by (simp_all add: demo_digest_def)

lemma demo_ascii [simp]: "ascii demo_digest"
  by (rule hex_ascii [OF demo_hex])

lemma demo_sound [simp]: "sound_authority demo_authority"
  by (simp add: sound_authority_def)

lemma demo_signer [simp]: "signer demo_primitives ''secret''"
  by (simp add: signer_def demo_primitives_def)

text \<open>Every identity of the demonstration signer is \<open>demo_digest\<close>.\<close>

lemma demo_identity_value:
  assumes "rag_identity_hmac demo_primitives ''secret'' sv pv v = Inr d"
  shows "d = demo_digest"
  using assms by (auto simp: rag_identity_hmac_def keyed_fingerprint_def demo_primitives_def split: if_splits)

lemma demo_signed:
  assumes "json_ascii v" and "sv \<noteq> []" and "plain (hd sv)" and "plain (last sv)" and "ascii sv"
    and "pv \<noteq> []" and "plain (hd pv)" and "plain (last pv)" and "ascii pv"
  shows "rag_identity_hmac demo_primitives ''secret'' sv pv v = Inr demo_digest"
  using signer_identity [OF demo_signer assms] demo_identity_value by blast

lemma demo_run_identity:
  assumes "row_target_ok q" and "row_target_ok w" and "row_ascii q" and "row_ascii w"
    and "[cw_component q, cw_component w] = component_order" and "ascii stage"
  shows "run_cost_identity demo_authority r [q, w] outcome phase status stage = Inr demo_digest"
proof -
  obtain h where h: "run_cost_identity demo_authority r [q, w] outcome phase status stage = Inr h"
    using run_cost_identity_returns [of demo_authority, OF _ assms] demo_signer by (metis demo_authority_simps(1,2))
  then show ?thesis
    using demo_identity_value
    by (fastforce simp: run_cost_identity_def runtime_cost_identity_def split: if_splits)
qed

section \<open>Admission\<close>

definition demo_ceiling :: answer_ceiling where
  "demo_ceiling = \<lparr>ac_input_tokens = 10000, ac_output_tokens = 512, ac_reserved_cost = 9804,
     ac_policy_hmac = demo_digest\<rparr>"

definition demo_admission :: admission_request where
  "demo_admission = \<lparr>aq_run_id = 1, aq_surface = ''ask'', aq_mode = ''enforce'', aq_stage = ''ask'',
     aq_backend = ''pgvector'', aq_context_version = ''direct-query:v1'', aq_current_text_hmac = demo_digest,
     aq_query_hmac = demo_digest, aq_scope = demo_digest, aq_cache_identity = None,
     aq_window = ''rag-v2:admission:enforce:ask:pgvector'',
     aq_query = (demo_snapshot Query_Embedding, Prepared demo_query_budget),
     aq_answer = (demo_snapshot Answer_Generation, Ceiling demo_ceiling)\<rparr>"

definition demo_ledger :: ledger where
  "demo_ledger = \<lparr>lg_db = \<lparr>ld_runs = Map.empty, ld_rows = (\<lambda>_. []), ld_foreign = {}, ld_audit = []\<rparr>,
     lg_safety = demo_safety Ready, lg_grants = Map.empty, lg_next = 0, lg_active = Map.empty,
     lg_refused = Map.empty, lg_snapshots = Map.empty, lg_budgets = Map.empty, lg_reservations = Map.empty,
     lg_bindings = Map.empty, lg_terminal_bindings = Map.empty, lg_terminal_rows = Map.empty,
     lg_pending = Map.empty\<rparr>"

lemma demo_fresh: "fresh_ledger demo_ledger"
  by (simp add: fresh_ledger_def demo_ledger_def no_runs_def restarted_def)

lemma demo_reserved: "reserve_answer_generation demo_policy = Inr demo_ceiling"
proof -
  have "rounded_cost registered_authority 10000 512 750000 4500000 = 9804" by code_simp
  then show ?thesis
    by (simp add: reserve_answer_generation_def demo_policy_def demo_ceiling_def Let_def
        require_component_ceiling_def)
qed

lemma exact_ascii: "ascii s \<Longrightarrow> CHR 0x00 \<notin> set s \<Longrightarrow> exact_utf8_bytes s = Inr (utf8_json s)"
  by (simp add: exact_utf8_bytes_def validate_scalars_def ascii_valid)

lemma demo_admission_simps [simp]:
  "aq_run_id demo_admission = 1" "aq_surface demo_admission = ''ask''" "aq_mode demo_admission = ''enforce''"
  "aq_stage demo_admission = ''ask''" "aq_backend demo_admission = ''pgvector''"
  "aq_context_version demo_admission = ''direct-query:v1''" "aq_current_text_hmac demo_admission = demo_digest"
  "aq_query_hmac demo_admission = demo_digest" "aq_scope demo_admission = demo_digest"
  "aq_cache_identity demo_admission = None" "aq_window demo_admission = ''rag-v2:admission:enforce:ask:pgvector''"
  "aq_query demo_admission = (demo_snapshot Query_Embedding, Prepared demo_query_budget)"
  "aq_answer demo_admission = (demo_snapshot Answer_Generation, Ceiling demo_ceiling)"
  by (simp_all add: demo_admission_def)

lemma demo_rows:
  "row_target_ok (admitted_row (aq_query demo_admission))" "row_target_ok (admitted_row (aq_answer demo_admission))"
  "row_ascii (admitted_row (aq_query demo_admission))" "row_ascii (admitted_row (aq_answer demo_admission))"
  "[cw_component (admitted_row (aq_query demo_admission)), cw_component (admitted_row (aq_answer demo_admission))]
    = component_order"
  by (simp_all add: admitted_row_def row_target_ok_def row_ascii_def demo_query_budget_def
      demo_ceiling_def component_order_def ascii_opt_def demo_snapshot_def)

lemma demo_request_identity: "request_identity demo_authority demo_admission = Inr demo_digest"
  by (simp add: request_identity_def admission_identity_def shaped_identity_obj
      admission_keys_def used_answer_hmac_def used_query_hmac_def answer_is_paid_def exact_ascii
      demo_signed plain_def)

lemma demo_window:
  "admission_source_window ''enforce'' ''ask'' ''pgvector'' = Inr ''rag-v2:admission:enforce:ask:pgvector''"
  "admission_arguments_ok demo_admission ''rag-v2:admission:enforce:ask:pgvector''"
  by code_simp+

lemma demo_checked: "check_admission demo_authority demo_admission = Inr (demo_digest, demo_digest)"
proof -
  let ?q = "admitted_row (aq_query demo_admission)" and ?w = "admitted_row (aq_answer demo_admission)"
  obtain jq ja where j: "row_component_json ?q = Inr jq" "row_component_json ?w = Inr ja"
    using row_component_json_returns demo_rows(1-4) by metis
  have s: "total_charged [?q, ?w] = 0" "total_reserved [?q, ?w] = ab_reserved (snd (aq_query demo_admission))
      + ab_reserved (snd (aq_answer demo_admission))"
    by (simp_all add: total_charged_def total_reserved_def admitted_row_def split: prod.splits)
  have "run_cost_identity demo_authority 1 [?q, ?w] None Admission Running ''pre_projection'' = Inr demo_digest"
    by (rule demo_run_identity [OF demo_rows]) simp
  then have r: "runtime_cost_identity demo_primitives ''secret''
      (runtime_cost_json 1 [jq, ja] 0 (ab_reserved (snd (aq_query demo_admission))
        + ab_reserved (snd (aq_answer demo_admission))) None Admission Running ''pre_projection'') = Inr demo_digest"
    using j s by (simp add: run_cost_identity_def)
  have c: "check_component demo_policy demo_admission Query_Embedding (aq_query demo_admission) = Inr ()"
    "check_component demo_policy demo_admission Answer_Generation (aq_answer demo_admission) = Inr ()"
    by (simp_all add: check_component_def demo_query_budget_def demo_reserved)
      (simp_all add: demo_ceiling_def)
  have "check_ceiling demo_policy (snd (aq_query demo_admission)) (snd (aq_answer demo_admission)) = Inr ()"
    using demo_budgets_valid(1)
    by (simp add: check_ceiling_def, simp add: demo_ceiling_def demo_query_budget_def)
  then show ?thesis
    using c r j demo_window demo_request_identity
    by (simp add: check_admission_def admission_component_json_row require_lower_hmac_def)
qed

definition demo_run :: agent_run where
  "demo_run = admitted_run demo_admission demo_digest demo_digest"

definition demo_query_row :: cost_row where
  "demo_query_row = admitted_row (demo_snapshot Query_Embedding, Prepared demo_query_budget)"

definition demo_answer_row :: cost_row where
  "demo_answer_row = admitted_row (demo_snapshot Answer_Generation, Ceiling demo_ceiling)"

definition demo_admitted :: ledger where
  "demo_admitted = demo_ledger\<lparr>
     lg_db := store_run (lg_db demo_ledger) 1 demo_run demo_query_row demo_answer_row,
     lg_snapshots := [(1, Query_Embedding) \<mapsto> demo_snapshot Query_Embedding,
                      (1, Answer_Generation) \<mapsto> demo_snapshot Answer_Generation],
     lg_budgets := [(1, Query_Embedding) \<mapsto> demo_query_budget],
     lg_reservations := [1 \<mapsto> demo_ceiling]\<rparr>"

lemma demo_query_row_simps [simp]:
  "cw_component demo_query_row = Query_Embedding" "cw_state demo_query_row = Not_Attempted"
  "cw_reserved demo_query_row = 1" "cw_reserved_in demo_query_row = 5" "cw_reserved_out demo_query_row = 0"
  "cw_policy_hmac demo_query_row = demo_digest" "cw_charged demo_query_row = 0"
  by (simp_all add: demo_query_row_def admitted_row_def demo_query_budget_def)

lemma demo_answer_row_simps [simp]:
  "cw_component demo_answer_row = Answer_Generation" "cw_state demo_answer_row = Not_Attempted"
  "cw_reserved demo_answer_row = 9804" "cw_reserved_in demo_answer_row = 10000"
  "cw_reserved_out demo_answer_row = 512" "cw_policy_hmac demo_answer_row = demo_digest"
  "cw_charged demo_answer_row = 0" "\<not> cw_attempted demo_answer_row" "cw_count demo_answer_row = 0"
  by (simp_all add: demo_answer_row_def admitted_row_def demo_ceiling_def)

lemma demo_run_simps [simp]:
  "ar_status demo_run = Running" "ar_phase demo_run = Admission" "ar_charged demo_run = 0"
  "ar_estimated demo_run = 9805" "ar_owner_fence demo_run = None" "ar_completed demo_run = None"
  "ar_window demo_run = ''rag-v2:admission:enforce:ask:pgvector''"
  "ar_metadata demo_run = admitted_metadata demo_admission demo_digest"
  by (simp_all add: demo_run_def admitted_run_def demo_query_budget_def demo_ceiling_def)

lemma demo_ledger_simps [simp]:
  "lg_snapshots demo_ledger = Map.empty" "lg_budgets demo_ledger = Map.empty"
  "lg_reservations demo_ledger = Map.empty" "lg_grants demo_ledger = Map.empty" "lg_next demo_ledger = 0"
  "lg_active demo_ledger = Map.empty" "lg_bindings demo_ledger = Map.empty"
  "lg_safety demo_ledger = demo_safety Ready" "ld_runs (lg_db demo_ledger) = Map.empty"
  "lg_terminal_rows demo_ledger = Map.empty" "lg_terminal_bindings demo_ledger = Map.empty"
  "lg_pending demo_ledger = Map.empty" "ld_foreign (lg_db demo_ledger) = {}"
  by (simp_all add: demo_ledger_def)

lemmas demo_row_facts = demo_rows [simplified, folded demo_query_row_def demo_answer_row_def]

lemma demo_sql_length [simp]: "sql_length demo_digest = 64"
  by (rule sql_length_hex [OF demo_hex])

lemma demo_insertable:
  "insertable (lg_db demo_ledger) 1 demo_run [demo_query_row, demo_answer_row]"
proof -
  have "row_hmacs_ok demo_query_row \<and> row_nonnegative demo_query_row \<and> row_shape demo_query_row"
    and "row_hmacs_ok demo_answer_row \<and> row_nonnegative demo_answer_row \<and> row_shape demo_answer_row"
    by (simp_all add: demo_query_row_def demo_answer_row_def row_hmacs_ok_def row_nonnegative_def row_shape_def,
        simp_all add: admitted_row_def demo_query_budget_def demo_ceiling_def demo_snapshot_def)
  then show ?thesis
    using demo_row_facts
    by (simp add: insertable_def run_ok_def run_shape_def run_lifecycle_def row_ok_def component_order_def)
qed

definition demo_receipt :: run_admission where
  "demo_receipt = \<lparr>ad_request = demo_admission, ad_query_hmac = Some demo_digest,
     ad_answer_hmac = Some demo_digest, ad_identity_hmac = demo_digest, ad_reserved = 9805,
     ad_runtime_hmac = demo_digest\<rparr>"

lemma demo_admit:
  "create_admission demo_authority demo_lio demo_admission demo_ledger = (Inr demo_receipt, demo_admitted)"
  using demo_insertable demo_checked
  by (simp add: create_admission_def Let_def transact_def commit_db_def store_run_def demo_receipt_def
      record_budget_def record_snapshot_def demo_admitted_def used_query_hmac_def used_answer_hmac_def
      answer_is_paid_def demo_run_def [symmetric] demo_query_row_def [symmetric] demo_answer_row_def [symmetric])

section \<open>The query embedding\<close>

lemma demo_admitted_simps [simp]:
  "lg_snapshots demo_admitted (1, c) = Some (demo_snapshot c)"
  "lg_budgets demo_admitted = [(1, Query_Embedding) \<mapsto> demo_query_budget]"
  "lg_reservations demo_admitted = [1 \<mapsto> demo_ceiling]"
  "lg_safety demo_admitted = demo_safety Ready" "lg_grants demo_admitted = Map.empty" "lg_next demo_admitted = 0"
  "lg_active demo_admitted = Map.empty" "lg_bindings demo_admitted = Map.empty"
  "lg_terminal_rows demo_admitted = Map.empty"
  "locked_run (lg_db demo_admitted) 1 = Inr (demo_run, demo_query_row, demo_answer_row)"
  by (cases c) (simp_all add: demo_admitted_def locked_run_Inr component_order_def store_run_def)

lemma demo_fence:
  assumes "ascii n" and "json_ascii i" and "ascii p" and "ascii s" and "json_ascii q"
  shows "dispatch_fence_identity demo_primitives ''secret'' (claim_fence_json r c n i p s q) = Inr demo_digest"
  using assms
  by (simp add: dispatch_fence_identity_def claim_fence_json_def shaped_identity_obj dispatch_fence_keys_def
      demo_signed plain_def)

lemma demo_metadata_simps [simp]:
  "admitted_metadata demo_admission demo_digest ''runtime_cost_snapshot_hmac'' = Some (JStr demo_digest)"
  "md_get (admitted_metadata demo_admission demo_digest) ''configured_backend'' = JStr ''pgvector''"
  "md_required (admitted_metadata demo_admission demo_digest) ''retrieval_query_hmac'' = Inr (JStr demo_digest)"
  "\<not> component_is_unused (admitted_metadata demo_admission demo_digest) c"
  by (simp_all add: md_get_def md_required_def admitted_metadata_def component_is_unused_def split: component.split)

definition demo_claimed :: ledger where
  "demo_claimed = demo_admitted\<lparr>
     lg_db := store_run (lg_db demo_admitted) 1 (demo_run\<lparr>ar_charged := 1\<rparr>)
       (claimed_row demo_digest demo_digest demo_query_row) demo_answer_row,
     lg_grants := [0 \<mapsto> \<lparr>gr_run_id = 1, gr_component = Query_Embedding, gr_reserved = 1, gr_fence = demo_digest,
       gr_safety_hmac = demo_digest, gr_consumed = False\<rparr>],
     lg_next := 1, lg_active := [(1, Query_Embedding) \<mapsto> 0],
     lg_bindings := [(1, Query_Embedding) \<mapsto> demo_binding]\<rparr>"

lemma demo_claim:
  "claim_component demo_authority demo_lio 1 Query_Embedding demo_query_budget demo_admitted
     = (Inr 0, demo_claimed)"
proof -
  have s: "require_authorized_policy_snapshot demo_policy (component_name Query_Embedding) demo_digest = Inr ()"
    by (simp add: require_authorized_policy_snapshot_def policy_hmac_of_def exact_component_def)
  have "check_claim demo_authority demo_lio 1 Query_Embedding demo_query_budget demo_admitted
      = Inr (demo_run, demo_query_row, demo_answer_row, demo_binding, demo_digest)"
    using demo_budgets_valid(1) s
    by (simp add: check_claim_def Let_def row_claimable_def claim_safety_def demo_ready demo_fence
        demo_query_budget_def demo_binding_def del: component_name.simps)
  then show ?thesis
    by (simp add: claim_component_def transact_def commit_db_def demo_claimed_def claimed_row_def
        total_charged_def demo_binding_def)
qed

text \<open>Sent once, then paid.\<close>

definition demo_grant :: grant where
  "demo_grant = \<lparr>gr_run_id = 1, gr_component = Query_Embedding, gr_reserved = 1, gr_fence = demo_digest,
     gr_safety_hmac = demo_digest, gr_consumed = True\<rparr>"

definition demo_sent :: ledger where
  "demo_sent = demo_claimed\<lparr>lg_grants := [0 \<mapsto> demo_grant]\<rparr>"

lemma demo_consume: "consume_committed_grant 0 demo_claimed = (Inr (), demo_sent)"
  by (simp add: consume_committed_grant_def demo_claimed_def demo_sent_def demo_grant_def)

definition demo_usage :: strict_usage where
  "demo_usage = \<lparr>input_tokens = 5, output_tokens = 0, total_tokens = 5\<rparr>"

definition demo_seen :: observation where
  "demo_seen = \<lparr>ob_component = Query_Embedding, ob_classification = Validated_Success,
     ob_terminal_outcome = Component_Succeeded, ob_dispatch_started = True, ob_response_received = True,
     ob_strict_usage = Some demo_usage, ob_actual_cost = Some 1, ob_safety_action = Unchanged,
     ob_sealed = True, ob_consumed = False\<rparr>"

lemma demo_query_charge: "charge_actual demo_policy (component_name Query_Embedding) demo_usage = Inr 1"
  by (subst charge_actual_Inr) (simp_all add: demo_usage_def is_signed_bigint_def
      signed_bigint_max_def rounded_cost_def ceil_div_def)

definition demo_paid_row :: cost_row where
  "demo_paid_row = settled_row demo_seen False (claimed_row demo_digest demo_digest demo_query_row)"

lemma demo_paid_row_simps [simp]:
  "cw_component demo_paid_row = Query_Embedding" "cw_state demo_paid_row = Terminal"
  "cw_outcome demo_paid_row = Some Component_Succeeded" "cw_charged demo_paid_row = 1"
  "cw_reserved demo_paid_row = 1" "cw_process demo_paid_row = Some demo_digest" "\<not> cw_overrun demo_paid_row"
  by (simp_all add: demo_paid_row_def settled_row_def claimed_row_def demo_seen_def Let_def)

lemma demo_paid_row_facts: "row_target_ok demo_paid_row" "row_ascii demo_paid_row"
  using demo_row_facts(1,3)
  by (simp_all add: demo_paid_row_def settled_row_def claimed_row_def demo_seen_def Let_def row_target_ok_def
      row_ascii_def ascii_opt_def)

definition demo_paid :: ledger where
  "demo_paid = demo_sent\<lparr>
     lg_db := store_run (lg_db demo_sent) 1 (demo_run\<lparr>ar_charged := 1\<rparr>) demo_paid_row demo_answer_row,
     lg_active := Map.empty, lg_bindings := Map.empty,
     lg_terminal_bindings := [(1, Query_Embedding) \<mapsto> demo_binding],
     lg_terminal_rows := [(1, Query_Embedding) \<mapsto> projr (row_component_json demo_paid_row)]\<rparr>"

lemma demo_sent_simps [simp]:
  "lg_grants demo_sent = [0 \<mapsto> demo_grant]" "lg_active demo_sent = [(1, Query_Embedding) \<mapsto> 0]"
  "ld_rows (lg_db demo_sent) 1 = [claimed_row demo_digest demo_digest demo_query_row, demo_answer_row]"
  "lg_budgets demo_sent = [(1, Query_Embedding) \<mapsto> demo_query_budget]"
  "lg_bindings demo_sent = [(1, Query_Embedding) \<mapsto> demo_binding]"
  "lg_snapshots demo_sent (1, c) = Some (demo_snapshot c)" "lg_safety demo_sent = demo_safety Ready"
  "lg_terminal_bindings demo_sent = Map.empty" "lg_terminal_rows demo_sent = Map.empty"
  "locked_run (lg_db demo_sent) 1 = Inr (demo_run\<lparr>ar_charged := 1\<rparr>,
     claimed_row demo_digest demo_digest demo_query_row, demo_answer_row)"
  by (simp_all add: demo_sent_def demo_claimed_def store_run_def locked_run_Inr component_order_def claimed_row_def)
    (simp_all add: demo_admitted_def)

lemma demo_claimed_row_simps [simp]:
  "cw_component (claimed_row f p w) = cw_component w" "cw_state (claimed_row f p w) = Dispatching"
  "cw_fence (claimed_row f p w) = Some f" "cw_reserved (claimed_row f p w) = cw_reserved w"
  by (simp_all add: claimed_row_def)

lemma demo_grant_simps [simp]:
  "gr_run_id demo_grant = 1" "gr_component demo_grant = Query_Embedding" "gr_consumed demo_grant"
  "gr_fence demo_grant = demo_digest"
  by (simp_all add: demo_grant_def)

lemma demo_preview:
  "preview_finalization demo_authority 0 (demo_seen\<lparr>ob_consumed := True\<rparr>) demo_sent
     = Inr (demo_grant, 1, Some 1, False, demo_snapshot Query_Embedding, demo_binding)"
proof -
  have "usage_exceeds_authorized_cap demo_policy (component_name Query_Embedding) demo_usage = Inr False"
    by (simp add: usage_exceeds_authorized_cap_def exact_component_def demo_usage_def
        is_signed_bigint_def signed_bigint_max_def demo_policy_def Let_def)
  then have "observed_overrun demo_policy (demo_seen\<lparr>ob_consumed := True\<rparr>) demo_query_budget (Some 1) = Inr False"
    by (simp add: observed_overrun_def demo_seen_def) (simp add: demo_usage_def demo_query_budget_def)
  moreover have "expected_charge demo_policy (demo_seen\<lparr>ob_consumed := True\<rparr>) = Inr (Some 1)"
    using demo_query_charge by (simp add: expected_charge_def demo_seen_def)
  moreover have "validate_outcome (demo_seen\<lparr>ob_consumed := True\<rparr>) = Inr ()"
    by (simp add: validate_outcome_def demo_seen_def)
  ultimately show ?thesis
    by (simp add: preview_finalization_def Let_def) (simp add: demo_seen_def)
qed

lemma demo_safety_kept:
  "finalize_safety demo_authority demo_io 1 (demo_seen\<lparr>ob_consumed := True\<rparr>) 1 (Some 1)
     (demo_snapshot Query_Embedding) demo_binding (demo_safety Ready) = (Inr (), demo_safety Ready)"
  by (simp add: finalize_safety_def demo_seen_def Let_def revalidate_def demo_ready)

lemma demo_finalize:
  "finalize_component demo_authority demo_lio demo_io 0 demo_seen demo_sent
     = (Inr \<lparr>cf_run_id = 1, cf_row = demo_paid_row, cf_parent_status = Running, cf_parent_phase = Admission,
          cf_parent_charged = 1, cf_owner_fence = None, cf_runtime_hmac = JStr demo_digest\<rparr>,
        demo_seen\<lparr>ob_consumed := True\<rparr>, demo_paid)"
proof -
  let ?ob = "demo_seen\<lparr>ob_consumed := True\<rparr>"
  have ob: "consume_observation demo_seen = Inr ?ob" "ob_component demo_seen = Query_Embedding"
    "ob_classification demo_seen = Validated_Success"
    by (simp_all add: consume_observation_def demo_seen_def)
  obtain j where "row_component_json demo_paid_row = Inr j"
    using row_component_json_returns [OF demo_paid_row_facts] by blast
  moreover have "settled_row ?ob False (claimed_row demo_digest demo_digest demo_query_row) = demo_paid_row"
    by (simp add: demo_paid_row_def settled_row_def demo_seen_def)
  ultimately show ?thesis
    using ob demo_preview demo_safety_kept
    by (simp add: finalize_component_def commit_finalization_def transact_def commit_db_def Let_def
        reload_finalization_def settle_rows_def settle_run_def close_sibling_def is_closed_def
        component_final_of_def keep_terminal_def drop_grant_def total_charged_def demo_paid_def)
qed

section \<open>The answer\<close>

definition demo_bound_row :: cost_row where
  "demo_bound_row = bound_row demo_answer_budget demo_answer_row"

definition demo_bound_run :: agent_run where
  "demo_bound_run = demo_run\<lparr>ar_charged := 1, ar_estimated := 3055,
     ar_metadata := admitted_metadata demo_admission demo_digest\<rparr>"

definition demo_bound :: ledger where
  "demo_bound = demo_paid\<lparr>
     lg_db := store_run (lg_db demo_paid) 1 demo_bound_run demo_paid_row demo_bound_row,
     lg_reservations := Map.empty,
     lg_budgets := (lg_budgets demo_paid)((1, Answer_Generation) \<mapsto> demo_answer_budget)\<rparr>"

lemma demo_paid_simps [simp]:
  "lg_reservations demo_paid = [1 \<mapsto> demo_ceiling]"
  "lg_terminal_rows demo_paid = [(1, Query_Embedding) \<mapsto> projr (row_component_json demo_paid_row)]"
  "locked_run (lg_db demo_paid) 1 = Inr (demo_run\<lparr>ar_charged := 1\<rparr>, demo_paid_row, demo_answer_row)"
  "lg_snapshots demo_paid (1, c) = Some (demo_snapshot c)" "lg_safety demo_paid = demo_safety Ready"
  "lg_next demo_paid = 1"
  by (simp_all add: demo_paid_def store_run_def locked_run_Inr component_order_def)
    (simp_all add: demo_sent_def demo_claimed_def)

lemma demo_bound_row_facts: "row_target_ok demo_bound_row" "row_ascii demo_bound_row"
  "[cw_component demo_paid_row, cw_component demo_bound_row] = component_order"
  using demo_row_facts(2,4)
  by (simp_all add: demo_bound_row_def bound_row_def row_target_ok_def row_ascii_def component_order_def)

lemma demo_bind_answer: "bind_answer_budget demo_authority demo_lio 1 demo_answer_budget None demo_paid
  = (Inr (), demo_bound)"
proof -
  obtain j where j: "row_component_json demo_paid_row = Inr j"
    using row_component_json_returns [OF demo_paid_row_facts] by blast
  have "binding_fits demo_answer_budget demo_ceiling"
    by (simp add: binding_fits_def demo_answer_budget_def demo_ceiling_def)
  moreover have "answer_reserved_as (demo_run\<lparr>ar_charged := 1\<rparr>) demo_paid_row demo_answer_row demo_ceiling"
    by (simp add: answer_reserved_as_def embedding_succeeded_def) (simp add: demo_ceiling_def)
  ultimately have chk: "check_binding demo_authority 1 demo_answer_budget None demo_paid
      = Inr (demo_run\<lparr>ar_charged := 1\<rparr>, demo_paid_row, demo_answer_row)"
    using demo_budgets_valid(2) j
    by (simp add: check_binding_def projection_unchanged_def require_terminal_cost_row_def Let_def)
  have id: "run_cost_identity demo_authority 1 [demo_paid_row, demo_bound_row] None Admission Running
      ''pre_projection'' = Inr demo_digest"
    by (rule demo_run_identity [OF demo_paid_row_facts(1) demo_bound_row_facts(1) demo_paid_row_facts(2)
        demo_bound_row_facts(2,3)]) simp
  have "(admitted_metadata demo_admission demo_digest)(''runtime_cost_snapshot_hmac'' \<mapsto> JStr demo_digest)
      = admitted_metadata demo_admission demo_digest"
    by (rule map_upd_triv) simp
  moreover have "total_reserved [demo_paid_row, demo_bound_row] = 3055"
    by (simp add: total_reserved_def demo_bound_row_def demo_answer_budget_def)
  ultimately show ?thesis
    using chk id
    by (simp add: bind_answer_budget_def transact_def commit_db_def demo_bound_def demo_bound_run_def
        projection_identity_def flip: demo_bound_row_def)
qed

definition demo_answer_binding :: safety_binding where
  "demo_answer_binding = demo_binding\<lparr>sb_policy_snapshot := demo_snapshot Answer_Generation\<rparr>"

lemma demo_ready_answer:
  "require_ready demo_service (demo_safety Ready) Answer_Generation (demo_snapshot Answer_Generation)
     = Inr demo_answer_binding"
proof -
  let ?f = "fresh_record (demo_snapshot Answer_Generation) 0 demo_digest"
  have rec: "active_record (demo_body Ready) Answer_Generation = ?f"
    by (simp add: active_record_def demo_body_def active_identity_def find_record_def fresh_record_def)
  have f: "fr_identity ?f = snapshot_identity (demo_snapshot Answer_Generation)" "fr_policy_hmac ?f = demo_digest"
    "fr_state ?f = Ready" "fr_state_version ?f = 1" "fr_family_generation ?f = 0"
    by (simp_all add: fresh_record_def)
  let ?j = "safety_snapshot_json (demo_body Ready) ?f demo_digest"
  have "plain_record ?f" by (simp add: demo_records)
  then have "json_plain ?j" by (simp add: safety_snapshot_json_def plain_family_json utf8_valid_ascii)
  then have "rag_identity_hmac demo_primitives ''secret'' ''rag-provider-safety-snapshot:v1''
      ''rag-provider-safety:v1'' ?j = Inr demo_digest"
    by (simp add: demo_hmac_identity plain_def utf8_valid_ascii)
  moreover have "\<exists>m. require_exact_mapping ?j provider_safety_keys ''provider safety'' = Inr m"
    by (simp add: require_exact_mapping_def safety_snapshot_json_def provider_safety_keys_def insert_commute)
  ultimately have id: "provider_safety_snapshot_identity demo_primitives ''secret'' ?j = Inr demo_digest"
    by (auto simp: provider_safety_snapshot_identity_def shaped_identity_def)
  have row: "active_row (sf_db (demo_safety Ready)) Answer_Generation
      = Some (bootstrap_row 2 (demo_snapshot Answer_Generation) demo_digest)"
    by (simp add: active_row_def demo_safety_def bootstrap_row_def)
  have "bind_family demo_service (sf_db (demo_safety Ready)) (demo_envelope Ready) demo_digest Answer_Generation
      (demo_snapshot Answer_Generation) = Inr demo_answer_binding"
    by (simp add: bind_family_def rec f demo_match id row Let_def)
      (simp add: bootstrap_row_def demo_answer_binding_def demo_binding_def)
  then show ?thesis unfolding require_ready_Inr using demo_read by auto
qed

lemma demo_bound_simps [simp]:
  "lg_budgets demo_bound (1, Answer_Generation) = Some demo_answer_budget"
  "locked_run (lg_db demo_bound) 1 = Inr (demo_bound_run, demo_paid_row, demo_bound_row)"
  "lg_snapshots demo_bound (1, c) = Some (demo_snapshot c)" "lg_safety demo_bound = demo_safety Ready"
  "lg_next demo_bound = 1"
  using demo_bound_row_facts(3)
  by (simp_all add: demo_bound_def store_run_def locked_run_Inr)

lemma demo_claim_answer:
  "\<exists>L. claim_component demo_authority demo_lio 1 Answer_Generation demo_answer_budget demo_bound = (Inr 1, L)"
proof -
  have s: "require_authorized_policy_snapshot demo_policy (component_name Answer_Generation) demo_digest = Inr ()"
    by (simp add: require_authorized_policy_snapshot_def policy_hmac_of_def exact_component_def)
  have run: "ar_status demo_bound_run = Running" "ar_phase demo_bound_run = Admission"
    "ar_metadata demo_bound_run = admitted_metadata demo_admission demo_digest"
    by (simp_all add: demo_bound_run_def)
  have "row_claimable Answer_Generation demo_answer_budget demo_bound_row" "cw_policy_hmac demo_bound_row = demo_digest"
    by (simp_all add: row_claimable_def demo_bound_row_def bound_row_def) (simp add: demo_answer_budget_def)
  then have "check_claim demo_authority demo_lio 1 Answer_Generation demo_answer_budget demo_bound
      = Inr (demo_bound_run, demo_paid_row, demo_bound_row, demo_answer_binding, demo_digest)"
    using demo_budgets_valid(2) s run
    by (simp add: check_claim_def Let_def claim_safety_def demo_ready_answer demo_fence embedding_succeeded_def
        del: component_name.simps)
      (simp add: demo_answer_budget_def demo_answer_binding_def demo_binding_def demo_fence)
  then show ?thesis
    by (simp add: claim_component_def transact_def commit_db_def)
qed

section \<open>The properties applied\<close>

lemma demo_reach:
  "reach fresh_ledger ledger_step demo_ledger" "reach fresh_ledger ledger_step demo_admitted"
  "reach fresh_ledger ledger_step demo_claimed" "reach fresh_ledger ledger_step demo_sent"
  "reach fresh_ledger ledger_step demo_paid" "reach fresh_ledger ledger_step demo_bound"
proof -
  show 0: "reach fresh_ledger ledger_step demo_ledger" by (rule reach_init [where initial = fresh_ledger, OF demo_fresh])
  show 1: "reach fresh_ledger ledger_step demo_admitted"
    by (rule reach_step [OF 0 step_admit [OF demo_admit demo_sound]])
  show 2: "reach fresh_ledger ledger_step demo_claimed"
    by (rule reach_step [OF 1 step_claim [OF demo_claim demo_sound]])
  show 3: "reach fresh_ledger ledger_step demo_sent"
    by (rule reach_step [OF 2 step_consume [OF demo_consume]])
  show 4: "reach fresh_ledger ledger_step demo_paid"
    by (rule reach_step [OF 3 step_finalize [OF demo_finalize demo_sound]])
  show "reach fresh_ledger ledger_step demo_bound"
    by (rule reach_step [OF 4 step_bind [OF demo_bind_answer demo_sound]])
qed

text \<open>The tables of a process on its own are tables that some processes can reach.\<close>

lemma reach_stored: "reach fresh_ledger ledger_step L \<Longrightarrow> reach no_runs stored_step (lg_db L)"
proof (induction rule: reach.induct)
  case (reach_init L)
  then show ?case by (intro reach.reach_init [where initial = no_runs]) (simp add: fresh_ledger_def)
next
  case (reach_step L L')
  have "memory_ok L" using spending.inv_reach [OF reach_step.hyps(1)] by (simp add: spending_inv_def)
  then have "stored_step (lg_db L) (lg_db L')" using reach_step.hyps(2) by (auto simp: stored_step_def)
  then show ?case by (rule reach.reach_step [OF reach_step.IH])
qed

lemma demo_claimed_run:
  "locked_run (lg_db demo_claimed) 1
     = Inr (demo_run\<lparr>ar_charged := 1\<rparr>, claimed_row demo_digest demo_digest demo_query_row, demo_answer_row)"
  by (simp add: demo_claimed_def store_run_def locked_run_Inr component_order_def)

theorem charge_stays_in_budget_witness: "cw_charged demo_paid_row \<le> cw_reserved demo_paid_row \<and> \<not> cw_overrun demo_paid_row"
  using charge_stays_in_budget [OF demo_reach(6) demo_bound_simps(2)] by simp

theorem grant_spent_once_witness:
  "\<not> returns (fst (consume_committed_grant 0 demo_paid))
   \<and> consume_committed_grant 0 demo_claimed = (Inr (), demo_sent)"
proof -
  have "ledger_step\<^sup>*\<^sup>* demo_sent demo_paid"
    using step_finalize [OF demo_finalize demo_sound] by blast
  from grant_spent_once [OF demo_reach(3) demo_consume this] show ?thesis using demo_consume by blast
qed

theorem admitted_run_can_be_closed_witness:
  "\<exists>t L. finalize_pre_send_refusal demo_authority demo_lio 1 ''query_embedding'' Provider_Safety_Unavailable None demo_admitted
      = (Inr t, L) \<and> te_status t = Failed \<and> te_charged t = 0"
proof -
  have hex: "is_lower_hex_64 (ps_model_config_snapshot_hmac (demo_snapshot c))"
    "is_lower_hex_64 (ps_policy_snapshot_hmac (demo_snapshot c))" for c
    using demo_hex by (cases c; simp add: demo_snapshot_def)+
  show ?thesis
    using admitted_run_can_be_closed [OF demo_admit demo_sound, of "''query_embedding''" Provider_Safety_Unavailable
        demo_lio] hex
    by (simp del: is_lower_hex_64_def) blast
qed

theorem admission_identity_is_row_identity_witness:
  "run_cost_identity demo_authority 1 [demo_query_row, demo_answer_row] None Admission Running ''pre_projection''
     = Inr demo_digest"
  using admission_identity_is_row_identity [OF demo_admit] by (simp add: demo_receipt_def)

theorem answer_claimed_after_embedding_witness:
  "cw_state demo_paid_row = Terminal \<and> cw_attempted demo_paid_row \<and> cw_count demo_paid_row = 1"
proof -
  obtain L where L: "claim_component demo_authority demo_lio 1 Answer_Generation demo_answer_budget demo_bound = (Inr 1, L)"
    using demo_claim_answer by blast
  have "md_get (ar_metadata demo_bound_run) ''configured_backend'' = JStr ''pgvector''"
    by (simp add: demo_bound_run_def)
  then show ?thesis
    using answer_claimed_after_embedding [OF reach_stored [OF demo_reach(6)] L demo_sound demo_bound_simps(2)] by blast
qed

lemma demo_claim_again:
  "claim_component demo_authority demo_lio 1 Query_Embedding demo_query_budget demo_claimed
     = (Inl (Ledger_Error ''component claim authority is stale''), demo_claimed)"
proof -
  have "lg_budgets demo_claimed (1, Query_Embedding) = Some demo_query_budget"
    "lg_snapshots demo_claimed (1, Query_Embedding) = Some (demo_snapshot Query_Embedding)"
    by (simp_all add: demo_claimed_def)
  then show ?thesis
    using demo_budgets_valid(1) demo_claimed_run
    by (simp add: claim_component_def transact_def check_claim_def Let_def row_claimable_def)
qed

theorem refused_claim_grants_nothing_witness: "lg_grants demo_claimed = lg_grants demo_claimed
  \<and> fst (claim_component demo_authority demo_lio 1 Query_Embedding demo_query_budget demo_claimed)
      = Inl (Ledger_Error ''component claim authority is stale'')"
  using refused_claim_grants_nothing [OF demo_claim_again] demo_claim_again by simp

theorem stored_runs_are_accounted_witness:
  "\<exists>q w. ld_rows (lg_db demo_paid) 1 = [q, w] \<and> ar_charged (demo_run\<lparr>ar_charged := 1\<rparr>) = cw_charged q + cw_charged w"
proof -
  have "ld_runs (lg_db demo_paid) 1 = Some (demo_run\<lparr>ar_charged := 1\<rparr>)"
    using demo_paid_simps(3) unfolding locked_run_Inr by blast
  from stored_runs_are_accounted [OF reach_stored [OF demo_reach(5)] this] show ?thesis by blast
qed

lemma demo_claim_step: "stored_step (lg_db demo_admitted) (lg_db demo_claimed)"
proof -
  have "memory_ok demo_admitted" by (simp add: memory_ok_def)
  then show ?thesis using step_claim [OF demo_claim demo_sound] unfolding stored_step_def by blast
qed

theorem operations_refine_lifecycle_witness:
  "\<exists>r. run_step (view_of (lg_db demo_admitted) r) (view_of (lg_db demo_claimed) r)"
  using operations_refine_lifecycle [OF reach_stored [OF demo_reach(2)] demo_claim_step] by blast

theorem component_dispatched_at_most_once_witness:
  "\<not> returns (fst (claim_component demo_authority demo_lio 1 Query_Embedding demo_query_budget demo_paid))"
proof (rule component_dispatched_at_most_once [OF reach_stored [OF demo_reach(2)] demo_sound demo_sound _ demo_claim])
  show "memory_ok demo_admitted" by (simp add: memory_ok_def)
  have m: "memory_ok demo_sent" by (simp add: memory_ok_def)
  have "lg_db demo_sent = lg_db demo_claimed" by (simp add: demo_sent_def)
  then have "stored_step (lg_db demo_claimed) (lg_db demo_paid)"
    using step_finalize [OF demo_finalize demo_sound] m unfolding stored_step_def by metis
  then show "stored_step\<^sup>*\<^sup>* (lg_db demo_claimed) (lg_db demo_paid)" by blast
qed

text \<open>The refused run: its query embedding and its answer are both closed, unused.\<close>

lemma demo_refuse:
  "\<exists>t L a. finalize_pre_send_refusal demo_authority demo_lio 1 ''query_embedding'' Provider_Safety_Unavailable None demo_admitted
      = (Inr t, L) \<and> ld_runs (lg_db L) 1 = Some a \<and> ar_status a = Failed"
proof -
  let ?q = "make_terminal_zero demo_query_row" and ?w = "make_terminal_zero demo_answer_row"
  have guard: "check_pre_send 1 demo_admitted = Inr (demo_run, ?q, ?w)"
    by (simp add: check_pre_send_def both_not_attempted_def)
  have order: "[cw_component ?q, cw_component ?w] = component_order" by (simp add: component_order_def)
  have read: "run_readable demo_run"
    using admitted_run_readable [OF demo_checked demo_sound] by (simp add: demo_run_def)
  have rows: "row_ascii ?q" "row_ascii ?w"
    using demo_row_facts(3,4) by (simp_all add: row_ascii_def make_terminal_zero_def ascii_opt_def)
  obtain a t where f: "finalize_failed_run demo_authority (li_now demo_lio) 1 demo_run ?q ?w
      Provider_Safety_Unavailable None False = Inr (a, t)"
    using finalize_failed_run_returns [of demo_run demo_authority ?q ?w, OF read _ demo_sound _ _ rows order]
      demo_row_facts(1,2) demo_signer zero_target by (metis demo_authority_simps(1,2))
  then have "store_failed demo_authority (li_now demo_lio) 1 Provider_Safety_Unavailable None False
      (lg_db demo_admitted) (demo_run, ?q, ?w) = Inr (store_run (lg_db demo_admitted) 1 a ?q ?w, t)"
    by (simp add: store_failed_def)
  then show ?thesis
    using guard failed_run_receipt(1) [OF f]
    by (simp add: finalize_pre_send_refusal_def transact_def commit_db_def store_run_def component_order_def)
qed

theorem closed_run_is_final_witness:
  "\<exists>L a. ld_runs (lg_db L) 1 = Some a \<and> ar_status a = Failed
     \<and> ld_runs (lg_db (snd (claim_component demo_authority demo_lio 1 Query_Embedding demo_query_budget L))) 1 = Some a"
proof -
  obtain t L a where op: "finalize_pre_send_refusal demo_authority demo_lio 1 ''query_embedding'' Provider_Safety_Unavailable None
      demo_admitted = (Inr t, L)" and a: "ld_runs (lg_db L) 1 = Some a" "ar_status a = Failed"
    using demo_refuse by blast
  let ?c = "claim_component demo_authority demo_lio 1 Query_Embedding demo_query_budget L"
  have r: "reach fresh_ledger ledger_step L"
    by (rule reach_step [OF demo_reach(2) step_pre_send [OF op demo_sound]])
  have "ledger_step L (snd ?c)" by (rule step_claim [OF _ demo_sound]) (rule prod.collapse [symmetric])
  moreover have "memory_ok L" using spending.inv_reach [OF r] by (simp add: spending_inv_def)
  ultimately have "stored_step (lg_db L) (lg_db (snd ?c))" by (auto simp: stored_step_def)
  then have "stored_step\<^sup>*\<^sup>* (lg_db L) (lg_db (snd ?c))" by blast
  note closed_run_is_final [OF reach_stored [OF r] this a(1)]
  then show ?thesis using a by auto
qed

end
