(* ===== verification/Answer_Output.thy ===== *)
theory Answer_Output
  imports Evidence_Retrieval Cost_Policy Ascii_Signing
begin

text \<open>
  \<open>agents/rag_orchestrator_agent/v2_answer_schema.py\<close>: the check of what the answer model returned
  against the evidence slots it was given. The payload is a decoded JSON value; the signer, which the
  cost policy provides, is an argument that may fail. Every failure of the check is caught by the
  caller and becomes one error, so a check gives a result whose error carries no detail.
\<close>

section \<open>Validated blocks\<close>

text \<open>A confidence is its number of millionths; \<open>confidence_text\<close> is the \<open>str\<close> of the \<open>Decimal\<close>.\<close>

record answer_block =
  ab_ordinal :: nat
  ab_text :: string
  ab_slot_ids :: "string list"
  ab_support_mode :: string
  ab_confidence :: int
  ab_uncertainty :: "string option"
  ab_result_hmac :: string

record answer_blocks =
  as_blocks :: "answer_block list"
  as_insufficient_reason :: "string option"
  as_selected_slot_ids :: "string list"
  as_assembled :: string
  as_assembled_hmac :: "string option"
  as_audit_set_hmac :: "string option"

type_synonym signer = "string \<Rightarrow> json \<Rightarrow> string result"

abbreviation refused :: error where
  "refused \<equiv> Value_Error []"

section \<open>Shapes\<close>

definition exact_key_set :: "(string \<times> json) list \<Rightarrow> string list \<Rightarrow> bool" where
  "exact_key_set kvs expected \<longleftrightarrow>
     length kvs = length expected \<and> set (map fst kvs) = set expected"

text \<open>\<open>value[key]\<close> of a dict whose keys were checked.\<close>

definition member :: "(string \<times> json) list \<Rightarrow> string \<Rightarrow> json" where
  "member kvs k = the (map_of kvs k)"

definition bounded_text :: "nat \<Rightarrow> json \<Rightarrow> string result" where
  "bounded_text maximum v =
     (case v of
        JStr s \<Rightarrow>
          if strip s = [] \<or> \<not> (1 \<le> code_points s \<and> code_points s \<le> maximum) then Inl refused
          else if CHR 0x00 \<in> set s \<or> \<not> utf8_valid s then Inl refused
          else Inr s
      | _ \<Rightarrow> Inl refused)"

fun json_text :: "json \<Rightarrow> string option" where
  "json_text (JStr s) = Some s"
| "json_text _ = None"

text \<open>A list of one to eight strings.\<close>

definition raw_slot_ids :: "json \<Rightarrow> string list result" where
  "raw_slot_ids v =
     (case v of
        JList xs \<Rightarrow>
          if \<not> (1 \<le> length xs \<and> length xs \<le> 8) then Inl refused
          else (case all_some (map json_text xs) of None \<Rightarrow> Inl refused | Some ids \<Rightarrow> Inr ids)
      | _ \<Rightarrow> Inl refused)"

section \<open>The slots on offer\<close>

text \<open>\<open>{slot.slot_id: slot for slot in slots}\<close>: keys in the order they first appear, last value kept.\<close>

definition dict_keys :: "slot list \<Rightarrow> string list" where
  "dict_keys slots = rev (remdups (rev (map sl_slot_id slots)))"

definition available :: "slot list \<Rightarrow> string \<Rightarrow> slot option" where
  "available slots = map_of (rev (map (\<lambda>s. (sl_slot_id s, s)) slots))"

definition slot_name :: "nat \<Rightarrow> string" where
  "slot_name i = ''E'' @ decimal_nat i"

definition slots_numbered :: "slot list \<Rightarrow> bool" where
  "slots_numbered slots \<longleftrightarrow>
     length slots \<le> 8 \<and> dict_keys slots = map slot_name [1..<Suc (length slots)]"

definition trusted_fact :: string where
  "trusted_fact = ''trusted_fact''"
definition source_observation :: string where
  "source_observation = ''source_observation''"

definition expected_mode :: "slot list \<Rightarrow> string list \<Rightarrow> string" where
  "expected_mode slots ids =
     (if \<forall>i \<in> set ids. map_option sl_support_mode (available slots i) = Some trusted_fact
      then trusted_fact else source_observation)"

section \<open>One block\<close>

definition confidence_text :: "int \<Rightarrow> string" where
  "confidence_text c = (if c = 950000 then ''0.950000'' else ''0.700000'')"

definition not_promoted :: string where
  "not_promoted = ''source_observation_not_promoted_to_trusted_knowledge''"

definition block_payload ::
  "nat \<Rightarrow> int \<Rightarrow> string list \<Rightarrow> string \<Rightarrow> string \<Rightarrow> string option \<Rightarrow> json" where
  "block_payload ordinal confidence ids mode text_hmac uncertainty = JObj
     [(''block_ordinal'', JInt (int ordinal)),
      (''confidence_score_decimal'', JStr (confidence_text confidence)),
      (''evidence_slot_ids'', JList (map JStr ids)),
      (''support_mode'', JStr mode),
      (''text_hmac'', JStr text_hmac),
      (''uncertainty_reason'', json_opt uncertainty)]"

definition block_keys :: "string list" where
  "block_keys = [''text'', ''evidence_slot_ids'', ''support_mode'']"

text \<open>The part of the loop body that signs a block whose checks passed.\<close>

definition sign_block ::
  "signer \<Rightarrow> nat \<Rightarrow> string \<Rightarrow> string list \<Rightarrow> string \<Rightarrow> answer_block result" where
  "sign_block sign ordinal text ids mode =
     (let confidence = (if mode = trusted_fact then 950000 else 700000);
          uncertainty = (if mode = trusted_fact then None else Some not_promoted)
      in then_r (exact_utf8_bytes text) (\<lambda>payload.
         then_r (sign ''block_text'' payload) (\<lambda>text_hmac.
         then_r (sign ''block_result''
                   (block_payload ordinal confidence ids mode text_hmac uncertainty)) (\<lambda>result_hmac.
           Inr \<lparr>ab_ordinal = ordinal, ab_text = text, ab_slot_ids = ids, ab_support_mode = mode,
                ab_confidence = confidence, ab_uncertainty = uncertainty,
                ab_result_hmac = result_hmac\<rparr>))))"

text \<open>
  The body of the loop over \<open>raw_blocks\<close>: \<open>before\<close> is the text length of the blocks before this one;
  the result has the block and the new text length.
\<close>

definition validate_block ::
  "signer \<Rightarrow> slot list \<Rightarrow> nat \<Rightarrow> nat \<Rightarrow> json \<Rightarrow> (answer_block \<times> nat) result" where
  "validate_block sign slots ordinal before raw =
     (case raw of
        JObj kvs \<Rightarrow>
          if \<not> exact_key_set kvs block_keys then Inl refused
          else
          then_r (bounded_text 1200 (member kvs ''text'')) (\<lambda>text.
          let length_now = before + code_points text in
          if length_now > 2400 then Inl refused
          else
          then_r (raw_slot_ids (member kvs ''evidence_slot_ids'')) (\<lambda>ids.
          if \<not> distinct ids \<or> (\<exists>i \<in> set ids. available slots i = None) then Inl refused
          else
          let mode = expected_mode slots ids in
          if member kvs ''support_mode'' \<noteq> JStr mode then Inl refused
          else then_r (sign_block sign ordinal text ids mode) (\<lambda>b. Inr (b, length_now))))
      | _ \<Rightarrow> Inl refused)"

fun validate_loop ::
  "signer \<Rightarrow> slot list \<Rightarrow> nat \<Rightarrow> nat \<Rightarrow> json list \<Rightarrow> answer_block list result" where
  "validate_loop sign slots ordinal before [] = Inr []"
| "validate_loop sign slots ordinal before (raw # raws) =
     then_r (validate_block sign slots ordinal before raw) (\<lambda>(b, length_now).
     then_r (validate_loop sign slots (Suc ordinal) length_now raws) (\<lambda>bs. Inr (b # bs)))"

section \<open>The whole payload\<close>

text \<open>\<open>if slot_id not in selected: selected.append(slot_id)\<close>, over all the blocks.\<close>

definition select_ids :: "string list \<Rightarrow> string list" where
  "select_ids = foldl (\<lambda>acc i. if i \<in> set acc then acc else acc @ [i]) []"

fun join_blank :: "string list \<Rightarrow> string" where
  "join_blank [] = []"
| "join_blank [x] = x"
| "join_blank (x # xs) = x @ [CHR 0x0A, CHR 0x0A] @ join_blank xs"

definition audit_payload :: "answer_block list \<Rightarrow> json" where
  "audit_payload bs = JObj
     [(''blocks'', JList (map (\<lambda>b. JObj
        [(''block_ordinal'', JInt (int (ab_ordinal b))),
         (''block_result_hmac'', JStr (ab_result_hmac b))]) bs))]"

definition payload_keys :: "string list" where
  "payload_keys = [''answer_blocks'', ''insufficient_evidence_reason'']"

definition validate_payload :: "signer \<Rightarrow> json \<Rightarrow> slot list \<Rightarrow> answer_blocks result" where
  "validate_payload sign payload slots =
     (case payload of
        JObj kvs \<Rightarrow>
          if \<not> exact_key_set kvs payload_keys then Inl refused
          else (case member kvs ''answer_blocks'' of
            JList raws \<Rightarrow>
              if length raws > 8 then Inl refused
              else if raws = [] then
                then_r (bounded_text 400 (member kvs ''insufficient_evidence_reason'')) (\<lambda>reason.
                  Inr \<lparr>as_blocks = [], as_insufficient_reason = Some reason,
                       as_selected_slot_ids = [], as_assembled = [], as_assembled_hmac = None,
                       as_audit_set_hmac = None\<rparr>)
              else if member kvs ''insufficient_evidence_reason'' \<noteq> JNull then Inl refused
              else if \<not> slots_numbered slots then Inl refused
              else
              then_r (validate_loop sign slots 0 0 raws) (\<lambda>blocks.
              let assembled = join_blank (map ab_text blocks) in
              then_r (exact_utf8_bytes assembled) (\<lambda>assembled_bytes.
              then_r (sign ''assembled'' assembled_bytes) (\<lambda>assembled_hmac.
              then_r (sign ''audit_set'' (audit_payload blocks)) (\<lambda>audit_hmac.
                Inr \<lparr>as_blocks = blocks, as_insufficient_reason = None,
                     as_selected_slot_ids = select_ids (concat (map ab_slot_ids blocks)),
                     as_assembled = assembled, as_assembled_hmac = Some assembled_hmac,
                     as_audit_set_hmac = Some audit_hmac\<rparr>))))
          | _ \<Rightarrow> Inl refused)
      | _ \<Rightarrow> Inl refused)"

definition validate_answer_output :: "signer \<Rightarrow> json \<Rightarrow> slot list \<Rightarrow> answer_blocks result" where
  "validate_answer_output sign payload slots =
     (case validate_payload sign payload slots of
        Inl _ \<Rightarrow> Inl (Value_Error ''RAG answer output is invalid'')
      | Inr v \<Rightarrow> Inr v)"

section \<open>Classifying a refusal\<close>

fun blocks_structure :: "nat \<Rightarrow> json list \<Rightarrow> bool" where
  "blocks_structure before [] = True"
| "blocks_structure before (raw # raws) =
     (case raw of
        JObj kvs \<Rightarrow>
          exact_key_set kvs block_keys
          \<and> (case bounded_text 1200 (member kvs ''text'') of
               Inl _ \<Rightarrow> False
             | Inr text \<Rightarrow>
                 before + code_points text \<le> 2400
                 \<and> (case raw_slot_ids (member kvs ''evidence_slot_ids'') of
                      Inl _ \<Rightarrow> False
                    | Inr ids \<Rightarrow>
                        distinct ids
                        \<and> member kvs ''support_mode'' \<in> {JStr trusted_fact, JStr source_observation}
                        \<and> blocks_structure (before + code_points text) raws))
      | _ \<Rightarrow> False)"

definition answer_structure_is_valid :: "json \<Rightarrow> bool" where
  "answer_structure_is_valid payload =
     (case payload of
        JObj kvs \<Rightarrow>
          exact_key_set kvs payload_keys
          \<and> (case member kvs ''answer_blocks'' of
               JList raws \<Rightarrow>
                 length raws \<le> 8
                 \<and> (if raws = [] then returns (bounded_text 400 (member kvs ''insufficient_evidence_reason''))
                    else member kvs ''insufficient_evidence_reason'' = JNull \<and> blocks_structure 0 raws)
             | _ \<Rightarrow> False)
      | _ \<Rightarrow> False)"

definition failure_classification :: "signer \<Rightarrow> json \<Rightarrow> slot list \<Rightarrow> string result" where
  "failure_classification sign payload slots =
     (case validate_payload sign payload slots of
        Inl _ \<Rightarrow> Inr (if answer_structure_is_valid payload then ''citation_validation_failed''
                    else ''structured_output_invalid'')
      | Inr _ \<Rightarrow> Inl (Value_Error ''RAG answer output is not invalid''))"

section \<open>Facts about the check\<close>

lemma refused_iff [simp]: "(if b then Inl e else r) = Inr y \<longleftrightarrow> \<not> b \<and> r = Inr y"
  by auto

lemma bounded_text_Inr:
  "bounded_text n v = Inr s \<longleftrightarrow>
     v = JStr s \<and> strip s \<noteq> [] \<and> 1 \<le> code_points s \<and> code_points s \<le> n
     \<and> CHR 0x00 \<notin> set s \<and> utf8_valid s"
  by (auto simp: bounded_text_def split: json.splits)

lemma raw_slot_ids_Inr:
  "raw_slot_ids v = Inr ids \<longleftrightarrow>
     v = JList (map JStr ids) \<and> 1 \<le> length ids \<and> length ids \<le> 8"
proof -
  have "map json_text xs = map Some ids \<longleftrightarrow> xs = map JStr ids" for xs
  proof (induction ids arbitrary: xs)
    case (Cons i ids)
    have "json_text j = Some i \<longleftrightarrow> j = JStr i" for j by (cases j) auto
    then show ?case using Cons.IH by (cases xs) auto
  qed simp
  then have all: "all_some (map json_text xs) = Some ids \<longleftrightarrow> xs = map JStr ids" for xs
    by (simp add: all_some_iff)
  have "(case a of None \<Rightarrow> Inl refused | Some ys \<Rightarrow> Inr ys) = Inr ids \<longleftrightarrow> a = Some ids" for a
    by (cases a) simp_all
  then have parts: "(case all_some (map json_text xs) of None \<Rightarrow> Inl refused | Some ys \<Rightarrow> Inr ys) = Inr ids
    \<longleftrightarrow> xs = map JStr ids" for xs
    by (simp only: all)
  show ?thesis
  proof (cases v)
    case (JList xs)
    then show ?thesis using parts [of xs] by (auto simp: raw_slot_ids_def simp del: all_some.simps)
  qed (simp_all add: raw_slot_ids_def)
qed

lemma exact_keys_lookup:
  assumes "exact_key_set kvs keys" and "k \<in> set keys"
  shows "map_of kvs k = Some (member kvs k)"
  using assms by (cases "map_of kvs k") (auto simp: exact_key_set_def member_def map_of_eq_None_iff)

lemma join_blank_valid:
  assumes "\<forall>t \<in> set ts. CHR 0x00 \<notin> set t \<and> utf8_valid t"
  shows "CHR 0x00 \<notin> set (join_blank ts) \<and> utf8_valid (join_blank ts)"
  using assms
proof (induction ts rule: join_blank.induct)
  case (3 t u ts)
  have nl: "utf8_valid [CHR 0x0A, CHR 0x0A]" by (rule utf8_valid_ascii) simp
  have "utf8_valid (join_blank (u # ts))" and t: "utf8_valid t" using 3 by simp_all
  with nl have "utf8_valid ([CHR 0x0A, CHR 0x0A] @ join_blank (u # ts))" by (intro utf8_valid_append)
  with t have "utf8_valid (t @ [CHR 0x0A, CHR 0x0A] @ join_blank (u # ts))" by (rule utf8_valid_append)
  with 3 show ?case by simp
qed (simp_all add: utf8_valid_ascii)

text \<open>Numbered slots have distinct names, so every name offers its own slot.\<close>

lemma remdups_full_length: "length (remdups xs) = length xs \<Longrightarrow> distinct xs"
  by (metis distinct_remdups remdups_id_iff_distinct length_remdups_eq)

lemma slots_numbered_names:
  assumes "slots_numbered slots"
  shows "map sl_slot_id slots = map slot_name [1..<Suc (length slots)]" and "distinct (map sl_slot_id slots)"
proof -
  have *: "rev (remdups (rev (map sl_slot_id slots))) = map slot_name [1..<Suc (length slots)]"
    using assms by (simp add: slots_numbered_def dict_keys_def)
  then have "length (remdups (rev (map sl_slot_id slots))) = length (rev (map sl_slot_id slots))"
    by (metis diff_Suc_1 length_map length_rev length_upt)
  then have d: "distinct (rev (map sl_slot_id slots))" by (rule remdups_full_length)
  then show "distinct (map sl_slot_id slots)" by simp
  show "map sl_slot_id slots = map slot_name [1..<Suc (length slots)]"
    using * d by (simp add: distinct_remdups_id)
qed

lemma available_Some:
  assumes "available slots i = Some s"
  shows "s \<in> set slots \<and> sl_slot_id s = i"
  using map_of_SomeD [OF assms [unfolded available_def]] by auto

lemma available_None: "available slots i = None \<longleftrightarrow> i \<notin> sl_slot_id ` set slots"
  by (auto simp: available_def map_of_eq_None_iff image_image)

lemma available_self:
  assumes "distinct (map sl_slot_id slots)" and "s \<in> set slots"
  shows "available slots (sl_slot_id s) = Some s"
proof -
  have "distinct (map fst (rev (map (\<lambda>s. (sl_slot_id s, s)) slots)))"
    using assms(1) by (simp add: comp_def rev_map [symmetric])
  moreover have "(sl_slot_id s, s) \<in> set (rev (map (\<lambda>s. (sl_slot_id s, s)) slots))"
    using assms(2) by auto
  ultimately show ?thesis unfolding available_def by (rule map_of_is_SomeI)
qed

section \<open>What an accepted answer is\<close>

text \<open>
  The citations of one raw block, apart from its shape: every cited slot is on offer, and the declared
  mode is the one the cited slots give.
\<close>

definition citations_hold :: "slot list \<Rightarrow> json \<Rightarrow> bool" where
  "citations_hold slots raw =
     (case raw of
        JObj kvs \<Rightarrow>
          (case raw_slot_ids (member kvs ''evidence_slot_ids'') of
             Inl _ \<Rightarrow> False
           | Inr ids \<Rightarrow>
               (\<forall>i \<in> set ids. available slots i \<noteq> None)
               \<and> member kvs ''support_mode'' = JStr (expected_mode slots ids))
      | _ \<Rightarrow> False)"

lemma citations_hold_simps:
  "citations_hold slots (JObj kvs) =
     (case raw_slot_ids (member kvs ''evidence_slot_ids'') of
        Inl _ \<Rightarrow> False
      | Inr ids \<Rightarrow> (\<forall>i \<in> set ids. available slots i \<noteq> None)
          \<and> member kvs ''support_mode'' = JStr (expected_mode slots ids))"
  by (simp add: citations_hold_def)

definition raw_blocks :: "json \<Rightarrow> json list" where
  "raw_blocks payload =
     (case payload of
        JObj kvs \<Rightarrow> (case member kvs ''answer_blocks'' of JList raws \<Rightarrow> raws | _ \<Rightarrow> [])
      | _ \<Rightarrow> [])"

text \<open>
  A signer works when it signs each of the four artifacts of an answer for every payload of ASCII
  strings, with an ASCII digest.
\<close>

definition signs_answers :: "signer \<Rightarrow> bool" where
  "signs_answers sign \<longleftrightarrow>
     (\<forall>kind \<in> set [''block_text'', ''block_result'', ''assembled'', ''audit_set''].
        \<forall>v. json_ascii v \<longrightarrow> (\<exists>d. sign kind v = Inr d \<and> ascii d))"

lemma signs_answersD:
  "signs_answers sign \<Longrightarrow> kind \<in> set [''block_text'', ''block_result'', ''assembled'', ''audit_set'']
    \<Longrightarrow> json_ascii v \<Longrightarrow> \<exists>d. sign kind v = Inr d \<and> ascii d"
  by (auto simp: signs_answers_def)

text \<open>The signer of a cost policy works when its key does and its digests are hexadecimal.\<close>

definition policy_signs :: "cost_policy \<Rightarrow> bool" where
  "policy_signs p \<longleftrightarrow> signer (cp_primitives p) (cp_secret p) \<and> hex_digests (cp_primitives p)"

lemma artifact_domains_plain:
  "list_all (\<lambda>(_, sv, pv). sv \<noteq> [] \<and> plain (hd sv) \<and> plain (last sv) \<and> ascii sv
      \<and> pv \<noteq> [] \<and> plain (hd pv) \<and> plain (last pv) \<and> ascii pv) artifact_domains"
  by code_simp

lemma policy_signs_answers:
  assumes "policy_signs p"
  shows "signs_answers (sign_answer_artifact p)"
  unfolding signs_answers_def
proof (intro ballI allI impI)
  fix kind v
  assume kind: "kind \<in> set [''block_text'', ''block_result'', ''assembled'', ''audit_set'']" and v: "json_ascii v"
  obtain sv pv where d: "map_of artifact_domains kind = Some (sv, pv)"
    using kind by (auto simp: artifact_domains_def)
  have "sv \<noteq> [] \<and> plain (hd sv) \<and> plain (last sv) \<and> ascii sv
      \<and> pv \<noteq> [] \<and> plain (hd pv) \<and> plain (last pv) \<and> ascii pv"
    using artifact_domains_plain map_of_SomeD [OF d] by (auto simp: list_all_iff)
  then have "returns (keyed_fingerprint (cp_primitives p) (cp_secret p) sv pv v)"
    using assms v by (intro signer_keyed) (simp_all add: policy_signs_def)
  then obtain h where h: "keyed_fingerprint (cp_primitives p) (cp_secret p) sv pv v = Inr h"
    by (auto simp: returns_iff)
  moreover have "ascii h"
    using assms keyed_fingerprint_hex [OF _ h] by (intro hex_ascii) (simp add: policy_signs_def)
  ultimately show "\<exists>d. sign_answer_artifact p kind v = Inr d \<and> ascii d"
    using d by (simp add: sign_answer_artifact_def)
qed

lemma sign_block_fields:
  assumes "sign_block sign ordinal t ids mode = Inr b"
  shows "ab_ordinal b = ordinal" and "ab_text b = t" and "ab_slot_ids b = ids"
    and "ab_support_mode b = mode"
    and "ab_confidence b = (if mode = trusted_fact then 950000 else 700000)"
    and "ab_uncertainty b = (if mode = trusted_fact then None else Some not_promoted)"
  using assms by (auto simp: sign_block_def Let_def)

lemma block_payload_ascii:
  "list_all ascii ids \<Longrightarrow> ascii mode \<Longrightarrow> ascii h \<Longrightarrow> ascii_opt u \<Longrightarrow> json_ascii (block_payload n c ids mode h u)"
  by (simp add: block_payload_def confidence_text_def list.pred_map comp_def)

lemma sign_block_returns:
  assumes "signs_answers sign" and "CHR 0x00 \<notin> set t" and "utf8_valid t"
    and "list_all ascii ids" and "mode \<in> {trusted_fact, source_observation}"
  shows "\<exists>b. sign_block sign ordinal t ids mode = Inr b \<and> ascii (ab_result_hmac b)"
proof -
  have bytes: "exact_utf8_bytes t = Inr (utf8_json t)" using assms(2,3) by simp
  obtain d where d: "sign ''block_text'' (utf8_json t) = Inr d" "ascii d"
    using signs_answersD [OF assms(1), of "''block_text''" "utf8_json t"] by auto
  have "ascii mode" and "ascii_opt (if mode = trusted_fact then None else Some not_promoted)"
    using assms(5) by (auto simp: trusted_fact_def source_observation_def ascii_opt_def not_promoted_def)
  then have "json_ascii (block_payload ordinal (if mode = trusted_fact then 950000 else 700000) ids mode d
      (if mode = trusted_fact then None else Some not_promoted))"
    using assms(4) d(2) by (intro block_payload_ascii)
  then obtain d' where "sign ''block_result'' (block_payload ordinal
      (if mode = trusted_fact then 950000 else 700000) ids mode d
      (if mode = trusted_fact then None else Some not_promoted)) = Inr d'" "ascii d'"
    using signs_answersD [OF assms(1), of "''block_result''"] by auto
  then show ?thesis
    using bytes d(1) unfolding sign_block_def Let_def by (simp del: exact_utf8_bytes_Inr then_r_Inr)
qed

lemma validate_block_Inr:
  "validate_block sign slots ordinal before raw = Inr (b, n) \<longleftrightarrow>
     (\<exists>kvs t ids.
        raw = JObj kvs \<and> exact_key_set kvs block_keys
        \<and> bounded_text 1200 (member kvs ''text'') = Inr t \<and> before + code_points t \<le> 2400
        \<and> raw_slot_ids (member kvs ''evidence_slot_ids'') = Inr ids \<and> distinct ids
        \<and> (\<forall>i \<in> set ids. available slots i \<noteq> None)
        \<and> member kvs ''support_mode'' = JStr (expected_mode slots ids)
        \<and> sign_block sign ordinal t ids (expected_mode slots ids) = Inr b
        \<and> n = before + code_points t)"
  by (cases raw) (auto simp: validate_block_def Let_def not_less)

text \<open>The declarative reading of an accepted block.\<close>

definition block_grounded :: "slot list \<Rightarrow> answer_block \<Rightarrow> bool" where
  "block_grounded slots b \<longleftrightarrow>
     strip (ab_text b) \<noteq> [] \<and> code_points (ab_text b) \<le> 1200
     \<and> ab_slot_ids b \<noteq> [] \<and> length (ab_slot_ids b) \<le> 8 \<and> distinct (ab_slot_ids b)
     \<and> set (ab_slot_ids b) \<subseteq> sl_slot_id ` set slots
     \<and> ab_support_mode b \<in> {trusted_fact, source_observation}
     \<and> (ab_support_mode b = trusted_fact \<longleftrightarrow>
          (\<forall>s \<in> set slots. sl_slot_id s \<in> set (ab_slot_ids b) \<longrightarrow> sl_support_mode s = trusted_fact))
     \<and> ab_confidence b = (if ab_support_mode b = trusted_fact then 950000 else 700000)
     \<and> (ab_uncertainty b = None \<longleftrightarrow> ab_support_mode b = trusted_fact)"

lemma expected_mode_cases: "expected_mode slots ids \<in> {trusted_fact, source_observation}"
  by (simp add: expected_mode_def)

lemma expected_mode_other: "expected_mode slots ids \<noteq> source_observation \<longleftrightarrow> expected_mode slots ids = trusted_fact"
  by (auto simp: expected_mode_def trusted_fact_def source_observation_def)

lemma modes_differ [simp]: "trusted_fact \<noteq> source_observation" "source_observation \<noteq> trusted_fact"
  by (simp_all add: trusted_fact_def source_observation_def)

lemma expected_mode_trusted:
  assumes "distinct (map sl_slot_id slots)" and "\<forall>i \<in> set ids. available slots i \<noteq> None"
  shows "expected_mode slots ids = trusted_fact \<longleftrightarrow>
    (\<forall>s \<in> set slots. sl_slot_id s \<in> set ids \<longrightarrow> sl_support_mode s = trusted_fact)"
proof -
  have "(\<forall>i \<in> set ids. map_option sl_support_mode (available slots i) = Some trusted_fact) \<longleftrightarrow>
    (\<forall>s \<in> set slots. sl_slot_id s \<in> set ids \<longrightarrow> sl_support_mode s = trusted_fact)"
    using assms(2) available_self [OF assms(1)] by (fastforce dest: available_Some)
  then show ?thesis by (simp add: expected_mode_def)
qed

lemma validate_block_grounded:
  assumes "validate_block sign slots ordinal before raw = Inr (b, n)"
    and "distinct (map sl_slot_id slots)"
  shows "block_grounded slots b \<and> ab_ordinal b = ordinal \<and> n = before + code_points (ab_text b)
    \<and> n \<le> 2400 \<and> CHR 0x00 \<notin> set (ab_text b) \<and> utf8_valid (ab_text b)"
proof -
  obtain kvs t ids where t: "bounded_text 1200 (member kvs ''text'') = Inr t"
    and le: "before + code_points t \<le> 2400"
    and ids: "raw_slot_ids (member kvs ''evidence_slot_ids'') = Inr ids" "distinct ids"
      "\<forall>i \<in> set ids. available slots i \<noteq> None"
    and b: "sign_block sign ordinal t ids (expected_mode slots ids) = Inr b"
    and n: "n = before + code_points t"
    using assms(1) by (auto simp: validate_block_Inr)
  note fields = sign_block_fields [OF b]
  have "set ids \<subseteq> sl_slot_id ` set slots"
    using ids(3) by (auto simp: available_None)
  with t le ids n fields expected_mode_trusted [OF assms(2) ids(3)] expected_mode_cases [of slots ids]
  show ?thesis by (auto simp: block_grounded_def bounded_text_Inr raw_slot_ids_Inr)
qed

lemma validate_loop_grounded:
  assumes "validate_loop sign slots ordinal before raws = Inr bs"
    and "distinct (map sl_slot_id slots)"
  shows "length bs = length raws
    \<and> map ab_ordinal bs = [ordinal..<ordinal + length bs]
    \<and> (\<forall>b \<in> set bs. block_grounded slots b \<and> CHR 0x00 \<notin> set (ab_text b) \<and> utf8_valid (ab_text b))
    \<and> (raws \<noteq> [] \<longrightarrow> before + sum_list (map (code_points \<circ> ab_text) bs) \<le> 2400)"
  using assms(1)
proof (induction raws arbitrary: ordinal before bs)
  case (Cons raw raws)
  from Cons.prems obtain b n bs' where
    b: "validate_block sign slots ordinal before raw = Inr (b, n)"
    and loop: "validate_loop sign slots (Suc ordinal) n raws = Inr bs'" and bs: "bs = b # bs'"
    by auto
  note IH = Cons.IH [OF loop]
  note block = validate_block_grounded [OF b assms(2)]
  have "map ab_ordinal bs = [ordinal..<ordinal + length bs]"
    using IH block bs by (simp add: upt_conv_Cons del: upt_Suc)
  moreover have "before + sum_list (map (code_points \<circ> ab_text) bs) \<le> 2400"
  proof (cases "raws = []")
    case True
    then show ?thesis using loop block bs by simp
  next
    case False
    then show ?thesis using IH block bs by (simp add: add.assoc comp_def)
  qed
  ultimately show ?case using IH block bs by auto
qed simp

lemma select_ids_set: "set (select_ids xs) = set xs \<and> distinct (select_ids xs)"
proof -
  have "set (foldl (\<lambda>acc i. if i \<in> set acc then acc else acc @ [i]) acc xs) = set acc \<union> set xs
    \<and> distinct (foldl (\<lambda>acc i. if i \<in> set acc then acc else acc @ [i]) acc xs)"
    if "distinct acc" for acc :: "string list"
    using that by (induction xs arbitrary: acc) auto
  then show ?thesis by (simp add: select_ids_def)
qed

lemma validate_payload_empty:
  assumes "raw_blocks payload = []"
  shows "validate_payload sign payload slots = Inr v \<longleftrightarrow>
    answer_structure_is_valid payload
    \<and> (\<exists>kvs reason. payload = JObj kvs
        \<and> bounded_text 400 (member kvs ''insufficient_evidence_reason'') = Inr reason
        \<and> v = \<lparr>as_blocks = [], as_insufficient_reason = Some reason, as_selected_slot_ids = [],
               as_assembled = [], as_assembled_hmac = None, as_audit_set_hmac = None\<rparr>)"
  using assms
  by (auto simp: validate_payload_def answer_structure_is_valid_def raw_blocks_def returns_iff
      split: json.splits)

lemma validate_payload_blocks:
  assumes "raw_blocks payload \<noteq> []"
  shows "validate_payload sign payload slots = Inr v \<longleftrightarrow>
    (\<exists>kvs blocks h a. payload = JObj kvs \<and> exact_key_set kvs payload_keys
       \<and> length (raw_blocks payload) \<le> 8
       \<and> member kvs ''insufficient_evidence_reason'' = JNull \<and> slots_numbered slots
       \<and> validate_loop sign slots 0 0 (raw_blocks payload) = Inr blocks
       \<and> CHR 0x00 \<notin> set (join_blank (map ab_text blocks)) \<and> utf8_valid (join_blank (map ab_text blocks))
       \<and> sign ''assembled'' (utf8_json (join_blank (map ab_text blocks))) = Inr h
       \<and> sign ''audit_set'' (audit_payload blocks) = Inr a
       \<and> v = \<lparr>as_blocks = blocks, as_insufficient_reason = None,
              as_selected_slot_ids = select_ids (concat (map ab_slot_ids blocks)),
              as_assembled = join_blank (map ab_text blocks), as_assembled_hmac = Some h,
              as_audit_set_hmac = Some a\<rparr>)"
  using assms
  by (cases payload) (auto simp: validate_payload_def raw_blocks_def Let_def not_less split: json.splits)

lemma slot_ids_ascii:
  assumes "slots_numbered slots" and "\<forall>i \<in> set ids. available slots i \<noteq> None"
  shows "list_all ascii ids"
proof -
  have "set (map sl_slot_id slots) = slot_name ` set [1..<Suc (length slots)]"
    using slots_numbered_names(1) [OF assms(1)] by (metis set_map)
  then have "ascii i" if "i \<in> sl_slot_id ` set slots" for i
    using that by (auto simp: slot_name_def decimal_nat_ascii)
  then show ?thesis using assms(2) by (auto simp: list_all_iff available_None)
qed

lemma blocks_structure_iff:
  assumes "signs_answers sign" and "slots_numbered slots"
  shows "(\<exists>bs. validate_loop sign slots ordinal before raws = Inr bs) \<longleftrightarrow>
    blocks_structure before raws \<and> (\<forall>raw \<in> set raws. citations_hold slots raw)"
proof (induction raws arbitrary: ordinal before)
  case (Cons raw raws)
  have signed: "\<exists>b. sign_block sign ordinal t ids (expected_mode slots ids) = Inr b"
    if "CHR 0x00 \<notin> set t" "utf8_valid t" "\<forall>i \<in> set ids. available slots i \<noteq> None" for t ids
    using sign_block_returns [OF assms(1) that(1,2) slot_ids_ascii [OF assms(2) that(3)]
      expected_mode_cases] by blast
  have block: "(\<exists>b n. validate_block sign slots ordinal before raw = Inr (b, n) \<and> P n) \<longleftrightarrow>
    (\<exists>kvs t ids. raw = JObj kvs \<and> exact_key_set kvs block_keys
        \<and> bounded_text 1200 (member kvs ''text'') = Inr t \<and> before + code_points t \<le> 2400
        \<and> raw_slot_ids (member kvs ''evidence_slot_ids'') = Inr ids \<and> distinct ids
        \<and> (\<forall>i \<in> set ids. available slots i \<noteq> None)
        \<and> member kvs ''support_mode'' = JStr (expected_mode slots ids)
        \<and> P (before + code_points t))" for P
    by (auto simp: validate_block_Inr bounded_text_Inr intro!: signed)
  have "(\<exists>bs. validate_loop sign slots ordinal before (raw # raws) = Inr bs) \<longleftrightarrow>
    (\<exists>b n. validate_block sign slots ordinal before raw = Inr (b, n)
       \<and> (\<exists>bs. validate_loop sign slots (Suc ordinal) n raws = Inr bs))"
    by auto
  also have "\<dots> \<longleftrightarrow> blocks_structure before (raw # raws) \<and> (\<forall>r \<in> set (raw # raws). citations_hold slots r)"
    unfolding block Cons.IH
    by (cases raw) (auto simp: citations_hold_simps expected_mode_other split: sum.splits)
  finally show ?case .
qed simp

lemma validate_block_ascii:
  assumes "signs_answers sign" and "slots_numbered slots"
    and "validate_block sign slots ordinal before raw = Inr (b, n)"
  shows "ascii (ab_result_hmac b)"
proof -
  obtain t ids where t: "CHR 0x00 \<notin> set t" "utf8_valid t" and ids: "\<forall>i \<in> set ids. available slots i \<noteq> None"
    and b: "sign_block sign ordinal t ids (expected_mode slots ids) = Inr b"
    using assms(3) by (auto simp: validate_block_Inr bounded_text_Inr)
  show ?thesis
    using sign_block_returns [OF assms(1) t slot_ids_ascii [OF assms(2) ids] expected_mode_cases,
        of ordinal slots ids] b by auto
qed

lemma validate_loop_ascii:
  "signs_answers sign \<Longrightarrow> slots_numbered slots \<Longrightarrow> validate_loop sign slots ordinal before raws = Inr bs
    \<Longrightarrow> list_all (\<lambda>b. ascii (ab_result_hmac b)) bs"
  by (induction raws arbitrary: ordinal before bs) (auto dest: validate_block_ascii)

lemma audit_payload_ascii: "list_all (\<lambda>b. ascii (ab_result_hmac b)) bs \<Longrightarrow> json_ascii (audit_payload bs)"
  by (simp add: audit_payload_def list.pred_map comp_def)

text \<open>With a signer that works, what the check returns depends on the answer and the slots alone.\<close>

lemma validate_payload_returns:
  assumes "signs_answers sign"
  shows "(\<exists>v. validate_payload sign payload slots = Inr v) \<longleftrightarrow> answer_structure_is_valid payload
    \<and> (raw_blocks payload = [] \<or> slots_numbered slots \<and> list_all (citations_hold slots) (raw_blocks payload))"
proof (cases "raw_blocks payload = []")
  case True
  then show ?thesis
    by (auto simp: validate_payload_empty answer_structure_is_valid_def raw_blocks_def returns_iff
        split: json.splits)
next
  case False
  have loop: "(\<exists>bs. validate_loop sign slots 0 0 (raw_blocks payload) = Inr bs) \<longleftrightarrow>
      blocks_structure 0 (raw_blocks payload) \<and> list_all (citations_hold slots) (raw_blocks payload)"
    if "slots_numbered slots"
    using blocks_structure_iff [OF assms that] by (simp add: list_all_iff)
  have joined: "CHR 0x00 \<notin> set (join_blank (map ab_text bs)) \<and> utf8_valid (join_blank (map ab_text bs))"
    if "validate_loop sign slots 0 0 (raw_blocks payload) = Inr bs" "slots_numbered slots" for bs
    using validate_loop_grounded [OF that(1) slots_numbered_names(2) [OF that(2)]]
    by (intro join_blank_valid) auto
  have shape: "answer_structure_is_valid payload \<longleftrightarrow> (\<exists>kvs. payload = JObj kvs
      \<and> exact_key_set kvs payload_keys \<and> length (raw_blocks payload) \<le> 8
      \<and> member kvs ''insufficient_evidence_reason'' = JNull \<and> blocks_structure 0 (raw_blocks payload))"
    using False by (auto simp: answer_structure_is_valid_def raw_blocks_def split: json.splits)
  have "(\<exists>v. validate_payload sign payload slots = Inr v) \<longleftrightarrow> (\<exists>kvs. payload = JObj kvs
      \<and> exact_key_set kvs payload_keys \<and> length (raw_blocks payload) \<le> 8
      \<and> member kvs ''insufficient_evidence_reason'' = JNull)
    \<and> slots_numbered slots \<and> (\<exists>bs. validate_loop sign slots 0 0 (raw_blocks payload) = Inr bs)"
    (is "_ \<longleftrightarrow> ?parts")
  proof
    assume "\<exists>v. validate_payload sign payload slots = Inr v"
    then show ?parts by (auto simp: validate_payload_blocks [OF False])
  next
    assume ?parts
    then obtain kvs bs where parts: "payload = JObj kvs" "exact_key_set kvs payload_keys"
      "length (raw_blocks payload) \<le> 8" "member kvs ''insufficient_evidence_reason'' = JNull"
      "slots_numbered slots" and bs: "validate_loop sign slots 0 0 (raw_blocks payload) = Inr bs"
      by blast
    obtain h where h: "sign ''assembled'' (utf8_json (join_blank (map ab_text bs))) = Inr h"
      using signs_answersD [OF assms _ utf8_json_ascii, of "''assembled''"] by auto
    obtain a where a: "sign ''audit_set'' (audit_payload bs) = Inr a"
      using signs_answersD [OF assms, of "''audit_set''"]
        audit_payload_ascii [OF validate_loop_ascii [OF assms parts(5) bs]] by auto
    show "\<exists>v. validate_payload sign payload slots = Inr v"
      unfolding validate_payload_blocks [OF False]
      using parts bs joined [OF bs parts(5)] h a by blast
  qed
  then show ?thesis unfolding shape using loop False by auto
qed

section \<open>Properties\<close>

text \<open>
  C15. An accepted answer is grounded in the evidence it was given: either it has no block and states a
  reason of 1 to 400 characters, or it has at most eight blocks, numbered from zero, whose text is at
  most 1200 characters each and 2400 together; every block cites at least one slot, no slot twice, only
  slots on offer; it is called a trusted fact exactly when every slot it cites is one; and the selected
  slots are exactly the cited ones, each once.
\<close>

theorem accepted_answer_is_grounded:
  assumes "validate_answer_output sign payload slots = Inr v"
  shows "(as_blocks v = [] \<and> as_selected_slot_ids v = []
      \<and> (\<exists>r. as_insufficient_reason v = Some r \<and> 1 \<le> code_points r \<and> code_points r \<le> 400))
    \<or> (as_insufficient_reason v = None \<and> length (as_blocks v) \<le> 8
      \<and> map ab_ordinal (as_blocks v) = [0..<length (as_blocks v)]
      \<and> (\<forall>b \<in> set (as_blocks v). block_grounded slots b)
      \<and> sum_list (map (code_points \<circ> ab_text) (as_blocks v)) \<le> 2400
      \<and> distinct (as_selected_slot_ids v)
      \<and> set (as_selected_slot_ids v) = (\<Union>b \<in> set (as_blocks v). set (ab_slot_ids b))
      \<and> as_assembled v = join_blank (map ab_text (as_blocks v)))"
proof -
  have v: "validate_payload sign payload slots = Inr v"
    using assms by (simp add: validate_answer_output_def split: sum.splits)
  show ?thesis
  proof (cases "raw_blocks payload = []")
    case True
    then show ?thesis using v by (auto simp: validate_payload_empty bounded_text_Inr)
  next
    case False
    with v obtain blocks where numbered: "slots_numbered slots" "length (raw_blocks payload) \<le> 8"
      and loop: "validate_loop sign slots 0 0 (raw_blocks payload) = Inr blocks"
      and v': "as_blocks v = blocks" "as_insufficient_reason v = None"
        "as_selected_slot_ids v = select_ids (concat (map ab_slot_ids blocks))"
        "as_assembled v = join_blank (map ab_text blocks)"
      by (auto simp: validate_payload_blocks)
    show ?thesis
      using validate_loop_grounded [OF loop slots_numbered_names(2) [OF numbered(1)]] numbered(2) v' False
        select_ids_set [of "concat (map ab_slot_ids blocks)"]
      by auto
  qed
qed

text \<open>
  C18. With the signer of a cost policy that has a key, whose normal form leaves ASCII alone and whose
  digests are hexadecimal, the check accepts exactly the answers whose structure is valid and, when they
  have blocks, whose slots are numbered and whose citations hold. A refusal is classified as a citation
  failure exactly when the structure is valid and the slots or a citation are at fault, and as a failure
  of the structure exactly when the structure is not valid.
\<close>

theorem refusal_classified_by_fault:
  assumes "policy_signs p"
  shows "(\<exists>v. validate_answer_output (sign_answer_artifact p) payload slots = Inr v) =
      (answer_structure_is_valid payload
        \<and> (raw_blocks payload = []
            \<or> slots_numbered slots \<and> list_all (citations_hold slots) (raw_blocks payload)))
    \<and> (failure_classification (sign_answer_artifact p) payload slots = Inr ''citation_validation_failed'') =
      (answer_structure_is_valid payload \<and> raw_blocks payload \<noteq> []
        \<and> \<not> (slots_numbered slots \<and> list_all (citations_hold slots) (raw_blocks payload)))
    \<and> (failure_classification (sign_answer_artifact p) payload slots = Inr ''structured_output_invalid'') =
      (\<not> answer_structure_is_valid payload)"
proof -
  let ?sign = "sign_answer_artifact p"
  have ok: "(\<exists>v. validate_payload ?sign payload slots = Inr v) \<longleftrightarrow> answer_structure_is_valid payload
    \<and> (raw_blocks payload = [] \<or> slots_numbered slots \<and> list_all (citations_hold slots) (raw_blocks payload))"
    by (rule validate_payload_returns [OF policy_signs_answers [OF assms]])
  have returned: "(\<exists>v. validate_answer_output ?sign payload slots = Inr v)
      = (\<exists>v. validate_payload ?sign payload slots = Inr v)"
    by (auto simp: validate_answer_output_def split: sum.splits)
  have "(failure_classification ?sign payload slots = Inr ''citation_validation_failed'') =
      (\<not> (\<exists>v. validate_payload ?sign payload slots = Inr v) \<and> answer_structure_is_valid payload)"
    and "(failure_classification ?sign payload slots = Inr ''structured_output_invalid'') =
      (\<not> (\<exists>v. validate_payload ?sign payload slots = Inr v) \<and> \<not> answer_structure_is_valid payload)"
    by (cases "validate_payload ?sign payload slots"; simp add: failure_classification_def)+
  then show ?thesis using ok returned by blast
qed

section \<open>Witnesses\<close>

definition demo_signer :: signer where
  "demo_signer kind v = Inr kind"

definition answer_demo_evidence :: evidence where
  "answer_demo_evidence =
     \<lparr>ev_serving_document_id = ''d'', ev_serving_kind = Trusted_Knowledge, ev_public_source_id = ''s'',
      ev_public_source_type = None, ev_support_mode = trusted_fact, ev_model_content = ''content'',
      ev_effective_permission = ''public'', ev_serving_identity_hmac = ''i'',
      ev_serving_version_fingerprint = ''f'', ev_model_content_hmac = ''m'',
      ev_citation_projection_hmac = ''c''\<rparr>"

definition answer_demo_slots :: "slot list" where
  "answer_demo_slots =
     [\<lparr>sl_slot_id = ''E1'', sl_support_mode = trusted_fact, sl_evidence = answer_demo_evidence,
       sl_score = 1, sl_matched_terms = []\<rparr>]"

definition answer_demo_payload :: "string \<Rightarrow> json" where
  "answer_demo_payload sid = JObj
     [(''answer_blocks'', JList [JObj
        [(''text'', JStr ''yes''), (''evidence_slot_ids'', JList [JStr sid]),
         (''support_mode'', JStr trusted_fact)]]),
      (''insufficient_evidence_reason'', JNull)]"

lemma answer_demo_numbered: "slots_numbered answer_demo_slots"
  by (simp add: slots_numbered_def dict_keys_def answer_demo_slots_def slot_name_def decimal_nat.simps
      hex_digit_def)

lemma demo_policy_signs: "policy_signs demo_policy"
  using demo_policy_ready
  by (simp add: policy_signs_def signer_def policy_ready_def demo_policy_def demo_primitives_def)

lemma answer_demo_text: "bounded_text 1200 (JStr ''yes'') = Inr ''yes''"
  by (simp add: bounded_text_Inr strip_plain plain_def code_points_def utf8_tail_def utf8_valid_ascii)

lemma answer_demo_structure: "answer_structure_is_valid (answer_demo_payload sid)"
  using answer_demo_text
  by (auto simp: answer_structure_is_valid_def answer_demo_payload_def exact_key_set_def payload_keys_def
      block_keys_def member_def raw_slot_ids_def code_points_def utf8_tail_def)

lemma answer_demo_raw: "raw_blocks (answer_demo_payload sid) =
    [JObj [(''text'', JStr ''yes''), (''evidence_slot_ids'', JList [JStr sid]),
           (''support_mode'', JStr trusted_fact)]]"
  by (simp add: raw_blocks_def answer_demo_payload_def member_def)

lemma answer_demo_citations: "citations_hold answer_demo_slots
    (JObj [(''text'', JStr ''yes''), (''evidence_slot_ids'', JList [JStr sid]),
           (''support_mode'', JStr trusted_fact)]) \<longleftrightarrow> sid = ''E1''"
  by (simp add: citations_hold_simps member_def raw_slot_ids_def expected_mode_def available_def
      answer_demo_slots_def)

theorem refusal_classified_by_fault_witness:
  "(\<exists>v. validate_answer_output (sign_answer_artifact demo_policy) (answer_demo_payload ''E1'')
      answer_demo_slots = Inr v)
   \<and> failure_classification (sign_answer_artifact demo_policy) (answer_demo_payload ''E2'') answer_demo_slots
       = Inr ''citation_validation_failed''
   \<and> failure_classification (sign_answer_artifact demo_policy) JNull answer_demo_slots
       = Inr ''structured_output_invalid''"
  using refusal_classified_by_fault [OF demo_policy_signs, of "answer_demo_payload ''E1''" answer_demo_slots]
    refusal_classified_by_fault [OF demo_policy_signs, of "answer_demo_payload ''E2''" answer_demo_slots]
    refusal_classified_by_fault [OF demo_policy_signs, of JNull answer_demo_slots]
  by (simp add: answer_demo_structure answer_demo_raw answer_demo_citations answer_demo_numbered
      answer_structure_is_valid_def [of JNull])

lemma answer_demo_accepted:
  "\<exists>v. validate_answer_output demo_signer (answer_demo_payload ''E1'') answer_demo_slots = Inr v
     \<and> as_blocks v \<noteq> []"
proof -
  have yes: "exact_utf8_bytes ''yes'' = Inr (utf8_json ''yes'')" by (simp add: utf8_valid_ascii)
  have "returns (validate_answer_output demo_signer (answer_demo_payload ''E1'') answer_demo_slots)"
    and "as_blocks (projr (validate_answer_output demo_signer (answer_demo_payload ''E1'') answer_demo_slots)) \<noteq> []"
    using answer_demo_text yes answer_demo_numbered [unfolded answer_demo_slots_def]
    by (simp_all add: validate_answer_output_def validate_payload_def answer_demo_payload_def member_def
        exact_key_set_def payload_keys_def block_keys_def insert_commute Let_def validate_block_def raw_slot_ids_def code_points_def utf8_tail_def available_def answer_demo_slots_def
        expected_mode_def sign_block_def demo_signer_def del: exact_utf8_bytes_Inr)
  then show ?thesis by (auto simp: returns_iff)
qed

definition demo_answer :: answer_blocks where
  "demo_answer = projr (validate_answer_output demo_signer (answer_demo_payload ''E1'') answer_demo_slots)"

lemma demo_answer_validated:
  "validate_answer_output demo_signer (answer_demo_payload ''E1'') answer_demo_slots = Inr demo_answer"
  "as_blocks demo_answer \<noteq> []"
  using answer_demo_accepted by (auto simp: demo_answer_def)

theorem accepted_answer_is_grounded_witness:
  "as_insufficient_reason demo_answer = None
   \<and> list_all (block_grounded answer_demo_slots) (as_blocks demo_answer)"
  using accepted_answer_is_grounded [OF demo_answer_validated(1)] demo_answer_validated(2)
  by (simp add: list_all_iff)

end
