(* ===== verification/Json_Round_Trip.thy ===== *)
theory Json_Round_Trip
  imports Exact_Json "HOL-Library.Multiset"
begin

text \<open>
  What the reader of \<open>Exact_Json\<close> and the two encoders are to each other: a value without floats and
  without repeated keys, written in insertion order, is read back as itself. The lemmas follow the
  grammar (escapes, strings, numbers, values), each over a text that continues with an arbitrary tail.
\<close>

section \<open>Strings\<close>

lemma hex_value_digit: "n < 16 \<Longrightarrow> hex_value (hex_digit n) = Some n"
proof -
  assume "n < 16"
  then have "n \<in> set [0..<16]" by simp
  moreover have "list_all (\<lambda>n. hex_value (hex_digit n) = Some n) [0..<16]" by code_simp
  ultimately show ?thesis unfolding list_all_iff by blast
qed

lemma read_hex4_control:
  assumes "n < 32"
  shows "read_hex4 (CHR ''0'' # CHR ''0'' # hex_digit (n div 16) # hex_digit (n mod 16) # r) = Some (n, r)"
proof -
  have "hex_value CHR ''0'' = Some 0" by code_simp
  moreover have "n div 16 < 16" using assms by simp
  ultimately show ?thesis by (simp add: hex_value_digit)
qed

lemma encode_point_ascii: "n < 128 \<Longrightarrow> encode_point n = [char_of n]"
  by (simp add: encode_point_def)

lemma read_escape_u_control:
  assumes "n < 32"
  shows "read_escape_u (CHR ''0'' # CHR ''0'' # hex_digit (n div 16) # hex_digit (n mod 16) # r)
    = Some ([char_of n], r)"
  using assms read_hex4_control [OF assms, of r]
  by (simp add: read_escape_u_def high_surrogate_def encode_point_ascii del: read_hex4.simps)

declare read_chars.simps [simp del]

lemma read_chars_escape:
  "read_chars (json_escape c @ r) = map_option (\<lambda>(y, t). (c # y, t)) (read_chars r)"
proof -
  consider (named) "c \<in> set [CHR 0x5C, CHR 0x22, CHR 0x08, CHR 0x0C, CHR 0x0A, CHR 0x0D, CHR 0x09]"
    | (control) "c \<notin> set [CHR 0x5C, CHR 0x22, CHR 0x08, CHR 0x0C, CHR 0x0A, CHR 0x0D, CHR 0x09]"
        "of_char c < (32 :: nat)"
    | (plain) "c \<notin> set [CHR 0x5C, CHR 0x22, CHR 0x08, CHR 0x0C, CHR 0x0A, CHR 0x0D, CHR 0x09]"
        "\<not> of_char c < (32 :: nat)"
    by blast
  then show ?thesis
  proof cases
    case named
    then show ?thesis
      by (auto simp: json_escape_def read_chars.simps simple_escape_def)
  next
    case control
    then have "json_escape c = CHR 0x5C # CHR ''u'' # CHR ''0'' # CHR ''0''
        # [hex_digit (of_char c div 16), hex_digit (of_char c mod 16)]"
      by (simp add: json_escape_def hex_byte_def)
    with control(2) show ?thesis
      by (simp add: read_chars.simps read_escape_u_control)
  next
    case plain
    then show ?thesis by (simp add: json_escape_def read_chars.simps)
  qed
qed

lemma read_chars_quoted:
  "read_chars (concat (map json_escape s) @ CHR 0x22 # t) = Some (s, t)"
proof (induction s)
  case Nil
  show ?case by (simp add: read_chars.simps)
next
  case (Cons c s)
  then show ?case by (simp add: read_chars_escape)
qed

lemma json_quote_read: "json_quote s @ t = CHR 0x22 # (concat (map json_escape s) @ CHR 0x22 # t)"
  by (simp add: json_quote_def)

section \<open>Numbers\<close>

lemma digit_hex_digit: "n < 10 \<Longrightarrow> digit (hex_digit n) \<and> of_char (hex_digit n) = 48 + n"
proof -
  assume "n < 10"
  then have "n \<in> set [0..<10]" by simp
  moreover have "list_all (\<lambda>n. digit (hex_digit n) \<and> of_char (hex_digit n) = 48 + n) [0..<10]"
    by code_simp
  ultimately show ?thesis unfolding list_all_iff by blast
qed

lemma read_decimal_snoc: "read_decimal acc (s @ [c]) = 10 * read_decimal acc s + (of_char c - 48)"
  by (induction s arbitrary: acc) auto

lemma read_decimal_nat: "read_decimal 0 (decimal_nat n) = n"
proof (induction n rule: decimal_nat.induct)
  case (1 n)
  show ?case
  proof (cases "n < 10")
    case True
    then show ?thesis using digit_hex_digit by (simp add: decimal_nat_small)
  next
    case False
    then show ?thesis
      using 1 digit_hex_digit [of "n mod 10"] by (simp add: decimal_nat_large read_decimal_snoc)
  qed
qed

lemma decimal_nat_digits: "list_all digit (decimal_nat n) \<and> decimal_nat n \<noteq> []"
proof (induction n rule: decimal_nat.induct)
  case (1 n)
  show ?case
  proof (cases "n < 10")
    case True
    then show ?thesis using digit_hex_digit by (simp add: decimal_nat_small)
  next
    case False
    then show ?thesis using 1 digit_hex_digit [of "n mod 10"] by (simp add: decimal_nat_large)
  qed
qed

lemma hex_digit_zero: "n < 10 \<Longrightarrow> hex_digit n = CHR ''0'' \<Longrightarrow> n = 0"
  using digit_hex_digit [of n] by simp

text \<open>Only zero is written with a leading zero.\<close>

lemma decimal_nat_leading: "hd (decimal_nat n) = CHR ''0'' \<Longrightarrow> n = 0"
proof (induction n rule: decimal_nat.induct)
  case (1 n)
  show ?case
  proof (cases "n < 10")
    case True
    then show ?thesis using 1(2) hex_digit_zero by (simp add: decimal_nat_small)
  next
    case False
    then have "hd (decimal_nat (n div 10)) = CHR ''0''"
      using 1(2) decimal_nat_digits [of "n div 10"] by (simp add: decimal_nat_large)
    then have "n div 10 = 0" using 1(1) False by blast
    then show ?thesis using False by simp
  qed
qed

text \<open>A tail no digit, fraction or exponent can be read from.\<close>

definition number_stops :: "string \<Rightarrow> bool" where
  "number_stops t \<longleftrightarrow> t = [] \<or> \<not> digit (hd t) \<and> hd t \<notin> set ''.eE''"

lemma takeWhile_all: "list_all P xs \<Longrightarrow> (t = [] \<or> \<not> P (hd t)) \<Longrightarrow> takeWhile P (xs @ t) = xs"
  by (induction xs) (cases t, auto)+

lemma read_number_decimal:
  assumes "number_stops t" and "length (decimal_nat n) \<le> 4300"
  shows "read_number (decimal_nat n @ t) = Some (JInt (int n), t)"
    and "read_number (CHR ''-'' # decimal_nat n @ t) = Some (JInt (- int n), t)"
proof -
  obtain c s where d: "decimal_nat n = c # s" using decimal_nat_digits [of n] by (cases "decimal_nat n") auto
  have c: "digit c" and "list_all digit s" using decimal_nat_digits [of n] d by auto
  then have tw: "takeWhile digit (s @ t) = s"
    using assms(1) by (intro takeWhile_all) (auto simp: number_stops_def)
  have zero: "s = []" if "c = CHR ''0''"
  proof -
    have "n = 0" using decimal_nat_leading [of n] d that by simp
    then show ?thesis using d by (simp add: decimal_nat_small)
  qed
  have rest: "read_fraction t = ([], t)" "read_exponent t = ([], t)"
    using assms(1) by (cases t; auto simp: read_fraction_def read_exponent_def number_stops_def)+
  have minus: "c \<noteq> CHR ''-''" using c by (auto simp: digit_def)
  have whole: "(case c # s @ t of x # _ \<Rightarrow> if x = CHR ''0'' then [x] else takeWhile digit (c # s @ t) | [] \<Rightarrow> [])
      = c # s"
    using c tw zero by simp
  have val: "read_decimal 0 (c # s) = n" using read_decimal_nat [of n] d by simp
  have len: "\<not> 4300 < length (c # s)" using assms(2) d by simp
  have drop: "drop (length (c # s)) (c # s @ t) = t" by simp
  have sign: "takeWhile (\<lambda>x. x = CHR ''-'') (take 1 (c # s @ t)) = []" using minus by simp
  have sign': "takeWhile (\<lambda>x. x = CHR ''-'') (take 1 (CHR ''-'' # c # s @ t)) = ''-''" by simp
  have drop': "drop (length ''-'') (CHR ''-'' # c # s @ t) = c # s @ t" by simp
  show "read_number (decimal_nat n @ t) = Some (JInt (int n), t)"
    unfolding read_number_def Let_def d append_Cons sign list.size(3) drop_0 whole drop rest
      prod.case append_Nil val using len by simp
  show "read_number (CHR ''-'' # decimal_nat n @ t) = Some (JInt (- int n), t)"
    unfolding read_number_def Let_def d append_Cons sign' drop' whole drop rest prod.case append_Nil val
    using len by simp
qed

lemma read_number_int:
  assumes "number_stops t" and "length (decimal_nat (nat \<bar>i\<bar>)) \<le> 4300"
  shows "read_number (decimal_int i @ t) = Some (JInt i, t)"
  using assms read_number_decimal [of t "nat \<bar>i\<bar>"]
  by (cases "i < 0") (simp_all add: decimal_int_def)

section \<open>Values\<close>

text \<open>The values that are read back: no float, no repeated key, no integer past the digit limit.\<close>

fun readable :: "json \<Rightarrow> bool" where
  "readable (JFloat _) = False"
| "readable (JInt i) = (length (decimal_nat (nat \<bar>i\<bar>)) \<le> 4300)"
| "readable (JList xs) = list_all readable xs"
| "readable (JObj kvs) = (distinct (map fst kvs) \<and> list_all (\<lambda>(_, v). readable v) kvs)"
| "readable _ = True"

lemma skip_ws_quote: "skip_ws (json_quote s @ t) = json_quote s @ t"
  by (simp add: json_quote_def json_space_def)

lemma decimal_int_head:
  "\<exists>c s. decimal_int i = c # s \<and> (digit c \<or> c = CHR ''-'')"
  using decimal_nat_digits [of "nat i"] decimal_nat_digits [of "nat (- i)"]
  by (cases "decimal_nat (nat i)") (auto simp: decimal_int_def)

text \<open>A value starts with a character that is no space and closes nothing.\<close>

lemma dumps_head:
  assumes "readable v"
  shows "\<exists>c s. json_dumps_ordered v = c # s \<and> \<not> json_space c \<and> c \<notin> set '']},:''"
proof (cases v)
  case (JInt i)
  then show ?thesis using decimal_int_head [of i] by (auto simp: json_space_def digit_def)
qed (use assms in \<open>auto simp: json_space_def json_quote_def\<close>)

lemma skip_ws_dumps: "readable v \<Longrightarrow> skip_ws (json_dumps_ordered v @ t) = json_dumps_ordered v @ t"
  using dumps_head [of v] by auto

definition value_stops :: "string \<Rightarrow> bool" where
  "value_stops t \<longleftrightarrow> t = [] \<or> hd t \<in> set '',]}''"

lemma value_stops_number: "value_stops t \<Longrightarrow> number_stops t"
  by (auto simp: value_stops_def number_stops_def digit_def)

lemma join_comma_Cons: "join_comma (x # xs) = x @ (if xs = [] then [] else CHR '','' # join_comma xs)"
  by (cases xs) simp_all

lemma dump_ordered_items_Nil [simp]: "dump_ordered_items xs = [] \<longleftrightarrow> xs = []"
  by (cases xs) simp_all

lemma dump_ordered_members_Nil [simp]: "dump_ordered_members kvs = [] \<longleftrightarrow> kvs = []"
  by (cases kvs) auto

lemma read_value_int:
  assumes "number_stops t" and "length (decimal_nat (nat \<bar>i\<bar>)) \<le> 4300"
  shows "read_value (Suc n) (decimal_int i @ t) = Some (JInt i, t)"
proof -
  obtain c s where d: "decimal_int i = c # s" and c: "digit c \<or> c = CHR ''-''"
    using decimal_int_head by blast
  have "c \<noteq> CHR 0x22" "c \<noteq> CHR ''{''" "c \<noteq> CHR ''[''" "c \<noteq> CHR ''n''" "c \<noteq> CHR ''t''" "c \<noteq> CHR ''f''"
    using c by (auto simp: digit_def)
  then show ?thesis using read_number_int [OF assms] d by simp
qed

lemma read_back:
  "readable v \<Longrightarrow> value_stops t \<Longrightarrow> length (json_dumps_ordered v) \<le> n \<Longrightarrow>
     read_value n (json_dumps_ordered v @ t) = Some (v, t)"
  "list_all readable xs \<Longrightarrow> xs \<noteq> [] \<Longrightarrow> length (join_comma (dump_ordered_items xs)) < n \<Longrightarrow>
     read_elements n (join_comma (dump_ordered_items xs) @ CHR '']'' # t) = Some (xs, t)"
  "list_all (\<lambda>(_, v). readable v) kvs \<Longrightarrow> kvs \<noteq> [] \<Longrightarrow> length (join_comma (dump_ordered_members kvs)) < n \<Longrightarrow>
     read_members n (join_comma (dump_ordered_members kvs) @ CHR ''}'' # t) = Some (kvs, t)"
proof (induction v and xs and kvs arbitrary: n t and n t and n t
    rule: json_dumps_ordered_dump_ordered_items_dump_ordered_members.induct)
  case 1
  then obtain m where "n = Suc m" by (cases n) auto
  then show ?case by simp
next
  case (2 b)
  then obtain m where "n = Suc m" by (cases n) (auto split: if_splits)
  then show ?case by simp
next
  case (3 i)
  then obtain m where n: "n = Suc m"
    using decimal_int_head [of i] by (cases n) auto
  show ?case using 3 unfolding n json_dumps_ordered.simps
    by (intro read_value_int value_stops_number) simp_all
next
  case (4 r)
  then show ?case by simp
next
  case (5 s)
  then obtain m where "n = Suc m" by (cases n) (auto simp: json_quote_def)
  then show ?case using read_chars_quoted by (simp add: json_quote_read)
next
  case (6 xs)
  then obtain m where n: "n = Suc m" by (cases n) auto
  show ?case
  proof (cases "xs = []")
    case True
    then show ?thesis using n by (simp add: json_space_def)
  next
    case False
    have ne: "skip_ws (join_comma (dump_ordered_items xs) @ CHR '']'' # t)
        = join_comma (dump_ordered_items xs) @ CHR '']'' # t"
      "take 1 (join_comma (dump_ordered_items xs) @ CHR '']'' # t) \<noteq> '']''"
      using False 6(2) dumps_head [of "hd xs"] by (cases xs; auto simp: join_comma_Cons)+
    have "read_elements m (join_comma (dump_ordered_items xs) @ CHR '']'' # t) = Some (xs, t)"
      using 6 False n by simp
    then show ?thesis using ne n by simp
  qed
next
  case (7 kvs)
  then obtain m where n: "n = Suc m" by (cases n) auto
  show ?case
  proof (cases "kvs = []")
    case True
    then show ?thesis using n by (simp add: json_space_def)
  next
    case False
    have ne: "skip_ws (join_comma (dump_ordered_members kvs) @ CHR ''}'' # t)
        = join_comma (dump_ordered_members kvs) @ CHR ''}'' # t"
      "take 1 (join_comma (dump_ordered_members kvs) @ CHR ''}'' # t) \<noteq> ''}''"
      using False by (cases kvs; auto simp: join_comma_Cons json_quote_def json_space_def)+
    have "read_members m (join_comma (dump_ordered_members kvs) @ CHR ''}'' # t) = Some (kvs, t)"
      using 7 False n by simp
    then show ?thesis using ne n 7(2) by simp
  qed
next
  case 8
  then show ?case by simp
next
  case (9 x xs)
  then obtain m where n: "n = Suc m" by (cases n) auto
  show ?case
  proof (cases "xs = []")
    case True
    then have "read_value m (json_dumps_ordered x @ CHR '']'' # t) = Some (x, CHR '']'' # t)"
      using 9 n by (simp add: value_stops_def)
    then show ?thesis using True n by (simp add: json_space_def)
  next
    case False
    let ?rest = "join_comma (dump_ordered_items xs) @ CHR '']'' # t"
    have v: "read_value m (json_dumps_ordered x @ CHR '','' # ?rest) = Some (x, CHR '','' # ?rest)"
      using 9 False n by (simp add: value_stops_def join_comma_Cons)
    have "skip_ws ?rest = ?rest"
      using False 9(3) dumps_head [of "hd xs"] by (cases xs) (auto simp: join_comma_Cons)
    moreover have "read_elements m ?rest = Some (xs, t)"
      using 9 False n by (simp add: join_comma_Cons)
    ultimately show ?thesis using False n v by (simp add: join_comma_Cons json_space_def)
  qed
next
  case 10
  then show ?case by simp
next
  case (11 k v kvs)
  then obtain m where n: "n = Suc m" by (cases n) auto
  have key: "read_chars (concat (map json_escape k) @ CHR 0x22 # s) = Some (k, s)" for s
    by (rule read_chars_quoted)
  have ws: "skip_ws (json_dumps_ordered v @ s) = json_dumps_ordered v @ s" for s
    using 11 by (intro skip_ws_dumps) simp
  show ?case
  proof (cases "kvs = []")
    case True
    then have "read_value m (json_dumps_ordered v @ CHR ''}'' # t) = Some (v, CHR ''}'' # t)"
      using 11 n by (simp add: value_stops_def)
    then show ?thesis using True n key ws by (simp add: json_space_def json_quote_def)
  next
    case False
    let ?rest = "join_comma (dump_ordered_members kvs) @ CHR ''}'' # t"
    have v: "read_value m (json_dumps_ordered v @ CHR '','' # ?rest) = Some (v, CHR '','' # ?rest)"
      using 11 False n by (simp add: value_stops_def join_comma_Cons)
    have "skip_ws ?rest = ?rest"
      using False by (cases kvs) (auto simp: join_comma_Cons json_quote_def json_space_def)
    moreover have "read_members m ?rest = Some (kvs, t)"
      using 11 False n by (simp add: join_comma_Cons)
    ultimately show ?thesis
      using False n v key ws by (simp add: join_comma_Cons json_space_def json_quote_def)
  qed
qed

lemma json_loads_dumps_ordered:
  assumes "readable v"
  shows "json_loads (json_dumps_ordered v) = Some v"
proof -
  have "read_value (Suc (length (json_dumps_ordered v))) (json_dumps_ordered v @ []) = Some (v, [])"
    using assms by (intro read_back) (simp_all add: value_stops_def)
  then show ?thesis using skip_ws_dumps [OF assms, of "[]"] by (simp add: json_loads_def)
qed

section \<open>Sorted keys\<close>

text \<open>\<open>sort_keys\<close> at every level; on a value whose keys are sorted the two encoders agree.\<close>

fun keys_sorted :: "json \<Rightarrow> bool" where
  "keys_sorted (JList xs) = list_all keys_sorted xs"
| "keys_sorted (JObj kvs) = (sorted (map fst kvs) \<and> list_all (\<lambda>(_, v). keys_sorted v) kvs)"
| "keys_sorted _ = True"

lemma dumps_ordered_eq:
  "keys_sorted v \<Longrightarrow> json_dumps_ordered v = json_dumps v"
  "list_all keys_sorted xs \<Longrightarrow> dump_ordered_items xs = dump_items xs"
  "list_all (\<lambda>(_, v). keys_sorted v) kvs \<Longrightarrow>
     dump_ordered_members kvs = map (\<lambda>(k, v). json_quote k @ '':'' @ v) (dump_members kvs)
     \<and> map fst (dump_members kvs) = map fst kvs"
proof (induction v and xs and kvs rule: json_dumps_ordered_dump_ordered_items_dump_ordered_members.induct)
  case (7 kvs)
  then have "sort_key fst (dump_members kvs) = dump_members kvs"
    by (intro sort_key_id_if_sorted) simp
  with 7 show ?case by simp
qed simp_all

lemma readable_tree:
  "readable v \<Longrightarrow> validate_json_tree v"
  by (induction v) (fastforce simp: list_all_iff)+

section \<open>Well-formed text\<close>

lemma ascii_byte: "of_char c < (128 :: nat) \<Longrightarrow> utf8_valid [c]"
  by (simp add: utf8_valid_def utf8_bytes_valid.simps(2))

lemma utf8_valid_ascii_Cons: "of_char c < (128 :: nat) \<Longrightarrow> utf8_valid (c # s) = utf8_valid s"
  by (simp add: utf8_valid_def utf8_bytes_valid.simps(2))

lemma json_escape_high:
  assumes "\<not> of_char c < (128 :: nat)"
  shows "json_escape c = [c]"
proof -
  have "c \<notin> set [CHR 0x5C, CHR 0x22, CHR 0x08, CHR 0x0C, CHR 0x0A, CHR 0x0D, CHR 0x09]"
  proof
    assume "c \<in> set [CHR 0x5C, CHR 0x22, CHR 0x08, CHR 0x0C, CHR 0x0A, CHR 0x0D, CHR 0x09]"
    then have "of_char c \<in> set (map (of_char :: char \<Rightarrow> nat)
      [CHR 0x5C, CHR 0x22, CHR 0x08, CHR 0x0C, CHR 0x0A, CHR 0x0D, CHR 0x09])"
      by (metis imageI list.set_map)
    then show False using assms by simp
  qed
  moreover have "\<not> of_char c < (32 :: nat)" using assms by linarith
  ultimately show ?thesis by (simp add: json_escape_def)
qed

lemma json_escape_low:
  assumes "of_char c < (128 :: nat)"
  shows "utf8_valid (json_escape c)"
proof -
  have hex: "utf8_valid (hex_byte c)"
  proof -
    have "of_char c div 16 < (16 :: nat)" using assms by simp
    then show ?thesis by (intro utf8_valid_ascii) (simp add: hex_byte_def hex_digit_ascii)
  qed
  have "utf8_valid [CHR 0x5C, CHR ''u'', CHR ''0'', CHR ''0'']" by (rule utf8_valid_ascii) simp
  from utf8_valid_append [OF this hex]
  have control: "utf8_valid ([CHR 0x5C, CHR ''u'', CHR ''0'', CHR ''0''] @ hex_byte c)" .
  have pair: "utf8_valid [CHR 0x5C, x]" if "\<not> digit7 x" for x
    using that by (intro utf8_valid_ascii) simp
  show ?thesis using ascii_byte [OF assms] control pair by (simp add: json_escape_def)
qed

text \<open>Replacing ASCII bytes by well-formed texts keeps a text well-formed.\<close>

lemma utf8_high_cases:
  assumes "utf8_bytes_valid (a # bs)" and "\<not> a < 128"
  obtains (two) b r where "bs = b # r" "194 \<le> a" "a < 224" "utf8_tail b" "utf8_bytes_valid r"
    | (three) b c r where "bs = b # c # r" "224 \<le> a" "a < 240" "utf8_tail b" "utf8_tail c"
        "a = 224 \<longrightarrow> 160 \<le> b" "a = 237 \<longrightarrow> b < 160" "utf8_bytes_valid r"
    | (four) b c d r where "bs = b # c # d # r" "240 \<le> a" "a < 245" "utf8_tail b" "utf8_tail c" "utf8_tail d"
        "a = 240 \<longrightarrow> 144 \<le> b" "a = 244 \<longrightarrow> b < 144" "utf8_bytes_valid r"
  using assms
  by (subst (asm) utf8_bytes_valid.simps(2)) (auto split: list.splits if_splits simp: not_less)

lemma utf8_bytes_valid_concat:
  assumes high: "\<And>b. \<not> b < 128 \<Longrightarrow> b < 256 \<Longrightarrow> f b = [b]" and low: "\<And>b. b < 128 \<Longrightarrow> utf8_bytes_valid (f b)"
  shows "utf8_bytes_valid xs \<Longrightarrow> utf8_bytes_valid (concat (map f xs))"
proof (induction xs rule: utf8_bytes_valid.induct)
  case (2 a bs)
  show ?case
  proof (cases "a < 128")
    case True
    then show ?thesis using 2 low by (simp add: utf8_bytes_valid.simps(2) utf8_bytes_valid_append)
  next
    case False
    have "a < 256" by (rule utf8_high_cases [OF 2(5) False]) simp_all
    then have f: "f a = [a]" using False by (intro high)
    have h: "f b = [b]" if "utf8_tail b" for b using that by (intro high) (simp_all add: utf8_tail_def)
    from 2(5) False show ?thesis
    proof (cases rule: utf8_high_cases)
      case (two b r)
      then have "utf8_bytes_valid (concat (map f r))" using False 2(2) [of b r] by simp
      then show ?thesis using two f h by (simp add: utf8_bytes_valid.simps(2))
    next
      case (three b c r)
      then have "utf8_bytes_valid (concat (map f r))" using False 2(3) [of b "c # r" c r] by simp
      then show ?thesis using three f h by (simp add: utf8_bytes_valid.simps(2))
    next
      case (four b c d r)
      then have "utf8_bytes_valid (concat (map f r))"
        using False 2(4) [of b "c # d # r" c "d # r" d r] by simp
      then show ?thesis using four f h by (simp add: utf8_bytes_valid.simps(2))
    qed
  qed
qed simp

lemma utf8_valid_escaped:
  assumes "utf8_valid s"
  shows "utf8_valid (concat (map json_escape s))"
proof -
  let ?f = "\<lambda>b :: nat. map of_char (json_escape (char_of b)) :: nat list"
  have "utf8_bytes_valid (concat (map ?f (map of_char s)))"
  proof (rule utf8_bytes_valid_concat)
    show "?f b = [b]" if "\<not> b < 128" "b < 256" for b
      using that by (simp add: json_escape_high)
    show "utf8_bytes_valid (?f b)" if "b < 128" for b
      using that json_escape_low [of "char_of b"] by (simp add: utf8_valid_def)
    show "utf8_bytes_valid (map of_char s)" using assms by (simp add: utf8_valid_def)
  qed
  then show ?thesis by (simp add: utf8_valid_def map_concat comp_def)
qed


lemma utf8_valid_Nil [simp]: "utf8_valid []"
  by (simp add: utf8_valid_def)

lemma utf8_valid_join: "list_all utf8_valid xs \<Longrightarrow> utf8_valid (join_comma xs)"
  by (induction xs rule: join_comma.induct) (auto simp: utf8_valid_ascii_Cons intro: utf8_valid_append)

lemma utf8_valid_quote: "utf8_valid s \<Longrightarrow> utf8_valid (json_quote s)"
  unfolding json_quote_def
  by (intro utf8_valid_append utf8_valid_escaped) (simp_all add: utf8_valid_ascii)

lemma utf8_valid_decimal: "utf8_valid (decimal_int i)"
proof -
  have "\<not> digit7 c" if "digit c" for c using that by (auto simp: digit_def)
  then have "utf8_valid (decimal_nat n)" for n
    using decimal_nat_digits [of n] by (intro utf8_valid_ascii) (auto simp: list_all_iff)
  then show ?thesis by (simp add: decimal_int_def utf8_valid_ascii_Cons)
qed

lemma utf8_valid_dumps:
  "readable v \<Longrightarrow> json_encodable v \<Longrightarrow> utf8_valid (json_dumps_ordered v)"
  "list_all readable xs \<Longrightarrow> list_all json_encodable xs \<Longrightarrow> list_all utf8_valid (dump_ordered_items xs)"
  "list_all (\<lambda>(_, v). readable v) kvs \<Longrightarrow> list_all (\<lambda>(k, v). utf8_valid k \<and> json_encodable v) kvs \<Longrightarrow>
     list_all utf8_valid (dump_ordered_members kvs)"
proof (induction v and xs and kvs rule: json_dumps_ordered_dump_ordered_items_dump_ordered_members.induct)
  case (6 xs)
  then have "utf8_valid (join_comma (dump_ordered_items xs))" by (simp add: utf8_valid_join)
  then show ?case by (simp add: utf8_valid_ascii_Cons utf8_valid_append utf8_valid_ascii)
next
  case (7 kvs)
  then have "utf8_valid (join_comma (dump_ordered_members kvs))" by (simp add: utf8_valid_join)
  then show ?case by (simp add: utf8_valid_ascii_Cons utf8_valid_append utf8_valid_ascii)
next
  case (11 k v kvs)
  then have "utf8_valid (json_quote k @ '':'' @ json_dumps_ordered v)"
    by (intro utf8_valid_append utf8_valid_quote) (simp_all add: utf8_valid_ascii)
  with 11 show ?case by simp
qed (simp_all add: utf8_valid_ascii utf8_valid_decimal utf8_valid_quote)

section \<open>Text of either encoder\<close>

lemma json_text_clean:
  "readable v \<Longrightarrow> json_encodable v \<Longrightarrow> utf8_valid (json_dumps v)"
  "list_all readable xs \<Longrightarrow> list_all json_encodable xs \<Longrightarrow> list_all utf8_valid (dump_items xs)"
  "list_all (\<lambda>(_, v). readable v) kvs \<Longrightarrow> list_all (\<lambda>(k, v). utf8_valid k \<and> json_encodable v) kvs \<Longrightarrow>
     list_all (\<lambda>(k, v). utf8_valid k \<and> utf8_valid v) (dump_members kvs)"
proof (induction v and xs and kvs rule: json_dumps_dump_items_dump_members.induct)
  case (6 xs)
  then have "utf8_valid (join_comma (dump_items xs))" by (simp add: utf8_valid_join)
  then show ?case by (simp add: utf8_valid_ascii_Cons utf8_valid_append utf8_valid_ascii)
next
  case (7 kvs)
  then have "list_all (\<lambda>(k, v). utf8_valid k \<and> utf8_valid v) (sort_key fst (dump_members kvs))"
    by (simp add: list_all_iff)
  moreover have "utf8_valid (json_quote k @ '':'' @ s)" if "utf8_valid k" "utf8_valid s" for k s
    using that by (simp add: utf8_valid_ascii_Cons utf8_valid_append utf8_valid_quote)
  ultimately have "list_all utf8_valid (map (\<lambda>(k, v). json_quote k @ '':'' @ v) (sort_key fst (dump_members kvs)))"
    by (force simp: list_all_iff)
  then show ?case by (simp add: utf8_valid_ascii_Cons utf8_valid_append utf8_valid_ascii utf8_valid_join)
qed (simp_all add: utf8_valid_ascii utf8_valid_decimal utf8_valid_quote)

lemma json_escape_nul: "CHR 0x00 \<notin> set (json_escape c)"
proof -
  have "hex_digit n \<noteq> CHR 0x00" if "n < 16" for n
  proof -
    have "n \<in> set [0..<16]" using that by simp
    moreover have "list_all (\<lambda>n. hex_digit n \<noteq> CHR 0x00) [0..<16]" by code_simp
    ultimately show ?thesis unfolding list_all_iff by blast
  qed
  moreover have "of_char c div 16 < (16 :: nat)"
    using of_char_mod_256 [of c, where 'a = nat] by (metis (no_types) less_mult_imp_div_less
        mod_less_divisor numeral_times_numeral semiring_norm(12,13,14) zero_less_numeral)
  ultimately have "hex_digit (of_char c div 16) \<noteq> CHR 0x00" "hex_digit (of_char c mod 16) \<noteq> CHR 0x00"
    by simp_all
  then show ?thesis by (auto simp: json_escape_def hex_byte_def dest: sym)
qed

lemma json_quote_nul: "CHR 0x00 \<notin> set (json_quote s)"
  using json_escape_nul by (auto simp: json_quote_def)

lemma decimal_int_nul: "CHR 0x00 \<notin> set (decimal_int i)"
proof -
  have "\<not> digit CHR 0x00" by (simp add: digit_def)
  then have "CHR 0x00 \<notin> set (decimal_nat n)" for n
    using decimal_nat_digits [of n] unfolding list_all_iff by metis
  then show ?thesis by (simp add: decimal_int_def)
qed

lemma set_join_comma: "set (join_comma xs) \<subseteq> (\<Union>x \<in> set xs. set x) \<union> {CHR '',''}"
  by (induction xs rule: join_comma.induct) auto

lemma json_text_nul:
  "readable v \<Longrightarrow> CHR 0x00 \<notin> set (json_dumps v)"
  "list_all readable xs \<Longrightarrow> \<forall>s \<in> set (dump_items xs). CHR 0x00 \<notin> set s"
  "list_all (\<lambda>(_, v). readable v) kvs \<Longrightarrow> \<forall>(k, s) \<in> set (dump_members kvs). CHR 0x00 \<notin> set s"
proof (induction v and xs and kvs rule: json_dumps_dump_items_dump_members.induct)
  case (6 xs)
  then show ?case using set_join_comma [of "dump_items xs"] by auto
next
  case (7 kvs)
  then show ?case
    using set_join_comma [of "map (\<lambda>(k, v). json_quote k @ '':'' @ v) (sort_key fst (dump_members kvs))"]
      json_quote_nul
    by fastforce
qed (auto simp: json_quote_nul decimal_int_nul)

lemma json_ordered_nul:
  "readable v \<Longrightarrow> CHR 0x00 \<notin> set (json_dumps_ordered v)"
  "list_all readable xs \<Longrightarrow> \<forall>s \<in> set (dump_ordered_items xs). CHR 0x00 \<notin> set s"
  "list_all (\<lambda>(_, v). readable v) kvs \<Longrightarrow> \<forall>s \<in> set (dump_ordered_members kvs). CHR 0x00 \<notin> set s"
proof (induction v and xs and kvs rule: json_dumps_ordered_dump_ordered_items_dump_ordered_members.induct)
  case (6 xs)
  then show ?case using set_join_comma [of "dump_ordered_items xs"] by auto
next
  case (7 kvs)
  then show ?case using set_join_comma [of "dump_ordered_members kvs"] by auto
qed (auto simp: json_quote_nul decimal_int_nul)

text \<open>A bound of the length of the text, computed from the lengths of the strings.\<close>

fun json_bound :: "json \<Rightarrow> nat" where
  "json_bound (JStr s) = 6 * length s + 2"
| "json_bound (JInt i) = length (decimal_int i)"
| "json_bound (JFloat r) = length r"
| "json_bound (JList xs) = sum_list (map (\<lambda>x. Suc (json_bound x)) xs) + 2"
| "json_bound (JObj kvs) = sum_list (map (\<lambda>(k, v). 6 * length k + 4 + json_bound v) kvs) + 2"
| "json_bound _ = 5"

lemma length_json_quote: "length (json_quote s) \<le> 6 * length s + 2"
proof -
  have "length (json_escape c) \<le> 6" for c by (simp add: json_escape_def hex_byte_def)
  then have "length (concat (map json_escape s)) \<le> 6 * length s"
    by (induction s) (simp_all add: add_mono)
  then show ?thesis by (simp add: json_quote_def)
qed

lemma length_join_comma: "length (join_comma xs) \<le> sum_list (map (\<lambda>x. Suc (length x)) xs)"
  by (induction xs rule: join_comma.induct) auto

lemma length_json_dumps:
  "length (json_dumps v) \<le> json_bound v"
  "sum_list (map (\<lambda>s. Suc (length s)) (dump_items xs)) \<le> sum_list (map (\<lambda>x. Suc (json_bound x)) xs)"
  "sum_list (map (\<lambda>(k, s). length (json_quote k) + 2 + length s) (dump_members kvs))
     \<le> sum_list (map (\<lambda>(k, v). 6 * length k + 4 + json_bound v) kvs)"
proof (induction v and xs and kvs rule: json_dumps_dump_items_dump_members.induct)
  case (6 xs)
  then show ?case using length_join_comma [of "dump_items xs"] by simp
next
  case (7 kvs)
  let ?ms = "dump_members kvs" and ?f = "\<lambda>(k :: string, s :: string). length (json_quote k) + 2 + length s"
  have "sum_list (map ?f (sort_key fst ?ms)) = sum_list (map ?f ?ms)"
    by (simp flip: sum_mset_sum_list)
  moreover have "sum_list (map (\<lambda>x. Suc (length x)) (map (\<lambda>(k, v). json_quote k @ '':'' @ v) (sort_key fst ?ms)))
      = sum_list (map ?f (sort_key fst ?ms))"
    by (simp add: comp_def case_prod_unfold)
  ultimately show ?case
    using 7 length_join_comma [of "map (\<lambda>(k, v). json_quote k @ '':'' @ v) (sort_key fst ?ms)"] by simp
next
  case (11 k v kvs)
  then show ?case using length_json_quote [of k] by simp
qed (use length_json_quote in \<open>auto simp: add_mono\<close>)

lemma decode_exact_written:
  assumes "readable v" and "json_encodable v"
  shows "decode_exact_json (json_dumps_ordered v) name False = Inr v"
    and "keys_sorted v \<Longrightarrow> decode_exact_json (json_dumps v) name True = Inr v"
proof -
  note valid = utf8_valid_dumps(1) [OF assms]
  have l: "json_loads (json_dumps_ordered v) = Some v" by (rule json_loads_dumps_ordered [OF assms(1)])
  then show "decode_exact_json (json_dumps_ordered v) name False = Inr v"
    using valid assms readable_tree by (simp add: decode_exact_json_def insertion_order_json_bytes_def)
  show "decode_exact_json (json_dumps v) name True = Inr v" if "keys_sorted v"
    using l valid assms readable_tree dumps_ordered_eq(1) [OF that]
    by (simp add: decode_exact_json_def estimator_json_bytes_def)
qed

text \<open>
  C19. The exact JSON of an answer request is read back as the value it was written from: for every
  value without floats, without a repeated key and with integers of at most 4300 digits, whose strings
  are well-formed UTF-8, the reader returns the value, the insertion-order text is accepted as exact
  and, when the keys are sorted, the canonical text as canonical.
\<close>

theorem exact_json_round_trip:
  assumes "readable v" and "json_encodable v"
  shows "json_loads (json_dumps_ordered v) = Some v
    \<and> decode_exact_json (json_dumps_ordered v) name False = Inr v
    \<and> (keys_sorted v \<longrightarrow> decode_exact_json (json_dumps v) name True = Inr v)"
  using json_loads_dumps_ordered [OF assms(1)] decode_exact_written [OF assms] by blast

definition demo_document :: json where
  "demo_document = JObj [(''answer'', JList [JInt 5, JStr [CHR 0x22, CHR 0x0A, CHR 0x5C]]), (''z'', JNull)]"

theorem exact_json_round_trip_witness:
  "json_loads (json_dumps_ordered demo_document) = Some demo_document
   \<and> decode_exact_json (json_dumps demo_document) ''schema'' True = Inr demo_document"
proof -
  have "readable demo_document" "json_encodable demo_document" "keys_sorted demo_document"
    by (simp_all add: demo_document_def decimal_nat.simps utf8_valid_ascii)
  then show ?thesis using exact_json_round_trip [of demo_document "''schema''"] by simp
qed

end
