(* ===== verification/Answer_Witnesses.thy ===== *)
theory Answer_Witnesses
  imports Answer_Model
begin

text \<open>
  A concrete answer call for the properties of \<open>Answer_Model\<close>: a policy whose tokenizer counts nothing, a
  scan that allows everything, one slot, one observation, and a provider message of \<open>Provider_Usage\<close>.
\<close>

section \<open>The policy and the environment\<close>

definition silent_tokenizer :: private_tokenizer where
  "silent_tokenizer = \<lparr>tz_fingerprint = ''f'', tz_encode = (\<lambda>_. Some []), tz_observe = (\<lambda>_. Inr ''f'')\<rparr>"

definition wit_policy :: cost_policy where
  "wit_policy = demo_policy\<lparr>cp_answer_tokenizer := silent_tokenizer\<rparr>"

lemma wit_policy_fields [simp]:
  "cp_primitives wit_policy = demo_primitives" "cp_secret wit_policy = ''secret''"
  "cp_authority wit_policy = registered_authority" "cp_schema_hmac wit_policy = demo_digest"
  "cp_answer_config_hmac wit_policy = demo_digest" "cp_answer_policy_hmac wit_policy = demo_digest"
  "cp_answer_tokenizer wit_policy = silent_tokenizer"
  by (simp_all add: wit_policy_def demo_policy_def)

lemma wit_policy_ready [simp]: "policy_ready wit_policy"
  by (simp add: policy_ready_def) (simp add: wit_policy_def demo_policy_def)

definition wit_env :: answer_env where
  "wit_env = \<lparr>ev_registry = \<lparr>rg_schema = answer_output_schema, rg_renderer = answer_prompt_renderer\<rparr>,
     ev_chat = (\<lambda>s u. Inr [System_Message (Text_Content s), Human_Message (Text_Content u)]),
     ev_scan = (\<lambda>_. True), ev_influence = (\<lambda>_ _. Inr ())\<rparr>"

lemma wit_env_fields [simp]:
  "ev_registry wit_env = \<lparr>rg_schema = answer_output_schema, rg_renderer = answer_prompt_renderer\<rparr>"
  "ev_chat wit_env s u = Inr [System_Message (Text_Content s), Human_Message (Text_Content u)]"
  "ev_scan wit_env t" "ev_influence wit_env ss is = Inr ()"
  by (simp_all add: wit_env_def)

lemma wit_faithful [simp]: "faithful_chat wit_env"
  by (simp add: faithful_chat_def)

definition system_text :: string where
  "system_text = (case answer_prompt_renderer of
     JObj kvs \<Rightarrow> (case map_of kvs ''system_content'' of Some (JStr s) \<Rightarrow> s | _ \<Rightarrow> []) | _ \<Rightarrow> [])"

definition user_text :: "string \<Rightarrow> slot list \<Rightarrow> string" where
  "user_text q slots = question_prefix @ question_json q @ evidence_separator @ evidence_json slots"

lemma wit_render:
  "render_answer_messages wit_env q slots = Inr [(''system'', system_text), (''user'', user_text q slots)]"
proof -
  have ready: "assert_registry_ready (ev_registry wit_env) = Inr ()"
    by (simp add: assert_registry_ready_def)
  show ?thesis
    unfolding render_answer_messages_def ready then_r.simps Let_def user_text_def system_text_def
    unfolding wit_env_fields(1) answer_registry.select_convs
    unfolding answer_prompt_renderer_def by simp
qed

lemma system_text_clean: "list_all (\<lambda>c. \<not> digit7 c) system_text" "CHR 0x00 \<notin> set system_text"
    "length system_text \<le> 700"
  by (simp_all add: system_text_def answer_prompt_renderer_def)

section \<open>Preparing a budget\<close>

definition clean :: "string \<Rightarrow> bool" where
  "clean s \<longleftrightarrow> CHR 0x00 \<notin> set s \<and> utf8_valid s"

lemma clean_exact: "clean s \<Longrightarrow> exact_utf8_bytes s = Inr (utf8_json s)"
  by (simp add: clean_def)

lemma schema_readable: "readable answer_output_schema \<and> json_encodable answer_output_schema"
  by (simp add: answer_output_schema_def decimal_nat.simps utf8_valid_ascii slot_name_def trusted_fact_def
      source_observation_def hex_digit_def upt_rec)

lemma schema_bound: "json_bound answer_output_schema \<le> 5000"
  by (simp add: answer_output_schema_def decimal_int_def decimal_nat.simps slot_name_def trusted_fact_def
      source_observation_def upt_rec)

text \<open>The budget of any two clean messages that are short enough.\<close>

definition wit_budget :: prepared_budget where
  "wit_budget = \<lparr>pb_component = Answer_Generation, pb_input_tokens = 528, pb_output_tokens = 512,
     pb_reserved_cost = 2700, pb_policy_hmac = demo_digest, pb_estimator_hmac = demo_digest\<rparr>"

definition wit_route :: answer_route where
  "wit_route = \<lparr>rt_provider = ''openai'', rt_model_name = ''gpt-5.4-mini-2026-03-17'',
     rt_config_hmac = demo_digest\<rparr>"

definition wit_model :: answer_model where
  "wit_model = \<lparr>am_route = wit_route, am_policy = wit_policy, am_policy_hmac = demo_digest\<rparr>"

lemma wit_model_fields [simp]:
  "am_policy wit_model = wit_policy" "am_policy_hmac wit_model = demo_digest"
  "rt_config_hmac (am_route wit_model) = demo_digest" "rt_model_name (am_route wit_model) = ''gpt-5.4-mini-2026-03-17''"
  by (simp_all add: wit_model_def wit_route_def)

lemma wit_prepare_budget:
  assumes "clean s" and "clean u" and "length s \<le> 700" and "length u \<le> 300"
  shows "prepare_budget wit_model [(''system'', s), (''user'', u)] = Inr wit_budget"
proof -
  let ?ms = "messages_value [(''system'', s), (''user'', u)]"
  have ms: "?ms = JList [JObj [(''content'', JStr s), (''ordinal'', JInt 1), (''role'', JStr ''system'')],
                         JObj [(''content'', JStr u), (''ordinal'', JInt 2), (''role'', JStr ''user'')]]"
    by (simp add: messages_value_def upt_rec)
  have r: "readable ?ms" "json_encodable ?ms" "keys_sorted ?ms"
    using assms by (simp_all add: ms decimal_nat.simps clean_def utf8_valid_ascii)
  have messages: "decode_exact_json (json_dumps ?ms) ''messages'' True = Inr ?ms"
    using decode_exact_written(2) [OF r] .
  have schema: "decode_exact_json (provider_bytes answer_output_schema) ''schema'' False = Inr answer_output_schema"
    unfolding provider_bytes_def using schema_readable by (intro decode_exact_written(1)) simp_all
  have exact: "validate_exact_messages ?ms = Inr ()"
    by (simp add: ms validate_exact_messages_def exact_message_def upt_rec insert_commute)
  have object: "(case answer_output_schema of JObj _ \<Rightarrow> True | _ \<Rightarrow> False)"
    by (simp add: answer_output_schema_def)
  have bytes: "clean (provider_bytes answer_output_schema)"
    unfolding clean_def provider_bytes_def
    using schema_readable by (simp add: utf8_valid_dumps json_ordered_nul)
  have schema_hmac: "answer_output_schema_hmac wit_policy (provider_bytes answer_output_schema) = Inr demo_digest"
    using bytes clean_exact [OF bytes]
    by (simp add: answer_output_schema_hmac_def clean_def demo_identity del: exact_utf8_bytes_Inr)
  have identity: "answer_model_config_identity registered_authority = ''rag-answer-model-config:v1''"
    by (simp add: registered_authority_def rag_answer_model_config_version_def)
  have estimator_version: "answer_estimator_version registered_authority = ''openai-o200k-rag-answer:v1''"
    by (simp add: registered_authority_def)
  let ?doc = "estimator_document registered_authority ?ms answer_output_schema"
  have doc: "readable ?doc" "json_encodable ?doc"
    using r schema_readable
    by (simp_all add: estimator_document_def utf8_valid_ascii identity)
  have clean: "clean (json_dumps ?doc)"
    using doc by (simp add: clean_def json_text_clean(1) json_text_nul(1))
  have "json_bound ?doc \<le> 12000"
    using schema_bound assms(3,4)
    by (simp add: estimator_document_def ms identity decimal_int_def decimal_nat.simps)
  then have short: "code_points (json_dumps ?doc) \<le> 12000"
    using length_json_dumps(1) [of ?doc] by (simp add: code_points_def le_trans [OF length_filter_le])
  have estimator: "estimator_hmac wit_policy ''rag-generation-estimator-input-bytes:v1''
      (answer_estimator_version registered_authority) (json_dumps ?doc) = Inr demo_digest"
    using clean_exact [OF clean]
    by (simp add: estimator_hmac_def demo_identity estimator_version clean [unfolded clean_def] del: exact_utf8_bytes_Inr)
  show ?thesis
    using messages schema exact object schema_hmac doc short estimator r
    by (simp add: prepare_budget_def canonical_bytes_def prepare_answer_generation_def Let_def
        estimator_json_bytes_def count_private_tokens_def verified_private_encoding_def silent_tokenizer_def
        rounded_cost_def ceil_div_def require_component_ceiling_def check_budget_def wit_budget_def
        answer_frame_token_overhead_def)
qed

lemma wit_model_made: "make_answer_model wit_env wit_route wit_policy = Inr wit_model"
proof -
  have "clean system_text" using system_text_clean utf8_valid_ascii by (simp add: clean_def)
  moreover have "clean (user_text [] [])" "length (user_text [] []) \<le> 300"
    unfolding clean_def by (simp_all add: user_text_def question_prefix_def evidence_separator_def
        question_json_def evidence_json_def json_quote_def json_escape_def utf8_valid_ascii)
  ultimately have "prepare_budget wit_model [(''system'', system_text), (''user'', user_text [] [])] = Inr wit_budget"
    using system_text_clean(3) by (intro wit_prepare_budget)
  then have "prepare_budget \<lparr>am_route = wit_route, am_policy = wit_policy, am_policy_hmac = demo_digest\<rparr>
      [(''system'', system_text), (''user'', user_text [] [])] = Inr wit_budget"
    by (simp add: wit_model_def)
  then show ?thesis
    by (simp add: make_answer_model_def wit_route_def authorized_policy_snapshot_hmac_def exact_component_def
        policy_hmac_of_def wit_render scan_messages_def require_safe_def wit_model_def require_def)
qed

section \<open>A prepared input\<close>

definition wit_evidence :: evidence where
  "wit_evidence =
     \<lparr>ev_serving_document_id = ''d'', ev_serving_kind = Trusted_Knowledge, ev_public_source_id = ''s'',
      ev_public_source_type = None, ev_support_mode = trusted_fact, ev_model_content = ''yes'',
      ev_effective_permission = ''public'', ev_serving_identity_hmac = demo_digest,
      ev_serving_version_fingerprint = demo_digest, ev_model_content_hmac = demo_digest,
      ev_citation_projection_hmac = demo_digest\<rparr>"

definition wit_slots :: "slot list" where
  "wit_slots = [\<lparr>sl_slot_id = ''E1'', sl_support_mode = trusted_fact, sl_evidence = wit_evidence,
     sl_score = 1, sl_matched_terms = []\<rparr>]"

lemma slot_name_1 [simp]: "slot_name (Suc 0) = ''E1''"
  by (simp add: slot_name_def decimal_nat.simps hex_digit_def)

lemma wit_slots_valid: "validate_slots wit_slots = Inr ()"
  by (simp add: validate_slots_Inr wit_slots_def wit_evidence_def slot_well_formed_def)

lemma wit_slots_renumber: "renumber_slots wit_slots = wit_slots"
  by (simp add: renumber_slots_def wit_slots_def)

lemma wit_user: "clean (user_text ''why'' wit_slots)" "length (user_text ''why'' wit_slots) \<le> 300"
  by (simp_all add: clean_def user_text_def question_prefix_def evidence_separator_def question_json_def
      evidence_json_def json_quote_def json_escape_def utf8_valid_ascii wit_slots_def wit_evidence_def
      trusted_fact_def)

definition wit_messages :: "(string \<times> string) list" where
  "wit_messages = [(''system'', system_text), (''user'', user_text ''why'' wit_slots)]"

lemma wit_messages_budget: "prepare_budget wit_model wit_messages = Inr wit_budget"
proof -
  have "clean system_text" using system_text_clean utf8_valid_ascii by (simp add: clean_def)
  then show ?thesis unfolding wit_messages_def
    using system_text_clean(3) wit_user by (intro wit_prepare_budget)
qed

lemma wit_sign:
  assumes "kind \<in> set (map fst artifact_domains)" and "json_plain v"
  shows "sign_answer_artifact wit_policy kind v = Inr demo_digest"
proof -
  obtain sv pv where d: "map_of artifact_domains kind = Some (sv, pv)"
    using assms(1) by (cases "map_of artifact_domains kind") (auto simp: map_of_eq_None_iff)
  have "list_all (\<lambda>(_, sv, pv). sv \<noteq> [] \<and> plain (hd sv) \<and> plain (last sv) \<and> pv \<noteq> [] \<and> plain (hd pv)
      \<and> plain (last pv) \<and> utf8_valid sv \<and> utf8_valid pv) artifact_domains"
    by code_simp
  then have "sv \<noteq> []" "plain (hd sv)" "plain (last sv)" "pv \<noteq> []" "plain (hd pv)" "plain (last pv)"
      "utf8_valid sv" "utf8_valid pv"
    using map_of_SomeD [OF d] by (auto simp: list_all_iff)
  then have "keyed_fingerprint demo_primitives ''secret'' sv pv v = Inr demo_digest"
    using assms(2) by (intro demo_keyed) simp_all
  then show ?thesis by (simp add: sign_answer_artifact_def d)
qed

lemma wit_rendered: "rendered_input_hmac wit_model wit_messages = Inr demo_digest"
proof -
  have "clean system_text" using system_text_clean utf8_valid_ascii by (simp add: clean_def)
  then have "exact_utf8_list (map snd wit_messages) = Inr [utf8_json system_text, utf8_json (user_text ''why'' wit_slots)]"
    using wit_user(1) by (simp add: wit_messages_def clean_def)
  moreover have "[Suc 0..<Suc (length wit_messages)] = [1, 2]" by (simp add: wit_messages_def upt_rec)
  ultimately show ?thesis
    unfolding rendered_input_hmac_def
    by (simp add: wit_messages_def artifact_domains_def wit_sign utf8_valid_ascii)
qed

definition wit_input :: prepared_input where
  "wit_input =
     \<lparr>pi_messages = wit_messages, pi_slots = wit_slots, pi_question_hmac = demo_digest,
      pi_query_hmac = demo_digest, pi_rendered_hmac = demo_digest, pi_estimator_hmac = demo_digest,
      pi_encoded_tokens = 0, pi_framed_tokens = 528, pi_reserved_cost = 2700, pi_config_hmac = demo_digest,
      pi_policy_hmac = demo_digest, pi_input_hmac = demo_digest, pi_budget = wit_budget\<rparr>"

lemma format6_2700: "format6 2700 = ''0.002700''"
  by (simp add: format6_def format_f_def decimal_nat_large decimal_nat_small hex_digit_def numeral_2_eq_2)

lemma slot_authority_plain: "json_plain (slot_authority (hd wit_slots))"
  by (simp add: slot_authority_def wit_slots_def wit_evidence_def serving_kind_name_def utf8_valid_ascii
      trusted_fact_def)

lemma wit_draft: "draft_input wit_model demo_digest demo_digest wit_slots wit_messages wit_budget = Inr wit_input"
proof -
  let ?draft = "wit_input\<lparr>pi_input_hmac := replicate 64 CHR ''0''\<rparr>"
  have "json_plain (JObj (input_authority ?draft))"
    using slot_authority_plain
    by (simp add: input_authority_def wit_input_def wit_budget_def format6_2700 utf8_valid_ascii
        wit_slots_def)
  then have "sign_answer_artifact wit_policy ''prepared_input'' (JObj (input_authority ?draft)) = Inr demo_digest"
    by (intro wit_sign) (simp_all add: artifact_domains_def)
  then show ?thesis
    by (simp add: draft_input_def wit_rendered Let_def wit_input_def wit_budget_def
        answer_frame_token_overhead_def)
qed

lemma wit_round: "one_round wit_env wit_model ''why'' demo_digest demo_digest wit_slots = Inr wit_input"
  using wit_messages_budget wit_draft
  by (simp add: one_round_def wit_slots_renumber wit_render wit_messages_def scan_messages_def require_safe_def)

lemma wit_not_over: "\<not> over_budget wit_env wit_model ''why'' wit_slots"
  using wit_messages_budget by (simp add: over_budget_def wit_slots_renumber wit_render wit_messages_def)

lemma wit_prepared:
  "prepare_input wit_env wit_model ''why'' wit_slots demo_digest demo_digest = Inr (Some wit_input)"
proof -
  have "prepare_loop wit_env wit_model ''why'' demo_digest demo_digest wit_slots = Inr wit_input"
    using wit_not_over wit_round by (subst prepare_loop_round) (simp add: wit_slots_def)
  then show ?thesis
    using wit_slots_valid by (simp add: prepare_input_def require_safe_def Let_def) (simp add: wit_slots_def)
qed

theorem prepared_input_authenticates_witness:
  "validate_prepared_input wit_env wit_model wit_input = Inr ()"
  using prepared_input_authenticates [OF wit_model_made wit_policy_ready wit_faithful wit_prepared] by blast

theorem rendered_prompt_is_unambiguous_witness:
  "question_from_messages [(''system'', system_text), (''user'', user_text [CHR 0x22, CHR 0x0A] wit_slots)]
     = Inr [CHR 0x22, CHR 0x0A]"
  using rendered_prompt_is_unambiguous [OF wit_render wit_faithful] by blast

theorem preparation_keeps_longest_prefix_witness:
  "prepare_loop wit_env wit_model ''why'' demo_digest demo_digest wit_slots = Inr wit_input"
proof -
  have one: "n = 1" if "n \<le> length wit_slots" "\<forall>m. n < m \<and> m \<le> length wit_slots \<longrightarrow>
      over_budget wit_env wit_model ''why'' (take m wit_slots)" for n
  proof (cases n)
    case 0
    then show ?thesis using that(2) wit_not_over by (auto simp: wit_slots_def)
  qed (use that(1) in \<open>simp add: wit_slots_def\<close>)
  obtain n where n: "n \<le> length wit_slots" "\<forall>m. n < m \<and> m \<le> length wit_slots \<longrightarrow>
      over_budget wit_env wit_model ''why'' (take m wit_slots)"
    "prepare_loop wit_env wit_model ''why'' demo_digest demo_digest wit_slots =
        (if n = 0 then Inl Budget_Exceeded
         else one_round wit_env wit_model ''why'' demo_digest demo_digest (take n wit_slots))"
    using preparation_keeps_longest_prefix by blast
  have "take n wit_slots = wit_slots" using one [OF n(1,2)] by (simp add: wit_slots_def)
  then show ?thesis using n(3) one [OF n(1,2)] wit_round by simp
qed

section \<open>A call\<close>

definition wit_influence :: influence where
  "wit_influence =
     \<lparr>in_ordinal = 0, in_slot_id = ''E1'', in_support_mode = trusted_fact,
      in_lookup_identity =
        \<lparr>id_serving_document_id = ''d'', id_serving_kind = Trusted_Knowledge, id_public_source_id = ''s'',
         id_public_source_type = None, id_effective_permission = ''public'',
         id_model_content_hmac = demo_digest, id_citation_projection_hmac = demo_digest,
         id_serving_version_fingerprint = demo_digest\<rparr>,
      in_effective_permission = ''public'', in_serving_identity_hmac = demo_digest,
      in_serving_version_fingerprint = demo_digest, in_model_content_hmac = demo_digest,
      in_citation_projection_hmac = demo_digest, in_approval_provenance_hmac = None,
      in_evidence_link_set_hmac = None, in_observation_hmac = demo_digest\<rparr>"

definition wit_invocation :: prepared_invocation where
  "wit_invocation = prepared_input.extend wit_input
     \<lparr>pi_influence = [wit_influence], pi_invocation_hmac = demo_digest\<rparr>"

lemma wit_input_valid: "validate_prepared_input wit_env wit_model wit_input = Inr ()"
  using one_round_authenticates [OF wit_model_made wit_policy_ready wit_faithful wit_round]
    wit_slots_valid wit_slots_renumber by (simp add: require_safe_def)

lemma wit_bound: "bind_influence wit_env wit_model wit_input [wit_influence] = Inr wit_invocation"
proof -
  have aligned: "validate_influence_alignment wit_slots [wit_influence] = Inr ()"
    using wit_slots_valid
    by (simp add: validate_influence_alignment_def)
      (simp add: wit_slots_def wit_influence_def influence_aligned_def wit_evidence_def)
  let ?draft = "prepared_input.extend wit_input
     \<lparr>pi_influence = [wit_influence], pi_invocation_hmac = replicate 64 CHR ''0''\<rparr>"
  have plain: "json_plain (JObj (invocation_authority ?draft))"
    unfolding invocation_authority_def extended_input
    using slot_authority_plain
    by (simp add: input_authority_def wit_input_def wit_budget_def format6_2700 utf8_valid_ascii wit_slots_def
        prepared_input.extend_def wit_influence_def)
  have signed: "sign_answer_artifact wit_policy ''prepared_invocation'' (JObj (invocation_authority ?draft))
      = Inr demo_digest"
    using plain by (intro wit_sign) (simp add: artifact_domains_def)
  have slots: "pi_slots wit_input = wit_slots" by (simp add: wit_input_def)
  show ?thesis
    unfolding bind_influence_def Let_def wit_input_valid slots aligned wit_env_fields(4) then_r.simps
      wit_model_fields signed
    by (simp add: wit_invocation_def prepared_input.extend_def)
qed

definition wit_result :: provider_result where
  "wit_result =
     \<lparr>pr_keys = Some [''raw'', ''parsed'', ''parsing_error''], pr_heap = demo_heap, pr_message = demo_message,
      pr_metadata = Some [(''model'', Some ''gpt-5.4-mini-2026-03-17''), (''object'', Some ''response''),
                          (''service_tier'', Some ''default'')],
      pr_parsed = JNull, pr_parsing_error = False\<rparr>"

definition wit_world :: call_world where
  "wit_world = \<lparr>cw_safe_before = True, cw_safe_after = True, cw_permit = Inr (), cw_outcome = Some wit_result,
     cw_started_ns = 0, cw_finished_ns = 5000000\<rparr>"

definition wit_envelope :: answer_envelope where
  "wit_envelope = \<lparr>en_result = wit_result, en_model = ''gpt-5.4-mini-2026-03-17'', en_object = ''response'',
     en_service_tier = ''default'',
     en_usage = \<lparr>input_tokens = 7, output_tokens = 5, total_tokens = 12\<rparr>, en_latency_ms = 5\<rparr>"

lemma wit_call: "invoke_once wit_env wit_model wit_invocation wit_world
    = ([Permit_Presented, Model_Invoked], Inr wit_envelope)"
proof -
  have "validate_prepared wit_env wit_model wit_invocation = Inr ()"
    by (rule bound_authenticates [OF _ wit_bound]) simp
  moreover have "parse_message demo_heap demo_message
      = Inr \<lparr>input_tokens = 7, output_tokens = 5, total_tokens = 12\<rparr>"
    by code_simp
  moreover have "charge_actual wit_policy ''answer_generation'' \<lparr>input_tokens = 7, output_tokens = 5, total_tokens = 12\<rparr>
      = Inr 28"
    by (simp add: charge_actual_def exact_component_def is_signed_bigint_def signed_bigint_max_def
        rounded_cost_def ceil_div_def)
  moreover have "pi_budget wit_invocation = wit_budget"
    by (simp add: wit_invocation_def prepared_input.extend_def wit_input_def)
  ultimately show ?thesis
    by (simp add: invoke_once_def wit_world_def read_envelope_def wit_result_def wit_budget_def
        answer_component_cap_def wit_envelope_def insert_commute)
qed

theorem call_is_guarded_witness:
  "validate_prepared wit_env wit_model wit_invocation = Inr ()
   \<and> cw_outcome wit_world = Some (en_result wit_envelope)"
  using call_is_guarded [OF wit_call] by simp

end
