(* ===== verification/Review_Promotion.thy ===== *)
theory Review_Promotion
  imports Retrieval
begin

text \<open>
  \<open>knowledge/promotion.py\<close>: what an approved review item becomes. The payload of an item is a JSON
  object; the four knowledge tables are lists of rows with the unique index on the review item a row
  comes from, and their next identifiers; a flush that fails raises, and the caller's transaction is rolled back. The outcome of
  \<open>assert_corpus_generation_refresh_armed\<close>, which reads the session, is an argument, and so are \<open>py_str\<close>,
  Python's \<open>str\<close> of a value that is no string, and \<open>bind\<close>, the text the driver makes of such a value for a
  text column, if it takes it. The Korean texts are their UTF-8 bytes.
\<close>

section \<open>Review items\<close>

record review_item =
  ri_id :: int
  ri_item_type :: string
  ri_payload :: "(string \<times> json) list"
  ri_source_links :: "string list"
  ri_source_snippets :: "string list"
  ri_confidence :: string
  ri_permission_level :: string
  ri_workflow_thread_id :: "string option"
  ri_candidate_key :: "string option"
  ri_agent_run_id :: "int option"
  ri_candidate_contract_version :: "string option"

definition promotable_review_types :: "string list" where
  "promotable_review_types = [''decision_record'', ''history_event'', ''timeline_event'', ''todo'']"

definition promotable :: "review_item \<Rightarrow> bool" where
  "promotable it \<longleftrightarrow> ri_item_type it \<in> set promotable_review_types"

text \<open>\<open>item.payload.get(key)\<close>.\<close>

definition payload_get :: "review_item \<Rightarrow> string \<Rightarrow> json" where
  "payload_get it k = (case map_of (ri_payload it) k of None \<Rightarrow> JNull | Some v \<Rightarrow> v)"

definition string_payload :: "review_item \<Rightarrow> string \<Rightarrow> string" where
  "string_payload it k = (case payload_get it k of JStr s \<Rightarrow> s | _ \<Rightarrow> [])"

text \<open>\<open>a or b\<close> on strings.\<close>

definition or_text :: "string \<Rightarrow> string \<Rightarrow> string" where
  "or_text a b = (if a = [] then b else a)"

text \<open>\<open>bool(value)\<close> of a JSON value.\<close>

fun truthy :: "json \<Rightarrow> bool" where
  "truthy JNull = False"
| "truthy (JBool b) = b"
| "truthy (JInt i) = (i \<noteq> 0)"
| "truthy (JFloat r) = (r \<notin> set [''0.0'', ''-0.0''])"
| "truthy (JStr s) = (s \<noteq> [])"
| "truthy (JList xs) = (xs \<noteq> [])"
| "truthy (JObj kvs) = (kvs \<noteq> [])"

section \<open>Normalised payloads\<close>

definition normalized_payload_for_item :: "review_item \<Rightarrow> (string \<times> string) list" where
  "normalized_payload_for_item it =
     (let p = string_payload it; t = ri_item_type it in
      if t = ''decision_record'' then
        [(''title'', p ''title''), (''decision_summary'', or_text (p ''decision_summary'') (p ''summary''))]
      else if t = ''history_event'' then
        [(''title'', p ''title''), (''reason'', or_text (p ''reason'') (p ''summary''))]
      else if t = ''timeline_event'' then
        [(''title'', p ''title''),
         (''result_summary'', or_text (or_text (p ''result_summary'') (p ''summary'')) (p ''reason''))]
      else if t = ''todo'' then
        [(''title'', p ''title''), (''priority'', or_text (p ''priority'') ''medium''),
         (''priority_reason'',
           or_text (or_text (or_text (p ''priority_reason'') (p ''recommended_next_step''))
             (p ''task_summary'')) (p ''summary''))]
      else if t = ''project_assignment'' then
        map (\<lambda>k. (k, p k))
          [''title'', ''summary'', ''project_key'', ''project_name'', ''source_id'', ''evidence_reason'']
      else map (\<lambda>k. (k, p k)) [''title'', ''summary''])"

definition required_fields_for_type :: "string \<Rightarrow> string list" where
  "required_fields_for_type t =
     (if t = ''decision_record'' then [''title'', ''decision_summary'']
      else if t = ''history_event'' then [''title'', ''reason'']
      else if t = ''timeline_event'' then [''title'', ''result_summary'']
      else if t = ''todo'' then [''title'', ''priority'', ''priority_reason'']
      else if t = ''project_assignment''
      then [''title'', ''project_key'', ''project_name'', ''source_id'', ''evidence_reason'']
      else [])"

definition is_project_routed_memory_item :: "review_item \<Rightarrow> bool" where
  "is_project_routed_memory_item it \<longleftrightarrow>
     promotable it \<and> payload_get it ''project_assignment_method'' = JStr ''llm_tool''"

definition requires_project_key :: "review_item \<Rightarrow> bool" where
  "requires_project_key it \<longleftrightarrow>
     promotable it \<and> payload_get it ''agent_name'' = JStr ''slack_agent''
     \<and> payload_get it ''project_assignment_method'' = JStr ''llm_tool''"

definition requires_project_selection :: "review_item \<Rightarrow> bool" where
  "requires_project_selection it \<longleftrightarrow>
     is_project_routed_memory_item it
     \<and> (string_payload it ''project_key'' = []
         \<or> payload_get it ''project_needs_user_selection'' = JBool True)"

definition required_fields_for_item :: "review_item \<Rightarrow> string list" where
  "required_fields_for_item it =
     (let required = required_fields_for_type (ri_item_type it)
      in if is_project_routed_memory_item it then required @ [''project_key''] else required)"

text \<open>\<open>d[key] = value\<close> on a dict in insertion order.\<close>

fun dict_set :: "string \<Rightarrow> 'a \<Rightarrow> (string \<times> 'a) list \<Rightarrow> (string \<times> 'a) list" where
  "dict_set k v [] = [(k, v)]"
| "dict_set k v ((k', v') # kvs) = (if k = k' then (k, v) # kvs else (k', v') # dict_set k v kvs)"

record promotion_preview =
  pv_target_type :: string
  pv_can_approve :: bool
  pv_missing :: "string list"
  pv_normalized :: "(string \<times> string) list"

definition preview_payload :: "review_item \<Rightarrow> (string \<times> string) list" where
  "preview_payload it =
     (let n = normalized_payload_for_item it;
          n1 = (if is_project_routed_memory_item it
                then dict_set ''project_key'' (string_payload it ''project_key'') n else n)
      in if requires_project_key it
         then dict_set ''project_key'' (string_payload it ''project_key'') n1 else n1)"

definition build_promotion_preview :: "review_item \<Rightarrow> promotion_preview" where
  "build_promotion_preview it =
     (let n = preview_payload it;
          missing = map fst (filter (\<lambda>(k, v). k \<in> set (required_fields_for_item it) \<and> strip v = []) n);
          missing' = (if requires_project_selection it \<and> ''project_key'' \<notin> set missing
                      then missing @ [''project_key''] else missing)
      in \<lparr>pv_target_type = (if promotable it then ri_item_type it else ''review_item''),
          pv_can_approve = (missing' = []), pv_missing = missing', pv_normalized = n\<rparr>)"

definition select_project_first :: string where
  "select_project_first =
     [CHR 0xED, CHR 0x94, CHR 0x84, CHR 0xEB, CHR 0xA1, CHR 0x9C, CHR 0xEC, CHR 0xA0,
      CHR 0x9D, CHR 0xED, CHR 0x8A, CHR 0xB8, CHR 0xEB, CHR 0xA5, CHR 0xBC, CHR 0x20,
      CHR 0xEC, CHR 0x84, CHR 0xA0, CHR 0xED, CHR 0x83, CHR 0x9D, CHR 0xED, CHR 0x95,
      CHR 0xB4, CHR 0xEC, CHR 0x95, CHR 0xBC, CHR 0x20, CHR 0xEC, CHR 0x8A, CHR 0xB9,
      CHR 0xEC, CHR 0x9D, CHR 0xB8, CHR 0xED, CHR 0x95, CHR 0xA0, CHR 0x20, CHR 0xEC,
      CHR 0x88, CHR 0x98, CHR 0x20, CHR 0xEC, CHR 0x9E, CHR 0x88, CHR 0xEC, CHR 0x8A,
      CHR 0xB5, CHR 0xEB, CHR 0x8B, CHR 0x88, CHR 0xEB, CHR 0x8B, CHR 0xA4, CHR 0x2E]"

definition validate_review_item_for_approval :: "review_item \<Rightarrow> unit result" where
  "validate_review_item_for_approval it =
     (let preview = build_promotion_preview it in
      if pv_can_approve preview then Inr ()
      else if pv_missing preview = [''project_key''] then Inl (Value_Error select_project_first)
      else Inl (Value_Error ''Review item is missing required fields''))"

section \<open>The knowledge tables\<close>

record memory_row =
  mr_id :: int
  mr_title :: string
  mr_text :: string
  mr_project_key :: "string option"
  mr_source_links :: "string list"
  mr_source_snippets :: "string list"
  mr_confidence :: string
  mr_permission_level :: string
  mr_review_status :: string
  mr_source_review_item_id :: int

text \<open>The text of a to-do is its priority reason.\<close>

record todo_row = memory_row +
  td_assignee :: "string option"
  td_due_date :: "string option"
  td_priority :: string

record knowledge_db =
  kd_decisions :: "memory_row list"
  kd_histories :: "memory_row list"
  kd_timelines :: "memory_row list"
  kd_todos :: "todo_row list"
  kd_next_decision :: int
  kd_next_history :: int
  kd_next_timeline :: int
  kd_next_todo :: int

text \<open>\<open>select(model.id).where(source_review_item_id == id).order_by(id)\<close>.\<close>

definition ids_of :: "'a memory_row_scheme list \<Rightarrow> int \<Rightarrow> int list" where
  "ids_of rows i = sort (map mr_id (filter (\<lambda>r. mr_source_review_item_id r = i) rows))"

text \<open>The identifiers in the table the type of an item is kept in.\<close>

definition record_ids_of :: "knowledge_db \<Rightarrow> string \<Rightarrow> int \<Rightarrow> int list" where
  "record_ids_of db t i =
     (if t = ''decision_record'' then ids_of (kd_decisions db) i
      else if t = ''history_event'' then ids_of (kd_histories db) i
      else if t = ''todo'' then ids_of (kd_todos db) i
      else [])"

record promotion =
  pm_target_type :: "string option"
  pm_record_ids :: "int list"
  pm_timeline_ids :: "int list"

definition find_review_item_promotion :: "knowledge_db \<Rightarrow> review_item \<Rightarrow> promotion option result" where
  "find_review_item_promotion db it =
     (if \<not> promotable it then
        (if ri_workflow_thread_id it = None then Inr None
         else Inr (Some \<lparr>pm_target_type = None, pm_record_ids = [], pm_timeline_ids = []\<rparr>))
      else
      let t = ri_item_type it;
          record_ids = record_ids_of db t (ri_id it);
          timeline_ids = ids_of (kd_timelines db) (ri_id it)
      in if record_ids = [] \<and> timeline_ids = [] then Inr None
         else if length record_ids \<noteq> (if t = ''timeline_event'' then 0 else 1) \<or> length timeline_ids \<noteq> 1
         then Inl (Value_Error ''Review promotion provenance is incomplete'')
         else Inr (Some \<lparr>pm_target_type = Some t, pm_record_ids = record_ids, pm_timeline_ids = timeline_ids\<rparr>))"

text \<open>
  What PostgreSQL stores in a text column: no NUL character, no surrogate. A \<open>String(n)\<close> column refuses
  a longer text, unless all that is too long are spaces, which it cuts off.
\<close>

definition stored_text :: "string \<Rightarrow> string option" where
  "stored_text s = (if CHR 0x00 \<in> set s \<or> \<not> utf8_valid s then None else Some s)"

definition trim_spaces :: "string \<Rightarrow> string" where
  "trim_spaces s = rev (dropWhile (\<lambda>c. c = CHR '' '') (rev s))"

definition varchar :: "nat \<Rightarrow> string \<Rightarrow> string option" where
  "varchar n s =
     (if stored_text s = None then None
      else if code_points s \<le> n then Some s
      else let t = trim_spaces s in
        if code_points t \<le> n then Some (t @ replicate (n - code_points t) CHR '' '') else None)"

definition varchar_option :: "nat \<Rightarrow> string option \<Rightarrow> string option option" where
  "varchar_option n v = (case v of None \<Rightarrow> Some None | Some s \<Rightarrow> map_option Some (varchar n s))"

text \<open>The project key is the member of the payload, whatever it is.\<close>

definition stored_key :: "(json \<Rightarrow> string option) \<Rightarrow> json \<Rightarrow> string option option" where
  "stored_key bind v =
     (case v of
        JNull \<Rightarrow> Some None
      | JStr s \<Rightarrow> varchar_option 64 (Some s)
      | _ \<Rightarrow> (case bind v of None \<Rightarrow> None | Some s \<Rightarrow> varchar_option 64 (Some s)))"

definition refused_value :: error where
  "refused_value = Persistence_Error ''value refused by a column''"

text \<open>\<open>Model(title=..., text=..., **base_fields)\<close>, as the flush stores it.\<close>

definition base_row ::
  "(json \<Rightarrow> string option) \<Rightarrow> review_item \<Rightarrow> int \<Rightarrow> string \<Rightarrow> string \<Rightarrow> memory_row result" where
  "base_row bind it i row_title row_text =
     (case (varchar 300 row_title, stored_text row_text, stored_key bind (payload_get it ''project_key'')) of
        (Some a, Some b, Some k) \<Rightarrow>
          Inr \<lparr>mr_id = i, mr_title = a, mr_text = b, mr_project_key = k,
               mr_source_links = ri_source_links it, mr_source_snippets = ri_source_snippets it,
               mr_confidence = ri_confidence it, mr_permission_level = ri_permission_level it,
               mr_review_status = ''approved'', mr_source_review_item_id = ri_id it\<rparr>
      | _ \<Rightarrow> Inl refused_value)"

definition some_text :: "string \<Rightarrow> string option" where
  "some_text s = (if s = [] then None else Some s)"

definition todo_columns :: "review_item \<Rightarrow> string \<Rightarrow> memory_row \<Rightarrow> todo_row result" where
  "todo_columns it row_priority r =
     (case (varchar_option 300 (some_text (string_payload it ''assignee'')),
            varchar_option 32 (some_text (string_payload it ''due_date'')), varchar 32 row_priority) of
        (Some a, Some d, Some p) \<Rightarrow>
          Inr (memory_row.extend r \<lparr>td_assignee = a, td_due_date = d, td_priority = p\<rparr>)
      | _ \<Rightarrow> Inl refused_value)"

text \<open>The insertion of a flush: the unique index refuses a second row of one review item.\<close>

definition insert_row :: "'a memory_row_scheme \<Rightarrow> 'a memory_row_scheme list \<Rightarrow> 'a memory_row_scheme list result" where
  "insert_row r rows =
     (if mr_source_review_item_id r \<in> set (map mr_source_review_item_id rows)
      then Inl (Persistence_Error ''unique index on source_review_item_id'')
      else Inr (rows @ [r]))"

definition add_decision :: "memory_row \<Rightarrow> knowledge_db \<Rightarrow> knowledge_db result" where
  "add_decision r db = then_r (insert_row r (kd_decisions db)) (\<lambda>rows.
     Inr (db\<lparr>kd_decisions := rows, kd_next_decision := kd_next_decision db + 1\<rparr>))"

definition add_history :: "memory_row \<Rightarrow> knowledge_db \<Rightarrow> knowledge_db result" where
  "add_history r db = then_r (insert_row r (kd_histories db)) (\<lambda>rows.
     Inr (db\<lparr>kd_histories := rows, kd_next_history := kd_next_history db + 1\<rparr>))"

definition add_timeline :: "memory_row \<Rightarrow> knowledge_db \<Rightarrow> knowledge_db result" where
  "add_timeline r db = then_r (insert_row r (kd_timelines db)) (\<lambda>rows.
     Inr (db\<lparr>kd_timelines := rows, kd_next_timeline := kd_next_timeline db + 1\<rparr>))"

definition add_todo :: "todo_row \<Rightarrow> knowledge_db \<Rightarrow> knowledge_db result" where
  "add_todo r db = then_r (insert_row r (kd_todos db)) (\<lambda>rows.
     Inr (db\<lparr>kd_todos := rows, kd_next_todo := kd_next_todo db + 1\<rparr>))"

definition decision_prefix :: string where
  "decision_prefix = [CHR 0x5B, CHR 0xEA, CHR 0xB2, CHR 0xB0, CHR 0xEC, CHR 0xA0, CHR 0x95, CHR 0x5D,
     CHR 0x20]"
definition todo_prefix :: string where
  "todo_prefix = [CHR 0x5B, CHR 0xED, CHR 0x95, CHR 0xA0, CHR 0x20, CHR 0xEC, CHR 0x9D, CHR 0xBC,
     CHR 0x5D, CHR 0x20]"
definition assignee_label :: string where
  "assignee_label = [CHR 0xEB, CHR 0x8B, CHR 0xB4, CHR 0xEB, CHR 0x8B, CHR 0xB9, CHR 0xEC, CHR 0x9E,
     CHR 0x90, CHR 0x3A, CHR 0x20]"
definition unassigned :: string where
  "unassigned = [CHR 0xEB, CHR 0xAF, CHR 0xB8, CHR 0xEC, CHR 0xA0, CHR 0x95]"
definition due_label :: string where
  "due_label = [CHR 0x2C, CHR 0x20, CHR 0xEA, CHR 0xB8, CHR 0xB0, CHR 0xED, CHR 0x95, CHR 0x9C,
     CHR 0x3A, CHR 0x20]"
definition no_due_date :: string where
  "no_due_date = [CHR 0xEA, CHR 0xB8, CHR 0xB0, CHR 0xED, CHR 0x95, CHR 0x9C, CHR 0x20, CHR 0xEC,
     CHR 0x97, CHR 0x86, CHR 0xEC, CHR 0x9D, CHR 0x8C]"

text \<open>\<open>f'{value or fallback}'\<close>: the \<open>str\<close> of a value.\<close>

definition shown :: "(json \<Rightarrow> string) \<Rightarrow> json \<Rightarrow> string \<Rightarrow> string" where
  "shown py_str v fallback = (if truthy v then (case v of JStr s \<Rightarrow> s | _ \<Rightarrow> py_str v) else fallback)"

definition todo_summary :: "(json \<Rightarrow> string) \<Rightarrow> review_item \<Rightarrow> string" where
  "todo_summary py_str it =
     assignee_label @ shown py_str (payload_get it ''assignee'') unassigned
     @ due_label @ shown py_str (payload_get it ''due_date'') no_due_date"

definition next_routes_for_item :: "string \<Rightarrow> string list" where
  "next_routes_for_item t =
     (if t = ''todo'' then [''/projects'', ''/timeline'']
      else if t \<in> set [''history_event'', ''timeline_event''] then [''/timeline'']
      else if t = ''decision_record'' then [''/knowledge'', ''/timeline'']
      else [])"

record promotion_result = promotion +
  pr_project_key :: json
  pr_next_routes :: "string list"

definition field :: "(string \<times> string) list \<Rightarrow> string \<Rightarrow> string" where
  "field kvs k = the (map_of kvs k)"

definition promotion_outcome ::
  "review_item \<Rightarrow> int list \<Rightarrow> int list \<Rightarrow> promotion_result" where
  "promotion_outcome it records timelines =
     \<lparr>pm_target_type = (if promotable it then Some (ri_item_type it) else None), pm_record_ids = records,
      pm_timeline_ids = timelines, pr_project_key = payload_get it ''project_key'',
      pr_next_routes = next_routes_for_item (ri_item_type it)\<rparr>"

definition promote_review_item ::
  "(json \<Rightarrow> string) \<Rightarrow> (json \<Rightarrow> string option) \<Rightarrow> unit result \<Rightarrow> knowledge_db \<Rightarrow> review_item
    \<Rightarrow> (knowledge_db \<times> promotion_result) result" where
  "promote_review_item py_str bind armed db it =
     then_r armed (\<lambda>_.
     then_r (validate_review_item_for_approval it) (\<lambda>_.
      let n = normalized_payload_for_item it; t = ri_item_type it; timeline_id = kd_next_timeline db in
      if t = ''decision_record'' then
        then_r (base_row bind it (kd_next_decision db) (field n ''title'') (field n ''decision_summary'')) (\<lambda>decision.
        then_r (base_row bind it timeline_id (decision_prefix @ field n ''title'') (field n ''decision_summary'')) (\<lambda>timeline.
        then_r (add_decision decision db) (\<lambda>db1.
        then_r (add_timeline timeline db1) (\<lambda>db2.
          Inr (db2, promotion_outcome it [kd_next_decision db] [timeline_id])))))
      else if t = ''history_event'' then
        then_r (base_row bind it (kd_next_history db) (field n ''title'') (field n ''reason'')) (\<lambda>history.
        then_r (base_row bind it timeline_id (field n ''title'') (field n ''reason'')) (\<lambda>timeline.
        then_r (add_history history db) (\<lambda>db1.
        then_r (add_timeline timeline db1) (\<lambda>db2.
          Inr (db2, promotion_outcome it [kd_next_history db] [timeline_id])))))
      else if t = ''timeline_event'' then
        then_r (base_row bind it timeline_id (field n ''title'') (field n ''result_summary'')) (\<lambda>timeline.
        then_r (add_timeline timeline db) (\<lambda>db1.
          Inr (db1, promotion_outcome it [] [timeline_id])))
      else if t = ''todo'' then
        then_r (base_row bind it (kd_next_todo db) (field n ''title'') (field n ''priority_reason'')) (\<lambda>base.
        then_r (todo_columns it (field n ''priority'') base) (\<lambda>todo.
        then_r (base_row bind it timeline_id (todo_prefix @ field n ''title'') (todo_summary py_str it)) (\<lambda>timeline.
        then_r (add_todo todo db) (\<lambda>db1.
        then_r (add_timeline timeline db1) (\<lambda>db2.
          Inr (db2, promotion_outcome it [kd_next_todo db] [timeline_id]))))))
      else Inr (db, promotion_outcome it [] [])))"

record promotion_response =
  ps_target_type :: string
  ps_record_ids :: "int list"
  ps_timeline_ids :: "int list"
  ps_project_key :: json
  ps_next_routes :: "string list"

definition build_promotion_response ::
  "review_item \<Rightarrow> string option \<Rightarrow> int list \<Rightarrow> int list \<Rightarrow> promotion_response" where
  "build_promotion_response it target records timelines =
     \<lparr>ps_target_type = (case target of None \<Rightarrow> ''review_item'' | Some t \<Rightarrow> if t = [] then ''review_item'' else t),
      ps_record_ids = records, ps_timeline_ids = timelines, ps_project_key = payload_get it ''project_key'',
      ps_next_routes = next_routes_for_item (ri_item_type it)\<rparr>"

section \<open>What a promotion leaves behind\<close>

lemma ids_of_Nil [simp]: "ids_of rows i = [] \<longleftrightarrow> i \<notin> set (map mr_source_review_item_id rows)"
proof -
  have "set (ids_of rows i) = mr_id ` {r \<in> set rows. mr_source_review_item_id r = i}"
    by (simp add: ids_of_def)
  then show ?thesis by (auto simp flip: set_empty)
qed

lemma insert_row_Inr [simp]:
  "insert_row r rows = Inr rows' \<longleftrightarrow>
     mr_source_review_item_id r \<notin> set (map mr_source_review_item_id rows) \<and> rows' = rows @ [r]"
  by (auto simp: insert_row_def)

lemma ids_of_snoc:
  assumes "mr_source_review_item_id r \<notin> set (map mr_source_review_item_id rows)"
  shows "ids_of (rows @ [r]) i = (if i = mr_source_review_item_id r then [mr_id r] else ids_of rows i)"
proof (cases "i = mr_source_review_item_id r")
  case True
  have "filter (\<lambda>x. mr_source_review_item_id x = i) rows = []"
    using assms True by (auto simp: filter_empty_conv image_iff)
  with True show ?thesis by (simp add: ids_of_def)
qed (simp add: ids_of_def)

lemma add_rows_Inr [simp]:
  "add_decision r db = Inr db' \<longleftrightarrow> mr_source_review_item_id r \<notin> set (map mr_source_review_item_id (kd_decisions db))
     \<and> db' = db\<lparr>kd_decisions := kd_decisions db @ [r], kd_next_decision := kd_next_decision db + 1\<rparr>"
  "add_history r db = Inr db' \<longleftrightarrow> mr_source_review_item_id r \<notin> set (map mr_source_review_item_id (kd_histories db))
     \<and> db' = db\<lparr>kd_histories := kd_histories db @ [r], kd_next_history := kd_next_history db + 1\<rparr>"
  "add_timeline r db = Inr db' \<longleftrightarrow> mr_source_review_item_id r \<notin> set (map mr_source_review_item_id (kd_timelines db))
     \<and> db' = db\<lparr>kd_timelines := kd_timelines db @ [r], kd_next_timeline := kd_next_timeline db + 1\<rparr>"
  "add_todo t db = Inr db' \<longleftrightarrow> mr_source_review_item_id t \<notin> set (map mr_source_review_item_id (kd_todos db))
     \<and> db' = db\<lparr>kd_todos := kd_todos db @ [t], kd_next_todo := kd_next_todo db + 1\<rparr>"
  by (auto simp: add_decision_def add_history_def add_timeline_def add_todo_def simp del: set_map)

definition column_takes :: "nat \<Rightarrow> string \<Rightarrow> bool" where
  "column_takes n s \<longleftrightarrow> CHR 0x00 \<notin> set s \<and> utf8_valid s \<and> code_points (trim_spaces s) \<le> n"

lemma trim_spaces_points: "code_points (trim_spaces s) \<le> code_points s"
proof -
  have "set (dropWhile P xs) \<subseteq> set xs \<and> length (filter Q (dropWhile P xs)) \<le> length (filter Q xs)"
    for P Q and xs :: string
    by (induction xs) auto
  then show ?thesis unfolding code_points_def trim_spaces_def by (simp flip: rev_filter) (metis length_rev rev_filter)
qed

lemma varchar_fits: "varchar n s \<noteq> None \<longleftrightarrow> column_takes n s"
  using trim_spaces_points [of s]
  by (auto simp: varchar_def column_takes_def stored_text_def Let_def)

definition key_fits :: "(json \<Rightarrow> string option) \<Rightarrow> json \<Rightarrow> bool" where
  "key_fits bind v =
     (case v of JNull \<Rightarrow> True | JStr s \<Rightarrow> column_takes 64 s
      | _ \<Rightarrow> (case bind v of None \<Rightarrow> False | Some s \<Rightarrow> column_takes 64 s))"

lemma stored_key_fits: "stored_key bind v \<noteq> None \<longleftrightarrow> key_fits bind v"
  using varchar_fits
  by (auto simp: stored_key_def key_fits_def varchar_option_def split: json.splits option.splits)

lemma base_row_returns:
  "returns (base_row bind it i a b) \<longleftrightarrow>
     column_takes 300 a \<and> CHR 0x00 \<notin> set b \<and> utf8_valid b \<and> key_fits bind (payload_get it ''project_key'')"
  unfolding varchar_fits [symmetric] stored_key_fits [symmetric]
  by (auto simp: base_row_def stored_text_def split: option.splits)

lemma base_row_Inr:
  "base_row bind it i a b = Inr r \<Longrightarrow> mr_id r = i \<and> mr_source_review_item_id r = ri_id it"
  by (auto simp: base_row_def split: option.splits)

lemma todo_columns_Inr:
  "todo_columns it p r = Inr td \<Longrightarrow>
     mr_id td = mr_id r \<and> mr_source_review_item_id td = mr_source_review_item_id r"
  by (auto simp: todo_columns_def memory_row.extend_def split: option.splits)

lemma todo_columns_returns:
  "returns (todo_columns it p r) \<longleftrightarrow>
     column_takes 300 (string_payload it ''assignee'') \<and> column_takes 32 (string_payload it ''due_date'') \<and> column_takes 32 p"
proof -
  have *: "varchar_option n (some_text s) = None \<longleftrightarrow> varchar n s = None" for n s
    using varchar_fits [of n s]
    by (auto simp: varchar_option_def some_text_def column_takes_def trim_spaces_def code_points_def utf8_valid_ascii)
  have all: "returns (case (x, y, z) of (Some a, Some d, Some e) \<Rightarrow> Inr (f a d e) | _ \<Rightarrow> Inl refused_value)
      \<longleftrightarrow> x \<noteq> None \<and> y \<noteq> None \<and> z \<noteq> None" for x y z and f :: "'a \<Rightarrow> 'b \<Rightarrow> 'c \<Rightarrow> 'd"
    by (cases x; cases y; cases z) simp_all
  show ?thesis unfolding todo_columns_def all * varchar_fits by (rule refl)
qed

lemma stored_ex:
  "(\<exists>r. base_row bind it i a b = Inr r) \<longleftrightarrow>
     column_takes 300 a \<and> CHR 0x00 \<notin> set b \<and> utf8_valid b \<and> key_fits bind (payload_get it ''project_key'')"
  "(\<exists>r. todo_columns it p m = Inr r) \<longleftrightarrow>
     column_takes 300 (string_payload it ''assignee'') \<and> column_takes 32 (string_payload it ''due_date'')
     \<and> column_takes 32 p"
  using base_row_returns todo_columns_returns by (simp_all add: returns_iff)

lemma promotable_cases:
  assumes "promotable it"
  obtains "ri_item_type it = ''decision_record''" | "ri_item_type it = ''history_event''"
    | "ri_item_type it = ''timeline_event''" | "ri_item_type it = ''todo''"
  using assms by (auto simp: promotable_def promotable_review_types_def)

text \<open>The effect of a promotion on the rows of every review item.\<close>

lemma record_ids_of_simps [simp]:
  "record_ids_of db ''decision_record'' i = ids_of (kd_decisions db) i"
  "record_ids_of db ''history_event'' i = ids_of (kd_histories db) i"
  "record_ids_of db ''todo'' i = ids_of (kd_todos db) i"
  "record_ids_of db ''timeline_event'' i = []"
  by (simp_all add: record_ids_of_def)

lemma record_ids_of_eqI:
  assumes "ids_of (kd_decisions db') i = ids_of (kd_decisions db) i"
    and "ids_of (kd_histories db') i = ids_of (kd_histories db) i"
    and "ids_of (kd_todos db') i = ids_of (kd_todos db) i"
  shows "record_ids_of db' t i = record_ids_of db t i"
  using assms by (simp add: record_ids_of_def)

definition promoted :: "knowledge_db \<Rightarrow> review_item \<Rightarrow> knowledge_db \<Rightarrow> promotion_result \<Rightarrow> bool" where
  "promoted db it db' r \<longleftrightarrow>
     record_ids_of db (ri_item_type it) (ri_id it) = [] \<and> ids_of (kd_timelines db) (ri_id it) = []
     \<and> record_ids_of db' (ri_item_type it) (ri_id it) = pm_record_ids r
     \<and> length (pm_record_ids r) = (if ri_item_type it = ''timeline_event'' then 0 else 1)
     \<and> ids_of (kd_timelines db') (ri_id it) = pm_timeline_ids r \<and> length (pm_timeline_ids r) = 1
     \<and> pm_target_type r = Some (ri_item_type it)
     \<and> (\<forall>i. i \<noteq> ri_id it \<longrightarrow> ids_of (kd_decisions db') i = ids_of (kd_decisions db) i
          \<and> ids_of (kd_histories db') i = ids_of (kd_histories db) i
          \<and> ids_of (kd_todos db') i = ids_of (kd_todos db) i
          \<and> ids_of (kd_timelines db') i = ids_of (kd_timelines db) i)"

lemma promote_rows:
  assumes "promotable it" and p: "promote_review_item py_str bind armed db it = Inr (db', r)"
  shows "promoted db it db' r"
  using assms(1)
  by (cases rule: promotable_cases)
    (use assms in \<open>auto simp: promote_review_item_def Let_def promoted_def promotion_outcome_def
       ids_of_snoc dest!: base_row_Inr todo_columns_Inr split: if_splits\<close>)

lemma find_promoted:
  assumes "promotable it" and "promoted db it db' r"
  shows "find_review_item_promotion db it = Inr None"
    and "find_review_item_promotion db' it = Inr (Some (promotion.truncate r))"
    and "ri_id other \<noteq> ri_id it \<Longrightarrow> find_review_item_promotion db' other = find_review_item_promotion db other"
    and "ri_id it \<in> set (map mr_source_review_item_id (kd_timelines db'))"
proof -
  show "find_review_item_promotion db it = Inr None"
    using assms by (simp add: find_review_item_promotion_def promoted_def)
  have ids: "record_ids_of db' (ri_item_type it) (ri_id it) = pm_record_ids r"
    "ids_of (kd_timelines db') (ri_id it) = pm_timeline_ids r" "pm_timeline_ids r \<noteq> []"
    using assms(2) by (auto simp: promoted_def simp del: ids_of_Nil)
  show "find_review_item_promotion db' it = Inr (Some (promotion.truncate r))"
    using assms ids by (simp add: find_review_item_promotion_def promoted_def promotion.truncate_def Let_def)
  show "ri_id it \<in> set (map mr_source_review_item_id (kd_timelines db'))"
    using ids(2,3) ids_of_Nil [of "kd_timelines db'" "ri_id it"] by simp
  assume other: "ri_id other \<noteq> ri_id it"
  then have "record_ids_of db' t (ri_id other) = record_ids_of db t (ri_id other)" for t
    using assms(2) by (intro record_ids_of_eqI) (simp_all add: promoted_def)
  moreover have "ids_of (kd_timelines db') (ri_id other) = ids_of (kd_timelines db) (ri_id other)"
    using assms(2) other by (simp add: promoted_def)
  ultimately show "find_review_item_promotion db' other = find_review_item_promotion db other"
    by (simp only: find_review_item_promotion_def)
qed

text \<open>
  The values of an item fit the columns of the rows it becomes: the title of the timeline row of a decision
  and of a to-do is prefixed, and the timeline row of a to-do repeats its assignee and its date.
\<close>

definition texts_fit :: "(json \<Rightarrow> string) \<Rightarrow> (json \<Rightarrow> string option) \<Rightarrow> review_item \<Rightarrow> bool" where
  "texts_fit py_str bind it \<longleftrightarrow>
     (let p = string_payload it; t = ri_item_type it;
          text = (\<lambda>s. CHR 0x00 \<notin> set s \<and> utf8_valid s)
      in column_takes 300 (p ''title'') \<and> key_fits bind (payload_get it ''project_key'')
         \<and> (if t = ''decision_record'' then
              column_takes 300 (decision_prefix @ p ''title'')
              \<and> text (if p ''decision_summary'' = [] then p ''summary'' else p ''decision_summary'')
            else if t = ''history_event'' then text (if p ''reason'' = [] then p ''summary'' else p ''reason'')
            else if t = ''timeline_event'' then
              text (if p ''result_summary'' \<noteq> [] then p ''result_summary''
                    else if p ''summary'' \<noteq> [] then p ''summary'' else p ''reason'')
            else
              column_takes 300 (todo_prefix @ p ''title'') \<and> column_takes 300 (p ''assignee'')
              \<and> column_takes 32 (p ''due_date'')
              \<and> column_takes 32 (if p ''priority'' = [] then ''medium'' else p ''priority'')
              \<and> text (if p ''priority_reason'' \<noteq> [] then p ''priority_reason''
                      else if p ''recommended_next_step'' \<noteq> [] then p ''recommended_next_step''
                      else if p ''task_summary'' \<noteq> [] then p ''task_summary'' else p ''summary'')
              \<and> text (todo_summary py_str it)))"

lemma code_points_append [simp]: "code_points (s @ t) = code_points s + code_points t"
  by (simp add: code_points_def)

lemma prefix_points [simp]:
  "code_points decision_prefix = 5" "code_points todo_prefix = 6" "code_points [] = 0"
  by (simp_all add: code_points_def decision_prefix_def todo_prefix_def utf8_tail_def)

text \<open>
  A promotion returns exactly when it is armed, the item is complete and fits, and its tables hold none
  of its rows.
\<close>

lemma returns_then: "returns (then_r r f) \<longleftrightarrow> (\<exists>x. r = Inr x \<and> returns (f x))"
  by (cases r) (auto simp: returns_iff)

text \<open>What is left of a promotion is to store its rows, which only the index can refuse.\<close>

lemma store_rows_iff:
  assumes "mr_source_review_item_id r = i" and "mr_source_review_item_id s = i"
  shows "returns (then_r (add_decision r db) (\<lambda>d. then_r (add_timeline s d) (\<lambda>e. Inr (e, x))))
      \<longleftrightarrow> ids_of (kd_decisions db) i = [] \<and> ids_of (kd_timelines db) i = []"
    and "returns (then_r (add_history r db) (\<lambda>d. then_r (add_timeline s d) (\<lambda>e. Inr (e, x))))
      \<longleftrightarrow> ids_of (kd_histories db) i = [] \<and> ids_of (kd_timelines db) i = []"
    and "returns (then_r (add_timeline s db) (\<lambda>e. Inr (e, x))) \<longleftrightarrow> ids_of (kd_timelines db) i = []"
  using assms by (simp_all add: returns_then del: set_map)

lemma store_todo_iff:
  assumes "mr_source_review_item_id (r :: todo_row) = i" and "mr_source_review_item_id s = i"
  shows "returns (then_r (add_todo r db) (\<lambda>d. then_r (add_timeline s d) (\<lambda>e. Inr (e, x))))
      \<longleftrightarrow> ids_of (kd_todos db) i = [] \<and> ids_of (kd_timelines db) i = []"
  using assms by (simp add: returns_then del: set_map)

lemma promote_returns_iff:
  "returns (promote_review_item py_str bind armed db it) \<longleftrightarrow>
     armed = Inr () \<and> pv_can_approve (build_promotion_preview it)
     \<and> (promotable it \<longrightarrow> texts_fit py_str bind it \<and> record_ids_of db (ri_item_type it) (ri_id it) = []
          \<and> ids_of (kd_timelines db) (ri_id it) = [])"
proof (cases "armed = Inr () \<and> pv_can_approve (build_promotion_preview it)")
  case armed: True
  show ?thesis
  proof (cases "promotable it")
    case True
    show ?thesis
      using True
      by (cases rule: promotable_cases)
        (simp add: promote_review_item_def Let_def validate_review_item_for_approval_def armed True
          returns_then store_rows_iff store_todo_iff base_row_Inr todo_columns_Inr stored_ex
          texts_fit_def normalized_payload_for_item_def field_def or_text_def cong: conj_cong; blast)+
  next
    case False
    then show ?thesis
      using armed by (auto simp: promote_review_item_def Let_def validate_review_item_for_approval_def
          promotable_def promotable_review_types_def)
  qed
qed (auto simp: promote_review_item_def validate_review_item_for_approval_def returns_then Let_def)

lemma preview_can_approve:
  "pv_can_approve (build_promotion_preview it) \<longleftrightarrow>
     (\<forall>(k, v) \<in> set (preview_payload it). k \<in> set (required_fields_for_item it) \<longrightarrow> strip v \<noteq> [])
     \<and> \<not> requires_project_selection it"
  by (auto simp: build_promotion_preview_def Let_def filter_empty_conv)

section \<open>Properties\<close>

text \<open>
  C26. A promotion is found again: the item it came from had no rows before, \<open>find_review_item_promotion\<close>
  reads back exactly the created rows afterwards, the promotions of all other items are read as before,
  and the unique index refuses a second promotion of the same item.
\<close>

theorem promotion_found_again:
  assumes "promotable it" and "promote_review_item py_str bind armed db it = Inr (db', r)"
  shows "find_review_item_promotion db it = Inr None
    \<and> find_review_item_promotion db' it = Inr (Some (promotion.truncate r))
    \<and> (\<forall>other. ri_id other \<noteq> ri_id it \<longrightarrow>
        find_review_item_promotion db' other = find_review_item_promotion db other)
    \<and> \<not> returns (promote_review_item py_str' bind' armed' db' it)"
  using find_promoted [OF assms(1) promote_rows [OF assms]] assms(1) promote_returns_iff by force

text \<open>The fields an item must have, spelled out by type.\<close>

lemma preview_complete:
  "pv_can_approve (build_promotion_preview it) \<longleftrightarrow>
     (let p = string_payload it; t = ri_item_type it; present = (\<lambda>s. strip s \<noteq> [])
      in (t = ''decision_record'' \<longrightarrow> present (p ''title'')
            \<and> present (if p ''decision_summary'' = [] then p ''summary'' else p ''decision_summary''))
         \<and> (t = ''history_event'' \<longrightarrow> present (p ''title'')
            \<and> present (if p ''reason'' = [] then p ''summary'' else p ''reason''))
         \<and> (t = ''timeline_event'' \<longrightarrow> present (p ''title'')
            \<and> present (if p ''result_summary'' \<noteq> [] then p ''result_summary''
                       else if p ''summary'' \<noteq> [] then p ''summary'' else p ''reason''))
         \<and> (t = ''todo'' \<longrightarrow> present (p ''title'')
            \<and> (p ''priority'' \<noteq> [] \<longrightarrow> present (p ''priority''))
            \<and> present (if p ''priority_reason'' \<noteq> [] then p ''priority_reason''
                       else if p ''recommended_next_step'' \<noteq> [] then p ''recommended_next_step''
                       else if p ''task_summary'' \<noteq> [] then p ''task_summary'' else p ''summary''))
         \<and> (t = ''project_assignment'' \<longrightarrow> list_all (\<lambda>k. present (p k))
              [''title'', ''project_key'', ''project_name'', ''source_id'', ''evidence_reason''])
         \<and> (t \<in> set [''decision_record'', ''history_event'', ''timeline_event'', ''todo'']
              \<and> payload_get it ''project_assignment_method'' = JStr ''llm_tool''
            \<longrightarrow> present (p ''project_key'') \<and> payload_get it ''project_needs_user_selection'' \<noteq> JBool True))"
proof -
  have medium: "strip ''medium'' \<noteq> []" by (simp add: strip_plain plain_def)
  have blank: "strip [] = []" by (simp add: strip_def)
  consider "promotable it" | "\<not> promotable it" "ri_item_type it = ''project_assignment''"
    | "\<not> promotable it" "ri_item_type it \<noteq> ''project_assignment''"
    by blast
  then show ?thesis
  proof cases
    case 1
    then show ?thesis
      by (cases rule: promotable_cases)
        (auto simp: preview_can_approve preview_payload_def normalized_payload_for_item_def Let_def
          required_fields_for_item_def required_fields_for_type_def requires_project_selection_def
          is_project_routed_memory_item_def requires_project_key_def or_text_def 1 medium blank)
  next
    case 2
    then show ?thesis
      by (auto simp: preview_can_approve preview_payload_def normalized_payload_for_item_def Let_def
          required_fields_for_item_def required_fields_for_type_def requires_project_selection_def
          is_project_routed_memory_item_def requires_project_key_def)
  next
    case 3
    then show ?thesis
      by (auto simp: preview_can_approve preview_payload_def normalized_payload_for_item_def Let_def
          required_fields_for_item_def required_fields_for_type_def requires_project_selection_def
          is_project_routed_memory_item_def requires_project_key_def promotable_def promotable_review_types_def)
  qed
qed

text \<open>
  C27. A promotion succeeds exactly when the corpus refresh is armed, the texts the type of the item needs
  are not blank, an item the language model routed to a project has its project and does not wait for the
  user to choose it, what goes into the columns fits them, and no row of the item exists yet. What is
  needed is spelled out by type: a decision needs its title and its summary, a history event its title and
  its reason, a timeline event its title and its result, a to-do its title and the reason of its priority,
  each with the texts that may stand in for it, and a project assignment all of its five texts. A column
  takes a text without NUL and surrogates whose length, without the spaces at its end, stays within the
  bound of the column; a project key that is no text is stored as the driver makes it a text, if it does.
\<close>

theorem promotion_succeeds_exactly_when:
  "returns (promote_review_item py_str bind armed db it) \<longleftrightarrow>
     armed = Inr ()
     \<and> (let p = string_payload it; t = ri_item_type it; present = (\<lambda>s. strip s \<noteq> [])
        in (t = ''decision_record'' \<longrightarrow> present (p ''title'')
              \<and> present (if p ''decision_summary'' = [] then p ''summary'' else p ''decision_summary''))
           \<and> (t = ''history_event'' \<longrightarrow> present (p ''title'')
              \<and> present (if p ''reason'' = [] then p ''summary'' else p ''reason''))
           \<and> (t = ''timeline_event'' \<longrightarrow> present (p ''title'')
              \<and> present (if p ''result_summary'' \<noteq> [] then p ''result_summary''
                         else if p ''summary'' \<noteq> [] then p ''summary'' else p ''reason''))
           \<and> (t = ''todo'' \<longrightarrow> present (p ''title'')
              \<and> (p ''priority'' \<noteq> [] \<longrightarrow> present (p ''priority''))
              \<and> present (if p ''priority_reason'' \<noteq> [] then p ''priority_reason''
                         else if p ''recommended_next_step'' \<noteq> [] then p ''recommended_next_step''
                         else if p ''task_summary'' \<noteq> [] then p ''task_summary'' else p ''summary''))
           \<and> (t = ''project_assignment'' \<longrightarrow> list_all (\<lambda>k. present (p k))
                [''title'', ''project_key'', ''project_name'', ''source_id'', ''evidence_reason''])
           \<and> (t \<in> set [''decision_record'', ''history_event'', ''timeline_event'', ''todo'']
                \<and> payload_get it ''project_assignment_method'' = JStr ''llm_tool''
              \<longrightarrow> present (p ''project_key'') \<and> payload_get it ''project_needs_user_selection'' \<noteq> JBool True))
     \<and> (ri_item_type it \<in> set [''decision_record'', ''history_event'', ''timeline_event'', ''todo'']
        \<longrightarrow> texts_fit py_str bind it \<and> record_ids_of db (ri_item_type it) (ri_id it) = []
          \<and> ids_of (kd_timelines db) (ri_id it) = [])"
  unfolding promote_returns_iff preview_complete promotable_def promotable_review_types_def by blast

text \<open>
  The preview does not look at the columns: a decision with a title of 297 characters can be approved by
  its preview, but its timeline row, whose title is prefixed, does not fit.
\<close>

definition long_decision :: review_item where
  "long_decision = \<lparr>ri_id = 8, ri_item_type = ''decision_record'',
     ri_payload = [(''title'', JStr (replicate 297 CHR ''a'')), (''decision_summary'', JStr ''yes'')],
     ri_source_links = [], ri_source_snippets = [], ri_confidence = ''0.9'',
     ri_permission_level = ''internal'', ri_workflow_thread_id = None, ri_candidate_key = None,
     ri_agent_run_id = None, ri_candidate_contract_version = None\<rparr>"

theorem long_title_passes_preview_only:
  "pv_can_approve (build_promotion_preview long_decision)
   \<and> \<not> returns (promote_review_item py_str bind (Inr ()) db long_decision)"
proof -
  have get: "string_payload long_decision ''title'' = replicate 297 CHR ''a''"
    "string_payload long_decision ''decision_summary'' = ''yes''" "ri_item_type long_decision = ''decision_record''"
    "payload_get long_decision ''project_assignment_method'' = JNull"
    by (simp_all add: string_payload_def payload_get_def long_decision_def)
  have strip: "strip (replicate 297 CHR ''a'') \<noteq> []" "strip ''yes'' \<noteq> []"
    by (simp_all add: strip_plain plain_def)
  have "trim_spaces (decision_prefix @ replicate 297 CHR ''a'') = decision_prefix @ replicate 297 CHR ''a''"
    by (simp add: trim_spaces_def)
  then have "\<not> texts_fit py_str bind long_decision"
    by (simp add: texts_fit_def Let_def get column_takes_def)
      (simp add: code_points_def filter_replicate utf8_tail_def)
  moreover have "promotable long_decision" by (simp add: promotable_def promotable_review_types_def get)
  moreover have "pv_can_approve (build_promotion_preview long_decision)"
    by (simp add: preview_can_approve preview_payload_def normalized_payload_for_item_def get or_text_def
        is_project_routed_memory_item_def requires_project_key_def requires_project_selection_def strip)
  ultimately show ?thesis by (simp add: promote_returns_iff)
qed

section \<open>Witnesses\<close>

definition demo_todo :: review_item where
  "demo_todo = \<lparr>ri_id = 7, ri_item_type = ''todo'',
     ri_payload = [(''title'', JStr ''call the customer''), (''summary'', JStr ''agreed on monday''),
       (''due_date'', JStr ''2026-01-05'')],
     ri_source_links = [''mail:1''], ri_source_snippets = [], ri_confidence = ''0.9'',
     ri_permission_level = ''internal'', ri_workflow_thread_id = None, ri_candidate_key = None,
     ri_agent_run_id = None, ri_candidate_contract_version = None\<rparr>"

definition demo_knowledge :: knowledge_db where
  "demo_knowledge = \<lparr>kd_decisions = [], kd_histories = [], kd_timelines = [], kd_todos = [],
     kd_next_decision = 1, kd_next_history = 1, kd_next_timeline = 40, kd_next_todo = 3\<rparr>"

definition demo_promotion :: "(knowledge_db \<times> promotion_result) result" where
  "demo_promotion = promote_review_item (\<lambda>_. []) (\<lambda>_. None) (Inr ()) demo_knowledge demo_todo"

lemma demo_promotion_returns:
  "demo_promotion = Inr (fst (projr demo_promotion), snd (projr demo_promotion))"
  "pm_record_ids (snd (projr demo_promotion)) = [3]"
  "pm_timeline_ids (snd (projr demo_promotion)) = [40]"
  by code_simp+

theorem promotion_found_again_witness:
  "find_review_item_promotion (fst (projr demo_promotion)) demo_todo
     = Inr (Some \<lparr>pm_target_type = Some ''todo'', pm_record_ids = [3], pm_timeline_ids = [40]\<rparr>)
   \<and> \<not> returns (promote_review_item (\<lambda>_. []) (\<lambda>_. None) (Inr ()) (fst (projr demo_promotion)) demo_todo)"
proof -
  have todo: "promotable demo_todo" by code_simp
  have "pm_target_type (snd (projr demo_promotion)) = Some ''todo''" by code_simp
  then show ?thesis
    using promotion_found_again [OF todo demo_promotion_returns(1) [unfolded demo_promotion_def]]
      demo_promotion_returns(2,3)
    by (simp add: promotion.truncate_def flip: demo_promotion_def)
qed

theorem promotion_succeeds_exactly_when_witness:
  "returns (promote_review_item (\<lambda>_. []) (\<lambda>_. None) (Inr ()) demo_knowledge demo_todo)
   \<and> texts_fit (\<lambda>_. []) (\<lambda>_. None) demo_todo
   \<and> \<not> returns (promote_review_item (\<lambda>_. []) (\<lambda>_. None) (Inl (Type_Error ''not armed'')) demo_knowledge demo_todo)"
proof -
  have r: "returns (promote_review_item (\<lambda>_. []) (\<lambda>_. None) (Inr ()) demo_knowledge demo_todo)"
    using demo_promotion_returns(1) by (metis demo_promotion_def returns_iff)
  have "ri_item_type demo_todo \<in> set [''decision_record'', ''history_event'', ''timeline_event'', ''todo'']"
    by (simp add: demo_todo_def)
  then have "texts_fit (\<lambda>_. []) (\<lambda>_. None) demo_todo"
    using promotion_succeeds_exactly_when [THEN iffD1, OF r] by blast
  moreover have "\<not> returns (promote_review_item (\<lambda>_. []) (\<lambda>_. None) (Inl (Type_Error ''not armed''))
      demo_knowledge demo_todo)"
    using promotion_succeeds_exactly_when [of "\<lambda>_. []" "\<lambda>_. None" "Inl (Type_Error ''not armed'')"] by blast
  ultimately show ?thesis using r by blast
qed

end
