(* ===== verification/Auto_Review_Policy.thy ===== *)
theory Auto_Review_Policy
  imports Review_Promotion Cost_Policy
begin

text \<open>
  \<open>agent_runtime/auto_review_policy.py\<close>, the value types of \<open>schemas/auto_review.py\<close> and the registry of
  \<open>agent_runtime/auto_review_cost_policy.py\<close>: which review items a model may validate, and what its answer
  decides. An entailment score, which the schema bounds to four decimal places, is its number of
  ten-thousandths; an amount of money is its number of micro-USD.
\<close>

section \<open>Vocabularies\<close>

text \<open>The decisions of both \<open>Literal\<close> types; \<open>validate\<close> hands an eligibility decision on as a policy decision.\<close>

datatype review_decision = Auto_Approve | Eligible | Human_Review | Needs_More_Evidence | Reuse_Trusted

datatype policy_reason =
    R_eligible | R_item_type_not_allowed | R_permission_not_allowed | R_evidence_binding_missing
    | R_evidence_binding_mismatch | R_evidence_version_changed | R_evidence_missing
    | R_sensitive_input_detected | R_uncertainty_present | R_high_risk_language
    | R_project_selection_required | R_payload_not_supported | R_generation_identity_missing
    | R_validator_identity_collision | R_registry_unavailable | R_budget_exceeded | R_trusted_exact_match
    | R_trusted_visible_conflict | R_trusted_hidden_collision | R_trusted_lookup_unavailable
    | R_validator_unavailable | R_validator_malformed | R_validator_not_supported
    | R_validator_not_direct_fact | R_validator_score_below_threshold | R_validator_uncertain
    | R_validator_conflict | R_post_validation_drift | R_enforce_not_selected | R_rollout_gate_closed
    | R_breaker_open

datatype evidence_state = Exact_Evidence | Missing_Evidence | Changed_Evidence | Mismatched_Evidence

datatype claim_verdict = Supported | Partially_Supported | Unsupported | Contradicted

datatype claim_scope = Direct_Fact | Inference | Decision_Scope | Todo_Scope | Unknown_Scope

text \<open>\<open>f'{letter}{ordinal:02d}'\<close>.\<close>

definition ordinal_slot :: "char \<Rightarrow> nat \<Rightarrow> string" where
  "ordinal_slot c n = c # (if n < 10 then CHR ''0'' # decimal_nat n else decimal_nat n)"

section \<open>The provider's answer\<close>

record field_result =
  fr_field_key :: string
  fr_verdict :: claim_verdict
  fr_scope :: claim_scope
  fr_score :: int
  fr_slots :: "string list"

record candidate_result =
  cr_slot :: string
  cr_claims :: "field_result list"
  cr_uncertainty :: "string list"
  cr_conflict :: "string list"

definition min_entailment :: int where
  "min_entailment = 9800"

text \<open>What the schema accepts of an answer.\<close>

definition field_result_valid :: "field_result \<Rightarrow> bool" where
  "field_result_valid f \<longleftrightarrow>
     fr_field_key f \<in> set [''title'', ''result_summary'', ''reason'']
     \<and> 0 \<le> fr_score f \<and> fr_score f \<le> 10000
     \<and> length (fr_slots f) \<le> 12 \<and> set (fr_slots f) \<subseteq> set (map (ordinal_slot CHR ''E'') [1..<13])"

definition candidate_result_valid :: "candidate_result \<Rightarrow> bool" where
  "candidate_result_valid r \<longleftrightarrow>
     cr_slot r \<in> set (map (ordinal_slot CHR ''C'') [1..<5])
     \<and> length (cr_claims r) = 2 \<and> list_all field_result_valid (cr_claims r)
     \<and> length (cr_uncertainty r) \<le> 4
     \<and> set (cr_uncertainty r) \<subseteq> set [''ambiguous_subject'', ''ambiguous_time'', ''conditional_language'',
          ''partial_evidence'', ''proposal_language'', ''unknown'']
     \<and> length (cr_conflict r) \<le> 4
     \<and> set (cr_conflict r) \<subseteq> set [''source_contradiction'', ''trusted_claim_conflict'', ''unknown'']"

definition batch_result_valid :: "candidate_result list \<Rightarrow> bool" where
  "batch_result_valid rs \<longleftrightarrow> 1 \<le> length rs \<and> length rs \<le> 4 \<and> list_all candidate_result_valid rs"

section \<open>The request\<close>

record trusted_target =
  tt_knowledge_type :: string
  tt_knowledge_id :: int
  tt_claim_fingerprint :: string

definition make_trusted_target :: "string \<Rightarrow> int \<Rightarrow> string \<Rightarrow> trusted_target result" where
  "make_trusted_target t i fp =
     (if i \<le> 0 \<or> code_points fp \<noteq> 64 then Inl (Value_Error ''trusted target identity is invalid'')
      else Inr \<lparr>tt_knowledge_type = t, tt_knowledge_id = i, tt_claim_fingerprint = fp\<rparr>)"

record claim_input =
  ci_field_key :: string
  ci_text :: string

record evidence_slot =
  vs_slot_id :: string
  vs_text :: string

record validation_request =
  vq_candidate_slot_id :: string
  vq_item_type :: string
  vq_claims :: "claim_input list"
  vq_evidence_slots :: "evidence_slot list"

definition expected_claims :: "string \<Rightarrow> string list option" where
  "expected_claims t =
     (if t = ''timeline_event'' then Some [''title'', ''result_summary'']
      else if t = ''history_event'' then Some [''title'', ''reason'']
      else None)"

text \<open>\<open>CandidateValidationRequest.__post_init__\<close>.\<close>

definition check_validation_request :: "validation_request \<Rightarrow> unit result" where
  "check_validation_request q =
     (if vq_candidate_slot_id q \<notin> set [''C01'', ''C02'', ''C03'', ''C04'']
      then Inl (Value_Error ''candidate slot is invalid'')
      else case expected_claims (vq_item_type q) of
        None \<Rightarrow> Inl (Key_Error (vq_item_type q))
      | Some expected \<Rightarrow>
        (if map ci_field_key (vq_claims q) \<noteq> expected then Inl (Value_Error ''candidate claim fields are invalid'')
         else if \<exists>c \<in> set (vq_claims q). strip (ci_text c) = []
         then Inl (Value_Error ''candidate claim text is empty'')
         else if \<not> (1 \<le> length (vq_evidence_slots q) \<and> length (vq_evidence_slots q) \<le> 12)
         then Inl (Value_Error ''candidate evidence slot count is invalid'')
         else if map vs_slot_id (vq_evidence_slots q)
                 \<noteq> map (ordinal_slot CHR ''E'') [1..<length (vq_evidence_slots q) + 1]
         then Inl (Value_Error ''candidate evidence slots are invalid'')
         else let texts = map (strip \<circ> vs_text) (vq_evidence_slots q) in
           if [] \<in> set texts \<or> \<not> distinct texts
           then Inl (Value_Error ''candidate evidence text is empty or ambiguous'')
           else Inr ()))"

definition make_validation_request ::
  "string \<Rightarrow> string \<Rightarrow> claim_input list \<Rightarrow> evidence_slot list \<Rightarrow> validation_request result" where
  "make_validation_request slot t cs es =
     (let q = \<lparr>vq_candidate_slot_id = slot, vq_item_type = t, vq_claims = cs, vq_evidence_slots = es\<rparr>
      in then_r (check_validation_request q) (\<lambda>_. Inr q))"

section \<open>Eligibility\<close>

record eligibility_input =
  el_item_type :: string
  el_permission_level :: string
  el_evidence_state :: evidence_state
  el_payload_complete :: bool
  el_uncertainty_present :: bool
  el_high_risk_language :: bool
  el_project_selection_required :: bool
  el_generation_identity_ready :: bool
  el_validator_identity_collision :: bool
  el_registry_ready :: bool
  el_budget_available :: bool
  el_fingerprint_projection_ready :: bool
  el_claim_fingerprint :: "string option"
  el_visible_targets :: "trusted_target list"
  el_hidden_or_legacy_collision :: bool
  el_lookup_available :: bool

record eligibility_result =
  er_decision :: review_decision
  er_reasons :: "policy_reason list"
  er_target :: "trusted_target option"

definition eligibility :: "review_decision \<Rightarrow> policy_reason \<Rightarrow> eligibility_result" where
  "eligibility d r = \<lparr>er_decision = d, er_reasons = [r], er_target = None\<rparr>"

definition validation_allowed :: "eligibility_result \<Rightarrow> bool" where
  "validation_allowed e \<longleftrightarrow> er_decision e \<in> {Eligible, Reuse_Trusted}"

definition exact_targets :: "eligibility_input \<Rightarrow> trusted_target list" where
  "exact_targets v = filter (\<lambda>t. tt_knowledge_type t = el_item_type v
     \<and> Some (tt_claim_fingerprint t) = el_claim_fingerprint v) (el_visible_targets v)"

definition evaluate_eligibility :: "eligibility_input \<Rightarrow> eligibility_result" where
  "evaluate_eligibility v =
     (if el_item_type v \<notin> set [''timeline_event'', ''history_event'']
      then eligibility Human_Review R_item_type_not_allowed
      else if el_permission_level v \<notin> set [''public'', ''internal'']
      then eligibility Human_Review R_permission_not_allowed
      else if el_evidence_state v = Changed_Evidence
      then eligibility Needs_More_Evidence R_evidence_version_changed
      else if el_evidence_state v = Missing_Evidence then eligibility Human_Review R_evidence_missing
      else if el_evidence_state v \<noteq> Exact_Evidence then eligibility Human_Review R_evidence_binding_mismatch
      else if \<not> el_payload_complete v then eligibility Human_Review R_payload_not_supported
      else if el_project_selection_required v then eligibility Human_Review R_project_selection_required
      else if el_uncertainty_present v then eligibility Human_Review R_uncertainty_present
      else if el_high_risk_language v then eligibility Human_Review R_high_risk_language
      else if el_validator_identity_collision v then eligibility Human_Review R_validator_identity_collision
      else if \<not> el_generation_identity_ready v then eligibility Human_Review R_generation_identity_missing
      else if \<not> el_registry_ready v then eligibility Human_Review R_registry_unavailable
      else if \<not> el_budget_available v then eligibility Human_Review R_budget_exceeded
      else if \<not> el_fingerprint_projection_ready v \<or> \<not> el_lookup_available v
      then eligibility Human_Review R_trusted_lookup_unavailable
      else if (case el_claim_fingerprint v of None \<Rightarrow> True | Some fp \<Rightarrow> code_points fp \<noteq> 64)
      then eligibility Human_Review R_payload_not_supported
      else if el_hidden_or_legacy_collision v then eligibility Human_Review R_trusted_hidden_collision
      else if el_visible_targets v \<noteq> [] then
        (if length (el_visible_targets v) \<noteq> 1 \<or> length (exact_targets v) \<noteq> 1
         then eligibility Human_Review R_trusted_visible_conflict
         else \<lparr>er_decision = Reuse_Trusted, er_reasons = [R_trusted_exact_match],
               er_target = Some (hd (exact_targets v))\<rparr>)
      else eligibility Eligible R_eligible)"

section \<open>Validation\<close>

record policy_identity =
  pi_provider :: string
  pi_model :: string
  pi_reasoning_effort :: string
  pi_prompt_version :: string
  pi_output_contract_version :: string
  pi_policy_version :: string

definition supported_validation_identity :: policy_identity where
  "supported_validation_identity =
     \<lparr>pi_provider = ''openai'', pi_model = ''gpt-5.6-terra'', pi_reasoning_effort = ''medium'',
      pi_prompt_version = ''auto-review-validation:v2'',
      pi_output_contract_version = ''candidate-validation-batch:v1'',
      pi_policy_version = ''auto-review-policy:v1''\<rparr>"

record validation_input =
  vi_eligibility :: eligibility_result
  vi_candidate_slot_id :: string
  vi_claim_fields :: "string list"
  vi_evidence_slot_ids :: "string list"
  vi_validator_available :: bool
  vi_validator_malformed :: bool
  vi_result :: "candidate_result option"
  vi_identity :: policy_identity
  vi_state_matches :: bool

record policy_result =
  po_decision :: review_decision
  po_reasons :: "policy_reason list"
  po_target :: "trusted_target option"
  po_minimum :: "int option"

definition policy :: "review_decision \<Rightarrow> policy_reason \<Rightarrow> policy_result" where
  "policy d r = \<lparr>po_decision = d, po_reasons = [r], po_target = None, po_minimum = None\<rparr>"

definition claim_slots_invalid :: "string list \<Rightarrow> field_result \<Rightarrow> bool" where
  "claim_slots_invalid allowed c \<longleftrightarrow>
     fr_slots c = [] \<or> \<not> distinct (fr_slots c) \<or> \<not> set (fr_slots c) \<subseteq> set allowed"

definition minimum_score :: "candidate_result \<Rightarrow> int" where
  "minimum_score r = Min (set (map fr_score (cr_claims r)))"

definition evaluate_result :: "validation_input \<Rightarrow> candidate_result \<Rightarrow> policy_result" where
  "evaluate_result v r =
     (if cr_slot r \<noteq> vi_candidate_slot_id v \<or> length (cr_claims r) \<noteq> 2
         \<or> map fr_field_key (cr_claims r) \<noteq> vi_claim_fields v
      then policy Human_Review R_validator_malformed
      else if \<exists>c \<in> set (cr_claims r). claim_slots_invalid (vi_evidence_slot_ids v) c
      then policy Human_Review R_validator_malformed
      else if cr_uncertainty r \<noteq> [] then policy Human_Review R_validator_uncertain
      else if cr_conflict r \<noteq> [] then policy Human_Review R_validator_conflict
      else if \<exists>c \<in> set (cr_claims r). fr_verdict c \<noteq> Supported
      then policy Human_Review R_validator_not_supported
      else if \<exists>c \<in> set (cr_claims r). fr_scope c \<noteq> Direct_Fact
      then policy Human_Review R_validator_not_direct_fact
      else if minimum_score r < min_entailment then policy Human_Review R_validator_score_below_threshold
      else if er_decision (vi_eligibility v) = Reuse_Trusted
      then \<lparr>po_decision = Reuse_Trusted, po_reasons = [R_trusted_exact_match],
            po_target = er_target (vi_eligibility v), po_minimum = Some (minimum_score r)\<rparr>
      else \<lparr>po_decision = Auto_Approve, po_reasons = [R_eligible], po_target = None,
            po_minimum = Some (minimum_score r)\<rparr>)"

definition evaluate_validation :: "validation_input \<Rightarrow> policy_result" where
  "evaluate_validation v =
     (if \<not> validation_allowed (vi_eligibility v)
      then \<lparr>po_decision = er_decision (vi_eligibility v), po_reasons = er_reasons (vi_eligibility v),
            po_target = None, po_minimum = None\<rparr>
      else if vi_identity v \<noteq> supported_validation_identity then policy Human_Review R_validator_unavailable
      else if \<not> vi_state_matches v then policy Needs_More_Evidence R_post_validation_drift
      else if \<not> vi_validator_available v then policy Human_Review R_validator_unavailable
      else if vi_validator_malformed v then policy Human_Review R_validator_malformed
      else case vi_result v of
        None \<Rightarrow> policy Human_Review R_validator_malformed
      | Some r \<Rightarrow> evaluate_result v r)"

definition malformed_batch :: "validation_input list \<Rightarrow> bool" where
  "malformed_batch vs \<longleftrightarrow>
     4 < length vs \<or> map vi_candidate_slot_id vs \<noteq> map (ordinal_slot CHR ''C'') [1..<length vs + 1]"

definition evaluate_batch :: "validation_input list \<Rightarrow> policy_result list" where
  "evaluate_batch vs =
     (if vs = [] then []
      else let results = map evaluate_validation vs in
        if malformed_batch vs \<or> (\<exists>r \<in> set results. po_reasons r = [R_validator_malformed])
        then map (\<lambda>_. policy Human_Review R_validator_malformed) vs
        else results)"

section \<open>What the decisions mean\<close>

text \<open>The conditions under which a candidate may be sent to the validator at all.\<close>

definition eligible_guards :: "eligibility_input \<Rightarrow> bool" where
  "eligible_guards v \<longleftrightarrow>
     el_item_type v \<in> set [''timeline_event'', ''history_event'']
     \<and> el_permission_level v \<in> set [''public'', ''internal'']
     \<and> el_evidence_state v = Exact_Evidence
     \<and> el_payload_complete v \<and> \<not> el_project_selection_required v
     \<and> \<not> el_uncertainty_present v \<and> \<not> el_high_risk_language v
     \<and> \<not> el_validator_identity_collision v \<and> el_generation_identity_ready v
     \<and> el_registry_ready v \<and> el_budget_available v
     \<and> el_fingerprint_projection_ready v \<and> el_lookup_available v
     \<and> (\<exists>fp. el_claim_fingerprint v = Some fp \<and> code_points fp = 64)
     \<and> \<not> el_hidden_or_legacy_collision v"

lemma eligibility_simps [simp]:
  "er_decision (eligibility d r) = d" "er_reasons (eligibility d r) = [r]" "er_target (eligibility d r) = None"
  by (simp_all add: eligibility_def)

lemma policy_simps [simp]:
  "po_decision (policy d r) = d" "po_reasons (policy d r) = [r]" "po_target (policy d r) = None"
  "po_minimum (policy d r) = None"
  by (simp_all add: policy_def)

lemma evaluate_eligibility_guards:
  assumes "eligible_guards v"
  shows "evaluate_eligibility v =
    (if el_visible_targets v = [] then eligibility Eligible R_eligible
     else if length (el_visible_targets v) \<noteq> 1 \<or> length (exact_targets v) \<noteq> 1
     then eligibility Human_Review R_trusted_visible_conflict
     else \<lparr>er_decision = Reuse_Trusted, er_reasons = [R_trusted_exact_match],
           er_target = Some (hd (exact_targets v))\<rparr>)"
  using assms by (auto simp: evaluate_eligibility_def eligible_guards_def)

definition not_eligible :: "eligibility_result \<Rightarrow> bool" where
  "not_eligible e \<longleftrightarrow> (\<exists>r. e = eligibility Human_Review r \<or> e = eligibility Needs_More_Evidence r)"

lemma not_eligible_if:
  "not_eligible (if b then eligibility Human_Review r else e) \<longleftrightarrow> b \<or> not_eligible e"
  "not_eligible (if b then eligibility Needs_More_Evidence r else e) \<longleftrightarrow> b \<or> not_eligible e"
  by (auto simp: not_eligible_def)

lemma eligible_if_guards: "\<not> not_eligible (evaluate_eligibility v) \<Longrightarrow> eligible_guards v"
  unfolding evaluate_eligibility_def not_eligible_if eligible_guards_def by (auto split: option.splits)

lemma evaluate_eligibility_refused:
  assumes "\<not> eligible_guards v"
  obtains r where "evaluate_eligibility v = eligibility Human_Review r"
    | r where "evaluate_eligibility v = eligibility Needs_More_Evidence r"
  using eligible_if_guards assms unfolding not_eligible_def by blast

lemma eligible_iff:
  "er_decision (evaluate_eligibility v) = Eligible \<longleftrightarrow> eligible_guards v \<and> el_visible_targets v = []"
proof (cases "eligible_guards v")
  case False
  then show ?thesis by (rule evaluate_eligibility_refused) (simp_all add: False)
qed (simp add: evaluate_eligibility_guards)

lemma reuse_iff:
  "er_decision (evaluate_eligibility v) = Reuse_Trusted \<longleftrightarrow>
     eligible_guards v \<and> (\<exists>t. el_visible_targets v = [t] \<and> exact_targets v = [t])"
proof (cases "eligible_guards v")
  case True
  have "length (exact_targets v) \<le> length (el_visible_targets v)" by (simp add: exact_targets_def)
  moreover have "exact_targets v = [t]" if "el_visible_targets v = [t]" "length (exact_targets v) = 1" for t
    using that by (auto simp: exact_targets_def split: if_splits)
  ultimately show ?thesis
    by (auto simp: True evaluate_eligibility_guards length_Suc_conv)
next
  case False
  then show ?thesis by (rule evaluate_eligibility_refused) (simp_all add: False)
qed

text \<open>
  The specification of a direct factual support: both claims of the candidate, in order, each supported
  as a direct fact with an entailment of at least 0.98, on slots that were offered, with no reservation.
\<close>

definition direct_support :: "string list \<Rightarrow> string list \<Rightarrow> candidate_result \<Rightarrow> bool" where
  "direct_support expected allowed r \<longleftrightarrow>
     map fr_field_key (cr_claims r) = expected \<and> length (cr_claims r) = 2
     \<and> cr_uncertainty r = [] \<and> cr_conflict r = []
     \<and> (\<forall>c \<in> set (cr_claims r). fr_verdict c = Supported \<and> fr_scope c = Direct_Fact \<and> 9800 \<le> fr_score c
          \<and> fr_slots c \<noteq> [] \<and> distinct (fr_slots c) \<and> set (fr_slots c) \<subseteq> set allowed)"

lemma minimum_score_ge: "cr_claims r \<noteq> [] \<Longrightarrow> n \<le> minimum_score r \<longleftrightarrow> (\<forall>c \<in> set (cr_claims r). n \<le> fr_score c)"
  by (simp add: minimum_score_def)

lemma evaluate_result_accepts:
  "po_decision (evaluate_result v r) \<in> {Auto_Approve, Reuse_Trusted} \<longleftrightarrow>
     cr_slot r = vi_candidate_slot_id v \<and> direct_support (vi_claim_fields v) (vi_evidence_slot_ids v) r"
proof -
  have "cr_claims r \<noteq> []" if "length (cr_claims r) = 2" using that by auto
  then have "(\<not> minimum_score r < min_entailment) \<longleftrightarrow> (\<forall>c \<in> set (cr_claims r). 9800 \<le> fr_score c)"
    if "length (cr_claims r) = 2"
    using that minimum_score_ge [of r 9800] by (simp add: min_entailment_def not_less)
  then show ?thesis
    by (auto simp: evaluate_result_def direct_support_def claim_slots_invalid_def)
qed

lemma evaluate_result_decision:
  "po_decision (evaluate_result v r) =
     (if cr_slot r = vi_candidate_slot_id v \<and> direct_support (vi_claim_fields v) (vi_evidence_slot_ids v) r
      then (if er_decision (vi_eligibility v) = Reuse_Trusted then Reuse_Trusted else Auto_Approve)
      else Human_Review)"
proof (cases "cr_slot r = vi_candidate_slot_id v \<and> direct_support (vi_claim_fields v) (vi_evidence_slot_ids v) r")
  case True
  then have "po_decision (evaluate_result v r) \<in> {Auto_Approve, Reuse_Trusted}"
    using evaluate_result_accepts by blast
  then show ?thesis by (auto simp: True evaluate_result_def split: if_splits)
next
  case False
  then have "po_decision (evaluate_result v r) \<notin> {Auto_Approve, Reuse_Trusted}"
    using evaluate_result_accepts by blast
  then show ?thesis using False by (auto simp: evaluate_result_def split: if_splits)
qed

text \<open>An automatic approval, as \<open>evaluate_validation\<close> gives it.\<close>

lemma auto_approve_iff:
  "po_decision (evaluate_validation v) = Auto_Approve \<longleftrightarrow>
     er_decision (vi_eligibility v) = Eligible \<and> vi_identity v = supported_validation_identity
     \<and> vi_state_matches v \<and> vi_validator_available v \<and> \<not> vi_validator_malformed v
     \<and> (\<exists>r. vi_result v = Some r \<and> cr_slot r = vi_candidate_slot_id v
          \<and> direct_support (vi_claim_fields v) (vi_evidence_slot_ids v) r)
   \<or> er_decision (vi_eligibility v) = Auto_Approve"
  by (auto simp: evaluate_validation_def validation_allowed_def evaluate_result_decision split: option.splits)

lemma eligibility_never_approves: "er_decision (evaluate_eligibility v) \<noteq> Auto_Approve"
proof (cases "eligible_guards v")
  case False
  then show ?thesis by (rule evaluate_eligibility_refused) simp_all
qed (simp add: evaluate_eligibility_guards)

lemma evaluate_batch_length [simp]: "length (evaluate_batch vs) = length vs"
  by (simp add: evaluate_batch_def Let_def)

lemma evaluate_batch_accepts:
  assumes "i < length vs" and "po_decision (evaluate_batch vs ! i) \<noteq> Human_Review"
  shows "evaluate_batch vs ! i = evaluate_validation (vs ! i)" and "\<not> malformed_batch vs"
    and "\<forall>v \<in> set vs. po_reasons (evaluate_validation v) \<noteq> [R_validator_malformed]"
  using assms by (auto simp: evaluate_batch_def Let_def split: if_splits)

section \<open>The cost registry\<close>

record validation_cost_policy =
  vc_cost_policy_version :: string
  vc_provider :: string
  vc_model :: string
  vc_reasoning_effort :: string
  vc_token_estimator_version :: string
  vc_tokenizer_encoding :: string
  vc_reply_priming_tokens :: int
  vc_framing_safety_tokens :: int
  vc_max_input_tokens :: int
  vc_max_output_tokens :: int
  vc_max_candidates_per_batch :: int
  vc_max_batches_per_workflow :: int
  vc_max_provider_attempts :: int
  vc_input_price :: int
  vc_output_price :: int

definition validator_cost_policy :: validation_cost_policy where
  "validator_cost_policy =
     \<lparr>vc_cost_policy_version = ''auto-review-cost:v1'', vc_provider = ''openai'', vc_model = ''gpt-5.6-terra'',
      vc_reasoning_effort = ''medium'', vc_token_estimator_version = ''openai-o200k-chat:v1'',
      vc_tokenizer_encoding = ''o200k_base'', vc_reply_priming_tokens = 16, vc_framing_safety_tokens = 512,
      vc_max_input_tokens = 6000, vc_max_output_tokens = 3072, vc_max_candidates_per_batch = 4,
      vc_max_batches_per_workflow = 2, vc_max_provider_attempts = 1, vc_input_price = 2000000,
      vc_output_price = 12000000\<rparr>"

record extraction_route =
  xr_cost_policy_version :: string
  xr_agent_name :: string
  xr_provider :: string
  xr_model :: string
  xr_reasoning_effort :: string
  xr_route_version :: string
  xr_prompt_version :: string
  xr_output_contract_version :: string
  xr_token_estimator_version :: string
  xr_tokenizer_encoding :: string
  xr_reply_priming_tokens :: int
  xr_framing_safety_tokens :: int
  xr_max_input_chars :: int
  xr_max_input_tokens :: int
  xr_max_output_tokens :: int
  xr_max_candidates :: int
  xr_max_provider_attempts :: int
  xr_input_price :: int
  xr_output_price :: int

definition make_route :: "string \<Rightarrow> string \<Rightarrow> string \<Rightarrow> extraction_route" where
  "make_route agent prompt_version output_contract =
     \<lparr>xr_cost_policy_version = ''auto-review-extraction-cost:v1'', xr_agent_name = agent, xr_provider = ''openai'',
      xr_model = ''gpt-5.4-mini-2026-03-17'', xr_reasoning_effort = ''none'',
      xr_route_version = ''auto-review-extraction-route:v1'', xr_prompt_version = prompt_version,
      xr_output_contract_version = output_contract, xr_token_estimator_version = ''openai-o200k-extraction:v1'',
      xr_tokenizer_encoding = ''o200k_base'', xr_reply_priming_tokens = 16, xr_framing_safety_tokens = 512,
      xr_max_input_chars = 24000, xr_max_input_tokens = 10000, xr_max_output_tokens = 2048, xr_max_candidates = 1,
      xr_max_provider_attempts = 1, xr_input_price = 750000, xr_output_price = 4500000\<rparr>"

definition extraction_routes :: "extraction_route list" where
  "extraction_routes =
     [make_route ''mail_document_agent'' ''mail-document-extraction:c5-v2'' ''mail-document-candidate:c5-v2'',
      make_route ''timeline_agent'' ''timeline-extraction:c5-v2'' ''timeline-candidate:c5-v2'',
      make_route ''history_agent'' ''history-extraction:c5-v2'' ''history-candidate:c5-v2'',
      make_route ''decision_record_agent'' ''decision-record-extraction:c5-v2'' ''decision-record-candidate:c5-v2'',
      make_route ''todo_agent'' ''todo-extraction:c5-v2'' ''todo-candidate:c5-v2'']"

text \<open>
  \<open>_maximum_cost\<close>: micro-USD, rounded up. The default context of 28 digits holds the products of the
  token caps and the registered prices.
\<close>

definition maximum_cost :: "int \<Rightarrow> int \<Rightarrow> int \<Rightarrow> int \<Rightarrow> int" where
  "maximum_cost inp out in_price out_price = ceil_div (inp * in_price + out * out_price) 1000000"

definition max_batch_cost :: int where "max_batch_cost = 48864"
definition max_validation_cost :: int where "max_validation_cost = 97728"
definition max_extraction_cost :: int where "max_extraction_cost = 83580"
definition max_profile_cost :: int where "max_profile_cost = 181308"
definition max_workflow_cost :: int where "max_workflow_cost = 200000"

text \<open>The assertions of the module, which hold when it is imported.\<close>

lemma registry_assertions:
  "map xr_agent_name extraction_routes =
     [''mail_document_agent'', ''timeline_agent'', ''history_agent'', ''decision_record_agent'', ''todo_agent'']"
  "distinct (map xr_prompt_version extraction_routes)"
  "distinct (map xr_output_contract_version extraction_routes)"
  "maximum_cost 10000 2048 750000 4500000 = 16716"
  "maximum_cost 6000 3072 2000000 12000000 = max_batch_cost"
  "5 * 16716 = max_extraction_cost" "2 * max_batch_cost = max_validation_cost"
  "max_extraction_cost + max_validation_cost = max_profile_cost" "max_profile_cost \<le> max_workflow_cost"
  by (simp_all add: extraction_routes_def make_route_def maximum_cost_def ceil_div_def max_batch_cost_def
      max_validation_cost_def max_extraction_cost_def max_profile_cost_def max_workflow_cost_def)

definition get_validation_policy ::
  "string \<Rightarrow> string \<Rightarrow> string \<Rightarrow> string \<Rightarrow> validation_cost_policy option" where
  "get_validation_policy version provider model effort =
     (let p = validator_cost_policy in
      if (version, provider, model, effort)
         \<noteq> (vc_cost_policy_version p, vc_provider p, vc_model p, vc_reasoning_effort p)
      then None else Some p)"

definition get_extraction_route ::
  "string \<Rightarrow> string \<Rightarrow> string \<Rightarrow> string \<Rightarrow> string \<Rightarrow> string \<Rightarrow> string \<Rightarrow> string \<Rightarrow> extraction_route option" where
  "get_extraction_route agent version provider model effort route prompt_version output_contract =
     List.find (\<lambda>p. (agent, version, provider, model, effort, route, prompt_version, output_contract)
       = (xr_agent_name p, xr_cost_policy_version p, xr_provider p, xr_model p, xr_reasoning_effort p,
          xr_route_version p, xr_prompt_version p, xr_output_contract_version p)) extraction_routes"

definition confirmation_prices_match_registry :: "int option \<Rightarrow> int option \<Rightarrow> int option \<Rightarrow> int option \<Rightarrow> bool" where
  "confirmation_prices_match_registry xi xo vi vo \<longleftrightarrow>
     (xi, xo, vi, vo) = (Some 750000, Some 4500000, Some 2000000, Some 12000000)"

lemma maximum_cost_mono:
  assumes "i \<le> i'" and "j \<le> j'" and "0 \<le> p" and "0 \<le> q"
  shows "maximum_cost i j p q \<le> maximum_cost i' j' p q"
proof -
  have "i * p + j * q \<le> i' * p + j' * q" using assms by (intro add_mono mult_right_mono)
  then have "- (i' * p + j' * q) div 1000000 \<le> - (i * p + j * q) div 1000000"
    by (intro zdiv_mono1) simp_all
  then show ?thesis by (simp add: maximum_cost_def ceil_div_def)
qed

end
