(* ===== verification/Validation_Ledger.thy ===== *)
theory Validation_Ledger
  imports Auto_Review_Validator "HOL-Library.AList" "HOL-Library.Product_Lexorder"
begin

text \<open>
  \<open>ValidationCallLedger\<close> of \<open>agent_runtime/auto_review_validation_store.py\<close>: the state machine of a paid
  validation call, which is claimed under a lease, started once, sent once under a committed permit, and
  closed by a completion, a failure, a cancellation or a recovery. The calls are an association list in
  the order of the Python dict. Times are microseconds; the clocks, the lease token, the outcome of the
  commit and SHA-256 are arguments. A grant is an object of its own: the ledger numbers the grants it has
  handed out, and a caller presents the number. Amounts are micro-USD, which their columns hold with six
  places.
\<close>

section \<open>Identities and requests\<close>

record exec_identity =
  xi_execution_hmac :: string
  xi_scope_hmac :: string
  xi_candidate_key :: string
  xi_evidence_version_hash :: string
  xi_claim_fingerprint :: string
  xi_generation_fingerprint :: string
  xi_provider :: string
  xi_model :: string
  xi_reasoning_effort :: string
  xi_prompt_version :: string
  xi_output_contract_version :: string
  xi_policy_version :: string
  xi_key_version :: string
  xi_key_verifier :: string
  xi_token_estimator_version :: string
  xi_tokenizer_encoding :: string
  xi_max_input_tokens :: int
  xi_max_output_tokens :: int
  xi_max_candidates_per_batch :: int
  xi_max_batches_per_workflow :: int
  xi_max_candidates_per_workflow :: int
  xi_max_provider_attempts :: int
  xi_timeout :: int
  xi_send_window :: int
  xi_attempt_lease :: int
  xi_commit_grace :: int
  xi_input_price :: int
  xi_output_price :: int
  xi_cost_policy_version :: string
  xi_safety_state_version :: int
  xi_rollout_epoch :: int
  xi_authorized_percentage :: int
  xi_rollout_generation :: int
  xi_extraction_ceiling :: int
  xi_validation_ceiling :: int
  xi_total_ceiling :: int

definition identity_payload :: "exec_identity \<Rightarrow> json" where
  "identity_payload x =
     JObj [(''workflow_execution_identity_hmac'', JStr (xi_execution_hmac x)),
           (''security_scope_hmac'', JStr (xi_scope_hmac x)),
           (''candidate_key'', JStr (xi_candidate_key x)),
           (''evidence_version_hash'', JStr (xi_evidence_version_hash x)),
           (''normalized_claim_fingerprint'', JStr (xi_claim_fingerprint x)),
           (''candidate_generation_fingerprint'', JStr (xi_generation_fingerprint x)),
           (''validator_provider'', JStr (xi_provider x)),
           (''validator_model'', JStr (xi_model x)),
           (''reasoning_effort'', JStr (xi_reasoning_effort x)),
           (''validator_prompt_version'', JStr (xi_prompt_version x)),
           (''validator_output_contract_version'', JStr (xi_output_contract_version x)),
           (''policy_version'', JStr (xi_policy_version x)),
           (''fingerprint_key_version'', JStr (xi_key_version x)),
           (''fingerprint_key_material_verifier'', JStr (xi_key_verifier x)),
           (''token_estimator_version'', JStr (xi_token_estimator_version x)),
           (''tokenizer_encoding'', JStr (xi_tokenizer_encoding x)),
           (''max_input_tokens'', JInt (xi_max_input_tokens x)),
           (''max_output_tokens'', JInt (xi_max_output_tokens x)),
           (''max_candidates_per_batch'', JInt (xi_max_candidates_per_batch x)),
           (''max_batches_per_workflow'', JInt (xi_max_batches_per_workflow x)),
           (''max_candidates_per_workflow'', JInt (xi_max_candidates_per_workflow x)),
           (''max_provider_attempts'', JInt (xi_max_provider_attempts x)),
           (''provider_timeout_seconds'', JInt (xi_timeout x)),
           (''provider_send_start_window_seconds'', JInt (xi_send_window x)),
           (''provider_attempt_lease_seconds'', JInt (xi_attempt_lease x)),
           (''provider_commit_grace_seconds'', JInt (xi_commit_grace x)),
           (''input_cost_per_1m_tokens'', JStr (format6 (xi_input_price x))),
           (''output_cost_per_1m_tokens'', JStr (format6 (xi_output_price x))),
           (''cost_policy_version'', JStr (xi_cost_policy_version x)),
           (''provider_safety_state_version'', JInt (xi_safety_state_version x)),
           (''rollout_control_epoch'', JInt (xi_rollout_epoch x)),
           (''authorized_percentage_at_launch'', JInt (xi_authorized_percentage x)),
           (''rollout_authorization_generation'', JInt (xi_rollout_generation x)),
           (''confirmed_extraction_cost_ceiling_usd'', JStr (format6 (xi_extraction_ceiling x))),
           (''confirmed_validation_cost_ceiling_usd'', JStr (format6 (xi_validation_ceiling x))),
           (''confirmed_total_cost_ceiling_usd'', JStr (format6 (xi_total_ceiling x)))]"

definition derive_validation_key :: "primitives \<Rightarrow> rag_settings \<Rightarrow> exec_identity \<Rightarrow> string result" where
  "derive_validation_key P st x =
     settings_fingerprint P st ''auto-review-validation-key:v1'' (xi_policy_version x) (identity_payload x)"

record candidate_claim =
  cc_review_item_id :: int
  cc_validation_key :: string
  cc_identity :: exec_identity

record claim_request =
  vb_thread :: string
  vb_fingerprint :: string
  vb_candidates :: "candidate_claim list"
  vb_max_attempts :: int
  vb_content_hmac :: string
  vb_characters :: int
  vb_framed :: int
  vb_reserved_input :: int
  vb_reserved_output :: int
  vb_reserved_cost :: int

definition candidate_order :: "candidate_claim list \<Rightarrow> candidate_claim list" where
  "candidate_order cs = sort_key cc_validation_key cs"

definition claim_json :: "candidate_claim \<Rightarrow> json" where
  "claim_json c =
     JObj [(''review_item_id'', JInt (cc_review_item_id c)), (''validation_key'', JStr (cc_validation_key c)),
           (''identity'', identity_payload (cc_identity c))]"

definition derive_batch_fingerprint :: "primitives \<Rightarrow> rag_settings \<Rightarrow> claim_request \<Rightarrow> string result" where
  "derive_batch_fingerprint P st q =
     settings_fingerprint P st ''auto-review-validation-batch:v1'' ''auto-review-cost:v1''
       (JObj [(''workflow_thread_id'', JStr (vb_thread q)),
              (''candidates'', JList (map claim_json (candidate_order (vb_candidates q)))),
              (''prepared_content_hmac'', JStr (vb_content_hmac q)),
              (''serialized_character_count'', JInt (vb_characters q)),
              (''framed_input_tokens'', JInt (vb_framed q)),
              (''reserved_input_tokens'', JInt (vb_reserved_input q)),
              (''reserved_output_tokens'', JInt (vb_reserved_output q)),
              (''reserved_cost_usd'', JStr (format6 (vb_reserved_cost q)))])"

definition store_refusal :: "string \<Rightarrow> 'a result" where
  "store_refusal m = Inl (Validation_Store_Error m)"

section \<open>Costs\<close>

definition token_cost :: "int \<Rightarrow> int \<Rightarrow> int \<Rightarrow> int \<Rightarrow> int result" where
  "token_cost inp out in_price out_price =
     (if inp < 0 \<or> out < 0 then store_refusal ''validation usage is invalid''
      else Inr (maximum_cost inp out in_price out_price))"

definition allocate_integer_tokens :: "int \<Rightarrow> nat \<Rightarrow> int list result" where
  "allocate_integer_tokens amount n =
     (if amount < 0 \<or> n = 0 then store_refusal ''validation allocation is invalid''
      else Inr (map (\<lambda>i. amount div int n + (if int i < amount mod int n then 1 else 0)) [0..<n]))"

text \<open>
  The largest-remainder allocation of a cost. A price is in micro-USD per million tokens, so a raw cost is
  in millionths of a micro-USD.
\<close>

definition raw_costs :: "int list \<Rightarrow> int list \<Rightarrow> int \<Rightarrow> int \<Rightarrow> int list" where
  "raw_costs inp out in_price out_price = map (\<lambda>(i, j). i * in_price + j * out_price) (zip inp out)"

definition remainder_order :: "int list \<Rightarrow> string list \<Rightarrow> nat list" where
  "remainder_order raw ties = sort_key (\<lambda>i. (- (raw ! i mod 1000000), ties ! i)) [0..<length raw]"

definition allocate_micro_usd ::
  "int list \<Rightarrow> int list \<Rightarrow> int \<Rightarrow> int \<Rightarrow> int \<Rightarrow> string list \<Rightarrow> int list result" where
  "allocate_micro_usd inp out in_price out_price amount ties =
     (let raw = raw_costs inp out in_price out_price;
          floors = map (\<lambda>r. r div 1000000) raw;
          remaining = amount - sum_list floors
      in if remaining < 0 then store_refusal ''validation cost allocation is invalid''
         else let raised = set (take (nat remaining) (remainder_order raw ties)) in
           Inr (map (\<lambda>i. floors ! i + (if i \<in> raised then 1 else 0)) [0..<length floors]))"

section \<open>The checks of a request\<close>

text \<open>The identity fields that may differ between the candidates of a batch.\<close>

definition shared_identity :: "exec_identity \<Rightarrow> exec_identity" where
  "shared_identity x = x\<lparr>xi_candidate_key := [], xi_evidence_version_hash := [],
     xi_claim_fingerprint := [], xi_generation_fingerprint := []\<rparr>"

fun keys_derived :: "primitives \<Rightarrow> rag_settings \<Rightarrow> candidate_claim list \<Rightarrow> bool result" where
  "keys_derived P st [] = Inr True"
| "keys_derived P st (c # cs) =
     then_r (derive_validation_key P st (cc_identity c)) (\<lambda>k.
       if k \<noteq> cc_validation_key c then Inr False else keys_derived P st cs)"

definition registry_identity :: "rag_settings \<Rightarrow> exec_identity \<Rightarrow> bool" where
  "registry_identity st x \<longleftrightarrow>
     xi_provider x = ''openai'' \<and> xi_model x = ''gpt-5.6-terra'' \<and> xi_reasoning_effort x = ''medium''
     \<and> xi_prompt_version x = ''auto-review-validation:v2''
     \<and> xi_output_contract_version x = ''candidate-validation-batch:v1''
     \<and> xi_token_estimator_version x = ''openai-o200k-chat:v1'' \<and> xi_tokenizer_encoding x = ''o200k_base''
     \<and> xi_max_input_tokens x = 6000 \<and> xi_max_output_tokens x = 3072 \<and> xi_max_candidates_per_batch x = 4
     \<and> xi_max_provider_attempts x = 1 \<and> xi_input_price x = 2000000 \<and> xi_output_price x = 12000000
     \<and> xi_cost_policy_version x = ''auto-review-cost:v1'' \<and> xi_key_version x = fingerprint_key_version st"

definition reservation_valid :: "claim_request \<Rightarrow> exec_identity \<Rightarrow> int \<Rightarrow> bool" where
  "reservation_valid q first expected \<longleftrightarrow>
     vb_max_attempts q = 1 \<and> code_points (vb_content_hmac q) = 64
     \<and> 0 < vb_characters q \<and> vb_characters q \<le> 12000
     \<and> 0 < vb_framed q \<and> vb_framed q \<le> xi_max_input_tokens first
     \<and> vb_reserved_input q = vb_framed q \<and> vb_reserved_output q = xi_max_output_tokens first
     \<and> vb_reserved_cost q = expected \<and> vb_reserved_cost q \<le> max_batch_cost
     \<and> vb_reserved_cost q \<le> xi_validation_ceiling first
     \<and> xi_extraction_ceiling first + vb_reserved_cost q \<le> xi_total_ceiling first"

definition validate_claim_request :: "primitives \<Rightarrow> rag_settings \<Rightarrow> claim_request \<Rightarrow> unit result" where
  "validate_claim_request P st q =
     (let cs = vb_candidates q; first = cc_identity (hd cs) in
      if \<not> (1 \<le> length cs \<and> length cs \<le> 4) then store_refusal ''validation candidate count is invalid''
      else
      then_r (if distinct (map cc_validation_key cs) then keys_derived P st cs else Inr False) (\<lambda>keys_ok.
      if \<not> keys_ok then store_refusal ''validation key identity changed''
      else if \<exists>c \<in> set (tl cs). shared_identity (cc_identity c) \<noteq> shared_identity first
      then store_refusal ''validation batch identity changed''
      else if \<not> registry_identity st first then store_refusal ''validation registry identity changed''
      else
      then_r (token_cost (vb_reserved_input q) (vb_reserved_output q) (xi_input_price first)
                (xi_output_price first)) (\<lambda>expected.
      if \<not> reservation_valid q first expected then store_refusal ''validation reservation is invalid''
      else
      then_r (derive_batch_fingerprint P st q) (\<lambda>fp.
      if fp \<noteq> vb_fingerprint q then store_refusal ''validation batch identity changed'' else Inr ()))))"

definition lease_seconds :: "claim_request \<Rightarrow> int result" where
  "lease_seconds q =
     (case remdups (map (xi_attempt_lease \<circ> cc_identity) (vb_candidates q)) of
        [s] \<Rightarrow> Inr s
      | _ \<Rightarrow> store_refusal ''validation timing identity changed'')"

section \<open>State\<close>

datatype call_status = Call_Claimed | Call_Completed | Call_Failed

record completed_projection =
  cv_call_id :: int
  cv_validation_id :: int
  cv_review_item_id :: int
  cv_result :: candidate_result
  cv_decision :: review_decision
  cv_reasons :: "policy_reason list"
  cv_input :: int
  cv_output :: int
  cv_cost :: int
  cv_cache_hit :: bool

record call_state =
  cs_request :: claim_request
  cs_call_id :: int
  cs_lease_token :: string
  cs_lease_expires :: int
  cs_attempts :: int
  cs_started :: "int option"
  cs_dispatched :: bool
  cs_status :: call_status
  cs_completed :: "completed_projection list"
  cs_reason :: "policy_reason option"
  cs_input :: "int option"
  cs_output :: "int option"
  cs_cost :: int
  cs_overrun :: bool
  cs_overrun_cost :: int
  cs_terminal :: "int option"
  cs_cancelled :: bool

record send_grant =
  vg_attempt_id :: string
  vg_timeout :: int
  vg_lease_expires :: int
  vg_deadline :: int
  vg_consumed :: bool
  vg_invalidated :: bool

type_synonym call_key = "string \<times> string"

record validation_ledger =
  vl_calls :: "(call_key \<times> call_state) list"
  vl_active :: "(string \<times> nat \<times> call_key) list"
  vl_grants :: "send_grant list"
  vl_next_call :: int
  vl_next_validation :: int
  vl_breaker :: bool
  vl_events :: int

definition empty_ledger :: validation_ledger where
  "empty_ledger = \<lparr>vl_calls = [], vl_active = [], vl_grants = [], vl_next_call = 1, vl_next_validation = 1,
     vl_breaker = False, vl_events = 0\<rparr>"

abbreviation call_at :: "validation_ledger \<Rightarrow> call_key \<Rightarrow> call_state option" where
  "call_at L \<equiv> map_of (vl_calls L)"

definition put_call :: "call_key \<Rightarrow> call_state \<Rightarrow> validation_ledger \<Rightarrow> validation_ledger" where
  "put_call k s L = L\<lparr>vl_calls := AList.update k s (vl_calls L)\<rparr>"

definition seconds :: "int \<Rightarrow> int" where
  "seconds n = n * 1000000"

section \<open>Operations\<close>

datatype claim_disposition = Newly_Claimed | Replayed | Busy

record claim_outcome =
  co_disposition :: claim_disposition
  co_call_id :: int
  co_lease_token :: "string option"
  co_lease_expires :: "int option"
  co_terminal :: "call_status option"
  co_reason :: "policy_reason option"
  co_completed :: "completed_projection list"

definition next_lease_token :: "string \<Rightarrow> string result" where
  "next_lease_token token =
     (if code_points token \<noteq> 64 then store_refusal ''validation lease token is unavailable'' else Inr token)"

definition new_claim :: "claim_request \<Rightarrow> int \<Rightarrow> int \<Rightarrow> string \<Rightarrow> call_state result" where
  "new_claim q call_id now token =
     then_r (next_lease_token token) (\<lambda>tok.
     then_r (lease_seconds q) (\<lambda>lease.
       Inr \<lparr>cs_request = q, cs_call_id = call_id, cs_lease_token = tok,
         cs_lease_expires = now + seconds lease, cs_attempts = 0, cs_started = None, cs_dispatched = False,
         cs_status = Call_Claimed, cs_completed = [], cs_reason = None, cs_input = None, cs_output = None,
         cs_cost = 0, cs_overrun = False, cs_overrun_cost = 0, cs_terminal = None, cs_cancelled = False\<rparr>))"

definition claimed_result :: "call_state \<Rightarrow> claim_outcome" where
  "claimed_result s =
     \<lparr>co_disposition = Newly_Claimed, co_call_id = cs_call_id s, co_lease_token = Some (cs_lease_token s),
      co_lease_expires = Some (cs_lease_expires s), co_terminal = None, co_reason = None, co_completed = []\<rparr>"

definition replayed_result :: "call_state \<Rightarrow> claim_outcome result" where
  "replayed_result s =
     (if cs_status s = Call_Completed then
        (if cs_completed s = [] then store_refusal ''completed validation projection is unavailable''
         else Inr \<lparr>co_disposition = Replayed, co_call_id = cs_call_id s, co_lease_token = None,
           co_lease_expires = None, co_terminal = Some Call_Completed, co_reason = None,
           co_completed = cs_completed s\<rparr>)
      else
        (if cs_reason s = None then store_refusal ''failed validation reason is unavailable''
         else Inr \<lparr>co_disposition = Replayed, co_call_id = cs_call_id s, co_lease_token = None,
           co_lease_expires = None, co_terminal = Some Call_Failed, co_reason = cs_reason s,
           co_completed = []\<rparr>))"

definition busy_result :: "call_state \<Rightarrow> claim_outcome" where
  "busy_result s =
     \<lparr>co_disposition = Busy, co_call_id = cs_call_id s, co_lease_token = None,
      co_lease_expires = Some (cs_lease_expires s), co_terminal = None, co_reason = None, co_completed = []\<rparr>"

definition claim_or_replay ::
  "primitives \<Rightarrow> rag_settings \<Rightarrow> claim_request \<Rightarrow> int \<Rightarrow> string \<Rightarrow> validation_ledger
    \<Rightarrow> (validation_ledger \<times> claim_outcome) result" where
  "claim_or_replay P st q now token L =
     then_r (validate_claim_request P st q) (\<lambda>_.
     let key = (vb_thread q, vb_fingerprint q) in
     case call_at L key of
       None \<Rightarrow>
         then_r (new_claim q (vl_next_call L) now token) (\<lambda>s.
           Inr ((put_call key s L)\<lparr>vl_next_call := vl_next_call L + 1\<rparr>, claimed_result s))
     | Some s \<Rightarrow>
         (if cs_request s \<noteq> q then store_refusal ''validation claim identity changed''
          else if cs_status s \<noteq> Call_Claimed then then_r (replayed_result s) (\<lambda>r. Inr (L, r))
          else if now < cs_lease_expires s \<or> cs_attempts s \<noteq> 0 then Inr (L, busy_result s)
          else
          then_r (next_lease_token token) (\<lambda>tok.
          then_r (lease_seconds q) (\<lambda>lease.
            let s' = s\<lparr>cs_lease_token := tok, cs_lease_expires := now + seconds lease\<rparr>
            in Inr (put_call key s' L, claimed_result s')))))"

record attempt_admission =
  va_call_id :: int
  va_thread :: string
  va_fingerprint :: string
  va_lease_token :: string
  va_content_hmac :: string
  va_characters :: int
  va_framed :: int
  va_max_output :: int
  va_cost :: int
  va_owner_hmac :: string
  va_source_hmac :: string
  va_key_version :: string
  va_key_verifier :: string
  va_token_estimator_version :: string
  va_cost_policy_version :: string
  va_mode :: string
  va_timeout :: int
  va_send_window :: int
  va_attempt_lease :: int
  va_commit_grace :: int

definition admission_matches :: "call_state \<Rightarrow> attempt_admission \<Rightarrow> bool" where
  "admission_matches s a \<longleftrightarrow>
     (let q = cs_request s; x = cc_identity (hd (vb_candidates q)) in
      va_content_hmac a = vb_content_hmac q \<and> va_characters a = vb_characters q \<and> va_framed a = vb_framed q
      \<and> va_max_output a = xi_max_output_tokens x \<and> va_cost a = vb_reserved_cost q
      \<and> va_key_version a = xi_key_version x \<and> va_key_verifier a = xi_key_verifier x
      \<and> va_token_estimator_version a = xi_token_estimator_version x
      \<and> va_cost_policy_version a = xi_cost_policy_version x
      \<and> va_timeout a = xi_timeout x \<and> va_send_window a = xi_send_window x
      \<and> va_attempt_lease a = xi_attempt_lease x \<and> va_commit_grace a = xi_commit_grace x)"

text \<open>When the commit raises, the attempt is taken back and its exception goes on.\<close>

definition mark_attempt_started ::
  "(string \<Rightarrow> string) \<Rightarrow> attempt_admission \<Rightarrow> int \<Rightarrow> int \<Rightarrow> unit result \<Rightarrow> validation_ledger
    \<Rightarrow> (validation_ledger \<times> nat) result" where
  "mark_attempt_started sha256_hex a now tick committed L =
     (let key = (va_thread a, va_fingerprint a) in
      case call_at L key of
        None \<Rightarrow> store_refusal ''validation attempt is not claimable''
      | Some s \<Rightarrow>
        (if cs_call_id s \<noteq> va_call_id a \<or> cs_lease_token s \<noteq> va_lease_token a \<or> cs_attempts s \<noteq> 0
            \<or> cs_lease_expires s \<le> now
         then store_refusal ''validation attempt is not claimable''
         else if \<not> admission_matches s a then store_refusal ''validation admission identity changed''
         else
         then_r committed (\<lambda>_.
           let expires = now + seconds (va_attempt_lease a);
               s' = s\<lparr>cs_attempts := 1, cs_started := Some now, cs_lease_expires := expires\<rparr>;
               attempt = sha256_hex (cs_lease_token s @ '':attempt:1'');
               g = \<lparr>vg_attempt_id = attempt, vg_timeout = va_timeout a, vg_lease_expires = expires,
                    vg_deadline = tick + seconds (va_send_window a), vg_consumed = False, vg_invalidated = False\<rparr>;
               i = length (vl_grants L)
           in Inr ((put_call key s' L)\<lparr>vl_grants := vl_grants L @ [g],
                     vl_active := AList.update attempt (i, key) (vl_active L)\<rparr>, i))))"

text \<open>\<open>_CommittedPermit.consume_at_dispatch\<close>.\<close>

definition consume_permit :: "send_grant \<Rightarrow> int \<Rightarrow> send_grant result" where
  "consume_permit g tick =
     (if vg_consumed g then Inl (Send_Fence_Error ''provider send permit was consumed'')
      else if vg_invalidated g \<or> vg_deadline g \<le> tick
      then Inl (Send_Fence_Error ''provider send permit expired'')
      else Inr (g\<lparr>vg_consumed := True\<rparr>))"

definition dispatch_changed :: "call_state \<Rightarrow> prepared_validation \<Rightarrow> int \<Rightarrow> bool" where
  "dispatch_changed s prepared now \<longleftrightarrow>
     cs_lease_expires s \<le> now \<or> pd_content_hmac prepared \<noteq> vb_content_hmac (cs_request s)
     \<or> int (vf_characters prepared) \<noteq> vb_characters (cs_request s)
     \<or> int (vf_framed prepared) \<noteq> vb_framed (cs_request s)
     \<or> vf_max_output prepared \<noteq> xi_max_output_tokens (cc_identity (hd (vb_candidates (cs_request s))))"

text \<open>
  The part of \<open>dispatch_prepared_validation\<close> under the lock; what it returns is the timeout the provider
  is then called with. A refusal may still have dropped the grant.
\<close>

definition dispatch_prepared ::
  "prepared_validation \<Rightarrow> nat option \<Rightarrow> int \<Rightarrow> int \<Rightarrow> validation_ledger \<Rightarrow> validation_ledger \<times> int result" where
  "dispatch_prepared prepared handle now tick L =
     (case handle of
        None \<Rightarrow> (L, store_refusal ''committed provider attempt grant is required'')
      | Some i \<Rightarrow>
        (if length (vl_grants L) \<le> i
         then (L, store_refusal ''committed provider attempt grant is required'')
         else
         let g = vl_grants L ! i; attempt = vg_attempt_id g;
             dropped = L\<lparr>vl_active := AList.delete attempt (vl_active L)\<rparr> in
         case map_of (vl_active L) attempt of
           None \<Rightarrow> (L, store_refusal ''committed provider attempt grant is required'')
         | Some (j, key) \<Rightarrow>
           (if j \<noteq> i then (L, store_refusal ''committed provider attempt grant is required'')
            else case call_at L key of
              None \<Rightarrow> (L, store_refusal ''committed provider attempt grant is required'')
            | Some s \<Rightarrow>
              (if dispatch_changed s prepared now
               then (dropped, store_refusal ''prepared validation dispatch changed'')
               else case consume_permit g tick of
                 Inl e \<Rightarrow> (dropped, Inl e)
               | Inr g' \<Rightarrow>
                 ((put_call key (s\<lparr>cs_dispatched := True\<rparr>) dropped)\<lparr>vl_grants := (vl_grants L)[i := g']\<rparr>,
                  Inr (vg_timeout g))))))"

record locked_context =
  lc_call_id :: int
  lc_thread :: string
  lc_fingerprint :: string
  lc_lease_token :: string

record candidate_completion =
  pc_review_item_id :: int
  pc_validation_key :: string
  pc_result :: candidate_result
  pc_decision :: review_decision
  pc_reasons :: "policy_reason list"

record batch_completion = locked_context +
  bc_candidates :: "candidate_completion list"
  bc_input :: int
  bc_output :: int

record batch_failure = locked_context +
  bf_reason :: policy_reason
  bf_usage_known :: bool
  bf_input :: "int option"
  bf_output :: "int option"

definition context_key :: "'a locked_context_scheme \<Rightarrow> call_key" where
  "context_key c = (lc_thread c, lc_fingerprint c)"

definition locked_state :: "'a locked_context_scheme \<Rightarrow> validation_ledger \<Rightarrow> call_state result" where
  "locked_state c L =
     (case call_at L (context_key c) of
        None \<Rightarrow> store_refusal ''locked validation context is required''
      | Some s \<Rightarrow>
        (if cs_call_id s \<noteq> lc_call_id c \<or> cs_lease_token s \<noteq> lc_lease_token c
         then store_refusal ''locked validation context is required''
         else Inr s))"

text \<open>What the other calls of a workflow cost, or may cost.\<close>

definition obligation_of :: "call_state \<Rightarrow> int" where
  "obligation_of s = (if cs_status s \<in> {Call_Completed, Call_Failed} then cs_cost s
     else vb_reserved_cost (cs_request s))"

definition other_obligations :: "call_key \<Rightarrow> call_state \<Rightarrow> validation_ledger \<Rightarrow> int" where
  "other_obligations key s L =
     sum_list (map (obligation_of \<circ> snd)
       (filter (\<lambda>(k, other). k \<noteq> key \<and> vb_thread (cs_request other) = vb_thread (cs_request s)) (vl_calls L)))"

definition completion_overruns :: "call_state \<Rightarrow> exec_identity \<Rightarrow> int \<Rightarrow> int \<Rightarrow> int \<Rightarrow> int \<Rightarrow> bool" where
  "completion_overruns s x inp out cost obligation \<longleftrightarrow>
     xi_max_input_tokens x < inp \<or> xi_max_output_tokens x < out \<or> vb_reserved_cost (cs_request s) < cost
     \<or> min max_validation_cost (xi_validation_ceiling x) < obligation
     \<or> xi_total_ceiling x < xi_extraction_ceiling x + obligation"

definition charged :: "int \<Rightarrow> int \<Rightarrow> int \<Rightarrow> int \<Rightarrow> call_state \<Rightarrow> call_state" where
  "charged inp out cost terminal s =
     s\<lparr>cs_input := Some inp, cs_output := Some out, cs_cost := cost, cs_terminal := Some terminal\<rparr>"

definition failed_call :: "policy_reason \<Rightarrow> int \<Rightarrow> int \<Rightarrow> int \<Rightarrow> int \<Rightarrow> call_state \<Rightarrow> call_state" where
  "failed_call r inp out cost terminal s =
     (charged inp out cost terminal s)\<lparr>cs_status := Call_Failed, cs_reason := Some r\<rparr>"

fun projections ::
  "int \<Rightarrow> int \<Rightarrow> (candidate_completion \<times> int \<times> int \<times> int) list \<Rightarrow> completed_projection list" where
  "projections call_id n [] = []"
| "projections call_id n ((c, i, j, cost) # rest) =
     \<lparr>cv_call_id = call_id, cv_validation_id = n, cv_review_item_id = pc_review_item_id c,
      cv_result = pc_result c, cv_decision = pc_decision c, cv_reasons = pc_reasons c, cv_input = i,
      cv_output = j, cv_cost = cost, cv_cache_hit = False\<rparr> # projections call_id (n + 1) rest"

definition completable :: "locked_context \<Rightarrow> batch_completion \<Rightarrow> call_state \<Rightarrow> int \<Rightarrow> bool" where
  "completable c completion s now \<longleftrightarrow>
     cs_status s = Call_Claimed \<and> cs_attempts s = 1 \<and> cs_dispatched s \<and> now < cs_lease_expires s
     \<and> locked_context.truncate completion = c"

definition completion_order :: "batch_completion \<Rightarrow> candidate_completion list" where
  "completion_order completion = sort_key pc_validation_key (bc_candidates completion)"

text \<open>The closure of a completed call, once its cost is known: an overrun, a cancelled call, or a success.\<close>

definition close_completion ::
  "call_key \<Rightarrow> call_state \<Rightarrow> exec_identity \<Rightarrow> candidate_completion list \<Rightarrow> string list \<Rightarrow> int \<Rightarrow> int
    \<Rightarrow> int list \<Rightarrow> int list \<Rightarrow> int \<Rightarrow> int \<Rightarrow> validation_ledger
    \<Rightarrow> (validation_ledger \<times> completed_projection list) result" where
  "close_completion key s x done ties inp out ins outs cost later L =
     (if completion_overruns s x inp out cost (cost + other_obligations key s L) then
        (let s' = (failed_call R_budget_exceeded inp out cost later s)\<lparr>cs_overrun := True,
                    cs_overrun_cost := max (cost - vb_reserved_cost (cs_request s)) 0\<rparr>;
             L' = put_call key s' L
         in Inr (if vl_breaker L then L' else L'\<lparr>vl_breaker := True, vl_events := vl_events L + 1\<rparr>, []))
      else if cs_cancelled s then
        Inr (put_call key (failed_call R_post_validation_drift inp out cost later s) L, [])
      else
        then_r (allocate_micro_usd ins outs (xi_input_price x) (xi_output_price x) cost ties) (\<lambda>costs.
          let ps = projections (cs_call_id s) (vl_next_validation L) (zip done (zip ins (zip outs costs)));
              s' = (charged inp out cost later s)\<lparr>cs_completed := ps, cs_status := Call_Completed\<rparr>
          in Inr ((put_call key s' L)\<lparr>vl_next_validation := vl_next_validation L + int (length ps)\<rparr>, ps)))"

definition complete_call ::
  "locked_context \<Rightarrow> batch_completion \<Rightarrow> int \<Rightarrow> int \<Rightarrow> validation_ledger
    \<Rightarrow> (validation_ledger \<times> completed_projection list) result" where
  "complete_call c completion now later L =
     then_r (locked_state c L) (\<lambda>s.
     if \<not> completable c completion s now then store_refusal ''validation call is not completable''
     else
     let claims = candidate_order (vb_candidates (cs_request s)); done = completion_order completion;
         inp = bc_input completion; out = bc_output completion; x = cc_identity (hd claims) in
     if map (\<lambda>d. (pc_review_item_id d, pc_validation_key d)) done
        \<noteq> map (\<lambda>d. (cc_review_item_id d, cc_validation_key d)) claims
     then store_refusal ''validation completion set changed''
     else if map (cr_slot \<circ> pc_result) done \<noteq> map (ordinal_slot CHR ''C'') [1..<length done + 1]
     then store_refusal ''validation completion slot changed''
     else
     then_r (allocate_integer_tokens inp (length done)) (\<lambda>ins.
     then_r (allocate_integer_tokens out (length done)) (\<lambda>outs.
     then_r (token_cost inp out (xi_input_price x) (xi_output_price x)) (\<lambda>cost.
       close_completion (context_key c) s x done (map cc_validation_key claims) inp out ins outs cost later L))))"

record call_snapshot =
  sn_status :: call_status
  sn_attempts :: int
  sn_input :: "int option"
  sn_output :: "int option"
  sn_cost :: int
  sn_overrun :: bool
  sn_overrun_cost :: int
  sn_terminal :: "int option"

definition snapshot :: "locked_context \<Rightarrow> validation_ledger \<Rightarrow> call_snapshot result" where
  "snapshot c L = then_r (locked_state c L) (\<lambda>s.
     Inr \<lparr>sn_status = cs_status s, sn_attempts = cs_attempts s, sn_input = cs_input s, sn_output = cs_output s,
       sn_cost = cs_cost s, sn_overrun = cs_overrun s, sn_overrun_cost = cs_overrun_cost s,
       sn_terminal = cs_terminal s\<rparr>)"

definition cancel_call :: "locked_context \<Rightarrow> int \<Rightarrow> validation_ledger \<Rightarrow> validation_ledger result" where
  "cancel_call c now L =
     then_r (locked_state c L) (\<lambda>s.
     if cs_status s \<noteq> Call_Claimed then Inr L
     else if cs_attempts s = 0
     then Inr (put_call (context_key c) (failed_call R_post_validation_drift 0 0 0 now s) L)
     else Inr (put_call (context_key c) (s\<lparr>cs_cancelled := True\<rparr>) L))"

text \<open>The grants of the call are invalidated and dropped, and its reservation is charged.\<close>

definition invalidate_grants :: "call_key \<Rightarrow> validation_ledger \<Rightarrow> validation_ledger" where
  "invalidate_grants key L =
     (let mine = map (fst \<circ> snd) (filter (\<lambda>(_, _, k). k = key) (vl_active L)) in
      L\<lparr>vl_active := filter (\<lambda>(_, _, k). k \<noteq> key) (vl_active L),
        vl_grants := map (\<lambda>i. let g = vl_grants L ! i in
          if i \<in> set mine then g\<lparr>vg_invalidated := True\<rparr> else g) [0..<length (vl_grants L)]\<rparr>)"

definition recover_expired :: "locked_context \<Rightarrow> int \<Rightarrow> int \<Rightarrow> validation_ledger \<Rightarrow> validation_ledger result" where
  "recover_expired c now later L =
     then_r (locked_state c L) (\<lambda>s.
     if cs_status s \<noteq> Call_Claimed \<or> cs_attempts s \<noteq> 1 \<or> now < cs_lease_expires s
     then store_refusal ''expired validation attempt is not recoverable''
     else Inr (put_call (context_key c)
       (failed_call R_validator_unavailable (vb_reserved_input (cs_request s)) (vb_reserved_output (cs_request s))
          (vb_reserved_cost (cs_request s)) later s) (invalidate_grants (context_key c) L)))"

definition fail_call :: "locked_context \<Rightarrow> batch_failure \<Rightarrow> int \<Rightarrow> validation_ledger \<Rightarrow> validation_ledger result" where
  "fail_call c failure later L =
     then_r (locked_state c L) (\<lambda>s.
     let q = cs_request s; x = cc_identity (hd (vb_candidates q)) in
     if cs_status s \<noteq> Call_Claimed \<or> cs_attempts s \<noteq> 1 \<or> locked_context.truncate failure \<noteq> c
     then store_refusal ''validation call is not fail-able''
     else if bf_usage_known failure then
       (case (bf_input failure, bf_output failure) of
          (Some inp, Some out) \<Rightarrow>
            then_r (token_cost inp out (xi_input_price x) (xi_output_price x)) (\<lambda>cost.
              Inr (put_call (context_key c) (failed_call (bf_reason failure) inp out cost later s) L))
        | _ \<Rightarrow> store_refusal ''validation failure usage is ambiguous'')
     else Inr (put_call (context_key c)
       (failed_call (bf_reason failure) (vb_reserved_input q) (vb_reserved_output q) (vb_reserved_cost q) later s) L))"

end
