(* ===== verification/Validation_Facts.thy ===== *)
theory Validation_Facts
  imports Validation_Ledger
begin

text \<open>
  Facts of \<open>Validation_Ledger\<close>: the allocation of tokens and costs adds up, every operation keeps the
  invariant \<open>ledger_ok\<close>, and closed calls stay as they are.
\<close>

section \<open>Allocations add up\<close>

lemma sum_indicator: "distinct xs \<Longrightarrow> set ys \<subseteq> set xs \<Longrightarrow> distinct ys \<Longrightarrow>
  sum_list (map (\<lambda>i. if i \<in> set ys then 1 else 0 :: int) xs) = int (length ys)"
proof (induction xs arbitrary: ys)
  case (Cons x xs)
  show ?case
  proof (cases "x \<in> set ys")
    case True
    have "sum_list (map (\<lambda>i. if i \<in> set ys then 1 else 0 :: int) xs)
        = sum_list (map (\<lambda>i. if i \<in> set (remove1 x ys) then 1 else 0) xs)"
      using Cons.prems by (intro arg_cong [where f = sum_list] map_cong) (auto simp: set_remove1_eq)
    moreover have "sum_list (map (\<lambda>i. if i \<in> set (remove1 x ys) then 1 else 0 :: int) xs) = int (length ys) - 1"
      using Cons True length_pos_if_in_set [OF True]
      by (subst Cons.IH) (auto simp: length_remove1 of_nat_diff Suc_le_eq set_remove1_eq)
    ultimately show ?thesis using True by simp
  qed (use Cons in auto)
qed simp

lemma allocate_integer_tokens_Inr:
  assumes "allocate_integer_tokens amount n = Inr xs"
  shows "sum_list xs = amount" and "length xs = n" and "\<forall>x \<in> set xs. 0 \<le> x" and "0 < n" and "0 \<le> amount"
proof -
  have xs: "xs = map (\<lambda>i. amount div int n + (if int i < amount mod int n then 1 else 0)) [0..<n]"
    and n: "0 < n" and a: "0 \<le> amount"
    using assms by (auto simp: allocate_integer_tokens_def store_refusal_def split: if_splits)
  let ?r = "nat (amount mod int n)"
  have r: "?r \<le> n" "int ?r = amount mod int n"
    using n by (auto simp: nat_le_iff less_imp_le)
  have "map (\<lambda>i. if int i < amount mod int n then 1 else 0 :: int) [0..<n]
      = map (\<lambda>i. if i \<in> set [0..<?r] then 1 else 0) [0..<n]"
    using r by (intro map_cong) auto
  then have "sum_list (map (\<lambda>i. if int i < amount mod int n then 1 else 0 :: int) [0..<n])
      = sum_list (map (\<lambda>i. if i \<in> set [0..<?r] then 1 else 0) [0..<n])"
    by (rule arg_cong)
  also have "\<dots> = int (length [0..<?r])" using r by (intro sum_indicator) auto
  finally have ones: "sum_list (map (\<lambda>i. if int i < amount mod int n then 1 else 0 :: int) [0..<n]) = amount mod int n"
    using r by simp
  have "sum_list xs = int n * (amount div int n) + amount mod int n"
    unfolding xs sum_list_addf ones by (simp add: sum_list_triv)
  then show "sum_list xs = amount" by simp
  show "length xs = n" "\<forall>x \<in> set xs. 0 \<le> x" using n a by (auto simp: xs pos_imp_zdiv_nonneg_iff)
  show "0 < n" "0 \<le> amount" by (rule n, rule a)
qed

text \<open>The floors leave at most one micro-USD per candidate to hand out.\<close>

lemma ceil_minus_floors:
  fixes raw :: "int list"
  defines "remaining \<equiv> ceil_div (sum_list raw) 1000000 - sum_list (map (\<lambda>r. r div 1000000) raw)"
  shows "0 \<le> remaining" and "remaining \<le> int (length raw)"
proof -
  have split: "sum_list raw = 1000000 * sum_list (map (\<lambda>r. r div 1000000) raw) + sum_list (map (\<lambda>r. r mod 1000000) raw)"
    by (induction raw) (simp_all add: algebra_simps)
  have "0 \<le> sum_list (map (\<lambda>r. r mod 1000000) raw)" by (intro sum_list_nonneg) auto
  moreover have "sum_list (map (\<lambda>r. r mod 1000000) raw) \<le> 1000000 * int (length raw)"
  proof (induction raw)
    case (Cons r raw)
    then show ?case using pos_mod_bound [of 1000000 r] by simp
  qed simp
  ultimately show "0 \<le> remaining" "remaining \<le> int (length raw)"
    by (auto simp: remaining_def ceil_div_def split)
qed

lemma remainder_order_perm:
  "distinct (remainder_order raw ties)" "set (remainder_order raw ties) = {0..<length raw}"
  "length (remainder_order raw ties) = length raw"
  by (simp_all add: remainder_order_def)

lemma allocate_micro_usd_exact:
  assumes "amount = ceil_div (sum_list (raw_costs inp out p q)) 1000000"
  shows "\<exists>xs. allocate_micro_usd inp out p q amount ties = Inr xs \<and> sum_list xs = amount
    \<and> length xs = length (raw_costs inp out p q)
    \<and> (\<forall>i < length xs. xs ! i - raw_costs inp out p q ! i div 1000000 \<in> {0, 1})"
proof -
  let ?raw = "raw_costs inp out p q"
  let ?floors = "map (\<lambda>r. r div 1000000) ?raw"
  let ?rem = "amount - sum_list ?floors"
  let ?raised = "take (nat ?rem) (remainder_order ?raw ties)"
  have rem: "0 \<le> ?rem" "?rem \<le> int (length ?raw)" using ceil_minus_floors [of ?raw] assms by simp_all
  let ?xs = "map (\<lambda>i. ?floors ! i + (if i \<in> set ?raised then 1 else 0)) [0..<length ?floors]"
  have alloc: "allocate_micro_usd inp out p q amount ties = Inr ?xs"
    using rem by (simp add: allocate_micro_usd_def Let_def)
  have "sum_list (map (\<lambda>i. if i \<in> set ?raised then 1 else 0 :: int) [0..<length ?floors]) = int (length ?raised)"
    using remainder_order_perm [of ?raw ties]
    by (intro sum_indicator) (auto dest: in_set_takeD)
  also have "\<dots> = ?rem" using rem remainder_order_perm(3) [of ?raw ties] by simp
  finally have "sum_list ?xs = sum_list (map ((!) ?floors) [0..<length ?floors]) + ?rem"
    by (simp add: sum_list_addf)
  then have "sum_list ?xs = amount" by (simp only: map_nth)
  then show ?thesis using alloc by (intro exI [of _ ?xs]) simp
qed

lemma raw_costs_sum:
  "length inp = length out \<Longrightarrow> sum_list (raw_costs inp out p q) = sum_list inp * p + sum_list out * q"
  by (induction inp out rule: list_induct2) (simp_all add: raw_costs_def algebra_simps)

lemma raw_costs_length [simp]: "length (raw_costs inp out p q) = min (length inp) (length out)"
  by (simp add: raw_costs_def)

section \<open>What a validated request guarantees\<close>

lemma registry_shared: "registry_identity st (shared_identity x) \<longleftrightarrow> registry_identity st x"
  by (simp add: registry_identity_def shared_identity_def)

lemma validate_claim_request_Inr:
  assumes "validate_claim_request P st q = Inr ()"
  shows "1 \<le> length (vb_candidates q)" and "length (vb_candidates q) \<le> 4"
    and "distinct (map cc_validation_key (vb_candidates q))"
    and "\<forall>c \<in> set (vb_candidates q). registry_identity st (cc_identity c)"
    and "vb_reserved_cost q = maximum_cost (vb_framed q) 3072 2000000 12000000"
    and "0 < vb_framed q" and "vb_framed q \<le> 6000" and "vb_reserved_cost q \<le> max_batch_cost"
    and "vb_reserved_input q = vb_framed q" and "vb_reserved_output q = 3072"
    and "derive_batch_fingerprint P st q = Inr (vb_fingerprint q)"
proof -
  let ?cs = "vb_candidates q" and ?first = "cc_identity (hd (vb_candidates q))"
  have n: "1 \<le> length ?cs" "length ?cs \<le> 4"
    using assms by (auto simp: validate_claim_request_def store_refusal_def Let_def split: if_splits)
  obtain c cs where cs: "?cs = c # cs" using n(1) by (cases ?cs) auto
  have checks: "distinct (map cc_validation_key ?cs)" "registry_identity st ?first"
    "\<forall>c \<in> set (tl ?cs). shared_identity (cc_identity c) = shared_identity ?first"
    "\<exists>e. token_cost (vb_reserved_input q) (vb_reserved_output q) (xi_input_price ?first) (xi_output_price ?first) = Inr e
      \<and> reservation_valid q ?first e" "derive_batch_fingerprint P st q = Inr (vb_fingerprint q)"
    using assms by (auto simp: validate_claim_request_def store_refusal_def Let_def split: if_splits)
  show "1 \<le> length ?cs" "length ?cs \<le> 4" "distinct (map cc_validation_key ?cs)"
    "derive_batch_fingerprint P st q = Inr (vb_fingerprint q)" by fact+
  have "registry_identity st (cc_identity d)" if "d \<in> set ?cs" for d
    using that checks(2,3) registry_shared cs by (metis list.sel(1,3) set_ConsD)
  then show "\<forall>c \<in> set ?cs. registry_identity st (cc_identity c)" by blast
  show "vb_reserved_cost q = maximum_cost (vb_framed q) 3072 2000000 12000000" "0 < vb_framed q" "vb_framed q \<le> 6000"
    "vb_reserved_cost q \<le> max_batch_cost" "vb_reserved_input q = vb_framed q" "vb_reserved_output q = 3072"
    using checks(2,4)
    by (auto simp: registry_identity_def token_cost_def reservation_valid_def store_refusal_def split: if_splits)
qed

lemma maximum_cost_nonneg: "0 \<le> i \<Longrightarrow> 0 \<le> j \<Longrightarrow> 0 \<le> p \<Longrightarrow> 0 \<le> q \<Longrightarrow> 0 \<le> maximum_cost i j p q"
  using maximum_cost_mono [of 0 i 0 j p q] by (simp add: maximum_cost_def ceil_div_def)

lemma token_cost_Inr [simp]:
  "token_cost i j p q = Inr c \<longleftrightarrow> 0 \<le> i \<and> 0 \<le> j \<and> c = maximum_cost i j p q"
  by (auto simp: token_cost_def store_refusal_def)

section \<open>The invariant\<close>

definition open_call :: "call_state \<Rightarrow> bool" where
  "open_call s \<longleftrightarrow> cs_completed s = [] \<and> cs_reason s = None \<and> cs_input s = None \<and> cs_output s = None
     \<and> cs_cost s = 0 \<and> \<not> cs_overrun s \<and> cs_terminal s = None"

text \<open>A completed call: its projections are its candidates, in order, and share out its usage and its cost.\<close>

definition completed_call :: "call_state \<Rightarrow> bool" where
  "completed_call s \<longleftrightarrow>
     cs_dispatched s \<and> \<not> cs_overrun s \<and> cs_reason s = None \<and> cs_terminal s \<noteq> None
     \<and> map cv_review_item_id (cs_completed s)
         = map cc_review_item_id (candidate_order (vb_candidates (cs_request s)))
     \<and> cs_input s = Some (sum_list (map cv_input (cs_completed s)))
     \<and> cs_output s = Some (sum_list (map cv_output (cs_completed s)))
     \<and> cs_cost s = sum_list (map cv_cost (cs_completed s))
     \<and> cs_cost s \<le> vb_reserved_cost (cs_request s)"

definition failed_ok :: "call_state \<Rightarrow> bool" where
  "failed_ok s \<longleftrightarrow>
     cs_completed s = [] \<and> cs_reason s \<noteq> None \<and> cs_input s \<noteq> None \<and> cs_output s \<noteq> None
     \<and> cs_terminal s \<noteq> None \<and> (cs_overrun s \<longrightarrow> cs_reason s = Some R_budget_exceeded)"

definition call_ok :: "primitives \<Rightarrow> rag_settings \<Rightarrow> call_key \<Rightarrow> call_state \<Rightarrow> bool" where
  "call_ok P st k s \<longleftrightarrow>
     validate_claim_request P st (cs_request s) = Inr ()
     \<and> k = (vb_thread (cs_request s), vb_fingerprint (cs_request s))
     \<and> cs_attempts s \<in> {0, 1} \<and> (cs_dispatched s \<longrightarrow> cs_attempts s = 1) \<and> 0 \<le> cs_cost s
     \<and> (case cs_status s of Call_Claimed \<Rightarrow> open_call s | Call_Completed \<Rightarrow> completed_call s
        | Call_Failed \<Rightarrow> failed_ok s)"

text \<open>A grant that can still be used belongs to a call that was started and not sent, and is its only one.\<close>

definition grants_ok :: "validation_ledger \<Rightarrow> bool" where
  "grants_ok L \<longleftrightarrow>
     distinct (map fst (vl_active L))
     \<and> (\<forall>a i k. map_of (vl_active L) a = Some (i, k) \<longrightarrow>
          (\<exists>s. call_at L k = Some s \<and> cs_attempts s = 1 \<and> \<not> cs_dispatched s))
     \<and> (\<forall>a b i j k. map_of (vl_active L) a = Some (i, k) \<longrightarrow> map_of (vl_active L) b = Some (j, k) \<longrightarrow> a = b)"

definition ledger_ok :: "primitives \<Rightarrow> rag_settings \<Rightarrow> validation_ledger \<Rightarrow> bool" where
  "ledger_ok P st L \<longleftrightarrow> (\<forall>k s. call_at L k = Some s \<longrightarrow> call_ok P st k s) \<and> grants_ok L"

lemma put_call_simps [simp]:
  "call_at (put_call k s L) = (call_at L)(k \<mapsto> s)"
  "vl_active (put_call k s L) = vl_active L" "vl_grants (put_call k s L) = vl_grants L"
  "vl_next_call (put_call k s L) = vl_next_call L" "vl_next_validation (put_call k s L) = vl_next_validation L"
  "vl_breaker (put_call k s L) = vl_breaker L"
  by (simp_all add: put_call_def update_conv' fun_eq_iff)

text \<open>The counters and the breaker are not part of the invariant.\<close>

lemma ledger_ok_congr:
  "call_at L' = call_at L \<Longrightarrow> vl_active L' = vl_active L \<Longrightarrow> ledger_ok P st L' = ledger_ok P st L"
  by (simp add: ledger_ok_def grants_ok_def)

lemma ledger_ok_others [simp]:
  "ledger_ok P st (L\<lparr>vl_grants := g\<rparr>) = ledger_ok P st L"
  "ledger_ok P st (L\<lparr>vl_next_call := n\<rparr>) = ledger_ok P st L"
  "ledger_ok P st (L\<lparr>vl_next_validation := n\<rparr>) = ledger_ok P st L"
  "ledger_ok P st (L\<lparr>vl_breaker := b, vl_events := n\<rparr>) = ledger_ok P st L"
  by (rule ledger_ok_congr; simp)+

lemma ledger_ok_call: "ledger_ok P st L \<Longrightarrow> call_at L k = Some s \<Longrightarrow> call_ok P st k s"
  unfolding ledger_ok_def by blast

lemma active_call:
  "ledger_ok P st L \<Longrightarrow> map_of (vl_active L) a = Some (i, k) \<Longrightarrow>
     \<exists>s. call_at L k = Some s \<and> cs_attempts s = 1 \<and> \<not> cs_dispatched s"
  unfolding ledger_ok_def grants_ok_def by blast

lemma active_unique:
  "grants_ok L \<Longrightarrow> map_of (vl_active L) a = Some (i, k) \<Longrightarrow> map_of (vl_active L) b = Some (j, k) \<Longrightarrow> a = b"
  unfolding grants_ok_def by blast

lemma put_call_ok:
  assumes "ledger_ok P st L" and "call_ok P st k s'"
    and "\<And>a i. map_of (vl_active L) a = Some (i, k) \<Longrightarrow> cs_attempts s' = 1 \<and> \<not> cs_dispatched s'"
  shows "ledger_ok P st (put_call k s' L)"
  using assms unfolding ledger_ok_def grants_ok_def by (auto split: if_splits)

text \<open>An update of a call that leaves its attempt alone.\<close>

lemma put_call_same_attempt:
  assumes "ledger_ok P st L" and "call_at L k = Some s" and "call_ok P st k s'"
    and "cs_attempts s' = cs_attempts s" and "cs_dispatched s' = cs_dispatched s"
  shows "ledger_ok P st (put_call k s' L)"
proof (rule put_call_ok [OF assms(1,3)])
  fix a i
  assume "map_of (vl_active L) a = Some (i, k)"
  then obtain s0 where "call_at L k = Some s0" "cs_attempts s0 = 1" "\<not> cs_dispatched s0"
    using active_call [OF assms(1)] by blast
  then show "cs_attempts s' = 1 \<and> \<not> cs_dispatched s'" using assms(2,4,5) by simp
qed

lemma locked_state_Inr:
  "locked_state c L = Inr s \<longleftrightarrow> call_at L (context_key c) = Some s \<and> cs_call_id s = lc_call_id c
     \<and> cs_lease_token s = lc_lease_token c"
  by (auto simp: locked_state_def store_refusal_def split: option.splits if_splits)

lemma failed_call_ok:
  assumes "call_ok P st k s" and "0 \<le> cost" and "cs_status s = Call_Claimed"
  shows "call_ok P st k (failed_call r inp out cost later s)"
  using assms by (auto simp: call_ok_def failed_call_def charged_def failed_ok_def open_call_def)

lemma failed_call_same [simp]:
  "cs_attempts (failed_call r inp out cost later s) = cs_attempts s"
  "cs_dispatched (failed_call r inp out cost later s) = cs_dispatched s"
  "cs_request (failed_call r inp out cost later s) = cs_request s"
  by (simp_all add: failed_call_def charged_def)

section \<open>Every operation keeps the invariant\<close>

lemma new_claim_ok:
  assumes "new_claim q call_id now token = Inr s" and "validate_claim_request P st q = Inr ()"
  shows "call_ok P st (vb_thread q, vb_fingerprint q) s" and "cs_request s = q" and "cs_attempts s = 0"
    and "\<not> cs_dispatched s" and "cs_status s = Call_Claimed"
  using assms by (auto simp: new_claim_def call_ok_def open_call_def)

lemma claim_or_replay_ok:
  assumes ok: "ledger_ok P st L" and c: "claim_or_replay P st q now token L = Inr (L', r)"
  shows "ledger_ok P st L'"
proof -
  let ?k = "(vb_thread q, vb_fingerprint q)"
  have valid: "validate_claim_request P st q = Inr ()" using c by (auto simp: claim_or_replay_def)
  show ?thesis
  proof (cases "call_at L ?k")
    case None
    then obtain s where s: "new_claim q (vl_next_call L) now token = Inr s"
      and L': "L' = (put_call ?k s L)\<lparr>vl_next_call := vl_next_call L + 1\<rparr>"
      using c by (auto simp: claim_or_replay_def)
    have "ledger_ok P st (put_call ?k s L)"
    proof (rule put_call_ok [OF ok new_claim_ok(1) [OF s valid]])
      fix a i
      assume "map_of (vl_active L) a = Some (i, ?k)"
      then show "cs_attempts s = 1 \<and> \<not> cs_dispatched s" using active_call [OF ok] None by fastforce
    qed
    moreover have "ledger_ok P st L' \<longleftrightarrow> ledger_ok P st (put_call ?k s L)"
      unfolding L' by (rule ledger_ok_congr) simp_all
    ultimately show ?thesis by simp
  next
    case (Some s)
    show ?thesis
    proof (cases "L' = L")
      case False
      then obtain tok lease where L': "L' = put_call ?k (s\<lparr>cs_lease_token := tok, cs_lease_expires := lease\<rparr>) L"
        using c Some by (auto simp: claim_or_replay_def store_refusal_def Let_def split: if_splits)
      have "call_ok P st ?k (s\<lparr>cs_lease_token := tok, cs_lease_expires := lease\<rparr>)"
        using ledger_ok_call [OF ok Some]
        by (simp add: call_ok_def open_call_def completed_call_def failed_ok_def split: call_status.splits)
      then show ?thesis unfolding L' using ok Some by (intro put_call_same_attempt) simp_all
    qed (use ok in simp)
  qed
qed

lemma mark_attempt_started_Inr:
  assumes "mark_attempt_started sha a now tick committed L = Inr (L', i)"
  obtains s where "call_at L (va_thread a, va_fingerprint a) = Some s" and "cs_call_id s = va_call_id a"
    and "cs_lease_token s = va_lease_token a" and "cs_attempts s = 0" and "now < cs_lease_expires s"
    and "admission_matches s a" and "committed = Inr ()" and "i = length (vl_grants L)"
    and "L' = (put_call (va_thread a, va_fingerprint a) (s\<lparr>cs_attempts := 1, cs_started := Some now,
          cs_lease_expires := now + seconds (va_attempt_lease a)\<rparr>) L)
        \<lparr>vl_grants := vl_grants L @ [\<lparr>vg_attempt_id = sha (cs_lease_token s @ '':attempt:1''),
            vg_timeout = va_timeout a, vg_lease_expires = now + seconds (va_attempt_lease a),
            vg_deadline = tick + seconds (va_send_window a), vg_consumed = False, vg_invalidated = False\<rparr>],
         vl_active := AList.update (sha (cs_lease_token s @ '':attempt:1''))
            (length (vl_grants L), va_thread a, va_fingerprint a) (vl_active L)\<rparr>"
  using assms by (auto simp: mark_attempt_started_def store_refusal_def Let_def not_le split: option.splits if_splits)

lemma mark_attempt_started_ok:
  assumes ok: "ledger_ok P st L" and m: "mark_attempt_started sha a now tick committed L = Inr (L', i)"
  shows "ledger_ok P st L'"
proof -
  let ?k = "(va_thread a, va_fingerprint a)"
  obtain s where s: "call_at L ?k = Some s" "cs_attempts s = 0"
    and L': "call_at L' = (call_at L)(?k \<mapsto> s\<lparr>cs_attempts := 1, cs_started := Some now,
        cs_lease_expires := now + seconds (va_attempt_lease a)\<rparr>)"
      "vl_active L' = AList.update (sha (cs_lease_token s @ '':attempt:1'')) (i, ?k) (vl_active L)"
    using m by (rule mark_attempt_started_Inr) (auto simp: fun_eq_iff)
  let ?id = "sha (cs_lease_token s @ '':attempt:1'')" and ?s = "s\<lparr>cs_attempts := 1, cs_started := Some now,
        cs_lease_expires := now + seconds (va_attempt_lease a)\<rparr>"
  have call: "call_ok P st ?k s" by (rule ledger_ok_call [OF ok s(1)])
  then have fresh: "\<not> cs_dispatched s" using s(2) by (auto simp: call_ok_def)
  have none: "map_of (vl_active L) b \<noteq> Some (j, ?k)" for b j
    using active_call [OF ok, of b j ?k] s by auto
  have ok': "call_ok P st ?k ?s"
    using call fresh
    by (simp add: call_ok_def open_call_def completed_call_def failed_ok_def split: call_status.splits)
  have calls: "call_ok P st k t" if "call_at L' k = Some t" for k t
    using that ok' ledger_ok_call [OF ok] by (auto simp: L' split: if_splits)
  have act: "map_of (vl_active L') b = Some (j, k) \<longleftrightarrow>
      (if b = ?id then (j, k) = (i, ?k) else map_of (vl_active L) b = Some (j, k))" for b j k
    by (auto simp: L' update_conv')
  have g: "grants_ok L" using ok by (simp add: ledger_ok_def)
  have "grants_ok L'"
    unfolding grants_ok_def act
  proof (intro conjI allI impI)
    show "distinct (map fst (vl_active L'))"
      using g by (simp add: L' grants_ok_def distinct_update)
  next
    fix b j k
    assume "if b = ?id then (j, k) = (i, ?k) else map_of (vl_active L) b = Some (j, k)"
    then show "\<exists>s. call_at L' k = Some s \<and> cs_attempts s = 1 \<and> \<not> cs_dispatched s"
      using active_call [OF ok, of b j k] none fresh by (auto simp: L' split: if_splits)
  next
    fix b c j l k
    assume "if b = ?id then (j, k) = (i, ?k) else map_of (vl_active L) b = Some (j, k)"
      "if c = ?id then (l, k) = (i, ?k) else map_of (vl_active L) c = Some (l, k)"
    then show "b = c"
      using active_unique [OF g, of b j k c l] none by (cases "b = ?id"; cases "c = ?id") auto
  qed
  then show ?thesis using calls by (simp add: ledger_ok_def)
qed

text \<open>Dropping grants keeps the invariant; the surviving grants are the old ones.\<close>

lemma dropped_ok:
  assumes "ledger_ok P st L" and "call_at L' = call_at L" and "distinct (map fst (vl_active L'))"
    and "\<And>a v. map_of (vl_active L') a = Some v \<Longrightarrow> map_of (vl_active L) a = Some v"
  shows "ledger_ok P st L'"
proof -
  have "grants_ok L" using assms(1) by (simp add: ledger_ok_def)
  then have "grants_ok L'"
    unfolding grants_ok_def assms(2) using assms(3,4) by blast
  then show ?thesis using assms(1,2) unfolding ledger_ok_def by metis
qed

lemma delete_active:
  assumes "ledger_ok P st L"
  shows "ledger_ok P st (L\<lparr>vl_active := AList.delete a (vl_active L)\<rparr>)"
  using assms
  by (rule dropped_ok)
    (use assms in \<open>auto simp: ledger_ok_def grants_ok_def delete_conv' distinct_delete split: if_splits\<close>)

lemma dispatch_prepared_cases:
  obtains e where "dispatch_prepared p h now tick L = (L, Inl e)"
  | e a where "dispatch_prepared p h now tick L = (L\<lparr>vl_active := AList.delete a (vl_active L)\<rparr>, Inl e)"
  | i k s g where "h = Some i" "i < length (vl_grants L)" "map_of (vl_active L) (vg_attempt_id (vl_grants L ! i)) = Some (i, k)"
      "call_at L k = Some s" "\<not> dispatch_changed s p now" "consume_permit (vl_grants L ! i) tick = Inr g"
      "dispatch_prepared p h now tick L =
        ((put_call k (s\<lparr>cs_dispatched := True\<rparr>)
           (L\<lparr>vl_active := AList.delete (vg_attempt_id (vl_grants L ! i)) (vl_active L)\<rparr>))
         \<lparr>vl_grants := (vl_grants L)[i := g]\<rparr>, Inr (vg_timeout (vl_grants L ! i)))"
proof (cases h)
  case None
  then show thesis using that(1) by (simp add: dispatch_prepared_def store_refusal_def)
next
  case (Some i)
  show thesis
  proof (cases "i < length (vl_grants L)")
    case False
    then show thesis using that(1) by (simp add: dispatch_prepared_def store_refusal_def Some not_less)
  next
    case i: True
    let ?a = "vg_attempt_id (vl_grants L ! i)"
    show thesis
    proof (cases "\<exists>k s. map_of (vl_active L) ?a = Some (i, k) \<and> call_at L k = Some s")
      case False
      then have "\<exists>e. dispatch_prepared p h now tick L = (L, Inl e)"
        using i by (auto simp: dispatch_prepared_def store_refusal_def Some Let_def split: option.splits)
      then show thesis using that(1) by blast
    next
      case True
      then obtain k s where ks: "map_of (vl_active L) ?a = Some (i, k)" "call_at L k = Some s" by blast
      then have "dispatch_prepared p h now tick L =
        (let dropped = L\<lparr>vl_active := AList.delete ?a (vl_active L)\<rparr> in
         if dispatch_changed s p now then (dropped, store_refusal ''prepared validation dispatch changed'')
         else case consume_permit (vl_grants L ! i) tick of Inl e \<Rightarrow> (dropped, Inl e)
         | Inr g' \<Rightarrow> ((put_call k (s\<lparr>cs_dispatched := True\<rparr>) dropped)\<lparr>vl_grants := (vl_grants L)[i := g']\<rparr>,
                     Inr (vg_timeout (vl_grants L ! i))))"
        using i by (simp add: dispatch_prepared_def Some Let_def not_le)
      then show thesis
        using that(2) [of ?a] that(3) [OF Some i ks]
        by (cases "consume_permit (vl_grants L ! i) tick"; cases "dispatch_changed s p now")
          (auto simp: store_refusal_def Let_def)
    qed
  qed
qed

lemma dispatch_prepared_ok:
  assumes ok: "ledger_ok P st L" and d: "dispatch_prepared p h now tick L = (L', r)"
  shows "ledger_ok P st L'"
proof (cases rule: dispatch_prepared_cases [of p h now tick L])
  case (1 e)
  then show ?thesis using ok d by simp
next
  case (2 e a)
  then show ?thesis using delete_active [OF ok, of a] d by simp
next
  case (3 i k s g)
  let ?a = "vg_attempt_id (vl_grants L ! i)" and ?D = "L\<lparr>vl_active := AList.delete (vg_attempt_id (vl_grants L ! i)) (vl_active L)\<rparr>"
  have drop: "ledger_ok P st ?D" by (rule delete_active [OF ok])
  have "cs_attempts s = 1" using active_call [OF ok 3(3)] 3(4) by simp
  then have "call_ok P st k (s\<lparr>cs_dispatched := True\<rparr>)"
    using ledger_ok_call [OF ok 3(4)]
    by (simp add: call_ok_def open_call_def completed_call_def failed_ok_def split: call_status.splits)
  then have "ledger_ok P st (put_call k (s\<lparr>cs_dispatched := True\<rparr>) ?D)"
  proof (rule put_call_ok [OF drop])
    fix b j
    assume "map_of (vl_active ?D) b = Some (j, k)"
    then have "b \<noteq> ?a" "map_of (vl_active L) b = Some (j, k)"
      by (auto simp: delete_conv' split: if_splits)
    then show "cs_attempts (s\<lparr>cs_dispatched := True\<rparr>) = 1 \<and> \<not> cs_dispatched (s\<lparr>cs_dispatched := True\<rparr>)"
      using active_unique [of L b j k ?a i] 3(3) ok by (simp add: ledger_ok_def)
  qed
  moreover have "L' = (put_call k (s\<lparr>cs_dispatched := True\<rparr>) ?D)\<lparr>vl_grants := (vl_grants L)[i := g]\<rparr>"
    using 3(7) d by simp
  ultimately show ?thesis by (simp add: ledger_ok_congr)
qed

lemma projections_simps [simp]:
  "length (projections c n xs) = length xs"
  "map cv_review_item_id (projections c n xs) = map (pc_review_item_id \<circ> fst) xs"
  "map cv_input (projections c n xs) = map (fst \<circ> snd) xs"
  "map cv_output (projections c n xs) = map (fst \<circ> snd \<circ> snd) xs"
  "map cv_cost (projections c n xs) = map (snd \<circ> snd \<circ> snd) xs"
  "map cv_result (projections c n xs) = map (pc_result \<circ> fst) xs"
  "map cv_decision (projections c n xs) = map (pc_decision \<circ> fst) xs"
  by (induction c n xs rule: projections.induct) simp_all

lemma zip4_maps:
  assumes "length done = n" "length ins = n" "length outs = n" "length costs = n"
  shows "map fst (zip done (zip ins (zip outs costs))) = done"
    and "map (fst \<circ> snd) (zip done (zip ins (zip outs costs))) = ins"
    and "map (fst \<circ> snd \<circ> snd) (zip done (zip ins (zip outs costs))) = outs"
    and "map (snd \<circ> snd \<circ> snd) (zip done (zip ins (zip outs costs))) = costs"
  using assms by (simp_all flip: map_map)

text \<open>The three ways a completion closes a call.\<close>

lemma complete_call_Inr:
  assumes "complete_call c completion now later L = Inr (L', ps)"
  obtains s x ins outs cost where "call_at L (context_key c) = Some s" and "completable c completion s now"
    and "x = cc_identity (hd (candidate_order (vb_candidates (cs_request s))))"
    and "map (\<lambda>d. (pc_review_item_id d, pc_validation_key d)) (completion_order completion)
      = map (\<lambda>d. (cc_review_item_id d, cc_validation_key d)) (candidate_order (vb_candidates (cs_request s)))"
    and "map (cr_slot \<circ> pc_result) (completion_order completion)
      = map (ordinal_slot CHR ''C'') [1..<length (completion_order completion) + 1]"
    and "allocate_integer_tokens (bc_input completion) (length (completion_order completion)) = Inr ins"
    and "allocate_integer_tokens (bc_output completion) (length (completion_order completion)) = Inr outs"
    and "cost = maximum_cost (bc_input completion) (bc_output completion) (xi_input_price x) (xi_output_price x)"
    and "close_completion (context_key c) s x (completion_order completion)
      (map cc_validation_key (candidate_order (vb_candidates (cs_request s)))) (bc_input completion)
      (bc_output completion) ins outs cost later L = Inr (L', ps)"
proof -
  from assms obtain s where s: "locked_state c L = Inr s" "completable c completion s now"
    by (auto simp: complete_call_def store_refusal_def split: if_splits)
  then show thesis
    using assms that [of s]
    by (auto simp: complete_call_def store_refusal_def Let_def locked_state_Inr simp del: map_eq_conv split: if_splits)
qed

lemma close_completion_Inr:
  assumes "close_completion key s x done ties inp out ins outs cost later L = Inr (L', ps)"
  obtains "completion_overruns s x inp out cost (cost + other_obligations key s L)"
      "\<exists>b n. L' = (put_call key ((failed_call R_budget_exceeded inp out cost later s)\<lparr>cs_overrun := True,
           cs_overrun_cost := max (cost - vb_reserved_cost (cs_request s)) 0\<rparr>) L)\<lparr>vl_breaker := b, vl_events := n\<rparr>" "ps = []"
  | "cs_cancelled s" "L' = put_call key (failed_call R_post_validation_drift inp out cost later s) L" "ps = []"
  | costs where "\<not> completion_overruns s x inp out cost (cost + other_obligations key s L)" "\<not> cs_cancelled s"
      "allocate_micro_usd ins outs (xi_input_price x) (xi_output_price x) cost ties = Inr costs"
      "ps = projections (cs_call_id s) (vl_next_validation L) (zip done (zip ins (zip outs costs)))"
      "L' = (put_call key ((charged inp out cost later s)\<lparr>cs_completed := ps, cs_status := Call_Completed\<rparr>) L)
         \<lparr>vl_next_validation := vl_next_validation L + int (length ps)\<rparr>"
proof (cases "completion_overruns s x inp out cost (cost + other_obligations key s L)")
  case True
  let ?L = "put_call key ((failed_call R_budget_exceeded inp out cost later s)\<lparr>cs_overrun := True,
           cs_overrun_cost := max (cost - vb_reserved_cost (cs_request s)) 0\<rparr>) L"
  have "L' = (if vl_breaker L then ?L else ?L\<lparr>vl_breaker := True, vl_events := vl_events L + 1\<rparr>)" "ps = []"
    using assms True by (auto simp: close_completion_def Let_def)
  moreover have "?L = ?L\<lparr>vl_breaker := vl_breaker ?L, vl_events := vl_events ?L\<rparr>" by simp
  moreover have "vl_events (put_call key s' L) = vl_events L" for s' by (simp add: put_call_def)
  ultimately have "\<exists>b n. L' = ?L\<lparr>vl_breaker := b, vl_events := n\<rparr>" by (metis put_call_simps(6))
  then show thesis using that(1) True \<open>ps = []\<close> by simp
next
  case False
  then show thesis using assms that(2,3) by (auto simp: close_completion_def Let_def split: if_splits)
qed

lemma candidate_order_simps [simp]:
  "set (candidate_order cs) = set cs" "length (candidate_order cs) = length cs"
  by (simp_all add: candidate_order_def)

lemma call_registry:
  assumes "call_ok P st k s"
  shows "registry_identity st (cc_identity (hd (candidate_order (vb_candidates (cs_request s)))))"
    and "registry_identity st (cc_identity (hd (vb_candidates (cs_request s))))"
    and "0 \<le> vb_reserved_cost (cs_request s)"
proof -
  let ?q = "cs_request s"
  have valid: "validate_claim_request P st ?q = Inr ()" using assms by (simp add: call_ok_def)
  note v = validate_claim_request_Inr [OF valid]
  have "hd (candidate_order (vb_candidates ?q)) \<in> set (vb_candidates ?q)"
    using v(1) by (metis candidate_order_simps length_0_conv list.set_sel(1) not_one_le_zero)
  then show "registry_identity st (cc_identity (hd (candidate_order (vb_candidates ?q))))" using v(4) by blast
  show "registry_identity st (cc_identity (hd (vb_candidates ?q)))"
    using v(1,4) by (metis length_0_conv list.set_sel(1) not_one_le_zero)
  show "0 \<le> vb_reserved_cost ?q" using v(5,6) maximum_cost_nonneg by simp
qed

lemma registry_cost_nonneg:
  "registry_identity st x \<Longrightarrow> 0 \<le> i \<Longrightarrow> 0 \<le> j \<Longrightarrow> 0 \<le> maximum_cost i j (xi_input_price x) (xi_output_price x)"
  by (rule maximum_cost_nonneg) (simp_all add: registry_identity_def)

lemma complete_call_ok:
  assumes ok: "ledger_ok P st L" and c: "complete_call c completion now later L = Inr (L', ps)"
  shows "ledger_ok P st L'"
proof -
  let ?k = "context_key c" and ?done = "completion_order completion"
    and ?inp = "bc_input completion" and ?out = "bc_output completion"
  obtain s x ins outs cost where s: "call_at L ?k = Some s" and able: "completable c completion s now"
    and x: "x = cc_identity (hd (candidate_order (vb_candidates (cs_request s))))"
    and same: "map (\<lambda>d. (pc_review_item_id d, pc_validation_key d)) ?done
      = map (\<lambda>d. (cc_review_item_id d, cc_validation_key d)) (candidate_order (vb_candidates (cs_request s)))"
    and ins: "allocate_integer_tokens ?inp (length ?done) = Inr ins"
    and outs: "allocate_integer_tokens ?out (length ?done) = Inr outs"
    and cost: "cost = maximum_cost ?inp ?out (xi_input_price x) (xi_output_price x)"
    and close: "close_completion ?k s x ?done (map cc_validation_key (candidate_order (vb_candidates (cs_request s))))
      ?inp ?out ins outs cost later L = Inr (L', ps)"
    using c by (rule complete_call_Inr) blast
  have call: "call_ok P st ?k s" by (rule ledger_ok_call [OF ok s])
  have claimed: "cs_status s = Call_Claimed" "cs_dispatched s" using able by (simp_all add: completable_def)
  note i = allocate_integer_tokens_Inr [OF ins] and j = allocate_integer_tokens_Inr [OF outs]
  have nonneg: "0 \<le> cost" unfolding cost x by (rule registry_cost_nonneg [OF call_registry(1) [OF call] i(5) j(5)])
  have failed: "call_ok P st ?k (failed_call r ?inp ?out cost later s)" for r
    by (rule failed_call_ok [OF call nonneg claimed(1)])
  show ?thesis
    using close
  proof (cases rule: close_completion_Inr)
    case 1
    let ?s = "(failed_call R_budget_exceeded ?inp ?out cost later s)\<lparr>cs_overrun := True,
      cs_overrun_cost := max (cost - vb_reserved_cost (cs_request s)) 0\<rparr>"
    have "call_ok P st ?k ?s"
      using failed [of R_budget_exceeded] by (simp add: call_ok_def failed_ok_def failed_call_def charged_def)
    then have "ledger_ok P st (put_call ?k ?s L)"
      using put_call_same_attempt [OF ok s, of ?s] by simp
    then show ?thesis using 1(2) by auto
  next
    case 2
    have "ledger_ok P st (put_call ?k (failed_call R_post_validation_drift ?inp ?out cost later s) L)"
      by (rule put_call_same_attempt [OF ok s failed]) simp_all
    then show ?thesis using 2(2) by simp
  next
    case (3 costs)
    let ?s = "(charged ?inp ?out cost later s)\<lparr>cs_completed := ps, cs_status := Call_Completed\<rparr>"
    have sum: "sum_list costs = cost" and len: "length costs = length ?done"
    proof -
      have "cost = ceil_div (sum_list (raw_costs ins outs (xi_input_price x) (xi_output_price x))) 1000000"
        using i j by (simp add: cost maximum_cost_def raw_costs_sum)
      from allocate_micro_usd_exact [OF this] show "sum_list costs = cost" "length costs = length ?done"
        using 3(3) i(2) j(2) by (metis sum.inject(2), metis min.idem raw_costs_length sum.inject(2))
    qed
    note maps = zip4_maps [of ?done "length ?done", OF refl i(2) j(2) len]
    have ids: "map pc_review_item_id ?done = map cc_review_item_id (candidate_order (vb_candidates (cs_request s)))"
      using arg_cong [OF same, of "map fst"] by (simp add: comp_def)
    have le: "cost \<le> vb_reserved_cost (cs_request s)"
      using 3(1) by (simp add: completion_overruns_def not_less)
    have "map cv_review_item_id ps = map pc_review_item_id ?done"
      unfolding 3(4) projections_simps by (simp only: maps flip: map_map)
    moreover have "map cv_input ps = ins" "map cv_output ps = outs" "map cv_cost ps = costs"
      unfolding 3(4) projections_simps by (simp_all only: maps)
    ultimately have "completed_call ?s"
      using call claimed ids le i(1) j(1) sum
      by (simp add: call_ok_def open_call_def completed_call_def charged_def)
    then have "call_ok P st ?k ?s"
      using call nonneg by (simp add: call_ok_def charged_def)
    then have "ledger_ok P st (put_call ?k ?s L)"
      by (intro put_call_same_attempt [OF ok s]) (simp_all add: charged_def)
    then show ?thesis using 3(5) by simp
  qed
qed

lemma cancel_call_ok:
  assumes ok: "ledger_ok P st L" and c: "cancel_call c now L = Inr L'"
  shows "ledger_ok P st L'"
proof -
  obtain s where s: "call_at L (context_key c) = Some s"
    and L': "L' = (if cs_status s \<noteq> Call_Claimed then L
      else if cs_attempts s = 0 then put_call (context_key c) (failed_call R_post_validation_drift 0 0 0 now s) L
      else put_call (context_key c) (s\<lparr>cs_cancelled := True\<rparr>) L)"
    using c by (auto simp: cancel_call_def locked_state_Inr split: if_splits)
  have call: "call_ok P st (context_key c) s" by (rule ledger_ok_call [OF ok s])
  then have "call_ok P st (context_key c) (s\<lparr>cs_cancelled := True\<rparr>)"
    by (simp add: call_ok_def open_call_def completed_call_def failed_ok_def split: call_status.splits)
  then have "ledger_ok P st (put_call (context_key c) (s\<lparr>cs_cancelled := True\<rparr>) L)"
    by (intro put_call_same_attempt [OF ok s]) simp_all
  moreover have "ledger_ok P st (put_call (context_key c) (failed_call R_post_validation_drift 0 0 0 now s) L)"
    if "cs_status s = Call_Claimed"
    using failed_call_ok [OF call _ that] by (intro put_call_same_attempt [OF ok s]) simp_all
  ultimately show ?thesis using ok by (simp add: L')
qed

lemma invalidate_grants_ok:
  assumes "ledger_ok P st L"
  shows "ledger_ok P st (invalidate_grants key L)" and "call_at (invalidate_grants key L) = call_at L"
proof -
  have d: "distinct (map fst (vl_active L))" using assms by (simp add: ledger_ok_def grants_ok_def)
  show call: "call_at (invalidate_grants key L) = call_at L" by (simp add: invalidate_grants_def Let_def)
  have act: "vl_active (invalidate_grants key L) = filter (\<lambda>(_, _, k). k \<noteq> key) (vl_active L)"
    by (simp add: invalidate_grants_def Let_def)
  show "ledger_ok P st (invalidate_grants key L)"
  proof (rule dropped_ok [OF assms call])
    show "distinct (map fst (vl_active (invalidate_grants key L)))"
      unfolding act using d by (rule distinct_map_filter)
    fix a v
    assume "map_of (vl_active (invalidate_grants key L)) a = Some v"
    then have "(a, v) \<in> set (vl_active L)" by (auto dest: map_of_SomeD simp: act)
    then show "map_of (vl_active L) a = Some v" using d by (simp add: map_of_eq_Some_iff)
  qed
qed

lemma recover_expired_ok:
  assumes ok: "ledger_ok P st L" and c: "recover_expired c now later L = Inr L'"
  shows "ledger_ok P st L'"
proof -
  obtain s where s: "call_at L (context_key c) = Some s" "cs_status s = Call_Claimed"
    and L': "L' = put_call (context_key c) (failed_call R_validator_unavailable (vb_reserved_input (cs_request s))
      (vb_reserved_output (cs_request s)) (vb_reserved_cost (cs_request s)) later s) (invalidate_grants (context_key c) L)"
    using c by (auto simp: recover_expired_def locked_state_Inr store_refusal_def split: if_splits)
  have call: "call_ok P st (context_key c) s" by (rule ledger_ok_call [OF ok s(1)])
  show ?thesis
    unfolding L' using invalidate_grants_ok [OF ok, of "context_key c"] s(1)
    by (intro put_call_same_attempt [where s = s] failed_call_ok [OF call call_registry(3) [OF call] s(2)]) simp_all
qed

lemma fail_call_ok:
  assumes ok: "ledger_ok P st L" and c: "fail_call c failure later L = Inr L'"
  shows "ledger_ok P st L'"
proof -
  obtain s where s: "call_at L (context_key c) = Some s" "cs_status s = Call_Claimed"
    using c by (auto simp: fail_call_def locked_state_Inr store_refusal_def Let_def split: if_splits option.splits)
  have call: "call_ok P st (context_key c) s" by (rule ledger_ok_call [OF ok s(1)])
  let ?x = "cc_identity (hd (vb_candidates (cs_request s)))"
  have "\<exists>inp out cost. 0 \<le> cost \<and> L' = put_call (context_key c) (failed_call (bf_reason failure) inp out cost later s) L"
  proof (cases "bf_usage_known failure")
    case True
    then obtain inp out where "0 \<le> inp" "0 \<le> out" "L' = put_call (context_key c) (failed_call (bf_reason failure)
        inp out (maximum_cost inp out (xi_input_price ?x) (xi_output_price ?x)) later s) L"
      using c s by (auto simp: fail_call_def locked_state_Inr store_refusal_def Let_def split: if_splits option.splits)
    then show ?thesis using registry_cost_nonneg [OF call_registry(2) [OF call]] by blast
  next
    case False
    then have "L' = put_call (context_key c) (failed_call (bf_reason failure) (vb_reserved_input (cs_request s))
      (vb_reserved_output (cs_request s)) (vb_reserved_cost (cs_request s)) later s) L"
      using c s by (auto simp: fail_call_def locked_state_Inr store_refusal_def Let_def split: if_splits)
    then show ?thesis using call_registry(3) [OF call] by blast
  qed
  then show ?thesis
    using failed_call_ok [OF call _ s(2)] put_call_same_attempt [OF ok s(1)] by force
qed

section \<open>Closed calls stay closed\<close>

definition closing_facts where
  "closing_facts s = (cs_status s, cs_completed s, cs_reason s, cs_input s, cs_output s, cs_cost s, cs_overrun s,
     cs_overrun_cost s, cs_terminal s)"

definition call_below :: "call_state \<Rightarrow> call_state \<Rightarrow> bool" where
  "call_below s t \<longleftrightarrow>
     cs_request t = cs_request s \<and> cs_call_id t = cs_call_id s \<and> cs_attempts s \<le> cs_attempts t
     \<and> (cs_dispatched s \<longrightarrow> cs_dispatched t)
     \<and> (cs_status s \<noteq> Call_Claimed \<longrightarrow> closing_facts t = closing_facts s)"

definition ledger_below :: "validation_ledger \<Rightarrow> validation_ledger \<Rightarrow> bool" where
  "ledger_below L L' \<longleftrightarrow>
     (\<forall>k s. call_at L k = Some s \<longrightarrow> (\<exists>t. call_at L' k = Some t \<and> call_below s t))"

lemma call_below_refl: "call_below s s"
  by (simp add: call_below_def)

lemma ledger_below_refl: "ledger_below L L"
  unfolding ledger_below_def using call_below_refl by blast

lemma ledger_below_trans: "ledger_below L M \<Longrightarrow> ledger_below M N \<Longrightarrow> ledger_below L N"
proof -
  have "call_below s u" if "call_below s t" "call_below t u" for s t u
    using that by (auto simp: call_below_def closing_facts_def)
  then show "ledger_below L M \<Longrightarrow> ledger_below M N \<Longrightarrow> ledger_below L N"
    unfolding ledger_below_def by blast
qed

lemma put_call_below:
  assumes "case call_at L k of None \<Rightarrow> True | Some s \<Rightarrow> call_below s t" and "call_at L' = (call_at L)(k \<mapsto> t)"
  shows "ledger_below L L'"
  using assms call_below_refl unfolding ledger_below_def by (auto split: option.splits)

lemma failed_call_below: "cs_status s = Call_Claimed \<Longrightarrow> call_below s (failed_call r inp out cost later s)"
  by (simp add: call_below_def failed_call_def charged_def)

lemma claim_or_replay_below:
  assumes "claim_or_replay P st q now token L = Inr (L', r)"
  shows "ledger_below L L'"
proof -
  let ?k = "(vb_thread q, vb_fingerprint q)"
  show ?thesis
  proof (cases "call_at L ?k")
    case None
    then obtain s where "call_at L' = (call_at L)(?k \<mapsto> s)"
      using assms by (auto simp: claim_or_replay_def)
    then show ?thesis using None by (intro put_call_below [where k = ?k and t = s]) simp_all
  next
    case (Some s)
    show ?thesis
    proof (cases "L' = L")
      case False
      then obtain tok lease where "L' = put_call ?k (s\<lparr>cs_lease_token := tok, cs_lease_expires := lease\<rparr>) L"
        using assms Some by (auto simp: claim_or_replay_def store_refusal_def Let_def split: if_splits)
      then show ?thesis
        by (intro put_call_below [where k = ?k and t = "s\<lparr>cs_lease_token := tok, cs_lease_expires := lease\<rparr>"])
          (simp_all add: Some call_below_def closing_facts_def)
    qed (simp add: ledger_below_refl)
  qed
qed

lemma mark_attempt_started_below:
  assumes "mark_attempt_started sha a now tick committed L = Inr (L', i)"
  shows "ledger_below L L'"
proof -
  let ?k = "(va_thread a, va_fingerprint a)"
  obtain s where s: "call_at L ?k = Some s" "cs_attempts s = 0"
    and L': "call_at L' = (call_at L)(?k \<mapsto> s\<lparr>cs_attempts := 1, cs_started := Some now,
        cs_lease_expires := now + seconds (va_attempt_lease a)\<rparr>)"
    using assms by (rule mark_attempt_started_Inr) (auto simp: fun_eq_iff)
  show ?thesis by (rule put_call_below [OF _ L']) (simp add: s call_below_def closing_facts_def)
qed

lemma dispatch_prepared_below:
  assumes "dispatch_prepared p h now tick L = (L', r)"
  shows "ledger_below L L'"
proof (cases rule: dispatch_prepared_cases [of p h now tick L])
  case 1
  then show ?thesis using assms by (simp add: ledger_below_refl)
next
  case 2
  then show ?thesis using assms call_below_refl by (auto simp: ledger_below_def)
next
  case (3 i k s g)
  then have "call_at L' = (call_at L)(k \<mapsto> s\<lparr>cs_dispatched := True\<rparr>)"
    using assms by auto
  then show ?thesis by (rule put_call_below [rotated]) (simp add: 3(4) call_below_def closing_facts_def)
qed

lemma complete_call_below:
  assumes "complete_call c completion now later L = Inr (L', ps)"
  shows "ledger_below L L'"
proof -
  obtain s x ins outs cost finished ties inp out where s: "call_at L (context_key c) = Some s" "completable c completion s now"
    and close: "close_completion (context_key c) s x finished ties inp out ins outs cost later L = Inr (L', ps)"
    using assms by (rule complete_call_Inr) blast
  have claimed: "cs_status s = Call_Claimed" using s(2) by (simp add: completable_def)
  have "\<exists>t. call_at L' = (call_at L)(context_key c \<mapsto> t) \<and> call_below s t"
    using close
    by (cases rule: close_completion_Inr)
      (auto simp: call_below_def claimed failed_call_def charged_def intro!: exI)
  then show ?thesis using put_call_below s(1) by (metis option.simps(5))
qed

lemma other_operations_below:
  "cancel_call c now L = Inr L' \<Longrightarrow> ledger_below L L'"
  "recover_expired c now later L = Inr L' \<Longrightarrow> ledger_below L L'"
  "fail_call c failure later L = Inr L' \<Longrightarrow> ledger_below L L'"
proof -
  have put: "ledger_below L L'" if "locked_state c L = Inr s" "call_at L' = (call_at L)(context_key c \<mapsto> t)"
    "call_below s t" for s t
    using that(1,3) by (intro put_call_below [OF _ that(2)]) (simp add: locked_state_Inr)
  {
    assume "cancel_call c now L = Inr L'"
    then obtain s where s: "locked_state c L = Inr s"
      and L': "L' = (if cs_status s \<noteq> Call_Claimed then L
        else if cs_attempts s = 0 then put_call (context_key c) (failed_call R_post_validation_drift 0 0 0 now s) L
        else put_call (context_key c) (s\<lparr>cs_cancelled := True\<rparr>) L)"
      by (auto simp: cancel_call_def split: if_splits)
    then show "ledger_below L L'"
      using put [OF s] failed_call_below [of s] ledger_below_refl
      by (auto simp: L' call_below_def closing_facts_def)
  next
    assume "recover_expired c now later L = Inr L'"
    then show "ledger_below L L'"
      using put failed_call_below
      by (auto simp: recover_expired_def store_refusal_def invalidate_grants_def Let_def split: if_splits)
  next
    assume "fail_call c failure later L = Inr L'"
    then show "ledger_below L L'"
      using put failed_call_below
      by (auto simp: fail_call_def store_refusal_def Let_def split: if_splits option.splits)
  }
qed

section \<open>Reachable ledgers\<close>

inductive validation_step ::
  "primitives \<Rightarrow> rag_settings \<Rightarrow> (string \<Rightarrow> string) \<Rightarrow> validation_ledger \<Rightarrow> validation_ledger \<Rightarrow> bool"
  for P st sha where
  step_claim: "claim_or_replay P st q now token L = Inr (L', r) \<Longrightarrow> validation_step P st sha L L'"
| step_mark: "mark_attempt_started sha a now tick committed L = Inr (L', i) \<Longrightarrow> validation_step P st sha L L'"
| step_dispatch: "dispatch_prepared p h now tick L = (L', r) \<Longrightarrow> validation_step P st sha L L'"
| step_complete: "complete_call c completion now later L = Inr (L', ps) \<Longrightarrow> validation_step P st sha L L'"
| step_cancel: "cancel_call c now L = Inr L' \<Longrightarrow> validation_step P st sha L L'"
| step_recover: "recover_expired c now later L = Inr L' \<Longrightarrow> validation_step P st sha L L'"
| step_fail: "fail_call c failure later L = Inr L' \<Longrightarrow> validation_step P st sha L L'"

lemma empty_ledger_ok: "ledger_ok P st empty_ledger"
  by (simp add: ledger_ok_def grants_ok_def empty_ledger_def)

lemma validation_step_ok: "validation_step P st sha L L' \<Longrightarrow> ledger_ok P st L \<Longrightarrow> ledger_ok P st L'"
  by (induction rule: validation_step.induct)
    (blast intro: claim_or_replay_ok mark_attempt_started_ok dispatch_prepared_ok complete_call_ok cancel_call_ok
      recover_expired_ok fail_call_ok)+

lemma validation_step_below: "validation_step P st sha L L' \<Longrightarrow> ledger_below L L'"
  by (induction rule: validation_step.induct)
    (blast intro: claim_or_replay_below mark_attempt_started_below dispatch_prepared_below complete_call_below
      other_operations_below)+

abbreviation validation_run where
  "validation_run P st sha \<equiv> (validation_step P st sha)\<^sup>*\<^sup>*"

interpretation vl: ascending_system "\<lambda>L. L = empty_ledger" "validation_step P st sha" "ledger_ok P st" ledger_below
  by unfold_locales
    (auto intro: empty_ledger_ok validation_step_ok validation_step_below ledger_below_refl ledger_below_trans)

lemma run_ok: "validation_run P st sha empty_ledger L \<Longrightarrow> ledger_ok P st L"
  using vl.inv_steps empty_ledger_ok by blast

lemma run_below: "validation_run P st sha empty_ledger L \<Longrightarrow> validation_run P st sha L L' \<Longrightarrow> ledger_below L L'"
  using vl.steps_below run_ok by blast

end
