(* ===== verification/Auto_Review_Orchestrator.thy ===== *)
theory Auto_Review_Orchestrator
  imports Validation_Facts
begin

text \<open>
  \<open>agent_runtime/auto_review_orchestrator.py\<close>: candidates are packed first-fit into at most two batches,
  and a batch is run against the validation store and the provider. The store is the \<open>ValidationStore\<close>
  protocol, a record of operations on a state; \<open>Validation_Ledger\<close> is one. What the provider does is an
  argument.
\<close>

section \<open>Partition\<close>

record preparation_candidate =
  pp_claim :: candidate_claim
  pp_request :: validation_request
  pp_policy :: validation_input

text \<open>\<open>ValidationFrameSizer.measure\<close>, of which the partition reads the number of evidence slots.\<close>

definition measure_frame :: "render_env \<Rightarrow> validation_request list \<Rightarrow> nat result" where
  "measure_frame E qs = then_r (render_validation_frame E qs) (\<lambda>f. Inr (length (vf_evidence_slots f)))"

fun is_review_error :: "error \<Rightarrow> bool" where
  "is_review_error (Auto_Review_Error _) = True"
| "is_review_error _ = False"

text \<open>The measure of a tentative bucket: \<open>None\<close> when it does not fit, an exception of another kind goes on.\<close>

definition fits :: "render_env \<Rightarrow> preparation_candidate list \<Rightarrow> bool result" where
  "fits E b =
     (case measure_frame E (map pp_request b) of
        Inl e \<Rightarrow> if is_review_error e then Inr False else Inl e
      | Inr n \<Rightarrow> Inr (n \<le> 12))"

fun first_fit :: "render_env \<Rightarrow> preparation_candidate \<Rightarrow> preparation_candidate list list
    \<Rightarrow> preparation_candidate list list option result" where
  "first_fit E c [] = Inr None"
| "first_fit E c (b # bs) =
     (let skip = then_r (first_fit E c bs) (\<lambda>r. Inr (map_option (Cons b) r)) in
      if 4 < length (b @ [c]) then skip
      else then_r (fits E (b @ [c])) (\<lambda>ok. if ok then Inr (Some ((b @ [c]) # bs)) else skip))"

definition review_item_of :: "preparation_candidate \<Rightarrow> int" where
  "review_item_of c = cc_review_item_id (pp_claim c)"

definition place_candidate :: "render_env \<Rightarrow> nat \<Rightarrow> preparation_candidate
    \<Rightarrow> preparation_candidate list list \<times> int list \<Rightarrow> (preparation_candidate list list \<times> int list) result" where
  "place_candidate E index c = (\<lambda>(bins, human).
     if 5 \<le> index then Inr (bins, human @ [review_item_of c])
     else
     then_r (first_fit E c bins) (\<lambda>placed. case placed of
       Some bins' \<Rightarrow> Inr (bins', human)
     | None \<Rightarrow>
       then_r (fits E [c]) (\<lambda>ok.
         if \<not> ok \<or> 2 \<le> length bins then Inr (bins, human @ [review_item_of c])
         else Inr (bins @ [[c]], human))))"

fun place_all :: "render_env \<Rightarrow> nat \<Rightarrow> preparation_candidate list
    \<Rightarrow> preparation_candidate list list \<times> int list \<Rightarrow> (preparation_candidate list list \<times> int list) result" where
  "place_all E index [] acc = Inr acc"
| "place_all E index (c # cs) acc = then_r (place_candidate E index c acc) (place_all E (Suc index) cs)"

definition preparation_order :: "preparation_candidate list \<Rightarrow> preparation_candidate list" where
  "preparation_order cs = sort_key (cc_validation_key \<circ> pp_claim) cs"

definition pack :: "render_env \<Rightarrow> preparation_candidate list \<Rightarrow> (preparation_candidate list list \<times> int list) result" where
  "pack E cs = place_all E 0 (preparation_order cs) ([], [])"

section \<open>Prepared batches\<close>

record prepared_batch =
  bt_claim :: claim_request
  bt_admission :: attempt_admission
  bt_invocation :: prepared_validation
  bt_policy :: "validation_input list"

text \<open>What the caller knows of the execution a partition is prepared for.\<close>

record execution_guard =
  xg_thread :: string
  xg_owner_hmac :: string
  xg_source_hmac :: string
  xg_mode :: string

definition batch_request :: "string \<Rightarrow> string \<Rightarrow> candidate_claim list \<Rightarrow> prepared_validation \<Rightarrow> int \<Rightarrow> claim_request" where
  "batch_request thread fingerprint claims p cost =
     \<lparr>vb_thread = thread, vb_fingerprint = fingerprint, vb_candidates = claims, vb_max_attempts = 1,
      vb_content_hmac = pd_content_hmac p, vb_characters = int (vf_characters p), vb_framed = int (vf_framed p),
      vb_reserved_input = int (vf_framed p), vb_reserved_output = vf_max_output p, vb_reserved_cost = cost\<rparr>"

definition batch_admission :: "execution_guard \<Rightarrow> string \<Rightarrow> exec_identity \<Rightarrow> prepared_validation \<Rightarrow> int \<Rightarrow> attempt_admission" where
  "batch_admission g fingerprint x p cost =
     \<lparr>va_call_id = 0, va_thread = xg_thread g, va_fingerprint = fingerprint, va_lease_token = [],
      va_content_hmac = pd_content_hmac p, va_characters = int (vf_characters p), va_framed = int (vf_framed p),
      va_max_output = vf_max_output p, va_cost = cost, va_owner_hmac = xg_owner_hmac g,
      va_source_hmac = xg_source_hmac g, va_key_version = xi_key_version x, va_key_verifier = xi_key_verifier x,
      va_token_estimator_version = xi_token_estimator_version x,
      va_cost_policy_version = xi_cost_policy_version x, va_mode = xg_mode g, va_timeout = xi_timeout x,
      va_send_window = xi_send_window x, va_attempt_lease = xi_attempt_lease x,
      va_commit_grace = xi_commit_grace x\<rparr>"

definition batch_policy :: "prepared_validation \<Rightarrow> preparation_candidate list \<Rightarrow> validation_input list" where
  "batch_policy p b =
     map (\<lambda>(c, slot, slots). (pp_policy c)\<lparr>vi_candidate_slot_id := slot, vi_evidence_slot_ids := slots\<rparr>)
       (zip b (zip (vf_candidate_slots p) (vf_candidate_evidence p)))"

definition prepare_batch :: "render_env \<Rightarrow> rag_settings \<Rightarrow> execution_guard \<Rightarrow> preparation_candidate list
    \<Rightarrow> prepared_batch result" where
  "prepare_batch E st g b =
     then_r (prepare_many E st (map pp_request b)) (\<lambda>p.
     let claims = map pp_claim b; x = cc_identity (hd claims) in
     then_r (token_cost (int (vf_framed p)) (vf_max_output p) (xi_input_price x) (xi_output_price x)) (\<lambda>cost.
     then_r (derive_batch_fingerprint (re_primitives E) st (batch_request (xg_thread g) [] claims p cost)) (\<lambda>fp.
       Inr \<lparr>bt_claim = batch_request (xg_thread g) fp claims p cost,
            bt_admission = batch_admission g fp x p cost, bt_invocation = p, bt_policy = batch_policy p b\<rparr>)))"

fun prepare_batches :: "render_env \<Rightarrow> rag_settings \<Rightarrow> execution_guard \<Rightarrow> preparation_candidate list list
    \<Rightarrow> prepared_batch list result" where
  "prepare_batches E st g [] = Inr []"
| "prepare_batches E st g (b # bs) =
     then_r (prepare_batch E st g b) (\<lambda>x. then_r (prepare_batches E st g bs) (\<lambda>xs. Inr (x # xs)))"

record prepared_partition =
  pt_batches :: "prepared_batch list"
  pt_human_only :: "int list"

definition prepare_validation_partition :: "render_env \<Rightarrow> rag_settings \<Rightarrow> execution_guard
    \<Rightarrow> preparation_candidate list \<Rightarrow> prepared_partition result" where
  "prepare_validation_partition E st g cs =
     then_r (pack E cs) (\<lambda>(bins, human).
     then_r (prepare_batches E st g bins) (\<lambda>batches.
       Inr \<lparr>pt_batches = batches, pt_human_only = filter (\<lambda>i. 0 < i) human\<rparr>))"

section \<open>Execution\<close>

text \<open>The store and the dispatcher, on a state: an operation may change it even when it raises.\<close>

record 's store_ops =
  so_claim :: "claim_request \<Rightarrow> 's \<Rightarrow> 's \<times> claim_outcome result"
  so_mark :: "attempt_admission \<Rightarrow> 's \<Rightarrow> 's \<times> nat result"
  so_dispatch :: "prepared_validation \<Rightarrow> nat \<Rightarrow> 's \<Rightarrow> 's \<times> int result"
  so_complete :: "locked_context \<Rightarrow> batch_completion \<Rightarrow> 's \<Rightarrow> 's \<times> completed_projection list result"
  so_fail :: "locked_context \<Rightarrow> batch_failure \<Rightarrow> 's \<Rightarrow> 's \<times> unit result"

text \<open>
  What happens outside the store: whether logging is safe before and at the call, whether the route and
  the structured model could be built, and the provider's reply (\<open>None\<close> when the call raises).
\<close>

record validator_world =
  vw_safe_before :: bool
  vw_safe_at_call :: bool
  vw_route :: "int \<Rightarrow> bool"
  vw_reply :: "provider_reply option"
  vw_heap :: heap

definition validator_answer :: "validator_world \<Rightarrow> prepared_validation \<Rightarrow> int
    \<Rightarrow> (candidate_result list \<times> validation_usage) result" where
  "validator_answer W p timeout =
     (if \<not> vw_safe_at_call W then refusal ''provider logging controls are unsafe''
      else if \<not> vw_route W timeout then validation_unavailable
      else case vw_reply W of None \<Rightarrow> validation_unavailable | Some v \<Rightarrow> parse_provider_result (vw_heap W) p v)"

definition invoke_prepared :: "'s store_ops \<Rightarrow> validator_world \<Rightarrow> prepared_validation \<Rightarrow> nat \<Rightarrow> 's
    \<Rightarrow> 's \<times> (candidate_result list \<times> validation_usage) result" where
  "invoke_prepared S W p grant s =
     (if \<not> vw_safe_before W then (s, refusal ''provider logging controls are unsafe'')
      else case so_dispatch S p grant s of
        (s', Inl e) \<Rightarrow> (s', validation_unavailable)
      | (s', Inr timeout) \<Rightarrow> (s', validator_answer W p timeout))"

datatype orchestration_disposition = Orchestrated_Completed | Orchestrated_Replayed | Orchestrated_Busy
  | Orchestrated_Failed

record orchestration_result =
  oo_disposition :: orchestration_disposition
  oo_call_id :: int
  oo_completed :: "completed_projection list"
  oo_reason :: "policy_reason option"

definition batch_decisions :: "validation_input list \<Rightarrow> candidate_result list \<Rightarrow> policy_result list" where
  "batch_decisions vs rs = evaluate_batch (map (\<lambda>(v, r). v\<lparr>vi_result := Some r\<rparr>) (zip vs rs))"

definition batch_completion_of :: "locked_context \<Rightarrow> prepared_batch \<Rightarrow> candidate_result list \<Rightarrow> validation_usage
    \<Rightarrow> batch_completion" where
  "batch_completion_of c b rs u =
     locked_context.extend c
       \<lparr>bc_candidates = map (\<lambda>(claim, r, d). \<lparr>pc_review_item_id = cc_review_item_id claim,
            pc_validation_key = cc_validation_key claim, pc_result = r, pc_decision = po_decision d,
            pc_reasons = po_reasons d\<rparr>)
          (zip (candidate_order (vb_candidates (bt_claim b))) (zip rs (batch_decisions (bt_policy b) rs))),
        bc_input = vu_input u, bc_output = vu_output u\<rparr>"

definition failure_of :: "locked_context \<Rightarrow> policy_reason \<Rightarrow> validation_usage option \<Rightarrow> batch_failure" where
  "failure_of c r usage =
     locked_context.extend c
       \<lparr>bf_reason = r, bf_usage_known = (usage \<noteq> None), bf_input = map_option vu_input usage,
        bf_output = map_option vu_output usage\<rparr>"

definition failed_execution :: "'s store_ops \<Rightarrow> locked_context \<Rightarrow> policy_reason \<Rightarrow> validation_usage option \<Rightarrow> 's
    \<Rightarrow> 's \<times> orchestration_result result" where
  "failed_execution S c r usage s =
     (case so_fail S c (failure_of c r usage) s of
        (s', Inl e) \<Rightarrow> (s', Inl e)
      | (s', Inr _) \<Rightarrow> (s', Inr \<lparr>oo_disposition = Orchestrated_Failed, oo_call_id = lc_call_id c, oo_completed = [],
                               oo_reason = Some r\<rparr>))"

definition finish_execution :: "'s store_ops \<Rightarrow> prepared_batch \<Rightarrow> locked_context
    \<Rightarrow> (candidate_result list \<times> validation_usage) result \<Rightarrow> 's \<Rightarrow> 's \<times> orchestration_result result" where
  "finish_execution S b c answer s =
     (case answer of
        Inl _ \<Rightarrow> failed_execution S c R_validator_unavailable None s
      | Inr (rs, u) \<Rightarrow>
        (if length rs \<noteq> length (bt_policy b) then failed_execution S c R_validator_malformed (Some u) s
         else if length (vb_candidates (bt_claim b)) \<noteq> length rs
         then (s, Inl (Value_Error ''zip() argument lengths differ''))
         else case so_complete S c (batch_completion_of c b rs u) s of
           (s', Inl e) \<Rightarrow> (s', Inl e)
         | (s', Inr ps) \<Rightarrow> (s', Inr \<lparr>oo_disposition = Orchestrated_Completed, oo_call_id = lc_call_id c,
                                  oo_completed = ps, oo_reason = None\<rparr>)))"

definition run_claimed :: "'s store_ops \<Rightarrow> validator_world \<Rightarrow> prepared_batch \<Rightarrow> int \<Rightarrow> string \<Rightarrow> 's
    \<Rightarrow> 's \<times> orchestration_result result" where
  "run_claimed S W b call_id token s =
     (let c = \<lparr>lc_call_id = call_id, lc_thread = vb_thread (bt_claim b),
               lc_fingerprint = vb_fingerprint (bt_claim b), lc_lease_token = token\<rparr>;
          admission = (bt_admission b)\<lparr>va_call_id := call_id, va_lease_token := token\<rparr>
      in case so_mark S admission s of
        (s1, Inl e) \<Rightarrow> (s1, Inl e)
      | (s1, Inr grant) \<Rightarrow>
        (case invoke_prepared S W (bt_invocation b) grant s1 of
           (s2, answer) \<Rightarrow> finish_execution S b c answer s2))"

definition execute :: "'s store_ops \<Rightarrow> validator_world \<Rightarrow> prepared_batch \<Rightarrow> 's \<Rightarrow> 's \<times> orchestration_result result" where
  "execute S W b s =
     (case so_claim S (bt_claim b) s of
        (s1, Inl e) \<Rightarrow> (s1, Inl e)
      | (s1, Inr claim) \<Rightarrow>
        (if co_disposition claim = Busy
         then (s1, Inr \<lparr>oo_disposition = Orchestrated_Busy, oo_call_id = co_call_id claim, oo_completed = [],
                       oo_reason = None\<rparr>)
         else if co_disposition claim = Replayed
         then (s1, Inr \<lparr>oo_disposition =
                        (if co_terminal claim = Some Call_Completed then Orchestrated_Replayed else Orchestrated_Failed),
                       oo_call_id = co_call_id claim, oo_completed = co_completed claim, oo_reason = co_reason claim\<rparr>)
         else case co_lease_token claim of
           None \<Rightarrow> (s1, refusal ''validation admission does not match the canonical claim'')
         | Some token \<Rightarrow>
           (if va_thread (bt_admission b) \<noteq> vb_thread (bt_claim b)
               \<or> va_fingerprint (bt_admission b) \<noteq> vb_fingerprint (bt_claim b)
            then (s1, refusal ''validation admission does not match the canonical claim'')
            else run_claimed S W b (co_call_id claim) token s1)))"

end
