(* ===== verification/Auto_Review_Facts.thy ===== *)
theory Auto_Review_Facts
  imports Auto_Review_Orchestrator "HOL-Library.Multiset"
begin

text \<open>Facts of \<open>Auto_Review_Orchestrator\<close>: what a partition contains, and what a completion says.\<close>

section \<open>The partition\<close>

definition bin_ok :: "render_env \<Rightarrow> preparation_candidate list \<Rightarrow> preparation_candidate list \<Rightarrow> bool" where
  "bin_ok E seen b \<longleftrightarrow> b \<noteq> [] \<and> length b \<le> 4 \<and> subseq b seen \<and> fits E b = Inr True"

text \<open>After the candidates \<open>seen\<close>: every one of them is in a bucket or left to a human, once.\<close>

definition packed :: "render_env \<Rightarrow> preparation_candidate list \<Rightarrow> preparation_candidate list list \<times> int list \<Rightarrow> bool" where
  "packed E seen = (\<lambda>(bins, human).
     (\<exists>hs. mset seen = mset (concat bins) + mset hs \<and> human = map review_item_of hs)
     \<and> (\<forall>b \<in> set bins. bin_ok E seen b) \<and> length bins \<le> 2 \<and> length (concat bins) \<le> 5)"

lemma bin_ok_later: "bin_ok E seen b \<Longrightarrow> bin_ok E (seen @ [c]) b"
  unfolding bin_ok_def by (auto intro: list_emb_append2)

lemma first_fit_Inr:
  "first_fit E c bs = Inr (Some bs') \<Longrightarrow>
     \<exists>pre b post. bs = pre @ b # post \<and> bs' = pre @ (b @ [c]) # post \<and> length (b @ [c]) \<le> 4
       \<and> fits E (b @ [c]) = Inr True"
proof (induction bs arbitrary: bs')
  case (Cons b bs)
  show ?case
  proof (cases "length (b @ [c]) \<le> 4 \<and> fits E (b @ [c]) = Inr True")
    case True
    then have "bs' = (b @ [c]) # bs" using Cons.prems by (simp add: Let_def)
    then have "b # bs = [] @ b # bs \<and> bs' = [] @ (b @ [c]) # bs \<and> length (b @ [c]) \<le> 4 \<and> fits E (b @ [c]) = Inr True"
      using True by simp
    then show ?thesis by blast
  next
    case False
    then obtain rest where "first_fit E c bs = Inr (Some rest)" "bs' = b # rest"
      using Cons.prems by (auto simp: Let_def split: if_splits)
    then obtain pre b' post where "bs = pre @ b' # post" "bs' = b # pre @ (b' @ [c]) # post" "length (b' @ [c]) \<le> 4"
      "fits E (b' @ [c]) = Inr True"
      using Cons.IH by blast
    then have "b # bs = (b # pre) @ b' # post \<and> bs' = (b # pre) @ (b' @ [c]) # post \<and> length (b' @ [c]) \<le> 4
      \<and> fits E (b' @ [c]) = Inr True"
      by simp
    then show ?thesis by blast
  qed
qed simp

lemma packed_human:
  "packed E seen (bins, human) \<Longrightarrow> packed E (seen @ [c]) (bins, human @ [review_item_of c])"
proof -
  assume p: "packed E seen (bins, human)"
  then obtain hs where "mset seen = mset (concat bins) + mset hs" "human = map review_item_of hs"
    by (auto simp: packed_def)
  then have "mset (seen @ [c]) = mset (concat bins) + mset (hs @ [c])"
    "human @ [review_item_of c] = map review_item_of (hs @ [c])" by simp_all
  then show ?thesis using p bin_ok_later unfolding packed_def by blast
qed

lemma place_candidate_packed:
  assumes p: "packed E seen acc" and "place_candidate E (length seen) c acc = Inr acc'"
  shows "packed E (seen @ [c]) acc'"
proof -
  obtain bins human where acc: "acc = (bins, human)" by (cases acc)
  obtain hs where hs: "mset seen = mset (concat bins) + mset hs" "human = map review_item_of hs"
    using p by (auto simp: packed_def acc)
  have bins: "\<forall>b \<in> set bins. bin_ok E seen b" "length bins \<le> 2" "length (concat bins) \<le> 5"
    using p by (auto simp: packed_def acc)
  have "length (concat bins) \<le> length seen" using arg_cong [OF hs(1), of size] by simp
  show ?thesis
  proof (cases "5 \<le> length seen")
    case True
    then have "acc' = (bins, human @ [review_item_of c])" using assms(2) by (simp add: place_candidate_def acc)
    then show ?thesis using p packed_human acc by simp
  next
    case False
    then have room: "length (concat bins) + 1 \<le> 5" using \<open>length (concat bins) \<le> length seen\<close> by simp
    have sub: "subseq (b @ [c]) (seen @ [c])" if "subseq b seen" for b using that by simp
    from False assms(2) obtain placed where placed: "first_fit E c bins = Inr placed"
      by (auto simp: place_candidate_def acc)
    show ?thesis
    proof (cases placed)
      case (Some bins')
      then obtain pre b post where split: "bins = pre @ b # post" "bins' = pre @ (b @ [c]) # post"
        and b: "length (b @ [c]) \<le> 4" "fits E (b @ [c]) = Inr True"
        using first_fit_Inr placed by blast
      have acc': "acc' = (bins', human)" using assms(2) False placed Some by (simp add: place_candidate_def acc)
      have "mset (seen @ [c]) = mset (concat bins') + mset hs" using hs(1) by (simp add: split)
      moreover have "bin_ok E (seen @ [c]) (b @ [c])"
        using bins(1) b sub unfolding split by (auto simp: bin_ok_def)
      moreover have "\<forall>x \<in> set pre \<union> set post. bin_ok E (seen @ [c]) x"
        using bins(1) bin_ok_later unfolding split by auto
      ultimately show ?thesis using hs(2) bins(2) room by (auto simp: packed_def acc' split)
    next
      case None
      show ?thesis
      proof (cases "acc' = (bins @ [[c]], human)")
        case True
        then have "fits E [c] = Inr True" "length bins < 2"
          using assms(2) False placed None by (auto simp: place_candidate_def acc split: if_splits)
        moreover have "mset (seen @ [c]) = mset (concat (bins @ [[c]])) + mset hs" using hs(1) by simp
        moreover have "bin_ok E (seen @ [c]) [c]"
          using \<open>fits E [c] = Inr True\<close> sub [of "[]"] by (simp add: bin_ok_def)
        ultimately show ?thesis
          using hs(2) bins(1) bin_ok_later room unfolding packed_def True by auto
      next
        case False
        then have "acc' = (bins, human @ [review_item_of c])"
          using assms(2) \<open>\<not> 5 \<le> length seen\<close> placed None by (auto simp: place_candidate_def acc split: if_splits)
        then show ?thesis using p packed_human acc by simp
      qed
    qed
  qed
qed

lemma place_all_packed:
  "packed E seen acc \<Longrightarrow> place_all E (length seen) cs acc = Inr acc' \<Longrightarrow> packed E (seen @ cs) acc'"
proof (induction cs arbitrary: seen acc)
  case (Cons c cs)
  then obtain acc1 where "place_candidate E (length seen) c acc = Inr acc1"
    "place_all E (length (seen @ [c])) cs acc1 = Inr acc'" by auto
  then show ?case using Cons.IH [of "seen @ [c]" acc1] place_candidate_packed [OF Cons.prems(1)] by simp
qed simp

lemma pack_packed: "pack E cs = Inr acc \<Longrightarrow> packed E (preparation_order cs) acc"
  using place_all_packed [of E "[]" "([], [])"] by (simp add: pack_def packed_def)

lemma subseq_set: "subseq xs ys \<Longrightarrow> set xs \<subseteq> set ys"
  by (induction rule: list_emb.induct) auto

lemma subseq_sorted: "sorted ys \<Longrightarrow> subseq xs ys \<Longrightarrow> sorted xs"
  by (rotate_tac, induction rule: list_emb.induct) (auto dest: subseq_set)

text \<open>The candidates of a bucket are in the order of their validation keys.\<close>

lemma bin_sorted:
  assumes "bin_ok E (preparation_order cs) b"
  shows "candidate_order (map pp_claim b) = map pp_claim b" and "set b \<subseteq> set cs"
proof -
  have sub: "subseq b (preparation_order cs)" using assms by (simp add: bin_ok_def)
  have "sorted (map (cc_validation_key \<circ> pp_claim) (preparation_order cs))"
    by (simp add: preparation_order_def)
  moreover have "subseq (map (cc_validation_key \<circ> pp_claim) b) (map (cc_validation_key \<circ> pp_claim) (preparation_order cs))"
    using sub by (rule subseq_map)
  ultimately have "sorted (map (cc_validation_key \<circ> pp_claim) b)"
    by (rule subseq_sorted)
  then show "candidate_order (map pp_claim b) = map pp_claim b"
    by (simp add: candidate_order_def sort_key_id_if_sorted comp_def)
  show "set b \<subseteq> set cs" using subseq_set [OF sub] by (simp add: preparation_order_def)
qed

section \<open>Prepared batches\<close>

lemma prepare_batch_Inr:
  assumes "prepare_batch E st g b = Inr x"
  shows "vb_candidates (bt_claim x) = map pp_claim b" and "frame_ok (map pp_request b) (bt_invocation x)"
    and "bt_policy x = batch_policy (bt_invocation x) b"
    and "vb_reserved_cost (bt_claim x) = maximum_cost (int (vf_framed (bt_invocation x))) 3072
      (xi_input_price (cc_identity (hd (map pp_claim b)))) (xi_output_price (cc_identity (hd (map pp_claim b))))"
    and "vb_reserved_input (bt_claim x) = int (vf_framed (bt_invocation x))"
proof -
  obtain p cost fp where p: "prepare_many E st (map pp_request b) = Inr p"
    and cost: "cost = maximum_cost (int (vf_framed p)) (vf_max_output p)
      (xi_input_price (cc_identity (hd (map pp_claim b)))) (xi_output_price (cc_identity (hd (map pp_claim b))))"
    and x: "x = \<lparr>bt_claim = batch_request (xg_thread g) fp (map pp_claim b) p cost,
      bt_admission = batch_admission g fp (cc_identity (hd (map pp_claim b))) p cost, bt_invocation = p,
      bt_policy = batch_policy p b\<rparr>"
    using assms by (auto simp: prepare_batch_def Let_def)
  have "frame_ok (map pp_request b) p" by (rule prepare_many_ok [OF p])
  moreover from this have "vf_max_output p = 3072" by (simp add: frame_ok_def)
  ultimately show "vb_candidates (bt_claim x) = map pp_claim b" "frame_ok (map pp_request b) (bt_invocation x)"
    "bt_policy x = batch_policy (bt_invocation x) b"
    "vb_reserved_cost (bt_claim x) = maximum_cost (int (vf_framed (bt_invocation x))) 3072
      (xi_input_price (cc_identity (hd (map pp_claim b)))) (xi_output_price (cc_identity (hd (map pp_claim b))))"
    "vb_reserved_input (bt_claim x) = int (vf_framed (bt_invocation x))"
    by (simp_all add: x cost batch_request_def)
qed

lemma prepare_batches_Inr:
  "prepare_batches E st g bs = Inr xs \<longleftrightarrow> list_all2 (\<lambda>b x. prepare_batch E st g b = Inr x) bs xs"
proof (induction bs arbitrary: xs)
  case (Cons b bs)
  then show ?case by (cases xs) auto
qed auto

lemma prepare_partition_Inr:
  assumes "prepare_validation_partition E st g cs = Inr part"
  obtains bins hs where "mset cs = mset (concat bins) + mset hs"
    and "pt_human_only part = filter (\<lambda>i. 0 < i) (map review_item_of hs)"
    and "list_all2 (\<lambda>b x. prepare_batch E st g b = Inr x) bins (pt_batches part)"
    and "\<forall>b \<in> set bins. bin_ok E (preparation_order cs) b" and "length bins \<le> 2" and "length (concat bins) \<le> 5"
proof -
  obtain bins human where p: "pack E cs = Inr (bins, human)"
    and b: "list_all2 (\<lambda>b x. prepare_batch E st g b = Inr x) bins (pt_batches part)"
    and h: "pt_human_only part = filter (\<lambda>i. 0 < i) human"
    using assms by (auto simp: prepare_validation_partition_def prepare_batches_Inr)
  have "mset (preparation_order cs) = mset cs" by (simp add: preparation_order_def)
  then show thesis using pack_packed [OF p] that b h by (auto simp: packed_def)
qed

lemma batch_cost_bound:
  assumes "prepare_batch E st g b = Inr x" and "b \<noteq> []"
    and "\<forall>c \<in> set b. xi_input_price (cc_identity (pp_claim c)) = 2000000
      \<and> xi_output_price (cc_identity (pp_claim c)) = 12000000"
  shows "0 \<le> vb_reserved_cost (bt_claim x)" and "vb_reserved_cost (bt_claim x) \<le> max_batch_cost"
proof -
  let ?n = "int (vf_framed (bt_invocation x))"
  have "hd (map pp_claim b) = pp_claim (hd b)" "hd b \<in> set b" using assms(2) by (simp_all add: hd_map)
  then have cost: "vb_reserved_cost (bt_claim x) = maximum_cost ?n 3072 2000000 12000000"
    using prepare_batch_Inr(4) [OF assms(1)] assms(3) by simp
  have "?n \<le> 6000" using prepare_batch_Inr(2) [OF assms(1)] by (simp add: frame_ok_def)
  then have "maximum_cost ?n 3072 2000000 12000000 \<le> maximum_cost 6000 3072 2000000 12000000"
    by (intro maximum_cost_mono) simp_all
  then show "vb_reserved_cost (bt_claim x) \<le> max_batch_cost" using cost registry_assertions(5) by simp
  show "0 \<le> vb_reserved_cost (bt_claim x)" using cost maximum_cost_nonneg by simp
qed

lemma list_all2_right: "list_all2 R xs ys \<Longrightarrow> y \<in> set ys \<Longrightarrow> \<exists>x \<in> set xs. R x y"
  by (induction rule: list_all2_induct) auto

lemma sum_bound: "\<forall>x \<in> set xs. f x \<le> (m :: int) \<Longrightarrow> sum_list (map f xs) \<le> int (length xs) * m"
  by (induction xs) (auto simp: algebra_simps)

text \<open>
  The partition as it is specified: every candidate is validated once or left to a human, in the buckets'
  order, and what it may cost stays under the validation ceiling.
\<close>

definition partition_of :: "preparation_candidate list \<Rightarrow> preparation_candidate list list \<Rightarrow> preparation_candidate list
    \<Rightarrow> prepared_partition \<Rightarrow> bool" where
  "partition_of cs bins hs part \<longleftrightarrow>
     mset cs = mset (concat bins) + mset hs
     \<and> pt_human_only part = filter (\<lambda>i. 0 < i) (map review_item_of hs)
     \<and> map (vb_candidates \<circ> bt_claim) (pt_batches part) = map (map pp_claim) bins
     \<and> length bins \<le> 2 \<and> length (concat bins) \<le> 5 \<and> (\<forall>b \<in> set bins. b \<noteq> [] \<and> length b \<le> 4)
     \<and> (\<forall>x \<in> set (pt_batches part). length (vf_evidence_slots (bt_invocation x)) \<le> 12
          \<and> vf_framed (bt_invocation x) \<le> 6000 \<and> vf_characters (bt_invocation x) \<le> 12000)
     \<and> sum_list (map (vb_reserved_cost \<circ> bt_claim) (pt_batches part)) \<le> max_validation_cost"

lemma prepared_partition_of:
  assumes "prepare_validation_partition E st g cs = Inr part"
    and prices: "\<forall>c \<in> set cs. xi_input_price (cc_identity (pp_claim c)) = 2000000
      \<and> xi_output_price (cc_identity (pp_claim c)) = 12000000"
  shows "\<exists>bins hs. partition_of cs bins hs part"
proof -
  obtain bins hs where all: "mset cs = mset (concat bins) + mset hs"
    and human: "pt_human_only part = filter (\<lambda>i. 0 < i) (map review_item_of hs)"
    and batches: "list_all2 (\<lambda>b x. prepare_batch E st g b = Inr x) bins (pt_batches part)"
    and bins: "\<forall>b \<in> set bins. bin_ok E (preparation_order cs) b" and n: "length bins \<le> 2" "length (concat bins) \<le> 5"
    using assms(1) by (rule prepare_partition_Inr)
  have claims: "map (vb_candidates \<circ> bt_claim) (pt_batches part) = map (map pp_claim) bins"
    using batches by (induction rule: list_all2_induct) (simp_all add: prepare_batch_Inr(1))
  have each: "\<exists>b \<in> set bins. prepare_batch E st g b = Inr x" if "x \<in> set (pt_batches part)" for x
    by (rule list_all2_right [OF batches that])
  have "0 \<le> (vb_reserved_cost \<circ> bt_claim) x \<and> (vb_reserved_cost \<circ> bt_claim) x \<le> max_batch_cost
      \<and> length (vf_evidence_slots (bt_invocation x)) \<le> 12 \<and> vf_framed (bt_invocation x) \<le> 6000
      \<and> vf_characters (bt_invocation x) \<le> 12000" if "x \<in> set (pt_batches part)" for x
  proof -
    obtain b where b: "b \<in> set bins" "prepare_batch E st g b = Inr x" using each \<open>x \<in> set (pt_batches part)\<close> by blast
    then have bin: "bin_ok E (preparation_order cs) b" using bins by blast
    then have "b \<noteq> []" by (simp add: bin_ok_def)
    moreover have "\<forall>c \<in> set b. xi_input_price (cc_identity (pp_claim c)) = 2000000
        \<and> xi_output_price (cc_identity (pp_claim c)) = 12000000"
      using prices bin_sorted(2) [OF bin] by blast
    ultimately have "0 \<le> vb_reserved_cost (bt_claim x)" "vb_reserved_cost (bt_claim x) \<le> max_batch_cost"
      using batch_cost_bound [OF b(2)] by blast+
    moreover have "length (vf_evidence_slots (bt_invocation x)) \<le> 12" "vf_framed (bt_invocation x) \<le> 6000"
      "vf_characters (bt_invocation x) \<le> 12000"
      using prepare_batch_Inr(2) [OF b(2)] unfolding frame_ok_def by blast+
    ultimately show ?thesis by simp
  qed
  note x = this
  have "sum_list (map (vb_reserved_cost \<circ> bt_claim) (pt_batches part)) \<le> int (length (pt_batches part)) * max_batch_cost"
    using x by (intro sum_bound) blast
  also have "\<dots> \<le> 2 * max_batch_cost"
    using n(1) list_all2_lengthD [OF batches] by (simp add: max_batch_cost_def)
  finally have "sum_list (map (vb_reserved_cost \<circ> bt_claim) (pt_batches part)) \<le> max_validation_cost"
    using registry_assertions(7) by simp
  moreover have "\<forall>b \<in> set bins. b \<noteq> [] \<and> length b \<le> 4" using bins unfolding bin_ok_def by blast
  ultimately have "partition_of cs bins hs part"
    using all human claims n x unfolding partition_of_def by blast
  then show ?thesis by blast
qed

section \<open>What a completion says of a candidate\<close>

text \<open>The claim fields, the slots and the result a candidate of a batch is judged on.\<close>

lemma batch_decisions_nth:
  assumes b: "prepare_batch E st g b = Inr x" and len: "length rs = length b" and i: "i < length b"
    and auto: "po_decision (batch_decisions (bt_policy x) rs ! i) = Auto_Approve"
    and no: "er_decision (vi_eligibility (pp_policy (b ! i))) \<noteq> Auto_Approve"
  shows "er_decision (vi_eligibility (pp_policy (b ! i))) = Eligible
    \<and> vi_identity (pp_policy (b ! i)) = supported_validation_identity \<and> vi_state_matches (pp_policy (b ! i))
    \<and> vi_validator_available (pp_policy (b ! i))
    \<and> direct_support (vi_claim_fields (pp_policy (b ! i))) (vf_candidate_evidence (bt_invocation x) ! i) (rs ! i)"
proof -
  let ?p = "bt_invocation x" and ?vs = "map (\<lambda>(v, r). v\<lparr>vi_result := Some r\<rparr>) (zip (bt_policy x) rs)"
  have n: "length (vf_candidate_slots ?p) = length b" "length (vf_candidate_evidence ?p) = length b"
    using prepare_batch_Inr(2) [OF b] by (simp_all add: frame_ok_def del: upt_Suc)
  have policy: "bt_policy x = batch_policy ?p b" by (rule prepare_batch_Inr(3) [OF b])
  then have pol: "length (bt_policy x) = length b" by (simp add: batch_policy_def n)
  then have vs: "i < length ?vs" "?vs ! i = (pp_policy (b ! i))\<lparr>vi_candidate_slot_id := vf_candidate_slots ?p ! i,
      vi_evidence_slot_ids := vf_candidate_evidence ?p ! i, vi_result := Some (rs ! i)\<rparr>"
    using i len by (simp_all add: policy batch_policy_def n)
  have "po_decision (evaluate_batch ?vs ! i) = Auto_Approve" using auto by (simp add: batch_decisions_def)
  then have "po_decision (evaluate_validation (?vs ! i)) = Auto_Approve"
    using evaluate_batch_accepts(1) [OF vs(1)] by simp
  then show ?thesis using no unfolding auto_approve_iff vs(2) by simp
qed

lemma batch_completion_member:
  assumes "d \<in> set (bc_candidates (batch_completion_of c x rs u))"
    and "length rs = length (vb_candidates (bt_claim x))"
  shows "\<exists>i < length rs. pc_review_item_id d = cc_review_item_id (candidate_order (vb_candidates (bt_claim x)) ! i)
    \<and> pc_result d = rs ! i \<and> pc_decision d = po_decision (batch_decisions (bt_policy x) rs ! i)"
proof -
  let ?f = "\<lambda>(claim, r, d). \<lparr>pc_review_item_id = cc_review_item_id claim,
            pc_validation_key = cc_validation_key claim, pc_result = r, pc_decision = po_decision d,
            pc_reasons = po_reasons d\<rparr>"
    and ?zs = "zip (candidate_order (vb_candidates (bt_claim x))) (zip rs (batch_decisions (bt_policy x) rs))"
  have "d \<in> set (map ?f ?zs)"
    using assms(1) by (simp add: batch_completion_of_def locked_context.defs)
  then obtain i where "i < length ?zs" "d = ?f (?zs ! i)" by (auto simp: in_set_conv_nth)
  then show ?thesis using assms(2) by (intro exI [of _ i]) simp
qed

section \<open>The contract of the store\<close>

text \<open>
  What the orchestrator relies on: a completion reports what it was given, and a grant that was sent once
  is spent.
\<close>

locale validation_store =
  fixes S :: "'s store_ops"
  assumes complete_reports:
      "so_complete S c completion s = (s', Inr ps) \<Longrightarrow> p \<in> set ps \<Longrightarrow>
        \<exists>d \<in> set (bc_candidates completion). cv_review_item_id p = pc_review_item_id d
          \<and> cv_result p = pc_result d \<and> cv_decision p = pc_decision d"
    and dispatch_spends:
      "so_dispatch S q g s = (s', Inr t) \<Longrightarrow> \<not> returns (snd (so_dispatch S q' g s'))"
begin

lemma second_invocation_unavailable:
  assumes "invoke_prepared S W p g s = (s', Inr a)"
  shows "\<not> returns (snd (invoke_prepared S W' p' g s'))"
proof -
  obtain t where "so_dispatch S p g s = (s', Inr t)"
    using assms by (auto simp: invoke_prepared_def refusal_def validation_unavailable_def split: if_splits prod.splits sum.splits)
  then have "\<not> returns (snd (so_dispatch S p' g s'))" by (rule dispatch_spends)
  then show ?thesis
    by (auto simp: invoke_prepared_def refusal_def validation_unavailable_def split: prod.splits sum.splits)
qed

lemma completed_execution:
  assumes "execute S W b s = (s', Inr r)" and "oo_disposition r = Orchestrated_Completed" and "p \<in> set (oo_completed r)"
  obtains c v rs u d where "vw_safe_before W" and "vw_safe_at_call W" and "vw_reply W = Some v"
    and "parse_provider_result (vw_heap W) (bt_invocation b) v = Inr (rs, u)"
    and "length rs = length (bt_policy b)" and "length rs = length (vb_candidates (bt_claim b))"
    and "d \<in> set (bc_candidates (batch_completion_of c b rs u))" and "cv_review_item_id p = pc_review_item_id d"
    and "cv_result p = pc_result d" and "cv_decision p = pc_decision d"
proof -
  obtain call_id token s1 where run: "run_claimed S W b call_id token s1 = (s', Inr r)"
    using assms by (auto simp: execute_def refusal_def split: prod.splits sum.splits if_splits option.splits)
  obtain c s2 s3 g answer where inv: "invoke_prepared S W (bt_invocation b) g s2 = (s3, answer)"
    and fin: "finish_execution S b c answer s3 = (s', Inr r)"
    using run by (auto simp: run_claimed_def Let_def split: prod.splits sum.splits)
  obtain rs u where answer: "answer = Inr (rs, u)" and len: "length rs = length (bt_policy b)"
      "length rs = length (vb_candidates (bt_claim b))"
    and stored: "so_complete S c (batch_completion_of c b rs u) s3 = (s', Inr (oo_completed r))"
    using fin assms(2)
    by (auto simp: finish_execution_def failed_execution_def split: prod.splits sum.splits if_splits)
  obtain v where v: "vw_safe_before W" "vw_safe_at_call W" "vw_reply W = Some v"
    "parse_provider_result (vw_heap W) (bt_invocation b) v = Inr (rs, u)"
    using inv answer
    by (auto simp: invoke_prepared_def validator_answer_def refusal_def validation_unavailable_def
        split: prod.splits sum.splits if_splits option.splits)
  show thesis using complete_reports [OF stored assms(3)] that v len by blast
qed

end

section \<open>The call ledger as the store\<close>

text \<open>The clocks, the token and the commit of one execution.\<close>

record store_clock =
  ck_claim :: int
  ck_token :: string
  ck_mark :: int
  ck_mark_tick :: int
  ck_committed :: "unit result"
  ck_dispatch :: int
  ck_dispatch_tick :: int
  ck_complete :: int
  ck_later :: int

definition keep :: "'s \<Rightarrow> ('s \<times> 'a) result \<Rightarrow> 's \<times> 'a result" where
  "keep s r = (case r of Inl e \<Rightarrow> (s, Inl e) | Inr (s', x) \<Rightarrow> (s', Inr x))"

definition ledger_ops :: "primitives \<Rightarrow> rag_settings \<Rightarrow> (string \<Rightarrow> string) \<Rightarrow> store_clock
    \<Rightarrow> validation_ledger store_ops" where
  "ledger_ops P st sha k =
     \<lparr>so_claim = (\<lambda>q L. keep L (claim_or_replay P st q (ck_claim k) (ck_token k) L)),
      so_mark = (\<lambda>a L. keep L (mark_attempt_started sha a (ck_mark k) (ck_mark_tick k) (ck_committed k) L)),
      so_dispatch = (\<lambda>p g L. dispatch_prepared p (Some g) (ck_dispatch k) (ck_dispatch_tick k) L),
      so_complete = (\<lambda>c d L. keep L (complete_call c d (ck_complete k) (ck_later k) L)),
      so_fail = (\<lambda>c f L. keep L (then_r (fail_call c f (ck_later k) L) (\<lambda>L'. Inr (L', ()))))\<rparr>"

lemma projections_member:
  "p \<in> set (projections n m zs) \<Longrightarrow>
     \<exists>d \<in> set (map fst zs). cv_review_item_id p = pc_review_item_id d \<and> cv_result p = pc_result d
       \<and> cv_decision p = pc_decision d"
  by (induction n m zs rule: projections.induct) auto

lemma complete_call_reports:
  assumes "complete_call c completion now later L = Inr (L', ps)" and "p \<in> set ps"
  shows "\<exists>d \<in> set (bc_candidates completion). cv_review_item_id p = pc_review_item_id d
    \<and> cv_result p = pc_result d \<and> cv_decision p = pc_decision d"
proof -
  obtain s x ins outs cost ties inp out where
    "close_completion (context_key c) s x (completion_order completion) ties inp out ins outs cost later L = Inr (L', ps)"
    using assms(1) by (rule complete_call_Inr) blast
  then obtain n m ys where "ps = projections n m (zip (completion_order completion) ys)"
    using assms(2) by (cases rule: close_completion_Inr) auto
  then obtain d where "d \<in> set (map fst (zip (completion_order completion) ys))" "cv_review_item_id p = pc_review_item_id d"
    "cv_result p = pc_result d" "cv_decision p = pc_decision d"
    using assms(2) projections_member by blast
  moreover have "set (map fst (zip (completion_order completion) ys)) \<subseteq> set (bc_candidates completion)"
    by (auto simp: completion_order_def dest: set_zip_leftD)
  ultimately show ?thesis by blast
qed

lemma dispatch_spends_grant:
  assumes "dispatch_prepared p h now tick L = (L', Inr t)"
  shows "\<not> returns (snd (dispatch_prepared p' h now' tick' L'))"
proof (cases rule: dispatch_prepared_cases [of p h now tick L])
  case (3 i k s g)
  have "vl_active L' = AList.delete (vg_attempt_id (vl_grants L ! i)) (vl_active L)"
    and grants: "vl_grants L' = (vl_grants L)[i := g]"
    using assms 3(7) by auto
  moreover have "vg_attempt_id g = vg_attempt_id (vl_grants L ! i)"
    using 3(6) by (auto simp: consume_permit_def split: if_splits)
  ultimately have "map_of (vl_active L') (vg_attempt_id (vl_grants L' ! i)) = None"
    using 3(2) by (simp add: delete_conv')
  then show ?thesis using 3(1,2) grants by (simp add: dispatch_prepared_def store_refusal_def Let_def)
qed (use assms in auto)

interpretation call_ledger: validation_store "ledger_ops P st sha k"
proof
  fix c completion and s s' :: validation_ledger and ps p
  assume "so_complete (ledger_ops P st sha k) c completion s = (s', Inr ps)" "p \<in> set ps"
  then show "\<exists>d \<in> set (bc_candidates completion). cv_review_item_id p = pc_review_item_id d
      \<and> cv_result p = pc_result d \<and> cv_decision p = pc_decision d"
    using complete_call_reports by (auto simp: ledger_ops_def keep_def split: sum.splits prod.splits)
next
  fix q g and s s' :: validation_ledger and t q'
  assume "so_dispatch (ledger_ops P st sha k) q g s = (s', Inr t)"
  then show "\<not> returns (snd (so_dispatch (ledger_ops P st sha k) q' g s'))"
    using dispatch_spends_grant by (simp add: ledger_ops_def)
qed

end
