(* ===== verification/Trusted_Claims.thy ===== *)
theory Trusted_Claims
  imports Auto_Review_Policy
begin

text \<open>
  \<open>knowledge/claim_fingerprints.py\<close> and the candidate fingerprint of \<open>knowledge/trusted_provenance.py\<close>: the
  keyed identity of a claim, of its title bucket and of its project scope.
\<close>

section \<open>Normal form of a claim\<close>

text \<open>\<open>re.sub(r'\s+', ' ', text)\<close>: the characters \<open>\s\<close> matches are those of \<open>str.isspace\<close>.\<close>

fun collapse_spaces :: "bool \<Rightarrow> string \<Rightarrow> string" where
  "collapse_spaces after [] = []"
| "collapse_spaces after (c # s) =
     (case List.find (\<lambda>w. w \<noteq> [] \<and> prefix w (c # s)) space_encodings of
        None \<Rightarrow> c # collapse_spaces False s
      | Some w \<Rightarrow> (if after then [] else [CHR '' '']) @ collapse_spaces True (drop (length w - 1) s))"

definition normalize_trusted_text :: "primitives \<Rightarrow> string \<Rightarrow> string" where
  "normalize_trusted_text P s = strip (collapse_spaces False (nfc P s))"

definition normalize_optional :: "primitives \<Rightarrow> string option \<Rightarrow> string option" where
  "normalize_optional P v =
     (case v of None \<Rightarrow> None
      | Some s \<Rightarrow> let n = normalize_trusted_text P s in if n = [] then None else Some n)"

definition optional_item_string :: "review_item \<Rightarrow> string \<Rightarrow> string option" where
  "optional_item_string it k =
     (case payload_get it k of JStr s \<Rightarrow> if strip s = [] then None else Some s | _ \<Rightarrow> None)"

section \<open>Fingerprints\<close>

definition substantive_fields :: "string \<Rightarrow> string list option" where
  "substantive_fields t =
     (if t = ''timeline_event'' then Some [''title'', ''result_summary'']
      else if t = ''history_event'' then Some [''title'', ''reason'']
      else if t = ''decision_record'' then Some [''title'', ''decision_summary'']
      else if t = ''todo'' then Some [''title'', ''assignee'', ''due_date'', ''priority'', ''priority_reason'']
      else None)"

definition optional_field :: "string \<Rightarrow> bool" where
  "optional_field k \<longleftrightarrow> k \<in> set [''assignee'', ''due_date'']"

text \<open>The loop over the expected fields; the given fields are a dict of optional strings.\<close>

fun normalized_fields :: "primitives \<Rightarrow> (string \<times> string option) list \<Rightarrow> string list
    \<Rightarrow> (string \<times> json) list result" where
  "normalized_fields P given [] = Inr []"
| "normalized_fields P given (k # ks) =
     (case map_of given k of
        None \<Rightarrow> Inl (Key_Error k)
      | Some None \<Rightarrow>
          if \<not> optional_field k then Inl (Value_Error ''trusted claim is missing a substantive field'')
          else then_r (normalized_fields P given ks) (\<lambda>rest. Inr ((k, JNull) # rest))
      | Some (Some raw) \<Rightarrow>
          let n = normalize_trusted_text P raw in
          if n = [] \<and> \<not> optional_field k then Inl (Value_Error ''trusted claim has an empty substantive field'')
          else then_r (normalized_fields P given ks) (\<lambda>rest.
            Inr ((k, if n = [] then JNull else JStr n) # rest)))"

definition normalization_version :: string where
  "normalization_version = ''trusted-claim-normalization:v1''"

definition promoted_effect_fingerprint :: "primitives \<Rightarrow> rag_settings \<Rightarrow> string \<Rightarrow> (string \<times> string option) list
    \<Rightarrow> string option \<Rightarrow> string \<Rightarrow> string result" where
  "promoted_effect_fingerprint P st knowledge_type given project_key scope_id =
     (case substantive_fields knowledge_type of
        None \<Rightarrow> Inl (Value_Error ''trusted knowledge type is unsupported'')
      | Some expected \<Rightarrow>
        (if set (map fst given) \<noteq> set expected
         then Inl (Value_Error ''trusted claim fields do not match the target schema'')
         else
         let scope = normalize_trusted_text P scope_id in
         if scope = [] then Inl (Value_Error ''security scope is required'')
         else
         then_r (normalized_fields P given expected) (\<lambda>kvs.
         then_r (fingerprint_secret_bytes st) (\<lambda>(secret, key_version).
           keyed_fingerprint P secret normalization_version ''trusted-claim-fingerprint:v1''
             (JObj [(''fingerprint_key_version'', JStr key_version), (''knowledge_type'', JStr knowledge_type),
                    (''normalization_version'', JStr normalization_version),
                    (''project_key'', json_opt (normalize_optional P project_key)),
                    (''security_scope_id'', JStr scope), (''substantive_fields'', JObj kvs)])))))"

definition reusable_type :: "string \<Rightarrow> bool" where
  "reusable_type t \<longleftrightarrow> t \<in> set [''timeline_event'', ''history_event'']"

definition trusted_title_collision_bucket :: "primitives \<Rightarrow> rag_settings \<Rightarrow> string \<Rightarrow> string \<Rightarrow> string result" where
  "trusted_title_collision_bucket P st t raw_title =
     (if \<not> reusable_type t then Inl (Value_Error ''collision buckets support Timeline and History only'')
      else
      let n = normalize_trusted_text P raw_title in
      if n = [] then Inl (Value_Error ''collision title is required'')
      else
      then_r (fingerprint_secret_bytes st) (\<lambda>(secret, key_version).
        keyed_fingerprint P secret ''trusted-title-collision-bucket:v1'' ''trusted-title-collision-bucket:v1''
          (JObj [(''fingerprint_key_version'', JStr key_version), (''knowledge_type'', JStr t),
                 (''normalization_version'', JStr normalization_version), (''normalized_title'', JStr n)])))"

definition trusted_project_scope_fingerprint :: "primitives \<Rightarrow> rag_settings \<Rightarrow> string option \<Rightarrow> string result" where
  "trusted_project_scope_fingerprint P st project_key =
     then_r (fingerprint_secret_bytes st) (\<lambda>(secret, key_version).
       keyed_fingerprint P secret ''trusted-project-scope:v1'' ''trusted-project-scope:v1''
         (JObj [(''fingerprint_key_version'', JStr key_version),
                (''project_key'', json_opt (normalize_optional P project_key))]))"

text \<open>\<open>normalized.get(key)\<close> of the normalised payload of a preview.\<close>

definition preview_field :: "review_item \<Rightarrow> string \<Rightarrow> string option" where
  "preview_field it k = map_of (pv_normalized (build_promotion_preview it)) k"

definition normalized_claim_fingerprint :: "primitives \<Rightarrow> rag_settings \<Rightarrow> review_item \<Rightarrow> string \<Rightarrow> string result" where
  "normalized_claim_fingerprint P st it scope_id =
     (let t = pv_target_type (build_promotion_preview it) in
      case substantive_fields t of
        None \<Rightarrow> Inl (Value_Error ''review item does not have a trusted knowledge target'')
      | Some expected \<Rightarrow>
        (let given = map (\<lambda>k. (k, if t = ''todo'' \<and> optional_field k then optional_item_string it k
                                    else preview_field it k)) expected
         in promoted_effect_fingerprint P st t given (optional_item_string it ''project_key'') scope_id))"

section \<open>The fingerprint of a candidate\<close>

record trusted_candidate =
  tc_knowledge_type :: string
  tc_security_scope_id :: string
  tc_project_scope_hmac :: string
  tc_title_bucket_hmac :: string
  tc_claim_fingerprint :: string

definition build_trusted_candidate_fingerprint :: "primitives \<Rightarrow> rag_settings \<Rightarrow> review_item \<Rightarrow> string
    \<Rightarrow> trusted_candidate result" where
  "build_trusted_candidate_fingerprint P st it scope_id =
     (if \<not> reusable_type (ri_item_type it) then Inl (Value_Error ''candidate type is not reusable'')
      else
      case preview_field it ''title'' of
        None \<Rightarrow> Inl (Value_Error ''candidate promotion preview is incomplete'')
      | Some raw_title \<Rightarrow>
        (if \<not> pv_can_approve (build_promotion_preview it) \<or> strip raw_title = []
         then Inl (Value_Error ''candidate promotion preview is incomplete'')
         else
         then_r (trusted_project_scope_fingerprint P st
                   (case payload_get it ''project_key'' of JStr s \<Rightarrow> Some s | _ \<Rightarrow> None)) (\<lambda>project.
         then_r (trusted_title_collision_bucket P st (ri_item_type it) raw_title) (\<lambda>bucket.
         then_r (normalized_claim_fingerprint P st it scope_id) (\<lambda>claim.
           Inr \<lparr>tc_knowledge_type = ri_item_type it, tc_security_scope_id = scope_id,
                tc_project_scope_hmac = project, tc_title_bucket_hmac = bucket,
                tc_claim_fingerprint = claim\<rparr>)))))"

end
