(* ===== verification/Auto_Review_Eligibility.thy ===== *)
theory Auto_Review_Eligibility
  imports Trusted_Claims Auto_Review_Validator
begin

text \<open>
  \<open>agent_runtime/auto_review_eligibility.py\<close> and the resolution of bound evidence in
  \<open>agent_runtime/canonical_sources.py\<close>: from a review item and the rows the database holds for it to the
  input of the policy, and to the request a validator is sent. The rows the queries return, what a source
  resolves to and the two text scans (regular expressions) are arguments.
\<close>

section \<open>The request of a candidate\<close>

text \<open>The \<open>E01\<close>, \<open>E02\<close>, ... slots of the evidence texts.\<close>

definition number_evidence :: "string list \<Rightarrow> evidence_slot list" where
  "number_evidence texts =
     map (\<lambda>(i, t). \<lparr>vs_slot_id = ordinal_slot CHR ''E'' i, vs_text = t\<rparr>) (zip [1..<length texts + 1] texts)"

definition build_validation_request :: "(string \<Rightarrow> bool) \<Rightarrow> review_item \<Rightarrow> string list
    \<Rightarrow> validation_request option result" where
  "build_validation_request scan it texts =
     (case expected_claims (ri_item_type it) of
        None \<Rightarrow> Inr None
      | Some expected \<Rightarrow>
        (if \<not> (1 \<le> length texts \<and> length texts \<le> 12) then Inr None
         else
         let evidence = map strip texts in
         if [] \<in> set evidence \<or> \<not> distinct evidence then Inr None
         else if \<not> pv_can_approve (build_promotion_preview it) then Inr None
         else
         case all_some (map (preview_field it) expected) of
           None \<Rightarrow> Inr None
         | Some claims \<Rightarrow>
           (if \<exists>v \<in> set claims. strip v = [] then Inr None
            else if \<exists>t \<in> set (claims @ evidence). \<not> scan t then Inr None
            else
            then_r (make_validation_request ''C01'' (ri_item_type it)
              (map (\<lambda>(k, v). \<lparr>ci_field_key = k, ci_text = strip v\<rparr>) (zip expected claims))
              (number_evidence evidence)) (\<lambda>q. Inr (Some q)))))"

definition candidate_plaintext :: "review_item \<Rightarrow> string list \<Rightarrow> string list" where
  "candidate_plaintext it texts =
     (case expected_claims (ri_item_type it) of
        None \<Rightarrow> []
      | Some expected \<Rightarrow> map the (filter (\<lambda>v. v \<noteq> None) (map (preview_field it) expected))) @ texts"

section \<open>The eligibility service\<close>

record eligibility_context =
  ec_evidence_state :: evidence_state
  ec_evidence_texts :: "string list"
  ec_claim_fingerprint :: "string option"
  ec_visible_targets :: "trusted_target list"
  ec_hidden_collision :: bool
  ec_lookup_available :: bool
  ec_projection_ready :: bool
  ec_generation_ready :: bool
  ec_identity_collision :: bool
  ec_registry_ready :: bool
  ec_budget_available :: bool

record service_result =
  sr_decision :: review_decision
  sr_reasons :: "policy_reason list"
  sr_claim_fingerprint :: "string option"
  sr_target :: "trusted_target option"
  sr_request :: "validation_request option"

definition eligibility_input_of :: "(string \<Rightarrow> bool) \<Rightarrow> review_item \<Rightarrow> eligibility_context \<Rightarrow> eligibility_input" where
  "eligibility_input_of high_risk it x =
     (let preview = build_promotion_preview it in
      \<lparr>el_item_type = ri_item_type it, el_permission_level = ri_permission_level it,
       el_evidence_state = ec_evidence_state x, el_payload_complete = pv_can_approve preview,
       el_uncertainty_present = (case payload_get it ''uncertainty_reason'' of JStr s \<Rightarrow> strip s \<noteq> [] | _ \<Rightarrow> False),
       el_high_risk_language = (\<exists>t \<in> set (candidate_plaintext it (ec_evidence_texts x)). high_risk t),
       el_project_selection_required = (''project_key'' \<in> set (pv_missing preview)),
       el_generation_identity_ready = ec_generation_ready x,
       el_validator_identity_collision = ec_identity_collision x, el_registry_ready = ec_registry_ready x,
       el_budget_available = ec_budget_available x, el_fingerprint_projection_ready = ec_projection_ready x,
       el_claim_fingerprint = ec_claim_fingerprint x, el_visible_targets = ec_visible_targets x,
       el_hidden_or_legacy_collision = ec_hidden_collision x, el_lookup_available = ec_lookup_available x\<rparr>)"

definition service_refusal :: "policy_reason \<Rightarrow> eligibility_context \<Rightarrow> service_result" where
  "service_refusal r x =
     \<lparr>sr_decision = Human_Review, sr_reasons = [r], sr_claim_fingerprint = ec_claim_fingerprint x,
      sr_target = None, sr_request = None\<rparr>"

definition evaluate_candidate :: "(string \<Rightarrow> bool) \<Rightarrow> (string \<Rightarrow> bool) \<Rightarrow> review_item \<Rightarrow> eligibility_context
    \<Rightarrow> service_result result" where
  "evaluate_candidate scan high_risk it x =
     (if \<exists>t \<in> set (candidate_plaintext it (ec_evidence_texts x)). \<not> scan t
      then Inr (service_refusal R_sensitive_input_detected x)
      else
      let e = evaluate_eligibility (eligibility_input_of high_risk it x);
          accepted = (\<lambda>q. \<lparr>sr_decision = er_decision e, sr_reasons = er_reasons e,
            sr_claim_fingerprint = ec_claim_fingerprint x, sr_target = er_target e, sr_request = q\<rparr>)
      in if \<not> validation_allowed e then Inr (accepted None)
         else then_r (build_validation_request scan it (ec_evidence_texts x)) (\<lambda>q. case q of
           None \<Rightarrow> Inr (service_refusal R_evidence_binding_mismatch x)
         | Some _ \<Rightarrow> Inr (accepted q)))"

section \<open>Readiness of the generation\<close>

record generation_run =
  ge_id :: int
  ge_workflow_thread_id :: "string option"
  ge_status :: string
  ge_agent_name :: string
  ge_prompt_version :: string
  ge_effect_key :: "string option"
  ge_provider :: "string option"
  ge_model_name :: string
  ge_reasoning_effort :: "string option"
  ge_route_version :: "string option"
  ge_output_contract_version :: "string option"

record agent_manifest =
  am_output_contract :: string
  am_supported_permissions :: "string list"

text \<open>\<open>value or ''\<close>.\<close>

definition or_empty :: "string option \<Rightarrow> string" where
  "or_empty v = (case v of None \<Rightarrow> [] | Some s \<Rightarrow> s)"

text \<open>A JSON value equals an identifier: Python compares numbers by value.\<close>

fun equals_id :: "json \<Rightarrow> int \<Rightarrow> bool" where
  "equals_id (JInt i) n = (i = n)"
| "equals_id (JBool b) n = ((if b then 1 else 0) = n)"
| "equals_id (JFloat r) n = (r = decimal_int n @ ''.0'')"
| "equals_id _ _ = False"

definition provenance_matches :: "review_item \<Rightarrow> generation_run \<Rightarrow> bool" where
  "provenance_matches it r \<longleftrightarrow>
     payload_get it ''agent_name'' = JStr (ge_agent_name r)
     \<and> equals_id (payload_get it ''agent_run_id'') (ge_id r)
     \<and> payload_get it ''prompt_version'' = JStr (ge_prompt_version r)
     \<and> payload_get it ''cache_key'' = json_opt (ge_effect_key r)"

definition run_is_current :: "review_item \<Rightarrow> generation_run \<Rightarrow> string \<Rightarrow> bool" where
  "run_is_current it r graph_version \<longleftrightarrow>
     ge_workflow_thread_id r = ri_workflow_thread_id it \<and> ge_status r = ''complete''
     \<and> graph_version = ''company-memory-review-v2.1-auto-review''"

text \<open>
  The run and the thread (its graph version) as \<open>db.get\<close> finds them, and the registry's manifest, which is
  \<open>None\<close> when the registry raises \<open>KeyError\<close>.
\<close>

definition generation_readiness :: "review_item \<Rightarrow> generation_run option \<Rightarrow> string option
    \<Rightarrow> (string \<Rightarrow> agent_manifest option) \<Rightarrow> bool \<times> bool \<times> bool" where
  "generation_readiness it run graph_version registry =
     (if ri_agent_run_id it = None \<or> ri_workflow_thread_id it = None then (False, False, False)
      else case (run, graph_version) of
        (Some r, Some v) \<Rightarrow>
          (if \<not> run_is_current it r v \<or> \<not> provenance_matches it r then (False, False, False)
           else
           let collision = (ge_provider r = Some ''openai'' \<and> ge_model_name r = ''gpt-5.6-terra'');
               route = get_extraction_route (ge_agent_name r) ''auto-review-extraction-cost:v1''
                 (or_empty (ge_provider r)) (ge_model_name r) (or_empty (ge_reasoning_effort r))
                 (or_empty (ge_route_version r)) (ge_prompt_version r) (or_empty (ge_output_contract_version r));
               ready = (route \<noteq> None \<and> \<not> collision)
           in case registry (ge_agent_name r) of
                None \<Rightarrow> (ready, collision, False)
              | Some m \<Rightarrow> (ready, collision, am_output_contract m = ''AgentRunResult''
                  \<and> ri_permission_level it \<in> set (am_supported_permissions m)))
      | _ \<Rightarrow> (False, False, False))"

section \<open>Bound evidence\<close>

definition permission_rank :: "string \<Rightarrow> nat" where
  "permission_rank level =
     (if level = ''public'' then 0 else if level = ''internal'' then 1 else if level = ''restricted'' then 2 else 3)"

text \<open>\<open>max\<close> returns the first of the greatest elements, and raises on an empty tuple.\<close>

fun strictest_permission :: "string list \<Rightarrow> string result" where
  "strictest_permission [] = Inl (Value_Error ''max() iterable argument is empty'')"
| "strictest_permission [x] = Inr x"
| "strictest_permission (x # y # ys) =
     strictest_permission ((if permission_rank x < permission_rank y then y else x) # ys)"

definition candidate_system_keys :: "string list" where
  "candidate_system_keys =
     [''title'', ''summary'', ''agent_name'', ''agent_run_id'', ''prompt_version'', ''cache_key'',
      ''estimated_cost_usd'', ''token_usage'', ''uncertainty_reason'', ''source_ids'', ''source_types'',
      ''source_authors'']"

definition payload_text :: "review_item \<Rightarrow> string \<Rightarrow> string option" where
  "payload_text it k = (case payload_get it k of JStr s \<Rightarrow> if s = [] then None else Some s | _ \<Rightarrow> None)"

definition candidate_key_json :: "review_item \<Rightarrow> string \<Rightarrow> string \<Rightarrow> string \<Rightarrow> json" where
  "candidate_key_json it effect_key heading summary =
     JObj [(''effect_key'', JStr effect_key),
           (''candidate'', JObj [(''item_type'', JStr (ri_item_type it)), (''title'', JStr heading),
              (''summary'', JStr summary), (''source_links'', JList (map JStr (ri_source_links it))),
              (''source_snippets'', JList (map JStr (ri_source_snippets it))),
              (''confidence_score'', JFloat (ri_confidence it)),
              (''permission_level'', JStr (ri_permission_level it)),
              (''uncertainty_reason'', payload_get it ''uncertainty_reason''),
              (''payload_fields'', JObj (filter (\<lambda>(k, _). k \<notin> set candidate_system_keys) (ri_payload it)))])]"

definition candidate_key_is_exact :: "primitives \<Rightarrow> rag_settings \<Rightarrow> review_item \<Rightarrow> bool result" where
  "candidate_key_is_exact P st it =
     (case ri_candidate_key it of
        None \<Rightarrow> Inr False
      | Some key \<Rightarrow>
        (if code_points key \<noteq> 64 then Inr False
         else case (payload_text it ''cache_key'', payload_text it ''title'', payload_text it ''summary'') of
           (Some effect_key, Some heading, Some summary) \<Rightarrow>
             then_r (settings_fingerprint P st ''review-agent-candidate:v1'' ''review-agent-candidate-key:v1''
                       (candidate_key_json it effect_key heading summary)) (\<lambda>expected. Inr (expected = key))
         | _ \<Rightarrow> Inr False))"

record evidence_binding =
  eb_slot_ordinal :: int
  eb_ref_id :: int
  eb_key_version :: string
  eb_key_verifier :: string
  eb_content_fingerprint :: string

record workflow_evidence_ref =
  we_id :: int
  we_canonical_table :: string
  we_source_type :: string
  we_row_id :: int
  we_document_version_id :: "int option"
  we_external_revision :: "string option"
  we_content_signature :: string
  we_content_fingerprint :: string
  we_permission_snapshot :: string

record evidence_message =
  em_ref_id :: int
  em_identity :: string
  em_text :: string
  em_permission :: string

subsection \<open>Resolution of a reference\<close>

record resolved_source =
  rv_source_type :: string
  rv_canonical_table :: string
  rv_row_id :: int
  rv_document_version_id :: "int option"
  rv_external_revision :: "string option"
  rv_content_signature :: string
  rv_permission_level :: string
  rv_content_fingerprint :: string

definition classify_evidence :: "workflow_evidence_ref \<Rightarrow> resolved_source \<Rightarrow> evidence_state \<times> resolved_source option" where
  "classify_evidence r v =
     (if we_canonical_table r \<noteq> rv_canonical_table v \<or> we_row_id r \<noteq> rv_row_id v
         \<or> we_source_type r \<noteq> rv_source_type v
      then (Mismatched_Evidence, None)
      else if we_document_version_id r \<noteq> rv_document_version_id v
         \<or> we_external_revision r \<noteq> rv_external_revision v \<or> we_content_signature r \<noteq> rv_content_signature v
         \<or> we_permission_snapshot r \<noteq> rv_permission_level v
         \<or> we_content_fingerprint r \<noteq> rv_content_fingerprint v
      then (Changed_Evidence, None)
      else (Exact_Evidence, Some v))"

text \<open>
  The source row (its type and permission level), as \<open>db.get\<close> finds it, and what \<open>_resolve_source_version\<close>
  gives or the code of the error it raises.
\<close>

definition resolve_bound_evidence :: "workflow_evidence_ref \<Rightarrow> (string \<times> string) option
    \<Rightarrow> (string + resolved_source) \<Rightarrow> string list \<Rightarrow> evidence_state \<times> resolved_source option" where
  "resolve_bound_evidence r source resolved visible =
     (if we_canonical_table r \<noteq> ''sources'' \<or> we_row_id r \<le> 0 then (Mismatched_Evidence, None)
      else case source of
        None \<Rightarrow> (Missing_Evidence, None)
      | Some (source_type, level) \<Rightarrow>
        (if level \<notin> set visible then (Missing_Evidence, None)
         else if source_type \<noteq> we_source_type r then (Mismatched_Evidence, None)
         else case resolved of
           Inl code \<Rightarrow> (if code = ''evidence_changed'' then (Changed_Evidence, None) else (Mismatched_Evidence, None))
         | Inr v \<Rightarrow> classify_evidence r v))"

subsection \<open>The state of the evidence\<close>

definition text_fingerprint :: "primitives \<Rightarrow> rag_settings \<Rightarrow> string \<Rightarrow> string result" where
  "text_fingerprint P st t =
     settings_fingerprint P st ''candidate-message-content:v1'' ''candidate-message-content:v1'' (JStr t)"

fun message_jsons :: "primitives \<Rightarrow> rag_settings \<Rightarrow> evidence_message list \<Rightarrow> json list result" where
  "message_jsons P st [] = Inr []"
| "message_jsons P st (m # ms) =
     then_r (text_fingerprint P st (em_text m)) (\<lambda>h.
     then_r (message_jsons P st ms) (\<lambda>js.
       Inr (JObj [(''stable_message_identity'', JStr (em_identity m)), (''text_fingerprint'', JStr h)] # js)))"

text \<open>\<open>a or b\<close> on an optional string and a string.\<close>

definition or_signature :: "string option \<Rightarrow> string \<Rightarrow> string" where
  "or_signature a b = (if or_empty a = [] then b else or_empty a)"

definition message_set_hmac :: "primitives \<Rightarrow> rag_settings \<Rightarrow> workflow_evidence_ref \<Rightarrow> string \<Rightarrow> evidence_message list
    \<Rightarrow> string result" where
  "message_set_hmac P st r permission ms =
     then_r (fingerprint_secret_bytes st) (\<lambda>(secret, key_version).
     then_r (message_jsons P st ms) (\<lambda>js.
       settings_fingerprint P st ''candidate-message-set:v1'' ''candidate-message-set:v1''
         (JObj [(''canonical_source_kind'', JStr (we_source_type r)), (''canonical_source_id'', JInt (we_row_id r)),
                (''canonical_version_or_signature'',
                  JStr (or_signature (we_external_revision r) (we_content_signature r))),
                (''content_fingerprint'', JStr (we_content_fingerprint r)), (''permission_level'', JStr permission),
                (''fingerprint_key_version'', JStr key_version),
                (''fingerprint_key_material_verifier'', JStr (key_material_verifier P secret)),
                (''messages'', JList js)])))"

definition ref_at :: "workflow_evidence_ref list \<Rightarrow> int \<Rightarrow> workflow_evidence_ref option" where
  "ref_at refs i = List.find (\<lambda>r. we_id r = i) refs"

definition messages_of :: "evidence_message list \<Rightarrow> int \<Rightarrow> evidence_message list" where
  "messages_of ms i = sort_key em_identity (filter (\<lambda>m. em_ref_id m = i) ms)"

text \<open>One round of the loop over the bindings: the messages of the binding, or \<open>None\<close> for a mismatch.\<close>

definition bound_messages :: "primitives \<Rightarrow> rag_settings \<Rightarrow> workflow_evidence_ref list \<Rightarrow> evidence_message list
    \<Rightarrow> evidence_binding \<Rightarrow> evidence_message list option result" where
  "bound_messages P st refs messages b =
     (let ms = messages_of messages (eb_ref_id b) in
      case ref_at refs (eb_ref_id b) of
        None \<Rightarrow> Inl (Key_Error ''workflow_evidence_ref_id'')
      | Some r \<Rightarrow>
        (if ms = [] \<or> (\<exists>m \<in> set ms. em_identity m = [] \<or> strip (em_text m) = [])
            \<or> \<not> distinct (map em_identity ms)
         then Inr None
         else
         then_r (strictest_permission (map em_permission ms)) (\<lambda>permission.
           if permission \<noteq> we_permission_snapshot r then Inr None
           else then_r (message_set_hmac P st r permission ms) (\<lambda>h.
             if h \<noteq> eb_content_fingerprint b then Inr None else Inr (Some ms)))))"

fun all_bound_messages :: "primitives \<Rightarrow> rag_settings \<Rightarrow> workflow_evidence_ref list \<Rightarrow> evidence_message list
    \<Rightarrow> evidence_binding list \<Rightarrow> evidence_message list option result" where
  "all_bound_messages P st refs messages [] = Inr (Some [])"
| "all_bound_messages P st refs messages (b # bs) =
     then_r (bound_messages P st refs messages b) (\<lambda>r. case r of
       None \<Rightarrow> Inr None
     | Some ms \<Rightarrow> then_r (all_bound_messages P st refs messages bs) (\<lambda>rest. Inr (map_option ((@) ms) rest)))"

text \<open>The state the resolutions and the permissions of the sources give.\<close>

definition resolved_state :: "review_item \<Rightarrow> (evidence_state \<times> resolved_source option) list \<Rightarrow> string list
    \<Rightarrow> evidence_message list \<Rightarrow> (evidence_state \<times> string list) result" where
  "resolved_state it resolutions visible ordered =
     (let states = map fst resolutions;
          current = map (rv_permission_level \<circ> the) (filter (\<lambda>v. v \<noteq> None) (map snd resolutions)) in
      if Mismatched_Evidence \<in> set states then Inr (Mismatched_Evidence, [])
      else if Changed_Evidence \<in> set states then Inr (Changed_Evidence, [])
      else if Missing_Evidence \<in> set states then Inr (Missing_Evidence, [])
      else if current = [] then Inr (Changed_Evidence, [])
      else
      then_r (strictest_permission current) (\<lambda>permission.
        if ri_permission_level it \<noteq> permission then Inr (Changed_Evidence, [])
        else if \<exists>m \<in> set ordered. em_permission m \<notin> set visible then Inr (Missing_Evidence, [])
        else Inr (Exact_Evidence, map em_text ordered)))"

text \<open>
  \<open>bindings\<close> are the rows of the item in the order of their slots, \<open>thread_refs\<close> the references of its
  workflow, \<open>resolve\<close> what each reference resolves to.
\<close>

definition bound_evidence_state :: "primitives \<Rightarrow> rag_settings \<Rightarrow> review_item \<Rightarrow> evidence_binding list
    \<Rightarrow> workflow_evidence_ref list \<Rightarrow> (workflow_evidence_ref \<Rightarrow> evidence_state \<times> resolved_source option)
    \<Rightarrow> string list \<Rightarrow> evidence_message list \<Rightarrow> (evidence_state \<times> string list) result" where
  "bound_evidence_state P st it bindings thread_refs resolve visible messages =
     (if ri_workflow_thread_id it = None \<or> ri_candidate_contract_version it \<noteq> Some ''c5-v1''
      then Inr (Missing_Evidence, [])
      else
      then_r (candidate_key_is_exact P st it) (\<lambda>exact.
      if \<not> exact then Inr (Mismatched_Evidence, [])
      else if bindings = [] then Inr (Missing_Evidence, [])
      else if map eb_slot_ordinal bindings \<noteq> map int [1..<length bindings + 1] then Inr (Mismatched_Evidence, [])
      else
      let ids = map eb_ref_id bindings; refs = filter (\<lambda>r. we_id r \<in> set ids) thread_refs in
      if \<not> distinct ids then Inr (Mismatched_Evidence, [])
      else if length (remdups (map we_id refs)) \<noteq> length bindings then Inr (Mismatched_Evidence, [])
      else
      then_r (fingerprint_secret_bytes st) (\<lambda>(secret, key_version).
      if \<exists>b \<in> set bindings. eb_key_version b \<noteq> key_version
            \<or> eb_key_verifier b \<noteq> key_material_verifier P secret \<or> code_points (eb_content_fingerprint b) \<noteq> 64
      then Inr (Mismatched_Evidence, [])
      else if \<not> (1 \<le> length messages \<and> length messages \<le> 12) then Inr (Missing_Evidence, [])
      else if set (map em_ref_id messages) \<noteq> set ids then Inr (Mismatched_Evidence, [])
      else
      then_r (all_bound_messages P st refs messages bindings) (\<lambda>found. case found of
        None \<Rightarrow> Inr (Mismatched_Evidence, [])
      | Some ordered \<Rightarrow>
          resolved_state it (map (\<lambda>b. resolve (the (ref_at refs (eb_ref_id b)))) bindings) visible ordered))))"

section \<open>The context read from the database\<close>

text \<open>
  The rows and the outcomes of the queries; the lookups of collisions may raise, and what they raise is
  then caught with the errors of the fingerprint.
\<close>

record eligibility_rows =
  dr_bindings :: "evidence_binding list"
  dr_thread_refs :: "workflow_evidence_ref list"
  dr_resolve :: "workflow_evidence_ref \<Rightarrow> evidence_state \<times> resolved_source option"
  dr_run :: "generation_run option"
  dr_graph_version :: "string option"
  dr_security_scope_id :: "string option"
  dr_registry :: "string \<Rightarrow> agent_manifest option"
  dr_projection_ready :: bool
  dr_visible :: "trusted_candidate \<Rightarrow> trusted_target list result"
  dr_hidden :: "trusted_candidate \<Rightarrow> bool result"

text \<open>The claim fingerprint, the visible targets, the hidden collision and whether the lookup was available.\<close>

definition collision_lookup :: "primitives \<Rightarrow> rag_settings \<Rightarrow> review_item \<Rightarrow> eligibility_rows
    \<Rightarrow> string option \<times> trusted_target list \<times> bool \<times> bool" where
  "collision_lookup P st it d =
     (let scope = (case dr_security_scope_id d of None \<Rightarrow> None
                   | Some s \<Rightarrow> if strip s = [] then None else Some (strip s)) in
      case scope of
        None \<Rightarrow> (None, [], False, False)
      | Some s \<Rightarrow>
        (case build_trusted_candidate_fingerprint P st it s of
           Inl _ \<Rightarrow> (None, [], False, False)
         | Inr c \<Rightarrow>
           (let claim = Some (tc_claim_fingerprint c) in
            if \<not> dr_projection_ready d then (claim, [], False, True)
            else case dr_visible d c of
              Inl _ \<Rightarrow> (claim, [], False, False)
            | Inr targets \<Rightarrow>
              (case dr_hidden d c of
                 Inl _ \<Rightarrow> (claim, targets, False, False)
               | Inr hidden \<Rightarrow> (claim, targets, hidden, True)))))"

definition load_eligibility_context :: "primitives \<Rightarrow> rag_settings \<Rightarrow> review_item \<Rightarrow> eligibility_rows \<Rightarrow> string list
    \<Rightarrow> evidence_message list \<Rightarrow> bool \<Rightarrow> eligibility_context result" where
  "load_eligibility_context P st it d visible messages budget =
     then_r (bound_evidence_state P st it (dr_bindings d) (dr_thread_refs d) (dr_resolve d) visible messages)
       (\<lambda>(state, texts).
     let (ready, collision, registry_ok) = generation_readiness it (dr_run d) (dr_graph_version d) (dr_registry d);
         (claim, targets, hidden, available) = collision_lookup P st it d
     in Inr \<lparr>ec_evidence_state = state, ec_evidence_texts = texts, ec_claim_fingerprint = claim,
        ec_visible_targets = targets, ec_hidden_collision = hidden, ec_lookup_available = available,
        ec_projection_ready = dr_projection_ready d, ec_generation_ready = ready,
        ec_identity_collision = collision, ec_registry_ready = registry_ok, ec_budget_available = budget\<rparr>)"

definition evaluate_from_database :: "primitives \<Rightarrow> rag_settings \<Rightarrow> (string \<Rightarrow> bool) \<Rightarrow> (string \<Rightarrow> bool)
    \<Rightarrow> review_item \<Rightarrow> eligibility_rows \<Rightarrow> string list \<Rightarrow> evidence_message list \<Rightarrow> bool \<Rightarrow> service_result result" where
  "evaluate_from_database P st scan high_risk it d visible messages budget =
     then_r (load_eligibility_context P st it d visible messages budget) (evaluate_candidate scan high_risk it)"

end
