(* ===== verification/Auto_Review_Properties.thy ===== *)
theory Auto_Review_Properties
  imports Auto_Review_Facts Auto_Review_Eligibility
begin

text \<open>
  The properties of the automatic review: what a request contains, which candidates a model's answer may
  approve, how often a validation is sent and what a completed call stores.
\<close>

section \<open>Stripping twice\<close>

definition no_head :: "string list \<Rightarrow> string \<Rightarrow> bool" where
  "no_head ws s \<longleftrightarrow> (\<forall>w \<in> set ws. w \<noteq> [] \<longrightarrow> \<not> prefix w s)"

lemma drop_heads_no_head: "no_head ws (drop_heads ws s)"
proof (induction ws s rule: drop_heads.induct)
  case (2 ws c s)
  then show ?case by (auto simp: no_head_def find_None_iff split: option.split)
qed (simp add: no_head_def)

lemma no_head_drop_heads: "no_head ws s \<Longrightarrow> drop_heads ws s = s"
  by (cases s) (auto simp: no_head_def find_Some_iff split: option.split)

lemma drop_heads_suffix: "suffix (drop_heads ws s) s"
proof (induction ws s rule: drop_heads.induct)
  case (2 ws c s)
  show ?case
  proof (cases "List.find (\<lambda>w. w \<noteq> [] \<and> prefix w (c # s)) ws")
    case (Some w)
    then have "suffix (drop_heads ws (drop (length w - 1) s)) (drop (length w - 1) s)" by (rule 2)
    then have "suffix (drop_heads ws (drop (length w - 1) s)) s"
      by (rule suffix_order.trans) (rule suffix_drop)
    then show ?thesis using Some by (simp add: suffix_ConsI)
  qed simp
qed simp

lemma strip_strip [simp]: "strip (strip s) = strip s"
proof -
  let ?d = "drop_heads space_encodings s" and ?r = "map rev space_encodings"
  have "prefix (strip s) ?d"
    using drop_heads_suffix [of ?r "rev ?d"] by (simp add: strip_def suffix_to_prefix)
  then have "no_head space_encodings (strip s)"
    using drop_heads_no_head [of space_encodings s] prefix_order.trans unfolding no_head_def by blast
  then have "drop_heads space_encodings (strip s) = strip s" by (rule no_head_drop_heads)
  moreover have "drop_heads ?r (rev (strip s)) = rev (strip s)"
    by (simp add: strip_def no_head_drop_heads drop_heads_no_head)
  ultimately show ?thesis using strip_def [of "strip s"] by simp
qed

section \<open>Requests\<close>

text \<open>The request of a candidate: its claims and its evidence, stripped, numbered and scanned.\<close>

definition request_for :: "(string \<Rightarrow> bool) \<Rightarrow> review_item \<Rightarrow> string list \<Rightarrow> validation_request \<Rightarrow> bool" where
  "request_for scan it texts q \<longleftrightarrow>
     check_validation_request q = Inr () \<and> vq_item_type q = ri_item_type it
     \<and> map vs_text (vq_evidence_slots q) = map strip texts
     \<and> (\<exists>expected vs. expected_claims (ri_item_type it) = Some expected \<and> map (preview_field it) expected = map Some vs
          \<and> map ci_text (vq_claims q) = map strip vs \<and> (\<forall>t \<in> set (vs @ map strip texts). scan t))"

lemma map_zip_parts:
  "length xs = length ys \<Longrightarrow> map (\<lambda>z. f (fst z)) (zip xs ys) = map f xs"
  "length xs = length ys \<Longrightarrow> map (\<lambda>z. g (snd z)) (zip xs ys) = map g ys"
  by (induction xs ys rule: list_induct2) auto

lemma number_evidence_simps [simp]:
  "map vs_slot_id (number_evidence ts) = map (ordinal_slot CHR ''E'') [1..<length ts + 1]"
  "map vs_text (number_evidence ts) = ts" "length (number_evidence ts) = length ts"
proof -
  show "map vs_slot_id (number_evidence ts) = map (ordinal_slot CHR ''E'') [1..<length ts + 1]"
    "map vs_text (number_evidence ts) = ts"
    using map_zip_parts [of "[1..<length ts + 1]" ts]
    by (simp_all add: number_evidence_def comp_def case_prod_unfold del: upt_Suc)
  show "length (number_evidence ts) = length ts"
    by (simp add: number_evidence_def del: upt_Suc)
qed

lemma expected_claims_length: "expected_claims t = Some expected \<Longrightarrow> length expected = 2"
  by (auto simp: expected_claims_def split: if_splits)

lemma build_validation_request_Inr:
  "\<exists>r. build_validation_request scan it texts = Inr r \<and> (\<forall>q. r = Some q \<longrightarrow> request_for scan it texts q)"
proof (cases "build_validation_request scan it texts = Inr None")
  case False
  let ?evidence = "map strip texts"
  obtain expected where e: "expected_claims (ri_item_type it) = Some expected"
    using False by (auto simp: build_validation_request_def split: option.splits)
  have n: "1 \<le> length texts" "length texts \<le> 12" "[] \<notin> set ?evidence" "distinct ?evidence"
    using False by (auto simp: build_validation_request_def e Let_def split: if_splits)
  obtain vs where vs: "all_some (map (preview_field it) expected) = Some vs"
    using False by (auto simp: build_validation_request_def e Let_def split: if_splits option.splits)
  then have fields: "map (preview_field it) expected = map Some vs" by (simp add: all_some_iff)
  then have len: "length vs = length expected" by (metis length_map)
  have ok: "\<not> (\<exists>v \<in> set vs. strip v = [])" "\<not> (\<exists>t \<in> set (vs @ ?evidence). \<not> scan t)"
    using False by (auto simp: build_validation_request_def e vs Let_def split: if_splits)
  let ?q = "\<lparr>vq_candidate_slot_id = ''C01'', vq_item_type = ri_item_type it,
    vq_claims = map (\<lambda>(k, v). \<lparr>ci_field_key = k, ci_text = strip v\<rparr>) (zip expected vs),
    vq_evidence_slots = number_evidence ?evidence\<rparr>"
  have keys: "map ci_field_key (vq_claims ?q) = expected" "map ci_text (vq_claims ?q) = map strip vs"
    using len by (simp_all add: comp_def case_prod_unfold map_zip_parts)
  have texts: "map (strip \<circ> vs_text) (vq_evidence_slots ?q) = ?evidence"
    by (simp only: map_map [of strip vs_text, symmetric] number_evidence_simps) simp
  have nonempty: "\<not> (\<exists>c \<in> set (vq_claims ?q). strip (ci_text c) = [])"
    using ok(1) by (auto dest: set_zip_rightD)
  have check: "check_validation_request ?q = Inr ()"
    unfolding check_validation_request_def Let_def texts keys using n nonempty e by (simp del: upt_Suc)
  have "build_validation_request scan it texts = then_r (make_validation_request ''C01'' (ri_item_type it)
      (map (\<lambda>(k, v). \<lparr>ci_field_key = k, ci_text = strip v\<rparr>) (zip expected vs)) (number_evidence ?evidence))
      (\<lambda>q. Inr (Some q))"
    using False n ok by (auto simp: build_validation_request_def e vs Let_def split: if_splits)
  also have "\<dots> = Inr (Some ?q)" using check by (simp add: make_validation_request_def)
  finally have built: "build_validation_request scan it texts = Inr (Some ?q)" .
  have "request_for scan it texts ?q"
    unfolding request_for_def using check keys(2) e fields ok(2) by auto
  then show ?thesis using built by blast
qed simp

lemma evaluate_eligibility_decision:
  "er_decision (evaluate_eligibility v) \<in> {Eligible, Reuse_Trusted} \<and> eligible_guards v
   \<or> er_decision (evaluate_eligibility v) \<in> {Human_Review, Needs_More_Evidence}"
proof (cases "eligible_guards v")
  case False
  then show ?thesis by (rule evaluate_eligibility_refused) simp_all
qed (simp add: evaluate_eligibility_guards)

text \<open>
  C40. Evaluating a candidate never raises. Either it is left to a human, or its item passes every guard of
  the eligibility policy and a request is built that passes the checks of \<open>CandidateValidationRequest\<close>:
  its evidence slots hold the stripped evidence in order, its claims are the stripped fields of the
  promotion preview, and every text in it went through the scan.
\<close>

theorem sent_candidate_is_eligible:
  "\<exists>r. evaluate_candidate scan high_risk it x = Inr r \<and>
     (case sr_request r of
        None \<Rightarrow> sr_decision r \<in> {Human_Review, Needs_More_Evidence}
      | Some q \<Rightarrow> sr_decision r \<in> {Eligible, Reuse_Trusted}
          \<and> eligible_guards (eligibility_input_of high_risk it x)
          \<and> request_for scan it (ec_evidence_texts x) q)"
proof -
  let ?e = "evaluate_eligibility (eligibility_input_of high_risk it x)"
  obtain q where q: "build_validation_request scan it (ec_evidence_texts x) = Inr q"
    "\<forall>r. q = Some r \<longrightarrow> request_for scan it (ec_evidence_texts x) r"
    using build_validation_request_Inr by blast
  show ?thesis
    using evaluate_eligibility_decision [of "eligibility_input_of high_risk it x"] q(2)
    by (auto simp: evaluate_candidate_def validation_allowed_def service_refusal_def Let_def q(1)
        split: option.split)
qed

section \<open>Partitions and approvals\<close>

text \<open>
  C39. Preparing a partition loses no candidate and keeps every cap: each candidate is validated in exactly
  one bucket or left to a human, the requests of the batches are the buckets in their order, there are at
  most two batches of at most four candidates and five candidates in all, no prompt exceeds its slots, its
  tokens or its characters, and what the batches reserve stays under the validation ceiling.
\<close>

theorem partition_is_complete_and_bounded:
  assumes "prepare_validation_partition E st g cs = Inr part"
    and "\<forall>c \<in> set cs. xi_input_price (cc_identity (pp_claim c)) = 2000000
      \<and> xi_output_price (cc_identity (pp_claim c)) = 12000000"
  shows "\<exists>bins hs. partition_of cs bins hs part"
  by (rule prepared_partition_of [OF assms])

text \<open>
  C28. An automatic approval is justified. When executing a prepared batch completes with an approval, the
  approved item is a candidate of the batch that passed every guard of the eligibility policy and matched
  nothing in the trusted corpus, the validator is the supported one, and the stored result is the answer the
  provider gave for this candidate: both its claims, in order, supported as direct facts with an entailment
  of at least 0.98 on slots of this candidate alone, without a reservation or a conflict.
\<close>

theorem auto_approval_is_justified:
  assumes part: "prepare_validation_partition E st g cs = Inr part" and b: "b \<in> set (pt_batches part)"
    and run: "execute (ledger_ops P st' sha k) W b L = (L', Inr r)"
      "oo_disposition r = Orchestrated_Completed" "p \<in> set (oo_completed r)" "cv_decision p = Auto_Approve"
    and elig: "\<forall>c \<in> set cs. vi_eligibility (pp_policy c) = evaluate_eligibility (eligible c)"
  shows "\<exists>c i v rs u. c \<in> set cs \<and> i < length rs \<and> cv_review_item_id p = review_item_of c
    \<and> vb_candidates (bt_claim b) ! i = pp_claim c
    \<and> eligible_guards (eligible c) \<and> el_visible_targets (eligible c) = []
    \<and> vi_identity (pp_policy c) = supported_validation_identity \<and> vi_state_matches (pp_policy c)
    \<and> vw_reply W = Some v \<and> parse_provider_result (vw_heap W) (bt_invocation b) v = Inr (rs, u)
    \<and> cv_result p = rs ! i
    \<and> direct_support (vi_claim_fields (pp_policy c)) (vf_candidate_evidence (bt_invocation b) ! i) (cv_result p)"
proof -
  obtain bins where batches: "list_all2 (\<lambda>b x. prepare_batch E st g b = Inr x) bins (pt_batches part)"
    and ok: "\<forall>b \<in> set bins. bin_ok E (preparation_order cs) b"
    using part by (rule prepare_partition_Inr)
  obtain bin where bin: "bin \<in> set bins" "prepare_batch E st g bin = Inr b"
    using list_all2_right [OF batches b] by blast
  note order = bin_sorted [OF bspec [OF ok bin(1)]] and claims = prepare_batch_Inr(1) [OF bin(2)]
  obtain c v rs u d where reply: "vw_reply W = Some v"
      "parse_provider_result (vw_heap W) (bt_invocation b) v = Inr (rs, u)"
    and len: "length rs = length (bt_policy b)" "length rs = length (vb_candidates (bt_claim b))"
    and d: "d \<in> set (bc_candidates (batch_completion_of c b rs u))" "cv_review_item_id p = pc_review_item_id d"
      "cv_result p = pc_result d" "cv_decision p = pc_decision d"
    using run(1-3) by (rule call_ledger.completed_execution)
  obtain i where i: "i < length rs" "pc_result d = rs ! i"
      "pc_review_item_id d = cc_review_item_id (candidate_order (vb_candidates (bt_claim b)) ! i)"
      "pc_decision d = po_decision (batch_decisions (bt_policy b) rs ! i)"
    using batch_completion_member [OF d(1) len(2)] by blast
  have n: "length rs = length bin" using len(2) claims by simp
  then have mem: "bin ! i \<in> set cs" using order(2) i(1) by auto
  then have e: "vi_eligibility (pp_policy (bin ! i)) = evaluate_eligibility (eligible (bin ! i))"
    using elig by blast
  have "po_decision (batch_decisions (bt_policy b) rs ! i) = Auto_Approve" using d(4) i(4) run(4) by simp
  then have support: "er_decision (vi_eligibility (pp_policy (bin ! i))) = Eligible"
      "vi_identity (pp_policy (bin ! i)) = supported_validation_identity" "vi_state_matches (pp_policy (bin ! i))"
      "direct_support (vi_claim_fields (pp_policy (bin ! i))) (vf_candidate_evidence (bt_invocation b) ! i) (rs ! i)"
    using batch_decisions_nth [OF bin(2) n _ _ eligibility_never_approves [of "eligible (bin ! i)", folded e]] i(1) n
    by simp_all
  have claim: "vb_candidates (bt_claim b) ! i = pp_claim (bin ! i)" using claims i(1) n by simp
  then have "cv_review_item_id p = review_item_of (bin ! i)"
    using d(2) i(3) order(1) claims by (simp add: review_item_of_def)
  then show ?thesis
    using mem i(1,2) claim support reply d(3) eligible_iff [of "eligible (bin ! i)"] e by metis
qed

section \<open>Calls\<close>

text \<open>The call a grant may send.\<close>

definition grant_call :: "validation_ledger \<Rightarrow> nat \<Rightarrow> call_key option" where
  "grant_call L i = map_option snd (map_of (vl_active L) (vg_attempt_id (vl_grants L ! i)))"

lemma dispatched_Inr:
  assumes "dispatch_prepared p (Some i) now tick L = (L', Inr t)"
  obtains k s where "grant_call L i = Some k" and "call_at L k = Some s" and "\<not> dispatch_changed s p now"
    and "call_at L' = (call_at L)(k \<mapsto> s\<lparr>cs_dispatched := True\<rparr>)"
    and "map_of (vl_active L) (vg_attempt_id (vl_grants L ! i)) = Some (i, k)"
  by (cases rule: dispatch_prepared_cases [of p "Some i" now tick L])
    (use assms that in \<open>auto simp: grant_call_def\<close>)

lemma below_call: "ledger_below L L' \<Longrightarrow> call_at L k = Some s \<Longrightarrow> \<exists>t. call_at L' k = Some t \<and> call_below s t"
  unfolding ledger_below_def by blast

text \<open>
  C37. A validation is sent at most once. In every run of the ledger from the empty one, two successful
  dispatches, of whatever prompts under whatever grants, are for different calls; and a dispatch sends the
  prompt its call reserved, within the lease and the caps of the registry.
\<close>

theorem validation_sent_at_most_once:
  assumes run: "validation_run P st sha empty_ledger L"
    and first: "dispatch_prepared p (Some i) now tick L = (L1, Inr t)"
    and later: "validation_run P st sha L1 L2"
    and again: "dispatch_prepared p' (Some j) now' tick' L2 = (L3, Inr t')"
  shows "grant_call L i \<noteq> grant_call L2 j
    \<and> (\<exists>k s. grant_call L i = Some k \<and> call_at L k = Some s \<and> \<not> cs_dispatched s \<and> now < cs_lease_expires s
        \<and> pd_content_hmac p = vb_content_hmac (cs_request s) \<and> int (vf_framed p) \<le> 6000
        \<and> vb_reserved_input (cs_request s) = int (vf_framed p) \<and> vb_reserved_cost (cs_request s) \<le> max_batch_cost)"
proof -
  obtain k s where k: "grant_call L i = Some k" "call_at L k = Some s" "\<not> dispatch_changed s p now"
      "call_at L1 = (call_at L)(k \<mapsto> s\<lparr>cs_dispatched := True\<rparr>)"
      "map_of (vl_active L) (vg_attempt_id (vl_grants L ! i)) = Some (i, k)"
    using first by (rule dispatched_Inr)
  obtain k' s' where k': "grant_call L2 j = Some k'" "call_at L2 k' = Some s'"
      "map_of (vl_active L2) (vg_attempt_id (vl_grants L2 ! j)) = Some (j, k')"
    using again by (rule dispatched_Inr)
  have ok: "ledger_ok P st L" by (rule run_ok [OF run])
  have run1: "validation_run P st sha empty_ledger L1"
    using run step_dispatch [OF first] by (rule rtranclp.rtrancl_into_rtrancl)
  have ok2: "ledger_ok P st L2" by (rule run_ok) (rule rtranclp_trans [OF run1 later])
  have "\<exists>t. call_at L2 k = Some t \<and> call_below (s\<lparr>cs_dispatched := True\<rparr>) t"
    using below_call [OF run_below [OF run1 later], of k] k(4) by simp
  then obtain t where "call_at L2 k = Some t" "cs_dispatched t" by (auto simp: call_below_def)
  moreover have "\<not> cs_dispatched s'" using active_call [OF ok2 k'(3)] k'(2) by simp
  ultimately have "k \<noteq> k'" using k'(2) by auto
  moreover have "\<not> cs_dispatched s" using active_call [OF ok k(5)] k(2) by simp
  moreover have "validate_claim_request P st (cs_request s) = Inr ()"
    using ledger_ok_call [OF ok k(2)] by (simp add: call_ok_def)
  note validate_claim_request_Inr [OF this]
  ultimately show ?thesis
    using k(1-3) k'(1) by (auto simp: dispatch_changed_def)
qed

text \<open>
  C38. A completed call is accounted for and final. In every reachable ledger its projections are its
  candidates in order, they share out its tokens and its cost exactly, the cost is within the reservation;
  claiming the call again replays the stored projections without changing the ledger, and no later operation
  changes them.
\<close>

theorem completed_call_is_accounted:
  assumes run: "validation_run P st sha empty_ledger L" and s: "call_at L key = Some s"
    and completed: "cs_status s = Call_Completed" and later: "validation_run P st sha L L'"
  shows "completed_call s \<and> 0 \<le> cs_cost s \<and> vb_reserved_cost (cs_request s) \<le> max_batch_cost
    \<and> (\<exists>r. claim_or_replay P st (cs_request s) now token L = Inr (L, r) \<and> co_disposition r = Replayed
         \<and> co_terminal r = Some Call_Completed \<and> co_completed r = cs_completed s)
    \<and> (\<exists>t. call_at L' key = Some t \<and> cs_request t = cs_request s \<and> closing_facts t = closing_facts s)"
proof -
  have ok: "call_ok P st key s" by (rule ledger_ok_call [OF run_ok [OF run] s])
  then have valid: "validate_claim_request P st (cs_request s) = Inr ()"
    and key: "key = (vb_thread (cs_request s), vb_fingerprint (cs_request s))"
    and c: "completed_call s" "0 \<le> cs_cost s"
    using completed by (auto simp: call_ok_def)
  note v = validate_claim_request_Inr [OF valid]
  have "length (cs_completed s) = length (vb_candidates (cs_request s))"
    using c(1) by (metis completed_call_def length_map candidate_order_simps(2))
  then have "cs_completed s \<noteq> []" using v(1) by auto
  then have "\<exists>r. claim_or_replay P st (cs_request s) now token L = Inr (L, r) \<and> co_disposition r = Replayed
      \<and> co_terminal r = Some Call_Completed \<and> co_completed r = cs_completed s"
    using valid s completed by (simp add: claim_or_replay_def key replayed_result_def)
  moreover have "\<exists>t. call_at L' key = Some t \<and> call_below s t"
    by (rule below_call [OF run_below [OF run later] s])
  ultimately show ?thesis using c v(8) completed by (auto simp: call_below_def)
qed

end
