(* ===== verification/Auto_Review_Witnesses.thy ===== *)
theory Auto_Review_Witnesses
  imports Auto_Review_Properties Json_Round_Trip Ledger_Identities
begin

text \<open>
  One automatic review, computed from its candidate to its approval: the witnesses of
  \<open>Auto_Review_Properties\<close>. Its JSON is read back through the sorted form of a value.
\<close>

section \<open>Writing with sorted keys\<close>

fun sort_json :: "json \<Rightarrow> json" where
  "sort_json (JList xs) = JList (map sort_json xs)"
| "sort_json (JObj kvs) = JObj (sort_key fst (map (\<lambda>(k, v). (k, sort_json v)) kvs))"
| "sort_json v = v"

lemma insort_map_snd:
  "insort_key fst (k, f v) (map (\<lambda>(k, v). (k, f v)) kvs) = map (\<lambda>(k, v). (k, f v)) (insort_key fst (k, v) kvs)"
  by (induction kvs) auto

lemma sort_map_snd:
  "sort_key fst (map (\<lambda>(k, v). (k, f v)) kvs) = map (\<lambda>(k, v). (k, f v)) (sort_key fst kvs)"
  by (induction kvs) (auto simp: insort_map_snd)

lemma dump_members_map: "dump_members kvs = map (\<lambda>(k, v). (k, json_dumps v)) kvs"
  by (induction kvs) auto

lemma dump_items_map: "dump_items xs = map json_dumps xs"
  by (induction xs) auto

lemma dump_ordered_map:
  "dump_ordered_items xs = map json_dumps_ordered xs"
  "dump_ordered_members kvs = map (\<lambda>(k, v). json_quote k @ '':'' @ json_dumps_ordered v) kvs"
  by (induction xs) (auto, induction kvs, auto)

lemma json_dumps_sorted: "json_dumps v = json_dumps_ordered (sort_json v)"
proof (induction v rule: sort_json.induct)
  case (1 xs)
  then show ?case by (simp add: dump_items_map dump_ordered_map comp_def cong: map_cong)
next
  case (2 kvs)
  then have each: "json_dumps v = json_dumps_ordered (sort_json v)" if "(k, v) \<in> set kvs" for k v
    using that by force
  have "map (\<lambda>(k, v). json_quote k @ '':'' @ v) (sort_key fst (map (\<lambda>(k, v). (k, json_dumps v)) kvs))
      = map (\<lambda>(k, v). json_quote k @ '':'' @ json_dumps_ordered v) (sort_key fst (map (\<lambda>(k, v). (k, sort_json v)) kvs))"
    unfolding sort_map_snd by (auto simp: each)
  then show ?case by (simp only: json_dumps.simps sort_json.simps json_dumps_ordered.simps dump_members_map dump_ordered_map)
qed auto

lemma sort_json_readable: "readable v \<Longrightarrow> readable (sort_json v)"
proof (induction v)
  case (JObj kvs)
  have "distinct (map fst (sort_key fst kvs'))" if "distinct (map fst kvs')" for kvs' :: "(string \<times> json) list"
    using that by (simp add: distinct_map inj_on_def)
  then show ?case using JObj by (fastforce simp: list_all_iff comp_def case_prod_unfold)
qed (auto simp: list_all_iff)

lemma sort_json_encodable: "json_encodable v \<Longrightarrow> json_encodable (sort_json v)"
  by (induction v) (fastforce simp: list_all_iff)+

lemma json_loads_dumps: "readable v \<Longrightarrow> json_loads (json_dumps v) = Some (sort_json v)"
  by (simp add: json_dumps_sorted json_loads_dumps_ordered sort_json_readable)

lemma json_dumps_utf8: "readable v \<Longrightarrow> json_encodable v \<Longrightarrow> utf8_valid (json_dumps v)"
  by (simp add: json_dumps_sorted utf8_valid_dumps(1) sort_json_readable sort_json_encodable)

section \<open>One candidate\<close>

definition review_schema :: json where
  "review_schema = JObj [(''$defs'', JObj [(''FieldValidationResult'',
     JObj [(''properties'', JObj [(''entailment_score'', JObj [(''type'', JStr ''string'')])])])])]"

definition review_env :: render_env where
  "review_env = \<lparr>re_primitives = demo_primitives, re_scan = (\<lambda>_. True), re_encode = (\<lambda>_. Some 10),
     re_schema = review_schema\<rparr>"

lemma review_env_fields [simp]:
  "re_primitives review_env = demo_primitives" "re_scan review_env = (\<lambda>_. True)"
  "re_encode review_env = (\<lambda>_. Some 10)" "re_schema review_env = review_schema"
  by (simp_all add: review_env_def)

definition review_claims :: "claim_input list" where
  "review_claims = [\<lparr>ci_field_key = ''title'', ci_text = ''kickoff''\<rparr>,
     \<lparr>ci_field_key = ''result_summary'', ci_text = ''done''\<rparr>]"

definition review_evidence :: "evidence_slot list" where
  "review_evidence = [\<lparr>vs_slot_id = ''E01'', vs_text = ''minutes''\<rparr>]"

definition review_request :: validation_request where
  "review_request = \<lparr>vq_candidate_slot_id = ''C01'', vq_item_type = ''timeline_event'', vq_claims = review_claims,
     vq_evidence_slots = review_evidence\<rparr>"

definition review_rendered :: rendered_candidate where
  "review_rendered = \<lparr>rc_slot = ''C01'', rc_item_type = ''timeline_event'', rc_claims = review_claims,
     rc_evidence = review_evidence\<rparr>"

lemma review_strip: "strip ''kickoff'' = ''kickoff''" "strip ''done'' = ''done''" "strip ''minutes'' = ''minutes''"
  by (simp_all add: strip_plain plain_def)

lemma review_slots: "ordinal_slot CHR ''C'' 1 = ''C01''" "ordinal_slot CHR ''E'' 1 = ''E01''"
  by code_simp+

lemma review_render: "render_candidates (re_scan review_env) 1 0 [review_request] = Inr [review_rendered]"
proof -
  have "code_points ''kickoff'' \<le> 2000" "code_points ''done'' \<le> 2000" by (simp_all add: code_points_def)
  then show ?thesis
    using review_slots
    by (simp add: render_candidate_def review_request_def review_rendered_def review_claims_def
        review_evidence_def review_strip)
qed

definition review_schema_json :: json where
  "review_schema_json = JObj [(''$defs'', JObj [(''FieldValidationResult'',
     JObj [(''properties'', JObj [(''entailment_score'',
       JObj [(''maximum'', JInt 1), (''minimum'', JInt 0), (''type'', JStr ''number'')])])])])]"

lemma review_provider_schema: "provider_schema review_schema = Some review_schema_json"
  unfolding review_schema_def review_schema_json_def by code_simp

definition review_format :: json where
  "review_format = sort_json (JObj [(''type'', JStr ''json_schema''), (''strict'', JBool True),
     (''name'', JStr ''CandidateValidationBatchResult''), (''schema'', review_schema_json)])"

lemma review_framing: "json_loads (schema_framing demo_primitives review_schema_json) = Some review_format"
  unfolding schema_framing_def canonical_json_text_def demo_nfc review_format_def
  by (rule json_loads_dumps) (simp add: review_schema_json_def decimal_nat.simps)

definition review_batch :: string where
  "review_batch = batch_text demo_primitives [review_rendered]"

lemma review_batch_length: "0 < code_points review_batch" "code_points review_batch \<le> 12000"
proof -
  have "0 < code_points review_batch \<and> code_points review_batch < 400"
    unfolding review_batch_def batch_text_def canonical_json_text_def demo_nfc by code_simp
  then show "0 < code_points review_batch" "code_points review_batch \<le> 12000" by simp_all
qed

definition review_frame :: validation_frame where
  "review_frame = \<lparr>vf_canonical_text = review_batch,
     vf_estimator_text = estimator_text demo_primitives review_batch review_format,
     vf_schema_framing = schema_framing demo_primitives review_schema_json, vf_characters = code_points review_batch,
     vf_encoded = 10, vf_framed = 538, vf_max_output = 3072, vf_candidate_slots = [''C01''],
     vf_evidence_slots = [''E01''], vf_claim_fields = [[''title'', ''result_summary'']],
     vf_candidate_evidence = [[''E01'']]\<rparr>"

lemma review_rendered_fields:
  "rc_slot review_rendered = ''C01''" "rc_slots review_rendered = [''E01'']"
  "rc_fields review_rendered = [''title'', ''result_summary'']"
  by (simp_all add: review_rendered_def rc_slots_def rc_fields_def review_claims_def review_evidence_def)

lemma review_framed: "render_validation_frame review_env [review_request] = Inr review_frame"
proof -
  have "render_validation_frame review_env [review_request] = frame_of review_env [review_rendered]"
    unfolding render_validation_frame_def review_render by simp
  also have "\<dots> = Inr review_frame"
    using review_batch_length(2) review_rendered_fields
    by (simp add: frame_of_def Let_def review_provider_schema review_framing review_frame_def flip: review_batch_def)
  finally show ?thesis .
qed

lemma system_instruction_valid: "utf8_valid system_instruction"
  unfolding system_instruction_def by (intro utf8_valid_append) code_simp+

lemma review_batch_valid: "utf8_valid review_batch"
  unfolding review_batch_def batch_text_def canonical_json_text_def demo_nfc
  by (rule json_dumps_utf8)
    (simp_all add: candidate_json_def review_rendered_def review_claims_def review_evidence_def rc_slots_def
      utf8_valid_ascii)

lemma review_estimate_valid: "utf8_valid (vf_estimator_text review_frame)"
proof -
  have "readable review_format" "json_encodable review_format"
    unfolding review_format_def
    by (intro sort_json_readable sort_json_encodable;
        simp add: review_schema_json_def decimal_nat.simps utf8_valid_ascii)+
  then have "utf8_valid (estimator_text demo_primitives review_batch review_format)"
    unfolding estimator_text_def canonical_json_text_def demo_nfc
    by (intro json_dumps_utf8)
      (simp_all add: message_json_def decimal_nat.simps utf8_valid_ascii system_instruction_valid review_batch_valid)
  then show ?thesis by (simp add: review_frame_def)
qed

definition review_prepared :: prepared_validation where
  "review_prepared = validation_frame.extend review_frame
     \<lparr>pd_messages = [(''system'', system_instruction), (''human'', review_batch)],
      pd_bytes = vf_estimator_text review_frame, pd_content_hmac = demo_digest\<rparr>"

lemma review_prepares: "prepare_many review_env demo_settings [review_request] = Inr review_prepared"
proof -
  have "settings_fingerprint demo_primitives demo_settings ''auto-review-validation-content:v1''
      ''openai-o200k-chat:v1'' (JStr (vf_estimator_text review_frame)) = Inr demo_digest"
    using review_estimate_valid by (simp add: demo_identity)
  moreover have "vf_canonical_text review_frame = review_batch" by (simp add: review_frame_def)
  ultimately show ?thesis
    using review_estimate_valid unfolding prepare_many_def review_framed
    by (simp add: review_prepared_def)
qed

lemma review_prepared_fields [simp]:
  "vf_characters review_prepared = code_points review_batch" "vf_framed review_prepared = 538"
  "vf_max_output review_prepared = 3072" "pd_content_hmac review_prepared = demo_digest"
  "vf_candidate_slots review_prepared = [''C01'']" "vf_candidate_evidence review_prepared = [[''E01'']]"
  "vf_claim_fields review_prepared = [[''title'', ''result_summary'']]" "vf_evidence_slots review_prepared = [''E01'']"
  by (simp_all add: review_prepared_def review_frame_def validation_frame.defs)

section \<open>Its partition\<close>

definition review_identity :: exec_identity where
  "review_identity =
     \<lparr>xi_execution_hmac = demo_digest, xi_scope_hmac = demo_digest, xi_candidate_key = demo_digest,
      xi_evidence_version_hash = demo_digest, xi_claim_fingerprint = demo_digest,
      xi_generation_fingerprint = demo_digest, xi_provider = ''openai'', xi_model = ''gpt-5.6-terra'',
      xi_reasoning_effort = ''medium'', xi_prompt_version = ''auto-review-validation:v2'',
      xi_output_contract_version = ''candidate-validation-batch:v1'', xi_policy_version = ''auto-review-policy:v1'',
      xi_key_version = ''v1'', xi_key_verifier = demo_digest, xi_token_estimator_version = ''openai-o200k-chat:v1'',
      xi_tokenizer_encoding = ''o200k_base'', xi_max_input_tokens = 6000, xi_max_output_tokens = 3072,
      xi_max_candidates_per_batch = 4, xi_max_batches_per_workflow = 2, xi_max_candidates_per_workflow = 5,
      xi_max_provider_attempts = 1, xi_timeout = 60, xi_send_window = 5, xi_attempt_lease = 90,
      xi_commit_grace = 10, xi_input_price = 2000000, xi_output_price = 12000000,
      xi_cost_policy_version = ''auto-review-cost:v1'', xi_safety_state_version = 1, xi_rollout_epoch = 1,
      xi_authorized_percentage = 100, xi_rollout_generation = 1, xi_extraction_ceiling = 83580,
      xi_validation_ceiling = 97728, xi_total_ceiling = 181308\<rparr>"

lemma format6_valid: "utf8_valid (format6 m)"
  by (simp add: ascii_valid)

lemma review_identity_plain: "json_plain (identity_payload review_identity)"
  unfolding identity_payload_def review_identity_def exec_identity.select_convs
  by (simp add: format6_valid utf8_valid_ascii)

lemma review_key: "derive_validation_key demo_primitives demo_settings review_identity = Inr demo_digest"
proof -
  have "xi_policy_version review_identity = ''auto-review-policy:v1''" by (simp add: review_identity_def)
  then show ?thesis
    using review_identity_plain by (simp add: derive_validation_key_def demo_identity)
qed

lemma review_prices [simp]:
  "xi_input_price review_identity = 2000000" "xi_output_price review_identity = 12000000"
  "xi_policy_version review_identity = ''auto-review-policy:v1''" "xi_attempt_lease review_identity = 90"
  "xi_max_input_tokens review_identity = 6000" "xi_max_output_tokens review_identity = 3072"
  "xi_validation_ceiling review_identity = 97728" "xi_extraction_ceiling review_identity = 83580"
  "xi_total_ceiling review_identity = 181308" "xi_timeout review_identity = 60"
  "xi_send_window review_identity = 5"
  by (simp_all add: review_identity_def)

definition review_claim :: candidate_claim where
  "review_claim = \<lparr>cc_review_item_id = 7, cc_validation_key = demo_digest, cc_identity = review_identity\<rparr>"

lemma review_claim_fields [simp]:
  "cc_review_item_id review_claim = 7" "cc_validation_key review_claim = demo_digest"
  "cc_identity review_claim = review_identity"
  by (simp_all add: review_claim_def)

definition review_eligibility :: eligibility_input where
  "review_eligibility =
     \<lparr>el_item_type = ''timeline_event'', el_permission_level = ''internal'', el_evidence_state = Exact_Evidence,
      el_payload_complete = True, el_uncertainty_present = False, el_high_risk_language = False,
      el_project_selection_required = False, el_generation_identity_ready = True,
      el_validator_identity_collision = False, el_registry_ready = True, el_budget_available = True,
      el_fingerprint_projection_ready = True, el_claim_fingerprint = Some demo_digest, el_visible_targets = [],
      el_hidden_or_legacy_collision = False, el_lookup_available = True\<rparr>"

lemma digest_points: "code_points demo_digest = 64"
  by code_simp

lemma review_eligible: "evaluate_eligibility review_eligibility = eligibility Eligible R_eligible"
proof -
  have "eligible_guards review_eligibility"
    by (simp add: eligible_guards_def review_eligibility_def digest_points)
  then show ?thesis by (simp add: evaluate_eligibility_guards) (simp add: review_eligibility_def)
qed

definition review_input :: validation_input where
  "review_input =
     \<lparr>vi_eligibility = eligibility Eligible R_eligible, vi_candidate_slot_id = ''C01'',
      vi_claim_fields = [''title'', ''result_summary''], vi_evidence_slot_ids = [''E01''],
      vi_validator_available = True, vi_validator_malformed = False, vi_result = None,
      vi_identity = supported_validation_identity, vi_state_matches = True\<rparr>"

definition review_candidate :: preparation_candidate where
  "review_candidate = \<lparr>pp_claim = review_claim, pp_request = review_request, pp_policy = review_input\<rparr>"

lemma review_candidate_fields [simp]:
  "pp_claim review_candidate = review_claim" "pp_request review_candidate = review_request"
  "pp_policy review_candidate = review_input"
  by (simp_all add: review_candidate_def)

definition review_guard :: execution_guard where
  "review_guard = \<lparr>xg_thread = ''thread'', xg_owner_hmac = demo_digest, xg_source_hmac = demo_digest,
     xg_mode = ''enforce''\<rparr>"

definition review_call :: "string \<Rightarrow> claim_request" where
  "review_call thread = batch_request thread demo_digest [review_claim] review_prepared 37940"

lemma review_cost: "token_cost 538 3072 2000000 12000000 = Inr 37940"
  by (simp add: maximum_cost_def ceil_div_def)

lemma review_fingerprint:
  assumes "utf8_valid thread"
  shows "derive_batch_fingerprint demo_primitives demo_settings (batch_request thread fp [review_claim] review_prepared 37940)
     = Inr demo_digest"
  using assms review_identity_plain format6_valid
  by (simp add: derive_batch_fingerprint_def batch_request_def candidate_order_def claim_json_def demo_identity)

definition review_job :: prepared_batch where
  "review_job = \<lparr>bt_claim = review_call ''thread'',
     bt_admission = batch_admission review_guard demo_digest review_identity review_prepared 37940,
     bt_invocation = review_prepared, bt_policy = [review_input]\<rparr>"

lemma review_job_prepared: "prepare_batch review_env demo_settings review_guard [review_candidate] = Inr review_job"
  by (simp add: prepare_batch_def review_prepares review_cost review_guard_def review_fingerprint utf8_valid_ascii Let_def
      del: token_cost_Inr)
    (simp add: review_job_def review_call_def review_guard_def batch_policy_def review_input_def)

lemma review_partition:
  "prepare_validation_partition review_env demo_settings review_guard [review_candidate]
     = Inr \<lparr>pt_batches = [review_job], pt_human_only = []\<rparr>"
proof -
  have "fits review_env [review_candidate] = Inr True"
    by (simp add: fits_def measure_frame_def review_framed) (simp add: review_frame_def)
  then have "pack review_env [review_candidate] = Inr ([[review_candidate]], [])"
    by (simp add: pack_def preparation_order_def place_candidate_def)
  then show ?thesis by (simp add: prepare_validation_partition_def review_job_prepared)
qed

section \<open>Its call\<close>

lemma review_valid:
  assumes "utf8_valid thread"
  shows "validate_claim_request demo_primitives demo_settings (review_call thread) = Inr ()"
proof -
  have "registry_identity demo_settings review_identity"
    by (simp add: registry_identity_def review_identity_def demo_settings_def)
  moreover have "reservation_valid (review_call thread) review_identity 37940"
    using review_batch_length
    by (simp add: reservation_valid_def review_call_def batch_request_def max_batch_cost_def digest_points)
  moreover have "derive_batch_fingerprint demo_primitives demo_settings (review_call thread) = Inr demo_digest"
    unfolding review_call_def by (rule review_fingerprint [OF assms])
  moreover have "vb_candidates (review_call thread) = [review_claim]" "vb_fingerprint (review_call thread) = demo_digest"
    "vb_reserved_input (review_call thread) = 538" "vb_reserved_output (review_call thread) = 3072"
    by (simp_all add: review_call_def batch_request_def)
  ultimately show ?thesis
    using review_cost by (simp add: validate_claim_request_def review_key Let_def del: token_cost_Inr)
qed

lemma review_call_fields [simp]:
  "vb_thread (review_call t) = t" "vb_fingerprint (review_call t) = demo_digest"
  "vb_candidates (review_call t) = [review_claim]" "vb_reserved_cost (review_call t) = 37940"
  "vb_content_hmac (review_call t) = demo_digest" "vb_characters (review_call t) = int (code_points review_batch)"
  "vb_framed (review_call t) = 538" "vb_reserved_input (review_call t) = 538"
  by (simp_all add: review_call_def batch_request_def)

text \<open>A claimed, a started, a sent and a completed call, with lease token \<open>tok\<close>.\<close>

definition claimed_review :: "string \<Rightarrow> int \<Rightarrow> string \<Rightarrow> call_state" where
  "claimed_review t n tok = \<lparr>cs_request = review_call t, cs_call_id = n, cs_lease_token = tok,
     cs_lease_expires = 90000000, cs_attempts = 0, cs_started = None, cs_dispatched = False,
     cs_status = Call_Claimed, cs_completed = [], cs_reason = None, cs_input = None, cs_output = None,
     cs_cost = 0, cs_overrun = False, cs_overrun_cost = 0, cs_terminal = None, cs_cancelled = False\<rparr>"

definition started_review :: "string \<Rightarrow> int \<Rightarrow> string \<Rightarrow> call_state" where
  "started_review t n tok = (claimed_review t n tok)\<lparr>cs_attempts := 1, cs_started := Some 1, cs_lease_expires := 90000001\<rparr>"

lemma review_claimed:
  assumes "utf8_valid t" and "call_at L (t, demo_digest) = None" and "code_points tok = 64"
  shows "claim_or_replay demo_primitives demo_settings (review_call t) 0 tok L
    = Inr ((put_call (t, demo_digest) (claimed_review t (vl_next_call L) tok) L)\<lparr>vl_next_call := vl_next_call L + 1\<rparr>,
       claimed_result (claimed_review t (vl_next_call L) tok))"
  using assms
  by (simp add: claim_or_replay_def review_valid new_claim_def next_lease_token_def lease_seconds_def seconds_def
      claimed_review_def)

definition review_admission :: "string \<Rightarrow> int \<Rightarrow> string \<Rightarrow> attempt_admission" where
  "review_admission t n tok = (batch_admission (review_guard\<lparr>xg_thread := t\<rparr>) demo_digest review_identity review_prepared
     37940)\<lparr>va_call_id := n, va_lease_token := tok\<rparr>"

lemma review_admitted: "admission_matches (claimed_review t n tok) (review_admission t n tok)"
  by (simp add: admission_matches_def claimed_review_def review_admission_def batch_admission_def Let_def)

definition review_grant :: "string \<Rightarrow> send_grant" where
  "review_grant attempt = \<lparr>vg_attempt_id = attempt, vg_timeout = 60, vg_lease_expires = 90000001,
     vg_deadline = 5000000, vg_consumed = False, vg_invalidated = False\<rparr>"

lemma review_started:
  assumes "call_at L (t, demo_digest) = Some (claimed_review t n tok)"
  shows "mark_attempt_started sha (review_admission t n tok) 1 0 (Inr ()) L
    = Inr ((put_call (t, demo_digest) (started_review t n tok) L)
        \<lparr>vl_grants := vl_grants L @ [review_grant (sha (tok @ '':attempt:1''))],
         vl_active := AList.update (sha (tok @ '':attempt:1'')) (length (vl_grants L), t, demo_digest) (vl_active L)\<rparr>,
       length (vl_grants L))"
proof -
  have a: "va_thread (review_admission t n tok) = t" "va_fingerprint (review_admission t n tok) = demo_digest"
    "va_call_id (review_admission t n tok) = n" "va_lease_token (review_admission t n tok) = tok"
    "va_timeout (review_admission t n tok) = 60" "va_send_window (review_admission t n tok) = 5"
    "va_attempt_lease (review_admission t n tok) = 90"
    by (simp_all add: review_admission_def batch_admission_def review_guard_def)
  have c: "cs_call_id (claimed_review t n tok) = n" "cs_lease_token (claimed_review t n tok) = tok"
    "cs_attempts (claimed_review t n tok) = 0" "cs_lease_expires (claimed_review t n tok) = 90000000"
    by (simp_all add: claimed_review_def)
  show ?thesis
    unfolding mark_attempt_started_def a assms Let_def option.case using review_admitted
    by (simp add: c seconds_def started_review_def review_grant_def)
qed

lemma review_sent:
  assumes "call_at L (t, demo_digest) = Some (started_review t n tok)" and "i < length (vl_grants L)"
    and "vl_grants L ! i = review_grant attempt" and "map_of (vl_active L) attempt = Some (i, t, demo_digest)"
  shows "dispatch_prepared review_prepared (Some i) 2 1 L
    = ((put_call (t, demo_digest) ((started_review t n tok)\<lparr>cs_dispatched := True\<rparr>)
         (L\<lparr>vl_active := AList.delete attempt (vl_active L)\<rparr>))
       \<lparr>vl_grants := (vl_grants L)[i := (review_grant attempt)\<lparr>vg_consumed := True\<rparr>]\<rparr>, Inr 60)"
proof -
  have "\<not> dispatch_changed (started_review t n tok) review_prepared 2"
    by (simp add: dispatch_changed_def started_review_def claimed_review_def)
  moreover have "vg_attempt_id (review_grant attempt) = attempt" "vg_timeout (review_grant attempt) = 60"
    "consume_permit (review_grant attempt) 1 = Inr ((review_grant attempt)\<lparr>vg_consumed := True\<rparr>)"
    by (simp_all add: review_grant_def consume_permit_def)
  ultimately show ?thesis
    using assms by (simp add: dispatch_prepared_def Let_def not_le [symmetric])
qed

section \<open>Its answer\<close>

definition review_answer :: candidate_result where
  "review_answer = \<lparr>cr_slot = ''C01'', cr_claims =
     [\<lparr>fr_field_key = ''title'', fr_verdict = Supported, fr_scope = Direct_Fact, fr_score = 9900, fr_slots = [''E01'']\<rparr>,
      \<lparr>fr_field_key = ''result_summary'', fr_verdict = Supported, fr_scope = Direct_Fact, fr_score = 9800,
       fr_slots = [''E01'']\<rparr>], cr_uncertainty = [], cr_conflict = []\<rparr>"

definition review_usage :: validation_usage where
  "review_usage = \<lparr>vu_input = 7, vu_output = 5, vu_cost = 74\<rparr>"

definition review_world :: validator_world where
  "review_world = \<lparr>vw_safe_before = True, vw_safe_at_call = True, vw_route = (\<lambda>_. True),
     vw_reply = Some \<lparr>rp_is_mapping = True, rp_parsing_error = False, rp_raw = Some demo_message,
       rp_parsed = Some [review_answer]\<rparr>, vw_heap = demo_heap\<rparr>"

lemma review_answer_valid: "batch_result_valid [review_answer]"
  unfolding review_answer_def by code_simp

lemma review_parsed:
  "parse_provider_result demo_heap review_prepared \<lparr>rp_is_mapping = True, rp_parsing_error = False,
     rp_raw = Some demo_message, rp_parsed = Some [review_answer]\<rparr> = Inr ([review_answer], review_usage)"
proof -
  have "result_integrity review_prepared [review_answer]"
    by (simp add: result_integrity_def slots_within_def claim_slots_invalid_def review_answer_def)
  moreover have "parse_message demo_heap demo_message = Inr \<lparr>input_tokens = 7, output_tokens = 5, total_tokens = 12\<rparr>"
    by code_simp
  ultimately show ?thesis
    using review_answer_valid by (simp add: parse_provider_result_def review_usage_def maximum_cost_def ceil_div_def)
qed

definition review_context :: "string \<Rightarrow> int \<Rightarrow> string \<Rightarrow> locked_context" where
  "review_context t n tok = \<lparr>lc_call_id = n, lc_thread = t, lc_fingerprint = demo_digest, lc_lease_token = tok\<rparr>"

definition review_completed :: candidate_completion where
  "review_completed = \<lparr>pc_review_item_id = 7, pc_validation_key = demo_digest, pc_result = review_answer,
     pc_decision = Auto_Approve, pc_reasons = [R_eligible]\<rparr>"

lemma review_decided:
  "batch_completion_of c review_job [review_answer] review_usage =
     locked_context.extend c \<lparr>bc_candidates = [review_completed], bc_input = 7, bc_output = 5\<rparr>"
proof -
  have "evaluate_validation (review_input\<lparr>vi_result := Some review_answer\<rparr>)
      = \<lparr>po_decision = Auto_Approve, po_reasons = [R_eligible], po_target = None, po_minimum = Some 9800\<rparr>"
    by (simp add: evaluate_validation_def review_input_def validation_allowed_def evaluate_result_def
        claim_slots_invalid_def minimum_score_def min_entailment_def review_answer_def)
  moreover have "\<not> malformed_batch [review_input\<lparr>vi_result := Some review_answer\<rparr>]"
    using review_slots(1) by (simp add: malformed_batch_def review_input_def)
  ultimately show ?thesis
    by (simp add: batch_completion_of_def batch_decisions_def evaluate_batch_def review_job_def candidate_order_def
        review_completed_def review_usage_def)
qed

definition review_projection :: "int \<Rightarrow> int \<Rightarrow> completed_projection" where
  "review_projection n m = \<lparr>cv_call_id = n, cv_validation_id = m, cv_review_item_id = 7, cv_result = review_answer,
     cv_decision = Auto_Approve, cv_reasons = [R_eligible], cv_input = 7, cv_output = 5, cv_cost = 74,
     cv_cache_hit = False\<rparr>"

definition sent_review :: "string \<Rightarrow> int \<Rightarrow> string \<Rightarrow> call_state" where
  "sent_review t n tok = (started_review t n tok)\<lparr>cs_dispatched := True\<rparr>"

lemma sent_review_fields [simp]:
  "cs_request (sent_review t n tok) = review_call t" "cs_call_id (sent_review t n tok) = n"
  "cs_lease_token (sent_review t n tok) = tok" "cs_lease_expires (sent_review t n tok) = 90000001"
  "cs_attempts (sent_review t n tok) = 1" "cs_dispatched (sent_review t n tok)"
  "cs_status (sent_review t n tok) = Call_Claimed" "\<not> cs_cancelled (sent_review t n tok)"
  by (simp_all add: sent_review_def started_review_def claimed_review_def)

lemma review_completes:
  assumes "call_at L (t, demo_digest) = Some (sent_review t n tok)"
    and "other_obligations (t, demo_digest) (sent_review t n tok) L = 0"
  shows "complete_call (review_context t n tok)
      (locked_context.extend (review_context t n tok) \<lparr>bc_candidates = [review_completed], bc_input = 7, bc_output = 5\<rparr>)
      3 4 L
    = Inr ((put_call (t, demo_digest) ((charged 7 5 74 4 (sent_review t n tok))
              \<lparr>cs_completed := [review_projection n (vl_next_validation L)], cs_status := Call_Completed\<rparr>) L)
           \<lparr>vl_next_validation := vl_next_validation L + 1\<rparr>, [review_projection n (vl_next_validation L)])"
proof -
  let ?c = "review_context t n tok" and ?d = "[review_completed]"
  let ?b = "locked_context.extend (review_context t n tok) \<lparr>bc_candidates = [review_completed], bc_input = 7, bc_output = 5\<rparr>"
  have key: "context_key ?c = (t, demo_digest)" by (simp add: context_key_def review_context_def)
  have b: "completion_order ?b = ?d" "bc_input ?b = 7" "bc_output ?b = 5" "locked_context.truncate ?b = ?c"
    by (simp_all add: completion_order_def locked_context.defs review_context_def)
  have state: "locked_state ?c L = Inr (sent_review t n tok)"
    using assms(1) by (simp add: locked_state_Inr key) (simp add: review_context_def)
  have alloc: "allocate_integer_tokens 7 1 = Inr [7]" "allocate_integer_tokens 5 1 = Inr [5]"
    "token_cost 7 5 2000000 12000000 = Inr 74"
    "allocate_micro_usd [7] [5] 2000000 12000000 74 [demo_digest] = Inr [74]"
    by (simp_all add: allocate_integer_tokens_def maximum_cost_def ceil_div_def allocate_micro_usd_def raw_costs_def
        Let_def)
  have fits: "\<not> completion_overruns (sent_review t n tok) review_identity 7 5 74 74"
    by (simp add: completion_overruns_def max_validation_cost_def)
  have able: "completable ?c ?b (sent_review t n tok) 3"
    by (simp add: completable_def b)
  have d: "pc_review_item_id review_completed = 7" "pc_validation_key review_completed = demo_digest"
    "cr_slot review_answer = ''C01''" "pc_result review_completed = review_answer"
    "pc_decision review_completed = Auto_Approve" "pc_reasons review_completed = [R_eligible]"
    by (simp_all add: review_completed_def review_answer_def)
  have order: "candidate_order [review_claim] = [review_claim]" by (simp add: candidate_order_def)
  have "complete_call ?c ?b 3 4 L = close_completion (t, demo_digest) (sent_review t n tok) review_identity ?d [demo_digest]
      7 5 [7] [5] 74 4 L"
    using review_slots(1) alloc(1-3)
    by (simp add: complete_call_def state able Let_def b order d key del: token_cost_Inr)
  then show ?thesis
    using fits assms(2) by (simp add: close_completion_def alloc(4) Let_def review_projection_def d)
qed

section \<open>Its execution\<close>

definition review_clock :: store_clock where
  "review_clock = \<lparr>ck_claim = 0, ck_token = demo_digest, ck_mark = 1, ck_mark_tick = 0, ck_committed = Inr (),
     ck_dispatch = 2, ck_dispatch_tick = 1, ck_complete = 3, ck_later = 4\<rparr>"

definition review_ops :: "validation_ledger store_ops" where
  "review_ops = ledger_ops demo_primitives demo_settings (\<lambda>s. s) review_clock"

lemma review_ops_simps [simp]:
  "so_claim review_ops q L = keep L (claim_or_replay demo_primitives demo_settings q 0 demo_digest L)"
  "so_mark review_ops a L = keep L (mark_attempt_started (\<lambda>s. s) a 1 0 (Inr ()) L)"
  "so_dispatch review_ops p g L = dispatch_prepared p (Some g) 2 1 L"
  "so_complete review_ops c d L = keep L (complete_call c d 3 4 L)"
  by (simp_all add: review_ops_def ledger_ops_def review_clock_def)

lemma empty_ledger_simps [simp]:
  "vl_calls empty_ledger = []" "vl_active empty_ledger = []" "vl_grants empty_ledger = []"
  "vl_next_call empty_ledger = 1" "vl_next_validation empty_ledger = 1"
  by (simp_all add: empty_ledger_def)

definition review_attempt :: "string \<Rightarrow> string" where
  "review_attempt tok = tok @ '':attempt:1''"

text \<open>The ledger after each of the four operations.\<close>

definition ledger1 :: validation_ledger where
  "ledger1 = (put_call (''thread'', demo_digest) (claimed_review ''thread'' 1 demo_digest) empty_ledger)\<lparr>vl_next_call := 2\<rparr>"

definition ledger2 :: validation_ledger where
  "ledger2 = (put_call (''thread'', demo_digest) (started_review ''thread'' 1 demo_digest) ledger1)
     \<lparr>vl_grants := [review_grant (review_attempt demo_digest)],
      vl_active := [(review_attempt demo_digest, 0, ''thread'', demo_digest)]\<rparr>"

definition ledger3 :: validation_ledger where
  "ledger3 = (put_call (''thread'', demo_digest) (sent_review ''thread'' 1 demo_digest) (ledger2\<lparr>vl_active := []\<rparr>))
     \<lparr>vl_grants := [(review_grant (review_attempt demo_digest))\<lparr>vg_consumed := True\<rparr>]\<rparr>"

definition closed_review :: call_state where
  "closed_review = (charged 7 5 74 4 (sent_review ''thread'' 1 demo_digest))
     \<lparr>cs_completed := [review_projection 1 1], cs_status := Call_Completed\<rparr>"

definition ledger4 :: validation_ledger where
  "ledger4 = (put_call (''thread'', demo_digest) closed_review ledger3)\<lparr>vl_next_validation := 2\<rparr>"

lemma review_step1:
  "claim_or_replay demo_primitives demo_settings (review_call ''thread'') 0 demo_digest empty_ledger
    = Inr (ledger1, claimed_result (claimed_review ''thread'' 1 demo_digest))"
  using review_claimed [of "''thread''" empty_ledger demo_digest]
  by (simp add: utf8_valid_ascii digest_points ledger1_def)

lemma ledger1_simps [simp]:
  "call_at ledger1 = [(''thread'', demo_digest) \<mapsto> claimed_review ''thread'' 1 demo_digest]"
  "vl_active ledger1 = []" "vl_grants ledger1 = []" "vl_next_validation ledger1 = 1"
  by (simp_all add: ledger1_def)

lemma review_step2:
  "mark_attempt_started (\<lambda>s. s) (review_admission ''thread'' 1 demo_digest) 1 0 (Inr ()) ledger1 = Inr (ledger2, 0)"
  using review_started [of ledger1 "''thread''" 1 demo_digest "\<lambda>s. s"]
  by (simp add: ledger2_def review_attempt_def)

lemma ledger2_simps [simp]:
  "call_at ledger2 = [(''thread'', demo_digest) \<mapsto> started_review ''thread'' 1 demo_digest]"
  "vl_active ledger2 = [(review_attempt demo_digest, 0, ''thread'', demo_digest)]"
  "vl_grants ledger2 = [review_grant (review_attempt demo_digest)]" "vl_next_validation ledger2 = 1"
  by (simp_all add: ledger2_def)

lemma review_step3: "dispatch_prepared review_prepared (Some 0) 2 1 ledger2 = (ledger3, Inr 60)"
  using review_sent [of ledger2 "''thread''" 1 demo_digest 0 "review_attempt demo_digest"]
  by (simp add: ledger3_def sent_review_def)

lemma ledger3_simps [simp]:
  "call_at ledger3 = [(''thread'', demo_digest) \<mapsto> sent_review ''thread'' 1 demo_digest]"
  "vl_active ledger3 = []" "vl_next_validation ledger3 = 1"
  "vl_calls ledger3 = [((''thread'', demo_digest), sent_review ''thread'' 1 demo_digest)]"
  by (simp_all add: ledger3_def ledger2_def ledger1_def put_call_def)

lemma review_step4:
  "complete_call (review_context ''thread'' 1 demo_digest)
     (batch_completion_of (review_context ''thread'' 1 demo_digest) review_job [review_answer] review_usage) 3 4 ledger3
    = Inr (ledger4, [review_projection 1 1])"
  using review_completes [of ledger3 "''thread''" 1 demo_digest]
  by (simp add: review_decided other_obligations_def ledger4_def closed_review_def)

lemma review_executed:
  "execute review_ops review_world review_job empty_ledger
    = (ledger4, Inr \<lparr>oo_disposition = Orchestrated_Completed, oo_call_id = 1, oo_completed = [review_projection 1 1],
        oo_reason = None\<rparr>)"
proof -
  have j: "bt_claim review_job = review_call ''thread''" "bt_invocation review_job = review_prepared"
    "bt_policy review_job = [review_input]"
    "va_thread (bt_admission review_job) = ''thread''" "va_fingerprint (bt_admission review_job) = demo_digest"
    "(bt_admission review_job)\<lparr>va_call_id := 1, va_lease_token := demo_digest\<rparr> = review_admission ''thread'' 1 demo_digest"
    by (simp_all add: review_job_def review_admission_def review_guard_def batch_admission_def)
  let ?r = "claimed_result (claimed_review ''thread'' 1 demo_digest)"
  have r: "co_disposition ?r = Newly_Claimed" "co_call_id ?r = 1" "co_lease_token ?r = Some demo_digest"
    by (simp_all add: claimed_result_def claimed_review_def)
  have inv: "invoke_prepared review_ops review_world review_prepared 0 ledger2 = (ledger3, Inr ([review_answer], review_usage))"
    using review_parsed by (simp add: invoke_prepared_def review_step3 validator_answer_def review_world_def)
  have "finish_execution review_ops review_job (review_context ''thread'' 1 demo_digest) (Inr ([review_answer], review_usage))
      ledger3 = (ledger4, Inr \<lparr>oo_disposition = Orchestrated_Completed, oo_call_id = 1,
        oo_completed = [review_projection 1 1], oo_reason = None\<rparr>)"
    by (simp add: finish_execution_def j review_step4 keep_def) (simp add: review_context_def)
  then have "run_claimed review_ops review_world review_job 1 demo_digest ledger1 = (ledger4, Inr
      \<lparr>oo_disposition = Orchestrated_Completed, oo_call_id = 1, oo_completed = [review_projection 1 1],
        oo_reason = None\<rparr>)"
    by (simp add: run_claimed_def j review_step2 keep_def inv flip: review_context_def)
  then show ?thesis
    by (simp add: execute_def j review_step1 keep_def r)
qed

section \<open>Witnesses\<close>

theorem partition_is_complete_and_bounded_witness:
  "\<exists>bins hs. partition_of [review_candidate] bins hs \<lparr>pt_batches = [review_job], pt_human_only = []\<rparr>"
  by (rule partition_is_complete_and_bounded [OF review_partition]) simp

theorem auto_approval_is_justified_witness:
  "eligible_guards review_eligibility
    \<and> (\<exists>i. direct_support [''title'', ''result_summary''] (vf_candidate_evidence review_prepared ! i) review_answer)"
proof -
  have "\<exists>c i v rs u. c \<in> set [review_candidate] \<and> i < length rs
    \<and> cv_review_item_id (review_projection 1 1) = review_item_of c
    \<and> vb_candidates (bt_claim review_job) ! i = pp_claim c
    \<and> eligible_guards review_eligibility \<and> el_visible_targets review_eligibility = []
    \<and> vi_identity (pp_policy c) = supported_validation_identity \<and> vi_state_matches (pp_policy c)
    \<and> vw_reply review_world = Some v
    \<and> parse_provider_result (vw_heap review_world) (bt_invocation review_job) v = Inr (rs, u)
    \<and> cv_result (review_projection 1 1) = rs ! i
    \<and> direct_support (vi_claim_fields (pp_policy c)) (vf_candidate_evidence (bt_invocation review_job) ! i)
        (cv_result (review_projection 1 1))"
    by (rule auto_approval_is_justified [OF review_partition _ review_executed [unfolded review_ops_def]])
      (simp_all add: review_projection_def review_input_def review_eligible)
  then show ?thesis
    by (auto simp: review_input_def review_job_def review_projection_def)
qed

lemma review_run2: "validation_run demo_primitives demo_settings (\<lambda>s. s) empty_ledger ledger2"
  by (rule converse_rtranclp_into_rtranclp, rule validation_step.step_claim [OF review_step1], rule r_into_rtranclp,
        rule validation_step.step_mark [OF review_step2])

lemma review_run4: "validation_run demo_primitives demo_settings (\<lambda>s. s) empty_ledger ledger4"
  by (rule rtranclp.rtrancl_into_rtrancl, rule rtranclp.rtrancl_into_rtrancl, rule review_run2,
      rule validation_step.step_dispatch [OF review_step3], rule validation_step.step_complete [OF review_step4])

text \<open>A second call, claimed and started after the first was sent.\<close>

definition other_token :: string where
  "other_token = replicate 64 CHR ''b''"

definition other_claimed :: validation_ledger where
  "other_claimed = (put_call (''other'', demo_digest) (claimed_review ''other'' 2 other_token) ledger3)\<lparr>vl_next_call := 3\<rparr>"

definition other_started :: validation_ledger where
  "other_started = (put_call (''other'', demo_digest) (started_review ''other'' 2 other_token) other_claimed)
     \<lparr>vl_grants := vl_grants ledger3 @ [review_grant (review_attempt other_token)],
      vl_active := [(review_attempt other_token, 1, ''other'', demo_digest)]\<rparr>"

lemma other_points: "code_points other_token = 64"
  by code_simp

lemma ledger3_more [simp]: "vl_next_call ledger3 = 2" "length (vl_grants ledger3) = 1"
  by (simp_all add: ledger3_def ledger2_def ledger1_def)

lemma other_step1:
  "claim_or_replay demo_primitives demo_settings (review_call ''other'') 0 other_token ledger3
    = Inr (other_claimed, claimed_result (claimed_review ''other'' 2 other_token))"
  using review_claimed [of "''other''" ledger3 other_token]
  by (simp add: utf8_valid_ascii other_points other_claimed_def)

lemma other_step2:
  "mark_attempt_started (\<lambda>s. s) (review_admission ''other'' 2 other_token) 1 0 (Inr ()) other_claimed
    = Inr (other_started, 1)"
  using review_started [of other_claimed "''other''" 2 other_token "\<lambda>s. s"]
  by (simp add: other_started_def review_attempt_def) (simp add: other_claimed_def)

lemma other_step3: "\<exists>L. dispatch_prepared review_prepared (Some 1) 2 1 other_started = (L, Inr 60)"
  using review_sent [of other_started "''other''" 2 other_token 1 "review_attempt other_token"]
  by (simp add: other_started_def nth_append)

theorem validation_sent_at_most_once_witness: "grant_call ledger2 0 \<noteq> grant_call other_started 1"
proof -
  have later: "validation_run demo_primitives demo_settings (\<lambda>s. s) ledger3 other_started"
    by (rule converse_rtranclp_into_rtranclp, rule validation_step.step_claim [OF other_step1], rule r_into_rtranclp,
        rule validation_step.step_mark [OF other_step2])
  obtain L where again: "dispatch_prepared review_prepared (Some 1) 2 1 other_started = (L, Inr 60)"
    using other_step3 by blast
  show ?thesis using validation_sent_at_most_once [OF review_run2 review_step3 later again] by blast
qed

theorem completed_call_is_accounted_witness:
  "completed_call closed_review \<and> (\<exists>r. claim_or_replay demo_primitives demo_settings (cs_request closed_review) 5 [] ledger4
     = Inr (ledger4, r) \<and> co_completed r = [review_projection 1 1])"
proof -
  have s: "call_at ledger4 (''thread'', demo_digest) = Some closed_review" "cs_status closed_review = Call_Completed"
    "cs_completed closed_review = [review_projection 1 1]"
    by (simp_all add: ledger4_def closed_review_def)
  show ?thesis
    using completed_call_is_accounted [OF review_run4 s(1,2) rtranclp.rtrancl_refl, of 5 "[]"] s(3) by auto
qed

section \<open>Where the ledger is laxer than the database store\<close>

text \<open>
  A call that was cancelled before its start, and so closed at no charge, can still be started and sent:
  \<open>mark_attempt_started\<close> does not look at the status.
\<close>

definition cancelled_review :: call_state where
  "cancelled_review = failed_call R_post_validation_drift 0 0 0 1 (claimed_review ''thread'' 1 demo_digest)"

definition restarted_review :: call_state where
  "restarted_review = cancelled_review\<lparr>cs_attempts := 1, cs_started := Some 1, cs_lease_expires := 90000001\<rparr>"

definition cancelled_ledger :: validation_ledger where
  "cancelled_ledger = put_call (''thread'', demo_digest) cancelled_review ledger1"

definition restarted_ledger :: validation_ledger where
  "restarted_ledger = (put_call (''thread'', demo_digest) restarted_review cancelled_ledger)
     \<lparr>vl_grants := [review_grant (review_attempt demo_digest)],
      vl_active := [(review_attempt demo_digest, 0, ''thread'', demo_digest)]\<rparr>"

theorem cancelled_call_can_be_sent:
  "cancel_call (review_context ''thread'' 1 demo_digest) 1 ledger1 = Inr cancelled_ledger
   \<and> mark_attempt_started (\<lambda>s. s) (review_admission ''thread'' 1 demo_digest) 1 0 (Inr ()) cancelled_ledger
       = Inr (restarted_ledger, 0)
   \<and> (\<exists>L s. dispatch_prepared review_prepared (Some 0) 2 1 restarted_ledger = (L, Inr 60)
        \<and> call_at L (''thread'', demo_digest) = Some s \<and> cs_status s = Call_Failed \<and> cs_cost s = 0
        \<and> cs_dispatched s)"
proof (intro conjI)
  show "cancel_call (review_context ''thread'' 1 demo_digest) 1 ledger1 = Inr cancelled_ledger"
    by (simp add: cancel_call_def locked_state_def context_key_def review_context_def cancelled_ledger_def
        cancelled_review_def) (simp add: claimed_review_def)
next
  have a: "va_thread (review_admission ''thread'' 1 demo_digest) = ''thread''"
    "va_fingerprint (review_admission ''thread'' 1 demo_digest) = demo_digest"
    "va_call_id (review_admission ''thread'' 1 demo_digest) = 1"
    "va_lease_token (review_admission ''thread'' 1 demo_digest) = demo_digest"
    "va_timeout (review_admission ''thread'' 1 demo_digest) = 60"
    "va_send_window (review_admission ''thread'' 1 demo_digest) = 5"
    "va_attempt_lease (review_admission ''thread'' 1 demo_digest) = 90"
    by (simp_all add: review_admission_def batch_admission_def review_guard_def)
  have c: "cs_call_id cancelled_review = 1" "cs_lease_token cancelled_review = demo_digest"
    "cs_attempts cancelled_review = 0" "cs_lease_expires cancelled_review = 90000000"
    by (simp_all add: cancelled_review_def failed_call_def charged_def claimed_review_def)
  have "admission_matches cancelled_review (review_admission ''thread'' 1 demo_digest)"
    using review_admitted [of "''thread''" 1 demo_digest]
    by (simp add: admission_matches_def cancelled_review_def)
  then show "mark_attempt_started (\<lambda>s. s) (review_admission ''thread'' 1 demo_digest) 1 0 (Inr ()) cancelled_ledger
       = Inr (restarted_ledger, 0)"
    by (simp add: mark_attempt_started_def a c Let_def seconds_def restarted_ledger_def restarted_review_def
        cancelled_ledger_def review_grant_def review_attempt_def)
next
  have "\<not> dispatch_changed restarted_review review_prepared 2"
    by (simp add: dispatch_changed_def restarted_review_def cancelled_review_def failed_call_def charged_def
        claimed_review_def)
  then show "\<exists>L s. dispatch_prepared review_prepared (Some 0) 2 1 restarted_ledger = (L, Inr 60)
      \<and> call_at L (''thread'', demo_digest) = Some s \<and> cs_status s = Call_Failed \<and> cs_cost s = 0 \<and> cs_dispatched s"
    by (simp add: dispatch_prepared_def restarted_ledger_def Let_def consume_permit_def review_grant_def)
      (simp add: restarted_review_def cancelled_review_def failed_call_def charged_def)
qed

text \<open>
  A failure reported with a usage beyond the reservation is charged, but neither recorded as an overrun nor
  does it open the breaker.
\<close>

theorem failure_over_reservation_keeps_breaker:
  "\<exists>L s. fail_call (review_context ''thread'' 1 demo_digest)
       (locked_context.extend (review_context ''thread'' 1 demo_digest)
         \<lparr>bf_reason = R_validator_malformed, bf_usage_known = True, bf_input = Some 6000, bf_output = Some 3072\<rparr>)
       4 ledger3 = Inr L
     \<and> call_at L (''thread'', demo_digest) = Some s \<and> vb_reserved_cost (cs_request s) < cs_cost s
     \<and> \<not> cs_overrun s \<and> \<not> vl_breaker L"
proof -
  let ?f = "locked_context.extend (review_context ''thread'' 1 demo_digest)
    \<lparr>bf_reason = R_validator_malformed, bf_usage_known = True, bf_input = Some 6000, bf_output = Some 3072\<rparr>"
  have s: "locked_state (review_context ''thread'' 1 demo_digest) ledger3 = Inr (sent_review ''thread'' 1 demo_digest)"
    "context_key (review_context ''thread'' 1 demo_digest) = (''thread'', demo_digest)"
    by (simp_all add: locked_state_def context_key_def review_context_def)
  have "\<not> vl_breaker ledger3" "\<not> cs_overrun (sent_review ''thread'' 1 demo_digest)"
    by (simp_all add: ledger3_def ledger2_def ledger1_def empty_ledger_def sent_review_def started_review_def
        claimed_review_def)
  moreover have "locked_context.truncate ?f = review_context ''thread'' 1 demo_digest"
    "bf_reason ?f = R_validator_malformed" "bf_usage_known ?f" "bf_input ?f = Some 6000" "bf_output ?f = Some 3072"
    by (simp_all add: locked_context.defs review_context_def)
  ultimately show ?thesis
    unfolding fail_call_def s then_r.simps Let_def
    by (simp add: s maximum_cost_def ceil_div_def) (simp add: failed_call_def charged_def)
qed

end
