(* ===== verification/Trusted_Projection.thy ===== *)
theory Trusted_Projection
  imports Auto_Review_Eligibility "HOL-Library.Product_Lexorder"
begin

text \<open>
  \<open>knowledge/trusted_fingerprint_projection.py\<close>: the projected table of fingerprints that answers whether a
  candidate collides with approved knowledge, and the two keyed summaries (a count and a sum of row digests
  modulo \<open>2 ^ 256\<close>) that are kept up to date row by row and decide, with the generation of the key, whether
  the table may be trusted. One call is one transaction. The creation and update times of the rows, which
  nothing here reads, are left out.
\<close>

section \<open>Summaries\<close>

text \<open>
  \<open>int(value, 16)\<close> on an ASCII string: white space around, a sign, a \<open>0x\<close>, and digits which single
  underscores may separate.
\<close>

definition ascii_space :: "char \<Rightarrow> bool" where
  "ascii_space c \<longleftrightarrow> c \<in> set [CHR 0x09, CHR 0x0A, CHR 0x0B, CHR 0x0C, CHR 0x0D, CHR '' '']"

fun read_hex_tail :: "nat \<Rightarrow> string \<Rightarrow> nat option" where
  "read_hex_tail n [] = Some n"
| "read_hex_tail n (c # s) =
     (if c = CHR ''_''
      then (case s of [] \<Rightarrow> None
            | d # t \<Rightarrow> (case hex_value d of None \<Rightarrow> None | Some v \<Rightarrow> read_hex_tail (16 * n + v) t))
      else (case hex_value c of None \<Rightarrow> None | Some v \<Rightarrow> read_hex_tail (16 * n + v) s))"

definition int_base16 :: "string \<Rightarrow> int option" where
  "int_base16 value =
     (let s = rev (dropWhile ascii_space (rev (dropWhile ascii_space value)));
          negative = prefix ''-'' s;
          u = (if negative \<or> prefix ''+'' s then drop 1 s else s);
          v = (if prefix ''0x'' u \<or> prefix ''0X'' u then removeprefix ''_'' (drop 2 u) else u)
      in case v of [] \<Rightarrow> None
         | c # t \<Rightarrow> (case hex_value c of None \<Rightarrow> None
                    | Some d \<Rightarrow> map_option (\<lambda>n. if negative then - int n else int n) (read_hex_tail d t)))"

text \<open>
  \<open>_checksum_int\<close>; a value beyond ASCII, which no digest and no checksum is, is refused here (Python would
  read decimal digits of other scripts).
\<close>

definition checksum_int :: "string \<Rightarrow> int result" where
  "checksum_int value =
     (let err = Inl (Value_Error ''projection checksum must be 64 lowercase hex characters'') in
      if code_points value \<noteq> 64 \<or> (\<exists>c \<in> set value. c \<in> set ''ABCDEFGHIJKLMNOPQRSTUVWXYZ'' \<or> digit7 c)
      then err
      else case int_base16 value of None \<Rightarrow> err | Some n \<Rightarrow> Inr n)"

definition checksum_modulus :: int where
  "checksum_modulus = 2 ^ 256"

definition zero_checksum :: string where
  "zero_checksum = replicate 64 (CHR ''0'')"

text \<open>\<open>f'{checksum:064x}'\<close> of a number below the modulus.\<close>

definition hex64 :: "int \<Rightarrow> string" where
  "hex64 n = map (\<lambda>i. hex_digit (nat n div 16 ^ (63 - i) mod 16)) [0..<64]"

record projection_summary =
  sm_count :: int
  sm_checksum :: string

definition make_projection_summary :: "int \<Rightarrow> string \<Rightarrow> projection_summary result" where
  "make_projection_summary active_count checksum_hex =
     (if active_count < 0 then Inl (Value_Error ''projection summary count cannot be negative'')
      else then_r (checksum_int checksum_hex) (\<lambda>_.
        Inr \<lparr>sm_count = active_count, sm_checksum = checksum_hex\<rparr>))"

text \<open>\<open>ProjectionSummaryDelta.apply\<close>.\<close>

definition apply_delta :: "string option \<Rightarrow> string option \<Rightarrow> projection_summary \<Rightarrow> projection_summary result" where
  "apply_delta old_digest new_digest s =
     then_r (checksum_int (sm_checksum s)) (\<lambda>checksum.
     then_r (case old_digest of None \<Rightarrow> Inr (sm_count s, checksum)
             | Some d \<Rightarrow> then_r (checksum_int d) (\<lambda>n.
                 Inr (sm_count s - 1, (checksum - n) mod checksum_modulus))) (\<lambda>(count, checksum).
     then_r (case new_digest of None \<Rightarrow> Inr (count, checksum)
             | Some d \<Rightarrow> then_r (checksum_int d) (\<lambda>n.
                 Inr (count + 1, (checksum + n) mod checksum_modulus))) (\<lambda>(count, checksum).
       if count < 0 then Inl (Value_Error ''projection summary delta removes a missing row'')
       else make_projection_summary count (hex64 checksum))))"

section \<open>Rows\<close>

record projection_row =
  fp_type :: string
  fp_id :: int
  fp_resolution :: string
  fp_scope :: "string option"
  fp_project_hmac :: string
  fp_title_bucket :: string
  fp_claim :: "string option"
  fp_permission :: string
  fp_status :: string
  fp_key_version :: string
  fp_verifier :: string

text \<open>\<open>ProjectionRowSnapshot.__post_init__\<close>, of the fields given; \<open>not scope\<close> holds of \<open>None\<close> and of \<open>''\<close>.\<close>

definition make_projection_row :: "projection_row \<Rightarrow> projection_row result" where
  "make_projection_row r =
     (if \<not> reusable_type (fp_type r) then Inl (Value_Error ''projection supports Timeline and History only'')
      else if fp_id r \<le> 0 then Inl (Value_Error ''projection knowledge id must be positive'')
      else if fp_resolution r \<notin> set [''exact'', ''legacy_unknown'']
      then Inl (Value_Error ''projection scope resolution is invalid'')
      else if fp_resolution r = ''exact'' \<and> (fp_scope r = None \<or> fp_scope r = Some [])
      then Inl (Value_Error ''exact projection scope requires an id'')
      else if fp_resolution r = ''legacy_unknown'' \<and> (fp_scope r \<noteq> None \<or> fp_claim r \<noteq> None)
      then Inl (Value_Error ''legacy-unknown projection is collision-only'')
      else Inr r)"

definition projection_schema :: string where
  "projection_schema = ''trusted-fingerprint-projection:v1''"

definition projection_row_digest :: "primitives \<Rightarrow> rag_settings \<Rightarrow> projection_row \<Rightarrow> string result" where
  "projection_row_digest P st r =
     then_r (fingerprint_secret_bytes st) (\<lambda>(secret, configured_version).
       if fp_key_version r \<noteq> configured_version
       then Inl (Value_Error ''projection row key version does not match settings'')
       else keyed_fingerprint P secret projection_schema ''trusted-fingerprint-summary-row:v1''
         (JObj [(''projection_schema_version'', JStr projection_schema),
                (''knowledge_type'', JStr (fp_type r)), (''knowledge_id'', JInt (fp_id r)),
                (''scope_resolution'', JStr (fp_resolution r)), (''security_scope_id'', json_opt (fp_scope r)),
                (''project_scope_hmac'', JStr (fp_project_hmac r)),
                (''normalized_title_bucket_hmac'', JStr (fp_title_bucket r)),
                (''normalized_claim_fingerprint'', json_opt (fp_claim r)),
                (''permission_level'', JStr (fp_permission r)), (''review_status'', JStr (fp_status r)),
                (''fingerprint_key_version'', JStr (fp_key_version r)),
                (''fingerprint_key_material_verifier'', JStr (fp_verifier r))]))"

definition row_key :: "projection_row \<Rightarrow> string \<times> int" where
  "row_key r = (fp_type r, fp_id r)"

fun summary_loop :: "primitives \<Rightarrow> rag_settings \<Rightarrow> (string \<times> int) list \<Rightarrow> projection_summary \<Rightarrow> projection_row list
    \<Rightarrow> projection_summary result" where
  "summary_loop P st seen s [] = Inr s"
| "summary_loop P st seen s (r # rs) =
     (if row_key r \<in> set seen then Inl (Value_Error ''projection summary contains duplicate target rows'')
      else then_r (projection_row_digest P st r) (\<lambda>d.
           then_r (apply_delta None (Some d) s) (\<lambda>s'. summary_loop P st (row_key r # seen) s' rs)))"

definition summary_for_rows :: "primitives \<Rightarrow> rag_settings \<Rightarrow> projection_row list \<Rightarrow> projection_summary result" where
  "summary_for_rows P st rows =
     then_r (make_projection_summary 0 zero_checksum) (\<lambda>s. summary_loop P st [] s rows)"

section \<open>The stored state\<close>

text \<open>\<open>AutoReviewRuntimeKeyState\<close> and \<open>TrustedKnowledgeFingerprintProjectionState\<close>.\<close>

record key_state =
  ks_version :: string
  ks_verifier :: string
  ks_generation :: int
  ks_ready :: bool

record projection_state =
  pt_schema :: string
  pt_version :: string
  pt_verifier :: string
  pt_generation :: int
  pt_ready :: bool
  pt_source_count :: int
  pt_source_checksum :: "string option"
  pt_projected_count :: int
  pt_projected_checksum :: "string option"
  pt_rebuild_required :: bool
  pt_completed :: bool

text \<open>The columns of \<open>history_events\<close> and \<open>timeline_events\<close> that are projected; the text is the reason of a
  history event and the result summary of a timeline event.\<close>

record source_row =
  kn_id :: int
  kn_title :: string
  kn_text :: string
  kn_project_key :: "string option"
  kn_permission :: string
  kn_status :: string
  kn_review_item :: "int option"

text \<open>\<open>pd_items\<close> gives the workflow of a review item, \<open>pd_threads\<close> the security scope of a workflow, and
  \<open>pd_postgres\<close> whether the database is PostgreSQL.\<close>

record projection_db =
  pd_postgres :: bool
  pd_runtime :: "key_state option"
  pd_state :: "projection_state option"
  pd_rows :: "projection_row list"
  pd_histories :: "source_row list"
  pd_timelines :: "source_row list"
  pd_items :: "int \<rightharpoonup> string option"
  pd_threads :: "string \<rightharpoonup> string"

section \<open>What the knowledge tables ask for\<close>

definition target_scope :: "projection_db \<Rightarrow> int option \<Rightarrow> string option" where
  "target_scope db review_item_id =
     (case review_item_id of None \<Rightarrow> None
      | Some i \<Rightarrow> (case pd_items db i of
          Some (Some t) \<Rightarrow> pd_threads db t
        | _ \<Rightarrow> None))"

definition source_fields :: "string \<Rightarrow> source_row \<Rightarrow> (string \<times> string option) list" where
  "source_fields t r =
     (if t = ''history_event'' then [(''title'', Some (kn_title r)), (''reason'', Some (kn_text r))]
      else [(''title'', Some (kn_title r)), (''result_summary'', Some (kn_text r))])"

definition source_snapshot :: "primitives \<Rightarrow> rag_settings \<Rightarrow> string \<Rightarrow> projection_db \<Rightarrow> string \<Rightarrow> source_row
    \<Rightarrow> projection_row result" where
  "source_snapshot P st verifier db t r =
     (let scope = target_scope db (kn_review_item r) in
      then_r (trusted_project_scope_fingerprint P st (kn_project_key r)) (\<lambda>project.
      then_r (trusted_title_collision_bucket P st t (kn_title r)) (\<lambda>bucket.
      then_r (case scope of None \<Rightarrow> Inr None
              | Some s \<Rightarrow> then_r (promoted_effect_fingerprint P st t (source_fields t r) (kn_project_key r) s)
                            (\<lambda>c. Inr (Some c))) (\<lambda>claim.
        make_projection_row \<lparr>fp_type = t, fp_id = kn_id r,
          fp_resolution = (if scope = None then ''legacy_unknown'' else ''exact''), fp_scope = scope,
          fp_project_hmac = project, fp_title_bucket = bucket, fp_claim = claim,
          fp_permission = kn_permission r, fp_status = kn_status r,
          fp_key_version = strip (fingerprint_key_version st), fp_verifier = verifier\<rparr>))))"

fun collect_r :: "('a \<Rightarrow> 'b result) \<Rightarrow> 'a list \<Rightarrow> 'b list result" where
  "collect_r f [] = Inr []"
| "collect_r f (x # xs) = then_r (f x) (\<lambda>y. then_r (collect_r f xs) (\<lambda>ys. Inr (y # ys)))"

definition approved_targets :: "projection_db \<Rightarrow> (string \<times> source_row) list" where
  "approved_targets db =
     map (Pair ''history_event'') (sort_key kn_id (filter (\<lambda>r. kn_status r = ''approved'') (pd_histories db)))
     @ map (Pair ''timeline_event'') (sort_key kn_id (filter (\<lambda>r. kn_status r = ''approved'') (pd_timelines db)))"

definition source_projection_snapshots :: "primitives \<Rightarrow> rag_settings \<Rightarrow> string \<Rightarrow> projection_db
    \<Rightarrow> projection_row list result" where
  "source_projection_snapshots P st verifier db =
     then_r (collect_r (\<lambda>(t, r). source_snapshot P st verifier db t r) (approved_targets db))
       (\<lambda>rows. Inr (sort_key row_key rows))"

section \<open>Readiness\<close>

text \<open>\<open>build_missing_active_projection_exists_statement\<close>: whether a row is missing or one is stored in excess.\<close>

definition missing_active_row :: "projection_row list \<Rightarrow> (string \<times> int) list \<Rightarrow> projection_row list \<Rightarrow> bool" where
  "missing_active_row expected_rows excluded rows =
     (let expected = filter (\<lambda>r. row_key r \<notin> set excluded) expected_rows;
          in_scope = (\<lambda>r. row_key r \<notin> set excluded) in
      if expected = [] then (\<exists>r \<in> set rows. in_scope r)
      else (\<exists>r \<in> set expected. r \<notin> set rows) \<or> (\<exists>r \<in> set rows. in_scope r \<and> r \<notin> set expected))"

text \<open>\<open>checksum or _ZERO_CHECKSUM\<close>.\<close>

definition or_zero :: "string option \<Rightarrow> string" where
  "or_zero c = (case c of None \<Rightarrow> zero_checksum | Some s \<Rightarrow> if s = [] then zero_checksum else s)"

definition projection_identity_ready :: "key_state option \<Rightarrow> projection_state option \<Rightarrow> bool \<Rightarrow> bool" where
  "projection_identity_ready runtime projection missing =
     (case (runtime, projection) of
        (Some k, Some p) \<Rightarrow>
          \<not> missing \<and> ks_ready k \<and> pt_ready p \<and> \<not> pt_rebuild_required p
          \<and> pt_schema p = projection_schema \<and> pt_version p = ks_version k \<and> pt_verifier p = ks_verifier k
          \<and> pt_generation p = ks_generation k \<and> pt_source_count p = pt_projected_count p
          \<and> or_zero (pt_source_checksum p) = or_zero (pt_projected_checksum p)
      | _ \<Rightarrow> False)"

definition settings_verifier :: "primitives \<Rightarrow> rag_settings \<Rightarrow> string" where
  "settings_verifier P st = key_material_verifier P (fingerprint_secret st)"

definition runtime_is_configured :: "primitives \<Rightarrow> rag_settings \<Rightarrow> key_state option \<Rightarrow> bool" where
  "runtime_is_configured P st runtime =
     (case runtime of None \<Rightarrow> False
      | Some k \<Rightarrow> ks_version k = fingerprint_key_version st \<and> ks_verifier k = settings_verifier P st)"

text \<open>\<open>answered\<close> is whether the queries return; their \<open>SQLAlchemyError\<close> is caught with the others.\<close>

definition trusted_fingerprint_projection_ready :: "primitives \<Rightarrow> rag_settings \<Rightarrow> bool \<Rightarrow> projection_db \<Rightarrow> bool" where
  "trusted_fingerprint_projection_ready P st answered db =
     (pd_postgres db \<and> answered \<and> runtime_is_configured P st (pd_runtime db)
      \<and> (case source_projection_snapshots P st (settings_verifier P st) db of
           Inl _ \<Rightarrow> False
         | Inr expected \<Rightarrow>
             projection_identity_ready (pd_runtime db) (pd_state db) (missing_active_row expected [] (pd_rows db))))"

section \<open>Collision lookups\<close>

definition in_bucket :: "string \<Rightarrow> string \<Rightarrow> string \<Rightarrow> projection_row \<Rightarrow> bool" where
  "in_bucket t project bucket r \<longleftrightarrow>
     fp_type r = t \<and> fp_project_hmac r = project \<and> fp_title_bucket r = bucket \<and> fp_status r = ''approved''"

text \<open>\<open>build_hidden_collision_exists_statement\<close> and its execution by \<open>hidden_or_legacy_collision_exists\<close>.\<close>

definition hidden_or_legacy_collision_exists :: "projection_row list \<Rightarrow> string \<Rightarrow> string \<Rightarrow> string \<Rightarrow> string
    \<Rightarrow> string list \<Rightarrow> string option \<Rightarrow> bool result" where
  "hidden_or_legacy_collision_exists rows t scope project bucket visible candidate_permission =
     (if \<not> reusable_type t then Inl (Value_Error ''hidden collision lookup type is unsupported'')
      else Inr (\<exists>r \<in> set rows. in_bucket t project bucket r
        \<and> (fp_resolution r = ''legacy_unknown''
           \<or> fp_resolution r = ''exact'' \<and> fp_scope r = Some scope
             \<and> (visible = [] \<or> fp_permission r \<notin> set visible
                \<or> (\<exists>p. candidate_permission = Some p \<and> fp_permission r \<noteq> p)))))"

definition find_visible_trusted_collisions :: "projection_row list \<Rightarrow> string \<Rightarrow> string \<Rightarrow> string \<Rightarrow> string
    \<Rightarrow> string list \<Rightarrow> string \<Rightarrow> (string \<times> int \<times> string) list result" where
  "find_visible_trusted_collisions rows t scope project bucket visible candidate_permission =
     (if \<not> reusable_type t then Inl (Value_Error ''visible collision lookup type is unsupported'')
      else if visible = [] then Inr []
      else Inr (map (\<lambda>r. (fp_type r, fp_id r, the (fp_claim r)))
        (take 3 (sort_key fp_id (filter (\<lambda>r. in_bucket t project bucket r \<and> fp_resolution r = ''exact''
           \<and> fp_scope r = Some scope \<and> fp_permission r \<in> set visible
           \<and> fp_permission r = candidate_permission \<and> fp_claim r \<noteq> None) rows)))))"

text \<open>
  The three answers the eligibility service takes from the projection
  (\<open>load_database_eligibility_context\<close>), in the rows of \<open>Auto_Review_Eligibility\<close>.
\<close>

definition visible_targets :: "projection_db \<Rightarrow> string list \<Rightarrow> string \<Rightarrow> trusted_candidate
    \<Rightarrow> trusted_target list result" where
  "visible_targets db visible permission c =
     then_r (find_visible_trusted_collisions (pd_rows db) (tc_knowledge_type c) (tc_security_scope_id c)
               (tc_project_scope_hmac c) (tc_title_bucket_hmac c) visible permission)
       (collect_r (\<lambda>(t, i, claim). make_trusted_target t i claim))"

definition with_projection :: "primitives \<Rightarrow> rag_settings \<Rightarrow> bool \<Rightarrow> projection_db \<Rightarrow> string list \<Rightarrow> review_item
    \<Rightarrow> eligibility_rows \<Rightarrow> eligibility_rows" where
  "with_projection P st answered db visible it d =
     d\<lparr>dr_security_scope_id := (case ri_workflow_thread_id it of None \<Rightarrow> None | Some t \<Rightarrow> pd_threads db t),
       dr_projection_ready := trusted_fingerprint_projection_ready P st answered db,
       dr_visible := visible_targets db visible (ri_permission_level it),
       dr_hidden := (\<lambda>c. hidden_or_legacy_collision_exists (pd_rows db) (tc_knowledge_type c)
         (tc_security_scope_id c) (tc_project_scope_hmac c) (tc_title_bucket_hmac c) visible
         (Some (ri_permission_level it)))\<rparr>"

section \<open>Approved effects\<close>

record promotion_effect =
  pe_type :: string
  pe_id :: int
  pe_claim :: string

text \<open>\<open>ready = False\<close>, \<open>rebuild_required = True\<close>, \<open>completed_at = None\<close>.\<close>

definition demoted :: "projection_db \<Rightarrow> projection_db" where
  "demoted db = db\<lparr>pd_state := map_option
     (\<lambda>p. p\<lparr>pt_ready := False, pt_rebuild_required := True, pt_completed := False\<rparr>) (pd_state db)\<rparr>"

definition started_healthy :: "primitives \<Rightarrow> rag_settings \<Rightarrow> promotion_effect list \<Rightarrow> bool \<Rightarrow> projection_db \<Rightarrow> bool" where
  "started_healthy P st effects new_target_effects db =
     (let excluded = (if new_target_effects then map (\<lambda>e. (pe_type e, pe_id e)) effects else []);
          missing = (case pd_runtime db of None \<Rightarrow> True
            | Some k \<Rightarrow> \<not> pd_postgres db
                \<or> (case source_projection_snapshots P st (ks_verifier k) db of Inl _ \<Rightarrow> True
                   | Inr expected \<Rightarrow> missing_active_row expected excluded (pd_rows db)))
      in pd_postgres db \<and> projection_identity_ready (pd_runtime db) (pd_state db) missing
         \<and> runtime_is_configured P st (pd_runtime db))"

definition put_row :: "projection_row \<Rightarrow> projection_row list \<Rightarrow> projection_row list" where
  "put_row r rows =
     (if row_key r \<in> set (map row_key rows) then map (\<lambda>x. if row_key x = row_key r then r else x) rows
      else rows @ [r])"

definition apply_to_state :: "string option \<Rightarrow> string \<Rightarrow> projection_state \<Rightarrow> projection_state result" where
  "apply_to_state old_digest new_digest p =
     then_r (make_projection_summary (pt_source_count p) (or_zero (pt_source_checksum p))) (\<lambda>source.
     then_r (make_projection_summary (pt_projected_count p) (or_zero (pt_projected_checksum p))) (\<lambda>projected.
     then_r (apply_delta old_digest (Some new_digest) source) (\<lambda>source'.
     then_r (apply_delta old_digest (Some new_digest) projected) (\<lambda>projected'.
       Inr (p\<lparr>pt_source_count := sm_count source', pt_source_checksum := Some (sm_checksum source'),
              pt_projected_count := sm_count projected',
              pt_projected_checksum := Some (sm_checksum projected')\<rparr>)))))"

definition effect_snapshot :: "primitives \<Rightarrow> rag_settings \<Rightarrow> projection_db \<Rightarrow> promotion_effect
    \<Rightarrow> projection_row result" where
  "effect_snapshot P st db e =
     (case List.find (\<lambda>r. kn_id r = pe_id e)
             (if pe_type e = ''history_event'' then pd_histories db else pd_timelines db) of
        None \<Rightarrow> Inl (Value_Error ''projectable trusted target is missing'')
      | Some target \<Rightarrow>
        (case target_scope db (kn_review_item target) of
           None \<Rightarrow> Inl (Value_Error ''new trusted target scope is missing'')
         | Some scope \<Rightarrow>
           then_r (trusted_project_scope_fingerprint P st (kn_project_key target)) (\<lambda>project.
           then_r (trusted_title_collision_bucket P st (pe_type e) (kn_title target)) (\<lambda>bucket.
             make_projection_row \<lparr>fp_type = pe_type e, fp_id = kn_id target, fp_resolution = ''exact'',
               fp_scope = Some scope, fp_project_hmac = project, fp_title_bucket = bucket,
               fp_claim = Some (pe_claim e), fp_permission = kn_permission target,
               fp_status = kn_status target, fp_key_version = fingerprint_key_version st,
               fp_verifier = settings_verifier P st\<rparr>))))"

text \<open>
  One round of the loop. An exception leaves what the session has been given so far: the row when it is
  raised after the insertion or the update. The effects of one approval have different targets: the lookup
  of the program sees no row that was added earlier in the loop (its session does not flush by itself), so that a
  repeated target, which no caller gives, would be inserted twice and refused by the flush.
\<close>

definition old_row_digest :: "primitives \<Rightarrow> rag_settings \<Rightarrow> projection_row \<Rightarrow> projection_row list
    \<Rightarrow> string option result" where
  "old_row_digest P st snapshot rows =
     (case List.find (\<lambda>r. row_key r = row_key snapshot) rows of
        None \<Rightarrow> Inr None
      | Some old \<Rightarrow> then_r (make_projection_row old) (\<lambda>old'.
                    then_r (projection_row_digest P st old') (\<lambda>d. Inr (Some d))))"

definition project_row :: "primitives \<Rightarrow> rag_settings \<Rightarrow> bool \<Rightarrow> projection_row \<Rightarrow> projection_db
    \<Rightarrow> projection_db \<times> error option" where
  "project_row P st healthy snapshot db =
     (case old_row_digest P st snapshot (pd_rows db) of
        Inl err \<Rightarrow> (db, Some err)
      | Inr old_digest \<Rightarrow>
        (let db' = db\<lparr>pd_rows := put_row snapshot (pd_rows db)\<rparr> in
         case projection_row_digest P st snapshot of
           Inl err \<Rightarrow> (db', Some err)
         | Inr new_digest \<Rightarrow>
           (case pd_state db of
              None \<Rightarrow> (db', None)
            | Some p \<Rightarrow>
              if \<not> healthy then (db', None)
              else (case apply_to_state old_digest new_digest p of
                Inl err \<Rightarrow> (db', Some err)
              | Inr p' \<Rightarrow> (db'\<lparr>pd_state := Some p'\<rparr>, None)))))"

definition project_effect :: "primitives \<Rightarrow> rag_settings \<Rightarrow> bool \<Rightarrow> promotion_effect \<Rightarrow> projection_db
    \<Rightarrow> projection_db \<times> error option" where
  "project_effect P st healthy e db =
     (if \<not> reusable_type (pe_type e) then (db, None)
      else case effect_snapshot P st db e of
        Inl err \<Rightarrow> (db, Some err)
      | Inr snapshot \<Rightarrow> project_row P st healthy snapshot db)"

fun project_effects :: "primitives \<Rightarrow> rag_settings \<Rightarrow> bool \<Rightarrow> promotion_effect list \<Rightarrow> projection_db
    \<Rightarrow> projection_db \<times> error option" where
  "project_effects P st healthy [] db = (db, None)"
| "project_effects P st healthy (e # es) db =
     (case project_effect P st healthy e db of
        (db', Some err) \<Rightarrow> (db', Some err)
      | (db', None) \<Rightarrow> project_effects P st healthy es db')"

text \<open>The flush: a key version longer than its \<open>String(64)\<close> column is refused, with the whole transaction.\<close>

definition flush_rows :: "projection_db \<Rightarrow> projection_db result" where
  "flush_rows db =
     (if \<exists>r \<in> set (pd_rows db). code_points (fp_key_version r) > 64
      then Inl (Persistence_Error ''value too long for column'') else Inr db)"

definition project_approved_effects :: "primitives \<Rightarrow> rag_settings \<Rightarrow> promotion_effect list \<Rightarrow> bool
    \<Rightarrow> projection_db \<Rightarrow> projection_db result" where
  "project_approved_effects P st effects new_target_effects db =
     (if pd_state db = None then Inr db
      else
      let healthy = started_healthy P st effects new_target_effects db in
      case project_effects P st healthy effects db of
        (db', None) \<Rightarrow> flush_rows (if healthy then db' else demoted db')
      | (db', Some err) \<Rightarrow>
          if is_value_error err \<or> (\<exists>m. err = Type_Error m) then flush_rows (demoted db') else Inl err)"

text \<open>\<open>demote_trusted_fingerprint_projection\<close>.\<close>

definition demote_trusted_fingerprint_projection :: "projection_db \<Rightarrow> projection_db" where
  "demote_trusted_fingerprint_projection db = (if pd_state db = None then db else demoted db)"

section \<open>Rebuilding and rotating\<close>

record rebuild_result =
  rr_source_count :: int
  rr_projected_count :: int
  rr_source_checksum :: string
  rr_projected_checksum :: string
  rr_replayed :: bool
  rr_ready :: bool

text \<open>The first transaction of \<open>rebuild_trusted_fingerprint_projection\<close>.\<close>

definition begin_rebuild :: "projection_db \<Rightarrow> projection_db result" where
  "begin_rebuild db =
     (if pd_runtime db = None then Inl (Key_Admin_Error ''runtime_key_state_missing'')
      else case pd_state db of
        None \<Rightarrow> Inl (Key_Admin_Error ''projection_state_missing'')
      | Some p \<Rightarrow> Inr (db\<lparr>pd_state := Some (p\<lparr>pt_ready := False, pt_rebuild_required := True\<rparr>)\<rparr>))"

definition stored_snapshots :: "projection_db \<Rightarrow> projection_row list result" where
  "stored_snapshots db = collect_r make_projection_row (sort_key row_key (pd_rows db))"

text \<open>The second: the rows are replaced by those of the sources and read back.\<close>

definition replace_rows :: "primitives \<Rightarrow> rag_settings \<Rightarrow> projection_db
    \<Rightarrow> (projection_db \<times> rebuild_result) result" where
  "replace_rows P st db =
     (case (pd_runtime db, pd_state db) of
        (None, _) \<Rightarrow> Inl (Key_Admin_Error ''runtime_key_state_missing'')
      | (Some k, None) \<Rightarrow> Inl (Key_Admin_Error ''key_state_missing'')
      | (Some k, Some p) \<Rightarrow>
        then_r (fingerprint_secret_bytes st) (\<lambda>(secret, configured_version).
        let configured_verifier = key_material_verifier P secret in
        if ks_version k \<noteq> configured_version \<or> ks_verifier k \<noteq> configured_verifier
        then Inl (Key_Admin_Error ''runtime_key_identity_mismatch'')
        else
        then_r (stored_snapshots db) (\<lambda>old_rows.
        then_r (source_projection_snapshots P st configured_verifier db) (\<lambda>expected.
        then_r (summary_for_rows P st expected) (\<lambda>expected_summary.
        then_r (flush_rows (db\<lparr>pd_rows := expected\<rparr>)) (\<lambda>db1.
        then_r (stored_snapshots db1) (\<lambda>projected.
        then_r (summary_for_rows P st projected) (\<lambda>projected_summary.
        let missing = (\<not> pd_postgres db1 \<or> missing_active_row expected [] (pd_rows db1));
            ready = (pd_postgres db1 \<and> ks_ready k \<and> expected = projected
                     \<and> expected_summary = projected_summary \<and> \<not> missing);
            p' = p\<lparr>pt_schema := projection_schema, pt_version := ks_version k, pt_verifier := ks_verifier k,
                   pt_generation := ks_generation k, pt_source_count := sm_count expected_summary,
                   pt_projected_count := sm_count projected_summary,
                   pt_source_checksum := Some (sm_checksum expected_summary),
                   pt_projected_checksum := Some (sm_checksum projected_summary),
                   pt_ready := ready, pt_rebuild_required := \<not> ready, pt_completed := ready\<rparr>
        in Inr (db1\<lparr>pd_state := Some p'\<rparr>,
                \<lparr>rr_source_count = sm_count expected_summary, rr_projected_count = sm_count projected_summary,
                 rr_source_checksum = sm_checksum expected_summary,
                 rr_projected_checksum = sm_checksum projected_summary,
                 rr_replayed = (old_rows = expected), rr_ready = ready\<rparr>)))))))))"

text \<open>
  Both transactions; \<open>between\<close> is what other processes do to the database after the first. The database
  keeps what a transaction committed before a later one raises.
\<close>

definition rebuild_trusted_fingerprint_projection :: "primitives \<Rightarrow> rag_settings
    \<Rightarrow> (projection_db \<Rightarrow> projection_db) \<Rightarrow> projection_db \<Rightarrow> projection_db \<times> rebuild_result result" where
  "rebuild_trusted_fingerprint_projection P st between db =
     (case begin_rebuild db of
        Inl err \<Rightarrow> (db, Inl err)
      | Inr db1 \<Rightarrow>
        (case replace_rows P st (between db1) of
           Inl err \<Rightarrow> (between db1, Inl err)
         | Inr (db2, result) \<Rightarrow> (db2, Inr result)))"

text \<open>\<open>FingerprintKeyRing\<close>; secrets are UTF-8 bytes.\<close>

record key_ring =
  kr_current_version :: string
  kr_current_secret :: string
  kr_next_version :: string
  kr_next_secret :: string

definition make_key_ring :: "key_ring \<Rightarrow> key_ring result" where
  "make_key_ring ring =
     (if strip (kr_current_version ring) = [] \<or> strip (kr_next_version ring) = []
      then Inl (Value_Error ''fingerprint key-ring versions are required'')
      else if length (kr_current_secret ring) < 32 \<or> length (kr_next_secret ring) < 32
      then Inl (Value_Error ''fingerprint key-ring material must be at least 32 bytes'')
      else if kr_current_secret ring = kr_next_secret ring
      then Inl (Value_Error ''next fingerprint key material must differ'')
      else Inr ring)"

record rotation_request =
  rq_mode :: string
  rq_expected_version :: string
  rq_next_version :: string
  rq_reason :: string
  rq_principal :: string

definition check_rotation :: "primitives \<Rightarrow> key_ring \<Rightarrow> rotation_request \<Rightarrow> projection_db \<Rightarrow> unit result" where
  "check_rotation P ring q db =
     (if rq_mode q \<noteq> ''disabled'' then Inl (Key_Admin_Error ''auto_review_not_disabled'')
      else if \<not> pd_postgres db then Inl (Key_Admin_Error ''postgresql_required'')
      else if rq_principal q \<noteq> ''system:local-auto-review-key-admin''
      then Inl (Key_Admin_Error ''operator_identity_invalid'')
      else if \<not> (1 \<le> code_points (strip (rq_reason q)) \<and> code_points (strip (rq_reason q)) \<le> 500)
      then Inl (Key_Admin_Error ''reason_invalid'')
      else if kr_current_version ring \<noteq> rq_expected_version q \<or> kr_next_version ring \<noteq> rq_next_version q
              \<or> rq_expected_version q = rq_next_version q
      then Inl (Key_Admin_Error ''key_version_mismatch'')
      else if key_material_verifier P (kr_current_secret ring) = key_material_verifier P (kr_next_secret ring)
      then Inl (Key_Admin_Error ''key_material_unchanged'')
      else Inr ())"

text \<open>The exclusive transaction; \<open>open_calls\<close> counts the claimed extraction and validation calls.\<close>

definition switch_key :: "primitives \<Rightarrow> key_ring \<Rightarrow> rotation_request \<Rightarrow> nat \<Rightarrow> projection_db
    \<Rightarrow> projection_db result" where
  "switch_key P ring q open_calls db =
     (case (pd_runtime db, pd_state db) of
        (None, _) \<Rightarrow> Inl (Key_Admin_Error ''runtime_key_state_missing'')
      | (Some k, None) \<Rightarrow> Inl (Key_Admin_Error ''key_state_missing'')
      | (Some k, Some p) \<Rightarrow>
        (if ks_version k \<noteq> rq_expected_version q
            \<or> ks_verifier k \<noteq> key_material_verifier P (kr_current_secret ring)
         then Inl (Key_Admin_Error ''old_key_identity_mismatch'')
         else if open_calls > 0 then Inl (Key_Admin_Error ''nonterminal_provider_calls'')
         else if code_points (rq_next_version q) > 64
         then Inl (Persistence_Error ''value too long for column'')
         else
         let verifier = key_material_verifier P (kr_next_secret ring);
             generation = ks_generation k + 1
         in Inr (db\<lparr>pd_runtime := Some (k\<lparr>ks_version := rq_next_version q, ks_verifier := verifier,
                                         ks_generation := generation, ks_ready := True\<rparr>),
                   pd_rows := [],
                   pd_state := Some (p\<lparr>pt_schema := projection_schema, pt_version := rq_next_version q,
                     pt_verifier := verifier, pt_generation := generation, pt_ready := False,
                     pt_rebuild_required := True, pt_source_count := 0, pt_projected_count := 0,
                     pt_source_checksum := Some zero_checksum, pt_projected_checksum := Some zero_checksum,
                     pt_completed := False\<rparr>)\<rparr>)))"

definition rotate_fingerprint_key :: "primitives \<Rightarrow> rag_settings \<Rightarrow> key_ring \<Rightarrow> rotation_request \<Rightarrow> nat
    \<Rightarrow> (projection_db \<Rightarrow> projection_db) \<Rightarrow> (projection_db \<Rightarrow> projection_db) \<Rightarrow> projection_db
    \<Rightarrow> projection_db \<times> rebuild_result result" where
  "rotate_fingerprint_key P st ring q open_calls between between_rebuild db =
     (case then_r (check_rotation P ring q db) (\<lambda>_. switch_key P ring q open_calls db) of
        Inl err \<Rightarrow> (db, Inl err)
      | Inr db1 \<Rightarrow>
          rebuild_trusted_fingerprint_projection P
            (st\<lparr>fingerprint_key_version := rq_next_version q, fingerprint_secret := kr_next_secret ring\<rparr>)
            between_rebuild (between db1))"

section \<open>Key administration\<close>

text \<open>\<open>admin/auto_review_keys.py\<close>; \<open>Settings.require_c5_durable_key_ready\<close> of \<open>core/config.py\<close> first.\<close>

definition require_c5_durable_key_ready :: "rag_settings \<Rightarrow> unit result" where
  "require_c5_durable_key_ready st =
     (if strip (fingerprint_key_version st) = [] \<or> fingerprint_secret st = local_fingerprint_secret
         \<or> length (fingerprint_secret st) < 32
      then Inl (Value_Error ''durable C.5 key requires a non-placeholder 32-byte secret and key version'')
      else Inr ())"

record bootstrap_result =
  br_schema_available :: bool
  br_initialized :: bool
  br_ready :: bool

text \<open>
  \<open>ensure_initialized\<close>. \<open>schema\<close> is what \<open>c5_schema_available\<close> finds (\<open>None\<close> for an incomplete schema) and
  \<open>others\<close> whether the other tables retain keyed state; a database that is not PostgreSQL is SQLite.
\<close>

definition ensure_initialized :: "primitives \<Rightarrow> rag_settings \<Rightarrow> string \<Rightarrow> bool option \<Rightarrow> bool \<Rightarrow> projection_db
    \<Rightarrow> (projection_db \<times> bootstrap_result) result" where
  "ensure_initialized P st mode schema others db =
     (case schema of
        None \<Rightarrow> Inl (Key_Bootstrap_Error ''incomplete_c5_schema'')
      | Some False \<Rightarrow> Inr (db, \<lparr>br_schema_available = False, br_initialized = False, br_ready = False\<rparr>)
      | Some True \<Rightarrow>
        (let sqlite_disabled = (\<not> pd_postgres db \<and> mode = ''disabled'');
             key_version = strip (fingerprint_key_version st);
             verifier = settings_verifier P st;
             retained = (others \<or> pd_state db \<noteq> None \<or> pd_rows db \<noteq> []) in
         if \<not> sqlite_disabled \<and> \<not> returns (require_c5_durable_key_ready st)
         then Inl (Key_Bootstrap_Error ''durable_key_not_ready'')
         else case pd_runtime db of
           Some k \<Rightarrow>
             (if ks_version k \<noteq> key_version \<or> ks_verifier k \<noteq> verifier
              then Inl (Key_Bootstrap_Error ''runtime_key_identity_mismatch'')
              else case pd_state db of
                None \<Rightarrow> Inl (Key_Bootstrap_Error ''projection_state_missing'')
              | Some p \<Rightarrow>
                (if pt_version p \<noteq> ks_version k \<or> pt_verifier p \<noteq> ks_verifier k
                    \<or> pt_generation p \<noteq> ks_generation k
                 then Inl (Key_Bootstrap_Error ''projection_key_identity_mismatch'')
                 else Inr (db, \<lparr>br_schema_available = True, br_initialized = False, br_ready = ks_ready k\<rparr>)))
         | None \<Rightarrow>
             (if retained then Inl (Key_Bootstrap_Error ''retained_keyed_state_without_runtime_identity'')
              else if code_points key_version > 64
              then Inl (Persistence_Error ''value too long for column'')
              else Inr (db\<lparr>pd_runtime := Some \<lparr>ks_version = key_version, ks_verifier = verifier,
                                               ks_generation = 1, ks_ready = pd_postgres db\<rparr>,
                          pd_state := Some \<lparr>pt_schema = projection_schema, pt_version = key_version,
                            pt_verifier = verifier, pt_generation = 1, pt_ready = False, pt_source_count = 0,
                            pt_source_checksum = None, pt_projected_count = 0, pt_projected_checksum = None,
                            pt_rebuild_required = True, pt_completed = False\<rparr>\<rparr>,
                        \<lparr>br_schema_available = True, br_initialized = True, br_ready = pd_postgres db\<rparr>))))"

record key_status =
  st_generation :: "int option"
  st_version :: "string option"
  st_runtime_ready :: bool
  st_projection_ready :: bool
  st_rebuild_required :: bool
  st_open_extractions :: nat
  st_open_validations :: nat

text \<open>\<open>_read_locked_status\<close>, of the numbers of claimed calls.\<close>

definition read_locked_status :: "primitives \<Rightarrow> rag_settings \<Rightarrow> nat \<Rightarrow> nat \<Rightarrow> projection_db \<Rightarrow> key_status result" where
  "read_locked_status P st extractions validations db =
     (let identity_ready = (runtime_is_configured P st (pd_runtime db) \<and> ks_ready (the (pd_runtime db))) in
      then_r (case (pd_runtime db, pd_state db) of
                (Some k, Some _) \<Rightarrow>
                  if \<not> pd_postgres db then Inr True
                  else then_r (source_projection_snapshots P st (ks_verifier k) db)
                         (\<lambda>expected. Inr (missing_active_row expected [] (pd_rows db)))
              | _ \<Rightarrow> Inr True) (\<lambda>missing.
        let effective = (identity_ready \<and> projection_identity_ready (pd_runtime db) (pd_state db) missing)
        in Inr \<lparr>st_generation = map_option ks_generation (pd_runtime db),
                st_version = map_option ks_version (pd_runtime db), st_runtime_ready = identity_ready,
                st_projection_ready = effective,
                st_rebuild_required = (case pd_state db of None \<Rightarrow> True
                                       | Some p \<Rightarrow> pt_rebuild_required p \<or> \<not> effective),
                st_open_extractions = extractions, st_open_validations = validations\<rparr>))"

section \<open>Narrowed knowledge\<close>

text \<open>\<open>_PERMISSION_RANK\<close>; an unknown level makes the result the strictest, and \<open>max\<close> keeps the first of equals.\<close>

definition known_permissions :: "string list" where
  "known_permissions = [''public'', ''internal'', ''restricted'']"

definition strictest :: "string \<Rightarrow> string \<Rightarrow> string" where
  "strictest left right =
     (if left \<notin> set known_permissions \<or> right \<notin> set known_permissions then ''restricted''
      else if permission_rank left < permission_rank right then right else left)"

definition strictest_many :: "string list \<Rightarrow> string" where
  "strictest_many levels =
     (if \<exists>l \<in> set levels. l \<notin> set known_permissions then ''restricted''
      else case levels of [] \<Rightarrow> ''restricted'' | l # ls \<Rightarrow> foldl strictest l ls)"

definition canonical_knowledge_type :: "string \<Rightarrow> string" where
  "canonical_knowledge_type t = (if t = ''decision'' then ''decision_record'' else t)"

text \<open>
  \<open>VectorServingLockManager._validate_configured_key\<close> of \<open>rag/serving_locks.py\<close>, which both transactions below
  reach through the lock coordinator before they write: the process has the key of the runtime.
\<close>

definition validate_configured_key :: "primitives \<Rightarrow> rag_settings \<Rightarrow> string \<Rightarrow> string \<Rightarrow> unit result" where
  "validate_configured_key P st key_version material_verifier =
     then_r (fingerprint_secret_bytes st) (\<lambda>(secret, configured_version).
       if configured_version \<noteq> key_version
       then Inl (Type_Error ''Configured vector-serving key version is stale'')
       else if key_material_verifier P secret \<noteq> material_verifier
       then Inl (Type_Error ''Configured vector-serving key material is stale'')
       else Inr ())"

text \<open>The two snapshots of a row, before and after; \<open>_narrow_fingerprint\<close> takes the first one outside its handler.\<close>

definition move_checksums :: "primitives \<Rightarrow> rag_settings \<Rightarrow> projection_row \<Rightarrow> projection_row \<Rightarrow> projection_state
    \<Rightarrow> projection_state result" where
  "move_checksums P st old_snapshot narrowed_row p =
     then_r (projection_row_digest P st old_snapshot) (\<lambda>old_digest.
     then_r (then_r (make_projection_row narrowed_row) (projection_row_digest P st)) (\<lambda>new_digest.
       if pt_ready p \<and> \<not> pt_rebuild_required p
       then then_r (then_r (make_projection_summary (pt_source_count p) (or_zero (pt_source_checksum p)))
                     (apply_delta (Some old_digest) (Some new_digest))) (\<lambda>source.
            then_r (then_r (make_projection_summary (pt_projected_count p) (or_zero (pt_projected_checksum p)))
                     (apply_delta (Some old_digest) (Some new_digest))) (\<lambda>projected.
              Inr (p\<lparr>pt_source_checksum := Some (sm_checksum source),
                     pt_projected_checksum := Some (sm_checksum projected)\<rparr>)))
       else Inr (p\<lparr>pt_ready := False, pt_rebuild_required := True\<rparr>)))"

definition narrow_fingerprint :: "primitives \<Rightarrow> rag_settings \<Rightarrow> string \<Rightarrow> int \<Rightarrow> string \<Rightarrow> projection_db
    \<Rightarrow> (projection_db \<times> bool) result" where
  "narrow_fingerprint P st knowledge_type knowledge_id permission db =
     (case List.find (\<lambda>r. row_key r = (canonical_knowledge_type knowledge_type, knowledge_id)) (pd_rows db) of
        None \<Rightarrow> Inr (db, False)
      | Some row \<Rightarrow>
        (let narrowed = strictest (fp_permission row) permission;
             narrowed_row = row\<lparr>fp_permission := narrowed\<rparr>;
             db' = db\<lparr>pd_rows := put_row narrowed_row (pd_rows db)\<rparr> in
         if narrowed = fp_permission row then Inr (db, False)
         else
         then_r (if reusable_type (fp_type row) then then_r (make_projection_row row) (\<lambda>s. Inr (Some s))
                 else Inr None) (\<lambda>old.
         case (pd_state db, old) of
           (Some p, Some old_snapshot) \<Rightarrow>
             (case move_checksums P st old_snapshot narrowed_row p of
                Inr p' \<Rightarrow> Inr (db'\<lparr>pd_state := Some p'\<rparr>, True)
              | Inl err \<Rightarrow>
                  if is_value_error err \<or> (\<exists>m. err = Type_Error m)
                  then Inr (db'\<lparr>pd_state := Some (p\<lparr>pt_ready := False, pt_rebuild_required := True\<rparr>)\<rparr>, True)
                  else Inl err)
         | _ \<Rightarrow> Inr (db', True))))"

text \<open>
  The targets in the tables that are projected; the permissions of those in the other tables (decisions and
  todos), which no row stands for, are an argument.
\<close>

type_synonym other_targets = "string \<Rightarrow> int \<Rightarrow> string option"

definition target_permission :: "other_targets \<Rightarrow> string \<Rightarrow> int \<Rightarrow> projection_db \<Rightarrow> string option" where
  "target_permission others t i db =
     (if t = ''history_event'' then map_option kn_permission (List.find (\<lambda>r. kn_id r = i) (pd_histories db))
      else if t = ''timeline_event'' then map_option kn_permission (List.find (\<lambda>r. kn_id r = i) (pd_timelines db))
      else others t i)"

definition change_target :: "string \<Rightarrow> int \<Rightarrow> (source_row \<Rightarrow> source_row) \<Rightarrow> projection_db \<Rightarrow> projection_db" where
  "change_target t i f db =
     (let change = map (\<lambda>r. if kn_id r = i then f r else r) in
      if t = ''history_event'' then db\<lparr>pd_histories := change (pd_histories db)\<rparr>
      else if t = ''timeline_event'' then db\<lparr>pd_timelines := change (pd_timelines db)\<rparr>
      else db)"

text \<open>
  What \<open>_narrow_current_effect\<close> does to the projection once the evidence is found current: the target takes the
  strictest of its own permission and those of the link, of the review item and of the source, and its row follows.
\<close>

definition narrow_current_effect :: "primitives \<Rightarrow> rag_settings \<Rightarrow> other_targets \<Rightarrow> string \<Rightarrow> int
    \<Rightarrow> string \<Rightarrow> string \<Rightarrow> string \<Rightarrow> projection_db \<Rightarrow> (projection_db \<times> string) result" where
  "narrow_current_effect P st others t i link_permission item_permission source_permission db =
     (case pd_runtime db of
        None \<Rightarrow> Inl (Runtime_Error ''key runtime unavailable'')
      | Some k \<Rightarrow>
        then_r (validate_configured_key P st (ks_version k) (ks_verifier k)) (\<lambda>_.
        case target_permission others t i db of
          None \<Rightarrow> Inr (db, ''gone'')
        | Some previous \<Rightarrow>
          (let permission = strictest_many [previous, link_permission, item_permission, source_permission];
               changed = (permission \<noteq> previous \<or> permission \<noteq> link_permission \<or> permission \<noteq> item_permission) in
           then_r (narrow_fingerprint P st t i permission
                     (change_target t i (\<lambda>r. r\<lparr>kn_permission := permission\<rparr>) db)) (\<lambda>(db', fingerprint_changed).
             Inr (db', if changed \<or> fingerprint_changed then ''narrowed'' else ''current'')))))"

section \<open>Revoked knowledge\<close>

text \<open>
  \<open>AutoReviewRevokeService\<close>: the loop over the approval links of a revoked review item (the type, the identifier,
  and whether the target has other provenance), and what follows for the targets that are withdrawn.
\<close>

fun revoke_targets :: "other_targets \<Rightarrow> (string \<times> int \<times> bool) list \<Rightarrow> projection_db
    \<Rightarrow> (projection_db \<times> (string \<times> int) list) result" where
  "revoke_targets others [] db = Inr (db, [])"
| "revoke_targets others ((t, i, shared) # links) db =
     (if shared then revoke_targets others links db
      else if target_permission others t i db = None then Inl (Value_Error ''provenance_target_missing'')
      else then_r (revoke_targets others links (change_target t i (\<lambda>r. r\<lparr>kn_status := ''revoked''\<rparr>) db))
             (\<lambda>(db', documents). Inr (db', (canonical_knowledge_type t, i) # documents)))"

definition withdraw_rows :: "(string \<times> int) list \<Rightarrow> projection_db \<Rightarrow> projection_db" where
  "withdraw_rows documents db =
     (if documents = [] then db
      else demoted (db\<lparr>pd_rows := filter (\<lambda>r. row_key r \<notin> set documents) (pd_rows db)\<rparr>))"

definition revoke_effects :: "primitives \<Rightarrow> rag_settings \<Rightarrow> other_targets \<Rightarrow> (string \<times> int \<times> bool) list
    \<Rightarrow> projection_db \<Rightarrow> projection_db result" where
  "revoke_effects P st others links db =
     (case pd_runtime db of
        None \<Rightarrow> Inl (Value_Error ''key_runtime_unavailable'')
      | Some k \<Rightarrow>
        then_r (validate_configured_key P st (ks_version k) (ks_verifier k)) (\<lambda>_.
        then_r (revoke_targets others links db) (\<lambda>(db', documents). Inr (withdraw_rows documents db'))))"

section \<open>Steps\<close>

text \<open>
  A step is one transaction that writes the projected rows, their state or the key of the runtime, of a process with
  settings from \<open>K\<close>, or any change of the knowledge, the review items and the workflows (the identifiers of a table
  are its primary key). The writers are those of \<open>knowledge/trusted_fingerprint_projection.py\<close>,
  \<open>admin/auto_review_keys.py\<close>, \<open>review/auto_review_source_reconciliation.py\<close> and \<open>review/auto_review_revoke.py\<close>;
  the other modules only read the table and its state.
\<close>

definition knowledge_ids_ok :: "projection_db \<Rightarrow> bool" where
  "knowledge_ids_ok db \<longleftrightarrow> distinct (map kn_id (pd_histories db)) \<and> distinct (map kn_id (pd_timelines db))"

inductive projection_step :: "primitives \<Rightarrow> rag_settings set \<Rightarrow> projection_db \<Rightarrow> projection_db \<Rightarrow> bool"
  for P K where
  step_knowledge: "projection_step P K db
      (db\<lparr>pd_histories := histories, pd_timelines := timelines, pd_items := items, pd_threads := threads\<rparr>)"
  if "distinct (map kn_id histories)" and "distinct (map kn_id timelines)"
| step_project: "projection_step P K db db'"
  if "st \<in> K" and "project_approved_effects P st effects new_targets db = Inr db'"
| step_demote: "projection_step P K db (demote_trusted_fingerprint_projection db)"
| step_begin_rebuild: "projection_step P K db db'" if "begin_rebuild db = Inr db'"
| step_replace: "projection_step P K db db'" if "st \<in> K" and "replace_rows P st db = Inr (db', result)"
| step_narrow: "projection_step P K db db'"
  if "st \<in> K" and "narrow_current_effect P st others t i link_permission item_permission source_permission db
    = Inr (db', changed)"
| step_revoke: "projection_step P K db db'" if "st \<in> K" and "revoke_effects P st others links db = Inr db'"
| step_switch: "projection_step P K db db'"
  if "check_rotation P ring q db = Inr ()" and "switch_key P ring q open_calls db = Inr db'"
| step_bootstrap: "projection_step P K db db'"
  if "st \<in> K" and "ensure_initialized P st mode schema others db = Inr (db', outcome)"

text \<open>A database before the key is initialised.\<close>

definition fresh_projection :: "projection_db \<Rightarrow> bool" where
  "fresh_projection db \<longleftrightarrow>
     pd_runtime db = None \<and> pd_state db = None \<and> pd_rows db = [] \<and> knowledge_ids_ok db"

end
