(* ===== verification/Trusted_Projection_Facts.thy ===== *)
theory Trusted_Projection_Facts
  imports Trusted_Projection Auto_Review_Properties Json_Round_Trip
begin

text \<open>
  Facts of \<open>Trusted_Projection\<close>: the summary of a table is a count and a sum, so that it can be kept up to date
  row by row; every transaction keeps the stored summary the one of the stored rows; and a ready projection
  stores exactly the rows the approved knowledge asks for.
\<close>

section \<open>Reading digests\<close>

definition hex_number :: "string \<Rightarrow> nat" where
  "hex_number s = foldl (\<lambda>n c. 16 * n + the (hex_value c)) 0 s"

lemma lower_hex_cases: "lower_hex c \<Longrightarrow> \<exists>n < 16. c = hex_digit n"
proof -
  assume "lower_hex c"
  moreover have "list_all (\<lambda>c. \<exists>n \<in> set [0..<16]. c = hex_digit n) ''0123456789abcdef''" by code_simp
  ultimately show ?thesis by (auto simp: lower_hex_def list_all_iff)
qed

lemma lower_hex_value: "lower_hex c \<Longrightarrow> \<exists>n < 16. hex_value c = Some n"
  using lower_hex_cases hex_value_digit by blast

lemma lower_hex_plain:
  assumes "lower_hex c"
  shows "\<not> ascii_space c" "c \<noteq> CHR ''-''" "c \<noteq> CHR ''+''" "c \<noteq> CHR ''_''" "c \<noteq> CHR ''x''" "c \<noteq> CHR ''X''"
    "\<not> digit7 c" "c \<notin> set ''ABCDEFGHIJKLMNOPQRSTUVWXYZ''" "\<not> utf8_tail (of_char c)"
proof -
  have "list_all (\<lambda>c. \<not> ascii_space c \<and> c \<noteq> CHR ''-'' \<and> c \<noteq> CHR ''+'' \<and> c \<noteq> CHR ''_'' \<and> c \<noteq> CHR ''x''
      \<and> c \<noteq> CHR ''X'' \<and> \<not> digit7 c \<and> c \<notin> set ''ABCDEFGHIJKLMNOPQRSTUVWXYZ'' \<and> \<not> utf8_tail (of_char c))
      ''0123456789abcdef''" by code_simp
  then show "\<not> ascii_space c" "c \<noteq> CHR ''-''" "c \<noteq> CHR ''+''" "c \<noteq> CHR ''_''" "c \<noteq> CHR ''x''" "c \<noteq> CHR ''X''"
    "\<not> digit7 c" "c \<notin> set ''ABCDEFGHIJKLMNOPQRSTUVWXYZ''" "\<not> utf8_tail (of_char c)"
    using assms unfolding lower_hex_def list_all_iff by blast+
qed

lemma read_hex_tail_lower:
  "list_all lower_hex s \<Longrightarrow> read_hex_tail n s = Some (foldl (\<lambda>n c. 16 * n + the (hex_value c)) n s)"
proof (induction s arbitrary: n)
  case (Cons c s)
  then obtain v where "hex_value c = Some v" using lower_hex_value by auto
  then show ?case using Cons lower_hex_plain(4) by auto
qed simp

lemma dropWhile_head: "s \<noteq> [] \<Longrightarrow> \<not> Q (hd s) \<Longrightarrow> dropWhile Q s = s"
  by (cases s) auto

lemma trim_lower:
  assumes "list_all lower_hex s" and "s \<noteq> []"
  shows "rev (dropWhile ascii_space (rev (dropWhile ascii_space s))) = s"
proof -
  have "lower_hex (hd s)" "lower_hex (last s)" using assms by (auto simp: list_all_iff)
  then show ?thesis using assms(2) lower_hex_plain(1) by (simp add: dropWhile_head hd_rev)
qed

lemma int_base16_lower:
  assumes "list_all lower_hex s" and "s \<noteq> []"
  shows "int_base16 s = Some (int (hex_number s))"
proof -
  obtain c t where s: "s = c # t" using assms(2) by (cases s) auto
  have c: "lower_hex c" "list_all lower_hex t" using assms(1) s by auto
  have "lower_hex (last w)" if "prefix w s" "w \<noteq> []" for w
    using assms(1) set_mono_prefix [OF that(1)] last_in_set [OF that(2)] unfolding list_all_iff by blast
  from this [of "''-''"] this [of "''+''"] this [of "''0x''"] this [of "''0X''"]
  have no: "\<not> prefix ''-'' s" "\<not> prefix ''+'' s" "\<not> prefix ''0x'' s" "\<not> prefix ''0X'' s"
    using lower_hex_plain(2,3,5,6) [of "CHR ''-''"] lower_hex_plain(2,3,5,6) [of "CHR ''+''"]
      lower_hex_plain(2,3,5,6) [of "CHR ''x''"] lower_hex_plain(2,3,5,6) [of "CHR ''X''"] by auto
  obtain v where "hex_value c = Some v" using lower_hex_value [OF c(1)] by auto
  moreover have "int_base16 s =
      (case s of [] \<Rightarrow> None
       | c # t \<Rightarrow> (case hex_value c of None \<Rightarrow> None | Some d \<Rightarrow> map_option int (read_hex_tail d t)))"
    unfolding int_base16_def trim_lower [OF assms] Let_def
    by (simp only: no if_False simp_thms)
  ultimately show ?thesis by (simp add: s hex_number_def read_hex_tail_lower [OF c(2)])
qed

lemma code_points_lower: "list_all lower_hex s \<Longrightarrow> code_points s = length s"
  unfolding code_points_def using lower_hex_plain(9)
  by (intro arg_cong [where f = length] filter_True) (auto simp: list_all_iff)

lemma checksum_int_lower:
  assumes "is_lower_hex_64 s"
  shows "checksum_int s = Inr (int (hex_number s))"
proof -
  have s: "list_all lower_hex s" "length s = 64" using assms by (auto simp: is_lower_hex_64_def)
  have "int_base16 s = Some (int (hex_number s))" using s by (intro int_base16_lower) auto
  moreover have "\<not> (\<exists>c \<in> set s. c \<in> set ''ABCDEFGHIJKLMNOPQRSTUVWXYZ'' \<or> digit7 c)"
    using s(1) lower_hex_plain(7,8) unfolding list_all_iff by blast
  ultimately show ?thesis by (simp add: checksum_int_def code_points_lower s Let_def del: set_simps)
qed

section \<open>Writing checksums\<close>

definition hex_digits_of :: "nat \<Rightarrow> nat \<Rightarrow> string" where
  "hex_digits_of k n = map (\<lambda>i. hex_digit (n div 16 ^ (k - 1 - i) mod 16)) [0..<k]"

lemma hex_digits_of_Suc: "hex_digits_of (Suc k) n = hex_digits_of k (n div 16) @ [hex_digit (n mod 16)]"
proof -
  have "n div 16 ^ (k - i) = n div 16 div 16 ^ (k - 1 - i)" if "i < k" for i
  proof -
    have "(16 :: nat) ^ (k - i) = 16 * 16 ^ (k - 1 - i)"
      using that by (simp flip: power_Suc add: Suc_diff_Suc)
    then show ?thesis by (simp add: div_mult2_eq)
  qed
  then show ?thesis by (simp add: hex_digits_of_def)
qed

lemma hex_number_snoc: "hex_number (s @ [c]) = 16 * hex_number s + the (hex_value c)"
  by (simp add: hex_number_def)

lemma hex_digits_of_number: "n < 16 ^ k \<Longrightarrow> hex_number (hex_digits_of k n) = n"
proof (induction k arbitrary: n)
  case 0
  then show ?case by (simp add: hex_digits_of_def hex_number_def)
next
  case (Suc k)
  then have "hex_number (hex_digits_of k (n div 16)) = n div 16" by (simp add: div_less_iff_less_mult mult.commute)
  then show ?case by (simp add: hex_digits_of_Suc hex_number_snoc hex_value_digit)
qed

lemma hex64_digits: "hex64 n = hex_digits_of 64 (nat n)"
  by (simp add: hex64_def hex_digits_of_def)

lemma hex_digit_lower: "n < 16 \<Longrightarrow> lower_hex (hex_digit n)"
proof -
  assume "n < 16"
  then have "n \<in> set [0..<16]" by simp
  moreover have "list_all (\<lambda>n. lower_hex (hex_digit n)) [0..<16]" by code_simp
  ultimately show ?thesis unfolding list_all_iff by blast
qed

lemma hex64_lower [simp]: "is_lower_hex_64 (hex64 n)"
  by (simp add: hex64_def is_lower_hex_64_def list_all_iff hex_digit_lower)

lemma checksum_int_hex64: "0 \<le> n \<Longrightarrow> n < checksum_modulus \<Longrightarrow> checksum_int (hex64 n) = Inr n"
proof -
  assume n: "0 \<le> n" "n < checksum_modulus"
  then have "nat n < 16 ^ 64" by (simp add: checksum_modulus_def nat_less_iff)
  then have "hex_number (hex64 n) = nat n" by (simp add: hex64_digits hex_digits_of_number)
  then show ?thesis using n by (simp add: checksum_int_lower)
qed

lemma zero_checksum_hex64: "zero_checksum = hex64 0"
  by (simp add: zero_checksum_def hex64_def hex_digit_def map_replicate_const)

section \<open>A summary is a count and a sum\<close>

definition row_number :: "primitives \<Rightarrow> rag_settings \<Rightarrow> projection_row \<Rightarrow> int" where
  "row_number P st r = (case projection_row_digest P st r of Inl _ \<Rightarrow> 0 | Inr d \<Rightarrow> int (hex_number d))"

definition numbered :: "int \<Rightarrow> int \<Rightarrow> projection_summary" where
  "numbered c total_sum = \<lparr>sm_count = c, sm_checksum = hex64 (total_sum mod checksum_modulus)\<rparr>"

definition table_summary :: "primitives \<Rightarrow> rag_settings \<Rightarrow> projection_row list \<Rightarrow> projection_summary" where
  "table_summary P st rows = numbered (int (length rows)) (sum_list (map (row_number P st) rows))"

definition digests :: "primitives \<Rightarrow> rag_settings \<Rightarrow> projection_row list \<Rightarrow> bool" where
  "digests P st rows \<longleftrightarrow> (\<forall>r \<in> set rows. returns (projection_row_digest P st r))"

lemma modulus_positive [simp]: "0 < checksum_modulus"
  by (simp add: checksum_modulus_def)

lemma numbered_mod: "m mod checksum_modulus = n mod checksum_modulus \<Longrightarrow> numbered c m = numbered c n"
  by (simp add: numbered_def)

lemma checksum_int_numbered [simp]:
  "checksum_int (hex64 (n mod checksum_modulus)) = Inr (n mod checksum_modulus)"
  by (rule checksum_int_hex64) simp_all

lemma sm_numbered [simp]: "sm_count (numbered c n) = c"
  "sm_checksum (numbered c n) = hex64 (n mod checksum_modulus)"
  by (simp_all add: numbered_def)

lemma make_numbered: "0 \<le> c \<Longrightarrow> make_projection_summary c (hex64 (n mod checksum_modulus)) = Inr (numbered c n)"
  by (simp add: make_projection_summary_def numbered_def)

lemma row_digest_number:
  assumes "hex_digests P" and "projection_row_digest P st r = Inr d"
  shows "checksum_int d = Inr (row_number P st r)"
proof -
  have "is_lower_hex_64 d"
    using assms keyed_fingerprint_hex [OF assms(1)]
    by (auto simp: projection_row_digest_def split: if_splits prod.splits)
  then show ?thesis using assms(2) by (simp add: checksum_int_lower row_number_def)
qed

lemma apply_delta_new:
  assumes "0 \<le> c" and "checksum_int d = Inr n"
  shows "apply_delta None (Some d) (numbered c n0) = Inr (numbered (c + 1) (n0 + n))"
  using assms make_numbered [of "c + 1" "n0 + n"] by (simp add: apply_delta_def mod_simps)

lemma apply_delta_replace:
  assumes "0 \<le> c" and "checksum_int old = Inr m" and "checksum_int d = Inr n"
  shows "apply_delta (Some old) (Some d) (numbered c n0) = Inr (numbered c (n0 - m + n))"
proof -
  have "(n0 mod checksum_modulus - m + n) mod checksum_modulus = (n0 - m + n) mod checksum_modulus"
    using mod_diff_left_eq [of n0 checksum_modulus "m - n"] by (simp add: algebra_simps)
  then show ?thesis using assms make_numbered [of c "n0 - m + n"] by (simp add: apply_delta_def mod_simps)
qed

lemma summary_loop_Inr:
  assumes "hex_digests P" and "0 \<le> c"
  shows "summary_loop P st seen (numbered c n0) rows = Inr s \<longleftrightarrow>
    distinct (map row_key rows) \<and> set (map row_key rows) \<inter> set seen = {} \<and> digests P st rows
    \<and> s = numbered (c + int (length rows)) (n0 + sum_list (map (row_number P st) rows))"
  using assms(2)
proof (induction rows arbitrary: c n0 seen)
  case (Cons r rows)
  show ?case
  proof (cases "projection_row_digest P st r")
    case (Inr d)
    note n = row_digest_number [OF assms(1) Inr]
    have "summary_loop P st (row_key r # seen) (numbered (c + 1) (n0 + row_number P st r)) rows = Inr s \<longleftrightarrow>
        distinct (map row_key rows) \<and> set (map row_key rows) \<inter> set (row_key r # seen) = {} \<and> digests P st rows
        \<and> s = numbered (c + 1 + int (length rows)) (n0 + row_number P st r + sum_list (map (row_number P st) rows))"
      using Cons.prems by (intro Cons.IH) simp
    then show ?thesis
      using Cons.prems apply_delta_new [OF Cons.prems n] Inr
      by (auto simp: digests_def algebra_simps)
  qed (simp add: digests_def)
qed (auto simp: digests_def)

lemma summary_for_rows_Inr:
  assumes "hex_digests P"
  shows "summary_for_rows P st rows = Inr s \<longleftrightarrow>
    distinct (map row_key rows) \<and> digests P st rows \<and> s = table_summary P st rows"
proof -
  have "make_projection_summary 0 zero_checksum = Inr (numbered 0 0)"
    using make_numbered [of 0 0] by (simp add: zero_checksum_hex64)
  then show ?thesis
    using summary_loop_Inr [OF assms, of 0 st "[]" 0 rows s]
    by (simp add: summary_for_rows_def table_summary_def)
qed

lemma table_summary_mset: "mset xs = mset ys \<Longrightarrow> table_summary P st xs = table_summary P st ys"
  by (metis table_summary_def mset_map size_mset sum_mset_sum_list)

section \<open>Putting a row\<close>

lemma row_key_put [simp]:
  "row_key r \<in> set (map row_key rows) \<Longrightarrow> map row_key (put_row r rows) = map row_key rows"
  "row_key r \<notin> set (map row_key rows) \<Longrightarrow> map row_key (put_row r rows) = map row_key rows @ [row_key r]"
  by (auto simp: put_row_def)

lemma distinct_put: "distinct (map row_key rows) \<Longrightarrow> distinct (map row_key (put_row r rows))"
  by (cases "row_key r \<in> set (map row_key rows)") simp_all

lemma digests_put: "digests P st rows \<Longrightarrow> returns (projection_row_digest P st r) \<Longrightarrow> digests P st (put_row r rows)"
  by (auto simp: digests_def put_row_def)

lemma table_summary_put:
  assumes "distinct (map row_key rows)"
  shows "table_summary P st (put_row r rows) =
    (case List.find (\<lambda>x. row_key x = row_key r) rows of
       None \<Rightarrow> numbered (int (length rows) + 1) (sum_list (map (row_number P st) rows) + row_number P st r)
     | Some old \<Rightarrow> numbered (int (length rows))
         (sum_list (map (row_number P st) rows) - row_number P st old + row_number P st r))"
proof (cases "row_key r \<in> set (map row_key rows)")
  case False
  then have "List.find (\<lambda>x. row_key x = row_key r) rows = None"
    by (simp add: find_None_iff) (metis image_eqI)
  then show ?thesis using False by (simp add: put_row_def table_summary_def)
next
  case True
  then obtain old where old: "List.find (\<lambda>x. row_key x = row_key r) rows = Some old"
    by (cases "List.find (\<lambda>x. row_key x = row_key r) rows") (auto simp: find_None_iff)
  have "sum_list (map (row_number P st) (map (\<lambda>x. if row_key x = row_key r then r else x) rows))
      = sum_list (map (row_number P st) rows) - row_number P st old + row_number P st r"
    using assms old
  proof (induction rows)
    case (Cons x rows)
    show ?case
    proof (cases "row_key x = row_key r")
      case True
      then have "map (\<lambda>x. if row_key x = row_key r then r else x) rows = rows"
        using Cons.prems(1) by (intro map_idI) (auto simp: rev_image_eqI)
      then show ?thesis using True Cons.prems(2) by simp
    qed (use Cons in simp)
  qed simp
  then show ?thesis using True old by (simp add: put_row_def table_summary_def)
qed

section \<open>The stored summary\<close>

definition key_of :: "primitives \<Rightarrow> rag_settings \<Rightarrow> string \<times> string" where
  "key_of P st = (strip (fingerprint_key_version st), settings_verifier P st)"

definition source_summary :: "projection_state \<Rightarrow> projection_summary" where
  "source_summary p = \<lparr>sm_count = pt_source_count p, sm_checksum = or_zero (pt_source_checksum p)\<rparr>"

definition projected_summary :: "projection_state \<Rightarrow> projection_summary" where
  "projected_summary p = \<lparr>sm_count = pt_projected_count p, sm_checksum = or_zero (pt_projected_checksum p)\<rparr>"

text \<open>Both stored summaries are those of the table, for the settings with the stored key.\<close>

definition state_summarises :: "primitives \<Rightarrow> rag_settings set \<Rightarrow> projection_state \<Rightarrow> projection_row list \<Rightarrow> bool" where
  "state_summarises P K p rows \<longleftrightarrow>
     strip (pt_version p) = pt_version p
     \<and> (\<forall>st \<in> K. key_of P st = (pt_version p, pt_verifier p) \<longrightarrow>
          digests P st rows \<and> source_summary p = table_summary P st rows
          \<and> projected_summary p = table_summary P st rows)"

definition table_ok :: "projection_row list \<Rightarrow> bool" where
  "table_ok rows \<longleftrightarrow> distinct (map row_key rows) \<and> (\<forall>r \<in> set rows. make_projection_row r = Inr r)"

lemma make_projection_row_Inr: "make_projection_row r = Inr s \<Longrightarrow> s = r"
  by (auto simp: make_projection_row_def split: if_splits)

lemma table_ok_put: "table_ok rows \<Longrightarrow> make_projection_row r = Inr r \<Longrightarrow> table_ok (put_row r rows)"
  by (auto simp: table_ok_def distinct_put) (auto simp: put_row_def split: if_splits)

lemma table_ok_distinct: "table_ok rows \<Longrightarrow> distinct (map row_key rows)"
  by (simp add: table_ok_def)

text \<open>The state is of the key of the runtime.\<close>

definition state_keyed :: "projection_db \<Rightarrow> bool" where
  "state_keyed db \<longleftrightarrow> (\<forall>p. pd_state db = Some p \<longrightarrow>
     (\<exists>k. pd_runtime db = Some k \<and> pt_version p = ks_version k \<and> pt_verifier p = ks_verifier k))"

definition projection_ok :: "primitives \<Rightarrow> rag_settings set \<Rightarrow> projection_db \<Rightarrow> bool" where
  "projection_ok P K db \<longleftrightarrow>
     knowledge_ids_ok db \<and> table_ok (pd_rows db) \<and> state_keyed db
     \<and> (\<forall>p. pd_state db = Some p \<and> pt_ready p \<longrightarrow> state_summarises P K p (pd_rows db))"

lemma projection_ok_demoted [simp]:
  "projection_ok P K (demoted db) \<longleftrightarrow> knowledge_ids_ok db \<and> table_ok (pd_rows db) \<and> state_keyed db"
  by (auto simp: projection_ok_def demoted_def knowledge_ids_ok_def state_keyed_def)

lemma or_zero_hex64 [simp]: "or_zero (Some (hex64 n)) = hex64 n"
  by (simp add: or_zero_def hex64_def)

lemma flush_rows_Inr: "flush_rows db = Inr db' \<Longrightarrow> db' = db"
  by (simp add: flush_rows_def split: if_splits)

section \<open>One row\<close>

lemma old_row_digest_Inr:
  assumes "old_row_digest P st fresh rows = Inr old"
  shows "case List.find (\<lambda>r. row_key r = row_key fresh) rows of
      None \<Rightarrow> old = None
    | Some r \<Rightarrow> \<exists>d. old = Some d \<and> projection_row_digest P st r = Inr d"
  using assms by (auto simp: old_row_digest_def make_projection_row_def split: option.splits if_splits)

lemma table_summary_put_delta:
  assumes hex: "hex_digests P" and "distinct (map row_key rows)"
    and old: "old_row_digest P st fresh rows = Inr old" and new: "projection_row_digest P st fresh = Inr d"
  shows "apply_delta old (Some d) (table_summary P st rows) = Inr (table_summary P st (put_row fresh rows))"
proof (cases "List.find (\<lambda>r. row_key r = row_key fresh) rows")
  case None
  then have "old = None" using old_row_digest_Inr [OF old] by simp
  then show ?thesis
    unfolding table_summary_put [OF assms(2)] None
    using apply_delta_new [OF _ row_digest_number [OF hex new]] by (simp add: table_summary_def)
next
  case (Some r)
  then obtain od where od: "old = Some od" "projection_row_digest P st r = Inr od"
    using old_row_digest_Inr [OF old] by auto
  show ?thesis
    unfolding table_summary_put [OF assms(2)] Some od(1)
    using apply_delta_replace [OF _ row_digest_number [OF hex od(2)] row_digest_number [OF hex new]]
    by (simp add: table_summary_def)
qed

lemma apply_to_state_Inr:
  assumes "apply_to_state old d p = Inr p'"
    and "apply_delta old (Some d) (source_summary p) = Inr s"
    and "apply_delta old (Some d) (projected_summary p) = Inr t"
  shows "p' = p\<lparr>pt_source_count := sm_count s, pt_source_checksum := Some (sm_checksum s),
                pt_projected_count := sm_count t, pt_projected_checksum := Some (sm_checksum t)\<rparr>"
  using assms
  by (auto simp: apply_to_state_def source_summary_def projected_summary_def make_projection_summary_def
      split: if_splits)

lemma apply_to_state_key:
  "apply_to_state old d p = Inr p' \<Longrightarrow> pt_version p' = pt_version p \<and> pt_verifier p' = pt_verifier p"
  by (auto simp: apply_to_state_def)

lemma state_summarises_put:
  assumes hex: "hex_digests P" and keys: "inj_on (key_of P) K" and st: "st \<in> K"
    and summarised: "state_summarises P K p rows" and "distinct (map row_key rows)"
    and key: "pt_version p = fingerprint_key_version st" "pt_verifier p = settings_verifier P st"
    and old: "old_row_digest P st fresh rows = Inr old" and new: "projection_row_digest P st fresh = Inr d"
    and p': "apply_to_state old d p = Inr p'"
  shows "state_summarises P K p' (put_row fresh rows)"
    and "pt_ready p' = pt_ready p" "pt_version p' = pt_version p" "pt_verifier p' = pt_verifier p"
proof -
  have key_st: "key_of P st = (pt_version p, pt_verifier p)"
    using summarised key by (simp add: state_summarises_def key_of_def)
  then have rows: "digests P st rows" "source_summary p = table_summary P st rows"
    "projected_summary p = table_summary P st rows"
    using summarised st by (auto simp: state_summarises_def)
  note delta = table_summary_put_delta [OF hex assms(5) old new]
  have p'_eq: "p' = p\<lparr>pt_source_count := sm_count (table_summary P st (put_row fresh rows)),
      pt_source_checksum := Some (sm_checksum (table_summary P st (put_row fresh rows))),
      pt_projected_count := sm_count (table_summary P st (put_row fresh rows)),
      pt_projected_checksum := Some (sm_checksum (table_summary P st (put_row fresh rows)))\<rparr>"
    using apply_to_state_Inr [OF p'] delta rows by simp
  have "source_summary p' = table_summary P st (put_row fresh rows)"
    "projected_summary p' = table_summary P st (put_row fresh rows)"
    unfolding p'_eq by (simp_all add: source_summary_def projected_summary_def table_summary_def numbered_def)
  moreover have "digests P st (put_row fresh rows)" using rows(1) new by (intro digests_put) auto
  moreover have "st' = st" if "st' \<in> K" "key_of P st' = (pt_version p, pt_verifier p)" for st'
    using inj_onD [OF keys _ that(1) st] that(2) key_st by simp
  ultimately show "state_summarises P K p' (put_row fresh rows)"
    using summarised by (auto simp: state_summarises_def p'_eq)
  show "pt_ready p' = pt_ready p" "pt_version p' = pt_version p" "pt_verifier p' = pt_verifier p"
    by (simp_all add: p'_eq)
qed

section \<open>Approved effects\<close>

text \<open>What a round of the loop leaves alone.\<close>

lemma project_row_frame:
  assumes "project_row P st healthy fresh db = (db', err)"
  shows "pd_histories db' = pd_histories db" "pd_timelines db' = pd_timelines db"
    "table_ok (pd_rows db) \<Longrightarrow> make_projection_row fresh = Inr fresh \<Longrightarrow> table_ok (pd_rows db')"
    "state_keyed db \<Longrightarrow> state_keyed db'"
  using assms
  by (auto simp: project_row_def Let_def table_ok_put state_keyed_def apply_to_state_key
      split: sum.splits option.splits if_splits)

lemma effect_snapshot_Inr:
  assumes "effect_snapshot P st db e = Inr r"
  shows "make_projection_row r = Inr r" "fp_key_version r = fingerprint_key_version st"
  using assms make_projection_row_Inr by (auto simp: effect_snapshot_def split: option.splits) fastforce+

lemma project_effect_frame:
  assumes "project_effect P st healthy e db = (db', err)"
  shows "pd_histories db' = pd_histories db" "pd_timelines db' = pd_timelines db"
    "table_ok (pd_rows db) \<Longrightarrow> table_ok (pd_rows db')" "state_keyed db \<Longrightarrow> state_keyed db'"
  using assms project_row_frame effect_snapshot_Inr(1)
  by (auto simp: project_effect_def split: sum.splits if_splits)

lemma project_effects_frame:
  assumes "project_effects P st healthy es db = (db', err)"
  shows "pd_histories db' = pd_histories db \<and> pd_timelines db' = pd_timelines db
    \<and> (table_ok (pd_rows db) \<longrightarrow> table_ok (pd_rows db')) \<and> (state_keyed db \<longrightarrow> state_keyed db')"
  using assms
proof (induction es arbitrary: db)
  case (Cons e es)
  obtain db1 err1 where step: "project_effect P st healthy e db = (db1, err1)" by (cases "project_effect P st healthy e db")
  note frame = project_effect_frame [OF step]
  show ?case
  proof (cases err1)
    case None
    then have "project_effects P st healthy es db1 = (db', err)" using Cons.prems step by simp
    then show ?thesis using Cons.IH frame by metis
  next
    case (Some x)
    then show ?thesis using Cons.prems step frame by auto
  qed
qed simp

text \<open>A healthy round keeps the summaries those of the table.\<close>

definition healthy_state :: "primitives \<Rightarrow> rag_settings set \<Rightarrow> rag_settings \<Rightarrow> projection_db \<Rightarrow> bool" where
  "healthy_state P K st db \<longleftrightarrow>
     table_ok (pd_rows db)
     \<and> (\<exists>p. pd_state db = Some p \<and> pt_ready p \<and> pt_version p = fingerprint_key_version st
            \<and> pt_verifier p = settings_verifier P st \<and> state_summarises P K p (pd_rows db))"

lemma project_row_healthy:
  assumes "hex_digests P" and "inj_on (key_of P) K" and "st \<in> K"
    and "healthy_state P K st db" and valid: "make_projection_row fresh = Inr fresh"
    and finished: "project_row P st True fresh db = (db', None)"
  shows "healthy_state P K st db'"
proof -
  obtain p where p: "pd_state db = Some p" "pt_ready p" "pt_version p = fingerprint_key_version st"
      "pt_verifier p = settings_verifier P st" "state_summarises P K p (pd_rows db)"
    using assms(4) by (auto simp: healthy_state_def)
  have table: "table_ok (pd_rows db)" using assms(4) by (simp add: healthy_state_def)
  obtain old d p' where steps: "old_row_digest P st fresh (pd_rows db) = Inr old"
      "projection_row_digest P st fresh = Inr d" "apply_to_state old d p = Inr p'"
      "db' = db\<lparr>pd_rows := put_row fresh (pd_rows db), pd_state := Some p'\<rparr>"
    using finished p(1) by (auto simp: project_row_def Let_def split: sum.splits)
  note put = state_summarises_put [OF assms(1-3) p(5) table_ok_distinct [OF table] p(3,4) steps(1-3)]
  show ?thesis
    using put p table_ok_put [OF table valid] by (simp add: healthy_state_def steps(4))
qed

lemma project_effects_healthy:
  assumes "hex_digests P" and "inj_on (key_of P) K" and "st \<in> K"
    and "healthy_state P K st db" and "project_effects P st True es db = (db', None)"
  shows "healthy_state P K st db'"
  using assms(4,5)
proof (induction es arbitrary: db)
  case (Cons e es)
  then obtain db1 where step: "project_effect P st True e db = (db1, None)"
      and rest: "project_effects P st True es db1 = (db', None)"
    by (auto split: prod.splits option.splits)
  have "healthy_state P K st db1"
    using step Cons.prems(1)
    by (auto simp: project_effect_def split: if_splits sum.splits
        intro: project_row_healthy [OF assms(1-3)] effect_snapshot_Inr(1))
  then show ?case using Cons.IH rest by simp
qed simp

lemma started_healthy_state:
  assumes "started_healthy P st es new db" and "projection_ok P K db"
  shows "healthy_state P K st db"
  using assms
  by (auto simp: started_healthy_def projection_identity_ready_def runtime_is_configured_def healthy_state_def
      projection_ok_def split: option.splits)

lemma healthy_state_ok:
  "healthy_state P K st db \<Longrightarrow> knowledge_ids_ok db \<Longrightarrow> state_keyed db \<Longrightarrow> projection_ok P K db"
  by (auto simp: healthy_state_def projection_ok_def)

lemma project_approved_effects_ok:
  assumes "hex_digests P" and "inj_on (key_of P) K" and "st \<in> K" and ok: "projection_ok P K db"
    and finished: "project_approved_effects P st es new db = Inr db'"
  shows "projection_ok P K db'"
proof (cases "pd_state db = None")
  case True
  then show ?thesis using finished ok by (simp add: project_approved_effects_def)
next
  case False
  obtain db1 err where loop: "project_effects P st (started_healthy P st es new db) es db = (db1, err)"
    by (cases "project_effects P st (started_healthy P st es new db) es db")
  have frame: "knowledge_ids_ok db1" "table_ok (pd_rows db1)" "state_keyed db1"
    using project_effects_frame [OF loop] ok by (auto simp: projection_ok_def knowledge_ids_ok_def)
  have "db' = demoted db1 \<or> started_healthy P st es new db \<and> err = None \<and> db' = db1"
    using finished False loop flush_rows_Inr
    by (auto simp: project_approved_effects_def Let_def split: option.splits if_splits)
  then show ?thesis
  proof
    assume *: "started_healthy P st es new db \<and> err = None \<and> db' = db1"
    then have "healthy_state P K st db1"
      using project_effects_healthy [OF assms(1-3) started_healthy_state [OF conjunct1 [OF *] ok]] loop * by simp
    then show ?thesis using healthy_state_ok frame(1,3) * by blast
  qed (use frame in simp)
qed

section \<open>Rows of the sources\<close>

lemma distinct_map_sort_key: "distinct (map f (sort_key g xs)) \<longleftrightarrow> distinct (map f xs)"
  by (rule mset_eq_imp_distinct_iff) simp

lemma collect_r_Inr:
  assumes "collect_r f xs = Inr ys"
  shows "y \<in> set ys \<longleftrightarrow> (\<exists>x \<in> set xs. f x = Inr y)" "x \<in> set xs \<Longrightarrow> \<exists>y \<in> set ys. f x = Inr y"
    "(\<And>x y. f x = Inr y \<Longrightarrow> g y = h x) \<Longrightarrow> map g ys = map h xs"
  using assms by (induction xs arbitrary: ys) auto

lemma source_snapshot_Inr:
  assumes "source_snapshot P st v db t r = Inr s"
  shows "row_key s = (t, kn_id r)" "fp_status s = kn_status r" "fp_permission s = kn_permission r"
    "fp_scope s = target_scope db (kn_review_item r)"
    "fp_resolution s = (if fp_scope s = None then ''legacy_unknown'' else ''exact'')"
    "fp_claim s = None \<longleftrightarrow> fp_scope s = None"
    "trusted_project_scope_fingerprint P st (kn_project_key r) = Inr (fp_project_hmac s)"
    "trusted_title_collision_bucket P st t (kn_title r) = Inr (fp_title_bucket s)"
    "fp_key_version s = strip (fingerprint_key_version st)" "make_projection_row s = Inr s"
  using assms
  by (auto simp: source_snapshot_def make_projection_row_def row_key_def Let_def split: if_splits option.splits)

lemma approved_targets_iff:
  "(t, r) \<in> set (approved_targets db) \<longleftrightarrow> kn_status r = ''approved''
     \<and> (t = ''history_event'' \<and> r \<in> set (pd_histories db) \<or> t = ''timeline_event'' \<and> r \<in> set (pd_timelines db))"
  by (auto simp: approved_targets_def)

lemma approved_targets_distinct:
  assumes "knowledge_ids_ok db"
  shows "distinct (map (\<lambda>(t, r). (t, kn_id r)) (approved_targets db))"
proof -
  have tables: "distinct (map (\<lambda>r. (t, kn_id r)) (sort_key kn_id (filter Q rs)))"
    if "distinct (map kn_id rs)" for t :: string and Q rs
  proof -
    have "distinct (map kn_id (sort_key kn_id (filter Q rs)))"
      using that distinct_map_filter by (auto simp: distinct_map inj_on_def)
    then show ?thesis by (auto simp: distinct_map inj_on_def)
  qed
  then show ?thesis
    using assms by (auto simp: approved_targets_def knowledge_ids_ok_def o_def)
qed

lemma source_snapshots_Inr:
  assumes "source_projection_snapshots P st v db = Inr rows"
  shows "s \<in> set rows \<longleftrightarrow> (\<exists>t r. (t, r) \<in> set (approved_targets db) \<and> source_snapshot P st v db t r = Inr s)"
    and "\<And>t r. (t, r) \<in> set (approved_targets db) \<Longrightarrow> \<exists>s \<in> set rows. source_snapshot P st v db t r = Inr s"
    and "knowledge_ids_ok db \<Longrightarrow> distinct (map row_key rows)"
    and "sorted (map row_key rows)"
proof -
  obtain ys where ys: "collect_r (\<lambda>(t, r). source_snapshot P st v db t r) (approved_targets db) = Inr ys"
      and rows: "rows = sort_key row_key ys"
    using assms by (auto simp: source_projection_snapshots_def)
  show "s \<in> set rows \<longleftrightarrow> (\<exists>t r. (t, r) \<in> set (approved_targets db) \<and> source_snapshot P st v db t r = Inr s)"
    using collect_r_Inr(1) [OF ys, of s] by (force simp: rows)
  show "\<exists>s \<in> set rows. source_snapshot P st v db t r = Inr s" if "(t, r) \<in> set (approved_targets db)" for t r
    using collect_r_Inr(2) [OF ys that] by (auto simp: rows)
  have "map row_key ys = map (\<lambda>(t, r). (t, kn_id r)) (approved_targets db)"
    using source_snapshot_Inr(1) by (intro collect_r_Inr(3) [OF ys]) (auto split: prod.splits)
  then show "distinct (map row_key rows)" if "knowledge_ids_ok db"
    using approved_targets_distinct [OF that] by (simp add: rows distinct_map_sort_key)
  show "sorted (map row_key rows)" by (simp add: rows)
qed

text \<open>Nothing is missing and nothing is stored in excess: the table is the expected one.\<close>

lemma not_missing_iff: "\<not> missing_active_row expected [] rows \<longleftrightarrow> set rows = set expected"
  by (auto simp: missing_active_row_def Let_def)

lemma same_keys_same_mset:
  assumes "set xs = set ys" and "distinct (map row_key xs)" and "distinct (map row_key ys)"
  shows "mset xs = mset ys"
  using assms by (metis distinct_map set_eq_iff_mset_eq_distinct)

section \<open>A rebuilt table\<close>

lemma collect_rows_Inr: "collect_r make_projection_row rows = Inr rows' \<Longrightarrow> rows' = rows"
proof -
  assume rows: "collect_r make_projection_row rows = Inr rows'"
  have "map id rows' = map id rows"
    by (rule collect_r_Inr(3) [OF rows]) (auto simp: make_projection_row_def split: if_splits)
  then show ?thesis by simp
qed

lemma sorted_rows: "sorted (map row_key rows) \<Longrightarrow> sort_key row_key rows = rows"
  by (induction rows) (simp_all add: insort_is_Cons)

definition rebuilt_state :: "key_state \<Rightarrow> projection_summary \<Rightarrow> bool \<Rightarrow> projection_state \<Rightarrow> projection_state" where
  "rebuilt_state k s ready p =
     p\<lparr>pt_schema := projection_schema, pt_version := ks_version k, pt_verifier := ks_verifier k,
       pt_generation := ks_generation k, pt_source_count := sm_count s, pt_projected_count := sm_count s,
       pt_source_checksum := Some (sm_checksum s), pt_projected_checksum := Some (sm_checksum s),
       pt_ready := ready, pt_rebuild_required := \<not> ready, pt_completed := ready\<rparr>"

lemma state_keyed_rebuilt:
  "pd_runtime db = Some k \<Longrightarrow> state_keyed (db\<lparr>pd_rows := rows, pd_state := Some (rebuilt_state k s b p)\<rparr>)"
  by (simp add: state_keyed_def rebuilt_state_def)

lemma replace_rows_Inr:
  assumes "replace_rows P st db = Inr (db', result)"
  obtains k p rows s where "pd_runtime db = Some k" and "pd_state db = Some p"
    and "(ks_version k, ks_verifier k) = key_of P st"
    and "source_projection_snapshots P st (ks_verifier k) db = Inr rows" and "summary_for_rows P st rows = Inr s"
    and "db' = db\<lparr>pd_rows := rows, pd_state := Some (rebuilt_state k s (pd_postgres db \<and> ks_ready k) p)\<rparr>"
    and "rr_ready result \<longleftrightarrow> pd_postgres db \<and> ks_ready k"
proof -
  obtain k p where k: "pd_runtime db = Some k" and p: "pd_state db = Some p"
    using assms by (auto simp: replace_rows_def split: option.splits)
  obtain secret configured old_rows rows s db1 projected t where
      secret: "fingerprint_secret_bytes st = Inr (secret, configured)"
      and key: "ks_version k = configured" "ks_verifier k = key_material_verifier P secret"
      and rows: "source_projection_snapshots P st (key_material_verifier P secret) db = Inr rows"
      and s: "summary_for_rows P st rows = Inr s"
      and flush: "flush_rows (db\<lparr>pd_rows := rows\<rparr>) = Inr db1"
      and projected: "stored_snapshots db1 = Inr projected" and t: "summary_for_rows P st projected = Inr t"
      and result: "Inr (db', result) = (let missing = (\<not> pd_postgres db1 \<or> missing_active_row rows [] (pd_rows db1));
            ready = (pd_postgres db1 \<and> ks_ready k \<and> rows = projected \<and> s = t \<and> \<not> missing);
            p' = p\<lparr>pt_schema := projection_schema, pt_version := ks_version k, pt_verifier := ks_verifier k,
                   pt_generation := ks_generation k, pt_source_count := sm_count s,
                   pt_projected_count := sm_count t, pt_source_checksum := Some (sm_checksum s),
                   pt_projected_checksum := Some (sm_checksum t),
                   pt_ready := ready, pt_rebuild_required := \<not> ready, pt_completed := ready\<rparr>
        in (Inr (db1\<lparr>pd_state := Some p'\<rparr>,
                \<lparr>rr_source_count = sm_count s, rr_projected_count = sm_count t,
                 rr_source_checksum = sm_checksum s, rr_projected_checksum = sm_checksum t,
                 rr_replayed = (old_rows = rows), rr_ready = ready\<rparr>) :: (projection_db \<times> rebuild_result) result))"
    using assms k p unfolding replace_rows_def by (auto simp: Let_def split: if_splits)
  have db1: "db1 = db\<lparr>pd_rows := rows\<rparr>" using flush_rows_Inr [OF flush] .
  have "projected = rows"
    using projected collect_rows_Inr sorted_rows [OF source_snapshots_Inr(4) [OF rows]]
    by (simp add: stored_snapshots_def db1)
  then have t: "t = s" using s t by simp
  have "fingerprint_secret st = secret" "strip (fingerprint_key_version st) = configured"
    using secret by (auto simp: fingerprint_secret_bytes_def Let_def split: if_splits)
  then have key_st: "(ks_version k, ks_verifier k) = key_of P st" by (simp add: key_of_def settings_verifier_def key)
  have "\<not> missing_active_row rows [] rows" by (simp add: not_missing_iff)
  then have "db' = db\<lparr>pd_rows := rows, pd_state := Some (rebuilt_state k s (pd_postgres db \<and> ks_ready k) p)\<rparr>"
      "rr_ready result \<longleftrightarrow> pd_postgres db \<and> ks_ready k"
    using result by (cases "pd_postgres db"; cases "ks_ready k";
      simp add: t db1 rebuilt_state_def Let_def \<open>projected = rows\<close>)+
  then show thesis by (rule that [OF k p key_st rows [folded key(2)] s])
qed

lemma replace_rows_ok:
  assumes "hex_digests P" and keys: "inj_on (key_of P) K" and "st \<in> K" and ok: "projection_ok P K db"
    and replaced: "replace_rows P st db = Inr (db', result)"
  shows "projection_ok P K db'"
  using replaced
proof (rule replace_rows_Inr)
  fix k p rows s
  assume k: "pd_runtime db = Some k" and key: "(ks_version k, ks_verifier k) = key_of P st" and rows: "source_projection_snapshots P st (ks_verifier k) db = Inr rows"
    and s: "summary_for_rows P st rows = Inr s"
    and db': "db' = db\<lparr>pd_rows := rows, pd_state := Some (rebuilt_state k s (pd_postgres db \<and> ks_ready k) p)\<rparr>"
  have s_rows: "distinct (map row_key rows)" "digests P st rows" "s = table_summary P st rows"
    using s summary_for_rows_Inr [OF assms(1)] by auto
  have "table_ok rows"
    using s_rows(1) source_snapshots_Inr(1) [OF rows] source_snapshot_Inr(10) by (auto simp: table_ok_def)
  have "source_summary (rebuilt_state k s b p) = s" "projected_summary (rebuilt_state k s b p) = s" for b
    by (simp_all add: rebuilt_state_def source_summary_def projected_summary_def s_rows(3) table_summary_def numbered_def)
  moreover have "st' = st" if "st' \<in> K" "key_of P st' = (ks_version k, ks_verifier k)" for st'
    using inj_onD [OF keys _ that(1) assms(3)] that(2) key by simp
  moreover have "strip (ks_version k) = ks_version k" using key by (simp add: key_of_def)
  ultimately have "state_summarises P K (rebuilt_state k s b p) rows" for b
    using s_rows by (auto simp: state_summarises_def rebuilt_state_def)
  then show ?thesis
    using ok \<open>table_ok rows\<close> state_keyed_rebuilt [OF k] by (simp add: db' projection_ok_def knowledge_ids_ok_def)
qed

section \<open>Narrowed and revoked knowledge\<close>

lemma configured_key:
  assumes "validate_configured_key P st v w = Inr u"
  shows "key_of P st = (v, w)"
  using assms
  by (auto simp: validate_configured_key_def key_of_def settings_verifier_def fingerprint_secret_bytes_def Let_def
      split: if_splits)

lemma move_checksums_Inr:
  assumes hex: "hex_digests P" and moved: "move_checksums P st row narrowed_row p = Inr p'"
    and row: "List.find (\<lambda>x. row_key x = row_key narrowed_row) rows = Some row" and rows: "distinct (map row_key rows)"
    and stored: "source_summary p = table_summary P st rows" "projected_summary p = table_summary P st rows"
    and ready: "pt_ready p'"
  shows "source_summary p' = table_summary P st (put_row narrowed_row rows)"
    and "projected_summary p' = table_summary P st (put_row narrowed_row rows)"
    and "returns (projection_row_digest P st narrowed_row)"
proof -
  obtain old new where digest: "projection_row_digest P st row = Inr old"
      "projection_row_digest P st narrowed_row = Inr new"
    using moved make_projection_row_Inr by (auto simp: move_checksums_def)
  let ?table = "table_summary P st (put_row narrowed_row rows)"
  have table: "?table = numbered (int (length rows))
      (sum_list (map (row_number P st) rows) - row_number P st row + row_number P st narrowed_row)"
    by (simp add: table_summary_put [OF rows] row)
  have delta: "apply_delta (Some old) (Some new) (table_summary P st rows) = Inr ?table"
    unfolding table table_summary_def [of P st rows]
    using row_digest_number [OF hex digest(1)] row_digest_number [OF hex digest(2)] by (simp add: apply_delta_replace)
  have made: "s = table_summary P st rows"
    if "make_projection_summary (pt_source_count p) (or_zero (pt_source_checksum p)) = Inr s
      \<or> make_projection_summary (pt_projected_count p) (or_zero (pt_projected_checksum p)) = Inr s" for s
  proof -
    have "s = source_summary p \<or> s = projected_summary p"
      using that by (auto simp: make_projection_summary_def source_summary_def projected_summary_def split: if_splits)
    then show ?thesis using stored by simp
  qed
  have "make_projection_row narrowed_row = Inr narrowed_row"
    using moved make_projection_row_Inr by (auto simp: move_checksums_def)
  then obtain source projected s t where
      "make_projection_summary (pt_source_count p) (or_zero (pt_source_checksum p)) = Inr source"
      "make_projection_summary (pt_projected_count p) (or_zero (pt_projected_checksum p)) = Inr projected"
      and moved_to: "apply_delta (Some old) (Some new) source = Inr s" "apply_delta (Some old) (Some new) projected = Inr t"
      "p' = p\<lparr>pt_source_checksum := Some (sm_checksum s), pt_projected_checksum := Some (sm_checksum t)\<rparr>"
    using moved ready digest by (auto simp: move_checksums_def split: if_splits)
  then have "source = table_summary P st rows" "projected = table_summary P st rows" using made by blast+
  then have "p' = p\<lparr>pt_source_checksum := Some (sm_checksum ?table), pt_projected_checksum := Some (sm_checksum ?table)\<rparr>"
    using moved_to delta by simp
  moreover have "pt_source_count p = int (length rows)" "pt_projected_count p = int (length rows)"
    using stored by (simp_all add: source_summary_def projected_summary_def table_summary_def numbered_def)
  ultimately show "source_summary p' = table_summary P st (put_row narrowed_row rows)"
    "projected_summary p' = table_summary P st (put_row narrowed_row rows)"
    by (simp_all add: source_summary_def projected_summary_def table numbered_def)
  show "returns (projection_row_digest P st narrowed_row)" using digest by simp
qed

lemma move_checksums_frame:
  assumes "move_checksums P st row narrowed_row p = Inr p'"
  shows "pt_version p' = pt_version p" "pt_verifier p' = pt_verifier p" "pt_ready p' \<Longrightarrow> pt_ready p"
  using assms by (auto simp: move_checksums_def split: if_splits)

lemma change_target_ok:
  assumes "projection_ok P K db" and "\<And>r. kn_id (f r) = kn_id r"
  shows "projection_ok P K (change_target t i f db)"
proof -
  have "map kn_id (map (\<lambda>r. if kn_id r = i then f r else r) rs) = map kn_id rs" for rs
    using assms(2) by simp
  then have ids: "knowledge_ids_ok (change_target t i f db)"
    using assms(1) by (auto simp: projection_ok_def knowledge_ids_ok_def change_target_def Let_def simp del: map_map)
  then show ?thesis
    using assms(1) by (auto simp: projection_ok_def state_keyed_def change_target_def Let_def split: if_splits)
qed

lemma change_target_runtime [simp]: "pd_runtime (change_target t i f db) = pd_runtime db"
  by (simp add: change_target_def Let_def)

lemma narrow_fingerprint_ok:
  assumes hex: "hex_digests P" and keys: "inj_on (key_of P) K" and st: "st \<in> K"
    and k: "pd_runtime db = Some k" "key_of P st = (ks_version k, ks_verifier k)"
    and ok: "projection_ok P K db" and finished: "narrow_fingerprint P st t i permission db = Inr (db', changed)"
  shows "projection_ok P K db'"
proof (cases "db' = db")
  case False
  obtain row where row: "List.find (\<lambda>r. row_key r = (canonical_knowledge_type t, i)) (pd_rows db) = Some row"
    using finished False by (auto simp: narrow_fingerprint_def split: option.splits)
  define narrowed_row where "narrowed_row = row\<lparr>fp_permission := strictest (fp_permission row) permission\<rparr>"
  let ?rows = "put_row narrowed_row (pd_rows db)"
  have in_table: "row \<in> set (pd_rows db)" "row_key row = (canonical_knowledge_type t, i)"
    using row by (auto simp: find_Some_iff)
  have same_key: "row_key narrowed_row = (canonical_knowledge_type t, i)"
    using in_table(2) by (simp add: narrowed_row_def row_key_def)
  have "make_projection_row row = Inr row" using ok in_table(1) by (simp add: projection_ok_def table_ok_def)
  then have valid: "make_projection_row narrowed_row = Inr narrowed_row" "reusable_type (fp_type row)"
    by (auto simp: narrowed_row_def make_projection_row_def split: if_splits)
  have table: "table_ok ?rows" "distinct (map row_key (pd_rows db))"
    using ok table_ok_put valid(1) by (auto simp: projection_ok_def table_ok_def)
  consider "pd_state db = None" "db' = db\<lparr>pd_rows := ?rows\<rparr>"
    | p where "pd_state db = Some p"
        "db' = db\<lparr>pd_rows := ?rows, pd_state := Some (p\<lparr>pt_ready := False, pt_rebuild_required := True\<rparr>)\<rparr>"
    | p p' where "pd_state db = Some p" "move_checksums P st row narrowed_row p = Inr p'"
        "db' = db\<lparr>pd_rows := ?rows, pd_state := Some p'\<rparr>"
    using finished False row valid(2) \<open>make_projection_row row = Inr row\<close>
    by (auto simp: narrow_fingerprint_def Let_def simp flip: narrowed_row_def
        split: if_splits option.splits sum.splits)
  then show ?thesis
  proof cases
    case (3 p p')
    note frame = move_checksums_frame [OF 3(2)]
    have key_st: "key_of P st = (pt_version p, pt_verifier p)"
      using ok 3(1) k by (auto simp: projection_ok_def state_keyed_def)
    have "state_summarises P K p' ?rows" if ready: "pt_ready p'"
    proof -
      have summarised: "state_summarises P K p (pd_rows db)"
        using ok 3(1) frame(3) [OF ready] by (simp add: projection_ok_def)
      then have stored: "source_summary p = table_summary P st (pd_rows db)"
          "projected_summary p = table_summary P st (pd_rows db)" "digests P st (pd_rows db)"
        using st key_st by (auto simp: state_summarises_def)
      note moved = move_checksums_Inr [OF hex 3(2) row [folded same_key] table(2) stored(1,2) ready]
      have "st' = st" if "st' \<in> K" "key_of P st' = (pt_version p, pt_verifier p)" for st'
        using inj_onD [OF keys _ that(1) st] that(2) key_st by simp
      then show ?thesis
        using summarised frame(1,2) moved digests_put [OF stored(3) moved(3)]
        by (auto simp: state_summarises_def)
    qed
    then show ?thesis
      using ok table(1) 3(1) frame(1,2) by (auto simp: 3(3) projection_ok_def knowledge_ids_ok_def state_keyed_def)
  qed (use ok table(1) in \<open>auto simp: projection_ok_def knowledge_ids_ok_def state_keyed_def\<close>)
qed (use ok in simp)

lemma narrow_current_effect_ok:
  assumes "hex_digests P" and "inj_on (key_of P) K" and "st \<in> K" and ok: "projection_ok P K db"
    and finished: "narrow_current_effect P st others t i lp ip sp db = Inr (db', outcome)"
  shows "projection_ok P K db'"
proof -
  obtain k u where k: "pd_runtime db = Some k" "validate_configured_key P st (ks_version k) (ks_verifier k) = Inr u"
    using finished by (auto simp: narrow_current_effect_def split: option.splits)
  consider "db' = db" | permission changed where "narrow_fingerprint P st t i permission
      (change_target t i (\<lambda>r. r\<lparr>kn_permission := permission\<rparr>) db) = Inr (db', changed)"
    using finished k by (auto simp: narrow_current_effect_def Let_def split: option.splits)
  then show ?thesis
  proof cases
    case (2 permission changed)
    have "projection_ok P K (change_target t i (\<lambda>r. r\<lparr>kn_permission := permission\<rparr>) db)"
      using change_target_ok [OF ok] by simp
    then show ?thesis
      using narrow_fingerprint_ok [OF assms(1-3) _ configured_key [OF k(2)] _ 2] k(1) by simp
  qed (use ok in simp)
qed

lemma revoke_targets_ok:
  "revoke_targets others links db = Inr (db', documents) \<Longrightarrow> projection_ok P K db \<Longrightarrow> projection_ok P K db'"
proof (induction others links db arbitrary: db' documents rule: revoke_targets.induct)
  case (2 others t i shared links db)
  then show ?case using change_target_ok [OF 2(4), of "\<lambda>r. r\<lparr>kn_status := ''revoked''\<rparr>" t i]
    by (auto split: if_splits)
qed simp

lemma withdraw_rows_ok: "projection_ok P K db \<Longrightarrow> projection_ok P K (withdraw_rows documents db)"
proof -
  have "table_ok rows \<Longrightarrow> table_ok (filter Q rows)" for rows Q
    by (auto simp: table_ok_def distinct_map inj_on_def)
  then show "projection_ok P K db \<Longrightarrow> projection_ok P K (withdraw_rows documents db)"
    by (auto simp: withdraw_rows_def projection_ok_def [of P K db] knowledge_ids_ok_def state_keyed_def)
qed

lemma revoke_effects_ok:
  assumes "projection_ok P K db" and "revoke_effects P st others links db = Inr db'"
  shows "projection_ok P K db'"
  using assms by (auto simp: revoke_effects_def split: option.splits dest: revoke_targets_ok intro: withdraw_rows_ok)

section \<open>Every transaction\<close>

lemma projection_step_ok:
  assumes "hex_digests P" and "inj_on (key_of P) K" and "projection_step P K db db'" and ok: "projection_ok P K db"
  shows "projection_ok P K db'"
  using assms(3)
proof cases
  case step_knowledge
  then show ?thesis using ok by (auto simp: projection_ok_def knowledge_ids_ok_def state_keyed_def)
next
  case step_project
  then show ?thesis using project_approved_effects_ok [OF assms(1,2) _ ok] by blast
next
  case step_demote
  then show ?thesis
    using ok by (cases "pd_state db") (auto simp: demote_trusted_fingerprint_projection_def projection_ok_def [of P K db])
next
  case step_begin_rebuild
  then show ?thesis
    using ok
    by (auto simp: begin_rebuild_def projection_ok_def knowledge_ids_ok_def state_keyed_def split: option.splits if_splits)
next
  case step_replace
  then show ?thesis using replace_rows_ok [OF assms(1,2) _ ok] by blast
next
  case step_narrow
  then show ?thesis using narrow_current_effect_ok [OF assms(1,2) _ ok] by blast
next
  case step_revoke
  then show ?thesis using revoke_effects_ok [OF ok] by blast
next
  case step_switch
  then show ?thesis
    using ok by (auto simp: switch_key_def projection_ok_def knowledge_ids_ok_def state_keyed_def table_ok_def Let_def
        split: option.splits if_splits)
next
  case step_bootstrap
  then show ?thesis
    using ok by (auto simp: ensure_initialized_def projection_ok_def knowledge_ids_ok_def state_keyed_def Let_def
        split: option.splits if_splits bool.splits)
qed

text \<open>The invariant, through the contract of \<open>Prelude\<close>; settings without a digest signer keep nothing.\<close>

interpretation projection: invariant_system fresh_projection
  "\<lambda>db db'. hex_digests P \<and> inj_on (key_of P) K \<and> projection_step P K db db'" "projection_ok P K" for P K
proof unfold_locales
  show "projection_ok P K db" if "fresh_projection db" for P K db
    using that by (simp add: fresh_projection_def projection_ok_def table_ok_def state_keyed_def)
qed (use projection_step_ok in blast)

end
