(* ===== verification/Trusted_Projection_Properties.thy ===== *)
theory Trusted_Projection_Properties
  imports Trusted_Projection_Facts
begin

text \<open>
  What the projection is for: its stored summary is the one a full recomputation gives, an eligible candidate
  repeats no approved knowledge, a rebuild makes it ready again, and it never blocks an approval.
\<close>

section \<open>Readiness\<close>

lemma projection_reach_ok:
  assumes "hex_digests P" and "inj_on (key_of P) K" and "reach fresh_projection (projection_step P K) db"
  shows "projection_ok P K db"
proof -
  have "projection_step P K = (\<lambda>db db'. hex_digests P \<and> inj_on (key_of P) K \<and> projection_step P K db db')"
    using assms(1,2) by auto
  then show ?thesis using projection.inv_reach [of P K db] assms(3) by simp
qed

lemma projection_ready_Inr:
  assumes "trusted_fingerprint_projection_ready P st answered db"
  obtains p expected where "pd_state db = Some p" and "pt_ready p" and "pt_version p = fingerprint_key_version st"
    and "pt_verifier p = settings_verifier P st"
    and "source_projection_snapshots P st (settings_verifier P st) db = Inr expected"
    and "set (pd_rows db) = set expected"
  using assms
  by (auto simp: trusted_fingerprint_projection_ready_def projection_identity_ready_def
      runtime_is_configured_def not_missing_iff split: sum.splits option.splits)

text \<open>
  C34. The stored count and checksum, which approvals and the narrowing of permissions move by deltas, are what a
  recomputation over all approved knowledge gives, whenever the projection is ready: in every state that the
  transactions of \<open>projection_step\<close> reach, the approvals, the demotion, the rebuild, the rotation and the bootstrap of the
  key, the narrowing, the revocation, and any change of the knowledge outside them. \<open>K\<close> are the settings the
  processes have, which the version and the verifier of a key tell apart.
\<close>

theorem stored_summary_is_recomputed:
  assumes "hex_digests P" and "inj_on (key_of P) K" and "st \<in> K"
    and "reach fresh_projection (projection_step P K) db"
    and "trusted_fingerprint_projection_ready P st answered db"
  shows "\<exists>p expected. pd_state db = Some p
    \<and> source_projection_snapshots P st (settings_verifier P st) db = Inr expected
    \<and> set (pd_rows db) = set expected
    \<and> summary_for_rows P st expected
        = Inr \<lparr>sm_count = pt_source_count p, sm_checksum = or_zero (pt_source_checksum p)\<rparr>"
proof -
  have ok: "projection_ok P K db" using projection_reach_ok [OF assms(1,2,4)] .
  obtain p expected where p: "pd_state db = Some p" "pt_ready p" "pt_version p = fingerprint_key_version st"
      "pt_verifier p = settings_verifier P st" "set (pd_rows db) = set expected"
      and expected: "source_projection_snapshots P st (settings_verifier P st) db = Inr expected"
    using projection_ready_Inr [OF assms(5)] by metis
  have summarises: "state_summarises P K p (pd_rows db)" and rows: "distinct (map row_key (pd_rows db))"
      and "knowledge_ids_ok db"
    using ok p by (auto simp: projection_ok_def table_ok_def)
  then have "distinct (map row_key expected)" using source_snapshots_Inr(3) [OF expected] by simp
  then have same: "mset (pd_rows db) = mset expected" using same_keys_same_mset [OF p(5) rows] by simp
  have "key_of P st = (pt_version p, pt_verifier p)"
    using summarises p by (simp add: state_summarises_def key_of_def)
  then have "digests P st (pd_rows db)" "source_summary p = table_summary P st (pd_rows db)"
    using summarises assms(3) by (auto simp: state_summarises_def)
  then have "summary_for_rows P st expected = Inr (source_summary p)"
    using summary_for_rows_Inr [OF assms(1)] \<open>distinct (map row_key expected)\<close> p(5) table_summary_mset [OF same]
    by (simp add: digests_def)
  then show ?thesis using p expected by (auto simp: source_summary_def)
qed

section \<open>Collisions\<close>

lemma with_projection_simps [simp]:
  "dr_projection_ready (with_projection P st answered db visible it d) =
     trusted_fingerprint_projection_ready P st answered db"
  "dr_visible (with_projection P st answered db visible it d) = visible_targets db visible (ri_permission_level it)"
  "dr_security_scope_id (with_projection P st answered db visible it d) =
     (case ri_workflow_thread_id it of None \<Rightarrow> None | Some t \<Rightarrow> pd_threads db t)"
  "dr_hidden (with_projection P st answered db visible it d) = (\<lambda>c.
     hidden_or_legacy_collision_exists (pd_rows db) (tc_knowledge_type c)
         (tc_security_scope_id c) (tc_project_scope_hmac c) (tc_title_bucket_hmac c) visible
         (Some (ri_permission_level it)))"
  by (simp_all add: with_projection_def)

text \<open>A row of the bucket in the scope, or of no scope, is found by one of the two lookups.\<close>

lemma collision_is_found:
  assumes "r \<in> set rows" and "in_bucket t project bucket r" and "reusable_type t"
    and "fp_resolution r = ''legacy_unknown'' \<or> fp_resolution r = ''exact'' \<and> fp_scope r = Some scope"
    and "fp_claim r = None \<longrightarrow> fp_resolution r \<noteq> ''exact''"
    and "hidden_or_legacy_collision_exists rows t scope project bucket visible (Some permission) = Inr False"
  shows "find_visible_trusted_collisions rows t scope project bucket visible permission \<noteq> Inr []"
proof -
  define found where "found = filter (\<lambda>r. in_bucket t project bucket r \<and> fp_resolution r = ''exact''
    \<and> fp_scope r = Some scope \<and> fp_permission r \<in> set visible \<and> fp_permission r = permission \<and> fp_claim r \<noteq> None) rows"
  have exact: "fp_resolution r = ''exact''" "fp_scope r = Some scope" "visible \<noteq> []" "fp_permission r \<in> set visible"
      "fp_permission r = permission"
    using assms by (auto simp: hidden_or_legacy_collision_exists_def)
  then have "r \<in> set found" using assms(1,2,5) by (auto simp: found_def)
  then have "sort_key fp_id found \<noteq> []" by (metis empty_iff set_empty set_sort)
  then show ?thesis
    unfolding find_visible_trusted_collisions_def found_def [symmetric] using assms(3) exact(3) by simp
qed

text \<open>An approved row has the normal form of the title and of the project of the candidate.\<close>

definition repeats :: "primitives \<Rightarrow> review_item \<Rightarrow> source_row \<Rightarrow> bool" where
  "repeats P it r \<longleftrightarrow>
     (\<exists>t. preview_field it ''title'' = Some t \<and> normalize_trusted_text P (kn_title r) = normalize_trusted_text P t)
     \<and> normalize_optional P (kn_project_key r)
       = normalize_optional P (case payload_get it ''project_key'' of JStr s \<Rightarrow> Some s | _ \<Rightarrow> None)"

lemma repeats_fingerprints:
  assumes "repeats P it r" and "build_trusted_candidate_fingerprint P st it s = Inr c"
  shows "tc_knowledge_type c = ri_item_type it" "tc_security_scope_id c = s" "reusable_type (ri_item_type it)"
    "trusted_project_scope_fingerprint P st (kn_project_key r) = Inr (tc_project_scope_hmac c)"
    "trusted_title_collision_bucket P st (ri_item_type it) (kn_title r) = Inr (tc_title_bucket_hmac c)"
proof -
  obtain t where t: "preview_field it ''title'' = Some t"
      "normalize_trusted_text P (kn_title r) = normalize_trusted_text P t"
      and project: "normalize_optional P (kn_project_key r)
        = normalize_optional P (case payload_get it ''project_key'' of JStr s \<Rightarrow> Some s | _ \<Rightarrow> None)"
    using assms(1) by (auto simp: repeats_def)
  have c: "tc_knowledge_type c = ri_item_type it \<and> tc_security_scope_id c = s \<and> reusable_type (ri_item_type it)
      \<and> trusted_project_scope_fingerprint P st (case payload_get it ''project_key'' of JStr s \<Rightarrow> Some s | _ \<Rightarrow> None)
          = Inr (tc_project_scope_hmac c)
      \<and> trusted_title_collision_bucket P st (ri_item_type it) t = Inr (tc_title_bucket_hmac c)"
    using assms(2) by (auto simp: build_trusted_candidate_fingerprint_def t(1) split: if_splits)
  then show "tc_knowledge_type c = ri_item_type it" "tc_security_scope_id c = s" "reusable_type (ri_item_type it)"
    by simp_all
  show "trusted_project_scope_fingerprint P st (kn_project_key r) = Inr (tc_project_scope_hmac c)"
    using c project by (simp add: trusted_project_scope_fingerprint_def)
  have bucket: "trusted_title_collision_bucket P st k (kn_title r) = trusted_title_collision_bucket P st k t" for k
    by (simp only: trusted_title_collision_bucket_def t(2))
  show "trusted_title_collision_bucket P st (ri_item_type it) (kn_title r) = Inr (tc_title_bucket_hmac c)"
    using c by (simp add: bucket)
qed

text \<open>What an eligible candidate says of the context it was decided in.\<close>

lemma eligible_context:
  assumes "evaluate_candidate scan high_risk it x = Inr res" and "sr_decision res = Eligible"
  shows "ec_visible_targets x = []" "\<not> ec_hidden_collision x" "ec_lookup_available x" "ec_projection_ready x"
proof -
  have "er_decision (evaluate_eligibility (eligibility_input_of high_risk it x)) = Eligible"
    using assms by (auto simp: evaluate_candidate_def service_refusal_def Let_def split: if_splits option.splits)
  then show "ec_visible_targets x = []" "\<not> ec_hidden_collision x" "ec_lookup_available x" "ec_projection_ready x"
    unfolding eligible_iff eligible_guards_def by (auto simp: eligibility_input_of_def Let_def)
qed

lemma context_lookup:
  assumes "load_eligibility_context P st it d visible messages budget = Inr x"
    and "collision_lookup P st it d = (claim, targets, hidden, available)"
  shows "ec_visible_targets x = targets \<and> ec_hidden_collision x = hidden \<and> ec_lookup_available x = available
    \<and> ec_projection_ready x = dr_projection_ready d"
proof -
  obtain ready collision registry where
    "generation_readiness it (dr_run d) (dr_graph_version d) (dr_registry d) = (ready, collision, registry)"
    using prod_cases3 by blast
  then show ?thesis using assms by (auto simp: load_eligibility_context_def)
qed

lemma collision_lookup_clear:
  assumes "collision_lookup P st it d = (claim, [], False, True)" and "dr_projection_ready d"
    and "dr_security_scope_id d = Some s"
  obtains c where "build_trusted_candidate_fingerprint P st it (strip s) = Inr c"
    and "dr_visible d c = Inr []" and "dr_hidden d c = Inr False"
  using assms by (auto simp: collision_lookup_def Let_def split: if_splits sum.splits)

lemma visible_targets_empty:
  assumes "visible_targets db visible permission c = Inr []"
  shows "find_visible_trusted_collisions (pd_rows db) (tc_knowledge_type c) (tc_security_scope_id c)
    (tc_project_scope_hmac c) (tc_title_bucket_hmac c) visible permission = Inr []"
proof -
  have "xs = []" if "collect_r f xs = Inr []" for f :: "string \<times> int \<times> string \<Rightarrow> trusted_target result" and xs
    using that by (cases xs) auto
  then show ?thesis using assms by (auto simp: visible_targets_def)
qed

text \<open>
  C33. A candidate found eligible with the answers of the projection repeats no approved knowledge of its type that
  has no security scope, or the scope \<open>strip s\<close> the collisions are looked for in: the scope \<open>s\<close> of the workflow
  of the candidate without the white space around it. For a workflow whose scope has no white space around it, that is
  its own scope; knowledge of a scope that has is not covered, and is not found (\<open>padded_scope_is_not_found\<close>).
\<close>

theorem eligible_candidate_is_new:
  assumes "evaluate_from_database P st scan high_risk it (with_projection P st answered db visible it d)
      visible messages budget = Inr res"
    and "sr_decision res = Eligible"
    and "ri_workflow_thread_id it = Some thread" and "pd_threads db thread = Some s"
  shows "\<not> (\<exists>r. (ri_item_type it, r) \<in> set (approved_targets db)
    \<and> target_scope db (kn_review_item r) \<in> {None, Some (strip s)} \<and> repeats P it r)"
proof
  let ?d = "with_projection P st answered db visible it d"
  assume "\<exists>r. (ri_item_type it, r) \<in> set (approved_targets db)
    \<and> target_scope db (kn_review_item r) \<in> {None, Some (strip s)} \<and> repeats P it r"
  then obtain r where r: "(ri_item_type it, r) \<in> set (approved_targets db)"
    "target_scope db (kn_review_item r) \<in> {None, Some (strip s)}" "repeats P it r" by blast
  obtain x where x: "load_eligibility_context P st it ?d visible messages budget = Inr x"
      and res: "evaluate_candidate scan high_risk it x = Inr res"
    using assms(1) by (auto simp: evaluate_from_database_def)
  obtain claim targets hidden available where lookup: "collision_lookup P st it ?d = (claim, targets, hidden, available)"
    by (cases "collision_lookup P st it ?d")
  have "ec_visible_targets x = targets \<and> ec_hidden_collision x = hidden \<and> ec_lookup_available x = available
      \<and> ec_projection_ready x = dr_projection_ready ?d"
    using x by (rule context_lookup [OF _ lookup])
  then have "targets = []" "\<not> hidden" "available" and ready: "trusted_fingerprint_projection_ready P st answered db"
    using eligible_context [OF res assms(2)] by simp_all
  then obtain c where c: "build_trusted_candidate_fingerprint P st it (strip s) = Inr c"
      "dr_visible ?d c = Inr []" "dr_hidden ?d c = Inr False"
    using lookup assms(3,4) collision_lookup_clear [of P st it ?d claim s] by auto
  note same = repeats_fingerprints [OF r(3) c(1)]
  obtain expected where expected: "source_projection_snapshots P st (settings_verifier P st) db = Inr expected"
      and stored: "set (pd_rows db) = set expected"
    using projection_ready_Inr [OF ready] by metis
  obtain row where row: "row \<in> set (pd_rows db)"
      "source_snapshot P st (settings_verifier P st) db (ri_item_type it) r = Inr row"
    using source_snapshots_Inr(2) [OF expected r(1)] stored by auto
  note shape = source_snapshot_Inr [OF row(2)]
  have "in_bucket (tc_knowledge_type c) (tc_project_scope_hmac c) (tc_title_bucket_hmac c) row"
    using shape same r(1) by (auto simp: in_bucket_def row_key_def approved_targets_iff)
  moreover have "fp_resolution row = ''legacy_unknown''
      \<or> fp_resolution row = ''exact'' \<and> fp_scope row = Some (tc_security_scope_id c)"
    using shape(4,5) r(2) same(2) by auto
  ultimately have "find_visible_trusted_collisions (pd_rows db) (tc_knowledge_type c) (tc_security_scope_id c)
      (tc_project_scope_hmac c) (tc_title_bucket_hmac c) visible (ri_permission_level it) \<noteq> Inr []"
    using collision_is_found [OF row(1)] shape(5,6) same(1,3) c(3) by auto
  then show False using visible_targets_empty c(2) by simp
qed

section \<open>Rebuilding\<close>

lemma collect_r_id: "(\<And>x. x \<in> set xs \<Longrightarrow> f x = Inr x) \<Longrightarrow> collect_r f xs = Inr xs"
  by (induction xs) auto

lemma stored_snapshots_table: "table_ok (pd_rows db) \<Longrightarrow> stored_snapshots db = Inr (sort_key row_key (pd_rows db))"
  unfolding stored_snapshots_def by (rule collect_r_id) (simp add: table_ok_def)

lemma flush_rows_fits: "(\<And>r. r \<in> set (pd_rows db) \<Longrightarrow> code_points (fp_key_version r) \<le> 64) \<Longrightarrow> flush_rows db = Inr db"
  by (force simp: flush_rows_def)

lemma sources_frame [simp]:
  "target_scope (db\<lparr>pd_rows := rs\<rparr>) i = target_scope db i"
  "target_scope (db\<lparr>pd_state := s\<rparr>) i = target_scope db i"
  "source_projection_snapshots P st v (db\<lparr>pd_rows := rs\<rparr>) = source_projection_snapshots P st v db"
  "source_projection_snapshots P st v (db\<lparr>pd_state := s\<rparr>) = source_projection_snapshots P st v db"
proof -
  show rows: "target_scope (db\<lparr>pd_rows := rs\<rparr>) i = target_scope db i" for i
    by (simp add: target_scope_def split: option.split)
  show state: "target_scope (db\<lparr>pd_state := s\<rparr>) i = target_scope db i" for i
    by (simp add: target_scope_def split: option.split)
  show "source_projection_snapshots P st v (db\<lparr>pd_rows := rs\<rparr>) = source_projection_snapshots P st v db"
    "source_projection_snapshots P st v (db\<lparr>pd_state := s\<rparr>) = source_projection_snapshots P st v db"
    by (simp_all add: source_projection_snapshots_def source_snapshot_def approved_targets_def rows state)
qed

lemma replace_rows_returns:
  assumes "hex_digests P" and "pd_runtime db = Some k" and "pd_state db = Some p"
    and secret: "fingerprint_secret_bytes st = Inr (secret, ks_version k)" "ks_verifier k = key_material_verifier P secret"
    and "table_ok (pd_rows db)" and "knowledge_ids_ok db" and "code_points (ks_version k) \<le> 64"
    and rows: "source_projection_snapshots P st (ks_verifier k) db = Inr rows" and "digests P st rows"
  shows "\<exists>db' result. replace_rows P st db = Inr (db', result)"
proof -
  have valid: "distinct (map row_key rows)" "\<And>r. r \<in> set rows \<Longrightarrow> make_projection_row r = Inr r"
      "\<And>r. r \<in> set rows \<Longrightarrow> fp_key_version r = strip (fingerprint_key_version st)"
    using source_snapshots_Inr [OF rows] source_snapshot_Inr(9,10) assms(7) by blast+
  have "strip (fingerprint_key_version st) = ks_version k"
    using secret(1) by (auto simp: fingerprint_secret_bytes_def Let_def split: if_splits)
  then have flush: "flush_rows (db\<lparr>pd_rows := rows\<rparr>) = Inr (db\<lparr>pd_rows := rows\<rparr>)"
    using valid(3) assms(8) by (intro flush_rows_fits) auto
  have "table_ok (pd_rows (db\<lparr>pd_rows := rows\<rparr>))" using valid by (simp add: table_ok_def)
  from stored_snapshots_table [OF this]
  have "stored_snapshots (db\<lparr>pd_rows := rows\<rparr>) = Inr rows"
    using sorted_rows [OF source_snapshots_Inr(4) [OF rows]] by simp
  moreover have "summary_for_rows P st rows = Inr (table_summary P st rows)"
    using summary_for_rows_Inr [OF assms(1)] valid(1) assms(10) by simp
  ultimately show ?thesis
    using assms(2,3) secret rows stored_snapshots_table [OF assms(6)] flush
    by (simp add: replace_rows_def Let_def)
qed

text \<open>
  C36. On PostgreSQL, from every state that the transactions of \<open>projection_step\<close> reach in which the key of the
  runtime is ready and the one configured, a rebuild succeeds and leaves a projection that is ready, as soon as every
  approved row can be projected and signed, and no other transaction comes between its two. On SQLite a rebuild
  ends without readiness.
\<close>

theorem rebuild_restores_readiness:
  assumes "hex_digests P" and "inj_on (key_of P) K" and "reach fresh_projection (projection_step P K) db"
    and "pd_postgres db" and "pd_runtime db = Some k" and "ks_ready k" and "pd_state db = Some p"
    and "runtime_is_configured P st (Some k)" and "code_points (ks_version k) \<le> 64"
    and "fingerprint_secret_bytes st = Inr (secret, fingerprint_key_version st)"
    and "source_projection_snapshots P st (settings_verifier P st) db = Inr expected"
    and "\<forall>r \<in> set expected. returns (projection_row_digest P st r)"
  shows "\<exists>db' result. rebuild_trusted_fingerprint_projection P st (\<lambda>d. d) db = (db', Inr result)
    \<and> rr_ready result \<and> trusted_fingerprint_projection_ready P st True db'"
proof -
  define db1 where "db1 = db\<lparr>pd_state := Some (p\<lparr>pt_ready := False, pt_rebuild_required := True\<rparr>)\<rparr>"
  have ok: "table_ok (pd_rows db)" "knowledge_ids_ok db"
    using projection_reach_ok [OF assms(1-3)] by (auto simp: projection_ok_def)
  have key: "ks_version k = fingerprint_key_version st" "ks_verifier k = settings_verifier P st"
    using assms(8) by (simp_all add: runtime_is_configured_def)
  have "secret = fingerprint_secret st"
    using assms(10) by (auto simp: fingerprint_secret_bytes_def Let_def split: if_splits)
  have "\<exists>db' result. replace_rows P st db1 = Inr (db', result)"
    using assms(1,5,9,10,11,12) ok key \<open>secret = fingerprint_secret st\<close>
    by (intro replace_rows_returns [where k = k and rows = expected and secret = secret])
      (simp_all add: db1_def knowledge_ids_ok_def settings_verifier_def digests_def)
  then obtain db' result where replaced: "replace_rows P st db1 = Inr (db', result)" by blast
  then show ?thesis
  proof (rule replace_rows_Inr)
    fix k' p' rows s
    assume *: "pd_runtime db1 = Some k'" "pd_state db1 = Some p'"
      "source_projection_snapshots P st (ks_verifier k') db1 = Inr rows" "summary_for_rows P st rows = Inr s"
      "db' = db1\<lparr>pd_rows := rows, pd_state := Some (rebuilt_state k' s (pd_postgres db1 \<and> ks_ready k') p')\<rparr>"
      "rr_ready result \<longleftrightarrow> pd_postgres db1 \<and> ks_ready k'"
    have "k' = k" using *(1) assms(5) by (simp add: db1_def)
    then have "rows = expected" using *(3) assms(11) key(2) by (simp add: db1_def)
    then have "trusted_fingerprint_projection_ready P st True db'"
      using assms(4,5,6,8,11) key
      by (simp add: *(5) \<open>k' = k\<close> db1_def trusted_fingerprint_projection_ready_def
          projection_identity_ready_def rebuilt_state_def not_missing_iff)
    moreover have "rr_ready result" using *(6) assms(4,6) by (simp add: \<open>k' = k\<close> db1_def)
    moreover have "rebuild_trusted_fingerprint_projection P st (\<lambda>d. d) db = (db', Inr result)"
      using replaced assms(5,7) by (simp add: rebuild_trusted_fingerprint_projection_def begin_rebuild_def db1_def)
    ultimately show ?thesis by blast
  qed
qed

section \<open>Approvals\<close>

lemma normalize_json_error:
  "normalize_json f v = Inl e \<Longrightarrow> is_value_error e"
  "normalize_items f vs = Inl e \<Longrightarrow> is_value_error e"
  "normalize_members f seen kvs = Inl e \<Longrightarrow> is_value_error e"
  by (induction f v and f vs and f seen kvs rule: normalize_json_normalize_items_normalize_members.induct)
    (auto simp: then_r_Inl Let_def split: if_splits)

lemma canonical_json_bytes_error: "canonical_json_bytes f v = Inl e \<Longrightarrow> is_value_error e"
  using normalize_json_error(1) by (auto simp: canonical_json_bytes_def then_r_Inl split: if_splits)

lemma keyed_fingerprint_error: "keyed_fingerprint P k sv pv v = Inl e \<Longrightarrow> is_value_error e"
  using canonical_json_bytes_error by (auto simp: keyed_fingerprint_def then_r_Inl split: if_splits)

lemma fingerprint_secret_error: "fingerprint_secret_bytes st = Inl e \<Longrightarrow> is_value_error e"
  by (auto simp: fingerprint_secret_bytes_def Let_def split: if_splits)

lemma checksum_int_error:
  assumes "checksum_int s = Inl e"
  shows "is_value_error e"
proof -
  have *: "(if b then Inl x else case v of None \<Rightarrow> Inl x | Some n \<Rightarrow> Inr n) = (Inl e :: int result) \<Longrightarrow> e = x" for b v x
    by (auto split: if_splits option.splits)
  show ?thesis using assms unfolding checksum_int_def Let_def by (auto dest: *)
qed

lemma make_projection_summary_error: "make_projection_summary c s = Inl e \<Longrightarrow> is_value_error e"
  using checksum_int_error by (auto simp: make_projection_summary_def then_r_Inl split: if_splits)

lemma make_projection_row_error: "make_projection_row r = Inl e \<Longrightarrow> is_value_error e"
  by (auto simp: make_projection_row_def split: if_splits)

lemma projection_row_digest_error: "projection_row_digest P st r = Inl e \<Longrightarrow> is_value_error e"
  using fingerprint_secret_error keyed_fingerprint_error
  by (auto simp: projection_row_digest_def then_r_Inl split: if_splits)

lemma apply_delta_error: "apply_delta old new s = Inl e \<Longrightarrow> is_value_error e"
  using checksum_int_error make_projection_summary_error
  by (auto simp: apply_delta_def then_r_Inl split: if_splits option.splits)

lemma apply_to_state_error: "apply_to_state old d p = Inl e \<Longrightarrow> is_value_error e"
  using make_projection_summary_error apply_delta_error by (auto simp: apply_to_state_def then_r_Inl)

lemma effect_snapshot_error: "effect_snapshot P st db e = Inl x \<Longrightarrow> is_value_error x"
  using fingerprint_secret_error keyed_fingerprint_error make_projection_row_error
  by (auto simp: effect_snapshot_def then_r_Inl trusted_project_scope_fingerprint_def
      trusted_title_collision_bucket_def Let_def split: option.splits if_splits)

lemma old_row_digest_error: "old_row_digest P st r rows = Inl e \<Longrightarrow> is_value_error e"
  using make_projection_row_error projection_row_digest_error
  by (auto simp: old_row_digest_def then_r_Inl split: option.splits)

lemma project_effects_error: "project_effects P st healthy es db = (db', Some e) \<Longrightarrow> is_value_error e"
proof (induction es arbitrary: db)
  case (Cons x es)
  have "is_value_error e" if "project_effect P st healthy x db = (db', Some e)" for db'
    using that effect_snapshot_error old_row_digest_error projection_row_digest_error apply_to_state_error
    by (auto simp: project_effect_def project_row_def Let_def split: if_splits sum.splits option.splits)
  then show ?case using Cons by (auto split: prod.splits option.splits)
qed simp

text \<open>Rows are only added or replaced under their key, and every effect that is done has its row.\<close>

lemma put_row_keys: "row_key ` set (put_row r rows) = insert (row_key r) (row_key ` set rows)"
  by (cases "row_key r \<in> set (map row_key rows)") (auto simp flip: set_map)

lemma project_row_rows:
  assumes "project_row P st healthy r db = (db', err)"
  shows "row_key ` set (pd_rows db) \<subseteq> row_key ` set (pd_rows db')"
    and "err = None \<Longrightarrow> row_key r \<in> row_key ` set (pd_rows db')"
    and "x \<in> set (pd_rows db') \<Longrightarrow> x \<in> set (pd_rows db) \<or> x = r"
proof -
  have "pd_rows db' = pd_rows db \<and> err \<noteq> None \<or> pd_rows db' = put_row r (pd_rows db)"
    using assms by (auto simp: project_row_def Let_def split: sum.splits option.splits if_splits)
  moreover have "x \<in> set (put_row r rows) \<Longrightarrow> x \<in> set rows \<or> x = r" for rows
    by (auto simp: put_row_def split: if_splits)
  ultimately show "row_key ` set (pd_rows db) \<subseteq> row_key ` set (pd_rows db')"
    "err = None \<Longrightarrow> row_key r \<in> row_key ` set (pd_rows db')"
    "x \<in> set (pd_rows db') \<Longrightarrow> x \<in> set (pd_rows db) \<or> x = r"
    using put_row_keys by auto
qed

lemma effect_snapshot_key: "effect_snapshot P st db e = Inr r \<Longrightarrow> row_key r = (pe_type e, pe_id e)"
  by (auto simp: effect_snapshot_def row_key_def find_Some_iff split: option.splits dest!: make_projection_row_Inr)

definition rows_fit :: "projection_row list \<Rightarrow> bool" where
  "rows_fit rows \<longleftrightarrow> (\<forall>r \<in> set rows. code_points (fp_key_version r) \<le> 64)"

lemma project_effect_rows:
  assumes "project_effect P st healthy e db = (db', err)"
  shows "row_key ` set (pd_rows db) \<subseteq> row_key ` set (pd_rows db')"
    and "err = None \<Longrightarrow> reusable_type (pe_type e) \<Longrightarrow> (pe_type e, pe_id e) \<in> row_key ` set (pd_rows db')"
    and "rows_fit (pd_rows db) \<Longrightarrow> code_points (fingerprint_key_version st) \<le> 64 \<Longrightarrow> rows_fit (pd_rows db')"
proof -
  consider "db' = db" "err = None \<longrightarrow> \<not> reusable_type (pe_type e)"
    | r where "effect_snapshot P st db e = Inr r" "project_row P st healthy r db = (db', err)"
    using assms by (auto simp: project_effect_def split: if_splits sum.splits)
  then have "row_key ` set (pd_rows db) \<subseteq> row_key ` set (pd_rows db')
    \<and> (err = None \<longrightarrow> reusable_type (pe_type e) \<longrightarrow> (pe_type e, pe_id e) \<in> row_key ` set (pd_rows db'))
    \<and> (rows_fit (pd_rows db) \<longrightarrow> code_points (fingerprint_key_version st) \<le> 64 \<longrightarrow> rows_fit (pd_rows db'))"
  proof cases
    case 2
    note row = project_row_rows [OF 2(2)] effect_snapshot_key [OF 2(1)] effect_snapshot_Inr(2) [OF 2(1)]
    have "rows_fit (pd_rows db')" if "rows_fit (pd_rows db)" "code_points (fingerprint_key_version st) \<le> 64"
      using that row(3,5) unfolding rows_fit_def by metis
    then show ?thesis using row(1,2,4) by auto
  qed auto
  then show "row_key ` set (pd_rows db) \<subseteq> row_key ` set (pd_rows db')"
    "err = None \<Longrightarrow> reusable_type (pe_type e) \<Longrightarrow> (pe_type e, pe_id e) \<in> row_key ` set (pd_rows db')"
    "rows_fit (pd_rows db) \<Longrightarrow> code_points (fingerprint_key_version st) \<le> 64 \<Longrightarrow> rows_fit (pd_rows db')"
    by blast+
qed

lemma project_effects_rows:
  assumes "project_effects P st healthy es db = (db', err)"
  shows "row_key ` set (pd_rows db) \<subseteq> row_key ` set (pd_rows db')
    \<and> (err = None \<longrightarrow> (\<forall>e \<in> set es. reusable_type (pe_type e) \<longrightarrow> (pe_type e, pe_id e) \<in> row_key ` set (pd_rows db')))
    \<and> (rows_fit (pd_rows db) \<and> code_points (fingerprint_key_version st) \<le> 64 \<longrightarrow> rows_fit (pd_rows db'))"
  using assms
proof (induction es arbitrary: db)
  case (Cons e es)
  obtain db1 err1 where step: "project_effect P st healthy e db = (db1, err1)" by (cases "project_effect P st healthy e db")
  note rows = project_effect_rows [OF step]
  show ?case
  proof (cases err1)
    case None
    then have "project_effects P st healthy es db1 = (db', err)" using Cons.prems step by simp
    from Cons.IH [OF this] show ?thesis using rows None by (auto dest: subsetD)
  next
    case (Some x)
    then show ?thesis using Cons.prems step rows by auto
  qed
qed simp

text \<open>
  C35. Projecting the effects of an approval never fails, whatever the approved rows hold and however the projection
  stands: an effect that cannot be projected takes the readiness away, and if the projection is still ready it
  was before, and every projectable effect has its row. The key version has to fit its column.
\<close>

theorem approval_is_never_blocked:
  assumes "code_points (fingerprint_key_version st) \<le> 64" and "rows_fit (pd_rows db)"
  shows "\<exists>db'. project_approved_effects P st effects new_targets db = Inr db'
    \<and> pd_histories db' = pd_histories db \<and> pd_timelines db' = pd_timelines db
    \<and> ((\<exists>p. pd_state db' = Some p \<and> pt_ready p) \<longrightarrow>
         started_healthy P st effects new_targets db
         \<and> (\<forall>e \<in> set effects. reusable_type (pe_type e) \<longrightarrow> (pe_type e, pe_id e) \<in> row_key ` set (pd_rows db')))"
proof (cases "pd_state db = None")
  case True
  then show ?thesis by (simp add: project_approved_effects_def)
next
  case False
  let ?healthy = "started_healthy P st effects new_targets db"
  obtain db1 err where loop: "project_effects P st ?healthy effects db = (db1, err)"
    by (cases "project_effects P st ?healthy effects db")
  note rows = project_effects_rows [OF loop] and frame = project_effects_frame [OF loop]
  have flush: "flush_rows d = Inr d" if "pd_rows d = pd_rows db1" for d
    using rows assms that by (intro flush_rows_fits) (simp add: rows_fit_def)
  have demoted: "flush_rows (demoted db1) = Inr (demoted db1)" by (rule flush) (simp add: demoted_def)
  have "project_approved_effects P st effects new_targets db
      = Inr (if err = None \<and> ?healthy then db1 else demoted db1)"
    using False loop flush demoted project_effects_error [of P st ?healthy effects db db1]
    by (cases err) (auto simp: project_approved_effects_def Let_def)
  moreover have "\<not> (\<exists>p. pd_state (demoted db1) = Some p \<and> pt_ready p)" by (auto simp: demoted_def)
  moreover have "pd_histories (demoted db1) = pd_histories db1" "pd_timelines (demoted db1) = pd_timelines db1"
    by (simp_all add: demoted_def)
  ultimately show ?thesis using frame rows by auto
qed

text \<open>
  The eligibility service looks for collisions with the stripped security scope, the projection stores the
  scope of the workflow as it is: a scope with white space around it is looked for in vain.
\<close>

lemma padded_scope_is_not_found:
  assumes "reusable_type t" and "strip s \<noteq> s" and "\<forall>r \<in> set rows. fp_resolution r = ''exact'' \<and> fp_scope r = Some s"
  shows "find_visible_trusted_collisions rows t (strip s) project bucket visible permission = Inr []"
    and "hidden_or_legacy_collision_exists rows t (strip s) project bucket visible (Some permission) = Inr False"
proof -
  have none: "filter (\<lambda>r. in_bucket t project bucket r \<and> fp_resolution r = ''exact'' \<and> fp_scope r = Some (strip s)
      \<and> fp_permission r \<in> set visible \<and> fp_permission r = permission \<and> fp_claim r \<noteq> None) rows = []"
    using assms(2,3) by (auto simp: filter_empty_conv)
  show "find_visible_trusted_collisions rows t (strip s) project bucket visible permission = Inr []"
    unfolding find_visible_trusted_collisions_def none using assms(1) by simp
  show "hidden_or_legacy_collision_exists rows t (strip s) project bucket visible (Some permission) = Inr False"
    using assms by (auto simp: hidden_or_legacy_collision_exists_def)
qed

end
