(* ===== verification/Trusted_Projection_Witnesses.thy ===== *)
theory Trusted_Projection_Witnesses
  imports Trusted_Projection_Properties
begin

text \<open>
  A projection from its bootstrap on: one approved timeline event of another security scope is projected by a
  rebuild, and a candidate with the same title is found eligible with the answers of the projection. The
  properties of \<open>Trusted_Projection_Properties\<close> are applied to it.
\<close>

section \<open>The settings\<close>

definition trusted_settings :: rag_settings where
  "trusted_settings = \<lparr>fingerprint_secret = ''0123456789abcdef0123456789abcdef'', fingerprint_key_version = ''v1'',
     paraworks_env = ''local''\<rparr>"

lemma trusted_settings_fields [simp]:
  "fingerprint_secret trusted_settings = ''0123456789abcdef0123456789abcdef''"
  "fingerprint_key_version trusted_settings = ''v1''"
  by (simp_all add: trusted_settings_def)

lemma trusted_strip [simp]: "strip ''v1'' = ''v1''" "strip ''default'' = ''default''" "strip ''kickoff'' = ''kickoff''"
  "strip ''done'' = ''done''" "strip ''minutes'' = ''minutes''"
  by (simp_all add: strip_plain plain_def)

lemma trusted_secret: "fingerprint_secret_bytes trusted_settings = Inr (''0123456789abcdef0123456789abcdef'', ''v1'')"
  by (simp add: fingerprint_secret_bytes_def trusted_settings_def local_fingerprint_secret_def strip_plain plain_def)

lemmas trusted_identity = demo_keyed trusted_secret settings_fingerprint_def plain_def utf8_valid_ascii

lemma demo_signs: "hex_digests demo_primitives"
  by (simp add: hex_digests_def)

lemma demo_verifier [simp]: "settings_verifier demo_primitives st = demo_digest"
  "key_material_verifier demo_primitives s = demo_digest"
  by (simp_all add: settings_verifier_def key_material_verifier_def)

section \<open>The knowledge\<close>

definition other_event :: source_row where
  "other_event = \<lparr>kn_id = 3, kn_title = ''kickoff'', kn_text = ''done'', kn_project_key = None,
     kn_permission = ''internal'', kn_status = ''approved'', kn_review_item = Some 9\<rparr>"

lemma other_event_fields [simp]:
  "kn_id other_event = 3" "kn_title other_event = ''kickoff''" "kn_text other_event = ''done''"
  "kn_project_key other_event = None" "kn_permission other_event = ''internal''"
  "kn_status other_event = ''approved''" "kn_review_item other_event = Some 9"
  by (simp_all add: other_event_def)

definition empty_projection :: projection_db where
  "empty_projection = \<lparr>pd_postgres = True, pd_runtime = None, pd_state = None, pd_rows = [], pd_histories = [],
     pd_timelines = [], pd_items = Map.empty, pd_threads = Map.empty\<rparr>"

definition known_items :: "int \<rightharpoonup> string option" where
  "known_items = [7 \<mapsto> Some ''thread'', 9 \<mapsto> Some ''other'']"

definition known_threads :: "string \<rightharpoonup> string" where
  "known_threads = [''thread'' \<mapsto> ''default'', ''other'' \<mapsto> ''elsewhere'']"

definition known_projection :: projection_db where
  "known_projection = empty_projection\<lparr>pd_histories := [], pd_timelines := [other_event], pd_items := known_items,
     pd_threads := known_threads\<rparr>"

lemma known_projection_fields [simp]:
  "pd_postgres known_projection = True" "pd_runtime known_projection = None" "pd_state known_projection = None"
  "pd_rows known_projection = []" "pd_histories known_projection = []" "pd_timelines known_projection = [other_event]"
  "pd_items known_projection = known_items" "pd_threads known_projection = known_threads"
  by (simp_all add: known_projection_def empty_projection_def)

definition other_row :: projection_row where
  "other_row = \<lparr>fp_type = ''timeline_event'', fp_id = 3, fp_resolution = ''exact'', fp_scope = Some ''elsewhere'',
     fp_project_hmac = demo_digest, fp_title_bucket = demo_digest, fp_claim = Some demo_digest,
     fp_permission = ''internal'', fp_status = ''approved'', fp_key_version = ''v1'', fp_verifier = demo_digest\<rparr>"

lemma normal_texts [simp]:
  "normalize_trusted_text demo_primitives ''kickoff'' = ''kickoff''"
  "normalize_trusted_text demo_primitives ''done'' = ''done''"
  "normalize_trusted_text demo_primitives ''elsewhere'' = ''elsewhere''"
  "normalize_trusted_text demo_primitives ''default'' = ''default''"
  by code_simp+

lemma project_hmac [simp]: "trusted_project_scope_fingerprint demo_primitives trusted_settings None = Inr demo_digest"
  by (simp add: trusted_project_scope_fingerprint_def normalize_optional_def trusted_identity)

lemma title_bucket [simp]:
  "trusted_title_collision_bucket demo_primitives trusted_settings ''timeline_event'' ''kickoff'' = Inr demo_digest"
  by (simp add: trusted_title_collision_bucket_def reusable_type_def normalization_version_def trusted_identity)

lemma claim_hmac:
  assumes "normalize_trusted_text demo_primitives s = s" and "s \<noteq> []" and "utf8_valid s"
  shows "promoted_effect_fingerprint demo_primitives trusted_settings ''timeline_event''
     [(''title'', Some ''kickoff''), (''result_summary'', Some ''done'')] None s = Inr demo_digest"
  using assms
  by (simp add: promoted_effect_fingerprint_def substantive_fields_def normalize_optional_def Let_def
      normalization_version_def trusted_identity)

lemma other_snapshot:
  assumes "pd_items db = known_items" and "pd_threads db = known_threads"
  shows "source_snapshot demo_primitives trusted_settings demo_digest db ''timeline_event'' other_event = Inr other_row"
proof -
  have "target_scope db (Some 9) = Some ''elsewhere''"
    using assms by (simp add: target_scope_def known_items_def known_threads_def)
  then show ?thesis
    by (simp add: source_snapshot_def source_fields_def claim_hmac utf8_valid_ascii make_projection_row_def
        reusable_type_def other_row_def)
qed

text \<open>A database with this knowledge.\<close>

definition knows :: "projection_db \<Rightarrow> bool" where
  "knows db \<longleftrightarrow> pd_histories db = [] \<and> pd_timelines db = [other_event] \<and> pd_items db = known_items
     \<and> pd_threads db = known_threads"

lemma other_sources:
  assumes "knows db"
  shows "source_projection_snapshots demo_primitives trusted_settings demo_digest db = Inr [other_row]"
  using assms other_snapshot by (simp add: source_projection_snapshots_def approved_targets_def knows_def)

lemma other_digest: "projection_row_digest demo_primitives trusted_settings other_row = Inr demo_digest"
  by (simp add: projection_row_digest_def projection_schema_def other_row_def trusted_identity)

section \<open>Its life\<close>

definition trusted_key :: key_state where
  "trusted_key = \<lparr>ks_version = ''v1'', ks_verifier = demo_digest, ks_generation = 1, ks_ready = True\<rparr>"

definition initial_state :: projection_state where
  "initial_state = \<lparr>pt_schema = projection_schema, pt_version = ''v1'', pt_verifier = demo_digest, pt_generation = 1,
     pt_ready = False, pt_source_count = 0, pt_source_checksum = None, pt_projected_count = 0,
     pt_projected_checksum = None, pt_rebuild_required = True, pt_completed = False\<rparr>"

definition booted :: projection_db where
  "booted = known_projection\<lparr>pd_runtime := Some trusted_key, pd_state := Some initial_state\<rparr>"

definition trusted_summary :: projection_summary where
  "trusted_summary = table_summary demo_primitives trusted_settings [other_row]"

definition rebuilt :: projection_db where
  "rebuilt = booted\<lparr>pd_rows := [other_row], pd_state := Some (rebuilt_state trusted_key trusted_summary True initial_state)\<rparr>"

lemma booted_fields [simp]:
  "pd_postgres booted = True" "pd_runtime booted = Some trusted_key" "pd_state booted = Some initial_state"
  "pd_rows booted = []" "knows booted"
  by (simp_all add: booted_def knows_def)

lemma rebuilt_fields [simp]:
  "pd_postgres rebuilt = True" "pd_runtime rebuilt = Some trusted_key"
  "pd_state rebuilt = Some (rebuilt_state trusted_key trusted_summary True initial_state)"
  "pd_rows rebuilt = [other_row]" "knows rebuilt"
  by (simp_all add: rebuilt_def booted_def knows_def)

lemma bootstrapped:
  "ensure_initialized demo_primitives trusted_settings ''disabled'' (Some True) False known_projection
     = Inr (booted, \<lparr>br_schema_available = True, br_initialized = True, br_ready = True\<rparr>)"
proof -
  have "require_c5_durable_key_ready trusted_settings = Inr ()"
    by (simp add: require_c5_durable_key_ready_def local_fingerprint_secret_def)
  moreover have "code_points ''v1'' \<le> 64" by code_simp
  ultimately show ?thesis
    by (simp add: ensure_initialized_def booted_def trusted_key_def initial_state_def Let_def)
qed

lemma initial_demoted: "initial_state\<lparr>pt_ready := False, pt_rebuild_required := True\<rparr> = initial_state"
  by (simp add: initial_state_def)

lemma begun: "begin_rebuild booted = Inr booted"
  by (simp add: begin_rebuild_def initial_demoted booted_def)

lemma summarised: "summary_for_rows demo_primitives trusted_settings [other_row] = Inr trusted_summary"
  by (simp add: summary_for_rows_Inr demo_signs trusted_summary_def digests_def other_digest)

lemma replaced:
  "\<exists>result. replace_rows demo_primitives trusted_settings booted = Inr (rebuilt, result) \<and> rr_ready result"
proof -
  have "ks_version trusted_key = ''v1''" "ks_verifier trusted_key = demo_digest" "ks_ready trusted_key"
    by (simp_all add: trusted_key_def)
  moreover have "stored_snapshots (booted\<lparr>pd_rows := [other_row]\<rparr>) = Inr [other_row]" "stored_snapshots booted = Inr []"
    by (simp_all add: stored_snapshots_def make_projection_row_def other_row_def reusable_type_def)
  moreover have "flush_rows (booted\<lparr>pd_rows := [other_row]\<rparr>) = Inr (booted\<lparr>pd_rows := [other_row]\<rparr>)"
    by (rule flush_rows_fits) (simp add: other_row_def code_points_def utf8_tail_def)
  moreover have "\<not> missing_active_row [other_row] [] [other_row]" by (simp add: not_missing_iff)
  ultimately show ?thesis
    by (simp add: replace_rows_def trusted_secret other_sources summarised Let_def)
      (simp add: rebuilt_def rebuilt_state_def)
qed

abbreviation trusted_steps :: "projection_db \<Rightarrow> projection_db \<Rightarrow> bool" where
  "trusted_steps \<equiv> projection_step demo_primitives {trusted_settings}"

lemma booted_reachable: "reach fresh_projection trusted_steps booted"
proof (rule reach_step)
  show "trusted_steps known_projection booted"
    by (rule step_bootstrap [OF _ bootstrapped]) simp
  show "reach fresh_projection trusted_steps known_projection"
  proof (rule reach_step)
    show "reach fresh_projection trusted_steps empty_projection"
      by (rule reach_init) (simp add: fresh_projection_def empty_projection_def knowledge_ids_ok_def)
    show "trusted_steps empty_projection known_projection"
      unfolding known_projection_def by (rule step_knowledge) simp_all
  qed
qed

lemma rebuilt_reachable: "reach fresh_projection trusted_steps rebuilt"
  using booted_reachable replaced by (blast intro: reach_step step_replace)

lemma rebuilt_ready: "trusted_fingerprint_projection_ready demo_primitives trusted_settings True rebuilt"
  by (simp add: trusted_fingerprint_projection_ready_def runtime_is_configured_def projection_identity_ready_def
      other_sources not_missing_iff rebuilt_state_def trusted_key_def)

text \<open>The approval link of the event is restricted: the event and its row are narrowed, and the projection stays ready.\<close>

definition narrowed_event :: source_row where
  "narrowed_event = other_event\<lparr>kn_permission := ''restricted''\<rparr>"

definition narrowed_row :: projection_row where
  "narrowed_row = other_row\<lparr>fp_permission := ''restricted''\<rparr>"

definition narrowed_summary :: projection_summary where
  "narrowed_summary = table_summary demo_primitives trusted_settings [narrowed_row]"

definition narrowed :: projection_db where
  "narrowed = rebuilt\<lparr>pd_timelines := [narrowed_event], pd_rows := [narrowed_row],
     pd_state := Some ((rebuilt_state trusted_key trusted_summary True initial_state)
       \<lparr>pt_source_checksum := Some (sm_checksum narrowed_summary),
        pt_projected_checksum := Some (sm_checksum narrowed_summary)\<rparr>)\<rparr>"

lemma narrowed_digest: "projection_row_digest demo_primitives trusted_settings narrowed_row = Inr demo_digest"
  by (simp add: projection_row_digest_def projection_schema_def narrowed_row_def other_row_def trusted_identity)

lemma narrowed_moved:
  "move_checksums demo_primitives trusted_settings other_row narrowed_row
     (rebuilt_state trusted_key trusted_summary True initial_state) = Inr (the (pd_state narrowed))"
proof -
  note number = row_digest_number [OF demo_signs]
  have "apply_delta (Some demo_digest) (Some demo_digest) trusted_summary = Inr narrowed_summary"
    using number [OF other_digest] number [OF narrowed_digest]
    by (simp add: trusted_summary_def narrowed_summary_def table_summary_def apply_delta_replace)
  moreover have "make_projection_summary (sm_count trusted_summary) (sm_checksum trusted_summary) = Inr trusted_summary"
    by (simp add: trusted_summary_def table_summary_def make_numbered)
  moreover have "or_zero (Some (sm_checksum trusted_summary)) = sm_checksum trusted_summary"
    by (simp add: trusted_summary_def table_summary_def)
  moreover have "make_projection_row narrowed_row = Inr narrowed_row"
    by (simp add: make_projection_row_def narrowed_row_def other_row_def reusable_type_def)
  ultimately show ?thesis
    by (simp add: move_checksums_def other_digest narrowed_digest narrowed_def rebuilt_state_def)
qed

lemma narrowing:
  "narrow_current_effect demo_primitives trusted_settings (\<lambda>_ _. None) ''timeline_event'' 3 ''restricted'' ''internal''
     ''internal'' rebuilt = Inr (narrowed, ''narrowed'')"
proof -
  have row: "row_key other_row = (''timeline_event'', 3)" "fp_permission other_row = ''internal''"
      "make_projection_row other_row = Inr other_row" "reusable_type (fp_type other_row)"
    by (simp_all add: row_key_def other_row_def make_projection_row_def reusable_type_def)
  have "pd_timelines rebuilt = [other_event]" using rebuilt_fields(5) by (simp add: knows_def)
  then have changed: "change_target ''timeline_event'' 3 (kn_permission_update (\<lambda>_. ''restricted'')) rebuilt
      = rebuilt\<lparr>pd_timelines := [narrowed_event]\<rparr>"
    by (simp add: change_target_def narrowed_event_def)
  have "row_key narrowed_row = (''timeline_event'', 3)" by (simp add: narrowed_row_def row_key_def other_row_def)
  then have "narrow_fingerprint demo_primitives trusted_settings ''timeline_event'' 3 ''restricted''
      (rebuilt\<lparr>pd_timelines := [narrowed_event]\<rparr>) = Inr (narrowed, True)"
    using row narrowed_moved
    by (simp add: narrow_fingerprint_def canonical_knowledge_type_def strictest_def known_permissions_def
        permission_rank_def put_row_def flip: narrowed_row_def) (simp add: narrowed_def)
  moreover have "target_permission (\<lambda>_ _. None) ''timeline_event'' 3 rebuilt = Some ''internal''"
    using \<open>pd_timelines rebuilt = [other_event]\<close> by (simp add: target_permission_def)
  moreover have "ks_version trusted_key = ''v1''" "ks_verifier trusted_key = demo_digest"
    by (simp_all add: trusted_key_def)
  ultimately show ?thesis
    using changed
    by (simp add: narrow_current_effect_def validate_configured_key_def trusted_secret strictest_many_def
        strictest_def known_permissions_def permission_rank_def)
qed

lemma narrowed_reachable: "reach fresh_projection trusted_steps narrowed"
  using rebuilt_reachable narrowing by (blast intro: reach_step step_narrow)

lemma narrowed_ready: "trusted_fingerprint_projection_ready demo_primitives trusted_settings True narrowed"
proof -
  have "pd_histories narrowed = []" "pd_timelines narrowed = [narrowed_event]" "target_scope narrowed (Some 9) = Some ''elsewhere''"
    using rebuilt_fields(5) by (simp_all add: narrowed_def knows_def target_scope_def known_items_def known_threads_def)
  then have "source_projection_snapshots demo_primitives trusted_settings demo_digest narrowed = Inr [narrowed_row]"
    by (simp add: source_projection_snapshots_def approved_targets_def narrowed_event_def source_snapshot_def
        source_fields_def claim_hmac utf8_valid_ascii make_projection_row_def reusable_type_def narrowed_row_def
        other_row_def)
  then show ?thesis
    by (simp add: trusted_fingerprint_projection_ready_def runtime_is_configured_def projection_identity_ready_def
        not_missing_iff)
      (simp add: narrowed_def rebuilt_state_def trusted_key_def not_missing_iff)
qed

theorem stored_summary_is_recomputed_witness:
  "\<exists>p expected. pd_state narrowed = Some p
    \<and> source_projection_snapshots demo_primitives trusted_settings (settings_verifier demo_primitives trusted_settings)
        narrowed = Inr expected
    \<and> set (pd_rows narrowed) = set expected
    \<and> summary_for_rows demo_primitives trusted_settings expected
        = Inr \<lparr>sm_count = pt_source_count p, sm_checksum = or_zero (pt_source_checksum p)\<rparr>"
  by (rule stored_summary_is_recomputed [OF demo_signs _ _ narrowed_reachable narrowed_ready]) simp_all

theorem rebuild_restores_readiness_witness:
  "\<exists>db' result. rebuild_trusted_fingerprint_projection demo_primitives trusted_settings (\<lambda>d. d) booted = (db', Inr result)
    \<and> rr_ready result \<and> trusted_fingerprint_projection_ready demo_primitives trusted_settings True db'"
  by (rule rebuild_restores_readiness [where K = "{trusted_settings}" and k = trusted_key and p = initial_state
        and expected = "[other_row]", OF demo_signs _ booted_reachable])
    (simp_all add: trusted_key_def runtime_is_configured_def trusted_secret other_sources other_digest
      code_points_def utf8_tail_def)

definition thread_effect :: promotion_effect where
  "thread_effect = \<lparr>pe_type = ''timeline_event'', pe_id = 3, pe_claim = demo_digest\<rparr>"

theorem approval_is_never_blocked_witness:
  "\<exists>db'. project_approved_effects demo_primitives trusted_settings [thread_effect] False rebuilt = Inr db'
    \<and> pd_histories db' = pd_histories rebuilt \<and> pd_timelines db' = pd_timelines rebuilt
    \<and> ((\<exists>p. pd_state db' = Some p \<and> pt_ready p) \<longrightarrow>
         started_healthy demo_primitives trusted_settings [thread_effect] False rebuilt
         \<and> (\<forall>e \<in> set [thread_effect]. reusable_type (pe_type e)
              \<longrightarrow> (pe_type e, pe_id e) \<in> row_key ` set (pd_rows db')))"
  by (rule approval_is_never_blocked) (simp_all add: rows_fit_def other_row_def code_points_def utf8_tail_def)

section \<open>A candidate with the same title\<close>

definition trusted_item :: review_item where
  "trusted_item = \<lparr>ri_id = 7, ri_item_type = ''timeline_event'',
     ri_payload = [(''title'', JStr ''kickoff''), (''summary'', JStr ''done''), (''agent_name'', JStr ''timeline_agent''),
       (''agent_run_id'', JInt 5), (''prompt_version'', JStr ''timeline-extraction:c5-v2''), (''cache_key'', JStr ''effect'')],
     ri_source_links = [], ri_source_snippets = [], ri_confidence = ''0.9'', ri_permission_level = ''internal'',
     ri_workflow_thread_id = Some ''thread'', ri_candidate_key = Some demo_digest, ri_agent_run_id = Some 5,
     ri_candidate_contract_version = Some ''c5-v1''\<rparr>"

lemma trusted_item_fields [simp]:
  "ri_id trusted_item = 7" "ri_item_type trusted_item = ''timeline_event''" "ri_permission_level trusted_item = ''internal''"
  "ri_workflow_thread_id trusted_item = Some ''thread''" "ri_candidate_key trusted_item = Some demo_digest"
  "ri_agent_run_id trusted_item = Some 5" "ri_candidate_contract_version trusted_item = Some ''c5-v1''"
  by (simp_all add: trusted_item_def)

lemma trusted_payload [simp]:
  "payload_get trusted_item ''title'' = JStr ''kickoff''" "payload_get trusted_item ''summary'' = JStr ''done''"
  "payload_get trusted_item ''agent_name'' = JStr ''timeline_agent''" "payload_get trusted_item ''agent_run_id'' = JInt 5"
  "payload_get trusted_item ''prompt_version'' = JStr ''timeline-extraction:c5-v2''"
  "payload_get trusted_item ''cache_key'' = JStr ''effect''" "payload_get trusted_item ''project_key'' = JNull"
  "payload_get trusted_item ''uncertainty_reason'' = JNull" "payload_get trusted_item ''result_summary'' = JNull"
  "payload_get trusted_item ''project_assignment_method'' = JNull" "payload_get trusted_item ''reason'' = JNull"
  by (simp_all add: payload_get_def trusted_item_def)

lemma trusted_preview:
  "build_promotion_preview trusted_item = \<lparr>pv_target_type = ''timeline_event'', pv_can_approve = True, pv_missing = [],
     pv_normalized = [(''title'', ''kickoff''), (''result_summary'', ''done'')]\<rparr>"
  by (simp add: build_promotion_preview_def preview_payload_def normalized_payload_for_item_def string_payload_def
      or_text_def is_project_routed_memory_item_def requires_project_key_def requires_project_selection_def
      required_fields_for_item_def required_fields_for_type_def promotable_def promotable_review_types_def Let_def)

lemma trusted_fields [simp]:
  "preview_field trusted_item ''title'' = Some ''kickoff''" "preview_field trusted_item ''result_summary'' = Some ''done''"
  by (simp_all add: preview_field_def trusted_preview)

definition trusted_run :: generation_run where
  "trusted_run = \<lparr>ge_id = 5, ge_workflow_thread_id = Some ''thread'', ge_status = ''complete'',
     ge_agent_name = ''timeline_agent'', ge_prompt_version = ''timeline-extraction:c5-v2'', ge_effect_key = Some ''effect'',
     ge_provider = Some ''openai'', ge_model_name = ''gpt-5.4-mini-2026-03-17'', ge_reasoning_effort = Some ''none'',
     ge_route_version = Some ''auto-review-extraction-route:v1'',
     ge_output_contract_version = Some ''timeline-candidate:c5-v2''\<rparr>"

definition trusted_message :: evidence_message where
  "trusted_message = \<lparr>em_ref_id = 11, em_identity = ''m1'', em_text = ''minutes'', em_permission = ''internal''\<rparr>"

definition trusted_ref :: workflow_evidence_ref where
  "trusted_ref = \<lparr>we_id = 11, we_canonical_table = ''sources'', we_source_type = ''email'', we_row_id = 2,
     we_document_version_id = None, we_external_revision = None, we_content_signature = ''s1'',
     we_content_fingerprint = demo_digest, we_permission_snapshot = ''internal''\<rparr>"

definition trusted_source :: resolved_source where
  "trusted_source = \<lparr>rv_source_type = ''email'', rv_canonical_table = ''sources'', rv_row_id = 2,
     rv_document_version_id = None, rv_external_revision = None, rv_content_signature = ''s1'',
     rv_permission_level = ''internal'', rv_content_fingerprint = demo_digest\<rparr>"

definition trusted_rows :: eligibility_rows where
  "trusted_rows = \<lparr>dr_bindings = [\<lparr>eb_slot_ordinal = 1, eb_ref_id = 11, eb_key_version = ''v1'',
       eb_key_verifier = demo_digest, eb_content_fingerprint = demo_digest\<rparr>],
     dr_thread_refs = [trusted_ref], dr_resolve = (\<lambda>_. (Exact_Evidence, Some trusted_source)),
     dr_run = Some trusted_run, dr_graph_version = Some ''company-memory-review-v2.1-auto-review'',
     dr_security_scope_id = None,
     dr_registry = (\<lambda>_. Some \<lparr>am_output_contract = ''AgentRunResult'', am_supported_permissions = [''internal'']\<rparr>),
     dr_projection_ready = False, dr_visible = (\<lambda>_. Inr []), dr_hidden = (\<lambda>_. Inr False)\<rparr>"

abbreviation trusted_view :: eligibility_rows where
  "trusted_view \<equiv> with_projection demo_primitives trusted_settings True rebuilt [''public'', ''internal''] trusted_item trusted_rows"

lemma trusted_key_exact: "candidate_key_is_exact demo_primitives trusted_settings trusted_item = Inr True"
proof -
  have "settings_fingerprint demo_primitives trusted_settings ''review-agent-candidate:v1'' ''review-agent-candidate-key:v1''
      (candidate_key_json trusted_item ''effect'' ''kickoff'' ''done'') = Inr demo_digest"
    by (simp add: candidate_key_json_def candidate_system_keys_def) (simp add: trusted_item_def trusted_identity)
  moreover have "code_points demo_digest = 64" by code_simp
  ultimately show ?thesis by (simp add: candidate_key_is_exact_def payload_text_def)
qed

lemma trusted_messages:
  "message_set_hmac demo_primitives trusted_settings trusted_ref ''internal'' [trusted_message] = Inr demo_digest"
proof -
  have "text_fingerprint demo_primitives trusted_settings ''minutes'' = Inr demo_digest"
    by (simp add: text_fingerprint_def trusted_identity)
  then show ?thesis
    by (simp add: message_set_hmac_def trusted_message_def)
      (simp add: trusted_identity trusted_ref_def or_signature_def or_empty_def)
qed

lemma trusted_evidence:
  "bound_evidence_state demo_primitives trusted_settings trusted_item (dr_bindings trusted_view) (dr_thread_refs trusted_view)
     (dr_resolve trusted_view) [''public'', ''internal''] [trusted_message] = Inr (Exact_Evidence, [''minutes''])"
proof -
  have "code_points demo_digest = 64" by code_simp
  moreover have "em_ref_id trusted_message = 11" "em_identity trusted_message = ''m1''" "em_text trusted_message = ''minutes''"
    "em_permission trusted_message = ''internal''" "we_id trusted_ref = 11" "we_permission_snapshot trusted_ref = ''internal''"
    "rv_permission_level trusted_source = ''internal''"
    by (simp_all add: trusted_message_def trusted_ref_def trusted_source_def)
  ultimately show ?thesis
    by (simp add: bound_evidence_state_def trusted_key_exact with_projection_def trusted_rows_def trusted_secret
        bound_messages_def messages_of_def ref_at_def trusted_messages resolved_state_def Let_def)
qed

lemma trusted_generation:
  "generation_readiness trusted_item (dr_run trusted_view) (dr_graph_version trusted_view) (dr_registry trusted_view)
     = (True, False, True)"
  by (simp add: generation_readiness_def with_projection_def trusted_rows_def run_is_current_def provenance_matches_def
      trusted_run_def get_extraction_route_def extraction_routes_def make_route_def or_empty_def Let_def)

definition trusted_identity_row :: trusted_candidate where
  "trusted_identity_row = \<lparr>tc_knowledge_type = ''timeline_event'', tc_security_scope_id = ''default'',
     tc_project_scope_hmac = demo_digest, tc_title_bucket_hmac = demo_digest, tc_claim_fingerprint = demo_digest\<rparr>"

lemma trusted_candidate_row:
  "build_trusted_candidate_fingerprint demo_primitives trusted_settings trusted_item ''default'' = Inr trusted_identity_row"
proof -
  have "optional_item_string trusted_item ''project_key'' = None" by (simp add: optional_item_string_def)
  moreover have "normalized_claim_fingerprint demo_primitives trusted_settings trusted_item ''default'' = Inr demo_digest"
    using claim_hmac [of "''default''"] calculation
    by (simp add: normalized_claim_fingerprint_def trusted_preview substantive_fields_def utf8_valid_ascii Let_def)
  ultimately show ?thesis
    by (simp add: build_trusted_candidate_fingerprint_def trusted_preview reusable_type_def trusted_identity_row_def)
qed

lemma trusted_lookup:
  "collision_lookup demo_primitives trusted_settings trusted_item trusted_view = (Some demo_digest, [], False, True)"
proof -
  have "dr_security_scope_id trusted_view = Some ''default''"
    using rebuilt_fields(5) by (simp add: knows_def known_threads_def)
  moreover have "visible_targets rebuilt [''public'', ''internal''] ''internal'' trusted_identity_row = Inr []"
    by (simp add: visible_targets_def find_visible_trusted_collisions_def trusted_identity_row_def reusable_type_def
        other_row_def)
  moreover have "hidden_or_legacy_collision_exists [other_row] ''timeline_event'' ''default'' demo_digest demo_digest
      [''public'', ''internal''] (Some ''internal'') = Inr False"
    by (simp add: hidden_or_legacy_collision_exists_def reusable_type_def other_row_def)
  ultimately show ?thesis
    by (simp add: collision_lookup_def trusted_candidate_row rebuilt_ready Let_def) (simp add: trusted_identity_row_def)
qed

lemma trusted_evaluated:
  "\<exists>res. evaluate_from_database demo_primitives trusted_settings (\<lambda>_. True) (\<lambda>_. False) trusted_item trusted_view
     [''public'', ''internal''] [trusted_message] True = Inr res \<and> sr_decision res = Eligible"
proof -
  have points: "code_points demo_digest = 64" by code_simp
  have request: "\<exists>q. build_validation_request (\<lambda>_. True) trusted_item [''minutes''] = Inr (Some q)"
    by (simp add: build_validation_request_def expected_claims_def trusted_preview make_validation_request_def
        check_validation_request_def number_evidence_def ordinal_slot_def Let_def)
  show ?thesis
    using request
    by (auto simp: evaluate_from_database_def load_eligibility_context_def trusted_evidence trusted_generation
        trusted_lookup rebuilt_ready evaluate_candidate_def eligibility_input_of_def trusted_preview candidate_plaintext_def
        expected_claims_def evaluate_eligibility_def points validation_allowed_def eligibility_def Let_def)
qed

theorem eligible_candidate_is_new_witness:
  "\<not> (\<exists>r. (ri_item_type trusted_item, r) \<in> set (approved_targets rebuilt)
    \<and> target_scope rebuilt (kn_review_item r) \<in> {None, Some (strip ''default'')} \<and> repeats demo_primitives trusted_item r)"
proof -
  obtain res where res: "evaluate_from_database demo_primitives trusted_settings (\<lambda>_. True) (\<lambda>_. False) trusted_item
      trusted_view [''public'', ''internal''] [trusted_message] True = Inr res" "sr_decision res = Eligible"
    using trusted_evaluated by blast
  have "pd_threads rebuilt ''thread'' = Some ''default''"
    using rebuilt_fields(5) by (simp add: knows_def known_threads_def)
  then show ?thesis by (intro eligible_candidate_is_new [OF res]) simp_all
qed

text \<open>The event of the other scope does have the title of the candidate.\<close>

lemma other_event_repeats: "(''timeline_event'', other_event) \<in> set (approved_targets rebuilt)"
  "repeats demo_primitives trusted_item other_event"
  using rebuilt_fields(5) by (simp_all add: approved_targets_iff knows_def repeats_def)

end
