(* ===== verification/Keyed_Mutation.thy ===== *)
theory Keyed_Mutation
  imports Trusted_Projection
begin

text \<open>
  \<open>agent_runtime/keyed_mutation_guard.py\<close>: the barrier every keyed mutation enters, the order in which it takes
  its locks, and the contexts that prove the runtime key was read under the barrier. The guard keeps its records in
  \<open>Session.info\<close>. An object is its address with its fields: \<open>is\<close> and \<open>id\<close> compare and read the address.
\<close>

section \<open>The state of a session\<close>

text \<open>The lock statements a PostgreSQL session sends; a row lock is exclusive when its flag is set.\<close>

datatype statement =
    Barrier_Shared int
  | Barrier_Exclusive int
  | Runtime_Row bool
  | Corpus_Row bool
  | Projection_Lock int

definition key_generation_lock_id :: int where
  "key_generation_lock_id = 1066041229503628369"

definition projection_lock_id :: int where
  "projection_lock_id = -2972884933094306491"

definition global_lock_order :: "string list" where
  "global_lock_order =
     [''generation_barrier'', ''runtime_key_state'', ''rag_serving_corpus_generation'',
      ''provider_safety_states'', ''fingerprint_projection'', ''rollout_states'', ''sources'',
      ''workflow_threads'', ''calls_and_children'', ''review_items'', ''promotion_decisions_and_audits'',
      ''approval_and_evidence_links'', ''trusted_knowledge'', ''document_locks'',
      ''tombstones_and_vector_state'']"

record key_context =
  kc_address :: nat
  kc_session :: nat
  kc_generation :: int
  kc_version :: string
  kc_verifier :: string

text \<open>What \<open>_LATEST_CONTEXT_INFO_KEY\<close> holds: nothing, the marker of an absent row, or a context.\<close>

datatype latest_context = No_Latest | Runtime_Absent | Latest key_context

text \<open>
  The \<open>gi_sent\<close> of a session are the lock statements sent since the barrier was entered; the source sends them
  and keeps no list.
\<close>

record guard_info =
  gi_session :: nat
  gi_postgres :: bool
  gi_order :: "string list"
  gi_contexts :: "key_context list"
  gi_latest :: latest_context
  gi_sent :: "statement list"

definition send_lock :: "statement \<Rightarrow> guard_info \<Rightarrow> guard_info" where
  "send_lock q g = (if gi_postgres g then g\<lparr>gi_sent := gi_sent g @ [q]\<rparr> else g)"

section \<open>The operations\<close>

definition previous_lock :: "guard_info \<Rightarrow> string option" where
  "previous_lock g = (if gi_order g = [] then None else Some (last (gi_order g)))"

definition record_next :: "string \<Rightarrow> string option list \<Rightarrow> guard_info \<Rightarrow> guard_info result" where
  "record_next stage allowed g =
     (if previous_lock g \<notin> set allowed then Inl (Runtime_Error ''C.5 keyed mutation lock order violation'')
      else Inr (g\<lparr>gi_order := gi_order g @ [stage]\<rparr>))"

definition acquire_generation_shared :: "guard_info \<Rightarrow> guard_info result" where
  "acquire_generation_shared g =
     then_r (record_next ''generation_shared'' [None] g) (\<lambda>g.
       Inr (send_lock (Barrier_Shared key_generation_lock_id) g))"

definition acquire_generation_exclusive :: "guard_info \<Rightarrow> guard_info result" where
  "acquire_generation_exclusive g =
     then_r (record_next ''generation_exclusive'' [None] g) (\<lambda>g.
       Inr (send_lock (Barrier_Exclusive key_generation_lock_id) g))"

text \<open>\<open>lock_runtime_state\<close>; \<open>runtime\<close> is the row the query finds, \<open>a\<close> the address of the new context.\<close>

definition lock_runtime_state ::
    "string \<Rightarrow> key_state option \<Rightarrow> nat \<Rightarrow> guard_info \<Rightarrow> (key_context option \<times> guard_info) result" where
  "lock_runtime_state mode runtime a g =
     (if mode \<notin> {''share'', ''update''} then Inl (Value_Error ''runtime key state lock mode is unsupported'')
      else
        then_r (record_next (''runtime_'' @ mode)
            [Some (if mode = ''share'' then ''generation_shared'' else ''generation_exclusive'')] g) (\<lambda>g.
          let g = send_lock (Runtime_Row (mode = ''update'')) g
          in case runtime of
               None \<Rightarrow> Inr (None, g\<lparr>gi_latest := Runtime_Absent\<rparr>)
             | Some k \<Rightarrow>
                 let c = \<lparr>kc_address = a, kc_session = gi_session g, kc_generation = ks_generation k,
                          kc_version = ks_version k, kc_verifier = ks_verifier k\<rparr>
                 in Inr (Some c, g\<lparr>gi_contexts := c # gi_contexts g, gi_latest := Latest c\<rparr>)))"

text \<open>The check that \<open>acquire_projection\<close> and \<open>record_rag_corpus_lock\<close> share.\<close>

definition check_key_context :: "key_context option \<Rightarrow> guard_info \<Rightarrow> unit result" where
  "check_key_context ctx g =
     (case ctx of
        None \<Rightarrow>
          require (gi_latest g = Runtime_Absent) (Type_Error ''A locked runtime identity context is required'')
      | Some c \<Rightarrow>
          require (kc_session c = gi_session g
              \<and> kc_address c \<in> kc_address ` set (gi_contexts g)
              \<and> (case gi_latest g of Latest c' \<Rightarrow> kc_address c' = kc_address c | _ \<Rightarrow> False))
            (Type_Error ''Key-generation context was not issued for this session''))"

definition acquire_projection :: "key_context option \<Rightarrow> guard_info \<Rightarrow> guard_info result" where
  "acquire_projection ctx g =
     then_r (check_key_context ctx g) (\<lambda>_.
     then_r (record_next ''projection''
         [Some ''runtime_share'', Some ''runtime_update'', Some ''rag_corpus_share'', Some ''rag_corpus_update''] g)
       (\<lambda>g. Inr (send_lock (Projection_Lock projection_lock_id) g)))"

definition record_rag_corpus_lock :: "key_context option \<Rightarrow> bool \<Rightarrow> guard_info \<Rightarrow> guard_info result" where
  "record_rag_corpus_lock ctx for_update g =
     then_r (check_key_context ctx g) (\<lambda>_.
       record_next (if for_update then ''rag_corpus_update'' else ''rag_corpus_share'')
         [Some ''runtime_share'', Some ''runtime_update''] g)"

text \<open>
  \<open>KeyedMutationGuard.generation_barrier\<close>: what entering and leaving the \<open>with\<close> block does to the session. The
  process-wide mutex of SQLite follows below. Entering forgets the recorded order, and \<open>gi_sent\<close>, the statements
  sent, with it: it holds those of one entry of the barrier. The locks of an earlier entry are held until its
  transaction ends, which may be after the block.
\<close>

definition enter_barrier :: "bool \<Rightarrow> guard_info \<Rightarrow> guard_info result" where
  "enter_barrier exclusive g =
     (let g = g\<lparr>gi_order := [], gi_sent := []\<rparr>
      in if exclusive then acquire_generation_exclusive g else acquire_generation_shared g)"

definition leave_barrier :: "guard_info \<Rightarrow> guard_info" where
  "leave_barrier g = g\<lparr>gi_order := [], gi_contexts := [], gi_latest := No_Latest\<rparr>"

definition lock_runtime_key_state ::
    "bool \<Rightarrow> key_state option \<Rightarrow> nat \<Rightarrow> guard_info \<Rightarrow> (key_state option \<times> guard_info) result" where
  "lock_runtime_key_state for_update runtime a g =
     then_r (lock_runtime_state (if for_update then ''update'' else ''share'') runtime a g) (\<lambda>(c, g).
       Inr (case c of None \<Rightarrow> None | Some _ \<Rightarrow> runtime, g))"

definition acquire_projection_lock :: "guard_info \<Rightarrow> guard_info result" where
  "acquire_projection_lock g =
     (if previous_lock g \<notin> {Some ''runtime_share'', Some ''runtime_update''}
      then Inl (Runtime_Error ''runtime key state must be locked before projection'')
      else acquire_projection (case gi_latest g of Latest c \<Rightarrow> Some c | _ \<Rightarrow> None) g)"

section \<open>The mutex of a SQLite process\<close>

text \<open>
  \<open>_SQLITE_PROCESS_LOCAL_LOCK\<close>, a reentrant lock: its owner and its depth. \<open>None\<close> as a result is a thread that
  waits.
\<close>

type_synonym mutex = "(nat \<times> nat) option"

definition acquire_mutex :: "nat \<Rightarrow> mutex \<Rightarrow> mutex option" where
  "acquire_mutex thread m =
     (case m of None \<Rightarrow> Some (Some (thread, 1))
      | Some (owner, depth) \<Rightarrow> if owner = thread then Some (Some (owner, Suc depth)) else None)"

definition release_mutex :: "nat \<Rightarrow> mutex \<Rightarrow> mutex option" where
  "release_mutex thread m =
     (case m of Some (owner, depth) \<Rightarrow>
        if owner \<noteq> thread then None else Some (if depth \<le> 1 then None else Some (owner, depth - 1))
      | None \<Rightarrow> None)"

section \<open>The lock order\<close>

text \<open>One operation of a session, with whatever row and address it meets.\<close>

inductive guard_step :: "guard_info \<Rightarrow> guard_info \<Rightarrow> bool" where
  guard_enter: "enter_barrier exclusive g = Inr h \<Longrightarrow> guard_step g h"
| guard_leave: "guard_step g (leave_barrier g)"
| guard_runtime: "lock_runtime_state mode runtime a g = Inr (c, h) \<Longrightarrow> guard_step g h"
| guard_corpus:
    "record_rag_corpus_lock ctx for_update g = Inr h \<Longrightarrow> guard_step g (send_lock (Corpus_Row for_update) h)"
| guard_projection: "acquire_projection ctx g = Inr h \<Longrightarrow> guard_step g h"
| guard_projection_lock: "acquire_projection_lock g = Inr h \<Longrightarrow> guard_step g h"

definition fresh_session :: "guard_info \<Rightarrow> bool" where
  "fresh_session g \<longleftrightarrow> gi_order g = [] \<and> gi_contexts g = [] \<and> gi_latest g = No_Latest \<and> gi_sent g = []"

text \<open>The paths of the guard: what it has recorded is always a beginning of one of them.\<close>

definition guard_paths :: "string list list" where
  "guard_paths =
     [[''generation_'' @ b, ''runtime_'' @ m] @ c @ [''projection''].
        (b, m) \<leftarrow> [(''shared'', ''share''), (''exclusive'', ''update'')],
        c \<leftarrow> [[], [''rag_corpus_share''], [''rag_corpus_update'']]]"

fun statement_lock :: "statement \<Rightarrow> string" where
  "statement_lock (Barrier_Shared _) = ''generation_barrier''"
| "statement_lock (Barrier_Exclusive _) = ''generation_barrier''"
| "statement_lock (Runtime_Row _) = ''runtime_key_state''"
| "statement_lock (Corpus_Row _) = ''rag_serving_corpus_generation''"
| "statement_lock (Projection_Lock _) = ''fingerprint_projection''"

text \<open>The lock of \<open>global_lock_order\<close> a recorded stage stands for.\<close>

definition stage_lock :: "string \<Rightarrow> string" where
  "stage_lock s =
     (if prefix ''generation_'' s then ''generation_barrier''
      else if prefix ''runtime_'' s then ''runtime_key_state''
      else if prefix ''rag_corpus_'' s then ''rag_serving_corpus_generation''
      else ''fingerprint_projection'')"

definition lock_rank :: "string \<Rightarrow> nat" where
  "lock_rank s = length (takeWhile (\<lambda>t. t \<noteq> s) global_lock_order)"

section \<open>The lock order is kept\<close>

definition guard_stages :: "string list list" where
  "guard_stages = concat (map prefixes guard_paths)"

lemma guard_stages_iff: "l \<in> set guard_stages \<longleftrightarrow> (\<exists>p \<in> set guard_paths. prefix l p)"
  by (auto simp: guard_stages_def)

text \<open>Every way an operation may go on from what is recorded stays on a path.\<close>

definition follows :: "string \<Rightarrow> string option list \<Rightarrow> bool" where
  "follows stage allowed \<longleftrightarrow>
     list_all (\<lambda>l. (if l = [] then None else Some (last l)) \<in> set allowed \<longrightarrow> l @ [stage] \<in> set guard_stages)
       guard_stages"

lemma guard_follows:
  "follows ''generation_shared'' [None]"
  "follows ''generation_exclusive'' [None]"
  "follows ''runtime_share'' [Some ''generation_shared'']"
  "follows ''runtime_update'' [Some ''generation_exclusive'']"
  "follows ''rag_corpus_share'' [Some ''runtime_share'', Some ''runtime_update'']"
  "follows ''rag_corpus_update'' [Some ''runtime_share'', Some ''runtime_update'']"
  "follows ''projection''
     [Some ''runtime_share'', Some ''runtime_update'', Some ''rag_corpus_share'', Some ''rag_corpus_update'']"
  by code_simp+

lemma guard_stages_ascend: "l \<in> set guard_stages \<Longrightarrow> sorted_wrt (<) (map (lock_rank \<circ> stage_lock) l)"
proof -
  have "list_all (\<lambda>l. sorted_wrt (<) (map (lock_rank \<circ> stage_lock) l)) guard_stages" by code_simp
  then show "l \<in> set guard_stages \<Longrightarrow> sorted_wrt (<) (map (lock_rank \<circ> stage_lock) l)"
    by (simp add: list_all_iff)
qed

lemma guard_stages_Nil: "[] \<in> set guard_stages"
  by code_simp

text \<open>
  The invariant: the stages are a beginning of a path, and on PostgreSQL the statements sent are those of the
  stages while the barrier is entered.
\<close>

definition guard_inv :: "guard_info \<Rightarrow> bool" where
  "guard_inv g \<longleftrightarrow>
     gi_order g \<in> set guard_stages
     \<and> (\<exists>l \<in> set guard_stages. map statement_lock (gi_sent g) = (if gi_postgres g then map stage_lock l else [])
          \<and> (gi_order g \<noteq> [] \<longrightarrow> l = gi_order g))"

lemma record_next_Inr:
  "record_next stage allowed g = Inr h \<longleftrightarrow>
     previous_lock g \<in> set allowed \<and> h = g\<lparr>gi_order := gi_order g @ [stage]\<rparr>"
  by (auto simp: record_next_def)

lemma stage_recorded:
  assumes "guard_inv g" and "record_next stage allowed g = Inr h" and "follows stage allowed"
    and "statement_lock q = stage_lock stage" and "gi_order g = [] \<longrightarrow> gi_sent g = []"
  shows "guard_inv (send_lock q h)"
proof -
  have l: "gi_order g @ [stage] \<in> set guard_stages"
    using assms(1-3) unfolding guard_inv_def record_next_Inr follows_def list_all_iff previous_lock_def by blast
  have "map statement_lock (gi_sent g) = (if gi_postgres g then map stage_lock (gi_order g) else [])"
    using assms(1,5) unfolding guard_inv_def by (cases "gi_order g = []") auto
  then have "map statement_lock (gi_sent (send_lock q h))
      = (if gi_postgres (send_lock q h) then map stage_lock (gi_order g @ [stage]) else [])"
    using assms(2,4) by (cases "gi_postgres g") (simp_all add: record_next_Inr send_lock_def)
  moreover have "gi_order (send_lock q h) = gi_order g @ [stage]"
    using assms(2) by (simp add: record_next_Inr send_lock_def)
  ultimately show ?thesis using l unfolding guard_inv_def by auto
qed

lemma guard_inv_order: "guard_inv g \<Longrightarrow> gi_order h = gi_order g \<Longrightarrow> gi_sent h = gi_sent g
    \<Longrightarrow> gi_postgres h = gi_postgres g \<Longrightarrow> guard_inv h"
  by (simp add: guard_inv_def)

lemma previous_lock_Some: "previous_lock g = Some s \<Longrightarrow> gi_order g \<noteq> []"
  by (auto simp: previous_lock_def)

lemma enter_barrier_inv: "enter_barrier exclusive g = Inr h \<Longrightarrow> guard_inv h"
proof -
  assume e: "enter_barrier exclusive g = Inr h"
  define g' where "g' = g\<lparr>gi_order := [], gi_sent := []\<rparr>"
  have inv: "guard_inv g'" using guard_stages_Nil by (auto simp: guard_inv_def g'_def)
  show ?thesis
    using e stage_recorded [OF inv _ guard_follows(1), of _ "Barrier_Shared key_generation_lock_id"]
      stage_recorded [OF inv _ guard_follows(2), of _ "Barrier_Exclusive key_generation_lock_id"]
    by (auto simp: enter_barrier_def acquire_generation_shared_def acquire_generation_exclusive_def
        stage_lock_def Let_def g'_def [symmetric] split: if_splits) (simp_all add: g'_def)
qed

lemma lock_runtime_inv:
  assumes "guard_inv g" and "lock_runtime_state mode runtime a g = Inr (c, h)"
  shows "guard_inv h"
proof -
  define s where "s = (if mode = ''share'' then ''generation_shared'' else ''generation_exclusive'')"
  obtain g' where m: "mode \<in> {''share'', ''update''}" and r: "record_next (''runtime_'' @ mode) [Some s] g = Inr g'"
    and h: "gi_order h = gi_order (send_lock (Runtime_Row (mode = ''update'')) g')"
      "gi_sent h = gi_sent (send_lock (Runtime_Row (mode = ''update'')) g')"
      "gi_postgres h = gi_postgres (send_lock (Runtime_Row (mode = ''update'')) g')"
    using assms(2) unfolding s_def
    by (auto simp: lock_runtime_state_def Let_def split: if_splits option.splits)
  have ne: "gi_order g \<noteq> []" using r previous_lock_Some by (auto simp: record_next_Inr)
  have "follows (''runtime_'' @ mode) [Some s]" using m guard_follows(3,4) by (auto simp: s_def)
  moreover have "statement_lock (Runtime_Row (mode = ''update'')) = stage_lock (''runtime_'' @ mode)"
    using m by (auto simp: stage_lock_def)
  ultimately have "guard_inv (send_lock (Runtime_Row (mode = ''update'')) g')"
    using stage_recorded [OF assms(1) r] ne by simp
  from guard_inv_order [OF this h] show ?thesis .
qed

lemma acquire_projection_inv:
  assumes "guard_inv g" and "acquire_projection ctx g = Inr h"
  shows "guard_inv h"
proof -
  obtain g' where r: "record_next ''projection'' [Some ''runtime_share'', Some ''runtime_update'',
        Some ''rag_corpus_share'', Some ''rag_corpus_update''] g = Inr g'"
    and h: "h = send_lock (Projection_Lock projection_lock_id) g'"
    using assms(2) by (auto simp: acquire_projection_def)
  have "gi_order g \<noteq> []" using r previous_lock_Some by (auto simp: record_next_Inr)
  then show ?thesis unfolding h using stage_recorded [OF assms(1) r guard_follows(7)] by (simp add: stage_lock_def)
qed

lemma record_corpus_inv:
  assumes "guard_inv g" and "record_rag_corpus_lock ctx for_update g = Inr h"
  shows "guard_inv (send_lock (Corpus_Row for_update) h)"
proof -
  define stage where "stage = (if for_update then ''rag_corpus_update'' else ''rag_corpus_share'')"
  have r: "record_next stage [Some ''runtime_share'', Some ''runtime_update''] g = Inr h"
    using assms(2) by (auto simp: record_rag_corpus_lock_def stage_def)
  have "gi_order g \<noteq> []" using r previous_lock_Some by (auto simp: record_next_Inr)
  moreover have "follows stage [Some ''runtime_share'', Some ''runtime_update'']"
    using guard_follows(5,6) by (simp add: stage_def)
  ultimately show ?thesis using stage_recorded [OF assms(1) r] by (simp add: stage_lock_def stage_def)
qed

interpretation guard: invariant_system fresh_session guard_step guard_inv
proof (unfold_locales, goal_cases)
  case (1 g)
  then show ?case using guard_stages_Nil by (auto simp: fresh_session_def guard_inv_def)
next
  case (2 g h)
  from 2(2,1) show ?case
  proof cases
    case guard_leave
    then show ?thesis using 2(1) guard_stages_Nil by (auto simp: leave_barrier_def guard_inv_def)
  next
    case (guard_projection_lock)
    then show ?thesis using 2(1) acquire_projection_inv by (auto simp: acquire_projection_lock_def split: if_splits)
  qed (use enter_barrier_inv lock_runtime_inv record_corpus_inv acquire_projection_inv 2(1) in blast)+
qed

text \<open>
  C31. The guard lets a session take its locks only in the global order: whatever its operations were, the stages
  recorded since the barrier was entered are a beginning of one of the six paths of the guard, and on PostgreSQL
  the statements sent for them lock resources of strictly ascending position in that order. This is a property of one
  entry of the barrier: locks that the transaction keeps from an earlier entry are not compared.
\<close>

theorem keyed_locks_follow_the_order:
  assumes "reach fresh_session guard_step g"
  shows "(\<exists>p \<in> set guard_paths. prefix (gi_order g) p)
    \<and> sorted_wrt (<) (map (lock_rank \<circ> statement_lock) (gi_sent g))
    \<and> (gi_postgres g \<and> gi_order g \<noteq> [] \<longrightarrow> map statement_lock (gi_sent g) = map stage_lock (gi_order g))"
proof -
  from guard.inv_reach [OF assms] obtain l where "gi_order g \<in> set guard_stages" and l: "l \<in> set guard_stages"
    and s: "map statement_lock (gi_sent g) = (if gi_postgres g then map stage_lock l else [])"
    and o: "gi_order g \<noteq> [] \<longrightarrow> l = gi_order g"
    unfolding guard_inv_def by blast
  moreover have "map (lock_rank \<circ> statement_lock) (gi_sent g)
      = (if gi_postgres g then map (lock_rank \<circ> stage_lock) l else [])"
    using arg_cong [OF s, of "map lock_rank"] by (simp split: if_splits)
  ultimately show ?thesis using guard_stages_ascend [OF l] by (auto simp: guard_stages_iff)
qed

definition demo_session :: guard_info where
  "demo_session = \<lparr>gi_session = 1, gi_postgres = True, gi_order = [], gi_contexts = [], gi_latest = No_Latest,
     gi_sent = []\<rparr>"

definition demo_entered :: guard_info where
  "demo_entered = demo_session\<lparr>gi_order := [''generation_shared''],
     gi_sent := [Barrier_Shared key_generation_lock_id]\<rparr>"

theorem keyed_locks_follow_the_order_witness:
  "gi_order demo_entered = [''generation_shared'']
   \<and> map statement_lock (gi_sent demo_entered) = map stage_lock (gi_order demo_entered)"
proof -
  have "enter_barrier False demo_session = Inr demo_entered"
    by (simp add: enter_barrier_def acquire_generation_shared_def record_next_def previous_lock_def send_lock_def
        demo_session_def demo_entered_def)
  then have "guard_step demo_session demo_entered" by (rule guard_enter)
  moreover have "reach fresh_session guard_step demo_session"
    by (rule reach_init) (simp add: fresh_session_def demo_session_def)
  ultimately have "reach fresh_session guard_step demo_entered" by (rule reach_step [rotated])
  from keyed_locks_follow_the_order [OF this] show ?thesis by (simp add: demo_entered_def demo_session_def)
qed

section \<open>Mutual exclusion on SQLite\<close>

text \<open>A thread that enters while another is inside waits, and the owner is inside until it has left as often.\<close>

lemma mutex_excludes:
  "acquire_mutex t m = Some m' \<Longrightarrow> m = Some (owner, depth) \<Longrightarrow> t = owner"
  "acquire_mutex t m = Some m' \<Longrightarrow> m \<noteq> None \<longrightarrow> 0 < snd (the m) \<Longrightarrow> release_mutex t m' = Some m"
  by (auto simp: acquire_mutex_def release_mutex_def split: option.splits if_splits)

end
