(* ===== verification/Lexical_Projection.thy ===== *)
theory Lexical_Projection
  imports Keyed_Mutation Json_Round_Trip
begin

text \<open>
  \<open>rag/lexical_projection.py\<close>: the lexical rows that keyword retrieval reads, rebuilt for one generation of the
  corpus, the reader that returns only rows which still are the projection of the corpus, and the snapshot of the
  corpus two of which tell whether it changed. The documents, which \<open>build_rag_v2_index_documents\<close> resolves from the
  tables, are part of the state. The times of a row, which nothing here reads, and the floating point score of a
  candidate are left out. Python's \<open>str.lower\<close> is the argument \<open>lower\<close>.
\<close>

section \<open>Documents\<close>

text \<open>A \<open>VectorDocument\<close>; its metadata, a dict, is the list of the members in the order of their keys.\<close>

record vector_document =
  vd_id :: string
  vd_text :: string
  vd_source_url :: string
  vd_source_snippet :: string
  vd_permission :: string
  vd_metadata :: "(string \<times> json) list"

text \<open>What \<open>_document_title\<close> reads: the source of a chunk, the title of a source and of a row of each type.\<close>

record title_tables =
  tt_chunk_source :: "int \<Rightarrow> int option"
  tt_source_title :: "int \<Rightarrow> string option"
  tt_target_title :: "string \<Rightarrow> int \<Rightarrow> string option"

definition decimal_digits :: "string \<Rightarrow> bool" where
  "decimal_digits s \<longleftrightarrow> s \<noteq> [] \<and> list_all digit s"

text \<open>
  \<open>_document_title\<close>. The program writes the ids of its documents with ASCII digits; the further digits
  \<open>str.isdigit\<close> allows are refused here.
\<close>

definition document_title :: "title_tables \<Rightarrow> vector_document \<Rightarrow> string option" where
  "document_title tt d =
     (let kind = takeWhile (\<lambda>c. c \<noteq> CHR '':'') (vd_id d);
          rest = dropWhile (\<lambda>c. c \<noteq> CHR '':'') (vd_id d);
          raw_id = drop 1 rest;
          row_id = int (read_decimal 0 raw_id)
      in if rest = [] \<or> \<not> decimal_digits raw_id \<or> row_id \<le> 0 then None
         else case
             (if kind = ''chunk'' then Option.bind (tt_chunk_source tt row_id) (tt_source_title tt)
              else if kind \<in> {''decision_record'', ''history_event'', ''timeline_event'', ''todo''}
              then tt_target_title tt kind row_id
              else None) of
           None \<Rightarrow> None
         | Some title \<Rightarrow> if CHR 0x00 \<in> set title then None else Some title)"

record hmac_fields =
  hf_kind :: string
  hf_support :: string
  hf_identity :: string
  hf_version :: string
  hf_content :: string
  hf_citation :: string

definition metadata_text :: "(string \<times> json) list \<Rightarrow> string \<Rightarrow> string option" where
  "metadata_text md k = (case map_of md k of Some (JStr s) \<Rightarrow> if s = [] then None else Some s | _ \<Rightarrow> None)"

text \<open>\<open>_projection_hmac_fields\<close>.\<close>

definition projection_hmac_fields :: "vector_document \<Rightarrow> hmac_fields option" where
  "projection_hmac_fields d =
     (case all_some (map (metadata_text (vd_metadata d))
         [''serving_kind'', ''support_mode'', ''serving_identity_hmac'', ''serving_version_fingerprint'',
          ''model_content_hmac'', ''canonical_citation_projection_hmac'']) of
        Some [kind, support, identity, version, content, citation] \<Rightarrow>
          Some \<lparr>hf_kind = kind, hf_support = support, hf_identity = identity, hf_version = version,
                hf_content = content, hf_citation = citation\<rparr>
      | _ \<Rightarrow> None)"

section \<open>The tables\<close>

definition lexical_compat_version :: string where
  "lexical_compat_version = ''rag-keyword-lexical-compat:v1''"

record lexical_row =
  lx_document_id :: string
  lx_generation :: int
  lx_fields :: hmac_fields
  lx_permission :: string
  lx_title_lower :: string
  lx_searchable_lower :: string
  lx_contract :: string
  lx_key_version :: string
  lx_verifier :: string

record serving_row =
  sr_corpus :: int
  sr_vector :: int
  sr_model :: string
  sr_dimensions :: int
  sr_index_policy :: string
  sr_cosine_policy :: string
  sr_key_version :: string
  sr_verifier :: string

text \<open>What the queries of a transaction see.\<close>

record serving_store =
  sv_corpus :: "serving_row option"
  sv_documents :: "vector_document list"
  sv_titles :: title_tables
  sv_lexical :: "lexical_row list"

text \<open>The environment of the functions: the cryptographic primitives, \<open>str.lower\<close> and the settings.\<close>

record lexical_env =
  le_primitives :: primitives
  le_lower :: "string \<Rightarrow> string"
  le_settings :: rag_settings

definition env_verifier :: "lexical_env \<Rightarrow> string" where
  "env_verifier E = key_material_verifier (le_primitives E) (fingerprint_secret (le_settings E))"

section \<open>Refreshing the projection\<close>

text \<open>The row of a document; \<open>None\<close> where the loop drops the document.\<close>

definition project_document :: "lexical_env \<Rightarrow> title_tables \<Rightarrow> int \<Rightarrow> vector_document \<Rightarrow> lexical_row option" where
  "project_document E tt g d =
     (case (document_title tt d, projection_hmac_fields d) of
        (Some title, Some fs) \<Rightarrow>
          Some \<lparr>lx_document_id = vd_id d, lx_generation = g, lx_fields = fs, lx_permission = vd_permission d,
                lx_title_lower = le_lower E title,
                lx_searchable_lower = le_lower E (title @ [CHR 0x0A] @ vd_text d),
                lx_contract = lexical_compat_version,
                lx_key_version = fingerprint_key_version (le_settings E), lx_verifier = env_verifier E\<rparr>
      | _ \<Rightarrow> None)"

text \<open>
  The loop over the documents; \<open>ids\<close> are the keys of \<open>existing\<close>. A row it knows is overwritten in place or deleted,
  a new one is added.
\<close>

fun refresh_loop :: "lexical_env \<Rightarrow> title_tables \<Rightarrow> int \<Rightarrow> string set \<Rightarrow> vector_document list
    \<Rightarrow> lexical_row list \<times> int \<Rightarrow> lexical_row list \<times> int" where
  "refresh_loop E tt g ids [] (rows, n) = (rows, n)"
| "refresh_loop E tt g ids (d # ds) (rows, n) =
     (case project_document E tt g d of
        None \<Rightarrow>
          refresh_loop E tt g ids ds
            (if vd_id d \<in> ids then filter (\<lambda>r. lx_document_id r \<noteq> vd_id d) rows else rows, n)
      | Some row \<Rightarrow>
          refresh_loop E tt g ids ds
            (if vd_id d \<in> ids then map (\<lambda>r. if lx_document_id r = vd_id d then row else r) rows
             else rows @ [row], n + 1))"

text \<open>
  \<open>refresh_rag_lexical_projections\<close>. The flush at its end fails when the database refuses the new rows:
  \<open>admits\<close> of the stored and the new rows.
\<close>

definition refresh_projections ::
    "lexical_env \<Rightarrow> (lexical_row list \<Rightarrow> lexical_row list \<Rightarrow> bool) \<Rightarrow> int \<Rightarrow> serving_store
     \<Rightarrow> (int \<times> serving_store) result" where
  "refresh_projections E admits g sv =
     (if (case sv_corpus sv of None \<Rightarrow> True | Some c \<Rightarrow> sr_corpus c \<noteq> g)
      then Inl (Type_Error ''Lexical refresh requires the locked current corpus generation'')
      else
        let expected = vd_id ` set (sv_documents sv);
            kept = filter (\<lambda>r. lx_document_id r \<in> expected) (sv_lexical sv);
            (rows, n) = refresh_loop E (sv_titles sv) g (lx_document_id ` set kept) (sv_documents sv) (kept, 0)
        in if admits (sv_lexical sv) rows then Inr (n, sv\<lparr>sv_lexical := rows\<rparr>)
           else Inl (Persistence_Error ''lexical projection''))"

section \<open>Reading the projection\<close>

definition row_is_exact :: "lexical_env \<Rightarrow> title_tables \<Rightarrow> vector_document option \<Rightarrow> lexical_row \<Rightarrow> bool" where
  "row_is_exact E tt doc r =
     (case doc of None \<Rightarrow> False
      | Some d \<Rightarrow>
          (case (document_title tt d, projection_hmac_fields d) of
             (Some title, Some fs) \<Rightarrow>
               lx_fields r = fs \<and> lx_permission r = vd_permission d \<and> lx_title_lower r = le_lower E title
               \<and> lx_searchable_lower r = le_lower E (title @ [CHR 0x0A] @ vd_text d)
           | _ \<Rightarrow> False))"

definition current_projections :: "lexical_env \<Rightarrow> serving_store \<Rightarrow> lexical_row list" where
  "current_projections E sv =
     (case sv_corpus sv of None \<Rightarrow> []
      | Some c \<Rightarrow>
          let expected = map_of (rev (map (\<lambda>d. (vd_id d, d)) (sv_documents sv)));
              rows = sort_key lx_document_id (filter (\<lambda>r.
                 lx_generation r = sr_corpus c \<and> lx_contract r = lexical_compat_version
                 \<and> lx_key_version r = fingerprint_key_version (le_settings E)
                 \<and> lx_verifier r = env_verifier E) (sv_lexical sv))
          in filter (\<lambda>r. row_is_exact E (sv_titles sv) (expected (lx_document_id r)) r) rows)"

section \<open>The snapshot of the corpus\<close>

definition corpus_snapshot :: "serving_store \<Rightarrow> string list list" where
  "corpus_snapshot sv =
     sort (concat (map (\<lambda>d. case document_title (sv_titles sv) d of None \<Rightarrow> []
        | Some title \<Rightarrow> [[vd_id d, title, vd_text d, vd_source_url d, vd_source_snippet d, vd_permission d,
                          json_dumps (JObj (vd_metadata d))]]) (sv_documents sv)))"

section \<open>Query terms\<close>

text \<open>\<open>str.split()\<close>: the words between runs of white space, \<open>acc\<close> the reversed word being read.\<close>

function split_words :: "string \<Rightarrow> string \<Rightarrow> string list" where
  "split_words acc [] = (if acc = [] then [] else [rev acc])"
| "split_words acc (c # s) =
     (case List.find (\<lambda>w. w \<noteq> [] \<and> prefix w (c # s)) space_encodings of
        None \<Rightarrow> split_words (c # acc) s
      | Some w \<Rightarrow> (if acc = [] then [] else [rev acc]) @ split_words [] (drop (length w - 1) s))"
  by pat_completeness auto
termination by (relation "measure (\<lambda>(acc, s). length s)") auto

definition lexical_query_terms :: "lexical_env \<Rightarrow> string \<Rightarrow> string list" where
  "lexical_query_terms E question =
     map (le_lower E) (filter (\<lambda>w. code_points w \<ge> 3) (map strip
       (split_words [] (map (\<lambda>c. if c = CHR '','' \<or> c = CHR ''.'' then CHR '' '' else c) question))))"

definition matched_lexical_terms :: "lexical_env \<Rightarrow> string \<Rightarrow> string \<Rightarrow> string \<Rightarrow> string list" where
  "matched_lexical_terms E question title body =
     filter (\<lambda>t. sublist t (le_lower E (title @ [CHR 0x0A] @ body))) (lexical_query_terms E question)"

end
