(* ===== verification/Lexical_Facts.thy ===== *)
theory Lexical_Facts
  imports Lexical_Projection
begin

text \<open>
  Facts of \<open>Lexical_Projection\<close>: what the reader returns is the projection of a document, a refresh leaves the
  projection of every document, and equal snapshots have equal projections.
\<close>

section \<open>The reader\<close>

lemma row_is_exact_iff:
  assumes "lx_document_id r = vd_id d" and "lx_contract r = lexical_compat_version"
    and "lx_key_version r = fingerprint_key_version (le_settings E)" and "lx_verifier r = env_verifier E"
  shows "row_is_exact E tt (Some d) r \<longleftrightarrow> project_document E tt (lx_generation r) d = Some r"
  using assms by (cases r) (auto simp: row_is_exact_def project_document_def split: option.splits)

lemma project_document_fields:
  assumes "project_document E tt g d = Some r"
  shows "lx_document_id r = vd_id d" "lx_generation r = g" "lx_contract r = lexical_compat_version"
    "lx_key_version r = fingerprint_key_version (le_settings E)" "lx_verifier r = env_verifier E"
  using assms by (auto simp: project_document_def split: option.splits)

text \<open>The projection of a corpus at a generation, and what of it is stored.\<close>

definition projected_rows :: "lexical_env \<Rightarrow> int \<Rightarrow> serving_store \<Rightarrow> lexical_row set" where
  "projected_rows E g sv = {r. \<exists>d \<in> set (sv_documents sv). project_document E (sv_titles sv) g d = Some r}"

definition expected_document :: "serving_store \<Rightarrow> string \<Rightarrow> vector_document option" where
  "expected_document sv = map_of (rev (map (\<lambda>d. (vd_id d, d)) (sv_documents sv)))"

lemma expected_document_Some: "expected_document sv i = Some d \<Longrightarrow> d \<in> set (sv_documents sv) \<and> vd_id d = i"
  unfolding expected_document_def by (drule map_of_SomeD) auto

lemma expected_document_distinct:
  assumes "distinct (map vd_id (sv_documents sv))" and "d \<in> set (sv_documents sv)"
  shows "expected_document sv (vd_id d) = Some d"
  unfolding expected_document_def
  using assms by (intro map_of_is_SomeI) (auto simp: comp_def simp flip: rev_map)

lemma current_projections_set:
  assumes "sv_corpus sv = Some c"
  shows "set (current_projections E sv) =
    {r \<in> set (sv_lexical sv). \<exists>d. expected_document sv (lx_document_id r) = Some d
        \<and> project_document E (sv_titles sv) (sr_corpus c) d = Some r}"
proof (intro equalityI subsetI)
  fix r
  assume r: "r \<in> set (current_projections E sv)"
  then have f: "r \<in> set (sv_lexical sv)" "lx_generation r = sr_corpus c" "lx_contract r = lexical_compat_version"
      "lx_key_version r = fingerprint_key_version (le_settings E)" "lx_verifier r = env_verifier E"
    and x: "row_is_exact E (sv_titles sv) (expected_document sv (lx_document_id r)) r"
    using assms by (auto simp: current_projections_def expected_document_def Let_def)
  obtain d where d: "expected_document sv (lx_document_id r) = Some d"
    using x by (cases "expected_document sv (lx_document_id r)") (auto simp: row_is_exact_def)
  have "lx_document_id r = vd_id d" using expected_document_Some [OF d] by simp
  from row_is_exact_iff [OF this f(3,4,5)] x d f(1,2)
  show "r \<in> {r \<in> set (sv_lexical sv). \<exists>d. expected_document sv (lx_document_id r) = Some d
      \<and> project_document E (sv_titles sv) (sr_corpus c) d = Some r}" by auto
next
  fix r
  assume "r \<in> {r \<in> set (sv_lexical sv). \<exists>d. expected_document sv (lx_document_id r) = Some d
      \<and> project_document E (sv_titles sv) (sr_corpus c) d = Some r}"
  then obtain d where r: "r \<in> set (sv_lexical sv)" and d: "expected_document sv (lx_document_id r) = Some d"
    and p: "project_document E (sv_titles sv) (sr_corpus c) d = Some r" by blast
  note f = project_document_fields [OF p]
  have "row_is_exact E (sv_titles sv) (Some d) r" using row_is_exact_iff [OF f(1,3,4,5)] p f(2) by simp
  then show "r \<in> set (current_projections E sv)"
    using assms r d f by (simp add: current_projections_def expected_document_def Let_def)
qed

lemma current_projections_exact: "set (current_projections E sv) \<subseteq>
    (case sv_corpus sv of None \<Rightarrow> {} | Some c \<Rightarrow> projected_rows E (sr_corpus c) sv \<inter> set (sv_lexical sv))"
proof (cases "sv_corpus sv")
  case None
  then show ?thesis by (simp add: current_projections_def)
next
  case (Some c)
  show ?thesis unfolding current_projections_set [OF Some] projected_rows_def
    using expected_document_Some Some by auto
qed

lemma current_projections_sorted: "sorted (map lx_document_id (current_projections E sv))"
proof (cases "sv_corpus sv")
  case (Some c)
  show ?thesis unfolding current_projections_def Some option.case Let_def
    by (rule sorted_filter) simp
qed (simp add: current_projections_def)

text \<open>A store is current when the rows of its generation are the projection of its documents.\<close>

definition store_current :: "lexical_env \<Rightarrow> serving_store \<Rightarrow> bool" where
  "store_current E sv \<longleftrightarrow>
     (case sv_corpus sv of None \<Rightarrow> True | Some c \<Rightarrow> projected_rows E (sr_corpus c) sv \<subseteq> set (sv_lexical sv))"

lemma current_projections_complete:
  assumes "store_current E sv" and "distinct (map vd_id (sv_documents sv))" and "sv_corpus sv = Some c"
  shows "set (current_projections E sv) = projected_rows E (sr_corpus c) sv"
proof (intro equalityI subsetI)
  fix r
  assume "r \<in> set (current_projections E sv)"
  then show "r \<in> projected_rows E (sr_corpus c) sv" using current_projections_exact [of E sv] assms(3) by auto
next
  fix r
  assume r: "r \<in> projected_rows E (sr_corpus c) sv"
  then obtain d where d: "d \<in> set (sv_documents sv)" and p: "project_document E (sv_titles sv) (sr_corpus c) d = Some r"
    by (auto simp: projected_rows_def)
  have "expected_document sv (lx_document_id r) = Some d"
    using expected_document_distinct [OF assms(2) d] project_document_fields(1) [OF p] by simp
  moreover have "r \<in> set (sv_lexical sv)" using assms(1,3) r by (auto simp: store_current_def)
  ultimately show "r \<in> set (current_projections E sv)"
    using p unfolding current_projections_set [OF assms(3)] by blast
qed

section \<open>The refresh\<close>

lemma map_replace_ids:
  "lx_document_id row = i \<Longrightarrow>
     map lx_document_id (map (\<lambda>r. if lx_document_id r = i then row else r) rows) = map lx_document_id rows"
  by (induction rows) auto

text \<open>
  The loop, when the ids are distinct and a remaining document is known exactly when a row has its id: the rows of
  other ids stay and the remaining documents get their rows.
\<close>

lemma refresh_loop_rows:
  assumes "distinct (map vd_id ds)" and "\<forall>d \<in> set ds. vd_id d \<in> ids \<longleftrightarrow> vd_id d \<in> lx_document_id ` set rows"
    and "refresh_loop E tt g ids ds (rows, n) = (rows', n')"
  shows "set rows' = {r \<in> set rows. lx_document_id r \<notin> vd_id ` set ds}
      \<union> {r. \<exists>d \<in> set ds. project_document E tt g d = Some r}
    \<and> n' = n + int (length (filter (\<lambda>d. project_document E tt g d \<noteq> None) ds))
    \<and> (distinct (map lx_document_id rows) \<longrightarrow> distinct (map lx_document_id rows'))"
  using assms
proof (induction ds arbitrary: rows n)
  case Nil
  then show ?case by auto
next
  case (Cons d ds)
  note known = Cons.prems(2)
  have nd: "\<forall>e \<in> set ds. vd_id e \<noteq> vd_id d"
    using Cons.prems(1) by (simp add: image_iff) (metis)
  show ?case
  proof (cases "project_document E tt g d")
    case None
    let ?rows = "if vd_id d \<in> ids then filter (\<lambda>r. lx_document_id r \<noteq> vd_id d) rows else rows"
    have rows: "set ?rows = {r \<in> set rows. lx_document_id r \<noteq> vd_id d}"
      using bspec [OF known, of d] by (cases "vd_id d \<in> ids") force+
    have k: "\<forall>e \<in> set ds. vd_id e \<in> ids \<longleftrightarrow> vd_id e \<in> lx_document_id ` set ?rows"
    proof
      fix e assume e: "e \<in> set ds"
      have "vd_id e \<noteq> vd_id d" using e nd by blast
      moreover have "vd_id e \<in> ids \<longleftrightarrow> vd_id e \<in> lx_document_id ` set rows" using known e by simp
      ultimately show "vd_id e \<in> ids \<longleftrightarrow> vd_id e \<in> lx_document_id ` set ?rows" unfolding rows by force
    qed
    have "refresh_loop E tt g ids ds (?rows, n) = (rows', n')" using Cons.prems(3) None by simp
    from Cons.IH [OF _ k this] Cons.prems(1) None show ?thesis
      unfolding rows using nd by (auto simp: distinct_map_filter)
  next
    case (Some row)
    have i: "lx_document_id row = vd_id d" by (rule project_document_fields(1) [OF Some])
    let ?rows = "if vd_id d \<in> ids then map (\<lambda>r. if lx_document_id r = vd_id d then row else r) rows
       else rows @ [row]"
    have rows: "set ?rows = insert row {r \<in> set rows. lx_document_id r \<noteq> vd_id d}"
    proof (cases "vd_id d \<in> ids")
      case True
      then obtain r where "r \<in> set rows" "lx_document_id r = vd_id d" using known by auto
      then show ?thesis using True by auto
    next
      case False
      then have "\<forall>r \<in> set rows. lx_document_id r \<noteq> vd_id d" using known by force
      then show ?thesis using False by auto
    qed
    have k: "\<forall>e \<in> set ds. vd_id e \<in> ids \<longleftrightarrow> vd_id e \<in> lx_document_id ` set ?rows"
    proof
      fix e assume e: "e \<in> set ds"
      have "vd_id e \<noteq> vd_id d" using e nd by blast
      moreover have "vd_id e \<in> ids \<longleftrightarrow> vd_id e \<in> lx_document_id ` set rows" using known e by simp
      ultimately show "vd_id e \<in> ids \<longleftrightarrow> vd_id e \<in> lx_document_id ` set ?rows"
        unfolding rows using i by force
    qed
    have dist: "distinct (map lx_document_id rows) \<Longrightarrow> distinct (map lx_document_id ?rows)"
      using known i map_replace_ids [OF i, of rows] by (auto simp del: map_map)
    have "refresh_loop E tt g ids ds (?rows, n + 1) = (rows', n')" using Cons.prems(3) Some by simp
    from Cons.IH [OF _ k this] Cons.prems(1) Some dist i show ?thesis
      unfolding rows using nd by auto
  qed
qed

lemma refresh_projections_Inr:
  assumes "refresh_projections E admits g sv = Inr (n, sv')" and "distinct (map vd_id (sv_documents sv))"
  shows "sv' = sv\<lparr>sv_lexical := sv_lexical sv'\<rparr>" and "set (sv_lexical sv') = projected_rows E g sv"
    and "store_current E sv'"
proof -
  define kept where "kept = filter (\<lambda>r. lx_document_id r \<in> vd_id ` set (sv_documents sv)) (sv_lexical sv)"
  obtain rows m where l: "refresh_loop E (sv_titles sv) g (lx_document_id ` set kept) (sv_documents sv) (kept, 0)
      = (rows, m)" by (cases "refresh_loop E (sv_titles sv) g (lx_document_id ` set kept) (sv_documents sv) (kept, 0)")
  from assms(1) l have sv': "sv' = sv\<lparr>sv_lexical := rows\<rparr>" and g: "\<exists>c. sv_corpus sv = Some c \<and> sr_corpus c = g"
    unfolding refresh_projections_def Let_def kept_def [symmetric] l by (auto split: if_splits option.splits)
  have rows: "set rows = projected_rows E g sv"
    using refresh_loop_rows [OF assms(2) _ l] unfolding kept_def projected_rows_def by auto
  show "sv' = sv\<lparr>sv_lexical := sv_lexical sv'\<rparr>" using sv' by simp
  show "set (sv_lexical sv') = projected_rows E g sv" using sv' rows by simp
  have "projected_rows E g sv' = projected_rows E g sv" using sv' by (simp add: projected_rows_def)
  then show "store_current E sv'" using sv' rows g by (auto simp: store_current_def)
qed

section \<open>Snapshots\<close>

text \<open>The metadata the index builder writes: strings and integers under distinct keys, in the order of the keys.\<close>

definition document_ok :: "vector_document \<Rightarrow> bool" where
  "document_ok d \<longleftrightarrow> readable (JObj (vd_metadata d)) \<and> keys_sorted (JObj (vd_metadata d))"

lemma metadata_json_inj:
  assumes "document_ok d" and "document_ok e"
    and "json_dumps (JObj (vd_metadata d)) = json_dumps (JObj (vd_metadata e))"
  shows "vd_metadata d = vd_metadata e"
proof -
  have "json_loads (json_dumps (JObj (vd_metadata f))) = Some (JObj (vd_metadata f))" if "document_ok f" for f
    using that json_loads_dumps_ordered dumps_ordered_eq(1) unfolding document_ok_def by metis
  then have "Some (JObj (vd_metadata d)) = Some (JObj (vd_metadata e))" using assms by metis
  then show ?thesis by (simp only: option.inject json.inject)
qed

lemma corpus_snapshot_set:
  "set (corpus_snapshot sv) = {t. \<exists>d \<in> set (sv_documents sv). \<exists>title.
     document_title (sv_titles sv) d = Some title
     \<and> t = [vd_id d, title, vd_text d, vd_source_url d, vd_source_snippet d, vd_permission d,
            json_dumps (JObj (vd_metadata d))]}"
  by (auto simp: corpus_snapshot_def split: option.splits)

lemma snapshot_subset_projects:
  assumes "set (corpus_snapshot sv) \<subseteq> set (corpus_snapshot sv')"
    and "\<forall>d \<in> set (sv_documents sv) \<union> set (sv_documents sv'). document_ok d"
  shows "projected_rows E g sv \<subseteq> projected_rows E g sv'"
proof
  fix r
  assume "r \<in> projected_rows E g sv"
  then obtain d where d: "d \<in> set (sv_documents sv)" and p: "project_document E (sv_titles sv) g d = Some r"
    by (auto simp: projected_rows_def)
  then obtain title where t: "document_title (sv_titles sv) d = Some title"
    by (auto simp: project_document_def split: option.splits)
  have "[vd_id d, title, vd_text d, vd_source_url d, vd_source_snippet d, vd_permission d,
      json_dumps (JObj (vd_metadata d))] \<in> set (corpus_snapshot sv')"
    using d t assms(1) unfolding corpus_snapshot_set by blast
  then obtain e where e: "e \<in> set (sv_documents sv')" and te: "document_title (sv_titles sv') e = Some title"
    and eq: "vd_id d = vd_id e" "vd_text d = vd_text e" "vd_source_url d = vd_source_url e"
      "vd_source_snippet d = vd_source_snippet e" "vd_permission d = vd_permission e"
      "json_dumps (JObj (vd_metadata d)) = json_dumps (JObj (vd_metadata e))"
    unfolding corpus_snapshot_set by auto
  have "vd_metadata d = vd_metadata e" using metadata_json_inj assms(2) d e eq(6) by blast
  with eq have "d = e" by simp
  then have "project_document E (sv_titles sv') g e = Some r"
    using p t te by (simp add: project_document_def)
  then show "r \<in> projected_rows E g sv'" using e by (auto simp: projected_rows_def)
qed

lemma snapshot_projects:
  assumes "corpus_snapshot sv = corpus_snapshot sv'"
    and "\<forall>d \<in> set (sv_documents sv) \<union> set (sv_documents sv'). document_ok d"
  shows "projected_rows E g sv = projected_rows E g sv'"
proof (intro equalityI snapshot_subset_projects)
  show "set (corpus_snapshot sv) \<subseteq> set (corpus_snapshot sv')"
    "set (corpus_snapshot sv') \<subseteq> set (corpus_snapshot sv)" using assms(1) by simp_all
qed (use assms(2) in auto)

end
