(* ===== verification/Serving_Generation.thy ===== *)
theory Serving_Generation
  imports Lexical_Facts
begin

text \<open>
  \<open>rag/serving_generation.py\<close>: the generation row of the serving corpus, the contexts under which it may be
  changed, and the guard of a session that compares the corpus at its commit with the corpus when it was armed,
  advances the generations accordingly, and follows vector mutations through savepoints with the session's events.
  A session is its transactions, what its queries see, what it has not flushed yet, and the part of \<open>Session.info\<close>
  the guard uses. An operation returns its result with the session it leaves, also when it raises.
\<close>

section \<open>The state\<close>

definition rag_index_policy_version :: string where
  "rag_index_policy_version = ''rag-v2-serving-index:v1''"

definition rag_cosine_policy_version :: string where
  "rag_cosine_policy_version = ''pgvector-cosine-indexable:v1''"

text \<open>A \<open>SessionTransaction\<close>: its \<open>id\<close>, and whether it is a savepoint. Its parents follow it in a list.\<close>

record tx_frame =
  tx_id :: nat
  tx_nested :: bool

record generation_context =
  gc_address :: nat
  gc_session :: nat
  gc_transaction :: nat
  gc_mutation :: bool
  gc_key_version :: string
  gc_verifier :: string

text \<open>\<open>_ArmedCorpusMutation\<close>; its settings are those of the environment.\<close>

record armed_mutation =
  am_context :: generation_context
  am_before :: "string list list"
  am_vector :: bool
  am_savepoints :: "nat set"
  am_pending :: "tx_frame list list"

text \<open>
  The frames are the innermost transaction first. \<open>se_saved\<close> holds what the queries saw when each was begun: what a
  rollback returns to. \<open>se_dirty\<close> is the corpus the next flush makes visible to the queries (the runtime's sessions
  do not flush by themselves), \<open>se_new\<close> the number of unflushed \<open>VectorServingTombstone\<close>s. After a failed flush
  SQLAlchemy accepts a rollback only.
\<close>

record serving_session =
  se_guard :: guard_info
  se_frames :: "tx_frame list"
  se_store :: serving_store
  se_saved :: "serving_store list"
  se_dirty :: "(vector_document list \<times> title_tables) option"
  se_new :: nat
  se_contexts :: "generation_context list"
  se_armed :: "armed_mutation option"
  se_listener :: bool
  se_failed :: bool

record generation_env =
  ge_lexical :: lexical_env
  ge_model :: string
  ge_dimensions :: int
  ge_admits :: "lexical_row list \<Rightarrow> lexical_row list \<Rightarrow> bool"

type_synonym 'a session_result = "'a result \<times> serving_session"

definition root_transaction :: "serving_session \<Rightarrow> tx_frame option" where
  "root_transaction s = (if se_frames s = [] then None else Some (last (se_frames s)))"

definition nested_transaction :: "serving_session \<Rightarrow> tx_frame option" where
  "nested_transaction s = List.find tx_nested (se_frames s)"

section \<open>Contexts\<close>

text \<open>\<open>_validate_generation_context\<close> and \<open>_validate_generation_mutation_context\<close>.\<close>

definition validate_context :: "serving_session \<Rightarrow> generation_context \<Rightarrow> unit result" where
  "validate_context s c =
     (if gc_session c \<noteq> gi_session (se_guard s)
      then Inl (Type_Error ''RAG generation context belongs to another session'')
      else if map_option tx_id (root_transaction s) \<noteq> Some (gc_transaction c)
      then Inl (Type_Error ''RAG generation context transaction is no longer active'')
      else if gc_address c \<notin> gc_address ` set (se_contexts s)
      then Inl (Type_Error ''RAG generation context was not issued for this session'')
      else Inr ())"

definition validate_mutation_context :: "serving_session \<Rightarrow> generation_context \<Rightarrow> unit result" where
  "validate_mutation_context s c =
     then_r (validate_context s c) (\<lambda>_.
       require (gc_mutation c) (Type_Error ''A mutation-authorized RAG generation context is required''))"

definition assert_generation_context :: "serving_session \<Rightarrow> generation_context option \<Rightarrow> unit result" where
  "assert_generation_context s ctx =
     (case ctx of None \<Rightarrow> Inl (Type_Error ''A locked RAG generation context is required'')
      | Some c \<Rightarrow> validate_context s c)"

definition assert_mutation_context :: "serving_session \<Rightarrow> generation_context option \<Rightarrow> unit result" where
  "assert_mutation_context s ctx =
     (case ctx of None \<Rightarrow> Inl (Type_Error ''A locked RAG generation context is required'')
      | Some c \<Rightarrow> validate_mutation_context s c)"

definition assert_refresh_armed :: "serving_session \<Rightarrow> unit result" where
  "assert_refresh_armed s =
     (case se_armed s of
        None \<Rightarrow> Inl (Type_Error ''Canonical mutation requires the RAG generation guard'')
      | Some am \<Rightarrow> validate_mutation_context s (am_context am))"

section \<open>Vector mutations\<close>

definition mark_contribution :: "armed_mutation \<Rightarrow> serving_session \<Rightarrow> serving_session" where
  "mark_contribution am s =
     (case nested_transaction s of
        None \<Rightarrow> s\<lparr>se_armed := Some (am\<lparr>am_vector := True\<rparr>)\<rparr>
      | Some f \<Rightarrow> s\<lparr>se_armed := Some (am\<lparr>am_savepoints := insert (tx_id f) (am_savepoints am)\<rparr>)\<rparr>)"

definition mark_vector_mutation :: "serving_session \<Rightarrow> unit session_result" where
  "mark_vector_mutation s =
     (case se_armed s of
        None \<Rightarrow> (Inl (Type_Error ''RAG vector mutation requires an armed generation guard''), s)
      | Some am \<Rightarrow>
          (case validate_mutation_context s (am_context am) of
             Inl e \<Rightarrow> (Inl e, s)
           | Inr _ \<Rightarrow> (Inr (), mark_contribution am s)))"

text \<open>The listener before a flush: a tombstone the flush writes is a vector mutation.\<close>

definition before_flush :: "serving_session \<Rightarrow> unit session_result" where
  "before_flush s =
     (case (se_listener s, se_armed s) of
        (True, Some am) \<Rightarrow>
          if 0 < se_new s
          then (case validate_mutation_context s (am_context am) of
                  Inl e \<Rightarrow> (Inl e, s)
                | Inr _ \<Rightarrow> (Inr (), mark_contribution am s))
          else (Inr (), s)
      | _ \<Rightarrow> (Inr (), s))"

text \<open>\<open>Session.flush()\<close>, when the database accepts what it writes.\<close>

definition flush_session :: "serving_session \<Rightarrow> unit session_result" where
  "flush_session s =
     (case before_flush s of
        (Inl e, s) \<Rightarrow> (Inl e, s)
      | (Inr _, s) \<Rightarrow>
          (Inr (), s\<lparr>se_store := (case se_dirty s of None \<Rightarrow> se_store s
               | Some (ds, tt) \<Rightarrow> (se_store s)\<lparr>sv_documents := ds, sv_titles := tt\<rparr>),
             se_dirty := None, se_new := 0\<rparr>))"

section \<open>The generation row\<close>

definition expected_identity :: "generation_env \<Rightarrow> string \<times> int \<times> string \<times> string \<times> string \<times> string" where
  "expected_identity E =
     (ge_model E, ge_dimensions E, rag_index_policy_version, rag_cosine_policy_version,
      fingerprint_key_version (le_settings (ge_lexical E)), env_verifier (ge_lexical E))"

definition validate_generation_identity :: "generation_env \<Rightarrow> serving_row \<Rightarrow> unit result" where
  "validate_generation_identity E r =
     require ((sr_model r, sr_dimensions r, sr_index_policy r, sr_cosine_policy r, sr_key_version r, sr_verifier r)
         = expected_identity E)
       (Runtime_Error ''RAG serving generation identity mismatch'')"

text \<open>The CHECK constraints of \<open>rag_serving_corpus_generations\<close> and the widths of its columns, for a new row.\<close>

definition new_generation_row :: "generation_env \<Rightarrow> serving_row" where
  "new_generation_row E =
     \<lparr>sr_corpus = 0, sr_vector = 0, sr_model = ge_model E, sr_dimensions = ge_dimensions E,
      sr_index_policy = rag_index_policy_version, sr_cosine_policy = rag_cosine_policy_version,
      sr_key_version = fingerprint_key_version (le_settings (ge_lexical E)),
      sr_verifier = env_verifier (ge_lexical E)\<rparr>"

definition generation_row_fits :: "serving_row \<Rightarrow> bool" where
  "generation_row_fits r \<longleftrightarrow>
     1 \<le> code_points (sr_model r) \<and> code_points (sr_model r) \<le> 120 \<and> 0 < sr_dimensions r
     \<and> 1 \<le> code_points (sr_key_version r) \<and> code_points (sr_key_version r) \<le> 64
     \<and> code_points (sr_verifier r) = 64"

text \<open>\<open>db.add(row)\<close> with \<open>db.flush([row])\<close>: only the row is written, but the listener sees the session.\<close>

definition add_generation_row :: "generation_env \<Rightarrow> serving_session \<Rightarrow> serving_row session_result" where
  "add_generation_row E s =
     (let row = new_generation_row E
      in case before_flush s of
           (Inl e, s) \<Rightarrow> (Inl e, s)
         | (Inr _, s) \<Rightarrow>
             if generation_row_fits row
             then (Inr row, s\<lparr>se_store := (se_store s)\<lparr>sv_corpus := Some row\<rparr>\<rparr>)
             else (Inl (Persistence_Error ''serving generation''), s\<lparr>se_failed := True\<rparr>))"

text \<open>\<open>lock_rag_serving_generation\<close>, with \<open>a\<close> the address of the new context.\<close>

definition lock_serving_generation ::
    "generation_env \<Rightarrow> nat \<Rightarrow> key_context option \<Rightarrow> bool \<Rightarrow> serving_session \<Rightarrow> generation_context session_result" where
  "lock_serving_generation E a key for_update s =
     (case record_rag_corpus_lock key for_update (se_guard s) of
        Inl e \<Rightarrow> (Inl e, s)
      | Inr g \<Rightarrow>
          let s = s\<lparr>se_guard := send_lock (Corpus_Row for_update) g\<rparr>
          in case (case sv_corpus (se_store s) of
                     Some row \<Rightarrow> (Inr row, s)
                   | None \<Rightarrow>
                       if \<not> for_update
                       then (Inl (Runtime_Error ''RAG serving generation singleton is unavailable''), s)
                       else add_generation_row E s) of
               (Inl e, s) \<Rightarrow> (Inl e, s)
             | (Inr row, s) \<Rightarrow>
                 (case validate_generation_identity E row of
                    Inl e \<Rightarrow> (Inl e, s)
                  | Inr _ \<Rightarrow>
                      (case root_transaction s of
                         None \<Rightarrow> (Inl (Type_Error ''RAG serving generation transaction is unavailable''), s)
                       | Some outer \<Rightarrow>
                           let c = \<lparr>gc_address = a, gc_session = gi_session (se_guard s),
                                    gc_transaction = tx_id outer, gc_mutation = for_update,
                                    gc_key_version = fingerprint_key_version (le_settings (ge_lexical E)),
                                    gc_verifier = env_verifier (ge_lexical E)\<rparr>
                           in (Inr c, s\<lparr>se_contexts := c # se_contexts s\<rparr>))))"

definition increment_vector_generation :: "generation_context \<Rightarrow> serving_session \<Rightarrow> int session_result" where
  "increment_vector_generation c s =
     (case validate_mutation_context s c of
        Inl e \<Rightarrow> (Inl e, s)
      | Inr _ \<Rightarrow>
          (case sv_corpus (se_store s) of
             None \<Rightarrow> (Inl (Runtime_Error ''RAG serving generation singleton is unavailable''), s)
           | Some row \<Rightarrow>
               let row = row\<lparr>sr_vector := sr_vector row + 1\<rparr>
               in (Inr (sr_vector row), s\<lparr>se_store := (se_store s)\<lparr>sv_corpus := Some row\<rparr>\<rparr>)))"

definition advance_corpus_generation :: "generation_env \<Rightarrow> generation_context \<Rightarrow> serving_session \<Rightarrow> int session_result" where
  "advance_corpus_generation E c s =
     (case validate_mutation_context s c of
        Inl e \<Rightarrow> (Inl e, s)
      | Inr _ \<Rightarrow>
          (case sv_corpus (se_store s) of
             None \<Rightarrow> (Inl (Runtime_Error ''RAG serving generation singleton is unavailable''), s)
           | Some row \<Rightarrow>
               (case validate_generation_identity E row of
                  Inl e \<Rightarrow> (Inl e, s)
                | Inr _ \<Rightarrow>
                    let row = row\<lparr>sr_corpus := sr_corpus row + 1\<rparr>;
                        s = s\<lparr>se_store := (se_store s)\<lparr>sv_corpus := Some row\<rparr>\<rparr>
                    in case refresh_projections (ge_lexical E) (ge_admits E) (sr_corpus row) (se_store s) of
                         Inl e \<Rightarrow> (Inl e, s\<lparr>se_failed := True\<rparr>)
                       | Inr (_, sv) \<Rightarrow>
                           (case flush_session (s\<lparr>se_store := sv\<rparr>) of
                              (Inl e, s) \<Rightarrow> (Inl e, s\<lparr>se_failed := True\<rparr>)
                            | (Inr _, s) \<Rightarrow> (Inr (sr_corpus row), s)))))"

section \<open>Arming\<close>

definition arm_refresh :: "generation_context \<Rightarrow> serving_session \<Rightarrow> unit session_result" where
  "arm_refresh c s =
     (case validate_mutation_context s c of
        Inl e \<Rightarrow> (Inl e, s)
      | Inr _ \<Rightarrow>
          (case se_armed s of
             Some am \<Rightarrow>
               (if gc_transaction (am_context am) \<noteq> gc_transaction c
                then Inl (Type_Error ''RAG corpus mutation guard transaction is stale'') else Inr (), s)
           | None \<Rightarrow>
               (Inr (), s\<lparr>se_armed := Some \<lparr>am_context = c, am_before = corpus_snapshot (se_store s),
                   am_vector = False, am_savepoints = {}, am_pending = []\<rparr>, se_listener := True\<rparr>)))"

section \<open>The listeners of a commit and a rollback\<close>

definition before_commit :: "generation_env \<Rightarrow> serving_session \<Rightarrow> unit session_result" where
  "before_commit E s =
     (case (se_listener s, se_armed s) of
        (True, Some am) \<Rightarrow>
          if nested_transaction s \<noteq> None
          then (Inr (), s\<lparr>se_armed := Some (am\<lparr>am_pending :=
                   am_pending am @ [dropWhile (\<lambda>f. \<not> tx_nested f) (se_frames s)]\<rparr>)\<rparr>)
          else (case validate_mutation_context s (am_context am) of
              Inl e \<Rightarrow> (Inl e, s)
            | Inr _ \<Rightarrow>
                let tombstone_created = 0 < se_new s
                in case (if corpus_snapshot (se_store s) \<noteq> am_before am
                         then advance_corpus_generation E (am_context am) s else (Inr 0, s)) of
                     (Inl e, s) \<Rightarrow> (Inl e, s)
                   | (Inr _, s) \<Rightarrow>
                       if (case se_armed s of Some am' \<Rightarrow> am_vector am' | None \<Rightarrow> False) \<or> tombstone_created
                       then (case increment_vector_generation (am_context am) s of
                               (Inl e, s) \<Rightarrow> (Inl e, s) | (Inr _, s) \<Rightarrow> (Inr (), s))
                       else (Inr (), s))
      | _ \<Rightarrow> (Inr (), s))"

definition after_commit :: "serving_session \<Rightarrow> serving_session" where
  "after_commit s =
     (case (se_listener s, se_armed s) of
        (True, Some am) \<Rightarrow>
          if am_pending am = [] then s
          else
            let chain = last (am_pending am);
                am = am\<lparr>am_pending := butlast (am_pending am)\<rparr>
            in case chain of
                 [] \<Rightarrow> s\<lparr>se_armed := Some am\<rparr>
               | f # parents \<Rightarrow>
                   if tx_id f \<notin> am_savepoints am then s\<lparr>se_armed := Some am\<rparr>
                   else
                     let am = am\<lparr>am_savepoints := am_savepoints am - {tx_id f}\<rparr>
                     in s\<lparr>se_armed := Some (case List.find tx_nested parents of
                            None \<Rightarrow> am\<lparr>am_vector := True\<rparr>
                          | Some p \<Rightarrow> am\<lparr>am_savepoints := insert (tx_id p) (am_savepoints am)\<rparr>)\<rparr>
      | _ \<Rightarrow> s)"

definition after_soft_rollback :: "tx_frame \<Rightarrow> serving_session \<Rightarrow> serving_session" where
  "after_soft_rollback f s =
     (case (se_listener s, se_armed s) of
        (True, Some am) \<Rightarrow>
          s\<lparr>se_armed := Some (am\<lparr>am_savepoints := am_savepoints am - {tx_id f},
             am_pending := filter (\<lambda>chain. chain = [] \<or> tx_id (hd chain) \<noteq> tx_id f) (am_pending am)\<rparr>)\<rparr>
      | _ \<Rightarrow> s)"

definition after_transaction_end :: "bool \<Rightarrow> serving_session \<Rightarrow> serving_session" where
  "after_transaction_end is_root s =
     (if se_listener s \<and> is_root then s\<lparr>se_armed := None\<rparr> else s)"

section \<open>Transactions\<close>

text \<open>
  The session's own operations, as SQLAlchemy documents them: a commit fires its event, flushes, commits and fires
  the next one while the transaction still is the current one; a savepoint flushes before it is begun. Savepoints
  are ended innermost first, as the \<open>with\<close> blocks of the program do.
\<close>

definition begin_root :: "nat \<Rightarrow> serving_session \<Rightarrow> serving_session" where
  "begin_root a s = s\<lparr>se_frames := [\<lparr>tx_id = a, tx_nested = False\<rparr>], se_saved := [se_store s]\<rparr>"

definition begin_nested :: "nat \<Rightarrow> serving_session \<Rightarrow> unit session_result" where
  "begin_nested a s =
     (case flush_session s of
        (Inl e, s) \<Rightarrow> (Inl e, s)
      | (Inr _, s) \<Rightarrow>
          (Inr (), s\<lparr>se_frames := \<lparr>tx_id = a, tx_nested = True\<rparr> # se_frames s, se_saved := se_store s # se_saved s\<rparr>))"

text \<open>Leaving the innermost transaction, whose work is kept.\<close>

definition close_frame :: "serving_session \<Rightarrow> serving_session" where
  "close_frame s =
     after_transaction_end (length (se_frames s) = 1)
       (s\<lparr>se_frames := tl (se_frames s), se_saved := tl (se_saved s)\<rparr>)"

definition commit_transaction :: "generation_env \<Rightarrow> serving_session \<Rightarrow> unit session_result" where
  "commit_transaction E s =
     (case before_commit E s of
        (Inl e, s) \<Rightarrow> (Inl e, s)
      | (Inr _, s) \<Rightarrow>
          (case flush_session s of
             (Inl e, s) \<Rightarrow> (Inl e, s)
           | (Inr _, s) \<Rightarrow> (Inr (), close_frame (after_commit s))))"

definition rollback_transaction :: "serving_session \<Rightarrow> serving_session" where
  "rollback_transaction s =
     (let f = hd (se_frames s);
          s = s\<lparr>se_store := hd (se_saved s), se_dirty := None, se_new := 0, se_failed := False\<rparr>
      in after_soft_rollback f (close_frame s))"

section \<open>The steps of a session\<close>

definition document_changes_ok :: "vector_document list \<Rightarrow> bool" where
  "document_changes_ok ds \<longleftrightarrow> distinct (map vd_id ds) \<and> (\<forall>d \<in> set ds. document_ok d)"

definition live_addresses :: "serving_session \<Rightarrow> nat set" where
  "live_addresses s = gc_transaction ` set (se_contexts s) \<union> tx_id ` set (se_frames s)"

text \<open>
  A change of the corpus is one the program guards: it asserts that the refresh is armed. It is either flushed (or
  made on an object the queries return) or left for a later flush. The ingestion service, which changes the corpus
  outside of any savepoint and without arming, advances the generation itself. The id of a new object is one that
  no live object has.
\<close>

inductive serving_step :: "generation_env \<Rightarrow> serving_session \<Rightarrow> serving_session \<Rightarrow> bool" for E where
  sv_guard: "guard_step (se_guard s) g \<Longrightarrow> serving_step E s (s\<lparr>se_guard := g\<rparr>)"
| sv_begin: "se_frames s = [] \<Longrightarrow> a \<notin> live_addresses s \<Longrightarrow> serving_step E s (begin_root a s)"
| sv_begin_nested:
    "\<not> se_failed s \<Longrightarrow> se_frames s \<noteq> [] \<Longrightarrow> a \<notin> live_addresses s \<Longrightarrow> begin_nested a s = (r, t)
     \<Longrightarrow> serving_step E s t"
| sv_lock:
    "\<not> se_failed s \<Longrightarrow> se_frames s \<noteq> [] \<Longrightarrow> a \<notin> gc_address ` set (se_contexts s)
     \<Longrightarrow> lock_serving_generation E a key for_update s = (r, t) \<Longrightarrow> serving_step E s t"
| sv_arm: "\<not> se_failed s \<Longrightarrow> arm_refresh c s = (r, t) \<Longrightarrow> serving_step E s t"
| sv_mark: "\<not> se_failed s \<Longrightarrow> mark_vector_mutation s = (r, t) \<Longrightarrow> serving_step E s t"
| sv_increment: "\<not> se_failed s \<Longrightarrow> increment_vector_generation c s = (r, t) \<Longrightarrow> serving_step E s t"
| sv_change:
    "\<not> se_failed s \<Longrightarrow> assert_refresh_armed s = Inr () \<Longrightarrow> document_changes_ok ds
     \<Longrightarrow> serving_step E s (s\<lparr>se_store := (se_store s)\<lparr>sv_documents := ds, sv_titles := tt\<rparr>\<rparr>)"
| sv_change_later:
    "\<not> se_failed s \<Longrightarrow> assert_refresh_armed s = Inr () \<Longrightarrow> document_changes_ok ds
     \<Longrightarrow> serving_step E s (s\<lparr>se_dirty := Some (ds, tt)\<rparr>)"
| sv_tombstone:
    "\<not> se_failed s \<Longrightarrow> assert_refresh_armed s = Inr () \<Longrightarrow> serving_step E s (s\<lparr>se_new := Suc (se_new s)\<rparr>)"
| sv_ingest:
    "\<not> se_failed s \<Longrightarrow> length (se_frames s) = 1 \<Longrightarrow> se_armed s = None \<Longrightarrow> document_changes_ok ds
     \<Longrightarrow> advance_corpus_generation E c (s\<lparr>se_store := (se_store s)\<lparr>sv_documents := ds, sv_titles := tt\<rparr>\<rparr>) = (Inr n, t)
     \<Longrightarrow> serving_step E s t"
| sv_flush: "\<not> se_failed s \<Longrightarrow> flush_session s = (r, t) \<Longrightarrow> serving_step E s t"
| sv_flush_fails: "se_frames s \<noteq> [] \<Longrightarrow> serving_step E s (s\<lparr>se_failed := True\<rparr>)"
| sv_commit:
    "\<not> se_failed s \<Longrightarrow> se_frames s \<noteq> [] \<Longrightarrow> commit_transaction E s = (r, t) \<Longrightarrow> serving_step E s t"
| sv_rollback: "se_frames s \<noteq> [] \<Longrightarrow> serving_step E s (rollback_transaction s)"

text \<open>
  The sessions of the runtime do not flush by themselves, so a root may commit a change its queries have not seen.
  A flushed step is any step but such a commit.
\<close>

definition unflushed_commit :: "generation_env \<Rightarrow> serving_session \<Rightarrow> serving_session \<Rightarrow> bool" where
  "unflushed_commit E s t \<longleftrightarrow>
     length (se_frames s) = 1 \<and> se_dirty s \<noteq> None \<and> commit_transaction E s = (Inr (), t)"

definition flushed_step :: "generation_env \<Rightarrow> serving_session \<Rightarrow> serving_session \<Rightarrow> bool" where
  "flushed_step E s t \<longleftrightarrow>
     serving_step E s t \<and> (unflushed_commit E s t \<longrightarrow> t = rollback_transaction s)"

text \<open>
  The deployment starts with no corpus, or with one whose projection is current, in a new session.
\<close>

definition serving_initial :: "generation_env \<Rightarrow> serving_session \<Rightarrow> bool" where
  "serving_initial E s \<longleftrightarrow>
     se_frames s = [] \<and> se_saved s = [] \<and> se_dirty s = None \<and> se_new s = 0 \<and> se_contexts s = []
     \<and> se_armed s = None \<and> \<not> se_listener s \<and> \<not> se_failed s
     \<and> document_changes_ok (sv_documents (se_store s))
     \<and> (case sv_corpus (se_store s) of None \<Rightarrow> sv_documents (se_store s) = []
        | Some c \<Rightarrow> store_current (ge_lexical E) (se_store s))"

end
