(* ===== verification/Serving_Facts.thy ===== *)
theory Serving_Facts
  imports Serving_Generation
begin

text \<open>
  Facts of \<open>Serving_Generation\<close>: the shape of the transactions of a session, the vector mutations that survive its
  savepoints, and what its store is to the corpus the lexical projection was made from.
\<close>

section \<open>The shape of a session\<close>

text \<open>
  One root below savepoints, and an armed guard whose marks are ids of open savepoints: an id that is used again
  therefore names no mark.
\<close>

definition armed_ok :: "serving_session \<Rightarrow> armed_mutation \<Rightarrow> bool" where
  "armed_ok s am \<longleftrightarrow>
     se_listener s \<and> se_frames s \<noteq> []
     \<and> am_savepoints am \<subseteq> tx_id ` set (butlast (se_frames s))
     \<and> validate_mutation_context s (am_context am) = Inr ()"

text \<open>No savepoint is being committed.\<close>

definition settled :: "serving_session \<Rightarrow> bool" where
  "settled s \<longleftrightarrow> (\<forall>am. se_armed s = Some am \<longrightarrow> am_pending am = [])"

definition frames_inv :: "serving_session \<Rightarrow> bool" where
  "frames_inv s \<longleftrightarrow>
     (\<forall>f \<in> set (butlast (se_frames s)). tx_nested f)
     \<and> (se_frames s \<noteq> [] \<longrightarrow> \<not> tx_nested (last (se_frames s)))
     \<and> distinct (map tx_id (se_frames s))
     \<and> length (se_saved s) = length (se_frames s)
     \<and> (se_frames s = [] \<longrightarrow> se_armed s = None \<and> se_new s = 0)
     \<and> (\<forall>am. se_armed s = Some am \<longrightarrow> armed_ok s am)"

lemma distinct_map_hd: "distinct (map h (x # xs)) \<Longrightarrow> \<forall>y \<in> set xs. h y \<noteq> h x"
  by (simp add: image_iff) metis

lemma frames_inv_armed: "frames_inv s \<Longrightarrow> se_armed s = Some am \<Longrightarrow> armed_ok s am"
  by (simp add: frames_inv_def)

lemma nested_transaction_hd:
  assumes "frames_inv s"
  shows "nested_transaction s = (if 1 < length (se_frames s) then Some (hd (se_frames s)) else None)"
proof (cases "se_frames s")
  case (Cons f fs)
  show ?thesis using assms Cons by (cases fs) (auto simp: frames_inv_def nested_transaction_def)
qed (simp add: nested_transaction_def)

lemma find_parents:
  assumes "frames_inv s" and "se_frames s = f # fs"
  shows "List.find tx_nested fs = (if 1 < length fs then Some (hd fs) else None)"
proof (cases fs)
  case (Cons g gs)
  show ?thesis using assms Cons by (cases gs) (auto simp: frames_inv_def)
qed simp

text \<open>What a step leaves alone while the transactions stay the same.\<close>

definition same_frames :: "serving_session \<Rightarrow> serving_session \<Rightarrow> bool" where
  "same_frames s t \<longleftrightarrow>
     gi_session (se_guard t) = gi_session (se_guard s) \<and> se_frames t = se_frames s \<and> se_saved t = se_saved s
     \<and> set (se_contexts s) \<subseteq> set (se_contexts t)"

lemma same_frames_refl [simp]: "same_frames s s"
  by (simp add: same_frames_def)

lemma same_frames_trans: "same_frames s t \<Longrightarrow> same_frames t u \<Longrightarrow> same_frames s u"
  by (auto simp: same_frames_def)

lemma same_frames_validate:
  "same_frames s t \<Longrightarrow> validate_mutation_context s c = Inr () \<Longrightarrow> validate_mutation_context t c = Inr ()"
  by (auto simp: same_frames_def validate_mutation_context_def validate_context_def root_transaction_def
      split: if_splits)

lemma frames_inv_update:
  assumes "frames_inv s" and "same_frames s t" and "se_listener t = se_listener s"
    and "se_frames s = [] \<longrightarrow> se_armed t = None \<and> se_new t = 0"
    and "\<And>am. se_armed t = Some am \<Longrightarrow> se_armed s \<noteq> None
      \<and> am_savepoints am \<subseteq> tx_id ` set (butlast (se_frames s)) \<and> am_context am = am_context (the (se_armed s))"
  shows "frames_inv t"
proof -
  have "armed_ok t am" if "se_armed t = Some am" for am
  proof -
    from assms(5) [OF that] obtain am' where "se_armed s = Some am'" by (cases "se_armed s") auto
    with frames_inv_armed [OF assms(1) this] assms(5) [OF that] show ?thesis
      using assms(2,3) same_frames_validate [OF assms(2)] by (simp add: armed_ok_def same_frames_def)
  qed
  then show ?thesis using assms by (simp add: frames_inv_def same_frames_def)
qed

section \<open>Marks\<close>

lemma mark_contribution_fields [simp]:
  "se_guard (mark_contribution am s) = se_guard s" "se_frames (mark_contribution am s) = se_frames s"
  "se_saved (mark_contribution am s) = se_saved s" "se_store (mark_contribution am s) = se_store s"
  "se_dirty (mark_contribution am s) = se_dirty s" "se_new (mark_contribution am s) = se_new s"
  "se_contexts (mark_contribution am s) = se_contexts s" "se_listener (mark_contribution am s) = se_listener s"
  "se_failed (mark_contribution am s) = se_failed s"
  by (simp_all add: mark_contribution_def split: option.splits)

lemma mark_contribution_armed:
  assumes "frames_inv s" and "se_armed s = Some am"
  shows "se_armed (mark_contribution am s) = Some (if 1 < length (se_frames s)
       then am\<lparr>am_savepoints := insert (tx_id (hd (se_frames s))) (am_savepoints am)\<rparr> else am\<lparr>am_vector := True\<rparr>)"
  by (simp add: mark_contribution_def nested_transaction_hd [OF assms(1)])

lemma mark_contribution_inv:
  assumes "frames_inv s" and "se_armed s = Some am"
  shows "frames_inv (mark_contribution am s)"
proof (rule frames_inv_update [OF assms(1)])
  have ok: "armed_ok s am" by (rule frames_inv_armed [OF assms])
  have hd: "1 < length (se_frames s) \<Longrightarrow> hd (se_frames s) \<in> set (butlast (se_frames s))"
    by (cases "se_frames s") auto
  fix am'
  assume "se_armed (mark_contribution am s) = Some am'"
  then show "se_armed s \<noteq> None \<and> am_savepoints am' \<subseteq> tx_id ` set (butlast (se_frames s))
      \<and> am_context am' = am_context (the (se_armed s))"
    using ok hd assms(2) unfolding mark_contribution_armed [OF assms] by (auto simp: armed_ok_def split: if_splits)
next
  show "se_frames s = [] \<longrightarrow> se_armed (mark_contribution am s) = None \<and> se_new (mark_contribution am s) = 0"
    using assms by (simp add: frames_inv_def)
qed (simp_all add: same_frames_def)

text \<open>The marks of the open transactions, innermost first, and with the tombstones that wait for a flush.\<close>

definition session_marks :: "serving_session \<Rightarrow> bool list" where
  "session_marks s =
     map (\<lambda>f. case se_armed s of None \<Rightarrow> False
        | Some am \<Rightarrow> if tx_nested f then tx_id f \<in> am_savepoints am else am_vector am) (se_frames s)"

fun mark_top :: "bool list \<Rightarrow> bool list" where
  "mark_top [] = []"
| "mark_top (_ # ms) = True # ms"

fun release_top :: "bool list \<Rightarrow> bool list" where
  "release_top (m # k # ms) = (m \<or> k) # ms"
| "release_top ms = ms"

definition live_marks :: "serving_session \<Rightarrow> bool list" where
  "live_marks s = (if se_armed s \<noteq> None \<and> 0 < se_new s then mark_top (session_marks s) else session_marks s)"

lemma mark_top_idem [simp]: "mark_top (mark_top ms) = mark_top ms"
  by (cases ms) auto

lemma session_marks_mark:
  assumes "frames_inv s" and "se_armed s = Some am"
  shows "session_marks (mark_contribution am s) = mark_top (session_marks s)"
proof -
  from frames_inv_armed [OF assms] obtain f fs where f: "se_frames s = f # fs"
    by (cases "se_frames s") (auto simp: armed_ok_def)
  have d: "\<forall>g \<in> set fs. tx_id g \<noteq> tx_id f" using assms(1) f distinct_map_hd [of tx_id f fs] by (simp add: frames_inv_def)
  have n: "tx_nested f \<longleftrightarrow> fs \<noteq> []" using assms(1) f by (cases fs) (auto simp: frames_inv_def)
  have nn: "fs \<noteq> [] \<Longrightarrow> \<not> tx_nested (last fs)" using assms(1) f by (simp add: frames_inv_def)
  show ?thesis
    using f d n unfolding session_marks_def mark_contribution_armed [OF assms]
    by (cases fs) (auto simp: assms(2))
qed

section \<open>Flushing\<close>

lemma before_flush_cases:
  assumes "frames_inv s"
  shows "before_flush s = (Inr (), case se_armed s of
     Some am \<Rightarrow> if 0 < se_new s then mark_contribution am s else s | None \<Rightarrow> s)"
proof (cases "se_armed s")
  case (Some am)
  then show ?thesis using frames_inv_armed [OF assms Some] by (simp add: before_flush_def armed_ok_def)
qed (simp add: before_flush_def split: bool.splits)

definition apply_changes :: "(vector_document list \<times> title_tables) option \<Rightarrow> serving_store \<Rightarrow> serving_store" where
  "apply_changes d sv = (case d of None \<Rightarrow> sv | Some (ds, tt) \<Rightarrow> sv\<lparr>sv_documents := ds, sv_titles := tt\<rparr>)"

lemma apply_changes_fields [simp]:
  "apply_changes None sv = sv" "sv_corpus (apply_changes d sv) = sv_corpus sv"
  "sv_lexical (apply_changes d sv) = sv_lexical sv"
  by (auto simp: apply_changes_def split: option.splits)

definition flushed_store :: "serving_session \<Rightarrow> serving_store" where
  "flushed_store s = apply_changes (se_dirty s) (se_store s)"

lemma flush_session_eq:
  assumes "frames_inv s"
  shows "\<exists>t. flush_session s = (Inr (), t) \<and> same_frames s t \<and> frames_inv t
    \<and> se_store t = flushed_store s \<and> se_dirty t = None \<and> se_new t = 0 \<and> se_failed t = se_failed s
    \<and> se_listener t = se_listener s
    \<and> session_marks t = live_marks s \<and> live_marks t = live_marks s
    \<and> map_option am_before (se_armed t) = map_option am_before (se_armed s)
    \<and> map_option am_context (se_armed t) = map_option am_context (se_armed s)
    \<and> map_option am_pending (se_armed t) = map_option am_pending (se_armed s)"
proof -
  define u where "u = (case se_armed s of
     Some am \<Rightarrow> if 0 < se_new s then mark_contribution am s else s | None \<Rightarrow> s)"
  have u: "frames_inv u" "same_frames s u" "se_store u = se_store s" "se_dirty u = se_dirty s"
      "se_failed u = se_failed s" "se_listener u = se_listener s"
    using assms mark_contribution_inv [OF assms] by (auto simp: u_def same_frames_def split: option.splits)
  have m: "session_marks u = live_marks s"
    using session_marks_mark [OF assms] by (auto simp: u_def live_marks_def split: option.splits)
  have a: "map_option am_before (se_armed u) = map_option am_before (se_armed s)"
      "map_option am_context (se_armed u) = map_option am_context (se_armed s)"
      "map_option am_pending (se_armed u) = map_option am_pending (se_armed s)"
    using mark_contribution_armed [OF assms] by (auto simp: u_def split: option.splits)
  define t where "t = u\<lparr>se_store := flushed_store s, se_dirty := None, se_new := 0\<rparr>"
  have "flush_session s = (Inr (), t)"
    using before_flush_cases [OF assms] u(3,4)
    by (cases "se_dirty s") (simp_all add: flush_session_def t_def u_def [symmetric] flushed_store_def apply_changes_def case_prod_unfold)
  moreover have "session_marks t = session_marks u" by (simp add: t_def session_marks_def)
  moreover have "live_marks t = session_marks t" by (simp add: live_marks_def t_def)
  moreover have "same_frames s t" "se_listener t = se_listener s" "se_failed t = se_failed s"
    using u by (simp_all add: t_def same_frames_def)
  moreover have "frames_inv t"
  proof (rule frames_inv_update [OF u(1)])
    fix am
    assume "se_armed t = Some am"
    then have am: "se_armed u = Some am" by (simp add: t_def)
    from frames_inv_armed [OF u(1) am] am show "se_armed u \<noteq> None
        \<and> am_savepoints am \<subseteq> tx_id ` set (butlast (se_frames u)) \<and> am_context am = am_context (the (se_armed u))"
      by (simp add: armed_ok_def)
  qed (use u(1) in \<open>auto simp: t_def same_frames_def frames_inv_def\<close>)
  ultimately show ?thesis using m a by (auto simp: t_def)
qed

section \<open>Savepoints\<close>

lemma flush_only:
  assumes "frames_inv s" and "flush_session s = (r, t)"
  shows "r = Inr ()" and "same_frames s t" and "frames_inv t" and "se_store t = flushed_store s"
    and "se_dirty t = None" and "se_new t = 0" and "se_failed t = se_failed s" and "live_marks t = live_marks s"
    and "session_marks t = live_marks s" and "map_option am_before (se_armed t) = map_option am_before (se_armed s)"
    and "map_option am_pending (se_armed t) = map_option am_pending (se_armed s)"
    and "se_listener t = se_listener s"
    and "map_option am_context (se_armed t) = map_option am_context (se_armed s)"
  using flush_session_eq [OF assms(1)] assms(2) by auto

lemma session_marks_length [simp]: "length (session_marks s) = length (se_frames s)"
  by (simp add: session_marks_def)

lemma begin_nested_facts:
  assumes "frames_inv s" and "se_frames s \<noteq> []" and "a \<notin> live_addresses s" and "begin_nested a s = (r, t)"
  shows "frames_inv t" and "live_marks t = False # live_marks s" and "r = Inr ()"
proof -
  obtain u where u: "flush_session s = (Inr (), u)" and t: "t = u\<lparr>se_frames := \<lparr>tx_id = a, tx_nested = True\<rparr> # se_frames u,
      se_saved := se_store u # se_saved u\<rparr>" and r: "r = Inr ()"
    using assms(4) flush_session_eq [OF assms(1)] by (auto simp: begin_nested_def)
  note f = flush_only [OF assms(1) u]
  have fr: "se_frames u = se_frames s" using f(2) by (simp add: same_frames_def)
  have a: "a \<notin> tx_id ` set (se_frames u)" using assms(3) fr by (simp add: live_addresses_def)
  have ok: "armed_ok t am" if "se_armed t = Some am" for am
  proof -
    have "armed_ok u am" using frames_inv_armed [OF f(3)] that t by simp
    moreover have "validate_mutation_context t (am_context am) = validate_mutation_context u (am_context am)"
      using assms(2) fr t by (simp add: validate_mutation_context_def validate_context_def root_transaction_def)
    ultimately show ?thesis using assms(2) fr t by (auto simp: armed_ok_def)
  qed
  show "frames_inv t"
    using f(3) ok assms(2) fr a t by (auto simp: frames_inv_def)
  have "am_savepoints am \<subseteq> tx_id ` set (se_frames u)" if "se_armed u = Some am" for am
    using frames_inv_armed [OF f(3) that] by (auto simp: armed_ok_def dest: in_set_butlastD)
  then have "session_marks t = False # session_marks u"
    using a by (auto simp: session_marks_def t split: option.splits)
  then show "live_marks t = False # live_marks s" using f(6,8,9) t by (simp add: live_marks_def)
  show "r = Inr ()" by (rule r)
qed

text \<open>Closing the innermost savepoint, once its mark is gone.\<close>

lemma close_savepoint:
  assumes "frames_inv s" and "se_frames s = f # fs" and "fs \<noteq> []"
    and "\<forall>am. se_armed s = Some am \<longrightarrow> tx_id f \<notin> am_savepoints am"
  shows "frames_inv (close_frame s)" and "session_marks (close_frame s) = tl (session_marks s)"
    and "se_armed (close_frame s) = se_armed s"
proof -
  let ?t = "close_frame s"
  have t: "se_frames ?t = fs" "se_saved ?t = tl (se_saved s)" "se_armed ?t = se_armed s" "se_listener ?t = se_listener s"
      "se_guard ?t = se_guard s" "se_contexts ?t = se_contexts s"
    using assms(2,3) by (simp_all add: close_frame_def after_transaction_end_def)
  have ok: "armed_ok ?t am" if "se_armed ?t = Some am" for am
  proof -
    have "armed_ok s am" using frames_inv_armed [OF assms(1)] that t by simp
    moreover have "validate_mutation_context ?t (am_context am) = validate_mutation_context s (am_context am)"
      using assms(2,3) t by (simp add: validate_mutation_context_def validate_context_def root_transaction_def)
    moreover have "tx_id f \<notin> am_savepoints am" using assms(4) that t by simp
    ultimately show ?thesis using assms(2,3) t by (auto simp: armed_ok_def)
  qed
  have d: "distinct (map tx_id fs)" using assms(1,2) by (simp add: frames_inv_def)
  show "frames_inv ?t" using assms(1,2,3) t ok d by (auto simp: frames_inv_def)
  show "session_marks ?t = tl (session_marks s)" using assms(2) t by (simp add: session_marks_def)
  show "se_armed ?t = se_armed s" by (rule t(3))
qed

lemma rollback_savepoint:
  assumes "frames_inv s" and "settled s" and "se_frames s = f # fs" and "fs \<noteq> []"
  shows "frames_inv (rollback_transaction s)" and "settled (rollback_transaction s)" and "live_marks (rollback_transaction s) = tl (live_marks s)"
    and "map_option am_before (se_armed (rollback_transaction s)) = map_option am_before (se_armed s)"
proof -
  define u where "u = s\<lparr>se_store := hd (se_saved s), se_dirty := None, se_new := 0, se_failed := False\<rparr>"
  define v where "v = after_soft_rollback f u"
  have fd: "\<forall>g \<in> set fs. tx_id g \<noteq> tx_id f" using assms(1,3) distinct_map_hd [of tx_id f fs] by (simp add: frames_inv_def)
  have r: "rollback_transaction s = close_frame v"
    using assms(3,4)
    by (auto simp: rollback_transaction_def u_def v_def after_soft_rollback_def close_frame_def
        after_transaction_end_def split: option.splits bool.splits)
  have u: "frames_inv u" using assms(1)
    by (auto simp: frames_inv_def u_def armed_ok_def validate_mutation_context_def validate_context_def
        root_transaction_def)
  have a: "se_armed v = (case se_armed s of None \<Rightarrow> None
      | Some am \<Rightarrow> Some (am\<lparr>am_savepoints := am_savepoints am - {tx_id f}, am_pending := []\<rparr>))"
    using u assms(2) by (auto simp: v_def after_soft_rollback_def u_def frames_inv_def armed_ok_def settled_def split: option.splits bool.splits)
  have same: "same_frames u v" "se_listener v = se_listener u" "se_new v = 0"
    by (auto simp: v_def u_def after_soft_rollback_def same_frames_def split: option.splits bool.splits)
  have v: "frames_inv v"
  proof (rule frames_inv_update [OF u same(1,2)])
    show "se_frames u = [] \<longrightarrow> se_armed v = None \<and> se_new v = 0" using assms(3) by (simp add: u_def)
    fix am
    assume am: "se_armed v = Some am"
    then obtain am' where "se_armed s = Some am'" "am = am'\<lparr>am_savepoints := am_savepoints am' - {tx_id f}, am_pending := []\<rparr>"
      unfolding a by (auto split: option.splits)
    with frames_inv_armed [OF u, of am'] show "se_armed u \<noteq> None
        \<and> am_savepoints am \<subseteq> tx_id ` set (butlast (se_frames u)) \<and> am_context am = am_context (the (se_armed u))"
      by (auto simp: u_def armed_ok_def)
  qed
  have fv: "se_frames v = f # fs" using same(1) assms(3) by (simp add: same_frames_def u_def)
  have out: "\<forall>am. se_armed v = Some am \<longrightarrow> tx_id f \<notin> am_savepoints am" unfolding a by (auto split: option.splits)
  note c = close_savepoint [OF v fv assms(4) out]
  show "frames_inv (rollback_transaction s)" unfolding r by (rule c(1))
  show "settled (rollback_transaction s)" unfolding r settled_def c(3) a by (auto split: option.splits)
  have "tl (session_marks v) = tl (session_marks s)"
    using fd assms(3) fv unfolding session_marks_def a by (auto split: option.splits)
  moreover have "se_new (close_frame v) = 0" using same(3) by (simp add: close_frame_def after_transaction_end_def)
  moreover have "tl (live_marks s) = tl (session_marks s)" by (cases "session_marks s") (auto simp: live_marks_def)
  ultimately show "live_marks (rollback_transaction s) = tl (live_marks s)"
    unfolding r using c(2) by (simp add: live_marks_def)
  show "map_option am_before (se_armed (rollback_transaction s)) = map_option am_before (se_armed s)"
    unfolding r c(3) a by (auto split: option.splits)
qed

lemma before_commit_savepoint:
  assumes "frames_inv s" and "se_frames s = f # fs" and "fs \<noteq> []"
  shows "before_commit E s = (Inr (), case se_armed s of None \<Rightarrow> s
     | Some am \<Rightarrow> s\<lparr>se_armed := Some (am\<lparr>am_pending := am_pending am @ [se_frames s]\<rparr>)\<rparr>)"
proof (cases "se_armed s")
  case None
  then show ?thesis by (simp add: before_commit_def split: bool.splits)
next
  case (Some am)
  have "tx_nested f" using assms by (cases fs) (auto simp: frames_inv_def)
  moreover have "se_listener s" using frames_inv_armed [OF assms(1) Some] by (simp add: armed_ok_def)
  ultimately show ?thesis
    using Some assms(2,3) nested_transaction_hd [OF assms(1)] by (simp add: before_commit_def)
qed

lemma parent_mark:
  assumes "frames_inv s" and "se_frames s = f # fs" and "fs \<noteq> []"
  shows "List.find tx_nested fs = (if tx_nested (hd fs) then Some (hd fs) else None)"
  using find_parents [OF assms(1,2)] assms by (cases fs; cases "tl fs") (auto simp: frames_inv_def)

text \<open>After the release: the mark of the savepoint is the one of its parent.\<close>

lemma after_commit_savepoint:
  assumes "frames_inv s" and "se_frames s = f # fs" and "fs \<noteq> []" and "se_new s = 0"
    and "\<forall>am. se_armed s = Some am \<longrightarrow> am_pending am = [se_frames s]"
  shows "frames_inv (after_commit s)" and "settled (after_commit s)" and "same_frames s (after_commit s)"
    and "\<forall>am. se_armed (after_commit s) = Some am \<longrightarrow> tx_id f \<notin> am_savepoints am"
    and "tl (session_marks (after_commit s)) = release_top (session_marks s)"
    and "map_option am_before (se_armed (after_commit s)) = map_option am_before (se_armed s)"
    and "se_store (after_commit s) = se_store s" and "se_dirty (after_commit s) = se_dirty s"
    and "se_new (after_commit s) = 0" and "se_failed (after_commit s) = se_failed s"
proof -
  let ?t = "after_commit s"
  obtain g gs where fs: "fs = g # gs" using assms(3) by (cases fs) auto
  have a: "se_armed ?t = (case se_armed s of None \<Rightarrow> None | Some am \<Rightarrow>
      Some (if tx_id f \<notin> am_savepoints am then am\<lparr>am_pending := []\<rparr>
            else if tx_nested g
              then am\<lparr>am_pending := [], am_savepoints := insert (tx_id g) (am_savepoints am - {tx_id f})\<rparr>
              else am\<lparr>am_pending := [], am_savepoints := am_savepoints am - {tx_id f}, am_vector := True\<rparr>))"
    using assms(2,5) frames_inv_armed [OF assms(1)] parent_mark [OF assms(1-3)] fs
    by (auto simp: after_commit_def armed_ok_def Let_def split: option.splits bool.splits)
  have same: "same_frames s ?t" "se_listener ?t = se_listener s" "se_store ?t = se_store s" "se_dirty ?t = se_dirty s"
      "se_new ?t = se_new s" "se_failed ?t = se_failed s"
    by (auto simp: after_commit_def same_frames_def Let_def split: option.splits bool.splits list.splits)
  show "same_frames s ?t" "se_store ?t = se_store s" "se_dirty ?t = se_dirty s" "se_new ?t = 0"
      "se_failed ?t = se_failed s"
    using same assms(4) by simp_all
  have fd: "\<forall>h \<in> set fs. tx_id h \<noteq> tx_id f" and gd: "\<forall>h \<in> set gs. tx_id h \<noteq> tx_id g"
    using assms(1,2) fs distinct_map_hd [of tx_id f fs] distinct_map_hd [of tx_id g gs] by (simp_all add: frames_inv_def)
  have gn: "tx_nested g \<longleftrightarrow> gs \<noteq> []" using assms(1,2) fs by (cases gs) (auto simp: frames_inv_def)
  have ng: "gs = [] \<or> \<not> tx_nested (last gs)" using assms(1,2) fs by (auto simp: frames_inv_def)
  have nn: "\<forall>h \<in> set gs. tx_nested h \<or> h = last gs"
    using assms(1,2) fs by (cases gs rule: rev_cases) (auto simp: frames_inv_def butlast_append)
  show "frames_inv ?t"
  proof (rule frames_inv_update [OF assms(1) same(1,2)])
    show "se_frames s = [] \<longrightarrow> se_armed ?t = None \<and> se_new ?t = 0" using assms(2) by simp
    fix am
    assume am: "se_armed ?t = Some am"
    then obtain am' where am': "se_armed s = Some am'" unfolding a by (auto split: option.splits)
    have "am_context am = am_context am'" and "am_savepoints am \<subseteq> am_savepoints am' \<union> (if tx_nested g then {tx_id g} else {})"
      using am unfolding a am' by (auto split: if_splits)
    moreover have "am_savepoints am' \<subseteq> tx_id ` set (butlast (se_frames s))"
      using frames_inv_armed [OF assms(1) am'] by (simp add: armed_ok_def)
    moreover have "tx_nested g \<Longrightarrow> tx_id g \<in> tx_id ` set (butlast (se_frames s))"
      using assms(2) fs gn by simp
    ultimately show "se_armed s \<noteq> None \<and> am_savepoints am \<subseteq> tx_id ` set (butlast (se_frames s))
        \<and> am_context am = am_context (the (se_armed s))"
      using am' by (auto split: if_splits)
  qed
  show "settled ?t" unfolding settled_def a by (auto split: option.splits)
  show "\<forall>am. se_armed ?t = Some am \<longrightarrow> tx_id f \<notin> am_savepoints am"
    unfolding a using fd fs by (auto split: option.splits if_splits)
  show "map_option am_before (se_armed ?t) = map_option am_before (se_armed s)"
    unfolding a by (auto split: option.splits)
  have fn: "tx_nested f" using assms(1,2) fs by (auto simp: frames_inv_def)
  have frames: "se_frames ?t = f # g # gs" using same(1) assms(2) fs by (simp add: same_frames_def)
  show "tl (session_marks ?t) = release_top (session_marks s)"
  proof (cases "se_armed s")
    case None
    then show ?thesis using frames assms(2) fs unfolding session_marks_def a by simp
  next
    case (Some am)
    have "(if tx_nested h then tx_id h \<in> am_savepoints am else am_vector am)
        = (if tx_nested h then tx_id h \<in> am_savepoints (the (se_armed ?t)) else am_vector (the (se_armed ?t)))"
      if h: "h \<in> set gs" for h
    proof -
      have "tx_nested g" using h gn by auto
      then show ?thesis using h fd gd fs unfolding a Some by auto
    qed
    then show ?thesis using frames assms(2) fs fn fd Some unfolding session_marks_def a
      by (auto split: if_splits)
  qed
qed

lemma commit_savepoint:
  assumes "frames_inv s" and "settled s" and "se_frames s = f # fs" and "fs \<noteq> []"
    and "commit_transaction E s = (r, t)"
  shows "r = Inr ()" and "frames_inv t" and "settled t" and "live_marks t = release_top (live_marks s)"
    and "se_store t = flushed_store s" and "se_frames t = fs" and "se_saved t = tl (se_saved s)"
    and "map_option am_before (se_armed t) = map_option am_before (se_armed s)"
    and "se_dirty t = None" and "se_failed t = se_failed s"
proof -
  define u where "u = (case se_armed s of None \<Rightarrow> s
     | Some am \<Rightarrow> s\<lparr>se_armed := Some (am\<lparr>am_pending := am_pending am @ [se_frames s]\<rparr>)\<rparr>)"
  note b = before_commit_savepoint [OF assms(1,3,4), of E, folded u_def]
  have su: "same_frames s u" "se_listener u = se_listener s" "se_store u = se_store s" "se_dirty u = se_dirty s"
      "se_new u = se_new s" "se_failed u = se_failed s"
      "map_option am_before (se_armed u) = map_option am_before (se_armed s)"
    by (auto simp: u_def same_frames_def split: option.splits)
  have pu: "\<forall>am. se_armed u = Some am \<longrightarrow> am_pending am = [se_frames u]"
    using assms(2) by (auto simp: u_def settled_def split: option.splits)
  have u: "frames_inv u"
  proof (rule frames_inv_update [OF assms(1) su(1,2)])
    show "se_frames s = [] \<longrightarrow> se_armed u = None \<and> se_new u = 0" using assms(3) by simp
    fix am
    assume "se_armed u = Some am"
    then obtain am' where "se_armed s = Some am'" "am = am'\<lparr>am_pending := am_pending am' @ [se_frames s]\<rparr>"
      by (auto simp: u_def split: option.splits)
    with frames_inv_armed [OF assms(1), of am'] show "se_armed s \<noteq> None
        \<and> am_savepoints am \<subseteq> tx_id ` set (butlast (se_frames s)) \<and> am_context am = am_context (the (se_armed s))"
      by (simp add: armed_ok_def)
  qed
  have lu: "live_marks u = live_marks s" by (auto simp: u_def live_marks_def session_marks_def split: option.splits)
  obtain v where v: "flush_session u = (Inr (), v)" using flush_session_eq [OF u] by blast
  note f = flush_only [OF u v]
  have fv: "se_frames v = f # fs" using f(2) su(1) assms(3) by (simp add: same_frames_def)
  have pv: "\<forall>am. se_armed v = Some am \<longrightarrow> am_pending am = [se_frames v]"
  proof (intro allI impI)
    fix am
    assume am: "se_armed v = Some am"
    with f(11) obtain am' where "se_armed u = Some am'" "am_pending am' = am_pending am" by (cases "se_armed u") auto
    then show "am_pending am = [se_frames v]" using pu fv su(1) assms(3) by (simp add: same_frames_def)
  qed
  note a = after_commit_savepoint [OF f(3) fv assms(4) f(6) pv]
  have fw: "se_frames (after_commit v) = f # fs" using a(3) fv by (simp add: same_frames_def)
  note c = close_savepoint [OF a(1) fw assms(4) a(4)]
  have t: "r = Inr ()" "t = close_frame (after_commit v)"
    using assms(5) b v by (simp_all add: commit_transaction_def)
  show "r = Inr ()" by (rule t(1))
  show "frames_inv t" unfolding t(2) by (rule c(1))
  show "settled t" using a(2) unfolding t(2) settled_def c(3) .
  have st: "se_store t = se_store (after_commit v)" "se_frames t = fs" "se_saved t = tl (se_saved (after_commit v))"
      "se_dirty t = se_dirty (after_commit v)" "se_new t = se_new (after_commit v)" "se_failed t = se_failed (after_commit v)"
    using fw assms(4) by (simp_all add: t(2) close_frame_def after_transaction_end_def)
  have "flushed_store u = flushed_store s" unfolding flushed_store_def su(3,4) ..
  then show "se_store t = flushed_store s" using st(1) a(7) f(4) by simp
  show "se_frames t = fs" by (rule st(2))
  show "se_saved t = tl (se_saved s)" using st(3) a(3) f(2) su(1) by (simp add: same_frames_def)
  show "map_option am_before (se_armed t) = map_option am_before (se_armed s)"
    unfolding t(2) c(3) using a(6) f(10) su(7) by simp
  show "se_dirty t = None" using st(4) a(8) f(5) by simp
  show "se_failed t = se_failed s" using st(6) a(10) f(7) su(6) by simp
  have "live_marks t = session_marks t" using st(5) a(9) by (simp add: live_marks_def)
  also have "\<dots> = release_top (session_marks v)" unfolding t(2) c(2) by (rule a(5))
  finally show "live_marks t = release_top (live_marks s)" using f(9) lu by simp
qed

section \<open>The commit of the root\<close>

lemma armed_ok_update [simp]:
  "armed_ok (s\<lparr>se_store := x\<rparr>) am = armed_ok s am" "armed_ok (s\<lparr>se_failed := b\<rparr>) am = armed_ok s am"
  "validate_mutation_context (s\<lparr>se_store := x\<rparr>) c = validate_mutation_context s c"
  by (simp_all add: armed_ok_def validate_mutation_context_def validate_context_def root_transaction_def)

lemma store_update [simp]:
  "frames_inv (s\<lparr>se_store := x\<rparr>) = frames_inv s" "settled (s\<lparr>se_store := x\<rparr>) = settled s"
  "live_marks (s\<lparr>se_store := x\<rparr>) = live_marks s" "session_marks (s\<lparr>se_store := x\<rparr>) = session_marks s"
  "same_frames s (s\<lparr>se_store := x\<rparr>)" "same_frames (s\<lparr>se_store := x\<rparr>) t = same_frames s t"
  "same_frames s (t\<lparr>se_store := x\<rparr>) = same_frames s t"
  by (simp_all add: frames_inv_def settled_def live_marks_def session_marks_def same_frames_def)

lemma failed_update [simp]:
  "frames_inv (s\<lparr>se_failed := x\<rparr>) = frames_inv s" "settled (s\<lparr>se_failed := x\<rparr>) = settled s"
  by (simp_all add: frames_inv_def settled_def)

definition advanced_store :: "generation_env \<Rightarrow> serving_store \<Rightarrow> serving_store \<Rightarrow> bool" where
  "advanced_store E sv sv' \<longleftrightarrow>
     (\<exists>row n. sv_corpus sv = Some row
       \<and> refresh_projections (ge_lexical E) (ge_admits E) (sr_corpus row + 1)
           (sv\<lparr>sv_corpus := Some (row\<lparr>sr_corpus := sr_corpus row + 1\<rparr>)\<rparr>) = Inr (n, sv'))"

lemma advance_Inr:
  assumes "frames_inv s" and "advance_corpus_generation E c s = (Inr n, t)"
  shows "\<exists>sv. advanced_store E (se_store s) sv \<and> se_store t = apply_changes (se_dirty s) sv"
    and "frames_inv t" and "same_frames s t"
    and "session_marks t = live_marks s" and "live_marks t = live_marks s" and "se_new t = 0" and "se_dirty t = None"
    and "se_failed t = se_failed s" and "map_option am_context (se_armed t) = map_option am_context (se_armed s)"
    and "map_option am_pending (se_armed t) = map_option am_pending (se_armed s)" and "se_listener t = se_listener s"
proof -
  obtain row m sv where row: "sv_corpus (se_store s) = Some row"
    and sv: "refresh_projections (ge_lexical E) (ge_admits E) (sr_corpus row + 1)
           ((se_store s)\<lparr>sv_corpus := Some (row\<lparr>sr_corpus := sr_corpus row + 1\<rparr>)\<rparr>) = Inr (m, sv)"
    and fl: "flush_session (s\<lparr>se_store := sv\<rparr>) = (Inr (), t)"
    using assms(2) by (auto simp: advance_corpus_generation_def Let_def split: sum.splits option.splits prod.splits)
  have "frames_inv (s\<lparr>se_store := sv\<rparr>)" using assms(1) by simp
  note f = flush_only [OF this fl]
  have "se_store t = apply_changes (se_dirty s) sv" using f(4) by (simp add: flushed_store_def)
  then show "\<exists>sv. advanced_store E (se_store s) sv \<and> se_store t = apply_changes (se_dirty s) sv"
    using row sv by (auto simp: advanced_store_def)
  show "frames_inv t" "same_frames s t" "session_marks t = live_marks s" "live_marks t = live_marks s" "se_new t = 0"
    "se_dirty t = None" "se_failed t = se_failed s" "map_option am_context (se_armed t) = map_option am_context (se_armed s)"
    "map_option am_pending (se_armed t) = map_option am_pending (se_armed s)" "se_listener t = se_listener s"
    using f by simp_all
qed

lemma advance_Inl:
  assumes "advance_corpus_generation E c s = (Inl e, t)" and "frames_inv s"
  shows "t = s \<or> (\<exists>x. t = s\<lparr>se_store := x, se_failed := True\<rparr>)"
proof -
  have "\<exists>v. flush_session (s\<lparr>se_store := x\<rparr>) = (Inr (), v)" for x
    using flush_session_eq [of "s\<lparr>se_store := x\<rparr>"] assms(2) by auto
  then have "flush_session (s\<lparr>se_store := x\<rparr>) \<noteq> (Inl e', v)" for x e' v by (metis Inl_Inr_False Pair_inject)
  then show ?thesis
    using assms(1) by (auto simp: advance_corpus_generation_def Let_def split: sum.splits option.splits prod.splits)
qed

definition counted_store :: "bool \<Rightarrow> serving_store \<Rightarrow> serving_store" where
  "counted_store b sv = (if b then sv\<lparr>sv_corpus := map_option (\<lambda>row. row\<lparr>sr_vector := sr_vector row + 1\<rparr>) (sv_corpus sv)\<rparr>
     else sv)"

lemma counted_apply: "apply_changes d (counted_store b sv) = counted_store b (apply_changes d sv)"
  by (auto simp: apply_changes_def counted_store_def split: option.splits)

lemma increment_Inr:
  "increment_vector_generation c s = (Inr n, t) \<Longrightarrow>
     sv_corpus (se_store s) \<noteq> None \<and> t = s\<lparr>se_store := counted_store True (se_store s)\<rparr>"
  by (auto simp: increment_vector_generation_def counted_store_def Let_def split: sum.splits option.splits)

lemma increment_Inl: "increment_vector_generation c s = (Inl e, t) \<Longrightarrow> t = s"
  by (auto simp: increment_vector_generation_def Let_def split: sum.splits option.splits)

lemma increment_returns:
  "validate_mutation_context s c = Inr () \<Longrightarrow> sv_corpus (se_store s) \<noteq> None
     \<Longrightarrow> \<exists>n. increment_vector_generation c s = (Inr n, s\<lparr>se_store := counted_store True (se_store s)\<rparr>)"
  by (auto simp: increment_vector_generation_def counted_store_def Let_def)

lemma refresh_only_rows:
  assumes "refresh_projections E admits g sv = Inr (n, sv')"
  shows "sv' = sv\<lparr>sv_lexical := sv_lexical sv'\<rparr>"
proof -
  define kept where "kept = filter (\<lambda>r. lx_document_id r \<in> vd_id ` set (sv_documents sv)) (sv_lexical sv)"
  obtain rows m where l: "refresh_loop E (sv_titles sv) g (lx_document_id ` set kept) (sv_documents sv) (kept, 0)
      = (rows, m)" by (cases "refresh_loop E (sv_titles sv) g (lx_document_id ` set kept) (sv_documents sv) (kept, 0)")
  from assms show ?thesis
    unfolding refresh_projections_def Let_def kept_def [symmetric] l by (auto split: if_splits option.splits)
qed

lemma advanced_store_fields:
  assumes "advanced_store E sv sv'"
  shows "\<exists>row. sv_corpus sv = Some row \<and> sv_corpus sv' = Some (row\<lparr>sr_corpus := sr_corpus row + 1\<rparr>)"
    and "sv_documents sv' = sv_documents sv" and "sv_titles sv' = sv_titles sv"
proof -
  from assms obtain row n where row: "sv_corpus sv = Some row"
    and r: "refresh_projections (ge_lexical E) (ge_admits E) (sr_corpus row + 1)
           (sv\<lparr>sv_corpus := Some (row\<lparr>sr_corpus := sr_corpus row + 1\<rparr>)\<rparr>) = Inr (n, sv')"
    unfolding advanced_store_def by blast
  note e = refresh_only_rows [OF r]
  show "\<exists>row. sv_corpus sv = Some row \<and> sv_corpus sv' = Some (row\<lparr>sr_corpus := sr_corpus row + 1\<rparr>)"
    "sv_documents sv' = sv_documents sv" "sv_titles sv' = sv_titles sv"
    using row by (subst e; simp)+
qed

lemma live_marks_root:
  assumes "frames_inv s" and "se_frames s = [f]" and "se_armed s = Some am"
  shows "live_marks s = [am_vector am \<or> 0 < se_new s]"
  using assms by (auto simp: live_marks_def session_marks_def frames_inv_def)

text \<open>What the listener makes of the store before the root commits, and how it fails.\<close>

lemma before_commit_root:
  assumes "frames_inv s" and "se_frames s = [f]" and "se_armed s = Some am"
    and "before_commit E s = (r, t)"
  shows "case r of
      Inr _ \<Rightarrow> frames_inv t \<and> same_frames s t \<and> live_marks t = live_marks s
        \<and> se_failed t = se_failed s \<and> se_listener t = se_listener s
        \<and> map_option am_pending (se_armed t) = map_option am_pending (se_armed s)
        \<and> (\<exists>sv. (if corpus_snapshot (se_store s) \<noteq> am_before am then advanced_store E (se_store s) sv
                 else sv = se_store s)
            \<and> flushed_store t = counted_store (hd (live_marks s)) (apply_changes (se_dirty s) sv)
            \<and> (hd (live_marks s) \<longrightarrow> sv_corpus sv \<noteq> None))
    | Inl _ \<Rightarrow> t = s \<or> (\<exists>x. t = s\<lparr>se_store := x, se_failed := True\<rparr>)"
proof -
  define changed where "changed = (corpus_snapshot (se_store s) \<noteq> am_before am)"
  have ok: "se_listener s" "validate_mutation_context s (am_context am) = Inr ()"
    using frames_inv_armed [OF assms(1,3)] by (simp_all add: armed_ok_def)
  have nn: "nested_transaction s = None" using nested_transaction_hd [OF assms(1)] assms(2) by simp
  note lm = live_marks_root [OF assms(1,2,3)]
  show ?thesis
  proof (cases changed)
    case False
    then have b: "before_commit E s = (if hd (live_marks s)
        then (case increment_vector_generation (am_context am) s of (Inl e, s) \<Rightarrow> (Inl e, s) | (Inr _, s) \<Rightarrow> (Inr (), s))
        else (Inr (), s))"
      using ok nn assms(3) lm by (simp add: before_commit_def changed_def)
    show ?thesis
      using assms(4) False assms(1) increment_Inr [of "am_context am" s] increment_Inl [of "am_context am" s]
      unfolding b changed_def
      by (auto simp: counted_store_def flushed_store_def apply_changes_def
          split: if_splits prod.splits sum.splits option.splits)
  next
    case True
    obtain a u where adv: "advance_corpus_generation E (am_context am) s = (a, u)" by force
    show ?thesis
    proof (cases a)
      case (Inl e)
      then have "r = Inl e" "t = u"
        using assms(3,4) ok nn True adv by (simp_all add: before_commit_def changed_def)
      then show ?thesis using advance_Inl [OF adv [unfolded Inl] assms(1)] by simp
    next
      case (Inr n)
      note v = advance_Inr [OF assms(1) adv [unfolded Inr]]
      obtain sv where sv: "advanced_store E (se_store s) sv" "se_store u = apply_changes (se_dirty s) sv"
        using v(1) by blast
      obtain am' where am': "se_armed u = Some am'" using v(9) assms(3) by (cases "se_armed u") auto
      have fu: "se_frames u = [f]" using v(3) assms(2) by (simp add: same_frames_def)
      have m: "am_vector am' = hd (live_marks s)"
        using live_marks_root [OF v(2) fu am'] v(5,6) by simp
      have tomb: "0 < se_new s \<longrightarrow> hd (live_marks s)" using lm by simp
      have vu: "validate_mutation_context u (am_context am) = Inr ()" using same_frames_validate [OF v(3)] ok(2) by simp
      have cu: "sv_corpus (se_store u) \<noteq> None" using advanced_store_fields(1) [OF sv(1)] sv(2) by auto
      obtain k where inc: "increment_vector_generation (am_context am) u
          = (Inr k, u\<lparr>se_store := counted_store True (se_store u)\<rparr>)" using increment_returns [OF vu cu] by blast
      have "before_commit E s = (Inr (), if hd (live_marks s) then u\<lparr>se_store := counted_store True (se_store u)\<rparr> else u)"
        using assms(3) ok nn True adv Inr am' m tomb inc by (auto simp: before_commit_def changed_def)
      then have "r = Inr ()" "t = u\<lparr>se_store := counted_store (hd (live_marks s)) (se_store u)\<rparr>"
        using assms(4) by (auto simp: counted_store_def)
      then show ?thesis using v(2-) sv cu True
        by (auto simp: changed_def flushed_store_def intro!: exI [of _ sv])
    qed
  qed
qed

lemma commit_root:
  assumes "frames_inv s" and "settled s" and "se_frames s = [f]" and "commit_transaction E s = (r, t)"
  shows "case r of
      Inr _ \<Rightarrow> frames_inv t \<and> se_frames t = [] \<and> se_saved t = [] \<and> se_armed t = None \<and> se_dirty t = None
        \<and> se_failed t = se_failed s
        \<and> (case se_armed s of None \<Rightarrow> se_store t = flushed_store s
           | Some am \<Rightarrow> \<exists>sv. (if corpus_snapshot (se_store s) \<noteq> am_before am then advanced_store E (se_store s) sv
                 else sv = se_store s)
            \<and> se_store t = counted_store (hd (live_marks s)) (apply_changes (se_dirty s) sv)
            \<and> (hd (live_marks s) \<longrightarrow> sv_corpus sv \<noteq> None))
    | Inl _ \<Rightarrow> t = s \<or> (\<exists>x. t = s\<lparr>se_store := x, se_failed := True\<rparr>)"
proof -
  obtain b u where bu: "before_commit E s = (b, u)" by force
  have none: "se_armed s = None \<Longrightarrow> b = Inr () \<and> u = s" using bu by (auto simp: before_commit_def split: bool.splits)
  show ?thesis
  proof (cases b)
    case (Inl e)
    then obtain am where am: "se_armed s = Some am" using none by (cases "se_armed s") auto
    have "r = Inl e" "t = u" using assms(4) bu Inl by (simp_all add: commit_transaction_def)
    then show ?thesis using before_commit_root [OF assms(1,3) am bu] Inl by simp
  next
    case (Inr x)
    have u: "frames_inv u \<and> same_frames s u \<and> se_failed u = se_failed s
        \<and> se_listener u = se_listener s \<and> map_option am_pending (se_armed u) = map_option am_pending (se_armed s)"
    proof (cases "se_armed s")
      case None
      then show ?thesis using none assms(1) by simp
    next
      case (Some am)
      show ?thesis using before_commit_root [OF assms(1,3) Some bu] Inr by simp
    qed
    obtain v where v: "flush_session u = (Inr (), v)" using flush_session_eq u by blast
    note f = flush_only [OF conjunct1 [OF u] v]
    have sv: "se_store v = flushed_store u" using f(4) by simp
    have vf: "se_frames v = [f]" "se_saved v = se_saved s" using f(2) u assms(3) by (simp_all add: same_frames_def)
    have l: "length (se_saved s) = 1" using assms(1,3) by (simp add: frames_inv_def)
    have "map_option am_pending (se_armed v) = map_option am_pending (se_armed s)" using f(11) u by simp
    then have p: "after_commit v = v"
      using assms(2) by (cases "se_armed s") (auto simp: after_commit_def settled_def split: option.splits bool.splits)
    have t: "r = Inr ()" "t = close_frame v" using assms(4) bu Inr v p by (simp_all add: commit_transaction_def)
    have listens: "\<not> se_listener v \<Longrightarrow> se_armed v = None"
      using frames_inv_armed [OF f(3)] by (cases "se_armed v") (auto simp: armed_ok_def)
    have st: "se_frames t = []" "se_saved t = []" "se_armed t = None" "se_dirty t = None" "se_store t = flushed_store u"
        "se_failed t = se_failed s" "se_new t = 0"
      using vf l listens f(5,6,7) u sv by (auto simp: t(2) close_frame_def after_transaction_end_def length_Suc_conv)
    have "frames_inv t" using st by (simp add: frames_inv_def)
    moreover have "case se_armed s of None \<Rightarrow> se_store t = flushed_store s
           | Some am \<Rightarrow> \<exists>sv. (if corpus_snapshot (se_store s) \<noteq> am_before am then advanced_store E (se_store s) sv
                 else sv = se_store s)
            \<and> se_store t = counted_store (hd (live_marks s)) (apply_changes (se_dirty s) sv)
            \<and> (hd (live_marks s) \<longrightarrow> sv_corpus sv \<noteq> None)"
    proof (cases "se_armed s")
      case None
      then show ?thesis using none st(5) by simp
    next
      case (Some am)
      show ?thesis using before_commit_root [OF assms(1,3) Some bu] Inr Some st(5) by simp
    qed
    ultimately show ?thesis using st t(1) by (simp split del: if_split)
  qed
qed

end
