(* ===== verification/Serving_Invariant.thy ===== *)
theory Serving_Invariant
  imports Serving_Facts
begin

text \<open>
  What every step of a session keeps: the shape of its transactions, and that everything it may commit or return to
  still is the corpus the stored projection was made from, or will be compared with it at the commit.
\<close>

section \<open>Stores\<close>

definition documents_ok :: "serving_store \<Rightarrow> bool" where
  "documents_ok sv \<longleftrightarrow> document_changes_ok (sv_documents sv)"

definition same_corpus :: "serving_store \<Rightarrow> serving_store \<Rightarrow> bool" where
  "same_corpus y x \<longleftrightarrow> sv_documents x = sv_documents y \<and> sv_titles x = sv_titles y"

text \<open>The rows of \<open>y\<close>, under its generation or, where it had none, under the one of a new row.\<close>

definition same_projection :: "serving_store \<Rightarrow> serving_store \<Rightarrow> bool" where
  "same_projection y x \<longleftrightarrow>
     sv_lexical x = sv_lexical y
     \<and> (case sv_corpus y of None \<Rightarrow> True
        | Some c \<Rightarrow> \<exists>c'. sv_corpus x = Some c' \<and> sr_corpus c' = sr_corpus c)"

text \<open>
  What the invariant says of a store depends on the steps it is kept by: with \<open>fl\<close>, where every change is flushed
  before its commit, the store is served by its projection; without, its documents are in order.
\<close>

definition store_served :: "bool \<Rightarrow> lexical_env \<Rightarrow> serving_store \<Rightarrow> bool" where
  "store_served fl E y \<longleftrightarrow>
     documents_ok y
     \<and> (fl \<longrightarrow> (case sv_corpus y of None \<Rightarrow> \<forall>g. projected_rows E g y = {} | Some _ \<Rightarrow> store_current E y))"

lemma store_served_derived:
  assumes "store_served fl E y" and "same_projection y x" and "documents_ok x"
    and "\<And>g. projected_rows E g x = projected_rows E g y"
  shows "store_served fl E x"
  using assms
  by (cases "sv_corpus y"; cases "sv_corpus x")
    (auto simp: store_served_def same_projection_def store_current_def)

lemma same_corpus_projects: "same_corpus y x \<Longrightarrow> projected_rows E g x = projected_rows E g y"
  by (simp add: same_corpus_def projected_rows_def)

lemma same_corpus_snapshot: "same_corpus y x \<Longrightarrow> corpus_snapshot x = corpus_snapshot y"
  by (simp add: same_corpus_def corpus_snapshot_def)

lemma equal_snapshot_projects:
  assumes "corpus_snapshot x = corpus_snapshot y" and "documents_ok x" and "documents_ok y"
  shows "projected_rows E g x = projected_rows E g y"
  by (rule snapshot_projects [OF assms(1)]) (use assms(2,3) in \<open>auto simp: documents_ok_def document_changes_ok_def\<close>)

lemma advanced_store_served:
  assumes "advanced_store E sv sv'" and "documents_ok sv"
  shows "store_served fl (ge_lexical E) sv'"
proof -
  from assms(1) obtain row n where r: "refresh_projections (ge_lexical E) (ge_admits E) (sr_corpus row + 1)
           (sv\<lparr>sv_corpus := Some (row\<lparr>sr_corpus := sr_corpus row + 1\<rparr>)\<rparr>) = Inr (n, sv')"
    unfolding advanced_store_def by blast
  have "store_current (ge_lexical E) sv'"
    using refresh_projections_Inr(3) [OF r] assms(2) by (simp add: documents_ok_def document_changes_ok_def)
  moreover obtain c where "sv_corpus sv' = Some c" using advanced_store_fields(1) [OF assms(1)] by auto
  moreover have "documents_ok sv'" using assms(2) advanced_store_fields(2) [OF assms(1)] by (simp add: documents_ok_def)
  ultimately show ?thesis by (simp add: store_served_def)
qed

lemma counted_store_fields [simp]:
  "sv_documents (counted_store b sv) = sv_documents sv" "sv_titles (counted_store b sv) = sv_titles sv"
  "sv_lexical (counted_store b sv) = sv_lexical sv" "projected_rows E g (counted_store b sv) = projected_rows E g sv"
  "documents_ok (counted_store b sv) = documents_ok sv"
  by (simp_all add: counted_store_def projected_rows_def documents_ok_def)

lemma counted_same_projection: "same_projection sv (counted_store b sv)"
  by (auto simp: same_projection_def counted_store_def split: option.splits)

lemma counted_store_served: "store_served fl E sv \<Longrightarrow> store_served fl E (counted_store b sv)"
  by (rule store_served_derived [OF _ counted_same_projection]) (auto simp: store_served_def)

lemma same_projection_trans: "same_projection x y \<Longrightarrow> same_projection y z \<Longrightarrow> same_projection x z"
  by (auto simp: same_projection_def split: option.splits)

section \<open>The invariant\<close>

text \<open>
  Inside a transaction there is a served store \<open>y\<close> whose projection every later store still has: the corpus of an
  unarmed session is its corpus, and an armed one remembers its snapshot.
\<close>

definition stored_from :: "bool \<Rightarrow> generation_env \<Rightarrow> serving_session \<Rightarrow> serving_store \<Rightarrow> bool" where
  "stored_from fl E s y \<longleftrightarrow>
     store_served fl (ge_lexical E) y
     \<and> (\<forall>x \<in> set (butlast (se_saved s)) \<union> (if se_failed s then {} else {se_store s}).
          documents_ok x \<and> same_projection y x \<and> (se_armed s = None \<longrightarrow> same_corpus y x))
     \<and> (\<forall>am. se_armed s = Some am \<longrightarrow> am_before am = corpus_snapshot y)"

definition session_inv :: "bool \<Rightarrow> generation_env \<Rightarrow> serving_session \<Rightarrow> bool" where
  "session_inv fl E s \<longleftrightarrow>
     frames_inv s \<and> settled s
     \<and> pred_option (\<lambda>(ds, _). document_changes_ok ds) (se_dirty s)
     \<and> (se_armed s = None \<longrightarrow> se_dirty s = None)
     \<and> (if se_frames s = [] then store_served fl (ge_lexical E) (se_store s) \<and> \<not> se_failed s
        else store_served fl (ge_lexical E) (last (se_saved s)) \<and> (\<exists>y. stored_from fl E s y))"

lemma session_inv_same:
  assumes "session_inv fl E s" and "frames_inv t" and "settled t" and "se_frames t = se_frames s" and "se_saved t = se_saved s"
    and "se_dirty t = None \<or> se_dirty t = se_dirty s"
    and "map_option am_before (se_armed t) = map_option am_before (se_armed s)"
    and "se_frames s = [] \<Longrightarrow> se_store t = se_store s \<and> \<not> se_failed t"
    and "\<not> se_failed t \<Longrightarrow> \<not> se_failed s \<and> documents_ok (se_store t)
        \<and> same_projection (se_store s) (se_store t) \<and> (se_armed s = None \<longrightarrow> same_corpus (se_store s) (se_store t))"
  shows "session_inv fl E t"
proof -
  have arm: "se_armed t = None \<longleftrightarrow> se_armed s = None" using assms(7) by (cases "se_armed s"; cases "se_armed t") auto
  have "stored_from fl E t y" if y: "stored_from fl E s y" for y
  proof -
    have "am_before am = corpus_snapshot y" if "se_armed t = Some am" for am
      using y that assms(7) unfolding stored_from_def by (cases "se_armed s") auto
    moreover have "documents_ok (se_store t) \<and> same_projection y (se_store t)
        \<and> (se_armed t = None \<longrightarrow> same_corpus y (se_store t))" if "\<not> se_failed t"
      using y assms(9) [OF that] arm same_projection_trans unfolding stored_from_def same_corpus_def by auto
    ultimately show ?thesis using y assms(5) arm unfolding stored_from_def by auto
  qed
  then show ?thesis using assms arm unfolding session_inv_def by (auto split: if_splits)
qed

lemma session_invE:
  assumes "session_inv fl E s" and "se_frames s \<noteq> []"
  obtains y where "store_served fl (ge_lexical E) (last (se_saved s))" "stored_from fl E s y" "se_saved s \<noteq> []"
    "length (se_saved s) = length (se_frames s)"
proof -
  from assms obtain y where "stored_from fl E s y" "store_served fl (ge_lexical E) (last (se_saved s))"
    unfolding session_inv_def by auto
  moreover have "length (se_saved s) = length (se_frames s)" using assms(1) by (simp add: session_inv_def frames_inv_def)
  ultimately show ?thesis using that assms(2) by fastforce
qed

section \<open>The steps keep it\<close>

lemma guard_step_session: "guard_step g h \<Longrightarrow> gi_session h = gi_session g"
  by (erule guard_step.cases)
    (auto simp: enter_barrier_def acquire_generation_exclusive_def acquire_generation_shared_def record_next_def
      send_lock_def leave_barrier_def lock_runtime_state_def record_rag_corpus_lock_def acquire_projection_def
      acquire_projection_lock_def Let_def split: if_splits option.splits)

lemma session_inv_frames: "session_inv fl E s \<Longrightarrow> frames_inv s \<and> settled s"
  by (simp add: session_inv_def)

lemma frames_inv_guard:
  assumes "gi_session g = gi_session (se_guard s)"
  shows "frames_inv (s\<lparr>se_guard := g\<rparr>) = frames_inv s"
proof -
  have "armed_ok (s\<lparr>se_guard := g\<rparr>) am = armed_ok s am" for am
    using assms by (simp add: armed_ok_def validate_mutation_context_def validate_context_def root_transaction_def)
  then show ?thesis by (simp add: frames_inv_def)
qed

lemma session_inv_store_ok: "session_inv fl E s \<Longrightarrow> \<not> se_failed s \<Longrightarrow> documents_ok (se_store s)"
  by (auto simp: session_inv_def stored_from_def store_served_def split: if_splits)

lemma same_projection_refl [simp]: "same_projection x x"
  by (auto simp: same_projection_def split: option.splits)

lemma session_inv_guard:
  assumes "session_inv fl E s" and "gi_session g = gi_session (se_guard s)"
  shows "session_inv fl E (s\<lparr>se_guard := g\<rparr>)"
  using session_inv_frames [OF assms(1)] assms session_inv_store_ok [OF assms(1)]
  by (intro session_inv_same [OF assms(1)])
    (auto simp: frames_inv_guard settled_def same_corpus_def session_inv_def split: if_splits)

lemma flushed_store_facts:
  assumes "session_inv fl E s" and "\<not> se_failed s"
  shows "documents_ok (flushed_store s)" and "same_projection (se_store s) (flushed_store s)"
    and "se_dirty s = None \<Longrightarrow> flushed_store s = se_store s"
  using assms session_inv_store_ok [OF assms]
  by (auto simp: flushed_store_def apply_changes_def session_inv_def documents_ok_def same_projection_def split: option.splits)

lemma session_inv_unarmed: "session_inv fl E s \<Longrightarrow> se_armed s = None \<Longrightarrow> se_dirty s = None"
  by (simp add: session_inv_def)

lemma session_inv_idle: "session_inv fl E s \<Longrightarrow> se_frames s = [] \<Longrightarrow> se_armed s = None \<and> \<not> se_failed s"
  by (simp add: session_inv_def frames_inv_def)

lemma settled_pending:
  "settled s \<Longrightarrow> map_option am_pending (se_armed t) = map_option am_pending (se_armed s) \<Longrightarrow> settled t"
  by (cases "se_armed s") (auto simp: settled_def)

lemma session_inv_flush:
  assumes "session_inv fl E s" and "\<not> se_failed s" and "flush_session s = (r, t)"
  shows "session_inv fl E t"
proof (rule session_inv_same [OF assms(1)])
  note f = flush_only [OF conjunct1 [OF session_inv_frames [OF assms(1)]] assms(3)]
  note k = flushed_store_facts [OF assms(1,2)]
  have none: "se_armed s = None \<Longrightarrow> se_store t = se_store s" using session_inv_unarmed [OF assms(1)] k(3) f(4) by simp
  show "frames_inv t" by (rule f(3))
  show "settled t" using settled_pending [OF _ f(11)] session_inv_frames [OF assms(1)] by simp
  show "se_frames t = se_frames s" "se_saved t = se_saved s" using f(2) by (simp_all add: same_frames_def)
  show "se_dirty t = None \<or> se_dirty t = se_dirty s" using f(5) by simp
  show "map_option am_before (se_armed t) = map_option am_before (se_armed s)" by (rule f(10))
  show "se_store t = se_store s \<and> \<not> se_failed t" if "se_frames s = []"
    using session_inv_idle [OF assms(1) that] none f(7) by simp
  show "\<not> se_failed s \<and> documents_ok (se_store t) \<and> same_projection (se_store s) (se_store t)
      \<and> (se_armed s = None \<longrightarrow> same_corpus (se_store s) (se_store t))"
    using none assms(2) k(1,2) f(4) by (auto simp: same_corpus_def)
qed

lemma session_inv_begin_root:
  assumes "session_inv fl E s" and "se_frames s = []"
  shows "session_inv fl E (begin_root a s)"
proof -
  have "stored_from fl E (begin_root a s) (se_store s)"
    using assms session_inv_idle [OF assms]
    by (auto simp: stored_from_def begin_root_def session_inv_def same_corpus_def store_served_def)
  then show ?thesis
    using assms session_inv_idle [OF assms] by (auto simp: session_inv_def begin_root_def frames_inv_def settled_def)
qed

lemma session_inv_begin_nested:
  assumes "session_inv fl E s" and "\<not> se_failed s" and "se_frames s \<noteq> []" and "a \<notin> live_addresses s"
    and "begin_nested a s = (r, t)"
  shows "session_inv fl E t"
proof -
  note fr = session_inv_frames [OF assms(1)]
  note b = begin_nested_facts [OF conjunct1 [OF fr] assms(3-5)]
  obtain u where u: "flush_session s = (Inr (), u)" using flush_session_eq fr by blast
  note f = flush_only [OF conjunct1 [OF fr] u]
  have iu: "session_inv fl E u" by (rule session_inv_flush [OF assms(1,2) u])
  have t: "t = u\<lparr>se_frames := \<lparr>tx_id = a, tx_nested = True\<rparr> # se_frames u, se_saved := se_store u # se_saved u\<rparr>"
    using assms(5) u by (simp add: begin_nested_def)
  have fu: "se_frames u \<noteq> []" "\<not> se_failed u" using f(2,7) assms(2,3) by (simp_all add: same_frames_def)
  from session_invE [OF iu fu(1)] obtain y where y: "store_served fl (ge_lexical E) (last (se_saved u))" "stored_from fl E u y"
    "se_saved u \<noteq> []" by blast
  have "stored_from fl E t y" using y(2,3) fu(2) unfolding stored_from_def t by auto
  moreover have "settled t" using iu by (simp add: session_inv_def settled_def t)
  ultimately show ?thesis using y b(1) iu unfolding session_inv_def t by auto
qed

lemma session_inv_lock:
  assumes "session_inv fl E s" and "\<not> se_failed s" and "se_frames s \<noteq> []"
    and "lock_serving_generation E a key for_update s = (r, t)"
  shows "session_inv fl E t"
proof (cases "record_rag_corpus_lock key for_update (se_guard s)")
  case (Inl e)
  then show ?thesis using assms(1,4) by (simp add: lock_serving_generation_def)
next
  case (Inr g)
  define h where "h = send_lock (Corpus_Row for_update) g"
  define u where "u = s\<lparr>se_guard := h\<rparr>"
  have "guard_step (se_guard s) h" unfolding h_def by (rule guard_corpus [OF Inr])
  then have iu: "session_inv fl E u" unfolding u_def by (intro session_inv_guard [OF assms(1)] guard_step_session)
  have fu: "se_frames u \<noteq> []" "\<not> se_failed u" using assms(2,3) by (simp_all add: u_def)
  define sub where "sub = (case sv_corpus (se_store u) of Some row \<Rightarrow> (Inr row, u)
     | None \<Rightarrow> if \<not> for_update then (Inl (Runtime_Error ''RAG serving generation singleton is unavailable''), u)
         else add_generation_row E u)"
  obtain b v where sub: "sub = (b, v)" by force
  have iv: "session_inv fl E v \<and> se_frames v \<noteq> [] \<and> (returns b \<longrightarrow> \<not> se_failed v)"
  proof (cases "sv_corpus (se_store u) = None \<and> for_update")
    case False
    then show ?thesis using sub iu fu unfolding sub_def by (auto split: option.splits if_splits)
  next
    case True
    note fr = session_inv_frames [OF iu]
    define w where "w = (case se_armed u of
       Some am \<Rightarrow> if 0 < se_new u then mark_contribution am u else u | None \<Rightarrow> u)"
    have bf: "before_flush u = (Inr (), w)" unfolding w_def by (rule before_flush_cases [OF conjunct1 [OF fr]])
    have w: "frames_inv w" "se_frames w = se_frames u" "se_saved w = se_saved u" "se_dirty w = se_dirty u"
        "se_store w = se_store u" "se_failed w = se_failed u"
        "map_option am_before (se_armed w) = map_option am_before (se_armed u)"
        "map_option am_pending (se_armed w) = map_option am_pending (se_armed u)"
      using fr mark_contribution_inv [OF conjunct1 [OF fr]] mark_contribution_armed [OF conjunct1 [OF fr]]
      by (auto simp: w_def split: option.splits)
    have sw: "settled w" using settled_pending [OF conjunct2 [OF fr] w(8)] .
    have v: "v = (if generation_row_fits (new_generation_row E)
        then w\<lparr>se_store := (se_store w)\<lparr>sv_corpus := Some (new_generation_row E)\<rparr>\<rparr> else w\<lparr>se_failed := True\<rparr>)"
      and b: "returns b \<longleftrightarrow> generation_row_fits (new_generation_row E)"
      using sub True bf by (auto simp: sub_def add_generation_row_def Let_def split: if_splits)
    have "session_inv fl E v"
    proof (rule session_inv_same [OF iu])
      show "frames_inv v" "settled v" "se_frames v = se_frames u" "se_saved v = se_saved u"
        "se_dirty v = None \<or> se_dirty v = se_dirty u" "map_option am_before (se_armed v) = map_option am_before (se_armed u)"
        using w sw by (simp_all add: v)
      show "se_store v = se_store u \<and> \<not> se_failed v" if "se_frames u = []" using that fu by simp
      show "\<not> se_failed u \<and> documents_ok (se_store v) \<and> same_projection (se_store u) (se_store v)
          \<and> (se_armed u = None \<longrightarrow> same_corpus (se_store u) (se_store v))" if "\<not> se_failed v"
        using that True fu(2) session_inv_store_ok [OF iu fu(2)] w
        by (auto simp: v documents_ok_def same_projection_def same_corpus_def split: if_splits)
    qed
    then show ?thesis using fu w b v by auto
  qed
  have "t = v \<or> (\<exists>c. t = v\<lparr>se_contexts := c # se_contexts v\<rparr>)"
    using assms(4) Inr sub
    by (auto simp: lock_serving_generation_def h_def [symmetric] u_def [symmetric] sub_def [symmetric] Let_def
        split: sum.splits option.splits)
  moreover have "session_inv fl E (v\<lparr>se_contexts := c # se_contexts v\<rparr>)" for c
  proof (rule session_inv_same)
    show "session_inv fl E v" using iv by simp
    show "frames_inv (v\<lparr>se_contexts := c # se_contexts v\<rparr>)"
    proof (rule frames_inv_update)
      show fv: "frames_inv v" using session_inv_frames iv by blast
      fix am
      assume "se_armed (v\<lparr>se_contexts := c # se_contexts v\<rparr>) = Some am"
      then show "se_armed v \<noteq> None \<and> am_savepoints am \<subseteq> tx_id ` set (butlast (se_frames v))
          \<and> am_context am = am_context (the (se_armed v))"
        using frames_inv_armed [OF fv] by (auto simp: armed_ok_def)
    qed (use iv in \<open>auto simp: same_frames_def\<close>)
    show "settled (v\<lparr>se_contexts := c # se_contexts v\<rparr>)" using session_inv_frames [OF conjunct1 [OF iv]] by (simp add: settled_def)
  qed (use iv session_inv_store_ok in \<open>auto simp: same_corpus_def\<close>)
  ultimately show ?thesis using iv by auto
qed

lemma validated_frames: "validate_mutation_context s c = Inr () \<Longrightarrow> se_frames s \<noteq> []"
  by (auto simp: validate_mutation_context_def validate_context_def root_transaction_def split: if_splits)

lemma session_inv_arm:
  assumes "session_inv fl E s" and "\<not> se_failed s" and "arm_refresh c s = (r, t)"
  shows "session_inv fl E t"
proof (cases "validate_mutation_context s c = Inr () \<and> se_armed s = None")
  case False
  then have "t = s" using assms(3) by (auto simp: arm_refresh_def split: sum.splits option.splits)
  then show ?thesis using assms(1) by simp
next
  case True
  define am where "am = \<lparr>am_context = c, am_before = corpus_snapshot (se_store s), am_vector = False,
     am_savepoints = {}, am_pending = []\<rparr>"
  have t: "t = s\<lparr>se_armed := Some am, se_listener := True\<rparr>"
    using assms(3) True by (auto simp: arm_refresh_def am_def)
  have fr: "se_frames s \<noteq> []" using True validated_frames by blast
  have "same_frames s t" by (simp add: t same_frames_def)
  from same_frames_validate [OF this] True have "validate_mutation_context t c = Inr ()" by blast
  moreover have "se_listener t" "se_frames t = se_frames s" by (simp_all add: t)
  ultimately have "armed_ok t am" using fr by (simp add: am_def armed_ok_def)
  then have "frames_inv t" using session_inv_frames [OF assms(1)] fr by (simp add: frames_inv_def t)
  from session_invE [OF assms(1) fr] obtain y where y: "store_served fl (ge_lexical E) (last (se_saved s))"
    "stored_from fl E s y" by blast
  have "same_corpus y (se_store s)" using y(2) True assms(2) by (auto simp: stored_from_def)
  then have "stored_from fl E t y" using y(2) by (auto simp: stored_from_def t am_def same_corpus_snapshot)
  then show ?thesis
    using assms(1) y \<open>frames_inv t\<close> fr by (auto simp: session_inv_def t settled_def am_def)
qed

lemma session_inv_mark:
  assumes "session_inv fl E s" and "\<not> se_failed s" and "mark_vector_mutation s = (r, t)"
  shows "session_inv fl E t"
proof (cases "t = s")
  case False
  then obtain am where am: "se_armed s = Some am" and t: "t = mark_contribution am s"
    using assms(3) by (auto simp: mark_vector_mutation_def split: option.splits sum.splits)
  note fr = session_inv_frames [OF assms(1)]
  have frames: "se_frames s \<noteq> []" using session_inv_idle [OF assms(1)] am by auto
  show ?thesis
  proof (rule session_inv_same [OF assms(1)])
    show "frames_inv t" unfolding t by (rule mark_contribution_inv [OF conjunct1 [OF fr] am])
    show "settled t" using fr am mark_contribution_armed [OF conjunct1 [OF fr] am] by (simp add: settled_def t split: if_splits)
    show "map_option am_before (se_armed t) = map_option am_before (se_armed s)"
      using am mark_contribution_armed [OF conjunct1 [OF fr] am] by (simp add: t)
  qed (use frames assms session_inv_store_ok in \<open>auto simp: t same_corpus_def\<close>)
qed (use assms(1) in simp)

lemma session_inv_store:
  assumes "session_inv fl E s" and "se_frames s \<noteq> []" and "\<not> se_failed s" and "documents_ok x"
    and "same_projection (se_store s) x" and "se_armed s = None \<Longrightarrow> same_corpus (se_store s) x"
  shows "session_inv fl E (s\<lparr>se_store := x\<rparr>)"
  by (rule session_inv_same [OF assms(1)]) (use assms session_inv_frames in auto)

lemma session_inv_failed:
  assumes "session_inv fl E s" and "se_frames s \<noteq> []"
  shows "session_inv fl E (s\<lparr>se_store := x, se_failed := True\<rparr>)"
  by (rule session_inv_same [OF assms(1)]) (use assms session_inv_frames in auto)

lemma session_inv_increment:
  assumes "session_inv fl E s" and "\<not> se_failed s" and "increment_vector_generation c s = (r, t)"
  shows "session_inv fl E t"
proof (cases r)
  case (Inl e)
  then show ?thesis using increment_Inl assms(1,3) by blast
next
  case (Inr n)
  then have t: "t = s\<lparr>se_store := counted_store True (se_store s)\<rparr>" using increment_Inr assms(3) by blast
  have "validate_mutation_context s c = Inr ()"
    using assms(3) Inr by (auto simp: increment_vector_generation_def split: sum.splits)
  then have "se_frames s \<noteq> []" by (rule validated_frames)
  then show ?thesis unfolding t
    by (rule session_inv_store [OF assms(1)])
      (use assms(1,2) session_inv_store_ok counted_same_projection in \<open>auto simp: same_corpus_def\<close>)
qed

lemma armed_step:
  assumes "session_inv fl E s" and "assert_refresh_armed s = Inr ()"
  obtains am where "se_armed s = Some am" "se_frames s \<noteq> []"
  using assms session_inv_idle by (fastforce simp: assert_refresh_armed_def split: option.splits)

lemma session_inv_change:
  assumes "session_inv fl E s" and "\<not> se_failed s" and "assert_refresh_armed s = Inr ()" and "document_changes_ok ds"
  shows "session_inv fl E (s\<lparr>se_store := (se_store s)\<lparr>sv_documents := ds, sv_titles := tt\<rparr>\<rparr>)"
    and "session_inv fl E (s\<lparr>se_dirty := Some (ds, tt)\<rparr>)" and "session_inv fl E (s\<lparr>se_new := n\<rparr>)"
proof -
  from armed_step [OF assms(1,3)] obtain am where am: "se_armed s = Some am" and fr: "se_frames s \<noteq> []" .
  show "session_inv fl E (s\<lparr>se_store := (se_store s)\<lparr>sv_documents := ds, sv_titles := tt\<rparr>\<rparr>)"
    by (rule session_inv_store [OF assms(1) fr assms(2)])
      (use assms(4) am in \<open>auto simp: documents_ok_def same_projection_def split: option.splits\<close>)
  have ok: "armed_ok (s\<lparr>se_dirty := d, se_new := n\<rparr>) am = armed_ok s am" for d n am
    by (simp add: armed_ok_def validate_mutation_context_def validate_context_def root_transaction_def)
  from session_inv_frames [OF assms(1)] fr have f: "frames_inv (s\<lparr>se_dirty := d, se_new := n\<rparr>)" for d n
    using ok by (simp add: frames_inv_def)
  have sf: "stored_from fl E (s\<lparr>se_dirty := d, se_new := n\<rparr>) y = stored_from fl E s y" for d n y
    by (simp add: stored_from_def)
  have "session_inv fl E (s\<lparr>se_dirty := d, se_new := n\<rparr>)"
    if "pred_option (\<lambda>(ds, _). document_changes_ok ds) d" for d n
    using assms(1) f sf am fr that by (auto simp: session_inv_def settled_def)
  from this [of "Some (ds, tt)" "se_new s"] this [of "se_dirty s" n]
  show "session_inv fl E (s\<lparr>se_dirty := Some (ds, tt)\<rparr>)" "session_inv fl E (s\<lparr>se_new := n\<rparr>)"
    using assms(1,4) by (simp_all add: session_inv_def)
qed

lemma session_inv_ingest:
  assumes "session_inv fl E s" and "\<not> se_failed s" and "length (se_frames s) = 1" and "se_armed s = None"
    and "document_changes_ok ds"
    and "advance_corpus_generation E c (s\<lparr>se_store := (se_store s)\<lparr>sv_documents := ds, sv_titles := tt\<rparr>\<rparr>) = (Inr n, t)"
  shows "session_inv fl E t"
proof -
  let ?s = "s\<lparr>se_store := (se_store s)\<lparr>sv_documents := ds, sv_titles := tt\<rparr>\<rparr>"
  have "frames_inv ?s" "se_dirty ?s = None" using session_inv_frames [OF assms(1)] session_inv_unarmed [OF assms(1,4)] by simp_all
  note a = advance_Inr [OF this(1) assms(6)] and d = this(2)
  have adv: "advanced_store E (se_store ?s) (se_store t)" using a(1) d by auto
  have "documents_ok (se_store ?s)" using assms(5) by (simp add: documents_ok_def)
  from advanced_store_served [OF adv this] have served: "store_served fl (ge_lexical E) (se_store t)" .
  have none: "se_armed t = None" using a(9) assms(4) by (cases "se_armed t") auto
  have fr: "se_frames s \<noteq> []" using assms(3) by auto
  from session_invE [OF assms(1) fr] have y: "store_served fl (ge_lexical E) (last (se_saved s))"
    "length (se_saved s) = 1" using assms(3) by auto
  have saved: "se_saved t = se_saved s" "se_frames t = se_frames s" using a(3) by (simp_all add: same_frames_def)
  have "butlast (se_saved s) = []" using y(2) by (cases "se_saved s") auto
  then have "stored_from fl E t (se_store t)"
    using served none saved a(8) assms(2) by (auto simp: stored_from_def same_corpus_def store_served_def)
  then show ?thesis
    using a(2,7) none y(1) saved fr by (auto simp: session_inv_def settled_def)
qed

lemma session_inv_pop:
  assumes "stored_from fl E s y" and "length (se_saved s) \<ge> 2" and "se_saved t = tl (se_saved s)"
    and "map_option am_before (se_armed t) = map_option am_before (se_armed s)"
    and "\<not> se_failed t \<Longrightarrow> documents_ok (se_store t) \<and> same_projection y (se_store t)
      \<and> (se_armed s = None \<longrightarrow> same_corpus y (se_store t))"
  shows "stored_from fl E t y"
proof -
  have "set (butlast (se_saved t)) \<subseteq> set (butlast (se_saved s))"
    using assms(2,3) by (cases "se_saved s"; cases "tl (se_saved s)") auto
  moreover have "se_armed t = None \<longleftrightarrow> se_armed s = None" using assms(4) by (cases "se_armed s"; cases "se_armed t") auto
  moreover have "am_before am = corpus_snapshot y" if "se_armed t = Some am" for am
    using assms(1,4) that unfolding stored_from_def by (cases "se_armed s") auto
  ultimately show ?thesis using assms(1,5) unfolding stored_from_def by auto
qed

lemma apply_changes_documents:
  "documents_ok sv \<Longrightarrow> pred_option (\<lambda>(ds, _). document_changes_ok ds) d \<Longrightarrow> documents_ok (apply_changes d sv)"
  by (auto simp: apply_changes_def documents_ok_def split: option.splits)

lemma session_inv_commit:
  assumes "session_inv fl E s" and "\<not> se_failed s" and "se_frames s \<noteq> []"
    and "fl \<Longrightarrow> length (se_frames s) = 1 \<Longrightarrow> returns r \<Longrightarrow> se_dirty s = None"
    and "commit_transaction E s = (r, t)"
  shows "session_inv fl E t"
proof -
  note fr = session_inv_frames [OF assms(1)]
  from session_invE [OF assms(1,3)] obtain y where last: "store_served fl (ge_lexical E) (last (se_saved s))"
    and y: "stored_from fl E s y" and l: "length (se_saved s) = length (se_frames s)" by blast
  obtain f fs where f: "se_frames s = f # fs" using assms(3) by (cases "se_frames s") auto
  show ?thesis
  proof (cases "fs = []")
    case False
    note c = commit_savepoint [OF conjunct1 [OF fr] conjunct2 [OF fr] f False assms(5)]
    have two: "length (se_saved s) \<ge> 2" using l f False by (cases fs) auto
    have "documents_ok (se_store t) \<and> same_projection y (se_store t)
        \<and> (se_armed s = None \<longrightarrow> same_corpus y (se_store t))"
      using flushed_store_facts [OF assms(1,2)] y assms(2) same_projection_trans session_inv_unarmed [OF assms(1)] c(5)
      unfolding stored_from_def by auto
    then have "stored_from fl E t y" by (intro session_inv_pop [OF y two c(7,8)]) auto
    moreover have "last (se_saved t) = last (se_saved s)" using two c(7) by (cases "se_saved s") auto
    ultimately show ?thesis using c(2,3,6,9) last False by (auto simp: session_inv_def)
  next
    case True
    then have f1: "se_frames s = [f]" using f by simp
    note c = commit_root [OF conjunct1 [OF fr] conjunct2 [OF fr] f1 assms(5)]
    show ?thesis
    proof (cases r)
      case (Inl e)
      then show ?thesis using c assms(1,3) session_inv_failed by auto
    next
      case (Inr x)
      have sy: "documents_ok (se_store s)" "same_projection y (se_store s)" "store_served fl (ge_lexical E) y"
        using y assms(2) by (auto simp: stored_from_def)
      have dirty: "pred_option (\<lambda>(ds, _). document_changes_ok ds) (se_dirty s)"
        and clean: "fl \<Longrightarrow> se_dirty s = None"
        using assms(1) assms(4) f1 Inr by (simp_all add: session_inv_def)
      have "store_served fl (ge_lexical E) (se_store t)"
      proof (cases "se_armed s")
        case None
        have "same_corpus y (se_store s)" using y None assms(2) by (auto simp: stored_from_def)
        moreover have "flushed_store s = se_store s"
          using session_inv_unarmed [OF assms(1) None] by (simp add: flushed_store_def)
        ultimately show ?thesis
          using c Inr None store_served_derived [OF sy(3,2,1)] same_corpus_projects by auto
      next
        case (Some am)
        then obtain sv where sv: "if corpus_snapshot (se_store s) \<noteq> am_before am then advanced_store E (se_store s) sv
            else sv = se_store s"
            and t: "se_store t = counted_store (hd (live_marks s)) (apply_changes (se_dirty s) sv)"
          using c Inr by (auto split del: if_split)
        have "store_served fl (ge_lexical E) sv"
        proof (cases "corpus_snapshot (se_store s) = am_before am")
          case True
          then have "corpus_snapshot (se_store s) = corpus_snapshot y" using y Some by (auto simp: stored_from_def)
          moreover have "documents_ok y" using sy(3) by (simp add: store_served_def)
          ultimately have "projected_rows (ge_lexical E) g (se_store s) = projected_rows (ge_lexical E) g y" for g
            by (rule equal_snapshot_projects [OF _ sy(1)])
          from store_served_derived [OF sy(3,2,1) this] sv True show ?thesis by simp
        next
          case False
          then show ?thesis using sv advanced_store_served sy(1) by auto
        qed
        then have "store_served fl (ge_lexical E) (apply_changes (se_dirty s) sv)"
          using apply_changes_documents [OF _ dirty] clean by (cases fl) (auto simp: store_served_def)
        then show ?thesis unfolding t by (rule counted_store_served)
      qed
      then show ?thesis using c Inr assms(2) by (auto simp: session_inv_def settled_def)
    qed
  qed
qed

lemma after_soft_rollback_fields [simp]:
  "se_frames (after_soft_rollback f s) = se_frames s" "se_saved (after_soft_rollback f s) = se_saved s"
  "se_store (after_soft_rollback f s) = se_store s" "se_dirty (after_soft_rollback f s) = se_dirty s"
  "se_failed (after_soft_rollback f s) = se_failed s" "se_new (after_soft_rollback f s) = se_new s"
  "se_armed (after_soft_rollback f s) = None \<longleftrightarrow> se_armed s = None"
  by (auto simp: after_soft_rollback_def split: option.splits bool.splits)

lemma close_frame_fields [simp]:
  "se_frames (close_frame s) = tl (se_frames s)" "se_saved (close_frame s) = tl (se_saved s)"
  "se_store (close_frame s) = se_store s" "se_dirty (close_frame s) = se_dirty s"
  "se_failed (close_frame s) = se_failed s" "se_new (close_frame s) = se_new s"
  "se_armed (close_frame s) = (if se_listener s \<and> length (se_frames s) = 1 then None else se_armed s)"
  by (simp_all add: close_frame_def after_transaction_end_def)

lemma session_inv_rollback:
  assumes "session_inv fl E s" and "se_frames s \<noteq> []"
  shows "session_inv fl E (rollback_transaction s)"
proof -
  note fr = session_inv_frames [OF assms(1)]
  from session_invE [OF assms] obtain y where last: "store_served fl (ge_lexical E) (last (se_saved s))"
    and y: "stored_from fl E s y" and l: "length (se_saved s) = length (se_frames s)" by blast
  obtain f fs where f: "se_frames s = f # fs" using assms(2) by (cases "se_frames s") auto
  let ?t = "rollback_transaction s"
  have t: "se_frames ?t = fs" "se_saved ?t = tl (se_saved s)" "se_store ?t = hd (se_saved s)" "se_dirty ?t = None"
      "\<not> se_failed ?t" "se_new ?t = 0"
    using f by (simp_all add: rollback_transaction_def Let_def)
  show ?thesis
  proof (cases "fs = []")
    case False
    note c = rollback_savepoint [OF conjunct1 [OF fr] conjunct2 [OF fr] f False]
    have two: "length (se_saved s) \<ge> 2" using l f False by (cases fs) auto
    then have "hd (se_saved s) \<in> set (butlast (se_saved s))" by (cases "se_saved s") auto
    then have "stored_from fl E ?t y"
      using y t(3) by (intro session_inv_pop [OF y two t(2) c(4)]) (auto simp: stored_from_def)
    moreover have "last (se_saved ?t) = last (se_saved s)" using two t(2) by (cases "se_saved s") auto
    ultimately show ?thesis using c(1,2) t(1,4) last False by (auto simp: session_inv_def)
  next
    case True
    then have one: "length (se_saved s) = 1" using l f by simp
    have "se_armed ?t = None"
    proof (cases "se_armed s")
      case None
      then show ?thesis by (simp add: rollback_transaction_def Let_def)
    next
      case (Some am)
      have "se_listener s" using frames_inv_armed [OF conjunct1 [OF fr] Some] by (simp add: armed_ok_def)
      then show ?thesis using f True by (simp add: rollback_transaction_def Let_def)
    qed
    moreover have "se_store ?t = last (se_saved s)" "se_saved ?t = []" using one t(2,3) by (auto simp: length_Suc_conv)
    ultimately show ?thesis using t True last by (simp add: session_inv_def frames_inv_def settled_def)
  qed
qed

lemma serving_initial_inv: "serving_initial E s \<Longrightarrow> session_inv fl E s"
    by (auto simp: serving_initial_def session_inv_def frames_inv_def settled_def store_served_def documents_ok_def
        projected_rows_def split: option.splits)

lemma serving_step_inv:
  assumes inv: "session_inv fl E s" and step: "serving_step E s t"
    and flushed: "fl \<Longrightarrow> unflushed_commit E s t \<Longrightarrow> t = rollback_transaction s"
  shows "session_inv fl E t"
  using step
proof cases
  case (sv_guard g)
  then show ?thesis using session_inv_guard [OF inv] guard_step_session by simp
next
  case (sv_flush_fails)
  then show ?thesis using session_inv_failed [OF inv, of "se_store s"] by simp
next
  case (sv_change ds tt)
  then show ?thesis using session_inv_change(1) [OF inv] by simp
next
  case (sv_change_later ds tt)
  then show ?thesis using session_inv_change(2) [OF inv] by simp
next
  case sv_tombstone
  moreover have "document_changes_ok []" by (simp add: document_changes_ok_def)
  ultimately show ?thesis using session_inv_change(3) [OF inv] by simp
next
  case (sv_begin a)
  then show ?thesis using session_inv_begin_root [OF inv] by simp
next
  case (sv_begin_nested a r)
  then show ?thesis using session_inv_begin_nested [OF inv] by simp
next
  case (sv_lock a key for_update r)
  then show ?thesis using session_inv_lock [OF inv] by simp
next
  case (sv_arm c r)
  then show ?thesis using session_inv_arm [OF inv] by simp
next
  case (sv_mark r)
  then show ?thesis using session_inv_mark [OF inv] by simp
next
  case (sv_increment c r)
  then show ?thesis using session_inv_increment [OF inv] by simp
next
  case (sv_ingest ds tt c n)
  show ?thesis by (rule session_inv_ingest [OF inv sv_ingest(1-5)])
next
  case (sv_flush r)
  then show ?thesis using session_inv_flush [OF inv] by simp
next
  case (sv_commit r)
  show ?thesis
  proof (cases "fl \<and> unflushed_commit E s t")
    case True
    then show ?thesis using flushed session_inv_rollback [OF inv sv_commit(2)] by simp
  next
    case False
    have "se_dirty s = None" if "fl" "length (se_frames s) = 1" "returns r"
      using False that sv_commit(3) by (cases "se_dirty s") (auto simp: unflushed_commit_def returns_iff)
    then show ?thesis by (rule session_inv_commit [OF inv sv_commit(1,2) _ sv_commit(3)])
  qed
next
  case sv_rollback
  then show ?thesis using session_inv_rollback [OF inv] by simp
qed

text \<open>Every step keeps the shape of a session, and every flushed step that its corpus is served.\<close>

interpretation serving: invariant_system "serving_initial E" "serving_step E" "session_inv False E" for E
  by unfold_locales (auto intro: serving_initial_inv serving_step_inv)

interpretation flushed: invariant_system "serving_initial E" "flushed_step E" "session_inv True E" for E
  by unfold_locales (auto simp: flushed_step_def intro: serving_initial_inv serving_step_inv)

end
