(* ===== verification/Serving_Properties.thy ===== *)
theory Serving_Properties
  imports Serving_Invariant
begin

text \<open>
  The properties of the serving generation: a committed corpus is served by its projection, a commit counts what
  survived its savepoints, and no context outlives its transaction.
\<close>

section \<open>What a savepoint keeps\<close>

text \<open>
  The events inside a guarded transaction, as the code performs them, and the specification: one flag per open
  transaction, innermost first, which says whether a vector mutation that is not rolled back was made in it.
\<close>

datatype tx_event =
    Mark_Vector
  | Add_Tombstone
  | Change_Corpus "vector_document list" title_tables
  | Change_Later "vector_document list" title_tables
  | Flush_Changes
  | Begin_Savepoint nat
  | Release_Savepoint
  | Undo_Savepoint

definition returned :: "unit session_result \<Rightarrow> serving_session option" where
  "returned x = (case x of (Inr _, t) \<Rightarrow> Some t | (Inl _, _) \<Rightarrow> None)"

fun perform_event :: "generation_env \<Rightarrow> tx_event \<Rightarrow> serving_session \<Rightarrow> serving_session option" where
  "perform_event E Mark_Vector s = returned (mark_vector_mutation s)"
| "perform_event E Add_Tombstone s =
     (if assert_refresh_armed s = Inr () then Some (s\<lparr>se_new := Suc (se_new s)\<rparr>) else None)"
| "perform_event E (Change_Corpus ds tt) s =
     (if assert_refresh_armed s = Inr () \<and> document_changes_ok ds
      then Some (s\<lparr>se_store := (se_store s)\<lparr>sv_documents := ds, sv_titles := tt\<rparr>\<rparr>) else None)"
| "perform_event E (Change_Later ds tt) s =
     (if assert_refresh_armed s = Inr () \<and> document_changes_ok ds
      then Some (s\<lparr>se_dirty := Some (ds, tt)\<rparr>) else None)"
| "perform_event E Flush_Changes s = returned (flush_session s)"
| "perform_event E (Begin_Savepoint a) s =
     (if a \<in> live_addresses s then None else returned (begin_nested a s))"
| "perform_event E Release_Savepoint s =
     (if length (se_frames s) \<le> 1 then None else returned (commit_transaction E s))"
| "perform_event E Undo_Savepoint s =
     (if length (se_frames s) \<le> 1 then None else Some (rollback_transaction s))"

fun perform_events :: "generation_env \<Rightarrow> tx_event list \<Rightarrow> serving_session \<Rightarrow> serving_session option" where
  "perform_events E [] s = Some s"
| "perform_events E (e # es) s = Option.bind (perform_event E e s) (perform_events E es)"

fun flags_after :: "tx_event \<Rightarrow> bool list \<Rightarrow> bool list" where
  "flags_after Mark_Vector ms = mark_top ms"
| "flags_after Add_Tombstone ms = mark_top ms"
| "flags_after (Change_Corpus _ _) ms = ms"
| "flags_after (Change_Later _ _) ms = ms"
| "flags_after Flush_Changes ms = ms"
| "flags_after (Begin_Savepoint _) ms = False # ms"
| "flags_after Release_Savepoint ms = release_top ms"
| "flags_after Undo_Savepoint ms = tl ms"

text \<open>What a run of events needs and keeps.\<close>

definition guarded :: "generation_env \<Rightarrow> serving_session \<Rightarrow> bool" where
  "guarded E s \<longleftrightarrow> session_inv False E s \<and> \<not> se_failed s \<and> se_armed s \<noteq> None"

lemma guarded_frames: "guarded E s \<Longrightarrow> frames_inv s \<and> settled s \<and> se_frames s \<noteq> []"
  using session_inv_frames session_inv_idle by (fastforce simp: guarded_def)

lemma armed_map: "map_option am_before (se_armed t) = map_option am_before (se_armed s)
    \<Longrightarrow> se_armed s \<noteq> None \<Longrightarrow> se_armed t \<noteq> None"
  by (cases "se_armed s"; cases "se_armed t") auto

lemma returned_Some: "returned x = Some t \<longleftrightarrow> (\<exists>u. x = (Inr u, t))"
  by (cases x) (auto simp: returned_def split: sum.splits)

lemma perform_event_guarded:
  assumes "guarded E s" and "perform_event E e s = Some t"
  shows "guarded E t \<and> live_marks t = flags_after e (live_marks s)
    \<and> map_option am_before (se_armed t) = map_option am_before (se_armed s)"
proof (cases e)
  case Mark_Vector
  then obtain u where m: "mark_vector_mutation s = (Inr u, t)" using assms(2) by (auto simp: returned_Some)
  then obtain am where am: "se_armed s = Some am" and t: "t = mark_contribution am s"
    by (auto simp: mark_vector_mutation_def split: option.splits sum.splits)
  note fr = guarded_frames [OF assms(1)]
  have "session_inv False E t" using session_inv_mark [OF _ _ m] assms(1) by (simp add: guarded_def)
  moreover have a: "map_option am_before (se_armed t) = map_option am_before (se_armed s)"
    using am mark_contribution_armed [OF conjunct1 [OF fr] am] by (simp add: t)
  moreover have "live_marks t = mark_top (live_marks s)"
    using session_marks_mark [OF conjunct1 [OF fr] am] armed_map [OF a] am by (simp add: live_marks_def t)
  ultimately show ?thesis using assms(1) armed_map [OF a] Mark_Vector by (simp add: guarded_def t)
next
  case Add_Tombstone
  then have ok: "assert_refresh_armed s = Inr ()" and t: "t = s\<lparr>se_new := Suc (se_new s)\<rparr>"
    using assms(2) by (auto split: if_splits)
  have "document_changes_ok []" by (simp add: document_changes_ok_def)
  then have "session_inv False E t" unfolding t using session_inv_change(3) [OF _ _ ok] assms(1) by (simp add: guarded_def)
  moreover have "session_marks t = session_marks s" by (simp add: session_marks_def t)
  ultimately show ?thesis using assms(1) Add_Tombstone by (auto simp: guarded_def live_marks_def t)
next
  case (Change_Corpus ds tt)
  then have ok: "assert_refresh_armed s = Inr ()" "document_changes_ok ds"
    and t: "t = s\<lparr>se_store := (se_store s)\<lparr>sv_documents := ds, sv_titles := tt\<rparr>\<rparr>"
    using assms(2) by (auto split: if_splits)
  show ?thesis using session_inv_change(1) [OF _ _ ok] assms(1) Change_Corpus by (simp add: guarded_def t)
next
  case (Change_Later ds tt)
  then have ok: "assert_refresh_armed s = Inr ()" "document_changes_ok ds" and t: "t = s\<lparr>se_dirty := Some (ds, tt)\<rparr>"
    using assms(2) by (auto split: if_splits)
  have "live_marks t = live_marks s" by (simp add: t live_marks_def session_marks_def)
  then show ?thesis using session_inv_change(2) [OF _ _ ok] assms(1) Change_Later by (simp add: guarded_def t)
next
  case Flush_Changes
  then obtain u where m: "flush_session s = (Inr u, t)" using assms(2) by (auto simp: returned_Some)
  note f = flush_only [OF conjunct1 [OF guarded_frames [OF assms(1)]] m]
  show ?thesis using session_inv_flush [OF _ _ m] f(7,8,10) armed_map [OF f(10)] assms(1) Flush_Changes
    by (simp add: guarded_def)
next
  case (Begin_Savepoint a)
  then obtain u where m: "begin_nested a s = (Inr u, t)" and a: "a \<notin> live_addresses s"
    using assms(2) by (auto simp: returned_Some split: if_splits)
  note fr = guarded_frames [OF assms(1)]
  obtain w where w: "flush_session s = (Inr (), w)" using flush_session_eq fr by blast
  note f = flush_only [OF conjunct1 [OF fr] w]
  have t: "se_armed t = se_armed w" "se_failed t = se_failed w" using m w by (auto simp: begin_nested_def)
  have "session_inv False E t" using session_inv_begin_nested [OF _ _ _ a m] assms(1) fr by (simp add: guarded_def)
  then show ?thesis
    using begin_nested_facts(2) [OF conjunct1 [OF fr] _ a m] fr f(7,10) armed_map [OF f(10)] assms(1) t Begin_Savepoint
    by (simp add: guarded_def)
next
  case Release_Savepoint
  then obtain u where m: "commit_transaction E s = (Inr u, t)" and l: "1 < length (se_frames s)"
    using assms(2) by (auto simp: returned_Some split: if_splits)
  note fr = guarded_frames [OF assms(1)]
  obtain f fs where f: "se_frames s = f # fs" "fs \<noteq> []" using l by (cases "se_frames s") auto
  note c = commit_savepoint [OF conjunct1 [OF fr] conjunct1 [OF conjunct2 [OF fr]] f m]
  have "session_inv False E t" using session_inv_commit [OF _ _ _ _ m] assms(1) fr by (simp add: guarded_def)
  then show ?thesis using c(4,8,10) armed_map [OF c(8)] assms(1) Release_Savepoint by (simp add: guarded_def)
next
  case Undo_Savepoint
  then have t: "t = rollback_transaction s" and l: "1 < length (se_frames s)" using assms(2) by (auto split: if_splits)
  note fr = guarded_frames [OF assms(1)]
  obtain f fs where f: "se_frames s = f # fs" "fs \<noteq> []" using l by (cases "se_frames s") auto
  note c = rollback_savepoint [OF conjunct1 [OF fr] conjunct1 [OF conjunct2 [OF fr]] f]
  have "session_inv False E t" unfolding t using session_inv_rollback assms(1) fr by (simp add: guarded_def)
  moreover have "\<not> se_failed t" by (simp add: t rollback_transaction_def Let_def)
  ultimately show ?thesis using c(3,4) armed_map [OF c(4)] assms(1) Undo_Savepoint by (simp add: guarded_def t)
qed

lemma perform_events_guarded:
  "guarded E s \<Longrightarrow> perform_events E es s = Some t \<Longrightarrow>
     guarded E t \<and> live_marks t = foldl (\<lambda>ms e. flags_after e ms) (live_marks s) es
     \<and> map_option am_before (se_armed t) = map_option am_before (se_armed s)"
proof (induction es arbitrary: s)
  case (Cons e es)
  then obtain u where u: "perform_event E e s = Some u" "perform_events E es u = Some t"
    by (auto simp: bind_eq_Some_conv)
  from perform_event_guarded [OF Cons.prems(1) u(1)] Cons.IH [OF _ u(2)] show ?case by simp
qed simp

lemma perform_event_step:
  assumes "guarded E s" and "perform_event E e s = Some t"
  shows "serving_step E s t"
proof -
  have ok: "\<not> se_failed s" "se_frames s \<noteq> []" using assms(1) guarded_frames by (auto simp: guarded_def)
  show ?thesis
  proof (cases e)
    case Mark_Vector
    then obtain u where "mark_vector_mutation s = (Inr u, t)" using assms(2) by (auto simp: returned_Some)
    then show ?thesis by (rule sv_mark [OF ok(1)])
  next
    case Add_Tombstone
    then have g: "assert_refresh_armed s = Inr ()" and t: "t = s\<lparr>se_new := Suc (se_new s)\<rparr>"
      using assms(2) by (auto split: if_splits)
    show ?thesis unfolding t by (rule sv_tombstone [OF ok(1) g])
  next
    case (Change_Corpus ds tt)
    then have g: "assert_refresh_armed s = Inr ()" "document_changes_ok ds" and t: "t = s\<lparr>se_store := (se_store s)\<lparr>sv_documents := ds, sv_titles := tt\<rparr>\<rparr>"
      using assms(2) by (auto split: if_splits)
    show ?thesis unfolding t by (rule sv_change [OF ok(1) g])
  next
    case (Change_Later ds tt)
    then have g: "assert_refresh_armed s = Inr ()" "document_changes_ok ds" and t: "t = s\<lparr>se_dirty := Some (ds, tt)\<rparr>"
      using assms(2) by (auto split: if_splits)
    show ?thesis unfolding t by (rule sv_change_later [OF ok(1) g])
  next
    case Flush_Changes
    then obtain u where "flush_session s = (Inr u, t)" using assms(2) by (auto simp: returned_Some)
    then show ?thesis by (rule sv_flush [OF ok(1)])
  next
    case (Begin_Savepoint a)
    then obtain u where "begin_nested a s = (Inr u, t)" and "a \<notin> live_addresses s"
      using assms(2) by (auto simp: returned_Some split: if_splits)
    then show ?thesis by (intro sv_begin_nested [OF ok])
  next
    case Release_Savepoint
    then obtain u where c: "commit_transaction E s = (Inr u, t)"
      using assms(2) by (auto simp: returned_Some split: if_splits)
    from sv_commit [OF ok c] show ?thesis .
  next
    case Undo_Savepoint
    then have t: "t = rollback_transaction s" using assms(2) by (auto split: if_splits)
    show ?thesis unfolding t by (rule sv_rollback [OF ok(2)])
  qed
qed

lemma flushedI: "serving_step E s t \<Longrightarrow> se_dirty s = None \<Longrightarrow> flushed_step E s t"
  by (simp add: flushed_step_def unflushed_commit_def)

text \<open>No event commits the root, so all of them are flushed steps.\<close>

lemma perform_event_flushed:
  assumes "guarded E s" and "perform_event E e s = Some t"
  shows "flushed_step E s t"
proof -
  note fr = guarded_frames [OF assms(1)]
  have "guarded E t" using perform_event_guarded [OF assms] by blast
  then have ft: "se_frames t \<noteq> []" using guarded_frames by blast
  have "\<not> unflushed_commit E s t"
  proof
    assume u: "unflushed_commit E s t"
    then obtain f where f: "se_frames s = [f]" by (auto simp: unflushed_commit_def length_Suc_conv)
    from commit_root [OF conjunct1 [OF fr] conjunct1 [OF conjunct2 [OF fr]] f] u
    have "se_frames t = []" by (fastforce simp: unflushed_commit_def)
    with ft show False by simp
  qed
  then show ?thesis using perform_event_step [OF assms] by (simp add: flushed_step_def)
qed

lemma perform_events_reach:
  "reach i (flushed_step E) s \<Longrightarrow> guarded E s \<Longrightarrow> perform_events E es s = Some t \<Longrightarrow> reach i (flushed_step E) t"
proof (induction es arbitrary: s)
  case (Cons e es)
  then obtain u where u: "perform_event E e s = Some u" "perform_events E es u = Some t"
    by (auto simp: bind_eq_Some_conv)
  have r: "reach i (flushed_step E) u" by (rule reach_step [OF Cons.prems(1) perform_event_flushed [OF Cons.prems(2) u(1)]])
  have "guarded E u" using perform_event_guarded [OF Cons.prems(2) u(1)] by blast
  from Cons.IH [OF r this u(2)] show ?case .
qed simp

lemma flushed_reach: "reach i (flushed_step E) s \<Longrightarrow> reach i (serving_step E) s"
  by (induction rule: reach.induct) (auto simp: flushed_step_def intro: reach.intros)

section \<open>Contexts\<close>

text \<open>A context whose transaction is over.\<close>

definition context_ended :: "generation_context \<Rightarrow> serving_session \<Rightarrow> bool" where
  "context_ended c s \<longleftrightarrow>
     c \<in> set (se_contexts s) \<and> map_option tx_id (root_transaction s) \<noteq> Some (gc_transaction c)"

lemma context_ended_refused: "context_ended c s \<Longrightarrow> \<not> returns (validate_context s c)"
  by (simp add: context_ended_def validate_context_def)

text \<open>A step keeps the contexts and the root, ends the root, or begins one with an id no context names.\<close>

definition context_step :: "serving_session \<Rightarrow> serving_session \<Rightarrow> bool" where
  "context_step s t \<longleftrightarrow> set (se_contexts s) \<subseteq> set (se_contexts t)
     \<and> (root_transaction t = root_transaction s \<or> root_transaction t = None
        \<or> (\<exists>f. root_transaction t = Some f \<and> tx_id f \<notin> gc_transaction ` set (se_contexts s)))"

lemma context_step_ended: "context_step s t \<Longrightarrow> context_ended c s \<Longrightarrow> context_ended c t"
  by (auto simp: context_step_def context_ended_def)

lemma same_frames_context: "same_frames s t \<Longrightarrow> context_step s t"
  by (simp add: same_frames_def context_step_def root_transaction_def)

text \<open>The frames and the contexts an operation leaves.\<close>

definition keeps_frames :: "serving_session \<Rightarrow> serving_session \<Rightarrow> bool" where
  "keeps_frames s t \<longleftrightarrow> se_frames t = se_frames s \<and> se_contexts t = se_contexts s"

lemma keeps_refl [simp]: "keeps_frames s s"
  "keeps_frames s (s\<lparr>se_store := x\<rparr>)" "keeps_frames s (s\<lparr>se_store := x, se_failed := b\<rparr>)"
  by (simp_all add: keeps_frames_def)

lemma keeps_trans: "keeps_frames s t \<Longrightarrow> keeps_frames t u \<Longrightarrow> keeps_frames s u"
  by (simp add: keeps_frames_def)

lemma mark_keeps: "keeps_frames s (mark_contribution am s)"
  by (simp add: keeps_frames_def)

lemma before_flush_keeps: "before_flush s = (r, t) \<Longrightarrow> keeps_frames s t"
  using mark_keeps by (auto simp: before_flush_def split: bool.splits option.splits sum.splits if_splits)

lemma flush_keeps:
  assumes "flush_session s = (r, t)"
  shows "keeps_frames s t"
proof -
  obtain a u where a: "before_flush s = (a, u)" by force
  from before_flush_keeps [OF this] show ?thesis
    using assms a by (auto simp: flush_session_def keeps_frames_def split: sum.splits)
qed

lemma increment_keeps: "increment_vector_generation c s = (r, t) \<Longrightarrow> keeps_frames s t"
  by (auto simp: increment_vector_generation_def Let_def keeps_frames_def split: sum.splits option.splits)

lemma advance_keeps:
  assumes "advance_corpus_generation E c s = (r, t)"
  shows "keeps_frames s t"
proof -
  have "keeps_frames s v" if "flush_session (s\<lparr>se_store := x\<rparr>) = (a, v)" for x a v
    using flush_keeps [OF that] by (simp add: keeps_frames_def)
  then show ?thesis using assms
    by (fastforce simp: advance_corpus_generation_def Let_def keeps_frames_def split: sum.splits option.splits prod.splits)
qed

lemma before_commit_keeps:
  assumes "before_commit E s = (r, t)"
  shows "keeps_frames s t"
proof (cases "se_listener s \<and> se_armed s \<noteq> None")
  case True
  then obtain am where am: "se_listener s" "se_armed s = Some am" by auto
  obtain a u where a: "advance_corpus_generation E (am_context am) s = (a, u)" by force
  note ku = advance_keeps [OF a]
  obtain b v where b: "increment_vector_generation (am_context am) u = (b, v)" by force
  obtain b' v' where b': "increment_vector_generation (am_context am) s = (b', v')" by force
  have kv: "keeps_frames s v" "keeps_frames s v'" using keeps_trans [OF ku increment_keeps [OF b]] increment_keeps [OF b'] by auto
  show ?thesis
    using assms am a b b' ku kv
    by (auto simp: before_commit_def Let_def split: sum.splits if_splits) (simp_all add: keeps_frames_def)
qed (use assms in \<open>auto simp: before_commit_def split: bool.splits option.splits\<close>)

lemma after_commit_keeps: "keeps_frames s (after_commit s)"
  by (auto simp: after_commit_def keeps_frames_def Let_def split: bool.splits option.splits list.splits)

lemma close_frame_contexts [simp]: "se_contexts (close_frame s) = se_contexts s"
  by (simp add: close_frame_def after_transaction_end_def)

lemma commit_frames:
  assumes "commit_transaction E s = (r, t)"
  shows "se_contexts t = se_contexts s \<and> (se_frames t = se_frames s \<or> se_frames t = tl (se_frames s))"
proof -
  obtain a u where a: "before_commit E s = (a, u)" by force
  obtain b v where b: "flush_session u = (b, v)" by force
  note k = keeps_trans [OF before_commit_keeps [OF a] flush_keeps [OF b]]
  show ?thesis
    using assms a b before_commit_keeps [OF a] k keeps_trans [OF k after_commit_keeps]
    by (auto simp: commit_transaction_def keeps_frames_def split: sum.splits)
qed

lemma lock_frames:
  assumes "lock_serving_generation E a key for_update s = (r, t)"
  shows "se_frames t = se_frames s \<and> set (se_contexts s) \<subseteq> set (se_contexts t)"
proof (cases "record_rag_corpus_lock key for_update (se_guard s)")
  case (Inl e)
  then show ?thesis using assms by (simp add: lock_serving_generation_def)
next
  case (Inr g)
  define u where "u = s\<lparr>se_guard := send_lock (Corpus_Row for_update) g\<rparr>"
  obtain b v where b: "before_flush u = (b, v)" by force
  have "keeps_frames u v" by (rule before_flush_keeps [OF b])
  then show ?thesis
    using assms Inr b
    by (auto simp: lock_serving_generation_def u_def [symmetric] add_generation_row_def Let_def keeps_frames_def
        split: sum.splits option.splits if_splits) (auto simp: u_def)
qed

lemma frames_context_step:
  assumes "set (se_contexts s) \<subseteq> set (se_contexts t)" and "se_frames t = se_frames s \<or> se_frames t = tl (se_frames s)"
  shows "context_step s t"
  using assms by (cases "se_frames s") (auto simp: context_step_def root_transaction_def)

lemma keeps_context: "keeps_frames s t \<Longrightarrow> context_step s t"
  by (rule frames_context_step) (auto simp: keeps_frames_def)

lemma serving_step_context:
  assumes "serving_step E s t"
  shows "context_step s t"
  using assms
proof cases
  case (sv_begin a)
  then show ?thesis by (auto simp: context_step_def begin_root_def root_transaction_def live_addresses_def)
next
  case (sv_begin_nested a r)
  obtain b u where b: "flush_session s = (b, u)" by force
  have "keeps_frames s u" by (rule flush_keeps [OF b])
  then show ?thesis using sv_begin_nested b
    by (auto simp: begin_nested_def context_step_def keeps_frames_def root_transaction_def split: sum.splits)
next
  case (sv_lock a key for_update r)
  then show ?thesis using lock_frames by (intro frames_context_step) blast+
next
  case (sv_arm c r)
  then have "keeps_frames s t" by (auto simp: arm_refresh_def keeps_frames_def split: sum.splits option.splits)
  then show ?thesis by (rule keeps_context)
next
  case (sv_mark r)
  then have "keeps_frames s t" using mark_keeps by (auto simp: mark_vector_mutation_def split: sum.splits option.splits)
  then show ?thesis by (rule keeps_context)
next
  case (sv_increment c r)
  then show ?thesis using increment_keeps keeps_context by blast
next
  case (sv_ingest ds tt c n)
  from advance_keeps [OF sv_ingest(5)] have "keeps_frames s t" by (simp add: keeps_frames_def)
  then show ?thesis by (rule keeps_context)
next
  case (sv_flush r)
  then show ?thesis using flush_keeps keeps_context by blast
next
  case (sv_commit r)
  then show ?thesis using commit_frames by (intro frames_context_step) auto
next
  case sv_rollback
  then show ?thesis
    by (intro frames_context_step) (auto simp: rollback_transaction_def Let_def after_soft_rollback_def
        split: bool.splits option.splits)
qed (auto simp: context_step_def root_transaction_def)

lemma context_ended_steps: "(serving_step E)\<^sup>*\<^sup>* s t \<Longrightarrow> context_ended c s \<Longrightarrow> context_ended c t"
  by (induction rule: rtranclp_induct) (use serving_step_context context_step_ended in blast)+

section \<open>The properties\<close>

text \<open>
  C30. A vector mutation counts exactly when no rollback undid it: from the arming of a transaction on, whatever
  mutations, tombstones, changes, flushes and savepoints follow and however the savepoints nest and end, the commit
  of the root raises the generation of the vector index by one if the specified stack of flags, run over the same
  events, ends set, and leaves it alone otherwise; and it raises the generation of the corpus by one exactly when
  the corpus the queries of the session see just before it differs from the one they saw at the arming. A change
  that only the commit itself flushes is stored but not seen by them, and does not count.
\<close>

theorem commit_counts_surviving_mutations:
  assumes "reach (serving_initial E) (serving_step E) s" and "\<not> se_failed s" and "se_frames s = [f]"
    and "se_armed s = None" and "se_new s = 0" and "arm_refresh c s = (Inr (), s1)"
    and "perform_events E es s1 = Some t" and "se_frames t = [f']"
    and "commit_transaction E t = (Inr (), u)" and "sv_corpus (se_store t) = Some row"
  shows "\<exists>row'. sv_corpus (se_store u) = Some row'
    \<and> sr_vector row' = sr_vector row + (if foldl (\<lambda>ms e. flags_after e ms) [False] es = [True] then 1 else 0)
    \<and> sr_corpus row' = sr_corpus row
        + (if corpus_snapshot (se_store t) \<noteq> corpus_snapshot (se_store s) then 1 else 0)"
proof -
  have i: "session_inv False E s" by (rule serving.inv_reach [OF assms(1)])
  have i1: "session_inv False E s1" by (rule session_inv_arm [OF i assms(2,6)])
  obtain am where a: "se_armed s1 = Some am" "am_vector am = False" "am_savepoints am = {}"
      "am_before am = corpus_snapshot (se_store s)" "se_failed s1 = se_failed s" "se_new s1 = se_new s" "se_frames s1 = [f]"
    using assms(3,4,6) by (auto simp: arm_refresh_def split: sum.splits)
  have g1: "guarded E s1" using i1 a assms(2) by (simp add: guarded_def)
  have l1: "live_marks s1 = [False]" using a assms(5) by (simp add: live_marks_def session_marks_def)
  from perform_events_guarded [OF g1 assms(7)] have g: "guarded E t"
    and l: "live_marks t = foldl (\<lambda>ms e. flags_after e ms) [False] es"
    and b: "map_option am_before (se_armed t) = Some (corpus_snapshot (se_store s))"
    using l1 a by auto
  obtain am' where am': "se_armed t = Some am'" "am_before am' = corpus_snapshot (se_store s)" using b by auto
  note fr = guarded_frames [OF g]
  obtain sv where sv: "if corpus_snapshot (se_store t) \<noteq> am_before am' then advanced_store E (se_store t) sv
      else sv = se_store t" and u: "se_store u = counted_store (hd (live_marks t)) (apply_changes (se_dirty t) sv)"
    using commit_root [OF conjunct1 [OF fr] conjunct1 [OF conjunct2 [OF fr]] assms(8,9)] am'(1)
    by (auto split del: if_split)
  have "length (live_marks t) = 1" using live_marks_root [OF conjunct1 [OF fr] assms(8) am'(1)] by simp
  then have h: "hd (live_marks t) \<longleftrightarrow> live_marks t = [True]" by (cases "live_marks t") auto
  obtain row1 where "sv_corpus sv = Some row1" and "sr_vector row1 = sr_vector row"
    and "sr_corpus row1 = sr_corpus row + (if corpus_snapshot (se_store t) \<noteq> am_before am' then 1 else 0)"
    using sv assms(10) advanced_store_fields(1) [of E "se_store t" sv]
    by (cases "corpus_snapshot (se_store t) = am_before am'") auto
  then show ?thesis using u h l am'(2) by (auto simp: counted_store_def)
qed

text \<open>
  C29. What is committed is served, as long as no root transaction commits a change that was not flushed before:
  whenever the session is outside of a transaction, whatever was changed, rolled back, ingested or refused before,
  the lexical reader returns the projection of every document of the committed corpus at its generation, and nothing
  else, in the order of the ids. The steps leave out only the commits of a root with an unflushed change, after
  which it fails (\<open>unflushed_change_is_missed\<close>).
\<close>

theorem committed_corpus_is_served:
  assumes "reach (serving_initial E) (flushed_step E) s" and "se_frames s = []"
    and "sv_corpus (se_store s) = Some c"
  shows "set (current_projections (ge_lexical E) (se_store s)) = projected_rows (ge_lexical E) (sr_corpus c) (se_store s)
    \<and> sorted (map lx_document_id (current_projections (ge_lexical E) (se_store s)))"
proof -
  from flushed.inv_reach [OF assms(1)] have "store_served True (ge_lexical E) (se_store s)"
    using assms(2) by (simp add: session_inv_def)
  then have "store_current (ge_lexical E) (se_store s)" "distinct (map vd_id (sv_documents (se_store s)))"
    using assms(3) by (simp_all add: store_served_def documents_ok_def document_changes_ok_def)
  then show ?thesis using current_projections_complete [OF _ _ assms(3)] current_projections_sorted by blast
qed

text \<open>
  C32. A generation context dies with its transaction: once the transaction it was issued in is over, no later
  state of the session, in a new transaction included, accepts it, so it arms nothing and changes no generation.
\<close>

theorem ended_context_is_refused:
  assumes "(serving_step E)\<^sup>*\<^sup>* s t" and "c \<in> set (se_contexts s)"
    and "map_option tx_id (root_transaction s) \<noteq> Some (gc_transaction c)"
  shows "\<not> returns (validate_context t c) \<and> \<not> returns (fst (arm_refresh c t))
    \<and> \<not> returns (fst (increment_vector_generation c t)) \<and> snd (increment_vector_generation c t) = t
    \<and> \<not> returns (fst (advance_corpus_generation E c t)) \<and> snd (advance_corpus_generation E c t) = t"
proof -
  have "context_ended c s" using assms(2,3) by (simp add: context_ended_def)
  with assms(1) have "context_ended c t" by (rule context_ended_steps)
  then obtain e where e: "validate_context t c = Inl e"
    using context_ended_refused [of c t] by (cases "validate_context t c") auto
  then have "validate_mutation_context t c = Inl e" by (simp add: validate_mutation_context_def)
  then show ?thesis
    using e by (simp add: arm_refresh_def increment_vector_generation_def advance_corpus_generation_def)
qed

section \<open>Changes that are not flushed\<close>

text \<open>
  The comparison at the commit reads what the queries see. A change that only the commit itself flushes is not part
  of it: it is committed under the old generation, and the rows of the projection stay as they are.
\<close>

lemma unflushed_change_is_missed:
  assumes "session_inv False E s" and "se_frames s = [f]" and "se_armed s = Some am" and "se_dirty s = Some (ds, tt)"
    and "corpus_snapshot (se_store s) = am_before am" and "live_marks s = [False]"
  shows "\<exists>t. commit_transaction E s = (Inr (), t)
    \<and> se_store t = (se_store s)\<lparr>sv_documents := ds, sv_titles := tt\<rparr>"
proof -
  have fr: "frames_inv s" "settled s" using session_inv_frames [OF assms(1)] by simp_all
  have am: "am_vector am = False" "se_new s = 0" using live_marks_root [OF fr(1) assms(2,3)] assms(6) by auto
  have "before_commit E s = (Inr (), s)"
    using frames_inv_armed [OF fr(1) assms(3)] nested_transaction_hd [OF fr(1)] assms(2,3,5) am
    by (simp add: before_commit_def armed_ok_def)
  moreover obtain u where u: "flush_session s = (Inr (), u)" using flush_session_eq [OF fr(1)] by blast
  moreover have "se_store (close_frame (after_commit u)) = se_store u"
  proof -
    have "map_option am_pending (se_armed u) = Some []"
      using flush_only(11) [OF fr(1) u] fr(2) assms(3) by (simp add: settled_def)
    then show ?thesis by (auto simp: after_commit_def split: bool.splits)
  qed
  moreover have "se_store u = (se_store s)\<lparr>sv_documents := ds, sv_titles := tt\<rparr>"
    using flush_only(4) [OF fr(1) u] assms(4) by (simp add: flushed_store_def apply_changes_def)
  ultimately show ?thesis by (simp add: commit_transaction_def)
qed

end
