(* ===== verification/Serving_Witnesses.thy ===== *)
theory Serving_Witnesses
  imports Serving_Properties
begin

text \<open>
  A concrete session: it enters the barrier, locks the generation, arms the guard, publishes a todo with a vector
  mutation inside a savepoint, and commits.
\<close>

definition serving_env :: generation_env where
  "serving_env = \<lparr>ge_lexical = \<lparr>le_primitives = demo_primitives, le_lower = (\<lambda>s. s), le_settings = demo_settings\<rparr>,
     ge_model = ''model'', ge_dimensions = 3, ge_admits = (\<lambda>_ _. True)\<rparr>"

definition serving_todo :: vector_document where
  "serving_todo = \<lparr>vd_id = ''todo:1'', vd_text = ''send the plan'', vd_source_url = ''u'', vd_source_snippet = ''s'',
     vd_permission = ''public'', vd_metadata =
       [(''canonical_citation_projection_hmac'', JStr ''c''), (''knowledge_id'', JInt 1),
        (''model_content_hmac'', JStr ''m''), (''serving_identity_hmac'', JStr ''i''),
        (''serving_kind'', JStr ''trusted_knowledge''), (''serving_version_fingerprint'', JStr ''v''),
        (''support_mode'', JStr ''trusted_fact'')]\<rparr>"

definition serving_titles :: title_tables where
  "serving_titles = \<lparr>tt_chunk_source = (\<lambda>_. None), tt_source_title = (\<lambda>_. None),
     tt_target_title = (\<lambda>kind i. if kind = ''todo'' \<and> i = 1 then Some ''Plan'' else None)\<rparr>"

definition serving_start :: serving_session where
  "serving_start = \<lparr>se_guard = demo_session, se_frames = [],
     se_store = \<lparr>sv_corpus = Some (new_generation_row serving_env), sv_documents = [], sv_titles = serving_titles,
       sv_lexical = []\<rparr>,
     se_saved = [], se_dirty = None, se_new = 0, se_contexts = [], se_armed = None, se_listener = False,
     se_failed = False\<rparr>"

definition serving_key :: key_context where
  "serving_key = \<lparr>kc_address = 1, kc_session = 1, kc_generation = 1, kc_version = ''v1'', kc_verifier = ''w''\<rparr>"

definition serving_row_locked :: guard_info where
  "serving_row_locked = demo_entered\<lparr>gi_order := [''generation_shared'', ''runtime_share''],
     gi_sent := [Barrier_Shared key_generation_lock_id, Runtime_Row False], gi_contexts := [serving_key],
     gi_latest := Latest serving_key\<rparr>"

definition serving_guarded :: serving_session where
  "serving_guarded = (begin_root 7 serving_start)\<lparr>se_guard := serving_row_locked\<rparr>"

definition serving_locked :: "generation_context session_result" where
  "serving_locked = lock_serving_generation serving_env 2 (Some serving_key) True serving_guarded"

definition serving_context :: generation_context where
  "serving_context = \<lparr>gc_address = 2, gc_session = 1, gc_transaction = 7, gc_mutation = True,
     gc_key_version = ''v1'', gc_verifier = demo_digest\<rparr>"

definition serving_armed :: serving_session where
  "serving_armed = snd (arm_refresh serving_context (snd serving_locked))"

definition serving_events :: "tx_event list" where
  "serving_events = [Begin_Savepoint 8, Change_Corpus [serving_todo] serving_titles, Mark_Vector, Release_Savepoint,
     Begin_Savepoint 9, Mark_Vector, Undo_Savepoint]"

definition serving_changed :: serving_session where
  "serving_changed = the (perform_events serving_env serving_events serving_armed)"

definition serving_done :: serving_session where
  "serving_done = snd (commit_transaction serving_env serving_changed)"

lemma serving_guard_steps:
  "guard_step demo_session demo_entered" "guard_step demo_entered serving_row_locked"
proof -
  have "enter_barrier False demo_session = Inr demo_entered"
    by (simp add: enter_barrier_def acquire_generation_shared_def record_next_def previous_lock_def send_lock_def
        demo_session_def demo_entered_def)
  then show "guard_step demo_session demo_entered" by (rule guard_enter)
  have "lock_runtime_state ''share'' (Some \<lparr>ks_version = ''v1'', ks_verifier = ''w'', ks_generation = 1, ks_ready = True\<rparr>)
      1 demo_entered = Inr (Some serving_key, serving_row_locked)"
    by (simp add: lock_runtime_state_def record_next_def previous_lock_def send_lock_def serving_key_def
        demo_session_def demo_entered_def serving_row_locked_def Let_def)
  then show "guard_step demo_entered serving_row_locked" by (rule guard_runtime)
qed

lemma serving_locked_reached: "reach (serving_initial serving_env) (flushed_step serving_env) (snd serving_locked)"
proof -
  have "reach (serving_initial serving_env) (flushed_step serving_env) serving_start"
    by (rule reach_init) (simp add: serving_initial_def serving_start_def store_current_def projected_rows_def
        document_changes_ok_def)
  moreover have "flushed_step serving_env serving_start (begin_root 7 serving_start)"
    by (rule flushedI [OF sv_begin]) (simp_all add: serving_start_def live_addresses_def)
  ultimately have r: "reach (serving_initial serving_env) (flushed_step serving_env) (begin_root 7 serving_start)"
    by (rule reach_step)
  have g: "se_guard (begin_root 7 serving_start) = demo_session" by (simp add: begin_root_def serving_start_def)
  have "flushed_step serving_env (begin_root 7 serving_start) ((begin_root 7 serving_start)\<lparr>se_guard := demo_entered\<rparr>)"
    by (rule flushedI [OF sv_guard]) (simp_all add: g serving_guard_steps begin_root_def serving_start_def)
  from reach_step [OF r this] have
    r: "reach (serving_initial serving_env) (flushed_step serving_env) ((begin_root 7 serving_start)\<lparr>se_guard := demo_entered\<rparr>)" .
  have "flushed_step serving_env ((begin_root 7 serving_start)\<lparr>se_guard := demo_entered\<rparr>)
      ((begin_root 7 serving_start)\<lparr>se_guard := demo_entered, se_guard := serving_row_locked\<rparr>)"
    by (rule flushedI [OF sv_guard]) (simp_all add: serving_guard_steps begin_root_def serving_start_def)
  from reach_step [OF r this] have
    r: "reach (serving_initial serving_env) (flushed_step serving_env) serving_guarded"
    by (simp add: serving_guarded_def)
  have "flushed_step serving_env serving_guarded (snd serving_locked)"
    by (rule flushedI [OF sv_lock [of _ 2 _ "Some serving_key" True "fst serving_locked"]])
      (simp_all add: serving_guarded_def begin_root_def serving_start_def serving_locked_def)
  from reach_step [OF r this] show ?thesis .
qed

lemma serving_values:
  "\<not> se_failed (snd serving_locked)" "se_frames (snd serving_locked) = [\<lparr>tx_id = 7, tx_nested = False\<rparr>]"
  "Option.is_none (se_armed (snd serving_locked))" "se_new (snd serving_locked) = 0"
  "returns (fst (arm_refresh serving_context (snd serving_locked)))"
  "\<not> Option.is_none (perform_events serving_env serving_events serving_armed)"
  "Option.is_none (se_dirty (snd serving_locked))"
  by code_simp+

lemma serving_values_changed:
  "se_frames serving_changed = [\<lparr>tx_id = 7, tx_nested = False\<rparr>]" "Option.is_none (se_dirty serving_changed)"
  "returns (fst (commit_transaction serving_env serving_changed))"
  "sv_corpus (se_store serving_changed) = Some (new_generation_row serving_env)"
  "foldl (\<lambda>ms e. flags_after e ms) [False] serving_events = [True]"
  "corpus_snapshot (se_store serving_changed) \<noteq> corpus_snapshot (se_store (snd serving_locked))"
  by code_simp+

lemma serving_values_done:
  "se_frames serving_done = []" "se_contexts serving_done = [serving_context]"
  "map lx_document_id (current_projections (ge_lexical serving_env) (se_store serving_done)) = [''todo:1'']"
  by code_simp+

lemma unit_returned: "returns (fst x) \<Longrightarrow> x = (Inr (), snd x)"
  by (cases x; cases "fst x") auto

lemma serving_run:
  "arm_refresh serving_context (snd serving_locked) = (Inr (), serving_armed)"
  "perform_events serving_env serving_events serving_armed = Some serving_changed"
  "commit_transaction serving_env serving_changed = (Inr (), serving_done)"
  "se_armed (snd serving_locked) = None" "se_dirty serving_changed = None"
proof -
  show "arm_refresh serving_context (snd serving_locked) = (Inr (), serving_armed)"
    unfolding serving_armed_def by (rule unit_returned [OF serving_values(5)])
  show "perform_events serving_env serving_events serving_armed = Some serving_changed"
    using serving_values(6) unfolding serving_changed_def Option.is_none_def by auto
  show "commit_transaction serving_env serving_changed = (Inr (), serving_done)"
    unfolding serving_done_def by (rule unit_returned [OF serving_values_changed(3)])
  show "se_armed (snd serving_locked) = None" "se_dirty serving_changed = None"
    using serving_values(3) serving_values_changed(2) unfolding Option.is_none_def .
qed

theorem commit_counts_surviving_mutations_witness:
  "\<exists>row. sv_corpus (se_store serving_done) = Some row \<and> sr_vector row = 1 \<and> sr_corpus row = 1"
  using commit_counts_surviving_mutations [OF flushed_reach [OF serving_locked_reached] serving_values(1,2) serving_run(4) serving_values(4)
      serving_run(1,2) serving_values_changed(1) serving_run(3) serving_values_changed(4)]
    serving_values_changed(5,6)
  by (simp add: new_generation_row_def)

lemma arm_refresh_armed:
  assumes "arm_refresh c s = (Inr u, t)" and "se_armed s = None"
  shows "se_failed t = se_failed s \<and> se_armed t \<noteq> None"
  using assms by (auto simp: arm_refresh_def split: sum.splits)

lemma serving_done_reached: "reach (serving_initial serving_env) (flushed_step serving_env) serving_done"
proof -
  have "serving_step serving_env (snd serving_locked) serving_armed"
    by (rule sv_arm [OF serving_values(1) serving_run(1)])
  moreover have "se_dirty (snd serving_locked) = None" using serving_values(7) unfolding Option.is_none_def .
  ultimately have "flushed_step serving_env (snd serving_locked) serving_armed" by (rule flushedI)
  with serving_locked_reached have a: "reach (serving_initial serving_env) (flushed_step serving_env) serving_armed"
    by (rule reach_step)
  have "guarded serving_env serving_armed"
    using serving.inv_reach [OF flushed_reach [OF a]] serving_values(1) arm_refresh_armed [OF serving_run(1,4)]
    by (simp add: guarded_def)
  from perform_events_reach [OF a this serving_run(2)] have
    r: "reach (serving_initial serving_env) (flushed_step serving_env) serving_changed"
    and g: "\<not> se_failed serving_changed"
    using perform_events_guarded [OF \<open>guarded serving_env serving_armed\<close> serving_run(2)] by (auto simp: guarded_def)
  have "serving_step serving_env serving_changed serving_done"
    by (rule sv_commit [OF g _ serving_run(3)]) (use serving_values_changed(1) in simp)
  from reach_step [OF r flushedI [OF this serving_run(5)]] show ?thesis .
qed

theorem committed_corpus_is_served_witness:
  "\<exists>c. sv_corpus (se_store serving_done) = Some c
    \<and> set (current_projections (ge_lexical serving_env) (se_store serving_done))
       = projected_rows (ge_lexical serving_env) (sr_corpus c) (se_store serving_done)
    \<and> map lx_document_id (current_projections (ge_lexical serving_env) (se_store serving_done)) = [''todo:1'']"
proof -
  have "\<not> Option.is_none (sv_corpus (se_store serving_done))" by code_simp
  then obtain c where "sv_corpus (se_store serving_done) = Some c"
    unfolding Option.is_none_def by auto
  with committed_corpus_is_served [OF serving_done_reached serving_values_done(1) this] serving_values_done(3)
  show ?thesis by auto
qed

theorem ended_context_is_refused_witness:
  "\<not> returns (validate_context (begin_root 10 serving_done) serving_context)"
proof -
  have "serving_step serving_env serving_done (begin_root 10 serving_done)"
    by (rule sv_begin [OF serving_values_done(1)])
      (simp add: live_addresses_def serving_values_done serving_context_def)
  then have "(serving_step serving_env)\<^sup>*\<^sup>* serving_done (begin_root 10 serving_done)" by (rule r_into_rtranclp)
  then show ?thesis
    using ended_context_is_refused [of serving_env serving_done "begin_root 10 serving_done" serving_context]
    by (simp add: serving_values_done root_transaction_def)
qed

end
