(* ===== verification/Spec2Isabelle.thy ===== *)
theory Spec2Isabelle
  imports Evidence_Retrieval Advisory_Locks Provider_Usage Cost_Policy Safety_Witnesses Ledger_Witnesses
    Answer_Witnesses Review_Promotion Auto_Review_Witnesses Trusted_Projection_Witnesses Serving_Witnesses
begin

text \<open>
  ParaWorks is a company-memory service: connectors ingest messages and documents, agents extract claims from
  them, reviewers (or a bounded automatic review) approve the claims into knowledge tables, and a retrieval
  graph answers questions over that knowledge. This development models the parts of the Python backend
  (\<open>src/backend/app\<close>) in which a mistake costs money or trust: the paid model calls of a retrieval run and
  of an automatic review, the checks of what a model returned, and the promotion of reviewed knowledge.

  \<^bold>\<open>How the parts interact.\<close> A retrieval run is admitted by the cost ledger with one budget for its query
  embedding and one for its answer. Both budgets are prepared by the cost policy from registered prices.
  Before a call is sent the ledger binds it to the provider-safety latch, a signed file mirrored by
  database tables, under locks taken in one audited order. The embedding serves a retriever, whose
  candidates become at most eight numbered slots; the answer model receives the slots and the question as
  exact JSON, its reply is parsed from untrusted provider data and checked against the slots. The outcome is
  charged to the run, and an overrun blocks the provider family in the latch. The automatic review follows
  the same pattern for extracted claims: eligibility against the database, bounded batches, one paid
  call per batch under a validation ledger, and a decision per candidate that is either an approval
  justified by cited evidence or a hand-over to a human. Approved items are promoted into the knowledge tables.

  \<^bold>\<open>Conventions.\<close> An exception class is a constructor of \<open>error\<close> in \<open>Prelude\<close> and a function that may raise
  gives \<open>error + 'a\<close> (\<open>result\<close>). A \<open>str\<close> is the list of its UTF-8 bytes, a \<open>Decimal\<close> amount with six
  places its number of micro-USD, a \<open>Literal\<close> or an enum a \<open>datatype\<close>, a frozen dataclass a \<open>record\<close> whose
  \<open>make_\<close> function is its \<open>__post_init__\<close>. State is passed explicitly. An operation that runs in one
  transaction is one step of the state; what a commit, a durable write, the clock, the nonce source or a
  provider does is an argument of the operation, so a theorem holds for every such behaviour. HMAC-SHA-256,
  SHA-256 and Unicode normalisation are library functions and parameters (\<open>primitives\<close>).

  \<^bold>\<open>The theories.\<close>
  \<^item> \<open>Prelude\<close>: errors, results, Python's string operations, and two locales: \<open>invariant_system\<close> (what
    every step keeps holds of every reachable state) and \<open>ascending_system\<close> (what every step ascends, a run
    ascends). They are interpreted by the lock coordinator (\<open>co\<close>), the latch (\<open>latch\<close>, \<open>generations\<close>), the
    tables of the ledger (\<open>tables\<close>), its memory (\<open>spending\<close>, \<open>grants\<close>), the validation calls (\<open>vl\<close>), the fingerprint
    projection (\<open>projection\<close>), the keyed lock order (\<open>guard\<close>) and the sessions that serve the corpus (\<open>serving\<close> and,
    for sessions that flush before they commit, \<open>flushed\<close>).
  \<^item> \<open>Identity\<close> (\<open>fingerprints.py\<close>, \<open>rag_safety_identity.py\<close>): JSON, the canonical encoder and every keyed
    identity; a payload and its identity determine each other up to the digest. \<open>Exact_Json\<close> is the
    reader \<open>_decode_exact_json\<close> of \<open>rag_cost_policy.py\<close>, and \<open>Json_Round_Trip\<close> shows that it reads back
    what the encoder writes.
  \<^item> \<open>Money\<close> (the \<open>Decimal\<close> predicates of \<open>retrieval.py\<close> and \<open>rag_cost_policy.py\<close>), \<open>Runtime_Contracts\<close>
    (\<open>rag_runtime_contracts.py\<close>), \<open>Security_Scope\<close> (\<open>rag_v2_identity.py\<close>), \<open>Retrieval\<close> (the prepared values
    of \<open>retrieval.py\<close>).
  \<^item> \<open>Advisory_Locks\<close> (\<open>rag_advisory_locks.py\<close>): coordinators, whose state records the stages acquired so far, never
    wait for each other in a cycle, and an advisory key stands for one identity.
  \<^item> \<open>Evidence_Retrieval\<close> (\<open>retrieval.py\<close>, \<open>keyword_retriever.py\<close>, \<open>pgvector_retriever.py\<close>): what a retriever
    returns is permitted, in scope, current and bounded, and slot assignment is a best-first selection.
  \<^item> \<open>Provider_Usage\<close> (\<open>provider_usage.py\<close>): both parsers of token counts over a heap of provider objects that
    may be shared, cyclic or change between two reads; what they accept is exactly stated in the object.
  \<^item> \<open>Cost_Policy\<close> (\<open>rag_cost_policy.py\<close>): budgets, charges, ceilings and signatures. The locale
    \<open>price_contract\<close> derives the bounds on charges from the laws of rounding up and is interpreted by
    \<open>rounded_cost\<close> at every price.
  \<^item> \<open>Provider_Safety\<close>, \<open>Safety_Transitions\<close>, \<open>Safety_Facts\<close>, \<open>Safety_Witnesses\<close> (\<open>rag_provider_safety.py\<close>):
    the latch, its transitions, and that a blocked family stays closed until a reviewed, one-use command
    opens it, whichever writes fail in between.
  \<^item> \<open>Ledger_State\<close>, \<open>Cost_Ledger\<close>, \<open>Ledger_Closure\<close> (\<open>rag_cost_ledger.py\<close> with the rows and CHECK constraints of
    \<open>models/rag_runtime.py\<close> and \<open>models/agent_runs.py\<close>): every operation that changes a run.
    \<open>Ledger_Facts\<close> and \<open>Ledger_Lifecycle\<close> give the abstract machine \<open>lifecycle\<close> (a phase and two dispatch
    states), show that every stored run refines it and keeps its accounts; \<open>Ledger_Budget\<close> bounds what a
    process spends; \<open>Ledger_Identities\<close> shows when identities can be computed, so that an admitted run
    can be closed (\<open>Ascii_Signing\<close> has what both use of texts that every signer accepts);
    \<open>Ledger_Witnesses\<close> computes a run from admission to payment.
  \<^item> \<open>Answer_Output\<close>, \<open>Answer_Model\<close>, \<open>Answer_Witnesses\<close> (\<open>v2_answer_schema.py\<close>, \<open>v2_answer.py\<close>): the prompt,
    its budget, the single call, and that an accepted answer cites the slots it was given.
  \<^item> \<open>Review_Promotion\<close> (\<open>knowledge/promotion.py\<close>, with the columns of \<open>models/knowledge.py\<close>): previews, the
    approval check, the promotion, and what the columns refuse; how the driver of the database takes a value that is
    no string is the parameter \<open>bind\<close>.
  \<^item> \<open>Auto_Review_Policy\<close>, \<open>Auto_Review_Validator\<close>, \<open>Trusted_Claims\<close>, \<open>Auto_Review_Eligibility\<close>,
    \<open>Auto_Review_Orchestrator\<close> (the \<open>auto_review_\<close> modules of \<open>agent_runtime\<close>, \<open>schemas/auto_review.py\<close>,
    \<open>knowledge/claim_fingerprints.py\<close>, \<open>canonical_sources.py\<close>) and \<open>Validation_Ledger\<close>
    (\<open>ValidationCallLedger\<close> of \<open>auto_review_validation_store.py\<close>). \<open>Validation_Facts\<close> proves the invariant
    \<open>ledger_ok\<close> of the calls; \<open>Auto_Review_Facts\<close> has the locale \<open>validation_store\<close>, the contract the
    orchestrator relies on, interpreted by the validation ledger (\<open>call_ledger\<close>); \<open>Auto_Review_Properties\<close>
    and \<open>Auto_Review_Witnesses\<close> state the properties and compute one review from candidate to approval.
  \<^item> \<open>Trusted_Projection\<close> (\<open>knowledge/trusted_fingerprint_projection.py\<close>, \<open>admin/auto_review_keys.py\<close>, and the writes
    of \<open>review/auto_review_source_reconciliation.py\<close> and \<open>review/auto_review_revoke.py\<close> to the same table): the table of
    keyed fingerprints the eligibility service looks collisions up in, its two summaries, the projection of an
    approval, rebuild, bootstrap, key rotation, narrowing and revocation; \<open>projection_step\<close> is one transaction. In
    \<open>Trusted_Projection_Facts\<close> a summary is a count and a sum modulo \<open>2 ^ 256\<close>, kept by every transaction
    (\<open>projection_ok\<close>, interpreted as \<open>projection\<close>); \<open>Trusted_Projection_Properties\<close> composes it with
    the eligibility service, and \<open>Trusted_Projection_Witnesses\<close> computes one life of the table.
  \<^item> \<open>Keyed_Mutation\<close> (\<open>keyed_mutation_guard.py\<close>), \<open>Lexical_Projection\<close> with \<open>Lexical_Facts\<close>
    (\<open>rag/lexical_projection.py\<close>) and \<open>Serving_Generation\<close> (\<open>rag/serving_generation.py\<close>, \<open>models/rag_serving.py\<close>):
    the lock order and the contexts of a keyed mutation, the lexical rows with their reader, and the guard that a
    session arms before it changes the corpus; its five listeners follow vector mutations through savepoints and
    advance the generations at the commit. \<open>serving_step\<close> is one operation of a session, commits of changes that are
    not flushed included; \<open>flushed_step\<close> leaves those out, and only for it is the committed corpus always served
    (\<open>unflushed_change_is_missed\<close> shows why). \<open>Serving_Facts\<close> and
    \<open>Serving_Invariant\<close> show what every step keeps (interpreted as \<open>guard\<close>, \<open>serving\<close> and \<open>flushed\<close>);
    \<open>Serving_Properties\<close> relates the listeners to a stack of flags and shows that a committed corpus is
    served by its projection; \<open>Serving_Witnesses\<close> computes one guarded transaction. The state that
    \<open>assert_refresh_armed\<close> reads is what \<open>Review_Promotion\<close> takes as its argument \<open>armed\<close>.

  \<^bold>\<open>Bounds and fuel.\<close> The bounds are the code's: eight slots, 0.012 USD for a run, two batches of at most
  four candidates and five in all, the depth and node limits of a usage object, 64-bit amounts. Only the JSON
  reader has fuel: it is the length of the text, every call of it consumes a character, and
  \<open>Json_Round_Trip\<close> shows it enough for every text the encoders write. The other loops recurse on
  their data or have a measure, and \<open>function\<close> definitions are proved to terminate.

  \<^bold>\<open>Not modelled.\<close> Code whose content is SQL, network or user interface: the stores that put the modelled
  protocols on tables (\<open>AutoReviewValidationStore\<close>, \<open>release_ledger.py\<close>, \<open>release_review.py\<close>,
  \<open>indexing.py\<close>, \<open>serving_locks.py\<close>, \<open>db/\<close>), the answer cache, whose keys rest on the influence sets of
  \<open>evidence_projection.py\<close>, the LangGraph graphs around the ledger and the review drafts
  (\<open>rag_graph.py\<close>, \<open>rag_application.py\<close>, \<open>rag_finalization.py\<close>, \<open>review_v2_\<close> and \<open>review_v21_\<close> modules), the
  release-bound provider incident, the HTTP routes, the connectors, the assistant, the settings and the
  TypeScript frontend. Parameters, because they are libraries or regular expressions over Unicode classes:
  the tokenizer, LangChain's template, the schema Pydantic generates, the credential and text scans,
  \<open>str.lower\<close>, and of SQLAlchemy the order in which a session fires its documented events. Of the
  ledger, the answer half of \<open>revalidate_c5_before_send\<close>, the assistant finalizer and the assembly
  seal are left out: they read the bindings of the graph; the finalizer (\<open>rag_finalization.py\<close>) also rewrites the
  metadata of a run that is closed, so that what is proved of a closed run is that no operation of the ledger
  changes it. Of the locks, the acquire statements. Of the narrowing and the revocation, the approval links, the
  vector store and the audit records around the writes to the projection; of \<open>serving_locks.py\<close>, only the check
  of the configured key, on which the narrowing relies.
  Operations of one process that the code serialises by a lock are single steps; the interleavings
  considered are those of operations, of processes that share the tables and of processes that die.
\<close>

end
